(* ===== verification/PulsePrelude.thy ===== *)
theory PulsePrelude
  imports Complex_Main "HOL-Library.Multiset" "HOL-Library.List_Lexorder" "HOL-Library.Char_ord"
begin

section \<open>Prelude: the Go values and library calls the components share\<close>

text \<open>
  What every component of the model uses of Go and of its standard library:
  \<^item> time values (\<open>time.Time\<close>, \<open>time.Duration\<close>) as integers counting nanoseconds;
  \<^item> \<open>float64\<close> as \<open>real\<close> (exact arithmetic on finite values);
  \<^item> 64-bit signed wrap-around for the integer arithmetic where the width matters;
  \<^item> Go maps: a partial function where the code only looks keys up, an association list where
    the code iterates over the map (the list's order is the iteration order, which Go leaves open);
  \<^item> \<open>sort.Slice\<close> with a comparator on indices, and \<open>sort.Strings\<close>;
  \<^item> \<open>strings.HasPrefix\<close>, \<open>strings.TrimSpace\<close>, \<open>strings.SplitN\<close> and their kin.
  The generic lemmas about them are collected in \<open>pulse_simps\<close>.
\<close>

named_theorems pulse_simps \<open>unfolding rules of small helper definitions\<close>
named_theorems pulse_split \<open>case splits of the components\<close>

type_synonym time = int
type_synonym duration = int
type_synonym float64 = real
type_synonym ('k, 'v) gomap = "('k \<times> 'v) list"
type_synonym labels = "(string, string) gomap"

abbreviation "Millisecond \<equiv> (1000000::duration)"
abbreviation "Second \<equiv> (1000000000::duration)"
abbreviation "Minute \<equiv> (60000000000::duration)"
abbreviation "Hour \<equiv> (3600000000000::duration)"

subsection \<open>64-bit signed integers\<close>

definition wrap64 :: "int \<Rightarrow> int" where
  "wrap64 x = (x + 2 ^ 63) mod 2 ^ 64 - 2 ^ 63"

definition in_int64 :: "int \<Rightarrow> bool" where
  "in_int64 x \<longleftrightarrow> - (2 ^ 63) \<le> x \<and> x < 2 ^ 63"

lemma wrap64_id [simp]: "in_int64 x \<Longrightarrow> wrap64 x = x"
  by (simp add: wrap64_def in_int64_def)

lemma in_int64_wrap64 [simp]: "in_int64 (wrap64 x)"
  by (simp add: wrap64_def in_int64_def)

lemma wrap64_cong: "wrap64 x mod 2 ^ 64 = x mod 2 ^ 64"
  by (simp add: wrap64_def mod_diff_left_eq)

lemma wrap64_eqI: "x mod 2 ^ 64 = y mod 2 ^ 64 \<Longrightarrow> wrap64 x = wrap64 y"
  unfolding wrap64_def by (metis mod_add_left_eq)

lemma wrap64_add [simp]: "wrap64 (wrap64 x + y) = wrap64 (x + y)"
  by (rule wrap64_eqI) (metis mod_add_left_eq wrap64_cong)

text \<open>Go's integer division truncates towards zero.\<close>

definition go_quot :: "int \<Rightarrow> int \<Rightarrow> int" where
  "go_quot a b = sgn a * sgn b * (\<bar>a\<bar> div \<bar>b\<bar>)"

lemma go_quot_nonneg [simp]: "0 \<le> a \<Longrightarrow> 0 < b \<Longrightarrow> go_quot a b = a div b"
  by (cases "a = 0") (simp_all add: go_quot_def)

text \<open>The remainder has the sign of the dividend.\<close>

definition go_rem :: "int \<Rightarrow> int \<Rightarrow> int" where
  "go_rem a b = a - b * go_quot a b"

lemma go_rem_nonneg [simp]: "0 \<le> a \<Longrightarrow> 0 < b \<Longrightarrow> go_rem a b = a mod b"
  by (simp add: go_rem_def minus_mult_div_eq_mod)

text \<open>\<open>Time.Sub\<close> saturates at the limits of a duration.\<close>

definition time_sub :: "time \<Rightarrow> time \<Rightarrow> duration" where
  "time_sub a b = max (- (2 ^ 63)) (min (2 ^ 63 - 1) (a - b))"

lemma in_int64_time_sub: "in_int64 (time_sub a b)"
  by (simp add: in_int64_def time_sub_def)

lemma wrap64_sum: "wrap64 (fold (\<lambda>x acc. wrap64 (acc + f x)) xs a) = wrap64 (a + sum_list (map f xs))"
proof (induction xs arbitrary: a)
  case (Cons x xs)
  have "wrap64 (wrap64 (a + f x) + sum_list (map f xs)) = wrap64 (a + f x + sum_list (map f xs))"
    by (rule wrap64_add)
  then show ?case using Cons.IH [of "wrap64 (a + f x)"] by (simp add: add.assoc)
qed simp

text \<open>Decimal digits of a number (\<open>%d\<close>).\<close>

fun nat_digits :: "nat \<Rightarrow> string" where
  "nat_digits n = (if n < 10 then [char_of (48 + n)] else nat_digits (n div 10) @ [char_of (48 + n mod 10)])"

declare nat_digits.simps [simp del]

definition Itoa :: "int \<Rightarrow> string" where
  "Itoa n = (if n < 0 then ''-'' @ nat_digits (nat (- n)) else nat_digits (nat n))"

text \<open>\<open>%.2f\<close>: rounded to two decimals.\<close>

definition fmt2 :: "float64 \<Rightarrow> string" where
  "fmt2 x = (let n = nat (round (\<bar>x\<bar> * 100)) in
     (if x < 0 then ''-'' else '''') @ nat_digits (n div 100) @ ''.'' @ nat_digits (n mod 100 div 10) @ nat_digits (n mod 10))"

subsection \<open>Maps that are iterated\<close>

text \<open>\<open>m[k]\<close> of a Go map gives the value type's zero value when the key is absent.\<close>

definition map_get :: "'v \<Rightarrow> ('k, 'v) gomap \<Rightarrow> 'k \<Rightarrow> 'v" where
  "map_get z m k = (case map_of m k of None \<Rightarrow> z | Some v \<Rightarrow> v)"

abbreviation label_get :: "labels \<Rightarrow> string \<Rightarrow> string" where
  "label_get \<equiv> map_get ''''"

text \<open>\<open>m[k] = v\<close>: an existing entry is overwritten in place, a new one goes to the end.\<close>

fun map_put :: "'k \<Rightarrow> 'v \<Rightarrow> ('k, 'v) gomap \<Rightarrow> ('k, 'v) gomap" where
  "map_put k v [] = [(k, v)]"
| "map_put k v ((k', v') # m) = (if k' = k then (k, v) # m else (k', v') # map_put k v m)"

text \<open>\<open>delete(m, k)\<close>\<close>

definition map_del :: "'k \<Rightarrow> ('k, 'v) gomap \<Rightarrow> ('k, 'v) gomap" where
  "map_del k m = filter (\<lambda>(k', v). k' \<noteq> k) m"

abbreviation keys_of :: "('k, 'v) gomap \<Rightarrow> 'k list" where
  "keys_of m \<equiv> map fst m"

abbreviation wf_map :: "('k, 'v) gomap \<Rightarrow> bool" where
  "wf_map m \<equiv> distinct (keys_of m)"

lemma map_of_put [simp]: "map_of (map_put k v m) = (map_of m)(k \<mapsto> v)"
  by (induction k v m rule: map_put.induct) auto

lemma map_put_new: "k \<notin> set (keys_of m) \<Longrightarrow> map_put k v m = m @ [(k, v)]"
  by (induction k v m rule: map_put.induct) auto

lemma keys_put [simp]: "set (keys_of (map_put k v m)) = insert k (set (keys_of m))"
  by (induction k v m rule: map_put.induct) auto

lemma wf_put [simp]: "wf_map m \<Longrightarrow> wf_map (map_put k v m)"
proof (induction k v m rule: map_put.induct)
  case (2 k v k' v' m)
  then show ?case
    using keys_put [of k v m] by auto
qed simp

lemma map_of_del [simp]: "map_of (map_del k m) = (map_of m)(k := None)"
  by (induction m) (auto simp: map_del_def fun_eq_iff)

lemma keys_del: "keys_of (map_del k m) = filter (\<lambda>k'. k' \<noteq> k) (keys_of m)"
  by (induction m) (auto simp: map_del_def)

lemma wf_del [simp]: "wf_map m \<Longrightarrow> wf_map (map_del k m)"
  by (simp only: keys_del distinct_filter)

lemma map_del_absent: "k \<notin> set (keys_of m) \<Longrightarrow> map_del k m = m"
  by (induction m) (auto simp: map_del_def)

lemma map_get_put [simp]: "map_get z (map_put k v m) k' = (if k' = k then v else map_get z m k')"
  by (simp add: map_get_def)

subsection \<open>\<open>sort.Slice\<close>\<close>

text \<open>
  \<open>sort.Slice(s, less)\<close> calls \<open>less(i, j)\<close> on indices of the slice as it is at that moment
  and swaps elements of \<open>s\<close>. On at most 12 elements it is the insertion sort below (for longer
  slices Go documents the same contract, except that the order of equal elements is open).
  The comparator gets the current content of the slice, so that a closure over another slice
  can be modelled as well.
\<close>

definition swap :: "'a list \<Rightarrow> nat \<Rightarrow> nat \<Rightarrow> 'a list" where
  "swap xs i j = xs[i := xs ! j, j := xs ! i]"

fun insertion_step :: "('a list \<Rightarrow> nat \<Rightarrow> nat \<Rightarrow> bool) \<Rightarrow> nat \<Rightarrow> 'a list \<Rightarrow> 'a list" where
  "insertion_step lessf 0 xs = xs"
| "insertion_step lessf (Suc j) xs =
     (if lessf xs (Suc j) j then insertion_step lessf j (swap xs (Suc j) j) else xs)"

definition insertion_sort :: "('a list \<Rightarrow> nat \<Rightarrow> nat \<Rightarrow> bool) \<Rightarrow> 'a list \<Rightarrow> 'a list" where
  "insertion_sort lessf xs = fold (insertion_step lessf) [1..<length xs] xs"

text \<open>The usual case: \<open>less\<close> compares two elements of the sorted slice itself.\<close>

definition sort_slice :: "('a \<Rightarrow> 'a \<Rightarrow> bool) \<Rightarrow> 'a list \<Rightarrow> 'a list" where
  "sort_slice lt xs = insertion_sort (\<lambda>ys i j. lt (ys ! i) (ys ! j)) xs"

lemma length_swap [simp]: "length (swap xs i j) = length xs"
  by (simp add: swap_def)

lemma mset_swap_eq [simp]: "i < length xs \<Longrightarrow> j < length xs \<Longrightarrow> mset (swap xs i j) = mset xs"
  by (simp add: swap_def mset_swap)

lemma length_insertion_step [simp]: "length (insertion_step lessf j xs) = length xs"
  by (induction lessf j xs rule: insertion_step.induct) auto

lemma mset_insertion_step: "j < length xs \<Longrightarrow> mset (insertion_step lessf j xs) = mset xs"
  by (induction lessf j xs rule: insertion_step.induct) auto

lemma mset_fold_insertion_step:
  "(\<forall>i \<in> set is. i < length xs) \<Longrightarrow> mset (fold (insertion_step lessf) is xs) = mset xs"
  by (induction "is" arbitrary: xs) (auto simp: mset_insertion_step)

lemma mset_insertion_sort [simp]: "mset (insertion_sort lessf xs) = mset xs"
  by (simp add: insertion_sort_def mset_fold_insertion_step)

lemma length_insertion_sort [simp]: "length (insertion_sort lessf xs) = length xs"
  by (metis mset_insertion_sort size_mset)

lemma mset_sort_slice [simp]: "mset (sort_slice lt xs) = mset xs"
  by (simp add: sort_slice_def)

lemma set_sort_slice [simp]: "set (sort_slice lt xs) = set xs"
  by (metis mset_sort_slice set_mset_mset)

lemma length_sort_slice [simp]: "length (sort_slice lt xs) = length xs"
  by (simp add: sort_slice_def)

lemma sort_slice_Nil [simp]: "sort_slice lt [] = []"
  by (simp add: sort_slice_def insertion_sort_def)

lemma sort_slice_single [simp]: "sort_slice lt [x] = [x]"
  by (simp add: sort_slice_def insertion_sort_def)

text \<open>The functional reading: insert each element from the right into the sorted prefix.\<close>

fun ins_rev :: "('a \<Rightarrow> 'a \<Rightarrow> bool) \<Rightarrow> 'a \<Rightarrow> 'a list \<Rightarrow> 'a list" where
  "ins_rev lt x [] = [x]"
| "ins_rev lt x (y # ys) = (if lt x y then y # ins_rev lt x ys else x # y # ys)"

definition insr :: "('a \<Rightarrow> 'a \<Rightarrow> bool) \<Rightarrow> 'a list \<Rightarrow> 'a \<Rightarrow> 'a list" where
  "insr lt ys x = rev (ins_rev lt x (rev ys))"

lemma insr_simps [simp]:
  "insr lt [] x = [x]"
  "insr lt (ys @ [y]) x = (if lt x y then insr lt ys x @ [y] else ys @ [y, x])"
  by (simp_all add: insr_def)

lemma insertion_step_insr:
  "insertion_step (\<lambda>ys i j. lt (ys ! i) (ys ! j)) (length pre) (pre @ x # post) = insr lt pre x @ post"
proof (induction pre arbitrary: post rule: rev_induct)
  case (snoc y pre)
  have "swap ((pre @ [y]) @ x # post) (Suc (length pre)) (length pre) = pre @ x # y # post"
    by (simp add: swap_def nth_append list_update_append)
  then show ?case
    using snoc.IH [of "y # post"] by (simp add: nth_append)
qed simp

lemma length_insr [simp]: "length (insr lt ys x) = Suc (length ys)"
  by (induction ys rule: rev_induct) auto

lemma length_foldl_insr [simp]: "length (foldl (insr lt) acc xs) = length acc + length xs"
  by (induction xs arbitrary: acc) auto

lemma fold_insertion_step_insr:
  "k < length xs \<Longrightarrow>
   fold (insertion_step (\<lambda>ys i j. lt (ys ! i) (ys ! j))) [1..<Suc k] xs =
     foldl (insr lt) [] (take (Suc k) xs) @ drop (Suc k) xs"
proof (induction k)
  case 0
  then show ?case by (cases xs) auto
next
  case (Suc k)
  let ?lessf = "\<lambda>ys i j. lt (ys ! i) (ys ! j)"
  let ?p = "foldl (insr lt) [] (take (Suc k) xs)"
  have IH: "fold (insertion_step ?lessf) [1..<Suc k] xs = ?p @ drop (Suc k) xs"
    using Suc by simp
  have d: "drop (Suc k) xs = xs ! Suc k # drop (Suc (Suc k)) xs"
    using Suc.prems by (simp add: Cons_nth_drop_Suc)
  have len: "length ?p = Suc k" using Suc.prems by simp
  have "insertion_step ?lessf (Suc k) (?p @ xs ! Suc k # drop (Suc (Suc k)) xs) =
      insr lt ?p (xs ! Suc k) @ drop (Suc (Suc k)) xs"
    using insertion_step_insr [of lt ?p] len by metis
  then show ?case
    using Suc.prems IH d by (simp add: take_Suc_conv_app_nth)
qed

lemma sort_slice_foldl: "sort_slice lt xs = foldl (insr lt) [] xs"
proof (cases xs)
  case (Cons x xs')
  then show ?thesis
    using fold_insertion_step_insr [of "length xs'" xs lt]
    by (simp add: sort_slice_def insertion_sort_def)
qed simp

lemma set_ins_rev: "set (ins_rev lt x ys) = insert x (set ys)"
  by (induction ys) auto

text \<open>
  The contract of a comparator (Go: \<open>less\<close> must be a strict weak ordering) and what
  \<open>sort.Slice\<close> then promises: the elements are those of the slice, in order.
\<close>

locale slice_order =
  fixes lt :: "'a \<Rightarrow> 'a \<Rightarrow> bool"
  assumes lt_asym: "lt a b \<Longrightarrow> \<not> lt b a"
    and lt_neg_trans: "\<not> lt a b \<Longrightarrow> \<not> lt b c \<Longrightarrow> \<not> lt a c"
begin

definition ordered :: "'a list \<Rightarrow> bool" where
  "ordered xs = sorted_wrt (\<lambda>a b. \<not> lt b a) xs"

lemma ins_rev_ordered:
  "sorted_wrt (\<lambda>a b. \<not> lt a b) ys \<Longrightarrow> sorted_wrt (\<lambda>a b. \<not> lt a b) (ins_rev lt x ys)"
  by (induction ys) (auto simp: set_ins_rev dest: lt_asym lt_neg_trans)

lemma insr_ordered: "ordered ys \<Longrightarrow> ordered (insr lt ys x)"
  using ins_rev_ordered [of "rev ys"]
  by (simp add: ordered_def insr_def sorted_wrt_rev)

lemma foldl_insr_ordered: "ordered acc \<Longrightarrow> ordered (foldl (insr lt) acc xs)"
  by (induction xs arbitrary: acc) (auto intro: insr_ordered)

lemma sort_slice_ordered: "ordered (sort_slice lt xs)"
  using foldl_insr_ordered [of "[]" xs] by (simp add: sort_slice_foldl) (simp add: ordered_def)

lemma sort_slice_sorted: "sorted_wrt (\<lambda>a b. \<not> lt b a) (sort_slice lt xs)"
  using sort_slice_ordered by (simp add: ordered_def)

lemma hd_sort_slice_least:
  assumes "x \<in> set xs"
  shows "\<not> lt x (hd (sort_slice lt xs))"
proof -
  have x: "x \<in> set (sort_slice lt xs)" using assms by simp
  then obtain y ys where e: "sort_slice lt xs = y # ys"
    by (cases "sort_slice lt xs") auto
  show ?thesis
  proof (cases "x = y")
    case True
    then show ?thesis using e lt_asym by auto
  next
    case False
    with x e have "x \<in> set ys" by auto
    then show ?thesis using sort_slice_sorted [of xs] e by auto
  qed
qed

lemma sort_slice_id: "sorted_wrt (\<lambda>a b. \<not> lt b a) xs \<Longrightarrow> sort_slice lt xs = xs"
proof -
  have "sorted_wrt (\<lambda>a b. \<not> lt b a) (acc @ ys) \<Longrightarrow> foldl (insr lt) acc ys = acc @ ys" for acc ys
  proof (induction ys arbitrary: acc)
    case (Cons y ys)
    have "insr lt acc y = acc @ [y]"
      using Cons.prems by (cases acc rule: rev_cases) (auto simp: sorted_wrt_append)
    then show ?case using Cons.IH [of "acc @ [y]"] Cons.prems by simp
  qed simp
  from this [of "[]" xs] show "sorted_wrt (\<lambda>a b. \<not> lt b a) xs \<Longrightarrow> ?thesis"
    by (simp add: sort_slice_foldl)
qed

end

text \<open>Every comparator of the code compares one key of the elements, ascending or descending.\<close>

interpretation asc: slice_order "\<lambda>a b. key a < key b" for key :: "'a \<Rightarrow> 'k::linorder"
  by unfold_locales auto

interpretation desc: slice_order "\<lambda>a b. key a > key b" for key :: "'a \<Rightarrow> 'k::linorder"
  by unfold_locales auto

lemma sort_slice_asc_sorted:
  fixes key :: "'a \<Rightarrow> 'k::linorder"
  shows "sorted (map key (sort_slice (\<lambda>a b. key a < key b) xs))"
  using asc.sort_slice_sorted [of key xs]
  by (simp add: sorted_map linorder_not_less)

lemma sort_slice_desc_sorted:
  fixes key :: "'a \<Rightarrow> 'k::linorder"
  shows "sorted_wrt (\<ge>) (map key (sort_slice (\<lambda>a b. key a > key b) xs))"
  using desc.sort_slice_sorted [of key xs]
  by (simp add: sorted_wrt_map linorder_not_less)

subsection \<open>Strings\<close>

definition HasPrefix :: "string \<Rightarrow> string \<Rightarrow> bool" where
  "HasPrefix s p \<longleftrightarrow> take (length p) s = p"

lemma HasPrefix_append [simp]: "HasPrefix (p @ s) p"
  by (simp add: HasPrefix_def)

lemma HasPrefix_iff: "HasPrefix s p \<longleftrightarrow> (\<exists>r. s = p @ r)"
  by (metis HasPrefix_append HasPrefix_def append_take_drop_id)

text \<open>\<open>strings.SplitN(s, sep, n)\<close> for a one-byte separator: at most \<open>n\<close> parts, the last unsplit.\<close>

fun SplitN :: "nat \<Rightarrow> char \<Rightarrow> string \<Rightarrow> string list" where
  "SplitN 0 sep s = []"
| "SplitN (Suc 0) sep s = [s]"
| "SplitN (Suc (Suc n)) sep s =
     (let pre = takeWhile (\<lambda>c. c \<noteq> sep) s in
      if length pre = length s then [s]
      else pre # SplitN (Suc n) sep (drop (Suc (length pre)) s))"

lemma takeWhile_sep [simp]: "c \<notin> set a \<Longrightarrow> takeWhile (\<lambda>x. x \<noteq> c) (a @ c # b) = a"
  by (induction a) auto

lemma takeWhile_sep_decomp:
  "c \<in> set s \<Longrightarrow> s = takeWhile (\<lambda>x. x \<noteq> c) s @ c # drop (Suc (length (takeWhile (\<lambda>x. x \<noteq> c) s))) s"
  by (induction s) auto

lemma SplitN_sep [simp]:
  "c \<notin> set a \<Longrightarrow> SplitN (Suc (Suc n)) c (a @ c # b) = a # SplitN (Suc n) c b"
  by (simp add: Let_def)

lemma SplitN_no_sep: "c \<notin> set a \<Longrightarrow> SplitN (Suc n) c a = [a]"
proof (cases n)
  case (Suc m)
  assume "c \<notin> set a"
  then have "takeWhile (\<lambda>x. x \<noteq> c) a = a" by (induction a) auto
  then have "length (takeWhile (\<lambda>x. x \<noteq> c) a) = length a" by (rule arg_cong)
  then show ?thesis unfolding Suc SplitN.simps Let_def by (rule if_P)
qed simp

lemma append_sep_inject:
  assumes "a @ c # b = a' @ c # b'" and "c \<notin> set a" and "c \<notin> set a'"
  shows "a = a'" and "b = b'"
  using assms takeWhile_sep [of c a b] takeWhile_sep [of c a' b'] by auto

text \<open>ASCII white space, as \<open>strings.TrimSpace\<close> and \<open>unicode.IsSpace\<close> see it.\<close>

definition is_space :: "char \<Rightarrow> bool" where
  "is_space c \<longleftrightarrow> c = CHR '' '' \<or> c = CHR 0x09 \<or> c = CHR 0x0A \<or> c = CHR 0x0B \<or> c = CHR 0x0C \<or> c = CHR 0x0D"

definition TrimRight :: "(char \<Rightarrow> bool) \<Rightarrow> string \<Rightarrow> string" where
  "TrimRight p s = rev (dropWhile p (rev s))"

definition TrimSpace :: "string \<Rightarrow> string" where
  "TrimSpace s = TrimRight is_space (dropWhile is_space s)"

lemma TrimRight_decomp: "\<exists>t. s = TrimRight p s @ t \<and> (\<forall>c \<in> set t. p c)"
proof (intro exI conjI)
  show "s = TrimRight p s @ rev (takeWhile p (rev s))"
    by (simp add: TrimRight_def flip: rev_append)
  show "\<forall>c \<in> set (rev (takeWhile p (rev s))). p c"
    by (auto dest: set_takeWhileD)
qed

lemma TrimSpace_decomp:
  "\<exists>l r. s = l @ TrimSpace s @ r \<and> (\<forall>c \<in> set l \<union> set r. is_space c)"
proof -
  obtain t where t: "dropWhile is_space s = TrimSpace s @ t" "\<forall>c \<in> set t. is_space c"
    using TrimRight_decomp [of "dropWhile is_space s" is_space] by (auto simp: TrimSpace_def)
  have "s = takeWhile is_space s @ TrimSpace s @ t"
    using t(1) by (metis takeWhile_dropWhile_id)
  then show ?thesis using t(2) by (blast dest: set_takeWhileD)
qed

subsection \<open>More of \<open>strings\<close>, \<open>strconv\<close> and \<open>net\<close>\<close>

definition to_lower :: "char \<Rightarrow> char" where
  "to_lower c = (if (65::nat) \<le> of_char c \<and> of_char c \<le> (90::nat) then char_of (of_char c + (32::nat)) else c)"

text \<open>\<open>strings.EqualFold\<close> on ASCII strings.\<close>

definition EqualFold :: "string \<Rightarrow> string \<Rightarrow> bool" where
  "EqualFold a b \<longleftrightarrow> map to_lower a = map to_lower b"

text \<open>\<open>strings.Index(s, c)\<close> for one byte, and the last position; \<open>None\<close> stands for \<open>-1\<close>.\<close>

fun index_byte :: "char \<Rightarrow> string \<Rightarrow> nat option" where
  "index_byte c [] = None"
| "index_byte c (x # xs) = (if x = c then Some 0 else map_option Suc (index_byte c xs))"

definition last_index_byte :: "char \<Rightarrow> string \<Rightarrow> nat option" where
  "last_index_byte c s = map_option (\<lambda>i. length s - 1 - i) (index_byte c (rev s))"

text \<open>\<open>strconv.ParseInt(s, 10, 64)\<close>: an optional sign, at least one digit, in range.\<close>

definition digit_val :: "char \<Rightarrow> int option" where
  "digit_val c = (if (48::int) \<le> of_char c \<and> of_char c \<le> (57::int) then Some (of_char c - 48) else None)"

fun parse_digits :: "string \<Rightarrow> int \<Rightarrow> int option" where
  "parse_digits [] acc = Some acc"
| "parse_digits (c # cs) acc = (case digit_val c of None \<Rightarrow> None | Some d \<Rightarrow> parse_digits cs (acc * 10 + d))"

definition parse_unsigned :: "string \<Rightarrow> int option" where
  "parse_unsigned s = (if s = [] then None else parse_digits s 0)"

definition ParseInt :: "string \<Rightarrow> int option" where
  "ParseInt s =
     (let (neg, digits) = (case s of [] \<Rightarrow> (False, s)
            | c # cs \<Rightarrow> if c = CHR ''-'' then (True, cs) else if c = CHR ''+'' then (False, cs) else (False, s))
      in case parse_unsigned digits of None \<Rightarrow> None
         | Some n \<Rightarrow> (let v = (if neg then - n else n) in if in_int64 v then Some v else None))"

lemma ParseInt_range: "ParseInt s = Some v \<Longrightarrow> in_int64 v"
  by (auto simp: ParseInt_def Let_def split: prod.splits option.splits if_splits)

definition is_digit :: "char \<Rightarrow> bool" where
  "is_digit c \<longleftrightarrow> digit_val c \<noteq> None"

definition digits_value :: "string \<Rightarrow> int" where
  "digits_value ds = (case parse_digits ds 0 of None \<Rightarrow> 0 | Some n \<Rightarrow> n)"

definition split_sign :: "string \<Rightarrow> bool \<times> string" where
  "split_sign s = (case s of [] \<Rightarrow> (False, s)
     | c # cs \<Rightarrow> if c = CHR ''-'' then (True, cs) else if c = CHR ''+'' then (False, cs) else (False, s))"

text \<open>The exponent after the mantissa: \<open>None\<close> is a syntax error.\<close>

definition parse_exponent :: "string \<Rightarrow> int option" where
  "parse_exponent s = (case s of [] \<Rightarrow> Some 0
     | c # cs \<Rightarrow>
         if c = CHR ''e'' \<or> c = CHR ''E'' then
           (let (neg, ds) = split_sign cs in
            if ds = [] \<or> \<not> list_all is_digit ds then None else Some (if neg then - digits_value ds else digits_value ds))
         else None)"

text \<open>\<open>strconv.ParseFloat\<close> on decimal notation; \<open>None\<close> is a syntax error. Hexadecimal notation, infinities
  and NaN are outside the model of floats.\<close>

definition parse_float :: "string \<Rightarrow> float64 option" where
  "parse_float s =
     (let (neg, r) = split_sign s;
          whole = takeWhile is_digit r; r1 = dropWhile is_digit r;
          (frac, r2) = (case r1 of [] \<Rightarrow> ([], []) | c # cs \<Rightarrow> if c = CHR ''.'' then (takeWhile is_digit cs, dropWhile is_digit cs) else ([], r1))
      in if whole @ frac = [] then None
         else case parse_exponent r2 of None \<Rightarrow> None
         | Some e \<Rightarrow>
             let m = of_int (digits_value (whole @ frac)) / 10 ^ length frac * (if e \<ge> 0 then 10 ^ nat e else 1 / 10 ^ nat (- e))
             in Some (if neg then - m else m))"

text \<open>The value returned beside the error, where the caller ignores the error.\<close>

definition ParseFloat :: "string \<Rightarrow> float64" where
  "ParseFloat s = (case parse_float s of None \<Rightarrow> 0 | Some x \<Rightarrow> x)"

text \<open>The host of \<open>net.SplitHostPort\<close>; \<open>None\<close> when it reports an error.\<close>

definition SplitHostPort :: "string \<Rightarrow> string option" where
  "SplitHostPort s =
     (case last_index_byte (CHR '':'') s of None \<Rightarrow> None
      | Some i \<Rightarrow>
          if s ! 0 = CHR ''['' then
            (case index_byte (CHR '']'') s of None \<Rightarrow> None
             | Some e \<Rightarrow>
                 if e + 1 = length s \<or> e + 1 \<noteq> i then None
                 else if CHR ''['' \<in> set (drop 1 s) \<or> CHR '']'' \<in> set (drop (e + 1) s) then None
                 else Some (drop 1 (take e s)))
          else if CHR '':'' \<in> set (take i s) then None
          else if CHR ''['' \<in> set s \<or> CHR '']'' \<in> set s then None
          else Some (take i s))"

end
