(* ===== verification/MetricModel.thy ===== *)
theory MetricModel
  imports PulsePrelude
begin

section \<open>Metric points and the metric store interface (\<open>internal/collector\<close>)\<close>

text \<open>
  The data every component exchanges: \<open>MetricPoint\<close> and \<open>MetricQuery\<close> of
  \<open>internal/collector/collector.go\<close>, \<open>Base.point\<close> of \<open>base.go\<close>, and the contract of
  the \<open>MetricStore\<close> interface as the locale \<open>metric_store\<close>.
\<close>

record MetricPoint =
  mp_InstanceID :: string
  mp_Metric :: string
  mp_Value :: float64
  mp_Labels :: labels
  mp_Timestamp :: time

record MetricQuery =
  mq_InstanceID :: string
  mq_Metric :: string
  mq_Labels :: labels
  mq_Start :: time
  mq_End :: time
  mq_Limit :: int

text \<open>The zero \<open>time.Time\<close> is January 1, year 1; times count nanoseconds from the Unix epoch.\<close>

definition zero_time :: time where
  "zero_time = - 62135596800000000000"

definition IsZero :: "time \<Rightarrow> bool" where
  "IsZero t \<longleftrightarrow> t = zero_time"

text \<open>The query that leaves every filter at its zero value.\<close>

definition empty_query :: MetricQuery where
  "empty_query = \<lparr>mq_InstanceID = '''', mq_Metric = '''', mq_Labels = [],
     mq_Start = zero_time, mq_End = zero_time, mq_Limit = 0\<rparr>"

record Base =
  b_instanceID :: string
  b_interval :: duration

definition metricPrefix :: string where
  "metricPrefix = ''pg''"

definition point :: "Base \<Rightarrow> time \<Rightarrow> string \<Rightarrow> float64 \<Rightarrow> labels \<Rightarrow> MetricPoint" where
  "point b now metric value ls =
     \<lparr>mp_InstanceID = b_instanceID b, mp_Metric = metricPrefix @ ''.'' @ metric,
      mp_Value = value, mp_Labels = ls, mp_Timestamp = now\<rparr>"

text \<open>All labels the query asks for are present with that value (an absent label reads as empty).\<close>

definition matchLabels :: "labels \<Rightarrow> labels \<Rightarrow> bool" where
  "matchLabels pointLabels queryLabels \<longleftrightarrow>
     list_all (\<lambda>(k, v). label_get pointLabels k = v) queryLabels"

definition in_range :: "MetricQuery \<Rightarrow> MetricPoint \<Rightarrow> bool" where
  "in_range q p \<longleftrightarrow>
     \<not> (\<not> IsZero (mq_Start q) \<and> mp_Timestamp p < mq_Start q) \<and>
     \<not> (\<not> IsZero (mq_End q) \<and> mp_Timestamp p > mq_End q) \<and>
     \<not> (mq_Labels q \<noteq> [] \<and> \<not> matchLabels (mp_Labels p) (mq_Labels q))"

text \<open>What a query means for a point, independently of how the store keeps it.\<close>

definition matches :: "MetricQuery \<Rightarrow> MetricPoint \<Rightarrow> bool" where
  "matches q p \<longleftrightarrow>
     (mq_InstanceID q = '''' \<or> mp_InstanceID p = mq_InstanceID q) \<and>
     (mq_Metric q = '''' \<or> mp_Metric p = mq_Metric q) \<and> in_range q p"

text \<open>The last \<open>n\<close> elements, as \<open>results[len(results)-n:]\<close>, when a limit is set.\<close>

definition limit_last :: "int \<Rightarrow> 'a list \<Rightarrow> 'a list" where
  "limit_last n xs = (if n > 0 \<and> int (length xs) > n then drop (length xs - nat n) xs else xs)"

lemma limit_last_none [simp]: "limit_last 0 xs = xs"
  by (simp add: limit_last_def)

lemma length_limit_last: "0 < n \<Longrightarrow> int (length (limit_last n xs)) \<le> n"
  by (auto simp: limit_last_def)

lemma sorted_limit_last: "sorted (map f xs) \<Longrightarrow> sorted (map f (limit_last n xs))"
  by (auto simp: limit_last_def drop_map [symmetric] sorted_wrt_drop)

lemma set_limit_last: "set (limit_last n xs) \<subseteq> set xs"
  by (auto simp: limit_last_def dest: in_set_dropD)

text \<open>The points a limit keeps are the latest ones.\<close>

lemma limit_last_latest:
  assumes "sorted (map f xs)" and "x \<in> set (take (length xs - length (limit_last n xs)) xs)"
    and "y \<in> set (limit_last n xs)"
  shows "f x \<le> f y"
proof -
  define k where "k = length xs - length (limit_last n xs)"
  have "limit_last n xs = drop k xs" by (auto simp: k_def limit_last_def)
  moreover have "sorted (map f (take k xs) @ map f (drop k xs))"
    using assms(1) by (metis append_take_drop_id map_append)
  ultimately show ?thesis using assms(2,3) by (auto simp: sorted_append k_def)
qed

text \<open>
  The interface \<open>collector.MetricStore\<close>: \<open>contents\<close> is the abstract value of a store state,
  \<open>ok\<close> its representation invariant, \<open>okp\<close> and \<open>okq\<close> what the store asks of the points
  and queries it is given.
\<close>

locale metric_store =
  fixes ok :: "'s \<Rightarrow> bool"
    and okp :: "MetricPoint \<Rightarrow> bool"
    and okq :: "MetricQuery \<Rightarrow> bool"
    and contents :: "'s \<Rightarrow> MetricPoint multiset"
    and put :: "'s \<Rightarrow> MetricPoint list \<Rightarrow> 's"
    and query :: "'s \<Rightarrow> MetricQuery \<Rightarrow> MetricPoint list"
  assumes ok_put: "ok s \<Longrightarrow> list_all okp ps \<Longrightarrow> ok (put s ps)"
    and contents_put: "ok s \<Longrightarrow> contents (put s ps) = contents s + mset ps"
    and query_unlimited: "ok s \<Longrightarrow> okq q \<Longrightarrow> mq_Limit q \<le> 0 \<Longrightarrow>
          mset (query s q) = filter_mset (matches q) (contents s)"
    and query_limited: "query s q = limit_last (mq_Limit q) (query s (q\<lparr>mq_Limit := 0\<rparr>))"
    and query_sorted: "sorted (map mp_Timestamp (query s q))"
    and okq_limit: "okq q \<Longrightarrow> okq (q\<lparr>mq_Limit := n\<rparr>)"
begin

lemma query_sound:
  assumes "ok s" "okq q" "p \<in> set (query s q)"
  shows "p \<in># contents s \<and> matches q p"
proof -
  let ?q = "q\<lparr>mq_Limit := 0\<rparr>"
  have "p \<in> set (query s ?q)"
    using assms(3) query_limited [of s q] set_limit_last by (metis subsetD)
  then have "p \<in># filter_mset (matches ?q) (contents s)"
    using query_unlimited [of s ?q] assms(1) okq_limit [OF assms(2)]
    by (metis MetricQuery.select_convs(6) MetricQuery.surjective MetricQuery.update_convs(6) order_refl set_mset_mset)
  then show ?thesis by (simp add: matches_def in_range_def)
qed

lemma query_complete:
  assumes "ok s" "okq q" "mq_Limit q \<le> 0" "p \<in># contents s" "matches q p"
  shows "p \<in> set (query s q)"
proof -
  have "p \<in># mset (query s q)" using assms by (simp add: query_unlimited)
  then show ?thesis by simp
qed

lemma query_after_write:
  assumes "ok s" "list_all okp ps" "okq q" "mq_Limit q \<le> 0"
  shows "mset (query (put s ps) q) = mset (query s q) + filter_mset (matches q) (mset ps)"
  using assms by (simp add: query_unlimited ok_put contents_put)

lemma query_write_irrelevant:
  assumes "ok s" "list_all okp ps" "okq q" "mq_Limit q \<le> 0" "\<forall>p \<in> set ps. \<not> matches q p"
  shows "mset (query (put s ps) q) = mset (query s q)"
proof -
  have "filter_mset (matches q) (mset ps) = {#}"
    using assms(5) by (auto simp: filter_mset_eq_conv)
  then show ?thesis using query_after_write [OF assms(1-4)] by simp
qed

lemma query_limit_bound: "0 < mq_Limit q \<Longrightarrow> int (length (query s q)) \<le> mq_Limit q"
  by (metis length_limit_last query_limited)

end

end
