(* ===== verification/MemoryStore.thy ===== *)
theory MemoryStore
  imports MetricModel
begin

section \<open>The in-memory metric store (\<open>internal/storage/memory.go\<close>)\<close>

text \<open>
  \<open>MemoryStore\<close> keeps one slice of points per (instance, metric, labels) under a string key.
  The Go map is iterated by \<open>Query\<close>, \<open>GetMetricStats\<close> and \<open>expire\<close>, so \<open>data\<close> is an
  association list whose order is the (unspecified) iteration order. The \<open>done\<close> channel is the
  flag \<open>ms_closed\<close>; the mutex makes each operation one step of the model. \<open>time.Now()\<close> is
  an argument of \<open>expire\<close>.
\<close>

record MemoryStore =
  ms_retention :: duration
  ms_data :: "(string, MetricPoint list) gomap"
  ms_closed :: bool

definition NewMemoryStore :: "duration \<Rightarrow> MemoryStore" where
  "NewMemoryStore retention = \<lparr>ms_retention = retention, ms_data = [], ms_closed = False\<rparr>"

abbreviation NUL :: char where
  "NUL \<equiv> CHR 0x00"

text \<open>\<open>k=v\<close> pairs of the sorted keys, separated by commas (the loop of the string builder).\<close>

fun join_labels :: "labels \<Rightarrow> string list \<Rightarrow> string" where
  "join_labels ls [] = ''''"
| "join_labels ls [k] = k @ ''='' @ label_get ls k"
| "join_labels ls (k # ks) = k @ ''='' @ label_get ls k @ '','' @ join_labels ls ks"

definition storageKey :: "string \<Rightarrow> string \<Rightarrow> labels \<Rightarrow> string" where
  "storageKey instanceID metric ls =
     (if ls = [] then instanceID @ [NUL] @ metric @ [NUL]
      else instanceID @ [NUL] @ metric @ [NUL] @ join_labels ls (sort (keys_of ls)))"

definition point_key :: "MetricPoint \<Rightarrow> string" where
  "point_key p = storageKey (mp_InstanceID p) (mp_Metric p) (mp_Labels p)"

definition write_point :: "MetricPoint \<Rightarrow> (string, MetricPoint list) gomap \<Rightarrow> (string, MetricPoint list) gomap" where
  "write_point p d = map_put (point_key p) (map_get [] d (point_key p) @ [p]) d"

definition Write :: "MemoryStore \<Rightarrow> MetricPoint list \<Rightarrow> MemoryStore" where
  "Write m ps = m\<lparr>ms_data := fold write_point ps (ms_data m)\<rparr>"

definition key_selected :: "MetricQuery \<Rightarrow> string \<Rightarrow> bool" where
  "key_selected q key \<longleftrightarrow>
     \<not> (mq_InstanceID q \<noteq> '''' \<and> \<not> HasPrefix key (mq_InstanceID q @ [NUL])) \<and>
     \<not> (mq_Metric q \<noteq> '''' \<and>
        (let parts = SplitN 3 NUL key in length parts < 2 \<or> parts ! 1 \<noteq> mq_Metric q))"

definition Query :: "MemoryStore \<Rightarrow> MetricQuery \<Rightarrow> MetricPoint list" where
  "Query m q =
     (let results = concat (map (\<lambda>(key, points). if key_selected q key then filter (in_range q) points else [])
                       (ms_data m));
          sorted = sort_slice (\<lambda>a b. mp_Timestamp a < mp_Timestamp b) results
      in limit_last (mq_Limit q) sorted)"

definition Close :: "MemoryStore \<Rightarrow> MemoryStore" where
  "Close m = m\<lparr>ms_closed := True\<rparr>"

text \<open>\<open>sort.Search(n, f)\<close>: binary search for the smallest index at which \<open>f\<close> holds.\<close>

function search_loop :: "(nat \<Rightarrow> bool) \<Rightarrow> nat \<Rightarrow> nat \<Rightarrow> nat" where
  "search_loop f i j =
     (if i < j then (let h = (i + j) div 2 in if \<not> f h then search_loop f (Suc h) j else search_loop f i h)
      else i)"
  by pat_completeness auto
termination
  by (relation "measure (\<lambda>(f, i, j). j - i)") auto

declare search_loop.simps [simp del]

definition Search :: "nat \<Rightarrow> (nat \<Rightarrow> bool) \<Rightarrow> nat" where
  "Search n f = search_loop f 0 n"

definition expire_series :: "time \<Rightarrow> MetricPoint list \<Rightarrow> MetricPoint list option" where
  "expire_series cutoff points =
     (let idx = Search (length points) (\<lambda>i. \<not> mp_Timestamp (points ! i) < cutoff) in
      if idx \<ge> length points then None else if idx > 0 then Some (drop idx points) else Some points)"

definition expire :: "time \<Rightarrow> MemoryStore \<Rightarrow> MemoryStore" where
  "expire now m =
     (let cutoff = now - ms_retention m in
      m\<lparr>ms_data := List.map_filter
          (\<lambda>(key, points). map_option (Pair key) (expire_series cutoff points)) (ms_data m)\<rparr>)"

subsection \<open>Statistics\<close>

record MetricStats =
  st_Mean :: float64
  st_StdDev :: float64
  st_Min :: float64
  st_Max :: float64
  st_Count :: nat

definition stats_in_range :: "time \<Rightarrow> time \<Rightarrow> MetricPoint \<Rightarrow> bool" where
  "stats_in_range from to p \<longleftrightarrow>
     \<not> (\<not> IsZero from \<and> mp_Timestamp p < from) \<and> \<not> (\<not> IsZero to \<and> mp_Timestamp p > to)"

fun stats_bucket :: "string \<Rightarrow> string list \<Rightarrow> time \<Rightarrow> time \<Rightarrow> string \<times> MetricPoint list \<Rightarrow>
    (string, float64 list) gomap \<Rightarrow> (string, float64 list) gomap" where
  "stats_bucket instanceID ks from to (key, points) buckets =
     (let parts = SplitN 3 NUL key in
      if length parts < 2 then buckets
      else if instanceID \<noteq> '''' \<and> parts ! 0 \<noteq> instanceID then buckets
      else if \<not> List.member ks (parts ! 1) then buckets
      else fold (\<lambda>p b. if stats_in_range from to p
                       then map_put (parts ! 1) (map_get [] b (parts ! 1) @ [mp_Value p]) b else b)
             points buckets)"

definition variance_sum :: "float64 \<Rightarrow> float64 list \<Rightarrow> float64" where
  "variance_sum mean vs = fold (\<lambda>v acc. acc + (v - mean) * (v - mean)) vs 0"

definition stats_of :: "float64 list \<Rightarrow> MetricStats" where
  "stats_of vs =
     (let sum = fold (\<lambda>v acc. acc + v) vs 0;
          mn = fold (\<lambda>v m. if v < m then v else m) vs (hd vs);
          mx = fold (\<lambda>v m. if v > m then v else m) vs (hd vs);
          mean = sum / real (length vs);
          variance = (if length vs > 1 then variance_sum mean vs / real (length vs - 1) else 0)
      in \<lparr>st_Mean = mean, st_StdDev = sqrt variance, st_Min = mn, st_Max = mx, st_Count = length vs\<rparr>)"

definition GetMetricStats :: "MemoryStore \<Rightarrow> string \<Rightarrow> string list \<Rightarrow> time \<Rightarrow> time \<Rightarrow> (string, MetricStats) gomap" where
  "GetMetricStats m instanceID ks from to =
     map (\<lambda>(metric, vs). (metric, stats_of vs))
       (filter (\<lambda>(metric, vs). vs \<noteq> []) (fold (stats_bucket instanceID ks from to) (ms_data m) []))"

subsection \<open>Invariant and abstraction\<close>

text \<open>
  The key encoding separates its parts by NUL bytes, so it is unambiguous for instance ids and
  metric names without one; every point is filed under its own key, and a key has one slice.
\<close>

definition ok_point :: "MetricPoint \<Rightarrow> bool" where
  "ok_point p \<longleftrightarrow> NUL \<notin> set (mp_InstanceID p) \<and> NUL \<notin> set (mp_Metric p)"

definition ok_query :: "MetricQuery \<Rightarrow> bool" where
  "ok_query q \<longleftrightarrow> NUL \<notin> set (mq_InstanceID q)"

definition filed :: "(string, MetricPoint list) gomap \<Rightarrow> bool" where
  "filed d \<longleftrightarrow> (\<forall>(key, points) \<in> set d. \<forall>p \<in> set points. point_key p = key \<and> ok_point p)"

definition store_inv :: "MemoryStore \<Rightarrow> bool" where
  "store_inv m \<longleftrightarrow> wf_map (ms_data m) \<and> filed (ms_data m)"

definition all_points :: "MemoryStore \<Rightarrow> MetricPoint list" where
  "all_points m = concat (map snd (ms_data m))"

lemma storageKey_shape:
  "\<exists>rest. storageKey i n ls = i @ NUL # n @ NUL # rest"
  by (cases "ls = []") (auto simp: storageKey_def)

lemma SplitN_storageKey:
  assumes "NUL \<notin> set i" "NUL \<notin> set n"
  shows "\<exists>rest. SplitN 3 NUL (storageKey i n ls) = [i, n, rest]"
proof -
  obtain rest where e: "storageKey i n ls = i @ NUL # n @ NUL # rest"
    using storageKey_shape by blast
  have "SplitN (Suc (Suc (Suc 0))) NUL (storageKey i n ls) = [i, n, rest]"
    unfolding e using assms by (simp del: SplitN.simps(3))
  then show ?thesis by (simp add: numeral_3_eq_3)
qed

lemma HasPrefix_storageKey:
  assumes "NUL \<notin> set i" "NUL \<notin> set i'"
  shows "HasPrefix (storageKey i n ls) (i' @ [NUL]) \<longleftrightarrow> i = i'"
proof
  assume "HasPrefix (storageKey i n ls) (i' @ [NUL])"
  then obtain r rest where "i @ NUL # n @ NUL # rest = i' @ NUL # r"
    using storageKey_shape [of i n ls] by (auto simp: HasPrefix_iff)
  then show "i = i'" using assms by (rule append_sep_inject(1))
next
  assume "i = i'"
  then show "HasPrefix (storageKey i n ls) (i' @ [NUL])"
    using storageKey_shape [of i n ls] by (auto simp: HasPrefix_iff)
qed

lemma key_selected_iff:
  assumes "ok_point p" "ok_query q"
  shows "key_selected q (point_key p) \<longleftrightarrow>
    (mq_InstanceID q = '''' \<or> mp_InstanceID p = mq_InstanceID q) \<and>
    (mq_Metric q = '''' \<or> mp_Metric p = mq_Metric q)"
proof -
  have n: "NUL \<notin> set (mp_InstanceID p)" "NUL \<notin> set (mp_Metric p)" "NUL \<notin> set (mq_InstanceID q)"
    using assms by (auto simp: ok_point_def ok_query_def)
  obtain rest where "SplitN 3 NUL (point_key p) = [mp_InstanceID p, mp_Metric p, rest]"
    using SplitN_storageKey [OF n(1,2)] by (auto simp: point_key_def)
  then show ?thesis
    using HasPrefix_storageKey [OF n(1,3)] by (auto simp: key_selected_def point_key_def Let_def)
qed

lemma mset_write_point:
  "wf_map d \<Longrightarrow> mset (concat (map snd (write_point p d))) = add_mset p (mset (concat (map snd d)))"
proof -
  have "mset (concat (map snd (map_put k (map_get [] d k @ [p]) d))) =
      add_mset p (mset (concat (map snd d)))" if "wf_map d" for k
    using that
  proof (induction d)
    case (Cons kv d)
    obtain k' v' where [simp]: "kv = (k', v')" by (cases kv)
    show ?case
    proof (cases "k' = k")
      case False
      then have "map_get [] (kv # d) k = map_get [] d k" by (simp add: map_get_def)
      then show ?thesis using Cons False by simp
    qed (simp add: map_get_def)
  qed (simp add: map_get_def)
  then show "wf_map d \<Longrightarrow> ?thesis" by (simp add: write_point_def)
qed

lemma wf_write_point: "wf_map d \<Longrightarrow> wf_map (write_point p d)"
  by (simp add: write_point_def)

lemma wf_fold_write_point: "wf_map d \<Longrightarrow> wf_map (fold write_point ps d)"
  by (induction ps arbitrary: d) (auto simp: wf_write_point)

lemma all_points_Write:
  assumes "wf_map (ms_data m)"
  shows "mset (all_points (Write m ps)) = mset (all_points m) + mset ps"
proof -
  have "wf_map d \<Longrightarrow> mset (concat (map snd (fold write_point ps d))) = mset (concat (map snd d)) + mset ps" for d
    by (induction ps arbitrary: d) (auto simp: mset_write_point wf_write_point simp del: mset_concat)
  then show ?thesis using assms by (simp add: all_points_def Write_def del: mset_concat)
qed

lemma map_put_in: "(k', v') \<in> set (map_put k v d) \<Longrightarrow> (k', v') = (k, v) \<or> (k', v') \<in> set d"
  by (induction k v d rule: map_put.induct) (auto split: if_splits)

lemma map_get_in: "x \<in> set (map_get [] d k) \<Longrightarrow> \<exists>v. (k, v) \<in> set d \<and> x \<in> set v"
  by (cases "map_of d k") (auto simp: map_get_def dest: map_of_SomeD)

lemma filed_write_point: "filed d \<Longrightarrow> ok_point p \<Longrightarrow> filed (write_point p d)"
  using map_get_in [of _ d "point_key p"]
  by (fastforce simp: filed_def write_point_def dest: map_put_in)

lemma filed_fold_write_point: "filed d \<Longrightarrow> list_all ok_point ps \<Longrightarrow> filed (fold write_point ps d)"
  by (induction ps arbitrary: d) (auto intro: filed_write_point)

lemma store_inv_Write: "store_inv m \<Longrightarrow> list_all ok_point ps \<Longrightarrow> store_inv (Write m ps)"
  by (simp add: store_inv_def Write_def wf_fold_write_point filed_fold_write_point)

lemma store_inv_New: "store_inv (NewMemoryStore r)"
  by (simp add: store_inv_def NewMemoryStore_def filed_def)

subsection \<open>Query answers the abstract contents\<close>

lemma selected_points:
  assumes "filed d" and "ok_query q"
  shows "concat (map (\<lambda>(key, points). if key_selected q key then filter (in_range q) points else []) d) =
     filter (matches q) (concat (map snd d))"
  using assms(1)
proof (induction d)
  case (Cons kv d)
  obtain key points where kv: "kv = (key, points)" by (cases kv)
  have sel: "p \<in> set points \<Longrightarrow> matches q p \<longleftrightarrow> key_selected q key \<and> in_range q p" for p
    using Cons.prems kv key_selected_iff [OF _ assms(2)] by (auto simp: matches_def filed_def)
  have "filter (matches q) points = (if key_selected q key then filter (in_range q) points else [])"
    using sel by (auto intro: filter_cong simp: filter_empty_conv)
  then show ?case using Cons kv by (simp add: filed_def)
qed simp

lemma Query_eq:
  assumes "store_inv m" "ok_query q"
  shows "Query m q = limit_last (mq_Limit q)
    (sort_slice (\<lambda>a b. mp_Timestamp a < mp_Timestamp b) (filter (matches q) (all_points m)))"
  using selected_points [OF _ assms(2), of "ms_data m"] assms(1)
  by (simp add: Query_def store_inv_def all_points_def)

lemma limit_last_nonpos [simp]: "n \<le> 0 \<Longrightarrow> limit_last n xs = xs"
  by (simp add: limit_last_def)

lemma matches_limit [simp]: "matches (q\<lparr>mq_Limit := n\<rparr>) = matches q"
  by (simp add: matches_def in_range_def fun_eq_iff)

lemma key_selected_limit [simp]: "key_selected (q\<lparr>mq_Limit := n\<rparr>) = key_selected q"
  by (simp add: key_selected_def fun_eq_iff)

lemma in_range_limit [simp]: "in_range (q\<lparr>mq_Limit := n\<rparr>) = in_range q"
  by (simp add: in_range_def fun_eq_iff)

interpretation mem: metric_store store_inv ok_point ok_query "\<lambda>m. mset (all_points m)" Write Query
proof unfold_locales
  fix m ps q n
  show "store_inv m \<Longrightarrow> list_all ok_point ps \<Longrightarrow> store_inv (Write m ps)"
    by (rule store_inv_Write)
  show "store_inv m \<Longrightarrow> mset (all_points (Write m ps)) = mset (all_points m) + mset ps"
    by (rule all_points_Write) (simp add: store_inv_def)
  show "store_inv m \<Longrightarrow> ok_query q \<Longrightarrow> mq_Limit q \<le> 0 \<Longrightarrow>
      mset (Query m q) = filter_mset (matches q) (mset (all_points m))"
    by (simp add: Query_eq mset_filter)
  show "Query m q = limit_last (mq_Limit q) (Query m (q\<lparr>mq_Limit := 0\<rparr>))"
    by (simp add: Query_def cong: if_cong)
  show "sorted (map mp_Timestamp (Query m q))"
    by (simp add: Query_def sorted_limit_last sort_slice_asc_sorted)
  show "ok_query q \<Longrightarrow> ok_query (q\<lparr>mq_Limit := n\<rparr>)"
    by (simp add: ok_query_def)
qed

subsection \<open>Expiry\<close>

text \<open>Binary search: below the result \<open>f\<close> fails, at it \<open>f\<close> holds, for a monotone \<open>f\<close>.\<close>

definition upward :: "nat \<Rightarrow> (nat \<Rightarrow> bool) \<Rightarrow> bool" where
  "upward n f \<longleftrightarrow> (\<forall>a b. f a \<longrightarrow> a \<le> b \<longrightarrow> b < n \<longrightarrow> f b)"

definition splits_at :: "nat \<Rightarrow> (nat \<Rightarrow> bool) \<Rightarrow> nat \<Rightarrow> nat \<Rightarrow> bool" where
  "splits_at n f i j \<longleftrightarrow> i \<le> j \<and> j \<le> n \<and> (\<forall>k < i. \<not> f k) \<and> (\<forall>k. j \<le> k \<longrightarrow> k < n \<longrightarrow> f k)"

lemma splits_at_halves:
  assumes "upward n f" "splits_at n f i j" "i \<le> h" "h < j"
  shows "f h \<Longrightarrow> splits_at n f i h" and "\<not> f h \<Longrightarrow> splits_at n f (Suc h) j"
proof -
  have "h < n" using assms by (simp add: splits_at_def)
  show "f h \<Longrightarrow> splits_at n f i h"
    using assms \<open>h < n\<close> by (simp add: splits_at_def upward_def)
  show "\<not> f h \<Longrightarrow> splits_at n f (Suc h) j"
    using assms \<open>h < n\<close> unfolding splits_at_def upward_def by (meson less_Suc_eq_le Suc_leI)
qed

lemma search_loop_spec:
  "upward n f \<Longrightarrow> splits_at n f i j \<Longrightarrow> splits_at n f (search_loop f i j) (search_loop f i j)"
proof (induction f i j rule: search_loop.induct)
  case (1 f i j)
  show ?case
  proof (cases "i < j")
    case True
    define h where "h = (i + j) div 2"
    have h: "i \<le> h" "h < j" using True by (auto simp: h_def)
    note halves = splits_at_halves [OF "1.prems" h]
    show ?thesis
    proof (cases "f h")
      case fh: True
      show ?thesis
        using "1.IH"(2) [OF True h_def] fh "1.prems"(1) halves(1)
        by (simp add: search_loop.simps [of f i j] True h_def Let_def)
    next
      case nfh: False
      show ?thesis
        using "1.IH"(1) [OF True h_def] nfh "1.prems"(1) halves(2)
        by (simp add: search_loop.simps [of f i j] True h_def Let_def)
    qed
  next
    case False
    then have "i = j" using "1.prems"(2) by (simp add: splits_at_def)
    then show ?thesis using "1.prems"(2) by (simp add: search_loop.simps [of f j j])
  qed
qed

lemma Search_spec: "upward n f \<Longrightarrow> splits_at n f (Search n f) (Search n f)"
  unfolding Search_def by (rule search_loop_spec) (simp_all add: splits_at_def)

lemma filter_splits_at:
  assumes "splits_at (length xs) (\<lambda>i. P (xs ! i)) k k"
  shows "filter P xs = drop k xs"
proof -
  have k: "k \<le> length xs" "\<forall>i < k. \<not> P (xs ! i)" "\<forall>i. k \<le> i \<longrightarrow> i < length xs \<longrightarrow> P (xs ! i)"
    using assms by (auto simp: splits_at_def)
  have "\<not> P x" if "x \<in> set (take k xs)" for x
    using that k by (fastforce simp: in_set_conv_nth)
  moreover have "P x" if "x \<in> set (drop k xs)" for x
    using that k(3) by (fastforce simp: in_set_conv_nth)
  moreover have "filter P xs = filter P (take k xs) @ filter P (drop k xs)"
    by (metis append_take_drop_id filter_append)
  ultimately show ?thesis by (simp add: filter_empty_conv filter_id_conv)
qed

lemma upward_sorted:
  "sorted (map mp_Timestamp ps) \<Longrightarrow> upward (length ps) (\<lambda>i. \<not> mp_Timestamp (ps ! i) < cutoff)"
  by (fastforce simp: upward_def sorted_iff_nth_mono)

lemma expire_series_sorted:
  assumes "sorted (map mp_Timestamp ps)"
  shows "expire_series cutoff ps =
    (let kept = filter (\<lambda>p. cutoff \<le> mp_Timestamp p) ps in if kept = [] then None else Some kept)"
proof -
  define idx where "idx = Search (length ps) (\<lambda>i. \<not> mp_Timestamp (ps ! i) < cutoff)"
  have "splits_at (length ps) (\<lambda>i. \<not> mp_Timestamp (ps ! i) < cutoff) idx idx"
    unfolding idx_def by (rule Search_spec [OF upward_sorted [OF assms]])
  then have "filter (\<lambda>p. \<not> mp_Timestamp p < cutoff) ps = drop idx ps"
    by (rule filter_splits_at [where P = "\<lambda>p. \<not> mp_Timestamp p < cutoff"])
  then have kept: "filter (\<lambda>p. cutoff \<le> mp_Timestamp p) ps = drop idx ps"
    by (simp add: linorder_not_less)
  show ?thesis
    unfolding kept by (simp add: expire_series_def Let_def flip: idx_def)
qed

definition series_sorted :: "MemoryStore \<Rightarrow> bool" where
  "series_sorted m \<longleftrightarrow> (\<forall>(key, points) \<in> set (ms_data m). sorted (map mp_Timestamp points))"

lemma map_filter_expire:
  assumes "\<forall>(key, points) \<in> set d. sorted (map mp_Timestamp points)"
  shows "concat (map snd (List.map_filter
      (\<lambda>(key, points). map_option (Pair key) (expire_series cutoff points)) d)) =
    filter (\<lambda>p. cutoff \<le> mp_Timestamp p) (concat (map snd d))"
  using assms
proof (induction d)
  case (Cons kv d)
  then show ?case
    by (cases kv) (auto simp: expire_series_sorted Let_def List.map_filter_simps split: if_splits)
qed (simp add: List.map_filter_simps)

lemma all_points_expire:
  "series_sorted m \<Longrightarrow>
   all_points (expire now m) = filter (\<lambda>p. now - ms_retention m \<le> mp_Timestamp p) (all_points m)"
  using map_filter_expire [of "ms_data m" "now - ms_retention m"]
  by (simp add: all_points_def expire_def series_sorted_def Let_def)

lemma expire_series_subset: "expire_series cutoff ps = Some qs \<Longrightarrow> \<exists>k. qs = drop k ps"
  by (auto simp: expire_series_def Let_def split: if_splits intro: exI [of _ 0])

lemma expire_entry:
  "(key, qs) \<in> set (ms_data (expire now m)) \<Longrightarrow> \<exists>ps k. (key, ps) \<in> set (ms_data m) \<and> qs = drop k ps"
  by (fastforce simp: expire_def Let_def List.map_filter_def dest: expire_series_subset)

lemma wf_map_filter:
  "wf_map d \<Longrightarrow> wf_map (List.map_filter (\<lambda>(key, v). map_option (Pair key) (g v)) d)"
  by (induction d) (force simp: List.map_filter_def split: option.splits)+

lemma store_inv_expire: "store_inv m \<Longrightarrow> store_inv (expire now m)"
proof -
  assume inv: "store_inv m"
  have "filed (ms_data (expire now m))"
    using inv unfolding filed_def store_inv_def by (fastforce dest: expire_entry in_set_dropD)
  then show ?thesis using inv by (simp add: store_inv_def expire_def Let_def wf_map_filter)
qed

lemma store_inv_Close: "store_inv m \<Longrightarrow> store_inv (Close m)"
  by (simp add: store_inv_def Close_def)

subsection \<open>Interleavings of writers and the expiry loop\<close>

text \<open>
  Collectors write batches stamped with the current time; the expiry loop and \<open>Close\<close> run in
  between. \<open>mem_reach t m\<close>: the store \<open>m\<close> is reachable and no point is stamped after \<open>t\<close>.
\<close>

inductive mem_reach :: "duration \<Rightarrow> time \<Rightarrow> MemoryStore \<Rightarrow> bool" for r where
  start: "mem_reach r t (NewMemoryStore r)"
| batch: "mem_reach r t m \<Longrightarrow> list_all ok_point ps \<Longrightarrow> sorted (t # map mp_Timestamp ps @ [t']) \<Longrightarrow>
    mem_reach r t' (Write m ps)"
| tick: "mem_reach r t m \<Longrightarrow> mem_reach r t (expire now m)"
| close: "mem_reach r t m \<Longrightarrow> mem_reach r t (Close m)"

definition series_upto :: "time \<Rightarrow> (string, MetricPoint list) gomap \<Rightarrow> bool" where
  "series_upto t d \<longleftrightarrow> (\<forall>(key, ps) \<in> set d. sorted (map mp_Timestamp ps @ [t]))"

lemma series_upto_get: "series_upto t d \<Longrightarrow> sorted (map mp_Timestamp (map_get [] d k) @ [t])"
  by (cases "map_of d k") (auto simp: series_upto_def map_get_def dest: map_of_SomeD)

lemma series_upto_mono: "series_upto t d \<Longrightarrow> t \<le> t' \<Longrightarrow> series_upto t' d"
  by (fastforce simp: series_upto_def sorted_append)

lemma series_upto_write_point:
  assumes "series_upto t d" "t \<le> mp_Timestamp p"
  shows "series_upto (mp_Timestamp p) (write_point p d)"
proof -
  have "sorted (map mp_Timestamp (map_get [] d (point_key p)) @ [mp_Timestamp p])"
    using series_upto_get [OF assms(1)] assms(2) by (fastforce simp: sorted_append)
  then show ?thesis
    using series_upto_mono [OF assms]
    by (auto simp: series_upto_def write_point_def sorted_append dest!: map_put_in)
qed

lemma series_upto_Write:
  "series_upto t d \<Longrightarrow> sorted (t # map mp_Timestamp ps @ [t']) \<Longrightarrow> series_upto t' (fold write_point ps d)"
proof (induction ps arbitrary: t d)
  case Nil
  then show ?case by (simp add: series_upto_mono)
next
  case (Cons p ps)
  have "series_upto (mp_Timestamp p) (write_point p d)"
    using Cons.prems by (intro series_upto_write_point) auto
  then show ?case using Cons.IH Cons.prems(2) by simp
qed

lemma mem_reach_inv:
  "mem_reach r t m \<Longrightarrow> store_inv m \<and> series_upto t (ms_data m) \<and> ms_retention m = r"
proof (induction rule: mem_reach.induct)
  case (start t)
  then show ?case by (simp add: store_inv_New) (simp add: NewMemoryStore_def series_upto_def)
next
  case (batch t m ps t')
  then show ?case
    using series_upto_Write [of t "ms_data m" ps t'] store_inv_Write by (simp add: Write_def)
next
  case (tick t m now)
  have "series_upto t (ms_data (expire now m))"
    using tick unfolding series_upto_def
    by (fastforce dest: expire_entry simp: sorted_append sorted_wrt_drop drop_map [symmetric] dest: in_set_dropD)
  moreover have "ms_retention (expire now m) = ms_retention m" by (simp add: expire_def Let_def)
  ultimately show ?case using tick store_inv_expire by simp
next
  case (close t m)
  then show ?case using store_inv_Close by (simp add: Close_def)
qed

lemma mem_reach_series_sorted: "mem_reach r t m \<Longrightarrow> series_sorted m"
  using mem_reach_inv [of r t m] by (fastforce simp: series_upto_def series_sorted_def sorted_append)

subsection \<open>Statistics\<close>

lemma fold_add_sum: "fold (\<lambda>v acc. acc + v) vs a = a + sum_list (vs :: real list)"
  by (induction vs arbitrary: a) auto

lemma fold_min_le: "fold (\<lambda>v m. if v < m then v else m) vs a \<le> (a :: real)"
  by (induction vs arbitrary: a) (auto intro: order_trans order_less_imp_le)

lemma fold_min_le_elem: "v \<in> set vs \<Longrightarrow> fold (\<lambda>v m. if v < m then v else m) vs a \<le> (v :: real)"
proof (induction vs arbitrary: a)
  case (Cons x vs)
  then show ?case
    using fold_min_le [of vs x] fold_min_le [of vs a] by (auto intro: order_trans split: if_splits)
qed simp

lemma fold_max_ge: "(a :: real) \<le> fold (\<lambda>v m. if v > m then v else m) vs a"
  by (induction vs arbitrary: a) (auto intro: order_trans order_less_imp_le)

lemma fold_max_ge_elem: "v \<in> set vs \<Longrightarrow> (v :: real) \<le> fold (\<lambda>v m. if v > m then v else m) vs a"
proof (induction vs arbitrary: a)
  case (Cons x vs)
  then show ?case
    using fold_max_ge [of x vs] fold_max_ge [of a vs] by (auto intro: order_trans split: if_splits)
qed simp

lemma sum_list_bounds:
  "\<forall>v \<in> set vs. (l::real) \<le> v \<and> v \<le> u \<Longrightarrow> real (length vs) * l \<le> sum_list vs \<and> sum_list vs \<le> real (length vs) * u"
  by (induction vs) (auto simp: algebra_simps)

lemma mean_bounds:
  assumes "vs \<noteq> []" "\<forall>v \<in> set vs. (l::real) \<le> v \<and> v \<le> u"
  shows "l \<le> sum_list vs / real (length vs) \<and> sum_list vs / real (length vs) \<le> u"
  using sum_list_bounds [OF assms(2)] assms(1) by (simp add: field_simps)

lemma stats_of_bounds:
  assumes "vs \<noteq> []"
  shows "st_Min (stats_of vs) \<le> st_Mean (stats_of vs) \<and> st_Mean (stats_of vs) \<le> st_Max (stats_of vs)"
  unfolding stats_of_def Let_def fold_add_sum MetricStats.simps add_0
  by (rule mean_bounds [OF assms]) (simp add: fold_min_le_elem fold_max_ge_elem)

lemma variance_sum_nonneg: "0 \<le> variance_sum mean vs"
proof -
  have "(0::real) \<le> a \<Longrightarrow> 0 \<le> fold (\<lambda>v acc. acc + (v - mean) * (v - mean)) vs a" for a
    by (induction vs arbitrary: a) auto
  then show ?thesis by (simp add: variance_sum_def)
qed

lemma stats_of_StdDev: "0 \<le> st_StdDev (stats_of vs)"
  by (simp add: stats_of_def Let_def variance_sum_nonneg)

lemma stats_bucket_keys:
  assumes "set (keys_of b) \<subseteq> set ks"
  shows "set (keys_of (stats_bucket i ks from to kv b)) \<subseteq> set ks"
proof -
  obtain key points where [simp]: "kv = (key, points)" by (cases kv)
  have loop: "set (keys_of (fold (\<lambda>p b. if stats_in_range from to p
      then map_put k (map_get [] b k @ [mp_Value p]) b else b) ps b)) \<subseteq> set ks"
    if "k \<in> set ks" "set (keys_of b) \<subseteq> set ks" for k ps b
    using that
  proof (induction ps arbitrary: b)
    case (Cons p ps)
    have "set (keys_of (map_put k (map_get [] b k @ [mp_Value p]) b)) \<subseteq> set ks"
      unfolding keys_put using Cons.prems by simp
    then show ?case using Cons by simp
  qed simp
  show ?thesis using assms loop by (simp add: Let_def)
qed

lemma GetMetricStats_keys:
  "set (keys_of (GetMetricStats m i ks from to)) \<subseteq> set ks"
proof -
  have "set (keys_of b) \<subseteq> set ks \<Longrightarrow> set (keys_of (fold (stats_bucket i ks from to) d b)) \<subseteq> set ks" for d b
  proof (induction d arbitrary: b)
    case (Cons kv d)
    show ?case using Cons.IH [OF stats_bucket_keys [OF Cons.prems]] by simp
  qed simp
  from this [of "[]" "ms_data m"] show ?thesis by (fastforce simp: GetMetricStats_def)
qed

subsection \<open>Properties\<close>


text \<open>After a batch is written, a query returns what it returned before plus exactly the
  points of the batch that match it, so no write is lost and none shows up in another series.\<close>

theorem memory_write_query:
  assumes "mem_reach r t m" "list_all ok_point ps" "ok_query q" "mq_Limit q \<le> 0"
  shows "mset (Query (Write m ps) q) = mset (Query m q) + filter_mset (matches q) (mset ps)"
  using mem.query_after_write [OF _ assms(2-4)] mem_reach_inv [OF assms(1)] by simp

text \<open>In every reachable state an expiry tick removes exactly the points older than the
  retention window (the binary search finds the cut in each series), and nothing else.\<close>

theorem memory_expire_exact:
  assumes "mem_reach r t m"
  shows "all_points (expire now m) = filter (\<lambda>p. now - r \<le> mp_Timestamp p) (all_points m)"
  using all_points_expire [OF mem_reach_series_sorted [OF assms]] mem_reach_inv [OF assms] by simp

text \<open>Every statistic the store reports is of a requested metric, counts at least one value,
  has its mean between minimum and maximum and a non-negative standard deviation.\<close>

theorem metric_stats_bounds:
  assumes "(metric, st) \<in> set (GetMetricStats m i ks from to)"
  shows "metric \<in> set ks \<and> 1 \<le> st_Count st \<and> st_Min st \<le> st_Mean st \<and> st_Mean st \<le> st_Max st \<and> 0 \<le> st_StdDev st"
proof -
  have k: "metric \<in> set ks" using GetMetricStats_keys [of m i ks "from" "to"] assms by force
  obtain vs where vs: "vs \<noteq> []" "st = stats_of vs" using assms by (auto simp: GetMetricStats_def)
  have "st_Count st = length vs" by (simp add: vs stats_of_def Let_def)
  then show ?thesis using k vs stats_of_bounds [OF vs(1)] stats_of_StdDev by (auto simp: Suc_le_eq)
qed

subsection \<open>Witnesses\<close>

definition wit_point :: "time \<Rightarrow> MetricPoint" where
  "wit_point t = \<lparr>mp_InstanceID = ''db1'', mp_Metric = ''pg.connections.total'', mp_Value = 5,
     mp_Labels = [], mp_Timestamp = t\<rparr>"

definition wit_store :: MemoryStore where
  "wit_store = Write (NewMemoryStore 100) [wit_point 10, wit_point 20]"

definition wit_query :: MetricQuery where
  "wit_query = empty_query\<lparr>mq_InstanceID := ''db1''\<rparr>"

lemma wit_store_reach: "mem_reach 100 20 wit_store"
  unfolding wit_store_def
  by (rule mem_reach.batch [OF mem_reach.start [of 100 0]]) (simp_all add: wit_point_def ok_point_def)

lemma wit_query_ok: "ok_query wit_query"
  by (simp add: ok_query_def wit_query_def empty_query_def)


theorem memory_write_query_witness:
  "mset (Query (Write wit_store [wit_point 30]) wit_query) =
   mset (Query wit_store wit_query) + filter_mset (matches wit_query) {#wit_point 30#}"
  using memory_write_query [OF wit_store_reach _ wit_query_ok, of "[wit_point 30]"]
  by (simp add: wit_point_def ok_point_def wit_query_def empty_query_def)

theorem memory_expire_exact_witness:
  "all_points (expire 115 wit_store) = filter (\<lambda>p. 15 \<le> mp_Timestamp p) (all_points wit_store)"
  using memory_expire_exact [OF wit_store_reach, of 115] by simp

theorem metric_stats_bounds_witness:
  "st_Min (stats_of [3, 5]) \<le> st_Mean (stats_of [3, 5]) \<and>
   GetMetricStats (NewMemoryStore 7\<lparr>ms_data := [(''a'' @ [NUL] @ ''m'' @ [NUL],
     [wit_point 1\<lparr>mp_Value := 3\<rparr>, wit_point 2\<lparr>mp_Value := 5\<rparr>])]\<rparr>) ''a'' [''m''] zero_time zero_time =
     [(''m'', stats_of [3, 5])]"
proof -
  let ?m = "NewMemoryStore 7\<lparr>ms_data := [(''a'' @ [NUL] @ ''m'' @ [NUL],
     [wit_point 1\<lparr>mp_Value := 3\<rparr>, wit_point 2\<lparr>mp_Value := 5\<rparr>])]\<rparr>"
  have e: "GetMetricStats ?m ''a'' [''m''] zero_time zero_time = [(''m'', stats_of [3, 5])]"
    by (simp add: GetMetricStats_def numeral_3_eq_3 Let_def stats_in_range_def IsZero_def
        wit_point_def map_get_def)
  show ?thesis
    using metric_stats_bounds [of "''m''" "stats_of [3, 5]" ?m "''a''" "[''m'']" zero_time zero_time] e
    by simp
qed

end
