(* ===== verification/LockTree.thy ===== *)
theory LockTree
  imports MetricModel
begin

section \<open>The lock tree collector (\<open>internal/collector/lock_tree.go\<close>)\<close>

text \<open>
  \<open>computeLockStats\<close> turns the (blocked, blocker) pairs of \<open>pg_blocking_pids()\<close> into three
  numbers: root blockers, blocked sessions, chain depth. Go's sets (\<open>map[int]bool\<close>) are lists
  without repetition, the adjacency map is an association list; the breadth-first search keeps
  its queue and visited set as in the code, and its termination is proved. \<open>Collect\<close> takes the
  query's outcome as an argument (the database is not under verification).
\<close>

record lockEdge =
  BlockedPID :: int
  BlockerPID :: int

record lockStats =
  BlockerCount :: nat
  BlockedCount :: nat
  MaxChainDepth :: nat

definition set_add :: "'a \<Rightarrow> 'a list \<Rightarrow> 'a list" where
  "set_add x xs = (if x \<in> set xs then xs else xs @ [x])"

type_synonym adjacency = "(int, int list) gomap"

fun lock_index :: "lockEdge list \<Rightarrow> int list \<times> int list \<times> adjacency \<Rightarrow> int list \<times> int list \<times> adjacency" where
  "lock_index [] st = st"
| "lock_index (e # es) (blockedSet, blockerSet, blocks) =
     lock_index es
       (set_add (BlockedPID e) blockedSet, set_add (BlockerPID e) blockerSet,
        map_put (BlockerPID e) (set_add (BlockedPID e) (map_get [] blocks (BlockerPID e))) blocks)"

text \<open>The loop over the children of one node: unvisited ones are marked and queued.\<close>

fun bfs_children :: "nat \<Rightarrow> int list \<Rightarrow> (int \<times> nat) list \<Rightarrow> int list \<Rightarrow> (int \<times> nat) list \<times> int list" where
  "bfs_children d [] queue visited = (queue, visited)"
| "bfs_children d (child # cs) queue visited =
     (if child \<notin> set visited then bfs_children d cs (queue @ [(child, d + 1)]) (visited @ [child])
      else bfs_children d cs queue visited)"

lemma bfs_children_new:
  "\<exists>new. bfs_children d cs queue visited = (queue @ map (\<lambda>c. (c, d + 1)) new, visited @ new) \<and>
     distinct new \<and> set new = set cs - set visited"
proof (induction d cs queue visited rule: bfs_children.induct)
  case (2 d c cs queue visited)
  show ?case
  proof (cases "c \<in> set visited")
    case True
    then show ?thesis using "2.IH"(2) by (simp add: insert_absorb insert_Diff_if)
  next
    case False
    then obtain new where "bfs_children d cs (queue @ [(c, d + 1)]) (visited @ [c]) =
        ((queue @ [(c, d + 1)]) @ map (\<lambda>c. (c, d + 1)) new, (visited @ [c]) @ new)"
      "distinct new" "set new = set cs - set (visited @ [c])"
      using "2.IH"(1) by blast
    then show ?thesis using False by (intro exI [of _ "c # new"]) auto
  qed
qed simp

definition adj_nodes :: "adjacency \<Rightarrow> int set" where
  "adj_nodes blocks = \<Union> (set ` snd ` set blocks)"

lemma finite_adj_nodes [simp]: "finite (adj_nodes blocks)"
  by (simp add: adj_nodes_def)

lemma map_get_adj_nodes: "set (map_get [] blocks p) \<subseteq> adj_nodes blocks"
  by (cases "map_of blocks p") (force simp: map_get_def adj_nodes_def dest: map_of_SomeD)+

function bfs_loop :: "adjacency \<Rightarrow> (int \<times> nat) list \<Rightarrow> int list \<Rightarrow> nat \<Rightarrow> nat" where
  "bfs_loop blocks [] visited maxDepth = maxDepth"
| "bfs_loop blocks ((pid, depth) # queue) visited maxDepth =
     (let m = (if depth > maxDepth then depth else maxDepth);
          (queue', visited') = bfs_children depth (map_get [] blocks pid) queue visited
      in bfs_loop blocks queue' visited' m)"
  by pat_completeness auto
termination
proof (relation "measures [\<lambda>(b, q, v, m). card (adj_nodes b - set v), \<lambda>(b, q, v, m). length q]", simp)
  fix blocks :: adjacency and pid :: int and depth maxDepth m :: nat and queue queue' :: "(int \<times> nat) list"
    and visited visited' :: "int list" and x
  assume x: "x = bfs_children depth (map_get [] blocks pid) queue visited" and xe: "(queue', visited') = x"
  obtain new where e: "queue' = queue @ map (\<lambda>c. (c, depth + 1)) new" "visited' = visited @ new"
    and n: "set new = set (map_get [] blocks pid) - set visited"
    using bfs_children_new [of depth "map_get [] blocks pid" queue visited] x xe by auto
  show "((blocks, queue', visited', m), blocks, (pid, depth) # queue, visited, maxDepth)
    \<in> measures [\<lambda>(b, q, v, m). card (adj_nodes b - set v), \<lambda>(b, q, v, m). length q]"
  proof (cases "new = []")
    case True
    then show ?thesis using e by simp
  next
    case False
    have "adj_nodes blocks - set visited' \<subset> adj_nodes blocks - set visited"
      using False n map_get_adj_nodes [of blocks pid] e(2) by (fastforce simp: neq_Nil_conv)
    then show ?thesis by (simp add: psubset_card_mono)
  qed
qed

definition bfsMaxDepth :: "int \<Rightarrow> adjacency \<Rightarrow> nat" where
  "bfsMaxDepth startPID blocks = bfs_loop blocks [(startPID, 0)] [startPID] 0"

definition computeLockStats :: "lockEdge list \<Rightarrow> lockStats" where
  "computeLockStats edges =
     (if edges = [] then \<lparr>BlockerCount = 0, BlockedCount = 0, MaxChainDepth = 0\<rparr>
      else let (blockedSet, blockerSet, blocks) = lock_index edges ([], [], []);
               roots = length (filter (\<lambda>pid. pid \<notin> set blockedSet) blockerSet);
               maxDepth = fold (\<lambda>pid md. if pid \<in> set blockedSet then md
                                   else let d = bfsMaxDepth pid blocks in if d > md then d else md)
                            blockerSet 0
           in \<lparr>BlockerCount = roots, BlockedCount = length blockedSet, MaxChainDepth = maxDepth\<rparr>)"

definition statsToPoints :: "Base \<Rightarrow> time \<Rightarrow> lockStats \<Rightarrow> MetricPoint list" where
  "statsToPoints c now stats =
     [point c now ''locks.blocker_count'' (real (BlockerCount stats)) [],
      point c now ''locks.blocked_count'' (real (BlockedCount stats)) [],
      point c now ''locks.max_chain_depth'' (real (MaxChainDepth stats)) []]"

text \<open>
  The outcome of \<open>conn.Query\<close>: the query fails, or it yields rows (each scans to an edge or
  fails) and an error at the end of the iteration, if any.
\<close>

datatype lock_error = QueryFailed string | ScanFailed string | RowsFailed string

datatype lock_rows = QueryErr string | Rows "(string + lockEdge) list" "string option"

fun scan_edges :: "(string + lockEdge) list \<Rightarrow> lock_error + lockEdge list" where
  "scan_edges [] = Inr []"
| "scan_edges (Inl err # rs) = Inl (ScanFailed err)"
| "scan_edges (Inr e # rs) = (case scan_edges rs of Inl err \<Rightarrow> Inl err | Inr es \<Rightarrow> Inr (e # es))"

fun Collect_locks :: "Base \<Rightarrow> time \<Rightarrow> lock_rows \<Rightarrow> lock_error + MetricPoint list" where
  "Collect_locks c now (QueryErr err) = Inl (QueryFailed err)"
| "Collect_locks c now (Rows rs final) =
     (case scan_edges rs of Inl err \<Rightarrow> Inl err
      | Inr edges \<Rightarrow> (case final of Some err \<Rightarrow> Inl (RowsFailed err)
                      | None \<Rightarrow> Inr (statsToPoints c now (computeLockStats edges))))"

subsection \<open>Chains and distances in the blocking graph\<close>

definition blocks_edge :: "lockEdge list \<Rightarrow> int \<Rightarrow> int \<Rightarrow> bool" where
  "blocks_edge es p c \<longleftrightarrow> (\<exists>e \<in> set es. BlockerPID e = p \<and> BlockedPID e = c)"

text \<open>\<open>chain R p n v\<close>: a chain of \<open>n\<close> blocking relationships leads from \<open>p\<close> to \<open>v\<close>.\<close>

inductive chain :: "(int \<Rightarrow> int \<Rightarrow> bool) \<Rightarrow> int \<Rightarrow> nat \<Rightarrow> int \<Rightarrow> bool" for R where
  here: "chain R p 0 p"
| link: "chain R p n u \<Longrightarrow> R u v \<Longrightarrow> chain R p (Suc n) v"

inductive_simps chain_0 [simp]: "chain R p 0 v"
inductive_cases chain_SucE: "chain R p (Suc n) v"

definition is_dist :: "(int \<Rightarrow> int \<Rightarrow> bool) \<Rightarrow> int \<Rightarrow> int \<Rightarrow> nat \<Rightarrow> bool" where
  "is_dist R s v d \<longleftrightarrow> chain R s d v \<and> (\<forall>d'. chain R s d' v \<longrightarrow> d \<le> d')"

lemma is_dist_unique: "is_dist R s v d \<Longrightarrow> is_dist R s v d' \<Longrightarrow> d = d'"
  by (simp add: is_dist_def le_antisym)

lemma is_dist_start [simp]: "is_dist R s s 0"
  by (simp add: is_dist_def)

lemma chain_has_dist: "chain R s n v \<Longrightarrow> \<exists>d \<le> n. is_dist R s v d"
  using LeastI [of "\<lambda>d. chain R s d v" n]
  by (intro exI [of _ "LEAST d. chain R s d v"]) (simp add: is_dist_def Least_le)

text \<open>A chain that leaves a set leaves it over some edge, strictly before its end.\<close>

lemma chain_leaves:
  "chain R s n v \<Longrightarrow> s \<in> V \<Longrightarrow> v \<notin> V \<Longrightarrow> \<exists>k u w. k < n \<and> chain R s k u \<and> u \<in> V \<and> R u w \<and> w \<notin> V"
proof (induction rule: chain.induct)
  case (link p n u v)
  show ?case
  proof (cases "u \<in> V")
    case True
    then show ?thesis using link by blast
  next
    case False
    then show ?thesis using link less_SucI by blast
  qed
qed simp

subsection \<open>The breadth-first search\<close>

definition bfs_inv :: "(int \<Rightarrow> int \<Rightarrow> bool) \<Rightarrow> int \<Rightarrow> (int \<times> nat) list \<Rightarrow> int list \<Rightarrow> nat \<Rightarrow> bool" where
  "bfs_inv R s queue visited m \<longleftrightarrow>
     s \<in> set visited \<and> fst ` set queue \<subseteq> set visited \<and> distinct (map fst queue) \<and>
     (\<forall>(p, d) \<in> set queue. is_dist R s p d) \<and>
     sorted (map snd queue) \<and> (\<forall>(p, d) \<in> set queue. d \<le> Suc (snd (hd queue))) \<and>
     (\<forall>v \<in> set visited. v \<notin> fst ` set queue \<longrightarrow>
        (\<forall>c. R v c \<longrightarrow> c \<in> set visited) \<and> (\<exists>d \<le> m. is_dist R s v d)) \<and>
     (\<exists>v. is_dist R s v m)"

lemma bfs_inv_start: "bfs_inv R s [(s, 0)] [s] 0"
  by (auto simp: bfs_inv_def intro: exI [of _ s])

text \<open>Whatever is not visited yet is farther away than the node at the front of the queue.\<close>

lemma unvisited_far:
  assumes inv: "bfs_inv R s ((pid, depth) # queue) visited m" and c: "chain R s n v" "v \<notin> set visited"
  shows "depth < n"
proof -
  obtain k u w where u: "k < n" "chain R s k u" "u \<in> set visited" "R u w" "w \<notin> set visited"
    using chain_leaves [OF c(1) _ c(2)] inv by (auto simp: bfs_inv_def)
  then have "u \<in> fst ` set ((pid, depth) # queue)" using inv unfolding bfs_inv_def by blast
  then obtain d where d: "(u, d) \<in> set ((pid, depth) # queue)" by force
  then have "is_dist R s u d" using inv unfolding bfs_inv_def by blast
  then have "d \<le> k" using u(2) by (simp add: is_dist_def)
  moreover have "depth \<le> d" using d inv by (auto simp: bfs_inv_def)
  ultimately show ?thesis using u(1) by simp
qed

lemma new_child_dist:
  assumes "bfs_inv R s ((pid, depth) # queue) visited m" "R pid c" "c \<notin> set visited"
  shows "is_dist R s c (Suc depth)"
proof -
  have "chain R s depth pid" using assms(1) by (simp add: bfs_inv_def is_dist_def)
  then have "chain R s (Suc depth) c" using assms(2) by (rule chain.link)
  then show ?thesis using unvisited_far [OF assms(1) _ assms(3)] by (auto simp: is_dist_def Suc_le_eq)
qed

lemma bfs_inv_step:
  assumes inv: "bfs_inv R s ((pid, depth) # queue) visited m"
    and new: "distinct new" "set new = {c. R pid c} - set visited"
  shows "bfs_inv R s (queue @ map (\<lambda>c. (c, depth + 1)) new) (visited @ new) (max m depth)"
proof -
  have pid: "is_dist R s pid depth" "pid \<in> set visited" "pid \<notin> fst ` set queue"
    using inv by (auto simp: bfs_inv_def)
  have near: "\<forall>(p, d) \<in> set queue. depth \<le> d \<and> d \<le> Suc depth"
    using inv by (auto simp: bfs_inv_def)
  have far: "c \<in> set new \<Longrightarrow> is_dist R s c (Suc depth)" for c
    using new(2) new_child_dist [OF inv] by simp
  have q: "fst ` set queue \<subseteq> set visited" "distinct (map fst queue)" "\<forall>(p, d) \<in> set queue. is_dist R s p d"
    "sorted (map snd queue)" "s \<in> set visited"
    using inv by (auto simp: bfs_inv_def)
  have old: "v \<in> set visited \<Longrightarrow> v \<notin> fst ` set queue \<Longrightarrow>
      (\<forall>c. R v c \<longrightarrow> c \<in> set visited \<union> set new) \<and> (\<exists>d \<le> max m depth. is_dist R s v d)" for v
    using inv pid new(2) unfolding bfs_inv_def by (cases "v = pid") (auto simp: le_max_iff_disj)
  have att: "\<exists>v. is_dist R s v (max m depth)"
    using inv pid(1) by (auto simp: bfs_inv_def max_def)
  have all: "depth \<le> snd x \<and> snd x \<le> Suc depth" if "x \<in> set (queue @ map (\<lambda>c. (c, depth + 1)) new)" for x
    using that near by auto
  have hd: "d \<le> Suc (snd (hd (queue @ map (\<lambda>c. (c, depth + 1)) new)))"
    if "(p, d) \<in> set (queue @ map (\<lambda>c. (c, depth + 1)) new)" for p d
    using all [OF that] all [OF hd_in_set] that by fastforce
  let ?q = "queue @ map (\<lambda>c. (c, depth + 1)) new"
  show ?thesis
    unfolding bfs_inv_def
  proof (intro conjI)
    show "s \<in> set (visited @ new)" using q(5) by simp
    show "fst ` set ?q \<subseteq> set (visited @ new)" using q(1) by auto
    show "distinct (map fst ?q)" using q(1,2) new by (auto simp: o_def)
    show "\<forall>(p, d) \<in> set ?q. is_dist R s p d" using q(3) far by auto
    show "sorted (map snd ?q)"
      using q(4) near by (auto simp: sorted_append o_def sorted_wrt_map sorted_wrt_true)
    show "\<forall>(p, d) \<in> set ?q. d \<le> Suc (snd (hd ?q))" using hd by blast
    show "\<forall>v \<in> set (visited @ new). v \<notin> fst ` set ?q \<longrightarrow>
        (\<forall>c. R v c \<longrightarrow> c \<in> set (visited @ new)) \<and> (\<exists>d \<le> max m depth. is_dist R s v d)"
      using old by (auto simp: image_Un image_image)
  qed (rule att)
qed

lemma bfs_inv_end:
  assumes "bfs_inv R s [] visited m"
  shows "(\<exists>v. is_dist R s v m) \<and> (\<forall>v d. is_dist R s v d \<longrightarrow> d \<le> m)"
proof (intro conjI allI impI)
  show "\<exists>v. is_dist R s v m" using assms by (simp add: bfs_inv_def)
  have closed: "chain R s n v \<Longrightarrow> v \<in> set visited" for n v
    using chain_leaves [of R s n v "set visited"] assms by (auto simp: bfs_inv_def)
  fix v d
  assume d: "is_dist R s v d"
  then have "v \<in> set visited" using closed by (auto simp: is_dist_def)
  then obtain d' where "d' \<le> m" "is_dist R s v d'" using assms by (auto simp: bfs_inv_def)
  then show "d \<le> m" using is_dist_unique [OF d] by simp
qed

definition adj :: "adjacency \<Rightarrow> int \<Rightarrow> int \<Rightarrow> bool" where
  "adj blocks p c \<longleftrightarrow> c \<in> set (map_get [] blocks p)"

definition eccentricity :: "(int \<Rightarrow> int \<Rightarrow> bool) \<Rightarrow> int \<Rightarrow> nat \<Rightarrow> bool" where
  "eccentricity R s m \<longleftrightarrow> (\<exists>v. is_dist R s v m) \<and> (\<forall>v d. is_dist R s v d \<longrightarrow> d \<le> m)"

lemma bfs_loop_correct:
  "bfs_inv (adj blocks) s queue visited m \<Longrightarrow> eccentricity (adj blocks) s (bfs_loop blocks queue visited m)"
proof (induction blocks queue visited m rule: bfs_loop.induct)
  case (1 blocks visited m)
  then show ?case using bfs_inv_end by (simp add: eccentricity_def)
next
  case (2 blocks pid depth queue visited m)
  obtain new where e: "bfs_children depth (map_get [] blocks pid) queue visited =
      (queue @ map (\<lambda>c. (c, depth + 1)) new, visited @ new)"
    and n: "distinct new" "set new = set (map_get [] blocks pid) - set visited"
    using bfs_children_new by blast
  have "set new = {c. adj blocks pid c} - set visited" using n(2) by (auto simp: adj_def)
  then have "bfs_inv (adj blocks) s (queue @ map (\<lambda>c. (c, depth + 1)) new) (visited @ new) (max m depth)"
    using bfs_inv_step [OF "2.prems"(1) n(1)] by simp
  moreover have "(if depth > m then depth else m) = max m depth" by simp
  ultimately show ?case using "2.IH" [OF refl e [symmetric] refl] e by simp
qed

lemma bfsMaxDepth_correct: "eccentricity (adj blocks) s (bfsMaxDepth s blocks)"
  unfolding bfsMaxDepth_def by (rule bfs_loop_correct) (rule bfs_inv_start)

subsection \<open>The indexed edges\<close>

lemma set_set_add [simp]: "set (set_add x xs) = insert x (set xs)"
  by (auto simp: set_add_def)

lemma distinct_set_add [simp]: "distinct (set_add x xs) = distinct xs"
  by (auto simp: set_add_def)

definition indexed :: "lockEdge list \<Rightarrow> int list \<times> int list \<times> adjacency \<Rightarrow> bool" where
  "indexed es = (\<lambda>(blockedSet, blockerSet, blocks).
     distinct blockedSet \<and> distinct blockerSet \<and> set blockedSet = BlockedPID ` set es \<and>
     set blockerSet = BlockerPID ` set es \<and> adj blocks = blocks_edge es)"

lemma lock_index_correct: "indexed pre st \<Longrightarrow> indexed (pre @ es) (lock_index es st)"
proof (induction es st arbitrary: pre rule: lock_index.induct)
  case (2 e es blockedSet blockerSet blocks)
  let ?st = "(set_add (BlockedPID e) blockedSet, set_add (BlockerPID e) blockerSet,
    map_put (BlockerPID e) (set_add (BlockedPID e) (map_get [] blocks (BlockerPID e))) blocks)"
  have "adj (map_put (BlockerPID e) (set_add (BlockedPID e) (map_get [] blocks (BlockerPID e))) blocks) p c \<longleftrightarrow>
      adj blocks p c \<or> BlockerPID e = p \<and> BlockedPID e = c" for p c
    by (auto simp: adj_def)
  then have "indexed (pre @ [e]) ?st"
    using "2.prems" by (auto simp: indexed_def fun_eq_iff blocks_edge_def)
  then show ?case using "2.IH" [of "pre @ [e]"] by simp
qed simp

lemma lock_index_start: "indexed es (lock_index es ([], [], []))"
  using lock_index_correct [of "[]" "([], [], [])" es]
  by (simp add: indexed_def adj_def blocks_edge_def fun_eq_iff map_get_def)

definition root_blockers :: "lockEdge list \<Rightarrow> int set" where
  "root_blockers es = BlockerPID ` set es - BlockedPID ` set es"

lemma fold_max_depth:
  "fold (\<lambda>pid md. if P pid then md else let d = f pid in if d > md then d else md) ps (m::nat) =
     Max (insert m (f ` {p \<in> set ps. \<not> P p}))"
proof (induction ps arbitrary: m)
  case (Cons p ps)
  have "insert m (f ` {x \<in> set (p # ps). \<not> P x}) =
      (if P p then insert m (f ` {x \<in> set ps. \<not> P x}) else insert m (insert (f p) (f ` {x \<in> set ps. \<not> P x})))"
    by auto
  moreover have "Max (insert m (insert (f p) A)) = Max (insert (max (f p) m) A)" if "finite A" for A
    using that by (cases "A = {}") (auto simp: max.assoc max.left_commute max.commute)
  ultimately show ?case using Cons.IH by (simp add: Let_def max_def)
qed simp

lemma computeLockStats_eq:
  assumes "es \<noteq> []"
  shows "BlockerCount (computeLockStats es) = card (root_blockers es)"
    and "BlockedCount (computeLockStats es) = card (BlockedPID ` set es)"
    and "\<exists>depth. (\<forall>p. eccentricity (blocks_edge es) p (depth p)) \<and>
      MaxChainDepth (computeLockStats es) = Max (insert 0 (depth ` root_blockers es))"
proof -
  obtain blockedSet blockerSet blocks where ix: "lock_index es ([], [], []) = (blockedSet, blockerSet, blocks)"
    by (metis prod_cases3)
  then have i: "distinct blockedSet" "distinct blockerSet" "set blockedSet = BlockedPID ` set es"
    "set blockerSet = BlockerPID ` set es" "adj blocks = blocks_edge es"
    using lock_index_start [of es] by (auto simp: indexed_def)
  have roots: "root_blockers es = {p \<in> set blockerSet. p \<notin> set blockedSet}"
    using i(3,4) by (auto simp: root_blockers_def)
  show "BlockerCount (computeLockStats es) = card (root_blockers es)"
    using assms ix i(2) roots by (simp add: computeLockStats_def) (metis distinct_card distinct_filter set_filter)
  show "BlockedCount (computeLockStats es) = card (BlockedPID ` set es)"
    using assms ix i(1,3) by (simp add: computeLockStats_def) (metis distinct_card)
  show "\<exists>depth. (\<forall>p. eccentricity (blocks_edge es) p (depth p)) \<and>
      MaxChainDepth (computeLockStats es) = Max (insert 0 (depth ` root_blockers es))"
  proof (intro exI [of _ "\<lambda>p. bfsMaxDepth p blocks"] conjI allI)
    show "eccentricity (blocks_edge es) p (bfsMaxDepth p blocks)" for p
      using bfsMaxDepth_correct [of blocks p] i(5) by simp
    show "MaxChainDepth (computeLockStats es) = Max (insert 0 ((\<lambda>p. bfsMaxDepth p blocks) ` root_blockers es))"
      using assms ix by (simp add: computeLockStats_def fold_max_depth roots)
  qed
qed

lemma computeLockStats_counts:
  "BlockerCount (computeLockStats es) = card (root_blockers es)"
  "BlockedCount (computeLockStats es) = card (BlockedPID ` set es)"
  using computeLockStats_eq(1,2) [of es]
  by (cases "es = []"; simp add: computeLockStats_def root_blockers_def)+

lemma finite_root_blockers [simp]: "finite (root_blockers es)"
  by (simp add: root_blockers_def)

subsection \<open>Properties\<close>

text \<open>The lock statistics are those of the blocking graph: \<open>BlockerCount\<close> counts the sessions
  that block and are not blocked, \<open>BlockedCount\<close> the distinct blocked sessions, and
  \<open>MaxChainDepth\<close> is the largest shortest-path distance from a root blocker to a session it
  blocks directly or transitively (0 when there is no root, as in a pure deadlock). The
  breadth-first search terminates on every graph, cyclic ones included.\<close>

theorem lock_stats_correct:
  "BlockerCount (computeLockStats es) = card (root_blockers es) \<and>
   BlockedCount (computeLockStats es) = card (BlockedPID ` set es) \<and>
   (\<forall>p \<in> root_blockers es. \<forall>v d. is_dist (blocks_edge es) p v d \<longrightarrow> d \<le> MaxChainDepth (computeLockStats es)) \<and>
   (if root_blockers es = {} then MaxChainDepth (computeLockStats es) = 0
    else \<exists>p \<in> root_blockers es. \<exists>v. is_dist (blocks_edge es) p v (MaxChainDepth (computeLockStats es)))"
proof (cases "es = []")
  case True
  then show ?thesis by (simp add: computeLockStats_def root_blockers_def)
next
  case False
  obtain depth where d: "\<And>p. eccentricity (blocks_edge es) p (depth p)"
    "MaxChainDepth (computeLockStats es) = Max (insert 0 (depth ` root_blockers es))"
    using computeLockStats_eq(3) [OF False] by blast
  have upper: "p \<in> root_blockers es \<Longrightarrow> depth p \<le> MaxChainDepth (computeLockStats es)" for p
    unfolding d(2) by simp
  have att: "\<exists>p \<in> root_blockers es. MaxChainDepth (computeLockStats es) = depth p" if "root_blockers es \<noteq> {}"
  proof -
    have "Max (insert 0 (depth ` root_blockers es)) = Max (depth ` root_blockers es)"
      using that by simp
    moreover have "Max (depth ` root_blockers es) \<in> depth ` root_blockers es"
      by (rule Max_in) (simp_all add: that)
    ultimately show ?thesis unfolding d(2) by (metis imageE)
  qed
  have "d' \<le> MaxChainDepth (computeLockStats es)"
    if "p \<in> root_blockers es" "is_dist (blocks_edge es) p v d'" for p v d'
    using upper [OF that(1)] d(1) [of p] that(2) by (fastforce simp: eccentricity_def)
  moreover have "\<exists>p \<in> root_blockers es. \<exists>v. is_dist (blocks_edge es) p v (MaxChainDepth (computeLockStats es))"
    if "root_blockers es \<noteq> {}"
    using att [OF that] d(1) by (metis eccentricity_def)
  moreover have "root_blockers es = {} \<Longrightarrow> MaxChainDepth (computeLockStats es) = 0"
    by (simp add: d(2))
  ultimately show ?thesis using computeLockStats_eq(1,2) [OF False] by simp
qed

text \<open>The blocking graph of the next theorem: session 1 blocks 2 and 3, session 2 blocks 3.\<close>

definition diamond :: "lockEdge list" where
  "diamond = [\<lparr>BlockedPID = 2, BlockerPID = 1\<rparr>, \<lparr>BlockedPID = 3, BlockerPID = 1\<rparr>, \<lparr>BlockedPID = 3, BlockerPID = 2\<rparr>]"

text \<open>The reported depth is not the longest chain the field's comment promises: in the graph
  where 1 blocks 2 and 3 and 2 blocks 3, there is a chain of two links below the root blocker 1,
  and \<open>MaxChainDepth\<close> is 1.\<close>

theorem lock_depth_not_longest_chain:
  "1 \<in> root_blockers diamond \<and> chain (blocks_edge diamond) 1 2 3 \<and>
   MaxChainDepth (computeLockStats diamond) = 1"
proof (intro conjI)
  show "1 \<in> root_blockers diamond" by (simp add: root_blockers_def diamond_def)
  have "chain (blocks_edge diamond) 1 (Suc (Suc 0)) 3"
    by (rule chain.link [OF chain.link [OF chain.here, of _ _ 2]])
      (simp_all add: blocks_edge_def diamond_def)
  then show "chain (blocks_edge diamond) 1 2 3" by (simp add: numeral_2_eq_2)
  show "MaxChainDepth (computeLockStats diamond) = 1" by code_simp
qed

text \<open>A collection that succeeds reports three points for the collector's instance, named
  \<open>pg.locks.blocker_count\<close>, \<open>pg.locks.blocked_count\<close> and \<open>pg.locks.max_chain_depth\<close>, whose
  values are the statistics of exactly the scanned rows; it fails exactly when the query, the
  scan of a row or the row iteration fails, so no partial result is reported.\<close>

theorem collect_locks_result:
  "(case Collect_locks c now rows of
      Inr pts \<Rightarrow> \<exists>es. rows = Rows (map Inr es) None \<and>
        map mp_Metric pts = [''pg.locks.blocker_count'', ''pg.locks.blocked_count'', ''pg.locks.max_chain_depth''] \<and>
        map mp_Value pts = [real (card (root_blockers es)), real (card (BlockedPID ` set es)),
          real (MaxChainDepth (computeLockStats es))] \<and>
        list_all (\<lambda>p. mp_InstanceID p = b_instanceID c) pts
    | Inl err \<Rightarrow> \<not> (\<exists>es. rows = Rows (map Inr es) None))"
proof -
  have scan_ok: "scan_edges (map Inr es) = Inr es" for es by (induction es) auto
  have scan: "scan_edges rs = Inr es \<Longrightarrow> rs = map Inr es" for rs es
    by (induction rs arbitrary: es rule: scan_edges.induct) (auto split: sum.splits)
  show ?thesis
    by (cases "(c, now, rows)" rule: Collect_locks.cases)
      (auto simp: scan_ok statsToPoints_def point_def metricPrefix_def computeLockStats_counts dest: scan split: sum.splits option.splits)
qed

theorem lock_stats_correct_witness:
  "BlockerCount (computeLockStats diamond) = card (root_blockers diamond) \<and>
   BlockedCount (computeLockStats diamond) = card (BlockedPID ` set diamond)"
  using lock_stats_correct [of diamond] by blast

end
