(* ===== verification/AlertModel.thy ===== *)
theory AlertModel
  imports MetricModel
begin

section \<open>Alert rules, events and the alert history (\<open>internal/alert\<close>)\<close>

text \<open>
  The data of \<open>alert.go\<close>, \<open>forecast.go\<close>, \<open>remediation.go\<close> and \<open>store.go\<close>. Severities,
  operators and rule types are strings, as in the code (they come from the rule table and from
  API requests). The interface \<open>AlertHistoryStore\<close> is a record of operations on a store state;
  an operation returns \<open>None\<close> when the store reports an error. Its contract is the locale
  \<open>alert_history\<close>; the PostgreSQL store (the statements of \<open>pgstore.go\<close> read as operations
  on a table of rows) implements it, while the null store of live mode forgets every event and
  only has the types of the interface.
\<close>

type_synonym Severity = string
type_synonym Operator = string

abbreviation "SeverityInfo \<equiv> ''info''"
abbreviation "SeverityWarning \<equiv> ''warning''"
abbreviation "SeverityCritical \<equiv> ''critical''"

definition severityLevel :: "Severity \<Rightarrow> int" where
  "severityLevel s =
     (if s = SeverityInfo then 1 else if s = SeverityWarning then 2
      else if s = SeverityCritical then 3 else 0)"

abbreviation "OpGreater \<equiv> ''>''"
abbreviation "OpGreaterEqual \<equiv> ''>=''"
abbreviation "OpLess \<equiv> ''<''"
abbreviation "OpLessEqual \<equiv> ''<=''"
abbreviation "OpEqual \<equiv> ''==''"
abbreviation "OpNotEqual \<equiv> ''!=''"

definition Compare :: "Operator \<Rightarrow> float64 \<Rightarrow> float64 \<Rightarrow> bool" where
  "Compare op value threshold =
     (if op = OpGreater then value > threshold
      else if op = OpGreaterEqual then value \<ge> threshold
      else if op = OpLess then value < threshold
      else if op = OpLessEqual then value \<le> threshold
      else if op = OpEqual then value = threshold
      else if op = OpNotEqual then value \<noteq> threshold
      else False)"

datatype AlertState = StateOK | StatePending | StateFiring

abbreviation "RuleTypeForecastThreshold \<equiv> ''forecast_threshold''"

record Rule =
  r_ID :: string
  r_Name :: string
  r_Description :: string
  r_Metric :: string
  r_Operator :: Operator
  r_Threshold :: float64
  r_Severity :: Severity
  r_Labels :: labels
  r_ConsecutiveCount :: int
  r_CooldownMinutes :: int
  r_Channels :: "string list"
  r_Source :: string
  r_Enabled :: bool
  r_Type :: string
  r_UseLowerBound :: bool
  r_ConsecutivePointsRequired :: int

record RemediationResult =
  rr_RuleID :: string
  rr_Title :: string
  rr_Description :: string
  rr_Priority :: string
  rr_Category :: string
  rr_DocURL :: string

record AlertEvent =
  ev_ID :: int
  ev_RuleID :: string
  ev_RuleName :: string
  ev_InstanceID :: string
  ev_Severity :: Severity
  ev_Value :: float64
  ev_Threshold :: float64
  ev_Operator :: Operator
  ev_Metric :: string
  ev_Labels :: labels
  ev_Channels :: "string list"
  ev_FiredAt :: time
  ev_ResolvedAt :: "time option"
  ev_IsResolution :: bool
  ev_Recommendations :: "RemediationResult list"

record stateEntry =
  se_State :: AlertState
  se_ConsecutiveCount :: int
  se_FiredAt :: time
  se_LastNotifiedAt :: time
  se_Severity :: Severity

record ForecastPoint =
  fp_Offset :: int
  fp_Value :: float64
  fp_Lower :: float64
  fp_Upper :: float64

text \<open>\<open>&stateEntry{State: StateOK}\<close>: every other field has its zero value.\<close>

definition new_entry :: stateEntry where
  "new_entry = \<lparr>se_State = StateOK, se_ConsecutiveCount = 0, se_FiredAt = zero_time,
     se_LastNotifiedAt = zero_time, se_Severity = ''''\<rparr>"

subsection \<open>The history store interface\<close>

text \<open>\<open>Record\<close> also returns the id the store gave to the event (it is scanned into the event).\<close>

record 'h HistoryStore =
  hs_Record :: "'h \<Rightarrow> AlertEvent \<Rightarrow> ('h \<times> int) option"
  hs_Resolve :: "'h \<Rightarrow> string \<Rightarrow> string \<Rightarrow> time \<Rightarrow> 'h option"
  hs_ListUnresolved :: "'h \<Rightarrow> AlertEvent list option"

text \<open>\<open>open_alerts\<close>: the (rule, instance) pairs with an unresolved event.\<close>

locale alert_history =
  fixes hs :: "'h HistoryStore" and open_alerts :: "'h \<Rightarrow> (string \<times> string) set"
  assumes open_Record: "hs_Record hs h ev = Some (h', i) \<Longrightarrow>
      open_alerts h' = insert (ev_RuleID ev, ev_InstanceID ev) (open_alerts h)"
    and open_Resolve: "hs_Resolve hs h r inst t = Some h' \<Longrightarrow> open_alerts h' = open_alerts h - {(r, inst)}"
    and open_List: "hs_ListUnresolved hs h = Some evs \<Longrightarrow>
      (\<lambda>ev. (ev_RuleID ev, ev_InstanceID ev)) ` set evs = open_alerts h"

text \<open>A store that answers as long as it is \<open>live\<close>, and stays live while it is only used.\<close>

locale live_history = alert_history hs open_alerts
  for hs :: "'h HistoryStore" and open_alerts :: "'h \<Rightarrow> (string \<times> string) set" +
  fixes live :: "'h \<Rightarrow> bool"
  assumes live_Record: "live h \<Longrightarrow> \<exists>h' i. hs_Record hs h ev = Some (h', i) \<and> live h'"
    and live_Resolve: "live h \<Longrightarrow> \<exists>h'. hs_Resolve hs h r inst t = Some h' \<and> live h'"

subsection \<open>The PostgreSQL history store\<close>

text \<open>
  The table \<open>alert_history\<close> as a list of rows in insertion order. \<open>pg_up\<close> is the
  environment: when the database cannot be reached, every statement fails and changes nothing.
  The rows do not hold the rule's name and channels (the INSERT does not list them).
\<close>

record PGHistory =
  pg_rows :: "AlertEvent list"
  pg_next_id :: int
  pg_up :: bool

definition pg_row :: "int \<Rightarrow> AlertEvent \<Rightarrow> AlertEvent" where
  "pg_row i ev = ev\<lparr>ev_ID := i, ev_RuleName := '''', ev_Channels := [], ev_ResolvedAt := None,
     ev_IsResolution := False, ev_Recommendations := []\<rparr>"

definition pg_Record :: "PGHistory \<Rightarrow> AlertEvent \<Rightarrow> (PGHistory \<times> int) option" where
  "pg_Record h ev =
     (if \<not> pg_up h then None
      else Some (h\<lparr>pg_rows := pg_rows h @ [pg_row (pg_next_id h) ev], pg_next_id := pg_next_id h + 1\<rparr>,
                 pg_next_id h))"

definition pg_Resolve :: "PGHistory \<Rightarrow> string \<Rightarrow> string \<Rightarrow> time \<Rightarrow> PGHistory option" where
  "pg_Resolve h ruleID instanceID resolvedAt =
     (if \<not> pg_up h then None
      else Some (h\<lparr>pg_rows := map (\<lambda>ev.
             if ev_RuleID ev = ruleID \<and> ev_InstanceID ev = instanceID \<and> ev_ResolvedAt ev = None
             then ev\<lparr>ev_ResolvedAt := Some resolvedAt, ev_IsResolution := True\<rparr> else ev) (pg_rows h)\<rparr>))"

definition pg_ListUnresolved :: "PGHistory \<Rightarrow> AlertEvent list option" where
  "pg_ListUnresolved h =
     (if \<not> pg_up h then None
      else Some (sort_slice (\<lambda>a b. ev_FiredAt a > ev_FiredAt b)
                   (filter (\<lambda>ev. ev_ResolvedAt ev = None) (pg_rows h))))"

definition pg_Cleanup :: "time \<Rightarrow> PGHistory \<Rightarrow> duration \<Rightarrow> (PGHistory \<times> nat) option" where
  "pg_Cleanup now h olderThan =
     (if \<not> pg_up h then None
      else let seconds = go_quot olderThan Second;
               old = (\<lambda>ev. case ev_ResolvedAt ev of None \<Rightarrow> False | Some t \<Rightarrow> t < now - seconds * Second)
           in Some (h\<lparr>pg_rows := filter (\<lambda>ev. \<not> old ev) (pg_rows h)\<rparr>, length (filter old (pg_rows h))))"

definition PGAlertHistoryStore :: "PGHistory HistoryStore" where
  "PGAlertHistoryStore =
     \<lparr>hs_Record = pg_Record, hs_Resolve = pg_Resolve, hs_ListUnresolved = pg_ListUnresolved\<rparr>"

definition pg_open :: "PGHistory \<Rightarrow> (string \<times> string) set" where
  "pg_open h = (\<lambda>ev. (ev_RuleID ev, ev_InstanceID ev)) ` set (filter (\<lambda>ev. ev_ResolvedAt ev = None) (pg_rows h))"

lemma resolve_rows:
  "(\<lambda>ev. (ev_RuleID ev, ev_InstanceID ev)) ` set (filter (\<lambda>ev. ev_ResolvedAt ev = None) (map (\<lambda>ev.
     if ev_RuleID ev = r \<and> ev_InstanceID ev = inst \<and> ev_ResolvedAt ev = None
     then ev\<lparr>ev_ResolvedAt := Some t, ev_IsResolution := True\<rparr> else ev) rows)) =
   (\<lambda>ev. (ev_RuleID ev, ev_InstanceID ev)) ` set (filter (\<lambda>ev. ev_ResolvedAt ev = None) rows) - {(r, inst)}"
  by (induction rows) auto

interpretation pg: alert_history PGAlertHistoryStore pg_open
proof unfold_locales
  fix h h' :: PGHistory and ev :: AlertEvent and i t :: int and r inst :: string and evs
  show "hs_Record PGAlertHistoryStore h ev = Some (h', i) \<Longrightarrow>
      pg_open h' = insert (ev_RuleID ev, ev_InstanceID ev) (pg_open h)"
    by (auto simp: PGAlertHistoryStore_def pg_Record_def pg_open_def pg_row_def simp del: set_filter split: if_splits)
  show "pg_open h' = pg_open h - {(r, inst)}" if "hs_Resolve PGAlertHistoryStore h r inst t = Some h'"
  proof -
    have "pg_rows h' = map (\<lambda>ev.
        if ev_RuleID ev = r \<and> ev_InstanceID ev = inst \<and> ev_ResolvedAt ev = None
        then ev\<lparr>ev_ResolvedAt := Some t, ev_IsResolution := True\<rparr> else ev) (pg_rows h)"
      using that by (cases "pg_up h") (auto simp: PGAlertHistoryStore_def pg_Resolve_def)
    then show ?thesis unfolding pg_open_def by (simp only: resolve_rows)
  qed
  show "hs_ListUnresolved PGAlertHistoryStore h = Some evs \<Longrightarrow>
      (\<lambda>ev. (ev_RuleID ev, ev_InstanceID ev)) ` set evs = pg_open h"
    by (auto simp: PGAlertHistoryStore_def pg_ListUnresolved_def pg_open_def split: if_splits)
qed

interpretation pg: live_history PGAlertHistoryStore pg_open pg_up
  by unfold_locales (auto simp: PGAlertHistoryStore_def pg_Record_def pg_Resolve_def)

text \<open>Cleanup deletes resolved events only, so it never closes or hides an open alert.\<close>

lemma pg_open_Cleanup: "pg_Cleanup now h d = Some (h', n) \<Longrightarrow> pg_open h' = pg_open h"
  by (auto simp: pg_Cleanup_def pg_open_def Let_def split: if_splits option.splits)

subsection \<open>The null history store (live mode)\<close>

definition null_Record :: "unit \<Rightarrow> AlertEvent \<Rightarrow> (unit \<times> int) option" where
  "null_Record h ev = Some ((), ev_ID ev)"

definition null_Resolve :: "unit \<Rightarrow> string \<Rightarrow> string \<Rightarrow> time \<Rightarrow> unit option" where
  "null_Resolve h r i t = Some ()"

definition null_ListUnresolved :: "unit \<Rightarrow> AlertEvent list option" where
  "null_ListUnresolved h = Some []"

definition NullAlertHistoryStore :: "unit HistoryStore" where
  "NullAlertHistoryStore =
     \<lparr>hs_Record = null_Record, hs_Resolve = null_Resolve, hs_ListUnresolved = null_ListUnresolved\<rparr>"

text \<open>The history table keeps its contract for the evaluator: after recording an event the
  rule and instance are open, resolving closes exactly that pair, listing returns exactly the open
  pairs, cleanup never touches an open alert, and a failed statement changes nothing.\<close>

theorem pg_history_contract:
  "(case pg_Record h ev of None \<Rightarrow> \<not> pg_up h
     | Some (h', i) \<Rightarrow> pg_open h' = insert (ev_RuleID ev, ev_InstanceID ev) (pg_open h)) \<and>
   (case pg_Resolve h r inst t of None \<Rightarrow> \<not> pg_up h
     | Some h' \<Rightarrow> pg_open h' = pg_open h - {(r, inst)}) \<and>
   (case pg_ListUnresolved h of None \<Rightarrow> \<not> pg_up h
     | Some evs \<Rightarrow> (\<lambda>ev. (ev_RuleID ev, ev_InstanceID ev)) ` set evs = pg_open h) \<and>
   (case pg_Cleanup now h d of None \<Rightarrow> \<not> pg_up h | Some (h', n) \<Rightarrow> pg_open h' = pg_open h)"
proof (intro conjI)
  show "case pg_Record h ev of None \<Rightarrow> \<not> pg_up h
     | Some (h', i) \<Rightarrow> pg_open h' = insert (ev_RuleID ev, ev_InstanceID ev) (pg_open h)"
    using pg.open_Record [of h ev]
    by (auto simp: PGAlertHistoryStore_def pg_Record_def split: option.splits if_splits)
  show "case pg_Resolve h r inst t of None \<Rightarrow> \<not> pg_up h | Some h' \<Rightarrow> pg_open h' = pg_open h - {(r, inst)}"
    using pg.open_Resolve [of h r inst t]
    by (auto simp: PGAlertHistoryStore_def pg_Resolve_def split: option.splits if_splits)
  show "case pg_ListUnresolved h of None \<Rightarrow> \<not> pg_up h
     | Some evs \<Rightarrow> (\<lambda>ev. (ev_RuleID ev, ev_InstanceID ev)) ` set evs = pg_open h"
    by (simp add: pg_ListUnresolved_def pg_open_def del: set_filter)
  show "case pg_Cleanup now h d of None \<Rightarrow> \<not> pg_up h | Some (h', n) \<Rightarrow> pg_open h' = pg_open h"
    using pg_open_Cleanup [of now h d]
    by (auto simp: pg_Cleanup_def Let_def split: option.splits if_splits)
qed

end
