(* ===== verification/AlertEval.thy ===== *)
theory AlertEval
  imports AlertModel
begin

section \<open>The alert evaluator (\<open>internal/alert/evaluator.go\<close>)\<close>

text \<open>
  The evaluator's in-memory state is the record \<open>Evaluator\<close>; \<open>state\<close> and \<open>forecastCooldown\<close>
  are looked up by key only, so they are partial functions. The history store is a parameter
  (its operations and its state are threaded through), the clock is an argument (\<open>now\<close> for a
  batch, \<open>clock inst\<close> for the reading of \<open>runForecastAlerts\<close> on one instance), and the
  forecast provider is an optional function. Logging has no effect on the result and is left out.
\<close>

datatype forecast_error = ErrNotBootstrapped | ErrNoBaseline | ForecastOther string

type_synonym ForecastProvider = "string \<Rightarrow> string \<Rightarrow> int \<Rightarrow> forecast_error + ForecastPoint list"

record Evaluator =
  e_rules :: "Rule list"
  e_state :: "string \<rightharpoonup> stateEntry"
  e_forecastProvider :: "ForecastProvider option"
  e_forecastMinConsecutive :: int
  e_forecastCooldown :: "string \<rightharpoonup> time"

definition NewEvaluator :: Evaluator where
  "NewEvaluator = \<lparr>e_rules = [], e_state = Map.empty, e_forecastProvider = None,
     e_forecastMinConsecutive = 0, e_forecastCooldown = Map.empty\<rparr>"

text \<open>\<open>ListEnabled\<close> of the rule store either fails or gives the enabled rules.\<close>

definition LoadRules :: "string + Rule list \<Rightarrow> Evaluator \<Rightarrow> string + Evaluator" where
  "LoadRules listed e = (case listed of Inl err \<Rightarrow> Inl err | Inr rules \<Rightarrow> Inr (e\<lparr>e_rules := rules\<rparr>))"

definition SetForecastProvider :: "ForecastProvider option \<Rightarrow> int \<Rightarrow> Evaluator \<Rightarrow> Evaluator" where
  "SetForecastProvider fp minConsecutive e =
     e\<lparr>e_forecastProvider := fp, e_forecastMinConsecutive := minConsecutive\<rparr>"

definition stateKey :: "string \<Rightarrow> string \<Rightarrow> string" where
  "stateKey ruleID instanceID = ruleID @ '':'' @ instanceID"

definition label_suffix :: "labels \<Rightarrow> string" where
  "label_suffix ls = concat (map (\<lambda>k. '':'' @ k @ ''='' @ label_get ls k) (sort (keys_of ls)))"

definition stateKeyWithLabels :: "string \<Rightarrow> string \<Rightarrow> labels \<Rightarrow> string" where
  "stateKeyWithLabels ruleID instanceID ls =
     (if ls \<noteq> [] then (ruleID @ '':'' @ instanceID) @ label_suffix ls else ruleID @ '':'' @ instanceID)"

definition restored_entry :: "AlertEvent \<Rightarrow> stateEntry" where
  "restored_entry ev = \<lparr>se_State = StateFiring, se_ConsecutiveCount = 0, se_FiredAt = ev_FiredAt ev,
     se_LastNotifiedAt = ev_FiredAt ev, se_Severity = ev_Severity ev\<rparr>"

definition restore_event :: "AlertEvent \<Rightarrow> (string \<rightharpoonup> stateEntry) \<Rightarrow> (string \<rightharpoonup> stateEntry)" where
  "restore_event ev st = st(stateKey (ev_RuleID ev) (ev_InstanceID ev) \<mapsto> restored_entry ev)"

definition RestoreState :: "'h HistoryStore \<Rightarrow> 'h \<Rightarrow> Evaluator \<Rightarrow> Evaluator option" where
  "RestoreState hs h e =
     (case hs_ListUnresolved hs h of None \<Rightarrow> None
      | Some events \<Rightarrow> Some (e\<lparr>e_state := fold restore_event events (e_state e)\<rparr>))"

subsection \<open>Matching points to rules\<close>

definition indexPoints :: "MetricPoint list \<Rightarrow> (string \<rightharpoonup> MetricPoint list)" where
  "indexPoints points =
     fold (\<lambda>p index. index(mp_Metric p \<mapsto> (case index (mp_Metric p) of None \<Rightarrow> [] | Some ps \<Rightarrow> ps) @ [p]))
       points Map.empty"

definition labelsMatch :: "labels \<Rightarrow> labels \<Rightarrow> bool" where
  "labelsMatch required actual \<longleftrightarrow> list_all (\<lambda>(k, v). label_get actual k = v) required"

definition findMatchingPoints :: "(string \<rightharpoonup> MetricPoint list) \<Rightarrow> Rule \<Rightarrow> MetricPoint list" where
  "findMatchingPoints index rule =
     (case index (r_Metric rule) of None \<Rightarrow> []
      | Some candidates \<Rightarrow>
          if r_Labels rule = [] then candidates
          else filter (\<lambda>pt. labelsMatch (r_Labels rule) (mp_Labels pt)) candidates)"

fun unique_loop :: "MetricPoint list \<Rightarrow> string list \<Rightarrow> string list" where
  "unique_loop [] ids = ids"
| "unique_loop (p # ps) ids =
     (if mp_InstanceID p \<notin> set ids then unique_loop ps (ids @ [mp_InstanceID p]) else unique_loop ps ids)"

definition uniqueInstances :: "MetricPoint list \<Rightarrow> string list" where
  "uniqueInstances points = unique_loop points []"

subsection \<open>The state machine of one rule on one instance\<close>

definition fireAlert :: "Rule \<Rightarrow> MetricPoint \<Rightarrow> stateEntry \<Rightarrow> time \<Rightarrow> stateEntry \<times> AlertEvent option" where
  "fireAlert rule pt entry now =
     (entry\<lparr>se_State := StateFiring, se_FiredAt := now, se_LastNotifiedAt := now\<rparr>,
      Some \<lparr>ev_ID = 0, ev_RuleID = r_ID rule, ev_RuleName = r_Name rule, ev_InstanceID = mp_InstanceID pt,
        ev_Severity = r_Severity rule, ev_Value = mp_Value pt, ev_Threshold = r_Threshold rule,
        ev_Operator = r_Operator rule, ev_Metric = r_Metric rule, ev_Labels = mp_Labels pt,
        ev_Channels = r_Channels rule, ev_FiredAt = now, ev_ResolvedAt = None,
        ev_IsResolution = False, ev_Recommendations = []\<rparr>)"

definition resolveAlert :: "Rule \<Rightarrow> MetricPoint \<Rightarrow> stateEntry \<Rightarrow> time \<Rightarrow> stateEntry \<times> AlertEvent option" where
  "resolveAlert rule pt entry now =
     (entry\<lparr>se_State := StateOK, se_ConsecutiveCount := 0\<rparr>,
      Some \<lparr>ev_ID = 0, ev_RuleID = r_ID rule, ev_RuleName = r_Name rule, ev_InstanceID = mp_InstanceID pt,
        ev_Severity = r_Severity rule, ev_Value = mp_Value pt, ev_Threshold = r_Threshold rule,
        ev_Operator = r_Operator rule, ev_Metric = r_Metric rule, ev_Labels = mp_Labels pt,
        ev_Channels = r_Channels rule, ev_FiredAt = se_FiredAt entry, ev_ResolvedAt = Some now,
        ev_IsResolution = True, ev_Recommendations = []\<rparr>)"

definition processTransition :: "Rule \<Rightarrow> MetricPoint \<Rightarrow> stateEntry \<Rightarrow> bool \<Rightarrow> time \<Rightarrow> stateEntry \<times> AlertEvent option" where
  "processTransition rule pt entry breached now =
     (case se_State entry of
        StateOK \<Rightarrow>
          if breached then
            let entry' = entry\<lparr>se_State := StatePending, se_ConsecutiveCount := 1, se_Severity := r_Severity rule\<rparr> in
            if r_ConsecutiveCount rule \<le> 1 then fireAlert rule pt entry' now else (entry', None)
          else (entry, None)
      | StatePending \<Rightarrow>
          if breached then
            let entry' = entry\<lparr>se_ConsecutiveCount := se_ConsecutiveCount entry + 1\<rparr> in
            if se_ConsecutiveCount entry' \<ge> r_ConsecutiveCount rule then fireAlert rule pt entry' now
            else (entry', None)
          else (entry\<lparr>se_State := StateOK, se_ConsecutiveCount := 0\<rparr>, None)
      | StateFiring \<Rightarrow>
          if \<not> breached then resolveAlert rule pt entry now else (entry, None))"

definition recordEvent :: "'h HistoryStore \<Rightarrow> 'h \<Rightarrow> AlertEvent \<Rightarrow> ('h \<times> AlertEvent) option" where
  "recordEvent hs h ev =
     (if ev_IsResolution ev
      then map_option (\<lambda>h'. (h', ev)) (hs_Resolve hs h (ev_RuleID ev) (ev_InstanceID ev) (the (ev_ResolvedAt ev)))
      else map_option (\<lambda>(h', i). (h', ev\<lparr>ev_ID := i\<rparr>)) (hs_Record hs h ev))"

subsection \<open>One batch\<close>

type_synonym 'h eval_state = "(string \<rightharpoonup> stateEntry) \<times> 'h \<times> AlertEvent list"

definition rule_key :: "Rule \<Rightarrow> string \<Rightarrow> string" where
  "rule_key rule inst = stateKeyWithLabels (r_ID rule) inst (r_Labels rule)"

text \<open>The body of the loop over the matched points.\<close>

definition evaluate_point :: "'h HistoryStore \<Rightarrow> time \<Rightarrow> Rule \<Rightarrow> MetricPoint \<Rightarrow> 'h eval_state \<Rightarrow> 'h eval_state" where
  "evaluate_point hs now rule pt = (\<lambda>(st, h, events).
     let key = rule_key rule (mp_InstanceID pt);
         breached = Compare (r_Operator rule) (mp_Value pt) (r_Threshold rule);
         entry = (case st key of None \<Rightarrow> new_entry | Some en \<Rightarrow> en);
         (entry', event) = processTransition rule pt entry breached now;
         st' = st(key \<mapsto> entry')
     in case event of None \<Rightarrow> (st', h, events)
        | Some ev \<Rightarrow> (case recordEvent hs h ev of None \<Rightarrow> (st', h, events)
                      | Some (h', ev') \<Rightarrow> (st', h', events @ [ev'])))"

definition evaluate_rules :: "'h HistoryStore \<Rightarrow> time \<Rightarrow> Rule list \<Rightarrow> MetricPoint list \<Rightarrow> 'h eval_state \<Rightarrow> 'h eval_state" where
  "evaluate_rules hs now rules points s =
     fold (\<lambda>rule. fold (evaluate_point hs now rule) (findMatchingPoints (indexPoints points) rule)) rules s"

subsection \<open>Forecast alerts\<close>

fun forecast_scan :: "Rule \<Rightarrow> int \<Rightarrow> int \<Rightarrow> ForecastPoint list \<Rightarrow> float64 option" where
  "forecast_scan rule required consecutive [] = None"
| "forecast_scan rule required consecutive (pt # pts) =
     (let val = (if r_UseLowerBound rule then fp_Lower pt else fp_Value pt) in
      if Compare (r_Operator rule) val (r_Threshold rule) then
        if consecutive + 1 \<ge> required then Some val
        else forecast_scan rule required (consecutive + 1) pts
      else forecast_scan rule required 0 pts)"

definition forecast_key :: "string \<Rightarrow> Rule \<Rightarrow> string" where
  "forecast_key instanceID rule = ''forecast:'' @ instanceID @ '':'' @ r_Metric rule @ '':'' @ r_ID rule"

definition forecast_event :: "Rule \<Rightarrow> string \<Rightarrow> float64 \<Rightarrow> time \<Rightarrow> AlertEvent" where
  "forecast_event rule instanceID val now =
     \<lparr>ev_ID = 0, ev_RuleID = r_ID rule, ev_RuleName = r_Name rule, ev_InstanceID = instanceID,
      ev_Severity = r_Severity rule, ev_Value = val, ev_Threshold = r_Threshold rule,
      ev_Operator = r_Operator rule, ev_Metric = r_Metric rule, ev_Labels = [],
      ev_Channels = r_Channels rule, ev_FiredAt = now, ev_ResolvedAt = None,
      ev_IsResolution = False, ev_Recommendations = []\<rparr>"

definition forecast_cooldown :: "Rule \<Rightarrow> duration" where
  "forecast_cooldown rule =
     (let d = r_CooldownMinutes rule * Minute in if d \<le> 0 then 15 * Minute else d)"

definition forecast_required :: "int \<Rightarrow> Rule \<Rightarrow> int" where
  "forecast_required minConsecutive rule =
     (if r_ConsecutivePointsRequired rule \<le> 0 then minConsecutive else r_ConsecutivePointsRequired rule)"

text \<open>The body of the loop over the forecast rules; a failure to record is only logged.\<close>

definition forecast_rule :: "'h HistoryStore \<Rightarrow> ForecastProvider \<Rightarrow> int \<Rightarrow> string \<Rightarrow> time \<Rightarrow> Rule \<Rightarrow>
    (string \<rightharpoonup> time) \<times> 'h \<Rightarrow> (string \<rightharpoonup> time) \<times> 'h" where
  "forecast_rule hs fp minConsecutive instanceID now rule = (\<lambda>(cool, h).
     let required = forecast_required minConsecutive rule in
     case fp instanceID (r_Metric rule) (required + 4) of Inl err \<Rightarrow> (cool, h)
     | Inr points \<Rightarrow>
         (let key = forecast_key instanceID rule in
          if (case cool key of None \<Rightarrow> False | Some expiry \<Rightarrow> now < expiry) then (cool, h)
          else case forecast_scan rule required 0 points of None \<Rightarrow> (cool, h)
          | Some val \<Rightarrow>
              (cool(key \<mapsto> now + forecast_cooldown rule),
               case recordEvent hs h (forecast_event rule instanceID val now) of
                 None \<Rightarrow> h | Some (h', ev) \<Rightarrow> h')))"

definition runForecastAlerts :: "'h HistoryStore \<Rightarrow> (string \<Rightarrow> time) \<Rightarrow> string \<Rightarrow> Evaluator \<times> 'h \<Rightarrow> Evaluator \<times> 'h" where
  "runForecastAlerts hs clock instanceID = (\<lambda>(e, h).
     case e_forecastProvider e of None \<Rightarrow> (e, h)
     | Some fp \<Rightarrow>
         (let rules = filter (\<lambda>r. r_Type r = RuleTypeForecastThreshold) (e_rules e);
              (cool, h') = fold (forecast_rule hs fp (e_forecastMinConsecutive e) instanceID (clock instanceID))
                              rules (e_forecastCooldown e, h)
          in (e\<lparr>e_forecastCooldown := cool\<rparr>, h')))"

definition Evaluate :: "'h HistoryStore \<Rightarrow> time \<Rightarrow> (string \<Rightarrow> time) \<Rightarrow> MetricPoint list \<Rightarrow> Evaluator \<times> 'h \<Rightarrow>
    (Evaluator \<times> 'h) \<times> AlertEvent list" where
  "Evaluate hs now clock points = (\<lambda>(e, h).
     if e_rules e = [] \<or> points = [] then ((e, h), [])
     else let (st, h', events) = evaluate_rules hs now (e_rules e) points (e_state e, h, [])
          in (fold (runForecastAlerts hs clock) (uniqueInstances points) (e\<lparr>e_state := st\<rparr>, h'), events))"

text \<open>\<open>runCleanup\<close> asks the store to delete old events; \<open>StartCleanup\<close> fixes the retention.\<close>

definition cleanup_retention :: "int \<Rightarrow> duration" where
  "cleanup_retention retentionDays = (if retentionDays \<le> 0 then 30 else retentionDays) * 24 * Hour"

definition runCleanup :: "time \<Rightarrow> duration \<Rightarrow> PGHistory \<Rightarrow> PGHistory" where
  "runCleanup now retention h = (case pg_Cleanup now h retention of None \<Rightarrow> h | Some (h', deleted) \<Rightarrow> h')"

text \<open>The adapter for single values (\<open>adapter.go\<close>): a one-element batch without an instance id.\<close>

definition adapter_Evaluate :: "'h HistoryStore \<Rightarrow> time \<Rightarrow> (string \<Rightarrow> time) \<Rightarrow> string \<Rightarrow> float64 \<Rightarrow> labels \<Rightarrow>
    Evaluator \<times> 'h \<Rightarrow> Evaluator \<times> 'h" where
  "adapter_Evaluate hs now clock metric value ls s =
     fst (Evaluate hs now clock [\<lparr>mp_InstanceID = '''', mp_Metric = metric, mp_Value = value,
       mp_Labels = ls, mp_Timestamp = now\<rparr>] s)"

end
