(* ===== verification/AlertLaws.thy ===== *)
theory AlertLaws
  imports AlertEval
begin

section \<open>Laws of the alert evaluator\<close>

text \<open>
  The state machine of one rule on one instance against its specification (the length of the
  trailing run of breaches), the batch evaluation as independent runs of these machines, the
  agreement of the in-memory state with the alert history, restart, and forecast alerts.
\<close>

subsection \<open>One rule on one instance: the trailing run of breaches\<close>

definition trailing :: "bool list \<Rightarrow> nat" where
  "trailing bs = length (takeWhile id (rev bs))"

lemma trailing_simps [simp]:
  "trailing [] = 0" "trailing (bs @ [True]) = Suc (trailing bs)" "trailing (bs @ [False]) = 0"
  by (simp_all add: trailing_def)

text \<open>What the state must be after \<open>k\<close> consecutive breaches, for a rule that asks for \<open>n\<close>.\<close>

definition state_after :: "int \<Rightarrow> nat \<Rightarrow> AlertState" where
  "state_after n k = (if k = 0 then StateOK else if int k < max 1 n then StatePending else StateFiring)"

type_synonym transition = "bool \<times> MetricPoint \<times> time"

fun run_transitions :: "Rule \<Rightarrow> transition list \<Rightarrow> stateEntry \<Rightarrow> stateEntry \<times> AlertEvent list" where
  "run_transitions rule [] entry = (entry, [])"
| "run_transitions rule ((b, pt, now) # ts) entry =
     (let (entry', event) = processTransition rule pt entry b now;
          (entry'', events) = run_transitions rule ts entry'
      in (entry'', (case event of None \<Rightarrow> [] | Some ev \<Rightarrow> [ev]) @ events))"

lemma run_transitions_append:
  "run_transitions rule (ts @ us) entry =
     (let (entry', evs) = run_transitions rule ts entry; (entry'', evs') = run_transitions rule us entry'
      in (entry'', evs @ evs'))"
  by (induction rule ts entry rule: run_transitions.induct) (auto split: prod.splits option.splits)

lemmas transition_defs = processTransition_def fireAlert_def resolveAlert_def

definition entry_inv :: "int \<Rightarrow> nat \<Rightarrow> stateEntry \<Rightarrow> bool" where
  "entry_inv n k entry \<longleftrightarrow> se_State entry = state_after n k \<and>
     (se_State entry = StatePending \<longrightarrow> se_ConsecutiveCount entry = int k)"

lemma entry_inv_new: "entry_inv n 0 new_entry"
  by (simp add: entry_inv_def new_entry_def state_after_def)

lemma entry_inv_step:
  assumes "entry_inv (r_ConsecutiveCount rule) k entry"
  shows "entry_inv (r_ConsecutiveCount rule) (if b then Suc k else 0)
    (fst (processTransition rule pt entry b now))"
  using assms
  by (cases "se_State entry")
    (auto simp: entry_inv_def state_after_def transition_defs Let_def split: if_splits)

lemma run_transitions_inv:
  "entry_inv (r_ConsecutiveCount rule) (trailing (map fst ts)) (fst (run_transitions rule ts new_entry))"
proof (induction ts rule: rev_induct)
  case Nil
  then show ?case by (simp add: entry_inv_new)
next
  case (snoc t ts)
  obtain b pt now where t: "t = (b, pt, now)" by (cases t)
  obtain entry evs where r: "run_transitions rule ts new_entry = (entry, evs)" by fastforce
  have "trailing (map fst (ts @ [t])) = (if b then Suc (trailing (map fst ts)) else 0)"
    by (cases b) (simp_all add: t)
  moreover have "fst (run_transitions rule (ts @ [t]) new_entry) = fst (processTransition rule pt entry b now)"
    by (simp add: run_transitions_append r t split: prod.splits)
  ultimately show ?case using entry_inv_step [of rule] snoc r by simp
qed

text \<open>C1: Starting fresh, the state of a rule on an instance after any sequence of evaluations
  depends only on the number of breaches since the last non-breach: OK after none, pending while
  it is below the rule's consecutive count, firing once it reaches it (a count below 1 acts as 1).\<close>

theorem alert_state_trailing_run:
  "se_State (fst (run_transitions rule ts new_entry)) =
     state_after (r_ConsecutiveCount rule) (trailing (map fst ts))"
  using run_transitions_inv by (simp add: entry_inv_def)

subsection \<open>The events of one rule on one instance\<close>

definition events_inv :: "stateEntry \<Rightarrow> AlertEvent list \<Rightarrow> bool" where
  "events_inv entry evs \<longleftrightarrow>
     (se_State entry = StateFiring \<longleftrightarrow> odd (length evs)) \<and>
     (\<forall>i < length evs. ev_IsResolution (evs ! i) = odd i \<and>
        (odd i \<longrightarrow> ev_FiredAt (evs ! i) = ev_FiredAt (evs ! (i - 1)))) \<and>
     (se_State entry = StateFiring \<longrightarrow> se_FiredAt entry = ev_FiredAt (last evs))"

lemma events_inv_step:
  assumes "events_inv entry evs" "processTransition rule pt entry b now = (entry', event)"
  shows "events_inv entry' (evs @ (case event of None \<Rightarrow> [] | Some ev \<Rightarrow> [ev]))"
proof (cases event)
  case None
  then show ?thesis
    using assms by (cases "se_State entry") (auto simp: events_inv_def transition_defs Let_def split: if_splits)
next
  case (Some ev)
  let ?n = "length evs"
  have ev: "ev_IsResolution ev = odd ?n" "odd ?n \<Longrightarrow> ev_FiredAt ev = ev_FiredAt (last evs)"
    "se_State entry' = StateFiring \<longleftrightarrow> even ?n" "se_State entry' = StateFiring \<Longrightarrow> se_FiredAt entry' = ev_FiredAt ev"
    using assms Some
    by (cases "se_State entry"; auto simp: events_inv_def transition_defs Let_def split: if_splits)+
  have "ev_IsResolution ((evs @ [ev]) ! i) = odd i \<and>
      (odd i \<longrightarrow> ev_FiredAt ((evs @ [ev]) ! i) = ev_FiredAt ((evs @ [ev]) ! (i - 1)))" if "i < Suc ?n" for i
  proof (cases "i = ?n")
    case True
    have "odd ?n \<Longrightarrow> (evs @ [ev]) ! (?n - 1) = last evs"
      by (cases evs rule: rev_cases) (auto simp: nth_append)
    then show ?thesis using True ev(1,2) by simp
  next
    case False
    then have "i < ?n" "i - 1 < ?n" using that by auto
    then show ?thesis using assms(1) by (simp add: events_inv_def nth_append)
  qed
  then show ?thesis using ev(3,4) Some by (simp add: events_inv_def)
qed

lemma run_transitions_events: "events_inv entry evs \<Longrightarrow>
  events_inv (fst (run_transitions rule ts entry)) (evs @ snd (run_transitions rule ts entry))"
proof (induction rule ts entry arbitrary: evs rule: run_transitions.induct)
  case (2 rule b pt now ts entry)
  obtain entry' event where p: "processTransition rule pt entry b now = (entry', event)" by fastforce
  show ?case
    using "2.IH" [OF p [symmetric] refl events_inv_step [OF "2.prems" p]] p
    by (cases "run_transitions rule ts entry'") simp
qed simp

text \<open>C2: The events of a rule on an instance alternate, a fire event first: no alert fires twice
  without a resolution in between and none is resolved that did not fire; each resolution carries
  the firing time of the fire event before it; and the alert is firing exactly when the number of
  events is odd.\<close>

theorem alert_events_alternate:
  "(let (entry, evs) = run_transitions rule ts new_entry in
     (se_State entry = StateFiring \<longleftrightarrow> odd (length evs)) \<and>
     (\<forall>i < length evs. ev_IsResolution (evs ! i) = odd i \<and>
        (if odd i then ev_FiredAt (evs ! i) = ev_FiredAt (evs ! (i - 1)) else ev_ResolvedAt (evs ! i) = None)))"
proof -
  have start: "events_inv new_entry []" by (simp add: events_inv_def new_entry_def)
  have none: "\<forall>ev \<in> set (snd (run_transitions rule ts entry)). \<not> ev_IsResolution ev \<longrightarrow> ev_ResolvedAt ev = None" for entry
  proof (induction rule ts entry rule: run_transitions.induct)
    case (2 rule b pt now ts entry)
    obtain entry' event where p: "processTransition rule pt entry b now = (entry', event)" by fastforce
    have "event = Some ev \<Longrightarrow> \<not> ev_IsResolution ev \<Longrightarrow> ev_ResolvedAt ev = None" for ev
      using p by (auto simp: transition_defs Let_def split: AlertState.splits if_splits)
    then show ?case using "2.IH" [OF p [symmetric] refl] p by (auto split: prod.splits option.splits)
  qed simp
  show ?thesis
    using run_transitions_events [OF start, of rule ts] none [of new_entry]
    by (auto simp: events_inv_def split: prod.splits)
qed

subsection \<open>A batch is one run per rule and instance\<close>

lemma indexPoints_lookup:
  "indexPoints points m = (let ps = filter (\<lambda>p. mp_Metric p = m) points in if ps = [] then None else Some ps)"
proof -
  let ?step = "\<lambda>p index. index(mp_Metric p \<mapsto> (case index (mp_Metric p) of None \<Rightarrow> [] | Some ps \<Rightarrow> ps) @ [p])"
  have "fold ?step points index m =
      (let ps = filter (\<lambda>p. mp_Metric p = m) points in
       if ps = [] then index m else Some ((case index m of None \<Rightarrow> [] | Some qs \<Rightarrow> qs) @ ps))" for index
    by (induction points arbitrary: index) (auto simp: Let_def)
  then show ?thesis by (simp add: indexPoints_def Let_def)
qed

definition rule_points :: "Rule \<Rightarrow> MetricPoint list \<Rightarrow> MetricPoint list" where
  "rule_points rule points =
     filter (\<lambda>p. mp_Metric p = r_Metric rule \<and> labelsMatch (r_Labels rule) (mp_Labels p)) points"

lemma findMatchingPoints_eq: "findMatchingPoints (indexPoints points) rule = rule_points rule points"
proof -
  let ?ps = "filter (\<lambda>p. mp_Metric p = r_Metric rule) points"
  have conj: "rule_points rule points = filter (\<lambda>p. labelsMatch (r_Labels rule) (mp_Labels p)) ?ps"
    by (simp add: rule_points_def conj_commute)
  show ?thesis
  proof (cases "?ps = []")
    case True
    then show ?thesis by (simp add: findMatchingPoints_def indexPoints_lookup Let_def conj)
  next
    case False
    moreover have "r_Labels rule = [] \<Longrightarrow> rule_points rule points = ?ps"
      by (simp add: rule_points_def labelsMatch_def)
    ultimately show ?thesis
      by (auto simp: findMatchingPoints_def indexPoints_lookup Let_def conj simp del: filter_filter)
  qed
qed

definition entry_of :: "(string \<rightharpoonup> stateEntry) \<Rightarrow> string \<Rightarrow> stateEntry" where
  "entry_of st key = (case st key of None \<Rightarrow> new_entry | Some en \<Rightarrow> en)"

definition breach :: "Rule \<Rightarrow> MetricPoint \<Rightarrow> bool" where
  "breach rule pt = Compare (r_Operator rule) (mp_Value pt) (r_Threshold rule)"

definition rule_step :: "time \<Rightarrow> Rule \<Rightarrow> MetricPoint \<Rightarrow> (string \<rightharpoonup> stateEntry) \<Rightarrow> stateEntry \<times> AlertEvent option" where
  "rule_step now rule pt st =
     processTransition rule pt (entry_of st (rule_key rule (mp_InstanceID pt))) (breach rule pt) now"

lemma evaluate_point_eq:
  "evaluate_point hs now rule pt (st, h, events) =
     (let (entry', event) = rule_step now rule pt st; st' = st(rule_key rule (mp_InstanceID pt) \<mapsto> entry')
      in case event of None \<Rightarrow> (st', h, events)
         | Some ev \<Rightarrow> (case recordEvent hs h ev of None \<Rightarrow> (st', h, events)
                       | Some (h', ev') \<Rightarrow> (st', h', events @ [ev'])))"
  by (simp add: evaluate_point_def rule_step_def entry_of_def breach_def Let_def)

lemma evaluate_point_state:
  "fst (evaluate_point hs now rule pt s) =
     (fst s)(rule_key rule (mp_InstanceID pt) \<mapsto> fst (rule_step now rule pt (fst s)))"
  by (cases s) (auto simp: evaluate_point_eq Let_def split: prod.splits option.splits)

text \<open>The key of a rule and an instance is unambiguous when rule ids contain no colon.\<close>

definition wf_rules :: "Rule list \<Rightarrow> bool" where
  "wf_rules rules \<longleftrightarrow> distinct (map r_ID rules) \<and> (\<forall>r \<in> set rules. CHR '':'' \<notin> set (r_ID r))"

lemma rule_key_shape: "rule_key rule i = r_ID rule @ CHR '':'' # i @ label_suffix (r_Labels rule)"
  by (simp add: rule_key_def stateKeyWithLabels_def label_suffix_def)

lemma rule_key_same [simp]: "rule_key rule i = rule_key rule i' \<longleftrightarrow> i = i'"
  by (simp add: rule_key_shape)

lemma rule_key_neq:
  assumes "CHR '':'' \<notin> set (r_ID r)" "CHR '':'' \<notin> set (r_ID r')" "r_ID r \<noteq> r_ID r'"
  shows "rule_key r i \<noteq> rule_key r' i'"
  using append_sep_inject(1) [OF _ assms(1,2)] assms(3) by (auto simp: rule_key_shape)

lemma wf_rules_id_eq: "wf_rules rules \<Longrightarrow> r \<in> set rules \<Longrightarrow> r' \<in> set rules \<Longrightarrow> r_ID r = r_ID r' \<Longrightarrow> r = r'"
  by (auto simp: wf_rules_def distinct_map dest: inj_onD)

lemma wf_rules_key_neq:
  "wf_rules rules \<Longrightarrow> r \<in> set rules \<Longrightarrow> r' \<in> set rules \<Longrightarrow> r \<noteq> r' \<Longrightarrow> rule_key r i \<noteq> rule_key r' i'"
  using wf_rules_id_eq by (intro rule_key_neq) (auto simp: wf_rules_def)

definition batch_steps :: "Rule \<Rightarrow> time \<Rightarrow> string \<Rightarrow> MetricPoint list \<Rightarrow> transition list" where
  "batch_steps rule now i points =
     map (\<lambda>pt. (breach rule pt, pt, now)) (filter (\<lambda>pt. mp_InstanceID pt = i) points)"

lemma entry_of_upd [simp]: "entry_of (st(k \<mapsto> en)) k' = (if k' = k then en else entry_of st k')"
  by (simp add: entry_of_def)

lemma fold_points_own_key:
  "entry_of (fst (fold (evaluate_point hs now rule) pts s)) (rule_key rule i) =
     fst (run_transitions rule (batch_steps rule now i pts) (entry_of (fst s) (rule_key rule i)))"
proof (induction pts arbitrary: s)
  case (Cons pt pts)
  let ?st = "fst (evaluate_point hs now rule pt s)"
  let ?k = "rule_key rule i"
  have IH: "entry_of (fst (fold (evaluate_point hs now rule) (pt # pts) s)) ?k =
      fst (run_transitions rule (batch_steps rule now i pts) (entry_of ?st ?k))"
    using Cons.IH [of "evaluate_point hs now rule pt s"] by simp
  show ?case
  proof (cases "mp_InstanceID pt = i")
    case True
    then have "entry_of ?st ?k = fst (processTransition rule pt (entry_of (fst s) ?k) (breach rule pt) now)"
      by (simp only: evaluate_point_state entry_of_upd rule_step_def simp_thms if_True)
    then show ?thesis
      unfolding IH using True by (simp add: batch_steps_def split: prod.splits)
  next
    case False
    then have "entry_of ?st ?k = entry_of (fst s) ?k"
      by (simp only: evaluate_point_state entry_of_upd rule_key_same if_False) simp
    then show ?thesis
      unfolding IH using False by (simp add: batch_steps_def)
  qed
qed (simp add: batch_steps_def)

lemma fold_points_other_key:
  "(\<And>i. key \<noteq> rule_key rule i) \<Longrightarrow> fst (fold (evaluate_point hs now rule) pts s) key = fst s key"
  by (induction pts arbitrary: s) (auto simp: evaluate_point_state)

lemma evaluate_rules_other:
  "wf_rules (rule # rules) \<Longrightarrow>
   fst (evaluate_rules hs now rules points s) (rule_key rule i) = fst s (rule_key rule i)"
proof (induction rules arbitrary: s)
  case (Cons r rules)
  have wf: "wf_rules (rule # rules)" using Cons.prems by (auto simp: wf_rules_def)
  have "rule_key rule i \<noteq> rule_key r i'" for i'
    using Cons.prems by (intro wf_rules_key_neq [OF Cons.prems]) (auto simp: wf_rules_def)
  then show ?case
    using Cons.IH [OF wf] by (simp add: evaluate_rules_def fold_points_other_key)
qed (simp add: evaluate_rules_def)

lemma wf_rules_append: "wf_rules (rs @ rule # rs') \<Longrightarrow> wf_rules (rule # rs) \<and> wf_rules (rule # rs')"
  by (auto simp: wf_rules_def)

lemma evaluate_rules_append:
  "evaluate_rules hs now (rs @ rs') points s = evaluate_rules hs now rs' points (evaluate_rules hs now rs points s)"
  by (simp add: evaluate_rules_def)

lemma evaluate_rules_own_key:
  assumes "wf_rules rules" "rule \<in> set rules"
  shows "entry_of (fst (evaluate_rules hs now rules points s)) (rule_key rule i) =
    fst (run_transitions rule (batch_steps rule now i (rule_points rule points)) (entry_of (fst s) (rule_key rule i)))"
proof -
  obtain rs rs' where rs: "rules = rs @ rule # rs'" using assms(2) by (meson split_list)
  note wf = wf_rules_append [OF assms(1) [unfolded rs]]
  let ?s1 = "evaluate_rules hs now rs points s"
  let ?s2 = "fold (evaluate_point hs now rule) (rule_points rule points) ?s1"
  have "evaluate_rules hs now rules points s = evaluate_rules hs now rs' points ?s2"
    by (simp add: rs evaluate_rules_append) (simp add: evaluate_rules_def findMatchingPoints_eq)
  moreover have "entry_of (fst (evaluate_rules hs now rs' points ?s2)) (rule_key rule i) = entry_of (fst ?s2) (rule_key rule i)"
    unfolding entry_of_def by (simp only: evaluate_rules_other [OF conjunct2 [OF wf]])
  moreover have "entry_of (fst ?s1) (rule_key rule i) = entry_of (fst s) (rule_key rule i)"
    unfolding entry_of_def by (simp only: evaluate_rules_other [OF conjunct1 [OF wf]])
  ultimately show ?thesis by (simp only: fold_points_own_key)
qed

lemma runForecastAlerts_state: "e_state (fst (runForecastAlerts hs clock i s)) = e_state (fst s)
    \<and> e_rules (fst (runForecastAlerts hs clock i s)) = e_rules (fst s)"
  by (cases s) (auto simp: runForecastAlerts_def Let_def split: option.splits prod.splits)

lemma fold_runForecastAlerts_state:
  "e_state (fst (fold (runForecastAlerts hs clock) is s)) = e_state (fst s) \<and>
   e_rules (fst (fold (runForecastAlerts hs clock) is s)) = e_rules (fst s)"
  by (induction "is" arbitrary: s) (auto simp: runForecastAlerts_state)

lemma Evaluate_state:
  assumes "Evaluate hs now clock points (e, h) = ((e', h'), events)" "wf_rules (e_rules e)" "rule \<in> set (e_rules e)"
  shows "entry_of (e_state e') (rule_key rule i) =
    fst (run_transitions rule (batch_steps rule now i (rule_points rule points)) (entry_of (e_state e) (rule_key rule i)))"
proof (cases "points = []")
  case True
  then show ?thesis using assms(1) by (auto simp: Evaluate_def rule_points_def batch_steps_def)
next
  case False
  moreover have "e_rules e \<noteq> []" using assms(3) by auto
  ultimately have "e_state e' = fst (evaluate_rules hs now (e_rules e) points (e_state e, h, []))"
    using assms(1) fold_runForecastAlerts_state [of hs clock]
    by (auto simp: Evaluate_def Let_def split: prod.splits) (metis Evaluator.select_convs(2) Evaluator.surjective Evaluator.update_convs(2) fst_conv)
  then show ?thesis
    using evaluate_rules_own_key [OF assms(2,3), of hs now points "(e_state e, h, [])" i] by simp
qed

text \<open>C3: A batch is evaluated independently for every rule and instance: when rule ids are
  distinct and contain no colon, the state of rule \<open>rule\<close> on instance \<open>i\<close> after
  \<open>Evaluate\<close> is the run of that one state machine over the points of the batch that belong to
  the instance and match the rule's metric and labels, in batch order; neither the other rules,
  the other instances, the forecasts nor failures of the history store influence it.\<close>

theorem evaluate_batch_isolated:
  assumes "wf_rules (e_rules e)" and "rule \<in> set (e_rules e)"
  shows "entry_of (e_state (fst (fst (Evaluate hs now clock points (e, h))))) (rule_key rule i) =
    fst (run_transitions rule (batch_steps rule now i (rule_points rule points))
           (entry_of (e_state e) (rule_key rule i)))"
  using Evaluate_state [OF _ assms, of hs now clock points h] by (metis prod.collapse)

subsection \<open>The in-memory state and the history agree\<close>

definition synced :: "Rule list \<Rightarrow> (string \<rightharpoonup> stateEntry) \<Rightarrow> (string \<times> string) set \<Rightarrow> bool" where
  "synced rules st opn \<longleftrightarrow>
     (\<forall>r \<in> set rules. r_Type r \<noteq> RuleTypeForecastThreshold \<longrightarrow>
        (\<forall>i. se_State (entry_of st (rule_key r i)) = StateFiring \<longleftrightarrow> (r_ID r, i) \<in> opn)) \<and>
     fst ` opn \<subseteq> r_ID ` set rules"

lemma syncedD: "synced rules st opn \<Longrightarrow> r \<in> set rules \<Longrightarrow> r_Type r \<noteq> RuleTypeForecastThreshold \<Longrightarrow>
    se_State (entry_of st (rule_key r i)) = StateFiring \<longleftrightarrow> (r_ID r, i) \<in> opn"
  by (simp add: synced_def)

lemma processTransition_event:
  assumes "processTransition rule pt entry b now = (entry', event)"
  shows "case event of
      None \<Rightarrow> (se_State entry' = StateFiring) = (se_State entry = StateFiring)
    | Some ev \<Rightarrow> ev_RuleID ev = r_ID rule \<and> ev_InstanceID ev = mp_InstanceID pt \<and>
        (ev_IsResolution ev \<longleftrightarrow> se_State entry' \<noteq> StateFiring) \<and>
        (ev_IsResolution ev \<longrightarrow> ev_ResolvedAt ev = Some now)"
  using assms
  by (cases "se_State entry"; cases event; auto simp: transition_defs Let_def split: if_splits)

lemma synced_upd:
  assumes "synced rules st opn" "wf_rules rules" "rule \<in> set rules"
    and "opn' = (if se_State entry = StateFiring then insert (r_ID rule, i) opn else opn - {(r_ID rule, i)})
      \<or> opn' = opn \<and> (se_State entry = StateFiring) = (se_State (entry_of st (rule_key rule i)) = StateFiring)"
  shows "synced rules (st(rule_key rule i \<mapsto> entry)) opn'"
proof -
  have "(se_State (entry_of (st(rule_key rule i \<mapsto> entry)) (rule_key r j)) = StateFiring) = ((r_ID r, j) \<in> opn')"
    if r: "r \<in> set rules" "r_Type r \<noteq> RuleTypeForecastThreshold" for r j
  proof (cases "r = rule")
    case True
    then show ?thesis using assms(4) syncedD [OF assms(1) r, of j] by (auto split: if_splits)
  next
    case False
    then have "rule_key r j \<noteq> rule_key rule i" "r_ID r \<noteq> r_ID rule"
      using wf_rules_key_neq [OF assms(2) r(1) assms(3)] wf_rules_id_eq [OF assms(2) r(1) assms(3)] by auto
    then show ?thesis using assms(4) syncedD [OF assms(1) r, of j] by (auto split: if_splits)
  qed
  moreover have "fst ` opn' \<subseteq> r_ID ` set rules"
    using assms(1,3,4) by (auto simp: synced_def split: if_splits)
  ultimately show ?thesis by (simp add: synced_def)
qed

context live_history
begin

lemma recordEvent_live:
  assumes "live h" "ev_IsResolution ev \<longrightarrow> ev_ResolvedAt ev = Some t"
  obtains h' ev' where "recordEvent hs h ev = Some (h', ev')" "live h'"
    "open_alerts h' = (if ev_IsResolution ev then open_alerts h - {(ev_RuleID ev, ev_InstanceID ev)}
       else insert (ev_RuleID ev, ev_InstanceID ev) (open_alerts h))"
proof (cases "ev_IsResolution ev")
  case True
  obtain h' where "hs_Resolve hs h (ev_RuleID ev) (ev_InstanceID ev) t = Some h'" "live h'"
    using live_Resolve [OF assms(1)] by blast
  then show ?thesis using True assms(2) that open_Resolve by (simp add: recordEvent_def)
next
  case False
  obtain h' i where "hs_Record hs h ev = Some (h', i)" "live h'"
    using live_Record [OF assms(1)] by blast
  then show ?thesis using False that open_Record by (simp add: recordEvent_def)
qed

lemma evaluate_point_sync:
  assumes "synced rules (fst s) (open_alerts (fst (snd s)))" "live (fst (snd s))" "wf_rules rules" "rule \<in> set rules"
  shows "synced rules (fst (evaluate_point hs now rule pt s)) (open_alerts (fst (snd (evaluate_point hs now rule pt s))))
    \<and> live (fst (snd (evaluate_point hs now rule pt s)))"
proof -
  obtain st h evs where s: "s = (st, h, evs)" by (cases s)
  obtain entry' event where step: "rule_step now rule pt st = (entry', event)" by fastforce
  note trans = processTransition_event [OF step [unfolded rule_step_def]]
  show ?thesis
  proof (cases event)
    case None
    then show ?thesis
      using assms trans synced_upd [OF _ assms(3,4)] by (simp add: s evaluate_point_eq step)
  next
    case (Some ev)
    have res: "ev_IsResolution ev \<longrightarrow> ev_ResolvedAt ev = Some now" using trans Some by simp
    have "live h" using assms(2) s by simp
    then obtain h' ev' where rec: "recordEvent hs h ev = Some (h', ev')" "live h'"
      "open_alerts h' = (if ev_IsResolution ev then open_alerts h - {(ev_RuleID ev, ev_InstanceID ev)}
         else insert (ev_RuleID ev, ev_InstanceID ev) (open_alerts h))"
      using recordEvent_live res by blast
    then have "open_alerts h' = (if se_State entry' = StateFiring then insert (r_ID rule, mp_InstanceID pt) (open_alerts h)
        else open_alerts h - {(r_ID rule, mp_InstanceID pt)})"
      using trans Some by auto
    then show ?thesis
      using assms(1) rec synced_upd [OF _ assms(3,4)] by (simp add: s evaluate_point_eq step Some)
  qed
qed

lemma fold_point_sync:
  assumes "wf_rules rules" "rule \<in> set rules"
  shows "synced rules (fst s) (open_alerts (fst (snd s))) \<Longrightarrow> live (fst (snd s)) \<Longrightarrow>
    (let s' = fold (evaluate_point hs now rule) pts s in
     synced rules (fst s') (open_alerts (fst (snd s'))) \<and> live (fst (snd s')))"
proof (induction pts arbitrary: s)
  case (Cons pt pts)
  then show ?case using evaluate_point_sync [OF Cons.prems assms, of now pt] by simp
qed simp

lemma evaluate_rules_sync:
  assumes "wf_rules rules"
  shows "set rs \<subseteq> set rules \<Longrightarrow> synced rules (fst s) (open_alerts (fst (snd s))) \<Longrightarrow> live (fst (snd s)) \<Longrightarrow>
    (let s' = evaluate_rules hs now rs points s in
     synced rules (fst s') (open_alerts (fst (snd s'))) \<and> live (fst (snd s')))"
proof (induction rs arbitrary: s)
  case (Cons r rs)
  then show ?case
    using fold_point_sync [OF assms, of r s now "findMatchingPoints (indexPoints points) r"]
    by (simp add: evaluate_rules_def Let_def)
qed (simp add: evaluate_rules_def)

text \<open>A forecast alert opens an entry of a forecast rule only.\<close>

lemma forecast_rule_sync:
  assumes "synced rules st (open_alerts (snd s))" "live (snd s)" "wf_rules rules" "rule \<in> set rules"
    "r_Type rule = RuleTypeForecastThreshold"
  shows "synced rules st (open_alerts (snd (forecast_rule hs fp m i now rule s))) \<and>
    live (snd (forecast_rule hs fp m i now rule s))"
proof -
  obtain cool h where s: "s = (cool, h)" by (cases s)
  have "synced rules st (open_alerts h') \<and> live h'"
    if "recordEvent hs h (forecast_event rule i v now) = Some (h', ev')" for v h' ev'
  proof -
    obtain h2 e2 where "recordEvent hs h (forecast_event rule i v now) = Some (h2, e2)" "live h2"
        "open_alerts h2 = insert (r_ID rule, i) (open_alerts h)"
      using recordEvent_live [of h "forecast_event rule i v now" now] assms(2) s by (auto simp: forecast_event_def)
    with that have h': "live h'" "open_alerts h' = insert (r_ID rule, i) (open_alerts h)" by auto
    have "r_ID r \<noteq> r_ID rule" if "r \<in> set rules" "r_Type r \<noteq> RuleTypeForecastThreshold" for r
      using wf_rules_id_eq [OF assms(3) that(1) assms(4)] that(2) assms(5) by auto
    then show ?thesis using h' assms(1,4) s by (auto simp: synced_def)
  qed
  then show ?thesis
    using assms(1,2) by (auto simp: s forecast_rule_def Let_def split: sum.splits option.splits)
qed

lemma fold_forecast_sync:
  assumes "wf_rules rules"
  shows "set rs \<subseteq> set rules \<Longrightarrow> \<forall>r \<in> set rs. r_Type r = RuleTypeForecastThreshold \<Longrightarrow>
    synced rules st (open_alerts (snd s)) \<Longrightarrow> live (snd s) \<Longrightarrow>
    (let s' = fold (forecast_rule hs fp m i now) rs s in synced rules st (open_alerts (snd s')) \<and> live (snd s'))"
proof (induction rs arbitrary: s)
  case (Cons r rs)
  then show ?case using forecast_rule_sync [OF Cons.prems(3,4) assms, of r fp m i now] by simp
qed simp

definition sync_state :: "Rule list \<Rightarrow> Evaluator \<times> 'h \<Rightarrow> bool" where
  "sync_state rules s \<longleftrightarrow> e_rules (fst s) = rules \<and> synced rules (e_state (fst s)) (open_alerts (snd s)) \<and> live (snd s)"

lemma runForecastAlerts_sync:
  assumes "wf_rules rules" "sync_state rules s"
  shows "sync_state rules (runForecastAlerts hs clock i s)"
proof -
  obtain e h where s: "s = (e, h)" by (cases s)
  show ?thesis
  proof (cases "e_forecastProvider e")
    case None
    then show ?thesis using assms(2) by (simp add: s runForecastAlerts_def)
  next
    case (Some fp)
    let ?rs = "filter (\<lambda>r. r_Type r = RuleTypeForecastThreshold) (e_rules e)"
    obtain cool h' where f: "fold (forecast_rule hs fp (e_forecastMinConsecutive e) i (clock i)) ?rs
        (e_forecastCooldown e, h) = (cool, h')" by (rule prod.exhaust)
    have pre: "set ?rs \<subseteq> set rules" "\<forall>r \<in> set ?rs. r_Type r = RuleTypeForecastThreshold"
      "synced rules (e_state e) (open_alerts h)" "live h"
      using assms(2) by (auto simp: sync_state_def s)
    have "synced rules (e_state e) (open_alerts h') \<and> live h'"
      using fold_forecast_sync [OF assms(1), of ?rs "e_state e" "(e_forecastCooldown e, h)",
          unfolded snd_conv, OF pre, of fp "e_forecastMinConsecutive e" i "clock i"]
      by (simp only: f Let_def snd_conv)
    moreover have "runForecastAlerts hs clock i s = (e\<lparr>e_forecastCooldown := cool\<rparr>, h')"
      by (simp only: s runForecastAlerts_def Some f Let_def prod.case option.case)
    moreover have "e_rules e = rules" using assms(2) by (simp add: sync_state_def s)
    ultimately show ?thesis by (simp add: sync_state_def)
  qed
qed

lemma Evaluate_sync:
  assumes "wf_rules rules" "sync_state rules s"
  shows "sync_state rules (fst (Evaluate hs now clock points s))"
proof -
  obtain e h where s: "s = (e, h)" by (cases s)
  have fold: "sync_state rules t \<Longrightarrow> sync_state rules (fold (runForecastAlerts hs clock) is t)" for "is" t
    by (induction "is" arbitrary: t) (simp_all only: fold_simps runForecastAlerts_sync [OF assms(1)])
  obtain st h' evs where ev: "evaluate_rules hs now (e_rules e) points (e_state e, h, []) = (st, h', evs)"
    by (metis prod.exhaust)
  have "sync_state rules (e\<lparr>e_state := st\<rparr>, h')"
    using evaluate_rules_sync [OF assms(1), of rules "(e_state e, h, [])" now points] ev assms(2)
    by (simp add: sync_state_def s)
  then show ?thesis using fold assms(2) by (simp add: s Evaluate_def ev)
qed

end

end
