(* ===== verification/AlertRuns.thy ===== *)
theory AlertRuns
  imports AlertLaws
begin

section \<open>Runs of the alert engine: restarts, store failures, forecast alerts\<close>

text \<open>
  The evaluator together with the PostgreSQL history as a transition system (batches, cleanup,
  restart), the invariant that ties the two together, concrete runs of the cases in which they
  drift apart (labelled rules after a restart, an unreachable history), and the forecast alerts.
\<close>

subsection \<open>Evaluator and history as a transition system\<close>

inductive alert_run :: "Rule list \<Rightarrow> Evaluator \<times> PGHistory \<Rightarrow> bool" for rules where
  start: "e_rules e = rules \<Longrightarrow> e_state e = Map.empty \<Longrightarrow> pg_rows h = [] \<Longrightarrow> pg_up h \<Longrightarrow> alert_run rules (e, h)"
| batch: "alert_run rules s \<Longrightarrow> alert_run rules (fst (Evaluate PGAlertHistoryStore now clock points s))"
| cleanup: "alert_run rules (e, h) \<Longrightarrow> alert_run rules (e, runCleanup now retention h)"
| restart: "alert_run rules (e, h) \<Longrightarrow> e_rules e0 = rules \<Longrightarrow> e_state e0 = Map.empty \<Longrightarrow>
    RestoreState PGAlertHistoryStore h e0 = Some e' \<Longrightarrow> alert_run rules (e', h)"

definition unlabelled :: "Rule list \<Rightarrow> bool" where
  "unlabelled rules \<longleftrightarrow> (\<forall>r \<in> set rules. r_Type r \<noteq> RuleTypeForecastThreshold \<longrightarrow> r_Labels r = [])"

lemma rule_key_unlabelled: "r_Labels r = [] \<Longrightarrow> rule_key r i = stateKey (r_ID r) i"
  by (simp add: rule_key_def stateKeyWithLabels_def stateKey_def)

lemma stateKey_eq:
  "CHR '':'' \<notin> set a \<Longrightarrow> CHR '':'' \<notin> set b \<Longrightarrow> stateKey a i = stateKey b j \<longleftrightarrow> a = b \<and> i = j"
  using append_sep_inject [of a "CHR '':''" i b j] by (auto simp: stateKey_def)

lemma entry_of_restore:
  "se_State (entry_of (restore_event ev st) k) = StateFiring \<longleftrightarrow>
     k = stateKey (ev_RuleID ev) (ev_InstanceID ev) \<or> se_State (entry_of st k) = StateFiring"
  by (simp add: restore_event_def restored_entry_def)

lemma restored_firing:
  "CHR '':'' \<notin> set r \<Longrightarrow> \<forall>ev \<in> set evs. CHR '':'' \<notin> set (ev_RuleID ev) \<Longrightarrow>
   se_State (entry_of (fold restore_event evs st) (stateKey r i))
     = StateFiring \<longleftrightarrow>
   se_State (entry_of st (stateKey r i)) = StateFiring \<or> (r, i) \<in> (\<lambda>ev. (ev_RuleID ev, ev_InstanceID ev)) ` set evs"
proof (induction evs arbitrary: st)
  case (Cons ev evs)
  then show ?case
    using stateKey_eq [of r "ev_RuleID ev" i "ev_InstanceID ev"] Cons.IH [of "restore_event ev st"]
    by (auto simp: entry_of_restore)
qed simp

lemma entry_of_empty [simp]: "entry_of Map.empty k = new_entry"
  by (simp add: entry_of_def)

lemma RestoreState_sync:
  assumes "wf_rules rules" "unlabelled rules" "synced rules st0 (pg_open h)" "e_state e0 = Map.empty"
    "RestoreState PGAlertHistoryStore h e0 = Some e'"
  shows "synced rules (e_state e') (pg_open h)"
proof -
  obtain evs where evs: "hs_ListUnresolved PGAlertHistoryStore h = Some evs"
    and st: "e_state e' = fold restore_event evs Map.empty"
    using assms(4,5) by (auto simp: RestoreState_def split: option.splits)
  have opn: "(\<lambda>ev. (ev_RuleID ev, ev_InstanceID ev)) ` set evs = pg_open h"
    by (rule pg.open_List [OF evs])
  have ids: "fst ` pg_open h \<subseteq> r_ID ` set rules" using assms(3) by (simp add: synced_def)
  have "\<forall>ev \<in> set evs. CHR '':'' \<notin> set (ev_RuleID ev)"
  proof
    fix ev assume "ev \<in> set evs"
    then have "ev_RuleID ev \<in> r_ID ` set rules" using ids opn by force
    then show "CHR '':'' \<notin> set (ev_RuleID ev)" using assms(1) by (auto simp: wf_rules_def)
  qed
  then have "(se_State (entry_of (e_state e') (rule_key r i)) = StateFiring) = ((r_ID r, i) \<in> pg_open h)"
    if "r \<in> set rules" "r_Type r \<noteq> RuleTypeForecastThreshold" for r i
    using restored_firing [of "r_ID r" evs Map.empty i] that assms(1,2)
    by (simp add: st opn rule_key_unlabelled unlabelled_def wf_rules_def new_entry_def)
  then show ?thesis using ids by (simp add: synced_def)
qed

lemma runCleanup_keeps: "pg_open (runCleanup now d h) = pg_open h \<and> pg_up (runCleanup now d h) = pg_up h"
proof (cases "pg_Cleanup now h d")
  case (Some p)
  then show ?thesis
    using pg_open_Cleanup [of now h d] by (cases p) (auto simp: runCleanup_def pg_Cleanup_def Let_def split: if_splits)
qed (simp add: runCleanup_def)

lemma alert_run_sync:
  assumes "wf_rules rules" "unlabelled rules"
  shows "alert_run rules s \<Longrightarrow> pg.sync_state rules s"
proof (induction rule: alert_run.induct)
  case (start e h)
  then have "pg_open h = {}" by (simp add: pg_open_def)
  then show ?case using start by (simp add: pg.sync_state_def synced_def new_entry_def)
next
  case (batch s now clock points)
  show ?case by (rule pg.Evaluate_sync [OF assms(1) batch.IH])
next
  case (cleanup e h now retention)
  then show ?case using runCleanup_keeps by (simp add: pg.sync_state_def)
next
  case (restart e h e0 e')
  have "synced rules (e_state e) (pg_open h)" using restart.IH by (simp add: pg.sync_state_def)
  then have "synced rules (e_state e') (pg_open h)"
    by (rule RestoreState_sync [OF assms _ restart.hyps(3,4)])
  then show ?case
    using restart by (auto simp: pg.sync_state_def RestoreState_def split: option.splits)
qed


subsection \<open>A concrete engine\<close>

definition demo_rule :: "labels \<Rightarrow> Rule" where
  "demo_rule ls = \<lparr>r_ID = ''cpu'', r_Name = ''CPU'', r_Description = '''', r_Metric = ''os.cpu'', r_Operator = ''>'',
     r_Threshold = 80, r_Severity = ''warning'', r_Labels = ls, r_ConsecutiveCount = 1,
     r_CooldownMinutes = 15, r_Channels = [''email''], r_Source = ''builtin'', r_Enabled = True,
     r_Type = '''', r_UseLowerBound = False, r_ConsecutivePointsRequired = 0\<rparr>"

definition demo_point :: "float64 \<Rightarrow> labels \<Rightarrow> MetricPoint" where
  "demo_point v ls = \<lparr>mp_InstanceID = ''db1'', mp_Metric = ''os.cpu'', mp_Value = v, mp_Labels = ls, mp_Timestamp = 0\<rparr>"

definition demo_history :: "bool \<Rightarrow> PGHistory" where
  "demo_history up = \<lparr>pg_rows = [], pg_next_id = 1, pg_up = up\<rparr>"

definition demo_engine :: "Rule \<Rightarrow> Evaluator" where
  "demo_engine r = NewEvaluator\<lparr>e_rules := [r]\<rparr>"

lemmas demo_defs = demo_rule_def demo_point_def demo_history_def demo_engine_def NewEvaluator_def

lemmas eval_defs = Evaluate_def evaluate_rules_def evaluate_point_def findMatchingPoints_def indexPoints_def
  labelsMatch_def rule_key_def stateKeyWithLabels_def label_suffix_def Compare_def transition_defs
  recordEvent_def uniqueInstances_def runForecastAlerts_def new_entry_def map_get_def

lemmas pg_defs = PGAlertHistoryStore_def pg_Record_def pg_Resolve_def pg_ListUnresolved_def pg_row_def pg_open_def

abbreviation demo_batch :: "float64 \<Rightarrow> labels \<Rightarrow> Evaluator \<times> PGHistory \<Rightarrow> (Evaluator \<times> PGHistory) \<times> AlertEvent list" where
  "demo_batch v ls \<equiv> Evaluate PGAlertHistoryStore 100 (\<lambda>i. 100) [demo_point v ls]"

lemma wf_demo: "wf_rules [demo_rule ls]"
  by (simp add: wf_rules_def demo_rule_def)


theorem evaluate_batch_isolated_witness:
  "entry_of (e_state (fst (fst (demo_batch 90 [] (demo_engine (demo_rule []), demo_history True))))) (rule_key (demo_rule []) ''db1'') =
    fst (run_transitions (demo_rule []) (batch_steps (demo_rule []) 100 ''db1'' (rule_points (demo_rule []) [demo_point 90 []]))
           (entry_of Map.empty (rule_key (demo_rule []) ''db1'')))"
  using evaluate_batch_isolated [of "demo_engine (demo_rule [])" "demo_rule []"] wf_demo [of "[]"]
  by (simp add: demo_engine_def NewEvaluator_def)

subsection \<open>Where memory and history drift apart\<close>

text \<open>After a restart a labelled rule that is firing fires a second time: \<open>RestoreState\<close>
  files the open alert under the key without labels, so the next breaching batch starts from OK
  and produces a second fire event for an alert that is already open.\<close>

theorem labelled_rule_refires_after_restart:
  "let r = demo_rule [(''core'', ''0'')]; ls = [(''core'', ''0'')];
       ((e1, h1), evs1) = demo_batch 90 ls (demo_engine r, demo_history True);
       e2 = the (RestoreState PGAlertHistoryStore h1 (demo_engine r));
       ((e3, h3), evs3) = demo_batch 90 ls (e2, h1)
   in length evs1 = 1 \<and> map (\<lambda>ev. (ev_RuleID ev, ev_IsResolution ev)) evs3 = [(''cpu'', False)] \<and>
      length (filter (\<lambda>ev. ev_ResolvedAt ev = None) (pg_rows h3)) = 2"
  by (simp add: demo_defs eval_defs pg_defs RestoreState_def restore_event_def stateKey_def restored_entry_def)

text \<open>A fire event that cannot be recorded is lost for good: the rule counts as firing from
  then on, so a later breaching batch with the history reachable again reports and records nothing,
  and nothing is notified until the value has recovered.\<close>

theorem unrecorded_alert_never_notified:
  "let r = demo_rule [];
       ((e1, h1), evs1) = demo_batch 90 [] (demo_engine r, demo_history False);
       ((e2, h2), evs2) = demo_batch 95 [] (e1, h1\<lparr>pg_up := True\<rparr>)
   in evs1 = [] \<and> evs2 = [] \<and> pg_open h2 = {} \<and> se_State (entry_of (e_state e2) (rule_key r ''db1'')) = StateFiring"
  by (simp add: demo_defs eval_defs pg_defs entry_of_def)

text \<open>A rule without labels on a metric that comes as several labelled series keeps one state
  for all of them: one batch in which the first series breaches and the second does not fires and
  resolves the alert at once, although the first series is still in breach.\<close>

theorem unlabelled_rule_flaps_over_series:
  "let r = demo_rule []; points = [demo_point 90 [(''core'', ''0'')], demo_point 10 [(''core'', ''1'')]];
       ((e1, h1), evs1) = Evaluate PGAlertHistoryStore 100 (\<lambda>i. 100) points (demo_engine r, demo_history True)
   in map ev_IsResolution evs1 = [False, True] \<and> pg_open h1 = {} \<and>
      se_State (entry_of (e_state e1) (rule_key r ''db1'')) = StateOK"
  by (simp add: demo_defs eval_defs pg_defs entry_of_def)

theorem alert_events_alternate_witness:
  "(let (entry, evs) = run_transitions (demo_rule []) [(True, demo_point 90 [], 5), (False, demo_point 10 [], 6)] new_entry in
     length evs = 2 \<and> ev_IsResolution (evs ! 1) = odd 1 \<and> ev_FiredAt (evs ! 1) = ev_FiredAt (evs ! 0))"
proof -
  let ?ts = "[(True, demo_point 90 [], 5), (False, demo_point 10 [], 6)]"
  obtain entry evs where run: "run_transitions (demo_rule []) ?ts new_entry = (entry, evs)" by fastforce
  have "length evs = 2"
    using run by (auto simp: transition_defs demo_defs new_entry_def)
  then show ?thesis
    using alert_events_alternate [of "demo_rule []" ?ts] unfolding run by simp
qed

subsection \<open>Forecast alerts\<close>

definition forecast_breach :: "Rule \<Rightarrow> ForecastPoint \<Rightarrow> bool" where
  "forecast_breach rule pt =
     Compare (r_Operator rule) (if r_UseLowerBound rule then fp_Lower pt else fp_Value pt) (r_Threshold rule)"

definition has_run :: "('a \<Rightarrow> bool) \<Rightarrow> nat \<Rightarrow> 'a list \<Rightarrow> bool" where
  "has_run P n xs \<longleftrightarrow> (\<exists>k. k + n \<le> length xs \<and> (\<forall>j < n. P (xs ! (k + j))))"

lemma has_run_prefix: "length xs = n \<Longrightarrow> list_all P xs \<Longrightarrow> has_run P n (xs @ ys)"
  unfolding has_run_def by (rule exI [of _ 0]) (auto simp: nth_append list_all_length)

lemma has_run_skip:
  assumes "length pre < n" "\<not> P x"
  shows "has_run P n (pre @ x # xs) \<longleftrightarrow> has_run P n xs"
proof
  assume "has_run P n (pre @ x # xs)"
  then obtain k where k: "k + n \<le> length (pre @ x # xs)" "\<forall>j < n. P ((pre @ x # xs) ! (k + j))"
    by (auto simp: has_run_def)
  have "length pre < k"
  proof (rule ccontr)
    assume "\<not> length pre < k"
    then have "P ((pre @ x # xs) ! (k + (length pre - k)))" using k assms(1) by (metis less_imp_diff_less)
    then show False using assms(2) \<open>\<not> length pre < k\<close> by simp
  qed
  then obtain m where m: "k = length pre + Suc m" by (metis add_Suc_right less_imp_Suc_add)
  show "has_run P n xs" unfolding has_run_def
  proof (intro exI [of _ m] conjI allI impI)
    show "m + n \<le> length xs" using k(1) m by simp
    fix j assume "j < n"
    then have "P ((pre @ x # xs) ! (length pre + Suc (m + j)))" using k(2) m by (metis add_Suc add.assoc)
    then show "P (xs ! (m + j))" by (simp only: nth_append_length_plus nth_Cons_Suc)
  qed
next
  assume "has_run P n xs"
  then obtain k where k: "k + n \<le> length xs" "\<forall>j < n. P (xs ! (k + j))" by (auto simp: has_run_def)
  show "has_run P n (pre @ x # xs)" unfolding has_run_def
  proof (intro exI [of _ "length pre + Suc k"] conjI allI impI)
    show "length pre + Suc k + n \<le> length (pre @ x # xs)" using k(1) by simp
    fix j assume "j < n"
    then show "P ((pre @ x # xs) ! (length pre + Suc k + j))"
      using k(2) by (simp only: add.assoc nth_append_length_plus add_Suc nth_Cons_Suc)
  qed
qed

lemma forecast_scan_step:
  "forecast_scan rule required c (pt # pts) =
     (if forecast_breach rule pt then
        if c + 1 \<ge> required then Some (if r_UseLowerBound rule then fp_Lower pt else fp_Value pt)
        else forecast_scan rule required (c + 1) pts
      else forecast_scan rule required 0 pts)"
  by (simp add: forecast_breach_def Let_def)

declare forecast_scan.simps(2) [simp del]

lemma forecast_scan_run:
  assumes "n = nat (max 1 required)"
  shows "list_all (forecast_breach rule) pre \<Longrightarrow> length pre < n \<Longrightarrow>
    forecast_scan rule required (int (length pre)) pts \<noteq> None \<longleftrightarrow> has_run (forecast_breach rule) n (pre @ pts)"
proof (induction pts arbitrary: pre)
  case Nil
  then show ?case by (auto simp: has_run_def)
next
  case (Cons pt pts)
  show ?case
  proof (cases "forecast_breach rule pt")
    case True
    show ?thesis
    proof (cases "int (length pre) + 1 \<ge> required")
      case ge: True
      then have "length (pre @ [pt]) = n" using Cons.prems(2) assms by auto
      then have "has_run (forecast_breach rule) n ((pre @ [pt]) @ pts)"
        using Cons.prems(1) True by (intro has_run_prefix) simp_all
      then show ?thesis using True ge by (simp add: forecast_scan_step)
    next
      case False
      then have "length (pre @ [pt]) < n" using assms by auto
      then show ?thesis
        using Cons.IH [of "pre @ [pt]"] Cons.prems(1) True False
        by (simp add: forecast_scan_step add.commute)
    qed
  next
    case False
    then show ?thesis
      using Cons.IH [of "[]"] Cons.prems has_run_skip [where P = "forecast_breach rule", OF Cons.prems(2) False]
      by (auto simp: forecast_scan_step)
  qed
qed

text \<open>The forecast scan raises an alert exactly when the forecast holds the required number of
  consecutive breaching points (at least one) somewhere.\<close>

theorem forecast_scan_spec:
  "(\<exists>v. forecast_scan rule required 0 pts = Some v) \<longleftrightarrow>
     has_run (forecast_breach rule) (nat (max 1 required)) pts"
  using forecast_scan_run [of _ required rule "[]" pts] by simp

text \<open>Forecast alerts are recorded but never dispatched: the events \<open>Evaluate\<close> returns (the
  ones the dispatcher gets) are the same whatever the forecast provider answers.\<close>

theorem forecast_alerts_not_dispatched:
  "snd (Evaluate hs now clock points (SetForecastProvider fp n e, h)) =
   snd (Evaluate hs now clock points (SetForecastProvider None m e, h))"
  by (auto simp: SetForecastProvider_def Evaluate_def Let_def split: prod.splits)

end
