(* ===== verification/RateGate.thy ===== *)
theory RateGate
  imports PulsePrelude
begin

section \<open>Rate gates: at most one accepted request per key and window\<close>

text \<open>
  Several components suppress a request when the same key was served less than a window ago: the
  alert dispatcher (notification cooldown), the forecast alerts and the automatic root cause
  analysis. The interface \<open>rate_gate\<close> states what their \<open>passes\<close> and \<open>mark\<close> operations have
  in common; the spacing of the accepted requests is proved once here.
\<close>

record 'k request =
  rq_key :: 'k
  rq_check :: time
  rq_mark :: time

locale rate_gate =
  fixes passes :: "'s \<Rightarrow> time \<Rightarrow> 'k \<Rightarrow> bool"
    and mark :: "'s \<Rightarrow> time \<Rightarrow> 'k \<Rightarrow> 's"
    and window :: "'k \<Rightarrow> duration"
    and fresh :: 's
  assumes passes_fresh: "passes fresh t k"
    and passes_mark_same: "passes (mark s t k) t' k \<longleftrightarrow> t + window k \<le> t'"
    and passes_mark_other: "k' \<noteq> k \<Longrightarrow> passes (mark s t k') t' k \<longleftrightarrow> passes s t' k"
begin

definition gate_step :: "'k request \<Rightarrow> 's \<times> 'k request list \<Rightarrow> 's \<times> 'k request list" where
  "gate_step q = (\<lambda>(s, acc). if passes s (rq_check q) (rq_key q)
     then (mark s (rq_mark q) (rq_key q), acc @ [q]) else (s, acc))"

definition gate_run :: "'k request list \<Rightarrow> 's \<times> 'k request list" where
  "gate_run qs = fold gate_step qs (fresh, [])"

text \<open>Every accepted request is at least a window after the one before it for the same key.\<close>

definition spaced :: "'k request list \<Rightarrow> bool" where
  "spaced acc = sorted_wrt (\<lambda>p q. rq_key p = rq_key q \<longrightarrow> rq_mark p + window (rq_key q) \<le> rq_check q) acc"

text \<open>The state remembers the last accepted request of each key.\<close>

definition remembers :: "'s \<Rightarrow> 'k request list \<Rightarrow> bool" where
  "remembers s acc \<longleftrightarrow> (\<forall>k t. passes s t k \<longleftrightarrow>
     (let qs = filter (\<lambda>q. rq_key q = k) acc in qs = [] \<or> rq_mark (last qs) + window k \<le> t))"

definition ordered_requests :: "'k request list \<Rightarrow> bool" where
  "ordered_requests acc \<longleftrightarrow> (\<forall>q \<in> set acc. rq_check q \<le> rq_mark q \<and> 0 \<le> window (rq_key q))"

lemma remembers_mark:
  assumes "remembers s acc"
  shows "remembers (mark s (rq_mark q) (rq_key q)) (acc @ [q])"
  unfolding remembers_def
proof (intro allI)
  fix k t
  show "passes (mark s (rq_mark q) (rq_key q)) t k \<longleftrightarrow>
     (let qs = filter (\<lambda>q. rq_key q = k) (acc @ [q]) in qs = [] \<or> rq_mark (last qs) + window k \<le> t)"
  proof (cases "rq_key q = k")
    case True
    then show ?thesis using passes_mark_same [of s "rq_mark q" k t] by (auto simp: Let_def)
  next
    case False
    then show ?thesis using assms passes_mark_other [OF False] by (simp add: remembers_def)
  qed
qed

lemma last_mark_latest:
  assumes "spaced acc" "ordered_requests acc" "p \<in> set acc" "rq_key p = k"
  shows "rq_mark p \<le> rq_mark (last (filter (\<lambda>q. rq_key q = k) acc))"
  using assms
proof (induction acc rule: rev_induct)
  case (snoc q acc)
  show ?case
  proof (cases "rq_key q = k")
    case True
    then show ?thesis
      using snoc.prems by (auto simp: spaced_def sorted_wrt_append ordered_requests_def)
  next
    case False
    then show ?thesis
      using snoc by (auto simp: spaced_def sorted_wrt_append ordered_requests_def)
  qed
qed simp

lemma gate_step_inv:
  assumes "remembers s acc" "spaced acc" "ordered_requests acc"
    "rq_check q \<le> rq_mark q" "0 \<le> window (rq_key q)" "gate_step q (s, acc) = (s', acc')"
  shows "remembers s' acc' \<and> spaced acc' \<and> ordered_requests acc'"
proof (cases "passes s (rq_check q) (rq_key q)")
  case False
  then show ?thesis using assms by (simp add: gate_step_def)
next
  case True
  have "rq_mark p + window (rq_key q) \<le> rq_check q" if "p \<in> set acc" "rq_key p = rq_key q" for p
  proof -
    have "filter (\<lambda>x. rq_key x = rq_key q) acc \<noteq> []" using that by (auto simp: filter_empty_conv)
    then have "rq_mark (last (filter (\<lambda>x. rq_key x = rq_key q) acc)) + window (rq_key q) \<le> rq_check q"
      using True assms(1) by (auto simp: remembers_def Let_def)
    then show ?thesis using last_mark_latest [OF assms(2,3) that] by linarith
  qed
  then have "spaced (acc @ [q])" using assms(2) by (auto simp: spaced_def sorted_wrt_append)
  moreover have "ordered_requests (acc @ [q])" using assms(3-5) by (simp add: ordered_requests_def)
  ultimately show ?thesis using True assms(1,6) remembers_mark by (auto simp: gate_step_def)
qed

lemma gate_fold_inv:
  "remembers s acc \<Longrightarrow> spaced acc \<Longrightarrow> ordered_requests acc \<Longrightarrow> ordered_requests qs \<Longrightarrow>
   fold gate_step qs (s, acc) = (s', acc') \<Longrightarrow> remembers s' acc' \<and> spaced acc'"
proof (induction qs arbitrary: s acc)
  case (Cons q qs)
  obtain s1 acc1 where st: "gate_step q (s, acc) = (s1, acc1)" by fastforce
  have "remembers s1 acc1 \<and> spaced acc1 \<and> ordered_requests acc1"
    using gate_step_inv [OF Cons.prems(1-3) _ _ st] Cons.prems(4) by (simp add: ordered_requests_def)
  then show ?case
    using Cons.IH [of s1 acc1] Cons.prems(4,5) st by (simp add: ordered_requests_def)
qed simp

lemma remembers_fresh: "remembers fresh []"
  by (simp add: remembers_def passes_fresh)

lemma gate_run_spaced:
  assumes "ordered_requests qs"
  shows "remembers (fst (gate_run qs)) (snd (gate_run qs)) \<and> spaced (snd (gate_run qs))"
  using gate_fold_inv [OF remembers_fresh _ _ assms, of "fst (gate_run qs)" "snd (gate_run qs)"]
  by (simp add: gate_run_def spaced_def ordered_requests_def)

text \<open>A request is only refused when an earlier accepted one of the same key is less than a window old.\<close>

lemma gate_refusal_justified:
  assumes "ordered_requests qs" "\<not> passes (fst (gate_run qs)) t k"
  shows "\<exists>p \<in> set (snd (gate_run qs)). rq_key p = k \<and> t < rq_mark p + window k"
proof -
  let ?f = "filter (\<lambda>q. rq_key q = k) (snd (gate_run qs))"
  have "?f \<noteq> [] \<and> t < rq_mark (last ?f) + window k"
    using gate_run_spaced [OF assms(1)] assms(2) by (auto simp: remembers_def Let_def)
  moreover have "last ?f \<in> set ?f" using calculation by (intro last_in_set) simp
  ultimately show ?thesis by auto
qed

end

end
