(* ===== verification/AlertDispatch.thy ===== *)
theory AlertDispatch
  imports AlertModel RateGate
begin

section \<open>The alert dispatcher (\<open>internal/alert/dispatcher.go\<close>, \<open>notifier.go\<close>)\<close>

text \<open>
  The dispatcher is a bounded queue (the buffered channel \<open>events\<close>) with one consumer. A
  notifier is its name and the outcome of \<open>Send\<close>, which may depend on everything sent before
  (the log), so that any behaviour of the outside world is covered. Effects on the outside are
  collected in \<open>outbox\<close>: the attempts to send, the time slept between attempts and the hook
  calls. The two clock readings of \<open>processEvent\<close> (the cooldown check and the cooldown record)
  are arguments. Sending on a closed channel and closing it twice panic: these are \<open>None\<close>.
\<close>

type_synonym attempt = "string \<times> AlertEvent \<times> bool"

record Notifier =
  n_Name :: string
  n_Send :: "attempt list \<Rightarrow> AlertEvent \<Rightarrow> bool"

record outbox =
  o_sent :: "attempt list"
  o_slept :: duration
  o_hooks :: "(string \<times> AlertEvent) list"

type_synonym RemediationProvider = "string \<Rightarrow> string \<Rightarrow> float64 \<Rightarrow> labels \<Rightarrow> string \<Rightarrow> RemediationResult list"

type_synonym NotifierRegistry = "(string, Notifier) gomap"

definition Register :: "Notifier \<Rightarrow> NotifierRegistry \<Rightarrow> NotifierRegistry" where
  "Register n reg = map_put (n_Name n) n reg"

definition registry_Get :: "NotifierRegistry \<Rightarrow> string \<Rightarrow> Notifier option" where
  "registry_Get reg name = map_of reg name"

definition Names :: "NotifierRegistry \<Rightarrow> string list" where
  "Names reg = keys_of reg"

definition defaultBufferSize :: nat where
  "defaultBufferSize = 100"

record Dispatcher =
  d_registry :: NotifierRegistry
  d_defaultChannels :: "string list"
  d_cooldownMinutes :: int
  d_retryDelays :: "duration list"
  d_events :: "AlertEvent list"
  d_closed :: bool
  d_cooldowns :: "string \<rightharpoonup> time"
  d_remediation :: "RemediationProvider option"
  d_onAlertHooks :: "string list"

definition NewDispatcher :: "NotifierRegistry \<Rightarrow> string list \<Rightarrow> int \<Rightarrow> Dispatcher" where
  "NewDispatcher registry defaultChannels defaultCooldownMinutes =
     \<lparr>d_registry = registry, d_defaultChannels = defaultChannels, d_cooldownMinutes = defaultCooldownMinutes,
      d_retryDelays = [1 * Second, 2 * Second, 4 * Second], d_events = [], d_closed = False,
      d_cooldowns = Map.empty, d_remediation = None, d_onAlertHooks = []\<rparr>"

definition SetRemediationProvider :: "RemediationProvider option \<Rightarrow> Dispatcher \<Rightarrow> Dispatcher" where
  "SetRemediationProvider p d = d\<lparr>d_remediation := p\<rparr>"

definition OnAlert :: "string \<Rightarrow> Dispatcher \<Rightarrow> Dispatcher" where
  "OnAlert fn d = d\<lparr>d_onAlertHooks := d_onAlertHooks d @ [fn]\<rparr>"

definition Dispatch :: "AlertEvent \<Rightarrow> Dispatcher \<Rightarrow> (Dispatcher \<times> bool) option" where
  "Dispatch event d =
     (if d_closed d then None
      else if length (d_events d) < defaultBufferSize then Some (d\<lparr>d_events := d_events d @ [event]\<rparr>, True)
      else Some (d, False))"

definition cooldownKey :: "string \<Rightarrow> string \<Rightarrow> string \<Rightarrow> string" where
  "cooldownKey ruleID instanceID severity = ruleID @ '':'' @ instanceID @ '':'' @ severity"

definition event_key :: "AlertEvent \<Rightarrow> string" where
  "event_key event = cooldownKey (ev_RuleID event) (ev_InstanceID event) (ev_Severity event)"

definition cooling :: "int \<Rightarrow> (string \<rightharpoonup> time) \<Rightarrow> time \<Rightarrow> string \<Rightarrow> bool" where
  "cooling minutes cooldowns now key =
     (case cooldowns key of None \<Rightarrow> False | Some lastNotified \<Rightarrow> now - lastNotified < minutes * Minute)"

definition isCoolingDown :: "Dispatcher \<Rightarrow> time \<Rightarrow> AlertEvent \<Rightarrow> bool" where
  "isCoolingDown d now event = cooling (d_cooldownMinutes d) (d_cooldowns d) now (event_key event)"

definition recordCooldown :: "Dispatcher \<Rightarrow> time \<Rightarrow> AlertEvent \<Rightarrow> Dispatcher" where
  "recordCooldown d now event = d\<lparr>d_cooldowns := (d_cooldowns d)(event_key event \<mapsto> now)\<rparr>"

definition resolveChannels :: "Dispatcher \<Rightarrow> AlertEvent \<Rightarrow> string list" where
  "resolveChannels d event = (if length (ev_Channels event) > 0 then ev_Channels event else d_defaultChannels d)"

text \<open>\<open>left\<close> counts the attempts that remain, so that the index of the current attempt is
  \<open>maxAttempts - left\<close>; the sleep before the next attempt is skipped after the last one.\<close>

fun send_loop :: "Notifier \<Rightarrow> AlertEvent \<Rightarrow> duration list \<Rightarrow> nat \<Rightarrow> nat \<Rightarrow> outbox \<Rightarrow> outbox" where
  "send_loop n event delays maxAttempts 0 out = out"
| "send_loop n event delays maxAttempts (Suc left) out =
     (if n_Send n (o_sent out) event then out\<lparr>o_sent := o_sent out @ [(n_Name n, event, True)]\<rparr>
      else send_loop n event delays maxAttempts left
             (out\<lparr>o_sent := o_sent out @ [(n_Name n, event, False)],
                  o_slept := o_slept out + (if left > 0 then delays ! (maxAttempts - Suc left) else 0)\<rparr>))"

definition sendWithRetry :: "Dispatcher \<Rightarrow> Notifier \<Rightarrow> AlertEvent \<Rightarrow> outbox \<Rightarrow> outbox" where
  "sendWithRetry d n event out =
     (let maxAttempts = (if length (d_retryDelays d) = 0 then 1 else length (d_retryDelays d))
      in send_loop n event (d_retryDelays d) maxAttempts maxAttempts out)"

definition runRemediation :: "Dispatcher \<Rightarrow> AlertEvent \<Rightarrow> RemediationResult list" where
  "runRemediation d event =
     (case d_remediation d of None \<Rightarrow> []
      | Some p \<Rightarrow> p (ev_InstanceID event) (ev_Metric event) (ev_Value event) (ev_Labels event) (ev_Severity event))"

definition send_channel :: "Dispatcher \<Rightarrow> AlertEvent \<Rightarrow> string \<Rightarrow> outbox \<Rightarrow> outbox" where
  "send_channel d event chName out =
     (case registry_Get (d_registry d) chName of None \<Rightarrow> out | Some n \<Rightarrow> sendWithRetry d n event out)"

definition processEvent :: "time \<Rightarrow> time \<Rightarrow> AlertEvent \<Rightarrow> Dispatcher \<times> outbox \<Rightarrow> Dispatcher \<times> outbox" where
  "processEvent t_check t_mark event0 = (\<lambda>(d, out).
     if \<not> ev_IsResolution event0 \<and> isCoolingDown d t_check event0 then (d, out)
     else
       let event = (if \<not> ev_IsResolution event0 then event0\<lparr>ev_Recommendations := runRemediation d event0\<rparr> else event0);
           channels = resolveChannels d event
       in if length channels = 0 then (d, out)
          else
            let out' = fold (send_channel d event) channels out;
                d' = (if \<not> ev_IsResolution event then recordCooldown d t_mark event else d)
            in (d', out'\<lparr>o_hooks := o_hooks out' @ map (\<lambda>hook. (hook, event)) (d_onAlertHooks d')\<rparr>))"

text \<open>One turn of the consumer loop \<open>run\<close>: take the oldest event and process it.\<close>

definition run_turn :: "time \<Rightarrow> time \<Rightarrow> Dispatcher \<times> outbox \<Rightarrow> (Dispatcher \<times> outbox) option" where
  "run_turn t_check t_mark = (\<lambda>(d, out).
     case d_events d of [] \<Rightarrow> None
     | event # rest \<Rightarrow> Some (processEvent t_check t_mark event (d\<lparr>d_events := rest\<rparr>, out)))"

definition Stop_close :: "Dispatcher \<Rightarrow> Dispatcher option" where
  "Stop_close d = (if d_closed d then None else Some (d\<lparr>d_closed := True\<rparr>))"

text \<open>\<open>Stop\<close> returns when the consumer has taken everything: \<open>readings\<close> are its clock readings.\<close>

fun drain :: "(time \<times> time) list \<Rightarrow> Dispatcher \<times> outbox \<Rightarrow> Dispatcher \<times> outbox" where
  "drain [] s = s"
| "drain ((t_check, t_mark) # readings) s =
     (case run_turn t_check t_mark s of None \<Rightarrow> s | Some s' \<Rightarrow> drain readings s')"

subsection \<open>Retries\<close>

lemma send_loop_attempts:
  "\<exists>k \<le> left. o_sent (send_loop n event delays m left out) =
      o_sent out @ replicate k (n_Name n, event, False) @
      (if k < left then [(n_Name n, event, True)] else [])"
proof (induction n event delays m left out rule: send_loop.induct)
  case (2 n event delays m left out)
  show ?case
  proof (cases "n_Send n (o_sent out) event")
    case True
    then show ?thesis by (intro exI [of _ 0]) simp
  next
    case False
    from "2.IH" [OF False] obtain k where "k \<le> left"
      "o_sent (send_loop n event delays m (Suc left) out) =
        o_sent out @ replicate (Suc k) (n_Name n, event, False) @ (if Suc k < Suc left then [(n_Name n, event, True)] else [])"
      using False by auto
    then show ?thesis by (intro exI [of _ "Suc k"]) (simp only: Suc_le_mono)
  qed
qed simp

lemma send_loop_slept:
  "\<forall>d \<in> set delays. 0 \<le> d \<Longrightarrow> left \<le> m \<Longrightarrow> m \<le> max 1 (length delays) \<Longrightarrow>
    o_slept (send_loop n event delays m left out) \<le> o_slept out + sum_list (take (left - 1) (drop (m - left) delays))"
proof (induction n event delays m left out rule: send_loop.induct)
  case (2 n event delays m left out)
  show ?case
  proof (cases "n_Send n (o_sent out) event \<or> left = 0")
    case True
    have "0 \<le> sum_list (take left (drop (m - Suc left) delays))"
      using "2.prems"(1) by (intro sum_list_nonneg) (auto dest!: in_set_takeD in_set_dropD)
    then show ?thesis using True by auto
  next
    case False
    then obtain l where l: "left = Suc l" by (cases left) auto
    have i: "m - Suc left < length delays" "m - left = Suc (m - Suc left)" using "2.prems" l by auto
    have "take left (drop (m - Suc left) delays) = delays ! (m - Suc left) # take (left - 1) (drop (m - left) delays)"
      using i l by (metis Cons_nth_drop_Suc diff_Suc_1 take_Suc_Cons)
    then show ?thesis using "2.IH" False "2.prems" by simp
  qed
qed simp

text \<open>Delivery to one channel makes at most as many attempts as there are retry delays (one
  when there are none), stops after the first success, and logs every attempt with its outcome;
  it sleeps at most the sum of the delays but the last.\<close>

theorem send_with_retry_bounded:
  assumes "\<forall>x \<in> set (d_retryDelays d). 0 \<le> x"
  shows "(\<exists>k \<le> max 1 (length (d_retryDelays d)).
      o_sent (sendWithRetry d n event out) = o_sent out @ replicate k (n_Name n, event, False) @
        (if k < max 1 (length (d_retryDelays d)) then [(n_Name n, event, True)] else [])) \<and>
    o_slept (sendWithRetry d n event out) \<le> o_slept out + sum_list (butlast (d_retryDelays d))"
proof -
  let ?m = "max 1 (length (d_retryDelays d))"
  have eq: "sendWithRetry d n event out = send_loop n event (d_retryDelays d) ?m ?m out"
    by (cases "d_retryDelays d") (simp_all add: sendWithRetry_def)
  have "\<exists>k \<le> ?m. o_sent (sendWithRetry d n event out) = o_sent out @ replicate k (n_Name n, event, False) @
        (if k < ?m then [(n_Name n, event, True)] else [])"
    unfolding eq by (rule send_loop_attempts)
  moreover have diff: "?m - 1 = length (d_retryDelays d) - 1" by auto
  have "o_slept (sendWithRetry d n event out) \<le> o_slept out + sum_list (butlast (d_retryDelays d))"
    using send_loop_slept [OF assms, of ?m ?m n event out] diff
    by (simp only: eq butlast_conv_take le_refl simp_thms diff_self_eq_0 drop_0)
  ultimately show ?thesis by blast
qed

subsection \<open>The queue\<close>

text \<open>The producers call \<open>Dispatch\<close>, the consumer takes turns, in any interleaving. Beside the
  dispatcher the state keeps what was accepted and what was taken.\<close>

inductive queue_run :: "Dispatcher \<Rightarrow> outbox \<Rightarrow> AlertEvent list \<Rightarrow> AlertEvent list \<Rightarrow> bool" where
  start: "d_events d = [] \<Longrightarrow> queue_run d out [] []"
| accept: "queue_run d out accepted taken \<Longrightarrow> Dispatch ev d = Some (d', True) \<Longrightarrow> queue_run d' out (accepted @ [ev]) taken"
| drop: "queue_run d out accepted taken \<Longrightarrow> Dispatch ev d = Some (d', False) \<Longrightarrow> queue_run d' out accepted taken"
| turn: "queue_run d out accepted taken \<Longrightarrow> d_events d = ev # rest \<Longrightarrow> run_turn t_check t_mark (d, out) = Some (d', out') \<Longrightarrow>
    queue_run d' out' accepted (taken @ [ev])"
| close: "queue_run d out accepted taken \<Longrightarrow> Stop_close d = Some d' \<Longrightarrow> queue_run d' out accepted taken"

lemma processEvent_keeps_queue:
  "d_events (fst (processEvent t_check t_mark ev s)) = d_events (fst s)"
  by (cases s) (simp add: processEvent_def recordCooldown_def Let_def)

lemma queue_run_fifo:
  "queue_run d out accepted taken \<Longrightarrow> accepted = taken @ d_events d \<and> length (d_events d) \<le> defaultBufferSize"
proof (induction rule: queue_run.induct)
  case (turn d out accepted taken ev rest t_check t_mark d' out')
  then have "processEvent t_check t_mark ev (d\<lparr>d_events := rest\<rparr>, out) = (d', out')"
    by (simp add: run_turn_def)
  then have "d_events d' = rest"
    using processEvent_keeps_queue [of t_check t_mark ev "(d\<lparr>d_events := rest\<rparr>, out)"] by simp
  then show ?case using turn by simp
qed (auto simp: Dispatch_def Stop_close_def split: if_splits)

text \<open>C6: Under any interleaving of producers and the consumer the queue is first-in first-out and
  loses nothing it accepted: the events taken so far followed by those waiting are exactly the
  accepted ones in order, never more than 100 wait, and an event is refused only when 100 wait.\<close>

theorem dispatch_fifo_bounded:
  assumes "queue_run d out accepted taken"
  shows "accepted = taken @ d_events d \<and> length (d_events d) \<le> defaultBufferSize \<and>
    (\<forall>ev d'. Dispatch ev d = Some (d', False) \<longrightarrow> length (d_events d) = defaultBufferSize)"
  using queue_run_fifo [OF assms] by (auto simp: Dispatch_def split: if_splits)

lemma run_turn_shrinks: "run_turn t_check t_mark s = Some s' \<Longrightarrow> Suc (length (d_events (fst s'))) = length (d_events (fst s))"
  by (cases s) (auto simp: run_turn_def processEvent_keeps_queue split: list.splits)

lemma drain_empties: "length (d_events (fst s)) \<le> length ts \<Longrightarrow> d_events (fst (drain ts s)) = []"
proof (induction ts s rule: drain.induct)
  case (2 t_check t_mark ts s)
  show ?case
  proof (cases "run_turn t_check t_mark s")
    case None
    then show ?thesis by (cases s) (simp add: run_turn_def split: list.splits)
  next
    case (Some s')
    then show ?thesis using "2.IH" [OF Some] "2.prems" run_turn_shrinks [OF Some] by simp
  qed
qed simp

subsection \<open>The notification cooldown\<close>

interpretation dispatch_gate: rate_gate
  "\<lambda>cooldowns now key. \<not> cooling minutes cooldowns now key" "\<lambda>cooldowns now key. cooldowns(key \<mapsto> now)"
  "\<lambda>key. minutes * Minute" Map.empty for minutes
  by unfold_locales (auto simp: cooling_def)

type_synonym timed_event = "AlertEvent \<times> time \<times> time"

definition notifies :: "Dispatcher \<Rightarrow> timed_event \<Rightarrow> bool" where
  "notifies d = (\<lambda>(ev, t_check, t_mark). (ev_IsResolution ev \<or> \<not> isCoolingDown d t_check ev) \<and> resolveChannels d ev \<noteq> [])"

definition process_timed :: "timed_event \<Rightarrow> Dispatcher \<times> outbox \<Rightarrow> Dispatcher \<times> outbox" where
  "process_timed = (\<lambda>(ev, t_check, t_mark). processEvent t_check t_mark ev)"

text \<open>The requests of the fire events that are sent out while the events are processed in order.\<close>

fun fired :: "timed_event list \<Rightarrow> Dispatcher \<times> outbox \<Rightarrow> string request list" where
  "fired [] s = []"
| "fired (e # es) s =
     (if \<not> ev_IsResolution (fst e) \<and> notifies (fst s) e
      then [\<lparr>rq_key = event_key (fst e), rq_check = fst (snd e), rq_mark = snd (snd e)\<rparr>] else [])
     @ fired es (process_timed e s)"

definition fire_request :: "timed_event \<Rightarrow> string request" where
  "fire_request e = \<lparr>rq_key = event_key (fst e), rq_check = fst (snd e), rq_mark = snd (snd e)\<rparr>"

definition same_config :: "Dispatcher \<Rightarrow> Dispatcher \<Rightarrow> bool" where
  "same_config d d' \<longleftrightarrow> d_cooldownMinutes d' = d_cooldownMinutes d \<and> d_defaultChannels d' = d_defaultChannels d"

lemma resolveChannels_rec [simp]: "resolveChannels d (ev\<lparr>ev_Recommendations := rs\<rparr>) = resolveChannels d ev"
  and event_key_rec [simp]: "event_key (ev\<lparr>ev_Recommendations := rs\<rparr>) = event_key ev"
  by (simp_all add: resolveChannels_def event_key_def)

lemma process_timed_cooldowns:
  "d_cooldowns (fst (process_timed e s)) =
     (if \<not> ev_IsResolution (fst e) \<and> notifies (fst s) e
      then (d_cooldowns (fst s))(event_key (fst e) \<mapsto> snd (snd e)) else d_cooldowns (fst s))"
  by (cases s; cases e) (auto simp: process_timed_def processEvent_def notifies_def recordCooldown_def Let_def)

lemma process_timed_config: "same_config (fst s) (fst (process_timed e s))"
  by (cases s; cases e) (auto simp: process_timed_def processEvent_def recordCooldown_def same_config_def Let_def)

definition fire_candidates :: "Dispatcher \<Rightarrow> timed_event list \<Rightarrow> timed_event list" where
  "fire_candidates d es = filter (\<lambda>e. \<not> ev_IsResolution (fst e) \<and> resolveChannels d (fst e) \<noteq> []) es"

lemma resolveChannels_config: "same_config d d' \<Longrightarrow> resolveChannels d' ev = resolveChannels d ev"
  by (simp add: same_config_def resolveChannels_def)

lemma fire_candidates_config: "same_config d d' \<Longrightarrow> fire_candidates d' es = fire_candidates d es"
  by (simp add: fire_candidates_def resolveChannels_config)

text \<open>The dispatcher is the gate run on the fire events that have a channel.\<close>

lemma fired_gate:
  "fold (dispatch_gate.gate_step (d_cooldownMinutes (fst s))) (map fire_request (fire_candidates (fst s) es))
     (d_cooldowns (fst s), acc) =
   (d_cooldowns (fst (fold process_timed es s)), acc @ fired es s)"
proof (induction es arbitrary: s acc)
  case (Cons e es)
  let ?s' = "process_timed e s" and ?m = "d_cooldownMinutes (fst s)"
  note cfg = process_timed_config [of s e]
  have m: "d_cooldownMinutes (fst ?s') = ?m" using cfg by (simp add: same_config_def)
  let ?cand = "\<not> ev_IsResolution (fst e) \<and> resolveChannels (fst s) (fst e) \<noteq> []"
  have "fold (dispatch_gate.gate_step ?m) (map fire_request (fire_candidates (fst s) [e])) (d_cooldowns (fst s), acc) =
      (d_cooldowns (fst ?s'), acc @ fired [e] s)"
    by (cases e) (auto simp: fire_candidates_def process_timed_cooldowns notifies_def isCoolingDown_def
        dispatch_gate.gate_step_def fire_request_def)
  moreover have "fire_candidates (fst s) (e # es) = fire_candidates (fst s) [e] @ fire_candidates (fst ?s') es"
    by (simp add: fire_candidates_config [OF cfg]) (simp add: fire_candidates_def)
  moreover have "fired (e # es) s = fired [e] s @ fired es ?s'" by simp
  ultimately show ?case using Cons.IH [of ?s' "acc @ fired [e] s"] by (simp only: fold_append comp_apply map_append m fold_simps append.assoc)
qed (simp add: fire_candidates_def)

definition clock_ok :: "timed_event list \<Rightarrow> bool" where
  "clock_ok es = list_all (\<lambda>e. fst (snd e) \<le> snd (snd e)) es"

lemma ordered_candidates:
  "0 \<le> m \<Longrightarrow> clock_ok es \<Longrightarrow> dispatch_gate.ordered_requests m (map fire_request (fire_candidates d es))"
  by (auto simp: dispatch_gate.ordered_requests_def fire_candidates_def fire_request_def clock_ok_def list_all_iff)


text \<open>Every branch of \<open>processEvent\<close>: a fire event in its cooldown changes nothing and sends
  nothing; an event without channels is dropped; every other event goes to each of its registered
  channels in order, carries the recommendations when it is a fire event, starts the cooldown when
  it is a fire event, and is handed to every hook. A resolution is never suppressed.\<close>

theorem process_event_branches:
  "processEvent t_check t_mark ev (d, out) =
     (if \<not> ev_IsResolution ev \<and> isCoolingDown d t_check ev \<or> resolveChannels d ev = [] then (d, out)
      else let ev' = (if ev_IsResolution ev then ev else ev\<lparr>ev_Recommendations := runRemediation d ev\<rparr>);
               sent = fold (send_channel d ev') (resolveChannels d ev) out
           in (if ev_IsResolution ev then d else d\<lparr>d_cooldowns := (d_cooldowns d)(event_key ev \<mapsto> t_mark)\<rparr>,
               sent\<lparr>o_hooks := o_hooks sent @ map (\<lambda>hook. (hook, ev')) (d_onAlertHooks d)\<rparr>))"
  by (auto simp: processEvent_def recordCooldown_def Let_def)

subsection \<open>A concrete dispatcher\<close>

definition demo_event :: "bool \<Rightarrow> AlertEvent" where
  "demo_event res = \<lparr>ev_ID = 1, ev_RuleID = ''cpu'', ev_RuleName = ''CPU'', ev_InstanceID = ''db1'', ev_Severity = ''warning'',
     ev_Value = 90, ev_Threshold = 80, ev_Operator = ''>'', ev_Metric = ''os.cpu'', ev_Labels = [], ev_Channels = [''email''],
     ev_FiredAt = 0, ev_ResolvedAt = None, ev_IsResolution = res, ev_Recommendations = []\<rparr>"

text \<open>A mail server that is down: no attempt ever succeeds.\<close>

definition demo_notifier :: Notifier where
  "demo_notifier = \<lparr>n_Name = ''email'', n_Send = (\<lambda>log ev. False)\<rparr>"

definition demo_dispatcher :: Dispatcher where
  "demo_dispatcher = NewDispatcher (Register demo_notifier []) [] 15"

definition empty_outbox :: outbox where
  "empty_outbox = \<lparr>o_sent = [], o_slept = 0, o_hooks = []\<rparr>"

text \<open>The cooldown starts even when no attempt to notify succeeded: with the mail server down,
  the first fire event fails three times and is then lost, and the next fire event of the same
  rule within the cooldown is suppressed without a single attempt.\<close>

theorem failed_notification_starts_cooldown:
  "let s1 = processEvent 0 (3 * Second) (demo_event False) (demo_dispatcher, empty_outbox);
       s2 = processEvent Minute Minute (demo_event False) s1
   in map (\<lambda>(ch, ev, ok). (ch, ok)) (o_sent (snd s1)) = [(''email'', False), (''email'', False), (''email'', False)] \<and>
      o_slept (snd s1) = 3 * Second \<and> s2 = s1"
  by (simp add: processEvent_def demo_event_def demo_dispatcher_def NewDispatcher_def Register_def demo_notifier_def
      isCoolingDown_def cooling_def resolveChannels_def send_channel_def registry_Get_def sendWithRetry_def
      runRemediation_def recordCooldown_def empty_outbox_def event_key_def cooldownKey_def Let_def numeral_3_eq_3)

theorem send_with_retry_bounded_witness:
  "o_slept (sendWithRetry demo_dispatcher demo_notifier (demo_event False) empty_outbox) \<le> 3 * Second"
  using send_with_retry_bounded [of demo_dispatcher demo_notifier "demo_event False" empty_outbox]
  by (simp add: demo_dispatcher_def NewDispatcher_def empty_outbox_def)

theorem dispatch_fifo_bounded_witness:
  "\<exists>d'. Dispatch (demo_event False) demo_dispatcher = Some (d', True) \<and> d_events d' = [demo_event False] \<and>
     length (d_events d') \<le> defaultBufferSize"
proof -
  let ?d' = "demo_dispatcher\<lparr>d_events := [demo_event False]\<rparr>"
  have d: "Dispatch (demo_event False) demo_dispatcher = Some (?d', True)"
    by (simp add: Dispatch_def demo_dispatcher_def NewDispatcher_def defaultBufferSize_def)
  have "queue_run demo_dispatcher empty_outbox [] []"
    by (rule queue_run.start) (simp add: demo_dispatcher_def NewDispatcher_def)
  from dispatch_fifo_bounded [OF queue_run.accept [OF this d]] d show ?thesis by auto
qed


end
