(* ===== verification/AuthCore.thy ===== *)
theory AuthCore
  imports PulsePrelude
begin

section \<open>Authentication and authorisation (\<open>internal/auth\<close>)\<close>

text \<open>
  Roles and permissions (\<open>rbac.go\<close>), the login rate limiter (\<open>ratelimit.go\<close>), JSON web tokens
  (\<open>jwt.go\<close>) and the HTTP middleware (\<open>middleware.go\<close>). Roles, permissions and token types are
  strings as in the code. The JWT library is not part of the repository: it is the argument
  \<open>lib\<close> of type \<open>jwt_lib\<close>, with what the code relies on in \<open>jwt_lib_ok\<close>. A middleware is a
  function from a request to either an error response or the request handed to the next handler.
\<close>

subsection \<open>Roles and permissions\<close>

type_synonym Permission = string
type_synonym Role = string

abbreviation "PermUserManagement \<equiv> ''user_management''"
abbreviation "PermInstanceManagement \<equiv> ''instance_management''"
abbreviation "PermAlertManagement \<equiv> ''alert_management''"
abbreviation "PermViewAll \<equiv> ''view_all''"
abbreviation "PermSelfManagement \<equiv> ''self_management''"

abbreviation "RoleSuperAdmin \<equiv> ''super_admin''"
abbreviation "RoleRolesAdmin \<equiv> ''roles_admin''"
abbreviation "RoleDBA \<equiv> ''dba''"
abbreviation "RoleAppAdmin \<equiv> ''app_admin''"

definition ValidRoles :: "Role list" where
  "ValidRoles = [RoleSuperAdmin, RoleRolesAdmin, RoleDBA, RoleAppAdmin]"

definition RolePermissions :: "Role \<rightharpoonup> Permission list" where
  "RolePermissions =
     [RoleSuperAdmin \<mapsto> [PermUserManagement, PermInstanceManagement, PermAlertManagement, PermViewAll, PermSelfManagement],
      RoleRolesAdmin \<mapsto> [PermUserManagement, PermViewAll, PermSelfManagement],
      RoleDBA \<mapsto> [PermInstanceManagement, PermAlertManagement, PermViewAll, PermSelfManagement],
      RoleAppAdmin \<mapsto> [PermAlertManagement, PermViewAll, PermSelfManagement]]"

definition HasPermission :: "Role \<Rightarrow> Permission \<Rightarrow> bool" where
  "HasPermission role perm =
     (case RolePermissions role of None \<Rightarrow> False | Some perms \<Rightarrow> list_ex (\<lambda>p. p = perm) perms)"

definition PermissionsForRole :: "Role \<Rightarrow> string list" where
  "PermissionsForRole role = (case RolePermissions role of None \<Rightarrow> [] | Some perms \<Rightarrow> map (\<lambda>p. p) perms)"

definition ValidRole :: "string \<Rightarrow> bool" where
  "ValidRole role = list_ex (\<lambda>r. r = role) ValidRoles"

subsection \<open>The login rate limiter\<close>

record RateLimiter =
  rl_attempts :: "string \<rightharpoonup> time list"
  rl_maxAttempts :: int
  rl_window :: duration

definition NewRateLimiter :: "int \<Rightarrow> duration \<Rightarrow> RateLimiter" where
  "NewRateLimiter maxAttempts window = \<lparr>rl_attempts = Map.empty, rl_maxAttempts = maxAttempts, rl_window = window\<rparr>"

definition attempts_of :: "RateLimiter \<Rightarrow> string \<Rightarrow> time list" where
  "attempts_of rl ip = (case rl_attempts rl ip of None \<Rightarrow> [] | Some ts \<Rightarrow> ts)"

definition pruneExpired :: "time \<Rightarrow> string \<Rightarrow> RateLimiter \<Rightarrow> RateLimiter" where
  "pruneExpired now ip rl =
     (let cutoff = now - rl_window rl;
          entries = attempts_of rl ip;
          i = length (takeWhile (\<lambda>t. t < cutoff) entries);
          rl1 = (if i > 0 then rl\<lparr>rl_attempts := (rl_attempts rl)(ip \<mapsto> drop i entries)\<rparr> else rl)
      in if attempts_of rl1 ip = [] then rl1\<lparr>rl_attempts := (rl_attempts rl1)(ip := None)\<rparr> else rl1)"

definition Allow :: "time \<Rightarrow> string \<Rightarrow> RateLimiter \<Rightarrow> RateLimiter \<times> bool" where
  "Allow now ip rl =
     (let rl' = pruneExpired now ip rl in (rl', int (length (attempts_of rl' ip)) < rl_maxAttempts rl'))"

definition RecordFailure :: "time \<Rightarrow> string \<Rightarrow> RateLimiter \<Rightarrow> RateLimiter" where
  "RecordFailure now ip rl = rl\<lparr>rl_attempts := (rl_attempts rl)(ip \<mapsto> attempts_of rl ip @ [now])\<rparr>"

text \<open>\<open>now2\<close> is the clock reading of \<open>time.Since\<close>. With a maximum of 0 or less the list may be
  empty when \<open>entries[0]\<close> is read, which panics (\<open>None\<close>).\<close>

definition RetryAfter :: "time \<Rightarrow> time \<Rightarrow> string \<Rightarrow> RateLimiter \<Rightarrow> RateLimiter \<times> int option" where
  "RetryAfter now now2 ip rl =
     (let rl' = pruneExpired now ip rl; entries = attempts_of rl' ip in
      if int (length entries) < rl_maxAttempts rl' then (rl', Some 0)
      else case entries of [] \<Rightarrow> (rl', None)
      | t0 # ts \<Rightarrow>
          (let remaining = rl_window rl' - (now2 - t0) in
           if remaining \<le> 0 then (rl', Some 0) else (rl', Some (remaining div Second + 1))))"

record Request =
  rq_Authorization :: string
  rq_XForwardedFor :: string
  rq_XRealIP :: string
  rq_RemoteAddr :: string

definition ClientIP :: "Request \<Rightarrow> string" where
  "ClientIP r =
     (if rq_XForwardedFor r \<noteq> '''' then
        let xff = rq_XForwardedFor r;
            xff' = (case index_byte (CHR '','') xff of None \<Rightarrow> xff | Some comma \<Rightarrow> if comma > 0 then take comma xff else xff)
        in TrimSpace xff'
      else if rq_XRealIP r \<noteq> '''' then TrimSpace (rq_XRealIP r)
      else case SplitHostPort (rq_RemoteAddr r) of None \<Rightarrow> rq_RemoteAddr r | Some host \<Rightarrow> host)"

subsection \<open>Tokens\<close>

record User =
  u_ID :: int
  u_Username :: string
  u_PasswordHash :: string
  u_Role :: string
  u_Active :: bool
  u_LastLogin :: "time option"
  u_CreatedAt :: time
  u_UpdatedAt :: time

type_synonym TokenType = string

abbreviation "TokenAccess \<equiv> ''access''"
abbreviation "TokenRefresh \<equiv> ''refresh''"

record Claims =
  c_Issuer :: string
  c_IssuedAt :: time
  c_ExpiresAt :: time
  c_UserID :: int
  c_Username :: string
  c_Role :: string
  c_Type :: TokenType
  c_Permissions :: "string list"

record TokenPair =
  tp_AccessToken :: string
  tp_RefreshToken :: string
  tp_ExpiresIn :: int

record JWTService =
  j_secret :: string
  j_refreshSecret :: string
  j_accessTokenTTL :: duration
  j_refreshTokenTTL :: duration

text \<open>
  What the code uses of the JWT library: \<open>sign\<close> is HS256 signing with a key (it may fail),
  \<open>parse key now token\<close> is \<open>ParseWithClaims\<close> with a key function that accepts HMAC tokens only
  and answers \<open>key\<close>; it reports an error or the claims of a valid token.
\<close>

record jwt_lib =
  jl_sign :: "string \<Rightarrow> Claims \<Rightarrow> string + string"
  jl_parse :: "string \<Rightarrow> time \<Rightarrow> string \<Rightarrow> string + Claims"

text \<open>Documented behaviour of the library: a token parses exactly under the key it was signed
  with and before it expires, and gives back the claims.\<close>

definition jwt_lib_ok :: "jwt_lib \<Rightarrow> bool" where
  "jwt_lib_ok lib \<longleftrightarrow>
     (\<forall>key claims token key' now. jl_sign lib key claims = Inr token \<longrightarrow>
        (if key' = key \<and> now < c_ExpiresAt claims then jl_parse lib key' now token = Inr claims
         else \<exists>e. jl_parse lib key' now token = Inl e))"

text \<open>\<open>jwt.NewNumericDate\<close> truncates to seconds.\<close>

definition NewNumericDate :: "time \<Rightarrow> time" where
  "NewNumericDate t = t - t mod Second"

definition token_claims :: "User \<Rightarrow> TokenType \<Rightarrow> time \<Rightarrow> duration \<Rightarrow> Claims" where
  "token_claims user tokenType now ttl =
     \<lparr>c_Issuer = ''pgpulse'', c_IssuedAt = NewNumericDate now, c_ExpiresAt = NewNumericDate (now + ttl),
      c_UserID = u_ID user, c_Username = u_Username user, c_Role = u_Role user, c_Type = tokenType,
      c_Permissions = PermissionsForRole (u_Role user)\<rparr>"

definition generateToken :: "jwt_lib \<Rightarrow> JWTService \<Rightarrow> User \<Rightarrow> TokenType \<Rightarrow> time \<Rightarrow> duration \<Rightarrow> string + string" where
  "generateToken lib s user tokenType now ttl =
     (let secret = (if tokenType = TokenRefresh then j_refreshSecret s else j_secret s)
      in jl_sign lib secret (token_claims user tokenType now ttl))"

definition GenerateTokenPair :: "jwt_lib \<Rightarrow> JWTService \<Rightarrow> time \<Rightarrow> User \<Rightarrow> string + TokenPair" where
  "GenerateTokenPair lib s now user =
     (case generateToken lib s user TokenAccess now (j_accessTokenTTL s) of
        Inl err \<Rightarrow> Inl (''generate access token: '' @ err)
      | Inr accessToken \<Rightarrow>
          (case generateToken lib s user TokenRefresh now (j_refreshTokenTTL s) of
             Inl err \<Rightarrow> Inl (''generate refresh token: '' @ err)
           | Inr refreshToken \<Rightarrow>
               Inr \<lparr>tp_AccessToken = accessToken, tp_RefreshToken = refreshToken,
                    tp_ExpiresIn = go_quot (j_accessTokenTTL s) Second\<rparr>))"

definition GenerateAccessToken :: "jwt_lib \<Rightarrow> JWTService \<Rightarrow> time \<Rightarrow> User \<Rightarrow> string + string" where
  "GenerateAccessToken lib s now user = generateToken lib s user TokenAccess now (j_accessTokenTTL s)"

definition ValidateToken :: "jwt_lib \<Rightarrow> JWTService \<Rightarrow> time \<Rightarrow> string \<Rightarrow> string + Claims" where
  "ValidateToken lib s now tokenString =
     (case jl_parse lib (j_secret s) now tokenString of
        Inl err \<Rightarrow> Inl (''parse token: '' @ err) | Inr claims \<Rightarrow> Inr claims)"

definition ValidateRefreshToken :: "jwt_lib \<Rightarrow> JWTService \<Rightarrow> time \<Rightarrow> string \<Rightarrow> string + Claims" where
  "ValidateRefreshToken lib s now tokenString =
     (case jl_parse lib (j_refreshSecret s) now tokenString of
        Inl err \<Rightarrow> Inl (''parse refresh token: '' @ err) | Inr claims \<Rightarrow> Inr claims)"

subsection \<open>Middleware\<close>

datatype AuthMode = AuthEnabled | AuthDisabled

text \<open>An error response (status, code, message), or the claims put into the request context.\<close>

type_synonym http_error = "int \<times> string \<times> string"

definition admin_claims :: Claims where
  "admin_claims = \<lparr>c_Issuer = '''', c_IssuedAt = 0, c_ExpiresAt = 0, c_UserID = 0, c_Username = ''admin'',
     c_Role = RoleSuperAdmin, c_Type = TokenAccess, c_Permissions = PermissionsForRole RoleSuperAdmin\<rparr>"

definition RequireAuth :: "jwt_lib \<Rightarrow> JWTService \<Rightarrow> time \<Rightarrow> Request \<Rightarrow> http_error + Claims" where
  "RequireAuth lib s now r =
     (let header = rq_Authorization r in
      if header = '''' then Inl (401, ''UNAUTHORIZED'', ''missing Authorization header'')
      else let parts = SplitN 2 (CHR '' '') header in
        if length parts \<noteq> 2 \<or> \<not> EqualFold (parts ! 0) ''bearer''
        then Inl (401, ''UNAUTHORIZED'', ''invalid Authorization header format'')
        else case ValidateToken lib s now (parts ! 1) of
          Inl err \<Rightarrow> Inl (401, ''UNAUTHORIZED'', ''invalid or expired token'')
        | Inr claims \<Rightarrow>
            if c_Type claims \<noteq> TokenAccess then Inl (401, ''UNAUTHORIZED'', ''expected access token'')
            else Inr claims)"

definition NewAuthMiddleware :: "jwt_lib \<Rightarrow> JWTService \<Rightarrow> AuthMode \<Rightarrow> time \<Rightarrow> Request \<Rightarrow> http_error + Claims" where
  "NewAuthMiddleware lib s mode now r = (if mode = AuthDisabled then Inr admin_claims else RequireAuth lib s now r)"

definition RequirePermission :: "Permission \<Rightarrow> Claims option \<Rightarrow> http_error + Claims" where
  "RequirePermission perm ctx =
     (case ctx of None \<Rightarrow> Inl (401, ''UNAUTHORIZED'', ''authentication required'')
      | Some claims \<Rightarrow>
          if \<not> HasPermission (c_Role claims) perm then Inl (403, ''FORBIDDEN'', ''insufficient permissions'')
          else Inr claims)"

definition RequireRole :: "string \<Rightarrow> Claims option \<Rightarrow> http_error + Claims" where
  "RequireRole requiredRole ctx =
     (case ctx of None \<Rightarrow> Inl (401, ''UNAUTHORIZED'', ''authentication required'')
      | Some claims \<Rightarrow>
          if \<not> HasPermission (c_Role claims) PermViewAll then Inl (403, ''FORBIDDEN'', ''insufficient permissions'')
          else Inr claims)"

end
