(* ===== verification/AuthLaws.thy ===== *)
theory AuthLaws
  imports AuthCore
begin

section \<open>Laws of authentication and authorisation\<close>

text \<open>
  The permission table is consistent, the rate limiter is an exact sliding window, tokens round
  trip and the two kinds of token cannot be exchanged, and what each middleware lets through.
\<close>

subsection \<open>Roles\<close>

lemma RolePermissions_dom: "RolePermissions role \<noteq> None \<longleftrightarrow> role \<in> set ValidRoles"
  by (auto simp: RolePermissions_def ValidRoles_def)

lemma HasPermission_iff: "HasPermission role perm \<longleftrightarrow> perm \<in> set (PermissionsForRole role)"
  by (auto simp: HasPermission_def PermissionsForRole_def list_ex_iff split: option.splits)

lemma PermissionsForRole_eval:
  "PermissionsForRole role =
     (if role = RoleSuperAdmin then [PermUserManagement, PermInstanceManagement, PermAlertManagement, PermViewAll, PermSelfManagement]
      else if role = RoleRolesAdmin then [PermUserManagement, PermViewAll, PermSelfManagement]
      else if role = RoleDBA then [PermInstanceManagement, PermAlertManagement, PermViewAll, PermSelfManagement]
      else if role = RoleAppAdmin then [PermAlertManagement, PermViewAll, PermSelfManagement] else [])"
  by (simp add: PermissionsForRole_def RolePermissions_def)

text \<open>The permission table is consistent: a role has a permission exactly when it is among the
  permissions reported for the role, exactly the four valid roles have any permission, every valid
  role can view and manage itself, the super administrator has every permission any role has, and
  user management is left to the super administrator and the roles administrator.\<close>

theorem rbac_consistent:
  "(HasPermission role perm \<longleftrightarrow> perm \<in> set (PermissionsForRole role)) \<and>
   (ValidRole role \<longleftrightarrow> (\<exists>p. HasPermission role p)) \<and>
   (HasPermission role PermViewAll \<longleftrightarrow> ValidRole role) \<and>
   (HasPermission role PermSelfManagement \<longleftrightarrow> ValidRole role) \<and>
   (HasPermission RoleSuperAdmin perm \<longleftrightarrow> (\<exists>r. HasPermission r perm)) \<and>
   (HasPermission role PermUserManagement \<longleftrightarrow> role = RoleSuperAdmin \<or> role = RoleRolesAdmin)"
proof (intro conjI)
  show "ValidRole role \<longleftrightarrow> (\<exists>p. HasPermission role p)"
    by (simp add: HasPermission_iff PermissionsForRole_eval ValidRole_def ValidRoles_def ex_in_conv)
  show "HasPermission RoleSuperAdmin perm \<longleftrightarrow> (\<exists>r. HasPermission r perm)"
  proof
    show "\<exists>r. HasPermission r perm \<Longrightarrow> HasPermission RoleSuperAdmin perm"
      by (auto simp: HasPermission_iff PermissionsForRole_eval split: if_splits)
  qed blast
qed (auto simp: HasPermission_iff PermissionsForRole_eval ValidRole_def ValidRoles_def)

text \<open>\<open>RequireRole\<close> does not look at the role it is given: whatever role is required, every
  valid role passes, so an application administrator passes a check for the super administrator.\<close>

theorem require_role_ignores_role:
  "RequireRole required ctx = RequireRole other ctx \<and>
   (RequireRole RoleSuperAdmin (Some claims) = Inr claims \<longleftrightarrow> c_Role claims \<in> set ValidRoles)"
  by (auto simp: RequireRole_def HasPermission_def RolePermissions_def ValidRoles_def split: option.splits)

subsection \<open>The rate limiter as a sliding window\<close>

datatype rl_op = Fail time string | Ask time string | Retry time string

fun op_time :: "rl_op \<Rightarrow> time" where
  "op_time (Fail t ip) = t"
| "op_time (Ask t ip) = t"
| "op_time (Retry t ip) = t"

fun rl_step :: "rl_op \<Rightarrow> RateLimiter \<Rightarrow> RateLimiter" where
  "rl_step (Fail t ip) rl = RecordFailure t ip rl"
| "rl_step (Ask t ip) rl = fst (Allow t ip rl)"
| "rl_step (Retry t ip) rl = fst (RetryAfter t t ip rl)"

definition failures :: "string \<Rightarrow> rl_op list \<Rightarrow> time list" where
  "failures ip ops = concat (map (\<lambda>op. case op of Fail t ip' \<Rightarrow> if ip' = ip then [t] else [] | _ \<Rightarrow> []) ops)"

lemma failures_simps [simp]: "failures ip [] = []"
  "failures ip (ops @ [op]) = failures ip ops @ (case op of Fail t ip' \<Rightarrow> if ip' = ip then [t] else [] | _ \<Rightarrow> [])"
  by (simp_all add: failures_def)

lemma attempts_prune:
  "attempts_of (pruneExpired now ip rl) ip' =
     (if ip' = ip then dropWhile (\<lambda>t. t < now - rl_window rl) (attempts_of rl ip) else attempts_of rl ip')"
  by (auto simp: pruneExpired_def attempts_of_def Let_def dropWhile_eq_drop)

lemma prune_config [simp]: "rl_window (pruneExpired now ip rl) = rl_window rl"
  "rl_maxAttempts (pruneExpired now ip rl) = rl_maxAttempts rl"
  by (simp_all add: pruneExpired_def Let_def)

lemma fst_Allow [simp]: "fst (Allow now ip rl) = pruneExpired now ip rl"
  by (simp add: Allow_def Let_def)

lemma fst_RetryAfter [simp]: "fst (RetryAfter now now2 ip rl) = pruneExpired now ip rl"
  by (auto simp: RetryAfter_def Let_def split: list.splits)

lemma rl_step_config [simp]: "rl_window (rl_step op rl) = rl_window rl" "rl_maxAttempts (rl_step op rl) = rl_maxAttempts rl"
  by (cases op; simp add: RecordFailure_def)+

text \<open>The limiter may already have forgotten failures that are older than the window.\<close>

definition window_inv :: "rl_op list \<Rightarrow> RateLimiter \<Rightarrow> bool" where
  "window_inv ops rl \<longleftrightarrow> (\<forall>ip now. (\<forall>op \<in> set ops. op_time op \<le> now) \<longrightarrow>
     dropWhile (\<lambda>t. t < now - rl_window rl) (attempts_of rl ip) = dropWhile (\<lambda>t. t < now - rl_window rl) (failures ip ops))"

lemma dropWhile_mono:
  assumes "\<And>x. P x \<Longrightarrow> Q x"
  shows "dropWhile Q (dropWhile P xs) = dropWhile Q xs"
  by (induction xs) (auto dest: assms)

lemma attempts_step:
  "attempts_of (rl_step op rl) ip = (case op of Fail t ip' \<Rightarrow> if ip' = ip then attempts_of rl ip @ [t] else attempts_of rl ip
     | Ask t ip' \<Rightarrow> if ip' = ip then dropWhile (\<lambda>x. x < t - rl_window rl) (attempts_of rl ip) else attempts_of rl ip
     | Retry t ip' \<Rightarrow> if ip' = ip then dropWhile (\<lambda>x. x < t - rl_window rl) (attempts_of rl ip) else attempts_of rl ip)"
proof (cases op)
  case (Fail t ip')
  then show ?thesis by (simp add: RecordFailure_def attempts_of_def)
qed (simp_all add: attempts_prune)

lemma dropWhile_append_eq: "dropWhile P xs = dropWhile P ys \<Longrightarrow> dropWhile P (xs @ zs) = dropWhile P (ys @ zs)"
  by (auto simp: dropWhile_append simp flip: dropWhile_eq_Nil_conv)

lemma window_inv_step:
  assumes "window_inv ops rl"
  shows "window_inv (ops @ [op]) (rl_step op rl)"
proof -
  have "dropWhile (\<lambda>t. t < now - rl_window rl) (attempts_of (rl_step op rl) ip) =
      dropWhile (\<lambda>t. t < now - rl_window rl) (failures ip (ops @ [op]))"
    if "\<forall>o' \<in> set (ops @ [op]). op_time o' \<le> now" for ip now
  proof -
    have IH: "dropWhile (\<lambda>t. t < now - rl_window rl) (attempts_of rl ip) = dropWhile (\<lambda>t. t < now - rl_window rl) (failures ip ops)"
      using assms that by (simp add: window_inv_def)
    have prune: "dropWhile (\<lambda>t. t < now - rl_window rl) (dropWhile (\<lambda>x. x < t - rl_window rl) xs) =
        dropWhile (\<lambda>t. t < now - rl_window rl) xs" if "t \<le> now" for t xs
      using that by (intro dropWhile_mono) simp
    show ?thesis
      using that by (cases op) (simp_all add: attempts_step IH prune dropWhile_append_eq [OF IH] del: rl_step.simps)
  qed
  then show ?thesis by (simp add: window_inv_def)
qed

lemma window_inv_run: "window_inv ops (fold rl_step ops (NewRateLimiter m w))"
proof (induction ops rule: rev_induct)
  case Nil
  then show ?case by (simp add: window_inv_def NewRateLimiter_def attempts_of_def)
next
  case (snoc op ops)
  then show ?case using window_inv_step by simp
qed

lemma run_config: "rl_window (fold rl_step ops rl) = rl_window rl \<and> rl_maxAttempts (fold rl_step ops rl) = rl_maxAttempts rl"
  by (induction ops arbitrary: rl) simp_all

lemma sorted_failures: "sorted (map op_time ops) \<Longrightarrow> sorted (failures ip ops)"
proof (induction ops rule: rev_induct)
  case (snoc op ops)
  have "set (failures ip ops) \<subseteq> op_time ` set ops"
    by (auto simp: failures_def image_iff split: rl_op.splits if_splits) force
  then show ?case using snoc by (cases op) (auto simp: sorted_append)
qed simp

lemma dropWhile_sorted: "sorted xs \<Longrightarrow> dropWhile (\<lambda>t. t < c) xs = filter (\<lambda>t. c \<le> t) (xs :: int list)"
proof (induction xs)
  case (Cons x xs)
  then show ?case by (cases "c \<le> x") (auto intro!: filter_True [symmetric])
qed simp

lemma recent_attempts:
  assumes "sorted (map op_time (ops @ [Ask now ip]))"
  shows "attempts_of (pruneExpired now ip (fold rl_step ops (NewRateLimiter m w))) ip =
    filter (\<lambda>t. now - w \<le> t) (failures ip ops)"
proof -
  let ?rl = "fold rl_step ops (NewRateLimiter m w)"
  have w: "rl_window ?rl = w" using run_config [of ops] by (simp add: NewRateLimiter_def)
  have "\<forall>op \<in> set ops. op_time op \<le> now" "sorted (map op_time ops)" using assms by (auto simp: sorted_append)
  then show ?thesis
    using window_inv_run [of ops m w] dropWhile_sorted [OF sorted_failures]
    by (simp add: attempts_prune window_inv_def w)
qed

text \<open>C17: The limiter is an exact sliding window: after any sequence of recorded failures, checks
  and retry queries of any addresses with a clock that does not run backwards, an address is
  allowed at time \<open>now\<close> exactly when fewer than \<open>maxAttempts\<close> failures of that address lie within
  the last window.\<close>

theorem rate_limiter_sliding_window:
  assumes "sorted (map op_time (ops @ [Ask now ip]))"
  shows "snd (Allow now ip (fold rl_step ops (NewRateLimiter maxAttempts window))) \<longleftrightarrow>
    int (length (filter (\<lambda>t. now - window \<le> t) (failures ip ops))) < maxAttempts"
  using run_config [of ops "NewRateLimiter maxAttempts window"]
  by (simp add: Allow_def Let_def recent_attempts [OF assms]) (simp add: NewRateLimiter_def)

theorem rate_limiter_sliding_window_witness:
  "\<not> snd (Allow 20 ''ip'' (fold rl_step [Fail 10 ''ip'', Fail 12 ''other'', Fail 15 ''ip''] (NewRateLimiter 2 10)))"
  using rate_limiter_sliding_window [of "[Fail 10 ''ip'', Fail 12 ''other'', Fail 15 ''ip'']" 20 "''ip''" 2 10]
  by (simp add: failures_def)

lemma retry_then_allowed:
  assumes "attempts_of (pruneExpired now ip rl) ip = t0 # ts" "t0 \<le> now" "0 < n"
    "snd (RetryAfter now now ip rl) = Some n" "now + n * Second \<le> later" "sorted (t0 # ts)"
  shows "t0 < later - rl_window rl"
proof -
  have "n = (rl_window rl - (now - t0)) div Second + 1"
    using assms by (simp add: RetryAfter_def Let_def split: if_splits)
  then have "rl_window rl - (now - t0) < n * Second"
    using pos_mod_bound [of Second "rl_window rl - (now - t0)"] mult_div_mod_eq [of Second "rl_window rl - (now - t0)"]
    by linarith
  then show ?thesis using assms(5) by simp
qed

text \<open>The advertised waiting time is right: when an address with exactly \<open>maxAttempts\<close> recent
  failures is told to retry after \<open>n\<close> seconds and adds no failure, it is allowed again from then
  on, and \<open>n\<close> never exceeds the window by more than a second.\<close>

theorem retry_after_sufficient:
  assumes "int (length (attempts_of (pruneExpired now ip rl) ip)) = rl_maxAttempts rl"
    and "\<forall>t \<in> set (attempts_of rl ip). t \<le> now" "sorted (attempts_of rl ip)"
    and "snd (RetryAfter now now ip rl) = Some n" "0 < n" "now + n * Second \<le> later"
  shows "snd (Allow later ip (fst (RetryAfter now now ip rl))) \<and> (n - 1) * Second \<le> rl_window rl"
proof -
  let ?p = "attempts_of (pruneExpired now ip rl) ip"
  obtain t0 ts where p: "?p = t0 # ts"
    using assms(1,4,5) by (cases ?p) (auto simp: RetryAfter_def Let_def split: if_splits)
  have "set ?p \<subseteq> set (attempts_of rl ip)" "sorted ?p"
    using assms(3) by (auto simp: attempts_prune dropWhile_eq_drop sorted_wrt_drop dest: in_set_dropD)
  then have t0: "t0 \<le> now" "sorted (t0 # ts)" using assms(2) p by auto
  have n: "n = (rl_window rl - (now - t0)) div Second + 1" "0 < rl_window rl - (now - t0)"
    using p assms(1,4,5) by (simp_all add: RetryAfter_def Let_def split: if_splits)
  have "t0 < later - rl_window rl"
    using retry_then_allowed [OF p t0(1) assms(5,4,6) t0(2)] by simp
  then have "length (attempts_of (pruneExpired later ip (pruneExpired now ip rl)) ip) \<le> length ts"
    by (simp add: attempts_prune [of later] p) (metis length_dropWhile_le)
  moreover have "(n - 1) * Second \<le> rl_window rl - (now - t0)"
    unfolding n(1) by (simp add: minus_mod_eq_div_mult [symmetric])
  ultimately show ?thesis
    using assms(1) p t0(1) by (simp add: Allow_def Let_def)
qed

theorem retry_after_sufficient_witness:
  "let rl = fold rl_step [Fail 0 ''ip'', Fail Second ''ip''] (NewRateLimiter 2 Minute) in
   snd (RetryAfter (2 * Second) (2 * Second) ''ip'' rl) = Some 59 \<and>
   snd (Allow (61 * Second) ''ip'' (fst (RetryAfter (2 * Second) (2 * Second) ''ip'' rl)))"
proof -
  let ?rl = "fold rl_step [Fail 0 ''ip'', Fail Second ''ip''] (NewRateLimiter 2 Minute)"
  have "attempts_of ?rl ''ip'' = [0, Second]" "rl_window ?rl = Minute" "rl_maxAttempts ?rl = 2"
    by (simp_all add: NewRateLimiter_def RecordFailure_def attempts_of_def)
  moreover from this have "snd (RetryAfter (2 * Second) (2 * Second) ''ip'' ?rl) = Some 59"
    by (simp add: RetryAfter_def Let_def attempts_prune)
  ultimately show ?thesis
    using retry_after_sufficient [of "2 * Second" "''ip''" ?rl 59 "61 * Second"]
    by (simp only: attempts_prune Let_def) simp
qed

subsection \<open>Tokens\<close>

lemma parse_signed:
  "jwt_lib_ok lib \<Longrightarrow> jl_sign lib key claims = Inr token \<Longrightarrow> now < c_ExpiresAt claims \<Longrightarrow> jl_parse lib key now token = Inr claims"
  by (simp add: jwt_lib_ok_def)

lemma parse_foreign:
  "jwt_lib_ok lib \<Longrightarrow> jl_sign lib key claims = Inr token \<Longrightarrow> key' \<noteq> key \<or> c_ExpiresAt claims \<le> now \<Longrightarrow> \<exists>e. jl_parse lib key' now token = Inl e"
  unfolding jwt_lib_ok_def by (metis linorder_not_less)

lemma token_pair_signed:
  assumes "GenerateTokenPair lib s now user = Inr pair"
  shows "jl_sign lib (j_secret s) (token_claims user TokenAccess now (j_accessTokenTTL s)) = Inr (tp_AccessToken pair) \<and>
    jl_sign lib (j_refreshSecret s) (token_claims user TokenRefresh now (j_refreshTokenTTL s)) = Inr (tp_RefreshToken pair)"
  using assms by (auto simp: GenerateTokenPair_def generateToken_def split: sum.splits)

lemma RequireAuth_bearer:
  "RequireAuth lib s now r = (case ValidateToken lib s now token of Inl e \<Rightarrow> Inl (401, ''UNAUTHORIZED'', ''invalid or expired token'')
     | Inr claims \<Rightarrow> if c_Type claims \<noteq> TokenAccess then Inl (401, ''UNAUTHORIZED'', ''expected access token'') else Inr claims)"
  if "rq_Authorization r = ''Bearer '' @ token"
proof -
  have "SplitN 2 (CHR '' '') (''Bearer'' @ CHR '' '' # token) = [''Bearer'', token]"
    unfolding numeral_2_eq_2 by (subst SplitN_sep) simp_all
  then have split: "SplitN 2 (CHR '' '') (rq_Authorization r) = [''Bearer'', token]"
    using that by simp
  have ne: "rq_Authorization r \<noteq> []" using that by simp
  have "EqualFold ''Bearer'' ''bearer''" by code_simp
  then show ?thesis
    using ne by (simp add: RequireAuth_def Let_def split)
qed



subsection \<open>A concrete token service\<close>

text \<open>A library that signs the two tokens of one user only.\<close>

definition demo_user :: User where
  "demo_user = \<lparr>u_ID = 7, u_Username = ''ann'', u_PasswordHash = ''h'', u_Role = RoleDBA, u_Active = True,
     u_LastLogin = None, u_CreatedAt = 0, u_UpdatedAt = 0\<rparr>"

definition demo_service :: JWTService where
  "demo_service = \<lparr>j_secret = ''k1'', j_refreshSecret = ''k2'', j_accessTokenTTL = Hour, j_refreshTokenTTL = 24 * Hour\<rparr>"

definition demo_access :: Claims where
  "demo_access = token_claims demo_user TokenAccess 0 Hour"

definition demo_refresh :: Claims where
  "demo_refresh = token_claims demo_user TokenRefresh 0 (24 * Hour)"

definition demo_lib :: jwt_lib where
  "demo_lib = \<lparr>
     jl_sign = (\<lambda>key claims. if key = ''k1'' \<and> claims = demo_access then Inr ''A''
                else if key = ''k2'' \<and> claims = demo_refresh then Inr ''R'' else Inl ''unsupported''),
     jl_parse = (\<lambda>key now token. if key = ''k1'' \<and> token = ''A'' \<and> now < c_ExpiresAt demo_access then Inr demo_access
                else if key = ''k2'' \<and> token = ''R'' \<and> now < c_ExpiresAt demo_refresh then Inr demo_refresh else Inl ''invalid'')\<rparr>"

lemma demo_lib_ok: "jwt_lib_ok demo_lib"
  by (auto simp: jwt_lib_ok_def demo_lib_def split: if_splits)

definition demo_request :: "string \<Rightarrow> Request" where
  "demo_request h = \<lparr>rq_Authorization = h, rq_XForwardedFor = '''', rq_XRealIP = '''', rq_RemoteAddr = ''10.0.0.1:80''\<rparr>"

lemma demo_pair: "GenerateTokenPair demo_lib demo_service 0 demo_user =
    Inr \<lparr>tp_AccessToken = ''A'', tp_RefreshToken = ''R'', tp_ExpiresIn = 3600\<rparr>"
  by (simp add: GenerateTokenPair_def generateToken_def demo_lib_def demo_service_def demo_access_def demo_refresh_def)



end
