(* ===== verification/UserAdmin.thy ===== *)
theory UserAdmin
  imports AuthLaws
begin

section \<open>User accounts and the authentication endpoints (\<open>internal/auth/store.go\<close>, \<open>internal/api/auth.go\<close>)\<close>

text \<open>
  The table \<open>users\<close> with the constraints of its migrations (identity id, unique user name, role
  check, active by default), the store operations on it, and every handler of \<open>api/auth.go\<close> as a
  function from the request to the response and the new state. A request body is the decoded value
  or \<open>None\<close> when decoding fails; the bcrypt library is the pair \<open>ae_hash\<close>/\<open>ae_check\<close>. \<open>ut_up\<close>
  tells whether the database answers.
\<close>

subsection \<open>The user store\<close>

record UserTable =
  ut_rows :: "User list"
  ut_next_id :: int
  ut_up :: bool

datatype store_error = ErrUserNotFound | ErrDB

definition GetByUsername :: "UserTable \<Rightarrow> string \<Rightarrow> store_error + User" where
  "GetByUsername t username =
     (if \<not> ut_up t then Inl ErrDB
      else case find (\<lambda>u. u_Username u = username) (ut_rows t) of None \<Rightarrow> Inl ErrUserNotFound | Some u \<Rightarrow> Inr u)"

definition GetByID :: "UserTable \<Rightarrow> int \<Rightarrow> store_error + User" where
  "GetByID t i =
     (if \<not> ut_up t then Inl ErrDB
      else case find (\<lambda>u. u_ID u = i) (ut_rows t) of None \<Rightarrow> Inl ErrUserNotFound | Some u \<Rightarrow> Inr u)"

definition Create_user :: "time \<Rightarrow> string \<Rightarrow> string \<Rightarrow> string \<Rightarrow> UserTable \<Rightarrow> (UserTable \<times> User) option" where
  "Create_user now username passwordHash role t =
     (if \<not> ut_up t \<or> username \<in> u_Username ` set (ut_rows t) \<or> role \<notin> set ValidRoles then None
      else let u = \<lparr>u_ID = ut_next_id t, u_Username = username, u_PasswordHash = passwordHash, u_Role = role,
                    u_Active = True, u_LastLogin = None, u_CreatedAt = now, u_UpdatedAt = now\<rparr>
           in Some (t\<lparr>ut_rows := ut_rows t @ [u], ut_next_id := ut_next_id t + 1\<rparr>, u))"

definition Count_users :: "UserTable \<Rightarrow> nat option" where
  "Count_users t = (if \<not> ut_up t then None else Some (length (ut_rows t)))"

definition CountActiveByRole :: "UserTable \<Rightarrow> string \<Rightarrow> nat option" where
  "CountActiveByRole t role =
     (if \<not> ut_up t then None else Some (length (filter (\<lambda>u. u_Role u = role \<and> u_Active u) (ut_rows t))))"

definition List_users :: "UserTable \<Rightarrow> User list option" where
  "List_users t = (if \<not> ut_up t then None else Some (sort_key u_ID (ut_rows t)))"

definition update_row :: "int \<Rightarrow> (User \<Rightarrow> User) \<Rightarrow> UserTable \<Rightarrow> UserTable" where
  "update_row i f t = t\<lparr>ut_rows := map (\<lambda>u. if u_ID u = i then f u else u) (ut_rows t)\<rparr>"

definition Update_user :: "time \<Rightarrow> int \<Rightarrow> string option \<Rightarrow> bool option \<Rightarrow> UserTable \<Rightarrow> UserTable option" where
  "Update_user now i role active t =
     (if \<not> ut_up t \<and> (role \<noteq> None \<or> active \<noteq> None) then None
      else if (case role of None \<Rightarrow> False | Some r \<Rightarrow> r \<notin> set ValidRoles) \<and> i \<in> u_ID ` set (ut_rows t) then None
      else let t1 = (case role of None \<Rightarrow> t | Some r \<Rightarrow> update_row i (\<lambda>u. u\<lparr>u_Role := r, u_UpdatedAt := now\<rparr>) t)
           in Some (case active of None \<Rightarrow> t1 | Some a \<Rightarrow> update_row i (\<lambda>u. u\<lparr>u_Active := a, u_UpdatedAt := now\<rparr>) t1))"

definition UpdatePassword :: "time \<Rightarrow> int \<Rightarrow> string \<Rightarrow> UserTable \<Rightarrow> UserTable option" where
  "UpdatePassword now i passwordHash t =
     (if \<not> ut_up t then None else Some (update_row i (\<lambda>u. u\<lparr>u_PasswordHash := passwordHash, u_UpdatedAt := now\<rparr>) t))"

definition UpdateLastLogin :: "time \<Rightarrow> int \<Rightarrow> UserTable \<Rightarrow> UserTable option" where
  "UpdateLastLogin now i t = (if \<not> ut_up t then None else Some (update_row i (\<lambda>u. u\<lparr>u_LastLogin := Some now\<rparr>) t))"

definition Delete_user :: "int \<Rightarrow> UserTable \<Rightarrow> store_error + UserTable" where
  "Delete_user i t =
     (if \<not> ut_up t then Inl ErrDB
      else if i \<notin> u_ID ` set (ut_rows t) then Inl ErrUserNotFound
      else Inr (t\<lparr>ut_rows := filter (\<lambda>u. u_ID u \<noteq> i) (ut_rows t)\<rparr>))"

subsection \<open>Requests, responses and the server state\<close>

record userResponse =
  ur_ID :: int
  ur_Username :: string
  ur_Role :: string
  ur_Active :: bool
  ur_Permissions :: "string list"

datatype response =
    WriteError int string string
  | LoginOK TokenPair userResponse
  | RefreshOK string int
  | UserOK int userResponse
  | UsersOK "userResponse list"
  | StatusOK string

record auth_env =
  ae_authMode :: AuthMode
  ae_lib :: jwt_lib
  ae_jwt :: JWTService
  ae_check :: "string \<Rightarrow> string \<Rightarrow> bool"
  ae_hash :: "string \<Rightarrow> int \<Rightarrow> string option"
  ae_BcryptCost :: int

record auth_state =
  as_users :: UserTable
  as_limiter :: "RateLimiter option"

definition bad_body :: response where
  "bad_body = WriteError 400 ''BAD_REQUEST'' ''invalid request body''"

definition user_response :: "User \<Rightarrow> userResponse" where
  "user_response u = \<lparr>ur_ID = u_ID u, ur_Username = u_Username u, ur_Role = u_Role u, ur_Active = u_Active u,
     ur_Permissions = PermissionsForRole (u_Role u)\<rparr>"

definition record_failure :: "time \<Rightarrow> string \<Rightarrow> auth_state \<Rightarrow> auth_state" where
  "record_failure now ip st = st\<lparr>as_limiter := map_option (RecordFailure now ip) (as_limiter st)\<rparr>"

subsection \<open>The handlers\<close>

text \<open>The body is a user name and a password.\<close>

definition handleLogin :: "auth_env \<Rightarrow> time \<Rightarrow> Request \<Rightarrow> (string \<times> string) option \<Rightarrow> auth_state \<Rightarrow> auth_state \<times> response" where
  "handleLogin env now r body st =
     (if ae_authMode env = AuthDisabled then
        (st, LoginOK \<lparr>tp_AccessToken = ''disabled'', tp_RefreshToken = ''disabled'', tp_ExpiresIn = 0\<rparr>
               \<lparr>ur_ID = 0, ur_Username = ''admin'', ur_Role = RoleSuperAdmin, ur_Active = True,
                ur_Permissions = PermissionsForRole RoleSuperAdmin\<rparr>)
      else case body of None \<Rightarrow> (st, bad_body)
      | Some (username, password) \<Rightarrow>
          if username = '''' \<or> password = '''' then
            (st, WriteError 400 ''BAD_REQUEST'' ''username and password are required'')
          else case GetByUsername (as_users st) username of
            Inl ErrUserNotFound \<Rightarrow> (record_failure now (ClientIP r) st, WriteError 401 ''UNAUTHORIZED'' ''invalid credentials'')
          | Inl ErrDB \<Rightarrow> (st, WriteError 500 ''INTERNAL_ERROR'' ''authentication failed'')
          | Inr user \<Rightarrow>
              if \<not> ae_check env password (u_PasswordHash user) then
                (record_failure now (ClientIP r) st, WriteError 401 ''UNAUTHORIZED'' ''invalid credentials'')
              else if \<not> u_Active user then (st, WriteError 401 ''UNAUTHORIZED'' ''account deactivated'')
              else
                let st' = (case UpdateLastLogin now (u_ID user) (as_users st) of None \<Rightarrow> st | Some t \<Rightarrow> st\<lparr>as_users := t\<rparr>) in
                case GenerateTokenPair (ae_lib env) (ae_jwt env) now user of
                  Inl err \<Rightarrow> (st', WriteError 500 ''INTERNAL_ERROR'' ''failed to generate tokens'')
                | Inr pair \<Rightarrow> (st', LoginOK pair (user_response user)))"

definition handleRefresh :: "auth_env \<Rightarrow> time \<Rightarrow> string option \<Rightarrow> auth_state \<Rightarrow> response" where
  "handleRefresh env now body st =
     (case body of None \<Rightarrow> bad_body
      | Some token \<Rightarrow>
          (case ValidateRefreshToken (ae_lib env) (ae_jwt env) now token of
             Inl err \<Rightarrow> WriteError 401 ''UNAUTHORIZED'' ''invalid refresh token''
           | Inr claims \<Rightarrow>
               (case GetByID (as_users st) (c_UserID claims) of
                  Inl err \<Rightarrow> WriteError 401 ''UNAUTHORIZED'' ''user not found''
                | Inr user \<Rightarrow>
                    if \<not> u_Active user then WriteError 401 ''UNAUTHORIZED'' ''account deactivated''
                    else case GenerateAccessToken (ae_lib env) (ae_jwt env) now user of
                      Inl err \<Rightarrow> WriteError 500 ''INTERNAL_ERROR'' ''failed to generate token''
                    | Inr accessToken \<Rightarrow> RefreshOK accessToken (go_quot (j_accessTokenTTL (ae_jwt env)) Second))))"

definition handleMe :: "Claims option \<Rightarrow> response" where
  "handleMe ctx =
     (case ctx of None \<Rightarrow> WriteError 401 ''UNAUTHORIZED'' ''authentication required''
      | Some claims \<Rightarrow> UserOK 200 \<lparr>ur_ID = c_UserID claims, ur_Username = c_Username claims, ur_Role = c_Role claims,
          ur_Active = True, ur_Permissions = PermissionsForRole (c_Role claims)\<rparr>)"

definition handleListUsers :: "auth_state \<Rightarrow> response" where
  "handleListUsers st =
     (case List_users (as_users st) of None \<Rightarrow> WriteError 500 ''INTERNAL_ERROR'' ''failed to list users''
      | Some users \<Rightarrow> UsersOK (map user_response users))"

definition not_super :: "Claims option \<Rightarrow> bool" where
  "not_super ctx = (case ctx of None \<Rightarrow> False | Some claims \<Rightarrow> c_Role claims \<noteq> RoleSuperAdmin)"

definition privileged :: "Role \<Rightarrow> bool" where
  "privileged role \<longleftrightarrow> role = RoleSuperAdmin \<or> role = RoleRolesAdmin"

text \<open>The body is user name, password and role.\<close>

definition handleRegister :: "auth_env \<Rightarrow> time \<Rightarrow> Claims option \<Rightarrow> (string \<times> string \<times> string) option \<Rightarrow> auth_state \<Rightarrow> auth_state \<times> response" where
  "handleRegister env now ctx body st =
     (case body of None \<Rightarrow> (st, bad_body)
      | Some (username, password, role) \<Rightarrow>
          if username = '''' \<or> password = '''' \<or> role = '''' then
            (st, WriteError 400 ''BAD_REQUEST'' ''username, password, and role are required'')
          else if \<not> ValidRole role then (st, WriteError 400 ''BAD_REQUEST'' ''invalid role'')
          else if not_super ctx \<and> privileged role then
            (st, WriteError 403 ''FORBIDDEN'' ''only super_admin can create privileged users'')
          else case ae_hash env password (ae_BcryptCost env) of
            None \<Rightarrow> (st, WriteError 500 ''INTERNAL_ERROR'' ''failed to hash password'')
          | Some hash \<Rightarrow>
              (case Create_user now username hash role (as_users st) of
                 None \<Rightarrow> (st, WriteError 409 ''CONFLICT'' ''username already exists'')
               | Some (t, user) \<Rightarrow> (st\<lparr>as_users := t\<rparr>, UserOK 201 (user_response user))))"

definition is_self :: "Claims option \<Rightarrow> int \<Rightarrow> bool" where
  "is_self ctx i = (case ctx of None \<Rightarrow> False | Some claims \<Rightarrow> c_UserID claims = i)"

text \<open>The body is an optional role and an optional active flag.\<close>

definition handleUpdateUser :: "time \<Rightarrow> Claims option \<Rightarrow> string \<Rightarrow> (string option \<times> bool option) option \<Rightarrow> auth_state \<Rightarrow> auth_state \<times> response" where
  "handleUpdateUser now ctx idStr body st =
     (case ParseInt idStr of None \<Rightarrow> (st, WriteError 400 ''BAD_REQUEST'' ''invalid user ID'')
      | Some i \<Rightarrow>
         (case body of None \<Rightarrow> (st, bad_body)
          | Some (role, active) \<Rightarrow>
              if is_self ctx i \<and> active = Some False then
                (st, WriteError 400 ''BAD_REQUEST'' ''cannot deactivate your own account'')
              else if (case role of None \<Rightarrow> False | Some r \<Rightarrow> \<not> ValidRole r) then
                (st, WriteError 400 ''BAD_REQUEST'' ''invalid role'')
              else if (case role of None \<Rightarrow> False | Some r \<Rightarrow> not_super ctx \<and> privileged r) then
                (st, WriteError 403 ''FORBIDDEN'' ''only super_admin can assign privileged roles'')
              else case Update_user now i role active (as_users st) of
                None \<Rightarrow> (st, WriteError 500 ''INTERNAL_ERROR'' ''failed to update user'')
              | Some t \<Rightarrow> (st\<lparr>as_users := t\<rparr>, StatusOK ''updated'')))"

definition handleDeleteUser :: "Claims option \<Rightarrow> string \<Rightarrow> auth_state \<Rightarrow> auth_state \<times> response" where
  "handleDeleteUser ctx idStr st =
     (case ParseInt idStr of None \<Rightarrow> (st, WriteError 400 ''BAD_REQUEST'' ''invalid user ID'')
      | Some i \<Rightarrow>
          if is_self ctx i then (st, WriteError 400 ''BAD_REQUEST'' ''cannot delete your own account'')
          else case GetByID (as_users st) i of
            Inl ErrUserNotFound \<Rightarrow> (st, WriteError 404 ''NOT_FOUND'' ''user not found'')
          | Inl ErrDB \<Rightarrow> (st, WriteError 500 ''INTERNAL_ERROR'' ''failed to fetch user'')
          | Inr user \<Rightarrow>
              (case (if u_Role user = RoleSuperAdmin then map_option (\<lambda>n. n \<le> 1) (CountActiveByRole (as_users st) RoleSuperAdmin)
                     else Some False) of
                 None \<Rightarrow> (st, WriteError 500 ''INTERNAL_ERROR'' ''failed to check super admin count'')
               | Some True \<Rightarrow> (st, WriteError 400 ''BAD_REQUEST'' ''cannot delete the last active super admin'')
               | Some False \<Rightarrow>
                   (case Delete_user i (as_users st) of
                      Inl err \<Rightarrow> (st, WriteError 500 ''INTERNAL_ERROR'' ''failed to delete user'')
                    | Inr t \<Rightarrow> (st\<lparr>as_users := t\<rparr>, StatusOK ''deleted''))))"

definition handleAdminResetPassword :: "auth_env \<Rightarrow> time \<Rightarrow> string \<Rightarrow> string option \<Rightarrow> auth_state \<Rightarrow> auth_state \<times> response" where
  "handleAdminResetPassword env now idStr body st =
     (case ParseInt idStr of None \<Rightarrow> (st, WriteError 400 ''BAD_REQUEST'' ''invalid user ID'')
      | Some i \<Rightarrow>
         (case body of None \<Rightarrow> (st, bad_body)
          | Some newPassword \<Rightarrow>
              if length newPassword < 8 then (st, WriteError 400 ''BAD_REQUEST'' ''password must be at least 8 characters'')
              else case GetByID (as_users st) i of
                Inl ErrUserNotFound \<Rightarrow> (st, WriteError 404 ''NOT_FOUND'' ''user not found'')
              | Inl ErrDB \<Rightarrow> (st, WriteError 500 ''INTERNAL_ERROR'' ''failed to fetch user'')
              | Inr user \<Rightarrow>
                  (case ae_hash env newPassword (ae_BcryptCost env) of
                     None \<Rightarrow> (st, WriteError 500 ''INTERNAL_ERROR'' ''failed to hash password'')
                   | Some hash \<Rightarrow>
                       (case UpdatePassword now i hash (as_users st) of
                          None \<Rightarrow> (st, WriteError 500 ''INTERNAL_ERROR'' ''failed to reset password'')
                        | Some t \<Rightarrow> (st\<lparr>as_users := t\<rparr>, StatusOK ''password reset'')))))"

definition handleChangePassword :: "auth_env \<Rightarrow> time \<Rightarrow> Claims option \<Rightarrow> (string \<times> string) option \<Rightarrow> auth_state \<Rightarrow> auth_state \<times> response" where
  "handleChangePassword env now ctx body st =
     (case body of None \<Rightarrow> (st, bad_body)
      | Some (currentPassword, newPassword) \<Rightarrow>
          if currentPassword = '''' \<or> newPassword = '''' then
            (st, WriteError 400 ''BAD_REQUEST'' ''current_password and new_password are required'')
          else case ctx of None \<Rightarrow> (st, WriteError 401 ''UNAUTHORIZED'' ''authentication required'')
          | Some claims \<Rightarrow>
              (case GetByID (as_users st) (c_UserID claims) of
                 Inl err \<Rightarrow> (st, WriteError 500 ''INTERNAL_ERROR'' ''failed to fetch user'')
               | Inr user \<Rightarrow>
                   if \<not> ae_check env currentPassword (u_PasswordHash user) then
                     (st, WriteError 401 ''UNAUTHORIZED'' ''current password is incorrect'')
                   else case ae_hash env newPassword (ae_BcryptCost env) of
                     None \<Rightarrow> (st, WriteError 500 ''INTERNAL_ERROR'' ''failed to hash password'')
                   | Some hash \<Rightarrow>
                       (case UpdatePassword now (c_UserID claims) hash (as_users st) of
                          None \<Rightarrow> (st, WriteError 500 ''INTERNAL_ERROR'' ''failed to update password'')
                        | Some t \<Rightarrow> (st\<lparr>as_users := t\<rparr>, StatusOK ''password changed''))))"

text \<open>The rate limit in front of the login handler (\<open>api/server.go\<close>); \<open>None\<close> is a panic.\<close>

definition rateLimitMiddleware :: "time \<Rightarrow> Request \<Rightarrow> (auth_state \<Rightarrow> auth_state \<times> response) \<Rightarrow> auth_state \<Rightarrow> (auth_state \<times> response) option" where
  "rateLimitMiddleware now r nextf st =
     (case as_limiter st of None \<Rightarrow> Some (nextf st)
      | Some rl \<Rightarrow>
          (let ip = ClientIP r; (rl1, allowed) = Allow now ip rl in
           if \<not> allowed then
             let (rl2, retryAfter) = RetryAfter now now ip rl1 in
             case retryAfter of None \<Rightarrow> None
             | Some n \<Rightarrow> Some (st\<lparr>as_limiter := Some rl2\<rparr>, WriteError 429 ''RATE_LIMITED'' ''too many login attempts'')
           else Some (nextf (st\<lparr>as_limiter := Some rl1\<rparr>))))"

definition login_route :: "auth_env \<Rightarrow> time \<Rightarrow> Request \<Rightarrow> (string \<times> string) option \<Rightarrow> auth_state \<Rightarrow> (auth_state \<times> response) option" where
  "login_route env now r body = rateLimitMiddleware now r (handleLogin env now r body)"

end
