(* ===== verification/UserLaws.thy ===== *)
theory UserLaws
  imports UserAdmin
begin

section \<open>Laws of the user administration\<close>

text \<open>
  The account table stays well formed under every handler, nobody but the super administrator
  grants a privileged role, deleting never removes the last active super administrator, and the
  login route: who gets tokens and who is locked out. Two concrete runs show what the guards miss.
\<close>

subsection \<open>The invariant of the account table\<close>

definition wf_users :: "UserTable \<Rightarrow> bool" where
  "wf_users t \<longleftrightarrow> distinct (map u_ID (ut_rows t)) \<and> distinct (map u_Username (ut_rows t)) \<and>
     (\<forall>u \<in> set (ut_rows t). u_ID u < ut_next_id t \<and> u_Role u \<in> set ValidRoles)"

datatype admin_op =
    Login Request "(string \<times> string) option"
  | RegisterUser "Claims option" "(string \<times> string \<times> string) option"
  | UpdateAccount "Claims option" string "(string option \<times> bool option) option"
  | DeleteAccount "Claims option" string
  | ResetPassword string "string option"
  | ChangePassword "Claims option" "(string \<times> string) option"

fun admin_step :: "auth_env \<Rightarrow> time \<Rightarrow> admin_op \<Rightarrow> auth_state \<Rightarrow> auth_state \<times> response" where
  "admin_step env now (Login r body) st = handleLogin env now r body st"
| "admin_step env now (RegisterUser ctx body) st = handleRegister env now ctx body st"
| "admin_step env now (UpdateAccount ctx i body) st = handleUpdateUser now ctx i body st"
| "admin_step env now (DeleteAccount ctx i) st = handleDeleteUser ctx i st"
| "admin_step env now (ResetPassword i body) st = handleAdminResetPassword env now i body st"
| "admin_step env now (ChangePassword ctx body) st = handleChangePassword env now ctx body st"

lemma wf_update_row:
  assumes "wf_users t" "\<And>u. u_ID (f u) = u_ID u \<and> u_Username (f u) = u_Username u"
    "\<And>u. u_Role u \<in> set ValidRoles \<Longrightarrow> u_Role (f u) \<in> set ValidRoles"
  shows "wf_users (update_row i f t)"
proof -
  have "map u_ID (ut_rows (update_row i f t)) = map u_ID (ut_rows t)"
    "map u_Username (ut_rows (update_row i f t)) = map u_Username (ut_rows t)"
    using assms(2) by (auto simp: update_row_def)
  moreover have "\<forall>u \<in> set (ut_rows (update_row i f t)). u_ID u < ut_next_id (update_row i f t) \<and> u_Role u \<in> set ValidRoles"
    using assms by (auto simp: wf_users_def update_row_def)
  ultimately show ?thesis using assms(1) unfolding wf_users_def by (simp only: simp_thms)
qed

lemma Create_user_rows: "Create_user now n h r t = Some (t', u) \<Longrightarrow> ut_rows t' = ut_rows t @ [u] \<and> u_Role u = r"
  by (auto simp: Create_user_def Let_def split: if_splits)

lemma Delete_user_rows: "Delete_user i t = Inr t' \<Longrightarrow> ut_rows t' = filter (\<lambda>u. u_ID u \<noteq> i) (ut_rows t)"
  by (auto simp: Delete_user_def split: if_splits)

lemma wf_Create_user: "wf_users t \<Longrightarrow> Create_user now n h r t = Some (t', u) \<Longrightarrow> wf_users t'"
  by (force simp: wf_users_def Create_user_def Let_def split: if_splits)

lemma wf_Update_user:
  assumes "wf_users t" "Update_user now i role active t = Some t'" "\<And>r. role = Some r \<Longrightarrow> r \<in> set ValidRoles"
  shows "wf_users t'"
proof -
  have "wf_users (case role of None \<Rightarrow> t | Some r \<Rightarrow> update_row i (\<lambda>u. u\<lparr>u_Role := r, u_UpdatedAt := now\<rparr>) t)" (is "wf_users ?t1")
    using assms by (auto intro: wf_update_row split: option.splits)
  moreover have "t' = (case active of None \<Rightarrow> ?t1 | Some a \<Rightarrow> update_row i (\<lambda>u. u\<lparr>u_Active := a, u_UpdatedAt := now\<rparr>) ?t1)"
    using assms(2) unfolding Update_user_def Let_def by (simp only: split: if_splits) auto
  ultimately show ?thesis by (auto intro: wf_update_row split: option.splits)
qed

lemma wf_UpdatePassword: "wf_users t \<Longrightarrow> UpdatePassword now i h t = Some t' \<Longrightarrow> wf_users t'"
  by (auto simp: UpdatePassword_def intro: wf_update_row split: if_splits)

lemma wf_UpdateLastLogin: "wf_users t \<Longrightarrow> UpdateLastLogin now i t = Some t' \<Longrightarrow> wf_users t'"
  by (auto simp: UpdateLastLogin_def intro: wf_update_row split: if_splits)

lemma wf_Delete_user: "wf_users t \<Longrightarrow> Delete_user i t = Inr t' \<Longrightarrow> wf_users t'"
  by (auto simp: wf_users_def Delete_user_def distinct_map inj_on_def split: if_splits)

lemma ValidRole_iff: "ValidRole r \<longleftrightarrow> r \<in> set ValidRoles"
  by (auto simp: ValidRole_def list_ex_iff)

text \<open>What each handler does to the table.\<close>

definition rows_after :: "auth_env \<Rightarrow> time \<Rightarrow> admin_op \<Rightarrow> auth_state \<Rightarrow> UserTable" where
  "rows_after env now op st = as_users (fst (admin_step env now op st))"

lemma login_table:
  "as_users (fst (handleLogin env now r body st)) = as_users st \<or>
   (\<exists>i. UpdateLastLogin now i (as_users st) = Some (as_users (fst (handleLogin env now r body st))))"
  by (auto simp: handleLogin_def record_failure_def Let_def split: option.splits prod.splits sum.splits store_error.splits if_splits)

lemma register_table:
  "as_users (fst (handleRegister env now ctx body st)) = as_users st \<or>
   (\<exists>n h r u. Create_user now n h r (as_users st) = Some (as_users (fst (handleRegister env now ctx body st)), u) \<and>
      (privileged r \<longrightarrow> \<not> not_super ctx))"
  by (auto simp: handleRegister_def split: option.splits prod.splits if_splits)

lemma update_table:
  "as_users (fst (handleUpdateUser now ctx idStr body st)) = as_users st \<or>
   (\<exists>i role active. Update_user now i role active (as_users st) = Some (as_users (fst (handleUpdateUser now ctx idStr body st))) \<and>
      (\<forall>r. role = Some r \<longrightarrow> ValidRole r \<and> (privileged r \<longrightarrow> \<not> not_super ctx)))"
  by (auto simp: handleUpdateUser_def split: option.splits prod.splits if_splits)

lemma reset_table:
  "as_users (fst (handleAdminResetPassword env now idStr body st)) = as_users st \<or>
   (\<exists>i h. UpdatePassword now i h (as_users st) = Some (as_users (fst (handleAdminResetPassword env now idStr body st))))"
  by (auto simp: handleAdminResetPassword_def split: option.splits sum.splits store_error.splits)

lemma change_table:
  "as_users (fst (handleChangePassword env now ctx body st)) = as_users st \<or>
   (\<exists>i h. UpdatePassword now i h (as_users st) = Some (as_users (fst (handleChangePassword env now ctx body st))))"
  by (auto simp: handleChangePassword_def split: option.splits prod.splits sum.splits)

lemma delete_table:
  "as_users (fst (handleDeleteUser ctx idStr st)) = as_users st \<or>
   (\<exists>i u. Delete_user i (as_users st) = Inr (as_users (fst (handleDeleteUser ctx idStr st))) \<and>
      GetByID (as_users st) i = Inr u \<and>
      (u_Role u = RoleSuperAdmin \<longrightarrow> length (filter (\<lambda>u. u_Role u = RoleSuperAdmin \<and> u_Active u) (ut_rows (as_users st))) > 1))"
proof (cases "ParseInt idStr")
  case None
  then show ?thesis by (simp add: handleDeleteUser_def)
next
  case (Some i)
  show ?thesis
  proof (cases "GetByID (as_users st) i")
    case (Inl e)
    then show ?thesis using Some by (cases e) (auto simp: handleDeleteUser_def)
  next
    case (Inr u)
    then show ?thesis
      using Some
      by (cases "Delete_user i (as_users st)") (auto simp: handleDeleteUser_def CountActiveByRole_def GetByID_def not_le split: if_splits option.splits bool.splits)
  qed
qed


subsection \<open>Privileges\<close>

definition privileged_users :: "UserTable \<Rightarrow> (int \<times> string) set" where
  "privileged_users t = {(u_ID u, u_Role u) | u. u \<in> set (ut_rows t) \<and> privileged (u_Role u)}"

definition op_claims :: "admin_op \<Rightarrow> Claims option" where
  "op_claims op = (case op of RegisterUser ctx body \<Rightarrow> ctx | UpdateAccount ctx i body \<Rightarrow> ctx | _ \<Rightarrow> None)"

lemma privileged_update_row:
  "(\<And>u. u_ID (f u) = u_ID u \<and> (privileged (u_Role (f u)) \<longrightarrow> u_Role (f u) = u_Role u)) \<Longrightarrow>
   privileged_users (update_row i f t) \<subseteq> privileged_users t"
  by (force simp: privileged_users_def update_row_def)

lemma privileged_Update_user:
  assumes "Update_user now i role active t = Some t'" "\<And>r. role = Some r \<Longrightarrow> \<not> privileged r"
  shows "privileged_users t' \<subseteq> privileged_users t"
proof -
  let ?t1 = "case role of None \<Rightarrow> t | Some r \<Rightarrow> update_row i (\<lambda>u. u\<lparr>u_Role := r, u_UpdatedAt := now\<rparr>) t"
  have "privileged_users ?t1 \<subseteq> privileged_users t"
  proof (cases role)
    case (Some r)
    then show ?thesis using assms(2) privileged_update_row [of "\<lambda>u. u\<lparr>u_Role := r, u_UpdatedAt := now\<rparr>" i t] by simp
  qed simp
  moreover have "t' = (case active of None \<Rightarrow> ?t1 | Some a \<Rightarrow> update_row i (\<lambda>u. u\<lparr>u_Active := a, u_UpdatedAt := now\<rparr>) ?t1)"
    using assms(1) unfolding Update_user_def Let_def by (simp only: split: if_splits) auto
  moreover have "privileged_users (update_row i (\<lambda>u. u\<lparr>u_Active := a, u_UpdatedAt := now\<rparr>) ?t1) \<subseteq> privileged_users ?t1" for a
    by (rule privileged_update_row) simp
  ultimately show ?thesis by (cases active) auto
qed

text \<open>C20: Only a super administrator grants privileges: a request made with the claims of any
  other role never makes an account super administrator or roles administrator that was not one
  with the same role before.\<close>

theorem privileges_only_from_super_admin:
  assumes "op_claims op = Some claims" "c_Role claims \<noteq> RoleSuperAdmin"
  shows "privileged_users (as_users (fst (admin_step env now op st))) \<subseteq> privileged_users (as_users st)"
proof (cases op)
  case (RegisterUser ctx body)
  then have "not_super ctx" using assms by (simp add: op_claims_def not_super_def)
  then show ?thesis
    using register_table [of env now ctx body st] RegisterUser
    by (auto simp: privileged_users_def dest!: Create_user_rows)
next
  case (UpdateAccount ctx i body)
  then have "not_super ctx" using assms by (simp add: op_claims_def not_super_def)
  then show ?thesis
    using update_table [of now ctx i body st] UpdateAccount privileged_Update_user by fastforce
qed (use assms in \<open>auto simp: op_claims_def\<close>)

definition active_supers :: "UserTable \<Rightarrow> User list" where
  "active_supers t = filter (\<lambda>u. u_Role u = RoleSuperAdmin \<and> u_Active u) (ut_rows t)"

text \<open>Deleting an account never removes the last active super administrator, on any branch of
  the handler.\<close>

theorem delete_keeps_super_admin:
  assumes "wf_users (as_users st)" "active_supers (as_users st) \<noteq> []"
  shows "active_supers (as_users (fst (handleDeleteUser ctx idStr st))) \<noteq> []"
proof -
  let ?t' = "as_users (fst (handleDeleteUser ctx idStr st))"
  consider "?t' = as_users st"
    | i u where "Delete_user i (as_users st) = Inr ?t'" "GetByID (as_users st) i = Inr u"
      "u_Role u = RoleSuperAdmin \<longrightarrow> length (active_supers (as_users st)) > 1"
    using delete_table [of ctx idStr st] by (auto simp: active_supers_def)
  then show ?thesis
  proof cases
    case 1
    then show ?thesis using assms by simp
  next
    case (2 i u)
    let ?rows = "ut_rows (as_users st)"
    have rows': "ut_rows ?t' = filter (\<lambda>u. u_ID u \<noteq> i) ?rows"
      by (rule Delete_user_rows [OF 2(1)])
    have u: "u \<in> set ?rows" "u_ID u = i"
      using 2(2) by (auto simp: GetByID_def find_Some_iff split: if_splits option.splits)
    have inj: "v \<in> set ?rows \<Longrightarrow> u_ID v = i \<Longrightarrow> v = u" for v
      using assms(1) u by (auto simp: wf_users_def distinct_map dest: inj_onD)
    show ?thesis
    proof (cases "u_Role u = RoleSuperAdmin")
      case False
      then obtain v where "v \<in> set ?rows" "u_Role v = RoleSuperAdmin" "u_Active v" "v \<noteq> u"
        using assms(2) by (auto simp: active_supers_def filter_empty_conv)
      then show ?thesis using inj by (auto simp: active_supers_def filter_empty_conv rows')
    next
      case True
      then have len: "length (active_supers (as_users st)) > 1" using 2(3) by simp
      have "distinct (active_supers (as_users st))"
        using assms(1) by (simp add: active_supers_def wf_users_def distinct_map)
      then obtain v where "v \<in> set (active_supers (as_users st))" "v \<noteq> u"
        using len by (cases "active_supers (as_users st)"; cases "tl (active_supers (as_users st))") auto
      then show ?thesis using inj by (auto simp: active_supers_def filter_empty_conv rows')
    qed
  qed
qed

subsection \<open>Login\<close>

text \<open>With authentication enabled, the login handler issues tokens only for an existing,
  active account whose password check succeeds, and then for exactly that account; wrong names and
  wrong passwords get the same answer and are exactly the cases counted against the address.\<close>

theorem login_sound:
  assumes "ae_authMode env = AuthEnabled" "handleLogin env now r body st = (st', resp)"
  shows "(\<forall>pair ur. resp = LoginOK pair ur \<longrightarrow> (\<exists>user password. body = Some (u_Username user, password) \<and>
        user \<in> set (ut_rows (as_users st)) \<and> u_Active user \<and> ae_check env password (u_PasswordHash user) \<and>
        ur = user_response user \<and> GenerateTokenPair (ae_lib env) (ae_jwt env) now user = Inr pair)) \<and>
    as_limiter st' = (if resp = WriteError 401 ''UNAUTHORIZED'' ''invalid credentials''
      then map_option (RecordFailure now (ClientIP r)) (as_limiter st) else as_limiter st)"
proof (cases body)
  case None
  then show ?thesis using assms by (auto simp: handleLogin_def bad_body_def)
next
  case (Some b)
  obtain username password where b: "b = (username, password)" by (cases b)
  show ?thesis
  proof (cases "GetByUsername (as_users st) username")
    case (Inl e)
    then show ?thesis
      using assms Some b by (cases e) (auto simp: handleLogin_def record_failure_def split: if_splits)
  next
    case (Inr user)
    then have "user \<in> set (ut_rows (as_users st))" "u_Username user = username"
      by (auto simp: GetByUsername_def find_Some_iff split: if_splits option.splits)
    then show ?thesis
      using assms Some b Inr
      by (auto simp: handleLogin_def record_failure_def Let_def split: if_splits sum.splits option.splits)
  qed
qed

definition server_limiter :: "rl_op list \<Rightarrow> RateLimiter" where
  "server_limiter ops = fold rl_step ops (NewRateLimiter 10 (15 * Minute))"

lemma server_limiter_config: "rl_maxAttempts (server_limiter ops) = 10"
  using run_config [of ops] by (simp add: server_limiter_def NewRateLimiter_def)

lemma RetryAfter_total: "0 < rl_maxAttempts rl \<Longrightarrow> \<exists>n. snd (RetryAfter now now2 ip rl) = Some n"
  by (auto simp: RetryAfter_def Let_def split: list.splits)

text \<open>The login route locks out an address exactly after ten failures within fifteen minutes:
  then the answer is 429 whatever the credentials, no account is touched and no panic occurs;
  otherwise the request reaches the login handler with the accounts unchanged.\<close>

theorem login_route_lockout:
  assumes "as_limiter st = Some (server_limiter ops)" "sorted (map op_time (ops @ [Ask now (ClientIP r)]))"
  shows "(if 10 \<le> length (filter (\<lambda>t. now - 15 * Minute \<le> t) (failures (ClientIP r) ops))
    then \<exists>st'. login_route env now r body st = Some (st', WriteError 429 ''RATE_LIMITED'' ''too many login attempts'') \<and>
           as_users st' = as_users st
    else \<exists>st'. login_route env now r body st = Some (handleLogin env now r body st') \<and> as_users st' = as_users st)"
proof -
  let ?ip = "ClientIP r" and ?rl = "server_limiter ops"
  let ?n = "length (filter (\<lambda>t. now - 15 * Minute \<le> t) (failures ?ip ops))"
  have allow: "Allow now ?ip ?rl = (pruneExpired now ?ip ?rl, ?n < 10)"
    using server_limiter_config [of ops] recent_attempts [OF assms(2), of 10 "15 * Minute"]
    by (simp add: Allow_def Let_def server_limiter_def)
  obtain n where n: "RetryAfter now now ?ip (pruneExpired now ?ip ?rl) = (pruneExpired now ?ip (pruneExpired now ?ip ?rl), Some n)"
    using RetryAfter_total [of "pruneExpired now ?ip ?rl" now now ?ip] server_limiter_config [of ops]
      fst_RetryAfter [of now now ?ip "pruneExpired now ?ip ?rl"] by (metis prod.collapse prune_config(2) zero_less_numeral)
  show ?thesis
    using allow n assms(1) by (simp add: login_route_def rateLimitMiddleware_def Let_def) fastforce
qed

subsection \<open>What the guards miss\<close>

definition demo_env :: auth_env where
  "demo_env = \<lparr>ae_authMode = AuthEnabled,
     ae_lib = \<lparr>jl_sign = (\<lambda>key claims. Inr (key @ c_Role claims)), jl_parse = (\<lambda>key now token. Inl ''unused'')\<rparr>,
     ae_jwt = demo_service, ae_check = (\<lambda>password hash. password = hash), ae_hash = (\<lambda>password cost. Some password),
     ae_BcryptCost = 10\<rparr>"

definition demo_account :: "int \<Rightarrow> string \<Rightarrow> string \<Rightarrow> string \<Rightarrow> User" where
  "demo_account i name hash role = \<lparr>u_ID = i, u_Username = name, u_PasswordHash = hash, u_Role = role, u_Active = True,
     u_LastLogin = None, u_CreatedAt = 0, u_UpdatedAt = 0\<rparr>"

definition demo_accounts :: auth_state where
  "demo_accounts = \<lparr>as_users = \<lparr>ut_rows = [demo_account 1 ''root'' ''secret'' RoleSuperAdmin, demo_account 2 ''rita'' ''pw'' RoleRolesAdmin],
     ut_next_id = 3, ut_up = True\<rparr>, as_limiter = None\<rparr>"

definition rita_claims :: Claims where
  "rita_claims = token_claims (demo_account 2 ''rita'' ''pw'' RoleRolesAdmin) TokenAccess 0 Hour"

lemmas demo_admin_defs = demo_env_def demo_account_def demo_accounts_def rita_claims_def token_claims_def demo_service_def

lemma ParseInt_one: "ParseInt ''1'' = Some 1"
  by code_simp

text \<open>The guard against losing the last super administrator is not complete: a roles
  administrator, who passes the permission check of the route, can demote the only super
  administrator through the update handler, after which no active super administrator is left.\<close>

theorem update_removes_last_super_admin:
  "RequirePermission PermUserManagement (Some rita_claims) = Inr rita_claims \<and>
   length (active_supers (as_users demo_accounts)) = 1 \<and>
   (let (st, resp) = handleUpdateUser 5 (Some rita_claims) ''1'' (Some (Some RoleDBA, None)) demo_accounts
    in resp = StatusOK ''updated'' \<and> active_supers (as_users st) = [])"
  by (simp add: handleUpdateUser_def ParseInt_one demo_admin_defs RequirePermission_def HasPermission_def RolePermissions_def
      ValidRole_def ValidRoles_def is_self_def not_super_def privileged_def Update_user_def update_row_def active_supers_def)

text \<open>A roles administrator can take over a super administrator's account: the password reset
  does not look at the role of the target, so after a reset the roles administrator logs in as the
  super administrator.\<close>

theorem reset_takes_over_super_admin:
  "RequirePermission PermUserManagement (Some rita_claims) = Inr rita_claims \<and>
   (let (st, resp) = handleAdminResetPassword demo_env 5 ''1'' (Some ''hijacked'') demo_accounts;
        (st', resp') = handleLogin demo_env 6 (demo_request '''') (Some (''root'', ''hijacked'')) st
    in resp = StatusOK ''password reset'' \<and>
       (\<exists>pair ur. resp' = LoginOK pair ur \<and> ur_Role ur = RoleSuperAdmin \<and> ur_Username ur = ''root''))"
  by (simp add: handleAdminResetPassword_def ParseInt_one demo_admin_defs RequirePermission_def HasPermission_def RolePermissions_def
      GetByID_def UpdatePassword_def update_row_def handleLogin_def GetByUsername_def UpdateLastLogin_def
      GenerateTokenPair_def generateToken_def user_response_def)

subsection \<open>Witnesses\<close>

lemma demo_wf: "wf_users (as_users demo_accounts)"
  by (simp add: wf_users_def demo_admin_defs ValidRoles_def)


theorem privileges_only_from_super_admin_witness:
  "privileged_users (as_users (fst (admin_step demo_env 5 (RegisterUser (Some rita_claims) (Some (''bob'', ''pw'', RoleSuperAdmin))) demo_accounts)))
    \<subseteq> privileged_users (as_users demo_accounts)"
  by (rule privileges_only_from_super_admin [of _ rita_claims]) (simp_all add: op_claims_def demo_admin_defs)

theorem delete_keeps_super_admin_witness:
  "active_supers (as_users (fst (handleDeleteUser (Some rita_claims) ''1'' demo_accounts))) \<noteq> []"
  by (rule delete_keeps_super_admin [OF demo_wf]) (simp add: active_supers_def demo_admin_defs)

theorem login_sound_witness:
  "\<exists>st' pair ur. handleLogin demo_env 5 (demo_request '''') (Some (''rita'', ''pw'')) demo_accounts = (st', LoginOK pair ur) \<and>
     (\<exists>user \<in> set (ut_rows (as_users demo_accounts)). u_Active user \<and> ur = user_response user)"
proof -
  obtain st' resp where h: "handleLogin demo_env 5 (demo_request '''') (Some (''rita'', ''pw'')) demo_accounts = (st', resp)"
    by fastforce
  moreover obtain pair ur where "resp = LoginOK pair ur"
    using h by (auto simp: handleLogin_def demo_admin_defs GetByUsername_def UpdateLastLogin_def GenerateTokenPair_def generateToken_def)
  moreover have "ae_authMode demo_env = AuthEnabled" by (simp add: demo_env_def)
  ultimately show ?thesis using login_sound [of demo_env 5 _ _ _ st' resp] by blast
qed

theorem login_route_lockout_witness:
  "let ops = map (\<lambda>t. Fail (int t) ''10.0.0.1'') [0..<10]; st = demo_accounts\<lparr>as_limiter := Some (server_limiter ops)\<rparr> in
   \<exists>st'. login_route demo_env 100 (demo_request '''') (Some (''rita'', ''pw'')) st =
     Some (st', WriteError 429 ''RATE_LIMITED'' ''too many login attempts'')"
proof -
  define ops where "ops = map (\<lambda>t. Fail (int t) ''10.0.0.1'') [0..<10]"
  let ?st = "demo_accounts\<lparr>as_limiter := Some (server_limiter ops)\<rparr>"
  have ip: "ClientIP (demo_request '''') = ''10.0.0.1''" by code_simp
  have n: "10 \<le> length (filter (\<lambda>t. 100 - 15 * Minute \<le> t) (failures (ClientIP (demo_request '''')) ops))"
    by (simp add: ip failures_def ops_def upt_conv_Cons)
  have "as_limiter ?st = Some (server_limiter ops)" "sorted (map op_time (ops @ [Ask 100 (ClientIP (demo_request ''''))]))"
    by (simp_all add: ops_def upt_conv_Cons)
  from login_route_lockout [OF this, of demo_env "Some (''rita'', ''pw'')"]
  have "\<exists>st'. login_route demo_env 100 (demo_request '''') (Some (''rita'', ''pw'')) ?st =
     Some (st', WriteError 429 ''RATE_LIMITED'' ''too many login attempts'')"
    unfolding if_P [OF n] by blast
  then show ?thesis by (simp only: ops_def Let_def)
qed

end
