(* ===== verification/Statements.thy ===== *)
theory Statements
  imports MetricModel
begin

section \<open>Query statistics snapshots (\<open>internal/statements\<close>)\<close>

text \<open>
  The difference of two captures of \<open>pg_stat_statements\<close> (\<open>diff.go\<close>), the time series of one
  query (\<open>insights.go\<close>) and the workload report (\<open>report.go\<close>). Counters are 64-bit integers with
  wrap-around written out, times in milliseconds are \<open>float64\<close>. Nullable columns are options.
\<close>

record Snapshot =
  ss_ID :: int
  ss_InstanceID :: string
  ss_CapturedAt :: time
  ss_PGVersion :: int
  ss_StatsReset :: "time option"
  ss_TotalStatements :: int
  ss_TotalCalls :: int
  ss_TotalExecTime :: float64

record SnapshotEntry =
  sn_SnapshotID :: int
  sn_QueryID :: int
  sn_UserID :: int
  sn_DbID :: int
  sn_DatabaseName :: string
  sn_UserName :: string
  sn_Query :: string
  sn_Calls :: int
  sn_TotalExecTime :: float64
  sn_TotalPlanTime :: "float64 option"
  sn_Rows :: int
  sn_SharedBlksHit :: int
  sn_SharedBlksRead :: int
  sn_SharedBlksDirtied :: int
  sn_SharedBlksWritten :: int
  sn_LocalBlksHit :: int
  sn_LocalBlksRead :: int
  sn_TempBlksRead :: int
  sn_TempBlksWritten :: int
  sn_BlkReadTime :: float64
  sn_BlkWriteTime :: float64
  sn_WALRecords :: "int option"
  sn_WALFpi :: "int option"
  sn_WALBytes :: "float64 option"
  sn_MeanExecTime :: "float64 option"
  sn_MinExecTime :: "float64 option"
  sn_MaxExecTime :: "float64 option"
  sn_StddevExecTime :: "float64 option"

record DiffEntry =
  de_QueryID :: int
  de_UserID :: int
  de_DbID :: int
  de_Query :: string
  de_DatabaseName :: string
  de_UserName :: string
  de_CallsDelta :: int
  de_ExecTimeDelta :: float64
  de_PlanTimeDelta :: "float64 option"
  de_RowsDelta :: int
  de_SharedBlksReadDelta :: int
  de_SharedBlksHitDelta :: int
  de_TempBlksReadDelta :: int
  de_TempBlksWrittenDelta :: int
  de_BlkReadTimeDelta :: float64
  de_BlkWriteTimeDelta :: float64
  de_WALBytesDelta :: "float64 option"
  de_AvgExecTimePerCall :: float64
  de_IOTimePct :: float64
  de_CPUTimeDelta :: float64
  de_SharedHitRatio :: float64

record DiffResult =
  dr_FromSnapshot :: Snapshot
  dr_ToSnapshot :: Snapshot
  dr_StatsResetWarning :: bool
  dr_Duration :: duration
  dr_DurationStr :: string
  dr_TotalCallsDelta :: int
  dr_TotalExecTimeDelta :: float64
  dr_Entries :: "DiffEntry list"
  dr_NewQueries :: "DiffEntry list"
  dr_EvictedQueries :: "DiffEntry list"
  dr_TotalEntries :: int

record DiffOptions =
  do_SortBy :: string
  do_Limit :: int
  do_Offset :: int

subsection \<open>Differences\<close>

type_synonym entryKey = "int \<times> int \<times> int"

definition entry_key :: "SnapshotEntry \<Rightarrow> entryKey" where
  "entry_key e = (sn_QueryID e, sn_DbID e, sn_UserID e)"

definition safeDivFloat :: "float64 \<Rightarrow> float64 \<Rightarrow> float64" where
  "safeDivFloat num denom = (if denom = 0 then 0 else num / denom)"

definition statsResetDetected :: "time option \<Rightarrow> time option \<Rightarrow> bool" where
  "statsResetDetected f t =
     (if f = None \<and> t = None then False else if f = None \<or> t = None then True else the f \<noteq> the t)"

definition formatDuration :: "duration \<Rightarrow> string" where
  "formatDuration d0 =
     (let d = (if d0 < 0 then wrap64 (- d0) else d0); totalMinutes = go_quot d Minute in
      if totalMinutes = 0 then ''< 1m''
      else
        let days = go_quot totalMinutes (60 * 24);
            hours = go_rem (go_quot totalMinutes 60) 24;
            minutes = go_rem totalMinutes 60;
            s = (if days > 0 then Itoa days @ ''d '' else '''') @ (if hours > 0 then Itoa hours @ ''h '' else '''')
                @ (if minutes > 0 then Itoa minutes @ ''m'' else '''')
        in if s = '''' then ''< 1m'' else if last s = CHR '' '' then butlast s else s)"

definition cpu_delta :: "float64 \<Rightarrow> float64 \<Rightarrow> float64" where
  "cpu_delta execDelta ioTime = (if execDelta - ioTime < 0 then 0 else execDelta - ioTime)"

definition opt_delta :: "float64 option \<Rightarrow> float64 option \<Rightarrow> float64 option" where
  "opt_delta f t = (case f of None \<Rightarrow> None | Some a \<Rightarrow> (case t of None \<Rightarrow> None | Some b \<Rightarrow> Some (b - a)))"

definition computeEntryDelta :: "SnapshotEntry \<Rightarrow> SnapshotEntry \<Rightarrow> DiffEntry" where
  "computeEntryDelta f t =
     (let callsDelta = wrap64 (sn_Calls t - sn_Calls f);
          execDelta = sn_TotalExecTime t - sn_TotalExecTime f;
          blkReadDelta = wrap64 (sn_SharedBlksRead t - sn_SharedBlksRead f);
          blkHitDelta = wrap64 (sn_SharedBlksHit t - sn_SharedBlksHit f);
          blkReadTimeDelta = sn_BlkReadTime t - sn_BlkReadTime f;
          blkWriteTimeDelta = sn_BlkWriteTime t - sn_BlkWriteTime f;
          ioTime = blkReadTimeDelta + blkWriteTimeDelta
      in \<lparr>de_QueryID = sn_QueryID t, de_UserID = sn_UserID t, de_DbID = sn_DbID t, de_Query = sn_Query t,
          de_DatabaseName = sn_DatabaseName t, de_UserName = sn_UserName t, de_CallsDelta = callsDelta,
          de_ExecTimeDelta = execDelta, de_PlanTimeDelta = opt_delta (sn_TotalPlanTime f) (sn_TotalPlanTime t),
          de_RowsDelta = wrap64 (sn_Rows t - sn_Rows f), de_SharedBlksReadDelta = blkReadDelta,
          de_SharedBlksHitDelta = blkHitDelta, de_TempBlksReadDelta = wrap64 (sn_TempBlksRead t - sn_TempBlksRead f),
          de_TempBlksWrittenDelta = wrap64 (sn_TempBlksWritten t - sn_TempBlksWritten f),
          de_BlkReadTimeDelta = blkReadTimeDelta, de_BlkWriteTimeDelta = blkWriteTimeDelta,
          de_WALBytesDelta = opt_delta (sn_WALBytes f) (sn_WALBytes t),
          de_AvgExecTimePerCall = safeDivFloat execDelta (of_int callsDelta),
          de_IOTimePct = safeDivFloat (ioTime * 100) execDelta, de_CPUTimeDelta = cpu_delta execDelta ioTime,
          de_SharedHitRatio = safeDivFloat (of_int blkHitDelta * 100) (of_int (wrap64 (blkHitDelta + blkReadDelta)))\<rparr>)"

definition entryAsDelta :: "SnapshotEntry \<Rightarrow> DiffEntry" where
  "entryAsDelta e =
     (let ioTime = sn_BlkReadTime e + sn_BlkWriteTime e
      in \<lparr>de_QueryID = sn_QueryID e, de_UserID = sn_UserID e, de_DbID = sn_DbID e, de_Query = sn_Query e,
          de_DatabaseName = sn_DatabaseName e, de_UserName = sn_UserName e, de_CallsDelta = sn_Calls e,
          de_ExecTimeDelta = sn_TotalExecTime e, de_PlanTimeDelta = sn_TotalPlanTime e,
          de_RowsDelta = sn_Rows e, de_SharedBlksReadDelta = sn_SharedBlksRead e,
          de_SharedBlksHitDelta = sn_SharedBlksHit e, de_TempBlksReadDelta = sn_TempBlksRead e,
          de_TempBlksWrittenDelta = sn_TempBlksWritten e,
          de_BlkReadTimeDelta = sn_BlkReadTime e, de_BlkWriteTimeDelta = sn_BlkWriteTime e,
          de_WALBytesDelta = sn_WALBytes e,
          de_AvgExecTimePerCall = safeDivFloat (sn_TotalExecTime e) (of_int (sn_Calls e)),
          de_IOTimePct = safeDivFloat (ioTime * 100) (sn_TotalExecTime e),
          de_CPUTimeDelta = cpu_delta (sn_TotalExecTime e) ioTime,
          de_SharedHitRatio = safeDivFloat (of_int (sn_SharedBlksHit e) * 100)
            (of_int (wrap64 (sn_SharedBlksHit e + sn_SharedBlksRead e)))\<rparr>)"

text \<open>The comparator of \<open>sortEntries\<close>.\<close>

definition entry_before :: "string \<Rightarrow> DiffEntry \<Rightarrow> DiffEntry \<Rightarrow> bool" where
  "entry_before sortBy a b =
     (if sortBy = ''calls'' then de_CallsDelta a > de_CallsDelta b
      else if sortBy = ''rows'' then de_RowsDelta a > de_RowsDelta b
      else if sortBy = ''shared_blks_read'' then de_SharedBlksReadDelta a > de_SharedBlksReadDelta b
      else if sortBy = ''avg_exec_time'' then de_AvgExecTimePerCall a > de_AvgExecTimePerCall b
      else de_ExecTimeDelta a > de_ExecTimeDelta b)"

definition sortEntries :: "DiffEntry list \<Rightarrow> string \<Rightarrow> DiffEntry list" where
  "sortEntries entries sortBy = sort_slice (entry_before (if sortBy = '''' then ''total_exec_time'' else sortBy)) entries"

definition index_from :: "SnapshotEntry list \<Rightarrow> (entryKey, SnapshotEntry) gomap" where
  "index_from es = fold (\<lambda>e m. map_put (entry_key e) e m) es []"

text \<open>One turn of the loop over the later snapshot.\<close>

definition diff_turn :: "SnapshotEntry \<Rightarrow> (entryKey, SnapshotEntry) gomap \<times> DiffEntry list \<times> DiffEntry list
    \<Rightarrow> (entryKey, SnapshotEntry) gomap \<times> DiffEntry list \<times> DiffEntry list" where
  "diff_turn te = (\<lambda>(fromMap, entries, news).
     case map_of fromMap (entry_key te) of
       Some fe \<Rightarrow> (map_del (entry_key te) fromMap, entries @ [computeEntryDelta fe te], news)
     | None \<Rightarrow> (fromMap, entries, news @ [entryAsDelta te]))"

definition paginate :: "int \<Rightarrow> int \<Rightarrow> 'a list \<Rightarrow> 'a list" where
  "paginate offset limit xs =
     (let ys = (if offset > 0 \<and> offset < int (length xs) then drop (nat offset) xs
                else if offset \<ge> int (length xs) then [] else xs)
      in if limit > 0 \<and> limit < int (length ys) then take (nat limit) ys else ys)"

definition ComputeDiff :: "Snapshot \<Rightarrow> Snapshot \<Rightarrow> SnapshotEntry list \<Rightarrow> SnapshotEntry list \<Rightarrow> DiffOptions \<Rightarrow> DiffResult" where
  "ComputeDiff f t fromEntries toEntries opts =
     (let dur = time_sub (ss_CapturedAt t) (ss_CapturedAt f);
          (fromMap, entries, news) = fold diff_turn toEntries (index_from fromEntries, [], []);
          evicted = map (\<lambda>(k, fe). entryAsDelta fe) fromMap;
          calls1 = fold (\<lambda>e acc. wrap64 (acc + de_CallsDelta e)) entries 0;
          calls2 = fold (\<lambda>e acc. wrap64 (acc + de_CallsDelta e)) news calls1;
          exec1 = fold (\<lambda>e acc. acc + de_ExecTimeDelta e) entries 0;
          exec2 = fold (\<lambda>e acc. acc + de_ExecTimeDelta e) news exec1;
          sorted_entries = sortEntries entries (do_SortBy opts)
      in \<lparr>dr_FromSnapshot = f, dr_ToSnapshot = t, dr_StatsResetWarning = statsResetDetected (ss_StatsReset f) (ss_StatsReset t),
          dr_Duration = dur, dr_DurationStr = formatDuration dur, dr_TotalCallsDelta = calls2, dr_TotalExecTimeDelta = exec2,
          dr_Entries = paginate (do_Offset opts) (do_Limit opts) sorted_entries, dr_NewQueries = news,
          dr_EvictedQueries = evicted, dr_TotalEntries = int (length sorted_entries)\<rparr>)"

subsection \<open>The time series of one query\<close>

record QueryInsightPoint =
  qp_CapturedAt :: time
  qp_CallsDelta :: int
  qp_ExecTimeDelta :: float64
  qp_RowsDelta :: int
  qp_AvgExecTime :: float64
  qp_SharedHitRatio :: float64

record QueryInsight =
  qi_QueryID :: int
  qi_Query :: string
  qi_DatabaseName :: string
  qi_UserName :: string
  qi_FirstSeen :: time
  qi_Points :: "QueryInsightPoint list"

definition insight_point :: "time \<Rightarrow> SnapshotEntry \<Rightarrow> SnapshotEntry \<Rightarrow> QueryInsightPoint" where
  "insight_point capturedAt prev cur =
     (let callsDelta = wrap64 (sn_Calls cur - sn_Calls prev);
          execDelta = sn_TotalExecTime cur - sn_TotalExecTime prev;
          reset = (callsDelta < 0 \<or> execDelta < 0);
          calls = (if reset then sn_Calls cur else callsDelta);
          ex = (if reset then sn_TotalExecTime cur else execDelta);
          rows = (if reset then sn_Rows cur else wrap64 (sn_Rows cur - sn_Rows prev));
          hit = (if reset then sn_SharedBlksHit cur else wrap64 (sn_SharedBlksHit cur - sn_SharedBlksHit prev));
          rd = (if reset then sn_SharedBlksRead cur else wrap64 (sn_SharedBlksRead cur - sn_SharedBlksRead prev))
      in \<lparr>qp_CapturedAt = capturedAt, qp_CallsDelta = calls, qp_ExecTimeDelta = ex, qp_RowsDelta = rows,
          qp_AvgExecTime = safeDivFloat ex (of_int calls),
          qp_SharedHitRatio = safeDivFloat (of_int hit * 100) (of_int (wrap64 (hit + rd)))\<rparr>)"

definition BuildQueryInsight :: "SnapshotEntry list \<Rightarrow> Snapshot list \<Rightarrow> QueryInsight option" where
  "BuildQueryInsight entries snapshots =
     (if entries = [] \<or> snapshots = [] then None
      else Some \<lparr>qi_QueryID = sn_QueryID (entries ! 0), qi_Query = sn_Query (entries ! 0),
        qi_DatabaseName = sn_DatabaseName (entries ! 0), qi_UserName = sn_UserName (entries ! 0),
        qi_FirstSeen = ss_CapturedAt (snapshots ! 0),
        qi_Points = map (\<lambda>i. insight_point (if i < length snapshots then ss_CapturedAt (snapshots ! i) else zero_time)
            (entries ! (i - 1)) (entries ! i)) [1..<length entries]\<rparr>)"

subsection \<open>The workload report\<close>

record ReportSummary =
  rs_TotalQueries :: int
  rs_TotalCallsDelta :: int
  rs_TotalExecTimeDelta :: float64
  rs_TotalRowsDelta :: int
  rs_UniqueQueries :: int
  rs_NewQueries :: int
  rs_EvictedQueries :: int

record WorkloadReport =
  wr_InstanceID :: string
  wr_FromTime :: time
  wr_ToTime :: time
  wr_Duration :: string
  wr_StatsResetWarning :: bool
  wr_Summary :: ReportSummary
  wr_TopByExecTime :: "DiffEntry list"
  wr_TopByCalls :: "DiffEntry list"
  wr_TopByRows :: "DiffEntry list"
  wr_TopByIOReads :: "DiffEntry list"
  wr_TopByAvgTime :: "DiffEntry list"
  wr_NewQueries :: "DiffEntry list"
  wr_EvictedQueries :: "DiffEntry list"

text \<open>\<open>less\<close> is a closure on indices; the callers close over \<open>allEntries\<close>, not over the copy that is
  being sorted.\<close>

definition topNBySorter :: "DiffEntry list \<Rightarrow> int \<Rightarrow> (nat \<Rightarrow> nat \<Rightarrow> bool) \<Rightarrow> DiffEntry list" where
  "topNBySorter entries topN lessf =
     (let sorted_copy = insertion_sort (\<lambda>current. lessf) entries
      in if int (length sorted_copy) > topN then take (nat topN) sorted_copy else sorted_copy)"

definition GenerateReport :: "DiffResult option \<Rightarrow> int \<Rightarrow> WorkloadReport" where
  "GenerateReport diff topN0 =
     (case diff of
        None \<Rightarrow> \<lparr>wr_InstanceID = '''', wr_FromTime = zero_time, wr_ToTime = zero_time, wr_Duration = '''', wr_StatsResetWarning = False,
          wr_Summary = \<lparr>rs_TotalQueries = 0, rs_TotalCallsDelta = 0, rs_TotalExecTimeDelta = 0, rs_TotalRowsDelta = 0,
            rs_UniqueQueries = 0, rs_NewQueries = 0, rs_EvictedQueries = 0\<rparr>, wr_TopByExecTime = [], wr_TopByCalls = [],
          wr_TopByRows = [], wr_TopByIOReads = [], wr_TopByAvgTime = [], wr_NewQueries = [], wr_EvictedQueries = []\<rparr>
      | Some d \<Rightarrow>
          (let topN = (if topN0 \<le> 0 then 20 else topN0);
               allEntries = dr_Entries d @ dr_NewQueries d;
               totalRows = fold (\<lambda>e acc. wrap64 (acc + de_RowsDelta e)) allEntries 0
           in \<lparr>wr_InstanceID = '''', wr_FromTime = ss_CapturedAt (dr_FromSnapshot d), wr_ToTime = ss_CapturedAt (dr_ToSnapshot d),
               wr_Duration = dr_DurationStr d, wr_StatsResetWarning = dr_StatsResetWarning d,
               wr_Summary = \<lparr>rs_TotalQueries = dr_TotalEntries d + int (length (dr_NewQueries d)),
                 rs_TotalCallsDelta = dr_TotalCallsDelta d, rs_TotalExecTimeDelta = dr_TotalExecTimeDelta d,
                 rs_TotalRowsDelta = totalRows, rs_UniqueQueries = dr_TotalEntries d,
                 rs_NewQueries = int (length (dr_NewQueries d)), rs_EvictedQueries = int (length (dr_EvictedQueries d))\<rparr>,
               wr_TopByExecTime = topNBySorter allEntries topN (\<lambda>i j. de_ExecTimeDelta (allEntries ! i) > de_ExecTimeDelta (allEntries ! j)),
               wr_TopByCalls = topNBySorter allEntries topN (\<lambda>i j. de_CallsDelta (allEntries ! i) > de_CallsDelta (allEntries ! j)),
               wr_TopByRows = topNBySorter allEntries topN (\<lambda>i j. de_RowsDelta (allEntries ! i) > de_RowsDelta (allEntries ! j)),
               wr_TopByIOReads = topNBySorter allEntries topN (\<lambda>i j. de_SharedBlksReadDelta (allEntries ! i) > de_SharedBlksReadDelta (allEntries ! j)),
               wr_TopByAvgTime = topNBySorter allEntries topN (\<lambda>i j. de_AvgExecTimePerCall (allEntries ! i) > de_AvgExecTimePerCall (allEntries ! j)),
               wr_NewQueries = dr_NewQueries d, wr_EvictedQueries = dr_EvictedQueries d\<rparr>))"

end
