(* ===== verification/StatementLaws.thy ===== *)
theory StatementLaws
  imports Statements
begin

section \<open>Laws of the statement statistics\<close>

text \<open>
  The difference of two snapshots splits the queries into continuing, new and evicted ones and its
  totals add up; pages partition the sorted entries; the series of a query survives a reset of the
  statistics; and the report sections are not the top entries they are meant to be.
\<close>

subsection \<open>Differences\<close>

lemma index_from_distinct:
  assumes "distinct (map entry_key es)"
  shows "index_from es = map (\<lambda>e. (entry_key e, e)) es"
proof -
  have "distinct (map entry_key es) \<Longrightarrow> set (map entry_key es) \<inter> set (keys_of m) = {} \<Longrightarrow>
      fold (\<lambda>e m. map_put (entry_key e) e m) es m = m @ map (\<lambda>e. (entry_key e, e)) es" for m
    by (induction es arbitrary: m) (auto simp: map_put_new)
  then show ?thesis using assms by (simp add: index_from_def)
qed

definition continuing :: "SnapshotEntry list \<Rightarrow> SnapshotEntry list \<Rightarrow> (SnapshotEntry \<times> SnapshotEntry) list" where
  "continuing fs ts = concat (map (\<lambda>t. case find (\<lambda>f. entry_key f = entry_key t) fs of None \<Rightarrow> [] | Some f \<Rightarrow> [(f, t)]) ts)"

definition fresh_entries :: "SnapshotEntry list \<Rightarrow> SnapshotEntry list \<Rightarrow> SnapshotEntry list" where
  "fresh_entries fs ts = filter (\<lambda>t. entry_key t \<notin> entry_key ` set fs) ts"

lemma map_of_index: "map_of (map (\<lambda>e. (entry_key e, e)) es) k = find (\<lambda>e. entry_key e = k) es"
  by (induction es) auto

lemma find_key_Some: "find (\<lambda>e. entry_key e = k) es = Some e \<Longrightarrow> e \<in> set es \<and> entry_key e = k"
  by (induction es) (auto split: if_splits)

lemma find_key_None: "find (\<lambda>e. entry_key e = k) es = None \<longleftrightarrow> k \<notin> entry_key ` set es"
  by (induction es) auto

lemma find_filter_other: "entry_key t \<noteq> k \<Longrightarrow>
   find (\<lambda>f. entry_key f = k) (filter (\<lambda>f. entry_key f \<noteq> entry_key t) fs) = find (\<lambda>f. entry_key f = k) fs"
  by (induction fs) auto

lemma map_del_index: "map_del k (map (\<lambda>e. (entry_key e, e)) es) = map (\<lambda>e. (entry_key e, e)) (filter (\<lambda>e. entry_key e \<noteq> k) es)"
  by (induction es) (auto simp: map_del_def)

lemma continuing_skip: "entry_key t \<notin> entry_key ` set ts \<Longrightarrow>
   continuing (filter (\<lambda>f. entry_key f \<noteq> entry_key t) fs) ts = continuing fs ts"
proof -
  assume t: "entry_key t \<notin> entry_key ` set ts"
  have "find (\<lambda>f. entry_key f = entry_key x) (filter (\<lambda>f. entry_key f \<noteq> entry_key t) fs) = find (\<lambda>f. entry_key f = entry_key x) fs"
    if "x \<in> set ts" for x
    using that t by (intro find_filter_other) auto
  then show ?thesis unfolding continuing_def by (intro arg_cong [where f = concat] map_cong refl) (simp only:)
qed

lemma fresh_skip: "entry_key t \<notin> entry_key ` set ts \<Longrightarrow>
   fresh_entries (filter (\<lambda>f. entry_key f \<noteq> entry_key t) fs) ts = fresh_entries fs ts"
proof -
  assume t: "entry_key t \<notin> entry_key ` set ts"
  have "entry_key x \<in> entry_key ` set (filter (\<lambda>f. entry_key f \<noteq> entry_key t) fs) \<longleftrightarrow> entry_key x \<in> entry_key ` set fs"
    if "x \<in> set ts" for x
  proof -
    have "entry_key x \<noteq> entry_key t" using that t by (metis image_eqI)
    then show ?thesis by (induction fs) auto
  qed
  then show ?thesis unfolding fresh_entries_def by (intro filter_cong refl) (simp only:)
qed

lemma diff_loop:
  "distinct (map entry_key ts) \<Longrightarrow>
   fold diff_turn ts (map (\<lambda>e. (entry_key e, e)) fs, E, N) =
     (map (\<lambda>e. (entry_key e, e)) (filter (\<lambda>f. entry_key f \<notin> entry_key ` set ts) fs),
      E @ map (\<lambda>(f, t). computeEntryDelta f t) (continuing fs ts), N @ map entryAsDelta (fresh_entries fs ts))"
proof (induction ts arbitrary: fs E N)
  case Nil
  then show ?case by (simp add: continuing_def fresh_entries_def)
next
  case (Cons t ts)
  show ?case
  proof (cases "find (\<lambda>f. entry_key f = entry_key t) fs")
    case None
    then have "entry_key t \<notin> entry_key ` set fs" by (rule iffD1 [OF find_key_None])
    moreover from this have "filter (\<lambda>f. entry_key f \<noteq> entry_key t \<and> entry_key f \<notin> entry_key ` set ts) fs =
        filter (\<lambda>f. entry_key f \<notin> entry_key ` set ts) fs"
      by (intro filter_cong refl) (metis image_eqI)
    ultimately show ?thesis
      using Cons None by (simp add: diff_turn_def map_of_index continuing_def fresh_entries_def)
  next
    case (Some f)
    then have "entry_key t \<in> entry_key ` set fs" by (metis find_key_Some image_eqI)
    moreover have "filter (\<lambda>f. entry_key f \<notin> entry_key ` set ts) (filter (\<lambda>f. entry_key f \<noteq> entry_key t) fs) =
        filter (\<lambda>f. entry_key f \<noteq> entry_key t \<and> entry_key f \<notin> entry_key ` set ts) fs"
      by (simp add: conj_commute)
    moreover have "continuing fs (t # ts) = (f, t) # continuing fs ts" "fresh_entries fs (t # ts) = fresh_entries fs ts"
      using Some calculation(1) by (simp_all add: continuing_def fresh_entries_def)
    ultimately show ?thesis
      using Cons.IH [of "filter (\<lambda>f. entry_key f \<noteq> entry_key t) fs"] Cons.prems Some
      by (simp add: diff_turn_def map_of_index map_del_index continuing_skip fresh_skip)
  qed
qed

lemma in_continuing:
  assumes "distinct (map entry_key fs)"
  shows "(f, t) \<in> set (continuing fs ts) \<longleftrightarrow> f \<in> set fs \<and> t \<in> set ts \<and> entry_key f = entry_key t"
proof -
  have "find (\<lambda>g. entry_key g = entry_key t) fs = Some f \<longleftrightarrow> f \<in> set fs \<and> entry_key f = entry_key t" for t
    using assms by (induction fs) (auto simp: image_iff)
  note key = this
  have "(f, t) \<in> set (continuing fs ts) \<longleftrightarrow> t \<in> set ts \<and> find (\<lambda>g. entry_key g = entry_key t) fs = Some f"
    by (induction ts) (auto simp: continuing_def split: option.splits)
  then show ?thesis using key [of t] by blast
qed

lemma sum_split:
  "sum_list (map (\<lambda>(f, t). g t) (continuing fs ts)) + sum_list (map g (fresh_entries fs ts)) = sum_list (map (g :: _ \<Rightarrow> 'a::comm_monoid_add) ts)"
proof (induction ts)
  case (Cons t ts)
  show ?case
  proof (cases "find (\<lambda>f. entry_key f = entry_key t) fs")
    case None
    then have "entry_key t \<notin> entry_key ` set fs" by (rule iffD1 [OF find_key_None])
    then show ?thesis using Cons None by (simp add: continuing_def fresh_entries_def ac_simps)
  next
    case (Some f)
    then have "entry_key t \<in> entry_key ` set fs" by (metis find_key_Some image_eqI)
    then show ?thesis using Cons Some by (simp add: continuing_def fresh_entries_def ac_simps)
  qed
qed (simp add: continuing_def fresh_entries_def)

lemma sum_list_wrap: "wrap64 (a + sum_list (map (\<lambda>x. wrap64 (h x)) xs)) = wrap64 (a + sum_list (map h xs))"
proof (induction xs arbitrary: a)
  case (Cons x xs)
  have "wrap64 (a + (wrap64 (h x) + sum_list (map h xs))) = wrap64 (wrap64 (h x) + (a + sum_list (map h xs)))"
    by (simp add: ac_simps)
  also have "\<dots> = wrap64 (h x + (a + sum_list (map h xs)))" by (rule wrap64_add)
  finally show ?case using Cons.IH [of "a + wrap64 (h x)"] by (simp add: ac_simps)
qed simp

lemma fold_wrap_id: "in_int64 a \<Longrightarrow> wrap64 (fold (\<lambda>x acc. wrap64 (acc + f x)) xs a) = fold (\<lambda>x acc. wrap64 (acc + f x)) xs a"
  by (induction xs arbitrary: a) simp_all

lemma fold_wrap_in_range: "in_int64 a \<Longrightarrow> in_int64 (fold (\<lambda>x acc. wrap64 (acc + f x)) xs a)"
  by (induction xs arbitrary: a) simp_all

lemma fold_plus_real: "fold (\<lambda>e acc. acc + (g e :: real)) xs a = a + sum_list (map g xs)"
  by (induction xs arbitrary: a) simp_all

lemma length_continuing:
  assumes "distinct (map entry_key ts)"
  shows "length (continuing fs ts) = card (entry_key ` set fs \<inter> entry_key ` set ts)"
proof -
  have "map (\<lambda>(a, b). entry_key b) (continuing fs ts) = filter (\<lambda>k. k \<in> entry_key ` set fs) (map entry_key ts)"
  proof (induction ts)
    case (Cons b ts)
    show ?case
    proof (cases "find (\<lambda>f. entry_key f = entry_key b) fs")
      case None
      then have "entry_key b \<notin> entry_key ` set fs" by (rule iffD1 [OF find_key_None])
      then show ?thesis using Cons None by (simp add: continuing_def)
    next
      case (Some a)
      then have "entry_key b \<in> entry_key ` set fs" by (metis find_key_Some image_eqI)
      then show ?thesis using Cons Some by (simp add: continuing_def)
    qed
  qed (simp add: continuing_def)
  then have "length (continuing fs ts) = length (filter (\<lambda>k. k \<in> entry_key ` set fs) (map entry_key ts))"
    by (metis length_map)
  also have "\<dots> = card (set (filter (\<lambda>k. k \<in> entry_key ` set fs) (map entry_key ts)))"
    by (rule distinct_card [symmetric]) (simp add: assms)
  also have "set (filter (\<lambda>k. k \<in> entry_key ` set fs) (map entry_key ts)) = entry_key ` set fs \<inter> entry_key ` set ts"
    by auto
  finally show ?thesis .
qed

text \<open>C24: When no snapshot lists a query twice, the difference splits the queries exactly: the
  entries are the deltas of the queries in both snapshots, new queries are those only in the later
  one, evicted queries those only in the earlier one.\<close>

theorem compute_diff_partition:
  assumes "distinct (map entry_key fs)" "distinct (map entry_key ts)" "do_Offset opts = 0" "do_Limit opts = 0"
  shows "set (dr_Entries (ComputeDiff f t fs ts opts)) =
      {computeEntryDelta a b | a b. a \<in> set fs \<and> b \<in> set ts \<and> entry_key a = entry_key b} \<and>
    dr_TotalEntries (ComputeDiff f t fs ts opts) = int (card (entry_key ` set fs \<inter> entry_key ` set ts)) \<and>
    dr_NewQueries (ComputeDiff f t fs ts opts) = map entryAsDelta (filter (\<lambda>b. entry_key b \<notin> entry_key ` set fs) ts) \<and>
    set (dr_EvictedQueries (ComputeDiff f t fs ts opts)) = entryAsDelta ` {a \<in> set fs. entry_key a \<notin> entry_key ` set ts}"
proof -
  note loop = diff_loop [OF assms(2), of fs "[]" "[]", folded index_from_distinct [OF assms(1)]]
  have page: "set (paginate 0 0 xs) = set xs" for xs :: "DiffEntry list" by (simp add: paginate_def Let_def)
  note n = length_continuing [OF assms(2), of fs]
  have "(\<lambda>(a, b). computeEntryDelta a b) ` set (continuing fs ts) =
      {computeEntryDelta a b | a b. a \<in> set fs \<and> b \<in> set ts \<and> entry_key a = entry_key b}"
    using in_continuing [OF assms(1), of _ _ ts] by (force simp: image_iff)
  then show ?thesis
    by (auto simp: ComputeDiff_def loop Let_def assms(3,4) page sortEntries_def fresh_entries_def n)
qed

text \<open>The totals of a difference add up: the total of calls is the calls of the later snapshot
  minus the calls of its queries in the earlier one (modulo 64 bits), and likewise, exactly, for
  the execution time; evicted queries do not count.\<close>

theorem compute_diff_totals:
  assumes "distinct (map entry_key fs)" "distinct (map entry_key ts)"
  shows "dr_TotalCallsDelta (ComputeDiff f t fs ts opts) =
      wrap64 (sum_list (map sn_Calls ts) - sum_list (map (\<lambda>(a, b). sn_Calls a) (continuing fs ts))) \<and>
    dr_TotalExecTimeDelta (ComputeDiff f t fs ts opts) =
      sum_list (map sn_TotalExecTime ts) - sum_list (map (\<lambda>(a, b). sn_TotalExecTime a) (continuing fs ts))"
proof
  note loop = diff_loop [OF assms(2), of fs "[]" "[]", folded index_from_distinct [OF assms(1)]]
  let ?E = "map (\<lambda>(f, t). computeEntryDelta f t) (continuing fs ts)" and ?N = "map entryAsDelta (fresh_entries fs ts)"
  have zero: "in_int64 0" by (simp add: in_int64_def)
  have E: "map de_CallsDelta ?E = map (\<lambda>p. wrap64 (sn_Calls (snd p) - sn_Calls (fst p))) (continuing fs ts)"
    "map de_ExecTimeDelta ?E = map (\<lambda>p. sn_TotalExecTime (snd p) - sn_TotalExecTime (fst p)) (continuing fs ts)"
    by (auto simp: computeEntryDelta_def Let_def)
  have N: "map de_CallsDelta ?N = map sn_Calls (fresh_entries fs ts)" "map de_ExecTimeDelta ?N = map sn_TotalExecTime (fresh_entries fs ts)"
    by (auto simp: entryAsDelta_def Let_def)
  let ?calls = "fold (\<lambda>e acc. wrap64 (acc + de_CallsDelta e))"
  have "dr_TotalCallsDelta (ComputeDiff f t fs ts opts) = ?calls ?N (?calls ?E 0)"
    by (simp add: ComputeDiff_def loop Let_def)
  also have "\<dots> = wrap64 (?calls ?N (?calls ?E 0))" by (simp add: fold_wrap_id fold_wrap_in_range zero)
  also have "\<dots> = wrap64 (wrap64 (?calls ?E 0) + sum_list (map de_CallsDelta ?N))"
    by (subst wrap64_sum) (rule wrap64_add [symmetric])
  also have "wrap64 (?calls ?E 0) = wrap64 (0 + sum_list (map de_CallsDelta ?E))" by (rule wrap64_sum)
  also have "wrap64 (wrap64 (0 + sum_list (map de_CallsDelta ?E)) + sum_list (map de_CallsDelta ?N)) = wrap64 (sum_list (map de_CallsDelta ?E) + sum_list (map de_CallsDelta ?N))"
    by (simp only: wrap64_add add_0)
  also have "\<dots> = wrap64 (sum_list (map sn_Calls (fresh_entries fs ts)) +
      sum_list (map (\<lambda>p. sn_Calls (snd p) - sn_Calls (fst p)) (continuing fs ts)))"
    unfolding E(1) N(1) by (subst add.commute) (rule sum_list_wrap)
  also have "\<dots> = wrap64 (sum_list (map sn_Calls ts) - sum_list (map (\<lambda>(a, b). sn_Calls a) (continuing fs ts)))"
    using sum_split [of sn_Calls fs ts] by (simp add: sum_list_subtractf case_prod_unfold algebra_simps)
  finally show "dr_TotalCallsDelta (ComputeDiff f t fs ts opts) =
      wrap64 (sum_list (map sn_Calls ts) - sum_list (map (\<lambda>(a, b). sn_Calls a) (continuing fs ts)))" .
  have "dr_TotalExecTimeDelta (ComputeDiff f t fs ts opts) = sum_list (map de_ExecTimeDelta ?E) + sum_list (map de_ExecTimeDelta ?N)"
    by (simp add: ComputeDiff_def loop Let_def fold_plus_real del: map_map)
  then show "dr_TotalExecTimeDelta (ComputeDiff f t fs ts opts) =
      sum_list (map sn_TotalExecTime ts) - sum_list (map (\<lambda>(a, b). sn_TotalExecTime a) (continuing fs ts))"
    unfolding E(2) N(2) using sum_split [of sn_TotalExecTime fs ts] by (simp add: sum_list_subtractf case_prod_unfold)
qed

subsection \<open>Pages\<close>

interpretation entry_order: slice_order "entry_before sortBy" for sortBy
  by unfold_locales (auto simp: entry_before_def split: if_splits)

lemma paginate_page:
  assumes "0 < l"
  shows "paginate (int k * int l) (int l) xs = take l (drop (k * l) xs)"
proof -
  consider "k * l = 0" | "0 < k * l" "k * l < length xs" | "length xs \<le> k * l" "0 < k * l" by linarith
  then show ?thesis
    using assms by cases (auto simp: paginate_def Let_def nat_mult_distrib simp flip: of_nat_mult)
qed

text \<open>The pages of a difference partition its sorted entries: asking for the pages of \<open>l\<close>
  entries one after the other returns every continuing query exactly once, in the requested order,
  and the total reported beside each page is their number.\<close>

theorem diff_pages_partition:
  assumes "0 < l" "length (dr_Entries (ComputeDiff f t fs ts \<lparr>do_SortBy = by, do_Limit = 0, do_Offset = 0\<rparr>)) \<le> n * l"
  shows "concat (map (\<lambda>k. dr_Entries (ComputeDiff f t fs ts \<lparr>do_SortBy = by, do_Limit = int l, do_Offset = int k * int l\<rparr>)) [0..<n]) =
      dr_Entries (ComputeDiff f t fs ts \<lparr>do_SortBy = by, do_Limit = 0, do_Offset = 0\<rparr>) \<and>
    sorted_wrt (\<lambda>a b. \<not> entry_before (if by = '''' then ''total_exec_time'' else by) b a)
      (dr_Entries (ComputeDiff f t fs ts \<lparr>do_SortBy = by, do_Limit = 0, do_Offset = 0\<rparr>)) \<and>
    dr_TotalEntries (ComputeDiff f t fs ts opts) = int (length (dr_Entries (ComputeDiff f t fs ts \<lparr>do_SortBy = by, do_Limit = 0, do_Offset = 0\<rparr>)))"
proof -
  obtain fm es news where loop: "fold diff_turn ts (index_from fs, [], []) = (fm, es, news)" by (metis prod.exhaust)
  define s where "s = sortEntries es by"
  have all: "dr_Entries (ComputeDiff f t fs ts \<lparr>do_SortBy = by, do_Limit = 0, do_Offset = 0\<rparr>) = s"
    by (auto simp: ComputeDiff_def loop Let_def s_def paginate_def)
  have page: "dr_Entries (ComputeDiff f t fs ts \<lparr>do_SortBy = by, do_Limit = int l, do_Offset = int k * int l\<rparr>) = take l (drop (k * l) s)" for k
    using paginate_page [OF assms(1), of k s] by (simp add: ComputeDiff_def loop Let_def s_def)
  have cat: "concat (map (\<lambda>k. take l (drop (k * l) xs)) [0..<n]) = take (n * l) xs" for xs :: "DiffEntry list" and n
  proof (induction n)
    case (Suc n)
    have "Suc n * l = n * l + l" by simp
    then show ?case using Suc by (simp only: take_add upt_Suc) simp
  qed simp
  show ?thesis
    using assms(2) entry_order.sort_slice_sorted
    by (simp add: all page cat) (simp add: s_def sortEntries_def ComputeDiff_def loop Let_def)
qed

subsection \<open>The series of a query\<close>

lemma ratio_bounds: "0 \<le> h \<Longrightarrow> 0 \<le> r \<Longrightarrow> in_int64 (h + r) \<Longrightarrow>
    0 \<le> safeDivFloat (of_int h * 100) (of_int (wrap64 (h + r))) \<and> safeDivFloat (of_int h * 100) (of_int (wrap64 (h + r))) \<le> 100"
  by (auto simp: safeDivFloat_def divide_simps)

definition counters_ok :: "SnapshotEntry \<Rightarrow> bool" where
  "counters_ok e \<longleftrightarrow> 0 \<le> sn_Calls e \<and> 0 \<le> sn_TotalExecTime e \<and> 0 \<le> sn_SharedBlksHit e \<and> 0 \<le> sn_SharedBlksRead e \<and>
     sn_Calls e < 2 ^ 63 \<and> in_int64 (sn_SharedBlksHit e + sn_SharedBlksRead e)"

lemma insight_point_nonneg:
  assumes "counters_ok prev" "counters_ok cur"
  shows "0 \<le> qp_CallsDelta (insight_point t prev cur) \<and> 0 \<le> qp_ExecTimeDelta (insight_point t prev cur) \<and>
    0 \<le> qp_AvgExecTime (insight_point t prev cur)"
  using assms by (auto simp: insight_point_def Let_def counters_ok_def safeDivFloat_def)

text \<open>The series of a query has one point per pair of consecutive captures, and a reset of the
  statistics never shows as a negative number of calls or a negative time: on non-negative counters
  calls, execution time and average time of every point are non-negative.\<close>

theorem query_insight_nonnegative:
  assumes "BuildQueryInsight entries snapshots = Some ins" "list_all counters_ok entries"
  shows "length (qi_Points ins) = length entries - 1 \<and>
    list_all (\<lambda>p. 0 \<le> qp_CallsDelta p \<and> 0 \<le> qp_ExecTimeDelta p \<and> 0 \<le> qp_AvgExecTime p) (qi_Points ins)"
proof -
  have ins: "qi_Points ins = map (\<lambda>i. insight_point (if i < length snapshots then ss_CapturedAt (snapshots ! i) else zero_time)
            (entries ! (i - 1)) (entries ! i)) [1..<length entries]"
    using assms(1) by (auto simp: BuildQueryInsight_def split: if_splits)
  have "counters_ok (entries ! i) \<and> counters_ok (entries ! (i - 1))" if "i < length entries" for i
    using assms(2) that by (simp add: list_all_length)
  then show ?thesis by (auto simp: ins list_all_iff insight_point_nonneg)
qed

subsection \<open>The report\<close>

definition demo_entry :: "int \<Rightarrow> int \<Rightarrow> SnapshotEntry" where
  "demo_entry q calls = \<lparr>sn_SnapshotID = 1, sn_QueryID = q, sn_UserID = 10, sn_DbID = 5, sn_DatabaseName = ''app'', sn_UserName = ''u'',
     sn_Query = ''select'', sn_Calls = calls, sn_TotalExecTime = of_int calls, sn_TotalPlanTime = None, sn_Rows = 0, sn_SharedBlksHit = 0,
     sn_SharedBlksRead = 0, sn_SharedBlksDirtied = 0, sn_SharedBlksWritten = 0, sn_LocalBlksHit = 0, sn_LocalBlksRead = 0,
     sn_TempBlksRead = 0, sn_TempBlksWritten = 0, sn_BlkReadTime = 0, sn_BlkWriteTime = 0, sn_WALRecords = None, sn_WALFpi = None,
     sn_WALBytes = None, sn_MeanExecTime = None, sn_MinExecTime = None, sn_MaxExecTime = None, sn_StddevExecTime = None\<rparr>"

definition demo_snapshot :: "time \<Rightarrow> Snapshot" where
  "demo_snapshot t = \<lparr>ss_ID = 1, ss_InstanceID = ''db1'', ss_CapturedAt = t, ss_PGVersion = 160000, ss_StatsReset = None,
     ss_TotalStatements = 3, ss_TotalCalls = 0, ss_TotalExecTime = 0\<rparr>"

definition demo_diff :: DiffResult where
  "demo_diff = ComputeDiff (demo_snapshot 0) (demo_snapshot Hour) [] [demo_entry 1 2, demo_entry 2 1, demo_entry 3 3]
     \<lparr>do_SortBy = '''', do_Limit = 0, do_Offset = 0\<rparr>"

text \<open>The sections of the workload report are not sorted by their metric: the comparators index
  the unsorted list while another list is being sorted, so three queries
  of 2, 1 and 3 calls come out as 2, 3, 1 in the section by calls, and the top one of them is not
  the query with the most calls.\<close>

theorem report_sections_unsorted:
  "map de_CallsDelta (wr_TopByCalls (GenerateReport (Some demo_diff) 20)) = [2, 3, 1] \<and>
   map de_CallsDelta (wr_TopByCalls (GenerateReport (Some demo_diff) 1)) = [2]"
proof -
  have all: "dr_Entries demo_diff @ dr_NewQueries demo_diff = map entryAsDelta [demo_entry 1 2, demo_entry 2 1, demo_entry 3 3]"
    by (simp add: demo_diff_def ComputeDiff_def index_from_def diff_turn_def sortEntries_def paginate_def Let_def)
  have sorted_copy: "insertion_sort (\<lambda>current. \<lambda>i j. de_CallsDelta ([a, b, c] ! i) > de_CallsDelta ([a, b, c] ! j)) [a, b, c] = [a, c, b]"
    if "de_CallsDelta b < de_CallsDelta a" "de_CallsDelta a < de_CallsDelta c" for a b c
    using that by (simp add: insertion_sort_def upt_conv_Cons swap_def numeral_2_eq_2)
  show ?thesis
    by (simp add: GenerateReport_def Let_def all topNBySorter_def sorted_copy)
      (simp add: entryAsDelta_def demo_entry_def Let_def sorted_copy)
qed

subsection \<open>Witnesses\<close>

theorem compute_diff_partition_witness:
  "dr_NewQueries (ComputeDiff (demo_snapshot 0) (demo_snapshot Hour) [demo_entry 1 1] [demo_entry 1 4, demo_entry 2 2]
     \<lparr>do_SortBy = '''', do_Limit = 0, do_Offset = 0\<rparr>) = [entryAsDelta (demo_entry 2 2)]"
  using compute_diff_partition [of "[demo_entry 1 1]" "[demo_entry 1 4, demo_entry 2 2]" "\<lparr>do_SortBy = '''', do_Limit = 0, do_Offset = 0\<rparr>"]
  by (simp add: entry_key_def demo_entry_def)

theorem compute_diff_totals_witness:
  "dr_TotalCallsDelta (ComputeDiff (demo_snapshot 0) (demo_snapshot Hour) [demo_entry 1 1] [demo_entry 1 4, demo_entry 2 2]
     \<lparr>do_SortBy = '''', do_Limit = 0, do_Offset = 0\<rparr>) = 5"
  using compute_diff_totals [of "[demo_entry 1 1]" "[demo_entry 1 4, demo_entry 2 2]" "demo_snapshot 0" "demo_snapshot Hour"]
  by (simp add: entry_key_def demo_entry_def continuing_def in_int64_def)

theorem diff_pages_partition_witness:
  "concat (map (\<lambda>k. dr_Entries (ComputeDiff (demo_snapshot 0) (demo_snapshot Hour) [demo_entry 1 1] [demo_entry 1 4, demo_entry 2 2]
       \<lparr>do_SortBy = '''', do_Limit = int 1, do_Offset = int k * int 1\<rparr>)) [0..<2]) = [computeEntryDelta (demo_entry 1 1) (demo_entry 1 4)]"
proof -
  have e: "dr_Entries (ComputeDiff (demo_snapshot 0) (demo_snapshot Hour) [demo_entry 1 1] [demo_entry 1 4, demo_entry 2 2]
       \<lparr>do_SortBy = '''', do_Limit = 0, do_Offset = 0\<rparr>) = [computeEntryDelta (demo_entry 1 1) (demo_entry 1 4)]"
    by (simp add: ComputeDiff_def index_from_def diff_turn_def sortEntries_def paginate_def entry_key_def map_del_def Let_def)
      (simp add: demo_entry_def)
  show ?thesis
    using diff_pages_partition [of 1 "demo_snapshot 0" "demo_snapshot Hour" "[demo_entry 1 1]" "[demo_entry 1 4, demo_entry 2 2]" "''''" 2]
    unfolding e by simp
qed

theorem query_insight_nonnegative_witness:
  "\<exists>ins. BuildQueryInsight [demo_entry 1 9, demo_entry 1 4] [demo_snapshot 0, demo_snapshot Hour] = Some ins \<and>
     length (qi_Points ins) = 1 \<and> list_all (\<lambda>p. 0 \<le> qp_CallsDelta p \<and> 0 \<le> qp_ExecTimeDelta p \<and> 0 \<le> qp_AvgExecTime p) (qi_Points ins)"
proof -
  obtain ins where "BuildQueryInsight [demo_entry 1 9, demo_entry 1 4] [demo_snapshot 0, demo_snapshot Hour] = Some ins"
    by (simp add: BuildQueryInsight_def)
  then show ?thesis
    using query_insight_nonnegative [of "[demo_entry 1 9, demo_entry 1 4]" "[demo_snapshot 0, demo_snapshot Hour]" ins]
    by (simp add: counters_ok_def demo_entry_def in_int64_def)
qed

end
