(* ===== verification/RcaGraph.thy ===== *)
theory RcaGraph
  imports MetricModel
begin

section \<open>The causal graph of root cause analysis (\<open>internal/rca/graph.go\<close>, \<open>chains.go\<close>, \<open>ontology.go\<close>)\<close>

text \<open>
  Nodes, edges and chains as in \<open>graph.go\<close>, its queries, and the built-in graph of
  \<open>NewDefaultGraph\<close> with its 49 nodes and 38 edges. \<open>Nodes\<close> is iterated, so it is an association
  list in insertion order (Go leaves the order open); sets built as \<open>map[string]bool\<close> that are
  only looked up are lists of the inserted keys.
\<close>

datatype TemporalSemantics = BoundedLag | PersistentState | WhileEffective

datatype EvidenceRequirement = EvidenceRequired | EvidenceSupporting

record CausalNode =
  cn_ID :: string
  cn_Name :: string
  cn_MetricKeys :: "string list"
  cn_Layer :: string
  cn_SymptomKey :: string
  cn_MechanismKey :: string

record CausalEdge =
  ce_FromNode :: string
  ce_ToNode :: string
  ce_MinLag :: duration
  ce_MaxLag :: duration
  ce_MinLagSeconds :: float64
  ce_MaxLagSeconds :: float64
  ce_Temporal :: TemporalSemantics
  ce_Evidence :: EvidenceRequirement
  ce_Description :: string
  ce_BaseConfidence :: float64
  ce_ChainID :: string
  ce_RemediationHook :: string

record CausalGraph =
  g_Nodes :: "(string, CausalNode) gomap"
  g_Edges :: "CausalEdge list"
  g_ChainIDs :: "string list"

definition node_of :: "CausalGraph \<Rightarrow> string \<Rightarrow> CausalNode option" where
  "node_of g i = map_of (g_Nodes g) i"

definition IncomingEdges :: "CausalGraph \<Rightarrow> string \<Rightarrow> CausalEdge list" where
  "IncomingEdges g nodeID = filter (\<lambda>e. ce_ToNode e = nodeID) (g_Edges g)"

text \<open>The node ids that carry the metric.\<close>

definition matchingNodes :: "CausalGraph \<Rightarrow> string \<Rightarrow> string list" where
  "matchingNodes g metricKey =
     map fst (filter (\<lambda>(i, node). list_ex (\<lambda>mk. mk = metricKey) (cn_MetricKeys node)) (g_Nodes g))"

text \<open>Both loops of \<open>ChainsForTrigger\<close>; the chains found so far are also the set \<open>seen\<close>.\<close>

definition chains_by_edge :: "string list \<Rightarrow> CausalEdge list \<Rightarrow> string list" where
  "chains_by_edge nodes es =
     fold (\<lambda>e chains. if ce_ToNode e \<in> set nodes \<and> ce_ChainID e \<notin> set chains then chains @ [ce_ChainID e] else chains) es []"

definition chains_by_id :: "string list \<Rightarrow> CausalEdge list \<Rightarrow> string list \<Rightarrow> string list \<Rightarrow> string list" where
  "chains_by_id nodes es chainIDs chains0 =
     fold (\<lambda>c chains. if c \<in> set chains then chains
       else if list_ex (\<lambda>e. ce_ChainID e = c \<and> ce_ToNode e \<in> set nodes) es then chains @ [c] else chains) chainIDs chains0"

definition ChainsForTrigger :: "CausalGraph \<Rightarrow> string \<Rightarrow> string list" where
  "ChainsForTrigger g metricKey =
     (let nodes = matchingNodes g metricKey
      in chains_by_id nodes (g_Edges g) (g_ChainIDs g) (chains_by_edge nodes (g_Edges g)))"

text \<open>The depth-bounded walk upstream; the state is the visited set and the result.\<close>

fun reachableWalk :: "CausalGraph \<Rightarrow> nat \<Rightarrow> string \<Rightarrow> string list \<times> CausalNode list \<Rightarrow> string list \<times> CausalNode list" where
  "reachableWalk g 0 nodeID s = s"
| "reachableWalk g (Suc depth) nodeID s =
     fold (\<lambda>e (visited, result).
       if ce_ToNode e = nodeID \<and> ce_FromNode e \<notin> set visited then
         reachableWalk g depth (ce_FromNode e)
           (ce_FromNode e # visited, (case node_of g (ce_FromNode e) of None \<Rightarrow> result | Some node \<Rightarrow> result @ [node]))
       else (visited, result)) (g_Edges g) s"

definition ReachableNodes :: "CausalGraph \<Rightarrow> string \<Rightarrow> int \<Rightarrow> CausalNode list" where
  "ReachableNodes g nodeID maxDepth = snd (reachableWalk g (nat maxDepth) nodeID ([], []))"

definition add_once :: "'a \<Rightarrow> 'a list \<Rightarrow> 'a list" where
  "add_once x xs = (if x \<in> set xs then xs else xs @ [x])"

definition MetricKeysForChains :: "CausalGraph \<Rightarrow> string list \<Rightarrow> string list" where
  "MetricKeysForChains g chainIDs =
     (let nodeIDs = fold (\<lambda>e ids. if ce_ChainID e \<in> set chainIDs then add_once (ce_ToNode e) (add_once (ce_FromNode e) ids) else ids)
                      (g_Edges g) []
      in fold (\<lambda>i keys. case node_of g i of None \<Rightarrow> keys | Some node \<Rightarrow> fold add_once (cn_MetricKeys node) keys) nodeIDs [])"

definition EdgesForChain :: "CausalGraph \<Rightarrow> string \<Rightarrow> CausalEdge list" where
  "EdgesForChain g chainID = filter (\<lambda>e. ce_ChainID e = chainID) (g_Edges g)"

definition TerminalNodes :: "CausalGraph \<Rightarrow> string \<Rightarrow> string list" where
  "TerminalNodes g chainID =
     (let es = EdgesForChain g chainID;
          toNodes = fold (\<lambda>e ids. add_once (ce_ToNode e) ids) es [];
          fromNodes = map ce_FromNode es
      in filter (\<lambda>i. i \<notin> set fromNodes) toNodes)"

subsection \<open>The built-in graph\<close>

definition mk_node :: "string \<Rightarrow> string \<Rightarrow> string list \<Rightarrow> string \<Rightarrow> string \<Rightarrow> string \<Rightarrow> CausalNode" where
  "mk_node i name metricKeys layer symptom mechanism =
     \<lparr>cn_ID = i, cn_Name = name, cn_MetricKeys = metricKeys, cn_Layer = layer, cn_SymptomKey = symptom, cn_MechanismKey = mechanism\<rparr>"

text \<open>The edge literals leave the lags in seconds at zero.\<close>

definition mk_edge :: "string \<Rightarrow> string \<Rightarrow> duration \<Rightarrow> duration \<Rightarrow> TemporalSemantics \<Rightarrow> EvidenceRequirement \<Rightarrow> string \<Rightarrow> float64
    \<Rightarrow> string \<Rightarrow> string \<Rightarrow> CausalEdge" where
  "mk_edge fr t minLag maxLag temporal evidence description baseConfidence chainID hook =
     \<lparr>ce_FromNode = fr, ce_ToNode = t, ce_MinLag = minLag, ce_MaxLag = maxLag, ce_MinLagSeconds = 0, ce_MaxLagSeconds = 0,
      ce_Temporal = temporal, ce_Evidence = evidence, ce_Description = description, ce_BaseConfidence = baseConfidence,
      ce_ChainID = chainID, ce_RemediationHook = hook\<rparr>"

definition addNode :: "CausalNode \<Rightarrow> CausalGraph \<Rightarrow> CausalGraph" where
  "addNode node g = g\<lparr>g_Nodes := map_put (cn_ID node) node (g_Nodes g)\<rparr>"

definition addEdge :: "CausalEdge \<Rightarrow> CausalGraph \<Rightarrow> CausalGraph" where
  "addEdge edge g = g\<lparr>g_Edges := g_Edges g @ [edge]\<rparr>"

definition AllChainIDs :: "string list" where
  "AllChainIDs = [
     ''chain.bulk_wal_checkpoint_io_repllag'',
     ''chain.inactive_slot_wal_disk'',
     ''chain.network_walrecv_repllag'',
     ''chain.longtx_repl_delay'',
     ''chain.walspike_checkpoint_io'',
     ''chain.autovacuum_disk_latency'',
     ''chain.tempfile_disk_query'',
     ''chain.buffer_eviction_backend_io'',
     ''chain.lock_blocked_conn_pileup'',
     ''chain.conn_spike_memory_oom'',
     ''chain.longtx_bloat_conn'',
     ''chain.query_regression_cpu_latency'',
     ''chain.new_query_resource_shift'',
     ''chain.missing_index_seqscan_io'',
     ''chain.pgss_fill_eviction'',
     ''chain.dead_tuple_bloat_scan'',
     ''chain.wraparound_vacuum_io'',
     ''chain.longtx_block_vacuum_growth'',
     ''chain.settings_change_behavior'',
     ''chain.os_memory_oom_crash'']"

definition tier_b_chains :: "string list" where
  "tier_b_chains = [''chain.network_walrecv_repllag'', ''chain.query_regression_cpu_latency'', ''chain.new_query_resource_shift'', ''chain.settings_change_behavior'']"

definition shared_nodes :: "CausalNode list" where
  "shared_nodes = [
     mk_node ''bulk_workload'' ''Bulk Workload'' [''pg.statements.top.total_time_ms'', ''pg.statements.top.calls''] ''workload'' '''' '''',
     mk_node ''wal_generation'' ''WAL Generation Rate'' [''pg.checkpoint.buffers_written_per_second''] ''db'' '''' ''mechanism.wal_spike'',
     mk_node ''checkpoint_storm'' ''Checkpoint Storm'' [''pg.checkpoint.requested_per_second'', ''pg.checkpoint.sync_time_ms''] ''db'' '''' ''mechanism.checkpoint_storm'',
     mk_node ''disk_io'' ''Disk I/O Saturation'' [''os.disk.util_pct'', ''os.disk.write_bytes_per_sec'', ''os.cpu.iowait_pct''] ''os'' ''symptom.disk_io_saturated'' '''',
     mk_node ''replication_lag'' ''Replication Lag'' [''pg.replication.lag.replay_bytes'', ''pg.replication.lag.replay_seconds''] ''db'' ''symptom.replication_lag_high'' '''',
     mk_node ''inactive_slot'' ''Inactive Replication Slot'' [''pg.replication.slot.active'', ''pg.replication.slot.retained_bytes''] ''db'' '''' '''',
     mk_node ''wal_retention'' ''WAL Retention'' [''pg.replication.slot.retained_bytes''] ''db'' '''' ''mechanism.wal_retention'',
     mk_node ''disk_fill'' ''Disk Space Low'' [''os.disk.used_bytes'', ''os.disk.free_bytes''] ''os'' ''symptom.disk_space_low'' '''',
     mk_node ''long_tx_primary'' ''Long Transaction on Primary'' [''pg.long_transactions.oldest_seconds'', ''pg.long_transactions.count''] ''db'' '''' '''',
     mk_node ''replication_apply_delay'' ''Replication Apply Delay'' [''pg.replication.lag.replay_bytes'', ''pg.replication.lag.replay_seconds''] ''db'' ''symptom.replication_lag_high'' '''',
     mk_node ''autovacuum_storm'' ''Autovacuum Storm'' [''pg.progress.vacuum.completion_pct'', ''pg.db.vacuum.dead_tuples''] ''db'' '''' ''mechanism.autovacuum_storm'',
     mk_node ''query_latency'' ''Query Latency'' [''pg.statements.top.avg_time_ms'', ''pg.wait_events.count''] ''db'' ''symptom.query_latency_high'' '''',
     mk_node ''temp_file_spike'' ''Temp File Spike'' [''pg.io.writes'', ''pg.io.write_time''] ''db'' '''' ''mechanism.temp_file_spike'',
     mk_node ''query_slowdown'' ''Query Slowdown'' [''pg.statements.top.avg_time_ms''] ''db'' ''symptom.query_latency_high'' '''',
     mk_node ''buffer_eviction'' ''Shared Buffers Eviction'' [''pg.bgwriter.buffers_backend_per_second'', ''pg.bgwriter.buffers_alloc_per_second''] ''db'' '''' '''',
     mk_node ''backend_writes'' ''Backend Direct Writes'' [''pg.bgwriter.buffers_backend_per_second''] ''db'' '''' ''mechanism.buffer_backend_writes'',
     mk_node ''lock_contention'' ''Lock Contention'' [''pg.locks.blocker_count'', ''pg.locks.blocked_count'', ''pg.locks.max_chain_depth''] ''db'' '''' ''mechanism.lock_contention'',
     mk_node ''blocked_queries'' ''Blocked Queries'' [''pg.wait_events.count''] ''db'' '''' ''mechanism.blocked_queries'',
     mk_node ''connection_pileup'' ''Connection Pileup'' [''pg.connections.total'', ''pg.connections.utilization_pct''] ''db'' ''symptom.connection_exhaustion'' '''',
     mk_node ''connection_spike'' ''Connection Spike'' [''pg.connections.total'', ''pg.connections.utilization_pct''] ''db'' '''' '''',
     mk_node ''memory_pressure'' ''Memory Pressure'' [''os.memory.available_kb'', ''os.memory.used_kb''] ''os'' '''' ''mechanism.memory_pressure'',
     mk_node ''oom_risk'' ''OOM Risk'' [''os.memory.available_kb''] ''os'' ''symptom.oom_risk'' '''',
     mk_node ''long_tx'' ''Long Transaction'' [''pg.long_transactions.oldest_seconds'', ''pg.long_transactions.count''] ''db'' '''' '''',
     mk_node ''mvcc_bloat'' ''MVCC Bloat'' [''pg.db.vacuum.dead_tuples'', ''pg.db.vacuum.dead_pct''] ''db'' '''' ''mechanism.mvcc_bloat'',
     mk_node ''conn_holding'' ''Connection Holding'' [''pg.connections.total'', ''pg.connections.utilization_pct''] ''db'' ''symptom.connection_exhaustion'' '''',
     mk_node ''missing_index'' ''Missing Index'' [''pg.db.index.unused_scans'', ''pg.db.table.cache_hit_pct''] ''db'' '''' '''',
     mk_node ''seq_scans'' ''Sequential Scans'' [''pg.io.reads'', ''pg.io.read_time''] ''db'' '''' ''mechanism.seq_scans'',
     mk_node ''pgss_fill'' ''pg_stat_statements Fill'' [''pg.statements.fill_pct'', ''pg.extensions.pgss_fill_pct''] ''db'' '''' '''',
     mk_node ''pgss_eviction'' ''pg_stat_statements Eviction'' [''pg.statements.fill_pct''] ''db'' ''symptom.pgss_eviction'' '''',
     mk_node ''dead_tuples'' ''Dead Tuple Accumulation'' [''pg.db.vacuum.dead_tuples'', ''pg.db.vacuum.dead_pct''] ''db'' '''' '''',
     mk_node ''table_bloat'' ''Table Bloat'' [''pg.db.bloat.table_ratio''] ''db'' '''' ''mechanism.table_bloat'',
     mk_node ''scan_degradation'' ''Scan Degradation'' [''pg.statements.top.avg_time_ms'', ''pg.io.reads''] ''db'' ''symptom.scan_degradation'' '''',
     mk_node ''wraparound_risk'' ''Wraparound Risk'' [''pg.server.wraparound_pct''] ''db'' '''' '''',
     mk_node ''aggressive_vacuum'' ''Aggressive Anti-Wraparound Vacuum'' [''pg.progress.vacuum.completion_pct'', ''pg.db.vacuum.dead_tuples''] ''db'' '''' ''mechanism.aggressive_vacuum'',
     mk_node ''long_tx_blocking'' ''Long TX Blocking Vacuum'' [''pg.long_transactions.oldest_seconds''] ''db'' '''' '''',
     mk_node ''vacuum_blocked'' ''Vacuum Blocked'' [''pg.db.vacuum.dead_tuples'', ''pg.db.vacuum.dead_pct''] ''db'' '''' ''mechanism.vacuum_blocked'',
     mk_node ''dead_tuple_growth'' ''Dead Tuple Growth'' [''pg.db.vacuum.dead_tuples'', ''pg.db.bloat.table_ratio''] ''db'' ''symptom.dead_tuple_growth'' '''',
     mk_node ''os_memory_pressure'' ''OS Memory Pressure'' [''os.memory.available_kb'', ''os.memory.used_kb'', ''os.memory.total_kb''] ''os'' '''' '''',
     mk_node ''oom_killer'' ''OOM Killer'' [''os.memory.available_kb''] ''os'' '''' ''mechanism.oom_killer'',
     mk_node ''pg_crash'' ''PostgreSQL Crash'' [''pg.server.uptime_seconds''] ''db'' ''symptom.pg_crash'' '''']"

definition tier_b_nodes :: "CausalNode list" where
  "tier_b_nodes = [
     mk_node ''network_issue'' ''Network Issue'' [] ''os'' '''' '''',
     mk_node ''wal_receiver_disconnect'' ''WAL Receiver Disconnect'' [''pg.replication.wal_receiver.connected''] ''db'' '''' ''mechanism.wal_receiver_disconnect'',
     mk_node ''query_regression'' ''Query Regression'' [''pg.statements.regression'', ''pg.statements.top.avg_time_ms''] ''workload'' '''' '''',
     mk_node ''cpu_spike'' ''CPU Spike'' [''os.cpu.user_pct'', ''os.cpu.system_pct''] ''os'' ''symptom.cpu_spike'' '''',
     mk_node ''latency_spike'' ''Latency Spike'' [''pg.statements.top.avg_time_ms''] ''db'' ''symptom.query_latency_high'' '''',
     mk_node ''new_query'' ''New Query (Deployment)'' [''pg.statements.new_query'', ''pg.statements.count''] ''workload'' '''' '''',
     mk_node ''resource_shift'' ''Resource Shift'' [''os.cpu.user_pct'', ''pg.statements.top.total_time_ms''] ''workload'' ''symptom.resource_shift'' '''',
     mk_node ''settings_change'' ''Settings Change'' [] ''config'' '''' '''',
     mk_node ''behavioral_shift'' ''Behavioral Shift'' [] ''workload'' ''symptom.behavioral_shift'' '''']"

definition edges_1_7 :: "CausalEdge list" where
  "edges_1_7 = [
     mk_edge ''bulk_workload'' ''wal_generation'' (0) (30 * Second) BoundedLag EvidenceRequired
       ''Bulk workload drives increased WAL generation'' (0.8) ''chain.bulk_wal_checkpoint_io_repllag'' ''remediation.query_optimization'',
     mk_edge ''wal_generation'' ''checkpoint_storm'' (30 * Second) (3 * Minute) BoundedLag EvidenceRequired
       ''High WAL rate triggers frequent checkpoints'' (0.85) ''chain.bulk_wal_checkpoint_io_repllag'' ''remediation.checkpoint_completion_target'',
     mk_edge ''checkpoint_storm'' ''disk_io'' (0) (30 * Second) BoundedLag EvidenceRequired
       ''Checkpoint fsync saturates disk I/O'' (0.9) ''chain.bulk_wal_checkpoint_io_repllag'' '''',
     mk_edge ''disk_io'' ''replication_lag'' (10 * Second) (2 * Minute) BoundedLag EvidenceSupporting
       ''Disk I/O saturation delays WAL replay on replica'' (0.75) ''chain.bulk_wal_checkpoint_io_repllag'' '''',
     mk_edge ''inactive_slot'' ''wal_retention'' (0) (0) PersistentState EvidenceRequired
       ''Inactive replication slot prevents WAL cleanup'' (0.9) ''chain.inactive_slot_wal_disk'' ''remediation.drop_inactive_slot'',
     mk_edge ''wal_retention'' ''disk_fill'' (5 * Minute) (2 * Hour) BoundedLag EvidenceRequired
       ''Accumulated WAL files consume disk space'' (0.85) ''chain.inactive_slot_wal_disk'' '''',
     mk_edge ''network_issue'' ''wal_receiver_disconnect'' (0) (30 * Second) BoundedLag EvidenceRequired
       ''Network failure disconnects WAL receiver'' (0.7) ''chain.network_walrecv_repllag'' ''remediation.network_diagnostics'',
     mk_edge ''wal_receiver_disconnect'' ''replication_lag'' (0) (2 * Minute) BoundedLag EvidenceRequired
       ''Disconnected WAL receiver causes growing replication lag'' (0.8) ''chain.network_walrecv_repllag'' '''',
     mk_edge ''long_tx_primary'' ''replication_apply_delay'' (0) (0) PersistentState EvidenceRequired
       ''Long transaction on primary delays replication apply'' (0.75) ''chain.longtx_repl_delay'' ''remediation.kill_long_transaction'',
     mk_edge ''wal_generation'' ''checkpoint_storm'' (30 * Second) (3 * Minute) BoundedLag EvidenceRequired
       ''WAL spike forces frequent checkpoints'' (0.85) ''chain.walspike_checkpoint_io'' ''remediation.checkpoint_completion_target'',
     mk_edge ''checkpoint_storm'' ''disk_io'' (0) (30 * Second) BoundedLag EvidenceRequired
       ''Checkpoint storm saturates disk I/O'' (0.9) ''chain.walspike_checkpoint_io'' '''',
     mk_edge ''autovacuum_storm'' ''disk_io'' (0) (2 * Minute) BoundedLag EvidenceRequired
       ''Autovacuum storm generates heavy disk I/O'' (0.8) ''chain.autovacuum_disk_latency'' ''remediation.vacuum_cost_settings'',
     mk_edge ''disk_io'' ''query_latency'' (0) (30 * Second) BoundedLag EvidenceSupporting
       ''Disk I/O contention increases query latency'' (0.7) ''chain.autovacuum_disk_latency'' '''',
     mk_edge ''temp_file_spike'' ''disk_io'' (0) (30 * Second) BoundedLag EvidenceRequired
       ''Temporary file writes saturate disk I/O'' (0.8) ''chain.tempfile_disk_query'' ''remediation.work_mem_tuning'',
     mk_edge ''disk_io'' ''query_slowdown'' (0) (30 * Second) BoundedLag EvidenceSupporting
       ''Disk I/O contention slows queries'' (0.7) ''chain.tempfile_disk_query'' '''']"

definition edges_8_14 :: "CausalEdge list" where
  "edges_8_14 = [
     mk_edge ''buffer_eviction'' ''backend_writes'' (0) (10 * Second) BoundedLag EvidenceRequired
       ''Shared buffer eviction forces backend direct writes'' (0.85) ''chain.buffer_eviction_backend_io'' ''remediation.shared_buffers_tuning'',
     mk_edge ''backend_writes'' ''disk_io'' (0) (30 * Second) BoundedLag EvidenceRequired
       ''Backend direct writes saturate disk I/O'' (0.8) ''chain.buffer_eviction_backend_io'' '''',
     mk_edge ''lock_contention'' ''blocked_queries'' (0) (10 * Second) BoundedLag EvidenceRequired
       ''Lock contention blocks waiting queries'' (0.9) ''chain.lock_blocked_conn_pileup'' ''remediation.lock_investigation'',
     mk_edge ''blocked_queries'' ''connection_pileup'' (10 * Second) (2 * Minute) BoundedLag EvidenceRequired
       ''Blocked queries accumulate open connections'' (0.8) ''chain.lock_blocked_conn_pileup'' '''',
     mk_edge ''connection_spike'' ''memory_pressure'' (0) (2 * Minute) BoundedLag EvidenceRequired
       ''Excessive connections consume work_mem allocations'' (0.75) ''chain.conn_spike_memory_oom'' ''remediation.connection_pooling'',
     mk_edge ''memory_pressure'' ''oom_risk'' (0) (0) PersistentState EvidenceSupporting
       ''Sustained memory pressure increases OOM risk'' (0.7) ''chain.conn_spike_memory_oom'' '''',
     mk_edge ''long_tx'' ''mvcc_bloat'' (0) (0) PersistentState EvidenceRequired
       ''Long transaction prevents dead tuple cleanup'' (0.8) ''chain.longtx_bloat_conn'' ''remediation.kill_long_transaction'',
     mk_edge ''mvcc_bloat'' ''conn_holding'' (1 * Minute) (10 * Minute) BoundedLag EvidenceSupporting
       ''Table bloat causes longer scans, holding connections'' (0.6) ''chain.longtx_bloat_conn'' '''',
     mk_edge ''query_regression'' ''cpu_spike'' (0) (2 * Minute) BoundedLag EvidenceRequired
       ''Query regression increases CPU consumption'' (0.75) ''chain.query_regression_cpu_latency'' ''remediation.query_optimization'',
     mk_edge ''cpu_spike'' ''latency_spike'' (0) (30 * Second) BoundedLag EvidenceSupporting
       ''CPU saturation increases query latency'' (0.7) ''chain.query_regression_cpu_latency'' '''',
     mk_edge ''new_query'' ''resource_shift'' (0) (5 * Minute) BoundedLag EvidenceRequired
       ''New query after deployment shifts resource usage'' (0.65) ''chain.new_query_resource_shift'' '''',
     mk_edge ''missing_index'' ''seq_scans'' (0) (0) PersistentState EvidenceRequired
       ''Missing index forces sequential scans'' (0.8) ''chain.missing_index_seqscan_io'' ''remediation.create_missing_index'',
     mk_edge ''seq_scans'' ''disk_io'' (0) (30 * Second) BoundedLag EvidenceRequired
       ''Sequential scans generate heavy read I/O'' (0.85) ''chain.missing_index_seqscan_io'' '''']"

definition edges_15_20 :: "CausalEdge list" where
  "edges_15_20 = [
     mk_edge ''pgss_fill'' ''pgss_eviction'' (0) (0) PersistentState EvidenceRequired
       ''pg_stat_statements at capacity triggers eviction'' (0.9) ''chain.pgss_fill_eviction'' ''remediation.pgss_reset'',
     mk_edge ''dead_tuples'' ''table_bloat'' (0) (0) PersistentState EvidenceRequired
       ''Dead tuple accumulation causes table bloat'' (0.85) ''chain.dead_tuple_bloat_scan'' ''remediation.vacuum_aggressive'',
     mk_edge ''table_bloat'' ''scan_degradation'' (0) (0) PersistentState EvidenceSupporting
       ''Bloated tables degrade scan performance'' (0.7) ''chain.dead_tuple_bloat_scan'' '''',
     mk_edge ''wraparound_risk'' ''aggressive_vacuum'' (0) (0) PersistentState EvidenceRequired
       ''Approaching wraparound triggers aggressive vacuum'' (0.9) ''chain.wraparound_vacuum_io'' ''remediation.wraparound_vacuum'',
     mk_edge ''aggressive_vacuum'' ''disk_io'' (0) (5 * Minute) BoundedLag EvidenceRequired
       ''Anti-wraparound vacuum generates heavy disk I/O'' (0.8) ''chain.wraparound_vacuum_io'' '''',
     mk_edge ''long_tx_blocking'' ''vacuum_blocked'' (0) (0) PersistentState EvidenceRequired
       ''Long transaction prevents vacuum from cleaning dead tuples'' (0.85) ''chain.longtx_block_vacuum_growth'' ''remediation.kill_long_transaction'',
     mk_edge ''vacuum_blocked'' ''dead_tuple_growth'' (0) (0) PersistentState EvidenceRequired
       ''Blocked vacuum causes dead tuple accumulation'' (0.8) ''chain.longtx_block_vacuum_growth'' '''',
     mk_edge ''settings_change'' ''behavioral_shift'' (0) (0) WhileEffective EvidenceRequired
       ''Configuration change causes behavioral shift'' (0.6) ''chain.settings_change_behavior'' '''',
     mk_edge ''os_memory_pressure'' ''oom_killer'' (0) (0) PersistentState EvidenceRequired
       ''OS memory exhaustion activates OOM killer'' (0.85) ''chain.os_memory_oom_crash'' ''remediation.memory_tuning'',
     mk_edge ''oom_killer'' ''pg_crash'' (0) (5 * Minute) BoundedLag EvidenceSupporting
       ''OOM killer terminates PostgreSQL process'' (0.7) ''chain.os_memory_oom_crash'' '''']"

definition default_edges :: "CausalEdge list" where
  "default_edges = edges_1_7 @ edges_8_14 @ edges_15_20"

definition NewDefaultGraph :: CausalGraph where
  "NewDefaultGraph =
     fold addEdge default_edges (fold addNode (shared_nodes @ tier_b_nodes) \<lparr>g_Nodes = [], g_Edges = [], g_ChainIDs = AllChainIDs\<rparr>)"

end
