(* ===== verification/RcaAnomaly.thy ===== *)
theory RcaAnomaly
  imports MemoryStore Statements
begin

section \<open>Anomaly sources (\<open>internal/rca/anomaly.go\<close>, \<open>statement_source.go\<close>)\<close>

text \<open>
  The threshold source compares points with the statistics of a baseline window; the statement
  source compares the two latest query snapshots. The metric store is the record \<open>MetricSource\<close> of
  the two operations the code calls (\<open>None\<close> is an error), instantiated by the in-memory store in
  \<open>mem_source\<close>. An anomaly map is an association list in insertion order.
\<close>

record AnomalyEvent =
  an_InstanceID :: string
  an_MetricKey :: string
  an_Timestamp :: time
  an_Value :: float64
  an_BaselineVal :: float64
  an_ZScore :: float64
  an_RateChange :: float64
  an_Strength :: float64
  an_Source :: string

type_synonym anomaly_map = "(string, AnomalyEvent list) gomap"

definition map_append :: "'k \<Rightarrow> 'v list \<Rightarrow> ('k, 'v list) gomap \<Rightarrow> ('k, 'v list) gomap" where
  "map_append k vs m = map_put k (map_get [] m k @ vs) m"

record MetricSource =
  src_query :: "MetricQuery \<Rightarrow> MetricPoint list option"
  src_stats :: "(string \<Rightarrow> string list \<Rightarrow> time \<Rightarrow> time \<Rightarrow> (string, MetricStats) gomap option) option"

definition mem_source :: "MemoryStore \<Rightarrow> MetricSource" where
  "mem_source m = \<lparr>src_query = (\<lambda>q. Some (Query m q)), src_stats = Some (\<lambda>i ks f t. Some (GetMetricStats m i ks f t))\<rparr>"

record ThresholdAnomalySource =
  ta_store :: MetricSource
  ta_baselineWindow :: duration
  ta_calmPeriod :: duration
  ta_calmSigma :: float64

definition NewThresholdAnomalySource :: "MetricSource \<Rightarrow> ThresholdAnomalySource" where
  "NewThresholdAnomalySource store =
     \<lparr>ta_store = store, ta_baselineWindow = 1 * Hour, ta_calmPeriod = 15 * Minute, ta_calmSigma = 3/2\<rparr>"

definition metric_query :: "string \<Rightarrow> string \<Rightarrow> time \<Rightarrow> time \<Rightarrow> MetricQuery" where
  "metric_query instanceID key f t =
     \<lparr>mq_InstanceID = instanceID, mq_Metric = key, mq_Labels = [], mq_Start = f, mq_End = t, mq_Limit = 0\<rparr>"

definition isBaselineCalm :: "ThresholdAnomalySource \<Rightarrow> MetricStats \<Rightarrow> bool" where
  "isBaselineCalm s stats =
     (if st_Mean stats = 0 \<or> st_Count stats < 2 then False else st_StdDev stats / \<bar>st_Mean stats\<bar> \<le> ta_calmSigma s)"

definition population_stats :: "float64 list \<Rightarrow> MetricStats" where
  "population_stats vs =
     (let sum = fold (\<lambda>v acc. acc + v) vs 0; sumSq = fold (\<lambda>v acc. acc + v * v) vs 0;
          mn = fold (\<lambda>v m. if v < m then v else m) vs (hd vs);
          mx = fold (\<lambda>v m. if v > m then v else m) vs (hd vs);
          n = real (length vs); mean = sum / n; variance = sumSq / n - mean * mean
      in \<lparr>st_Mean = mean, st_StdDev = sqrt (if variance < 0 then 0 else variance), st_Min = mn, st_Max = mx, st_Count = length vs\<rparr>)"

definition computeStatsFromQuery :: "ThresholdAnomalySource \<Rightarrow> string \<Rightarrow> string \<Rightarrow> time \<Rightarrow> time \<Rightarrow> MetricStats option" where
  "computeStatsFromQuery s instanceID key f t =
     (case src_query (ta_store s) (metric_query instanceID key f t) of None \<Rightarrow> None
      | Some points \<Rightarrow>
          if points = [] then Some \<lparr>st_Mean = 0, st_StdDev = 0, st_Min = 0, st_Max = 0, st_Count = 0\<rparr>
          else Some (population_stats (map mp_Value points)))"

definition baseline_stats :: "ThresholdAnomalySource \<Rightarrow> string \<Rightarrow> string list \<Rightarrow> time \<Rightarrow> time \<Rightarrow> (string, MetricStats) gomap" where
  "baseline_stats s instanceID metricKeys f t =
     (let batch = (case src_stats (ta_store s) of None \<Rightarrow> None | Some provider \<Rightarrow> provider instanceID metricKeys f t)
      in case batch of Some m \<Rightarrow> m
         | None \<Rightarrow> fold (\<lambda>key m. case computeStatsFromQuery s instanceID key f t of None \<Rightarrow> m | Some st \<Rightarrow> map_put key st m) metricKeys [])"

definition anomaly_strength :: "bool \<Rightarrow> float64 \<Rightarrow> float64" where
  "anomaly_strength calm zScore =
     (let strength = min 1 ((zScore - 2) / 3 * (7/10) + 3/10) in if \<not> calm then strength * (1/2) else strength)"

definition point_anomaly :: "string \<Rightarrow> string \<Rightarrow> MetricStats \<Rightarrow> bool \<Rightarrow> MetricPoint \<Rightarrow> AnomalyEvent option" where
  "point_anomaly instanceID key stats calm p =
     (if st_StdDev stats = 0 then None
      else let zScore = \<bar>mp_Value p - st_Mean stats\<bar> / st_StdDev stats in
        if zScore < 2 then None
        else Some \<lparr>an_InstanceID = instanceID, an_MetricKey = key, an_Timestamp = mp_Timestamp p, an_Value = mp_Value p,
          an_BaselineVal = st_Mean stats, an_ZScore = zScore,
          an_RateChange = (if st_Mean stats \<noteq> 0 then mp_Value p / st_Mean stats else 0),
          an_Strength = anomaly_strength calm zScore,
          an_Source = (if \<not> calm then ''threshold_unreliable'' else ''threshold'')\<rparr>)"

text \<open>The body of the loop over the metric keys.\<close>

definition key_anomalies :: "ThresholdAnomalySource \<Rightarrow> string \<Rightarrow> (string, MetricStats) gomap \<Rightarrow> time \<Rightarrow> time \<Rightarrow> string \<Rightarrow> anomaly_map \<Rightarrow> anomaly_map" where
  "key_anomalies s instanceID stats queryFrom queryTo key result =
     (case map_of stats key of None \<Rightarrow> result
      | Some st \<Rightarrow>
          if st_Count st < 2 then result
          else case src_query (ta_store s) (metric_query instanceID key queryFrom queryTo) of None \<Rightarrow> result
          | Some points \<Rightarrow>
              fold (\<lambda>p r. case point_anomaly instanceID key st (isBaselineCalm s st) p of None \<Rightarrow> r | Some a \<Rightarrow> map_append key [a] r)
                points result)"

definition GetAnomalies :: "ThresholdAnomalySource \<Rightarrow> string \<Rightarrow> string list \<Rightarrow> time \<Rightarrow> time \<Rightarrow> duration \<Rightarrow> anomaly_map" where
  "GetAnomalies s instanceID metricKeys f t jitter =
     (let stats = baseline_stats s instanceID metricKeys (f - ta_baselineWindow s) f
      in fold (key_anomalies s instanceID stats (f - jitter) (t + jitter)) metricKeys [])"

subsection \<open>Statement differences\<close>

record StatementDiffSource =
  sd_latest :: "string \<Rightarrow> Snapshot list option"
  sd_entries :: "int \<Rightarrow> SnapshotEntry list option"
  sd_RegressionThreshold :: float64
  sd_NewQueryMinCalls :: int

definition regression_strength :: "float64 \<Rightarrow> float64" where
  "regression_strength ratio = (if ratio \<ge> 5 then 9/10 else if ratio \<ge> 3 then 7/10 else 1/2)"

definition new_query_strength :: "float64 \<Rightarrow> float64" where
  "new_query_strength execTime = (if execTime > 10000 then 8/10 else if execTime > 1000 then 6/10 else 4/10)"

definition old_averages :: "SnapshotEntry list \<Rightarrow> (int \<rightharpoonup> float64)" where
  "old_averages es = fold (\<lambda>e m. if sn_Calls e > 0 then m(sn_QueryID e \<mapsto> sn_TotalExecTime e / of_int (sn_Calls e)) else m) es Map.empty"

definition regression_event :: "StatementDiffSource \<Rightarrow> string \<Rightarrow> time \<Rightarrow> (int \<rightharpoonup> float64) \<Rightarrow> DiffEntry \<Rightarrow> AnomalyEvent list" where
  "regression_event s instanceID cap oldAvg entry =
     (if de_CallsDelta entry \<le> 0 then []
      else case oldAvg (de_QueryID entry) of None \<Rightarrow> []
      | Some avg \<Rightarrow>
          if avg \<le> 0 then []
          else let ratio = de_AvgExecTimePerCall entry / avg in
            if ratio \<ge> sd_RegressionThreshold s then
              [\<lparr>an_InstanceID = instanceID, an_MetricKey = ''pg.statements.regression'', an_Timestamp = cap,
                an_Value = de_AvgExecTimePerCall entry, an_BaselineVal = avg, an_ZScore = ratio, an_RateChange = 0,
                an_Strength = regression_strength ratio, an_Source = ''statement_diff''\<rparr>]
            else [])"

definition new_query_event :: "StatementDiffSource \<Rightarrow> string \<Rightarrow> time \<Rightarrow> DiffEntry \<Rightarrow> AnomalyEvent list" where
  "new_query_event s instanceID cap entry =
     (if de_CallsDelta entry < sd_NewQueryMinCalls s then []
      else [\<lparr>an_InstanceID = instanceID, an_MetricKey = ''pg.statements.new_query'', an_Timestamp = cap,
             an_Value = de_AvgExecTimePerCall entry, an_BaselineVal = 0, an_ZScore = 0, an_RateChange = 0,
             an_Strength = new_query_strength (de_ExecTimeDelta entry), an_Source = ''statement_diff''\<rparr>])"

definition put_nonempty :: "'k \<Rightarrow> 'v list \<Rightarrow> ('k, 'v list) gomap \<Rightarrow> ('k, 'v list) gomap" where
  "put_nonempty k vs m = (if vs = [] then m else map_append k vs m)"

definition StatementDiff_GetAnomalies :: "StatementDiffSource \<Rightarrow> string \<Rightarrow> time \<Rightarrow> time \<Rightarrow> anomaly_map" where
  "StatementDiff_GetAnomalies s instanceID f t =
     (case sd_latest s instanceID of None \<Rightarrow> []
      | Some snaps \<Rightarrow>
          if length snaps < 2 then []
          else let newer = snaps ! 0; older = snaps ! 1 in
            if ss_CapturedAt newer < f - 1 * Hour \<or> ss_CapturedAt older > t + 1 * Hour then []
            else case sd_entries s (ss_ID older) of None \<Rightarrow> []
            | Some olderEntries \<Rightarrow>
                (case sd_entries s (ss_ID newer) of None \<Rightarrow> []
                 | Some newerEntries \<Rightarrow>
                     let diff = ComputeDiff older newer olderEntries newerEntries
                                  \<lparr>do_SortBy = ''total_exec_time'', do_Limit = 100, do_Offset = 0\<rparr>;
                         cap = ss_CapturedAt newer;
                         regressions = concat (map (regression_event s instanceID cap (old_averages olderEntries)) (dr_Entries diff));
                         news = concat (map (new_query_event s instanceID cap) (dr_NewQueries diff))
                     in put_nonempty ''pg.statements.new_query'' news (put_nonempty ''pg.statements.regression'' regressions [])))"

subsection \<open>Strengths are normalised\<close>

definition strengths_ok :: "anomaly_map \<Rightarrow> bool" where
  "strengths_ok m \<longleftrightarrow> (\<forall>(k, as) \<in> set m. \<forall>a \<in> set as. 0 \<le> an_Strength a \<and> an_Strength a \<le> 1)"

lemma anomaly_strength_bounds: "2 \<le> z \<Longrightarrow> 0 \<le> anomaly_strength calm z \<and> anomaly_strength calm z \<le> 1"
  by (auto simp: anomaly_strength_def Let_def min_def)

lemma strengths_ok_Nil [simp]: "strengths_ok []"
  by (simp add: strengths_ok_def)

lemma set_map_put: "set (map_put k v m) \<subseteq> insert (k, v) (set m)"
  by (induction k v m rule: map_put.induct) auto

lemma map_get_member: "v \<in> set (map_get [] m k) \<Longrightarrow> \<exists>as. (k, as) \<in> set m \<and> v \<in> set as"
  by (cases "map_of m k") (auto simp: map_get_def dest: map_of_SomeD)

lemma strengths_ok_append:
  assumes "strengths_ok m" "\<forall>a \<in> set as. 0 \<le> an_Strength a \<and> an_Strength a \<le> 1"
  shows "strengths_ok (map_append k as m)"
proof -
  have "0 \<le> an_Strength a \<and> an_Strength a \<le> 1" if "a \<in> set (map_get [] m k @ as)" for a
    using that assms map_get_member [of a m k] by (auto simp: strengths_ok_def)
  then show ?thesis
    using assms(1) set_map_put [of k "map_get [] m k @ as" m] by (fastforce simp: strengths_ok_def map_append_def)
qed

lemma strengths_ok_lookup: "strengths_ok m \<Longrightarrow> map_of m k = Some as \<Longrightarrow> a \<in> set as \<Longrightarrow> 0 \<le> an_Strength a \<and> an_Strength a \<le> 1"
  by (auto simp: strengths_ok_def dest!: map_of_SomeD)

lemma point_anomaly_strength:
  "point_anomaly i key st calm p = Some a \<Longrightarrow> 0 \<le> an_Strength a \<and> an_Strength a \<le> 1"
  using anomaly_strength_bounds by (auto simp: point_anomaly_def Let_def split: if_splits)

lemma key_anomalies_ok: "strengths_ok m \<Longrightarrow> strengths_ok (key_anomalies s i stats qf qt key m)"
proof -
  have loop: "strengths_ok m \<Longrightarrow> strengths_ok (fold (\<lambda>p r. case point_anomaly i key st calm p of None \<Rightarrow> r | Some a \<Rightarrow> map_append key [a] r) ps m)"
    for st calm ps m
  proof (induction ps arbitrary: m)
    case (Cons p ps)
    have "strengths_ok (case point_anomaly i key st calm p of None \<Rightarrow> m | Some a \<Rightarrow> map_append key [a] m)"
      using Cons.prems by (auto split: option.splits intro!: strengths_ok_append dest: point_anomaly_strength)
    then show ?case by (simp only: fold_simps Cons.IH)
  qed simp
  then show "strengths_ok m \<Longrightarrow> ?thesis" by (auto simp: key_anomalies_def split: option.splits)
qed

lemma GetAnomalies_ok: "strengths_ok (GetAnomalies s i keys f t jitter)"
proof -
  have "strengths_ok m \<Longrightarrow> strengths_ok (fold (key_anomalies s i stats qf qt) keys m)" for stats qf qt m
    by (induction keys arbitrary: m) (auto intro: key_anomalies_ok)
  then show ?thesis by (simp add: GetAnomalies_def Let_def)
qed

lemma StatementDiff_ok: "strengths_ok (StatementDiff_GetAnomalies s i f t)"
proof -
  have r: "\<forall>a \<in> set (regression_event s i cap avg e). 0 \<le> an_Strength a \<and> an_Strength a \<le> 1" for cap avg e
    by (auto simp: regression_event_def regression_strength_def Let_def split: option.splits)
  have n: "\<forall>a \<in> set (new_query_event s i cap e). 0 \<le> an_Strength a \<and> an_Strength a \<le> 1" for cap e
    by (auto simp: new_query_event_def new_query_strength_def)
  have "strengths_ok (put_nonempty k1 (concat (map (new_query_event s i cap) es))
      (put_nonempty k2 (concat (map (regression_event s i cap avg) es')) []))" for k1 k2 cap avg es es'
    using r n by (auto simp: put_nonempty_def intro!: strengths_ok_append)
  then show ?thesis
    by (auto simp: StatementDiff_GetAnomalies_def Let_def split: option.splits)
qed

end
