(* ===== verification/RcaEngine.thy ===== *)
theory RcaEngine
  imports RcaGraph RcaAnomaly
begin

section \<open>The correlation engine (\<open>internal/rca/engine.go\<close>, \<open>incident.go\<close>, \<open>config.go\<close>)\<close>

text \<open>
  The analysis of one trigger: candidate chains, anomalies, the backward walk through each chain
  with pruning, scoring and ranking, and the incident. The anomaly source, the settings provider,
  the incident store and the remediation hooks are operations of the engine record (\<open>None\<close> is an
  error). The mutable variables \<open>walkBackward\<close> shares through pointers are the record \<open>walk\<close>.
  Formatting of times depends on the location of the clock and is a parameter (\<open>fmt\<close>).
\<close>

record RCAConfig =
  cfg_Enabled :: bool
  cfg_LookbackWindow :: duration
  cfg_AutoTriggerSeverity :: string
  cfg_MaxIncidentsPerHour :: int
  cfg_RetentionDays :: int
  cfg_MaxTraversalDepth :: int
  cfg_MaxCandidateChains :: int
  cfg_MaxMetricsPerRun :: int
  cfg_MinEdgeScore :: float64
  cfg_MinChainScore :: float64
  cfg_DeferredForwardTail :: duration
  cfg_QualityBannerEnabled :: bool
  cfg_RemediationHooksEnabled :: bool
  cfg_ThresholdBaselineWindow :: duration
  cfg_ThresholdCalmPeriod :: duration
  cfg_ThresholdCalmSigma :: float64

definition DefaultRCAConfig :: RCAConfig where
  "DefaultRCAConfig = \<lparr>cfg_Enabled = False, cfg_LookbackWindow = 30 * Minute, cfg_AutoTriggerSeverity = ''critical'',
     cfg_MaxIncidentsPerHour = 10, cfg_RetentionDays = 90, cfg_MaxTraversalDepth = 5, cfg_MaxCandidateChains = 5,
     cfg_MaxMetricsPerRun = 50, cfg_MinEdgeScore = 1/4, cfg_MinChainScore = 4/10, cfg_DeferredForwardTail = 5 * Minute,
     cfg_QualityBannerEnabled = True, cfg_RemediationHooksEnabled = True, cfg_ThresholdBaselineWindow = 4 * Hour,
     cfg_ThresholdCalmPeriod = 15 * Minute, cfg_ThresholdCalmSigma = 3/2\<rparr>"

text \<open>\<open>NewThresholdAnomalySourceWithConfig\<close> overrides the defaults by positive settings.\<close>

definition NewThresholdAnomalySourceWithConfig :: "MetricSource \<Rightarrow> RCAConfig \<Rightarrow> ThresholdAnomalySource" where
  "NewThresholdAnomalySourceWithConfig store cfg =
     (let s = NewThresholdAnomalySource store;
          s1 = (if cfg_ThresholdBaselineWindow cfg > 0 then s\<lparr>ta_baselineWindow := cfg_ThresholdBaselineWindow cfg\<rparr> else s);
          s2 = (if cfg_ThresholdCalmPeriod cfg > 0 then s1\<lparr>ta_calmPeriod := cfg_ThresholdCalmPeriod cfg\<rparr> else s1)
      in if cfg_ThresholdCalmSigma cfg > 0 then s2\<lparr>ta_calmSigma := cfg_ThresholdCalmSigma cfg\<rparr> else s2)"

record TimeWindow =
  w_From :: time
  w_To :: time

record TimelineEvent =
  tl_Timestamp :: time
  tl_NodeID :: string
  tl_NodeName :: string
  tl_MetricKey :: string
  tl_Value :: float64
  tl_BaselineVal :: float64
  tl_ZScore :: float64
  tl_Strength :: float64
  tl_Layer :: string
  tl_Role :: string
  tl_Evidence :: string
  tl_Description :: string
  tl_EdgeDesc :: string

record CausalChainResult =
  cr_ChainID :: string
  cr_ChainName :: string
  cr_Score :: float64
  cr_RootCauseKey :: string
  cr_Events :: "TimelineEvent list"

record SettingChange =
  sc_Name :: string
  sc_OldValue :: string
  sc_NewValue :: string
  sc_ChangedAt :: time

record AnalyzeRequest =
  ar_InstanceID :: string
  ar_TriggerMetric :: string
  ar_TriggerValue :: float64
  ar_TriggerTime :: time
  ar_WindowMinutes :: int
  ar_TriggerKind :: string

record QualityStatus =
  qs_TelemetryCompleteness :: float64
  qs_AnomalySourceMode :: string
  qs_ScopeLimitations :: "string list"
  qs_UnavailableDeps :: "string list"

record Incident =
  in_ID :: int
  in_InstanceID :: string
  in_TriggerMetric :: string
  in_TriggerValue :: float64
  in_TriggerTime :: time
  in_TriggerKind :: string
  in_AnalysisWindow :: TimeWindow
  in_PrimaryChain :: "CausalChainResult option"
  in_AlternativeChain :: "CausalChainResult option"
  in_Timeline :: "TimelineEvent list"
  in_Summary :: string
  in_Confidence :: float64
  in_ConfidenceBucket :: string
  in_Quality :: QualityStatus
  in_RemediationHooks :: "string list"
  in_AutoTriggered :: bool
  in_ChainVersion :: string
  in_AnomalyMode :: string
  in_CreatedAt :: time

record rca_fmt =
  fmt_rfc3339 :: "time \<Rightarrow> string"
  fmt_clock :: "time \<Rightarrow> string"

type_synonym hook_call = "string \<times> string \<times> string \<times> float64 \<times> int \<times> float64"

record Engine =
  en_graph :: CausalGraph
  en_anomaly :: "string \<Rightarrow> string list \<Rightarrow> time \<Rightarrow> time \<Rightarrow> duration \<Rightarrow> anomaly_map option"
  en_anomalyMode :: string
  en_store :: "(Incident \<Rightarrow> int option) option"
  en_query :: "MetricQuery \<Rightarrow> MetricPoint list option"
  en_cfg :: RCAConfig
  en_settings :: "(string \<Rightarrow> time \<Rightarrow> time \<Rightarrow> SettingChange list option) option"
  en_stmtDiff :: "StatementDiffSource option"
  en_remediation :: bool

subsection \<open>Evidence of one edge\<close>

definition temporalProximity :: "time \<Rightarrow> time \<Rightarrow> duration \<Rightarrow> duration \<Rightarrow> float64" where
  "temporalProximity anomalyTime triggerTime minLag maxLag =
     (let actualLag = time_sub triggerTime anomalyTime;
          expectedCenter = go_quot (minLag + maxLag) 2;
          deviation = \<bar>real_of_int (actualLag - expectedCenter)\<bar>;
          halfWidth0 = real_of_int (maxLag - minLag) / 2;
          halfWidth = (if halfWidth0 = 0 then real_of_int (30 * Second) else halfWidth0);
          sigma = halfWidth * (3/2);
          p0 = exp (- (1/2) * (deviation / sigma) * (deviation / sigma));
          p1 = (if actualLag \<ge> minLag \<and> actualLag \<le> maxLag then p0 * (6/5) else p0);
          p2 = (if p1 < 1/5 then 1/5 else p1)
      in if p2 > 1 then 1 else p2)"

definition any_prefix :: "string list \<Rightarrow> string \<Rightarrow> bool" where
  "any_prefix ps mk = list_ex (\<lambda>p. length mk \<ge> length p \<and> take (length p) mk = p) ps"

fun collection_group :: "string list \<Rightarrow> string" where
  "collection_group [] = ''medium''"
| "collection_group (mk # mks) =
     (if any_prefix [''pg.connections.'', ''pg.locks.'', ''pg.wait_events.'', ''pg.long_transactions.''] mk then ''high''
      else if any_prefix [''pg.server.'', ''pg.extensions.''] mk then ''low'' else collection_group mks)"

definition nodeCollectionGroup :: "CausalNode \<Rightarrow> string" where
  "nodeCollectionGroup node = (if length (cn_MetricKeys node) = 0 then ''medium'' else collection_group (cn_MetricKeys node))"

definition collectionJitter :: "CausalNode \<Rightarrow> duration" where
  "collectionJitter node =
     (let group = nodeCollectionGroup node in
      if group = ''high'' then 15 * Second else if group = ''medium'' then 90 * Second
      else if group = ''low'' then 450 * Second else 90 * Second)"

definition stronger :: "time \<Rightarrow> time \<Rightarrow> AnomalyEvent \<Rightarrow> AnomalyEvent option \<Rightarrow> AnomalyEvent option" where
  "stronger f t ev best =
     (if an_Timestamp ev < f \<or> an_Timestamp ev > t then best
      else case best of None \<Rightarrow> Some ev | Some b \<Rightarrow> if an_Strength ev > an_Strength b then Some ev else best)"

definition findStrongestAnomaly :: "anomaly_map \<Rightarrow> string list \<Rightarrow> time \<Rightarrow> time \<Rightarrow> AnomalyEvent option" where
  "findStrongestAnomaly am metricKeys f t =
     fold (\<lambda>key best. case map_of am key of None \<Rightarrow> best | Some events \<Rightarrow> fold (stronger f t) events best) metricKeys None"

definition buildTimelineEvent :: "CausalNode \<Rightarrow> AnomalyEvent \<Rightarrow> CausalEdge option \<Rightarrow> string \<Rightarrow> TimelineEvent" where
  "buildTimelineEvent node anomaly edge role =
     \<lparr>tl_Timestamp = an_Timestamp anomaly, tl_NodeID = cn_ID node, tl_NodeName = cn_Name node, tl_MetricKey = an_MetricKey anomaly,
      tl_Value = an_Value anomaly, tl_BaselineVal = an_BaselineVal anomaly, tl_ZScore = an_ZScore anomaly,
      tl_Strength = an_Strength anomaly, tl_Layer = cn_Layer node, tl_Role = role,
      tl_Evidence = (case edge of None \<Rightarrow> ''required'' | Some e \<Rightarrow> if ce_Evidence e = EvidenceSupporting then ''supporting'' else ''required''),
      tl_Description = cn_Name node @ '' anomaly detected (value='' @ fmt2 (an_Value anomaly) @ '', baseline='' @ fmt2 (an_BaselineVal anomaly) @ '')'',
      tl_EdgeDesc = (case edge of None \<Rightarrow> '''' | Some e \<Rightarrow> ce_Description e)\<rparr>"

definition nodeRole :: "CausalNode \<Rightarrow> string" where
  "nodeRole node = (if cn_SymptomKey node \<noteq> '''' then ''symptom'' else if cn_MechanismKey node \<noteq> '''' then ''intermediate'' else ''root_cause'')"

definition root_cause_map :: "string \<rightharpoonup> string" where
  "root_cause_map = [
     ''bulk_workload'' \<mapsto> ''root_cause.bulk_workload'', ''inactive_slot'' \<mapsto> ''root_cause.inactive_replication_slot'',
     ''long_tx_primary'' \<mapsto> ''root_cause.long_transaction'', ''long_tx'' \<mapsto> ''root_cause.long_transaction'',
     ''long_tx_blocking'' \<mapsto> ''root_cause.long_tx_blocking_vacuum'', ''missing_index'' \<mapsto> ''root_cause.missing_index'',
     ''wraparound_risk'' \<mapsto> ''root_cause.wraparound_approaching'', ''connection_spike'' \<mapsto> ''root_cause.connection_spike'',
     ''os_memory_pressure'' \<mapsto> ''root_cause.os_memory_pressure'', ''buffer_eviction'' \<mapsto> ''root_cause.buffer_eviction'',
     ''lock_contention'' \<mapsto> ''root_cause.long_transaction'', ''autovacuum_storm'' \<mapsto> ''root_cause.dead_tuple_accumulation'',
     ''temp_file_spike'' \<mapsto> ''root_cause.bulk_workload'', ''dead_tuples'' \<mapsto> ''root_cause.dead_tuple_accumulation'',
     ''pgss_fill'' \<mapsto> ''root_cause.pgss_fill'', ''wal_generation'' \<mapsto> ''root_cause.bulk_workload'',
     ''network_issue'' \<mapsto> ''root_cause.network_issue'', ''query_regression'' \<mapsto> ''root_cause.query_regression'',
     ''new_query'' \<mapsto> ''root_cause.new_query'', ''settings_change'' \<mapsto> ''root_cause.config_change'']"

definition nodeRootCauseKey :: "string \<Rightarrow> string" where
  "nodeRootCauseKey nodeID = (case root_cause_map nodeID of None \<Rightarrow> '''' | Some key \<Rightarrow> key)"

text \<open>No anomaly: a required edge fails, a supporting one counts three tenths of its confidence.\<close>

definition no_evidence :: "CausalEdge \<Rightarrow> float64 \<times> TimelineEvent option \<times> bool" where
  "no_evidence edge =
     (if ce_Evidence edge = EvidenceRequired then (0, None, False) else (ce_BaseConfidence edge * (3/10), None, True))"

definition latest_change :: "SettingChange list \<Rightarrow> SettingChange" where
  "latest_change changes = fold (\<lambda>ch latest. if sc_ChangedAt ch > sc_ChangedAt latest then ch else latest) (tl changes) (hd changes)"

definition settings_event :: "CausalNode \<Rightarrow> SettingChange \<Rightarrow> TimelineEvent" where
  "settings_event node ch =
     \<lparr>tl_Timestamp = sc_ChangedAt ch, tl_NodeID = cn_ID node, tl_NodeName = cn_Name node, tl_MetricKey = ''pg.settings.'' @ sc_Name ch,
      tl_Value = 0, tl_BaselineVal = 0, tl_ZScore = 0, tl_Strength = 7/10, tl_Layer = cn_Layer node, tl_Role = ''root_cause'',
      tl_Evidence = ''required'',
      tl_Description = ''Setting '' @ sc_Name ch @ '' changed from '' @ sc_OldValue ch @ '' to '' @ sc_NewValue ch, tl_EdgeDesc = ''''\<rparr>"

definition evaluateEdge :: "Engine \<Rightarrow> string \<Rightarrow> time \<Rightarrow> TimeWindow \<Rightarrow> anomaly_map \<Rightarrow> CausalEdge \<Rightarrow> float64 \<times> TimelineEvent option \<times> bool" where
  "evaluateEdge e instanceID triggerTime window am edge =
     (case node_of (en_graph e) (ce_FromNode edge) of None \<Rightarrow> (0, None, False)
      | Some node \<Rightarrow>
          (case ce_Temporal edge of
             BoundedLag \<Rightarrow>
               (let jitter = collectionJitter node;
                    searchFrom = max (triggerTime - ce_MaxLag edge - jitter) (w_From window);
                    searchTo = min (triggerTime - ce_MinLag edge + jitter) (w_To window)
                in case findStrongestAnomaly am (cn_MetricKeys node) searchFrom searchTo of
                     None \<Rightarrow> no_evidence edge
                   | Some anomaly \<Rightarrow>
                       (ce_BaseConfidence edge * an_Strength anomaly *
                          temporalProximity (an_Timestamp anomaly) triggerTime (ce_MinLag edge) (ce_MaxLag edge),
                        Some (buildTimelineEvent node anomaly (Some edge) (nodeRole node)), True))
           | PersistentState \<Rightarrow>
               (case findStrongestAnomaly am (cn_MetricKeys node) (w_From window) (w_To window) of
                  None \<Rightarrow> no_evidence edge
                | Some anomaly \<Rightarrow>
                    (ce_BaseConfidence edge * an_Strength anomaly, Some (buildTimelineEvent node anomaly (Some edge) (nodeRole node)), True))
           | WhileEffective \<Rightarrow>
               (case en_settings e of None \<Rightarrow> (0, None, False)
                | Some provider \<Rightarrow>
                    (case provider instanceID (w_From window) (w_To window) of
                       None \<Rightarrow> no_evidence edge
                     | Some changes \<Rightarrow>
                         if changes = [] then no_evidence edge
                         else (ce_BaseConfidence edge * (7/10), Some (settings_event node (latest_change changes)), True)))))"

subsection \<open>The backward walk\<close>

record walk =
  wk_events :: "TimelineEvent list"
  wk_totalScore :: float64
  wk_edgeCount :: nat
  wk_rootCauseKey :: string

definition chain_edges :: "CausalGraph \<Rightarrow> string \<Rightarrow> string \<Rightarrow> CausalEdge list" where
  "chain_edges g chainID nodeID = filter (\<lambda>edge. ce_ChainID edge = chainID) (IncomingEdges g nodeID)"

definition at_root :: "Engine \<Rightarrow> TimeWindow \<Rightarrow> anomaly_map \<Rightarrow> string \<Rightarrow> walk \<Rightarrow> walk" where
  "at_root e window am nodeID s =
     (case node_of (en_graph e) nodeID of None \<Rightarrow> s
      | Some node \<Rightarrow>
          (case findStrongestAnomaly am (cn_MetricKeys node) (w_From window) (w_To window) of
             None \<Rightarrow> s
           | Some anomaly \<Rightarrow> s\<lparr>wk_events := wk_events s @ [buildTimelineEvent node anomaly None ''root_cause''],
               wk_rootCauseKey := nodeRootCauseKey nodeID\<rparr>))"

definition count_edge :: "float64 \<Rightarrow> TimelineEvent option \<Rightarrow> walk \<Rightarrow> walk" where
  "count_edge score event s =
     s\<lparr>wk_events := wk_events s @ (case event of None \<Rightarrow> [] | Some ev \<Rightarrow> [ev]),
       wk_totalScore := wk_totalScore s + score, wk_edgeCount := wk_edgeCount s + 1\<rparr>"

text \<open>The loop over the edges into a node; \<open>upstream\<close> is the recursive call. \<open>walkBackward\<close> recurses
  on the depth that is left, \<open>MaxTraversalDepth - depth\<close>, so it ends on cyclic graphs too.\<close>

fun edge_loop :: "(CausalEdge \<Rightarrow> float64 \<times> TimelineEvent option \<times> bool) \<Rightarrow> (string \<Rightarrow> walk \<Rightarrow> bool \<times> walk) \<Rightarrow>
    CausalEdge list \<Rightarrow> walk \<Rightarrow> bool \<times> walk" where
  "edge_loop eval upstream [] s = (True, s)"
| "edge_loop eval upstream (edge # es) s =
     (let (score, event, found) = eval edge in
      if \<not> found \<and> ce_Evidence edge = EvidenceRequired then (False, s)
      else let (ok, s') = upstream (ce_FromNode edge) (count_edge score event s) in
        if \<not> ok then (False, s') else edge_loop eval upstream es s')"

fun walkBackward :: "Engine \<Rightarrow> string \<Rightarrow> string \<Rightarrow> time \<Rightarrow> TimeWindow \<Rightarrow> anomaly_map \<Rightarrow> nat \<Rightarrow> string \<Rightarrow> walk \<Rightarrow> bool \<times> walk" where
  "walkBackward e chainID instanceID triggerTime window am 0 nodeID s = (True, s)"
| "walkBackward e chainID instanceID triggerTime window am (Suc left) nodeID s =
     (let es = chain_edges (en_graph e) chainID nodeID in
      if es = [] then (True, at_root e window am nodeID s)
      else edge_loop (evaluateEdge e instanceID triggerTime window am)
             (walkBackward e chainID instanceID triggerTime window am left) es s)"

definition start_node :: "CausalGraph \<Rightarrow> string \<Rightarrow> string list \<Rightarrow> string" where
  "start_node g triggerMetric terminals =
     (case find (\<lambda>t. case node_of g t of None \<Rightarrow> False | Some node \<Rightarrow> triggerMetric \<in> set (cn_MetricKeys node) \<and> t \<noteq> '''') terminals of
        None \<Rightarrow> hd terminals | Some t \<Rightarrow> t)"

definition traverseChain :: "Engine \<Rightarrow> string \<Rightarrow> string \<Rightarrow> string \<Rightarrow> time \<Rightarrow> TimeWindow \<Rightarrow> anomaly_map \<Rightarrow> CausalChainResult option" where
  "traverseChain e chainID instanceID triggerMetric triggerTime window am =
     (let terminals = TerminalNodes (en_graph e) chainID in
      if EdgesForChain (en_graph e) chainID = [] \<or> terminals = [] then None
      else
        let startNode = start_node (en_graph e) triggerMetric terminals;
            (success, s) = walkBackward e chainID instanceID triggerTime window am (nat (cfg_MaxTraversalDepth (en_cfg e))) startNode
              \<lparr>wk_events = [], wk_totalScore = 0, wk_edgeCount = 0, wk_rootCauseKey = ''''\<rparr>
        in if \<not> success \<or> wk_edgeCount s = 0 then None
           else
             let events = sort_slice (\<lambda>a b. tl_Timestamp a < tl_Timestamp b) (wk_events s);
                 chainName = (if events \<noteq> [] then tl_NodeName (hd events) @ '' -> '' @ tl_NodeName (last events) else chainID)
             in Some \<lparr>cr_ChainID = chainID, cr_ChainName = chainName, cr_Score = wk_totalScore s / real (wk_edgeCount s),
                      cr_RootCauseKey = wk_rootCauseKey s, cr_Events = events\<rparr>)"

subsection \<open>The incident\<close>

definition bucketizeConfidence :: "float64 \<Rightarrow> string" where
  "bucketizeConfidence confidence = (if confidence > 7/10 then ''high'' else if confidence \<ge> 4/10 then ''medium'' else ''low'')"

definition generateSummary :: "rca_fmt \<Rightarrow> CausalChainResult option \<Rightarrow> float64 \<Rightarrow> string" where
  "generateSummary fmt chain confidence =
     (case chain of None \<Rightarrow> ''No probable causal chain identified. Manual investigation recommended.''
      | Some c \<Rightarrow>
          if cr_Events c = [] then ''No probable causal chain identified. Manual investigation recommended.''
          else
            let qualifier = (if confidence < 4/10 then ''Possibly related to'' else if confidence > 8/10 then ''Strongly consistent with''
                             else ''Likely caused by'');
                rootEvent = hd (cr_Events c); symptomEvent = last (cr_Events c);
                rootVerb = (if tl_BaselineVal rootEvent > 0 \<and> tl_Value rootEvent < tl_BaselineVal rootEvent then ''dropped to'' else ''spiked to'')
            in qualifier @ '' '' @ tl_Description rootEvent @ ''. '' @ tl_NodeName rootEvent @ '' '' @ rootVerb @ '' '' @ fmt2 (tl_Value rootEvent)
               @ '' (baseline: '' @ fmt2 (tl_BaselineVal rootEvent) @ '') at '' @ fmt_clock fmt (tl_Timestamp rootEvent) @ '', leading to ''
               @ tl_NodeName symptomEvent @ '' (value: '' @ fmt2 (tl_Value symptomEvent) @ '') at '' @ fmt_clock fmt (tl_Timestamp symptomEvent) @ ''.'')"

definition timeline_key :: "rca_fmt \<Rightarrow> TimelineEvent \<Rightarrow> string" where
  "timeline_key fmt e = tl_NodeID e @ '':'' @ tl_MetricKey e @ '':'' @ fmt_rfc3339 fmt (tl_Timestamp e)"

definition add_event :: "rca_fmt \<Rightarrow> TimelineEvent \<Rightarrow> TimelineEvent list \<Rightarrow> TimelineEvent list" where
  "add_event fmt e events = (if timeline_key fmt e \<in> timeline_key fmt ` set events then events else events @ [e])"

definition chain_events :: "CausalChainResult option \<Rightarrow> TimelineEvent list" where
  "chain_events chain = (case chain of None \<Rightarrow> [] | Some c \<Rightarrow> cr_Events c)"

definition buildTimeline :: "rca_fmt \<Rightarrow> CausalChainResult option \<Rightarrow> CausalChainResult option \<Rightarrow> TimelineEvent list" where
  "buildTimeline fmt primary alt =
     sort_slice (\<lambda>a b. tl_Timestamp a < tl_Timestamp b)
       (fold (add_event fmt) (chain_events alt) (fold (add_event fmt) (chain_events primary) []))"

definition Build :: "rca_fmt \<Rightarrow> time \<Rightarrow> AnalyzeRequest \<Rightarrow> TimeWindow \<Rightarrow> string \<Rightarrow> nat \<Rightarrow> nat \<Rightarrow> CausalChainResult list \<Rightarrow> Incident" where
  "Build fmt now req window mode metricsNeeded metricsWithData chains0 =
     (let chains = sort_slice (\<lambda>a b. cr_Score a > cr_Score b) chains0;
          primary = (if length chains > 0 then Some (chains ! 0) else None);
          alt = (if length chains > 1 \<and> cr_Score (chains ! 1) \<ge> cr_Score (chains ! 0) * (8/10) then Some (chains ! 1) else None);
          confidence = (case primary of None \<Rightarrow> 0 | Some c \<Rightarrow> cr_Score c);
          completeness = (if metricsNeeded > 0 then real metricsWithData / real metricsNeeded else 0)
      in \<lparr>in_ID = 0, in_InstanceID = ar_InstanceID req, in_TriggerMetric = ar_TriggerMetric req, in_TriggerValue = ar_TriggerValue req,
          in_TriggerTime = ar_TriggerTime req, in_TriggerKind = ar_TriggerKind req, in_AnalysisWindow = window,
          in_PrimaryChain = primary, in_AlternativeChain = alt, in_Timeline = buildTimeline fmt primary alt,
          in_Summary = generateSummary fmt primary confidence, in_Confidence = confidence,
          in_ConfidenceBucket = bucketizeConfidence confidence,
          in_Quality = \<lparr>qs_TelemetryCompleteness = completeness, qs_AnomalySourceMode = mode,
            qs_ScopeLimitations = [''single-instance only''], qs_UnavailableDeps = []\<rparr>,
          in_RemediationHooks = [], in_AutoTriggered = (ar_TriggerKind req = ''alert''), in_ChainVersion = ''1.0.0'',
          in_AnomalyMode = mode, in_CreatedAt = now\<rparr>)"

subsection \<open>The analysis\<close>

definition take_int :: "int \<Rightarrow> 'a list \<Rightarrow> 'a list" where
  "take_int n xs = (if int (length xs) > n then take (nat n) xs else xs)"

definition analysis_window :: "RCAConfig \<Rightarrow> AnalyzeRequest \<Rightarrow> TimeWindow" where
  "analysis_window cfg req =
     (let lookback = (if ar_WindowMinutes req > 0 then ar_WindowMinutes req * Minute else cfg_LookbackWindow cfg)
      in \<lparr>w_From = ar_TriggerTime req - lookback,
          w_To = (if ar_TriggerKind req = ''alert'' then ar_TriggerTime req + cfg_DeferredForwardTail cfg else ar_TriggerTime req)\<rparr>)"

definition with_statement_anomalies :: "Engine \<Rightarrow> string \<Rightarrow> TimeWindow \<Rightarrow> anomaly_map \<Rightarrow> anomaly_map" where
  "with_statement_anomalies e instanceID window am =
     (case en_stmtDiff e of None \<Rightarrow> am
      | Some s \<Rightarrow> fold (\<lambda>(k, v) m. map_append k v m) (StatementDiff_GetAnomalies s instanceID (w_From window) (w_To window)) am)"

definition has_data :: "Engine \<Rightarrow> string \<Rightarrow> TimeWindow \<Rightarrow> anomaly_map \<Rightarrow> string \<Rightarrow> bool" where
  "has_data e instanceID window am key =
     (case map_of am key of Some as \<Rightarrow> True
      | None \<Rightarrow> (case en_query e \<lparr>mq_InstanceID = instanceID, mq_Metric = key, mq_Labels = [], mq_Start = w_From window,
                    mq_End = w_To window, mq_Limit = 1\<rparr> of None \<Rightarrow> False | Some pts \<Rightarrow> pts \<noteq> []))"

definition fireRemediationHooks :: "Engine \<Rightarrow> Incident \<Rightarrow> hook_call list" where
  "fireRemediationHooks e incident =
     (case in_PrimaryChain incident of None \<Rightarrow> []
      | Some chain \<Rightarrow>
          map (\<lambda>edge. let ev = find (\<lambda>ev. tl_NodeID ev = ce_FromNode edge) (cr_Events chain)
             in (ce_RemediationHook edge, in_InstanceID incident, (case ev of None \<Rightarrow> '''' | Some x \<Rightarrow> tl_MetricKey x),
                 (case ev of None \<Rightarrow> 0 | Some x \<Rightarrow> tl_Value x), in_ID incident, 1))
            (filter (\<lambda>edge. ce_RemediationHook edge \<noteq> '''') (EdgesForChain (en_graph e) (cr_ChainID chain))))"

definition surviving_chains :: "Engine \<Rightarrow> AnalyzeRequest \<Rightarrow> TimeWindow \<Rightarrow> anomaly_map \<Rightarrow> string list \<Rightarrow> CausalChainResult list" where
  "surviving_chains e req window am chainIDs =
     filter (\<lambda>c. cr_Score c \<ge> cfg_MinChainScore (en_cfg e))
       (List.map_filter (\<lambda>c. traverseChain e c (ar_InstanceID req) (ar_TriggerMetric req) (ar_TriggerTime req) window am) chainIDs)"

definition Analyze :: "rca_fmt \<Rightarrow> time \<Rightarrow> Engine \<Rightarrow> AnalyzeRequest \<Rightarrow> (Incident \<times> hook_call list) option" where
  "Analyze fmt now e req =
     (let window = analysis_window (en_cfg e) req;
          chainIDs = take_int (cfg_MaxCandidateChains (en_cfg e)) (ChainsForTrigger (en_graph e) (ar_TriggerMetric req));
          metricKeys = take_int (cfg_MaxMetricsPerRun (en_cfg e)) (MetricKeysForChains (en_graph e) chainIDs)
      in case en_anomaly e (ar_InstanceID req) metricKeys (w_From window) (w_To window) (90 * Second) of
           None \<Rightarrow> None
         | Some am0 \<Rightarrow>
             (let am = with_statement_anomalies e (ar_InstanceID req) window am0;
                  withData = length (filter (has_data e (ar_InstanceID req) window am) metricKeys);
                  incident0 = Build fmt now req window (en_anomalyMode e) (length metricKeys) withData
                    (surviving_chains e req window am chainIDs);
                  incident = (case en_store e of None \<Rightarrow> incident0
                     | Some create \<Rightarrow> (case create incident0 of None \<Rightarrow> incident0 | Some i \<Rightarrow> incident0\<lparr>in_ID := i\<rparr>));
                  hooks = (if en_remediation e \<and> cfg_RemediationHooksEnabled (en_cfg e) \<and> in_PrimaryChain incident \<noteq> None \<and> in_ID incident > 0
                           then fireRemediationHooks e incident else [])
              in Some (incident, hooks)))"

end
