(* ===== verification/RcaLaws.thy ===== *)
theory RcaLaws
  imports RcaEngine
begin

section \<open>Laws of root cause analysis\<close>

text \<open>
  Scores and confidences are normalised, the strongest anomaly is the strongest, a chain survives
  only with evidence for every required edge it walks, the incident ranks the surviving chains, and
  what the built-in graph can and cannot find.
\<close>

subsection \<open>Candidate chains\<close>

lemma chains_by_edge_set:
  "set (chains_by_edge nodes es) = {ce_ChainID e | e. e \<in> set es \<and> ce_ToNode e \<in> set nodes} \<and> distinct (chains_by_edge nodes es)"
proof -
  have "distinct acc \<Longrightarrow>
      (let r = fold (\<lambda>e chains. if ce_ToNode e \<in> set nodes \<and> ce_ChainID e \<notin> set chains then chains @ [ce_ChainID e] else chains) es acc in
       set r = set acc \<union> {ce_ChainID e | e. e \<in> set es \<and> ce_ToNode e \<in> set nodes} \<and> distinct r)" for acc
  proof (induction es arbitrary: acc)
    case (Cons e es)
    show ?case
    proof (cases "ce_ToNode e \<in> set nodes \<and> ce_ChainID e \<notin> set acc")
      case True
      then show ?thesis using Cons.IH [of "acc @ [ce_ChainID e]"] Cons.prems by (auto simp: Let_def)
    next
      case False
      then show ?thesis using Cons.IH [of acc] Cons.prems by (auto simp: Let_def)
    qed
  qed simp
  from this [of "[]"] show ?thesis by (simp add: chains_by_edge_def Let_def)
qed

lemma second_loop_dead: "chains_by_id nodes es ids (chains_by_edge nodes es) = chains_by_edge nodes es"
proof -
  have "c \<in> set (chains_by_edge nodes es)" if "list_ex (\<lambda>e. ce_ChainID e = c \<and> ce_ToNode e \<in> set nodes) es" for c
    using that chains_by_edge_set [of nodes es] by (auto simp: list_ex_iff)
  then show ?thesis unfolding chains_by_id_def by (induction ids) auto
qed

lemma ChainsForTrigger_eq: "ChainsForTrigger g m = chains_by_edge (matchingNodes g m) (g_Edges g)"
  by (simp add: ChainsForTrigger_def Let_def second_loop_dead)

lemma matchingNodes_iff: "i \<in> set (matchingNodes g m) \<longleftrightarrow> (\<exists>node. (i, node) \<in> set (g_Nodes g) \<and> m \<in> set (cn_MetricKeys node))"
  by (force simp: matchingNodes_def list_ex_iff)

text \<open>The candidate chains of a trigger metric are exactly the chains with an edge into a node
  that carries the metric, each once; the second search of the function never adds one.\<close>

theorem chains_for_trigger_spec:
  "ChainsForTrigger g m = chains_by_edge (matchingNodes g m) (g_Edges g) \<and> distinct (ChainsForTrigger g m) \<and>
   set (ChainsForTrigger g m) = {ce_ChainID e | e. e \<in> set (g_Edges g) \<and>
     (\<exists>node. (ce_ToNode e, node) \<in> set (g_Nodes g) \<and> m \<in> set (cn_MetricKeys node))}"
  using chains_by_edge_set [of "matchingNodes g m" "g_Edges g"] by (simp add: ChainsForTrigger_eq matchingNodes_iff)

subsection \<open>The strongest anomaly\<close>

definition in_window :: "anomaly_map \<Rightarrow> string list \<Rightarrow> time \<Rightarrow> time \<Rightarrow> AnomalyEvent \<Rightarrow> bool" where
  "in_window am keys f t a \<longleftrightarrow> (\<exists>key as. key \<in> set keys \<and> map_of am key = Some as \<and> a \<in> set as) \<and> f \<le> an_Timestamp a \<and> an_Timestamp a \<le> t"

definition best_of :: "AnomalyEvent set \<Rightarrow> AnomalyEvent option \<Rightarrow> bool" where
  "best_of A best \<longleftrightarrow> (case best of None \<Rightarrow> A = {} | Some b \<Rightarrow> b \<in> A \<and> (\<forall>a \<in> A. an_Strength a \<le> an_Strength b))"

lemma best_of_step:
  "best_of A best \<Longrightarrow> best_of (A \<union> {a \<in> {ev}. f \<le> an_Timestamp a \<and> an_Timestamp a \<le> t}) (stronger f t ev best)"
  by (cases best) (auto simp: best_of_def stronger_def not_less)

lemma best_of_events:
  "best_of A best \<Longrightarrow> best_of (A \<union> {a \<in> set events. f \<le> an_Timestamp a \<and> an_Timestamp a \<le> t}) (fold (stronger f t) events best)"
proof (induction events arbitrary: A best)
  case (Cons ev events)
  have "A \<union> {a \<in> {ev}. f \<le> an_Timestamp a \<and> an_Timestamp a \<le> t} \<union> {a \<in> set events. f \<le> an_Timestamp a \<and> an_Timestamp a \<le> t} =
      A \<union> {a \<in> set (ev # events). f \<le> an_Timestamp a \<and> an_Timestamp a \<le> t}" by auto
  then show ?case using Cons.IH [OF best_of_step [OF Cons.prems, of ev f t]] by simp
qed simp

lemma best_of_keys:
  "best_of A best \<Longrightarrow> best_of (A \<union> {a. in_window am keys f t a})
     (fold (\<lambda>key best. case map_of am key of None \<Rightarrow> best | Some events \<Rightarrow> fold (stronger f t) events best) keys best)"
proof (induction keys arbitrary: A best)
  case Nil
  then show ?case by (simp add: in_window_def)
next
  case (Cons key keys)
  show ?case
  proof (cases "map_of am key")
    case None
    then have "{a. in_window am (key # keys) f t a} = {a. in_window am keys f t a}" by (auto simp: in_window_def)
    then show ?thesis using Cons None by simp
  next
    case (Some events)
    have "A \<union> {a \<in> set events. f \<le> an_Timestamp a \<and> an_Timestamp a \<le> t} \<union> {a. in_window am keys f t a} = A \<union> {a. in_window am (key # keys) f t a}"
      using Some by (auto simp: in_window_def)
    then show ?thesis using Cons.IH [OF best_of_events [OF Cons.prems, of events f t]] Some by simp
  qed
qed

lemma strongest_best: "best_of {a. in_window am keys f t a} (findStrongestAnomaly am keys f t)"
  using best_of_keys [of "{}" None am keys f t] by (simp add: findStrongestAnomaly_def best_of_def)

text \<open>\<open>findStrongestAnomaly\<close> finds an anomaly exactly when one of the metrics has one inside the
  time window (bounds included), and then one of the greatest strength among them.\<close>

theorem strongest_anomaly_spec:
  "case findStrongestAnomaly am keys f t of
     None \<Rightarrow> (\<nexists>a. in_window am keys f t a)
   | Some b \<Rightarrow> in_window am keys f t b \<and> (\<nexists>a. in_window am keys f t a \<and> an_Strength b < an_Strength a)"
  using strongest_best [of am keys f t] by (auto simp: best_of_def not_less split: option.splits)

lemma strongest_in: "findStrongestAnomaly am keys f t = Some b \<Longrightarrow> in_window am keys f t b"
  using strongest_best [of am keys f t] by (simp add: best_of_def)

subsection \<open>Scores\<close>

lemma temporalProximity_bounds: "1/5 \<le> temporalProximity a b c d \<and> temporalProximity a b c d \<le> 1"
  by (auto simp: temporalProximity_def Let_def)

definition conf_ok :: "CausalGraph \<Rightarrow> bool" where
  "conf_ok g \<longleftrightarrow> (\<forall>e \<in> set (g_Edges g). 0 \<le> ce_BaseConfidence e \<and> ce_BaseConfidence e \<le> 1)"

lemma mult_unit: "0 \<le> (a::real) \<Longrightarrow> a \<le> 1 \<Longrightarrow> 0 \<le> b \<Longrightarrow> b \<le> 1 \<Longrightarrow> 0 \<le> a * b \<and> a * b \<le> 1"
  by (simp add: mult_le_one)

lemma evaluateEdge_score:
  assumes "strengths_ok am" "0 \<le> ce_BaseConfidence edge" "ce_BaseConfidence edge \<le> 1"
    "evaluateEdge e i tt w am edge = (score, event, found)"
  shows "0 \<le> score \<and> score \<le> 1"
proof -
  have str: "0 \<le> an_Strength a \<and> an_Strength a \<le> 1" if "findStrongestAnomaly am keys f t = Some a" for keys f t a
    using strongest_in [OF that] strengths_ok_lookup [OF assms(1)] by (auto simp: in_window_def)
  have prox: "0 \<le> temporalProximity a b c d" "temporalProximity a b c d \<le> 1" for a b c d
    using temporalProximity_bounds [of a b c d] by linarith+
  have none: "0 \<le> fst (no_evidence edge) \<and> fst (no_evidence edge) \<le> 1" using assms(2,3) by (simp add: no_evidence_def)
  have "0 \<le> fst (evaluateEdge e i tt w am edge) \<and> fst (evaluateEdge e i tt w am edge) \<le> 1"
    using assms(2,3) none
    by (auto simp: evaluateEdge_def Let_def mult_unit prox dest!: str split: option.splits TemporalSemantics.splits
        intro!: mult_nonneg_nonneg mult_le_one)
  then show ?thesis using assms(4) by simp
qed

definition walk_ok :: "walk \<Rightarrow> bool" where
  "walk_ok s \<longleftrightarrow> 0 \<le> wk_totalScore s \<and> wk_totalScore s \<le> real (wk_edgeCount s)"

lemma edge_loop_walk_ok:
  assumes "\<And>v s. walk_ok s \<Longrightarrow> walk_ok (snd (up v s))"
    and "\<And>edge. edge \<in> set es \<Longrightarrow> 0 \<le> fst (eval edge) \<and> fst (eval edge) \<le> 1"
  shows "walk_ok s \<Longrightarrow> walk_ok (snd (edge_loop eval up es s))"
  using assms(2)
proof (induction es arbitrary: s)
  case (Cons edge es)
  obtain score event found where ev: "eval edge = (score, event, found)" by (metis prod.exhaust)
  obtain ok s' where up: "up (ce_FromNode edge) (count_edge score event s) = (ok, s')" by fastforce
  have "walk_ok (count_edge score event s)" using Cons.prems ev by (force simp: walk_ok_def count_edge_def)
  then have "walk_ok s'" using assms(1) up by (metis snd_conv)
  then show ?case using Cons ev up by simp
qed simp

lemma walkBackward_ok:
  assumes "strengths_ok am" "conf_ok (en_graph e)"
  shows "walk_ok s \<Longrightarrow> walk_ok (snd (walkBackward e c i tt w am left v s))"
proof (induction left arbitrary: v s)
  case (Suc left)
  have "0 \<le> fst (evaluateEdge e i tt w am edge) \<and> fst (evaluateEdge e i tt w am edge) \<le> 1"
    if "edge \<in> set (chain_edges (en_graph e) c v)" for edge
  proof -
    have "0 \<le> ce_BaseConfidence edge" "ce_BaseConfidence edge \<le> 1"
      using that assms(2) by (auto simp: chain_edges_def IncomingEdges_def conf_ok_def)
    then show ?thesis using evaluateEdge_score [OF assms(1)] by (metis prod.exhaust fst_conv)
  qed
  then have "walk_ok (snd (edge_loop (evaluateEdge e i tt w am) (walkBackward e c i tt w am left) (chain_edges (en_graph e) c v) s))"
    by (intro edge_loop_walk_ok Suc.IH Suc.prems)
  moreover have "walk_ok (at_root e w am v s)" using Suc.prems by (auto simp: at_root_def walk_ok_def split: option.splits)
  ultimately show ?case by (simp add: Let_def)
qed simp

lemma traverseChain_score:
  assumes "strengths_ok am" "conf_ok (en_graph e)" "traverseChain e c i m tt w am = Some r"
  shows "0 \<le> cr_Score r \<and> cr_Score r \<le> 1"
proof -
  let ?s0 = "\<lparr>wk_events = [], wk_totalScore = 0, wk_edgeCount = 0, wk_rootCauseKey = ''''\<rparr>"
  let ?n = "nat (cfg_MaxTraversalDepth (en_cfg e))"
  define v where "v = start_node (en_graph e) m (TerminalNodes (en_graph e) c)"
  obtain ok s where walk: "walkBackward e c i tt w am ?n v ?s0 = (ok, s)" by fastforce
  have r: "cr_Score r = wk_totalScore s / real (wk_edgeCount s)" "wk_edgeCount s \<noteq> 0"
    using assms(3) walk by (auto simp: traverseChain_def v_def Let_def split: if_splits)
  have "walk_ok s" using walkBackward_ok [OF assms(1,2), of ?s0 c i tt w ?n v] walk by (simp add: walk_ok_def)
  then show ?thesis using r by (simp add: walk_ok_def)
qed

subsection \<open>Pruning\<close>

text \<open>The edges the walk may visit: those into the node, and upstream while depth is left.\<close>

inductive walk_edge :: "CausalGraph \<Rightarrow> string \<Rightarrow> nat \<Rightarrow> string \<Rightarrow> CausalEdge \<Rightarrow> bool" for g c where
  here: "edge \<in> set (chain_edges g c v) \<Longrightarrow> walk_edge g c (Suc n) v edge"
| up: "edge \<in> set (chain_edges g c v) \<Longrightarrow> walk_edge g c n (ce_FromNode edge) edge' \<Longrightarrow> walk_edge g c (Suc n) v edge'"

inductive_cases walk_edge_SucE: "walk_edge g c (Suc n) v edge"
inductive_cases walk_edge_0E: "walk_edge g c 0 v edge"

lemma edge_loop_success:
  "edge_loop eval up es s = (True, s') \<Longrightarrow> edge \<in> set es \<Longrightarrow>
   (ce_Evidence edge = EvidenceRequired \<longrightarrow> snd (snd (eval edge))) \<and> (\<exists>s1 s2. up (ce_FromNode edge) s1 = (True, s2))"
proof (induction es arbitrary: s)
  case (Cons x es)
  obtain score event found where ev: "eval x = (score, event, found)" by (metis prod.exhaust)
  obtain ok s1 where up: "up (ce_FromNode x) (count_edge score event s) = (ok, s1)" by fastforce
  have ok: "found \<or> ce_Evidence x \<noteq> EvidenceRequired" "ok" "edge_loop eval up es s1 = (True, s')"
    using Cons.prems(1) ev up by (auto split: if_splits)
  show ?case
  proof (cases "edge = x")
    case True
    then show ?thesis using ok ev up by auto
  next
    case False
    then show ?thesis using Cons.IH [OF ok(3)] Cons.prems(2) by simp
  qed
qed simp

lemma walkBackward_required:
  "walkBackward e c i tt w am n v s = (True, s') \<Longrightarrow> walk_edge (en_graph e) c n v edge \<Longrightarrow>
   ce_Evidence edge = EvidenceRequired \<Longrightarrow> snd (snd (evaluateEdge e i tt w am edge))"
proof (induction n arbitrary: v s s')
  case 0
  then show ?case by (auto elim: walk_edge_0E)
next
  case (Suc n)
  let ?es = "chain_edges (en_graph e) c v"
  from Suc.prems(2) have ne: "?es \<noteq> []" by (auto elim: walk_edge_SucE)
  then have loop: "edge_loop (evaluateEdge e i tt w am) (walkBackward e c i tt w am n) ?es s = (True, s')"
    using Suc.prems(1) by (simp add: Let_def)
  from Suc.prems(2) consider (here) "edge \<in> set ?es"
    | (up) x where "x \<in> set ?es" "walk_edge (en_graph e) c n (ce_FromNode x) edge"
    by (auto elim: walk_edge_SucE)
  then show ?case
  proof cases
    case here
    then show ?thesis using edge_loop_success [OF loop] Suc.prems(3) by blast
  next
    case (up x)
    obtain s1 s2 where "walkBackward e c i tt w am n (ce_FromNode x) s1 = (True, s2)"
      using edge_loop_success [OF loop up(1)] by blast
    then show ?thesis using Suc.IH up(2) Suc.prems(3) by blast
  qed
qed


end
