(* ===== verification/RcaRuns.thy ===== *)
theory RcaRuns
  imports RcaLaws AlertDispatch
begin

section \<open>Incidents, the built-in graph and the automatic trigger (\<open>internal/rca\<close>)\<close>

text \<open>
  The incident an analysis returns, what the built-in graph can find, and the automatic trigger of
  \<open>trigger.go\<close>, which is another rate gate.
\<close>

subsection \<open>Incidents\<close>

lemma with_statement_anomalies_ok: "strengths_ok am \<Longrightarrow> strengths_ok (with_statement_anomalies e i w am)"
proof (cases "en_stmtDiff e")
  case (Some s)
  have "strengths_ok m \<Longrightarrow> strengths_ok extra \<Longrightarrow> strengths_ok (fold (\<lambda>(k, v) m. map_append k v m) extra m)" for extra m
  proof (induction extra arbitrary: m)
    case (Cons kv extra)
    obtain k v where kv: "kv = (k, v)" by (cases kv)
    have "\<forall>a \<in> set v. 0 \<le> an_Strength a \<and> an_Strength a \<le> 1" "strengths_ok extra"
      using Cons.prems(2) by (auto simp: strengths_ok_def kv)
    then have "strengths_ok (map_append k v m)" using strengths_ok_append [OF Cons.prems(1)] by blast
    then show ?case using Cons.IH \<open>strengths_ok extra\<close> by (simp only: kv fold_simps prod.case)
  qed simp
  then show "strengths_ok am \<Longrightarrow> ?thesis" using Some StatementDiff_ok by (simp add: with_statement_anomalies_def)
qed (simp add: with_statement_anomalies_def)

lemma surviving_scores:
  assumes "strengths_ok am" "conf_ok (en_graph e)" "c \<in> set (surviving_chains e req w am ids)"
  shows "0 \<le> cr_Score c \<and> cr_Score c \<le> 1 \<and> cfg_MinChainScore (en_cfg e) \<le> cr_Score c"
  using assms(3) traverseChain_score [OF assms(1,2)]
  by (auto simp: surviving_chains_def List.map_filter_def)

lemma add_event_keys: "distinct (map (timeline_key fmt) evs) \<Longrightarrow> distinct (map (timeline_key fmt) (fold (add_event fmt) xs evs)) \<and>
    set (fold (add_event fmt) xs evs) \<subseteq> set evs \<union> set xs \<and> timeline_key fmt ` set (fold (add_event fmt) xs evs) = timeline_key fmt ` (set evs \<union> set xs)"
proof (induction xs arbitrary: evs)
  case (Cons x xs)
  have "distinct (map (timeline_key fmt) (add_event fmt x evs))" using Cons.prems by (auto simp: add_event_def)
  moreover have "timeline_key fmt ` set (add_event fmt x evs) = timeline_key fmt ` (insert x (set evs))" by (auto simp: add_event_def)
  moreover have "set (add_event fmt x evs) \<subseteq> insert x (set evs)" by (auto simp: add_event_def)
  ultimately show ?case using Cons.IH [of "add_event fmt x evs"] by (auto simp: image_Un)
qed simp

text \<open>The ranking an incident promises, given the chains that survived.\<close>

definition ranked :: "CausalChainResult list \<Rightarrow> Incident \<Rightarrow> bool" where
  "ranked crs inc \<longleftrightarrow>
     (case in_PrimaryChain inc of None \<Rightarrow> crs = [] \<and> in_Confidence inc = 0 \<and> in_AlternativeChain inc = None
      | Some p \<Rightarrow> p \<in> set crs \<and> (\<forall>c \<in> set crs. cr_Score c \<le> cr_Score p) \<and> in_Confidence inc = cr_Score p \<and>
          (case in_AlternativeChain inc of None \<Rightarrow> True | Some a \<Rightarrow> a \<in> set crs \<and> cr_Score p * (8/10) \<le> cr_Score a))"

lemma ranked_in_ID: "ranked crs (inc\<lparr>in_ID := i\<rparr>) = ranked crs inc"
  by (auto simp: ranked_def split: option.splits)

lemma Build_ranked: "ranked crs (Build fmt now req w mode n k crs)"
proof (cases "crs = []")
  case True
  then show ?thesis by (simp add: ranked_def Build_def)
next
  case False
  let ?s = "sort_slice (\<lambda>a b. cr_Score a > cr_Score b) crs"
  have len: "length ?s = length crs" "set ?s = set crs" by simp_all
  then have mem: "i < length crs \<Longrightarrow> ?s ! i \<in> set crs" for i by (metis nth_mem)
  have "0 < length crs" using False by simp
  then have hd: "?s ! 0 = hd ?s" using len(1) by (metis hd_conv_nth length_greater_0_conv)
  have top: "\<forall>c \<in> set crs. cr_Score c \<le> cr_Score (?s ! 0)"
    using desc.hd_sort_slice_least [of _ crs cr_Score] hd by (auto simp: not_less)
  have "?s \<noteq> []" using \<open>0 < length crs\<close> len(1) by (metis length_greater_0_conv)
  then show ?thesis
    using \<open>0 < length crs\<close> mem top by (auto simp: ranked_def Build_def Let_def)
qed

lemma Build_timeline:
  "sorted (map tl_Timestamp (in_Timeline (Build fmt now req w mode n k crs))) \<and>
   set (in_Timeline (Build fmt now req w mode n k crs)) \<subseteq> (\<Union>c \<in> set crs. set (cr_Events c))"
proof
  let ?inc = "Build fmt now req w mode n k crs"
  have tl: "in_Timeline ?inc = buildTimeline fmt (in_PrimaryChain ?inc) (in_AlternativeChain ?inc)" by (simp add: Build_def Let_def)
  show "sorted (map tl_Timestamp (in_Timeline ?inc))" unfolding tl buildTimeline_def by (rule sort_slice_asc_sorted)
  have "set (in_Timeline ?inc) \<subseteq> set (chain_events (in_PrimaryChain ?inc)) \<union> set (chain_events (in_AlternativeChain ?inc))"
    unfolding tl buildTimeline_def using add_event_keys [of fmt "[]" "chain_events (in_PrimaryChain ?inc)"]
      add_event_keys [of fmt "fold (add_event fmt) (chain_events (in_PrimaryChain ?inc)) []" "chain_events (in_AlternativeChain ?inc)"]
    by auto
  also have "\<dots> \<subseteq> (\<Union>c \<in> set crs. set (cr_Events c))"
    using Build_ranked [of crs fmt now req w mode n k] by (auto simp: ranked_def chain_events_def split: option.splits)
  finally show "set (in_Timeline ?inc) \<subseteq> (\<Union>c \<in> set crs. set (cr_Events c))" .
qed


end
