(* ===== verification/RcaDefault.thy ===== *)
theory RcaDefault
  imports RcaRuns
begin

section \<open>The built-in graph and the automatic trigger (\<open>internal/rca/chains.go\<close>, \<open>trigger.go\<close>)\<close>

text \<open>
  The built-in graph is well formed and its chains fit the default traversal depth; what it cannot
  find. Then the automatic trigger, which is another rate gate, and concrete analyses.
\<close>

lemma fold_addEdge: "fold addEdge es g = g\<lparr>g_Edges := g_Edges g @ es\<rparr>"
  by (induction es arbitrary: g) (simp_all add: addEdge_def)

lemma fold_addNode:
  "distinct (map cn_ID ns) \<Longrightarrow> set (map cn_ID ns) \<inter> set (keys_of (g_Nodes g)) = {} \<Longrightarrow>
   fold addNode ns g = g\<lparr>g_Nodes := g_Nodes g @ map (\<lambda>n. (cn_ID n, n)) ns\<rparr>"
proof (induction ns arbitrary: g)
  case (Cons n ns)
  have "map_put (cn_ID n) n (g_Nodes g) = g_Nodes g @ [(cn_ID n, n)]"
    using Cons.prems(2) by (intro map_put_new) auto
  then have one: "addNode n g = g\<lparr>g_Nodes := g_Nodes g @ [(cn_ID n, n)]\<rparr>" by (simp add: addNode_def)
  have "set (map cn_ID ns) \<inter> set (keys_of (g_Nodes (addNode n g))) = {}"
    using Cons.prems unfolding one by auto
  then show ?case using Cons.IH [of "addNode n g"] Cons.prems(1) by (simp add: one)
qed simp

lemma default_ids_distinct: "distinct (map cn_ID (shared_nodes @ tier_b_nodes))"
  by code_simp

lemma default_graph_parts:
  "g_Edges NewDefaultGraph = default_edges"
  "g_Nodes NewDefaultGraph = map (\<lambda>n. (cn_ID n, n)) (shared_nodes @ tier_b_nodes)"
  "g_ChainIDs NewDefaultGraph = AllChainIDs"
  using fold_addNode [OF default_ids_distinct, of "\<lparr>g_Nodes = [], g_Edges = [], g_ChainIDs = AllChainIDs\<rparr>"]
  by (simp_all add: NewDefaultGraph_def fold_addEdge del: map_append fold_append)

subsection \<open>What the built-in graph can find\<close>

text \<open>The edges the walk visits, as a list.\<close>

fun walk_edges :: "CausalGraph \<Rightarrow> string \<Rightarrow> nat \<Rightarrow> string \<Rightarrow> CausalEdge list" where
  "walk_edges g c 0 v = []"
| "walk_edges g c (Suc n) v = chain_edges g c v @ concat (map (\<lambda>e. walk_edges g c n (ce_FromNode e)) (chain_edges g c v))"

lemma walk_edges_iff: "edge \<in> set (walk_edges g c n v) \<longleftrightarrow> walk_edge g c n v edge"
proof (induction n arbitrary: v)
  case 0
  show ?case by (auto elim: walk_edge_0E)
next
  case (Suc n)
  show ?case using Suc.IH by (auto elim!: walk_edge_SucE intro: walk_edge.intros)
qed

definition edge_ident :: "CausalEdge \<Rightarrow> string \<times> string \<times> string" where
  "edge_ident e = (ce_FromNode e, ce_ToNode e, ce_ChainID e)"

text \<open>The questions about the built-in graph only depend on the ends and chains of its edges.\<close>

fun ident_walk :: "(string \<times> string \<times> string) list \<Rightarrow> string \<Rightarrow> nat \<Rightarrow> string \<Rightarrow> (string \<times> string \<times> string) list" where
  "ident_walk xs c 0 v = []"
| "ident_walk xs c (Suc n) v =
     (let here = filter (\<lambda>(f, t, d). t = v \<and> d = c) xs in here @ concat (map (\<lambda>(f, t, d). ident_walk xs c n f) here))"

definition ident_terminals :: "(string \<times> string \<times> string) list \<Rightarrow> string \<Rightarrow> string list" where
  "ident_terminals xs c =
     (let here = filter (\<lambda>(f, t, d). d = c) xs in
      filter (\<lambda>i. i \<notin> set (map fst here)) (fold (\<lambda>(f, t, d). add_once t) here []))"

lemma edge_ident_case: "(case edge_ident e of (f, t, d) \<Rightarrow> P f t d) = P (ce_FromNode e) (ce_ToNode e) (ce_ChainID e)"
  by (simp add: edge_ident_def)

lemma edge_ident_fst: "(case edge_ident e of (f, td) \<Rightarrow> P f) = P (ce_FromNode e)"
  by (simp add: edge_ident_def)

lemma chain_edges_ident:
  "map edge_ident (chain_edges g c v) = filter (\<lambda>(f, t, d). t = v \<and> d = c) (map edge_ident (g_Edges g))"
  by (simp add: chain_edges_def IncomingEdges_def filter_map comp_def edge_ident_def conj_commute)

lemma walk_edges_ident: "map edge_ident (walk_edges g c n v) = ident_walk (map edge_ident (g_Edges g)) c n v"
proof (induction n arbitrary: v)
  case (Suc n)
  have "map edge_ident (concat (map (\<lambda>e. walk_edges g c n (ce_FromNode e)) es)) =
      concat (map (\<lambda>(f, t, d). ident_walk (map edge_ident (g_Edges g)) c n f) (map edge_ident es))" for es
    by (induction es) (simp_all add: Suc.IH edge_ident_fst)
  then show ?case by (simp add: chain_edges_ident [symmetric] Let_def)
qed simp

lemma TerminalNodes_ident: "TerminalNodes g c = ident_terminals (map edge_ident (g_Edges g)) c"
proof -
  have "fold (\<lambda>e. add_once (ce_ToNode e)) es acc = fold (\<lambda>(f, t, d). add_once t) (map edge_ident es) acc" for es acc
    by (induction es arbitrary: acc) (simp_all add: edge_ident_def)
  moreover have "map edge_ident (EdgesForChain g c) = filter (\<lambda>(f, t, d). d = c) (map edge_ident (g_Edges g))"
    by (simp add: EdgesForChain_def filter_map comp_def edge_ident_def)
  moreover have "map ce_FromNode es = map fst (map edge_ident es)" for es by (simp add: edge_ident_def comp_def)
  ultimately show ?thesis unfolding TerminalNodes_def ident_terminals_def Let_def by metis
qed

definition default_idents :: "(string \<times> string \<times> string) list" where
  "default_idents = [
     (''bulk_workload'', ''wal_generation'', ''chain.bulk_wal_checkpoint_io_repllag''),
     (''wal_generation'', ''checkpoint_storm'', ''chain.bulk_wal_checkpoint_io_repllag''),
     (''checkpoint_storm'', ''disk_io'', ''chain.bulk_wal_checkpoint_io_repllag''),
     (''disk_io'', ''replication_lag'', ''chain.bulk_wal_checkpoint_io_repllag''),
     (''inactive_slot'', ''wal_retention'', ''chain.inactive_slot_wal_disk''),
     (''wal_retention'', ''disk_fill'', ''chain.inactive_slot_wal_disk''),
     (''network_issue'', ''wal_receiver_disconnect'', ''chain.network_walrecv_repllag''),
     (''wal_receiver_disconnect'', ''replication_lag'', ''chain.network_walrecv_repllag''),
     (''long_tx_primary'', ''replication_apply_delay'', ''chain.longtx_repl_delay''),
     (''wal_generation'', ''checkpoint_storm'', ''chain.walspike_checkpoint_io''),
     (''checkpoint_storm'', ''disk_io'', ''chain.walspike_checkpoint_io''),
     (''autovacuum_storm'', ''disk_io'', ''chain.autovacuum_disk_latency''),
     (''disk_io'', ''query_latency'', ''chain.autovacuum_disk_latency''),
     (''temp_file_spike'', ''disk_io'', ''chain.tempfile_disk_query''),
     (''disk_io'', ''query_slowdown'', ''chain.tempfile_disk_query''),
     (''buffer_eviction'', ''backend_writes'', ''chain.buffer_eviction_backend_io''),
     (''backend_writes'', ''disk_io'', ''chain.buffer_eviction_backend_io''),
     (''lock_contention'', ''blocked_queries'', ''chain.lock_blocked_conn_pileup''),
     (''blocked_queries'', ''connection_pileup'', ''chain.lock_blocked_conn_pileup''),
     (''connection_spike'', ''memory_pressure'', ''chain.conn_spike_memory_oom''),
     (''memory_pressure'', ''oom_risk'', ''chain.conn_spike_memory_oom''),
     (''long_tx'', ''mvcc_bloat'', ''chain.longtx_bloat_conn''),
     (''mvcc_bloat'', ''conn_holding'', ''chain.longtx_bloat_conn''),
     (''query_regression'', ''cpu_spike'', ''chain.query_regression_cpu_latency''),
     (''cpu_spike'', ''latency_spike'', ''chain.query_regression_cpu_latency''),
     (''new_query'', ''resource_shift'', ''chain.new_query_resource_shift''),
     (''missing_index'', ''seq_scans'', ''chain.missing_index_seqscan_io''),
     (''seq_scans'', ''disk_io'', ''chain.missing_index_seqscan_io''),
     (''pgss_fill'', ''pgss_eviction'', ''chain.pgss_fill_eviction''),
     (''dead_tuples'', ''table_bloat'', ''chain.dead_tuple_bloat_scan''),
     (''table_bloat'', ''scan_degradation'', ''chain.dead_tuple_bloat_scan''),
     (''wraparound_risk'', ''aggressive_vacuum'', ''chain.wraparound_vacuum_io''),
     (''aggressive_vacuum'', ''disk_io'', ''chain.wraparound_vacuum_io''),
     (''long_tx_blocking'', ''vacuum_blocked'', ''chain.longtx_block_vacuum_growth''),
     (''vacuum_blocked'', ''dead_tuple_growth'', ''chain.longtx_block_vacuum_growth''),
     (''settings_change'', ''behavioral_shift'', ''chain.settings_change_behavior''),
     (''os_memory_pressure'', ''oom_killer'', ''chain.os_memory_oom_crash''),
     (''oom_killer'', ''pg_crash'', ''chain.os_memory_oom_crash'')]"

definition default_ids :: "string list" where
  "default_ids = [
     ''bulk_workload'', ''wal_generation'', ''checkpoint_storm'', ''disk_io'', ''replication_lag'', ''inactive_slot'',
     ''wal_retention'', ''disk_fill'', ''long_tx_primary'', ''replication_apply_delay'', ''autovacuum_storm'',
     ''query_latency'', ''temp_file_spike'', ''query_slowdown'', ''buffer_eviction'', ''backend_writes'',
     ''lock_contention'', ''blocked_queries'', ''connection_pileup'', ''connection_spike'', ''memory_pressure'',
     ''oom_risk'', ''long_tx'', ''mvcc_bloat'', ''conn_holding'', ''missing_index'', ''seq_scans'', ''pgss_fill'',
     ''pgss_eviction'', ''dead_tuples'', ''table_bloat'', ''scan_degradation'', ''wraparound_risk'', ''aggressive_vacuum'',
     ''long_tx_blocking'', ''vacuum_blocked'', ''dead_tuple_growth'', ''os_memory_pressure'', ''oom_killer'', ''pg_crash'',
     ''network_issue'', ''wal_receiver_disconnect'', ''query_regression'', ''cpu_spike'', ''latency_spike'', ''new_query'',
     ''resource_shift'', ''settings_change'', ''behavioral_shift'']"

lemma default_idents: "map edge_ident (g_Edges NewDefaultGraph) = default_idents"
  unfolding default_graph_parts by code_simp

lemma default_ident_in: "edge \<in> set (g_Edges NewDefaultGraph) \<Longrightarrow> edge_ident edge \<in> set default_idents"
  unfolding default_idents [symmetric] set_map by (rule imageI)

lemma default_ids: "keys_of (g_Nodes NewDefaultGraph) = default_ids"
  unfolding default_graph_parts map_map comp_def fst_conv by code_simp

lemma default_idents_wf:
  "distinct default_idents \<and> list_all (\<lambda>(f, t, d). f \<in> set default_ids \<and> t \<in> set default_ids \<and> d \<in> set AllChainIDs) default_idents"
  by code_simp

lemma default_edge_numbers:
  "list_all (\<lambda>e. 0 \<le> ce_BaseConfidence e \<and> ce_BaseConfidence e \<le> 1 \<and> 0 \<le> ce_MinLag e \<and> ce_MinLag e \<le> ce_MaxLag e) default_edges"
  by (simp add: default_edges_def edges_1_7_def edges_8_14_def edges_15_20_def mk_edge_def)

lemma ident_walk_filter: "ident_walk (filter (\<lambda>(f, t, d). d = c) xs) c n v = ident_walk xs c n v"
proof (induction n arbitrary: v)
  case (Suc n)
  have "filter (\<lambda>(f, t, d). t = v \<and> d = c) (filter (\<lambda>(f, t, d). d = c) xs) = filter (\<lambda>(f, t, d). t = v \<and> d = c) xs"
    by (simp add: filter_filter) (rule filter_cong, auto)
  then show ?case by (simp add: Suc.IH)
qed simp

definition covers :: "(string \<times> string \<times> string) list \<Rightarrow> string \<Rightarrow> bool" where
  "covers xs c \<longleftrightarrow> (let ys = filter (\<lambda>(f, t, d). d = c) xs in ys \<noteq> [] \<and>
     (case ident_terminals ys c of [v] \<Rightarrow> (let zs = ident_walk ys c 5 v in list_all (\<lambda>y. y \<in> set zs) ys) | _ \<Rightarrow> False))"

lemma default_covers: "list_all (covers default_idents) AllChainIDs"
  by code_simp

lemma ident_terminals_filter: "ident_terminals (filter (\<lambda>(f, t, d). d = c) xs) c = ident_terminals xs c"
  by (simp add: ident_terminals_def split_def)

lemma walk_edges_subset: "set (walk_edges g c n v) \<subseteq> set (g_Edges g)"
  by (induction n arbitrary: v) (auto simp: chain_edges_def IncomingEdges_def)

lemma default_edge_walked:
  assumes "edge \<in> set (g_Edges NewDefaultGraph)"
  shows "ce_ChainID edge \<in> set AllChainIDs \<and> (\<exists>v. TerminalNodes NewDefaultGraph (ce_ChainID edge) = [v] \<and>
    walk_edge NewDefaultGraph (ce_ChainID edge) 5 v edge)"
proof -
  let ?c = "ce_ChainID edge" and ?g = NewDefaultGraph
  define ys where "ys = filter (\<lambda>(f, t, d). d = ?c) default_idents"
  have id: "edge_ident edge \<in> set default_idents" by (rule default_ident_in [OF assms])
  then have y: "edge_ident edge \<in> set ys" by (simp add: ys_def edge_ident_def)
  have c: "?c \<in> set AllChainIDs"
    using id default_idents_wf by (auto simp: list_all_iff edge_ident_def)
  then have "covers default_idents ?c" using default_covers by (simp add: list_all_iff)
  then obtain v where v: "ident_terminals ys ?c = [v]" and all: "list_all (\<lambda>y. y \<in> set (ident_walk ys ?c 5 v)) ys"
    unfolding covers_def ys_def Let_def by (auto split: list.splits)
  have "TerminalNodes ?g ?c = [v]"
    using v by (simp only: TerminalNodes_ident default_idents ys_def ident_terminals_filter)
  moreover have "edge_ident edge \<in> set (map edge_ident (walk_edges ?g ?c 5 v))"
    using all y by (simp only: walk_edges_ident default_idents ys_def ident_walk_filter list_all_iff)
  then obtain e' where e': "e' \<in> set (walk_edges ?g ?c 5 v)" "edge_ident e' = edge_ident edge" by auto
  have "inj_on edge_ident (set (g_Edges ?g))" using default_idents_wf default_idents by (metis distinct_map)
  then have "e' = edge" using e' assms walk_edges_subset by (meson inj_onD subsetD)
  ultimately show ?thesis using c e' walk_edges_iff by blast
qed

lemma default_node: "n \<in> set (shared_nodes @ tier_b_nodes) \<Longrightarrow> node_of NewDefaultGraph (cn_ID n) = Some n"
  unfolding node_of_def default_graph_parts using default_ids_distinct
  by (intro map_of_is_SomeI) (simp_all add: comp_def del: map_append)

lemma default_conf_ok: "conf_ok NewDefaultGraph"
  using default_edge_numbers unfolding conf_ok_def default_graph_parts by (simp add: list_all_iff)

text \<open>The built-in graph is well formed and complete for its default configuration: every edge
  belongs to a declared chain and joins declared nodes, its confidence lies between 0 and 1 and its
  lag interval is ordered; every chain ends in one node, at which the analysis of any trigger metric
  starts, and from there the default traversal depth reaches every edge of the chain.\<close>

theorem builtin_graph_covered:
  assumes "edge \<in> set (g_Edges NewDefaultGraph)"
  shows "ce_ChainID edge \<in> set (g_ChainIDs NewDefaultGraph) \<and>
    node_of NewDefaultGraph (ce_FromNode edge) \<noteq> None \<and> node_of NewDefaultGraph (ce_ToNode edge) \<noteq> None \<and>
    0 \<le> ce_BaseConfidence edge \<and> ce_BaseConfidence edge \<le> 1 \<and> 0 \<le> ce_MinLag edge \<and> ce_MinLag edge \<le> ce_MaxLag edge \<and>
    walk_edge NewDefaultGraph (ce_ChainID edge) (nat (cfg_MaxTraversalDepth DefaultRCAConfig))
      (start_node NewDefaultGraph m (TerminalNodes NewDefaultGraph (ce_ChainID edge))) edge"
proof -
  obtain v where v: "TerminalNodes NewDefaultGraph (ce_ChainID edge) = [v]" "walk_edge NewDefaultGraph (ce_ChainID edge) 5 v edge"
    and c: "ce_ChainID edge \<in> set AllChainIDs"
    using default_edge_walked [OF assms] by blast
  have "start_node NewDefaultGraph m [v] = v" by (simp add: start_node_def)
  moreover have "edge_ident edge \<in> set default_idents" by (rule default_ident_in [OF assms])
  then have "ce_FromNode edge \<in> set (keys_of (g_Nodes NewDefaultGraph)) \<and> ce_ToNode edge \<in> set (keys_of (g_Nodes NewDefaultGraph))"
    using default_idents_wf unfolding default_ids by (auto simp: list_all_iff edge_ident_def)
  then have "node_of NewDefaultGraph (ce_FromNode edge) \<noteq> None \<and> node_of NewDefaultGraph (ce_ToNode edge) \<noteq> None"
    unfolding node_of_def map_of_eq_None_iff by auto
  moreover have "edge \<in> set default_edges" using assms default_graph_parts by simp
  ultimately show ?thesis
    using v c default_edge_numbers by (auto simp: default_graph_parts DefaultRCAConfig_def list_all_iff)
qed

subsection \<open>What the built-in graph cannot find\<close>

abbreviation "builtin_engine e \<equiv> e\<lparr>en_graph := NewDefaultGraph, en_cfg := DefaultRCAConfig\<rparr>"

definition network_edge :: CausalEdge where
  "network_edge = mk_edge ''network_issue'' ''wal_receiver_disconnect'' 0 (30 * Second) BoundedLag EvidenceRequired
     ''Network failure disconnects WAL receiver'' (0.7) ''chain.network_walrecv_repllag'' ''remediation.network_diagnostics''"

lemma network_edge_in: "network_edge \<in> set (g_Edges NewDefaultGraph)"
  by (simp add: default_graph_parts network_edge_def default_edges_def edges_1_7_def)

lemma network_edge_no_evidence:
  assumes "en_graph e = NewDefaultGraph"
  shows "\<not> snd (snd (evaluateEdge e i tt w am network_edge))"
proof -
  let ?n = "mk_node ''network_issue'' ''Network Issue'' [] ''os'' '''' ''''"
  have "?n \<in> set (shared_nodes @ tier_b_nodes)" by (simp add: tier_b_nodes_def)
  from default_node [OF this] have "node_of NewDefaultGraph ''network_issue'' = Some ?n" by (simp add: mk_node_def)
  then show ?thesis
    by (simp add: evaluateEdge_def assms network_edge_def mk_edge_def mk_node_def findStrongestAnomaly_def no_evidence_def Let_def)
qed

lemma network_chain_pruned: "traverseChain (builtin_engine e) ''chain.network_walrecv_repllag'' i m tt w am = None"
proof (rule ccontr)
  let ?e = "builtin_engine e" and ?c = "''chain.network_walrecv_repllag''"
  let ?s0 = "\<lparr>wk_events = [], wk_totalScore = 0, wk_edgeCount = 0, wk_rootCauseKey = ''''\<rparr>"
  assume "traverseChain ?e ?c i m tt w am \<noteq> None"
  then obtain r where r: "traverseChain ?e ?c i m tt w am = Some r" by blast
  have chain: "ce_ChainID network_edge = ?c" and req: "ce_Evidence network_edge = EvidenceRequired"
    by (simp_all add: network_edge_def mk_edge_def)
  obtain v where v: "TerminalNodes NewDefaultGraph ?c = [v]" "walk_edge NewDefaultGraph ?c 5 v network_edge"
    using default_edge_walked [OF network_edge_in] unfolding chain by blast
  obtain ok s where walk: "walkBackward ?e ?c i tt w am 5 v ?s0 = (ok, s)" by fastforce
  have "start_node NewDefaultGraph m [v] = v" by (simp add: start_node_def)
  then have "ok" using r walk v(1) by (auto simp: traverseChain_def DefaultRCAConfig_def Let_def split: if_splits)
  then have "walkBackward ?e ?c i tt w am 5 v ?s0 = (True, s)" using walk by simp
  from walkBackward_required [OF this _ req] v(2) show False using network_edge_no_evidence [of ?e i tt w am] by simp
qed

lemma settings_chain_no_candidate: "''chain.settings_change_behavior'' \<notin> set (ChainsForTrigger NewDefaultGraph m)"
proof
  let ?c = "''chain.settings_change_behavior''" and ?n = "mk_node ''behavioral_shift'' ''Behavioral Shift'' [] ''workload'' ''symptom.behavioral_shift'' ''''"
  assume "?c \<in> set (ChainsForTrigger NewDefaultGraph m)"
  then obtain e where e: "e \<in> set (g_Edges NewDefaultGraph)" "ce_ChainID e = ?c" "ce_ToNode e \<in> set (matchingNodes NewDefaultGraph m)"
    using chains_by_edge_set [of "matchingNodes NewDefaultGraph m" "g_Edges NewDefaultGraph"] unfolding ChainsForTrigger_eq by auto
  have "list_all (\<lambda>(f, t, d). d = ?c \<longrightarrow> t = ''behavioral_shift'') default_idents" by code_simp
  then have "ce_ToNode e = ''behavioral_shift''"
    using default_ident_in [OF e(1)] e(2) by (auto simp: list_all_iff edge_ident_def)
  then obtain node where node: "(''behavioral_shift'', node) \<in> set (g_Nodes NewDefaultGraph)" "m \<in> set (cn_MetricKeys node)"
    using e(3) matchingNodes_iff by metis
  have "?n \<in> set (shared_nodes @ tier_b_nodes)" by (simp add: tier_b_nodes_def)
  from default_node [OF this] have "node_of NewDefaultGraph ''behavioral_shift'' = Some ?n" by (simp add: mk_node_def)
  moreover have "node_of NewDefaultGraph ''behavioral_shift'' = Some node"
    using node(1) default_ids_distinct unfolding node_of_def default_graph_parts
    by (intro map_of_is_SomeI) (simp_all add: comp_def del: map_append)
  ultimately show False using node(2) by (simp add: mk_node_def)
qed

fun ident_chains :: "string list \<Rightarrow> (string \<times> string \<times> string) list \<Rightarrow> string list \<Rightarrow> string list" where
  "ident_chains nodes [] acc = acc"
| "ident_chains nodes ((f, t, d) # xs) acc =
     ident_chains nodes xs (if t \<in> set nodes \<and> d \<notin> set acc then acc @ [d] else acc)"

lemma chains_by_edge_ident: "chains_by_edge nodes es = ident_chains nodes (map edge_ident es) []"
proof -
  have "fold (\<lambda>e cs. if ce_ToNode e \<in> set nodes \<and> ce_ChainID e \<notin> set cs then cs @ [ce_ChainID e] else cs) es acc =
      ident_chains nodes (map edge_ident es) acc" for acc
    by (induction es arbitrary: acc) (simp_all add: edge_ident_def)
  then show ?thesis by (simp add: chains_by_edge_def)
qed

lemma disk_trigger_nodes: "matchingNodes NewDefaultGraph ''os.disk.util_pct'' = [''disk_io'']"
  unfolding matchingNodes_def default_graph_parts by code_simp

lemma disk_trigger_chains:
  "ChainsForTrigger NewDefaultGraph ''os.disk.util_pct'' =
     [''chain.bulk_wal_checkpoint_io_repllag'', ''chain.walspike_checkpoint_io'', ''chain.autovacuum_disk_latency'', ''chain.tempfile_disk_query'',
      ''chain.buffer_eviction_backend_io'', ''chain.missing_index_seqscan_io'', ''chain.wraparound_vacuum_io'']"
  unfolding ChainsForTrigger_eq chains_by_edge_ident default_idents disk_trigger_nodes by code_simp

text \<open>Three blind spots of the built-in graph under the default configuration. The network chain
  is never reported, because its required root edge starts at a node without metrics. The
  configuration-change chain is not a candidate for any trigger metric, because the node it ends in
  has no metrics. A disk utilisation trigger has seven candidate chains, and the cut at five always
  leaves out the missing-index and the wraparound chain, whatever the evidence.\<close>

theorem builtin_graph_blind_spots:
  "traverseChain (builtin_engine e) ''chain.network_walrecv_repllag'' i m tt w am = None \<and>
   ''chain.settings_change_behavior'' \<notin> set (ChainsForTrigger NewDefaultGraph m) \<and>
   {''chain.missing_index_seqscan_io'', ''chain.wraparound_vacuum_io''} =
     set (ChainsForTrigger NewDefaultGraph ''os.disk.util_pct'')
     - set (take_int (cfg_MaxCandidateChains DefaultRCAConfig) (ChainsForTrigger NewDefaultGraph ''os.disk.util_pct''))"
proof (intro conjI network_chain_pruned settings_chain_no_candidate)
  show "{''chain.missing_index_seqscan_io'', ''chain.wraparound_vacuum_io''} =
     set (ChainsForTrigger NewDefaultGraph ''os.disk.util_pct'')
     - set (take_int (cfg_MaxCandidateChains DefaultRCAConfig) (ChainsForTrigger NewDefaultGraph ''os.disk.util_pct''))"
    unfolding disk_trigger_chains by (simp add: take_int_def DefaultRCAConfig_def insert_Diff_if)
qed

end
