(* ===== verification/RcaTrigger.thy ===== *)
theory RcaTrigger
  imports RcaDefault AlertDispatch
begin

section \<open>The automatic trigger (\<open>internal/rca/trigger.go\<close>)\<close>

text \<open>
  The hook that starts an analysis when an alert fires. The clock is read twice, in the check and
  for the record. The hook is registered with the dispatcher under a name; \<open>trigger_hook\<close> is the
  function behind it. The check and the record together are one step under the mutex; the analysis
  runs in a goroutine of its own and does not touch the trigger.
\<close>

record AutoTrigger =
  at_engine :: Engine
  at_cfg :: RCAConfig
  at_lastFired :: "string \<rightharpoonup> time"

definition NewAutoTrigger :: "Engine \<Rightarrow> RCAConfig \<Rightarrow> AutoTrigger" where
  "NewAutoTrigger engine cfg = \<lparr>at_engine = engine, at_cfg = cfg, at_lastFired = Map.empty\<rparr>"

definition severityRank :: "Severity \<Rightarrow> int" where
  "severityRank s =
     (if s = SeverityInfo then 1 else if s = SeverityWarning then 2 else if s = SeverityCritical then 3 else 0)"

definition trigger_key :: "AlertEvent \<Rightarrow> string" where
  "trigger_key event = ev_InstanceID event @ '':'' @ ev_Metric event"

definition recently_fired :: "(string \<rightharpoonup> time) \<Rightarrow> time \<Rightarrow> string \<Rightarrow> bool" where
  "recently_fired lastFired now key =
     (case lastFired key of None \<Rightarrow> False | Some prev \<Rightarrow> time_sub now prev < 15 * Minute)"

definition mark_fired :: "(string \<rightharpoonup> time) \<Rightarrow> time \<Rightarrow> string \<Rightarrow> (string \<rightharpoonup> time)" where
  "mark_fired lastFired now key = lastFired(key \<mapsto> now)"

definition shouldTrigger :: "time \<Rightarrow> time \<Rightarrow> AlertEvent \<Rightarrow> AutoTrigger \<Rightarrow> bool \<times> AutoTrigger" where
  "shouldTrigger t_check t_mark event t =
     (if ev_IsResolution event then (False, t)
      else if severityRank (ev_Severity event) < severityRank (cfg_AutoTriggerSeverity (at_cfg t)) then (False, t)
      else
        let key = trigger_key event in
        if recently_fired (at_lastFired t) t_check key then (False, t)
        else (True, t\<lparr>at_lastFired := mark_fired (at_lastFired t) t_mark key\<rparr>))"

definition fire :: "rca_fmt \<Rightarrow> time \<Rightarrow> AutoTrigger \<Rightarrow> AlertEvent \<Rightarrow> (Incident \<times> hook_call list) option" where
  "fire fmt now t event =
     Analyze fmt now (at_engine t)
       \<lparr>ar_InstanceID = ev_InstanceID event, ar_TriggerMetric = ev_Metric event, ar_TriggerValue = ev_Value event,
        ar_TriggerTime = ev_FiredAt event, ar_WindowMinutes = 0, ar_TriggerKind = ''alert''\<rparr>"

text \<open>The registered hook; the second component is the analysis it starts, if any.\<close>

definition trigger_hook :: "rca_fmt \<Rightarrow> AlertEvent \<times> time \<times> time \<Rightarrow> AutoTrigger \<Rightarrow> AutoTrigger \<times> (Incident \<times> hook_call list) option option" where
  "trigger_hook fmt = (\<lambda>(event, t_check, t_mark) t.
     let (go, t') = shouldTrigger t_check t_mark event t
     in (t', if \<not> go then None else Some (fire fmt t_mark t' event)))"

definition RegisterHook :: "string \<Rightarrow> Dispatcher \<Rightarrow> Dispatcher" where
  "RegisterHook name d = OnAlert name d"

subsection \<open>The trigger is a rate gate\<close>

lemma recently_fired_iff: "recently_fired m now key \<longleftrightarrow> (\<exists>prev. m key = Some prev \<and> now < prev + 15 * Minute)"
  by (auto simp: recently_fired_def time_sub_def split: option.splits)

definition trigger_pass :: "(string \<rightharpoonup> time) \<Rightarrow> time \<Rightarrow> string \<Rightarrow> bool" where
  "trigger_pass lastFired now key \<longleftrightarrow> \<not> recently_fired lastFired now key"

definition trigger_window :: "string \<Rightarrow> duration" where
  "trigger_window key = 15 * Minute"

interpretation trigger_gate: rate_gate trigger_pass mark_fired trigger_window Map.empty
  by unfold_locales (auto simp: trigger_pass_def trigger_window_def mark_fired_def recently_fired_iff)

definition qualifies :: "RCAConfig \<Rightarrow> AlertEvent \<Rightarrow> bool" where
  "qualifies cfg event \<longleftrightarrow> \<not> ev_IsResolution event \<and> severityRank (cfg_AutoTriggerSeverity cfg) \<le> severityRank (ev_Severity event)"

definition trigger_request :: "timed_event \<Rightarrow> string request" where
  "trigger_request e = \<lparr>rq_key = trigger_key (fst e), rq_check = fst (snd e), rq_mark = snd (snd e)\<rparr>"

text \<open>The events that start an analysis when the hook sees them in order.\<close>

fun analysed :: "timed_event list \<Rightarrow> AutoTrigger \<Rightarrow> timed_event list" where
  "analysed [] t = []"
| "analysed (e # es) t =
     (let (go, t') = shouldTrigger (fst (snd e)) (snd (snd e)) (fst e) t in (if go then [e] else []) @ analysed es t')"

definition trigger_run :: "timed_event list \<Rightarrow> AutoTrigger \<Rightarrow> AutoTrigger" where
  "trigger_run es t = fold (\<lambda>e t. snd (shouldTrigger (fst (snd e)) (snd (snd e)) (fst e) t)) es t"

lemma shouldTrigger_gate:
  "at_cfg (snd (shouldTrigger tc tm ev t)) = at_cfg t"
  "\<not> qualifies (at_cfg t) ev \<Longrightarrow> shouldTrigger tc tm ev t = (False, t)"
  "qualifies (at_cfg t) ev \<Longrightarrow> shouldTrigger tc tm ev t =
     (if recently_fired (at_lastFired t) tc (trigger_key ev) then (False, t)
      else (True, t\<lparr>at_lastFired := mark_fired (at_lastFired t) tm (trigger_key ev)\<rparr>))"
  by (auto simp: shouldTrigger_def qualifies_def Let_def)

lemma analysed_gate:
  "fold trigger_gate.gate_step (map trigger_request (filter (\<lambda>e. qualifies (at_cfg t) (fst e)) es)) (at_lastFired t, acc) =
   (at_lastFired (trigger_run es t), acc @ map trigger_request (analysed es t))"
proof (induction es arbitrary: t acc)
  case (Cons e es)
  obtain ev tc tm where e: "e = (ev, tc, tm)" by (rule prod_cases3)
  obtain go t' where st: "shouldTrigger tc tm ev t = (go, t')" by fastforce
  have cfg: "at_cfg t' = at_cfg t" using shouldTrigger_gate(1) [of tc tm ev t] st by simp
  have run: "trigger_run (e # es) t = trigger_run es t'" "analysed (e # es) t = (if go then [e] else []) @ analysed es t'"
    by (simp_all add: trigger_run_def e st)
  note IH = Cons.IH [of t', unfolded cfg]
  show ?case
  proof (cases "qualifies (at_cfg t) ev")
    case False
    then have "go = False" "t' = t" using shouldTrigger_gate(2) st by auto
    then show ?thesis using IH False run by (simp add: e)
  next
    case True
    then have "trigger_gate.gate_step (trigger_request e) (at_lastFired t, acc) =
        (at_lastFired t', acc @ (if go then [trigger_request e] else []))"
      using shouldTrigger_gate(3) [OF True, of tc tm] st
      by (auto simp: trigger_gate.gate_step_def trigger_request_def trigger_pass_def e split: if_splits)
    then have "fold trigger_gate.gate_step (map trigger_request (filter (\<lambda>e. qualifies (at_cfg t) (fst e)) (e # es))) (at_lastFired t, acc) =
        (at_lastFired (trigger_run es t'), acc @ (if go then [trigger_request e] else []) @ map trigger_request (analysed es t'))"
      using IH [of "acc @ (if go then [trigger_request e] else [])"] True by (simp add: e)
    then show ?thesis unfolding run by simp
  qed
qed (simp add: trigger_run_def)

lemma ordered_triggers: "clock_ok es \<Longrightarrow> trigger_gate.ordered_requests (map trigger_request (filter P es))"
  by (auto simp: trigger_gate.ordered_requests_def trigger_request_def trigger_window_def clock_ok_def list_all_iff)

text \<open>The automatic trigger starts analyses for fire events of sufficient severity only, at most
  one in fifteen minutes for an instance and metric, and it does not lose any other: an event of
  sufficient severity is passed over only when an analysis of the same instance and metric was started
  less than fifteen minutes before.\<close>

theorem auto_trigger_spacing:
  assumes "clock_ok es" "t = NewAutoTrigger engine cfg"
  shows "set (analysed es t) \<subseteq> {e \<in> set es. qualifies cfg (fst e)} \<and>
    sorted_wrt (\<lambda>p q. trigger_key (fst p) = trigger_key (fst q) \<longrightarrow> snd (snd p) + 15 * Minute \<le> fst (snd q)) (analysed es t) \<and>
    (qualifies cfg ev \<and> \<not> fst (shouldTrigger t_check t_mark ev (trigger_run es t)) \<longrightarrow>
      (\<exists>p \<in> set (analysed es t). trigger_key (fst p) = trigger_key ev \<and> t_check < snd (snd p) + 15 * Minute))"
proof (intro conjI impI)
  let ?qs = "map trigger_request (filter (\<lambda>e. qualifies cfg (fst e)) es)"
  have cfg: "at_cfg t = cfg" "at_lastFired t = Map.empty" by (simp_all add: assms(2) NewAutoTrigger_def)
  have run: "trigger_gate.gate_run ?qs = (at_lastFired (trigger_run es t), map trigger_request (analysed es t))"
    using analysed_gate [of t es "[]"] by (simp add: trigger_gate.gate_run_def cfg)
  have "set (analysed es t') \<subseteq> {e \<in> set es. qualifies (at_cfg t') (fst e)}" for t'
  proof (induction es arbitrary: t')
    case (Cons e es)
    obtain go t2 where st: "shouldTrigger (fst (snd e)) (snd (snd e)) (fst e) t' = (go, t2)" by fastforce
    then have "at_cfg t2 = at_cfg t'" "go \<Longrightarrow> qualifies (at_cfg t') (fst e)"
      using shouldTrigger_gate(1) [of "fst (snd e)" "snd (snd e)" "fst e" t'] shouldTrigger_gate(2) [of t' "fst e" "fst (snd e)" "snd (snd e)"] by auto
    then show ?case using Cons.IH [of t2] st by auto
  qed simp
  then show "set (analysed es t) \<subseteq> {e \<in> set es. qualifies cfg (fst e)}" using cfg by metis
  show "sorted_wrt (\<lambda>p q. trigger_key (fst p) = trigger_key (fst q) \<longrightarrow> snd (snd p) + 15 * Minute \<le> fst (snd q)) (analysed es t)"
    using trigger_gate.gate_run_spaced [OF ordered_triggers [OF assms(1)], of "\<lambda>e. qualifies cfg (fst e)"] run
    by (simp add: trigger_gate.spaced_def sorted_wrt_map trigger_request_def trigger_window_def)
  assume q: "qualifies cfg ev \<and> \<not> fst (shouldTrigger t_check t_mark ev (trigger_run es t))"
  have "at_cfg (trigger_run es t') = at_cfg t'" for t'
    by (induction es arbitrary: t') (simp_all add: trigger_run_def shouldTrigger_gate(1))
  then have "recently_fired (at_lastFired (trigger_run es t)) t_check (trigger_key ev)"
    using q cfg shouldTrigger_gate(3) [of "trigger_run es t" ev t_check t_mark] by (auto split: if_splits)
  then have "\<exists>p \<in> set (snd (trigger_gate.gate_run ?qs)). rq_key p = trigger_key ev \<and> t_check < rq_mark p + 15 * Minute"
    using trigger_gate.gate_refusal_justified [OF ordered_triggers [OF assms(1)], of "\<lambda>e. qualifies cfg (fst e)" t_check "trigger_key ev"] run by (simp add: trigger_pass_def trigger_window_def)
  then show "\<exists>p \<in> set (analysed es t). trigger_key (fst p) = trigger_key ev \<and> t_check < snd (snd p) + 15 * Minute"
    using run by (auto simp: trigger_request_def)
qed

subsection \<open>Concrete runs\<close>

text \<open>The statement-statistics chain of the built-in graph, and an engine on it whose only anomalous
  metric is the fill level.\<close>

definition pgss_edge :: CausalEdge where
  "pgss_edge = mk_edge ''pgss_fill'' ''pgss_eviction'' 0 0 PersistentState EvidenceRequired
     ''pg_stat_statements at capacity triggers eviction'' (0.9) ''chain.pgss_fill_eviction'' ''remediation.pgss_reset''"

definition pgss_node :: CausalNode where
  "pgss_node = mk_node ''pgss_fill'' ''pg_stat_statements Fill'' [''pg.statements.fill_pct'', ''pg.extensions.pgss_fill_pct''] ''db'' '''' ''''"

lemma pgss_chain: "EdgesForChain NewDefaultGraph ''chain.pgss_fill_eviction'' = [pgss_edge]"
  by (simp add: EdgesForChain_def default_graph_parts default_edges_def edges_1_7_def edges_8_14_def edges_15_20_def mk_edge_def pgss_edge_def)

lemma chain_edges_of: "chain_edges g c v = filter (\<lambda>e. ce_ToNode e = v) (EdgesForChain g c)"
  by (simp add: chain_edges_def IncomingEdges_def EdgesForChain_def conj_commute)

lemma pgss_terminals: "TerminalNodes NewDefaultGraph ''chain.pgss_fill_eviction'' = [''pgss_eviction'']"
  by (simp add: TerminalNodes_def pgss_chain pgss_edge_def mk_edge_def add_once_def)

lemma pgss_fill_node: "node_of NewDefaultGraph ''pgss_fill'' = Some pgss_node"
proof -
  have "pgss_node \<in> set (shared_nodes @ tier_b_nodes)" by (simp add: shared_nodes_def pgss_node_def)
  from default_node [OF this] show ?thesis by (simp add: pgss_node_def mk_node_def)
qed

definition demo_anomaly :: AnomalyEvent where
  "demo_anomaly = \<lparr>an_InstanceID = ''db1'', an_MetricKey = ''pg.statements.fill_pct'', an_Timestamp = 0, an_Value = 99, an_BaselineVal = 50,
     an_ZScore = 5, an_RateChange = 2, an_Strength = 1, an_Source = ''threshold''\<rparr>"

definition demo_source :: ThresholdAnomalySource where
  "demo_source = NewThresholdAnomalySource (mem_source (NewMemoryStore Hour))"

definition demo_engine :: Engine where
  "demo_engine = \<lparr>en_graph = NewDefaultGraph, en_anomaly = (\<lambda>i ks f t j. Some (GetAnomalies demo_source i ks f t j)), en_anomalyMode = ''threshold'',
     en_store = None, en_query = (\<lambda>q. Some []), en_cfg = DefaultRCAConfig, en_settings = None, en_stmtDiff = None, en_remediation = False\<rparr>"

abbreviation "demo_window \<equiv> \<lparr>w_From = - Hour, w_To = Hour\<rparr>"
abbreviation "demo_anomalies \<equiv> [(''pg.statements.fill_pct'', [demo_anomaly])]"

lemma demo_start: "start_node NewDefaultGraph m [v] = v"
  by (simp add: start_node_def)

lemma demo_found: "findStrongestAnomaly demo_anomalies (cn_MetricKeys pgss_node) (- Hour) Hour = Some demo_anomaly"
  by (simp add: findStrongestAnomaly_def pgss_node_def mk_node_def stronger_def demo_anomaly_def)

lemma demo_traversal:
  "\<exists>r. traverseChain demo_engine ''chain.pgss_fill_eviction'' ''db1'' ''pg.statements.fill_pct'' 0 demo_window demo_anomalies = Some r"
proof -
  let ?c = "''chain.pgss_fill_eviction''"
  have ev: "evaluateEdge demo_engine ''db1'' 0 demo_window demo_anomalies pgss_edge =
      (9/10, Some (buildTimelineEvent pgss_node demo_anomaly (Some pgss_edge) (nodeRole pgss_node)), True)"
    using demo_found by (simp add: evaluateEdge_def demo_engine_def pgss_edge_def mk_edge_def pgss_fill_node) (simp add: demo_anomaly_def)
  have up: "chain_edges NewDefaultGraph ?c ''pgss_eviction'' = [pgss_edge]" "chain_edges NewDefaultGraph ?c ''pgss_fill'' = []"
    by (simp_all add: chain_edges_of pgss_chain pgss_edge_def mk_edge_def)
  have g: "en_graph demo_engine = NewDefaultGraph" and from_: "ce_FromNode pgss_edge = ''pgss_fill''"
    by (simp_all add: demo_engine_def pgss_edge_def mk_edge_def)
  have "\<exists>s. walkBackward demo_engine ?c ''db1'' 0 demo_window demo_anomalies (Suc (Suc n)) ''pgss_eviction''
      \<lparr>wk_events = [], wk_totalScore = 0, wk_edgeCount = 0, wk_rootCauseKey = []\<rparr> = (True, s) \<and> wk_edgeCount s \<noteq> 0" for n
    by (simp add: g up ev from_ at_root_def pgss_fill_node count_edge_def Let_def split: option.splits)
  from this [of 3] obtain s where s: "walkBackward demo_engine ?c ''db1'' 0 demo_window demo_anomalies 5 ''pgss_eviction''
      \<lparr>wk_events = [], wk_totalScore = 0, wk_edgeCount = 0, wk_rootCauseKey = []\<rparr> = (True, s)" "wk_edgeCount s \<noteq> 0"
    by (auto simp: numeral_eq_Suc)
  have "nat (cfg_MaxTraversalDepth (en_cfg demo_engine)) = 5" by (simp add: demo_engine_def DefaultRCAConfig_def)
  then show ?thesis unfolding traverseChain_def g by (simp add: pgss_chain pgss_terminals demo_start s Let_def)
qed

lemma pgss_edge_in: "pgss_edge \<in> set (g_Edges NewDefaultGraph)"
  by (simp add: default_graph_parts pgss_edge_def default_edges_def edges_15_20_def)


theorem builtin_graph_covered_witness:
  "pgss_edge \<in> set (g_Edges NewDefaultGraph) \<and> ce_ChainID pgss_edge \<in> set (g_ChainIDs NewDefaultGraph)"
  using builtin_graph_covered [OF pgss_edge_in] pgss_edge_in by blast

definition demo_request :: AnalyzeRequest where
  "demo_request = \<lparr>ar_InstanceID = ''db1'', ar_TriggerMetric = ''pg.statements.fill_pct'', ar_TriggerValue = 99, ar_TriggerTime = 0,
     ar_WindowMinutes = 0, ar_TriggerKind = ''alert''\<rparr>"

abbreviation "demo_fmt \<equiv> \<lparr>fmt_rfc3339 = Itoa, fmt_clock = Itoa\<rparr>"


definition demo_trigger :: AutoTrigger where
  "demo_trigger = NewAutoTrigger demo_engine (DefaultRCAConfig\<lparr>cfg_AutoTriggerSeverity := ''warning''\<rparr>)"

lemma demo_trigger_run:
  "analysed [(demo_event False, 0, 0)] demo_trigger = [(demo_event False, 0, 0)]"
  "\<not> fst (shouldTrigger Minute Minute (demo_event False) (trigger_run [(demo_event False, 0, 0)] demo_trigger))"
  "qualifies (DefaultRCAConfig\<lparr>cfg_AutoTriggerSeverity := ''warning''\<rparr>) (demo_event False)"
  by (simp_all add: demo_trigger_def NewAutoTrigger_def trigger_run_def shouldTrigger_def demo_event_def severityRank_def DefaultRCAConfig_def
      recently_fired_def mark_fired_def trigger_key_def time_sub_def qualifies_def)

theorem auto_trigger_spacing_witness:
  "clock_ok [(demo_event False, 0, 0)] \<and>
   (\<exists>p \<in> {(demo_event False, 0, 0)}. trigger_key (fst p) = trigger_key (demo_event False) \<and> Minute < snd (snd p) + 15 * Minute)"
proof -
  have ok: "clock_ok [(demo_event False, 0, 0)]" by (simp add: clock_ok_def)
  from auto_trigger_spacing [OF this demo_trigger_def] demo_trigger_run
  have "\<exists>p \<in> set (analysed [(demo_event False, 0, 0)] demo_trigger). trigger_key (fst p) = trigger_key (demo_event False) \<and> Minute < snd (snd p) + 15 * Minute"
    by blast
  then show ?thesis using ok unfolding demo_trigger_run(1) by simp
qed

end
