(* ===== verification/Playbook.thy ===== *)
theory Playbook
  imports AuthCore
begin

section \<open>Playbooks: interpretation, execution, resolution (\<open>internal/playbook\<close>)\<close>

text \<open>
  The data of \<open>types.go\<close>, the interpreter of step results, the resolver and the executor. A
  value scanned from a row or decoded from JSON is a \<open>sqlval\<close>; \<open>VOther\<close> carries the text
  \<open>%v\<close> prints for any other type. How \<open>%v\<close> prints a float is a parameter (\<open>fv\<close>). The monitored
  server is the record \<open>Session\<close>: what each statement of the transaction answers, given the
  statements before it; the executor returns the statements it sent.
\<close>

datatype sqlval = VNull | VFloat float64 | VInt int | VString string | VOther string

record TriggerBindings =
  tb_Hooks :: "string list"
  tb_RootCauses :: "string list"
  tb_Metrics :: "string list"
  tb_AdviserRules :: "string list"

record InterpretationRule =
  ir_Column :: string
  ir_Operator :: string
  ir_Value :: sqlval
  ir_Verdict :: string
  ir_Message :: string
  ir_Scope :: string

record RowCountRule =
  rc_Operator :: string
  rc_Value :: sqlval
  rc_Verdict :: string
  rc_Message :: string

record InterpretationSpec =
  is_Rules :: "InterpretationRule list"
  is_RowCountRules :: "RowCountRule list"
  is_DefaultVerdict :: string
  is_DefaultMessage :: string

record BranchCondition =
  bc_Column :: string
  bc_Operator :: string
  bc_Value :: sqlval
  bc_Verdict :: string

record BranchRule =
  br_Condition :: BranchCondition
  br_GotoStep :: int
  br_Reason :: string

abbreviation "TierDiagnostic \<equiv> ''diagnostic''"
abbreviation "TierRemediate \<equiv> ''remediate''"
abbreviation "TierDangerous \<equiv> ''dangerous''"
abbreviation "TierExternal \<equiv> ''external''"

record Step =
  sp_StepOrder :: int
  sp_Name :: string
  sp_Description :: string
  sp_SQLTemplate :: string
  sp_SafetyTier :: string
  sp_TimeoutSeconds :: int
  sp_ResultInterpretation :: InterpretationSpec
  sp_BranchRules :: "BranchRule list"
  sp_NextStepDefault :: "int option"
  sp_ManualInstructions :: string
  sp_EscalationContact :: string

record Playbook =
  pb_ID :: int
  pb_Slug :: string
  pb_Name :: string
  pb_Description :: string
  pb_Version :: int
  pb_Status :: string
  pb_Category :: string
  pb_TriggerBindings :: TriggerBindings
  pb_EstimatedDurationMin :: "int option"
  pb_RequiresPermission :: string
  pb_Author :: string
  pb_IsBuiltin :: bool
  pb_Steps :: "Step list"

record ExecutionResult =
  er_Columns :: "string list"
  er_Rows :: "sqlval list list"
  er_RowCount :: int
  er_TotalRows :: int
  er_Truncated :: bool
  er_Duration :: int

subsection \<open>The interpreter (\<open>interpreter.go\<close>)\<close>

definition toFloat64 :: "sqlval \<Rightarrow> float64" where
  "toFloat64 v = (case v of VFloat x \<Rightarrow> x | VInt n \<Rightarrow> of_int n | VString s \<Rightarrow> ParseFloat s | VOther s \<Rightarrow> ParseFloat s
     | VNull \<Rightarrow> ParseFloat ''<nil>'')"

definition evaluateNumeric :: "float64 \<Rightarrow> string \<Rightarrow> sqlval \<Rightarrow> bool" where
  "evaluateNumeric actual operator expected =
     (let e = toFloat64 expected in
      if operator = ''>'' then actual > e else if operator = ''<'' then actual < e
      else if operator = ''>='' then actual \<ge> e else if operator = ''<='' then actual \<le> e
      else if operator = ''=='' then actual = e else if operator = ''!='' then actual \<noteq> e else False)"

definition evaluateCondition :: "sqlval \<Rightarrow> string \<Rightarrow> sqlval \<Rightarrow> bool" where
  "evaluateCondition actual operator expected =
     (if operator = ''is_null'' then actual = VNull
      else if operator = ''is_not_null'' then actual \<noteq> VNull
      else if actual = VNull then False
      else evaluateNumeric (toFloat64 actual) operator expected)"

type_synonym row_map = "string \<rightharpoonup> sqlval"

definition zipColumnsAndRow :: "string list \<Rightarrow> sqlval list \<Rightarrow> row_map" where
  "zipColumnsAndRow columns row = fold (\<lambda>(col, v) m. m(col \<mapsto> v)) (zip columns row) Map.empty"

definition Sprint_v :: "(float64 \<Rightarrow> string) \<Rightarrow> sqlval \<Rightarrow> string" where
  "Sprint_v fv v = (case v of VNull \<Rightarrow> ''<nil>'' | VFloat x \<Rightarrow> fv x | VInt n \<Rightarrow> Itoa n | VString s \<Rightarrow> s | VOther s \<Rightarrow> s)"

definition is_word :: "char \<Rightarrow> bool" where
  "is_word c \<longleftrightarrow> is_digit c \<or> (65::nat) \<le> of_char c \<and> of_char c \<le> (90::nat) \<or> (97::nat) \<le> of_char c \<and> of_char c \<le> (122::nat) \<or> c = CHR ''_''"

text \<open>The key of a placeholder at the front of the text, if there is one.\<close>

definition placeholder :: "string \<Rightarrow> string option" where
  "placeholder s =
     (if take 2 s = ''{{'' then
        let w = takeWhile is_word (drop 2 s) in
        if w \<noteq> [] \<and> take 2 (drop (2 + length w) s) = ''}}'' then Some w else None
      else None)"

text \<open>Replacement of the leftmost placeholders one after the other.\<close>

function expandTemplate :: "(float64 \<Rightarrow> string) \<Rightarrow> string \<Rightarrow> row_map \<Rightarrow> string" where
  "expandTemplate fv [] values = []"
| "expandTemplate fv (c # s) values =
     (case placeholder (c # s) of
        None \<Rightarrow> c # expandTemplate fv s values
      | Some key \<Rightarrow>
          (case values key of None \<Rightarrow> ''{{'' @ key @ ''}}'' | Some v \<Rightarrow> Sprint_v fv v) @ expandTemplate fv (drop (4 + length key) (c # s)) values)"
  by pat_completeness auto
termination by (relation "measure (\<lambda>(fv, s, values). length s)") auto

definition Interpret :: "(float64 \<Rightarrow> string) \<Rightarrow> InterpretationSpec \<Rightarrow> string list \<Rightarrow> sqlval list list \<Rightarrow> int \<Rightarrow> string \<times> string" where
  "Interpret fv spec columns rows rowCount =
     (case find (\<lambda>rule. evaluateNumeric (of_int rowCount) (rc_Operator rule) (rc_Value rule)) (is_RowCountRules spec) of
        Some rule \<Rightarrow> (rc_Verdict rule, expandTemplate fv (rc_Message rule) [''row_count'' \<mapsto> VInt rowCount])
      | None \<Rightarrow>
          if rows = [] then (is_DefaultVerdict spec, is_DefaultMessage spec)
          else let rowMap = zipColumnsAndRow columns (hd rows) in
            (case find (\<lambda>rule. case rowMap (ir_Column rule) of None \<Rightarrow> False | Some val \<Rightarrow> evaluateCondition val (ir_Operator rule) (ir_Value rule))
                    (is_Rules spec) of
               Some rule \<Rightarrow> (ir_Verdict rule, expandTemplate fv (ir_Message rule) rowMap)
             | None \<Rightarrow> (is_DefaultVerdict spec, is_DefaultMessage spec)))"

definition matchBranchCondition :: "BranchCondition \<Rightarrow> string \<Rightarrow> row_map option \<Rightarrow> bool" where
  "matchBranchCondition cond verdict rowMap =
     (if bc_Verdict cond \<noteq> '''' then bc_Verdict cond = verdict
      else case rowMap of None \<Rightarrow> False
      | Some m \<Rightarrow>
          if bc_Column cond \<noteq> '''' then
            (case m (bc_Column cond) of None \<Rightarrow> False | Some val \<Rightarrow> evaluateCondition val (bc_Operator cond) (bc_Value cond))
          else False)"

definition default_next :: "Step \<Rightarrow> int" where
  "default_next step = (case sp_NextStepDefault step of Some n \<Rightarrow> n | None \<Rightarrow> 0)"

definition EvaluateBranch :: "Step \<Rightarrow> string \<Rightarrow> string list \<Rightarrow> sqlval list list \<Rightarrow> int" where
  "EvaluateBranch step verdict columns rows =
     (if sp_BranchRules step = [] then default_next step
      else let rowMap = (if rows = [] then None else Some (zipColumnsAndRow columns (hd rows))) in
        (case find (\<lambda>br. matchBranchCondition (br_Condition br) verdict rowMap) (sp_BranchRules step) of
           Some br \<Rightarrow> br_GotoStep br | None \<Rightarrow> default_next step))"

subsection \<open>The executor (\<open>executor.go\<close>)\<close>

text \<open>The rows of a query: \<open>None\<close> is a row that cannot be scanned; the flag tells whether the
  iteration ended without an error.\<close>

record query_result =
  qr_columns :: "string list"
  qr_rows :: "sqlval list option list"
  qr_ok :: bool

record Session =
  se_connect :: bool
  se_begin :: bool
  se_exec :: "string list \<Rightarrow> string \<Rightarrow> bool"
  se_query :: "string list \<Rightarrow> string \<Rightarrow> query_result option"

record Executor =
  ex_rowLimit :: int

definition NewExecutor :: "int \<Rightarrow> Executor" where
  "NewExecutor resultRowLimit = \<lparr>ex_rowLimit = (if resultRowLimit = 0 then 100 else resultRowLimit)\<rparr>"

datatype exec_error = ErrExternal | ErrMultiStatement | ErrConnect | ErrBegin | ErrSetTimeout | ErrSetLockTimeout | ErrSetReadOnly | ErrQuery | ErrRows

definition multi_statement :: "string \<Rightarrow> bool" where
  "multi_statement sql \<longleftrightarrow> CHR '';'' \<in> set (TrimRight (\<lambda>c. c = CHR '';'') (TrimSpace sql))"

definition timeout_stmt :: "Step \<Rightarrow> string" where
  "timeout_stmt step = ''SET LOCAL statement_timeout = '' @ [CHR 0x27] @ Itoa (if sp_TimeoutSeconds step = 0 then 5 else sp_TimeoutSeconds step) @ ''s'' @ [CHR 0x27]"

definition lock_timeout_stmt :: string where
  "lock_timeout_stmt = ''SET LOCAL lock_timeout = '' @ [CHR 0x27] @ ''5s'' @ [CHR 0x27]"

definition read_only_stmt :: string where
  "read_only_stmt = ''SET LOCAL default_transaction_read_only = ON''"

text \<open>The loop over the rows: only the first \<open>rowLimit\<close> are scanned, all are counted.\<close>

definition collect_rows :: "int \<Rightarrow> sqlval list option list \<Rightarrow> sqlval list list" where
  "collect_rows limit rows = List.map_filter id (take (nat limit) rows)"

text \<open>The deferred rollback runs on every path after \<open>Begin\<close>.\<close>

definition ExecuteStep :: "Executor \<Rightarrow> Session \<Rightarrow> int \<Rightarrow> Step \<Rightarrow> string list \<times> (exec_error + ExecutionResult)" where
  "ExecuteStep e db elapsed step =
     (if sp_SafetyTier step = TierExternal then ([], Inl ErrExternal)
      else if multi_statement (sp_SQLTemplate step) then ([], Inl ErrMultiStatement)
      else if \<not> se_connect db then ([], Inl ErrConnect)
      else if \<not> se_begin db then ([''BEGIN''], Inl ErrBegin)
      else
        let t1 = [''BEGIN'', timeout_stmt step]; t2 = t1 @ [lock_timeout_stmt];
            t3 = (if sp_SafetyTier step = TierDiagnostic then t2 @ [read_only_stmt] else t2);
            t4 = t3 @ [sp_SQLTemplate step]
        in if \<not> se_exec db [''BEGIN''] (timeout_stmt step) then (t1 @ [''ROLLBACK''], Inl ErrSetTimeout)
           else if \<not> se_exec db t1 lock_timeout_stmt then (t2 @ [''ROLLBACK''], Inl ErrSetLockTimeout)
           else if sp_SafetyTier step = TierDiagnostic \<and> \<not> se_exec db t2 read_only_stmt then (t3 @ [''ROLLBACK''], Inl ErrSetReadOnly)
           else case se_query db t3 (sp_SQLTemplate step) of None \<Rightarrow> (t4 @ [''ROLLBACK''], Inl ErrQuery)
           | Some r \<Rightarrow>
               if \<not> qr_ok r then (t4 @ [''ROLLBACK''], Inl ErrRows)
               else let rows = collect_rows (ex_rowLimit e) (qr_rows r); total = int (length (qr_rows r)) in
                 (t4 @ [''ROLLBACK''],
                  Inr \<lparr>er_Columns = qr_columns r, er_Rows = rows, er_RowCount = int (length rows), er_TotalRows = total,
                       er_Truncated = (total > ex_rowLimit e), er_Duration = elapsed\<rparr>))"

subsection \<open>The resolver (\<open>resolver.go\<close>)\<close>

record ResolverContext =
  rx_HookID :: string
  rx_RootCauseKey :: string
  rx_MetricKey :: string
  rx_AdviserRule :: string
  rx_InstanceID :: string

text \<open>The store's lookup; \<open>None\<close> is an error, which the resolver treats as no match.\<close>

type_synonym binding_lookup = "string \<Rightarrow> string \<Rightarrow> Playbook option option"

definition lookup_binding :: "binding_lookup \<Rightarrow> string \<Rightarrow> string \<Rightarrow> Playbook option" where
  "lookup_binding find_pb kind key = (if key = '''' then None else case find_pb kind key of None \<Rightarrow> None | Some pb \<Rightarrow> pb)"

definition Resolve :: "binding_lookup \<Rightarrow> ResolverContext \<Rightarrow> (Playbook \<times> string) option" where
  "Resolve find_pb rc =
     (case lookup_binding find_pb ''hooks'' (rx_HookID rc) of Some pb \<Rightarrow> Some (pb, ''rca_hook'')
      | None \<Rightarrow>
     (case lookup_binding find_pb ''root_causes'' (rx_RootCauseKey rc) of Some pb \<Rightarrow> Some (pb, ''root_cause'')
      | None \<Rightarrow>
     (case lookup_binding find_pb ''metrics'' (rx_MetricKey rc) of Some pb \<Rightarrow> Some (pb, ''metric'')
      | None \<Rightarrow>
     (case lookup_binding find_pb ''adviser_rules'' (rx_AdviserRule rc) of Some pb \<Rightarrow> Some (pb, ''adviser_rule'')
      | None \<Rightarrow> None))))"

end
