(* ===== verification/PlaybookStore.thy ===== *)
theory PlaybookStore
  imports Playbook AlertModel
begin

section \<open>Playbook tables and the playbook API (\<open>internal/playbook/pgstore.go\<close>, \<open>internal/api/playbooks.go\<close>)\<close>

text \<open>
  The three tables as lists of rows, the statements of the store as operations on them, and the
  handlers. Every call to the store may fail on its own: \<open>io op\<close> tells whether the call \<open>op\<close> of the
  request succeeds, and a failed read is \<open>None\<close>. A playbook row carries its steps. Listings
  for display are left out.

  The execution of a step is split at the point where the request leaves the server to run SQL on
  the monitored instance: \<open>exec_begin\<close> up to the lock of the step, \<open>exec_finish\<close> afterwards. The
  run that \<open>exec_begin\<close> read travels in the \<open>ticket\<close> and is written back at the end, as in the
  code. \<open>handleExecuteStep\<close> is their composition.
\<close>

record Run =
  rn_ID :: int
  rn_PlaybookID :: int
  rn_PlaybookVersion :: int
  rn_InstanceID :: string
  rn_StartedBy :: string
  rn_Status :: string
  rn_CurrentStepOrder :: int
  rn_TriggerSource :: string
  rn_TriggerID :: string
  rn_StartedAt :: time
  rn_UpdatedAt :: time
  rn_CompletedAt :: "time option"
  rn_FeedbackUseful :: "bool option"
  rn_FeedbackResolved :: "bool option"
  rn_FeedbackNotes :: string

record RunStep =
  rs_RunID :: int
  rs_StepOrder :: int
  rs_Status :: string
  rs_SQLExecuted :: string
  rs_ResultJSON :: "ExecutionResult option"
  rs_ResultVerdict :: string
  rs_ResultMessage :: string
  rs_Error :: "exec_error option"
  rs_ExecutedAt :: "time option"
  rs_DurationMs :: int
  rs_ConfirmedBy :: string

record PlaybookDB =
  db_playbooks :: "Playbook list"
  db_next_playbook :: int
  db_runs :: "Run list"
  db_next_run :: int
  db_steps :: "RunStep list"

definition empty_db :: PlaybookDB where
  "empty_db = \<lparr>db_playbooks = [], db_next_playbook = 1, db_runs = [], db_next_run = 1, db_steps = []\<rparr>"

definition rs_key :: "RunStep \<Rightarrow> int \<times> int" where
  "rs_key r = (rs_RunID r, rs_StepOrder r)"

definition new_run_step :: "int \<Rightarrow> int \<Rightarrow> string \<Rightarrow> RunStep" where
  "new_run_step runID order status =
     \<lparr>rs_RunID = runID, rs_StepOrder = order, rs_Status = status, rs_SQLExecuted = '''', rs_ResultJSON = None, rs_ResultVerdict = '''',
      rs_ResultMessage = '''', rs_Error = None, rs_ExecutedAt = None, rs_DurationMs = 0, rs_ConfirmedBy = ''''\<rparr>"

datatype store_op = OpGet | OpCreate | OpUpdate | OpDelete | OpPromote | OpDeprecate | OpCreateRun | OpCreateRunStep int | OpGetRun | OpUpdateRun
  | OpUpdateRunStep | OpLock | OpReset | OpRequestApproval | OpUpdateFeedback

type_synonym outcomes = "store_op \<Rightarrow> bool"

subsection \<open>Playbooks\<close>

definition steps_unique :: "Playbook \<Rightarrow> bool" where
  "steps_unique pb \<longleftrightarrow> distinct (map sp_StepOrder (pb_Steps pb))"

text \<open>\<open>Create\<close>: the slug and the step orders are unique, or the transaction is rolled back.\<close>

definition Create_pb :: "outcomes \<Rightarrow> Playbook \<Rightarrow> PlaybookDB \<Rightarrow> (PlaybookDB \<times> int) option" where
  "Create_pb io pb db =
     (if \<not> io OpCreate \<or> pb_Slug pb \<in> pb_Slug ` set (db_playbooks db) \<or> \<not> steps_unique pb then None
      else Some (db\<lparr>db_playbooks := db_playbooks db @ [pb\<lparr>pb_ID := db_next_playbook db\<rparr>], db_next_playbook := db_next_playbook db + 1\<rparr>,
                 db_next_playbook db))"

definition with_steps :: "Playbook \<Rightarrow> Playbook" where
  "with_steps pb = pb\<lparr>pb_Steps := sort_key sp_StepOrder (pb_Steps pb)\<rparr>"

definition Get_pb :: "outcomes \<Rightarrow> int \<Rightarrow> PlaybookDB \<Rightarrow> Playbook option option" where
  "Get_pb io i db = (if \<not> io OpGet then None else Some (map_option with_steps (find (\<lambda>pb. pb_ID pb = i) (db_playbooks db))))"

definition map_playbook :: "int \<Rightarrow> (Playbook \<Rightarrow> Playbook) \<Rightarrow> PlaybookDB \<Rightarrow> PlaybookDB" where
  "map_playbook i f db = db\<lparr>db_playbooks := map (\<lambda>pb. if pb_ID pb = i then f pb else pb) (db_playbooks db)\<rparr>"

definition replace_playbook :: "Playbook \<Rightarrow> Playbook \<Rightarrow> Playbook" where
  "replace_playbook new old =
     old\<lparr>pb_Name := pb_Name new, pb_Description := pb_Description new, pb_Version := pb_Version old + 1, pb_Status := ''draft'',
         pb_Category := pb_Category new, pb_TriggerBindings := pb_TriggerBindings new, pb_EstimatedDurationMin := pb_EstimatedDurationMin new,
         pb_RequiresPermission := pb_RequiresPermission new, pb_Author := pb_Author new, pb_Steps := pb_Steps new\<rparr>"

text \<open>\<open>Update\<close> of a missing row violates the foreign key of the steps unless there are none.\<close>

definition Update_pb :: "outcomes \<Rightarrow> Playbook \<Rightarrow> PlaybookDB \<Rightarrow> PlaybookDB option" where
  "Update_pb io pb db =
     (if \<not> io OpUpdate \<or> \<not> steps_unique pb \<or> (pb_ID pb \<notin> pb_ID ` set (db_playbooks db) \<and> pb_Steps pb \<noteq> []) then None
      else Some (map_playbook (pb_ID pb) (replace_playbook pb) db))"

text \<open>\<open>Delete\<close>: runs refer to their playbook.\<close>

definition Delete_pb :: "outcomes \<Rightarrow> int \<Rightarrow> PlaybookDB \<Rightarrow> PlaybookDB option" where
  "Delete_pb io i db =
     (if \<not> io OpDelete \<or> i \<in> rn_PlaybookID ` set (db_runs db) then None
      else Some (db\<lparr>db_playbooks := filter (\<lambda>pb. pb_ID pb \<noteq> i) (db_playbooks db)\<rparr>))"

definition Promote :: "outcomes \<Rightarrow> int \<Rightarrow> PlaybookDB \<Rightarrow> PlaybookDB option" where
  "Promote io i db = (if \<not> io OpPromote then None else Some (map_playbook i (\<lambda>pb. pb\<lparr>pb_Status := ''stable''\<rparr>) db))"

definition Deprecate :: "outcomes \<Rightarrow> int \<Rightarrow> PlaybookDB \<Rightarrow> PlaybookDB option" where
  "Deprecate io i db = (if \<not> io OpDeprecate then None else Some (map_playbook i (\<lambda>pb. pb\<lparr>pb_Status := ''deprecated''\<rparr>) db))"

definition bindings_of :: "string \<Rightarrow> TriggerBindings \<Rightarrow> string list" where
  "bindings_of kind tb = (if kind = ''hooks'' then tb_Hooks tb else if kind = ''root_causes'' then tb_RootCauses tb
     else if kind = ''metrics'' then tb_Metrics tb else if kind = ''adviser_rules'' then tb_AdviserRules tb else [])"

text \<open>The stable playbook of the highest version that has the binding; the first of equals.\<close>

definition FindByTriggerBinding :: "Playbook list \<Rightarrow> string \<Rightarrow> string \<Rightarrow> Playbook option" where
  "FindByTriggerBinding pbs kind val =
     (case filter (\<lambda>pb. pb_Status pb = ''stable'' \<and> val \<in> set (bindings_of kind (pb_TriggerBindings pb))) pbs of
        [] \<Rightarrow> None
      | pb # rest \<Rightarrow> Some (with_steps (fold (\<lambda>x best. if pb_Version x > pb_Version best then x else best) rest pb)))"

definition seed_one :: "Playbook \<Rightarrow> PlaybookDB \<Rightarrow> PlaybookDB" where
  "seed_one pb db = (if pb_Slug pb \<in> pb_Slug ` set (db_playbooks db) then db
     else db\<lparr>db_playbooks := db_playbooks db @ [pb\<lparr>pb_ID := db_next_playbook db, pb_IsBuiltin := True\<rparr>], db_next_playbook := db_next_playbook db + 1\<rparr>)"

definition SeedBuiltins :: "Playbook list \<Rightarrow> PlaybookDB \<Rightarrow> PlaybookDB" where
  "SeedBuiltins pbs db = fold seed_one pbs db"

subsection \<open>Runs and their steps\<close>

definition CreateRun :: "outcomes \<Rightarrow> Run \<Rightarrow> PlaybookDB \<Rightarrow> (PlaybookDB \<times> int) option" where
  "CreateRun io run db =
     (if \<not> io OpCreateRun \<or> rn_PlaybookID run \<notin> pb_ID ` set (db_playbooks db) then None
      else Some (db\<lparr>db_runs := db_runs db @ [run\<lparr>rn_ID := db_next_run db\<rparr>], db_next_run := db_next_run db + 1\<rparr>, db_next_run db))"

definition GetRun :: "outcomes \<Rightarrow> int \<Rightarrow> PlaybookDB \<Rightarrow> Run option option" where
  "GetRun io i db = (if \<not> io OpGetRun then None
     else Some (find (\<lambda>r. rn_ID r = i \<and> rn_PlaybookID r \<in> pb_ID ` set (db_playbooks db)) (db_runs db)))"

definition UpdateRun :: "outcomes \<Rightarrow> time \<Rightarrow> Run \<Rightarrow> PlaybookDB \<Rightarrow> PlaybookDB" where
  "UpdateRun io now run db = (if \<not> io OpUpdateRun then db
     else db\<lparr>db_runs := map (\<lambda>r. if rn_ID r = rn_ID run
        then r\<lparr>rn_Status := rn_Status run, rn_CurrentStepOrder := rn_CurrentStepOrder run, rn_CompletedAt := rn_CompletedAt run, rn_UpdatedAt := now\<rparr>
        else r) (db_runs db)\<rparr>)"

definition map_step :: "int \<times> int \<Rightarrow> (RunStep \<Rightarrow> RunStep) \<Rightarrow> PlaybookDB \<Rightarrow> PlaybookDB" where
  "map_step k f db = db\<lparr>db_steps := map (\<lambda>r. if rs_key r = k then f r else r) (db_steps db)\<rparr>"

text \<open>\<open>INSERT ... ON CONFLICT DO UPDATE\<close>; the caller only logs a failure.\<close>

definition CreateRunStep :: "outcomes \<Rightarrow> RunStep \<Rightarrow> PlaybookDB \<Rightarrow> PlaybookDB" where
  "CreateRunStep io step db =
     (if \<not> io (OpCreateRunStep (rs_StepOrder step)) \<or> rs_RunID step \<notin> rn_ID ` set (db_runs db) then db
      else if rs_key step \<in> rs_key ` set (db_steps db) then map_step (rs_key step) (\<lambda>_. step) db
      else db\<lparr>db_steps := db_steps db @ [step]\<rparr>)"

definition UpdateRunStep :: "outcomes \<Rightarrow> RunStep \<Rightarrow> PlaybookDB \<Rightarrow> PlaybookDB" where
  "UpdateRunStep io step db = (if \<not> io OpUpdateRunStep then db else map_step (rs_key step) (\<lambda>_. step) db)"

definition executable :: "RunStep \<Rightarrow> bool" where
  "executable r \<longleftrightarrow> rs_Status r = ''pending'' \<or> rs_Status r = ''awaiting_confirmation'' \<or> rs_Status r = ''pending_approval''"

text \<open>The lock: the row must be executable, and becomes \<open>running\<close> in the same statement.\<close>

definition LockStepForExecution :: "outcomes \<Rightarrow> int \<Rightarrow> int \<Rightarrow> PlaybookDB \<Rightarrow> PlaybookDB option" where
  "LockStepForExecution io runID order db =
     (if \<not> io OpLock \<or> \<not> list_ex (\<lambda>r. rs_key r = (runID, order) \<and> executable r) (db_steps db) then None
      else Some (map_step (runID, order) (\<lambda>r. if executable r then r\<lparr>rs_Status := ''running''\<rparr> else r) db))"

definition ResetStepForRetry :: "outcomes \<Rightarrow> int \<Rightarrow> int \<Rightarrow> PlaybookDB \<Rightarrow> PlaybookDB option" where
  "ResetStepForRetry io runID order db =
     (if \<not> io OpReset then None
      else Some (map_step (runID, order) (\<lambda>r. if rs_Status r = ''failed'' then r\<lparr>rs_Status := ''pending'', rs_Error := None\<rparr> else r) db))"

definition RequestStepApproval :: "outcomes \<Rightarrow> int \<Rightarrow> int \<Rightarrow> PlaybookDB \<Rightarrow> PlaybookDB option" where
  "RequestStepApproval io runID order db =
     (if \<not> io OpRequestApproval then None
      else Some (map_step (runID, order)
        (\<lambda>r. if rs_Status r = ''pending'' \<or> rs_Status r = ''awaiting_confirmation'' then r\<lparr>rs_Status := ''pending_approval''\<rparr> else r) db))"

definition UpdateFeedback :: "outcomes \<Rightarrow> time \<Rightarrow> int \<Rightarrow> bool option \<Rightarrow> bool option \<Rightarrow> string \<Rightarrow> PlaybookDB \<Rightarrow> PlaybookDB option" where
  "UpdateFeedback io now runID useful resolved notes db =
     (if \<not> io OpUpdateFeedback then None
      else Some (db\<lparr>db_runs := map (\<lambda>r. if rn_ID r = runID
        then r\<lparr>rn_FeedbackUseful := useful, rn_FeedbackResolved := resolved, rn_FeedbackNotes := notes, rn_UpdatedAt := now\<rparr> else r) (db_runs db)\<rparr>))"

definition ListCompletedRunsWithoutFeedback :: "time \<Rightarrow> PlaybookDB \<Rightarrow> Run list" where
  "ListCompletedRunsWithoutFeedback since db =
     sort_key (\<lambda>r. the (rn_CompletedAt r))
       (filter (\<lambda>r. rn_Status r = ''completed'' \<and> rn_FeedbackResolved r = None \<and> (case rn_CompletedAt r of None \<Rightarrow> False | Some c \<Rightarrow> c \<ge> since))
          (db_runs db))"

text \<open>Deleting a run deletes its steps.\<close>

definition CleanOldRuns :: "time \<Rightarrow> duration \<Rightarrow> PlaybookDB \<Rightarrow> PlaybookDB \<times> int" where
  "CleanOldRuns now olderThan db =
     (let old = (\<lambda>r. case rn_CompletedAt r of None \<Rightarrow> False | Some c \<Rightarrow> c < now - olderThan);
          gone = filter old (db_runs db)
      in (db\<lparr>db_runs := filter (\<lambda>r. \<not> old r) (db_runs db),
             db_steps := filter (\<lambda>s. rs_RunID s \<notin> rn_ID ` set gone) (db_steps db)\<rparr>, int (length gone)))"

subsection \<open>Handlers\<close>

record pb_env =
  pe_enabled :: bool
  pe_instances :: "string list"
  pe_executor :: Executor
  pe_fv :: "float64 \<Rightarrow> string"

datatype pb_response =
    PError int string
  | PStatus string
  | PPlaybook Playbook
  | PResolved "(Playbook \<times> string) option"
  | PRun Run
  | PAwaitingConfirmation string
  | PAwaitingApproval
  | PManual string string
  | PConflict
  | PFailed RunStep int
  | PDone RunStep int string

definition pb_disabled :: pb_response where
  "pb_disabled = PError 503 ''PLAYBOOKS_DISABLED''"

text \<open>The value \<open>ParseInt\<close> and \<open>Atoi\<close> return when their error is ignored.\<close>

definition ParseInt_value :: "string \<Rightarrow> int" where
  "ParseInt_value s =
     (let (neg, ds) = split_sign s in
      case parse_unsigned ds of None \<Rightarrow> 0
      | Some n \<Rightarrow> (if neg then max (- (2 ^ 63)) (- n) else min (2 ^ 63 - 1) n))"

definition user_of :: "Claims option \<Rightarrow> string" where
  "user_of ctx = (case ctx of None \<Rightarrow> ''anonymous'' | Some c \<Rightarrow> c_Username c)"

definition handleCreatePlaybook :: "pb_env \<Rightarrow> outcomes \<Rightarrow> Claims option \<Rightarrow> Playbook option \<Rightarrow> PlaybookDB \<Rightarrow> PlaybookDB \<times> pb_response" where
  "handleCreatePlaybook env io ctx body db =
     (if \<not> pe_enabled env then (db, pb_disabled)
      else case body of None \<Rightarrow> (db, PError 400 ''INVALID_BODY'')
      | Some pb0 \<Rightarrow>
          let pb1 = pb0\<lparr>pb_Status := ''draft'', pb_Version := 1\<rparr>;
              pb = (case ctx of None \<Rightarrow> pb1 | Some c \<Rightarrow> pb1\<lparr>pb_Author := c_Username c\<rparr>)
          in case Create_pb io pb db of None \<Rightarrow> (db, PError 500 ''CREATE_ERROR'')
             | Some (db', i) \<Rightarrow> (db', PPlaybook (pb\<lparr>pb_ID := i\<rparr>)))"

definition handleUpdatePlaybook :: "pb_env \<Rightarrow> outcomes \<Rightarrow> Claims option \<Rightarrow> string \<Rightarrow> Playbook option \<Rightarrow> PlaybookDB \<Rightarrow> PlaybookDB \<times> pb_response" where
  "handleUpdatePlaybook env io ctx idStr body db =
     (if \<not> pe_enabled env then (db, pb_disabled)
      else case ParseInt idStr of None \<Rightarrow> (db, PError 400 ''INVALID_ID'')
      | Some i \<Rightarrow>
          (case body of None \<Rightarrow> (db, PError 400 ''INVALID_BODY'')
           | Some pb0 \<Rightarrow>
               let pb1 = pb0\<lparr>pb_ID := i\<rparr>; pb = (case ctx of None \<Rightarrow> pb1 | Some c \<Rightarrow> pb1\<lparr>pb_Author := c_Username c\<rparr>)
               in case Update_pb io pb db of None \<Rightarrow> (db, PError 500 ''UPDATE_ERROR'') | Some db' \<Rightarrow> (db', PStatus ''updated'')))"

definition handleDeletePlaybook :: "pb_env \<Rightarrow> outcomes \<Rightarrow> string \<Rightarrow> PlaybookDB \<Rightarrow> PlaybookDB \<times> pb_response" where
  "handleDeletePlaybook env io idStr db =
     (if \<not> pe_enabled env then (db, pb_disabled)
      else case ParseInt idStr of None \<Rightarrow> (db, PError 400 ''INVALID_ID'')
      | Some i \<Rightarrow>
          (case Get_pb io i db of None \<Rightarrow> (db, PError 500 ''GET_ERROR'')
           | Some None \<Rightarrow> (db, PError 404 ''NOT_FOUND'')
           | Some (Some pb) \<Rightarrow>
               if pb_IsBuiltin pb then (db, PError 403 ''BUILTIN'')
               else case Delete_pb io i db of None \<Rightarrow> (db, PError 500 ''DELETE_ERROR'') | Some db' \<Rightarrow> (db', PStatus ''deleted'')))"

definition handlePromotePlaybook :: "pb_env \<Rightarrow> outcomes \<Rightarrow> string \<Rightarrow> PlaybookDB \<Rightarrow> PlaybookDB \<times> pb_response" where
  "handlePromotePlaybook env io idStr db =
     (if \<not> pe_enabled env then (db, pb_disabled)
      else case ParseInt idStr of None \<Rightarrow> (db, PError 400 ''INVALID_ID'')
      | Some i \<Rightarrow> (case Promote io i db of None \<Rightarrow> (db, PError 500 ''PROMOTE_ERROR'') | Some db' \<Rightarrow> (db', PStatus ''promoted'')))"

definition handleDeprecatePlaybook :: "pb_env \<Rightarrow> outcomes \<Rightarrow> string \<Rightarrow> PlaybookDB \<Rightarrow> PlaybookDB \<times> pb_response" where
  "handleDeprecatePlaybook env io idStr db =
     (if \<not> pe_enabled env then (db, pb_disabled)
      else case ParseInt idStr of None \<Rightarrow> (db, PError 400 ''INVALID_ID'')
      | Some i \<Rightarrow> (case Deprecate io i db of None \<Rightarrow> (db, PError 500 ''DEPRECATE_ERROR'') | Some db' \<Rightarrow> (db', PStatus ''deprecated'')))"

definition handleResolvePlaybook :: "pb_env \<Rightarrow> binding_lookup \<Rightarrow> ResolverContext \<Rightarrow> pb_response" where
  "handleResolvePlaybook env find_pb rc = (if \<not> pe_enabled env then pb_disabled else PResolved (Resolve find_pb rc))"

definition new_run :: "time \<Rightarrow> Playbook \<Rightarrow> string \<Rightarrow> Claims option \<Rightarrow> string \<Rightarrow> string \<Rightarrow> Run" where
  "new_run now pb instanceID ctx source trigger =
     \<lparr>rn_ID = 0, rn_PlaybookID = pb_ID pb, rn_PlaybookVersion = pb_Version pb, rn_InstanceID = instanceID, rn_StartedBy = user_of ctx,
      rn_Status = ''in_progress'', rn_CurrentStepOrder = 1, rn_TriggerSource = source, rn_TriggerID = trigger, rn_StartedAt = now,
      rn_UpdatedAt = now, rn_CompletedAt = None, rn_FeedbackUseful = None, rn_FeedbackResolved = None, rn_FeedbackNotes = ''''\<rparr>"

definition handleStartRun :: "pb_env \<Rightarrow> outcomes \<Rightarrow> time \<Rightarrow> Claims option \<Rightarrow> string \<Rightarrow> string \<Rightarrow> string \<times> string \<Rightarrow> PlaybookDB \<Rightarrow> PlaybookDB \<times> pb_response" where
  "handleStartRun env io now ctx instanceID pbStr trigger db =
     (if \<not> pe_enabled env then (db, pb_disabled)
      else if instanceID \<notin> set (pe_instances env) then (db, PError 404 ''INSTANCE_NOT_FOUND'')
      else case ParseInt pbStr of None \<Rightarrow> (db, PError 400 ''INVALID_ID'')
      | Some i \<Rightarrow>
          (case Get_pb io i db of None \<Rightarrow> (db, PError 404 ''PLAYBOOK_NOT_FOUND'')
           | Some None \<Rightarrow> (db, PError 404 ''PLAYBOOK_NOT_FOUND'')
           | Some (Some pb) \<Rightarrow>
               let run = new_run now pb instanceID ctx (fst trigger) (snd trigger) in
               (case CreateRun io run db of None \<Rightarrow> (db, PError 500 ''CREATE_RUN_ERROR'')
                | Some (db1, runID) \<Rightarrow>
                    (fold (\<lambda>step d. CreateRunStep io (new_run_step runID (sp_StepOrder step) ''pending'') d) (pb_Steps pb) db1,
                     PRun (run\<lparr>rn_ID := runID\<rparr>)))))"

record ticket =
  tk_run :: Run
  tk_step :: Step
  tk_claims :: "Claims option"

definition tk_key :: "ticket \<Rightarrow> int \<times> int" where
  "tk_key t = (rn_ID (tk_run t), sp_StepOrder (tk_step t))"

definition can_manage :: "Claims option \<Rightarrow> bool" where
  "can_manage ctx = (case ctx of None \<Rightarrow> False | Some c \<Rightarrow> HasPermission (c_Role c) PermInstanceManagement)"

text \<open>What the tier of a step allows: an answer to the client, or to go on to the lock.\<close>

definition tier_gate :: "outcomes \<Rightarrow> time \<Rightarrow> Claims option \<Rightarrow> bool \<Rightarrow> int \<Rightarrow> Step \<Rightarrow> PlaybookDB \<Rightarrow> (PlaybookDB \<times> pb_response) option" where
  "tier_gate io now ctx confirmed runID step db =
     (if sp_SafetyTier step = TierDiagnostic then None
      else if sp_SafetyTier step = TierRemediate then
        (if \<not> confirmed then Some (db, PAwaitingConfirmation (sp_SQLTemplate step)) else None)
      else if sp_SafetyTier step = TierDangerous then
        (if \<not> can_manage ctx then Some (db, PAwaitingApproval) else None)
      else if sp_SafetyTier step = TierExternal then
        Some (UpdateRunStep io ((new_run_step runID (sp_StepOrder step) ''completed'')\<lparr>rs_ExecutedAt := Some now\<rparr>) db,
              PManual (sp_ManualInstructions step) (sp_EscalationContact step))
      else None)"

definition exec_begin :: "pb_env \<Rightarrow> outcomes \<Rightarrow> time \<Rightarrow> Claims option \<Rightarrow> string \<Rightarrow> string \<Rightarrow> bool \<Rightarrow> PlaybookDB
    \<Rightarrow> (PlaybookDB \<times> pb_response) + (PlaybookDB \<times> ticket)" where
  "exec_begin env io now ctx runStr stepStr confirmed db =
     (if \<not> pe_enabled env then Inl (db, pb_disabled)
      else case ParseInt runStr of None \<Rightarrow> Inl (db, PError 400 ''INVALID_ID'')
      | Some runID \<Rightarrow>
     (case ParseInt stepStr of None \<Rightarrow> Inl (db, PError 400 ''INVALID_STEP'')
      | Some order \<Rightarrow>
     (case Option.bind (GetRun io runID db) id of None \<Rightarrow> Inl (db, PError 404 ''RUN_NOT_FOUND'')
      | Some run \<Rightarrow>
     (case Option.bind (Get_pb io (rn_PlaybookID run) db) id of None \<Rightarrow> Inl (db, PError 404 ''PLAYBOOK_NOT_FOUND'')
      | Some pb \<Rightarrow>
     (case find (\<lambda>s. sp_StepOrder s = order) (pb_Steps pb) of None \<Rightarrow> Inl (db, PError 404 ''STEP_NOT_FOUND'')
      | Some step \<Rightarrow>
     (case tier_gate io now ctx confirmed runID step db of Some r \<Rightarrow> Inl r
      | None \<Rightarrow>
     (case LockStepForExecution io runID order db of None \<Rightarrow> Inl (db, PConflict)
      | Some db' \<Rightarrow> Inr (db', \<lparr>tk_run = run, tk_step = step, tk_claims = ctx\<rparr>))))))))"

definition failed_step :: "time \<Rightarrow> ticket \<Rightarrow> exec_error \<Rightarrow> RunStep" where
  "failed_step now t err =
     (new_run_step (rn_ID (tk_run t)) (sp_StepOrder (tk_step t)) ''failed'')\<lparr>rs_Error := Some err, rs_SQLExecuted := sp_SQLTemplate (tk_step t),
       rs_ExecutedAt := Some now\<rparr>"

definition completed_step :: "time \<Rightarrow> ticket \<Rightarrow> ExecutionResult \<Rightarrow> string \<Rightarrow> string \<Rightarrow> RunStep" where
  "completed_step now t result verdict message =
     (new_run_step (rn_ID (tk_run t)) (sp_StepOrder (tk_step t)) ''completed'')\<lparr>rs_SQLExecuted := sp_SQLTemplate (tk_step t),
       rs_ResultJSON := Some result, rs_ResultVerdict := verdict, rs_ResultMessage := message, rs_ExecutedAt := Some now,
       rs_DurationMs := er_Duration result, rs_ConfirmedBy := user_of (tk_claims t)\<rparr>"

definition exec_finish :: "pb_env \<Rightarrow> outcomes \<Rightarrow> time \<Rightarrow> exec_error + ExecutionResult \<Rightarrow> ticket \<Rightarrow> PlaybookDB \<Rightarrow> PlaybookDB \<times> pb_response" where
  "exec_finish env io now outcome t db =
     (case outcome of
        Inl err \<Rightarrow> (UpdateRunStep io (failed_step now t err) db, PFailed (failed_step now t err) (sp_StepOrder (tk_step t)))
      | Inr result \<Rightarrow>
          let (verdict, message) = Interpret (pe_fv env) (sp_ResultInterpretation (tk_step t)) (er_Columns result) (er_Rows result) (er_RowCount result);
              nextStep = EvaluateBranch (tk_step t) verdict (er_Columns result) (er_Rows result);
              rs = completed_step now t result verdict message;
              run1 = (tk_run t)\<lparr>rn_CurrentStepOrder := nextStep\<rparr>;
              run2 = (if nextStep = 0 then run1\<lparr>rn_Status := ''completed'', rn_CompletedAt := Some now\<rparr> else run1)
          in (UpdateRun io now run2 (UpdateRunStep io rs db), PDone rs nextStep (rn_Status run2)))"

definition handleExecuteStep :: "pb_env \<Rightarrow> outcomes \<Rightarrow> time \<Rightarrow> time \<Rightarrow> (string \<Rightarrow> Session) \<Rightarrow> int \<Rightarrow> Claims option \<Rightarrow> string \<Rightarrow> string \<Rightarrow> bool
    \<Rightarrow> PlaybookDB \<Rightarrow> PlaybookDB \<times> pb_response" where
  "handleExecuteStep env io now1 now2 sessions elapsed ctx runStr stepStr confirmed db =
     (case exec_begin env io now1 ctx runStr stepStr confirmed db of
        Inl r \<Rightarrow> r
      | Inr (db', t) \<Rightarrow>
          exec_finish env io now2 (snd (ExecuteStep (pe_executor env) (sessions (rn_InstanceID (tk_run t))) elapsed (tk_step t))) t db')"

definition handleConfirmStep :: "PlaybookDB \<Rightarrow> PlaybookDB \<times> pb_response" where
  "handleConfirmStep db = (db, PStatus ''confirmed'')"

definition handleApproveStep :: "pb_env \<Rightarrow> outcomes \<Rightarrow> string \<Rightarrow> string \<Rightarrow> PlaybookDB \<Rightarrow> PlaybookDB \<times> pb_response" where
  "handleApproveStep env io runStr stepStr db =
     (if \<not> pe_enabled env then (db, pb_disabled)
      else (case ResetStepForRetry io (ParseInt_value runStr) (ParseInt_value stepStr) db of None \<Rightarrow> db | Some db' \<Rightarrow> db', PStatus ''approved''))"

definition handleRequestApproval :: "pb_env \<Rightarrow> outcomes \<Rightarrow> string \<Rightarrow> string \<Rightarrow> PlaybookDB \<Rightarrow> PlaybookDB \<times> pb_response" where
  "handleRequestApproval env io runStr stepStr db =
     (if \<not> pe_enabled env then (db, pb_disabled)
      else case RequestStepApproval io (ParseInt_value runStr) (ParseInt_value stepStr) db of
        None \<Rightarrow> (db, PError 500 ''APPROVAL_ERROR'') | Some db' \<Rightarrow> (db', PStatus ''pending_approval''))"

definition handleRetryStep :: "pb_env \<Rightarrow> outcomes \<Rightarrow> string \<Rightarrow> string \<Rightarrow> PlaybookDB \<Rightarrow> PlaybookDB \<times> pb_response" where
  "handleRetryStep env io runStr stepStr db =
     (if \<not> pe_enabled env then (db, pb_disabled)
      else case ResetStepForRetry io (ParseInt_value runStr) (ParseInt_value stepStr) db of
        None \<Rightarrow> (db, PError 500 ''RETRY_ERROR'') | Some db' \<Rightarrow> (db', PStatus ''pending''))"

definition handleSkipStep :: "pb_env \<Rightarrow> outcomes \<Rightarrow> time \<Rightarrow> string \<Rightarrow> string \<Rightarrow> PlaybookDB \<Rightarrow> PlaybookDB \<times> pb_response" where
  "handleSkipStep env io now runStr stepStr db =
     (if \<not> pe_enabled env then (db, pb_disabled)
      else (UpdateRunStep io ((new_run_step (ParseInt_value runStr) (ParseInt_value stepStr) ''skipped'')\<lparr>rs_ExecutedAt := Some now\<rparr>) db, PStatus ''skipped''))"

definition handleAbandonRun :: "pb_env \<Rightarrow> outcomes \<Rightarrow> time \<Rightarrow> string \<Rightarrow> PlaybookDB \<Rightarrow> PlaybookDB \<times> pb_response" where
  "handleAbandonRun env io now runStr db =
     (if \<not> pe_enabled env then (db, pb_disabled)
      else case Option.bind (GetRun io (ParseInt_value runStr) db) id of None \<Rightarrow> (db, PError 404 ''NOT_FOUND'')
      | Some run \<Rightarrow>
          let db1 = UpdateRun io now (run\<lparr>rn_Status := ''abandoned'', rn_CompletedAt := Some now\<rparr>) db
          in (case UpdateFeedback io now (ParseInt_value runStr) None (Some False) ''run abandoned'' db1 of None \<Rightarrow> db1 | Some db2 \<Rightarrow> db2,
              PStatus ''abandoned''))"

definition handleSubmitFeedback :: "pb_env \<Rightarrow> outcomes \<Rightarrow> time \<Rightarrow> string \<Rightarrow> (bool option \<times> bool option \<times> string) option \<Rightarrow> PlaybookDB \<Rightarrow> PlaybookDB \<times> pb_response" where
  "handleSubmitFeedback env io now runStr body db =
     (if \<not> pe_enabled env then (db, pb_disabled)
      else case body of None \<Rightarrow> (db, PError 400 ''INVALID_BODY'')
      | Some (useful, resolved, notes) \<Rightarrow>
          (case UpdateFeedback io now (ParseInt_value runStr) useful resolved notes db of
             None \<Rightarrow> (db, PError 500 ''FEEDBACK_ERROR'') | Some db' \<Rightarrow> (db', PStatus ''feedback_recorded'')))"

subsection \<open>The feedback worker (\<open>feedback_worker.go\<close>)\<close>

definition worker_run :: "outcomes \<Rightarrow> duration \<Rightarrow> time \<Rightarrow> AlertEvent list option option \<Rightarrow> Run \<Rightarrow> PlaybookDB \<Rightarrow> PlaybookDB" where
  "worker_run io feedbackWindow now unresolved run db =
     (case rn_CompletedAt run of None \<Rightarrow> db
      | Some c \<Rightarrow>
          if now - c > feedbackWindow then db
          else if rn_TriggerSource run = ''alert'' \<and> rn_TriggerID run \<noteq> '''' then
            (case unresolved of None \<Rightarrow> db | Some None \<Rightarrow> db
             | Some (Some evs) \<Rightarrow>
                 if list_ex (\<lambda>ae. ev_RuleID ae = rn_TriggerID run) evs then db
                 else case UpdateFeedback io now (rn_ID run) None (Some True) ''auto-resolved after playbook completion'' db of None \<Rightarrow> db | Some db' \<Rightarrow> db')
          else db)"

text \<open>\<open>unresolved\<close> is the answer of the alert history: \<open>None\<close> without one, \<open>Some None\<close> on an error.\<close>

definition worker_evaluate :: "outcomes \<Rightarrow> duration \<Rightarrow> time \<Rightarrow> AlertEvent list option option \<Rightarrow> PlaybookDB \<Rightarrow> PlaybookDB" where
  "worker_evaluate io window0 now unresolved db =
     (let feedbackWindow = (if window0 = 0 then 5 * Minute else window0) in
      fold (worker_run io feedbackWindow now unresolved) (ListCompletedRunsWithoutFeedback (now - feedbackWindow * 2) db) db)"

end
