(* ===== verification/PlaybookSeeds.thy ===== *)
theory PlaybookSeeds
  imports PlaybookStore
begin

section \<open>The built-in playbooks (\<open>internal/playbook/seed*.go\<close>)\<close>

text \<open>
  The ten playbooks \<open>BuiltinPlaybooks\<close> returns, with all steps, rules and branches. Texts are byte
  sequences (UTF-8), as in Go.
\<close>

definition mk_rule :: "string \<Rightarrow> string \<Rightarrow> sqlval \<Rightarrow> string \<Rightarrow> string \<Rightarrow> string \<Rightarrow> InterpretationRule" where
  "mk_rule column operator v verdict message scope =
     \<lparr>ir_Column = column, ir_Operator = operator, ir_Value = v, ir_Verdict = verdict, ir_Message = message, ir_Scope = scope\<rparr>"

definition mk_spec :: "InterpretationRule list \<Rightarrow> RowCountRule list \<Rightarrow> string \<Rightarrow> string \<Rightarrow> InterpretationSpec" where
  "mk_spec rules counts verdict message =
     \<lparr>is_Rules = rules, is_RowCountRules = counts, is_DefaultVerdict = verdict, is_DefaultMessage = message\<rparr>"

definition mk_branch :: "string \<Rightarrow> string \<Rightarrow> sqlval \<Rightarrow> string \<Rightarrow> int \<Rightarrow> string \<Rightarrow> BranchRule" where
  "mk_branch column operator v verdict goto reason =
     \<lparr>br_Condition = \<lparr>bc_Column = column, bc_Operator = operator, bc_Value = v, bc_Verdict = verdict\<rparr>, br_GotoStep = goto, br_Reason = reason\<rparr>"

definition mk_step :: "int \<Rightarrow> string \<Rightarrow> string \<Rightarrow> string \<Rightarrow> string \<Rightarrow> int \<Rightarrow> InterpretationSpec \<Rightarrow> BranchRule list \<Rightarrow> int option \<Rightarrow> string \<Rightarrow> string \<Rightarrow> Step" where
  "mk_step order name description sql tier timeout spec branches nxt manual escalation =
     \<lparr>sp_StepOrder = order, sp_Name = name, sp_Description = description, sp_SQLTemplate = sql, sp_SafetyTier = tier, sp_TimeoutSeconds = timeout,
      sp_ResultInterpretation = spec, sp_BranchRules = branches, sp_NextStepDefault = nxt, sp_ManualInstructions = manual, sp_EscalationContact = escalation\<rparr>"

definition walArchiveFailurePlaybook_step1 :: Step where
  "walArchiveFailurePlaybook_step1 = mk_step 1 ''Check archive status''
     ''Query pg_stat_archiver to check for archiving failures.''
     ''SELECT archived_count, failed_count, last_archived_wal, last_failed_wal, last_archived_time, last_failed_time FROM pg_stat_archiver''
     TierDiagnostic 5
     (mk_spec
        [mk_rule ''failed_count'' ''>'' (VInt 0) ''red''
           ''{{failed_count}} archive failures detected. Last failure: {{last_failed_time}}'' '''',
         mk_rule ''failed_count'' ''=='' (VInt 0) ''green''
           (''No archive failures '' @ [CHR 0xE2, CHR 0x80, CHR 0x94] @ '' archiving is healthy'') '''']
        [] ''yellow'' ''Unable to determine archive status'')
     [mk_branch ''failed_count'' ''>'' (VInt 0) '''' 2
           (''Failures detected '' @ [CHR 0xE2, CHR 0x80, CHR 0x94] @ '' check WAL accumulation''),
         mk_branch '''' '''' (VNull) ''green'' 5
           (''Archiving healthy '' @ [CHR 0xE2, CHR 0x80, CHR 0x94] @ '' verify no residual issues'')]
     (Some 2)
     ''''
     ''''"

definition walArchiveFailurePlaybook_step2 :: Step where
  "walArchiveFailurePlaybook_step2 = mk_step 2 ''Check WAL file accumulation''
     ''Count WAL files in pg_wal directory. Normal is 10-50 files. Above 100 indicates a backlog.''
     ''SELECT count(*) AS wal_file_count, pg_size_pretty(sum(size)) AS total_wal_size FROM pg_ls_waldir()''
     TierDiagnostic 10
     (mk_spec
        [mk_rule ''wal_file_count'' ''>'' (VInt 500) ''red''
           ''CRITICAL: {{wal_file_count}} WAL files accumulated ({{total_wal_size}}). Disk exhaustion imminent!'' '''',
         mk_rule ''wal_file_count'' ''>'' (VInt 100) ''yellow''
           ''WARNING: {{wal_file_count}} WAL files ({{total_wal_size}}). Archiving is falling behind.'' '''',
         mk_rule ''wal_file_count'' ''<='' (VInt 100) ''green''
           ''WAL file count normal: {{wal_file_count}} files ({{total_wal_size}})'' '''']
        [] ''yellow'' '''')
     [mk_branch ''wal_file_count'' ''>'' (VInt 500) '''' 4
           (''Emergency '' @ [CHR 0xE2, CHR 0x80, CHR 0x94] @ '' escalate immediately'')]
     (Some 3)
     ''''
     ''''"

definition walArchiveFailurePlaybook_step3 :: Step where
  "walArchiveFailurePlaybook_step3 = mk_step 3 ''Check archive_command configuration''
     ''Verify the archive_command setting to identify the archive destination.''
     (''SELECT count(*) AS setting_count, max(CASE WHEN name='' @ [CHR 0x27] @ ''archive_mode'' @ [CHR 0x27] @ '' THEN setting END) AS archive_mode, max(CASE WHEN name='' @ [CHR 0x27] @ ''archive_command'' @ [CHR 0x27] @ '' THEN setting END) AS archive_command FROM pg_settings WHERE name IN ('' @ [CHR 0x27] @ ''archive_mode'' @ [CHR 0x27] @ '', '' @ [CHR 0x27] @ ''archive_command'' @ [CHR 0x27] @ '', '' @ [CHR 0x27] @ ''archive_library'' @ [CHR 0x27] @ '', '' @ [CHR 0x27] @ ''archive_timeout'' @ [CHR 0x27] @ '')'')
     TierDiagnostic 5
     (mk_spec
        []
        [] ''yellow'' ''Review the archive_command output. The destination path/host may be unreachable or full.'')
     []
     (Some 4)
     ''''
     ''''"

definition walArchiveFailurePlaybook_step4 :: Step where
  "walArchiveFailurePlaybook_step4 = mk_step 4 ''Emergency: Contact infrastructure team''
     ''WAL accumulation indicates the archive target is unavailable. This is typically a storage/network issue outside PostgreSQL.''
     ''''
     TierExternal 0
     (mk_spec [] [] '''' '''')
     []
     (Some 5)
     (''1. Check the archive target server/storage for disk space.'' @ [CHR 0x0A] @ ''2. Verify network connectivity to the archive destination.'' @ [CHR 0x0A] @ ''3. If using pg_basebackup or barman, check its logs.'' @ [CHR 0x0A] @ ''4. If disk is full on the archive target, free space immediately.'' @ [CHR 0x0A] @ ''5. After fixing, verify: SELECT * FROM pg_stat_archiver; -- failed_count should stop increasing.'')
     ''Infrastructure team / Storage admin''"

definition walArchiveFailurePlaybook_step5 :: Step where
  "walArchiveFailurePlaybook_step5 = mk_step 5 ''Verify recovery''
     ''After the archive target is restored, verify archiving has resumed.''
     ''SELECT archived_count, failed_count, last_archived_wal, last_archived_time, NOW() - last_archived_time AS time_since_last_archive FROM pg_stat_archiver''
     TierDiagnostic 5
     (mk_spec
        [mk_rule ''failed_count'' ''=='' (VInt 0) ''green''
           (''Archiving recovered '' @ [CHR 0xE2, CHR 0x80, CHR 0x94] @ '' no more failures'') '''']
        [] ''yellow'' ''Archiving may still be catching up. Re-run this step in a few minutes.'')
     []
     (None)
     ''''
     ''''"

definition walArchiveFailurePlaybook :: Playbook where
  "walArchiveFailurePlaybook = \<lparr>pb_ID = 0, pb_Slug = ''wal-archive-failure'', pb_Name = ''WAL Archive Failure'',
     pb_Description = ''Diagnoses and helps resolve WAL archiving failures that can lead to disk exhaustion and database shutdown.'',
     pb_Version = 1, pb_Status = ''stable'', pb_Category = ''storage'',
     pb_TriggerBindings = \<lparr>tb_Hooks = [''remediation.wal_archive''], tb_RootCauses = [''root_cause.wal_accumulation''], tb_Metrics = [''pg.server.archive_fail_count''], tb_AdviserRules = []\<rparr>,
     pb_EstimatedDurationMin = Some 10, pb_RequiresPermission = ''view_all'', pb_Author = ''pgpulse'', pb_IsBuiltin = True,
     pb_Steps = [walArchiveFailurePlaybook_step1, walArchiveFailurePlaybook_step2, walArchiveFailurePlaybook_step3, walArchiveFailurePlaybook_step4, walArchiveFailurePlaybook_step5]\<rparr>"

definition replicationLagPlaybook_step1 :: Step where
  "replicationLagPlaybook_step1 = mk_step 1 ''Check replication status''
     ''Query pg_stat_replication to see lag for each replica.''
     ''SELECT count(*) AS replica_count, max(pg_wal_lsn_diff(pg_current_wal_insert_lsn(), flush_lsn)) AS max_lag_bytes, max(extract(epoch FROM replay_lag)) AS max_replay_lag_sec FROM pg_stat_replication''
     TierDiagnostic 5
     (mk_spec
        [mk_rule ''max_lag_bytes'' ''>'' (VInt 1073741824) ''red''
           ''CRITICAL: Max replication lag is {{max_lag_bytes}} bytes (>1GB)'' '''',
         mk_rule ''max_lag_bytes'' ''>'' (VInt 104857600) ''yellow''
           ''WARNING: Max replication lag is {{max_lag_bytes}} bytes (>100MB)'' '''',
         mk_rule ''replica_count'' ''=='' (VInt 0) ''yellow''
           ''No replicas connected to this primary'' '''']
        [] ''green'' ''Replication lag is within normal bounds'')
     [mk_branch '''' '''' (VNull) ''red'' 2
           (''High lag '' @ [CHR 0xE2, CHR 0x80, CHR 0x94] @ '' investigate replication slots'')]
     (Some 2)
     ''''
     ''''"

definition replicationLagPlaybook_step2 :: Step where
  "replicationLagPlaybook_step2 = mk_step 2 ''Check replication slots''
     ''Identify inactive or lagging replication slots that may be retaining WAL.''
     ''SELECT count(*) AS total_slots, count(*) FILTER (WHERE NOT active) AS inactive_slots, max(CASE WHEN NOT active THEN pg_wal_lsn_diff(pg_current_wal_insert_lsn(), restart_lsn) END) AS max_inactive_lag FROM pg_replication_slots''
     TierDiagnostic 5
     (mk_spec
        [mk_rule ''inactive_slots'' ''>'' (VInt 0) ''red''
           (''{{inactive_slots}} inactive replication slot(s) found '' @ [CHR 0xE2, CHR 0x80, CHR 0x94] @ '' these retain WAL and cause disk growth'') '''']
        [] ''green'' ''All replication slots are active'')
     []
     (Some 3)
     ''''
     ''''"

definition replicationLagPlaybook_step3 :: Step where
  "replicationLagPlaybook_step3 = mk_step 3 ''Check WAL accumulation from lag''
     ''Measure WAL directory size to assess disk pressure from replication lag.''
     ''SELECT count(*) AS wal_file_count, pg_size_pretty(sum(size)) AS total_wal_size FROM pg_ls_waldir()''
     TierDiagnostic 10
     (mk_spec
        [mk_rule ''wal_file_count'' ''>'' (VInt 200) ''red''
           (''{{wal_file_count}} WAL files retained ({{total_wal_size}}) '' @ [CHR 0xE2, CHR 0x80, CHR 0x94] @ '' disk exhaustion risk'') '''',
         mk_rule ''wal_file_count'' ''>'' (VInt 50) ''yellow''
           (''{{wal_file_count}} WAL files '' @ [CHR 0xE2, CHR 0x80, CHR 0x94] @ '' above normal but manageable'') '''']
        [] ''green'' ''WAL file count is normal'')
     []
     (Some 4)
     ''''
     ''''"

definition replicationLagPlaybook_step4 :: Step where
  "replicationLagPlaybook_step4 = mk_step 4 ''Escalation: Network / replica investigation''
     ''Replication lag may be caused by network issues, replica load, or storage problems on the replica.''
     ''''
     TierExternal 0
     (mk_spec [] [] '''' '''')
     []
     (None)
     (''1. Check network latency between primary and replica hosts.'' @ [CHR 0x0A] @ ''2. Verify replica is running and accepting connections.'' @ [CHR 0x0A] @ ''3. Check replica'' @ [CHR 0x27] @ ''s I/O subsystem for saturation.'' @ [CHR 0x0A] @ ''4. If inactive slots exist, consider dropping them: SELECT pg_drop_replication_slot('' @ [CHR 0x27] @ ''slot_name'' @ [CHR 0x27] @ '');'' @ [CHR 0x0A] @ ''5. Monitor pg_stat_replication for improvement.'')
     ''DBA / Infrastructure team''"

definition replicationLagPlaybook :: Playbook where
  "replicationLagPlaybook = \<lparr>pb_ID = 0, pb_Slug = ''replication-lag'', pb_Name = ''Replication Lag Investigation'',
     pb_Description = ''Investigates replication lag causes including WAL sender issues, slot retention, and network problems.'',
     pb_Version = 1, pb_Status = ''stable'', pb_Category = ''replication'',
     pb_TriggerBindings = \<lparr>tb_Hooks = [''remediation.replication_lag''], tb_RootCauses = [''root_cause.network_issue'', ''root_cause.inactive_replication_slot''], tb_Metrics = [''pg.replication.lag_bytes''], tb_AdviserRules = []\<rparr>,
     pb_EstimatedDurationMin = Some 8, pb_RequiresPermission = ''view_all'', pb_Author = ''pgpulse'', pb_IsBuiltin = True,
     pb_Steps = [replicationLagPlaybook_step1, replicationLagPlaybook_step2, replicationLagPlaybook_step3, replicationLagPlaybook_step4]\<rparr>"

definition connectionSaturationPlaybook_step1 :: Step where
  "connectionSaturationPlaybook_step1 = mk_step 1 ''Check connection utilization''
     ''Compare current connections against max_connections setting.''
     (''SELECT count(*) AS total_connections, (SELECT setting::int FROM pg_settings WHERE name='' @ [CHR 0x27] @ ''max_connections'' @ [CHR 0x27] @ '') AS max_connections, round(100.0 * count(*) / (SELECT setting::int FROM pg_settings WHERE name='' @ [CHR 0x27] @ ''max_connections'' @ [CHR 0x27] @ ''), 1) AS used_pct FROM pg_stat_activity WHERE pid != pg_backend_pid()'')
     TierDiagnostic 5
     (mk_spec
        [mk_rule ''used_pct'' ''>'' (VInt 90) ''red''
           ''CRITICAL: {{used_pct}}% connections used ({{total_connections}}/{{max_connections}})'' '''',
         mk_rule ''used_pct'' ''>'' (VInt 70) ''yellow''
           ''WARNING: {{used_pct}}% connections used ({{total_connections}}/{{max_connections}})'' '''']
        [] ''green'' ''Connection utilization is within normal bounds'')
     []
     (Some 2)
     ''''
     ''''"

definition connectionSaturationPlaybook_step2 :: Step where
  "connectionSaturationPlaybook_step2 = mk_step 2 ''Check connections by state''
     ''Break down connections by state to identify idle-in-transaction bloat.''
     (''SELECT count(*) AS total, count(*) FILTER (WHERE state='' @ [CHR 0x27] @ ''active'' @ [CHR 0x27] @ '') AS active, count(*) FILTER (WHERE state='' @ [CHR 0x27] @ ''idle'' @ [CHR 0x27] @ '') AS idle, count(*) FILTER (WHERE state='' @ [CHR 0x27] @ ''idle in transaction'' @ [CHR 0x27] @ '') AS idle_in_transaction, max(extract(epoch FROM now()-state_change)) FILTER (WHERE state='' @ [CHR 0x27] @ ''idle in transaction'' @ [CHR 0x27] @ '') AS max_idle_tx_sec FROM pg_stat_activity WHERE pid != pg_backend_pid()'')
     TierDiagnostic 5
     (mk_spec
        [mk_rule ''idle_in_transaction'' ''>'' (VInt 10) ''red''
           (''{{idle_in_transaction}} idle-in-transaction sessions found (max age: {{max_idle_tx_sec}}s) '' @ [CHR 0xE2, CHR 0x80, CHR 0x94] @ '' these hold locks and block vacuum'') '''',
         mk_rule ''idle_in_transaction'' ''>'' (VInt 3) ''yellow''
           (''{{idle_in_transaction}} idle-in-transaction sessions '' @ [CHR 0xE2, CHR 0x80, CHR 0x94] @ '' consider idle_in_transaction_session_timeout'') '''']
        [] ''green'' ''Connection state distribution looks healthy'')
     [mk_branch ''idle_in_transaction'' ''>'' (VInt 10) '''' 3
           (''Excessive idle-in-transaction '' @ [CHR 0xE2, CHR 0x80, CHR 0x94] @ '' check application patterns'')]
     (Some 3)
     ''''
     ''''"

definition connectionSaturationPlaybook_step3 :: Step where
  "connectionSaturationPlaybook_step3 = mk_step 3 ''Check connections by application''
     ''Identify which applications consume the most connections.''
     (''SELECT COALESCE(application_name, '' @ [CHR 0x27] @ ''unknown'' @ [CHR 0x27] @ '') AS app_name, count(*) AS conn_count, count(*) FILTER (WHERE state='' @ [CHR 0x27] @ ''idle in transaction'' @ [CHR 0x27] @ '') AS idle_in_tx FROM pg_stat_activity WHERE pid != pg_backend_pid() GROUP BY application_name ORDER BY conn_count DESC LIMIT 1'')
     TierDiagnostic 5
     (mk_spec
        []
        [] ''yellow'' ''Review the top connection consumers and their idle-in-transaction counts'')
     []
     (Some 4)
     ''''
     ''''"

definition connectionSaturationPlaybook_step4 :: Step where
  "connectionSaturationPlaybook_step4 = mk_step 4 ''Check connection pool settings''
     ''Verify connection-related PostgreSQL settings.''
     (''SELECT max(CASE WHEN name='' @ [CHR 0x27] @ ''max_connections'' @ [CHR 0x27] @ '' THEN setting END) AS max_connections, max(CASE WHEN name='' @ [CHR 0x27] @ ''superuser_reserved_connections'' @ [CHR 0x27] @ '' THEN setting END) AS reserved, max(CASE WHEN name='' @ [CHR 0x27] @ ''idle_in_transaction_session_timeout'' @ [CHR 0x27] @ '' THEN setting END) AS idle_tx_timeout FROM pg_settings WHERE name IN ('' @ [CHR 0x27] @ ''max_connections'' @ [CHR 0x27] @ '', '' @ [CHR 0x27] @ ''superuser_reserved_connections'' @ [CHR 0x27] @ '', '' @ [CHR 0x27] @ ''idle_in_transaction_session_timeout'' @ [CHR 0x27] @ '')'')
     TierDiagnostic 5
     (mk_spec
        []
        [] ''yellow'' ''Review settings. Consider setting idle_in_transaction_session_timeout if it is 0.'')
     []
     (Some 5)
     ''''
     ''''"

definition connectionSaturationPlaybook_step5 :: Step where
  "connectionSaturationPlaybook_step5 = mk_step 5 ''Remediation: Connection management''
     ''Connection saturation typically requires application-level changes or a connection pooler.''
     ''''
     TierExternal 0
     (mk_spec [] [] '''' '''')
     []
     (None)
     (''1. If idle_in_transaction_session_timeout is 0, set it to 300000 (5 min) to auto-kill stale transactions.'' @ [CHR 0x0A] @ ''2. Deploy or tune a connection pooler (PgBouncer recommended).'' @ [CHR 0x0A] @ ''3. Review application connection pool settings '' @ [CHR 0xE2, CHR 0x80, CHR 0x94] @ '' ensure connections are returned promptly.'' @ [CHR 0x0A] @ ''4. Consider increasing max_connections only as a last resort (higher memory per connection).'' @ [CHR 0x0A] @ ''5. Terminate idle-in-transaction sessions if urgent: SELECT pg_terminate_backend(pid) FROM pg_stat_activity WHERE state = '' @ [CHR 0x27] @ ''idle in transaction'' @ [CHR 0x27] @ '' AND state_change < now() - interval '' @ [CHR 0x27] @ ''10 minutes'' @ [CHR 0x27] @ '';'')
     ''DBA / Application team''"

definition connectionSaturationPlaybook :: Playbook where
  "connectionSaturationPlaybook = \<lparr>pb_ID = 0, pb_Slug = ''connection-saturation'', pb_Name = ''Connection Saturation'',
     pb_Description = ''Diagnoses connection pool exhaustion, identifies idle-in-transaction sessions, and guides connection management.'',
     pb_Version = 1, pb_Status = ''stable'', pb_Category = ''connections'',
     pb_TriggerBindings = \<lparr>tb_Hooks = [''remediation.connection_pooling''], tb_RootCauses = [''root_cause.connection_spike''], tb_Metrics = [''pg.connections.used_pct''], tb_AdviserRules = [''rem_conn_high'']\<rparr>,
     pb_EstimatedDurationMin = Some 10, pb_RequiresPermission = ''view_all'', pb_Author = ''pgpulse'', pb_IsBuiltin = True,
     pb_Steps = [connectionSaturationPlaybook_step1, connectionSaturationPlaybook_step2, connectionSaturationPlaybook_step3, connectionSaturationPlaybook_step4, connectionSaturationPlaybook_step5]\<rparr>"

definition lockContentionPlaybook_step1 :: Step where
  "lockContentionPlaybook_step1 = mk_step 1 ''Check blocking lock tree''
     ''Identify sessions that are blocking other sessions.''
     ''SELECT count(*) AS blocked_count, count(DISTINCT blocking.pid) AS blocker_count, max(extract(epoch FROM now() - blocked_activity.xact_start)) AS max_blocked_age_sec FROM pg_locks blocked JOIN pg_locks blocking ON blocking.locktype = blocked.locktype AND blocking.database IS NOT DISTINCT FROM blocked.database AND blocking.relation IS NOT DISTINCT FROM blocked.relation AND blocking.page IS NOT DISTINCT FROM blocked.page AND blocking.tuple IS NOT DISTINCT FROM blocked.tuple AND blocking.transactionid IS NOT DISTINCT FROM blocked.transactionid AND blocking.classid IS NOT DISTINCT FROM blocked.classid AND blocking.objid IS NOT DISTINCT FROM blocked.objid AND blocking.objsubid IS NOT DISTINCT FROM blocked.objsubid AND blocking.pid != blocked.pid JOIN pg_stat_activity blocked_activity ON blocked_activity.pid = blocked.pid JOIN pg_stat_activity blocking_activity ON blocking_activity.pid = blocking.pid WHERE NOT blocked.granted AND blocking.granted''
     TierDiagnostic 5
     (mk_spec
        [mk_rule ''blocked_count'' ''>'' (VInt 10) ''red''
           ''CRITICAL: {{blocked_count}} blocked sessions by {{blocker_count}} blockers (max age: {{max_blocked_age_sec}}s)'' '''',
         mk_rule ''blocked_count'' ''>'' (VInt 0) ''yellow''
           (''{{blocked_count}} blocked sessions found '' @ [CHR 0xE2, CHR 0x80, CHR 0x94] @ '' investigating'') '''',
         mk_rule ''blocked_count'' ''=='' (VInt 0) ''green''
           ''No blocking locks detected'' '''']
        [] ''green'' ''No lock contention found'')
     [mk_branch '''' '''' (VNull) ''green'' 5
           (''No contention '' @ [CHR 0xE2, CHR 0x80, CHR 0x94] @ '' skip to verification'')]
     (Some 2)
     ''''
     ''''"

definition lockContentionPlaybook_step2 :: Step where
  "lockContentionPlaybook_step2 = mk_step 2 ''Check long-held locks''
     ''Find sessions holding locks for an extended time.''
     (''SELECT count(*) AS long_lock_count, max(extract(epoch FROM now() - xact_start)) AS max_tx_age_sec FROM pg_stat_activity WHERE state != '' @ [CHR 0x27] @ ''idle'' @ [CHR 0x27] @ '' AND xact_start < now() - interval '' @ [CHR 0x27] @ ''5 minutes'' @ [CHR 0x27] @ '' AND pid != pg_backend_pid()'')
     TierDiagnostic 5
     (mk_spec
        [mk_rule ''long_lock_count'' ''>'' (VInt 0) ''yellow''
           (''{{long_lock_count}} long-running transactions (max age: {{max_tx_age_sec}}s) '' @ [CHR 0xE2, CHR 0x80, CHR 0x94] @ '' these may be holding locks'') '''']
        [] ''green'' ''No long-running transactions holding locks'')
     []
     (Some 3)
     ''''
     ''''"

definition lockContentionPlaybook_step3 :: Step where
  "lockContentionPlaybook_step3 = mk_step 3 ''Check lock types distribution''
     ''Analyze the types of locks currently held.''
     (''SELECT count(*) AS total_locks, count(*) FILTER (WHERE NOT granted) AS waiting_locks, count(*) FILTER (WHERE locktype = '' @ [CHR 0x27] @ ''relation'' @ [CHR 0x27] @ '') AS relation_locks, count(*) FILTER (WHERE locktype = '' @ [CHR 0x27] @ ''transactionid'' @ [CHR 0x27] @ '') AS txid_locks FROM pg_locks WHERE pid != pg_backend_pid()'')
     TierDiagnostic 5
     (mk_spec
        [mk_rule ''waiting_locks'' ''>'' (VInt 20) ''red''
           (''{{waiting_locks}} locks in waiting state '' @ [CHR 0xE2, CHR 0x80, CHR 0x94] @ '' severe contention'') '''']
        [] ''yellow'' ''Review lock distribution: {{total_locks}} total, {{waiting_locks}} waiting'')
     []
     (Some 4)
     ''''
     ''''"

definition lockContentionPlaybook_step4 :: Step where
  "lockContentionPlaybook_step4 = mk_step 4 ''Terminate blocking sessions''
     ''If blocking sessions are identified and causing cascading issues, terminate the blocker.''
     (''SELECT count(*) AS candidate_count FROM pg_stat_activity WHERE state = '' @ [CHR 0x27] @ ''idle in transaction'' @ [CHR 0x27] @ '' AND xact_start < now() - interval '' @ [CHR 0x27] @ ''10 minutes'' @ [CHR 0x27] @ '' AND pid != pg_backend_pid()'')
     TierDangerous 5
     (mk_spec
        []
        [] ''yellow'' ''Review candidate sessions before termination. Use pg_terminate_backend(pid) on the specific blocker PID.'')
     []
     (Some 5)
     ''''
     ''''"

definition lockContentionPlaybook_step5 :: Step where
  "lockContentionPlaybook_step5 = mk_step 5 ''Escalation: Application lock review''
     ''Persistent lock contention requires application-level investigation.''
     ''''
     TierExternal 0
     (mk_spec [] [] '''' '''')
     []
     (None)
     (''1. Review application code for long-held transactions.'' @ [CHR 0x0A] @ ''2. Check for missing COMMIT/ROLLBACK in application error paths.'' @ [CHR 0x0A] @ ''3. Consider advisory locks instead of table locks where appropriate.'' @ [CHR 0x0A] @ ''4. Set lock_timeout at the application level to prevent indefinite waits.'' @ [CHR 0x0A] @ ''5. Add indexes to reduce lock duration on UPDATE/DELETE operations.'')
     ''DBA / Application development team''"

definition lockContentionPlaybook :: Playbook where
  "lockContentionPlaybook = \<lparr>pb_ID = 0, pb_Slug = ''lock-contention'', pb_Name = ''Lock Contention Analysis'',
     pb_Description = ''Identifies blocking locks, long-held locks, and potential deadlock candidates to resolve lock contention.'',
     pb_Version = 1, pb_Status = ''stable'', pb_Category = ''locks'',
     pb_TriggerBindings = \<lparr>tb_Hooks = [''remediation.lock_investigation''], tb_RootCauses = [''root_cause.long_tx_blocking_vacuum''], tb_Metrics = [''pg.locks.blocked_count''], tb_AdviserRules = [''rem_locks_blocking'']\<rparr>,
     pb_EstimatedDurationMin = Some 10, pb_RequiresPermission = ''view_all'', pb_Author = ''pgpulse'', pb_IsBuiltin = True,
     pb_Steps = [lockContentionPlaybook_step1, lockContentionPlaybook_step2, lockContentionPlaybook_step3, lockContentionPlaybook_step4, lockContentionPlaybook_step5]\<rparr>"

definition longTransactionsPlaybook_step1 :: Step where
  "longTransactionsPlaybook_step1 = mk_step 1 ''Check longest running transactions''
     ''Find the longest active transactions and their impact.''
     (''SELECT count(*) AS long_tx_count, max(extract(epoch FROM now() - xact_start)) AS max_age_sec, count(*) FILTER (WHERE state = '' @ [CHR 0x27] @ ''idle in transaction'' @ [CHR 0x27] @ '') AS idle_in_tx_count FROM pg_stat_activity WHERE xact_start IS NOT NULL AND xact_start < now() - interval '' @ [CHR 0x27] @ ''5 minutes'' @ [CHR 0x27] @ '' AND pid != pg_backend_pid()'')
     TierDiagnostic 5
     (mk_spec
        [mk_rule ''max_age_sec'' ''>'' (VInt 3600) ''red''
           ''CRITICAL: Longest transaction running for {{max_age_sec}}s ({{long_tx_count}} long transactions, {{idle_in_tx_count}} idle-in-tx)'' '''',
         mk_rule ''max_age_sec'' ''>'' (VInt 300) ''yellow''
           ''{{long_tx_count}} transactions running >5 min (max: {{max_age_sec}}s)'' '''']
        [] ''green'' ''No long-running transactions found'')
     [mk_branch '''' '''' (VNull) ''green'' 4
           (''No long transactions '' @ [CHR 0xE2, CHR 0x80, CHR 0x94] @ '' skip to verification'')]
     (Some 2)
     ''''
     ''''"

definition longTransactionsPlaybook_step2 :: Step where
  "longTransactionsPlaybook_step2 = mk_step 2 ''Check vacuum impact''
     ''Long transactions prevent vacuum from reclaiming dead tuples.''
     ''SELECT sum(n_dead_tup) AS total_dead_tuples, count(*) FILTER (WHERE n_dead_tup > 10000) AS tables_with_dead_tuples, max(n_dead_tup) AS max_dead_tuples FROM pg_stat_user_tables''
     TierDiagnostic 10
     (mk_spec
        [mk_rule ''total_dead_tuples'' ''>'' (VInt 10000000) ''red''
           (''{{total_dead_tuples}} dead tuples across all tables '' @ [CHR 0xE2, CHR 0x80, CHR 0x94] @ '' severe bloat from long transactions'') '''',
         mk_rule ''total_dead_tuples'' ''>'' (VInt 1000000) ''yellow''
           (''{{total_dead_tuples}} dead tuples accumulating '' @ [CHR 0xE2, CHR 0x80, CHR 0x94] @ '' vacuum is being blocked'') '''']
        [] ''green'' ''Dead tuple count is manageable'')
     []
     (Some 3)
     ''''
     ''''"

definition longTransactionsPlaybook_step3 :: Step where
  "longTransactionsPlaybook_step3 = mk_step 3 ''Check bloat accumulation''
     ''Estimate table bloat from dead tuples that vacuum cannot reclaim.''
     ''SELECT count(*) AS bloated_table_count, max(round(100.0 * n_dead_tup / NULLIF(n_live_tup + n_dead_tup, 0), 1)) AS max_dead_pct FROM pg_stat_user_tables WHERE n_dead_tup > 1000''
     TierDiagnostic 10
     (mk_spec
        [mk_rule ''max_dead_pct'' ''>'' (VInt 50) ''red''
           ''{{bloated_table_count}} tables with significant bloat (max {{max_dead_pct}}% dead)'' '''']
        [] ''yellow'' ''Review bloat levels and consider VACUUM after resolving long transactions'')
     []
     (Some 4)
     ''''
     ''''"

definition longTransactionsPlaybook_step4 :: Step where
  "longTransactionsPlaybook_step4 = mk_step 4 ''Remediation: Transaction management''
     ''Long transactions must be addressed at the application level.''
     ''''
     TierExternal 0
     (mk_spec [] [] '''' '''')
     []
     (None)
     (''1. Identify the application causing long transactions from pg_stat_activity.'' @ [CHR 0x0A] @ ''2. Set idle_in_transaction_session_timeout to auto-kill idle transactions.'' @ [CHR 0x0A] @ ''3. Review application code for missing COMMIT/ROLLBACK.'' @ [CHR 0x0A] @ ''4. Consider breaking large batch operations into smaller transactions.'' @ [CHR 0x0A] @ ''5. After resolving, run VACUUM on affected tables to reclaim space.'' @ [CHR 0x0A] @ ''6. For urgent cases: pg_terminate_backend(pid) on the specific long-running PID.'')
     ''DBA / Application development team''"

definition longTransactionsPlaybook :: Playbook where
  "longTransactionsPlaybook = \<lparr>pb_ID = 0, pb_Slug = ''long-transactions'', pb_Name = ''Long Transaction Investigation'',
     pb_Description = ''Investigates long-running transactions that cause bloat accumulation and vacuum delays.'',
     pb_Version = 1, pb_Status = ''stable'', pb_Category = ''locks'',
     pb_TriggerBindings = \<lparr>tb_Hooks = [''remediation.kill_long_transaction''], tb_RootCauses = [''root_cause.long_transaction''], tb_Metrics = [''pg.activity.longest_tx_sec''], tb_AdviserRules = [''rem_long_txn_warn'']\<rparr>,
     pb_EstimatedDurationMin = Some 8, pb_RequiresPermission = ''view_all'', pb_Author = ''pgpulse'', pb_IsBuiltin = True,
     pb_Steps = [longTransactionsPlaybook_step1, longTransactionsPlaybook_step2, longTransactionsPlaybook_step3, longTransactionsPlaybook_step4]\<rparr>"

definition checkpointStormPlaybook_step1 :: Step where
  "checkpointStormPlaybook_step1 = mk_step 1 ''Check checkpoint activity''
     ''Review checkpoint frequency and timing from pg_stat_bgwriter/checkpointer.''
     ''SELECT checkpoints_timed, checkpoints_req, buffers_checkpoint, buffers_backend, maxwritten_clean FROM pg_stat_bgwriter''
     TierDiagnostic 5
     (mk_spec
        [mk_rule ''checkpoints_req'' ''>'' (VInt 100) ''red''
           (''{{checkpoints_req}} requested checkpoints '' @ [CHR 0xE2, CHR 0x80, CHR 0x94] @ '' high checkpoint pressure'') '''',
         mk_rule ''buffers_backend'' ''>'' (VInt 10000) ''yellow''
           (''{{buffers_backend}} backend-written buffers '' @ [CHR 0xE2, CHR 0x80, CHR 0x94] @ '' bgwriter/checkpointer falling behind'') '''']
        [] ''green'' ''Checkpoint activity appears normal'')
     []
     (Some 2)
     ''''
     ''''"

definition checkpointStormPlaybook_step2 :: Step where
  "checkpointStormPlaybook_step2 = mk_step 2 ''Check WAL generation rate''
     ''Measure current WAL generation to identify burst workloads.''
     ''SELECT count(*) AS wal_file_count, pg_size_pretty(sum(size)) AS total_wal_size FROM pg_ls_waldir()''
     TierDiagnostic 10
     (mk_spec
        [mk_rule ''wal_file_count'' ''>'' (VInt 100) ''yellow''
           (''{{wal_file_count}} WAL files present ({{total_wal_size}}) '' @ [CHR 0xE2, CHR 0x80, CHR 0x94] @ '' elevated WAL generation'') '''']
        [] ''green'' ''WAL file count is normal'')
     []
     (Some 3)
     ''''
     ''''"

definition checkpointStormPlaybook_step3 :: Step where
  "checkpointStormPlaybook_step3 = mk_step 3 ''Check checkpoint configuration''
     ''Verify checkpoint-related settings.''
     (''SELECT max(CASE WHEN name='' @ [CHR 0x27] @ ''checkpoint_timeout'' @ [CHR 0x27] @ '' THEN setting END) AS checkpoint_timeout, max(CASE WHEN name='' @ [CHR 0x27] @ ''checkpoint_completion_target'' @ [CHR 0x27] @ '' THEN setting END) AS checkpoint_completion_target, max(CASE WHEN name='' @ [CHR 0x27] @ ''max_wal_size'' @ [CHR 0x27] @ '' THEN setting END) AS max_wal_size, max(CASE WHEN name='' @ [CHR 0x27] @ ''min_wal_size'' @ [CHR 0x27] @ '' THEN setting END) AS min_wal_size FROM pg_settings WHERE name IN ('' @ [CHR 0x27] @ ''checkpoint_timeout'' @ [CHR 0x27] @ '', '' @ [CHR 0x27] @ ''checkpoint_completion_target'' @ [CHR 0x27] @ '', '' @ [CHR 0x27] @ ''max_wal_size'' @ [CHR 0x27] @ '', '' @ [CHR 0x27] @ ''min_wal_size'' @ [CHR 0x27] @ '')'')
     TierDiagnostic 5
     (mk_spec
        []
        [] ''yellow'' ''Review checkpoint_timeout and max_wal_size. Increasing max_wal_size reduces checkpoint frequency.'')
     []
     (Some 4)
     ''''
     ''''"

definition checkpointStormPlaybook_step4 :: Step where
  "checkpointStormPlaybook_step4 = mk_step 4 ''Remediation: Checkpoint tuning''
     ''Checkpoint storms require configuration adjustments and workload review.''
     ''''
     TierExternal 0
     (mk_spec [] [] '''' '''')
     []
     (None)
     (''1. Increase max_wal_size (e.g., 2GB-4GB) to reduce checkpoint frequency.'' @ [CHR 0x0A] @ ''2. Ensure checkpoint_completion_target is 0.9 (spread I/O over the interval).'' @ [CHR 0x0A] @ ''3. Increase shared_buffers if backend writes are high.'' @ [CHR 0x0A] @ ''4. Review bulk operations (COPY, large UPDATEs) that generate excessive WAL.'' @ [CHR 0x0A] @ ''5. Consider wal_compression = on to reduce WAL volume.'' @ [CHR 0x0A] @ ''6. After changes, run pg_reload_conf() and monitor checkpoint frequency.'')
     ''DBA''"

definition checkpointStormPlaybook :: Playbook where
  "checkpointStormPlaybook = \<lparr>pb_ID = 0, pb_Slug = ''checkpoint-storm'', pb_Name = ''Checkpoint Storm Diagnosis'',
     pb_Description = ''Diagnoses checkpoint storms causing I/O saturation and elevated WAL generation rates.'',
     pb_Version = 1, pb_Status = ''stable'', pb_Category = ''performance'',
     pb_TriggerBindings = \<lparr>tb_Hooks = [''remediation.checkpoint_completion_target''], tb_RootCauses = [''root_cause.bulk_workload''], tb_Metrics = [''pg.checkpoint.requested_count''], tb_AdviserRules = [''rem_wraparound_warn'']\<rparr>,
     pb_EstimatedDurationMin = Some 8, pb_RequiresPermission = ''view_all'', pb_Author = ''pgpulse'', pb_IsBuiltin = True,
     pb_Steps = [checkpointStormPlaybook_step1, checkpointStormPlaybook_step2, checkpointStormPlaybook_step3, checkpointStormPlaybook_step4]\<rparr>"

definition diskFullPlaybook_step1 :: Step where
  "diskFullPlaybook_step1 = mk_step 1 ''Check database sizes''
     ''Identify which databases are consuming the most disk space.''
     ''SELECT count(*) AS db_count, pg_size_pretty(sum(pg_database_size(datname))) AS total_size, max(pg_database_size(datname)) AS max_db_bytes FROM pg_database WHERE NOT datistemplate''
     TierDiagnostic 15
     (mk_spec
        []
        [] ''yellow'' ''Total database size: {{total_size}} across {{db_count}} databases'')
     []
     (Some 2)
     ''''
     ''''"

definition diskFullPlaybook_step2 :: Step where
  "diskFullPlaybook_step2 = mk_step 2 ''Check table bloat''
     ''Identify tables with significant dead tuple bloat.''
     ''SELECT count(*) AS bloated_tables, sum(n_dead_tup) AS total_dead_tuples, max(round(100.0 * n_dead_tup / NULLIF(n_live_tup + n_dead_tup, 0), 1)) AS max_dead_pct FROM pg_stat_user_tables WHERE n_dead_tup > 10000''
     TierDiagnostic 10
     (mk_spec
        [mk_rule ''total_dead_tuples'' ''>'' (VInt 10000000) ''red''
           ''{{bloated_tables}} bloated tables with {{total_dead_tuples}} dead tuples (max {{max_dead_pct}}% dead)'' '''']
        [] ''yellow'' ''Bloat levels: {{bloated_tables}} tables with >10K dead tuples'')
     []
     (Some 3)
     ''''
     ''''"

definition diskFullPlaybook_step3 :: Step where
  "diskFullPlaybook_step3 = mk_step 3 ''Check WAL accumulation''
     ''WAL files can consume significant disk space during archiving delays or replication issues.''
     ''SELECT count(*) AS wal_file_count, pg_size_pretty(sum(size)) AS total_wal_size FROM pg_ls_waldir()''
     TierDiagnostic 10
     (mk_spec
        [mk_rule ''wal_file_count'' ''>'' (VInt 200) ''red''
           (''{{wal_file_count}} WAL files ({{total_wal_size}}) '' @ [CHR 0xE2, CHR 0x80, CHR 0x94] @ '' major disk consumer'') '''',
         mk_rule ''wal_file_count'' ''>'' (VInt 50) ''yellow''
           (''{{wal_file_count}} WAL files ({{total_wal_size}}) '' @ [CHR 0xE2, CHR 0x80, CHR 0x94] @ '' above normal'') '''']
        [] ''green'' ''WAL file count is normal'')
     []
     (Some 4)
     ''''
     ''''"

definition diskFullPlaybook_step4 :: Step where
  "diskFullPlaybook_step4 = mk_step 4 ''Check temp file usage''
     ''Large temp files from sorts/hashes can consume significant disk space.''
     ''SELECT sum(temp_files) AS total_temp_files, pg_size_pretty(sum(temp_bytes)) AS total_temp_size FROM pg_stat_database''
     TierDiagnostic 5
     (mk_spec
        []
        [] ''yellow'' ''Temp file usage: {{total_temp_files}} files ({{total_temp_size}} total since stats reset)'')
     []
     (Some 5)
     ''''
     ''''"

definition diskFullPlaybook_step5 :: Step where
  "diskFullPlaybook_step5 = mk_step 5 ''Emergency: Free disk space''
     ''Disk space exhaustion requires immediate action to prevent PostgreSQL shutdown.''
     ''''
     TierExternal 0
     (mk_spec [] [] '''' '''')
     []
     (None)
     (''IMMEDIATE ACTIONS:'' @ [CHR 0x0A] @ ''1. Remove old WAL files if archive lag: pg_archivecleanup /path/to/wal last_safe_wal'' @ [CHR 0x0A] @ ''2. Drop inactive replication slots: SELECT pg_drop_replication_slot('' @ [CHR 0x27] @ ''slot_name'' @ [CHR 0x27] @ '');'' @ [CHR 0x0A] @ ''3. VACUUM FULL on most bloated tables (requires exclusive lock!).'' @ [CHR 0x0A] @ ''4. Truncate/archive old log files.'' @ [CHR 0x0A] @ ''5. Clear temp files in $PGDATA/base/pgsql_tmp/.'' @ [CHR 0x0A, CHR 0x0A] @ ''LONGER TERM:'' @ [CHR 0x0A] @ ''6. Increase disk capacity.'' @ [CHR 0x0A] @ ''7. Configure temp_file_limit to prevent temp file explosion.'' @ [CHR 0x0A] @ ''8. Schedule regular VACUUM.'' @ [CHR 0x0A] @ ''9. Enable wal_compression.'')
     ''DBA / Infrastructure team / Storage admin''"

definition diskFullPlaybook :: Playbook where
  "diskFullPlaybook = \<lparr>pb_ID = 0, pb_Slug = ''disk-full'', pb_Name = ''Disk Space Emergency'',
     pb_Description = (''Emergency playbook for disk space exhaustion '' @ [CHR 0xE2, CHR 0x80, CHR 0x94] @ '' identifies WAL, bloat, temp files, and tablespace usage.''),
     pb_Version = 1, pb_Status = ''stable'', pb_Category = ''storage'',
     pb_TriggerBindings = \<lparr>tb_Hooks = [''remediation.disk_capacity''], tb_RootCauses = [''root_cause.wal_accumulation''], tb_Metrics = [''pg.server.db_size_bytes''], tb_AdviserRules = []\<rparr>,
     pb_EstimatedDurationMin = Some 15, pb_RequiresPermission = ''view_all'', pb_Author = ''pgpulse'', pb_IsBuiltin = True,
     pb_Steps = [diskFullPlaybook_step1, diskFullPlaybook_step2, diskFullPlaybook_step3, diskFullPlaybook_step4, diskFullPlaybook_step5]\<rparr>"

definition autovacuumFailingPlaybook_step1 :: Step where
  "autovacuumFailingPlaybook_step1 = mk_step 1 ''Check autovacuum worker status''
     ''See how many autovacuum workers are currently running.''
     (''SELECT count(*) AS active_workers, (SELECT setting::int FROM pg_settings WHERE name='' @ [CHR 0x27] @ ''autovacuum_max_workers'' @ [CHR 0x27] @ '') AS max_workers, count(*) FILTER (WHERE query LIKE '' @ [CHR 0x27] @ ''autovacuum:%wraparound%'' @ [CHR 0x27] @ '') AS wraparound_workers FROM pg_stat_activity WHERE backend_type = '' @ [CHR 0x27] @ ''autovacuum worker'' @ [CHR 0x27])
     TierDiagnostic 5
     (mk_spec
        [mk_rule ''wraparound_workers'' ''>'' (VInt 0) ''red''
           (''{{wraparound_workers}} wraparound vacuum workers active '' @ [CHR 0xE2, CHR 0x80, CHR 0x94] @ '' urgent wraparound prevention'') '''',
         mk_rule ''active_workers'' ''=='' (VInt 0) ''yellow''
           (''No autovacuum workers currently active '' @ [CHR 0xE2, CHR 0x80, CHR 0x94] @ '' check if autovacuum is enabled'') '''']
        [] ''green'' ''{{active_workers}} of {{max_workers}} autovacuum workers active'')
     []
     (Some 2)
     ''''
     ''''"

definition autovacuumFailingPlaybook_step2 :: Step where
  "autovacuumFailingPlaybook_step2 = mk_step 2 ''Check dead tuple accumulation''
     ''Identify tables with excessive dead tuples that vacuum is not cleaning.''
     ''SELECT count(*) AS problem_tables, sum(n_dead_tup) AS total_dead, max(n_dead_tup) AS max_dead, max(round(100.0 * n_dead_tup / NULLIF(n_live_tup + n_dead_tup, 0), 1)) AS max_dead_pct FROM pg_stat_user_tables WHERE n_dead_tup > 10000''
     TierDiagnostic 10
     (mk_spec
        [mk_rule ''max_dead_pct'' ''>'' (VInt 30) ''red''
           ''{{problem_tables}} tables with high dead tuple ratio (max {{max_dead_pct}}%). Total dead: {{total_dead}}'' '''',
         mk_rule ''total_dead'' ''>'' (VInt 1000000) ''yellow''
           ''{{total_dead}} total dead tuples across {{problem_tables}} tables'' '''']
        [] ''green'' ''Dead tuple levels are manageable'')
     []
     (Some 3)
     ''''
     ''''"

definition autovacuumFailingPlaybook_step3 :: Step where
  "autovacuumFailingPlaybook_step3 = mk_step 3 ''Check last vacuum times''
     (''Find tables that haven'' @ [CHR 0x27] @ ''t been vacuumed recently.'')
     (''SELECT count(*) AS never_vacuumed, count(*) FILTER (WHERE last_autovacuum < now() - interval '' @ [CHR 0x27] @ ''1 day'' @ [CHR 0x27] @ '' OR last_autovacuum IS NULL) AS stale_vacuum FROM pg_stat_user_tables WHERE n_dead_tup > 1000'')
     TierDiagnostic 10
     (mk_spec
        [mk_rule ''stale_vacuum'' ''>'' (VInt 5) ''yellow''
           (''{{stale_vacuum}} tables with dead tuples haven'' @ [CHR 0x27] @ ''t been vacuumed in >1 day'') '''']
        [] ''green'' ''Vacuum timing looks healthy'')
     []
     (Some 4)
     ''''
     ''''"

definition autovacuumFailingPlaybook_step4 :: Step where
  "autovacuumFailingPlaybook_step4 = mk_step 4 ''Check autovacuum configuration''
     ''Verify autovacuum settings to ensure they are appropriately tuned.''
     (''SELECT max(CASE WHEN name='' @ [CHR 0x27] @ ''autovacuum'' @ [CHR 0x27] @ '' THEN setting END) AS autovacuum, max(CASE WHEN name='' @ [CHR 0x27] @ ''autovacuum_max_workers'' @ [CHR 0x27] @ '' THEN setting END) AS max_workers, max(CASE WHEN name='' @ [CHR 0x27] @ ''autovacuum_vacuum_cost_delay'' @ [CHR 0x27] @ '' THEN setting END) AS cost_delay, max(CASE WHEN name='' @ [CHR 0x27] @ ''autovacuum_vacuum_cost_limit'' @ [CHR 0x27] @ '' THEN setting END) AS cost_limit, max(CASE WHEN name='' @ [CHR 0x27] @ ''autovacuum_vacuum_threshold'' @ [CHR 0x27] @ '' THEN setting END) AS threshold, max(CASE WHEN name='' @ [CHR 0x27] @ ''autovacuum_vacuum_scale_factor'' @ [CHR 0x27] @ '' THEN setting END) AS scale_factor FROM pg_settings WHERE name LIKE '' @ [CHR 0x27] @ ''autovacuum%'' @ [CHR 0x27])
     TierDiagnostic 5
     (mk_spec
        []
        [] ''yellow'' ''Review autovacuum settings. Consider lowering vacuum_cost_delay and increasing cost_limit for faster cleanup.'')
     []
     (Some 5)
     ''''
     ''''"

definition autovacuumFailingPlaybook_step5 :: Step where
  "autovacuumFailingPlaybook_step5 = mk_step 5 ''Remediation: Vacuum tuning''
     ''Autovacuum issues require configuration tuning and potentially manual VACUUM.''
     ''''
     TierExternal 0
     (mk_spec [] [] '''' '''')
     []
     (None)
     (''1. If autovacuum is OFF, enable it immediately: ALTER SYSTEM SET autovacuum = on;'' @ [CHR 0x0A] @ ''2. Reduce autovacuum_vacuum_cost_delay (e.g., 2ms) for faster cleanup.'' @ [CHR 0x0A] @ ''3. Increase autovacuum_vacuum_cost_limit (e.g., 2000) to allow more work per cycle.'' @ [CHR 0x0A] @ ''4. For large tables, set per-table autovacuum_vacuum_scale_factor lower (e.g., 0.01).'' @ [CHR 0x0A] @ ''5. Run manual VACUUM on the most bloated tables.'' @ [CHR 0x0A] @ ''6. For emergency bloat: VACUUM FULL (requires exclusive lock '' @ [CHR 0xE2, CHR 0x80, CHR 0x94] @ '' schedule during maintenance window).'' @ [CHR 0x0A] @ ''7. Apply changes: SELECT pg_reload_conf();'')
     ''DBA''"

definition autovacuumFailingPlaybook :: Playbook where
  "autovacuumFailingPlaybook = \<lparr>pb_ID = 0, pb_Slug = ''autovacuum-failing'', pb_Name = ''Autovacuum Health Check'',
     pb_Description = ''Diagnoses autovacuum effectiveness including worker status, dead tuple accumulation, and configuration issues.'',
     pb_Version = 1, pb_Status = ''stable'', pb_Category = ''vacuum'',
     pb_TriggerBindings = \<lparr>tb_Hooks = [''remediation.vacuum_cost_settings''], tb_RootCauses = [''root_cause.dead_tuple_accumulation''], tb_Metrics = [''pg.vacuum.dead_tuple_ratio''], tb_AdviserRules = [''rem_bloat_high'']\<rparr>,
     pb_EstimatedDurationMin = Some 10, pb_RequiresPermission = ''view_all'', pb_Author = ''pgpulse'', pb_IsBuiltin = True,
     pb_Steps = [autovacuumFailingPlaybook_step1, autovacuumFailingPlaybook_step2, autovacuumFailingPlaybook_step3, autovacuumFailingPlaybook_step4, autovacuumFailingPlaybook_step5]\<rparr>"

definition wraparoundRiskPlaybook_step1 :: Step where
  "wraparoundRiskPlaybook_step1 = mk_step 1 ''Check database transaction age''
     ''Check the age of the oldest unfrozen transaction ID across all databases.''
     ''SELECT max(age(datfrozenxid)) AS max_xid_age, max(age(datfrozenxid))::float / 2147483647 * 100 AS pct_to_wraparound, count(*) FILTER (WHERE age(datfrozenxid) > 1000000000) AS critical_dbs FROM pg_database WHERE NOT datistemplate''
     TierDiagnostic 5
     (mk_spec
        [mk_rule ''pct_to_wraparound'' ''>'' (VInt 75) ''red''
           ''CRITICAL: {{pct_to_wraparound}}% to wraparound (xid age: {{max_xid_age}}). Immediate action required!'' '''',
         mk_rule ''pct_to_wraparound'' ''>'' (VInt 50) ''yellow''
           ''WARNING: {{pct_to_wraparound}}% to wraparound (xid age: {{max_xid_age}})'' '''']
        [] ''green'' ''Transaction age is healthy ({{pct_to_wraparound}}% to wraparound)'')
     [mk_branch '''' '''' (VNull) ''green'' 4
           (''No wraparound risk '' @ [CHR 0xE2, CHR 0x80, CHR 0x94] @ '' skip to verification'')]
     (Some 2)
     ''''
     ''''"

definition wraparoundRiskPlaybook_step2 :: Step where
  "wraparoundRiskPlaybook_step2 = mk_step 2 ''Check aggressive vacuum status''
     ''See if PostgreSQL has triggered aggressive (anti-wraparound) vacuum.''
     (''SELECT count(*) AS aggressive_vacuum_count FROM pg_stat_activity WHERE backend_type = '' @ [CHR 0x27] @ ''autovacuum worker'' @ [CHR 0x27] @ '' AND query LIKE '' @ [CHR 0x27] @ ''%wraparound%'' @ [CHR 0x27])
     TierDiagnostic 5
     (mk_spec
        [mk_rule ''aggressive_vacuum_count'' ''>'' (VInt 0) ''yellow''
           (''{{aggressive_vacuum_count}} aggressive (anti-wraparound) vacuum workers running '' @ [CHR 0xE2, CHR 0x80, CHR 0x94] @ '' system is self-healing but under pressure'') '''']
        [] ''yellow'' (''No aggressive vacuum workers running '' @ [CHR 0xE2, CHR 0x80, CHR 0x94] @ '' manual intervention may be needed''))
     []
     (Some 3)
     ''''
     ''''"

definition wraparoundRiskPlaybook_step3 :: Step where
  "wraparoundRiskPlaybook_step3 = mk_step 3 ''Check per-table wraparound status''
     ''Identify the oldest unfrozen tables that are driving the wraparound risk.''
     (''SELECT count(*) AS old_table_count, max(age(relfrozenxid)) AS max_table_xid_age FROM pg_class WHERE relkind = '' @ [CHR 0x27] @ ''r'' @ [CHR 0x27] @ '' AND age(relfrozenxid) > 500000000'')
     TierDiagnostic 10
     (mk_spec
        [mk_rule ''old_table_count'' ''>'' (VInt 0) ''red''
           (''{{old_table_count}} tables with xid age >500M (max: {{max_table_xid_age}}) '' @ [CHR 0xE2, CHR 0x80, CHR 0x94] @ '' these drive the wraparound risk'') '''']
        [] ''green'' ''No tables with critically old transaction IDs'')
     []
     (Some 4)
     ''''
     ''''"

definition wraparoundRiskPlaybook_step4 :: Step where
  "wraparoundRiskPlaybook_step4 = mk_step 4 ''Remediation: Wraparound prevention''
     ''Transaction wraparound requires urgent vacuum and possible configuration changes.''
     ''''
     TierExternal 0
     (mk_spec [] [] '''' '''')
     []
     (None)
     (''1. Run VACUUM FREEZE on the most critical tables (those with highest relfrozenxid age).'' @ [CHR 0x0A] @ ''2. If vacuum is being blocked by long transactions, terminate them first.'' @ [CHR 0x0A] @ ''3. Increase autovacuum_freeze_max_age if it is set too low (default 200M is usually fine).'' @ [CHR 0x0A] @ ''4. Ensure autovacuum is running and not being blocked.'' @ [CHR 0x0A] @ ''5. Monitor progress: SELECT relname, age(relfrozenxid) FROM pg_class WHERE relkind='' @ [CHR 0x27] @ ''r'' @ [CHR 0x27] @ '' ORDER BY age(relfrozenxid) DESC LIMIT 10;'' @ [CHR 0x0A] @ ''6. For emergency: run vacuumdb --freeze --all from the command line.'')
     ''DBA''"

definition wraparoundRiskPlaybook :: Playbook where
  "wraparoundRiskPlaybook = \<lparr>pb_ID = 0, pb_Slug = ''wraparound-risk'', pb_Name = ''Transaction Wraparound Risk'',
     pb_Description = ''Diagnoses transaction ID wraparound risk by checking datfrozenxid age and per-table freeze status.'',
     pb_Version = 1, pb_Status = ''stable'', pb_Category = ''vacuum'',
     pb_TriggerBindings = \<lparr>tb_Hooks = [''remediation.wraparound_vacuum''], tb_RootCauses = [''root_cause.wraparound_approaching''], tb_Metrics = [''pg.server.oldest_xid_age''], tb_AdviserRules = [''rem_wraparound_crit'']\<rparr>,
     pb_EstimatedDurationMin = Some 10, pb_RequiresPermission = ''view_all'', pb_Author = ''pgpulse'', pb_IsBuiltin = True,
     pb_Steps = [wraparoundRiskPlaybook_step1, wraparoundRiskPlaybook_step2, wraparoundRiskPlaybook_step3, wraparoundRiskPlaybook_step4]\<rparr>"

definition heavyQueryPlaybook_step1 :: Step where
  "heavyQueryPlaybook_step1 = mk_step 1 ''Check top queries by total time''
     ''Identify the heaviest queries from pg_stat_statements.''
     ''SELECT count(*) AS tracked_queries, max(total_exec_time) AS max_total_exec_time_ms, sum(calls) AS total_calls FROM pg_stat_statements WHERE dbid = (SELECT oid FROM pg_database WHERE datname = current_database())''
     TierDiagnostic 10
     (mk_spec
        [mk_rule ''max_total_exec_time_ms'' ''>'' (VInt 3600000) ''red''
           ''Heaviest query consumed {{max_total_exec_time_ms}}ms total exec time across {{total_calls}} total calls'' '''']
        [] ''yellow'' ''{{tracked_queries}} queries tracked. Review the top consumers.'')
     []
     (Some 2)
     ''''
     ''''"

definition heavyQueryPlaybook_step2 :: Step where
  "heavyQueryPlaybook_step2 = mk_step 2 ''Check queries with high mean time''
     ''Find queries with the highest average execution time.''
     ''SELECT count(*) AS slow_query_count, max(mean_exec_time) AS max_mean_ms FROM pg_stat_statements WHERE mean_exec_time > 1000 AND dbid = (SELECT oid FROM pg_database WHERE datname = current_database())''
     TierDiagnostic 10
     (mk_spec
        [mk_rule ''slow_query_count'' ''>'' (VInt 10) ''red''
           ''{{slow_query_count}} queries averaging >1s execution (max: {{max_mean_ms}}ms)'' '''',
         mk_rule ''slow_query_count'' ''>'' (VInt 0) ''yellow''
           (''{{slow_query_count}} queries averaging >1s '' @ [CHR 0xE2, CHR 0x80, CHR 0x94] @ '' candidates for optimization'') '''']
        [] ''green'' ''No queries with high average execution time'')
     []
     (Some 3)
     ''''
     ''''"

definition heavyQueryPlaybook_step3 :: Step where
  "heavyQueryPlaybook_step3 = mk_step 3 ''Check sequential scan activity''
     ''Identify tables with excessive sequential scans that may benefit from indexing.''
     ''SELECT count(*) AS seq_scan_tables, max(seq_scan) AS max_seq_scans, max(seq_scan - COALESCE(idx_scan, 0)) AS max_seq_excess FROM pg_stat_user_tables WHERE seq_scan > 1000 AND COALESCE(idx_scan, 0) < seq_scan''
     TierDiagnostic 10
     (mk_spec
        [mk_rule ''seq_scan_tables'' ''>'' (VInt 5) ''yellow''
           (''{{seq_scan_tables}} tables with more sequential scans than index scans '' @ [CHR 0xE2, CHR 0x80, CHR 0x94] @ '' potential missing indexes'') '''']
        [] ''green'' ''Index usage looks healthy'')
     []
     (Some 4)
     ''''
     ''''"

definition heavyQueryPlaybook_step4 :: Step where
  "heavyQueryPlaybook_step4 = mk_step 4 ''Remediation: Query optimization''
     ''Heavy queries require EXPLAIN analysis and possible index creation.''
     ''''
     TierExternal 0
     (mk_spec [] [] '''' '''')
     []
     (None)
     (''1. Run EXPLAIN (ANALYZE, BUFFERS) on the top slow queries to identify bottlenecks.'' @ [CHR 0x0A] @ ''2. Look for sequential scans on large tables '' @ [CHR 0xE2, CHR 0x80, CHR 0x94] @ '' add appropriate indexes.'' @ [CHR 0x0A] @ ''3. Check for missing WHERE clauses or non-selective predicates.'' @ [CHR 0x0A] @ ''4. Consider increasing work_mem for sort/hash-heavy queries.'' @ [CHR 0x0A] @ ''5. Review query plans for nested loop joins on large tables '' @ [CHR 0xE2, CHR 0x80, CHR 0x94] @ '' may need index or join order hints.'' @ [CHR 0x0A] @ ''6. For write-heavy queries: check if triggers or cascading FKs are adding overhead.'' @ [CHR 0x0A] @ ''7. Reset pg_stat_statements after optimization to measure improvement: SELECT pg_stat_statements_reset();'')
     ''DBA / Application development team''"

definition heavyQueryPlaybook :: Playbook where
  "heavyQueryPlaybook = \<lparr>pb_ID = 0, pb_Slug = ''heavy-query'', pb_Name = ''Heavy Query Diagnostics'',
     pb_Description = ''Identifies resource-intensive queries using pg_stat_statements and provides optimization guidance.'',
     pb_Version = 1, pb_Status = ''stable'', pb_Category = ''performance'',
     pb_TriggerBindings = \<lparr>tb_Hooks = [''remediation.query_optimization''], tb_RootCauses = [''root_cause.query_regression'', ''root_cause.missing_index''], tb_Metrics = [''pg.statements.total_exec_time_ms''], tb_AdviserRules = []\<rparr>,
     pb_EstimatedDurationMin = Some 10, pb_RequiresPermission = ''view_all'', pb_Author = ''pgpulse'', pb_IsBuiltin = True,
     pb_Steps = [heavyQueryPlaybook_step1, heavyQueryPlaybook_step2, heavyQueryPlaybook_step3, heavyQueryPlaybook_step4]\<rparr>"

definition BuiltinPlaybooks :: "Playbook list" where
  "BuiltinPlaybooks = [walArchiveFailurePlaybook, replicationLagPlaybook, connectionSaturationPlaybook, lockContentionPlaybook, longTransactionsPlaybook, checkpointStormPlaybook, diskFullPlaybook, autovacuumFailingPlaybook, wraparoundRiskPlaybook, heavyQueryPlaybook]"

end
