(* ===== verification/PlaybookLaws.thy ===== *)
theory PlaybookLaws
  imports PlaybookStore
begin

section \<open>Laws of playbooks\<close>

text \<open>
  Concurrent requests: a step of a run is executed at most once more than it was reset after a
  failure, and never twice at a time. Tiers: what an executed step went through. The executor's
  statements. What an approval does.
\<close>

subsection \<open>Concurrent requests\<close>

text \<open>The requests in flight, the executions started and the resets of failed steps.\<close>

record pb_sys =
  sy_db :: PlaybookDB
  sy_inflight :: "ticket list"
  sy_ran :: "(int \<times> int) list"
  sy_resets :: "(int \<times> int) list"

definition failed_key :: "PlaybookDB \<Rightarrow> int \<times> int \<Rightarrow> bool" where
  "failed_key db k = list_ex (\<lambda>r. rs_key r = k \<and> rs_Status r = ''failed'') (db_steps db)"

definition executable_key :: "PlaybookDB \<Rightarrow> int \<times> int \<Rightarrow> bool" where
  "executable_key db k = list_ex (\<lambda>r. rs_key r = k \<and> executable r) (db_steps db)"

definition log_reset :: "PlaybookDB \<Rightarrow> PlaybookDB \<Rightarrow> int \<times> int \<Rightarrow> (int \<times> int) list \<Rightarrow> (int \<times> int) list" where
  "log_reset db db' k ks = (if db' \<noteq> db \<and> failed_key db k then ks @ [k] else ks)"

inductive pb_reach :: "pb_env \<Rightarrow> pb_sys \<Rightarrow> bool" for env where
  init: "pb_reach env \<lparr>sy_db = empty_db, sy_inflight = [], sy_ran = [], sy_resets = []\<rparr>"
| begin_answered: "pb_reach env s \<Longrightarrow> exec_begin env io now ctx r st ok (sy_db s) = Inl (db', resp) \<Longrightarrow> pb_reach env (s\<lparr>sy_db := db'\<rparr>)"
| begin_locked: "pb_reach env s \<Longrightarrow> exec_begin env io now ctx r st ok (sy_db s) = Inr (db', t) \<Longrightarrow>
    pb_reach env (s\<lparr>sy_db := db', sy_inflight := sy_inflight s @ [t], sy_ran := sy_ran s @ [tk_key t]\<rparr>)"
| finish: "pb_reach env s \<Longrightarrow> t \<in> set (sy_inflight s) \<Longrightarrow>
    pb_reach env (s\<lparr>sy_db := fst (exec_finish env io now outcome t (sy_db s)), sy_inflight := remove1 t (sy_inflight s)\<rparr>)"
| start_run: "pb_reach env s \<Longrightarrow> pb_reach env (s\<lparr>sy_db := fst (handleStartRun env io now ctx inst p trigger (sy_db s))\<rparr>)"
| skip: "pb_reach env s \<Longrightarrow> pb_reach env (s\<lparr>sy_db := fst (handleSkipStep env io now r st (sy_db s))\<rparr>)"
| request: "pb_reach env s \<Longrightarrow> pb_reach env (s\<lparr>sy_db := fst (handleRequestApproval env io r st (sy_db s))\<rparr>)"
| approve: "pb_reach env s \<Longrightarrow> db' = fst (handleApproveStep env io r st (sy_db s)) \<Longrightarrow> k = (ParseInt_value r, ParseInt_value st) \<Longrightarrow>
    pb_reach env (s\<lparr>sy_db := db', sy_resets := log_reset (sy_db s) db' k (sy_resets s)\<rparr>)"
| retry: "pb_reach env s \<Longrightarrow> db' = fst (handleRetryStep env io r st (sy_db s)) \<Longrightarrow> k = (ParseInt_value r, ParseInt_value st) \<Longrightarrow>
    pb_reach env (s\<lparr>sy_db := db', sy_resets := log_reset (sy_db s) db' k (sy_resets s)\<rparr>)"
| abandon: "pb_reach env s \<Longrightarrow> pb_reach env (s\<lparr>sy_db := fst (handleAbandonRun env io now r (sy_db s))\<rparr>)"
| feedback: "pb_reach env s \<Longrightarrow> pb_reach env (s\<lparr>sy_db := fst (handleSubmitFeedback env io now r body (sy_db s))\<rparr>)"
| worker: "pb_reach env s \<Longrightarrow> pb_reach env (s\<lparr>sy_db := worker_evaluate io window now unresolved (sy_db s)\<rparr>)"
| clean: "pb_reach env s \<Longrightarrow> pb_reach env (s\<lparr>sy_db := fst (CleanOldRuns now older (sy_db s))\<rparr>)"
| create: "pb_reach env s \<Longrightarrow> pb_reach env (s\<lparr>sy_db := fst (handleCreatePlaybook env io ctx pb (sy_db s))\<rparr>)"
| update: "pb_reach env s \<Longrightarrow> pb_reach env (s\<lparr>sy_db := fst (handleUpdatePlaybook env io ctx i pb (sy_db s))\<rparr>)"
| delete: "pb_reach env s \<Longrightarrow> pb_reach env (s\<lparr>sy_db := fst (handleDeletePlaybook env io i (sy_db s))\<rparr>)"
| promote: "pb_reach env s \<Longrightarrow> pb_reach env (s\<lparr>sy_db := fst (handlePromotePlaybook env io i (sy_db s))\<rparr>)"
| deprecate: "pb_reach env s \<Longrightarrow> pb_reach env (s\<lparr>sy_db := fst (handleDeprecatePlaybook env io i (sy_db s))\<rparr>)"
| seed: "pb_reach env s \<Longrightarrow> pb_reach env (s\<lparr>sy_db := SeedBuiltins pbs (sy_db s)\<rparr>)"

text \<open>The invariant: keys are unique and older than the next run; every execution is paid for by the
  creation of the step or by a reset; a step in flight is neither executable nor failed.\<close>

definition ids_ok :: "PlaybookDB \<Rightarrow> bool" where
  "ids_ok db \<longleftrightarrow> distinct (map rs_key (db_steps db)) \<and> (\<forall>r \<in> set (db_steps db). rs_RunID r < db_next_run db) \<and>
     (\<forall>r \<in> set (db_runs db). rn_ID r < db_next_run db)"

definition paid :: "pb_sys \<Rightarrow> bool" where
  "paid s \<longleftrightarrow> (\<forall>k. count_list (sy_ran s) k + (if executable_key (sy_db s) k then 1 else 0) \<le> count_list (sy_resets s) k + 1)"

definition excluded :: "pb_sys \<Rightarrow> bool" where
  "excluded s \<longleftrightarrow> distinct (map tk_key (sy_inflight s)) \<and>
     (\<forall>t \<in> set (sy_inflight s). \<not> executable_key (sy_db s) (tk_key t) \<and> \<not> failed_key (sy_db s) (tk_key t))"

definition pb_inv :: "pb_sys \<Rightarrow> bool" where
  "pb_inv s \<longleftrightarrow> ids_ok (sy_db s) \<and> paid s \<and> excluded s \<and>
     (\<forall>k \<in> set (sy_ran s). fst k < db_next_run (sy_db s)) \<and> (\<forall>t \<in> set (sy_inflight s). fst (tk_key t) < db_next_run (sy_db s))"

text \<open>A change of the tables is harmless when it keeps the ids and makes no step executable or failed.\<close>

definition harmless :: "PlaybookDB \<Rightarrow> PlaybookDB \<Rightarrow> bool" where
  "harmless db db' \<longleftrightarrow> ids_ok db' \<and> db_next_run db \<le> db_next_run db' \<and>
     (\<forall>k. executable_key db' k \<longrightarrow> executable_key db k \<or> db_next_run db \<le> fst k) \<and>
     (\<forall>k. failed_key db' k \<longrightarrow> failed_key db k)"

lemma harmless_inv:
  assumes "pb_inv s" "harmless (sy_db s) db'"
  shows "pb_inv (s\<lparr>sy_db := db'\<rparr>)"
proof -
  have old: "count_list (sy_ran s) k = 0" if "db_next_run (sy_db s) \<le> fst k" for k
    using assms(1) that by (force simp: pb_inv_def count_list_0_iff)
  have "count_list (sy_ran s) k + (if executable_key db' k then 1 else 0) \<le> count_list (sy_resets s) k + 1" for k
  proof (cases "executable_key db' k \<and> \<not> executable_key (sy_db s) k")
    case True
    then have "db_next_run (sy_db s) \<le> fst k" using assms(2) unfolding harmless_def by blast
    then show ?thesis using old by simp
  next
    case False
    have "count_list (sy_ran s) k + (if executable_key (sy_db s) k then 1 else 0) \<le> count_list (sy_resets s) k + 1"
      using assms(1) unfolding pb_inv_def paid_def by blast
    then show ?thesis using False by (auto split: if_splits)
  qed
  then have "paid (s\<lparr>sy_db := db'\<rparr>)" by (simp add: paid_def)
  moreover have "\<not> executable_key db' (tk_key t) \<and> \<not> failed_key db' (tk_key t)" if t: "t \<in> set (sy_inflight s)" for t
  proof -
    have "fst (tk_key t) < db_next_run (sy_db s)" "\<not> executable_key (sy_db s) (tk_key t)" "\<not> failed_key (sy_db s) (tk_key t)"
      using t assms(1) by (auto simp: pb_inv_def excluded_def)
    then show ?thesis using assms(2) by (metis harmless_def not_less)
  qed
  then have "excluded (s\<lparr>sy_db := db'\<rparr>)" using assms(1) by (simp add: pb_inv_def excluded_def)
  moreover have "ids_ok db'" "db_next_run (sy_db s) \<le> db_next_run db'" using assms(2) by (simp_all add: harmless_def)
  ultimately show ?thesis using assms(1) by (force simp: pb_inv_def)
qed

lemma pb_inv_ids: "pb_inv s \<Longrightarrow> ids_ok (sy_db s)"
  by (simp add: pb_inv_def)

lemma harmless_refl: "ids_ok db \<Longrightarrow> harmless db db"
  by (simp add: harmless_def)

text \<open>Changes of playbooks and of run fields.\<close>

lemma harmless_same_steps:
  assumes "ids_ok db" "db_steps db' = db_steps db" "db_next_run db \<le> db_next_run db'" "\<forall>r \<in> set (db_runs db'). rn_ID r < db_next_run db'"
  shows "harmless db db'"
  using assms by (force simp: harmless_def ids_ok_def executable_key_def failed_key_def)

text \<open>Changes of one step row.\<close>

lemma rs_keys_map_step: "(\<And>r. rs_key r = k \<Longrightarrow> rs_key (f r) = k) \<Longrightarrow> map rs_key (db_steps (map_step k f db)) = map rs_key (db_steps db)"
  by (simp add: map_step_def)

lemma in_map_step:
  "r \<in> set (db_steps (map_step k f db)) \<longleftrightarrow> (r \<in> set (db_steps db) \<and> rs_key r \<noteq> k) \<or> (\<exists>r0 \<in> set (db_steps db). rs_key r0 = k \<and> r = f r0)"
  by (auto simp: map_step_def image_iff)

lemma ids_ok_keys:
  "ids_ok db \<longleftrightarrow> distinct (map rs_key (db_steps db)) \<and> (\<forall>k \<in> set (map rs_key (db_steps db)). fst k < db_next_run db) \<and>
     (\<forall>r \<in> set (db_runs db). rn_ID r < db_next_run db)"
  by (simp add: ids_ok_def rs_key_def)

lemma ids_ok_map_step:
  assumes "ids_ok db" "\<And>r. rs_key r = k \<Longrightarrow> rs_key (f r) = k"
  shows "ids_ok (map_step k f db)"
proof -
  have keys: "map rs_key (db_steps (map_step k f db)) = map rs_key (db_steps db)" by (rule rs_keys_map_step [OF assms(2)])
  have "db_runs (map_step k f db) = db_runs db" "db_next_run (map_step k f db) = db_next_run db" by (simp_all add: map_step_def)
  then show ?thesis using assms(1) unfolding ids_ok_keys keys by simp
qed

lemma key_map_step:
  assumes "\<And>r. rs_key r = k \<Longrightarrow> rs_key (f r) = k"
  shows "k' \<noteq> k \<Longrightarrow> executable_key (map_step k f db) k' = executable_key db k'"
    and "k' \<noteq> k \<Longrightarrow> failed_key (map_step k f db) k' = failed_key db k'"
    and "executable_key (map_step k f db) k \<longleftrightarrow> (\<exists>r \<in> set (db_steps db). rs_key r = k \<and> executable (f r))"
    and "failed_key (map_step k f db) k \<longleftrightarrow> (\<exists>r \<in> set (db_steps db). rs_key r = k \<and> rs_Status (f r) = ''failed'')"
  using assms by (auto simp: executable_key_def failed_key_def list_ex_iff map_step_def)

lemma harmless_map_step:
  assumes "ids_ok db" "\<And>r. rs_key r = k \<Longrightarrow> rs_key (f r) = k"
    and "\<And>r. rs_key r = k \<Longrightarrow> executable (f r) \<Longrightarrow> executable r" "\<And>r. rs_key r = k \<Longrightarrow> rs_Status (f r) = ''failed'' \<Longrightarrow> rs_Status r = ''failed''"
  shows "harmless db (map_step k f db)"
proof -
  have "executable_key (map_step k f db) k' \<Longrightarrow> executable_key db k'" for k'
    using key_map_step(1) [of k f k' db] key_map_step(3) [of k f db] assms(2,3) by (cases "k' = k") (auto simp: executable_key_def list_ex_iff)
  moreover have "failed_key (map_step k f db) k' \<Longrightarrow> failed_key db k'" for k'
    using key_map_step(2) [of k f k' db] key_map_step(4) [of k f db] assms(2,4) by (cases "k' = k") (auto simp: failed_key_def list_ex_iff)
  ultimately show ?thesis using ids_ok_map_step [OF assms(1,2)] by (auto simp: harmless_def map_step_def)
qed

lemma new_run_step_key [simp]: "rs_key (new_run_step i n st) = (i, n)" "rs_Status (new_run_step i n st) = st"
  by (simp_all add: new_run_step_def rs_key_def)

lemma rs_key_updates [simp]:
  "rs_key (r\<lparr>rs_ExecutedAt := x\<rparr>) = rs_key r" "rs_key (r\<lparr>rs_Status := y\<rparr>) = rs_key r" "rs_key (r\<lparr>rs_Error := z\<rparr>) = rs_key r"
  by (simp_all add: rs_key_def)

lemma harmless_UpdateRunStep:
  "ids_ok db \<Longrightarrow> \<not> executable row \<Longrightarrow> rs_Status row \<noteq> ''failed'' \<Longrightarrow> harmless db (UpdateRunStep io row db)"
  by (auto simp: UpdateRunStep_def harmless_refl intro: harmless_map_step)

lemma ids_ok_UpdateRunStep: "ids_ok db \<Longrightarrow> ids_ok (UpdateRunStep io row db)"
  by (auto simp: UpdateRunStep_def intro: ids_ok_map_step)

lemma harmless_trans: "harmless a b \<Longrightarrow> harmless b c \<Longrightarrow> harmless a c"
  unfolding harmless_def by (meson order_trans)

lemma harmless_ids: "harmless a b \<Longrightarrow> ids_ok b"
  by (simp add: harmless_def)

text \<open>Every operation but the lock, the reset and the end of an execution is harmless.\<close>

lemma harmless_start_run:
  assumes "ids_ok db"
  shows "harmless db (fst (handleStartRun env io now ctx inst p trigger db))"
proof -
  have step: "harmless db d' \<and> db_next_run d' = db_next_run d" if "harmless db d" "db_next_run db < db_next_run d"
    "d' = CreateRunStep io (new_run_step (db_next_run db) n ''pending'') d" for d d' n
  proof (cases "\<not> io (OpCreateRunStep n) \<or> db_next_run db \<notin> rn_ID ` set (db_runs d)")
    case True
    then show ?thesis using that by (simp add: CreateRunStep_def new_run_step_def)
  next
    case False
    let ?r = "new_run_step (db_next_run db) n ''pending''"
    have ids: "ids_ok d" using that(1) by (rule harmless_ids)
    show ?thesis
    proof (cases "rs_key ?r \<in> rs_key ` set (db_steps d)")
      case True
      then have d': "d' = map_step (db_next_run db, n) (\<lambda>_. ?r) d"
        using that(3) False by (simp add: CreateRunStep_def) (simp add: new_run_step_def)
      have "ids_ok d'" unfolding d' by (rule ids_ok_map_step [OF ids]) simp
      moreover have "executable_key d' k \<Longrightarrow> executable_key d k \<or> fst k = db_next_run db" for k
        unfolding d' using key_map_step(1) [of "(db_next_run db, n)" "\<lambda>_. ?r" k d] by (cases "k = (db_next_run db, n)") auto
      moreover have "failed_key d' k \<Longrightarrow> failed_key d k" for k
        unfolding d' using key_map_step(2,4) [of "(db_next_run db, n)" "\<lambda>_. ?r"] by (cases "k = (db_next_run db, n)") auto
      moreover have "db_next_run d' = db_next_run d" unfolding d' by (simp add: map_step_def)
      ultimately show ?thesis using that(1) unfolding harmless_def by (metis order_refl)
    next
      case new: False
      then have d': "d' = d\<lparr>db_steps := db_steps d @ [?r]\<rparr>"
        using that(3) False by (simp add: CreateRunStep_def) (simp add: new_run_step_def)
      have "ids_ok d'" using ids new that(2) unfolding ids_ok_keys d' by auto
      moreover have "executable_key d' k \<Longrightarrow> executable_key d k \<or> fst k = db_next_run db" "failed_key d' k \<Longrightarrow> failed_key d k" for k
        unfolding d' by (auto simp: executable_key_def failed_key_def)
      moreover have "db_next_run d' = db_next_run d" unfolding d' by simp
      ultimately show ?thesis using that(1) unfolding harmless_def by (metis order_refl)
    qed
  qed
  have loop: "harmless db (fold (\<lambda>st d. CreateRunStep io (new_run_step (db_next_run db) (sp_StepOrder st) ''pending'') d) sts d)"
    if "harmless db d" "db_next_run db < db_next_run d" for sts d
    using that
  proof (induction sts arbitrary: d)
    case (Cons st sts)
    then show ?case using step [OF Cons.prems refl, of "sp_StepOrder st"] by simp
  qed simp
  have created: "harmless db d \<and> db_next_run db < db_next_run d \<and> i = db_next_run db" if "CreateRun io run db = Some (d, i)" for run d i
    using that assms by (auto simp: CreateRun_def split: if_splits intro!: harmless_same_steps) (auto simp: ids_ok_def)
  have "harmless db (fold (\<lambda>st d. CreateRunStep io (new_run_step i (sp_StepOrder st) ''pending'') d) sts d)"
    if "CreateRun io run db = Some (d, i)" for run d i sts
    using created [OF that] loop by blast
  then show ?thesis
    by (auto simp: handleStartRun_def Let_def harmless_refl [OF assms] split: option.splits)
qed

lemma harmless_UpdateRun: "ids_ok db \<Longrightarrow> harmless db (UpdateRun io now run db)"
  by (intro harmless_same_steps) (auto simp: UpdateRun_def ids_ok_def)

lemma harmless_UpdateFeedback: "ids_ok db \<Longrightarrow> UpdateFeedback io now i a b n db = Some db' \<Longrightarrow> harmless db db'"
  by (intro harmless_same_steps) (auto simp: UpdateFeedback_def ids_ok_def split: if_splits)

lemma harmless_worker:
  assumes "ids_ok db"
  shows "harmless db (worker_evaluate io window now unresolved db)"
proof -
  have one: "harmless d (worker_run io fw now unresolved run d)" if "ids_ok d" for fw run d
    using harmless_UpdateFeedback [OF that] harmless_refl [OF that]
    by (auto simp: worker_run_def split: option.splits)
  have "ids_ok d \<Longrightarrow> harmless d (fold (worker_run io fw now unresolved) runs d)" for fw runs d
  proof (induction runs arbitrary: d)
    case (Cons run runs)
    let ?d = "worker_run io fw now unresolved run d"
    have "harmless d ?d" by (rule one [OF Cons.prems])
    moreover have "harmless ?d (fold (worker_run io fw now unresolved) runs ?d)" by (rule Cons.IH [OF harmless_ids [OF calculation]])
    ultimately show ?case by (simp add: harmless_trans [of d ?d])
  qed (simp add: harmless_refl)
  then show ?thesis using assms by (simp add: worker_evaluate_def Let_def)
qed

lemma harmless_clean: "ids_ok db \<Longrightarrow> harmless db (fst (CleanOldRuns now older db))"
  by (auto simp: harmless_def ids_ok_def CleanOldRuns_def Let_def executable_key_def failed_key_def list_ex_iff distinct_map inj_on_def)

lemma harmless_playbooks:
  assumes "ids_ok db"
  shows "harmless db (fst (handleCreatePlaybook env io ctx body db))" "harmless db (fst (handleUpdatePlaybook env io ctx i body db))"
    "harmless db (fst (handleDeletePlaybook env io i db))" "harmless db (fst (handlePromotePlaybook env io i db))"
    "harmless db (fst (handleDeprecatePlaybook env io i db))" "harmless db (SeedBuiltins pbs db)"
proof -
  have same: "db_steps db' = db_steps db \<Longrightarrow> db_next_run db' = db_next_run db \<Longrightarrow> db_runs db' = db_runs db \<Longrightarrow> harmless db db'" for db'
    using assms by (intro harmless_same_steps) (auto simp: ids_ok_def)
  show "harmless db (fst (handleCreatePlaybook env io ctx body db))"
    by (rule same) (auto simp: handleCreatePlaybook_def Create_pb_def Let_def split: option.splits if_splits)
  show "harmless db (fst (handleUpdatePlaybook env io ctx i body db))"
    by (rule same) (auto simp: handleUpdatePlaybook_def Update_pb_def map_playbook_def Let_def split: option.splits if_splits)
  show "harmless db (fst (handleDeletePlaybook env io i db))"
    by (rule same) (auto simp: handleDeletePlaybook_def Delete_pb_def Let_def split: option.splits if_splits)
  show "harmless db (fst (handlePromotePlaybook env io i db))"
    by (rule same) (auto simp: handlePromotePlaybook_def Promote_def map_playbook_def split: option.splits if_splits)
  show "harmless db (fst (handleDeprecatePlaybook env io i db))"
    by (rule same) (auto simp: handleDeprecatePlaybook_def Deprecate_def map_playbook_def split: option.splits if_splits)
  have "db_steps (fold seed_one pbs d) = db_steps d \<and> db_next_run (fold seed_one pbs d) = db_next_run d \<and> db_runs (fold seed_one pbs d) = db_runs d" for d
    by (induction pbs arbitrary: d) (auto simp: seed_one_def)
  then show "harmless db (SeedBuiltins pbs db)" by (intro same) (simp_all add: SeedBuiltins_def)
qed

text \<open>The three operations that are not harmless.\<close>

lemma exec_begin_answered:
  assumes "ids_ok db" "exec_begin env io now ctx r st ok db = Inl (db', resp)"
  shows "harmless db db'"
proof -
  have "harmless db (UpdateRunStep io ((new_run_step i n ''completed'')\<lparr>rs_ExecutedAt := Some now\<rparr>) db)" for i n
    using assms(1) by (intro harmless_UpdateRunStep) (simp_all add: executable_def new_run_step_def)
  then show ?thesis
    using assms(2) harmless_refl [OF assms(1)]
    by (auto simp: exec_begin_def tier_gate_def split: if_splits option.splits)
qed

lemma find_SomeD: "find P xs = Some x \<Longrightarrow> P x \<and> x \<in> set xs"
  by (auto simp: find_Some_iff)

lemma exec_begin_locked:
  assumes "exec_begin env io now ctx r st ok db = Inr (db', t)"
  shows "LockStepForExecution io (fst (tk_key t)) (snd (tk_key t)) db = Some db' \<and> tk_run t \<in> set (db_runs db) \<and>
    (\<exists>pb \<in> set (db_playbooks db). pb_ID pb = rn_PlaybookID (tk_run t) \<and> tk_step t \<in> set (pb_Steps pb)) \<and>
    tier_gate io now ctx ok (rn_ID (tk_run t)) (tk_step t) db = None \<and> tk_claims t = ctx"
proof -
  from assms obtain i n run pb0 pb step where
    run: "GetRun io i db = Some (Some run)" and pb: "Get_pb io (rn_PlaybookID run) db = Some (Some pb)"
    and step: "find (\<lambda>s. sp_StepOrder s = n) (pb_Steps pb) = Some step"
    and gate: "tier_gate io now ctx ok i step db = None" and lock: "LockStepForExecution io i n db = Some db'"
    and t: "t = \<lparr>tk_run = run, tk_step = step, tk_claims = ctx\<rparr>"
    unfolding exec_begin_def by (auto split: if_splits option.splits simp: bind_eq_Some_conv)
  have run': "rn_ID run = i" "run \<in> set (db_runs db)" using run by (auto simp: GetRun_def dest!: find_SomeD split: if_splits)
  obtain pb0 where pb0: "pb = with_steps pb0" "pb0 \<in> set (db_playbooks db)" "pb_ID pb0 = rn_PlaybookID run"
    using pb by (auto simp: Get_pb_def dest!: find_SomeD split: if_splits)
  have "sp_StepOrder step = n" "step \<in> set (pb_Steps pb0)" using find_SomeD [OF step] pb0(1) by (simp_all add: with_steps_def)
  then show ?thesis using run' pb0 gate lock t by (auto simp: tk_key_def)
qed

lemma lock_inv:
  assumes "pb_inv s" "LockStepForExecution io (fst (tk_key t)) (snd (tk_key t)) (sy_db s) = Some db'" "tk_run t \<in> set (db_runs (sy_db s))"
  shows "pb_inv (s\<lparr>sy_db := db', sy_inflight := sy_inflight s @ [t], sy_ran := sy_ran s @ [tk_key t]\<rparr>)"
proof -
  let ?k = "tk_key t"
  define f :: "RunStep \<Rightarrow> RunStep" where "f = (\<lambda>r. if executable r then r\<lparr>rs_Status := ''running''\<rparr> else r)"
  have ids: "ids_ok (sy_db s)" by (rule pb_inv_ids [OF assms(1)])
  have db': "db' = map_step ?k f (sy_db s)" and was: "executable_key (sy_db s) ?k"
    using assms(2) by (auto simp: LockStepForExecution_def executable_key_def f_def split: if_splits)
  have key: "rs_key r = ?k \<Longrightarrow> rs_key (f r) = ?k" for r by (simp add: f_def)
  have unique: "r = r'" if "r \<in> set (db_steps (sy_db s))" "r' \<in> set (db_steps (sy_db s))" "rs_key r = rs_key r'" for r r'
    using ids that by (auto simp: ids_ok_def distinct_map inj_on_def)
  have run_exec: "\<not> executable (r\<lparr>rs_Status := ''running''\<rparr>)" for r by (simp add: executable_def)
  have "\<not> executable (f r)" for r using run_exec by (simp add: f_def)
  then have now: "\<not> executable_key db' ?k" using key_map_step(3) [of ?k f "sy_db s", OF key] unfolding db' by blast
  obtain r where r: "r \<in> set (db_steps (sy_db s))" "rs_key r = ?k" "executable r"
    using was by (auto simp: executable_key_def list_ex_iff)
  then have "rs_Status (f r') \<noteq> ''failed''" if "r' \<in> set (db_steps (sy_db s))" "rs_key r' = ?k" for r'
    using unique [of r' r] that by (simp add: f_def)
  then have nf: "\<not> failed_key db' ?k" using key_map_step(4) [of ?k f "sy_db s", OF key] unfolding db' by blast
  have other: "k \<noteq> ?k \<Longrightarrow> executable_key db' k = executable_key (sy_db s) k \<and> failed_key db' k = failed_key (sy_db s) k" for k
    using key_map_step(1,2) [of ?k f k "sy_db s", OF key] unfolding db' by blast
  have ex: "excluded s" using assms(1) by (simp add: pb_inv_def)
  then have fresh: "t' \<in> set (sy_inflight s) \<Longrightarrow> tk_key t' \<noteq> ?k" for t' using was by (auto simp: excluded_def)
  have "t' \<in> set (sy_inflight s) \<Longrightarrow> \<not> executable_key db' (tk_key t') \<and> \<not> failed_key db' (tk_key t')" for t'
    using other [OF fresh] ex unfolding excluded_def by blast
  then have "excluded (s\<lparr>sy_db := db', sy_inflight := sy_inflight s @ [t], sy_ran := sy_ran s @ [?k]\<rparr>)"
    using now nf fresh ex unfolding excluded_def by force
  moreover have "count_list (sy_ran s @ [?k]) k + (if executable_key db' k then 1 else 0) \<le> count_list (sy_resets s) k + 1" for k
  proof -
    have "count_list (sy_ran s) k + (if executable_key (sy_db s) k then 1 else 0) \<le> count_list (sy_resets s) k + 1"
      using assms(1) unfolding pb_inv_def paid_def by blast
    then show ?thesis using now was other [of k] by (cases "k = ?k") (auto simp: count_list_append)
  qed
  moreover have "ids_ok db'" unfolding db' by (rule ids_ok_map_step [OF ids key])
  moreover have "db_next_run db' = db_next_run (sy_db s)" unfolding db' by (simp add: map_step_def)
  moreover have "fst ?k < db_next_run (sy_db s)" using assms(3) ids by (simp add: tk_key_def ids_ok_def)
  ultimately show ?thesis using assms(1) by (auto simp: pb_inv_def paid_def)
qed

lemma finish_effect:
  assumes "ids_ok db" "db' = fst (exec_finish env io now outcome t db)"
  shows "ids_ok db' \<and> db_next_run db' = db_next_run db \<and> (\<forall>k. executable_key db' k \<longrightarrow> executable_key db k) \<and>
    (\<forall>k. k \<noteq> tk_key t \<longrightarrow> failed_key db' k \<longrightarrow> failed_key db k)"
proof -
  have eff: "ids_ok d \<and> db_next_run d = db_next_run db \<and> (\<forall>k. executable_key d k \<longrightarrow> executable_key db k) \<and>
      (\<forall>k. k \<noteq> tk_key t \<longrightarrow> failed_key d k \<longrightarrow> failed_key db k)"
    if "d = UpdateRunStep io row db" "rs_key row = tk_key t" "\<not> executable row" for d row
  proof (cases "io OpUpdateRunStep")
    case True
    then have d: "d = map_step (tk_key t) (\<lambda>_. row) db" using that by (simp add: UpdateRunStep_def)
    have key: "rs_key r = tk_key t \<Longrightarrow> rs_key row = tk_key t" for r using that(2) by simp
    have "executable_key d k \<Longrightarrow> executable_key db k" for k
      using key_map_step(1) [of "tk_key t" "\<lambda>_. row" k db, OF key] key_map_step(3) [of "tk_key t" "\<lambda>_. row" db, OF key] that(3) unfolding d by (cases "k = tk_key t") auto
    moreover have "k \<noteq> tk_key t \<Longrightarrow> failed_key d k \<Longrightarrow> failed_key db k" for k
      using key_map_step(2) [of "tk_key t" "\<lambda>_. row" k db, OF key] unfolding d by simp
    ultimately show ?thesis using ids_ok_map_step [OF assms(1) key] unfolding d by (auto simp: map_step_def)
  qed (use that assms(1) in \<open>simp add: UpdateRunStep_def\<close>)
  have upd: "db_steps (UpdateRun io now run d) = db_steps d \<and> db_next_run (UpdateRun io now run d) = db_next_run d \<and>
      (ids_ok d \<longrightarrow> ids_ok (UpdateRun io now run d))" for run d
    by (auto simp: UpdateRun_def ids_ok_def)
  have rows: "rs_key (failed_step now t err) = tk_key t" "\<not> executable (failed_step now t err)"
    "rs_key (completed_step now t res v m) = tk_key t" "\<not> executable (completed_step now t res v m)" for err res v m
    by (simp_all add: failed_step_def completed_step_def new_run_step_def rs_key_def tk_key_def executable_def)
  show ?thesis
  proof (cases outcome)
    case (Inl err)
    have "db' = UpdateRunStep io (failed_step now t err) db" using assms(2) unfolding Inl exec_finish_def by simp
    from eff [OF this rows(1,2)] show ?thesis .
  next
    case (Inr res)
    obtain v m where vm: "Interpret (pe_fv env) (sp_ResultInterpretation (tk_step t)) (er_Columns res) (er_Rows res) (er_RowCount res) = (v, m)"
      by fastforce
    define d where "d = UpdateRunStep io (completed_step now t res v m) db"
    have "\<exists>run. db' = UpdateRun io now run d"
      using assms(2) unfolding Inr exec_finish_def sum.case vm Let_def prod.case fst_conv d_def by blast
    then obtain run where run: "db' = UpdateRun io now run d" by blast
    have "executable_key db' = executable_key d" "failed_key db' = failed_key d" "db_next_run db' = db_next_run d"
      using upd [of run d] unfolding run by (auto simp: executable_key_def failed_key_def)
    moreover have "ids_ok d \<Longrightarrow> ids_ok db'" using upd [of run d] unfolding run by blast
    ultimately show ?thesis using eff [OF d_def rows(3,4) [of res v m]] by simp
  qed
qed

lemma finish_inv:
  assumes "pb_inv s" "t \<in> set (sy_inflight s)"
  shows "pb_inv (s\<lparr>sy_db := fst (exec_finish env io now outcome t (sy_db s)), sy_inflight := remove1 t (sy_inflight s)\<rparr>)"
proof -
  define db' where "db' = fst (exec_finish env io now outcome t (sy_db s))"
  have eff: "ids_ok db'" "db_next_run db' = db_next_run (sy_db s)" "\<And>k. executable_key db' k \<Longrightarrow> executable_key (sy_db s) k"
    "\<And>k. k \<noteq> tk_key t \<Longrightarrow> failed_key db' k \<Longrightarrow> failed_key (sy_db s) k"
    using finish_effect [OF pb_inv_ids [OF assms(1)] db'_def] by blast+
  have d: "distinct (map tk_key (sy_inflight s))" and ex: "t' \<in> set (sy_inflight s) \<Longrightarrow> \<not> executable_key (sy_db s) (tk_key t') \<and> \<not> failed_key (sy_db s) (tk_key t')" for t'
    using assms(1) by (simp_all add: pb_inv_def excluded_def)
  have "distinct (sy_inflight s)" using d by (simp add: distinct_map)
  then have rest: "t' \<in> set (remove1 t (sy_inflight s)) \<Longrightarrow> t' \<in> set (sy_inflight s) \<and> tk_key t' \<noteq> tk_key t" for t'
    using d assms(2) by (auto simp: distinct_map inj_on_def)
  have "distinct (map tk_key (remove1 t (sy_inflight s)))"
    using d by (metis distinct_map distinct_remove1 inj_on_subset set_remove1_subset)
  then have "excluded (s\<lparr>sy_db := db', sy_inflight := remove1 t (sy_inflight s)\<rparr>)"
    using rest ex eff(3,4) unfolding excluded_def by simp metis
  moreover have "count_list (sy_ran s) k + (if executable_key db' k then 1 else 0) \<le> count_list (sy_resets s) k + 1" for k
  proof -
    have "count_list (sy_ran s) k + (if executable_key (sy_db s) k then 1 else 0) \<le> count_list (sy_resets s) k + 1"
      using assms(1) unfolding pb_inv_def paid_def by blast
    then show ?thesis using eff(3) [of k] by (auto split: if_splits)
  qed
  ultimately show ?thesis
    using assms(1) eff(1,2) rest unfolding db'_def [symmetric] by (auto simp: pb_inv_def paid_def)
qed

lemma reset_inv:
  assumes "pb_inv s" "db' = sy_db s \<or> ResetStepForRetry io (fst k) (snd k) (sy_db s) = Some db'"
  shows "pb_inv (s\<lparr>sy_db := db', sy_resets := log_reset (sy_db s) db' k (sy_resets s)\<rparr>)"
proof (cases "db' = sy_db s")
  case True
  then show ?thesis using assms(1) by (simp add: log_reset_def)
next
  case False
  define f :: "RunStep \<Rightarrow> RunStep" where "f = (\<lambda>r. if rs_Status r = ''failed'' then r\<lparr>rs_Status := ''pending'', rs_Error := None\<rparr> else r)"
  have db': "db' = map_step k f (sy_db s)" using assms(2) False by (simp add: ResetStepForRetry_def f_def split: if_splits)
  have key: "rs_key r = k \<Longrightarrow> rs_key (f r) = k" for r by (simp add: f_def)
  have failed: "failed_key (sy_db s) k"
  proof (rule ccontr)
    assume "\<not> failed_key (sy_db s) k"
    then have "map (\<lambda>r. if rs_key r = k then f r else r) (db_steps (sy_db s)) = db_steps (sy_db s)"
      by (intro map_idI) (auto simp: failed_key_def list_ex_iff f_def)
    then show False using False unfolding db' map_step_def by simp
  qed
  have not_in: "t \<in> set (sy_inflight s) \<Longrightarrow> tk_key t \<noteq> k" for t using failed assms(1) by (auto simp: pb_inv_def excluded_def)
  have other: "k' \<noteq> k \<Longrightarrow> executable_key db' k' = executable_key (sy_db s) k' \<and> failed_key db' k' = failed_key (sy_db s) k'" for k'
    using key_map_step(1,2) [of k f k' "sy_db s", OF key] unfolding db' by blast
  have old: "count_list (sy_ran s) k' + (if executable_key (sy_db s) k' then 1 else 0) \<le> count_list (sy_resets s) k' + 1" for k'
    using assms(1) unfolding pb_inv_def paid_def by blast
  have "log_reset (sy_db s) db' k (sy_resets s) = sy_resets s @ [k]" using False failed by (simp add: log_reset_def)
  moreover have "count_list (sy_ran s) k' + (if executable_key db' k' then 1 else 0) \<le> count_list (sy_resets s @ [k]) k' + 1" for k'
    using old [of k'] other [of k'] by (cases "k' = k") (auto simp: count_list_append split: if_splits)
  moreover have "excluded (s\<lparr>sy_db := db', sy_resets := sy_resets s @ [k]\<rparr>)"
    using not_in other assms(1) unfolding pb_inv_def excluded_def by simp
  moreover have "ids_ok db'" unfolding db' by (rule ids_ok_map_step [OF pb_inv_ids [OF assms(1)] key])
  moreover have "db_next_run db' = db_next_run (sy_db s)" unfolding db' by (simp add: map_step_def)
  ultimately show ?thesis using assms(1) by (simp add: pb_inv_def paid_def)
qed

lemma harmless_skip: "ids_ok db \<Longrightarrow> harmless db (fst (handleSkipStep env io now r st db))"
  by (auto simp: handleSkipStep_def harmless_refl executable_def intro!: harmless_UpdateRunStep)

lemma harmless_request: "ids_ok db \<Longrightarrow> harmless db (fst (handleRequestApproval env io r st db))"
  by (auto simp: handleRequestApproval_def RequestStepApproval_def harmless_refl executable_def intro!: harmless_map_step split: option.splits if_splits)

lemma harmless_abandon:
  assumes "ids_ok db"
  shows "harmless db (fst (handleAbandonRun env io now r db))"
proof -
  have "harmless db (case UpdateFeedback io now i u v n (UpdateRun io now run db) of None \<Rightarrow> UpdateRun io now run db | Some d \<Rightarrow> d)" for i u v n run
    using harmless_UpdateRun [OF assms] harmless_trans harmless_UpdateFeedback harmless_ids by (metis (no_types) option.case_eq_if option.collapse)
  then show ?thesis by (simp add: handleAbandonRun_def Let_def harmless_refl [OF assms] split: option.splits)
qed

lemma harmless_feedback: "ids_ok db \<Longrightarrow> harmless db (fst (handleSubmitFeedback env io now r body db))"
  by (auto simp: handleSubmitFeedback_def harmless_refl harmless_UpdateFeedback split: option.splits)

lemmas harmless_handlers = harmless_skip harmless_request harmless_abandon harmless_feedback harmless_worker harmless_clean
  harmless_playbooks harmless_start_run

lemma empty_inv: "pb_inv \<lparr>sy_db = empty_db, sy_inflight = [], sy_ran = [], sy_resets = []\<rparr>"
  by (simp add: pb_inv_def ids_ok_def paid_def excluded_def empty_db_def executable_key_def)

lemma pb_reach_inv: "pb_reach env s \<Longrightarrow> pb_inv s"
proof (induction rule: pb_reach.induct)
  case init
  show ?case by (rule empty_inv)
next
  case (begin_answered s io now ctx r st ok db' resp)
  then show ?case by (intro harmless_inv exec_begin_answered pb_inv_ids)
next
  case (begin_locked s io now ctx r st ok db' t)
  then show ?case using exec_begin_locked by (intro lock_inv) blast+
next
  case (finish s t io now outcome)
  then show ?case by (intro finish_inv)
next
  case (approve s db' io r st k)
  then show ?case
    by (intro reset_inv [where io = io]) (auto simp: handleApproveStep_def split: option.splits)
next
  case (retry s db' io r st k)
  then show ?case
    by (intro reset_inv [where io = io]) (auto simp: handleRetryStep_def split: option.splits)
qed (intro harmless_inv harmless_handlers pb_inv_ids, assumption+)+

text \<open>C7: Under any interleaving of requests, of the executions in flight, of the feedback worker and of
  the clean-up, and whatever store operations fail: no step of a run is executed by two requests at
  the same time, and a step is executed at most once more often than a failed execution of it was
  reset for a retry. In particular a step that completed is never executed again.\<close>

theorem playbook_step_at_most_once:
  assumes "pb_reach env s"
  shows "distinct (map tk_key (sy_inflight s)) \<and> count_list (sy_ran s) k \<le> count_list (sy_resets s) k + 1 \<and>
    (\<forall>t \<in> set (sy_inflight s). \<not> executable_key (sy_db s) (tk_key t))"
proof -
  have "paid s" "excluded s" using pb_reach_inv [OF assms] by (simp_all add: pb_inv_def)
  then show ?thesis unfolding paid_def excluded_def by (meson add_leE)
qed

subsection \<open>Tiers\<close>

text \<open>C8: What a request goes through before SQL is run: the step belongs to the run's playbook and was
  executable, it is not external, a remediation step was confirmed in the request, and a dangerous
  step comes from a user with the permission to manage instances.\<close>

theorem executed_step_authorised:
  assumes "exec_begin env io now ctx r st confirmed db = Inr (db', t)"
  shows "sp_SafetyTier (tk_step t) \<noteq> TierExternal \<and>
    (sp_SafetyTier (tk_step t) = TierRemediate \<longrightarrow> confirmed) \<and>
    (sp_SafetyTier (tk_step t) = TierDangerous \<longrightarrow> (\<exists>c. ctx = Some c \<and> HasPermission (c_Role c) PermInstanceManagement)) \<and>
    executable_key db (tk_key t) \<and> \<not> executable_key db' (tk_key t) \<and>
    (\<exists>pb \<in> set (db_playbooks db). pb_ID pb = rn_PlaybookID (tk_run t) \<and> tk_step t \<in> set (pb_Steps pb))"
proof -
  note b = exec_begin_locked [OF assms]
  have gate: "tier_gate io now ctx confirmed (rn_ID (tk_run t)) (tk_step t) db = None" using b by blast
  have lock: "LockStepForExecution io (fst (tk_key t)) (snd (tk_key t)) db = Some db'" using b by blast
  then have "executable_key db (tk_key t)" by (auto simp: LockStepForExecution_def executable_key_def split: if_splits)
  moreover have "\<not> executable_key db' (tk_key t)"
    using lock by (auto simp: LockStepForExecution_def executable_key_def list_ex_iff map_step_def executable_def split: if_splits)
  ultimately show ?thesis
    using gate b by (auto simp: tier_gate_def can_manage_def split: if_splits option.splits)
qed

subsection \<open>The executor\<close>

definition ends_in_rollback :: "string list \<Rightarrow> bool" where
  "ends_in_rollback stmts \<longleftrightarrow> stmts = [] \<or> stmts = [''BEGIN''] \<or> last stmts = ''ROLLBACK''"

lemma sql_not_keyword:
  "timeout_stmt step \<noteq> ''COMMIT''" "lock_timeout_stmt \<noteq> ''COMMIT''" "read_only_stmt \<noteq> ''COMMIT''"
  by (simp_all add: timeout_stmt_def lock_timeout_stmt_def read_only_stmt_def)

lemma length_collect_rows: "length (collect_rows n rows) \<le> nat n"
  using length_filter_le [of "\<lambda>x. x \<noteq> None" "take (nat n) rows"] by (simp add: collect_rows_def List.map_filter_def)

text \<open>C9: The executor: it sends nothing for an external or multi-statement step; everything it sends is
  in one transaction that is rolled back on every path, with no \<open>COMMIT\<close> but a step's own; the step's
  SQL is sent only after both timeouts were set, and for a diagnostic step after the read-only
  setting; a result has at most the configured number of rows and says whether rows were cut off.\<close>

theorem executor_contained:
  assumes "ExecuteStep e db elapsed step = (stmts, res)"
  shows "(sp_SafetyTier step = TierExternal \<or> multi_statement (sp_SQLTemplate step) \<longrightarrow> stmts = [] \<and> (\<exists>err. res = Inl err)) \<and>
    ends_in_rollback stmts \<and> (''COMMIT'' \<in> set stmts \<longrightarrow> sp_SQLTemplate step = ''COMMIT'') \<and>
    (case res of Inl err \<Rightarrow> True
     | Inr r \<Rightarrow> take 3 stmts = [''BEGIN'', timeout_stmt step, lock_timeout_stmt] \<and>
         (sp_SafetyTier step = TierDiagnostic \<longrightarrow> stmts ! 3 = read_only_stmt) \<and>
         stmts ! (length stmts - 2) = sp_SQLTemplate step \<and>
         length (er_Rows r) \<le> nat (ex_rowLimit e) \<and> er_RowCount r = int (length (er_Rows r)) \<and>
         er_RowCount r \<le> er_TotalRows r \<and> (er_Truncated r \<longleftrightarrow> ex_rowLimit e < er_TotalRows r))"
proof -
  have rows: "length (collect_rows n rs) \<le> length rs" for n rs
    using length_filter_le [of "\<lambda>x. x \<noteq> None" "take (nat n) rs"] by (simp add: collect_rows_def List.map_filter_def)
  show ?thesis
    using assms sql_not_keyword(1) [of step] sql_not_keyword(2,3) length_collect_rows rows
    by (auto simp: ExecuteStep_def Let_def ends_in_rollback_def numeral_3_eq_3 split: if_splits option.splits)
qed

end
