(* ===== verification/PlaybookDemo.thy ===== *)
theory PlaybookDemo
  imports PlaybookLaws
begin

section \<open>Playbook runs: approvals, races and concrete runs\<close>

text \<open>
  What approving a step does, what happens to a run that is abandoned while one of its steps is being
  executed, who can execute a remediation step, and the concrete runs that show the hypotheses of the
  laws can be met.
\<close>

text \<open>Approving or confirming a step does nothing to it: \<open>handleApproveStep\<close> leaves the tables as they
  are unless the step has failed, so a step waiting for approval stays so, and a user without
  the permission to manage instances gets the same answer before and after the approval; \<open>handleConfirmStep\<close>
  never changes anything.\<close>

theorem approval_without_effect:
  assumes "\<not> failed_key db (ParseInt_value r, ParseInt_value st)"
  shows "fst (handleApproveStep env io r st db) = db \<and> fst (handleConfirmStep db) = db \<and>
    exec_begin env io' now ctx r st confirmed (fst (handleApproveStep env io r st db)) = exec_begin env io' now ctx r st confirmed db"
proof -
  let ?k = "(ParseInt_value r, ParseInt_value st)"
  have "map_step ?k (\<lambda>r. if rs_Status r = ''failed'' then r\<lparr>rs_Status := ''pending'', rs_Error := None\<rparr> else r) db = db"
  proof -
    have "map (\<lambda>r. if rs_key r = ?k then if rs_Status r = ''failed'' then r\<lparr>rs_Status := ''pending'', rs_Error := None\<rparr> else r else r) (db_steps db)
        = db_steps db"
      using assms by (intro map_idI) (auto simp: failed_key_def list_ex_iff)
    then show ?thesis by (simp add: map_step_def)
  qed
  then have "fst (handleApproveStep env io r st db) = db"
    by (simp add: handleApproveStep_def ResetStepForRetry_def)
  then show ?thesis by (simp add: handleConfirmStep_def)
qed

subsection \<open>A playbook of three steps\<close>

definition demo_pbstep :: "int \<Rightarrow> string \<Rightarrow> int option \<Rightarrow> Step" where
  "demo_pbstep n tier nxt = \<lparr>sp_StepOrder = n, sp_Name = ''step'', sp_Description = '''', sp_SQLTemplate = ''SELECT 1'', sp_SafetyTier = tier,
     sp_TimeoutSeconds = 5, sp_ResultInterpretation = \<lparr>is_Rules = [], is_RowCountRules = [], is_DefaultVerdict = ''green'', is_DefaultMessage = ''ok''\<rparr>,
     sp_BranchRules = [], sp_NextStepDefault = nxt, sp_ManualInstructions = '''', sp_EscalationContact = ''''\<rparr>"

definition demo_playbook :: Playbook where
  "demo_playbook = \<lparr>pb_ID = 0, pb_Slug = ''demo'', pb_Name = ''Demo'', pb_Description = '''', pb_Version = 1, pb_Status = ''stable'', pb_Category = ''general'',
     pb_TriggerBindings = \<lparr>tb_Hooks = [], tb_RootCauses = [], tb_Metrics = [], tb_AdviserRules = []\<rparr>, pb_EstimatedDurationMin = None,
     pb_RequiresPermission = PermInstanceManagement, pb_Author = ''x'', pb_IsBuiltin = True,
     pb_Steps = [demo_pbstep 1 TierDiagnostic (Some 2), demo_pbstep 2 TierRemediate (Some 3), demo_pbstep 3 TierDangerous None]\<rparr>"

definition demo_pbenv :: pb_env where
  "demo_pbenv = \<lparr>pe_enabled = True, pe_instances = [''db1''], pe_executor = NewExecutor 0, pe_fv = (\<lambda>x. '''')\<rparr>"

definition all_up :: outcomes where
  "all_up op = True"

definition demo_pbdb :: PlaybookDB where
  "demo_pbdb = fst (handleStartRun demo_pbenv all_up 0 None ''db1'' ''1'' ('''', '''') (SeedBuiltins [demo_playbook] empty_db))"

definition viewer :: Claims where
  "viewer = \<lparr>c_Issuer = ''pgpulse'', c_IssuedAt = 0, c_ExpiresAt = 9, c_UserID = 2, c_Username = ''vera'', c_Role = RoleAppAdmin, c_Type = TokenAccess,
     c_Permissions = []\<rparr>"

definition demo_result :: ExecutionResult where
  "demo_result = \<lparr>er_Columns = [''x''], er_Rows = [[VInt 1]], er_RowCount = 1, er_TotalRows = 1, er_Truncated = False, er_Duration = 3\<rparr>"

lemma demo_pbdb_eval:
  "demo_pbdb = \<lparr>db_playbooks = [demo_playbook\<lparr>pb_ID := 1\<rparr>], db_next_playbook = 2,
     db_runs = [(new_run 0 (demo_playbook\<lparr>pb_ID := 1\<rparr>) ''db1'' None '''' '''')\<lparr>rn_ID := 1\<rparr>], db_next_run = 2,
     db_steps = [new_run_step 1 1 ''pending'', new_run_step 1 2 ''pending'', new_run_step 1 3 ''pending'']\<rparr>"
proof -
  have "ParseInt ''1'' = Some 1" by code_simp
  then show ?thesis
    by (simp add: demo_pbdb_def demo_pbenv_def all_up_def handleStartRun_def SeedBuiltins_def seed_one_def empty_db_def demo_playbook_def demo_pbstep_def
        Get_pb_def with_steps_def CreateRun_def CreateRunStep_def new_run_def new_run_step_def rs_key_def)
qed

lemma demo_parse: "ParseInt ''1'' = Some 1" "ParseInt ''2'' = Some 2" "ParseInt ''3'' = Some 3" "ParseInt_value ''1'' = 1" "ParseInt_value ''3'' = 3"
  by code_simp+

definition demo_ticket :: "int \<Rightarrow> string \<Rightarrow> int option \<Rightarrow> Claims option \<Rightarrow> ticket" where
  "demo_ticket n tier nxt ctx = \<lparr>tk_run = (new_run 0 (demo_playbook\<lparr>pb_ID := 1\<rparr>) ''db1'' None '''' '''')\<lparr>rn_ID := 1\<rparr>, tk_step = demo_pbstep n tier nxt, tk_claims = ctx\<rparr>"

lemma demo_begin:
  "exec_begin demo_pbenv all_up 0 ctx ''1'' ''1'' False demo_pbdb =
     Inr (map_step (1, 1) (\<lambda>r. if executable r then r\<lparr>rs_Status := ''running''\<rparr> else r) demo_pbdb, demo_ticket 1 TierDiagnostic (Some 2) ctx)"
  "exec_begin demo_pbenv all_up 0 ctx ''1'' ''2'' True demo_pbdb =
     Inr (map_step (1, 2) (\<lambda>r. if executable r then r\<lparr>rs_Status := ''running''\<rparr> else r) demo_pbdb, demo_ticket 2 TierRemediate (Some 3) ctx)"
  by (simp_all add: exec_begin_def demo_parse demo_pbdb_eval GetRun_def Get_pb_def with_steps_def tier_gate_def LockStepForExecution_def all_up_def
      demo_pbenv_def demo_ticket_def new_run_def demo_playbook_def demo_pbstep_def executable_def)

text \<open>Neither the permission a playbook requires nor the permission of the confirm route protects a
  remediation step: a user who may only view executes it by saying that it is confirmed.\<close>

theorem viewer_executes_remediation:
  "\<not> can_manage (Some viewer) \<and> pb_RequiresPermission demo_playbook = PermInstanceManagement \<and>
   (\<exists>db' t. exec_begin demo_pbenv all_up 0 (Some viewer) ''1'' ''2'' True demo_pbdb = Inr (db', t) \<and> sp_SafetyTier (tk_step t) = TierRemediate)"
proof -
  have "\<not> HasPermission RoleAppAdmin PermInstanceManagement" by code_simp
  then have "\<not> can_manage (Some viewer)" by (simp add: can_manage_def viewer_def)
  then show ?thesis using demo_begin(2) by (simp add: demo_playbook_def demo_ticket_def demo_pbstep_def)
qed

text \<open>A lost update: a run that is abandoned while one of its steps is being executed is in progress
  again, without completion time, when the execution ends, because the run read before the execution is
  written back.\<close>

theorem abandoned_run_revived:
  "\<exists>db1 t db2 db3. exec_begin demo_pbenv all_up 0 None ''1'' ''1'' False demo_pbdb = Inr (db1, t) \<and>
     db2 = fst (handleAbandonRun demo_pbenv all_up 10 ''1'' db1) \<and> db3 = fst (exec_finish demo_pbenv all_up 20 (Inr demo_result) t db2) \<and>
     map (\<lambda>r. (rn_Status r, rn_CompletedAt r)) (db_runs db2) = [(''abandoned'', Some 10)] \<and>
     map (\<lambda>r. (rn_Status r, rn_CompletedAt r)) (db_runs db3) = [(''in_progress'', None)]"
  unfolding demo_begin
  by (simp add: handleAbandonRun_def exec_finish_def demo_parse demo_pbdb_eval map_step_def GetRun_def UpdateRun_def UpdateRunStep_def UpdateFeedback_def
      all_up_def demo_pbenv_def demo_ticket_def demo_pbstep_def new_run_def demo_playbook_def demo_result_def Interpret_def EvaluateBranch_def default_next_def Let_def)

subsection \<open>Witnesses\<close>

lemma demo_reach: "pb_reach demo_pbenv \<lparr>sy_db = demo_pbdb, sy_inflight = [], sy_ran = [], sy_resets = []\<rparr>"
proof -
  have "pb_reach demo_pbenv \<lparr>sy_db = SeedBuiltins [demo_playbook] empty_db, sy_inflight = [], sy_ran = [], sy_resets = []\<rparr>"
    using pb_reach.seed [OF pb_reach.init, of demo_pbenv "[demo_playbook]"] by simp
  from pb_reach.start_run [OF this, of all_up 0 None "''db1''" "''1''" "('''', '''')"] show ?thesis by (simp add: demo_pbdb_def)
qed

theorem playbook_step_at_most_once_witness:
  "\<exists>s. pb_reach demo_pbenv s \<and> sy_ran s = [(1, 1)] \<and> count_list (sy_ran s) (1, 1) \<le> count_list (sy_resets s) (1, 1) + 1 \<and>
     (\<forall>t \<in> set (sy_inflight s). \<not> executable_key (sy_db s) (tk_key t))"
proof -
  let ?s0 = "\<lparr>sy_db = demo_pbdb, sy_inflight = [], sy_ran = [], sy_resets = []\<rparr>"
  have "exec_begin demo_pbenv all_up 0 None ''1'' ''1'' False (sy_db ?s0) =
      Inr (map_step (1, 1) (\<lambda>r. if executable r then r\<lparr>rs_Status := ''running''\<rparr> else r) demo_pbdb, demo_ticket 1 TierDiagnostic (Some 2) None)"
    by (simp add: demo_begin)
  from pb_reach.begin_locked [OF demo_reach this] obtain s where s: "pb_reach demo_pbenv s" "sy_ran s = [tk_key (demo_ticket 1 TierDiagnostic (Some 2) None)]"
    by force
  have "tk_key (demo_ticket 1 TierDiagnostic (Some 2) None) = (1, 1)" by (simp add: tk_key_def demo_ticket_def demo_pbstep_def)
  then show ?thesis using playbook_step_at_most_once [OF s(1)] s by auto
qed

theorem executed_step_authorised_witness:
  "\<exists>db' t. exec_begin demo_pbenv all_up 0 None ''1'' ''1'' False demo_pbdb = Inr (db', t) \<and> sp_SafetyTier (tk_step t) \<noteq> TierExternal \<and>
     executable_key demo_pbdb (tk_key t)"
  using executed_step_authorised [OF demo_begin(1) [of None]] demo_begin(1) [of None] by blast

theorem executor_contained_witness:
  "\<exists>stmts res. ExecuteStep (NewExecutor 0) \<lparr>se_connect = True, se_begin = True, se_exec = (\<lambda>h s. True),
       se_query = (\<lambda>h s. Some \<lparr>qr_columns = [''x''], qr_rows = [Some [VInt 1]], qr_ok = True\<rparr>)\<rparr> 3 (demo_pbstep 1 TierDiagnostic None) = (stmts, Inr res) \<and>
     ends_in_rollback stmts \<and> length (er_Rows res) \<le> 100"
proof -
  let ?db = "\<lparr>se_connect = True, se_begin = True, se_exec = (\<lambda>h s. True), se_query = (\<lambda>h s. Some \<lparr>qr_columns = [''x''], qr_rows = [Some [VInt 1]], qr_ok = True\<rparr>)\<rparr>"
  have "\<not> multi_statement ''SELECT 1''" by code_simp
  then obtain stmts res where run: "ExecuteStep (NewExecutor 0) ?db 3 (demo_pbstep 1 TierDiagnostic None) = (stmts, Inr res)"
    by (simp add: ExecuteStep_def demo_pbstep_def Let_def)
  show ?thesis using executor_contained [OF run] run by (auto simp: NewExecutor_def)
qed

theorem approval_without_effect_witness:
  "fst (handleApproveStep demo_pbenv all_up ''1'' ''3'' demo_pbdb) = demo_pbdb"
proof -
  have "\<not> failed_key demo_pbdb (ParseInt_value ''1'', ParseInt_value ''3'')"
    by (simp add: failed_key_def demo_pbdb_eval)
  from approval_without_effect [OF this] show ?thesis by blast
qed

end
