(* ===== verification/PlaybookBuiltins.thy ===== *)
theory PlaybookBuiltins
  imports PlaybookSeeds PlaybookDemo RcaDefault
begin

section \<open>What the built-in playbooks do\<close>

text \<open>
  Navigation through the built-in playbooks, which of their runs can be completed, and which hooks of
  the built-in causal graph find a playbook.
\<close>

subsection \<open>Navigation\<close>

definition step_targets :: "Step \<Rightarrow> int list" where
  "step_targets step = default_next step # map br_GotoStep (sp_BranchRules step)"

lemma EvaluateBranch_target: "EvaluateBranch step verdict columns rows \<in> set (step_targets step)"
  by (auto simp: EvaluateBranch_def step_targets_def Let_def dest!: find_SomeD split: option.splits)

text \<open>The shape of a playbook: order, external or not, and targets of each step.\<close>

definition step_shape :: "Step \<Rightarrow> int \<times> bool \<times> int list" where
  "step_shape s = (sp_StepOrder s, sp_SafetyTier s = TierExternal, step_targets s)"

lemmas builtin_defs = walArchiveFailurePlaybook_def replicationLagPlaybook_def connectionSaturationPlaybook_def lockContentionPlaybook_def
  longTransactionsPlaybook_def checkpointStormPlaybook_def diskFullPlaybook_def autovacuumFailingPlaybook_def wraparoundRiskPlaybook_def
  heavyQueryPlaybook_def

lemma shapes:
  "map step_shape (pb_Steps walArchiveFailurePlaybook) = [(1, False, [2, 2, 5]), (2, False, [3, 4]), (3, False, [4]), (4, True, [5]), (5, False, [0])]"
  "map step_shape (pb_Steps replicationLagPlaybook) = [(1, False, [2, 2]), (2, False, [3]), (3, False, [4]), (4, True, [0])]"
  "map step_shape (pb_Steps connectionSaturationPlaybook) = [(1, False, [2]), (2, False, [3, 3]), (3, False, [4]), (4, False, [5]), (5, True, [0])]"
  "map step_shape (pb_Steps lockContentionPlaybook) = [(1, False, [2, 5]), (2, False, [3]), (3, False, [4]), (4, False, [5]), (5, True, [0])]"
  "map step_shape (pb_Steps longTransactionsPlaybook) = [(1, False, [2, 4]), (2, False, [3]), (3, False, [4]), (4, True, [0])]"
  "map step_shape (pb_Steps checkpointStormPlaybook) = [(1, False, [2]), (2, False, [3]), (3, False, [4]), (4, True, [0])]"
  "map step_shape (pb_Steps diskFullPlaybook) = [(1, False, [2]), (2, False, [3]), (3, False, [4]), (4, False, [5]), (5, True, [0])]"
  "map step_shape (pb_Steps autovacuumFailingPlaybook) = [(1, False, [2]), (2, False, [3]), (3, False, [4]), (4, False, [5]), (5, True, [0])]"
  "map step_shape (pb_Steps wraparoundRiskPlaybook) = [(1, False, [2, 4]), (2, False, [3]), (3, False, [4]), (4, True, [0])]"
  "map step_shape (pb_Steps heavyQueryPlaybook) = [(1, False, [2]), (2, False, [3]), (3, False, [4]), (4, True, [0])]"
  by code_simp+

definition forward_shape :: "(int \<times> bool \<times> int list) list \<Rightarrow> bool" where
  "forward_shape sh \<longleftrightarrow> map fst sh = [1..int (length sh)] \<and>
     list_all (\<lambda>(n, x, ts). list_all (\<lambda>t. t = 0 \<or> n < t \<and> t \<le> int (length sh)) ts) sh"

text \<open>Every step that is not external leads to another step.\<close>

definition ends_external :: "(int \<times> bool \<times> int list) list \<Rightarrow> bool" where
  "ends_external sh \<longleftrightarrow> list_all (\<lambda>(n, external, ts). external \<or> 0 \<notin> set ts) sh"

lemma builtin_shapes:
  assumes "pb \<in> set BuiltinPlaybooks"
  shows "forward_shape (map step_shape (pb_Steps pb))"
    and "pb \<noteq> walArchiveFailurePlaybook \<Longrightarrow> ends_external (map step_shape (pb_Steps pb))"
proof -
  have up: "[1..4] = [1, 2, 3, 4::int]" "[1..5] = [1, 2, 3, 4, 5::int]" by code_simp+
  have "list_all (\<lambda>pb. forward_shape (map step_shape (pb_Steps pb))) BuiltinPlaybooks"
    unfolding BuiltinPlaybooks_def by (simp only: list.pred_inject shapes) (simp add: forward_shape_def up)
  then show "forward_shape (map step_shape (pb_Steps pb))" using assms by (simp add: list_all_iff)
  have "list_all (\<lambda>pb. ends_external (map step_shape (pb_Steps pb))) (tl BuiltinPlaybooks)"
    unfolding BuiltinPlaybooks_def by (simp only: list.sel list.pred_inject shapes) (simp add: ends_external_def)
  then show "pb \<noteq> walArchiveFailurePlaybook \<Longrightarrow> ends_external (map step_shape (pb_Steps pb))"
    using assms by (auto simp: list_all_iff BuiltinPlaybooks_def)
qed

lemma builtin_step_orders:
  assumes "pb \<in> set BuiltinPlaybooks"
  shows "map sp_StepOrder (pb_Steps pb) = [1..int (length (pb_Steps pb))]"
  using builtin_shapes(1) [OF assms] by (simp add: forward_shape_def step_shape_def comp_def)

lemma builtin_target:
  assumes "pb \<in> set BuiltinPlaybooks" "step \<in> set (pb_Steps pb)" "n \<in> set (step_targets step)" "n \<noteq> 0"
  shows "sp_StepOrder step < n \<and> n \<in> sp_StepOrder ` set (pb_Steps pb)"
proof -
  have "sp_StepOrder step < n" "n \<le> int (length (pb_Steps pb))"
    using builtin_shapes(1) [OF assms(1)] assms(2-4) by (auto simp: forward_shape_def list_all_iff step_shape_def)
  moreover have orders: "sp_StepOrder ` set (pb_Steps pb) = {1..int (length (pb_Steps pb))}"
    using builtin_step_orders [OF assms(1)] by (metis list.set_map set_upto)
  moreover have "1 \<le> sp_StepOrder step" using assms(2) orders by (metis atLeastAtMost_iff imageI)
  ultimately show ?thesis by auto
qed

text \<open>A way through a playbook: each step is the one the branch evaluation of the step before chose.\<close>

inductive nav_path :: "Playbook \<Rightarrow> Step list \<Rightarrow> bool" for pb where
  stop: "step \<in> set (pb_Steps pb) \<Longrightarrow> nav_path pb [step]"
| go: "nav_path pb (step' # path) \<Longrightarrow> step \<in> set (pb_Steps pb) \<Longrightarrow> sp_StepOrder step' = EvaluateBranch step verdict columns rows \<Longrightarrow>
    nav_path pb (step # step' # path)"

inductive_cases nav_path_NilE: "nav_path pb []"

lemma nav_path_sorted:
  assumes "nav_path pb path" "pb \<in> set BuiltinPlaybooks"
  shows "set path \<subseteq> set (pb_Steps pb) \<and> sorted_wrt (<) (map sp_StepOrder path)"
  using assms(1)
proof (induction rule: nav_path.induct)
  case (go step' path step verdict columns rows)
  have s': "step' \<in> set (pb_Steps pb)" using go.IH by simp
  then have "1 \<le> sp_StepOrder step'" using builtin_step_orders [OF assms(2)] by (metis atLeastAtMost_iff imageI list.set_map set_upto)
  then have "sp_StepOrder step < sp_StepOrder step'"
    using builtin_target [OF assms(2) go.hyps(2)] EvaluateBranch_target go.hyps(3) by (metis not_one_le_zero)
  then show ?case using go.IH go.hyps(2) by (auto intro: less_trans)
qed simp


subsection \<open>Runs that cannot be completed\<close>

text \<open>No execution of a step completes a run of a built-in playbook other than the archive one:
  executing a step that is not external leads to another step and keeps the status of the run, and the
  external step they all end in is answered by the tier gate, which does not touch the run at all.\<close>

theorem builtin_runs_never_complete:
  assumes "pb \<in> set BuiltinPlaybooks" "pb \<noteq> walArchiveFailurePlaybook" "tk_step t \<in> set (pb_Steps pb)"
  shows "if sp_SafetyTier (tk_step t) = TierExternal
    then \<exists>db' resp. tier_gate io now ctx ok runID (tk_step t) db = Some (db', resp) \<and> db_runs db' = db_runs db
    else case snd (exec_finish env io now outcome t db) of PDone rs n status \<Rightarrow> n \<noteq> 0 \<and> status = rn_Status (tk_run t) | _ \<Rightarrow> True"
proof (cases "sp_SafetyTier (tk_step t) = TierExternal")
  case True
  then show ?thesis by (simp add: tier_gate_def UpdateRunStep_def map_step_def)
next
  case False
  have "0 \<notin> set (step_targets (tk_step t))"
    using builtin_shapes(2) [OF assms(1,2)] assms(3) False by (auto simp: ends_external_def list_all_iff step_shape_def)
  then have "EvaluateBranch (tk_step t) v c r \<noteq> 0" for v c r using EvaluateBranch_target by metis
  then show ?thesis using False by (auto simp: exec_finish_def Let_def split: sum.splits prod.splits)
qed

subsection \<open>Hooks of the causal graph\<close>

lemma find_binding_iff:
  "FindByTriggerBinding pbs kind v \<noteq> None \<longleftrightarrow> (\<exists>pb \<in> set pbs. pb_Status pb = ''stable'' \<and> v \<in> set (bindings_of kind (pb_TriggerBindings pb)))"
proof -
  have "FindByTriggerBinding pbs kind v = None \<longleftrightarrow>
      filter (\<lambda>pb. pb_Status pb = ''stable'' \<and> v \<in> set (bindings_of kind (pb_TriggerBindings pb))) pbs = []"
    unfolding FindByTriggerBinding_def by (simp split: list.splits)
  then show ?thesis by (simp add: filter_empty_conv)
qed

definition builtin_hook_names :: "string list" where
  "builtin_hook_names = [''remediation.wal_archive'', ''remediation.replication_lag'', ''remediation.connection_pooling'', ''remediation.lock_investigation'',
     ''remediation.kill_long_transaction'', ''remediation.checkpoint_completion_target'', ''remediation.disk_capacity'', ''remediation.vacuum_cost_settings'',
     ''remediation.wraparound_vacuum'', ''remediation.query_optimization'']"

definition graph_hook_names :: "string list" where
  "graph_hook_names = [''remediation.query_optimization'', ''remediation.checkpoint_completion_target'', ''remediation.drop_inactive_slot'', ''remediation.network_diagnostics'',
     ''remediation.kill_long_transaction'', ''remediation.vacuum_cost_settings'', ''remediation.work_mem_tuning'', ''remediation.shared_buffers_tuning'',
     ''remediation.lock_investigation'', ''remediation.connection_pooling'', ''remediation.create_missing_index'', ''remediation.pgss_reset'',
     ''remediation.vacuum_aggressive'', ''remediation.wraparound_vacuum'', ''remediation.memory_tuning'']"

lemma builtin_hooks:
  "map (\<lambda>pb. (pb_Status pb = ''stable'', tb_Hooks (pb_TriggerBindings pb))) BuiltinPlaybooks = map (\<lambda>h. (True, [h])) builtin_hook_names"
  by (simp add: BuiltinPlaybooks_def builtin_defs builtin_hook_names_def)

lemma builtin_find_hook: "FindByTriggerBinding BuiltinPlaybooks ''hooks'' h = None \<longleftrightarrow> h \<notin> set builtin_hook_names"
proof -
  have "FindByTriggerBinding BuiltinPlaybooks ''hooks'' h \<noteq> None \<longleftrightarrow>
      (\<exists>(s, hs) \<in> set (map (\<lambda>pb. (pb_Status pb = ''stable'', tb_Hooks (pb_TriggerBindings pb))) BuiltinPlaybooks). s \<and> h \<in> set hs)"
    unfolding find_binding_iff by (auto simp: bindings_of_def)
  also have "\<dots> \<longleftrightarrow> h \<in> set builtin_hook_names" unfolding builtin_hooks by auto
  finally show ?thesis by blast
qed

lemma graph_hooks: "set (filter (\<lambda>h. h \<noteq> '''') (map ce_RemediationHook (g_Edges NewDefaultGraph))) = set graph_hook_names"
  by (simp add: default_graph_parts default_edges_def edges_1_7_def edges_8_14_def edges_15_20_def mk_edge_def graph_hook_names_def insert_commute)

lemma missing_hooks:
  "filter (\<lambda>h. h \<notin> set builtin_hook_names) graph_hook_names =
     [''remediation.drop_inactive_slot'', ''remediation.network_diagnostics'', ''remediation.work_mem_tuning'', ''remediation.shared_buffers_tuning'',
      ''remediation.create_missing_index'', ''remediation.pgss_reset'', ''remediation.vacuum_aggressive'', ''remediation.memory_tuning'']"
  by code_simp

text \<open>Of the fifteen remediation hooks of the built-in causal graph, seven find a built-in playbook and
  eight find none.\<close>

theorem rca_hooks_without_playbook:
  "{h. h \<in> set (map ce_RemediationHook (g_Edges NewDefaultGraph)) \<and> h \<noteq> '''' \<and> FindByTriggerBinding BuiltinPlaybooks ''hooks'' h = None} =
     {''remediation.drop_inactive_slot'', ''remediation.network_diagnostics'', ''remediation.work_mem_tuning'', ''remediation.shared_buffers_tuning'',
      ''remediation.create_missing_index'', ''remediation.pgss_reset'', ''remediation.vacuum_aggressive'', ''remediation.memory_tuning''}"
  (is "?missing = ?names")
proof -
  have "?missing = {h. h \<in> set (filter (\<lambda>h. h \<noteq> '''') (map ce_RemediationHook (g_Edges NewDefaultGraph))) \<and> h \<notin> set builtin_hook_names}"
    unfolding builtin_find_hook by auto
  also have "\<dots> = set (filter (\<lambda>h. h \<notin> set builtin_hook_names) graph_hook_names)" unfolding graph_hooks by auto
  also have "\<dots> = ?names" unfolding missing_hooks by simp
  finally show ?thesis .
qed

subsection \<open>Concrete instances\<close>

lemma disk_steps: "diskFullPlaybook_step1 \<in> set (pb_Steps diskFullPlaybook)" "diskFullPlaybook_step2 \<in> set (pb_Steps diskFullPlaybook)"
  by (simp_all add: diskFullPlaybook_def)

lemma disk_builtin: "diskFullPlaybook \<in> set BuiltinPlaybooks" by (simp add: BuiltinPlaybooks_def)


definition disk_ticket :: ticket where
  "disk_ticket = \<lparr>tk_run = (new_run 0 diskFullPlaybook ''db1'' None '''' '''')\<lparr>rn_ID := 1\<rparr>, tk_step = diskFullPlaybook_step1, tk_claims = None\<rparr>"

theorem builtin_runs_never_complete_witness:
  "diskFullPlaybook \<noteq> walArchiveFailurePlaybook \<and>
   (case snd (exec_finish demo_pbenv all_up 0 (Inr demo_result) disk_ticket demo_pbdb) of
      PDone rs n status \<Rightarrow> n \<noteq> 0 \<and> status = ''in_progress'' | _ \<Rightarrow> True)"
proof -
  have "pb_Slug diskFullPlaybook \<noteq> pb_Slug walArchiveFailurePlaybook" by code_simp
  then have other: "diskFullPlaybook \<noteq> walArchiveFailurePlaybook" by metis
  have step: "tk_step disk_ticket \<in> set (pb_Steps diskFullPlaybook)" by (simp add: disk_ticket_def disk_steps)
  have tier: "sp_SafetyTier (tk_step disk_ticket) \<noteq> TierExternal" by code_simp
  have status: "rn_Status (tk_run disk_ticket) = ''in_progress''" by code_simp
  show ?thesis
    using other builtin_runs_never_complete [OF disk_builtin other step, of all_up 0 None True 1 demo_pbdb demo_pbenv "Inr demo_result"]
    unfolding if_not_P [OF tier] status by blast
qed

end
