(* ===== verification/AlertRules.thy ===== *)
theory AlertRules
  imports AlertRuns
begin

section \<open>Managing alert rules (\<open>internal/alert/rules.go\<close>, \<open>seed.go\<close>, \<open>pgstore.go\<close>, \<open>internal/api/alerts.go\<close>)\<close>

text \<open>
  The table of alert rules with its constraints, the built-in rules and their seeding, and the handlers that create,
  change and delete rules. The last section shows what every reachable table guarantees to the evaluator.
\<close>

subsection \<open>Built-in rules\<close>

abbreviation "SourceBuiltin \<equiv> ''builtin''"
abbreviation "SourceCustom \<equiv> ''custom''"

definition builtin :: "string \<Rightarrow> string \<Rightarrow> string \<Rightarrow> string \<Rightarrow> Operator \<Rightarrow> float64 \<Rightarrow> Severity \<Rightarrow> bool \<Rightarrow> int \<Rightarrow> int \<Rightarrow> Rule" where
  "builtin i name desc metric op thr sev enabled consecutive cooldown =
     \<lparr>r_ID = i, r_Name = name, r_Description = desc, r_Metric = metric, r_Operator = op, r_Threshold = thr, r_Severity = sev, r_Labels = [],
      r_ConsecutiveCount = consecutive, r_CooldownMinutes = cooldown, r_Channels = [], r_Source = SourceBuiltin, r_Enabled = enabled, r_Type = '''',
      r_UseLowerBound = False, r_ConsecutivePointsRequired = 0\<rparr>"

definition BuiltinRules :: "Rule list" where
  "BuiltinRules =
    [builtin ''wraparound_warning'' ''Transaction ID Wraparound Warning''
       ''Measures how close the oldest unfrozen transaction ID is to the 2-billion wraparound limit. At >20% usage, autovacuum may not keep up. Run VACUUM FREEZE on the databases with the oldest XID age.''
       ''pg.server.wraparound_pct'' OpGreater 20 SeverityWarning True 3 15,
     builtin ''wraparound_critical'' ''Transaction ID Wraparound Critical''
       ''Transaction ID wraparound is imminent. PostgreSQL will stop accepting writes at 100% to prevent data loss. Run VACUUM FREEZE immediately on all affected databases and check that autovacuum workers are not blocked.''
       ''pg.server.wraparound_pct'' OpGreater 50 SeverityCritical True 1 5,
     builtin ''multixact_warning'' ''MultiXact ID Wraparound Warning''
       ''Measures MultiXact ID consumption relative to the wraparound limit. MultiXacts are used for row-level shared locks (SELECT FOR SHARE). If usage exceeds 20%, investigate long-held shared locks and run VACUUM FREEZE.''
       ''pg.server.multixact_pct'' OpGreater 20 SeverityWarning True 3 15,
     builtin ''multixact_critical'' ''MultiXact ID Wraparound Critical''
       ''MultiXact ID consumption at critical level. PostgreSQL will refuse writes if wraparound occurs. Immediately run VACUUM FREEZE and check for long-running transactions holding shared locks.''
       ''pg.server.multixact_pct'' OpGreater 50 SeverityCritical True 1 5,
     builtin ''connections_warning'' ''Connection Utilization Warning''
       ''Percentage of max_connections currently in use. At >80%, connection exhaustion risk increases. Consider deploying PgBouncer, tuning application pool sizes, or increasing max_connections.''
       ''pg.connections.utilization_pct'' OpGreater 80 SeverityWarning True 3 15,
     builtin ''connections_critical'' ''Connection Utilization Critical''
       ''Connection usage at or above 99% of max_connections. New client connections will be refused. Immediately terminate idle sessions and investigate connection leaks in the application layer.''
       ''pg.connections.utilization_pct'' OpGreaterEqual 99 SeverityCritical True 1 5,
     builtin ''cache_hit_warning'' ''Cache Hit Ratio Low''
       ''Ratio of pages served from shared_buffers vs. disk reads. Below 90% indicates excessive disk I/O. Consider increasing shared_buffers, adding missing indexes, or investigating sequential-scan-heavy queries.''
       ''pg.cache.hit_ratio'' OpLess 0.90 SeverityWarning True 3 15,
     builtin ''commit_ratio_warning'' ''Commit Ratio Low''
       ''Ratio of committed transactions to total (committed + rolled back). Below 95% signals a high rollback rate, often caused by application errors, deadlocks, or serialization failures. Review application logs for error patterns.''
       ''pg.transactions.commit_ratio_pct'' OpLess 0.95 SeverityWarning True 3 15,
     builtin ''replication_slot_inactive'' ''Inactive Replication Slot''
       ''A replication slot exists but has no active consumer. Inactive slots prevent WAL segment cleanup, causing unbounded disk growth. Drop the slot if the subscriber is permanently removed, or restart the subscriber.''
       ''pg.replication.slot.active'' OpEqual 0 SeverityWarning True 3 30,
     builtin ''long_transaction_warning'' ''Long Running Transaction''
       ''Oldest open transaction has been running for over 30 minutes. Long transactions hold back VACUUM, cause table bloat, and may block DDL operations. Identify the session with pg_stat_activity and consider terminating it.''
       ''pg.long_transactions.oldest_seconds'' OpGreater 1800 SeverityWarning True 3 30,
     builtin ''long_transaction_critical'' ''Very Long Running Transaction''
       ''A transaction has been open for over 2 hours. This causes significant table bloat, lock contention, and replication lag on replicas. Terminate the session immediately and investigate the application for missing commits.''
       ''pg.long_transactions.oldest_seconds'' OpGreater 7200 SeverityCritical True 1 15,
     builtin ''table_bloat_warning'' ''Table Bloat Warning''
       ''Estimated ratio of dead tuples to live tuples in a table. Above 50%, queries scan significantly more pages than necessary. Run VACUUM FULL or use pg_repack for online compaction.''
       ''pg.db.bloat.table_ratio'' OpGreater 50 SeverityWarning True 3 60,
     builtin ''table_bloat_critical'' ''Table Bloat Critical''
       ''Table bloat exceeds 80%, severely degrading query performance and wasting storage. Immediate compaction required via VACUUM FULL or pg_repack. Investigate why autovacuum is not keeping up.''
       ''pg.db.bloat.table_ratio'' OpGreater 80 SeverityCritical True 1 15,
     builtin ''pgss_dealloc_warning'' ''pg_stat_statements Near Capacity''
       ''Tracks how full the pg_stat_statements hash table is. Above 95%, least-used entries are evicted and query statistics are lost. Increase pg_stat_statements.max in postgresql.conf and reload.''
       ''pg.extensions.pgss_fill_pct'' OpGreater 95 SeverityWarning True 3 60,
     builtin ''replication_lag_warning'' ''Replication Lag Warning''
       ''Total WAL bytes not yet replayed on the replica. Above 1 MB, the replica is falling behind the primary. Check replica I/O throughput, network latency, and whether long queries on the replica are blocking recovery.''
       ''pg.replication.lag.total_bytes'' OpGreater 1048576 SeverityWarning True 3 15,
     builtin ''replication_lag_critical'' ''Replication Lag Critical''
       ''Replication lag exceeds 100 MB. The replica is significantly behind and may serve stale reads. Investigate replica resource constraints, network issues, or long-running recovery conflicts.''
       ''pg.replication.lag.total_bytes'' OpGreater 104857600 SeverityCritical True 1 5,
     builtin ''logical_repl_pending_sync'' ''Logical Replication Pending Sync''
       ''Number of tables in a logical replication subscription that have not completed initial synchronization. Tables in pending state will not receive replicated changes until sync completes. Check pg_subscription_rel for details.''
       ''pg.db.logical_replication.pending_sync_tables'' OpGreater 0 SeverityWarning False 3 10,
     builtin ''wal_spike_warning'' ''WAL Generation Spike''
       ''WAL generation rate compared to the ML-computed baseline. A 3x spike indicates an unusual write burst (bulk load, REINDEX, or unexpected DML). Investigate active queries and check for unplanned batch jobs.''
       ''pg.wal.spike_ratio'' OpGreater 3 SeverityWarning False 3 30,
     builtin ''query_regression_warning'' ''Query Performance Regression''
       ''A query's execution time exceeds 2x its ML-computed historical baseline. Often caused by plan changes, table bloat, or statistics drift. Run EXPLAIN ANALYZE and compare with cached plans.''
       ''pg.statements.regression_ratio'' OpGreater 2 SeverityWarning False 3 30,
     builtin ''disk_forecast_critical'' ''Disk Space Forecast Critical''
       ''ML-projected days until disk exhaustion based on observed growth trend. Below 7 days, take immediate action: add storage, archive old data, or run VACUUM FULL on bloated tables.''
       ''pg.disk.days_remaining'' OpLess 7 SeverityCritical False 3 60,
     builtin ''ml_anomaly_warning'' ''ML Anomaly Warning''
       ''A metric's Z-score exceeds the warning threshold (3.0), indicating a statistically significant deviation from learned behavior. Review the anomalous metric in context of recent changes or workload shifts.''
       ''anomaly.'' OpGreater 3.0 SeverityWarning True 1 15,
     builtin ''ml_anomaly_critical'' ''ML Anomaly Critical''
       ''A metric's Z-score exceeds the critical threshold (5.0), indicating an extreme deviation from baseline. This typically signals a serious issue requiring immediate investigation.''
       ''anomaly.'' OpGreater 5.0 SeverityCritical True 1 5]"

subsection \<open>The rule table\<close>

text \<open>The columns of \<open>alert_rules\<close>: the three fields of forecast rules are not among them.\<close>

definition stored_rule :: "Rule \<Rightarrow> Rule" where
  "stored_rule r = r\<lparr>r_Type := '''', r_UseLowerBound := False, r_ConsecutivePointsRequired := 0\<rparr>"

type_synonym rule_table = "Rule list"

definition validOperator :: "Operator \<Rightarrow> bool" where
  "validOperator op \<longleftrightarrow> op \<in> set [OpGreater, OpGreaterEqual, OpLess, OpLessEqual, OpEqual, OpNotEqual]"

definition validSeverity :: "Severity \<Rightarrow> bool" where
  "validSeverity s \<longleftrightarrow> s \<in> set [SeverityInfo, SeverityWarning, SeverityCritical]"

text \<open>The checks of the table.\<close>

definition row_allowed :: "Rule \<Rightarrow> bool" where
  "row_allowed r \<longleftrightarrow> validOperator (r_Operator r) \<and> validSeverity (r_Severity r) \<and> r_Source r \<in> {SourceBuiltin, SourceCustom}"

definition rule_before :: "Rule \<Rightarrow> Rule \<Rightarrow> bool" where
  "rule_before a b \<longleftrightarrow> r_ID a < r_ID b"

definition List_rules :: "bool \<Rightarrow> rule_table \<Rightarrow> Rule list option" where
  "List_rules up t = (if up then Some (sort_slice rule_before t) else None)"

definition ListEnabled :: "bool \<Rightarrow> rule_table \<Rightarrow> Rule list option" where
  "ListEnabled up t = (if up then Some (sort_slice rule_before (filter r_Enabled t)) else None)"

definition Get_rule :: "bool \<Rightarrow> string \<Rightarrow> rule_table \<Rightarrow> Rule option" where
  "Get_rule up i t = (if up then find (\<lambda>r. r_ID r = i) t else None)"

definition Create_rule :: "bool \<Rightarrow> Rule \<Rightarrow> rule_table \<Rightarrow> rule_table option" where
  "Create_rule up rule t = (if up \<and> r_ID rule \<notin> r_ID ` set t \<and> row_allowed rule then Some (t @ [stored_rule rule]) else None)"

definition Update_rule :: "bool \<Rightarrow> Rule \<Rightarrow> rule_table \<Rightarrow> rule_table option" where
  "Update_rule up rule t =
     (if \<not> up \<or> \<not> (validOperator (r_Operator rule) \<and> validSeverity (r_Severity rule)) \<and> r_ID rule \<in> r_ID ` set t then None
      else Some (map (\<lambda>r. if r_ID r = r_ID rule then (stored_rule rule)\<lparr>r_Source := r_Source r\<rparr> else r) t))"

definition Delete_rule :: "bool \<Rightarrow> string \<Rightarrow> rule_table \<Rightarrow> rule_table option" where
  "Delete_rule up i t = (if up then Some (filter (\<lambda>r. r_ID r \<noteq> i) t) else None)"

text \<open>A row of another source is left alone; what users may change is kept.\<close>

definition refresh_builtin :: "Rule \<Rightarrow> Rule \<Rightarrow> Rule" where
  "refresh_builtin rule r =
     (if r_ID r = r_ID rule \<and> r_Source r = SourceBuiltin
      then r\<lparr>r_Name := r_Name rule, r_Description := r_Description rule, r_Metric := r_Metric rule, r_Operator := r_Operator rule,
             r_Severity := r_Severity rule, r_Labels := r_Labels rule\<rparr> else r)"

definition UpsertBuiltin :: "bool \<Rightarrow> Rule \<Rightarrow> rule_table \<Rightarrow> rule_table option" where
  "UpsertBuiltin up rule t =
     (if \<not> up \<or> \<not> row_allowed rule then None
      else if r_ID rule \<in> r_ID ` set t then Some (map (refresh_builtin rule) t)
      else Some (t @ [stored_rule rule]))"

text \<open>\<open>up n\<close> is the outcome of the statement for the rule at position \<open>n\<close>; the first failure ends the loop.\<close>

fun seed_rules :: "(nat \<Rightarrow> bool) \<Rightarrow> nat \<Rightarrow> Rule list \<Rightarrow> rule_table \<Rightarrow> rule_table" where
  "seed_rules up n [] t = t"
| "seed_rules up n (r # rs) t = (case UpsertBuiltin (up n) r t of None \<Rightarrow> t | Some t' \<Rightarrow> seed_rules up (n + 1) rs t')"

definition SeedBuiltinRules :: "(nat \<Rightarrow> bool) \<Rightarrow> rule_table \<Rightarrow> rule_table" where
  "SeedBuiltinRules up = seed_rules up 0 BuiltinRules"

subsection \<open>Handlers\<close>

record createRuleRequest =
  cq_ID :: string
  cq_Name :: string
  cq_Description :: string
  cq_Metric :: string
  cq_Operator :: Operator
  cq_Threshold :: float64
  cq_Severity :: Severity
  cq_Labels :: "labels option"
  cq_ConsecutiveCount :: int
  cq_CooldownMinutes :: int
  cq_Channels :: "string list option"
  cq_Enabled :: "bool option"

definition slug_char :: "char \<Rightarrow> bool" where
  "slug_char c \<longleftrightarrow> CHR ''a'' \<le> c \<and> c \<le> CHR ''z'' \<or> CHR ''0'' \<le> c \<and> c \<le> CHR ''9''"

text \<open>The regular expression \<open>[a-z0-9][a-z0-9_-]*\<close>.\<close>

definition slugPattern :: "string \<Rightarrow> bool" where
  "slugPattern s = (case s of [] \<Rightarrow> False | c # cs \<Rightarrow> slug_char c \<and> list_all (\<lambda>d. slug_char d \<or> d = CHR ''_'' \<or> d = CHR ''-'') cs)"

definition validateRuleRequest :: "createRuleRequest \<Rightarrow> bool" where
  "validateRuleRequest q \<longleftrightarrow> cq_ID q \<noteq> '''' \<and> slugPattern (cq_ID q) \<and> cq_Name q \<noteq> '''' \<and> cq_Metric q \<noteq> '''' \<and> validOperator (cq_Operator q) \<and>
     cq_Severity q \<noteq> '''' \<and> validSeverity (cq_Severity q)"

definition first_positive :: "int \<Rightarrow> int \<Rightarrow> int \<Rightarrow> int" where
  "first_positive x d z = (if x > 0 then x else if d > 0 then d else z)"

record alerting_config =
  ac_DefaultConsecutiveCount :: int
  ac_DefaultCooldownMinutes :: int

definition or_nil :: "'a list option \<Rightarrow> 'a list" where
  "or_nil x = (case x of None \<Rightarrow> [] | Some l \<Rightarrow> l)"

definition rule_of_request :: "alerting_config \<Rightarrow> createRuleRequest \<Rightarrow> Rule" where
  "rule_of_request cfg q =
     \<lparr>r_ID = cq_ID q, r_Name = cq_Name q, r_Description = cq_Description q, r_Metric = cq_Metric q, r_Operator = cq_Operator q,
      r_Threshold = cq_Threshold q, r_Severity = cq_Severity q, r_Labels = or_nil (cq_Labels q),
      r_ConsecutiveCount = first_positive (cq_ConsecutiveCount q) (ac_DefaultConsecutiveCount cfg) 3,
      r_CooldownMinutes = first_positive (cq_CooldownMinutes q) (ac_DefaultCooldownMinutes cfg) 15, r_Channels = or_nil (cq_Channels q),
      r_Source = SourceCustom, r_Enabled = (case cq_Enabled q of None \<Rightarrow> True | Some b \<Rightarrow> b), r_Type = '''', r_UseLowerBound = False,
      r_ConsecutivePointsRequired = 0\<rparr>"

datatype rule_response = RuleError nat string | RuleCreated Rule | RuleUpdated Rule | RuleDeleted

text \<open>The outcomes of the statements of a request: the lookup, the change, and the reload of the evaluator.\<close>

record rule_io =
  ri_get :: bool
  ri_change :: bool
  ri_reload :: bool

text \<open>The evaluator loads the enabled rules again; a failure to do so is logged.\<close>

definition reload_rules :: "bool \<Rightarrow> rule_table \<Rightarrow> Evaluator option \<Rightarrow> Evaluator option" where
  "reload_rules up t e =
     map_option (\<lambda>ev. case LoadRules (case ListEnabled up t of None \<Rightarrow> Inl ''list enabled rules'' | Some rs \<Rightarrow> Inr rs) ev of Inl _ \<Rightarrow> ev | Inr ev' \<Rightarrow> ev') e"

type_synonym rule_state = "rule_table \<times> Evaluator option"

definition handleCreateAlertRule :: "alerting_config \<Rightarrow> rule_io \<Rightarrow> createRuleRequest option \<Rightarrow> rule_state \<Rightarrow> rule_state \<times> rule_response" where
  "handleCreateAlertRule cfg io body s =
     (case body of None \<Rightarrow> (s, RuleError 400 ''INVALID_BODY'')
      | Some q \<Rightarrow>
          if \<not> validateRuleRequest q then (s, RuleError 400 ''VALIDATION_ERROR'')
          else let rule = rule_of_request cfg q in
            (case Create_rule (ri_change io) rule (fst s) of None \<Rightarrow> (s, RuleError 409 ''DUPLICATE_ID'')
             | Some t \<Rightarrow> ((t, reload_rules (ri_reload io) t (snd s)), RuleCreated rule)))"

definition if_set :: "string \<Rightarrow> string \<Rightarrow> string" where
  "if_set x d = (if x \<noteq> '''' then x else d)"

definition change_limits :: "createRuleRequest \<Rightarrow> Rule \<Rightarrow> Rule" where
  "change_limits q r =
     r\<lparr>r_Threshold := (if cq_Threshold q \<noteq> 0 then cq_Threshold q else r_Threshold r),
       r_ConsecutiveCount := (if cq_ConsecutiveCount q > 0 then cq_ConsecutiveCount q else r_ConsecutiveCount r),
       r_CooldownMinutes := (if cq_CooldownMinutes q > 0 then cq_CooldownMinutes q else r_CooldownMinutes r),
       r_Enabled := (case cq_Enabled q of None \<Rightarrow> r_Enabled r | Some b \<Rightarrow> b),
       r_Channels := (case cq_Channels q of None \<Rightarrow> r_Channels r | Some c \<Rightarrow> c)\<rparr>"

definition change_custom :: "createRuleRequest \<Rightarrow> Rule \<Rightarrow> Rule" where
  "change_custom q r =
     r\<lparr>r_Name := if_set (cq_Name q) (r_Name r), r_Description := if_set (cq_Description q) (r_Description r), r_Metric := if_set (cq_Metric q) (r_Metric r),
       r_Operator := if_set (cq_Operator q) (r_Operator r), r_Severity := if_set (cq_Severity q) (r_Severity r),
       r_Labels := (case cq_Labels q of None \<Rightarrow> r_Labels r | Some ls \<Rightarrow> ls)\<rparr>"

definition changed_rule :: "createRuleRequest \<Rightarrow> Rule \<Rightarrow> Rule option" where
  "changed_rule q r =
     (if r_Source r = SourceBuiltin then Some (change_limits q r)
      else if cq_Operator q \<noteq> '''' \<and> \<not> validOperator (cq_Operator q) \<or> cq_Severity q \<noteq> '''' \<and> \<not> validSeverity (cq_Severity q) then None
      else Some (change_limits q (change_custom q r)))"

definition handleUpdateAlertRule :: "rule_io \<Rightarrow> string \<Rightarrow> createRuleRequest option \<Rightarrow> rule_state \<Rightarrow> rule_state \<times> rule_response" where
  "handleUpdateAlertRule io ruleID body s =
     (case Get_rule (ri_get io) ruleID (fst s) of None \<Rightarrow> (s, RuleError 404 ''NOT_FOUND'')
      | Some existing \<Rightarrow>
          (case body of None \<Rightarrow> (s, RuleError 400 ''INVALID_BODY'')
           | Some q \<Rightarrow>
               (case changed_rule q existing of None \<Rightarrow> (s, RuleError 400 ''VALIDATION_ERROR'')
                | Some rule \<Rightarrow>
                    (case Update_rule (ri_change io) rule (fst s) of None \<Rightarrow> (s, RuleError 500 ''INTERNAL'')
                     | Some t \<Rightarrow> ((t, reload_rules (ri_reload io) t (snd s)), RuleUpdated rule)))))"

definition handleDeleteAlertRule :: "rule_io \<Rightarrow> string \<Rightarrow> rule_state \<Rightarrow> rule_state \<times> rule_response" where
  "handleDeleteAlertRule io ruleID s =
     (case Get_rule (ri_get io) ruleID (fst s) of None \<Rightarrow> (s, RuleError 404 ''NOT_FOUND'')
      | Some existing \<Rightarrow>
          if r_Source existing = SourceBuiltin then (s, RuleError 409 ''BUILTIN_RULE'')
          else (case Delete_rule (ri_change io) ruleID (fst s) of None \<Rightarrow> (s, RuleError 500 ''INTERNAL'')
            | Some t \<Rightarrow> ((t, reload_rules (ri_reload io) t (snd s)), RuleDeleted)))"

end
