(* ===== verification/AlertRuleLaws.thy ===== *)
theory AlertRuleLaws
  imports AlertRules
begin

section \<open>What the rule table guarantees\<close>

text \<open>
  Every table that seeding and the handlers can reach holds well-formed rules, and so does every evaluator that loads
  them, which is what the laws of the evaluator ask for. Built-in rules survive every request. No rule of the table
  is a forecast rule.
\<close>

definition rule_ok :: "Rule \<Rightarrow> bool" where
  "rule_ok r \<longleftrightarrow> slugPattern (r_ID r) \<and> r_Metric r \<noteq> '''' \<and> row_allowed r \<and> 1 \<le> r_ConsecutiveCount r \<and> 1 \<le> r_CooldownMinutes r \<and> r_Type r = ''''"

definition table_ok :: "rule_table \<Rightarrow> bool" where
  "table_ok t \<longleftrightarrow> distinct (map r_ID t) \<and> list_all rule_ok t"

definition evaluator_ok :: "Evaluator option \<Rightarrow> bool" where
  "evaluator_ok e = (case e of None \<Rightarrow> True | Some ev \<Rightarrow> wf_rules (e_rules ev) \<and> list_all (\<lambda>r. rule_ok r \<and> r_Enabled r) (e_rules ev))"

subsection \<open>Built-in rules\<close>

lemma builtin_fields [simp]:
  "r_ID (builtin i n d m op thr sev en cc cd) = i" "r_Metric (builtin i n d m op thr sev en cc cd) = m"
  "r_Operator (builtin i n d m op thr sev en cc cd) = op" "r_Threshold (builtin i n d m op thr sev en cc cd) = thr"
  "r_Severity (builtin i n d m op thr sev en cc cd) = sev" "r_Source (builtin i n d m op thr sev en cc cd) = SourceBuiltin"
  "r_ConsecutiveCount (builtin i n d m op thr sev en cc cd) = cc" "r_CooldownMinutes (builtin i n d m op thr sev en cc cd) = cd"
  "r_Type (builtin i n d m op thr sev en cc cd) = ''''" "r_Labels (builtin i n d m op thr sev en cc cd) = []"
  "r_Enabled (builtin i n d m op thr sev en cc cd) = en"
  by (simp_all add: builtin_def)

lemma builtin_ids:
  "map r_ID BuiltinRules =
     [''wraparound_warning'', ''wraparound_critical'', ''multixact_warning'', ''multixact_critical'', ''connections_warning'', ''connections_critical'',
      ''cache_hit_warning'', ''commit_ratio_warning'', ''replication_slot_inactive'', ''long_transaction_warning'', ''long_transaction_critical'',
      ''table_bloat_warning'', ''table_bloat_critical'', ''pgss_dealloc_warning'', ''replication_lag_warning'', ''replication_lag_critical'',
      ''logical_repl_pending_sync'', ''wal_spike_warning'', ''query_regression_warning'', ''disk_forecast_critical'', ''ml_anomaly_warning'',
      ''ml_anomaly_critical'']"
  unfolding BuiltinRules_def by (simp only: list.map builtin_fields)

lemma builtin_metrics:
  "map r_Metric BuiltinRules =
     [''pg.server.wraparound_pct'', ''pg.server.wraparound_pct'', ''pg.server.multixact_pct'', ''pg.server.multixact_pct'', ''pg.connections.utilization_pct'',
      ''pg.connections.utilization_pct'', ''pg.cache.hit_ratio'', ''pg.transactions.commit_ratio_pct'', ''pg.replication.slot.active'',
      ''pg.long_transactions.oldest_seconds'', ''pg.long_transactions.oldest_seconds'', ''pg.db.bloat.table_ratio'', ''pg.db.bloat.table_ratio'',
      ''pg.extensions.pgss_fill_pct'', ''pg.replication.lag.total_bytes'', ''pg.replication.lag.total_bytes'', ''pg.db.logical_replication.pending_sync_tables'',
      ''pg.wal.spike_ratio'', ''pg.statements.regression_ratio'', ''pg.disk.days_remaining'', ''anomaly.'', ''anomaly.'']"
  unfolding BuiltinRules_def by (simp only: list.map builtin_fields)

lemma builtin_operators: "set (map r_Operator BuiltinRules) = {OpGreater, OpGreaterEqual, OpLess, OpEqual}"
  and builtin_severities: "set (map r_Severity BuiltinRules) = {SeverityWarning, SeverityCritical}"
  unfolding BuiltinRules_def by (simp_all only: list.map builtin_fields) auto

lemma builtin_counts: "list_all (\<lambda>r. r_ConsecutiveCount r \<in> {1, 3} \<and> r_CooldownMinutes r \<in> {5, 10, 15, 30, 60} \<and> r_Type r = '''' \<and> r_Labels r = [] \<and>
    r_Source r = SourceBuiltin) BuiltinRules"
  unfolding BuiltinRules_def by (simp only: list.pred_inject builtin_fields) simp

lemma builtin_slugs: "list_all slugPattern (map r_ID BuiltinRules)"
  unfolding builtin_ids by code_simp

lemma builtin_ok: "list_all rule_ok BuiltinRules"
proof -
  have "rule_ok r" if r: "r \<in> set BuiltinRules" for r
  proof -
    have "r_ID r \<in> set (map r_ID BuiltinRules)" "r_Operator r \<in> set (map r_Operator BuiltinRules)" "r_Severity r \<in> set (map r_Severity BuiltinRules)"
      "r_Metric r \<in> set (map r_Metric BuiltinRules)"
      using r by auto
    then have "slugPattern (r_ID r)" "validOperator (r_Operator r)" "validSeverity (r_Severity r)" "r_Metric r \<noteq> ''''"
      using builtin_slugs unfolding builtin_operators builtin_severities builtin_metrics
      by (auto simp: list_all_iff validOperator_def validSeverity_def)
    moreover have "1 \<le> r_ConsecutiveCount r" "1 \<le> r_CooldownMinutes r" "r_Type r = ''''" "r_Source r = SourceBuiltin"
      using r builtin_counts by (auto simp: list_all_iff)
    ultimately show ?thesis by (simp add: rule_ok_def row_allowed_def)
  qed
  then show ?thesis by (simp add: list_all_iff)
qed

lemma builtin_ids_distinct: "distinct (map r_ID BuiltinRules)"
  unfolding builtin_ids by code_simp

subsection \<open>Every operation keeps the table well-formed\<close>

lemma rule_ok_stored [simp]: "rule_ok (stored_rule r) \<longleftrightarrow> rule_ok (r\<lparr>r_Type := ''''\<rparr>)" "r_ID (stored_rule r) = r_ID r"
  "rule_ok r \<Longrightarrow> rule_ok (r\<lparr>r_Type := ''''\<rparr>)"
  by (simp_all add: rule_ok_def stored_rule_def row_allowed_def)

lemma rule_ok_source: "rule_ok r \<Longrightarrow> s \<in> {SourceBuiltin, SourceCustom} \<Longrightarrow> rule_ok (r\<lparr>r_Source := s\<rparr>)"
  by (auto simp: rule_ok_def row_allowed_def)

lemma table_ok_append: "table_ok t \<Longrightarrow> rule_ok r \<Longrightarrow> r_ID r \<notin> r_ID ` set t \<Longrightarrow> table_ok (t @ [r])"
  by (auto simp: table_ok_def)

lemma table_ok_map:
  assumes "table_ok t" "\<And>r. r \<in> set t \<Longrightarrow> r_ID (f r) = r_ID r \<and> rule_ok (f r)"
  shows "table_ok (map f t)"
proof -
  have "map r_ID (map f t) = map r_ID t" using assms(2) by simp
  then have "distinct (map r_ID (map f t))" using assms(1) by (simp only: table_ok_def)
  then show ?thesis using assms by (simp add: table_ok_def list_all_iff)
qed

lemma table_ok_filter: "table_ok t \<Longrightarrow> table_ok (filter P t)"
  by (auto simp: table_ok_def list_all_iff distinct_map_filter)

lemma rule_ok_request: "validateRuleRequest q \<Longrightarrow> rule_ok (rule_of_request cfg q)"
  by (auto simp: validateRuleRequest_def rule_ok_def rule_of_request_def row_allowed_def first_positive_def)

lemma rule_ok_limits: "rule_ok r \<Longrightarrow> rule_ok (change_limits q r)"
  by (auto simp: rule_ok_def change_limits_def row_allowed_def)

lemma changed_rule_ok:
  assumes "rule_ok r" "changed_rule q r = Some r'"
  shows "rule_ok r' \<and> r_ID r' = r_ID r \<and> r_Source r' = r_Source r"
proof (cases "r_Source r = SourceBuiltin")
  case True
  then show ?thesis using assms rule_ok_limits [of r q] by (auto simp: changed_rule_def change_limits_def)
next
  case False
  then have v: "cq_Operator q \<noteq> '''' \<longrightarrow> validOperator (cq_Operator q)" "cq_Severity q \<noteq> '''' \<longrightarrow> validSeverity (cq_Severity q)"
    and r': "r' = change_limits q (change_custom q r)" using assms(2) by (auto simp: changed_rule_def split: if_splits)
  have "rule_ok (change_custom q r)" using assms(1) v by (auto simp: rule_ok_def change_custom_def row_allowed_def if_set_def)
  then show ?thesis unfolding r' using rule_ok_limits by (simp add: change_limits_def change_custom_def)
qed

lemma table_ok_Update:
  assumes "table_ok t" "rule_ok rule" "Update_rule up rule t = Some t'"
  shows "table_ok t'"
proof -
  have t': "t' = map (\<lambda>r. if r_ID r = r_ID rule then (stored_rule rule)\<lparr>r_Source := r_Source r\<rparr> else r) t"
    using assms(3) by (auto simp: Update_rule_def split: if_splits)
  show ?thesis unfolding t'
  proof (rule table_ok_map [OF assms(1)])
    fix r assume "r \<in> set t"
    then have "rule_ok r" using assms(1) by (simp add: table_ok_def list_all_iff)
    then show "r_ID (if r_ID r = r_ID rule then (stored_rule rule)\<lparr>r_Source := r_Source r\<rparr> else r) = r_ID r \<and>
        rule_ok (if r_ID r = r_ID rule then (stored_rule rule)\<lparr>r_Source := r_Source r\<rparr> else r)"
      using assms(2) rule_ok_source [of "stored_rule rule" "r_Source r"] by (auto simp: rule_ok_def [of r] row_allowed_def [of r])
  qed
qed

lemma table_ok_Upsert:
  assumes "table_ok t" "rule_ok rule" "UpsertBuiltin up rule t = Some t'"
  shows "table_ok t'"
proof (cases "r_ID rule \<in> r_ID ` set t")
  case True
  then have t': "t' = map (refresh_builtin rule) t" using assms(3) by (auto simp: UpsertBuiltin_def split: if_splits)
  have "r_ID (refresh_builtin rule r) = r_ID r \<and> rule_ok (refresh_builtin rule r)" if "r \<in> set t" for r
    using assms(1,2) that by (auto simp: refresh_builtin_def table_ok_def list_all_iff rule_ok_def row_allowed_def)
  then show ?thesis unfolding t' using assms(1) by (rule table_ok_map [rotated])
next
  case False
  then show ?thesis using assms table_ok_append [of t "stored_rule rule"] by (auto simp: UpsertBuiltin_def split: if_splits)
qed

lemma table_ok_seed: "table_ok t \<Longrightarrow> list_all rule_ok rs \<Longrightarrow> table_ok (seed_rules up n rs t)"
  by (induction up n rs t rule: seed_rules.induct) (auto split: option.splits dest: table_ok_Upsert)

subsection \<open>The evaluator\<close>

lemma slug_no_colon: "slugPattern s \<Longrightarrow> CHR '':'' \<notin> set s"
  by (auto simp: slugPattern_def slug_char_def list_all_iff less_eq_char_def split: list.splits)

lemma loaded_ok:
  assumes "table_ok t" "ListEnabled up t = Some rs"
  shows "wf_rules rs \<and> list_all (\<lambda>r. rule_ok r \<and> r_Enabled r) rs"
proof -
  have rs: "mset rs = mset (filter r_Enabled t)" using assms(2) by (auto simp: ListEnabled_def split: if_splits)
  then have s: "set rs = set (filter r_Enabled t)" by (metis set_mset_mset)
  have "mset (map r_ID rs) = mset (map r_ID (filter r_Enabled t))" using rs by simp
  then have "distinct (map r_ID rs)" using assms(1) mset_eq_imp_distinct_iff by (fastforce simp: table_ok_def distinct_map_filter)
  then show ?thesis using assms(1) s slug_no_colon by (auto simp: wf_rules_def table_ok_def list_all_iff rule_ok_def)
qed

lemma reload_ok:
  assumes "table_ok t" "evaluator_ok e"
  shows "evaluator_ok (reload_rules up t e)"
proof (cases "ListEnabled up t")
  case None
  then show ?thesis using assms(2) by (auto simp: reload_rules_def LoadRules_def evaluator_ok_def split: option.splits)
next
  case (Some rs)
  then show ?thesis using loaded_ok [OF assms(1) Some] by (auto simp: reload_rules_def LoadRules_def evaluator_ok_def split: option.splits)
qed

text \<open>Tables and evaluators that start-up, seeding, requests and the evaluator's own work can reach.\<close>

inductive rule_reach :: "rule_state \<Rightarrow> bool" where
  start: "e = None \<or> e = Some NewEvaluator \<Longrightarrow> rule_reach ([], e)"
| seed: "rule_reach (t, e) \<Longrightarrow> rule_reach (SeedBuiltinRules up t, e)"
| load: "rule_reach (t, e) \<Longrightarrow> rule_reach (t, reload_rules up t e)"
| work: "rule_reach (t, Some ev) \<Longrightarrow> e_rules ev' = e_rules ev \<Longrightarrow> rule_reach (t, Some ev')"
| create: "rule_reach s \<Longrightarrow> rule_reach (fst (handleCreateAlertRule cfg io body s))"
| update: "rule_reach s \<Longrightarrow> rule_reach (fst (handleUpdateAlertRule io i body s))"
| delete: "rule_reach s \<Longrightarrow> rule_reach (fst (handleDeleteAlertRule io i s))"

definition state_ok :: "rule_state \<Rightarrow> bool" where
  "state_ok s \<longleftrightarrow> table_ok (fst s) \<and> evaluator_ok (snd s)"

lemma create_ok: "state_ok s \<Longrightarrow> state_ok (fst (handleCreateAlertRule cfg io body s))"
  using rule_ok_request table_ok_append [of "fst s"]
  by (auto simp: handleCreateAlertRule_def state_ok_def Create_rule_def Let_def intro!: reload_ok split: option.splits)

lemma get_rule_in: "Get_rule up i t = Some r \<Longrightarrow> r \<in> set t \<and> r_ID r = i"
  by (auto simp: Get_rule_def find_Some_iff split: if_splits)

lemma update_ok:
  assumes "state_ok s"
  shows "state_ok (fst (handleUpdateAlertRule io i body s))"
proof -
  have "table_ok t'" if "Get_rule up i (fst s) = Some r" "changed_rule q r = Some r'" "Update_rule up' r' (fst s) = Some t'" for up up' r q r' t'
  proof -
    have "rule_ok r" using assms get_rule_in [OF that(1)] by (auto simp: state_ok_def table_ok_def list_all_iff)
    then have "rule_ok r'" using changed_rule_ok that(2) by blast
    then show ?thesis using assms that(3) table_ok_Update by (auto simp: state_ok_def)
  qed
  then show ?thesis using assms by (auto simp: handleUpdateAlertRule_def state_ok_def intro!: reload_ok split: option.splits)
qed

lemma delete_ok: "state_ok s \<Longrightarrow> state_ok (fst (handleDeleteAlertRule io i s))"
  by (auto simp: handleDeleteAlertRule_def state_ok_def Delete_rule_def table_ok_filter intro!: reload_ok split: option.splits)

lemma rule_reach_ok: "rule_reach s \<Longrightarrow> state_ok s"
proof (induction rule: rule_reach.induct)
  case (start e)
  then show ?case by (auto simp: state_ok_def table_ok_def evaluator_ok_def NewEvaluator_def wf_rules_def)
next
  case (seed t e up)
  then show ?case using table_ok_seed [OF _ builtin_ok] by (simp add: state_ok_def SeedBuiltinRules_def)
next
  case (load t e up)
  then show ?case by (simp add: state_ok_def reload_ok)
next
  case (work t ev ev')
  then show ?case by (simp add: state_ok_def evaluator_ok_def)
qed (simp_all add: create_ok update_ok delete_ok)

text \<open>C13: Every rule table that seeding and the handlers can reach, under any failures, is well-formed: ids are unique
  identifiers, operators and severities are among the known ones, counts and cooldowns are positive. Every evaluator that
  loaded it has such rules, all enabled, so that the laws of the evaluator apply to it.\<close>

theorem rule_table_invariant:
  assumes "rule_reach (t, e)"
  shows "table_ok t \<and> evaluator_ok e"
  using rule_reach_ok [OF assms] by (simp add: state_ok_def)

subsection \<open>The table alone\<close>

text \<open>What a request does to the table does not depend on the evaluator.\<close>

lemma create_table_ok: "table_ok (fst s) \<Longrightarrow> table_ok (fst (fst (handleCreateAlertRule cfg io body s)))"
  and update_table_ok: "table_ok (fst s) \<Longrightarrow> table_ok (fst (fst (handleUpdateAlertRule io i body s)))"
  and delete_table_ok: "table_ok (fst s) \<Longrightarrow> table_ok (fst (fst (handleDeleteAlertRule io i s)))"
proof -
  have e: "fst (fst (handleCreateAlertRule cfg io body s)) = fst (fst (handleCreateAlertRule cfg io body (fst s, None)))"
    "fst (fst (handleUpdateAlertRule io i body s)) = fst (fst (handleUpdateAlertRule io i body (fst s, None)))"
    "fst (fst (handleDeleteAlertRule io i s)) = fst (fst (handleDeleteAlertRule io i (fst s, None)))"
    by (simp_all add: handleCreateAlertRule_def handleUpdateAlertRule_def handleDeleteAlertRule_def Let_def split: option.splits)
  assume "table_ok (fst s)"
  then have "state_ok (fst s, None)" by (simp add: state_ok_def evaluator_ok_def)
  then show "table_ok (fst (fst (handleCreateAlertRule cfg io body s)))" "table_ok (fst (fst (handleUpdateAlertRule io i body s)))"
      "table_ok (fst (fst (handleDeleteAlertRule io i s)))"
    unfolding e using create_ok update_ok delete_ok by (auto simp: state_ok_def)
qed

subsection \<open>Built-in rules are kept\<close>

text \<open>What identifies a built-in rule: users can change its limits, not this.\<close>

definition protected_part :: "Rule \<Rightarrow> string \<times> string \<times> Operator \<times> Severity \<times> labels" where
  "protected_part r = (r_ID r, r_Metric r, r_Operator r, r_Severity r, r_Labels r)"

definition has_builtins :: "rule_table \<Rightarrow> bool" where
  "has_builtins t \<longleftrightarrow> (\<forall>b \<in> set BuiltinRules. \<exists>r \<in> set t. r_Source r = SourceBuiltin \<and> protected_part r = protected_part b)"

inductive rule_requests :: "rule_state \<Rightarrow> rule_state \<Rightarrow> bool" where
  none: "rule_requests s s"
| created: "rule_requests s s' \<Longrightarrow> rule_requests s (fst (handleCreateAlertRule cfg io body s'))"
| updated: "rule_requests s s' \<Longrightarrow> rule_requests s (fst (handleUpdateAlertRule io i body s'))"
| deleted: "rule_requests s s' \<Longrightarrow> rule_requests s (fst (handleDeleteAlertRule io i s'))"

lemma has_builtins_mono: "has_builtins t \<Longrightarrow> set t \<subseteq> set t' \<Longrightarrow> has_builtins t'"
  unfolding has_builtins_def by blast

lemma create_table: "set (fst s) \<subseteq> set (fst (fst (handleCreateAlertRule cfg io body s)))"
  by (auto simp: handleCreateAlertRule_def Create_rule_def Let_def split: option.splits)

lemma builtin_untouched:
  assumes "distinct (map r_ID t)" "b \<in> set t" "r_Source b = SourceBuiltin" "Get_rule up i t = Some r" "changed_rule q r = Some r'" "Update_rule up' r' t = Some t'"
  shows "\<exists>x \<in> set t'. r_Source x = SourceBuiltin \<and> protected_part x = protected_part b"
proof -
  have r: "r \<in> set t" using get_rule_in [OF assms(4)] by simp
  have id: "r_ID r' = r_ID r" and src: "r_Source r' = r_Source r"
    using assms(5) by (auto simp: changed_rule_def change_limits_def change_custom_def split: if_splits)
  let ?f = "\<lambda>x. if r_ID x = r_ID r' then (stored_rule r')\<lparr>r_Source := r_Source x\<rparr> else x"
  have t': "t' = map ?f t" using assms(6) by (auto simp: Update_rule_def split: if_splits)
  have "r_Source (?f b) = SourceBuiltin \<and> protected_part (?f b) = protected_part b"
  proof (cases "r_ID b = r_ID r'")
    case True
    then have "b = r" using assms(1,2) r id by (metis (no_types) distinct_map inj_onD)
    then have "r' = change_limits q b" using assms(3,5) by (simp add: changed_rule_def)
    then show ?thesis using assms(3) by (simp add: protected_part_def stored_rule_def change_limits_def)
  qed (use assms(3) in simp)
  then show ?thesis using assms(2) t' by (metis (no_types, lifting) image_eqI image_set)
qed

lemma update_keeps_builtins:
  assumes "table_ok (fst s)" "has_builtins (fst s)"
  shows "has_builtins (fst (fst (handleUpdateAlertRule io i body s)))"
proof -
  have d: "distinct (map r_ID (fst s))" using assms(1) by (simp add: table_ok_def)
  have "has_builtins t'" if "Get_rule up i (fst s) = Some r" "changed_rule q r = Some r'" "Update_rule up' r' (fst s) = Some t'" for up up' r q r' t'
    unfolding has_builtins_def
  proof
    fix b assume "b \<in> set BuiltinRules"
    then obtain x where "x \<in> set (fst s)" "r_Source x = SourceBuiltin" "protected_part x = protected_part b" using assms(2) by (auto simp: has_builtins_def)
    then show "\<exists>r \<in> set t'. r_Source r = SourceBuiltin \<and> protected_part r = protected_part b"
      using builtin_untouched [OF d _ _ that, of x] by auto
  qed
  then show ?thesis using assms(2) by (auto simp: handleUpdateAlertRule_def split: option.splits)
qed

lemma delete_keeps_builtins:
  assumes "table_ok (fst s)" "has_builtins (fst s)"
  shows "has_builtins (fst (fst (handleDeleteAlertRule io i s)))"
proof -
  have "has_builtins (filter (\<lambda>r. r_ID r \<noteq> i) (fst s))" if g: "Get_rule up i (fst s) = Some r" "r_Source r \<noteq> SourceBuiltin" for up r
    unfolding has_builtins_def
  proof
    fix b assume "b \<in> set BuiltinRules"
    then obtain x where x: "x \<in> set (fst s)" "r_Source x = SourceBuiltin" "protected_part x = protected_part b" using assms(2) by (auto simp: has_builtins_def)
    have "r_ID x \<noteq> i" using x(1,2) get_rule_in [OF g(1)] g(2) assms(1) by (metis (no_types) distinct_map inj_onD table_ok_def)
    then show "\<exists>r \<in> set (filter (\<lambda>r. r_ID r \<noteq> i) (fst s)). r_Source r = SourceBuiltin \<and> protected_part r = protected_part b" using x by auto
  qed
  then show ?thesis using assms(2) by (auto simp: handleDeleteAlertRule_def Delete_rule_def split: option.splits)
qed

lemma upsert_source:
  assumes "UpsertBuiltin up rule t = Some t'" "\<forall>r \<in> set t. r_Source r = SourceBuiltin" "r_Source rule = SourceBuiltin"
  shows "(\<forall>r \<in> set t'. r_Source r = SourceBuiltin) \<and> (\<exists>r \<in> set t'. protected_part r = protected_part rule) \<and>
    (\<forall>b \<in> set t. r_ID b \<noteq> r_ID rule \<longrightarrow> b \<in> set t')"
proof (cases "r_ID rule \<in> r_ID ` set t")
  case True
  then have t': "t' = map (refresh_builtin rule) t" using assms(1) by (auto simp: UpsertBuiltin_def split: if_splits)
  obtain x where x: "x \<in> set t" "r_ID x = r_ID rule" using True by auto
  then have "protected_part (refresh_builtin rule x) = protected_part rule" using assms(2) by (simp add: refresh_builtin_def protected_part_def)
  moreover have "refresh_builtin rule r = r" if "r_ID r \<noteq> r_ID rule" for r using that by (simp add: refresh_builtin_def)
  moreover have "r_Source (refresh_builtin rule r) = r_Source r" for r by (simp add: refresh_builtin_def)
  ultimately show ?thesis unfolding t' using assms(2) x(1) by (auto simp: image_iff) metis+
next
  case False
  then have t': "t' = t @ [stored_rule rule]" using assms(1) by (auto simp: UpsertBuiltin_def split: if_splits)
  show ?thesis unfolding t' using assms(2,3) by (simp add: stored_rule_def protected_part_def)
qed

lemma seed_builtins:
  assumes "\<forall>n. up n" "list_all rule_ok rs" "\<forall>r \<in> set rs. r_Source r = SourceBuiltin" "distinct (map r_ID rs)" "\<forall>r \<in> set t. r_Source r = SourceBuiltin"
  shows "(\<forall>r \<in> set (seed_rules up n rs t). r_Source r = SourceBuiltin) \<and>
    (\<forall>b \<in> set rs. \<exists>r \<in> set (seed_rules up n rs t). protected_part r = protected_part b) \<and>
    (\<forall>b \<in> set t. r_ID b \<notin> r_ID ` set rs \<longrightarrow> b \<in> set (seed_rules up n rs t))"
  using assms(2-5)
proof (induction rs arbitrary: n t)
  case (Cons r rs)
  have "row_allowed r" using Cons.prems(1) by (simp add: rule_ok_def)
  then obtain t' where t': "UpsertBuiltin (up n) r t = Some t'" using assms(1) by (cases "r_ID r \<in> r_ID ` set t") (auto simp: UpsertBuiltin_def)
  note u = upsert_source [OF t' Cons.prems(4)]
  have src: "r_Source r = SourceBuiltin" using Cons.prems(2) by simp
  have ih: "(\<forall>x \<in> set (seed_rules up (n + 1) rs t'). r_Source x = SourceBuiltin) \<and>
      (\<forall>b \<in> set rs. \<exists>x \<in> set (seed_rules up (n + 1) rs t'). protected_part x = protected_part b) \<and>
      (\<forall>b \<in> set t'. r_ID b \<notin> r_ID ` set rs \<longrightarrow> b \<in> set (seed_rules up (n + 1) rs t'))"
    using Cons.prems(1-3) u src by (intro Cons.IH) auto
  obtain x where x: "x \<in> set t'" "protected_part x = protected_part r" using u src by blast
  then have "r_ID x \<notin> r_ID ` set rs" using Cons.prems(3) by (auto simp: protected_part_def)
  then have "\<exists>x \<in> set (seed_rules up (n + 1) rs t'). protected_part x = protected_part r" using ih x by blast
  then show ?case using ih u src t' by auto
qed simp

text \<open>Built-in rules are permanent: after a start with a working database, whatever requests follow (creating, changing
  and deleting rules, with any failures), every built-in rule is still in the table with its metric, operator, severity
  and labels; only its limits, channels and its being enabled can have changed.\<close>

theorem builtin_rules_permanent:
  assumes "rule_requests (SeedBuiltinRules (\<lambda>_. True) [], e) (t, e')"
  shows "table_ok t \<and> has_builtins t"
proof -
  have seeded: "table_ok (SeedBuiltinRules (\<lambda>_. True) [])" "has_builtins (SeedBuiltinRules (\<lambda>_. True) [])"
    using table_ok_seed [OF _ builtin_ok, of "[]"] seed_builtins [of "\<lambda>_. True" BuiltinRules "[]" 0] builtin_ok builtin_counts builtin_ids_distinct
    by (auto simp: SeedBuiltinRules_def has_builtins_def table_ok_def list_all_iff)
  have "table_ok (fst s) \<Longrightarrow> has_builtins (fst s) \<Longrightarrow> table_ok (fst s') \<and> has_builtins (fst s')" if "rule_requests s s'" for s s'
    using that
  proof (induction rule: rule_requests.induct)
    case (created s s' cfg io body)
    then show ?case using create_table_ok has_builtins_mono [OF _ create_table] by blast
  next
    case (updated s s' io i body)
    then show ?case using update_table_ok update_keeps_builtins by blast
  next
    case (deleted s s' io i)
    then show ?case using delete_table_ok delete_keeps_builtins by blast
  qed simp
  from this [OF assms] show ?thesis using seeded by simp
qed

subsection \<open>Rules that cannot fire\<close>

lemma no_forecast_rules: "list_all (\<lambda>r. rule_ok r \<and> r_Enabled r) rs \<Longrightarrow> filter (\<lambda>r. r_Type r = RuleTypeForecastThreshold) rs = []"
  by (induction rs) (auto simp: rule_ok_def)

lemma runForecastAlerts_idle: "evaluator_ok (Some ev) \<Longrightarrow> runForecastAlerts hs clock i (ev, h) = (ev, h)"
  using no_forecast_rules [of "e_rules ev"] by (simp add: evaluator_ok_def runForecastAlerts_def split: option.splits)

text \<open>The rule table has no columns for the type of a rule, so no rule that an evaluator loads from it is a forecast
  rule: whatever the forecasts say, the pass over forecast alerts changes nothing and records nothing.\<close>

theorem forecast_rules_never_run:
  assumes "rule_reach (t, Some ev)"
  shows "runForecastAlerts hs clock i (ev, h) = (ev, h)"
  using rule_reach_ok [OF assms] by (simp add: state_ok_def runForecastAlerts_idle)

lemma refresh_metric: "r_Metric (refresh_builtin rule r) \<in> {r_Metric rule, r_Metric r}"
  by (simp add: refresh_builtin_def)

lemma upsert_metrics: "UpsertBuiltin up r t = Some t' \<Longrightarrow> r_Metric ` set t' \<subseteq> insert (r_Metric r) (r_Metric ` set t)"
  using refresh_metric [of r] by (fastforce simp: UpsertBuiltin_def stored_rule_def split: if_splits)

lemma seed_metrics: "r_Metric ` set (seed_rules up n rs t) \<subseteq> r_Metric ` set t \<union> r_Metric ` set rs"
proof (induction up n rs t rule: seed_rules.induct)
  case (2 up n r rs t)
  show ?case
  proof (cases "UpsertBuiltin (up n) r t")
    case (Some t')
    then show ?thesis using 2 [OF Some] upsert_metrics [OF Some] by (simp only: seed_rules.simps option.case list.set image_insert) blast
  qed auto
qed simp

lemma no_match: "r_Metric r \<noteq> mp_Metric p \<Longrightarrow> findMatchingPoints (indexPoints [p]) r = []"
  by (simp add: findMatchingPoints_def indexPoints_def)

lemma evaluate_rules_no_match:
  "\<forall>r \<in> set rs. r_Metric r \<noteq> mp_Metric p \<Longrightarrow> evaluate_rules hs now rs [p] s = s"
  unfolding evaluate_rules_def by (induction rs) (simp_all add: no_match)

lemma builtin_metric_no_anomaly: "m \<noteq> '''' \<Longrightarrow> ''anomaly.'' @ m \<notin> set (map r_Metric BuiltinRules)"
  unfolding builtin_metrics by simp

lemma seeded_metric: "r \<in> set (SeedBuiltinRules ok []) \<Longrightarrow> r_Metric r \<in> set (map r_Metric BuiltinRules)"
  using seed_metrics [of ok 0 BuiltinRules "[]"] unfolding SeedBuiltinRules_def by (simp only: set_map list.set image_empty Un_empty_left) blast

text \<open>With the rules a server starts with, no anomaly ever raises an alert: the detector reports an anomaly of the metric
  \<open>m\<close> under the name \<open>anomaly.m\<close>, the two built-in rules for anomalies are on the metric \<open>anomaly.\<close> exactly, and the
  evaluator compares names for equality. The evaluation leaves the evaluator and the history as they are.\<close>

theorem anomaly_alerts_never_fire:
  assumes "m \<noteq> ''''" "reload_rules True (SeedBuiltinRules ok []) (Some e) = Some ev"
  shows "adapter_Evaluate hs now clock (''anomaly.'' @ m) v ls (ev, h) = (ev, h)"
proof -
  have t: "table_ok (SeedBuiltinRules ok [])"
    using table_ok_seed [OF _ builtin_ok, of "[]"] by (simp add: SeedBuiltinRules_def table_ok_def)
  obtain rs where rs: "ListEnabled True (SeedBuiltinRules ok []) = Some rs" by (simp add: ListEnabled_def)
  have ev: "e_rules ev = rs" using assms(2) rs by (auto simp: reload_rules_def LoadRules_def)
  have "set rs \<subseteq> set (SeedBuiltinRules ok [])" using rs by (auto simp: ListEnabled_def)
  then have no: "\<forall>r \<in> set rs. r_Metric r \<noteq> ''anomaly.'' @ m"
    using seeded_metric builtin_metric_no_anomaly [OF assms(1)] by (metis subsetD)
  let ?p = "\<lparr>mp_InstanceID = '''', mp_Metric = ''anomaly.'' @ m, mp_Value = v, mp_Labels = ls, mp_Timestamp = now\<rparr>"
  have "evaluate_rules hs now (e_rules ev) [?p] (e_state ev, h, []) = (e_state ev, h, [])"
    unfolding ev by (rule evaluate_rules_no_match) (use no in simp)
  moreover have "evaluator_ok (Some ev)" using loaded_ok [OF t rs] ev by (simp add: evaluator_ok_def)
  ultimately show ?thesis by (simp add: adapter_Evaluate_def Evaluate_def uniqueInstances_def runForecastAlerts_idle)
qed

subsection \<open>Concrete runs\<close>

abbreviation "all_up \<equiv> \<lparr>ri_get = True, ri_change = True, ri_reload = True\<rparr>"

definition demo_request :: createRuleRequest where
  "demo_request = \<lparr>cq_ID = ''too_many'', cq_Name = ''Too many'', cq_Description = '''', cq_Metric = ''pg.connections.total'', cq_Operator = OpGreater,
     cq_Threshold = 10, cq_Severity = SeverityWarning, cq_Labels = None, cq_ConsecutiveCount = 0, cq_CooldownMinutes = 0, cq_Channels = None, cq_Enabled = None\<rparr>"

definition demo_rules :: rule_state where
  "demo_rules = fst (handleCreateAlertRule \<lparr>ac_DefaultConsecutiveCount = 0, ac_DefaultCooldownMinutes = 0\<rparr> all_up (Some demo_request) ([], Some NewEvaluator))"

lemma demo_rules_reach: "rule_reach demo_rules"
  unfolding demo_rules_def by (intro rule_reach.create rule_reach.start) simp

lemma demo_loaded: "map_option (\<lambda>ev. map r_ID (e_rules ev)) (snd demo_rules) = Some [''too_many'']" "map r_ID (fst demo_rules) = [''too_many'']"
  unfolding demo_rules_def demo_request_def by code_simp+

lemma demo_reach_loaded: "rule_reach (fst demo_rules, Some (the (snd demo_rules)))"
proof -
  have "demo_rules = (fst demo_rules, Some (the (snd demo_rules)))"
    using demo_loaded(1) by (cases "snd demo_rules") (simp_all add: prod_eq_iff)
  then show ?thesis using demo_rules_reach by metis
qed

theorem rule_table_invariant_witness:
  "map r_ID (fst demo_rules) = [''too_many''] \<and> table_ok (fst demo_rules) \<and> evaluator_ok (snd demo_rules)"
  using rule_table_invariant [of "fst demo_rules" "snd demo_rules"] demo_rules_reach demo_loaded(2) by simp

theorem builtin_rules_permanent_witness:
  "has_builtins (fst (fst (handleDeleteAlertRule all_up ''cache_hit_warning'' (SeedBuiltinRules (\<lambda>_. True) [], None))))"
proof -
  let ?s = "(SeedBuiltinRules (\<lambda>_. True) [], None)"
  have "rule_requests ?s (fst (handleDeleteAlertRule all_up ''cache_hit_warning'' ?s))" by (intro rule_requests.deleted rule_requests.none)
  then show ?thesis using builtin_rules_permanent by (metis prod.collapse)
qed

theorem forecast_rules_never_run_witness:
  "let ev = SetForecastProvider (Some (\<lambda>_ _ _. Inr [])) 3 (the (snd demo_rules)) in
   runForecastAlerts NullAlertHistoryStore (\<lambda>_. 0) ''db1'' (ev, ()) = (ev, ())"
proof -
  have "rule_reach (fst demo_rules, Some (SetForecastProvider (Some (\<lambda>_ _ _. Inr [])) 3 (the (snd demo_rules))))"
    by (rule rule_reach.work [OF demo_reach_loaded]) (simp add: SetForecastProvider_def)
  from forecast_rules_never_run [OF this] show ?thesis by (simp add: Let_def)
qed

theorem anomaly_alerts_never_fire_witness:
  "let ev = the (reload_rules True (SeedBuiltinRules (\<lambda>_. True) []) (Some NewEvaluator)) in
   adapter_Evaluate NullAlertHistoryStore 0 (\<lambda>_. 0) ''anomaly.pg.cache.hit_ratio'' 9 [] (ev, ()) = (ev, ())"
proof -
  let ?e = "reload_rules True (SeedBuiltinRules (\<lambda>_. True) []) (Some NewEvaluator)"
  have "?e = Some (the ?e)" by (simp add: reload_rules_def)
  from anomaly_alerts_never_fire [where m = "''pg.cache.hit_ratio''", OF _ this] show ?thesis by (simp add: Let_def)
qed

end
