(* ===== verification/CollectorCore.thy ===== *)
theory CollectorCore
  imports MetricModel
begin

section \<open>Versions, rows and the registry (\<open>internal/version\<close>, \<open>internal/collector/registry.go\<close>)\<close>

text \<open>
  What every collector builds on. A query gives an error or rows, each of which is scanned or fails to scan;
  a collector turns rows into samples (name, value, labels), and \<open>emit\<close> stamps each sample with the
  clock reading of its own call of \<open>Base.point\<close>. An error of a collector is \<open>None\<close>.
\<close>

subsection \<open>Server versions (\<open>version.go\<close>, \<open>gate.go\<close>)\<close>

record PGVersion =
  v_Major :: int
  v_Minor :: int
  v_Num :: int
  v_Full :: string

definition AtLeast :: "PGVersion \<Rightarrow> int \<Rightarrow> int \<Rightarrow> bool" where
  "AtLeast v major minor = (if v_Major v \<noteq> major then v_Major v > major else v_Minor v \<ge> minor)"

definition Detect :: "string option \<Rightarrow> string option \<Rightarrow> PGVersion option" where
  "Detect numStr full =
     (case numStr of None \<Rightarrow> None
      | Some ns \<Rightarrow>
          (case full of None \<Rightarrow> None
           | Some f \<Rightarrow>
               (case ParseInt ns of None \<Rightarrow> None
                | Some num \<Rightarrow> Some \<lparr>v_Major = go_quot num 10000, v_Minor = go_quot (go_rem num 10000) 100, v_Num = num, v_Full = f\<rparr>)))"

record VersionRange =
  vr_MinMajor :: int
  vr_MinMinor :: int
  vr_MaxMajor :: int
  vr_MaxMinor :: int

definition range_Contains :: "VersionRange \<Rightarrow> PGVersion \<Rightarrow> bool" where
  "range_Contains r v =
     (if \<not> AtLeast v (vr_MinMajor r) (vr_MinMinor r) then False
      else if vr_MaxMajor r = 0 then True
      else if v_Major v > vr_MaxMajor r then False
      else if v_Major v = vr_MaxMajor r \<and> v_Minor v > vr_MaxMinor r then False
      else True)"

text \<open>A gate over the statements \<open>'q\<close>.\<close>

type_synonym 'q gate = "(VersionRange \<times> 'q) list"

fun gate_Select :: "'q gate \<Rightarrow> PGVersion \<Rightarrow> 'q option" where
  "gate_Select [] v = None"
| "gate_Select ((r, q) # g) v = (if range_Contains r v then Some q else gate_Select g v)"

definition majors :: "int \<Rightarrow> int \<Rightarrow> VersionRange" where
  "majors lo hi = \<lparr>vr_MinMajor = lo, vr_MinMinor = 0, vr_MaxMajor = hi, vr_MaxMinor = 99\<rparr>"

lemma range_Contains_majors:
  "0 < hi \<Longrightarrow> 0 \<le> v_Minor v \<Longrightarrow> v_Minor v \<le> 99 \<Longrightarrow> range_Contains (majors lo hi) v \<longleftrightarrow> lo \<le> v_Major v \<and> v_Major v \<le> hi"
  by (auto simp: range_Contains_def majors_def AtLeast_def)

lemma detected_minor:
  assumes "Detect n f = Some v" "0 \<le> v_Num v"
  shows "0 \<le> v_Minor v \<and> v_Minor v \<le> 99 \<and> 0 \<le> v_Major v \<and> v_Num v div 10000 = v_Major v"
proof -
  have "v_Major v = go_quot (v_Num v) 10000" "v_Minor v = go_quot (go_rem (v_Num v) 10000) 100"
    using assms(1) by (auto simp: Detect_def split: option.splits)
  moreover have "0 \<le> v_Num v mod 10000" "v_Num v mod 10000 < 10000" by simp_all
  ultimately show ?thesis using assms(2) by (simp add: go_quot_nonneg go_rem_nonneg pos_imp_zdiv_nonneg_iff zdiv_mono1 [of "v_Num v mod 10000" 9999 100, simplified])
qed

subsection \<open>Rows and samples\<close>

datatype 'r answer = QueryFails | Answer "'r option list" bool

text \<open>The loop over \<open>rows.Next()\<close>, \<open>rows.Scan\<close> and the final \<open>rows.Err()\<close>: no partial result is used.\<close>

fun scan_rows :: "'r option list \<Rightarrow> 'r list option" where
  "scan_rows [] = Some []"
| "scan_rows (None # rs) = None"
| "scan_rows (Some r # rs) = map_option ((#) r) (scan_rows rs)"

fun read_rows :: "'r answer \<Rightarrow> 'r list option" where
  "read_rows QueryFails = None"
| "read_rows (Answer rs ok) = (case scan_rows rs of None \<Rightarrow> None | Some xs \<Rightarrow> if ok then Some xs else None)"

lemma scan_rows_all [simp]: "scan_rows (map Some xs) = Some xs"
  by (induction xs) auto

lemma scan_rows_Some: "scan_rows rs = Some xs \<longleftrightarrow> rs = map Some xs"
proof
  show "scan_rows rs = Some xs \<Longrightarrow> rs = map Some xs"
    by (induction rs arbitrary: xs rule: scan_rows.induct) auto
qed simp

lemma read_rows_Some: "read_rows a = Some xs \<longleftrightarrow> a = Answer (map Some xs) True"
  by (cases a) (auto simp: scan_rows_Some split: option.splits)

type_synonym sample = "string \<times> float64 \<times> labels"

definition emit :: "Base \<Rightarrow> (nat \<Rightarrow> time) \<Rightarrow> sample list \<Rightarrow> MetricPoint list" where
  "emit b clk ss = map (\<lambda>(i, (metric, v, ls)). point b (clk i) metric v ls) (enumerate 0 ss)"

text \<open>The points of each row, in the order of the rows.\<close>

definition per_row :: "('r \<Rightarrow> sample list) \<Rightarrow> 'r answer \<Rightarrow> sample list option" where
  "per_row f a = map_option (\<lambda>rs. concat (map f rs)) (read_rows a)"

lemma length_emit [simp]: "length (emit b clk ss) = length ss"
  by (simp add: emit_def)

lemma emit_nth: "i < length ss \<Longrightarrow> emit b clk ss ! i = (case ss ! i of (m, v, ls) \<Rightarrow> point b (clk i) m v ls)"
  by (simp add: emit_def nth_enumerate_eq)

lemma in_emit:
  assumes "p \<in> set (emit b clk ss)"
  shows "\<exists>i < length ss. \<exists>m v ls. ss ! i = (m, v, ls) \<and> p = point b (clk i) m v ls"
proof -
  obtain i where "i < length ss" "p = emit b clk ss ! i" using assms by (metis in_set_conv_nth length_emit)
  then show ?thesis by (cases "ss ! i") (auto simp: emit_nth)
qed

record InstanceContext =
  ic_IsRecovery :: bool

subsection \<open>The registry\<close>

text \<open>A registered collector is its outcome on this pass; a failed one is logged and skipped.\<close>

definition CollectAll :: "MetricPoint list option list \<Rightarrow> MetricPoint list" where
  "CollectAll outcomes = concat (map (\<lambda>r. case r of None \<Rightarrow> [] | Some points \<Rightarrow> points) outcomes)"

lemma CollectAll_isolated:
  "CollectAll (as @ [r] @ bs) = CollectAll as @ (case r of None \<Rightarrow> [] | Some ps \<Rightarrow> ps) @ CollectAll bs"
  by (simp add: CollectAll_def)

end
