(* ===== verification/Collectors.thy ===== *)
theory Collectors
  imports CollectorCore
begin

section \<open>Collectors of an instance (\<open>internal/collector\<close>)\<close>

text \<open>
  One definition per collector, from the answers of its statements to the samples it reports. Where the text of a
  statement decides what a column holds, the column is computed here from the statistics the statement reads.
\<close>

definition flag :: "bool \<Rightarrow> float64" where
  "flag b = (if b then 1 else 0)"

subsection \<open>Server, connections, caches (\<open>server_info.go\<close>, \<open>connections.go\<close>, \<open>cache.go\<close>, \<open>transactions.go\<close>, \<open>database_sizes.go\<close>)\<close>

datatype backup_sql = IsInBackup

definition backupStateGate :: "backup_sql gate" where
  "backupStateGate = [(majors 14 14, IsInBackup)]"

text \<open>The answers of the server: start time, backup state, the two wraparound shares, and the two files. The
  pretty name of the operating system comes from the parser of \<open>/etc/os-release\<close> (\<open>agent.ParseOSRelease\<close>).\<close>

record server_answers =
  sa_start :: "int option"
  sa_backup :: "int option"
  sa_wraparound :: "float64 option"
  sa_multixact :: "float64 option"
  sa_file :: "string \<Rightarrow> string option"

definition os_name :: "string \<times> string \<Rightarrow> string" where
  "os_name rel = fst rel @ (if snd rel \<noteq> '''' then '' '' @ snd rel else '''')"

definition server_info_Collect :: "(string \<Rightarrow> string \<times> string) \<Rightarrow> PGVersion \<Rightarrow> time \<Rightarrow> InstanceContext \<Rightarrow> server_answers \<Rightarrow> sample list option" where
  "server_info_Collect parseOSRelease v now ic sa =
     (case sa_start sa of None \<Rightarrow> None
      | Some startEpoch \<Rightarrow>
          (case (case gate_Select backupStateGate v of None \<Rightarrow> Some 0 | Some _ \<Rightarrow> sa_backup sa) of None \<Rightarrow> None
           | Some isBackup \<Rightarrow> Some
              ([(''server.start_time_unix'', of_int startEpoch, []), (''server.uptime_seconds'', of_int (now div Second - startEpoch), []),
                (''server.is_in_recovery'', flag (ic_IsRecovery ic), []), (''server.is_in_backup'', of_int isBackup, [])] @
               (case sa_wraparound sa of None \<Rightarrow> [] | Some p \<Rightarrow> [(''server.wraparound_pct'', p, [])]) @
               (case sa_multixact sa of None \<Rightarrow> [] | Some p \<Rightarrow> [(''server.multixact_pct'', p, [])]) @
               (case sa_file sa ''/etc/hostname'' of None \<Rightarrow> [] | Some h \<Rightarrow> [(''server.hostname'', 0, [(''hostname'', TrimSpace h)])]) @
               (case sa_file sa ''/etc/os-release'' of None \<Rightarrow> [] | Some r \<Rightarrow> [(''server.os'', 0, [(''os'', os_name (parseOSRelease r))])]))))"

text \<open>The utilisation of the slots that are not reserved; none left counts as full.\<close>

definition utilization :: "float64 \<Rightarrow> int \<Rightarrow> int \<Rightarrow> float64" where
  "utilization n maxConn reserved = (let available = maxConn - reserved in if available > 0 then n / of_int available * 100 else 100)"

definition connections_Collect :: "(string \<times> int) answer \<Rightarrow> (int \<times> int) option \<Rightarrow> sample list option" where
  "connections_Collect states limits =
     (case read_rows states of None \<Rightarrow> None
      | Some rs \<Rightarrow>
          let n = fold (\<lambda>(state, cnt) t. t + real_of_int cnt) rs 0 in
          (case limits of None \<Rightarrow> None
           | Some (maxConn, reserved) \<Rightarrow> Some
              (map (\<lambda>(state, cnt). (''connections.by_state'', of_int cnt, [(''state'', state)])) rs @
               [(''connections.total'', n, []), (''connections.max'', of_int maxConn, []), (''connections.superuser_reserved'', of_int reserved, []),
                (''connections.utilization_pct'', utilization n maxConn reserved, [])])))"

text \<open>\<open>sum(blks_hit) * 100.0 / NULLIF(sum(blks_hit) + sum(blks_read), 0)\<close>, zero when there was no access.\<close>

definition hit_percentage :: "nat \<Rightarrow> nat \<Rightarrow> float64" where
  "hit_percentage hit miss = (if hit + miss = 0 then 0 else real hit * 100 / real (hit + miss))"

definition cache_Collect :: "(nat \<times> nat) list option \<Rightarrow> sample list option" where
  "cache_Collect databases =
     map_option (\<lambda>dbs. [(''cache.hit_ratio'', hit_percentage (sum_list (map fst dbs)) (sum_list (map snd dbs)), [])]) databases"

text \<open>A row of \<open>pg_stat_database\<close>: name, commits, rollbacks, deadlocks; databases without transactions are not listed.\<close>

definition transactions_Collect :: "(string \<times> nat \<times> nat \<times> int) answer \<Rightarrow> sample list option" where
  "transactions_Collect =
     per_row (\<lambda>(db, commits, rollbacks, deadlocks).
       [(''transactions.commit_ratio_pct'', hit_percentage commits rollbacks, [(''database'', db)]),
        (''transactions.deadlocks'', of_int deadlocks, [(''database'', db)])])"

definition database_sizes_Collect :: "(string \<times> int) answer \<Rightarrow> sample list option" where
  "database_sizes_Collect = per_row (\<lambda>(db, bytes). [(''database.size_bytes'', of_int bytes, [(''database'', db)])])"

subsection \<open>Settings and extensions (\<open>settings.go\<close>, \<open>extensions.go\<close>, \<open>statements_config.go\<close>)\<close>

definition settingsMap :: "(string, string \<times> bool) gomap" where
  "settingsMap =
     [(''track_io_timing'', (''settings.track_io_timing'', True)), (''shared_buffers'', (''settings.shared_buffers_8kb'', False)),
      (''max_locks_per_transaction'', (''settings.max_locks_per_tx'', False)), (''max_prepared_transactions'', (''settings.max_prepared_tx'', False))]"

fun setting_samples :: "(string \<times> string) list \<Rightarrow> sample list option" where
  "setting_samples [] = Some []"
| "setting_samples ((name, setting) # rs) =
     (case map_of settingsMap name of None \<Rightarrow> setting_samples rs
      | Some (metric, boolType) \<Rightarrow>
          (case (if boolType then Some (flag (setting = ''on'')) else parse_float setting) of None \<Rightarrow> None
           | Some v \<Rightarrow> map_option ((#) (metric, v, [])) (setting_samples rs)))"

definition settings_Collect :: "(string \<times> string) answer \<Rightarrow> sample list option" where
  "settings_Collect a = Option.bind (read_rows a) setting_samples"

definition extensions_Collect :: "PGVersion \<Rightarrow> int option \<Rightarrow> float64 option \<Rightarrow> int option \<Rightarrow> sample list option" where
  "extensions_Collect v pgssCount fillPct resetEpoch =
     (case pgssCount of None \<Rightarrow> None
      | Some n \<Rightarrow> Some
          ((''extensions.pgss_installed'', flag (n > 0), []) #
           (if \<not> n > 0 then []
            else (case fillPct of None \<Rightarrow> [] | Some p \<Rightarrow> [(''extensions.pgss_fill_pct'', p, [])]) @
                 (if AtLeast v 14 0 then (case resetEpoch of None \<Rightarrow> [] | Some e \<Rightarrow> [(''extensions.pgss_stats_reset_unix'', of_int e, [])]) else []))))"

definition config_samples :: "(string, string) gomap \<Rightarrow> float64 \<Rightarrow> float64 option \<Rightarrow> sample list" where
  "config_samples settings n resetAge =
     (case map_of settings ''pg_stat_statements.max'' of None \<Rightarrow> []
      | Some maxStr \<Rightarrow>
          (case parse_float maxStr of None \<Rightarrow> []
           | Some maxVal \<Rightarrow> (''statements.max'', maxVal, []) # (if maxVal > 0 then [(''statements.fill_pct'', n / maxVal * 100, [])] else []))) @
     (case map_of settings ''pg_stat_statements.track'' of None \<Rightarrow> [] | Some track \<Rightarrow> [(''statements.track'', 1, [(''value'', track)])]) @
     (case map_of settings ''track_io_timing'' of None \<Rightarrow> [] | Some timing \<Rightarrow> [(''statements.track_io_timing'', flag (timing = ''on''), [])]) @
     [(''statements.count'', n, [])] @
     (case resetAge of None \<Rightarrow> [] | Some age \<Rightarrow> [(''statements.stats_reset_age_seconds'', age, [])])"

text \<open>\<open>available\<close> is the answer of \<open>pgssAvailable\<close>; the age of the last reset may be \<open>NULL\<close>.\<close>

definition statements_config_Collect :: "bool option \<Rightarrow> (string \<times> string) answer \<Rightarrow> float64 option \<Rightarrow> float64 option option \<Rightarrow> sample list option" where
  "statements_config_Collect available settingsRows cnt resetAge =
     (case available of None \<Rightarrow> None
      | Some ok \<Rightarrow>
          if \<not> ok then Some []
          else (case read_rows settingsRows of None \<Rightarrow> None
           | Some rs \<Rightarrow>
               (case cnt of None \<Rightarrow> None
                | Some n \<Rightarrow>
                    (case resetAge of None \<Rightarrow> None
                     | Some age \<Rightarrow> Some (config_samples (fold (\<lambda>(name, setting) m. map_put name setting m) rs []) n age)))))"

end
