(* ===== verification/CollectorStats.thy ===== *)
theory CollectorStats
  imports Collectors
begin

section \<open>Replication, activity and progress collectors\<close>

text \<open>
  The collectors of replication, checkpoints (with the previous snapshot as their state), I/O, long
  transactions, wait events, the heaviest statements and the progress views.
\<close>

subsection \<open>Replication (\<open>replication_lag.go\<close>, \<open>replication_slots.go\<close>, \<open>replication_status.go\<close>)\<close>

record lag_row =
  lg_appName :: string
  lg_clientAddr :: string
  lg_state :: string
  lg_pending :: float64
  lg_write :: float64
  lg_flush :: float64
  lg_replay :: float64
  lg_total :: float64
  lg_writeSeconds :: float64
  lg_flushSeconds :: float64
  lg_replaySeconds :: float64

definition lag_samples :: "lag_row \<Rightarrow> sample list" where
  "lag_samples r =
     (let timeLbls = [(''app_name'', lg_appName r), (''client_addr'', lg_clientAddr r)]; ls = timeLbls @ [(''state'', lg_state r)] in
      [(''replication.lag.pending_bytes'', lg_pending r, ls), (''replication.lag.write_bytes'', lg_write r, ls),
       (''replication.lag.flush_bytes'', lg_flush r, ls), (''replication.lag.replay_bytes'', lg_replay r, ls),
       (''replication.lag.total_bytes'', lg_total r, ls), (''replication.lag.write_seconds'', lg_writeSeconds r, timeLbls),
       (''replication.lag.flush_seconds'', lg_flushSeconds r, timeLbls), (''replication.lag.replay_seconds'', lg_replaySeconds r, timeLbls)])"

definition replication_lag_Collect :: "InstanceContext \<Rightarrow> lag_row answer \<Rightarrow> sample list option" where
  "replication_lag_Collect ic a = (if ic_IsRecovery ic then Some [] else per_row lag_samples a)"

text \<open>The three statements differ in the columns they blank out.\<close>

datatype slots_sql = SlotsBase | SlotsTwoPhase | SlotsConflicting

definition replicationSlotsGate :: "slots_sql gate" where
  "replicationSlotsGate = [(majors 14 14, SlotsBase), (majors 15 15, SlotsTwoPhase), (majors 16 99, SlotsConflicting)]"

record slot_row =
  sl_slotName :: string
  sl_slotType :: string
  sl_active :: bool
  sl_retainedBytes :: float64
  sl_twoPhase :: string
  sl_conflicting :: string

definition slot_columns :: "slots_sql \<Rightarrow> slot_row \<Rightarrow> slot_row" where
  "slot_columns q r =
     (case q of SlotsBase \<Rightarrow> r\<lparr>sl_twoPhase := '''', sl_conflicting := ''''\<rparr> | SlotsTwoPhase \<Rightarrow> r\<lparr>sl_conflicting := ''''\<rparr> | SlotsConflicting \<Rightarrow> r)"

definition slot_samples :: "slot_row \<Rightarrow> sample list" where
  "slot_samples r =
     (let ls = [(''slot_name'', sl_slotName r), (''slot_type'', sl_slotType r), (''active'', if sl_active r then ''true'' else ''false'')] @
            (if sl_twoPhase r \<noteq> '''' then [(''two_phase'', sl_twoPhase r)] else []) @
            (if sl_conflicting r \<noteq> '''' then [(''conflicting'', sl_conflicting r)] else [])
      in [(''replication.slot.retained_bytes'', sl_retainedBytes r, ls), (''replication.slot.active'', flag (sl_active r), ls)])"

definition replication_slots_Collect :: "PGVersion \<Rightarrow> slot_row answer \<Rightarrow> sample list option" where
  "replication_slots_Collect v a =
     (case gate_Select replicationSlotsGate v of None \<Rightarrow> None | Some q \<Rightarrow> per_row (\<lambda>r. slot_samples (slot_columns q r)) a)"

definition collectPrimary :: "(string \<times> string \<times> string \<times> string) answer \<Rightarrow> sample list option" where
  "collectPrimary a =
     map_option (\<lambda>rs.
       map (\<lambda>(appName, clientAddr, state, syncState). (''replication.replica.connected'', 1,
              [(''app_name'', appName), (''client_addr'', clientAddr), (''state'', state), (''sync_state'', syncState)])) rs @
       [(''replication.active_replicas'', real (length rs), [])]) (read_rows a)"

definition collectReplica :: "(string \<times> string \<times> string \<times> float64) answer \<Rightarrow> sample list option" where
  "collectReplica a =
     map_option (\<lambda>rs.
       concat (map (\<lambda>(status, senderHost, senderPort, lagBytes).
         let ls = [(''sender_host'', senderHost), (''sender_port'', senderPort)] in
         [(''replication.wal_receiver.connected'', flag (status = ''streaming''), ls), (''replication.wal_receiver.lag_bytes'', lagBytes, ls)]) rs) @
       (if rs = [] then [(''replication.wal_receiver.connected'', 0, [])] else [])) (read_rows a)"

definition replication_status_Collect :: "InstanceContext \<Rightarrow> (string \<times> string \<times> string \<times> string) answer \<Rightarrow> (string \<times> string \<times> string \<times> float64) answer
    \<Rightarrow> sample list option" where
  "replication_status_Collect ic primary replica = (if ic_IsRecovery ic then collectReplica replica else collectPrimary primary)"

subsection \<open>Checkpoints (\<open>checkpoint.go\<close>)\<close>

record checkpointSnapshot =
  cs_checkpointsTimed :: float64
  cs_checkpointsReq :: float64
  cs_writeTimeMs :: float64
  cs_syncTimeMs :: float64
  cs_buffersWritten :: float64
  cs_buffersClean :: float64
  cs_maxwrittenClean :: float64
  cs_buffersAlloc :: float64
  cs_buffersBackend :: float64
  cs_buffersBackendFsync :: float64
  cs_restartpointsTimed :: float64
  cs_restartpointsDone :: float64
  cs_restartpointsRequested :: float64

datatype checkpoint_sql = BgwriterOnly | Checkpointer

definition checkpointGate :: "checkpoint_sql gate" where
  "checkpointGate = [(majors 14 16, BgwriterOnly), (majors 17 99, Checkpointer)]"

text \<open>What a statement puts in the columns its version does not have.\<close>

definition checkpoint_columns :: "checkpoint_sql \<Rightarrow> checkpointSnapshot \<Rightarrow> checkpointSnapshot" where
  "checkpoint_columns q s =
     (case q of BgwriterOnly \<Rightarrow> s\<lparr>cs_restartpointsTimed := -1, cs_restartpointsDone := -1, cs_restartpointsRequested := -1\<rparr>
      | Checkpointer \<Rightarrow> s\<lparr>cs_buffersBackend := -1, cs_buffersBackendFsync := -1\<rparr>)"

definition present :: "string \<Rightarrow> float64 \<Rightarrow> sample list" where
  "present metric v = (if v \<ge> 0 then [(metric, v, [])] else [])"

definition absolutePoints :: "checkpointSnapshot \<Rightarrow> sample list" where
  "absolutePoints s =
     [(''checkpoint.timed'', cs_checkpointsTimed s, []), (''checkpoint.requested'', cs_checkpointsReq s, []),
      (''checkpoint.write_time_ms'', cs_writeTimeMs s, []), (''checkpoint.sync_time_ms'', cs_syncTimeMs s, []),
      (''checkpoint.buffers_written'', cs_buffersWritten s, []), (''bgwriter.buffers_clean'', cs_buffersClean s, []),
      (''bgwriter.maxwritten_clean'', cs_maxwrittenClean s, []), (''bgwriter.buffers_alloc'', cs_buffersAlloc s, [])] @
     present ''bgwriter.buffers_backend'' (cs_buffersBackend s) @ present ''bgwriter.buffers_backend_fsync'' (cs_buffersBackendFsync s) @
     present ''checkpoint.restartpoints_timed'' (cs_restartpointsTimed s) @ present ''checkpoint.restartpoints_done'' (cs_restartpointsDone s) @
     present ''checkpoint.restartpoints_req'' (cs_restartpointsRequested s)"

definition ratePoints :: "checkpointSnapshot \<Rightarrow> checkpointSnapshot \<Rightarrow> float64 \<Rightarrow> sample list" where
  "ratePoints prev cur elapsedSec =
     (let rate = (\<lambda>f. (f cur - f prev) / elapsedSec) in
      [(''checkpoint.timed_per_second'', rate cs_checkpointsTimed, []), (''checkpoint.requested_per_second'', rate cs_checkpointsReq, []),
       (''checkpoint.buffers_written_per_second'', rate cs_buffersWritten, []), (''bgwriter.buffers_clean_per_second'', rate cs_buffersClean, []),
       (''bgwriter.buffers_alloc_per_second'', rate cs_buffersAlloc, [])] @
      (if cs_buffersBackend prev \<ge> 0 then [(''bgwriter.buffers_backend_per_second'', rate cs_buffersBackend, [])] else []))"

definition isStatsReset :: "checkpointSnapshot \<Rightarrow> checkpointSnapshot \<Rightarrow> bool" where
  "isStatsReset prev cur \<longleftrightarrow>
     cs_checkpointsTimed cur < cs_checkpointsTimed prev \<or> cs_checkpointsReq cur < cs_checkpointsReq prev \<or>
     cs_buffersWritten cur < cs_buffersWritten prev \<or> cs_buffersClean cur < cs_buffersClean prev \<or> cs_buffersAlloc cur < cs_buffersAlloc prev \<or>
     cs_buffersBackend prev \<ge> 0 \<and> cs_buffersBackend cur \<ge> 0 \<and> cs_buffersBackend cur < cs_buffersBackend prev \<or>
     cs_restartpointsTimed prev \<ge> 0 \<and> cs_restartpointsTimed cur \<ge> 0 \<and> cs_restartpointsTimed cur < cs_restartpointsTimed prev"

type_synonym checkpoint_state = "(checkpointSnapshot \<times> time) option"

definition computeMetrics :: "checkpointSnapshot \<Rightarrow> checkpoint_state \<Rightarrow> time \<Rightarrow> sample list" where
  "computeMetrics cur st now =
     absolutePoints cur @
     (case st of None \<Rightarrow> []
      | Some (prev, prevTime) \<Rightarrow>
          let elapsed = real_of_int (time_sub now prevTime) / real_of_int Second in
          if elapsed > 0 \<and> \<not> isStatsReset prev cur then ratePoints prev cur elapsed else [])"

definition checkpoint_Collect :: "PGVersion \<Rightarrow> checkpointSnapshot option \<Rightarrow> time \<Rightarrow> checkpoint_state \<Rightarrow> sample list option \<times> checkpoint_state" where
  "checkpoint_Collect v row now st =
     (case gate_Select checkpointGate v of None \<Rightarrow> (None, st)
      | Some q \<Rightarrow>
          (case row of None \<Rightarrow> (None, st)
           | Some s \<Rightarrow> let cur = checkpoint_columns q s in (Some (computeMetrics cur st now), Some (cur, now))))"

subsection \<open>Activity (\<open>io_stats.go\<close>, \<open>long_transactions.go\<close>, \<open>wait_events.go\<close>)\<close>

record ioStatsRow =
  io_backendType :: string
  io_object :: string
  io_ioContext :: string
  io_values :: "(string \<times> float64 option) list"

text \<open>The eleven numeric columns in the order of the statement; \<open>NULL\<close> becomes minus one and is left out.\<close>

definition io_columns :: "string list" where
  "io_columns = [''io.reads'', ''io.read_time'', ''io.writes'', ''io.write_time'', ''io.extends'', ''io.extend_time'', ''io.hits'', ''io.evictions'',
     ''io.reuses'', ''io.fsyncs'', ''io.fsync_time'']"

definition rowPoints :: "ioStatsRow \<Rightarrow> sample list" where
  "rowPoints r =
     (let ls = [(''backend_type'', io_backendType r), (''object'', io_object r), (''context'', io_ioContext r)] in
      concat (map (\<lambda>name. let v = (case map_of (io_values r) name of Some (Some x) \<Rightarrow> x | _ \<Rightarrow> -1) in if v \<ge> 0 then [(name, v, ls)] else []) io_columns))"

definition io_stats_Collect :: "PGVersion \<Rightarrow> ioStatsRow answer \<Rightarrow> sample list option" where
  "io_stats_Collect v a = (if v_Major v < 16 then Some [] else per_row rowPoints a)"

definition longtx_samples :: "string \<times> float64 \<times> float64 \<Rightarrow> sample list" where
  "longtx_samples r = (case r of (txnType, cnt, oldest) \<Rightarrow>
     [(''long_transactions.count'', cnt, [(''type'', txnType)]), (''long_transactions.oldest_seconds'', oldest, [(''type'', txnType)])])"

text \<open>Both types are always reported.\<close>

definition longtx_buildMetrics :: "(string \<times> float64 \<times> float64) list \<Rightarrow> sample list" where
  "longtx_buildMetrics rs =
     concat (map longtx_samples rs) @
     concat (map (\<lambda>t. if t \<notin> fst ` set rs then longtx_samples (t, 0, 0) else []) [''active'', ''waiting''])"

definition long_transactions_Collect :: "(string \<times> float64 \<times> float64) answer \<Rightarrow> sample list option" where
  "long_transactions_Collect a = map_option longtx_buildMetrics (read_rows a)"

definition wait_buildMetrics :: "(string \<times> string \<times> float64) list \<Rightarrow> sample list" where
  "wait_buildMetrics rs =
     map (\<lambda>(ty, ev, cnt). (''wait_events.count'', cnt, [(''wait_event_type'', ty), (''wait_event'', ev)])) rs @
     [(''wait_events.total_backends'', fold (\<lambda>(ty, ev, cnt) t. t + cnt) rs 0, [])]"

definition wait_events_Collect :: "(string \<times> string \<times> float64) answer \<Rightarrow> sample list option" where
  "wait_events_Collect a = map_option wait_buildMetrics (read_rows a)"

subsection \<open>The heaviest statements (\<open>statements_top.go\<close>)\<close>

record topQueryRow =
  tq_queryID :: string
  tq_dbID :: string
  tq_userID :: string
  tq_calls :: float64
  tq_rowCount :: float64
  tq_totalTime :: float64
  tq_ioTime :: float64
  tq_cpuTime :: float64
  tq_avgTime :: float64
  tq_ttlCalls :: float64
  tq_ttlRows :: float64
  tq_ttlTime :: float64
  tq_ttlIO :: float64
  tq_ttlCPU :: float64

definition top_limit :: "int \<Rightarrow> int" where
  "top_limit limit = (if limit \<le> 0 then 20 else limit)"

definition top_samples :: "labels \<Rightarrow> float64 \<Rightarrow> float64 \<Rightarrow> float64 \<Rightarrow> float64 \<Rightarrow> float64 \<Rightarrow> float64 \<Rightarrow> sample list" where
  "top_samples ls tot ioT cpu calls rws avg =
     [(''statements.top.total_time_ms'', tot, ls), (''statements.top.io_time_ms'', ioT, ls), (''statements.top.cpu_time_ms'', cpu, ls),
      (''statements.top.calls'', calls, ls), (''statements.top.rows'', rws, ls), (''statements.top.avg_time_ms'', avg, ls)]"

definition clamp0 :: "float64 \<Rightarrow> float64" where
  "clamp0 x = (if x < 0 then 0 else x)"

definition top_row_samples :: "topQueryRow \<Rightarrow> sample list" where
  "top_row_samples r =
     top_samples [(''queryid'', tq_queryID r), (''dbid'', tq_dbID r), (''userid'', tq_userID r)] (tq_totalTime r) (tq_ioTime r) (clamp0 (tq_cpuTime r))
       (tq_calls r) (tq_rowCount r) (tq_avgTime r)"

definition sum_of :: "(topQueryRow \<Rightarrow> float64) \<Rightarrow> topQueryRow list \<Rightarrow> float64" where
  "sum_of f rs = fold (\<lambda>r t. t + f r) rs 0"

text \<open>What the totals have beyond the listed rows becomes one more bucket.\<close>

definition buildTopMetrics :: "topQueryRow list \<Rightarrow> sample list" where
  "buildTopMetrics rs =
     (case rs of [] \<Rightarrow> []
      | r0 # _ \<Rightarrow>
          concat (map top_row_samples rs) @
          (let otherCalls = tq_ttlCalls r0 - sum_of tq_calls rs in
           if otherCalls > 0 then
             let otherTime = tq_ttlTime r0 - sum_of tq_totalTime rs in
             top_samples [(''queryid'', ''other''), (''dbid'', ''all''), (''userid'', ''all'')] otherTime (tq_ttlIO r0 - sum_of tq_ioTime rs)
               (clamp0 (tq_ttlCPU r0 - sum_of tq_cpuTime rs)) otherCalls (tq_ttlRows r0 - sum_of tq_rowCount rs) (otherTime / otherCalls)
           else []))"

definition statements_top_Collect :: "bool option \<Rightarrow> topQueryRow answer \<Rightarrow> sample list option" where
  "statements_top_Collect available a =
     (case available of None \<Rightarrow> None | Some ok \<Rightarrow> if \<not> ok then Some [] else map_option buildTopMetrics (read_rows a))"

subsection \<open>Progress views (\<open>progress_vacuum.go\<close>, \<open>progress_maintenance.go\<close>, \<open>progress_operations.go\<close>)\<close>

definition completionPct :: "float64 \<Rightarrow> float64 \<Rightarrow> float64" where
  "completionPct done tot = (if tot \<le> 0 then 0 else done / tot * 100)"

text \<open>The process, its database and table, then the counters of the view in the order of the statement.\<close>

definition vacuum_progress_row :: "string \<times> string \<times> string \<times> string \<times> float64 \<times> float64 \<times> float64 \<times> float64 \<times> float64 \<times> float64 \<Rightarrow> sample list" where
  "vacuum_progress_row r =
     (case r of (pid, datname, tableName, phase, blksTotal, blksScanned, blksVacuumed, indexVacuumCount, maxDead, numDead) \<Rightarrow>
        let ls = [(''pid'', pid), (''datname'', datname), (''table_name'', tableName), (''phase'', phase)] in
        [(''progress.vacuum.heap_blks_total'', blksTotal, ls), (''progress.vacuum.heap_blks_scanned'', blksScanned, ls),
         (''progress.vacuum.heap_blks_vacuumed'', blksVacuumed, ls), (''progress.vacuum.index_vacuum_count'', indexVacuumCount, ls),
         (''progress.vacuum.max_dead_tuples'', maxDead, ls), (''progress.vacuum.num_dead_tuples'', numDead, ls),
         (''progress.vacuum.completion_pct'', completionPct blksScanned blksTotal, ls)])"

definition progress_vacuum_Collect :: "(string \<times> string \<times> string \<times> string \<times> float64 \<times> float64 \<times> float64 \<times> float64 \<times> float64 \<times> float64) answer \<Rightarrow> sample list option" where
  "progress_vacuum_Collect = per_row vacuum_progress_row"

definition cluster_progress_row :: "string \<times> string \<times> string \<times> string \<times> string \<times> float64 \<times> float64 \<times> float64 \<times> float64 \<times> float64 \<Rightarrow> sample list" where
  "cluster_progress_row r =
     (case r of (pid, datname, tableName, command, phase, tuplesScanned, tuplesWritten, blksTotal, blksScanned, rebuilds) \<Rightarrow>
        let ls = [(''pid'', pid), (''datname'', datname), (''table_name'', tableName), (''command'', command), (''phase'', phase)] in
        [(''progress.cluster.heap_tuples_scanned'', tuplesScanned, ls), (''progress.cluster.heap_tuples_written'', tuplesWritten, ls),
         (''progress.cluster.heap_blks_total'', blksTotal, ls), (''progress.cluster.heap_blks_scanned'', blksScanned, ls),
         (''progress.cluster.index_rebuild_count'', rebuilds, ls), (''progress.cluster.completion_pct'', completionPct blksScanned blksTotal, ls)])"

definition progress_cluster_Collect :: "(string \<times> string \<times> string \<times> string \<times> string \<times> float64 \<times> float64 \<times> float64 \<times> float64 \<times> float64) answer \<Rightarrow> sample list option" where
  "progress_cluster_Collect = per_row cluster_progress_row"

definition analyze_progress_row :: "string \<times> string \<times> string \<times> string \<times> float64 \<times> float64 \<times> float64 \<times> float64 \<times> float64 \<times> float64 \<times> string \<Rightarrow> sample list" where
  "analyze_progress_row r =
     (case r of (pid, datname, tableName, phase, sampleTotal, sampleScanned, extTotal, extComputed, childTotal, childDone, currentChild) \<Rightarrow>
        let ls = [(''pid'', pid), (''datname'', datname), (''table_name'', tableName), (''phase'', phase), (''current_child'', currentChild)] in
        [(''progress.analyze.sample_blks_total'', sampleTotal, ls), (''progress.analyze.sample_blks_scanned'', sampleScanned, ls),
         (''progress.analyze.ext_stats_total'', extTotal, ls), (''progress.analyze.ext_stats_computed'', extComputed, ls),
         (''progress.analyze.child_tables_total'', childTotal, ls), (''progress.analyze.child_tables_done'', childDone, ls),
         (''progress.analyze.completion_pct'', completionPct sampleScanned sampleTotal, ls)])"

definition progress_analyze_Collect :: "(string \<times> string \<times> string \<times> string \<times> float64 \<times> float64 \<times> float64 \<times> float64 \<times> float64 \<times> float64 \<times> string) answer \<Rightarrow> sample list option" where
  "progress_analyze_Collect = per_row analyze_progress_row"

definition index_progress_row :: "string \<times> string \<times> string \<times> string \<times> string \<times> string \<times> float64 \<times> float64 \<times> float64 \<times> float64 \<times> float64 \<times> float64 \<times> float64 \<times> float64 \<Rightarrow> sample list" where
  "index_progress_row r =
     (case r of (pid, datname, tableName, indexName, command, phase, lockersTotal, lockersDone, blocksTotal, blocksDone, tuplesTotal, tuplesDone,
                 partitionsTotal, partitionsDone) \<Rightarrow>
        let ls = [(''pid'', pid), (''datname'', datname), (''table_name'', tableName), (''index_name'', indexName), (''command'', command), (''phase'', phase)] in
        [(''progress.create_index.blocks_total'', blocksTotal, ls), (''progress.create_index.blocks_done'', blocksDone, ls),
         (''progress.create_index.tuples_total'', tuplesTotal, ls), (''progress.create_index.tuples_done'', tuplesDone, ls),
         (''progress.create_index.lockers_total'', lockersTotal, ls), (''progress.create_index.lockers_done'', lockersDone, ls),
         (''progress.create_index.partitions_total'', partitionsTotal, ls), (''progress.create_index.partitions_done'', partitionsDone, ls),
         (''progress.create_index.completion_pct'', completionPct blocksDone blocksTotal, ls)])"

definition progress_create_index_Collect :: "(string \<times> string \<times> string \<times> string \<times> string \<times> string \<times> float64 \<times> float64 \<times> float64 \<times> float64 \<times> float64 \<times> float64 \<times> float64 \<times> float64) answer
    \<Rightarrow> sample list option" where
  "progress_create_index_Collect = per_row index_progress_row"

definition basebackup_progress_row :: "string \<times> string \<times> string \<times> string \<times> string \<times> float64 \<times> float64 \<times> float64 \<times> float64 \<Rightarrow> sample list" where
  "basebackup_progress_row r =
     (case r of (pid, usename, appName, clientAddr, phase, backupTotal, backupStreamed, tablespacesTotal, tablespacesStreamed) \<Rightarrow>
        let ls = [(''pid'', pid), (''usename'', usename), (''app_name'', appName), (''client_addr'', clientAddr), (''phase'', phase)] in
        [(''progress.basebackup.backup_total'', backupTotal, ls), (''progress.basebackup.backup_streamed'', backupStreamed, ls),
         (''progress.basebackup.tablespaces_total'', tablespacesTotal, ls), (''progress.basebackup.tablespaces_streamed'', tablespacesStreamed, ls),
         (''progress.basebackup.completion_pct'', completionPct backupStreamed backupTotal, ls)])"

definition progress_basebackup_Collect :: "(string \<times> string \<times> string \<times> string \<times> string \<times> float64 \<times> float64 \<times> float64 \<times> float64) answer \<Rightarrow> sample list option" where
  "progress_basebackup_Collect = per_row basebackup_progress_row"

definition copy_progress_row :: "string \<times> string \<times> string \<times> string \<times> string \<times> float64 \<times> float64 \<times> float64 \<times> float64 \<Rightarrow> sample list" where
  "copy_progress_row r =
     (case r of (pid, datname, tableName, command, copyType, bytesProcessed, bytesTotal, tuplesProcessed, tuplesExcluded) \<Rightarrow>
        let ls = [(''pid'', pid), (''datname'', datname), (''table_name'', tableName), (''command'', command), (''type'', copyType)] in
        [(''progress.copy.bytes_processed'', bytesProcessed, ls), (''progress.copy.bytes_total'', bytesTotal, ls),
         (''progress.copy.tuples_processed'', tuplesProcessed, ls), (''progress.copy.tuples_excluded'', tuplesExcluded, ls),
         (''progress.copy.completion_pct'', completionPct bytesProcessed bytesTotal, ls)])"

definition progress_copy_Collect :: "(string \<times> string \<times> string \<times> string \<times> string \<times> float64 \<times> float64 \<times> float64 \<times> float64) answer \<Rightarrow> sample list option" where
  "progress_copy_Collect = per_row copy_progress_row"

end
