(* ===== verification/TextPrelude.thy ===== *)
theory TextPrelude
  imports PulsePrelude
begin

section \<open>Splitting and numbers in text\<close>

text \<open>
  \<open>strings.Split\<close>, \<open>strings.Fields\<close> and the decimal numbers of \<open>strconv\<close>, with the round trip
  of printing and parsing that the readers of \<open>/proc\<close> files rest on.
\<close>

fun split_by :: "(char \<Rightarrow> bool) \<Rightarrow> string \<Rightarrow> string list" where
  "split_by p [] = [[]]"
| "split_by p (c # cs) = (if p c then [] # split_by p cs else (case split_by p cs of [] \<Rightarrow> [[c]] | w # ws \<Rightarrow> (c # w) # ws))"

definition Split :: "char \<Rightarrow> string \<Rightarrow> string list" where
  "Split sep = split_by (\<lambda>c. c = sep)"

definition Fields :: "string \<Rightarrow> string list" where
  "Fields s = filter (\<lambda>w. w \<noteq> []) (split_by is_space s)"

lemma split_by_nonempty [simp]: "split_by p s \<noteq> []"
  by (induction s) (auto split: list.splits)

lemma split_by_word: "\<forall>c \<in> set w. \<not> p c \<Longrightarrow> split_by p w = [w]"
  by (induction w) auto

lemma split_by_sep: "\<forall>c \<in> set w. \<not> p c \<Longrightarrow> p c \<Longrightarrow> split_by p (w @ c # s) = w # split_by p s"
  by (induction w) auto

lemma Fields_word: "w \<noteq> [] \<Longrightarrow> \<forall>c \<in> set w. \<not> is_space c \<Longrightarrow> Fields w = [w]"
  by (simp add: Fields_def split_by_word)

lemma Fields_cons: "w \<noteq> [] \<Longrightarrow> \<forall>c \<in> set w. \<not> is_space c \<Longrightarrow> Fields (w @ CHR '' '' # s) = w # Fields s"
  by (simp add: Fields_def split_by_sep is_space_def)

lemma Fields_space [simp]: "Fields (CHR '' '' # s) = Fields s"
  by (simp add: Fields_def is_space_def)

lemma Split_no_sep: "sep \<notin> set s \<Longrightarrow> Split sep s = [s]"
  unfolding Split_def by (rule split_by_word) auto

lemma Split_sep: "sep \<notin> set w \<Longrightarrow> Split sep (w @ sep # s) = w # Split sep s"
  unfolding Split_def by (rule split_by_sep) auto

subsection \<open>Decimal numbers\<close>

text \<open>The value \<open>strconv.ParseInt\<close> returns beside its error, where the caller ignores the error: zero for a syntax
  error, the nearest bound for a number out of range.\<close>

definition ParseIntValue :: "string \<Rightarrow> int" where
  "ParseIntValue s =
     (let (neg, ds) = split_sign s in
      if ds = [] \<or> \<not> list_all is_digit ds then 0
      else let v = (if neg then - digits_value ds else digits_value ds) in max (- (2 ^ 63)) (min (2 ^ 63 - 1) v))"

lemma digit_char: "n < 10 \<Longrightarrow> digit_val (char_of (48 + n :: nat)) = Some (int n)"
proof -
  assume n: "n < 10"
  have "(of_char (char_of (48 + n) :: char) :: int) = int (of_char (char_of (48 + n) :: char) :: nat)" by (simp only: of_nat_of_char)
  also have "\<dots> = 48 + int n" using n by simp
  finally show ?thesis using n by (simp add: digit_val_def)
qed

lemma parse_digits_append: "parse_digits xs a = Some b \<Longrightarrow> parse_digits (xs @ ys) a = parse_digits ys b"
  by (induction xs a rule: parse_digits.induct) (auto split: option.splits)

lemma parse_nat_digits: "parse_digits (nat_digits n) 0 = Some (int n)"
proof (induction n rule: nat_digits.induct)
  case (1 n)
  show ?case
  proof (cases "n < 10")
    case True
    then show ?thesis by (subst nat_digits.simps) (simp add: digit_char)
  next
    case False
    then have "parse_digits (nat_digits (n div 10)) 0 = Some (int (n div 10))" using 1 by simp
    then have "parse_digits (nat_digits (n div 10) @ [char_of (48 + n mod 10)]) 0 = parse_digits [char_of (48 + n mod 10)] (int (n div 10))"
      by (rule parse_digits_append)
    also have "\<dots> = Some (int (n div 10) * 10 + int (n mod 10))" by (simp add: digit_char)
    also have "int (n div 10) * 10 + int (n mod 10) = int n" by presburger
    finally show ?thesis using False by (subst nat_digits.simps) simp
  qed
qed

lemma nat_digits_nonempty [simp]: "nat_digits n \<noteq> []"
  by (subst nat_digits.simps) simp

lemma parse_digits_digits: "parse_digits ds a = Some b \<Longrightarrow> list_all is_digit ds"
  by (induction ds a rule: parse_digits.induct) (auto simp: is_digit_def split: option.splits)

lemma nat_digits_digits: "list_all is_digit (nat_digits n)"
  by (rule parse_digits_digits [OF parse_nat_digits])

lemma digit_no_space: "is_digit c \<Longrightarrow> \<not> is_space c \<and> c \<noteq> CHR 0x0A"
  by (auto simp: is_digit_def digit_val_def is_space_def split: if_splits)

lemma nat_digits_word: "\<forall>c \<in> set (nat_digits n). \<not> is_space c" "CHR 0x0A \<notin> set (nat_digits n)"
  using nat_digits_digits [of n] by (auto simp: list_all_iff dest: digit_no_space)

lemma ParseIntValue_digits: "int n < 2 ^ 63 \<Longrightarrow> ParseIntValue (nat_digits n) = int n"
proof -
  assume n: "int n < 2 ^ 63"
  obtain c cs where c: "nat_digits n = c # cs" by (cases "nat_digits n") auto
  then have "is_digit c" using nat_digits_digits [of n] by simp
  then have "c \<noteq> CHR ''-''" "c \<noteq> CHR ''+''" by (auto simp: is_digit_def digit_val_def split: if_splits)
  then have "split_sign (nat_digits n) = (False, nat_digits n)" by (simp add: split_sign_def c)
  moreover have "digits_value (nat_digits n) = int n" by (simp only: digits_value_def parse_nat_digits option.simps)
  ultimately show ?thesis using n nat_digits_digits by (simp add: ParseIntValue_def)
qed

end
