(* ===== verification/OsAgent.thy ===== *)
theory OsAgent
  imports CollectorStats TextPrelude
begin

section \<open>The operating system agent (\<open>internal/agent\<close>, \<open>collector/os.go\<close>, \<open>os_sql.go\<close>)\<close>

text \<open>
  Parsers of the \<open>/proc\<close> files, the differences of CPU and disk counters, the snapshot of a host, and the two
  collectors that report it: one from a snapshot, one from files read through the database. Counters are 64-bit
  integers. The contents of a file are an argument, \<open>None\<close> when it cannot be read.
\<close>

abbreviation newline :: char where
  "newline \<equiv> CHR 0x0A"

subsection \<open>Parsers\<close>

record OSRelease =
  or_Name :: string
  or_Version :: string
  or_ID :: string

record LoadAvg =
  la_One :: float64
  la_Five :: float64
  la_Fifteen :: float64

record MemoryInfo =
  mi_TotalKB :: int
  mi_AvailableKB :: int
  mi_UsedKB :: int
  mi_CommitLimitKB :: int
  mi_CommittedAsKB :: int

record CPUInfo =
  ci_UserPct :: float64
  ci_SystemPct :: float64
  ci_IOWaitPct :: float64
  ci_IdlePct :: float64
  ci_NumCPUs :: int

record CPURaw =
  cr_User :: int
  cr_Nice :: int
  cr_System :: int
  cr_Idle :: int
  cr_IOWait :: int
  cr_IRQ :: int
  cr_SoftIRQ :: int
  cr_Steal :: int

definition cpu_Total :: "CPURaw \<Rightarrow> int" where
  "cpu_Total c = wrap64 (cr_User c + cr_Nice c + cr_System c + cr_Idle c + cr_IOWait c + cr_IRQ c + cr_SoftIRQ c + cr_Steal c)"

record DiskStatRaw =
  ds_Device :: string
  ds_ReadsCompleted :: int
  ds_ReadsMerged :: int
  ds_SectorsRead :: int
  ds_ReadTimeMs :: int
  ds_WritesCompleted :: int
  ds_WritesMerged :: int
  ds_SectorsWritten :: int
  ds_WriteTimeMs :: int
  ds_IOInProgress :: int
  ds_IOTimeMs :: int
  ds_WeightedIOTime :: int

definition TrimSuffix :: "string \<Rightarrow> string \<Rightarrow> string" where
  "TrimSuffix s suf = (if length suf \<le> length s \<and> drop (length s - length suf) s = suf then take (length s - length suf) s else s)"

definition meminfo_line :: "string \<Rightarrow> (string, int) gomap \<Rightarrow> (string, int) gomap" where
  "meminfo_line line m =
     (let parts = Fields line in
      if length parts < 2 then m
      else case ParseInt (parts ! 1) of None \<Rightarrow> m | Some val \<Rightarrow> map_put (TrimSuffix (parts ! 0) '':'') val m)"

definition ParseMeminfo :: "string \<Rightarrow> MemoryInfo" where
  "ParseMeminfo content =
     (let m = fold meminfo_line (Split newline content) []; tot = map_get 0 m ''MemTotal''; avail = map_get 0 m ''MemAvailable'';
          available = (if avail = 0 then wrap64 (map_get 0 m ''MemFree'' + map_get 0 m ''Buffers'' + map_get 0 m ''Cached'') else avail)
      in \<lparr>mi_TotalKB = tot, mi_AvailableKB = available, mi_UsedKB = wrap64 (tot - available), mi_CommitLimitKB = map_get 0 m ''CommitLimit'',
          mi_CommittedAsKB = map_get 0 m ''Committed_AS''\<rparr>)"

text \<open>\<open>strings.Trim\<close> with a set of characters.\<close>

definition trim_chars :: "char set \<Rightarrow> string \<Rightarrow> string" where
  "trim_chars cs s = TrimRight (\<lambda>c. c \<in> cs) (dropWhile (\<lambda>c. c \<in> cs) s)"

definition release_line :: "string \<Rightarrow> (string, string) gomap \<Rightarrow> (string, string) gomap" where
  "release_line raw m =
     (let line = TrimSpace raw in
      if line = '''' \<or> HasPrefix line ''#'' then m
      else case index_byte (CHR ''='') line of None \<Rightarrow> m
        | Some idx \<Rightarrow> map_put (take idx line) (trim_chars {CHR 0x22, CHR 0x27} (drop (idx + 1) line)) m)"

definition ParseOSRelease :: "string \<Rightarrow> OSRelease" where
  "ParseOSRelease content =
     (let m = fold release_line (Split newline content) []
      in \<lparr>or_Name = label_get m ''NAME'', or_Version = label_get m ''VERSION_ID'', or_ID = label_get m ''ID''\<rparr>)"

definition cpu_fields :: "string list \<Rightarrow> CPURaw option" where
  "cpu_fields fs =
     (if length fs < 8 then None
      else Some \<lparr>cr_User = ParseIntValue (fs ! 1), cr_Nice = ParseIntValue (fs ! 2), cr_System = ParseIntValue (fs ! 3), cr_Idle = ParseIntValue (fs ! 4),
             cr_IOWait = ParseIntValue (fs ! 5), cr_IRQ = ParseIntValue (fs ! 6), cr_SoftIRQ = ParseIntValue (fs ! 7),
             cr_Steal = (if length fs > 8 then ParseIntValue (fs ! 8) else 0)\<rparr>)"

definition ParseCPURaw :: "string \<Rightarrow> CPURaw option" where
  "ParseCPURaw content = (case filter (\<lambda>l. HasPrefix l ''cpu '') (Split newline content) of [] \<Rightarrow> None | l # _ \<Rightarrow> cpu_fields (Fields l))"

definition disk_line :: "string \<Rightarrow> (string, DiskStatRaw) gomap \<Rightarrow> (string, DiskStatRaw) gomap" where
  "disk_line line m =
     (let fs = Fields line; n = (\<lambda>i. ParseIntValue (fs ! i)) in
      if length fs < 14 then m
      else
        let raw = \<lparr>ds_Device = fs ! 2, ds_ReadsCompleted = n 3, ds_ReadsMerged = n 4, ds_SectorsRead = n 5, ds_ReadTimeMs = n 6, ds_WritesCompleted = n 7,
              ds_WritesMerged = n 8, ds_SectorsWritten = n 9, ds_WriteTimeMs = n 10, ds_IOInProgress = n 11, ds_IOTimeMs = n 12, ds_WeightedIOTime = n 13\<rparr>
        in if wrap64 (ds_ReadsCompleted raw + ds_WritesCompleted raw) = 0 then m else map_put (fs ! 2) raw m)"

definition ParseDiskStats :: "string \<Rightarrow> (string, DiskStatRaw) gomap" where
  "ParseDiskStats content = fold disk_line (Split newline content) []"

subsection \<open>Differences of counters\<close>

definition CPUDelta :: "CPURaw \<Rightarrow> CPURaw \<Rightarrow> int \<Rightarrow> CPUInfo" where
  "CPUDelta prev cur numCPUs =
     (let totalDelta = wrap64 (cpu_Total cur - cpu_Total prev);
          pct = (\<lambda>f. of_int (wrap64 (f cur - f prev)) / of_int totalDelta * 100)
      in if totalDelta \<le> 0 then \<lparr>ci_UserPct = 0, ci_SystemPct = 0, ci_IOWaitPct = 0, ci_IdlePct = 0, ci_NumCPUs = numCPUs\<rparr>
         else \<lparr>ci_UserPct = pct (\<lambda>c. cr_User c + cr_Nice c), ci_SystemPct = pct (\<lambda>c. cr_System c + cr_IRQ c + cr_SoftIRQ c + cr_Steal c),
                ci_IOWaitPct = pct cr_IOWait, ci_IdlePct = pct cr_Idle, ci_NumCPUs = numCPUs\<rparr>)"

record DiskStatInfo =
  di_Device :: string
  di_ReadsCompleted :: int
  di_WritesCompleted :: int
  di_ReadKB :: int
  di_WriteKB :: int
  di_IOInProgress :: int
  di_ReadAwaitMs :: float64
  di_WriteAwaitMs :: float64
  di_UtilPct :: float64

definition sectors_kb :: "int \<Rightarrow> int" where
  "sectors_kb n = go_quot (wrap64 (n * 512)) 1024"

definition await :: "int \<Rightarrow> int \<Rightarrow> float64" where
  "await t n = (if n > 0 then of_int t / of_int n else 0)"

definition DiskStatsDelta :: "DiskStatRaw \<Rightarrow> DiskStatRaw \<Rightarrow> float64 \<Rightarrow> DiskStatInfo" where
  "DiskStatsDelta prev cur intervalMs =
     (let d = (\<lambda>f. wrap64 (f cur - f prev));
          util = of_int (d ds_IOTimeMs) / intervalMs * 100
      in \<lparr>di_Device = ds_Device cur, di_ReadsCompleted = d ds_ReadsCompleted, di_WritesCompleted = d ds_WritesCompleted,
          di_ReadKB = sectors_kb (d ds_SectorsRead), di_WriteKB = sectors_kb (d ds_SectorsWritten), di_IOInProgress = ds_IOInProgress cur,
          di_ReadAwaitMs = await (d ds_ReadTimeMs) (d ds_ReadsCompleted), di_WriteAwaitMs = await (d ds_WriteTimeMs) (d ds_WritesCompleted),
          di_UtilPct = (if intervalMs > 0 then if util > 100 then 100 else util else 0)\<rparr>)"

subsection \<open>The snapshot of a host (\<open>osmetrics_linux.go\<close>)\<close>

record DiskInfo =
  dk_Mount :: string
  dk_Device :: string
  dk_FSType :: string
  dk_TotalBytes :: int
  dk_UsedBytes :: int
  dk_FreeBytes :: int
  dk_InodesTotal :: int
  dk_InodesUsed :: int

record OSSnapshot =
  os_CollectedAt :: time
  os_Hostname :: string
  os_OSRelease :: OSRelease
  os_UptimeSecs :: float64
  os_LoadAvg :: LoadAvg
  os_Memory :: MemoryInfo
  os_CPU :: CPUInfo
  os_Disks :: "DiskInfo list"
  os_DiskStats :: "DiskStatInfo list"

definition excludedFSTypes :: "string list" where
  "excludedFSTypes = [''tmpfs'', ''devtmpfs'', ''sysfs'', ''proc'', ''cgroup'', ''cgroup2'', ''devpts'', ''hugetlbfs'', ''mqueue'', ''pstore'', ''debugfs'',
     ''securityfs'', ''configfs'', ''fusectl'', ''binfmt_misc'', ''autofs'', ''tracefs'', ''overlay'']"

text \<open>The fields of \<open>statfs\<close> the code reads: blocks, block size, available, free, files and free files.\<close>

type_synonym statfs = "int \<times> int \<times> int \<times> int \<times> int \<times> int"

definition disk_info :: "string \<Rightarrow> string \<Rightarrow> string \<Rightarrow> statfs \<Rightarrow> DiskInfo" where
  "disk_info device mount fstype st =
     (case st of (blocks, bsize, bavail, bfree, files, ffree) \<Rightarrow>
        let totalBytes = wrap64 (blocks * bsize) in
        \<lparr>dk_Mount = mount, dk_Device = device, dk_FSType = fstype, dk_TotalBytes = totalBytes, dk_UsedBytes = wrap64 (totalBytes - bfree * bsize),
         dk_FreeBytes = wrap64 (bavail * bsize), dk_InodesTotal = files, dk_InodesUsed = wrap64 (files - ffree)\<rparr>)"

definition mount_info :: "string list \<Rightarrow> (string \<Rightarrow> statfs option) \<Rightarrow> string \<Rightarrow> DiskInfo option" where
  "mount_info mountPoints statfs line =
     (let fs = Fields line in
      if length fs < 3 then None
      else if fs ! 2 \<in> set excludedFSTypes then None
      else if mountPoints \<noteq> [] \<and> fs ! 1 \<notin> set mountPoints then None
      else map_option (disk_info (fs ! 0) (fs ! 1) (fs ! 2)) (statfs (fs ! 1)))"

definition collectDisks :: "string list \<Rightarrow> (string \<Rightarrow> statfs option) \<Rightarrow> string option \<Rightarrow> DiskInfo list option" where
  "collectDisks mountPoints statfs mounts = map_option (\<lambda>data. List.map_filter (mount_info mountPoints statfs) (Split newline data)) mounts"

type_synonym disk_state = "((string, DiskStatRaw) gomap \<times> time) option"

definition interval_ms :: "time \<Rightarrow> time \<Rightarrow> float64" where
  "interval_ms now prevTime = (let ms = of_int (go_quot (time_sub now prevTime) Millisecond) in if ms \<le> 0 then 1 else ms)"

definition disk_deltas :: "(string, DiskStatRaw) gomap \<Rightarrow> float64 \<Rightarrow> (string, DiskStatRaw) gomap \<Rightarrow> (string \<times> DiskStatInfo) list" where
  "disk_deltas prev intervalMs current =
     List.map_filter (\<lambda>(name, cur). map_option (\<lambda>p. (name, DiskStatsDelta p cur intervalMs)) (map_of prev name)) current"

text \<open>The first call reports the raw counters.\<close>

definition raw_disk :: "DiskStatRaw \<Rightarrow> DiskStatInfo" where
  "raw_disk raw =
     \<lparr>di_Device = ds_Device raw, di_ReadsCompleted = ds_ReadsCompleted raw, di_WritesCompleted = ds_WritesCompleted raw,
      di_ReadKB = sectors_kb (ds_SectorsRead raw), di_WriteKB = sectors_kb (ds_SectorsWritten raw), di_IOInProgress = ds_IOInProgress raw,
      di_ReadAwaitMs = 0, di_WriteAwaitMs = 0, di_UtilPct = 0\<rparr>"

definition collectDiskStats :: "string option \<Rightarrow> time \<Rightarrow> disk_state \<Rightarrow> DiskStatInfo list option \<times> disk_state" where
  "collectDiskStats file now st =
     (case file of None \<Rightarrow> (None, st)
      | Some data \<Rightarrow>
          let current = ParseDiskStats data in
          (case st of None \<Rightarrow> (Some (map (\<lambda>(name, raw). raw_disk raw) current), Some (current, now))
           | Some (prev, prevTime) \<Rightarrow> (Some (map snd (disk_deltas prev (interval_ms now prevTime) current)), Some (current, now))))"

definition load_of :: "string \<Rightarrow> LoadAvg option" where
  "load_of data =
     (let fs = Fields data in
      if length fs < 3 then None else Some \<lparr>la_One = ParseFloat (fs ! 0), la_Five = ParseFloat (fs ! 1), la_Fifteen = ParseFloat (fs ! 2)\<rparr>)"

definition uptime_of :: "string \<Rightarrow> float64 option" where
  "uptime_of data = (let fs = Fields data in if length fs < 1 then None else parse_float (fs ! 0))"

text \<open>\<open>stat2\<close> is the second reading of \<open>/proc/stat\<close>, a second later; every part that fails is left at its zero value.\<close>

definition collectCPU :: "string option \<Rightarrow> string option \<Rightarrow> int \<Rightarrow> CPUInfo option" where
  "collectCPU stat1 stat2 numCPUs =
     Option.bind (Option.bind stat1 ParseCPURaw) (\<lambda>prev. map_option (\<lambda>cur. CPUDelta prev cur numCPUs) (Option.bind stat2 ParseCPURaw))"

definition collectOSRelease :: "(string \<Rightarrow> string option) \<Rightarrow> OSRelease" where
  "collectOSRelease file =
     (case file ''/etc/os-release'' of Some d \<Rightarrow> ParseOSRelease d
      | None \<Rightarrow> (case file ''/etc/lsb-release'' of Some d \<Rightarrow> ParseOSRelease d | None \<Rightarrow> \<lparr>or_Name = '''', or_Version = '''', or_ID = ''''\<rparr>))"

definition CollectOS :: "string list \<Rightarrow> (string \<Rightarrow> string option) \<Rightarrow> string option \<Rightarrow> (string \<Rightarrow> statfs option) \<Rightarrow> string \<Rightarrow> int \<Rightarrow> time \<Rightarrow> time \<Rightarrow> disk_state
    \<Rightarrow> OSSnapshot \<times> disk_state" where
  "CollectOS mountPoints file stat2 statfs hostname numCPUs now now' st =
     (let (stats, st') = collectDiskStats (file ''/proc/diskstats'') now' st in
      (\<lparr>os_CollectedAt = now, os_Hostname = hostname, os_OSRelease = collectOSRelease file,
        os_UptimeSecs = (case Option.bind (file ''/proc/uptime'') uptime_of of None \<Rightarrow> 0 | Some u \<Rightarrow> u),
        os_LoadAvg = (case Option.bind (file ''/proc/loadavg'') load_of of None \<Rightarrow> \<lparr>la_One = 0, la_Five = 0, la_Fifteen = 0\<rparr> | Some l \<Rightarrow> l),
        os_Memory = (case file ''/proc/meminfo'' of None \<Rightarrow> \<lparr>mi_TotalKB = 0, mi_AvailableKB = 0, mi_UsedKB = 0, mi_CommitLimitKB = 0, mi_CommittedAsKB = 0\<rparr>
                     | Some d \<Rightarrow> ParseMeminfo d),
        os_CPU = (case collectCPU (file ''/proc/stat'') stat2 numCPUs of
                    None \<Rightarrow> \<lparr>ci_UserPct = 0, ci_SystemPct = 0, ci_IOWaitPct = 0, ci_IdlePct = 0, ci_NumCPUs = 0\<rparr> | Some c \<Rightarrow> c),
        os_Disks = (case collectDisks mountPoints statfs (file ''/proc/mounts'') of None \<Rightarrow> [] | Some ds \<Rightarrow> ds),
        os_DiskStats = (case stats of None \<Rightarrow> [] | Some ds \<Rightarrow> ds)\<rparr>, st'))"

end
