(* ===== verification/CollectorOS.thy ===== *)
theory CollectorOS
  imports OsAgent
begin

section \<open>Collectors of the operating system (\<open>collector/os.go\<close>, \<open>os_sql.go\<close>)\<close>

text \<open>
  The points of a snapshot, and the collector that reads the same files through \<open>pg_read_file\<close> and keeps the last
  counters itself. The laws at the end: percentages of the CPU add up, the parser reads what the kernel prints,
  and what the disk rates are.
\<close>

definition os_point :: "string \<Rightarrow> time \<Rightarrow> sample \<Rightarrow> MetricPoint" where
  "os_point instanceID now s =
     \<lparr>mp_InstanceID = instanceID, mp_Metric = fst s, mp_Value = fst (snd s), mp_Labels = snd (snd s), mp_Timestamp = now\<rparr>"

subsection \<open>From a snapshot\<close>

definition cpu_samples :: "CPUInfo \<Rightarrow> sample list" where
  "cpu_samples c =
     [(''os.cpu.user_pct'', ci_UserPct c, []), (''os.cpu.system_pct'', ci_SystemPct c, []), (''os.cpu.iowait_pct'', ci_IOWaitPct c, []),
      (''os.cpu.idle_pct'', ci_IdlePct c, [])]"

definition memory_samples :: "MemoryInfo \<Rightarrow> sample list" where
  "memory_samples m =
     [(''os.memory.total_kb'', of_int (mi_TotalKB m), []), (''os.memory.available_kb'', of_int (mi_AvailableKB m), []),
      (''os.memory.used_kb'', of_int (mi_UsedKB m), []), (''os.memory.commit_limit_kb'', of_int (mi_CommitLimitKB m), []),
      (''os.memory.committed_as_kb'', of_int (mi_CommittedAsKB m), [])]"

definition load_samples :: "LoadAvg \<Rightarrow> sample list" where
  "load_samples l = [(''os.load.1m'', la_One l, []), (''os.load.5m'', la_Five l, []), (''os.load.15m'', la_Fifteen l, [])]"

definition mount_samples :: "DiskInfo \<Rightarrow> sample list" where
  "mount_samples d =
     (let ls = [(''mount'', dk_Mount d)] in
      [(''os.disk.total_bytes'', of_int (dk_TotalBytes d), ls), (''os.disk.used_bytes'', of_int (dk_UsedBytes d), ls),
       (''os.disk.free_bytes'', of_int (dk_FreeBytes d), ls), (''os.disk.inodes_total'', of_int (dk_InodesTotal d), ls),
       (''os.disk.inodes_used'', of_int (dk_InodesUsed d), ls)])"

definition device_samples :: "string \<Rightarrow> DiskStatInfo \<Rightarrow> sample list" where
  "device_samples device i =
     (let ls = [(''device'', device)] in
      [(''os.disk.reads_completed'', of_int (di_ReadsCompleted i), ls), (''os.disk.writes_completed'', of_int (di_WritesCompleted i), ls),
       (''os.disk.read_bytes_per_sec'', of_int (di_ReadKB i) * 1024, ls), (''os.disk.write_bytes_per_sec'', of_int (di_WriteKB i) * 1024, ls),
       (''os.disk.read_await_ms'', di_ReadAwaitMs i, ls), (''os.disk.write_await_ms'', di_WriteAwaitMs i, ls), (''os.disk.util_pct'', di_UtilPct i, ls)])"

definition snapshotToMetricPoints :: "OSSnapshot option \<Rightarrow> string \<Rightarrow> time \<Rightarrow> MetricPoint list" where
  "snapshotToMetricPoints snap instanceID clk =
     (case snap of None \<Rightarrow> []
      | Some s \<Rightarrow>
          let now = (if IsZero (os_CollectedAt s) then clk else os_CollectedAt s) in
          map (os_point instanceID now)
            (cpu_samples (os_CPU s) @ memory_samples (os_Memory s) @ load_samples (os_LoadAvg s) @ [(''os.uptime_seconds'', os_UptimeSecs s, [])] @
             concat (map mount_samples (os_Disks s)) @ concat (map (\<lambda>d. device_samples (di_Device d) d) (os_DiskStats s))))"

datatype OSCollectorSource = OSSourceNone | OSSourceLocal | OSSourceAgent

text \<open>\<open>scraped\<close> is the answer of the agent (\<open>None\<close> an error), \<open>here\<close> the local snapshot, which never fails.\<close>

definition os_Collect :: "OSCollectorSource \<Rightarrow> string \<Rightarrow> time \<Rightarrow> OSSnapshot option \<Rightarrow> OSSnapshot \<Rightarrow> MetricPoint list option" where
  "os_Collect source instanceID clk scraped here =
     (case source of OSSourceNone \<Rightarrow> Some []
      | OSSourceAgent \<Rightarrow> map_option (\<lambda>s. snapshotToMetricPoints (Some s) instanceID clk) scraped
      | OSSourceLocal \<Rightarrow> Some (snapshotToMetricPoints (Some here) instanceID clk))"

subsection \<open>Through the database\<close>

record OSSQLCollector =
  oc_instanceID :: string
  oc_prevCPU :: "CPURaw option"
  oc_prevDisk :: disk_state

definition all_in :: "(char \<Rightarrow> bool) \<Rightarrow> string \<Rightarrow> bool" where
  "all_in p s \<longleftrightarrow> s \<noteq> '''' \<and> list_all p s"

definition is_lower :: "char \<Rightarrow> bool" where
  "is_lower c \<longleftrightarrow> CHR ''a'' \<le> c \<and> c \<le> CHR ''z''"

text \<open>The regular expression of device names: \<open>sd[a-z]+\<close>, \<open>vd[a-z]+\<close>, \<open>xvd[a-z]+\<close>, or \<open>nvme\<close>, digits, \<open>n\<close>, digits.\<close>

definition devicePattern :: "string \<Rightarrow> bool" where
  "devicePattern s \<longleftrightarrow>
     (HasPrefix s ''sd'' \<and> all_in is_lower (drop 2 s)) \<or> (HasPrefix s ''vd'' \<and> all_in is_lower (drop 2 s)) \<or>
     (HasPrefix s ''xvd'' \<and> all_in is_lower (drop 3 s)) \<or>
     (HasPrefix s ''nvme'' \<and> (let r = drop 4 s; ctrl = takeWhile is_digit r; ns = dropWhile is_digit r in
        ctrl \<noteq> '''' \<and> HasPrefix ns ''n'' \<and> all_in is_digit (drop 1 ns)))"

definition readMeminfo :: "string option \<Rightarrow> sample list" where
  "readMeminfo file = (case file of None \<Rightarrow> [] | Some d \<Rightarrow> memory_samples (ParseMeminfo d))"

definition readUptime :: "string option \<Rightarrow> sample list" where
  "readUptime file = (case Option.bind file uptime_of of None \<Rightarrow> [] | Some u \<Rightarrow> [(''os.uptime_seconds'', u, [])])"

definition readLoadAvg :: "string option \<Rightarrow> sample list" where
  "readLoadAvg file = (case Option.bind file load_of of None \<Rightarrow> [] | Some l \<Rightarrow> load_samples l)"

definition readCPUStat :: "string option \<Rightarrow> OSSQLCollector \<Rightarrow> sample list \<times> OSSQLCollector" where
  "readCPUStat file c =
     (case Option.bind file ParseCPURaw of None \<Rightarrow> ([], c)
      | Some cur \<Rightarrow>
          ((case oc_prevCPU c of None \<Rightarrow> [] | Some prev \<Rightarrow> cpu_samples (CPUDelta prev cur 0)), c\<lparr>oc_prevCPU := Some cur\<rparr>))"

definition readDiskStats :: "string option \<Rightarrow> time \<Rightarrow> OSSQLCollector \<Rightarrow> sample list \<times> OSSQLCollector" where
  "readDiskStats file now c =
     (case file of None \<Rightarrow> ([], c)
      | Some d \<Rightarrow>
          let current = filter (\<lambda>(name, raw). devicePattern name) (ParseDiskStats d) in
          ((case oc_prevDisk c of None \<Rightarrow> []
            | Some (prev, prevTime) \<Rightarrow> concat (map (\<lambda>(name, i). device_samples name i) (disk_deltas prev (interval_ms now prevTime) current))),
           c\<lparr>oc_prevDisk := Some (current, now)\<rparr>))"

text \<open>\<open>clk\<close> reads the clock of the point at a position of the result; \<open>now\<close> is the reading of the disk statistics.\<close>

definition os_sql_Collect :: "(string \<Rightarrow> string option) \<Rightarrow> time \<Rightarrow> (nat \<Rightarrow> time) \<Rightarrow> OSSQLCollector \<Rightarrow> MetricPoint list \<times> OSSQLCollector" where
  "os_sql_Collect file now clk c =
     (let (cpu, c1) = readCPUStat (file ''/proc/stat'') c;
          (disk, c2) = readDiskStats (file ''/proc/diskstats'') now c1;
          ss = readMeminfo (file ''/proc/meminfo'') @ readUptime (file ''/proc/uptime'') @ readLoadAvg (file ''/proc/loadavg'') @ cpu @ disk
      in (map (\<lambda>(i, s). os_point (oc_instanceID c) (clk i) s) (enumerate 0 ss), c2))"

subsection \<open>Laws\<close>

text \<open>Counters that only grow, without overflow.\<close>

definition cpu_grows :: "CPURaw \<Rightarrow> CPURaw \<Rightarrow> bool" where
  "cpu_grows a b \<longleftrightarrow> list_all (\<lambda>f. 0 \<le> f a \<and> f a \<le> f b \<and> f b < 2 ^ 59) [cr_User, cr_Nice, cr_System, cr_Idle, cr_IOWait, cr_IRQ, cr_SoftIRQ, cr_Steal]"

definition cpu_sum :: "CPUInfo \<Rightarrow> float64" where
  "cpu_sum i = ci_UserPct i + ci_SystemPct i + ci_IOWaitPct i + ci_IdlePct i"

lemma wrap_small: "- (2 ^ 63) \<le> x \<Longrightarrow> x < 2 ^ 63 \<Longrightarrow> wrap64 x = x"
  by (rule wrap64_id) (simp add: in_int64_def)

text \<open>The four shares of the CPU time are percentages that add up to one hundred: whenever the kernel's counters
  grew, each share lies between 0 and 100 and nothing is counted twice or left out; without progress all are zero.\<close>

theorem cpu_shares_partition:
  assumes "cpu_grows prev cur" "i = CPUDelta prev cur n"
  shows "0 \<le> ci_UserPct i \<and> 0 \<le> ci_SystemPct i \<and> 0 \<le> ci_IOWaitPct i \<and> 0 \<le> ci_IdlePct i \<and>
    cpu_sum i = (if cpu_Total prev < cpu_Total cur then 100 else 0)"
proof -
  define us sys iow idl where "us = cr_User cur + cr_Nice cur - (cr_User prev + cr_Nice prev)"
    and "sys = cr_System cur + cr_IRQ cur + cr_SoftIRQ cur + cr_Steal cur - (cr_System prev + cr_IRQ prev + cr_SoftIRQ prev + cr_Steal prev)"
    and "iow = cr_IOWait cur - cr_IOWait prev" and "idl = cr_Idle cur - cr_Idle prev"
  have g: "0 \<le> f prev" "f prev \<le> f cur" "f cur < 2 ^ 59"
    if "f \<in> {cr_User, cr_Nice, cr_System, cr_Idle, cr_IOWait, cr_IRQ, cr_SoftIRQ, cr_Steal}" for f
    using assms(1) that by (auto simp: cpu_grows_def)
  note g = g [of cr_User, simplified] g [of cr_Nice, simplified] g [of cr_System, simplified] g [of cr_Idle, simplified]
    g [of cr_IOWait, simplified] g [of cr_IRQ, simplified] g [of cr_SoftIRQ, simplified] g [of cr_Steal, simplified]
  have nn: "0 \<le> us" "0 \<le> sys" "0 \<le> iow" "0 \<le> idl" using g by (simp_all add: us_def sys_def iow_def idl_def)
  have w: "wrap64 us = us" "wrap64 sys = sys" "wrap64 iow = iow" "wrap64 idl = idl"
    using g by (simp_all add: wrap_small us_def sys_def iow_def idl_def)
  have tot: "cpu_Total cur - cpu_Total prev = us + sys + iow + idl" "wrap64 (cpu_Total cur - cpu_Total prev) = us + sys + iow + idl"
    using g by (simp_all add: cpu_Total_def wrap_small us_def sys_def iow_def idl_def)
  have i: "i = (let t = us + sys + iow + idl; p = (\<lambda>x. of_int x / of_int t * 100) in
      if t \<le> 0 then \<lparr>ci_UserPct = 0, ci_SystemPct = 0, ci_IOWaitPct = 0, ci_IdlePct = 0, ci_NumCPUs = n\<rparr>
      else \<lparr>ci_UserPct = p us, ci_SystemPct = p sys, ci_IOWaitPct = p iow, ci_IdlePct = p idl, ci_NumCPUs = n\<rparr>)"
    unfolding assms(2) CPUDelta_def Let_def tot(2) us_def [symmetric] sys_def [symmetric] iow_def [symmetric] idl_def [symmetric] w by (rule refl)
  have lt: "cpu_Total prev < cpu_Total cur \<longleftrightarrow> 0 < us + sys + iow + idl" using tot(1) by linarith
  show ?thesis
  proof (cases "0 < us + sys + iow + idl")
    case True
    then have p: "0 < real_of_int (us + sys + iow + idl)" by (simp only: of_int_0_less_iff)
    have "real_of_int us / t * 100 + of_int sys / t * 100 + of_int iow / t * 100 + of_int idl / t * 100 =
        of_int (us + sys + iow + idl) / t * 100" for t by (simp add: add_divide_distrib distrib_right)
    then have "cpu_sum i = 100" using True p by (simp add: cpu_sum_def i Let_def del: of_int_add)
    then show ?thesis using True nn p lt by (simp add: i Let_def del: of_int_add)
  next
    case False
    then show ?thesis using lt by (simp add: i cpu_sum_def)
  qed
qed

text \<open>The aggregate line of \<open>/proc/stat\<close> as the kernel prints it.\<close>

definition num :: "int \<Rightarrow> string" where
  "num n = nat_digits (nat n)"

fun words :: "string list \<Rightarrow> string" where
  "words [] = ''''"
| "words [w] = w"
| "words (w # ws) = w @ CHR '' '' # words ws"

definition cpu_counters :: "CPURaw \<Rightarrow> int list" where
  "cpu_counters c = [cr_User c, cr_Nice c, cr_System c, cr_Idle c, cr_IOWait c, cr_IRQ c, cr_SoftIRQ c, cr_Steal c]"

definition cpu_line :: "CPURaw \<Rightarrow> int list \<Rightarrow> string" where
  "cpu_line c guest = ''cpu  '' @ words (map num (cpu_counters c @ guest))"

lemma Fields_words: "\<forall>w \<in> set ws. w \<noteq> [] \<and> (\<forall>c \<in> set w. \<not> is_space c) \<Longrightarrow> Fields (words ws) = ws"
proof (induction ws rule: words.induct)
  case 1
  then show ?case by (simp add: Fields_def)
next
  case (2 w)
  then show ?case by (simp add: Fields_word)
next
  case (3 w v ws)
  then show ?case by (simp add: Fields_cons)
qed

lemma words_no_newline: "\<forall>w \<in> set ws. newline \<notin> set w \<Longrightarrow> newline \<notin> set (words ws)"
  by (induction ws rule: words.induct) auto

lemma num_word: "num n \<noteq> []" "\<forall>c \<in> set (num n). \<not> is_space c" "newline \<notin> set (num n)"
  unfolding num_def using nat_digits_word [of "nat n"] by auto

lemma num_value: "0 \<le> n \<Longrightarrow> n < 2 ^ 63 \<Longrightarrow> ParseIntValue (num n) = n"
  unfolding num_def by (subst ParseIntValue_digits) auto

text \<open>Parsing reads back what the kernel prints: the first line of \<open>/proc/stat\<close>, printed from eight counters and
  any number of further ones, is parsed to exactly these counters, whatever lines follow.\<close>

theorem proc_stat_round_trip:
  assumes "list_all (\<lambda>n. 0 \<le> n \<and> n < 2 ^ 63) (cpu_counters c)"
  shows "ParseCPURaw (cpu_line c guest @ newline # rest) = Some c"
proof -
  let ?ws = "map num (cpu_counters c @ guest)"
  have "newline \<notin> set (words ?ws)" by (rule words_no_newline) (auto simp: num_word)
  then have nl: "newline \<notin> set (cpu_line c guest)" by (simp add: cpu_line_def)
  have "Fields (cpu_line c guest) = Fields (''cpu'' @ CHR '' '' # (CHR '' '' # words ?ws))" by (simp add: cpu_line_def)
  also have "\<dots> = ''cpu'' # Fields (CHR '' '' # words ?ws)" by (rule Fields_cons) (auto simp: is_space_def)
  also have "\<dots> = ''cpu'' # ?ws" unfolding Fields_space by (subst Fields_words) (use num_word in auto)
  finally have f: "Fields (cpu_line c guest) = ''cpu'' # ?ws" .
  have v: "ParseIntValue (num n) = n" if "n \<in> set (cpu_counters c)" for n
    using assms that by (auto simp: list_all_iff intro: num_value)
  have "HasPrefix (cpu_line c guest) ''cpu ''" by (simp add: cpu_line_def HasPrefix_def)
  then have "ParseCPURaw (cpu_line c guest @ newline # rest) = cpu_fields (''cpu'' # ?ws)" by (simp add: ParseCPURaw_def Split_sep [OF nl] f)
  also have "\<dots> = Some c" using v by (simp add: cpu_fields_def cpu_counters_def)
  finally show ?thesis .
qed

text \<open>The points named \<open>os.disk.read_bytes_per_sec\<close> hold the bytes read since the last collection, however long ago that was.\<close>

lemma disk_rates_per_interval:
  "device_samples dev (DiskStatsDelta prev cur ms) ! 2 = (''os.disk.read_bytes_per_sec'', of_int (sectors_kb (wrap64 (ds_SectorsRead cur - ds_SectorsRead prev))) * 1024, [(''device'', dev)])"
  by (simp add: device_samples_def DiskStatsDelta_def Let_def)

definition demo_cpu :: "int \<Rightarrow> CPURaw" where
  "demo_cpu n = \<lparr>cr_User = n, cr_Nice = 1, cr_System = 2 * n, cr_Idle = 5 * n, cr_IOWait = 0, cr_IRQ = 1, cr_SoftIRQ = 1, cr_Steal = 0\<rparr>"

theorem cpu_shares_partition_witness: "cpu_sum (CPUDelta (demo_cpu 100) (demo_cpu 200) 4) = 100"
proof -
  have "cpu_grows (demo_cpu 100) (demo_cpu 200)" by (simp add: cpu_grows_def demo_cpu_def)
  moreover have "cpu_Total (demo_cpu 100) < cpu_Total (demo_cpu 200)" by (simp add: cpu_Total_def demo_cpu_def wrap_small)
  ultimately show ?thesis using cpu_shares_partition [OF _ refl, of "demo_cpu 100" "demo_cpu 200" 4] by simp
qed

theorem proc_stat_round_trip_witness: "ParseCPURaw (cpu_line (demo_cpu 100) [0, 0] @ newline # ''cpu0 1 2 3'') = Some (demo_cpu 100)"
  by (rule proc_stat_round_trip) (simp add: cpu_counters_def demo_cpu_def)

end
