(* ===== verification/CollectorDB.thy ===== *)
theory CollectorDB
  imports CollectorStats
begin

section \<open>Collectors of a database (\<open>internal/collector/database.go\<close>)\<close>

text \<open>
  Seventeen sub-collectors run over each database; one that fails is counted and the others still contribute.
  The points they make carry the label \<open>database\<close> and no instance, which the runner fills in.
\<close>

definition with_database :: "string \<Rightarrow> labels \<Rightarrow> labels" where
  "with_database db extra = fold (\<lambda>(k, v) m. map_put k v m) extra [(''database'', db)]"

definition dbPoint :: "time \<Rightarrow> string \<Rightarrow> float64 \<Rightarrow> string \<Rightarrow> labels \<Rightarrow> MetricPoint" where
  "dbPoint now metric v db extra =
     \<lparr>mp_InstanceID = '''', mp_Metric = metricPrefix @ ''.'' @ metric, mp_Value = v, mp_Labels = with_database db extra, mp_Timestamp = now\<rparr>"

subsection \<open>Sub-collectors\<close>

definition collectLargeObjects :: "int option \<Rightarrow> sample list option" where
  "collectLargeObjects = map_option (\<lambda>n. [(''db.large_objects.count'', of_int n, [])])"

definition collectFunctionStats :: "string option \<Rightarrow> (string \<times> string \<times> int \<times> float64 \<times> float64) answer \<Rightarrow> sample list option" where
  "collectFunctionStats trackFn a =
     (case trackFn of None \<Rightarrow> None
      | Some t \<Rightarrow>
          if t = ''none'' then Some []
          else per_row (\<lambda>(schema, funcName, calls, totalTime, selfTime).
            let ls = [(''schema'', schema), (''function'', funcName)] in
            [(''db.functions.calls'', of_int calls, ls), (''db.functions.total_time_ms'', totalTime, ls), (''db.functions.self_time_ms'', selfTime, ls)]) a)"

text \<open>A row of \<open>pg_sequences\<close>; a sequence that was never used has no last value. The percentage is rounded to two digits by the statement.\<close>

definition seq_pct :: "int option \<Rightarrow> int \<Rightarrow> float64" where
  "seq_pct lastVal maxVal = (case lastVal of None \<Rightarrow> 0 | Some l \<Rightarrow> if maxVal > 0 then of_int (round (of_int l / of_int maxVal * 10000 :: real)) / 100 else 0)"

definition collectSequences :: "(string \<times> string \<times> int option \<times> int) answer \<Rightarrow> sample list option" where
  "collectSequences =
     per_row (\<lambda>(schema, seqName, lastVal, maxVal).
       let ls = [(''schema'', schema), (''sequence'', seqName)] in
       (''db.sequences.pct_used'', seq_pct lastVal maxVal, ls) #
       (case lastVal of None \<Rightarrow> [] | Some l \<Rightarrow> [(''db.sequences.last_value'', of_int l, ls)]))"

definition collectSchemaSizes :: "(string \<times> int) answer \<Rightarrow> sample list option" where
  "collectSchemaSizes = per_row (\<lambda>(schema, bytes). [(''db.schema.size_bytes'', of_int bytes, [(''schema'', schema)])])"

definition table_labels :: "string \<Rightarrow> string \<Rightarrow> labels" where
  "table_labels schema tbl = [(''schema'', schema), (''table'', tbl)]"

definition collectUnloggedObjects :: "(string \<times> string \<times> int) answer \<Rightarrow> sample list option" where
  "collectUnloggedObjects = per_row (\<lambda>(schema, tbl, bytes). [(''db.unlogged.size_bytes'', of_int bytes, table_labels schema tbl)])"

definition collectTableSizes :: "(string \<times> string \<times> int \<times> int \<times> int \<times> int \<times> int) answer \<Rightarrow> sample list option" where
  "collectTableSizes =
     per_row (\<lambda>(schema, tbl, tableBytes, indexBytes, toastBytes, totalBytes, liveTup).
       let ls = table_labels schema tbl in
       [(''db.table.data_bytes'', of_int tableBytes, ls), (''db.table.index_bytes'', of_int indexBytes, ls), (''db.table.toast_bytes'', of_int toastBytes, ls),
        (''db.table.total_bytes'', of_int totalBytes, ls), (''db.table.live_tuples'', of_int liveTup, ls)])"

text \<open>A row of the bloat estimate: pages over estimated pages, for the table and for one of its indexes if it has any. The statement lists
  ratios above one and a half only.\<close>

record bloat_row =
  bw_schema :: string
  bw_table :: string
  bw_wastedBytes :: int
  bw_tbloat :: float64
  bw_iname :: "string option"
  bw_wastedIBytes :: "float64 option"
  bw_ibloat :: "float64 option"

definition bloat_listed :: "bloat_row \<Rightarrow> bool" where
  "bloat_listed r \<longleftrightarrow> bw_tbloat r > 1.5 \<or> (case bw_ibloat r of None \<Rightarrow> False | Some b \<Rightarrow> b > 1.5)"

definition or_zero :: "float64 option \<Rightarrow> float64" where
  "or_zero x = (case x of None \<Rightarrow> 0 | Some v \<Rightarrow> v)"

definition collectBloat :: "bloat_row answer \<Rightarrow> sample list option" where
  "collectBloat =
     per_row (\<lambda>r.
       let ls = table_labels (bw_schema r) (bw_table r) in
       [(''db.bloat.table_wasted_bytes'', of_int (bw_wastedBytes r), ls), (''db.bloat.table_ratio'', bw_tbloat r, ls)] @
       (case bw_iname r of None \<Rightarrow> []
        | Some iname \<Rightarrow>
            let idx = ls @ [(''index'', iname)] in
            [(''db.bloat.index_wasted_bytes'', or_zero (bw_wastedIBytes r), idx), (''db.bloat.index_ratio'', or_zero (bw_ibloat r), idx)]))"

definition collectCatalogSizes :: "(string \<times> int) answer \<Rightarrow> sample list option" where
  "collectCatalogSizes = per_row (\<lambda>(relname, bytes). [(''db.catalog.size_bytes'', of_int bytes, [(''table'', relname)])])"

definition collectTableCacheHit :: "(string \<times> string \<times> int \<times> int \<times> float64 \<times> int \<times> int) answer \<Rightarrow> sample list option" where
  "collectTableCacheHit =
     per_row (\<lambda>(schema, tbl, heapRead, heapHit, hitPct, idxRead, idxHit).
       let ls = table_labels schema tbl in
       [(''db.table.cache_hit_pct'', hitPct, ls), (''db.table.heap_blks_read'', of_int heapRead, ls), (''db.table.heap_blks_hit'', of_int heapHit, ls),
        (''db.table.idx_blks_read'', of_int idxRead, ls), (''db.table.idx_blks_hit'', of_int idxHit, ls)])"

definition collectAutovacuumOptions :: "(string \<times> string \<times> string \<times> string \<times> string \<times> string \<times> string) answer \<Rightarrow> sample list option" where
  "collectAutovacuumOptions =
     per_row (\<lambda>(schema, tbl, vacThreshold, vacScale, analyzeThreshold, analyzeScale, avEnabled).
       [(''db.autovacuum.enabled'', flag (avEnabled = ''true''),
         table_labels schema tbl @ [(''vac_threshold'', vacThreshold), (''vac_scale_factor'', vacScale), (''analyze_threshold'', analyzeThreshold),
           (''analyze_scale'', analyzeScale), (''autovacuum_enabled'', avEnabled)])])"

record vacuum_row =
  vn_schema :: string
  vn_table :: string
  vn_deadTup :: int
  vn_liveTup :: int
  vn_deadPct :: float64
  vn_modSinceAnalyze :: int
  vn_autoVacAgeSec :: "int option"
  vn_autoAnalyzeAgeSec :: "int option"

definition collectVacuumNeed :: "vacuum_row answer \<Rightarrow> sample list option" where
  "collectVacuumNeed =
     per_row (\<lambda>r.
       let ls = table_labels (vn_schema r) (vn_table r) in
       [(''db.vacuum.dead_tuples'', of_int (vn_deadTup r), ls), (''db.vacuum.live_tuples'', of_int (vn_liveTup r), ls),
        (''db.vacuum.dead_pct'', vn_deadPct r, ls), (''db.vacuum.mod_since_analyze'', of_int (vn_modSinceAnalyze r), ls)] @
       (case vn_autoVacAgeSec r of None \<Rightarrow> [] | Some s \<Rightarrow> [(''db.vacuum.autovacuum_age_sec'', of_int s, ls)]) @
       (case vn_autoAnalyzeAgeSec r of None \<Rightarrow> [] | Some s \<Rightarrow> [(''db.vacuum.autoanalyze_age_sec'', of_int s, ls)]))"

definition collectIndexUsage :: "(string \<times> string \<times> string \<times> int \<times> int \<times> int \<times> int) answer \<Rightarrow> sample list option" where
  "collectIndexUsage =
     per_row (\<lambda>(schema, tbl, idx, scans, tupRead, tupFetch, bytes).
       let ls = table_labels schema tbl @ [(''index'', idx)] in
       [(''db.index.scans'', of_int scans, ls), (''db.index.tuples_read'', of_int tupRead, ls), (''db.index.tuples_fetched'', of_int tupFetch, ls),
        (''db.index.size_bytes'', of_int bytes, ls)])"

definition collectUnusedIndexes :: "(string \<times> string \<times> string \<times> int \<times> int) answer \<Rightarrow> sample list option" where
  "collectUnusedIndexes =
     per_row (\<lambda>(schema, tbl, idx, bytes, scans).
       let ls = table_labels schema tbl @ [(''index'', idx)] in
       [(''db.index.unused_size_bytes'', of_int bytes, ls), (''db.index.unused_scans'', of_int scans, ls)])"

definition collectToastSizes :: "(string \<times> string \<times> int) answer \<Rightarrow> sample list option" where
  "collectToastSizes = per_row (\<lambda>(schema, tbl, bytes). [(''db.toast.size_bytes'', of_int bytes, table_labels schema tbl)])"

definition collectPartitions :: "(string \<times> string \<times> string \<times> string \<times> int) answer \<Rightarrow> sample list option" where
  "collectPartitions =
     per_row (\<lambda>(parentSchema, parentTable, childSchema, childTable, bytes).
       [(''db.partition.child_bytes'', of_int bytes,
         [(''parent_schema'', parentSchema), (''parent_table'', parentTable), (''child_schema'', childSchema), (''child_table'', childTable)])])"

text \<open>The statement sums the identifiers of the large objects where it means to count them.\<close>

definition collectLargeObjectSizes :: "(int list \<times> int) option \<Rightarrow> sample list option" where
  "collectLargeObjectSizes =
     map_option (\<lambda>(oids, totalBytes). [(''db.large_objects.total_count'', of_int (sum_list oids), []), (''db.large_objects.total_bytes'', of_int totalBytes, [])])"

text \<open>Every failure of this one reports zero.\<close>

definition collectLogicalReplication :: "unit answer \<Rightarrow> sample list option" where
  "collectLogicalReplication a =
     Some [(''db.logical_replication.pending_sync_tables'', case read_rows a of None \<Rightarrow> 0 | Some rs \<Rightarrow> real (length rs), [])]"

subsection \<open>The collector\<close>

record db_answers =
  da_timeout :: bool
  da_largeObjects :: "int option"
  da_trackFunctions :: "string option"
  da_functions :: "(string \<times> string \<times> int \<times> float64 \<times> float64) answer"
  da_sequences :: "(string \<times> string \<times> int option \<times> int) answer"
  da_schemas :: "(string \<times> int) answer"
  da_unlogged :: "(string \<times> string \<times> int) answer"
  da_tables :: "(string \<times> string \<times> int \<times> int \<times> int \<times> int \<times> int) answer"
  da_bloat :: "bloat_row answer"
  da_catalog :: "(string \<times> int) answer"
  da_cache :: "(string \<times> string \<times> int \<times> int \<times> float64 \<times> int \<times> int) answer"
  da_options :: "(string \<times> string \<times> string \<times> string \<times> string \<times> string \<times> string) answer"
  da_vacuum :: "vacuum_row answer"
  da_indexes :: "(string \<times> string \<times> string \<times> int \<times> int \<times> int \<times> int) answer"
  da_unused :: "(string \<times> string \<times> string \<times> int \<times> int) answer"
  da_toast :: "(string \<times> string \<times> int) answer"
  da_partitions :: "(string \<times> string \<times> string \<times> string \<times> int) answer"
  da_lobs :: "(int list \<times> int) option"
  da_subscriptions :: "unit answer"

definition sub_collectors :: "db_answers \<Rightarrow> sample list option list" where
  "sub_collectors d =
     [collectLargeObjects (da_largeObjects d), collectFunctionStats (da_trackFunctions d) (da_functions d), collectSequences (da_sequences d),
      collectSchemaSizes (da_schemas d), collectUnloggedObjects (da_unlogged d), collectTableSizes (da_tables d), collectBloat (da_bloat d),
      collectCatalogSizes (da_catalog d), collectTableCacheHit (da_cache d), collectAutovacuumOptions (da_options d), collectVacuumNeed (da_vacuum d),
      collectIndexUsage (da_indexes d), collectUnusedIndexes (da_unused d), collectToastSizes (da_toast d), collectPartitions (da_partitions d),
      collectLargeObjectSizes (da_lobs d), collectLogicalReplication (da_subscriptions d)]"

text \<open>The points, and how many sub-collectors failed (an error when not zero; the points are returned with it). \<open>clk\<close> reads the clock of
  the point at a position of the result.\<close>

definition db_emit :: "string \<Rightarrow> (nat \<Rightarrow> time) \<Rightarrow> sample list \<Rightarrow> MetricPoint list" where
  "db_emit db clk ss = map (\<lambda>(i, (metric, v, extra)). dbPoint (clk i) metric v db extra) (enumerate 0 ss)"

definition CollectDB :: "(nat \<Rightarrow> time) \<Rightarrow> string \<Rightarrow> db_answers \<Rightarrow> (MetricPoint list \<times> nat) option" where
  "CollectDB clk db d =
     (if \<not> da_timeout d then None
      else let rs = sub_collectors d in
        Some (db_emit db clk (concat (map (\<lambda>r. case r of None \<Rightarrow> [] | Some ss \<Rightarrow> ss) rs)), length (filter Option.is_none rs)))"

lemma length_db_emit [simp]: "length (db_emit db clk ss) = length ss"
  by (simp add: db_emit_def)

lemma in_db_emit:
  assumes "p \<in> set (db_emit db clk ss)"
  shows "\<exists>i m v ls. (m, v, ls) \<in> set ss \<and> p = dbPoint (clk i) m v db ls"
proof -
  obtain i where "i < length ss" "p = (case ss ! i of (m, v, ls) \<Rightarrow> dbPoint (clk i) m v db ls)"
    using assms by (auto simp: db_emit_def in_set_enumerate_eq)
  then show ?thesis by (metis (no_types, lifting) case_prod_beta' nth_mem prod.collapse)
qed

end
