(* ===== verification/MlCore.thy ===== *)
theory MlCore
  imports AlertModel
begin

section \<open>Statistics and baselines (\<open>internal/ml\<close>)\<close>

text \<open>
  The weighted moving average, the regression line, the seasonal baseline with its ring buffers, and the
  anomaly detector that keeps one baseline per instance and metric. The means and quantiles of the
  statistics library the code uses are the fields of \<open>gonum\<close>. A run-time panic (an index out of range, a
  division by a period of zero) is the value \<open>None\<close>.
\<close>

definition Seconds :: "duration \<Rightarrow> float64" where
  "Seconds d = real_of_int d / real_of_int Second"

subsection \<open>Weighted moving average (\<open>wma.go\<close>)\<close>

record WMAConfig =
  wc_WindowSize :: int
  wc_DecayFactor :: float64

record WMAResult =
  wr_WeightedRate :: float64
  wr_SampleCount :: nat
  wr_StdDev :: float64

definition wma_start :: "int \<Rightarrow> nat \<Rightarrow> nat" where
  "wma_start w n = (if w > 0 \<and> int n > w then n - nat w else 0)"

definition wma_decay :: "float64 \<Rightarrow> float64" where
  "wma_decay d = (if d \<le> 0 \<or> d \<ge> 1 then 0.85 else d)"

definition wma_rate :: "time list \<Rightarrow> float64 list \<Rightarrow> nat \<Rightarrow> float64 option" where
  "wma_rate timestamps values i =
     (let dt = Seconds (time_sub (timestamps ! i) (timestamps ! (i - 1)))
      in if dt \<le> 0 then None else Some ((values ! i - values ! (i - 1)) / dt))"

definition wma_rates :: "nat \<Rightarrow> time list \<Rightarrow> float64 list \<Rightarrow> float64 list" where
  "wma_rates start timestamps values = List.map_filter (wma_rate timestamps values) [max start 1..<length timestamps]"

definition wma_weights :: "float64 \<Rightarrow> nat \<Rightarrow> float64 list" where
  "wma_weights decay n = map (\<lambda>i. decay ^ (n - i - 1)) [0..<n]"

definition weighted_mean :: "float64 list \<Rightarrow> float64 list \<Rightarrow> float64" where
  "weighted_mean ws xs = sum_list (map2 (*) ws xs) / sum_list ws"

definition WeightedMovingAverage :: "WMAConfig \<Rightarrow> time list \<Rightarrow> float64 list \<Rightarrow> WMAResult option" where
  "WeightedMovingAverage cfg timestamps values =
     (let n = length timestamps in
      if n < 2 then None
      else if n \<noteq> length values then None
      else
        let rates = wma_rates (wma_start (wc_WindowSize cfg) n) timestamps values;
            weights = wma_weights (wma_decay (wc_DecayFactor cfg)) (length rates);
            weightedRate = weighted_mean weights rates
        in if rates = [] then Some \<lparr>wr_WeightedRate = 0, wr_SampleCount = n, wr_StdDev = 0\<rparr>
           else Some \<lparr>wr_WeightedRate = weightedRate, wr_SampleCount = n,
                  wr_StdDev = sqrt (weighted_mean weights (map (\<lambda>r. (r - weightedRate) * (r - weightedRate)) rates))\<rparr>)"

subsection \<open>Linear regression (\<open>linear.go\<close>)\<close>

record LinearRegressionResult =
  lr_Slope :: float64
  lr_Intercept :: float64
  lr_RSquared :: float64
  lr_N :: nat

definition squared_error :: "float64 \<Rightarrow> float64 \<Rightarrow> float64 list \<Rightarrow> float64 list \<Rightarrow> float64" where
  "squared_error slope intercept xs ys = sum_list (map2 (\<lambda>x y. (y - (slope * x + intercept)) * (y - (slope * x + intercept))) xs ys)"

definition LinearRegression :: "float64 list \<Rightarrow> float64 list \<Rightarrow> LinearRegressionResult option" where
  "LinearRegression xs ys =
     (let n = length xs in
      if n < 2 then None
      else if n \<noteq> length ys then None
      else
        let sumX = sum_list xs; sumY = sum_list ys; sumXY = sum_list (map2 (*) xs ys); sumX2 = sum_list (map (\<lambda>x. x * x) xs);
            nf = real n; denom = nf * sumX2 - sumX * sumX
        in if \<bar>denom\<bar> < 1 / 10 ^ 15 then Some \<lparr>lr_Slope = 0, lr_Intercept = sumY / nf, lr_RSquared = 0, lr_N = n\<rparr>
           else
             let slope = (nf * sumXY - sumX * sumY) / denom; intercept = (sumY - slope * sumX) / nf; meanY = sumY / nf;
                 ssRes = squared_error slope intercept xs ys; ssTot = sum_list (map (\<lambda>y. (y - meanY) * (y - meanY)) ys)
             in Some \<lparr>lr_Slope = slope, lr_Intercept = intercept, lr_RSquared = (if ssTot > 1 / 10 ^ 15 then 1 - ssRes / ssTot else 0), lr_N = n\<rparr>)"

subsection \<open>The seasonal baseline (\<open>baseline.go\<close>)\<close>

record gonum =
  gn_Mean :: "float64 list \<Rightarrow> float64"
  gn_StdDev :: "float64 list \<Rightarrow> float64"
  gn_Quantile :: "float64 \<Rightarrow> float64 list \<Rightarrow> float64"

record STLBaseline =
  bl_MetricKey :: string
  bl_Period :: nat
  bl_windowSize :: nat
  bl_ring :: "float64 list"
  bl_rHead :: nat
  bl_rCount :: nat
  bl_residuals :: "float64 list"
  bl_resHead :: nat
  bl_resCount :: nat
  bl_ewma :: float64
  bl_ewmaAlpha :: float64
  bl_seasonal :: "float64 list"
  bl_seasonN :: "nat list"
  bl_totalSeen :: nat
  bl_sumAll :: float64
  bl_trendHistory :: "float64 \<times> float64"
  bl_seasonIdx :: nat

text \<open>\<open>make\<close> panics on a negative length.\<close>

definition NewSTLBaseline :: "string \<Rightarrow> int \<Rightarrow> STLBaseline option" where
  "NewSTLBaseline key period =
     (if period < 0 then None
      else let sz = max (3 * nat period) 1000 in
        Some \<lparr>bl_MetricKey = key, bl_Period = nat period, bl_windowSize = sz, bl_ring = replicate sz 0, bl_rHead = 0, bl_rCount = 0,
              bl_residuals = replicate sz 0, bl_resHead = 0, bl_resCount = 0, bl_ewma = 0, bl_ewmaAlpha = 2 / real (sz + 1),
              bl_seasonal = replicate (nat period) 0, bl_seasonN = replicate (nat period) 0, bl_totalSeen = 0, bl_sumAll = 0,
              bl_trendHistory = (0, 0), bl_seasonIdx = 0\<rparr>)"

text \<open>Writing at the head of a ring buffer of the given size.\<close>

definition ring_put :: "float64 \<Rightarrow> nat \<Rightarrow> float64 list \<Rightarrow> float64 list" where
  "ring_put x head buf = buf[head := x]"

definition ring_head :: "nat \<Rightarrow> nat \<Rightarrow> nat" where
  "ring_head sz head = (head + 1) mod sz"

definition ring_count :: "nat \<Rightarrow> nat \<Rightarrow> nat" where
  "ring_count sz k = (if k < sz then k + 1 else k)"

text \<open>No index of \<open>Update\<close> is out of range and no divisor is zero.\<close>

definition update_safe :: "STLBaseline \<Rightarrow> bool" where
  "update_safe b \<longleftrightarrow> bl_Period b \<noteq> 0 \<and> bl_totalSeen b mod bl_Period b < length (bl_seasonal b) \<and>
     bl_totalSeen b mod bl_Period b < length (bl_seasonN b) \<and> bl_resHead b < length (bl_residuals b) \<and> bl_rHead b < length (bl_ring b) \<and>
     bl_windowSize b \<noteq> 0"

definition new_ewma :: "STLBaseline \<Rightarrow> float64 \<Rightarrow> float64" where
  "new_ewma b value = (if bl_totalSeen b = 0 then value else bl_ewmaAlpha b * value + (1 - bl_ewmaAlpha b) * bl_ewma b)"

definition new_season :: "STLBaseline \<Rightarrow> float64 \<Rightarrow> float64" where
  "new_season b value =
     (let bucket = bl_totalSeen b mod bl_Period b; n = real (bl_seasonN b ! bucket + 1) in (bl_seasonal b ! bucket * (n - 1) + value) / n)"

definition new_residual :: "STLBaseline \<Rightarrow> float64 \<Rightarrow> float64" where
  "new_residual b value =
     (let overallMean = (bl_sumAll b + value) / real (bl_totalSeen b + 1) in value - new_ewma b value - (new_season b value - overallMean))"

definition Update :: "STLBaseline \<Rightarrow> float64 \<Rightarrow> STLBaseline option" where
  "Update b value =
     (if \<not> update_safe b then None
      else
        let bucket = bl_totalSeen b mod bl_Period b; sz = bl_windowSize b in
        Some (b\<lparr>bl_ewma := new_ewma b value, bl_trendHistory := (snd (bl_trendHistory b), new_ewma b value),
                bl_seasonal := (bl_seasonal b)[bucket := new_season b value], bl_seasonN := (bl_seasonN b)[bucket := bl_seasonN b ! bucket + 1],
                bl_seasonIdx := bucket, bl_sumAll := bl_sumAll b + value, bl_totalSeen := bl_totalSeen b + 1,
                bl_residuals := ring_put (new_residual b value) (bl_resHead b) (bl_residuals b),
                bl_resHead := ring_head sz (bl_resHead b), bl_resCount := ring_count sz (bl_resCount b),
                bl_ring := ring_put value (bl_rHead b) (bl_ring b), bl_rHead := ring_head sz (bl_rHead b), bl_rCount := ring_count sz (bl_rCount b)\<rparr>))"

text \<open>The slices of the full buffer: from the head to the end, then from the start to the head.\<close>

definition residualSlice :: "STLBaseline \<Rightarrow> float64 list" where
  "residualSlice b =
     (if bl_resCount b < bl_windowSize b then take (bl_resCount b) (bl_residuals b)
      else drop (bl_resHead b) (bl_residuals b) @ take (bl_resHead b) (bl_residuals b))"

definition Ready :: "STLBaseline \<Rightarrow> bool" where
  "Ready b \<longleftrightarrow> bl_resCount b \<ge> bl_Period b * 2"

definition score_residual :: "STLBaseline \<Rightarrow> float64 \<Rightarrow> float64" where
  "score_residual b value =
     (let bucket = bl_totalSeen b mod bl_Period b; overallMean = bl_sumAll b / real (bl_totalSeen b)
      in value - bl_ewma b - (bl_seasonal b ! bucket - overallMean))"

definition Score :: "gonum \<Rightarrow> STLBaseline \<Rightarrow> float64 \<Rightarrow> (float64 \<times> bool) option" where
  "Score gn b value =
     (if bl_resCount b < bl_Period b * 2 then Some (0, False)
      else if bl_Period b = 0 \<or> bl_totalSeen b mod bl_Period b \<ge> length (bl_seasonal b) then None
      else
        let residual = score_residual b value; resSlice = residualSlice b; mean = gn_Mean gn resSlice; stddev = gn_StdDev gn resSlice;
            zScore = (if stddev > 1 / 10 ^ 10 then (residual - mean) / stddev else 0);
            sorted = sort resSlice; q1 = gn_Quantile gn 0.25 sorted; q3 = gn_Quantile gn 0.75 sorted; iqr = q3 - q1
        in Some (zScore, residual < q1 - 1.5 * iqr \<or> residual > q3 + 1.5 * iqr))"

definition residualStddev :: "float64 list \<Rightarrow> float64" where
  "residualStddev vals =
     (let n = length vals in
      if n < 2 then 0
      else let mean = sum_list vals / real n in sqrt (sum_list (map (\<lambda>v. (v - mean) * (v - mean)) vals) / real (n - 1)))"

record MlForecastPoint =
  mf_Offset :: int
  mf_PredictedAt :: time
  mf_Value :: float64
  mf_Lower :: float64
  mf_Upper :: float64

definition forecast_point :: "STLBaseline \<Rightarrow> float64 \<Rightarrow> float64 \<Rightarrow> duration \<Rightarrow> time \<Rightarrow> nat \<Rightarrow> MlForecastPoint" where
  "forecast_point b slope margin interval now k =
     (let val = bl_ewma b + slope * real k + bl_seasonal b ! ((bl_seasonIdx b + k) mod bl_Period b)
      in \<lparr>mf_Offset = int k, mf_PredictedAt = now + int k * interval, mf_Value = val, mf_Lower = val - margin, mf_Upper = val + margin\<rparr>)"

definition stl_Forecast :: "STLBaseline \<Rightarrow> nat \<Rightarrow> float64 \<Rightarrow> duration \<Rightarrow> time \<Rightarrow> MlForecastPoint list option" where
  "stl_Forecast b n z interval now =
     (if bl_totalSeen b < bl_Period b \<or> bl_Period b = 0 then None
      else
        let slope = (if bl_totalSeen b \<ge> 2 then snd (bl_trendHistory b) - fst (bl_trendHistory b) else 0);
            margin = z * residualStddev (residualSlice b)
        in Some (map (forecast_point b slope margin interval now) [1..<n + 1]))"

subsection \<open>Persistence\<close>

record BaselineSnapshot =
  sn_InstanceID :: string
  sn_MetricKey :: string
  sn_Period :: nat
  sn_WindowSize :: nat
  sn_EWMA :: float64
  sn_EWMAAlpha :: float64
  sn_Seasonal :: "float64 list"
  sn_SeasonN :: "nat list"
  sn_Residuals :: "float64 list"
  sn_ResCount :: nat
  sn_TotalSeen :: nat
  sn_SumAll :: float64
  sn_UpdatedAt :: time

definition live_residual :: "STLBaseline \<Rightarrow> nat \<Rightarrow> float64" where
  "live_residual b i = bl_residuals b ! ((bl_resHead b + bl_windowSize b - bl_resCount b + i) mod bl_windowSize b)"

definition bl_Snapshot :: "time \<Rightarrow> string \<Rightarrow> STLBaseline \<Rightarrow> BaselineSnapshot" where
  "bl_Snapshot now instanceID b =
     \<lparr>sn_InstanceID = instanceID, sn_MetricKey = bl_MetricKey b, sn_Period = bl_Period b, sn_WindowSize = bl_windowSize b, sn_EWMA = bl_ewma b,
      sn_EWMAAlpha = bl_ewmaAlpha b, sn_Seasonal = bl_seasonal b, sn_SeasonN = bl_seasonN b, sn_Residuals = map (live_residual b) [0..<bl_resCount b],
      sn_ResCount = bl_resCount b, sn_TotalSeen = bl_totalSeen b, sn_SumAll = bl_sumAll b, sn_UpdatedAt = now\<rparr>"

text \<open>\<open>copy(dst, src)\<close> into a fresh slice of zeros.\<close>

definition copy_into :: "nat \<Rightarrow> float64 list \<Rightarrow> float64 list" where
  "copy_into sz src = take sz src @ replicate (sz - length src) 0"

definition LoadFromSnapshot :: "BaselineSnapshot \<Rightarrow> STLBaseline option" where
  "LoadFromSnapshot s =
     (if sn_WindowSize s = 0 then None
      else Some \<lparr>bl_MetricKey = sn_MetricKey s, bl_Period = sn_Period s, bl_windowSize = sn_WindowSize s, bl_ring = replicate (sn_WindowSize s) 0,
             bl_rHead = 0, bl_rCount = 0, bl_residuals = copy_into (sn_WindowSize s) (sn_Residuals s), bl_resHead = sn_ResCount s mod sn_WindowSize s,
             bl_resCount = sn_ResCount s, bl_ewma = sn_EWMA s, bl_ewmaAlpha = sn_EWMAAlpha s, bl_seasonal = sn_Seasonal s, bl_seasonN = sn_SeasonN s,
             bl_totalSeen = sn_TotalSeen s, bl_sumAll = sn_SumAll s, bl_trendHistory = (sn_EWMA s, sn_EWMA s),
             bl_seasonIdx = (if sn_Period s > 0 then sn_TotalSeen s mod sn_Period s else 0)\<rparr>)"

subsection \<open>The detector (\<open>detector.go\<close>)\<close>

record MetricConfig =
  mc_Key :: string
  mc_Period :: int
  mc_Enabled :: bool

record DetectorConfig =
  dc_ZScoreWarn :: float64
  dc_ForecastZ :: float64
  dc_AnomalyLogic :: string
  dc_Metrics :: "MetricConfig list"
  dc_CollectionInterval :: duration

record Detector =
  dt_config :: DetectorConfig
  dt_baselines :: "(string, STLBaseline) gomap"
  dt_bootstrapped :: bool

definition NewDetector :: "DetectorConfig \<Rightarrow> Detector" where
  "NewDetector cfg = \<lparr>dt_config = cfg, dt_baselines = [], dt_bootstrapped = False\<rparr>"

definition metricConfig :: "DetectorConfig \<Rightarrow> string \<Rightarrow> MetricConfig option" where
  "metricConfig cfg key = find (\<lambda>mc. mc_Key mc = key) (dc_Metrics cfg)"

definition baseline_key :: "string \<Rightarrow> string \<Rightarrow> string" where
  "baseline_key instanceID metric = instanceID @ '':'' @ metric"

text \<open>A loop whose body may panic.\<close>

definition fold_opt :: "('a \<Rightarrow> 's \<Rightarrow> 's option) \<Rightarrow> 'a list \<Rightarrow> 's \<Rightarrow> 's option" where
  "fold_opt f xs s = fold (\<lambda>x st. Option.bind st (f x)) xs (Some s)"

definition load_snapshot :: "DetectorConfig \<Rightarrow> time \<Rightarrow> BaselineSnapshot \<Rightarrow> (string, STLBaseline) gomap \<times> string list
    \<Rightarrow> ((string, STLBaseline) gomap \<times> string list) option" where
  "load_snapshot cfg now snap st =
     (case metricConfig cfg (sn_MetricKey snap) of None \<Rightarrow> Some st
      | Some mc \<Rightarrow>
          if \<not> mc_Enabled mc then Some st
          else if now - sn_UpdatedAt snap > 2 * mc_Period mc * dc_CollectionInterval cfg then Some st
          else let key = baseline_key (sn_InstanceID snap) (sn_MetricKey snap) in
            map_option (\<lambda>b. (map_put key b (fst st), key # snd st)) (LoadFromSnapshot snap))"

definition replay_window :: "MetricConfig \<Rightarrow> int" where
  "replay_window mc = max (3 * mc_Period mc) 1000"

definition replay_query :: "DetectorConfig \<Rightarrow> time \<times> time \<Rightarrow> string \<Rightarrow> MetricConfig \<Rightarrow> MetricQuery" where
  "replay_query cfg clk instanceID mc =
     empty_query\<lparr>mq_InstanceID := instanceID, mq_Metric := mc_Key mc, mq_Start := fst clk - replay_window mc * dc_CollectionInterval cfg,
       mq_End := snd clk, mq_Limit := replay_window mc\<rparr>"

text \<open>Replay runs from the last point of the answer to the first.\<close>

definition replay :: "DetectorConfig \<Rightarrow> (MetricQuery \<Rightarrow> MetricPoint list option) \<Rightarrow> (string \<Rightarrow> time \<times> time) \<Rightarrow> string list \<Rightarrow> string \<times> MetricConfig
    \<Rightarrow> (string, STLBaseline) gomap \<Rightarrow> (string, STLBaseline) gomap option" where
  "replay cfg query clk persisted im bs =
     (let instanceID = fst im; mc = snd im; key = baseline_key instanceID (mc_Key mc) in
      if \<not> mc_Enabled mc \<or> key \<in> set persisted then Some bs
      else case query (replay_query cfg (clk key) instanceID mc) of None \<Rightarrow> Some bs
        | Some points \<Rightarrow>
            if int (length points) < mc_Period mc * 2 then Some bs
            else Option.bind (NewSTLBaseline (mc_Key mc) (mc_Period mc)) (\<lambda>b0.
              map_option (\<lambda>b. map_put key b bs) (fold_opt (\<lambda>p b. Update b (mp_Value p)) (rev points) b0)))"

text \<open>\<open>snaps\<close> is \<open>None\<close> without persistence and \<open>Some None\<close> when loading fails; \<open>Inl\<close> is the error of the lister.\<close>

definition Bootstrap :: "time \<Rightarrow> (string \<Rightarrow> time \<times> time) \<Rightarrow> BaselineSnapshot list option option \<Rightarrow> string list option
    \<Rightarrow> (MetricQuery \<Rightarrow> MetricPoint list option) \<Rightarrow> Detector \<Rightarrow> (Detector + Detector) option" where
  "Bootstrap now clk snaps instances query d =
     (let cfg = dt_config d;
          loaded = (case snaps of Some (Some ss) \<Rightarrow> fold_opt (load_snapshot cfg now) ss (dt_baselines d, []) | _ \<Rightarrow> Some (dt_baselines d, []))
      in case loaded of None \<Rightarrow> None
         | Some (bs, persisted) \<Rightarrow>
             (case instances of None \<Rightarrow> Some (Inl (d\<lparr>dt_baselines := bs\<rparr>))
              | Some ids \<Rightarrow>
                  map_option (\<lambda>bs'. Inr (d\<lparr>dt_baselines := bs', dt_bootstrapped := True\<rparr>))
                    (fold_opt (replay cfg query clk persisted) (List.product ids (dc_Metrics cfg)) bs)))"

record AnomalyResult =
  ar_InstanceID :: string
  ar_Metric :: string
  ar_Value :: float64
  ar_ZScore :: float64
  ar_IsIQR :: bool
  ar_Timestamp :: time

record alert_call =
  ac_metric :: string
  ac_value :: float64
  ac_labels :: labels

definition is_anomaly :: "DetectorConfig \<Rightarrow> float64 \<Rightarrow> bool \<Rightarrow> bool" where
  "is_anomaly cfg az isIQR =
     (if dc_AnomalyLogic cfg = ''and'' then az \<ge> dc_ZScoreWarn cfg \<and> isIQR else az \<ge> dc_ZScoreWarn cfg \<or> isIQR)"

definition anomaly_method :: "DetectorConfig \<Rightarrow> float64 \<Rightarrow> bool \<Rightarrow> string" where
  "anomaly_method cfg az isIQR = (if isIQR \<and> az < dc_ZScoreWarn cfg then ''iqr'' else if isIQR then ''both'' else ''zscore'')"

type_synonym evaluation = "(string, STLBaseline) gomap \<times> AnomalyResult list \<times> alert_call list"

definition detect_point :: "(float64 \<Rightarrow> string) \<Rightarrow> gonum \<Rightarrow> DetectorConfig \<Rightarrow> MetricPoint \<Rightarrow> evaluation \<Rightarrow> evaluation option" where
  "detect_point fv gn cfg p st =
     (let key = baseline_key (mp_InstanceID p) (mp_Metric p); bs = fst st in
      case map_of bs key of None \<Rightarrow> Some st
      | Some b \<Rightarrow>
          if \<not> Ready b then Some st
          else Option.bind (Score gn b (mp_Value p)) (\<lambda>(zScore, isIQR).
               Option.bind (Update b (mp_Value p)) (\<lambda>b'.
                 let bs' = map_put key b' bs; az = \<bar>zScore\<bar> in
                 if \<not> is_anomaly cfg az isIQR then Some (bs', snd st)
                 else Some (bs',
                   fst (snd st) @ [\<lparr>ar_InstanceID = mp_InstanceID p, ar_Metric = mp_Metric p, ar_Value = mp_Value p, ar_ZScore = zScore, ar_IsIQR = isIQR,
                     ar_Timestamp = mp_Timestamp p\<rparr>],
                   snd (snd st) @ [\<lparr>ac_metric = ''anomaly.'' @ mp_Metric p, ac_value = az,
                     ac_labels = [(''instance_id'', mp_InstanceID p), (''original_metric'', mp_Metric p), (''method'', anomaly_method cfg az isIQR),
                       (''original_value'', fv (mp_Value p))]\<rparr>]))))"

type_synonym snapshots_table = "(string \<times> string, BaselineSnapshot) gomap"

definition save_snapshot :: "BaselineSnapshot \<Rightarrow> snapshots_table \<Rightarrow> snapshots_table" where
  "save_snapshot snap t = map_put (sn_InstanceID snap, sn_MetricKey snap) snap t"

text \<open>The instance is cut out of the key again; a failing save is only logged.\<close>

definition persist_baseline :: "(string \<Rightarrow> bool) \<Rightarrow> (string \<Rightarrow> time) \<Rightarrow> string \<times> STLBaseline \<Rightarrow> snapshots_table \<Rightarrow> snapshots_table" where
  "persist_baseline up clk kb t =
     (let parts = SplitN 2 (CHR '':'') (fst kb) in
      if length parts \<noteq> 2 then t
      else if up (fst kb) then save_snapshot (bl_Snapshot (clk (fst kb)) (parts ! 0) (snd kb)) t else t)"

definition Evaluate_ml :: "(float64 \<Rightarrow> string) \<Rightarrow> gonum \<Rightarrow> (string \<Rightarrow> bool) \<Rightarrow> (string \<Rightarrow> time) \<Rightarrow> MetricPoint list \<Rightarrow> Detector \<Rightarrow> snapshots_table option
    \<Rightarrow> (Detector \<times> snapshots_table option \<times> AnomalyResult list \<times> alert_call list) option" where
  "Evaluate_ml fv gn up clk points d persist =
     map_option (\<lambda>(bs, results, calls).
        (d\<lparr>dt_baselines := bs\<rparr>, map_option (fold (persist_baseline up clk) bs) persist, results, calls))
       (fold_opt (detect_point fv gn (dt_config d)) points (dt_baselines d, [], []))"

datatype forecast_error = ErrNotBootstrapped | ErrNoBaseline

definition Forecast_ml :: "time \<Rightarrow> Detector \<Rightarrow> string \<Rightarrow> string \<Rightarrow> nat \<Rightarrow> forecast_error + MlForecastPoint list" where
  "Forecast_ml now d instanceID metricKey horizon =
     (if \<not> dt_bootstrapped d then Inl ErrNotBootstrapped
      else case map_of (dt_baselines d) (baseline_key instanceID metricKey) of None \<Rightarrow> Inl ErrNoBaseline
      | Some b \<Rightarrow>
          let cfg = dt_config d; z = (if dc_ForecastZ cfg > 0 then dc_ForecastZ cfg else dc_ZScoreWarn cfg) in
          (case stl_Forecast b horizon z (dc_CollectionInterval cfg) now of None \<Rightarrow> Inl ErrNoBaseline | Some pts \<Rightarrow> Inr pts))"

definition ForecastForAlert :: "time \<Rightarrow> Detector \<Rightarrow> string \<Rightarrow> string \<Rightarrow> nat \<Rightarrow> forecast_error + ForecastPoint list" where
  "ForecastForAlert now d instanceID metricKey horizon =
     (case Forecast_ml now d instanceID metricKey horizon of Inl e \<Rightarrow> Inl e
      | Inr pts \<Rightarrow> Inr (map (\<lambda>p. \<lparr>fp_Offset = mf_Offset p, fp_Value = mf_Value p, fp_Lower = mf_Lower p, fp_Upper = mf_Upper p\<rparr>) pts))"

end
