(* ===== verification/BoundedWindow.thy ===== *)
theory BoundedWindow
  imports PulsePrelude
begin

section \<open>Containers that keep the latest elements\<close>

text \<open>
  The ring buffers of the baselines and the sample slices of the operation tracker promise the same thing:
  after a push they hold the latest elements up to their capacity, oldest first.
\<close>

definition keep_last :: "nat \<Rightarrow> 'a list \<Rightarrow> 'a list" where
  "keep_last n xs = drop (length xs - n) xs"

lemma length_keep_last [simp]: "length (keep_last n xs) = min n (length xs)"
  by (auto simp: keep_last_def)

lemma keep_last_all [simp]: "length xs \<le> n \<Longrightarrow> keep_last n xs = xs"
  by (simp add: keep_last_def)

lemma set_keep_last: "set (keep_last n xs) \<subseteq> set xs"
  by (simp add: keep_last_def set_drop_subset)

lemma keep_last_append: "keep_last n (keep_last n xs @ ys) = keep_last n (xs @ ys)"
proof (cases "length xs \<le> n")
  case False
  then have "keep_last n xs @ ys = drop (length xs - n) (xs @ ys)" by (simp add: keep_last_def)
  then show ?thesis using False by (simp add: keep_last_def add.commute)
qed simp

lemma keep_last_snoc: "length xs = n \<Longrightarrow> 0 < n \<Longrightarrow> keep_last n (xs @ [x]) = tl xs @ [x]"
  by (cases xs) (auto simp: keep_last_def)

lemma last_keep_last: "0 < n \<Longrightarrow> xs \<noteq> [] \<Longrightarrow> last (keep_last n xs) = last xs"
  by (simp add: keep_last_def)

locale bounded_window =
  fixes good :: "'b \<Rightarrow> bool"
    and cap :: "'b \<Rightarrow> nat"
    and items :: "'b \<Rightarrow> 'a list"
    and push :: "'a \<Rightarrow> 'b \<Rightarrow> 'b"
  assumes good_push: "good b \<Longrightarrow> good (push x b)"
    and cap_push: "good b \<Longrightarrow> cap (push x b) = cap b"
    and items_push: "good b \<Longrightarrow> items (push x b) = keep_last (cap b) (items b @ [x])"
begin

lemma pushes:
  assumes "good b" "length (items b) \<le> cap b"
  shows "good (fold push xs b) \<and> cap (fold push xs b) = cap b \<and> items (fold push xs b) = keep_last (cap b) (items b @ xs)"
  using assms
proof (induction xs arbitrary: b)
  case (Cons x xs)
  have "length (items (push x b)) \<le> cap (push x b)" using Cons.prems by (simp add: items_push cap_push)
  from Cons.IH [OF good_push [OF Cons.prems(1)] this] show ?case
    using keep_last_append [of "cap b" "items b @ [x]" xs] Cons.prems by (simp add: cap_push items_push)
qed simp

lemma push_bounded: "good b \<Longrightarrow> length (items (push x b)) \<le> cap b"
  by (simp add: items_push)

lemma push_latest: "good b \<Longrightarrow> 0 < cap b \<Longrightarrow> items (push x b) \<noteq> [] \<and> last (items (push x b)) = x"
  by (auto simp: items_push last_keep_last keep_last_def)

end

end
