(* ===== verification/MlLaws.thy ===== *)
theory MlLaws
  imports MlCore BoundedWindow
begin

section \<open>Laws of the baselines, the moving average and the regression\<close>

text \<open>
  The ring buffers as bounded windows, what a baseline knows after a series of observations, what
  survives a restart, and the bounds and optimality of the two estimators.
\<close>

subsection \<open>Ring buffers\<close>

type_synonym ring = "float64 list \<times> nat \<times> nat"

fun ring_good :: "ring \<Rightarrow> bool" where
  "ring_good (buf, h, c) \<longleftrightarrow> h < length buf \<and> c \<le> length buf \<and> (c < length buf \<longrightarrow> h = c)"

fun ring_items :: "ring \<Rightarrow> float64 list" where
  "ring_items (buf, h, c) = (if c < length buf then take c buf else drop h buf @ take h buf)"

fun ring_push :: "float64 \<Rightarrow> ring \<Rightarrow> ring" where
  "ring_push x (buf, h, c) = (ring_put x h buf, ring_head (length buf) h, ring_count (length buf) c)"

lemma ring_items_push:
  assumes "ring_good (buf, h, c)"
  shows "ring_items (ring_push x (buf, h, c)) = keep_last (length buf) (ring_items (buf, h, c) @ [x])"
proof (cases "c < length buf")
  case True
  then have h: "h = c" using assms by simp
  show ?thesis
  proof (cases "Suc c < length buf")
    case inner: True
    then show ?thesis using True h by (simp add: ring_put_def ring_head_def ring_count_def take_Suc_conv_app_nth)
  next
    case False
    then have e: "Suc c = length buf" using True by simp
    have "take c buf @ [x] = buf[c := x]" using e by (metis True append_take_drop_id drop_all e list_update_length upd_conv_take_nth_drop order_refl append_Nil2)
    then show ?thesis using e h by (simp add: ring_put_def ring_head_def ring_count_def)
  qed
next
  case False
  then have c: "c = length buf" "h < length buf" using assms by auto
  let ?xs = "drop h buf @ take h buf"
  have keep: "keep_last (length buf) (?xs @ [x]) = tl ?xs @ [x]" using c by (intro keep_last_snoc) auto
  have tl: "tl ?xs = drop (Suc h) buf @ take h buf" using c by (simp add: drop_Suc tl_append2 tl_drop)
  have upd: "buf[h := x] = take h buf @ x # drop (Suc h) buf" using c by (simp add: upd_conv_take_nth_drop)
  show ?thesis
  proof (cases "Suc h = length buf")
    case True
    then show ?thesis using c keep tl by (simp add: ring_put_def ring_head_def ring_count_def upd)
  next
    case inner: False
    then have "Suc h < length buf" using c by simp
    then show ?thesis using c keep tl by (simp add: ring_put_def ring_head_def ring_count_def upd)
  qed
qed

interpretation ring: bounded_window ring_good "\<lambda>(buf, h, c). length buf" ring_items ring_push
proof unfold_locales
  fix b :: ring and x
  obtain buf h c where b: "b = (buf, h, c)" by (metis prod_cases3)
  show "ring_good b \<Longrightarrow> ring_good (ring_push x b)"
    by (auto simp: b ring_put_def ring_head_def ring_count_def intro!: mod_less_divisor)
  show "ring_good b \<Longrightarrow> (case ring_push x b of (buf, h, c) \<Rightarrow> length buf) = (case b of (buf, h, c) \<Rightarrow> length buf)"
    by (simp add: b ring_put_def)
  show "ring_good b \<Longrightarrow> ring_items (ring_push x b) = keep_last (case b of (buf, h, c) \<Rightarrow> length buf) (ring_items b @ [x])"
    using ring_items_push by (simp add: b del: ring_items.simps ring_push.simps)
qed

subsection \<open>What a baseline knows\<close>

text \<open>Baselines as the detector makes them, with the values they have seen: fresh, updated, or restored from
  their snapshot after a restart.\<close>

inductive stl_reach :: "STLBaseline \<Rightarrow> float64 list \<Rightarrow> bool" where
  fresh: "NewSTLBaseline key p = Some b \<Longrightarrow> 0 < p \<Longrightarrow> stl_reach b []"
| update: "stl_reach b vs \<Longrightarrow> Update b v = Some b' \<Longrightarrow> stl_reach b' (vs @ [v])"
| restore: "stl_reach b vs \<Longrightarrow> LoadFromSnapshot (bl_Snapshot now i b) = Some b' \<Longrightarrow> stl_reach b' vs"

definition bucket_vals :: "nat \<Rightarrow> nat \<Rightarrow> float64 list \<Rightarrow> float64 list" where
  "bucket_vals p j vs = map (nth vs) (filter (\<lambda>i. i mod p = j) [0..<length vs])"

definition mean_of :: "float64 list \<Rightarrow> float64" where
  "mean_of xs = sum_list xs / real (length xs)"

lemma bucket_vals_Nil [simp]: "bucket_vals p j [] = []"
  by (simp add: bucket_vals_def)

lemma bucket_vals_snoc: "bucket_vals p j (vs @ [v]) = bucket_vals p j vs @ (if length vs mod p = j then [v] else [])"
proof -
  have "map (nth (vs @ [v])) (filter (\<lambda>i. i mod p = j) [0..<length vs]) = map (nth vs) (filter (\<lambda>i. i mod p = j) [0..<length vs])"
    by (rule map_cong) (auto simp: nth_append)
  then show ?thesis by (simp add: bucket_vals_def)
qed

lemma mean_of_snoc: "(mean_of xs * (real (length xs + 1) - 1) + v) / real (length xs + 1) = mean_of (xs @ [v])"
  by (cases xs) (simp_all add: mean_of_def)

definition res_ring :: "STLBaseline \<Rightarrow> ring" where
  "res_ring b = (bl_residuals b, bl_resHead b, bl_resCount b)"

definition bl_shape :: "STLBaseline \<Rightarrow> bool" where
  "bl_shape b \<longleftrightarrow> 0 < bl_Period b \<and> 2 * bl_Period b \<le> bl_windowSize b \<and> 0 < bl_windowSize b \<and>
     length (bl_residuals b) = bl_windowSize b \<and> length (bl_ring b) = bl_windowSize b \<and> bl_rHead b < bl_windowSize b \<and>
     length (bl_seasonal b) = bl_Period b \<and> length (bl_seasonN b) = bl_Period b \<and> ring_good (res_ring b)"

definition bl_knows :: "STLBaseline \<Rightarrow> float64 list \<Rightarrow> bool" where
  "bl_knows b vs \<longleftrightarrow> bl_totalSeen b = length vs \<and> bl_sumAll b = sum_list vs \<and> bl_resCount b = min (length vs) (bl_windowSize b) \<and>
     bl_seasonal b = map (\<lambda>j. mean_of (bucket_vals (bl_Period b) j vs)) [0..<bl_Period b] \<and>
     bl_seasonN b = map (\<lambda>j. length (bucket_vals (bl_Period b) j vs)) [0..<bl_Period b]"

lemma residualSlice_ring: "length (bl_residuals b) = bl_windowSize b \<Longrightarrow> residualSlice b = ring_items (res_ring b)"
  by (simp add: residualSlice_def res_ring_def)

lemma shape_update_safe: "bl_shape b \<Longrightarrow> update_safe b"
  by (auto simp: bl_shape_def update_safe_def res_ring_def)

lemma Update_total: "bl_shape b \<Longrightarrow> \<exists>b'. Update b v = Some b'"
  by (simp add: Update_def shape_update_safe Let_def)

lemma Update_fields:
  assumes "Update b v = Some b'" "bl_shape b"
  shows "bl_Period b' = bl_Period b" "bl_windowSize b' = bl_windowSize b" "bl_totalSeen b' = bl_totalSeen b + 1" "bl_sumAll b' = bl_sumAll b + v"
    "bl_seasonal b' = (bl_seasonal b)[bl_totalSeen b mod bl_Period b := new_season b v]"
    "bl_seasonN b' = (bl_seasonN b)[bl_totalSeen b mod bl_Period b := bl_seasonN b ! (bl_totalSeen b mod bl_Period b) + 1]"
    "res_ring b' = ring_push (new_residual b v) (res_ring b)" "bl_ewma b' = new_ewma b v" "bl_ewmaAlpha b' = bl_ewmaAlpha b"
    "bl_trendHistory b' = (snd (bl_trendHistory b), new_ewma b v)" "bl_seasonIdx b' = bl_totalSeen b mod bl_Period b"
    "bl_resCount b' = ring_count (bl_windowSize b) (bl_resCount b)" "bl_MetricKey b' = bl_MetricKey b"
    "bl_rHead b' = ring_head (bl_windowSize b) (bl_rHead b)" "length (bl_ring b') = length (bl_ring b)"
  using assms by (auto simp: Update_def Let_def res_ring_def bl_shape_def ring_put_def split: if_splits)

lemma Update_shape:
  assumes "Update b v = Some b'" "bl_shape b"
  shows "bl_shape b'"
proof -
  note f = Update_fields [OF assms]
  have g: "ring_good (res_ring b')" using ring.good_push assms(2) unfolding f(7) bl_shape_def by blast
  have "length (bl_residuals b') = length (bl_residuals b)" using f(7) by (simp add: res_ring_def ring_put_def)
  moreover have "bl_rHead b' < bl_windowSize b" unfolding f(14) ring_head_def using assms(2) by (intro mod_less_divisor) (simp add: bl_shape_def)
  ultimately show ?thesis using assms(2) f g by (simp add: bl_shape_def)
qed

lemma Update_knows:
  assumes "Update b v = Some b'" "bl_shape b" "bl_knows b vs"
  shows "bl_knows b' (vs @ [v])"
proof -
  note f = Update_fields [OF assms(1,2)]
  let ?p = "bl_Period b" and ?j = "bl_totalSeen b mod bl_Period b"
  have p: "0 < ?p" using assms(2) by (simp add: bl_shape_def)
  then have j: "?j < ?p" by simp
  have k: "bl_totalSeen b = length vs" "bl_seasonal b = map (\<lambda>j. mean_of (bucket_vals ?p j vs)) [0..<?p]"
    "bl_seasonN b = map (\<lambda>j. length (bucket_vals ?p j vs)) [0..<?p]" "bl_resCount b = min (length vs) (bl_windowSize b)" "bl_sumAll b = sum_list vs"
    using assms(3) by (simp_all add: bl_knows_def)
  have season: "new_season b v = mean_of (bucket_vals ?p ?j vs @ [v])"
    using j mean_of_snoc [of "bucket_vals ?p ?j vs" v] by (simp add: new_season_def Let_def k(2,3))
  have s: "bl_seasonal b' = map (\<lambda>j. mean_of (bucket_vals ?p j (vs @ [v]))) [0..<?p]"
    unfolding f(5) k(2) season using p by (intro nth_equalityI) (auto simp: nth_list_update bucket_vals_snoc k(1))
  have n: "bl_seasonN b' = map (\<lambda>j. length (bucket_vals ?p j (vs @ [v]))) [0..<?p]"
    unfolding f(6) using p by (intro nth_equalityI) (auto simp: nth_list_update bucket_vals_snoc k(1,3))
  show ?thesis unfolding bl_knows_def f(1,2) using s n k(4,5) f(3,4,12) by (auto simp: k(1) ring_count_def)
qed

lemma live_residuals:
  assumes "bl_shape b"
  shows "map (live_residual b) [0..<bl_resCount b] = residualSlice b"
proof -
  let ?w = "bl_windowSize b" and ?c = "bl_resCount b" and ?h = "bl_resHead b"
  have w: "0 < ?w" "length (bl_residuals b) = ?w" "?h < ?w" "?c \<le> ?w" "?c < ?w \<longrightarrow> ?h = ?c"
    using assms by (auto simp: bl_shape_def res_ring_def)
  show ?thesis
  proof (cases "?c < ?w")
    case True
    then show ?thesis using w by (intro nth_equalityI) (auto simp: live_residual_def residualSlice_def)
  next
    case False
    then have c: "?c = ?w" using w by simp
    have "live_residual b i = (drop ?h (bl_residuals b) @ take ?h (bl_residuals b)) ! i" if "i < ?w" for i
    proof (cases "?h + i < ?w")
      case True
      then have "i < ?w - ?h" by simp
      then show ?thesis using True w c that by (simp add: live_residual_def nth_append)
    next
      case False
      then have "(?h + i) mod ?w = ?h + i - ?w" using w that by (simp add: mod_if)
      moreover have "\<not> i < ?w - ?h" "?h + i - ?w = i - (?w - ?h)" using False w by auto
      ultimately show ?thesis using w c that by (simp add: live_residual_def nth_append)
    qed
    then show ?thesis using w c by (intro nth_equalityI) (auto simp: residualSlice_def)
  qed
qed

lemma restored_fields:
  assumes "LoadFromSnapshot (bl_Snapshot now i b) = Some b'" "bl_shape b"
  shows "bl_Period b' = bl_Period b" "bl_windowSize b' = bl_windowSize b" "bl_totalSeen b' = bl_totalSeen b" "bl_sumAll b' = bl_sumAll b"
    "bl_seasonal b' = bl_seasonal b" "bl_seasonN b' = bl_seasonN b" "bl_ewma b' = bl_ewma b" "bl_ewmaAlpha b' = bl_ewmaAlpha b"
    "bl_resCount b' = bl_resCount b" "bl_seasonIdx b' = bl_totalSeen b mod bl_Period b" "bl_trendHistory b' = (bl_ewma b, bl_ewma b)"
    "bl_MetricKey b' = bl_MetricKey b"
  using assms by (auto simp: LoadFromSnapshot_def bl_Snapshot_def bl_shape_def split: if_splits)

lemma restored_shape:
  assumes "LoadFromSnapshot (bl_Snapshot now i b) = Some b'" "bl_shape b"
  shows "bl_shape b' \<and> residualSlice b' = residualSlice b"
proof -
  let ?w = "bl_windowSize b" and ?c = "bl_resCount b"
  have w: "0 < ?w" "?c \<le> ?w" using assms(2) by (auto simp: bl_shape_def res_ring_def)
  have len: "length (residualSlice b) = ?c" using live_residuals [OF assms(2)] by (metis length_map length_upt diff_zero)
  have r: "bl_residuals b' = residualSlice b @ replicate (?w - ?c) 0" "bl_resHead b' = ?c mod ?w" "bl_ring b' = replicate ?w 0" "bl_rHead b' = 0"
    using assms w len live_residuals [OF assms(2)]
    by (auto simp: LoadFromSnapshot_def bl_Snapshot_def copy_into_def split: if_splits)
  have "?c < ?w \<or> ?c = ?w" using w by auto
  then show ?thesis
    using assms(2) restored_fields [OF assms] r w len by (auto simp: bl_shape_def res_ring_def residualSlice_def [of b'])
qed

lemma stl_reach_inv: "stl_reach b vs \<Longrightarrow> bl_shape b \<and> bl_knows b vs"
proof (induction rule: stl_reach.induct)
  case (fresh key p b)
  then show ?case
    by (auto simp: NewSTLBaseline_def Let_def bl_shape_def bl_knows_def res_ring_def mean_of_def map_replicate_const)
next
  case (update b vs v b')
  then show ?case by (blast intro: Update_shape Update_knows)
next
  case (restore b vs now i b')
  then have "bl_shape b" "bl_knows b vs" by auto
  then show ?case using restored_fields [OF restore.hyps(2)] restored_shape [OF restore.hyps(2)] by (simp add: bl_knows_def)
qed

lemma shape_score_total: "bl_shape b \<Longrightarrow> \<exists>z. Score gn b v = Some z"
proof -
  assume "bl_shape b"
  then have "0 < bl_Period b" "bl_totalSeen b mod bl_Period b < length (bl_seasonal b)" by (simp_all add: bl_shape_def)
  then show ?thesis by (auto simp: Score_def Let_def)
qed


subsection \<open>Restarts\<close>

text \<open>Two baselines that score alike now and after the same updates.\<close>

definition score_alike :: "STLBaseline \<Rightarrow> STLBaseline \<Rightarrow> bool" where
  "score_alike b b' \<longleftrightarrow> bl_shape b \<and> bl_shape b' \<and> bl_Period b' = bl_Period b \<and> bl_windowSize b' = bl_windowSize b \<and>
     bl_totalSeen b' = bl_totalSeen b \<and> bl_sumAll b' = bl_sumAll b \<and> bl_seasonal b' = bl_seasonal b \<and> bl_seasonN b' = bl_seasonN b \<and>
     bl_ewma b' = bl_ewma b \<and> bl_ewmaAlpha b' = bl_ewmaAlpha b \<and> bl_resCount b' = bl_resCount b \<and> residualSlice b' = residualSlice b"

lemma score_alike_Score: "score_alike b b' \<Longrightarrow> Score gn b' v = Score gn b v"
  by (simp add: Score_def score_residual_def score_alike_def Let_def)

lemma Update_slice:
  assumes "Update b v = Some b'" "bl_shape b"
  shows "residualSlice b' = keep_last (bl_windowSize b) (residualSlice b @ [new_residual b v])"
proof -
  have len: "length (bl_residuals b) = bl_windowSize b" "length (bl_residuals b') = bl_windowSize b'" "ring_good (res_ring b)"
    using assms(2) Update_shape [OF assms] by (auto simp: bl_shape_def)
  show ?thesis
    unfolding residualSlice_ring [OF len(1)] residualSlice_ring [OF len(2)] Update_fields(7) [OF assms]
    using ring.items_push [OF len(3)] len(1) by (simp add: res_ring_def)
qed

lemma score_alike_Update:
  assumes "score_alike b b'"
  shows "\<exists>c c'. Update b v = Some c \<and> Update b' v = Some c' \<and> score_alike c c'"
proof -
  have s: "bl_shape b" "bl_shape b'" using assms by (simp_all add: score_alike_def)
  obtain c c' where c: "Update b v = Some c" "Update b' v = Some c'" using Update_total [OF s(1)] Update_total [OF s(2)] by blast
  have same: "new_ewma b' v = new_ewma b v" "new_season b' v = new_season b v" "new_residual b' v = new_residual b v"
    using assms by (simp_all add: score_alike_def new_ewma_def new_season_def new_residual_def Let_def)
  have "score_alike c c'"
    using assms Update_shape [OF c(1) s(1)] Update_shape [OF c(2) s(2)] Update_slice [OF c(1) s(1)] Update_slice [OF c(2) s(2)]
      Update_fields [OF c(1) s(1)] Update_fields [OF c(2) s(2)] same unfolding score_alike_def by simp
  then show ?thesis using c by blast
qed

lemma fold_opt_simps [simp]:
  "fold_opt f [] s = Some s" "fold_opt f (x # xs) s = Option.bind (f x s) (fold_opt f xs)"
proof -
  have none: "fold (\<lambda>x st. Option.bind st (f x)) ys None = None" for ys by (induction ys) auto
  show "fold_opt f [] s = Some s" "fold_opt f (x # xs) s = Option.bind (f x s) (fold_opt f xs)"
    by (cases "f x s"; simp add: fold_opt_def none)+
qed

lemma fold_opt_append: "fold_opt f (xs @ ys) s = Option.bind (fold_opt f xs s) (fold_opt f ys)"
  by (induction xs arbitrary: s) (auto split: bind_splits)

lemma score_alike_Updates:
  "score_alike b b' \<Longrightarrow> \<exists>c c'. fold_opt (\<lambda>v b. Update b v) vs b = Some c \<and> fold_opt (\<lambda>v b. Update b v) vs b' = Some c' \<and> score_alike c c'"
proof (induction vs arbitrary: b b')
  case (Cons v vs)
  obtain d d' where d: "Update b v = Some d" "Update b' v = Some d'" "score_alike d d'" using score_alike_Update [OF Cons.prems] by blast
  then show ?case using Cons.IH [OF d(3)] by simp
qed simp

lemma snapshot_loads:
  assumes "stl_reach b vs"
  shows "\<exists>b'. LoadFromSnapshot (bl_Snapshot now i b) = Some b'"
proof -
  have "bl_windowSize b \<noteq> 0" using stl_reach_inv [OF assms] by (simp add: bl_shape_def)
  then show ?thesis by (simp add: LoadFromSnapshot_def bl_Snapshot_def)
qed

text \<open>Saving a baseline and loading it again after a restart does not change detection: after any further
  observations the restored baseline gives every value the score the original would have given.\<close>

theorem snapshot_keeps_scores:
  assumes "stl_reach b vs"
  shows "\<exists>b'. LoadFromSnapshot (bl_Snapshot now i b) = Some b' \<and>
    (\<exists>c c'. fold_opt (\<lambda>v b. Update b v) ws b = Some c \<and> fold_opt (\<lambda>v b. Update b v) ws b' = Some c' \<and>
      (\<forall>v. Score gn c' v = Score gn c v) \<and> residualSlice c' = residualSlice c)"
proof -
  have s: "bl_shape b" using stl_reach_inv [OF assms] by simp
  obtain b' where b': "LoadFromSnapshot (bl_Snapshot now i b) = Some b'" using snapshot_loads [OF assms] by blast
  have "score_alike b b'"
    using s restored_fields [OF b' s] restored_shape [OF b' s] by (simp add: score_alike_def)
  then obtain c c' where c: "fold_opt (\<lambda>v b. Update b v) ws b = Some c" "fold_opt (\<lambda>v b. Update b v) ws b' = Some c'" "score_alike c c'"
    using score_alike_Updates by blast
  have "\<forall>v. Score gn c' v = Score gn c v" "residualSlice c' = residualSlice c"
    using score_alike_Score [OF c(3)] c(3) by (simp_all add: score_alike_def)
  then show ?thesis using b' c(1,2) by blast
qed

text \<open>Forecasts do change with a restart: a restored baseline forecasts a flat trend, and for each step the
  seasonal component of the step after it.\<close>

theorem restored_forecast_shifted:
  assumes "stl_reach b vs" "Update b v = Some b1" "LoadFromSnapshot (bl_Snapshot now i b1) = Some b'"
    and "stl_Forecast b1 n z interval t = Some pts" "stl_Forecast b' n z interval t = Some pts'" "k < n" "vs \<noteq> []"
  shows "mf_Value (pts ! k) = bl_ewma b1 + (bl_ewma b1 - snd (bl_trendHistory b)) * real (k + 1) + bl_seasonal b1 ! ((length vs + (k + 1)) mod bl_Period b) \<and>
    mf_Value (pts' ! k) = bl_ewma b1 + bl_seasonal b1 ! ((length vs + (k + 2)) mod bl_Period b)"
proof -
  have s: "bl_shape b" "bl_knows b vs" using stl_reach_inv [OF assms(1)] by auto
  have s1: "bl_shape b1" using Update_shape [OF assms(2) s(1)] .
  note f = Update_fields [OF assms(2) s(1)] and r = restored_fields [OF assms(3) s1]
  have seen: "bl_totalSeen b = length vs" using s(2) by (simp add: bl_knows_def)
  have k: "[1..<n + 1] ! k = k + 1" using assms(6) by (simp del: upt_Suc)
  have p: "pts ! k = forecast_point b1 (if bl_totalSeen b1 \<ge> 2 then snd (bl_trendHistory b1) - fst (bl_trendHistory b1) else 0)
      (z * residualStddev (residualSlice b1)) interval t (k + 1)"
    using assms(4,6) k by (auto simp: stl_Forecast_def Let_def simp del: upt_Suc split: if_splits)
  have p': "pts' ! k = forecast_point b' (if bl_totalSeen b' \<ge> 2 then snd (bl_trendHistory b') - fst (bl_trendHistory b') else 0)
      (z * residualStddev (residualSlice b')) interval t (k + 1)"
    using assms(5,6) k by (auto simp: stl_Forecast_def Let_def simp del: upt_Suc split: if_splits)
  have i: "(bl_seasonIdx b1 + (k + 1)) mod bl_Period b1 = (length vs + (k + 1)) mod bl_Period b"
    unfolding f(1,11) seen by (rule mod_add_left_eq)
  have "(bl_seasonIdx b' + (k + 1)) mod bl_Period b' = (length vs + 1 + (k + 1)) mod bl_Period b"
    unfolding r(1,10) f(1,3) seen by (rule mod_add_left_eq)
  then have i': "(bl_seasonIdx b' + (k + 1)) mod bl_Period b' = (length vs + (k + 2)) mod bl_Period b" by simp
  have "2 \<le> bl_totalSeen b1" using f(3) seen assms(7) by (cases vs) auto
  then have "mf_Value (pts ! k) = bl_ewma b1 + (bl_ewma b1 - snd (bl_trendHistory b)) * real (k + 1) + bl_seasonal b1 ! ((length vs + (k + 1)) mod bl_Period b)"
    unfolding p forecast_point_def Let_def i f(8,10) by simp
  moreover have "mf_Value (pts' ! k) = bl_ewma b1 + bl_seasonal b1 ! ((length vs + (k + 2)) mod bl_Period b)"
    unfolding p' forecast_point_def Let_def i' r(5,7,11) by simp
  ultimately show ?thesis by blast
qed

subsection \<open>A constant series\<close>

lemma stl_reach_updates: "stl_reach b vs \<Longrightarrow> fold_opt (\<lambda>v b. Update b v) ws b = Some b' \<Longrightarrow> stl_reach b' (vs @ ws)"
proof (induction ws arbitrary: b vs)
  case (Cons w ws)
  then obtain c where "Update b w = Some c" "fold_opt (\<lambda>v b. Update b v) ws c = Some b'" by (auto simp: bind_eq_Some_conv)
  then show ?case using Cons.IH [of c "vs @ [w]"] stl_reach.update [OF Cons.prems(1)] by simp
qed simp

definition level_at :: "STLBaseline \<Rightarrow> float64 \<Rightarrow> bool" where
  "level_at b c \<longleftrightarrow> bl_totalSeen b = 0 \<or> bl_ewma b = c \<and> snd (bl_trendHistory b) = c \<and> (bl_totalSeen b \<ge> 2 \<longrightarrow> fst (bl_trendHistory b) = c)"

lemma level_at_Update:
  assumes "Update b c = Some b'" "bl_shape b" "level_at b c"
  shows "level_at b' c"
proof -
  have "new_ewma b c = c" using assms(3) by (auto simp: new_ewma_def level_at_def algebra_simps)
  then show ?thesis using Update_fields [OF assms(1,2)] assms(3) by (auto simp: level_at_def)
qed

lemma level_at_updates:
  "stl_reach b vs \<Longrightarrow> level_at b c \<Longrightarrow> fold_opt (\<lambda>v b. Update b v) (replicate n c) b = Some b' \<Longrightarrow> level_at b' c"
proof (induction n arbitrary: b vs)
  case (Suc n)
  then obtain d where d: "Update b c = Some d" "fold_opt (\<lambda>v b. Update b v) (replicate n c) d = Some b'" by (auto simp: bind_eq_Some_conv)
  have "level_at d c" using level_at_Update [OF d(1)] stl_reach_inv [OF Suc.prems(1)] Suc.prems(2) by blast
  then show ?case using Suc.IH [OF stl_reach.update [OF Suc.prems(1) d(1)] _ d(2)] by simp
qed simp

lemma mean_bucket_constant:
  assumes "j < p" "p \<le> n"
  shows "mean_of (bucket_vals p j (replicate n c)) = c"
proof -
  let ?is = "filter (\<lambda>i. i mod p = j) [0..<n]"
  have "bucket_vals p j (replicate n c) = map (\<lambda>i. c) ?is" unfolding bucket_vals_def by (rule map_cong) auto
  then have e: "bucket_vals p j (replicate n c) = replicate (length ?is) c" by (simp add: map_replicate_const)
  have "j \<in> set ?is" using assms by simp
  then have "0 < length ?is" by (metis length_pos_if_in_set)
  then show ?thesis unfolding e mean_of_def by (simp add: sum_list_replicate)
qed

text \<open>A forecast counts the level of a series twice: the seasonal component of \<open>Forecast\<close> is the mean of the
  values at that position, not its deviation from the overall mean as in \<open>Update\<close>, so that after a warm-up with
  the constant value \<open>c\<close> every forecast is \<open>2 * c\<close>.\<close>

theorem forecast_doubles_level:
  assumes "NewSTLBaseline key p = Some b0" "0 < p" "nat p \<le> n" "fold_opt (\<lambda>v b. Update b v) (replicate n c) b0 = Some b"
    and "stl_Forecast b m z interval t = Some pts" "k < m"
  shows "mf_Value (pts ! k) = 2 * c"
proof -
  have r0: "stl_reach b0 []" by (rule stl_reach.fresh [OF assms(1,2)])
  have r: "stl_reach b (replicate n c)" using stl_reach_updates [OF r0 assms(4)] by simp
  have period: "bl_Period b0 = nat p" "bl_totalSeen b0 = 0" using assms(1) by (auto simp: NewSTLBaseline_def Let_def split: if_splits)
  have keep: "bl_Period b' = bl_Period b''" if "stl_reach b'' vs" "fold_opt (\<lambda>v b. Update b v) ws b'' = Some b'" for b' b'' vs ws
    using that
  proof (induction ws arbitrary: b'' vs)
    case (Cons w ws)
    then obtain d where d: "Update b'' w = Some d" "fold_opt (\<lambda>v b. Update b v) ws d = Some b'" by (auto simp: bind_eq_Some_conv)
    show ?case using Cons.IH [OF stl_reach.update [OF Cons.prems(1) d(1)] d(2)] Update_fields(1) [OF d(1)] stl_reach_inv [OF Cons.prems(1)] by simp
  qed simp
  have p: "bl_Period b = nat p" using keep [OF r0 assms(4)] period by simp
  have s: "bl_shape b" "bl_knows b (replicate n c)" using stl_reach_inv [OF r] by auto
  have "level_at b0 c" using period by (simp add: level_at_def)
  then have "level_at b c" using level_at_updates [OF r0 _ assms(4)] by blast
  moreover have "bl_totalSeen b = n" using s(2) by (simp add: bl_knows_def)
  moreover have "0 < n" using assms(2,3) by simp
  ultimately have lv: "bl_ewma b = c" "bl_totalSeen b \<ge> 2 \<longrightarrow> snd (bl_trendHistory b) = fst (bl_trendHistory b)" by (auto simp: level_at_def)
  have sea: "bl_seasonal b ! j = c" if "j < nat p" for j
    using that s(2) mean_bucket_constant [OF that assms(3)] by (simp add: bl_knows_def p)
  have "pts ! k = forecast_point b (if bl_totalSeen b \<ge> 2 then snd (bl_trendHistory b) - fst (bl_trendHistory b) else 0)
      (z * residualStddev (residualSlice b)) interval t (k + 1)"
    using assms(5,6) by (auto simp: stl_Forecast_def Let_def simp del: upt_Suc split: if_splits)
  then show ?thesis using lv sea assms(2) by (simp add: forecast_point_def Let_def p)
qed

subsection \<open>The moving average\<close>

lemma wma_weights_Suc: "wma_weights d (Suc n) = map ((*) d) (wma_weights d n) @ [1]"
  by (auto simp: wma_weights_def Suc_diff_le intro!: map_cong) (metis Suc_diff_Suc diff_Suc_Suc power_Suc)

lemma length_wma_weights [simp]: "length (wma_weights d n) = n"
  by (simp add: wma_weights_def)

lemma wma_weights_pos: "0 < d \<Longrightarrow> w \<in> set (wma_weights d n) \<Longrightarrow> 0 < w"
  by (auto simp: wma_weights_def)

definition online_wma :: "float64 \<Rightarrow> float64 list \<Rightarrow> float64 \<times> float64" where
  "online_wma d rates = fold (\<lambda>r (s, w). (r + d * s, 1 + d * w)) rates (0, 0)"

lemma online_wma_sums: "online_wma d rates = (sum_list (map2 (*) (wma_weights d (length rates)) rates), sum_list (wma_weights d (length rates)))"
proof (induction rates rule: rev_induct)
  case (snoc r rs)
  have "sum_list (map2 (*) (map ((*) d) ws) rs) = d * sum_list (map2 (*) ws rs)" if "length ws = length rs" for ws
    using that by (induction ws rs rule: list_induct2) (auto simp: algebra_simps)
  then have "sum_list (map2 (*) (map ((*) d) (wma_weights d (length rs))) rs) = d * sum_list (map2 (*) (wma_weights d (length rs)) rs)"
    by simp
  then show ?case using snoc by (simp add: online_wma_def wma_weights_Suc sum_list_const_mult)
qed (simp add: online_wma_def wma_weights_def)

lemma weighted_sum_bounds:
  assumes "length ws = length xs" "\<forall>w \<in> set ws. 0 < w" "\<forall>x \<in> set xs. lo \<le> x \<and> x \<le> hi"
  shows "lo * sum_list ws \<le> sum_list (map2 (*) ws xs) \<and> sum_list (map2 (*) ws xs) \<le> hi * sum_list (ws :: float64 list)"
  using assms
proof (induction ws xs rule: list_induct2)
  case (Cons w ws x xs)
  then have "w * lo \<le> w * x" "w * x \<le> w * hi" by simp_all
  moreover have "lo * sum_list ws \<le> sum_list (map2 (*) ws xs)" "sum_list (map2 (*) ws xs) \<le> hi * sum_list ws" using Cons by auto
  ultimately show ?case by (simp add: distrib_left mult.commute)
qed simp

lemma wma_decay_pos: "0 < wma_decay d"
  by (simp add: wma_decay_def)

lemma sum_weights_pos: "0 < n \<Longrightarrow> 0 < d \<Longrightarrow> 0 < sum_list (wma_weights d n)"
proof -
  assume n: "0 < n" and d: "0 < d"
  then obtain m where m: "n = Suc m" by (cases n) auto
  have "0 \<le> sum_list (map ((*) d) (wma_weights d m))" using d wma_weights_pos [OF d] by (intro sum_list_nonneg) (auto intro: less_imp_le)
  then show ?thesis unfolding m wma_weights_Suc by simp
qed

lemma weighted_mean_bounds:
  assumes "xs \<noteq> []" "0 < d" "\<forall>x \<in> set xs. lo \<le> x \<and> x \<le> hi"
  shows "lo \<le> weighted_mean (wma_weights d (length xs)) xs \<and> weighted_mean (wma_weights d (length xs)) xs \<le> hi"
proof -
  have "0 < sum_list (wma_weights d (length xs))" using sum_weights_pos assms(1,2) by simp
  then show ?thesis
    using weighted_sum_bounds [OF _ _ assms(3), of "wma_weights d (length xs)"] wma_weights_pos [OF assms(2)]
    by (simp add: weighted_mean_def pos_le_divide_eq pos_divide_le_eq)
qed

text \<open>The weighted moving average is the exponentially smoothed rate: on every window with a usable interval
  it equals the two-accumulator recursion that multiplies what it has by the decay and adds the new rate,
  and it lies between the smallest and the largest rate of the window; the deviation is not negative.\<close>

theorem wma_online_equivalent:
  assumes "WeightedMovingAverage cfg ts vs = Some r" "rates = wma_rates (wma_start (wc_WindowSize cfg) (length ts)) ts vs" "rates \<noteq> []"
  shows "wr_WeightedRate r = fst (online_wma (wma_decay (wc_DecayFactor cfg)) rates) / snd (online_wma (wma_decay (wc_DecayFactor cfg)) rates) \<and>
    Min (set rates) \<le> wr_WeightedRate r \<and> wr_WeightedRate r \<le> Max (set rates) \<and> 0 \<le> wr_StdDev r"
proof -
  let ?d = "wma_decay (wc_DecayFactor cfg)"
  let ?w = "wma_weights ?d (length rates)"
  let ?m = "weighted_mean ?w rates"
  have r: "wr_WeightedRate r = ?m" "wr_StdDev r = sqrt (weighted_mean ?w (map (\<lambda>x. (x - ?m) * (x - ?m)) rates))"
    using assms by (auto simp: WeightedMovingAverage_def Let_def split: if_splits)
  have "0 \<le> weighted_mean (wma_weights ?d (length (map (\<lambda>x. (x - ?m) * (x - ?m)) rates))) (map (\<lambda>x. (x - ?m) * (x - ?m)) rates)"
    using assms(3) wma_decay_pos
    by (intro weighted_mean_bounds [THEN conjunct1, of _ _ 0 "Max (set (map (\<lambda>x. (x - ?m) * (x - ?m)) rates))"]) auto
  then have "0 \<le> wr_StdDev r" using r by simp
  moreover have "Min (set rates) \<le> ?m \<and> ?m \<le> Max (set rates)"
    using assms(3) wma_decay_pos by (intro weighted_mean_bounds) auto
  ultimately show ?thesis using r by (simp add: online_wma_sums weighted_mean_def)
qed

subsection \<open>The regression line\<close>

lemma sum_list_map2_sum: "length xs = length ys \<Longrightarrow> sum_list (map2 f xs ys) = (\<Sum>i<length xs. f (xs ! i) (ys ! i))"
  by (simp add: sum_list_sum_nth atLeast0LessThan)

lemma sum_list_map_sum: "sum_list (map f xs) = (\<Sum>i<length xs. f (xs ! i))"
  by (simp add: sum_list_sum_nth atLeast0LessThan)

lemma squared_error_sum:
  "length xs = length ys \<Longrightarrow> squared_error a c xs ys = (\<Sum>i<length xs. (ys ! i - (a * xs ! i + c))\<^sup>2)"
  by (simp add: squared_error_def sum_list_map2_sum power2_eq_square)

text \<open>The normal equations: the residuals of the fitted line are orthogonal to the constants and to the abscissae.\<close>

lemma normal_equations:
  fixes x y :: "nat \<Rightarrow> real"
  assumes "0 < n" "d = real n * (\<Sum>i<n. x i * x i) - (\<Sum>i<n. x i) * (\<Sum>i<n. x i)" "d \<noteq> 0"
    and "s = (real n * (\<Sum>i<n. x i * y i) - (\<Sum>i<n. x i) * (\<Sum>i<n. y i)) / d" "t = ((\<Sum>i<n. y i) - s * (\<Sum>i<n. x i)) / real n"
  shows "(\<Sum>i<n. y i - (s * x i + t)) = 0" "(\<Sum>i<n. (y i - (s * x i + t)) * x i) = 0"
proof -
  let ?X = "\<Sum>i<n. x i" and ?Y = "\<Sum>i<n. y i" and ?XX = "\<Sum>i<n. x i * x i" and ?XY = "\<Sum>i<n. x i * y i"
  have nt: "real n * t = ?Y - s * ?X" using assms(1,5) by simp
  then show "(\<Sum>i<n. y i - (s * x i + t)) = 0"
    by (simp add: sum_subtractf sum.distrib sum_distrib_left [symmetric] mult.commute)
  have sd: "s * d = real n * ?XY - ?X * ?Y" using assms(3,4) by simp
  have e: "(\<Sum>i<n. (y i - (s * x i + t)) * x i) = ?XY - s * ?XX - t * ?X"
    by (simp add: algebra_simps sum_subtractf sum.distrib sum_distrib_left sum_distrib_right)
  have "real n * (?XY - s * ?XX - t * ?X) = real n * ?XY - s * (real n * ?XX) - (real n * t) * ?X" by (simp add: algebra_simps)
  also have "\<dots> = real n * ?XY - ?X * ?Y - s * d" unfolding nt assms(2) by (simp add: algebra_simps)
  also have "\<dots> = 0" using sd by simp
  finally show "(\<Sum>i<n. (y i - (s * x i + t)) * x i) = 0" using e assms(1) by simp
qed

lemma least_squares:
  fixes x y :: "nat \<Rightarrow> real"
  assumes "(\<Sum>i<n. y i - (s * x i + t)) = 0" "(\<Sum>i<n. (y i - (s * x i + t)) * x i) = 0"
  shows "(\<Sum>i<n. (y i - (s * x i + t))\<^sup>2) \<le> (\<Sum>i<n. (y i - (a * x i + c))\<^sup>2)"
proof -
  let ?e = "\<lambda>i. y i - (s * x i + t)" and ?g = "\<lambda>i. (s - a) * x i + (t - c)"
  have "(\<Sum>i<n. (y i - (a * x i + c))\<^sup>2) = (\<Sum>i<n. (?e i)\<^sup>2 + (?g i)\<^sup>2 + (2 * (s - a) * (?e i * x i) + 2 * (t - c) * ?e i))"
    by (rule sum.cong) (simp_all add: power2_eq_square algebra_simps)
  also have "\<dots> = (\<Sum>i<n. (?e i)\<^sup>2) + (\<Sum>i<n. (?g i)\<^sup>2) + (2 * (s - a) * (\<Sum>i<n. ?e i * x i) + 2 * (t - c) * (\<Sum>i<n. ?e i))"
    by (simp only: sum.distrib sum_distrib_left [symmetric])
  also have "\<dots> = (\<Sum>i<n. (?e i)\<^sup>2) + (\<Sum>i<n. (?g i)\<^sup>2)" using assms by simp
  finally show ?thesis by (simp add: sum_nonneg)
qed

text \<open>The regression line is the least-squares line: where the abscissae are not degenerate no other line has a
  smaller squared error, and the reported goodness of fit lies between zero and one.\<close>

theorem regression_least_squares:
  assumes "LinearRegression xs ys = Some r"
    and "1 / 10 ^ 15 \<le> \<bar>real (length xs) * sum_list (map (\<lambda>x. x * x) xs) - sum_list xs * sum_list xs\<bar>"
  shows "squared_error (lr_Slope r) (lr_Intercept r) xs ys \<le> squared_error a c xs ys \<and> 0 \<le> lr_RSquared r \<and> lr_RSquared r \<le> 1"
proof -
  let ?n = "length xs" and ?x = "\<lambda>i. xs ! i" and ?y = "\<lambda>i. ys ! i"
  have len: "?n = length ys" "2 \<le> ?n" using assms(1) by (auto simp: LinearRegression_def Let_def split: if_splits)
  define d where "d = real ?n * (\<Sum>i<?n. ?x i * ?x i) - (\<Sum>i<?n. ?x i) * (\<Sum>i<?n. ?x i)"
  have sums: "sum_list xs = (\<Sum>i<?n. ?x i)" "sum_list ys = (\<Sum>i<?n. ?y i)"
    using sum_list_map_sum [of id xs] sum_list_map_sum [of id ys] len(1) by simp_all
  have d: "d = real ?n * sum_list (map (\<lambda>x. x * x) xs) - sum_list xs * sum_list xs"
    unfolding d_def sums(1) by (simp only: sum_list_map_sum)
  have big: "\<not> \<bar>d\<bar> < 1 / 10 ^ 15" using assms(2) by (simp only: d not_less)
  then have "d \<noteq> 0" by auto
  let ?s = "lr_Slope r" and ?t = "lr_Intercept r"
  have s: "?s = (real ?n * (\<Sum>i<?n. ?x i * ?y i) - (\<Sum>i<?n. ?x i) * (\<Sum>i<?n. ?y i)) / d"
    and t: "?t = ((\<Sum>i<?n. ?y i) - ?s * (\<Sum>i<?n. ?x i)) / real ?n"
    and R: "lr_RSquared r = (let tot = squared_error 0 (sum_list ys / real ?n) xs ys in if tot > 1 / 10 ^ 15 then 1 - squared_error ?s ?t xs ys / tot else 0)"
    using assms(1) len big unfolding LinearRegression_def Let_def d [symmetric] sums [symmetric] sum_list_map2_sum [OF len(1), symmetric]
    by (auto simp: squared_error_sum sum_list_map_sum power2_eq_square)
  have opt: "squared_error ?s ?t xs ys \<le> squared_error a' c' xs ys" for a' c'
    unfolding squared_error_sum [OF len(1)]
    by (intro least_squares normal_equations [OF _ d_def \<open>d \<noteq> 0\<close> s t]) (use len(2) in auto)
  have "0 \<le> squared_error ?s ?t xs ys" unfolding squared_error_sum [OF len(1)] by (simp add: sum_nonneg)
  then have "0 \<le> lr_RSquared r \<and> lr_RSquared r \<le> 1"
    using opt [of 0 "sum_list ys / real ?n"] unfolding R Let_def by (auto simp: divide_le_eq)
  then show ?thesis using opt by blast
qed

subsection \<open>The detector\<close>

text \<open>The key of a baseline is cut at its first colon when it is saved.\<close>

lemma SplitN_key: "SplitN 2 (CHR '':'') (baseline_key inst metric) =
    (if CHR '':'' \<in> set inst then [takeWhile (\<lambda>c. c \<noteq> CHR '':'') inst, drop (Suc (length (takeWhile (\<lambda>c. c \<noteq> CHR '':'') inst))) (inst @ '':'' @ metric)]
     else [inst, metric])"
proof (cases "CHR '':'' \<in> set inst")
  case True
  then obtain a b where ab: "inst = a @ CHR '':'' # b" "CHR '':'' \<notin> set a" by (metis split_list_first)
  have "SplitN 2 (CHR '':'') (a @ CHR '':'' # (b @ CHR '':'' # metric)) = [a, b @ CHR '':'' # metric]"
    unfolding numeral_2_eq_2 SplitN_sep [OF ab(2)] by simp
  then show ?thesis using ab by (simp add: baseline_key_def)
next
  case False
  then have "SplitN 2 (CHR '':'') (inst @ CHR '':'' # metric) = [inst, metric]" unfolding numeral_2_eq_2 SplitN_sep [OF False] by simp
  then show ?thesis using False by (simp add: baseline_key_def)
qed

lemma persist_baseline_key:
  assumes "up (baseline_key inst metric)"
  shows "persist_baseline up clk (baseline_key inst metric, b) t =
    save_snapshot (bl_Snapshot (clk (baseline_key inst metric)) (takeWhile (\<lambda>c. c \<noteq> CHR '':'') inst) b) t"
proof (cases "CHR '':'' \<in> set inst")
  case False
  then have tw: "takeWhile (\<lambda>c. c \<noteq> CHR '':'') inst = inst" unfolding takeWhile_eq_all_conv by blast
  show ?thesis unfolding tw using assms False by (simp add: persist_baseline_def SplitN_key)
qed (use assms in \<open>simp add: persist_baseline_def SplitN_key\<close>)

text \<open>Baselines of instances whose names contain a colon are saved under the part of the name before it:
  two such instances that share it overwrite each other's snapshot, and after a restart neither finds its
  own.\<close>

theorem colon_instances_share_snapshot:
  assumes "\<forall>k. up k" "inst1 = host @ '':'' @ port1" "inst2 = host @ '':'' @ port2" "CHR '':'' \<notin> set host"
    and "bl_MetricKey b1 = metric" "bl_MetricKey b2 = metric"
  shows "fold (persist_baseline up clk) [(baseline_key inst1 metric, b1), (baseline_key inst2 metric, b2)] [] =
    [((host, metric), bl_Snapshot (clk (baseline_key inst2 metric)) host b2)] \<and> host \<noteq> inst1 \<and> host \<noteq> inst2"
proof -
  have "takeWhile (\<lambda>c. c \<noteq> CHR '':'') inst1 = host" "takeWhile (\<lambda>c. c \<noteq> CHR '':'') inst2 = host"
    using assms(2-4) by simp_all
  then show ?thesis
    using assms by (simp add: persist_baseline_key save_snapshot_def bl_Snapshot_def)
qed

lemma detect_point_safe:
  assumes "\<forall>(k, b) \<in> set (fst st). bl_shape b"
  shows "\<exists>st'. detect_point fv gn cfg p st = Some st' \<and> (\<forall>(k, b) \<in> set (fst st'). bl_shape b)"
proof (cases "map_of (fst st) (baseline_key (mp_InstanceID p) (mp_Metric p))")
  case None
  then show ?thesis using assms by (auto simp: detect_point_def)
next
  case (Some b)
  then have s: "bl_shape b" using assms by (auto dest: map_of_SomeD)
  obtain z i where z: "Score gn b (mp_Value p) = Some (z, i)" using shape_score_total [OF s] by (metis surj_pair)
  obtain b' where b': "Update b (mp_Value p) = Some b'" using Update_total [OF s] by blast
  have put: "\<forall>(k, c) \<in> set (map_put key b' m). bl_shape c" if "\<forall>(k, c) \<in> set m. bl_shape c" for key m
    using that Update_shape [OF b' s] by (induction key b' m rule: map_put.induct) auto
  show ?thesis using Some z b' put [OF assms] assms
    by (cases "Ready b"; cases "is_anomaly cfg \<bar>z\<bar> i") (simp_all add: detect_point_def Let_def)
qed

lemma detect_safe:
  "\<forall>(k, b) \<in> set (fst st). bl_shape b \<Longrightarrow> \<exists>st'. fold_opt (detect_point fv gn cfg) ps st = Some st' \<and> (\<forall>(k, b) \<in> set (fst st'). bl_shape b)"
proof (induction ps arbitrary: st)
  case (Cons p ps)
  obtain st1 where "detect_point fv gn cfg p st = Some st1" "\<forall>(k, b) \<in> set (fst st1). bl_shape b" using detect_point_safe [OF Cons.prems] by blast
  then show ?case using Cons.IH [of st1] by simp
qed simp

subsection \<open>Concrete instances\<close>

definition demo_gonum :: gonum where
  "demo_gonum = \<lparr>gn_Mean = mean_of, gn_StdDev = residualStddev, gn_Quantile = (\<lambda>q xs. xs ! nat \<lfloor>q * real (length xs)\<rfloor>)\<rparr>"

definition demo_fresh :: STLBaseline where
  "demo_fresh = the (NewSTLBaseline ''m'' 1)"

lemma demo_fresh_new: "NewSTLBaseline ''m'' 1 = Some demo_fresh"
  by (simp add: demo_fresh_def NewSTLBaseline_def Let_def)

lemma demo_fresh_reach: "stl_reach demo_fresh []"
  by (rule stl_reach.fresh [OF demo_fresh_new]) simp


theorem snapshot_keeps_scores_witness:
  "\<exists>b'. LoadFromSnapshot (bl_Snapshot 7 ''a'' demo_fresh) = Some b' \<and>
    (\<exists>c c'. fold_opt (\<lambda>v b. Update b v) [1, 2, 3] demo_fresh = Some c \<and> fold_opt (\<lambda>v b. Update b v) [1, 2, 3] b' = Some c' \<and>
      (\<forall>v. Score demo_gonum c' v = Score demo_gonum c v) \<and> residualSlice c' = residualSlice c)"
  using snapshot_keeps_scores [OF demo_fresh_reach, of 7 "''a''" "[1, 2, 3]" demo_gonum] .

definition demo_seen :: "float64 list \<Rightarrow> STLBaseline" where
  "demo_seen vs = the (fold_opt (\<lambda>v b. Update b v) vs demo_fresh)"

lemma demo_seen_Some: "fold_opt (\<lambda>v b. Update b v) vs demo_fresh = Some (demo_seen vs)"
proof -
  have "score_alike demo_fresh demo_fresh" using stl_reach_inv [OF demo_fresh_reach] by (simp add: score_alike_def)
  from score_alike_Updates [OF this, of vs] show ?thesis by (auto simp: demo_seen_def)
qed

lemma demo_seen_reach: "stl_reach (demo_seen vs) vs"
  using stl_reach_updates [OF demo_fresh_reach demo_seen_Some] by simp

lemma demo_seen_snoc: "Update (demo_seen vs) v = Some (demo_seen (vs @ [v]))"
  using demo_seen_Some [of "vs @ [v]"] demo_seen_Some [of vs] by (simp add: fold_opt_append bind_eq_Some_conv)

lemma forecast_returns: "(\<exists>pts. stl_Forecast b m z i t = Some pts) \<longleftrightarrow> bl_Period b \<le> bl_totalSeen b \<and> bl_Period b \<noteq> 0"
  by (auto simp: stl_Forecast_def Let_def)

lemma demo_forecast:
  assumes "vs \<noteq> []"
  shows "\<exists>pts. stl_Forecast (demo_seen vs) m z i t = Some pts"
proof -
  have "bl_totalSeen (demo_seen vs) = length vs" using stl_reach_inv [OF demo_seen_reach] by (simp add: bl_knows_def)
  moreover have "bl_Period (demo_seen vs) = 1"
  proof (induction vs rule: rev_induct)
    case Nil
    show ?case by (simp add: demo_seen_def demo_fresh_def NewSTLBaseline_def Let_def)
  next
    case (snoc v vs)
    from Update_fields(1) [OF demo_seen_snoc] show ?case using snoc stl_reach_inv [OF demo_seen_reach] by simp
  qed
  ultimately show ?thesis using assms by (cases vs) (auto simp: stl_Forecast_def)
qed

lemma demo_restored: "\<exists>b'. LoadFromSnapshot (bl_Snapshot now i (demo_seen vs)) = Some b' \<and> (vs \<noteq> [] \<longrightarrow> (\<exists>pts. stl_Forecast b' m z iv t = Some pts))"
proof -
  obtain b' where b': "LoadFromSnapshot (bl_Snapshot now i (demo_seen vs)) = Some b'"
    using snapshot_loads [OF demo_seen_reach] by blast
  have "vs \<noteq> [] \<longrightarrow> (\<exists>pts. stl_Forecast b' m z iv t = Some pts)"
    using restored_fields(1,3) [OF b'] stl_reach_inv [OF demo_seen_reach, of vs] demo_forecast [of vs m z iv t]
    unfolding forecast_returns by simp
  then show ?thesis using b' by blast
qed

theorem restored_forecast_shifted_witness:
  "\<exists>b' pts pts'. LoadFromSnapshot (bl_Snapshot 0 ''a'' (demo_seen [4, 6])) = Some b' \<and>
    stl_Forecast (demo_seen [4, 6]) 3 2 Second 0 = Some pts \<and> stl_Forecast b' 3 2 Second 0 = Some pts' \<and>
    mf_Value (pts' ! 0) = bl_ewma (demo_seen [4, 6]) + bl_seasonal (demo_seen [4, 6]) ! (3 mod bl_Period (demo_seen [4]))"
proof -
  obtain b' pts' where b': "LoadFromSnapshot (bl_Snapshot 0 ''a'' (demo_seen [4, 6])) = Some b'" "stl_Forecast b' 3 2 Second 0 = Some pts'"
    using demo_restored [of 0 "''a''" "[4, 6]" 3 2 Second 0] by auto
  obtain pts where pts: "stl_Forecast (demo_seen [4, 6]) 3 2 Second 0 = Some pts" using demo_forecast [of "[4, 6]" 3 2 Second 0] by auto
  have u: "Update (demo_seen [4]) 6 = Some (demo_seen [4, 6])" using demo_seen_snoc [of "[4]" 6] by simp
  show ?thesis
    using restored_forecast_shifted [OF demo_seen_reach u b'(1) pts b'(2), of 0] b' pts by (auto simp: numeral_3_eq_3)
qed

theorem forecast_doubles_level_witness:
  "\<exists>pts. stl_Forecast (demo_seen (replicate 5 10)) 3 2 Second 0 = Some pts \<and> mf_Value (pts ! 1) = 20"
proof -
  obtain pts where pts: "stl_Forecast (demo_seen (replicate 5 10)) 3 2 Second 0 = Some pts" using demo_forecast [of "replicate 5 10" 3 2 Second 0] by auto
  have "mf_Value (pts ! 1) = 2 * 10" by (rule forecast_doubles_level [OF demo_fresh_new _ _ demo_seen_Some pts]) simp_all
  then show ?thesis using pts by simp
qed

definition demo_wma :: WMAConfig where
  "demo_wma = \<lparr>wc_WindowSize = 10, wc_DecayFactor = 0.5\<rparr>"

theorem wma_online_equivalent_witness:
  "\<exists>r. WeightedMovingAverage demo_wma [0, Second, 2 * Second] [0, 10, 40] = Some r \<and> 10 \<le> wr_WeightedRate r \<and> wr_WeightedRate r \<le> 30"
proof -
  have rates: "wma_rates (wma_start (wc_WindowSize demo_wma) (length [0, Second, 2 * Second])) [0, Second, 2 * Second] [0, 10, 40] = [10, 30]"
    by (simp add: wma_rates_def wma_start_def demo_wma_def wma_rate_def Seconds_def time_sub_def List.map_filter_def upt_rec numeral_3_eq_3 Let_def)
  then obtain r where r: "WeightedMovingAverage demo_wma [0, Second, 2 * Second] [0, 10, 40] = Some r"
    by (simp add: WeightedMovingAverage_def Let_def)
  show ?thesis using wma_online_equivalent [OF r rates [symmetric]] r by simp
qed

theorem regression_least_squares_witness:
  "\<exists>r. LinearRegression [0, 1, 2] [1, 3, 5] = Some r \<and> squared_error (lr_Slope r) (lr_Intercept r) [0, 1, 2] [1, 3, 5] \<le> squared_error 2 1 [0, 1, 2] [1, 3, 5]"
proof -
  obtain r where r: "LinearRegression [0, 1, 2] [1, 3, 5] = Some r" by (simp add: LinearRegression_def Let_def)
  show ?thesis using regression_least_squares [OF r, of 2 1] r by simp
qed

theorem colon_instances_share_snapshot_witness:
  "fold (persist_baseline (\<lambda>k. True) (\<lambda>k. 0)) [(baseline_key ''db:5432'' ''m'', demo_fresh), (baseline_key ''db:5433'' ''m'', demo_fresh)] [] =
    [((''db'', ''m''), bl_Snapshot 0 ''db'' demo_fresh)]"
proof -
  have key: "bl_MetricKey demo_fresh = ''m''" by (simp add: demo_fresh_def NewSTLBaseline_def Let_def)
  show ?thesis
    using colon_instances_share_snapshot [of "\<lambda>k. True" "''db:5432''" "''db''" "''5432''" "''db:5433''" "''5433''" demo_fresh "''m''" demo_fresh "\<lambda>k. 0"] key
    by simp
qed

end
