(* ===== verification/PgMetrics.thy ===== *)
theory PgMetrics
  imports MemoryStore
begin

section \<open>Metrics in PostgreSQL (\<open>internal/storage/pgstore.go\<close>, \<open>queries.go\<close>)\<close>

text \<open>
  The second implementation of \<open>collector.MetricStore\<close>: the table \<open>metrics\<close> as the list of its rows, the
  \<open>SELECT\<close> that \<open>buildQuery\<close> puts together as a list of conditions, and what PostgreSQL makes of them.
  What the two stores have in common is the locale \<open>metric_source\<close>; the theorem at the end says how their
  answers differ.
\<close>

type_synonym metrics_table = "MetricPoint list"

text \<open>A \<open>timestamptz\<close> counts microseconds; the driver truncates.\<close>

definition micros :: "time \<Rightarrow> time" where
  "micros t = 1000 * (t div 1000)"

lemma micros_whole [simp]: "1000 dvd t \<Longrightarrow> micros t = t"
  by (auto simp: micros_def)

text \<open>\<open>LIKE\<close>: percent stands for any string, underscore for any character, backslash escapes.\<close>

fun sql_like :: "string \<Rightarrow> string \<Rightarrow> bool" where
  "sql_like [] s = (s = [])"
| "sql_like (p # ps) s =
     (if p = CHR ''%'' then sql_like ps s \<or> (case s of [] \<Rightarrow> False | c # cs \<Rightarrow> sql_like (p # ps) cs)
      else case s of [] \<Rightarrow> False
        | c # cs \<Rightarrow> if p = CHR ''_'' then sql_like ps cs
            else if p = CHR 0x5C then (case ps of [] \<Rightarrow> False | e # es \<Rightarrow> c = e \<and> sql_like es cs)
            else c = p \<and> sql_like ps cs)"

text \<open>The conditions of the statement, with their arguments.\<close>

datatype sql_cond = InstanceIs string | MetricLike string | TimeFrom time | TimeTo time | LabelsContain labels

definition buildQuery :: "MetricQuery \<Rightarrow> sql_cond list \<times> int option" where
  "buildQuery q =
     ((if mq_InstanceID q \<noteq> '''' then [InstanceIs (mq_InstanceID q)] else []) @
      (if mq_Metric q \<noteq> '''' then [MetricLike (mq_Metric q @ ''%'')] else []) @
      (if \<not> IsZero (mq_Start q) then [TimeFrom (mq_Start q)] else []) @
      (if \<not> IsZero (mq_End q) then [TimeTo (mq_End q)] else []) @
      (if mq_Labels q \<noteq> [] then [LabelsContain (mq_Labels q)] else []),
      if mq_Limit q > 0 then Some (mq_Limit q) else None)"

text \<open>Containment of JSON objects asks for the key, unlike a lookup in a Go map.\<close>

primrec row_satisfies :: "sql_cond \<Rightarrow> MetricPoint \<Rightarrow> bool" where
  "row_satisfies (InstanceIs s) p = (mp_InstanceID p = s)"
| "row_satisfies (MetricLike pat) p = sql_like pat (mp_Metric p)"
| "row_satisfies (TimeFrom t) p = (mp_Timestamp p \<ge> micros t)"
| "row_satisfies (TimeTo t) p = (mp_Timestamp p \<le> micros t)"
| "row_satisfies (LabelsContain ls) p = list_all (\<lambda>(k, v). map_of (mp_Labels p) k = Some v) ls"

definition select_rows :: "sql_cond list \<times> int option \<Rightarrow> metrics_table \<Rightarrow> MetricPoint list" where
  "select_rows stmt rows =
     (let rs = sort_slice (\<lambda>a b. mp_Timestamp a > mp_Timestamp b) (filter (\<lambda>p. list_all (\<lambda>c. row_satisfies c p) (fst stmt)) rows)
      in case snd stmt of None \<Rightarrow> rs | Some n \<Rightarrow> take (nat n) rs)"

definition pg_Query :: "metrics_table \<Rightarrow> MetricQuery \<Rightarrow> MetricPoint list" where
  "pg_Query rows q = select_rows (buildQuery q) rows"

definition stored :: "MetricPoint \<Rightarrow> MetricPoint" where
  "stored p = p\<lparr>mp_Timestamp := micros (mp_Timestamp p)\<rparr>"

definition pg_copy :: "metrics_table \<Rightarrow> MetricPoint list \<Rightarrow> metrics_table" where
  "pg_copy rows points = rows @ map stored points"

text \<open>The flag is the outcome of \<open>COPY\<close>, which is not run for an empty batch.\<close>

definition pg_Write :: "bool \<Rightarrow> metrics_table \<Rightarrow> MetricPoint list \<Rightarrow> metrics_table option" where
  "pg_Write up rows points = (if points = [] then Some rows else if up then Some (pg_copy rows points) else None)"

subsection \<open>Aggregates\<close>

text \<open>\<open>stddev_samp\<close> of a single row is \<open>NULL\<close>, which the code reads as zero.\<close>

definition stddev_samp :: "float64 list \<Rightarrow> float64 option" where
  "stddev_samp vs = (if length vs \<le> 1 then None
     else Some (sqrt (sum_list (map (\<lambda>v. (v - sum_list vs / real (length vs))\<^sup>2) vs) / real (length vs - 1))))"

definition pg_group_stats :: "float64 list \<Rightarrow> MetricStats" where
  "pg_group_stats vs =
     \<lparr>st_Mean = sum_list vs / real (length vs), st_StdDev = (case stddev_samp vs of None \<Rightarrow> 0 | Some s \<Rightarrow> s),
      st_Min = Min (set vs), st_Max = Max (set vs), st_Count = length vs\<rparr>"

definition pg_GetMetricStats :: "metrics_table \<Rightarrow> string \<Rightarrow> string list \<Rightarrow> time \<Rightarrow> time \<Rightarrow> (string, MetricStats) gomap" where
  "pg_GetMetricStats rows instanceID ks from to =
     (let rs = filter (\<lambda>p. mp_InstanceID p = instanceID \<and> mp_Metric p \<in> set ks \<and> micros from \<le> mp_Timestamp p \<and> mp_Timestamp p \<le> micros to) rows
      in map (\<lambda>metric. (metric, pg_group_stats (map mp_Value (filter (\<lambda>p. mp_Metric p = metric) rs)))) (remdups (map mp_Metric rs)))"

text \<open>\<open>DISTINCT ON (metric) ... ORDER BY metric, time DESC\<close>: the latest row of each metric.\<close>

definition latest_row :: "MetricPoint list \<Rightarrow> string \<Rightarrow> MetricPoint" where
  "latest_row rs metric = hd (sort_slice (\<lambda>a b. mp_Timestamp a > mp_Timestamp b) (filter (\<lambda>p. mp_Metric p = metric) rs))"

definition instance_rows :: "metrics_table \<Rightarrow> string \<Rightarrow> MetricPoint list" where
  "instance_rows rows instanceID = filter (\<lambda>p. mp_InstanceID p = instanceID) rows"

definition CurrentMetricValues :: "metrics_table \<Rightarrow> string \<Rightarrow> (string, float64) gomap" where
  "CurrentMetricValues rows instanceID =
     (let rs = instance_rows rows instanceID in map (\<lambda>m. (m, mp_Value (latest_row rs m))) (remdups (map mp_Metric rs)))"

definition CurrentMetrics :: "metrics_table \<Rightarrow> string \<Rightarrow> time \<times> (string, float64 \<times> labels) gomap" where
  "CurrentMetrics rows instanceID =
     (let rs = instance_rows rows instanceID; latest = map (latest_row rs) (remdups (map mp_Metric rs))
      in (fold (\<lambda>p t. if mp_Timestamp p > t then mp_Timestamp p else t) latest zero_time,
          map (\<lambda>p. (mp_Metric p, (mp_Value p, mp_Labels p))) latest))"

text \<open>Raw history: at most a thousand rows per requested metric, in the order of metric and time.\<close>

definition history_before :: "MetricPoint \<Rightarrow> MetricPoint \<Rightarrow> bool" where
  "history_before a b \<longleftrightarrow> mp_Metric a < mp_Metric b \<or> mp_Metric a = mp_Metric b \<and> mp_Timestamp a < mp_Timestamp b"

definition HistoryMetrics_raw :: "metrics_table \<Rightarrow> string \<Rightarrow> string list \<Rightarrow> time \<Rightarrow> time \<Rightarrow> (string, (time \<times> float64) list) gomap" where
  "HistoryMetrics_raw rows instanceID ms from to =
     (let rs = sort_slice history_before (filter (\<lambda>p. mp_InstanceID p = instanceID \<and> mp_Metric p \<in> set ms \<and>
                  micros from \<le> mp_Timestamp p \<and> mp_Timestamp p \<le> micros to) rows)
      in fold (\<lambda>p s. map_put (mp_Metric p) (map_get [] s (mp_Metric p) @ [(mp_Timestamp p, mp_Value p)]) s)
           (take (1000 * length ms) rs) (fold (\<lambda>m s. map_put m [] s) ms []))"

subsection \<open>What the pattern selects\<close>

lemma sql_like_percent [simp]: "sql_like ''%'' s"
  by (induction s) auto

lemma sql_like_prefix:
  assumes "CHR ''%'' \<notin> set m" "CHR ''_'' \<notin> set m" "CHR 0x5C \<notin> set m"
  shows "sql_like (m @ ''%'') s \<longleftrightarrow> HasPrefix s m"
  using assms
proof (induction m arbitrary: s)
  case (Cons c m)
  then show ?case by (cases s) (auto simp: HasPrefix_def)
qed (simp add: HasPrefix_def del: sql_like.simps)

lemma sql_like_self: "CHR 0x5C \<notin> set m \<Longrightarrow> sql_like (m @ ''%'') m"
  by (induction m) auto

subsection \<open>The contract both stores keep\<close>

text \<open>
  A source answers a query with the points it selects, in some order; \<open>sel\<close> is the selection of the
  implementation.
\<close>

locale metric_source =
  fixes ok :: "'s \<Rightarrow> bool"
    and okp :: "MetricPoint \<Rightarrow> bool"
    and okq :: "MetricQuery \<Rightarrow> bool"
    and contents :: "'s \<Rightarrow> MetricPoint multiset"
    and put :: "'s \<Rightarrow> MetricPoint list \<Rightarrow> 's"
    and query :: "'s \<Rightarrow> MetricQuery \<Rightarrow> MetricPoint list"
    and sel :: "MetricQuery \<Rightarrow> MetricPoint \<Rightarrow> bool"
  assumes source_ok_put: "ok s \<Longrightarrow> list_all okp ps \<Longrightarrow> ok (put s ps)"
    and source_contents_put: "ok s \<Longrightarrow> list_all okp ps \<Longrightarrow> contents (put s ps) = contents s + mset ps"
    and source_query: "ok s \<Longrightarrow> okq q \<Longrightarrow> mq_Limit q \<le> 0 \<Longrightarrow> mset (query s q) = filter_mset (sel q) (contents s)"
begin

lemma source_set: "ok s \<Longrightarrow> okq q \<Longrightarrow> mq_Limit q \<le> 0 \<Longrightarrow> p \<in> set (query s q) \<longleftrightarrow> p \<in># contents s \<and> sel q p"
  using arg_cong [where f = set_mset, OF source_query [of s q]] by auto

lemma source_empty: "ok s \<Longrightarrow> okq q \<Longrightarrow> mq_Limit q \<le> 0 \<Longrightarrow> (\<And>p. p \<in># contents s \<Longrightarrow> \<not> sel q p) \<Longrightarrow> query s q = []"
  using source_set [of s q "hd (query s q)"] by (cases "query s q") auto

lemma source_put_query:
  assumes "ok s" "list_all okp ps" "okq q" "mq_Limit q \<le> 0"
  shows "mset (query (put s ps) q) = mset (query s q) + filter_mset (sel q) (mset ps)"
  using assms by (simp add: source_query source_ok_put source_contents_put)

end

sublocale metric_store \<subseteq> source: metric_source ok okp okq contents put query matches
  by unfold_locales (simp_all add: ok_put contents_put query_unlimited)

definition pg_selects :: "MetricQuery \<Rightarrow> MetricPoint \<Rightarrow> bool" where
  "pg_selects q p \<longleftrightarrow> list_all (\<lambda>c. row_satisfies c p) (fst (buildQuery q))"

definition whole_micros :: "MetricPoint \<Rightarrow> bool" where
  "whole_micros p \<longleftrightarrow> 1000 dvd mp_Timestamp p"

lemma stored_whole [simp]: "whole_micros p \<Longrightarrow> stored p = p" "whole_micros (stored p)"
  by (simp_all add: whole_micros_def stored_def micros_def)

lemma pg_Query_limit: "pg_Query rows q = (if mq_Limit q > 0 then take (nat (mq_Limit q)) (pg_Query rows (q\<lparr>mq_Limit := 0\<rparr>)) else pg_Query rows (q\<lparr>mq_Limit := 0\<rparr>))"
  by (simp add: pg_Query_def select_rows_def buildQuery_def)

lemma pg_Query_unlimited:
  "mq_Limit q \<le> 0 \<Longrightarrow> pg_Query rows q = sort_slice (\<lambda>a b. mp_Timestamp a > mp_Timestamp b) (filter (pg_selects q) rows)"
  by (simp add: pg_Query_def select_rows_def buildQuery_def pg_selects_def [abs_def])

interpretation pgm: metric_source "list_all whole_micros" whole_micros "\<lambda>q. True" mset pg_copy pg_Query pg_selects
proof unfold_locales
  fix rows ps q
  show "list_all whole_micros rows \<Longrightarrow> list_all whole_micros ps \<Longrightarrow> list_all whole_micros (pg_copy rows ps)"
    by (auto simp: pg_copy_def list_all_iff)
  show "list_all whole_micros ps \<Longrightarrow> mset (pg_copy rows ps) = mset rows + mset ps"
    unfolding pg_copy_def by (induction ps) auto
  show "mq_Limit q \<le> 0 \<Longrightarrow> mset (pg_Query rows q) = filter_mset (pg_selects q) (mset rows)"
    by (simp add: pg_Query_unlimited mset_filter)
qed

subsection \<open>The two stores compared\<close>

text \<open>Where the selections of the two stores agree.\<close>

definition exact_query :: "metrics_table \<Rightarrow> MetricQuery \<Rightarrow> bool" where
  "exact_query rows q \<longleftrightarrow>
     1000 dvd mq_Start q \<and> 1000 dvd mq_End q \<and> CHR 0x5C \<notin> set (mq_Metric q) \<and>
     list_all (\<lambda>p. sql_like (mq_Metric q @ ''%'') (mp_Metric p) \<longrightarrow> mq_Metric q = '''' \<or> mp_Metric p = mq_Metric q) rows \<and>
     list_all (\<lambda>(k, v). v \<noteq> '''') (mq_Labels q)"

lemma label_get_contains: "v \<noteq> '''' \<Longrightarrow> label_get ls k = v \<longleftrightarrow> map_of ls k = Some v"
  by (auto simp: map_get_def split: option.splits)

lemma exact_selects:
  assumes "exact_query rows q" "p \<in> set rows"
  shows "pg_selects q p \<longleftrightarrow> matches q p"
proof -
  have like: "mq_Metric q \<noteq> '''' \<Longrightarrow> sql_like (mq_Metric q @ ''%'') (mp_Metric p) \<longleftrightarrow> mp_Metric p = mq_Metric q"
    using assms sql_like_self [of "mq_Metric q"] by (auto simp: exact_query_def list_all_iff)
  have "list_all (\<lambda>(k, v). map_of (mp_Labels p) k = Some v) (mq_Labels q) \<longleftrightarrow> matchLabels (mp_Labels p) (mq_Labels q)"
    unfolding matchLabels_def using assms(1)
    by (intro list.pred_cong) (use label_get_contains in \<open>fastforce simp: exact_query_def list_all_iff\<close>)+
  then show ?thesis using assms(1) like
    by (auto simp: pg_selects_def buildQuery_def matches_def in_range_def exact_query_def)
qed

lemma sorted_unique_key:
  assumes "mset xs = mset ys" "distinct (map f xs)" "sorted (map f xs)" "sorted_wrt (\<ge>) (map f ys)"
  shows "ys = rev xs"
proof -
  have inj: "inj_on f (set xs)" using assms(2) by (simp add: distinct_map)
  have "sorted (map f (rev ys))" using assms(4) by (simp add: rev_map [symmetric] sorted_wrt_rev)
  then have "sort_key f xs = rev ys" using assms(1) inj by (intro sort_key_inj_key_eq) auto
  moreover have "sort_key f xs = xs" using assms(3) inj by (intro sort_key_inj_key_eq) auto
  ultimately show ?thesis by simp
qed

lemma take_rev_limit: "n > 0 \<Longrightarrow> take (nat n) (rev xs) = rev (limit_last n xs)"
  by (auto simp: limit_last_def take_rev)

lemma fold_min_Min: "vs \<noteq> [] \<Longrightarrow> fold (\<lambda>v m. if v < m then v else m) vs (hd vs) = Min (set (vs :: real list))"
proof (rule sym, rule Min_eqI)
  assume "vs \<noteq> []"
  have "fold (\<lambda>v m. if v < m then v else m) xs a \<in> insert a (set (xs :: real list))" for xs a
    by (induction xs arbitrary: a) auto
  from this [of vs "hd vs"] show "fold (\<lambda>v m. if v < m then v else m) vs (hd vs) \<in> set vs"
    unfolding insert_absorb [OF hd_in_set [OF \<open>vs \<noteq> []\<close>]] .
qed (auto intro: fold_min_le_elem)

lemma fold_max_Max: "vs \<noteq> [] \<Longrightarrow> fold (\<lambda>v m. if v > m then v else m) vs (hd vs) = Max (set (vs :: real list))"
proof (rule sym, rule Max_eqI)
  assume "vs \<noteq> []"
  have "fold (\<lambda>v m. if v > m then v else m) xs a \<in> insert a (set (xs :: real list))" for xs a
    by (induction xs arbitrary: a) auto
  from this [of vs "hd vs"] show "fold (\<lambda>v m. if v > m then v else m) vs (hd vs) \<in> set vs"
    unfolding insert_absorb [OF hd_in_set [OF \<open>vs \<noteq> []\<close>]] .
qed (auto intro: fold_max_ge_elem)

lemma variance_sum_list: "variance_sum mean vs = sum_list (map (\<lambda>v. (v - mean)\<^sup>2) vs)"
proof -
  have "fold (\<lambda>v acc. acc + (v - mean) * (v - mean)) vs a = a + sum_list (map (\<lambda>v. (v - mean)\<^sup>2) vs)" for a
    by (induction vs arbitrary: a) (auto simp: power2_eq_square)
  then show ?thesis by (simp add: variance_sum_def)
qed

lemma pg_group_stats_eq: "vs \<noteq> [] \<Longrightarrow> pg_group_stats vs = stats_of vs"
  by (simp add: pg_group_stats_def stats_of_def stddev_samp_def Let_def fold_add_sum fold_min_Min fold_max_Max variance_sum_list)


text \<open>What the two stores make of a name that another one extends.\<close>

lemma stores_disagree_on_names:
  "(let p = \<lparr>mp_InstanceID = ''a'', mp_Metric = ''pg.replication.lag_bytes'', mp_Value = 1, mp_Labels = [], mp_Timestamp = 0\<rparr>;
        q = empty_query\<lparr>mq_Metric := ''pg.replication.lag''\<rparr>
    in pg_Query [p] q = [p] \<and> Query (Write (NewMemoryStore 100) [p]) q = [])"
  by code_simp


end
