(* ===== verification/ForecastTracker.thy ===== *)
theory ForecastTracker
  imports MlLaws PgMetrics
begin

section \<open>Tracking maintenance operations (\<open>internal/forecast/tracker.go\<close>, \<open>eta.go\<close>)\<close>

text \<open>
  The operation tracker polls progress metrics and notices when operations start and end; the calculator
  estimates when they will be done. A store of metrics is the function that answers a query (\<open>None\<close> is an
  error), the text of a session's query comes from an optional connection provider.
\<close>

subsection \<open>Data\<close>

record ProgressSample =
  ps_Timestamp :: time
  ps_WorkDone :: float64
  ps_WorkTotal :: float64
  ps_PctDone :: float64

record TrackedOperation =
  to_InstanceID :: string
  to_PID :: int
  to_Operation :: string
  to_Database :: string
  to_Table :: string
  to_StartedAt :: time
  to_LastSeenAt :: time
  to_MissedPolls :: nat
  to_Samples :: "ProgressSample list"

record MaintenanceOperation =
  mo_InstanceID :: string
  mo_Operation :: string
  mo_Outcome :: string
  mo_Database :: string
  mo_Table :: string
  mo_StartedAt :: time
  mo_CompletedAt :: time
  mo_DurationSec :: float64
  mo_FinalPct :: float64
  mo_AvgRatePerSec :: float64

record currentOp =
  co_instanceID :: string
  co_pid :: int
  co_opType :: string
  co_database :: string
  co_table :: string
  co_pctDone :: float64
  co_workDone :: float64
  co_timestamp :: time

definition operationMetrics :: "(string \<times> string \<times> string) list" where
  "operationMetrics =
     [(''vacuum'', ''progress.vacuum.completion_pct'', ''progress.vacuum.heap_blks_vacuumed''),
      (''analyze'', ''progress.analyze.completion_pct'', ''progress.analyze.sample_blks_scanned''),
      (''create_index'', ''progress.create_index.completion_pct'', ''progress.create_index.blocks_done''),
      (''basebackup'', ''progress.basebackup.completion_pct'', ''progress.basebackup.backup_streamed'')]"

record OperationTracker =
  tr_pollInterval :: duration
  tr_windowSize :: int
  tr_activeOps :: "(string, TrackedOperation) gomap"

definition NewOperationTracker :: "duration \<Rightarrow> int \<Rightarrow> OperationTracker" where
  "NewOperationTracker pollInterval windowSize =
     \<lparr>tr_pollInterval = (if pollInterval = 0 then 15 * Second else pollInterval),
      tr_windowSize = (if windowSize = 0 then 10 else windowSize), tr_activeOps = []\<rparr>"

definition GetActiveOps :: "OperationTracker \<Rightarrow> string \<Rightarrow> TrackedOperation list" where
  "GetActiveOps t instanceID = filter (\<lambda>op. to_InstanceID op = instanceID) (map snd (tr_activeOps t))"

subsection \<open>One poll\<close>

text \<open>Every digit counts, everything else is skipped.\<close>

definition atoi :: "string \<Rightarrow> int" where
  "atoi s = fold (\<lambda>c n. case digit_val c of None \<Rightarrow> n | Some d \<Rightarrow> wrap64 (n * 10 + d)) s 0"

text \<open>The slice is shortened from the front at capacity. (A negative capacity would panic on the empty slice;
  the configured one is positive.)\<close>

definition appendSample :: "int \<Rightarrow> ProgressSample \<Rightarrow> TrackedOperation \<Rightarrow> TrackedOperation" where
  "appendSample maxSize sample op =
     op\<lparr>to_Samples := (if int (length (to_Samples op)) \<ge> maxSize then tl (to_Samples op) else to_Samples op) @ [sample]\<rparr>"

definition to_upper :: "char \<Rightarrow> char" where
  "to_upper c = (if CHR ''a'' \<le> c \<and> c \<le> CHR ''z'' then char_of (of_char c - 32 :: nat) else c)"

fun Contains :: "string \<Rightarrow> string \<Rightarrow> bool" where
  "Contains [] sub = (sub = [])"
| "Contains (c # cs) sub = (HasPrefix (c # cs) sub \<or> Contains cs sub)"

type_synonym conn_provider = "string \<Rightarrow> int \<Rightarrow> string option"

definition identifyReindex :: "conn_provider option \<Rightarrow> string \<Rightarrow> int \<Rightarrow> bool" where
  "identifyReindex connProv instanceID pid =
     (case connProv of None \<Rightarrow> False
      | Some conn \<Rightarrow> (case conn instanceID pid of None \<Rightarrow> False | Some queryText \<Rightarrow> Contains (map to_upper queryText) ''REINDEX''))"

definition progress_query :: "OperationTracker \<Rightarrow> time \<Rightarrow> string \<Rightarrow> MetricQuery" where
  "progress_query t now metric = empty_query\<lparr>mq_Metric := metric, mq_Start := now - 2 * tr_pollInterval t, mq_End := now\<rparr>"

definition work_by_key :: "MetricPoint list \<Rightarrow> (string, float64) gomap" where
  "work_by_key workPoints = fold (\<lambda>wp m. map_put (mp_InstanceID wp @ '':'' @ label_get (mp_Labels wp) ''pid'') (mp_Value wp) m) workPoints []"

definition op_key :: "string \<Rightarrow> string \<Rightarrow> string \<Rightarrow> string" where
  "op_key instanceID pid opType = instanceID @ '':'' @ pid @ '':'' @ opType"

definition current_point :: "string \<Rightarrow> (string, float64) gomap \<Rightarrow> MetricPoint \<Rightarrow> (string, currentOp) gomap \<Rightarrow> (string, currentOp) gomap" where
  "current_point opType work p ops =
     (let pid = label_get (mp_Labels p) ''pid'' in
      if pid = '''' then ops
      else map_put (op_key (mp_InstanceID p) pid opType)
             \<lparr>co_instanceID = mp_InstanceID p, co_pid = atoi pid, co_opType = opType, co_database = label_get (mp_Labels p) ''datname'',
              co_table = label_get (mp_Labels p) ''relname'', co_pctDone = mp_Value p, co_workDone = map_get 0 work (mp_InstanceID p @ '':'' @ pid),
              co_timestamp = mp_Timestamp p\<rparr> ops)"

definition current_ops :: "OperationTracker \<Rightarrow> time \<Rightarrow> (MetricQuery \<Rightarrow> MetricPoint list option) \<Rightarrow> (string, currentOp) gomap" where
  "current_ops t now query =
     fold (\<lambda>(opType, completion, work) ops.
        case query (progress_query t now completion) of None \<Rightarrow> ops
        | Some points \<Rightarrow>
            let w = work_by_key (case query (progress_query t now work) of None \<Rightarrow> [] | Some ps \<Rightarrow> ps)
            in fold (current_point opType w) points ops)
       operationMetrics []"

definition sample_of :: "currentOp \<Rightarrow> ProgressSample" where
  "sample_of cop = \<lparr>ps_Timestamp = co_timestamp cop, ps_WorkDone = co_workDone cop, ps_WorkTotal = 0, ps_PctDone = co_pctDone cop\<rparr>"

definition start_op :: "int \<Rightarrow> string \<Rightarrow> currentOp \<Rightarrow> TrackedOperation" where
  "start_op windowSize actualOp cop =
     appendSample windowSize (sample_of cop)
       \<lparr>to_InstanceID = co_instanceID cop, to_PID = co_pid cop, to_Operation = actualOp, to_Database = co_database cop, to_Table = co_table cop,
        to_StartedAt = co_timestamp cop, to_LastSeenAt = co_timestamp cop, to_MissedPolls = 0, to_Samples = []\<rparr>"

definition observe :: "conn_provider option \<Rightarrow> int \<Rightarrow> string \<times> currentOp \<Rightarrow> (string, TrackedOperation) gomap \<Rightarrow> (string, TrackedOperation) gomap" where
  "observe conn windowSize kc active =
     (let key = fst kc; cop = snd kc in
      case map_of active key of
        Some existing \<Rightarrow> map_put key (appendSample windowSize (sample_of cop) (existing\<lparr>to_MissedPolls := 0, to_LastSeenAt := co_timestamp cop\<rparr>)) active
      | None \<Rightarrow>
          if co_opType cop = ''create_index'' then
            (if \<not> identifyReindex conn (co_instanceID cop) (co_pid cop) then active
             else map_put key (start_op windowSize ''reindex_concurrent'' cop) active)
          else map_put key (start_op windowSize (co_opType cop) cop) active)"

definition classifyOutcome :: "TrackedOperation \<Rightarrow> string" where
  "classifyOutcome op =
     (if to_Samples op = [] then ''unknown''
      else if ps_PctDone (last (to_Samples op)) \<ge> 99 then ''completed''
      else if Seconds (time_sub (to_LastSeenAt op) (to_StartedAt op)) > 2 then ''disappeared''
      else ''unknown'')"

definition finalizeOp :: "time \<Rightarrow> TrackedOperation \<Rightarrow> string \<Rightarrow> MaintenanceOperation" where
  "finalizeOp now op outcome =
     (let dur = Seconds (time_sub (to_LastSeenAt op) (to_StartedAt op)); samples = to_Samples op in
      \<lparr>mo_InstanceID = to_InstanceID op, mo_Operation = to_Operation op, mo_Outcome = outcome, mo_Database = to_Database op, mo_Table = to_Table op,
       mo_StartedAt = to_StartedAt op, mo_CompletedAt = now, mo_DurationSec = dur,
       mo_FinalPct = (if samples = [] then 0 else ps_PctDone (last samples)),
       mo_AvgRatePerSec = (if samples \<noteq> [] \<and> dur > 0 then (ps_WorkDone (last samples) - ps_WorkDone (hd samples)) / dur else 0)\<rparr>)"

text \<open>The debounce: an operation missing from one poll is kept, from two is finalised. The clock of \<open>finalizeOp\<close> is
  read per operation; what the store made of the record is only logged.\<close>

definition missed :: "(string \<Rightarrow> time) \<Rightarrow> (string, currentOp) gomap \<Rightarrow> string \<times> TrackedOperation \<Rightarrow> (string \<times> TrackedOperation) option \<times> MaintenanceOperation option" where
  "missed clk current ko =
     (let op = (snd ko)\<lparr>to_MissedPolls := to_MissedPolls (snd ko) + 1\<rparr> in
      if fst ko \<in> set (keys_of current) then (Some ko, None)
      else if to_MissedPolls op < 2 then (Some (fst ko, op), None)
      else (None, Some (finalizeOp (clk (fst ko)) op (classifyOutcome op))))"

definition tick :: "time \<Rightarrow> (string \<Rightarrow> time) \<Rightarrow> (MetricQuery \<Rightarrow> MetricPoint list option) \<Rightarrow> conn_provider option \<Rightarrow> OperationTracker
    \<Rightarrow> OperationTracker \<times> MaintenanceOperation list" where
  "tick now clk query conn t =
     (let current = current_ops t now query;
          active = fold (observe conn (tr_windowSize t)) current (tr_activeOps t);
          swept = map (missed clk current) active
      in (t\<lparr>tr_activeOps := List.map_filter fst swept\<rparr>, List.map_filter snd swept))"

definition flushAll :: "(string \<Rightarrow> time) \<Rightarrow> string \<Rightarrow> OperationTracker \<Rightarrow> OperationTracker \<times> MaintenanceOperation list" where
  "flushAll clk outcome t = (t\<lparr>tr_activeOps := []\<rparr>, map (\<lambda>(key, op). finalizeOp (clk key) op outcome) (tr_activeOps t))"

subsection \<open>Estimates of the time left\<close>

record OperationETA =
  eta_InstanceID :: string
  eta_PID :: int
  eta_Operation :: string
  eta_PercentDone :: float64
  eta_ElapsedSec :: float64
  eta_ETASec :: float64
  eta_ETAAt :: time
  eta_RateCurrent :: float64
  eta_Confidence :: string
  eta_SampleCount :: nat

record ETACalculator =
  ec_wmaCfg :: WMAConfig
  ec_minSamples :: int

definition NewETACalculator :: "int \<Rightarrow> float64 \<Rightarrow> int \<Rightarrow> ETACalculator" where
  "NewETACalculator windowSize decayFactor minSamples =
     \<lparr>ec_wmaCfg = \<lparr>wc_WindowSize = windowSize, wc_DecayFactor = decayFactor\<rparr>, ec_minSamples = (if minSamples = 0 then 4 else minSamples)\<rparr>"

definition classifyConfidence :: "nat \<Rightarrow> string" where
  "classifyConfidence sampleCount = (if sampleCount \<ge> 8 then ''high'' else ''medium'')"

text \<open>The conversion of a float to a duration truncates.\<close>

definition to_duration :: "float64 \<Rightarrow> duration" where
  "to_duration sec = (let x = sec * real_of_int Second in if x \<ge> 0 then \<lfloor>x\<rfloor> else \<lceil>x\<rceil>)"

definition eta_base :: "TrackedOperation \<Rightarrow> time \<Rightarrow> OperationETA" where
  "eta_base op now =
     \<lparr>eta_InstanceID = to_InstanceID op, eta_PID = to_PID op, eta_Operation = to_Operation op,
      eta_PercentDone = (if to_Samples op = [] then 0 else ps_PctDone (last (to_Samples op))),
      eta_ElapsedSec = Seconds (time_sub now (to_StartedAt op)), eta_ETASec = 0, eta_ETAAt = zero_time, eta_RateCurrent = 0, eta_Confidence = '''',
      eta_SampleCount = length (to_Samples op)\<rparr>"

definition remaining_work :: "ProgressSample \<Rightarrow> float64" where
  "remaining_work s =
     (let remaining = ps_WorkTotal s - ps_WorkDone s; pctDone = ps_PctDone s in
      if remaining \<le> 0 \<and> pctDone < 100 \<and> pctDone > 0 then ps_WorkDone s * (100 - pctDone) / pctDone else remaining)"

definition computeOne :: "ETACalculator \<Rightarrow> TrackedOperation \<Rightarrow> time \<Rightarrow> OperationETA" where
  "computeOne c op now =
     (let base = eta_base op now; samples = to_Samples op in
      if int (length samples) < ec_minSamples c then base\<lparr>eta_ETASec := -1, eta_Confidence := ''estimating''\<rparr>
      else case WeightedMovingAverage (ec_wmaCfg c) (map ps_Timestamp samples) (map ps_WorkDone samples) of
        None \<Rightarrow> base\<lparr>eta_ETASec := -1, eta_Confidence := ''estimating''\<rparr>
      | Some wma \<Rightarrow>
          if wr_WeightedRate wma \<le> 0 then base\<lparr>eta_ETASec := -1, eta_Confidence := ''stalled'', eta_RateCurrent := wr_WeightedRate wma\<rparr>
          else let etaSec = remaining_work (last samples) / wr_WeightedRate wma in
            base\<lparr>eta_ETASec := etaSec, eta_ETAAt := now + to_duration etaSec, eta_RateCurrent := wr_WeightedRate wma,
                 eta_Confidence := classifyConfidence (wr_SampleCount wma)\<rparr>)"

definition ComputeAll :: "ETACalculator \<Rightarrow> OperationTracker \<Rightarrow> string \<Rightarrow> time \<Rightarrow> OperationETA list" where
  "ComputeAll c t instanceID now = map (\<lambda>op. computeOne c op now) (GetActiveOps t instanceID)"

definition ComputeByPID :: "ETACalculator \<Rightarrow> OperationTracker \<Rightarrow> string \<Rightarrow> int \<Rightarrow> time \<Rightarrow> OperationETA option" where
  "ComputeByPID c t instanceID pid now = map_option (\<lambda>op. computeOne c op now) (find (\<lambda>op. to_PID op = pid) (GetActiveOps t instanceID))"

end
