(* ===== verification/ForecastNeeds.thy ===== *)
theory ForecastNeeds
  imports ForecastTracker TextPrelude
begin

section \<open>Predicting maintenance needs (\<open>internal/forecast\<close>, \<open>internal/api/forecast_maint.go\<close>)\<close>

text \<open>
  The thresholds of autovacuum per table (\<open>threshold.go\<close>), the evaluator that projects when they will be
  crossed (\<open>evaluator.go\<close>), the tables of operations and forecasts (\<open>pgstore.go\<close>), the defaults of the
  configuration and the handlers that list the results.
\<close>

subsection \<open>Configuration\<close>

record MaintenanceForecastConfig =
  fc_ETAWindowSize :: int
  fc_ETADecayFactor :: float64
  fc_ETAMinSamples :: int
  fc_EvaluationInterval :: duration
  fc_MinDataPoints :: int
  fc_LookbackWindow :: duration
  fc_VacuumThresholdFallback :: int
  fc_VacuumScaleFactorFallback :: float64
  fc_AnalyzeThresholdFallback :: int
  fc_AnalyzeScaleFactorFallback :: float64
  fc_ReindexBloatThresholdTable :: float64
  fc_ReindexBloatThresholdIndex :: float64
  fc_BasebackupInterval :: duration
  fc_RetentionDays :: int

definition or_default :: "'a::zero \<Rightarrow> 'a \<Rightarrow> 'a" where
  "or_default x d = (if x = 0 then d else x)"

definition ApplyDefaults :: "MaintenanceForecastConfig \<Rightarrow> MaintenanceForecastConfig" where
  "ApplyDefaults c =
     c\<lparr>fc_ETAWindowSize := or_default (fc_ETAWindowSize c) 10, fc_ETADecayFactor := or_default (fc_ETADecayFactor c) 0.85,
       fc_ETAMinSamples := or_default (fc_ETAMinSamples c) 4, fc_EvaluationInterval := or_default (fc_EvaluationInterval c) (5 * Minute),
       fc_MinDataPoints := or_default (fc_MinDataPoints c) 3, fc_LookbackWindow := or_default (fc_LookbackWindow c) (24 * Hour),
       fc_VacuumThresholdFallback := or_default (fc_VacuumThresholdFallback c) 50,
       fc_VacuumScaleFactorFallback := or_default (fc_VacuumScaleFactorFallback c) 0.2,
       fc_AnalyzeThresholdFallback := or_default (fc_AnalyzeThresholdFallback c) 50,
       fc_AnalyzeScaleFactorFallback := or_default (fc_AnalyzeScaleFactorFallback c) 0.1,
       fc_ReindexBloatThresholdTable := or_default (fc_ReindexBloatThresholdTable c) 0.4,
       fc_ReindexBloatThresholdIndex := or_default (fc_ReindexBloatThresholdIndex c) 0.3,
       fc_RetentionDays := or_default (fc_RetentionDays c) 90\<rparr>"

subsection \<open>Thresholds\<close>

record TableThresholds =
  tt_Database :: string
  tt_Schema :: string
  tt_Table :: string
  tt_RelTuples :: int
  tt_AutovacuumEnabled :: bool
  tt_VacuumThreshold :: int
  tt_VacuumScaleFactor :: float64
  tt_AnalyzeThreshold :: int
  tt_AnalyzeScaleFactor :: float64
  tt_EffectiveVacuumLimit :: float64
  tt_EffectiveAnalyzeLimit :: float64

record autovacuum_settings =
  av_vacThreshold :: int
  av_vacScale :: float64
  av_anThreshold :: int
  av_anScale :: float64
  av_enabled :: bool

definition parsed_or :: "'a option \<Rightarrow> 'a \<Rightarrow> 'a" where
  "parsed_or x d = (case x of None \<Rightarrow> d | Some v \<Rightarrow> v)"

definition fallback_settings :: "MaintenanceForecastConfig \<Rightarrow> autovacuum_settings" where
  "fallback_settings cfg =
     \<lparr>av_vacThreshold = fc_VacuumThresholdFallback cfg, av_vacScale = fc_VacuumScaleFactorFallback cfg,
      av_anThreshold = fc_AnalyzeThresholdFallback cfg, av_anScale = fc_AnalyzeScaleFactorFallback cfg, av_enabled = True\<rparr>"

definition global_setting :: "string \<times> string \<Rightarrow> autovacuum_settings \<Rightarrow> autovacuum_settings" where
  "global_setting row g =
     (let name = fst row; setting = snd row in
      if name = ''autovacuum_vacuum_threshold'' then g\<lparr>av_vacThreshold := parsed_or (ParseInt setting) (av_vacThreshold g)\<rparr>
      else if name = ''autovacuum_vacuum_scale_factor'' then g\<lparr>av_vacScale := parsed_or (parse_float setting) (av_vacScale g)\<rparr>
      else if name = ''autovacuum_analyze_threshold'' then g\<lparr>av_anThreshold := parsed_or (ParseInt setting) (av_anThreshold g)\<rparr>
      else if name = ''autovacuum_analyze_scale_factor'' then g\<lparr>av_anScale := parsed_or (parse_float setting) (av_anScale g)\<rparr>
      else if name = ''autovacuum'' then g\<lparr>av_enabled := (setting = ''on'')\<rparr>
      else g)"

definition parseReloptions :: "string list \<Rightarrow> (string, string) gomap" where
  "parseReloptions opts =
     fold (\<lambda>opt m. let parts = SplitN 2 (CHR ''='') opt in
             if length parts = 2 \<and> HasPrefix (parts ! 0) ''autovacuum'' then map_put (parts ! 0) (parts ! 1) m else m) opts []"

definition override :: "(string, string) gomap \<Rightarrow> string \<Rightarrow> (string \<Rightarrow> 'a option) \<Rightarrow> 'a \<Rightarrow> 'a" where
  "override m key parse d = (case map_of m key of None \<Rightarrow> d | Some v \<Rightarrow> parsed_or (parse v) d)"

text \<open>A row of the catalogue query: schema, table, database, number of tuples, options.\<close>

definition table_thresholds :: "autovacuum_settings \<Rightarrow> string \<times> string \<times> string \<times> int \<times> string list \<Rightarrow> TableThresholds" where
  "table_thresholds g row =
     (let (schema, tbl, db, tuples, reloptions) = row;
          overrides = parseReloptions reloptions;
          avEnabled = override overrides ''autovacuum_enabled'' (\<lambda>v. Some (v = ''true'' \<or> v = ''on'')) (av_enabled g);
          vacThreshold = override overrides ''autovacuum_vacuum_threshold'' ParseInt (av_vacThreshold g);
          vacScale = override overrides ''autovacuum_vacuum_scale_factor'' parse_float (av_vacScale g);
          anThreshold = override overrides ''autovacuum_analyze_threshold'' ParseInt (av_anThreshold g);
          anScale = override overrides ''autovacuum_analyze_scale_factor'' parse_float (av_anScale g);
          relTuples = (if tuples < 0 then 0 else tuples)
      in \<lparr>tt_Database = db, tt_Schema = schema, tt_Table = tbl, tt_RelTuples = relTuples, tt_AutovacuumEnabled = avEnabled,
          tt_VacuumThreshold = vacThreshold, tt_VacuumScaleFactor = vacScale, tt_AnalyzeThreshold = anThreshold, tt_AnalyzeScaleFactor = anScale,
          tt_EffectiveVacuumLimit = of_int vacThreshold + vacScale * of_int relTuples,
          tt_EffectiveAnalyzeLimit = of_int anThreshold + anScale * of_int relTuples\<rparr>)"

text \<open>The answers of the instance: connecting, the settings (\<open>None\<close> on an error), the databases, and the tables of a
  database (\<open>None\<close> where a step of the transaction fails, which skips the database).\<close>

record catalogue =
  ct_connect :: bool
  ct_settings :: "(string \<times> string) list option"
  ct_databases :: "string list option"
  ct_tables :: "string \<Rightarrow> (string \<times> string \<times> string \<times> int \<times> string list) list option"

definition GetTableThresholds :: "MaintenanceForecastConfig \<Rightarrow> catalogue \<Rightarrow> TableThresholds list option" where
  "GetTableThresholds cfg ct =
     (if \<not> ct_connect ct then None
      else
        let g = fold global_setting (case ct_settings ct of None \<Rightarrow> [] | Some rs \<Rightarrow> rs) (fallback_settings cfg) in
        (case ct_databases ct of None \<Rightarrow> None
         | Some dbs \<Rightarrow> Some (concat (map (\<lambda>db. case ct_tables ct db of None \<Rightarrow> [] | Some rows \<Rightarrow> map (table_thresholds g) rows) dbs))))"

subsection \<open>The evaluator\<close>

record MaintenanceForecast =
  mn_InstanceID :: string
  mn_Database :: string
  mn_Table :: string
  mn_Operation :: string
  mn_Status :: string
  mn_PredictedAt :: "time option"
  mn_TimeUntilSec :: float64
  mn_CurrentValue :: float64
  mn_ThresholdValue :: float64
  mn_AccumulationRate :: float64
  mn_Method :: string
  mn_EvaluatedAt :: time

type_synonym metric_answers = "MetricQuery \<Rightarrow> MetricPoint list option"

definition history_query :: "MaintenanceForecastConfig \<Rightarrow> time \<Rightarrow> string \<Rightarrow> string \<Rightarrow> string \<Rightarrow> string \<Rightarrow> MetricQuery" where
  "history_query cfg now instanceID metricKey database tbl =
     empty_query\<lparr>mq_InstanceID := instanceID, mq_Metric := metricKey, mq_Labels := [(''datname'', database), (''relname'', tbl)],
       mq_Start := now - fc_LookbackWindow cfg, mq_End := now\<rparr>"

definition queryMetricHistory :: "MaintenanceForecastConfig \<Rightarrow> metric_answers \<Rightarrow> time \<Rightarrow> string \<Rightarrow> string \<Rightarrow> string \<Rightarrow> string \<Rightarrow> MetricPoint list" where
  "queryMetricHistory cfg query now instanceID metricKey database tbl =
     (case query (history_query cfg now instanceID metricKey database tbl) of None \<Rightarrow> [] | Some ps \<Rightarrow> ps)"

definition computeRate :: "MetricPoint list \<Rightarrow> float64" where
  "computeRate points =
     (if length points < 2 then 0
      else let base = mp_Timestamp (hd points) div Second in
        (case LinearRegression (map (\<lambda>p. of_int (mp_Timestamp p div Second - base)) points) (map mp_Value points) of
           None \<Rightarrow> 0 | Some r \<Rightarrow> lr_Slope r))"

definition need_base :: "string \<Rightarrow> string \<Rightarrow> string \<Rightarrow> string \<Rightarrow> float64 \<Rightarrow> time \<Rightarrow> MaintenanceForecast" where
  "need_base instanceID database tbl operation limit now =
     \<lparr>mn_InstanceID = instanceID, mn_Database = database, mn_Table = tbl, mn_Operation = operation, mn_Status = '''', mn_PredictedAt = None,
      mn_TimeUntilSec = 0, mn_CurrentValue = 0, mn_ThresholdValue = limit, mn_AccumulationRate = 0, mn_Method = ''threshold_projection'',
      mn_EvaluatedAt = now\<rparr>"

text \<open>The common body of \<open>evaluateVacuum\<close> and \<open>evaluateAnalyze\<close>.\<close>

definition project_need :: "MaintenanceForecastConfig \<Rightarrow> float64 \<Rightarrow> time \<Rightarrow> MetricPoint list \<Rightarrow> MaintenanceForecast \<Rightarrow> MaintenanceForecast" where
  "project_need cfg limit now points base =
     (if int (length points) < fc_MinDataPoints cfg then base\<lparr>mn_Status := ''insufficient_data''\<rparr>
      else
        let currentValue = mp_Value (last points); base1 = base\<lparr>mn_CurrentValue := currentValue\<rparr> in
        if currentValue \<ge> limit then base1\<lparr>mn_Status := ''overdue'', mn_TimeUntilSec := 0\<rparr>
        else let rate = computeRate points; base2 = base1\<lparr>mn_AccumulationRate := rate\<rparr> in
          if rate \<le> 0 then base2\<lparr>mn_Status := ''not_needed''\<rparr>
          else let timeToThreshold = (limit - currentValue) / rate in
            base2\<lparr>mn_TimeUntilSec := timeToThreshold, mn_PredictedAt := Some (now + to_duration timeToThreshold),
                  mn_Status := (if timeToThreshold \<le> 3600 then ''imminent'' else ''predicted'')\<rparr>)"

definition evaluateVacuum :: "MaintenanceForecastConfig \<Rightarrow> metric_answers \<Rightarrow> time \<Rightarrow> time \<Rightarrow> string \<Rightarrow> TableThresholds \<Rightarrow> MaintenanceForecast" where
  "evaluateVacuum cfg query now now' instanceID t =
     project_need cfg (tt_EffectiveVacuumLimit t) now
       (queryMetricHistory cfg query now' instanceID ''pg.db.vacuum.dead_tuples'' (tt_Database t) (tt_Table t))
       (need_base instanceID (tt_Database t) (tt_Table t) ''vacuum'' (tt_EffectiveVacuumLimit t) now)"

definition evaluateAnalyze :: "MaintenanceForecastConfig \<Rightarrow> metric_answers \<Rightarrow> time \<Rightarrow> time \<Rightarrow> string \<Rightarrow> TableThresholds \<Rightarrow> MaintenanceForecast" where
  "evaluateAnalyze cfg query now now' instanceID t =
     project_need cfg (tt_EffectiveAnalyzeLimit t) now
       (queryMetricHistory cfg query now' instanceID ''pg.db.vacuum.mod_since_analyze'' (tt_Database t) (tt_Table t))
       (need_base instanceID (tt_Database t) (tt_Table t) ''analyze'' (tt_EffectiveAnalyzeLimit t) now)"

definition reindex_query :: "MaintenanceForecastConfig \<Rightarrow> time \<Rightarrow> string \<Rightarrow> MetricQuery" where
  "reindex_query cfg now instanceID =
     empty_query\<lparr>mq_InstanceID := instanceID, mq_Metric := ''pg.db.bloat.table_ratio'', mq_Start := now - fc_LookbackWindow cfg, mq_End := now\<rparr>"

definition reindex_status :: "MaintenanceForecastConfig \<Rightarrow> float64 \<Rightarrow> string" where
  "reindex_status cfg ratio =
     (if ratio \<ge> fc_ReindexBloatThresholdTable cfg then ''overdue''
      else if ratio \<ge> fc_ReindexBloatThresholdTable cfg * 0.8 then ''imminent'' else ''not_needed'')"

definition evaluateReindexBatch :: "MaintenanceForecastConfig \<Rightarrow> metric_answers \<Rightarrow> time \<Rightarrow> string \<Rightarrow> MaintenanceForecast list" where
  "evaluateReindexBatch cfg query now instanceID =
     (case query (reindex_query cfg now instanceID) of None \<Rightarrow> []
      | Some points \<Rightarrow>
          let latest = fold (\<lambda>p m. map_put (label_get (mp_Labels p) ''datname'', label_get (mp_Labels p) ''relname'') (mp_Value p) m) points [] in
          map (\<lambda>((db, tbl), ratio). (need_base instanceID db tbl ''reindex'' (fc_ReindexBloatThresholdTable cfg) now)
                 \<lparr>mn_CurrentValue := ratio, mn_Status := reindex_status cfg ratio\<rparr>) latest)"

definition evaluateBasebackup :: "string \<Rightarrow> time \<Rightarrow> MaintenanceForecast" where
  "evaluateBasebackup instanceID now = (need_base instanceID '''' '''' ''basebackup'' 0 now)\<lparr>mn_Status := ''insufficient_data''\<rparr>"

text \<open>\<open>clk\<close> is the clock of the history queries, read once per table and operation.\<close>

definition instance_forecasts :: "MaintenanceForecastConfig \<Rightarrow> metric_answers \<Rightarrow> time \<Rightarrow> (string \<Rightarrow> TableThresholds \<Rightarrow> time) \<Rightarrow> string \<Rightarrow> TableThresholds list
    \<Rightarrow> MaintenanceForecast list" where
  "instance_forecasts cfg query now clk instanceID thresholds =
     concat (map (\<lambda>t. [evaluateVacuum cfg query now (clk ''vacuum'' t) instanceID t, evaluateAnalyze cfg query now (clk ''analyze'' t) instanceID t]) thresholds) @
     evaluateReindexBatch cfg query now instanceID @
     (if fc_BasebackupInterval cfg > 0 then [evaluateBasebackup instanceID now] else [])"

subsection \<open>The tables (\<open>pgstore.go\<close>)\<close>

record ForecastDB =
  fd_operations :: "MaintenanceOperation list"
  fd_forecasts :: "(string \<times> string \<times> string \<times> string, MaintenanceForecast) gomap"

definition forecast_key :: "MaintenanceForecast \<Rightarrow> string \<times> string \<times> string \<times> string" where
  "forecast_key f = (mn_InstanceID f, mn_Database f, mn_Table f, mn_Operation f)"

definition WriteOperation :: "bool \<Rightarrow> MaintenanceOperation \<Rightarrow> ForecastDB \<Rightarrow> ForecastDB" where
  "WriteOperation up op db = (if up then db\<lparr>fd_operations := fd_operations db @ [op]\<rparr> else db)"

definition UpsertForecast :: "bool \<Rightarrow> MaintenanceForecast \<Rightarrow> ForecastDB \<Rightarrow> ForecastDB option" where
  "UpsertForecast up f db = (if up then Some (db\<lparr>fd_forecasts := map_put (forecast_key f) f (fd_forecasts db)\<rparr>) else None)"

text \<open>One transaction: a failing statement leaves the table as it was.\<close>

definition UpsertForecasts :: "(nat \<Rightarrow> bool) \<Rightarrow> MaintenanceForecast list \<Rightarrow> ForecastDB \<Rightarrow> ForecastDB option" where
  "UpsertForecasts up fs db =
     (if fs = [] then Some db
      else if list_all up [0..<length fs + 2] then Some (db\<lparr>fd_forecasts := fold (\<lambda>f m. map_put (forecast_key f) f m) fs (fd_forecasts db)\<rparr>)
      else None)"

definition CleanOldOperations :: "bool \<Rightarrow> time \<Rightarrow> ForecastDB \<Rightarrow> (ForecastDB \<times> nat) option" where
  "CleanOldOperations up olderThan db =
     (if up then Some (db\<lparr>fd_operations := filter (\<lambda>op. \<not> mo_CompletedAt op < olderThan) (fd_operations db)\<rparr>,
        length (filter (\<lambda>op. mo_CompletedAt op < olderThan) (fd_operations db))) else None)"

definition DeleteForecasts :: "bool \<Rightarrow> string \<Rightarrow> ForecastDB \<Rightarrow> ForecastDB option" where
  "DeleteForecasts up instanceID db =
     (if up then Some (db\<lparr>fd_forecasts := filter (\<lambda>(k, f). mn_InstanceID f \<noteq> instanceID) (fd_forecasts db)\<rparr>) else None)"

record ForecastFilter =
  ff_InstanceID :: string
  ff_Operation :: string
  ff_Database :: string
  ff_Table :: string
  ff_Statuses :: "string list"

definition status_rank :: "string \<Rightarrow> nat" where
  "status_rank s = (if s = ''overdue'' then 1 else if s = ''imminent'' then 2 else if s = ''predicted'' then 3
     else if s = ''insufficient_data'' then 4 else if s = ''not_needed'' then 5 else 6)"

definition forecast_before :: "MaintenanceForecast \<Rightarrow> MaintenanceForecast \<Rightarrow> bool" where
  "forecast_before a b \<longleftrightarrow> status_rank (mn_Status a) < status_rank (mn_Status b) \<or>
     status_rank (mn_Status a) = status_rank (mn_Status b) \<and> mn_TimeUntilSec a < mn_TimeUntilSec b"

definition forecast_listed :: "ForecastFilter \<Rightarrow> MaintenanceForecast \<Rightarrow> bool" where
  "forecast_listed ft f \<longleftrightarrow> mn_InstanceID f = ff_InstanceID ft \<and> (ff_Operation ft = '''' \<or> mn_Operation f = ff_Operation ft) \<and>
     (ff_Database ft = '''' \<or> mn_Database f = ff_Database ft) \<and> (ff_Table ft = '''' \<or> mn_Table f = ff_Table ft) \<and>
     (ff_Statuses ft = [] \<or> mn_Status f \<in> set (ff_Statuses ft))"

definition ListForecasts :: "ForecastFilter \<Rightarrow> ForecastDB \<Rightarrow> MaintenanceForecast list" where
  "ListForecasts ft db = sort_slice forecast_before (filter (forecast_listed ft) (map snd (fd_forecasts db)))"

record OperationFilter =
  of_InstanceID :: string
  of_Operation :: string
  of_Database :: string
  of_Table :: string
  of_Since :: time
  of_Limit :: int
  of_Offset :: int

definition since_default :: time where
  "since_default = 946684800 * Second"

definition operation_listed :: "OperationFilter \<Rightarrow> MaintenanceOperation \<Rightarrow> bool" where
  "operation_listed ft op \<longleftrightarrow> mo_InstanceID op = of_InstanceID ft \<and> (of_Operation ft = '''' \<or> mo_Operation op = of_Operation ft) \<and>
     (of_Database ft = '''' \<or> mo_Database op = of_Database ft) \<and> (of_Table ft = '''' \<or> mo_Table op = of_Table ft) \<and>
     mo_CompletedAt op \<ge> (if IsZero (of_Since ft) then since_default else of_Since ft)"

text \<open>A negative offset is an error of the statement.\<close>

definition ListOperations :: "bool \<Rightarrow> OperationFilter \<Rightarrow> ForecastDB \<Rightarrow> (MaintenanceOperation list \<times> nat) option" where
  "ListOperations up ft db =
     (let rows = filter (operation_listed ft) (fd_operations db); limit = (if of_Limit ft \<le> 0 then 50 else of_Limit ft)
      in if \<not> up \<or> of_Offset ft < 0 then None
         else Some (take (nat limit) (drop (nat (of_Offset ft)) (sort_slice (\<lambda>a b. mo_CompletedAt a > mo_CompletedAt b) rows)), length rows))"

subsection \<open>One evaluation cycle\<close>

definition evaluateInstance :: "MaintenanceForecastConfig \<Rightarrow> metric_answers \<Rightarrow> (string \<Rightarrow> catalogue) \<Rightarrow> (nat \<Rightarrow> bool) \<Rightarrow> (string \<Rightarrow> time) \<Rightarrow>
    (string \<Rightarrow> string \<Rightarrow> TableThresholds \<Rightarrow> time) \<Rightarrow> string \<Rightarrow> ForecastDB \<Rightarrow> ForecastDB" where
  "evaluateInstance cfg query cat up clk clk' instanceID db =
     (case GetTableThresholds cfg (cat instanceID) of None \<Rightarrow> db
      | Some thresholds \<Rightarrow>
          let fs = instance_forecasts cfg query (clk instanceID) (clk' instanceID) instanceID thresholds in
          if fs \<noteq> [] then (case UpsertForecasts up fs db of None \<Rightarrow> db | Some db' \<Rightarrow> db') else db)"

definition evaluate_needs :: "MaintenanceForecastConfig \<Rightarrow> metric_answers \<Rightarrow> (string \<Rightarrow> catalogue) \<Rightarrow> (nat \<Rightarrow> bool) \<Rightarrow> (string \<Rightarrow> time) \<Rightarrow>
    (string \<Rightarrow> string \<Rightarrow> TableThresholds \<Rightarrow> time) \<Rightarrow> string list option \<Rightarrow> ForecastDB \<Rightarrow> ForecastDB" where
  "evaluate_needs cfg query cat up clk clk' instances db =
     (case instances of None \<Rightarrow> db | Some ids \<Rightarrow> fold (evaluateInstance cfg query cat up clk clk') ids db)"

subsection \<open>Handlers\<close>

record ForecastSummary =
  fs_Imminent :: nat
  fs_Overdue :: nat
  fs_Predicted :: nat
  fs_Total :: nat

definition computeSummary :: "MaintenanceForecast list \<Rightarrow> ForecastSummary" where
  "computeSummary fs =
     fold (\<lambda>f s. if mn_Status f = ''imminent'' then s\<lparr>fs_Imminent := fs_Imminent s + 1\<rparr>
                 else if mn_Status f = ''overdue'' then s\<lparr>fs_Overdue := fs_Overdue s + 1\<rparr>
                 else if mn_Status f = ''predicted'' then s\<lparr>fs_Predicted := fs_Predicted s + 1\<rparr> else s)
       fs \<lparr>fs_Imminent = 0, fs_Overdue = 0, fs_Predicted = 0, fs_Total = length fs\<rparr>"

text \<open>The page and its size from the query string; values that do not parse or are out of range are ignored.\<close>

definition page_param :: "string \<Rightarrow> int" where
  "page_param s = (case ParseInt s of None \<Rightarrow> 1 | Some v \<Rightarrow> if v > 0 then v else 1)"

definition per_page_param :: "string \<Rightarrow> int" where
  "per_page_param s = (case ParseInt s of None \<Rightarrow> 50 | Some v \<Rightarrow> if v > 0 \<and> v \<le> 200 then v else 50)"

datatype forecast_response =
    FError nat string
  | FOperations "OperationETA list"
  | FOperation OperationETA
  | FNeeds "MaintenanceForecast list" ForecastSummary
  | FTable "MaintenanceForecast list"
  | FHistory "MaintenanceOperation list" nat int int

text \<open>The checks every handler starts with: the instance is known and the engine is there.\<close>

definition with_engine :: "bool \<Rightarrow> 'e option \<Rightarrow> ('e \<Rightarrow> forecast_response) \<Rightarrow> forecast_response" where
  "with_engine known engine k = (if \<not> known then FError 404 ''not_found'' else case engine of None \<Rightarrow> FError 501 ''disabled'' | Some e \<Rightarrow> k e)"

definition handleForecastETA :: "bool \<Rightarrow> (ETACalculator \<times> OperationTracker) option \<Rightarrow> time \<Rightarrow> string \<Rightarrow> forecast_response" where
  "handleForecastETA known engine now instanceID = with_engine known engine (\<lambda>(c, t). FOperations (ComputeAll c t instanceID now))"

definition handleForecastETAByPID :: "bool \<Rightarrow> (ETACalculator \<times> OperationTracker) option \<Rightarrow> time \<Rightarrow> string \<Rightarrow> string \<Rightarrow> forecast_response" where
  "handleForecastETAByPID known engine now instanceID pidStr =
     with_engine known engine (\<lambda>(c, t).
       case ParseInt pidStr of None \<Rightarrow> FError 400 ''bad_request''
       | Some pid \<Rightarrow>
           if pid \<le> 0 then FError 400 ''bad_request''
           else (case ComputeByPID c t instanceID pid now of None \<Rightarrow> FError 404 ''not_found'' | Some eta \<Rightarrow> FOperation eta))"

definition needs_filter :: "string \<Rightarrow> string \<Rightarrow> string \<Rightarrow> ForecastFilter" where
  "needs_filter instanceID operation statuses =
     \<lparr>ff_InstanceID = instanceID, ff_Operation = operation, ff_Database = '''', ff_Table = '''',
      ff_Statuses = (if statuses = '''' then [] else Split (CHR '','') statuses)\<rparr>"

text \<open>\<open>up\<close> is the outcome of the statement.\<close>

definition handleForecastNeeds :: "bool \<Rightarrow> ForecastDB option \<Rightarrow> bool \<Rightarrow> string \<Rightarrow> string \<Rightarrow> string \<Rightarrow> forecast_response" where
  "handleForecastNeeds known engine up instanceID operation statuses =
     with_engine known engine (\<lambda>db.
       if \<not> up then FError 500 ''internal''
       else let fs = ListForecasts (needs_filter instanceID operation statuses) db in FNeeds fs (computeSummary fs))"

definition handleForecastNeedsForTable :: "bool \<Rightarrow> ForecastDB option \<Rightarrow> bool \<Rightarrow> string \<Rightarrow> string \<Rightarrow> string \<Rightarrow> forecast_response" where
  "handleForecastNeedsForTable known engine up instanceID database tbl =
     with_engine known engine (\<lambda>db.
       if \<not> up then FError 500 ''internal''
       else FTable (ListForecasts \<lparr>ff_InstanceID = instanceID, ff_Operation = '''', ff_Database = database, ff_Table = tbl, ff_Statuses = []\<rparr> db))"

definition handleForecastHistory :: "bool \<Rightarrow> ForecastDB option \<Rightarrow> bool \<Rightarrow> string \<Rightarrow> string \<Rightarrow> string \<Rightarrow> string \<Rightarrow> string \<Rightarrow> string \<Rightarrow> forecast_response" where
  "handleForecastHistory known engine up instanceID operation database tbl pageStr perPageStr =
     with_engine known engine (\<lambda>db.
       let page = page_param pageStr; perPage = per_page_param perPageStr in
       case ListOperations up \<lparr>of_InstanceID = instanceID, of_Operation = operation, of_Database = database, of_Table = tbl, of_Since = zero_time,
              of_Limit = perPage, of_Offset = wrap64 ((page - 1) * perPage)\<rparr> db of
         None \<Rightarrow> FError 500 ''internal''
       | Some (ops, n) \<Rightarrow> FHistory ops n page perPage)"

end
