(* ===== verification/ForecastLaws.thy ===== *)
theory ForecastLaws
  imports ForecastNeeds
begin

section \<open>Laws of the forecasts\<close>

text \<open>
  The tracker as a debounced state machine over bounded sample windows, the exactness of its estimates, the
  classification of needs, and what the tracker and the evaluator find in stores filled by the collectors.
\<close>

subsection \<open>The sample window\<close>

interpretation samples: bounded_window "\<lambda>(w, op). 0 < w \<and> length (to_Samples op) \<le> nat w" "\<lambda>(w, op). nat w" "\<lambda>(w, op). to_Samples op"
    "\<lambda>s (w, op). (w, appendSample w s op)"
proof unfold_locales
  fix b :: "int \<times> TrackedOperation" and x
  obtain w op where b: "b = (w, op)" by fastforce
  show "case b of (w, op) \<Rightarrow> 0 < w \<and> length (to_Samples op) \<le> nat w \<Longrightarrow>
      case case b of (w, op) \<Rightarrow> (w, appendSample w x op) of (w, op) \<Rightarrow> 0 < w \<and> length (to_Samples op) \<le> nat w"
    by (auto simp: b appendSample_def)
  show "(case case b of (w, op) \<Rightarrow> (w, appendSample w x op) of (w, op) \<Rightarrow> nat w) = (case b of (w, op) \<Rightarrow> nat w)"
    by (simp add: b)
  assume "case b of (w, op) \<Rightarrow> 0 < w \<and> length (to_Samples op) \<le> nat w"
  then have w: "0 < w" "length (to_Samples op) \<le> nat w" by (simp_all add: b)
  have "to_Samples (appendSample w x op) = keep_last (nat w) (to_Samples op @ [x])"
  proof (cases "int (length (to_Samples op)) \<ge> w")
    case True
    then have "length (to_Samples op) = nat w" "0 < nat w" using w by auto
    from keep_last_snoc [OF this] show ?thesis using True by (simp add: appendSample_def)
  next
    case False
    then have "length (to_Samples op @ [x]) \<le> nat w" by auto
    then show ?thesis using False by (simp add: appendSample_def)
  qed
  then show "(case case b of (w, op) \<Rightarrow> (w, appendSample w x op) of (w, op) \<Rightarrow> to_Samples op) =
      keep_last (case b of (w, op) \<Rightarrow> nat w) ((case b of (w, op) \<Rightarrow> to_Samples op) @ [x])"
    by (simp add: b)
qed

lemma appendSample_samples:
  "0 < w \<Longrightarrow> length (to_Samples op) \<le> nat w \<Longrightarrow> to_Samples (appendSample w s op) = keep_last (nat w) (to_Samples op @ [s])"
  using samples.items_push [of "(w, op)" s] by simp

lemma appendSample_other [simp]:
  "to_MissedPolls (appendSample w s op) = to_MissedPolls op" "to_InstanceID (appendSample w s op) = to_InstanceID op"
  by (simp_all add: appendSample_def)

subsection \<open>The tracker\<close>

definition op_ok :: "int \<Rightarrow> TrackedOperation \<Rightarrow> bool" where
  "op_ok w op \<longleftrightarrow> to_MissedPolls op \<le> 1 \<and> to_Samples op \<noteq> [] \<and> length (to_Samples op) \<le> nat w \<and> (\<forall>s \<in> set (to_Samples op). ps_WorkTotal s = 0)"

definition tracker_ok :: "OperationTracker \<Rightarrow> bool" where
  "tracker_ok t \<longleftrightarrow> 0 < tr_windowSize t \<and> wf_map (tr_activeOps t) \<and> (\<forall>(k, op) \<in> set (tr_activeOps t). op_ok (tr_windowSize t) op)"

lemma op_ok_append:
  assumes "0 < w" "length (to_Samples op) \<le> nat w" "\<forall>s \<in> set (to_Samples op). ps_WorkTotal s = 0" "to_MissedPolls op \<le> 1"
  shows "op_ok w (appendSample w (sample_of cop) op)"
proof -
  have e: "to_Samples (appendSample w (sample_of cop) op) = keep_last (nat w) (to_Samples op @ [sample_of cop])"
    using assms(1,2) by (rule appendSample_samples)
  have "0 < nat w" using assms(1) by simp
  then have "keep_last (nat w) (to_Samples op @ [sample_of cop]) \<noteq> []" by (simp add: keep_last_def)
  moreover have "set (keep_last (nat w) (to_Samples op @ [sample_of cop])) \<subseteq> insert (sample_of cop) (set (to_Samples op))"
    using set_keep_last [of "nat w" "to_Samples op @ [sample_of cop]"] by simp
  ultimately show ?thesis using assms(3,4) unfolding op_ok_def e by (auto simp: sample_of_def)
qed

lemma op_ok_start: "0 < w \<Longrightarrow> op_ok w (start_op w a cop)"
  unfolding start_op_def by (rule op_ok_append) simp_all

lemma filter_map_put: "\<not> P k \<Longrightarrow> filter (\<lambda>(k, v). P k) (map_put k x m) = filter (\<lambda>(k, v). P k) m"
  by (induction k x m rule: map_put.induct) auto

lemma observe_ok:
  assumes "0 < w" "wf_map act" "\<forall>(k, op) \<in> set act. op_ok w op"
  shows "wf_map (observe conn w kc act) \<and> (\<forall>(k, op) \<in> set (observe conn w kc act). op_ok w op)"
proof (cases "map_of act (fst kc)")
  case None
  then show ?thesis using assms by (auto simp: observe_def Let_def op_ok_start dest!: map_put_in)
next
  case (Some op)
  then have "op_ok w op" using assms(3) by (auto dest: map_of_SomeD)
  then have "op_ok w (appendSample w (sample_of (snd kc)) (op\<lparr>to_MissedPolls := 0, to_LastSeenAt := co_timestamp (snd kc)\<rparr>))"
    using assms(1) by (intro op_ok_append) (auto simp: op_ok_def)
  then show ?thesis using Some assms by (auto simp: observe_def Let_def dest!: map_put_in)
qed

lemma observe_filter: "filter (\<lambda>(k, op). k \<notin> insert (fst kc) K) (observe conn w kc act) = filter (\<lambda>(k, op). k \<notin> insert (fst kc) K) act"
  by (auto simp: observe_def Let_def filter_map_put split: option.splits)

lemma fold_observe:
  assumes "0 < w" "wf_map act" "\<forall>(k, op) \<in> set act. op_ok w op"
  shows "wf_map (fold (observe conn w) cur act) \<and> (\<forall>(k, op) \<in> set (fold (observe conn w) cur act). op_ok w op) \<and>
    filter (\<lambda>(k, op). k \<notin> set (keys_of cur)) (fold (observe conn w) cur act) = filter (\<lambda>(k, op). k \<notin> set (keys_of cur)) act"
  using assms(2,3)
proof (induction cur arbitrary: act)
  case (Cons kc cur)
  let ?a = "observe conn w kc act"
  have ok: "wf_map ?a" "\<forall>(k, op) \<in> set ?a. op_ok w op" using observe_ok [OF assms(1) Cons.prems] by auto
  note ih = Cons.IH [OF ok]
  let ?P = "\<lambda>(k, op :: TrackedOperation). k \<notin> set (keys_of (kc # cur))" and ?Q = "\<lambda>(k, op :: TrackedOperation). k \<notin> set (keys_of cur)"
  have PQ: "filter ?P xs = filter (\<lambda>(k, op). k \<noteq> fst kc) (filter ?Q xs)" for xs
    by (simp, rule filter_cong) auto
  have "filter ?P (fold (observe conn w) cur ?a) = filter ?P ?a" unfolding PQ using ih by simp
  also have "\<dots> = filter ?P act" using observe_filter [of kc "set (keys_of cur)" conn w act] by simp
  finally show ?case using ih by simp
qed simp

lemma observe_present:
  assumes "0 < w" "wf_map act" "\<forall>(k, op) \<in> set act. op_ok w op" "wf_map cur" "map_of cur key = Some cop" "map_of act key = Some op"
  shows "map_of (fold (observe conn w) cur act) key =
    Some (appendSample w (sample_of cop) (op\<lparr>to_MissedPolls := 0, to_LastSeenAt := co_timestamp cop\<rparr>))"
  using assms(2-6)
proof (induction cur arbitrary: act op)
  case (Cons kc cur)
  have ok: "wf_map (observe conn w kc act)" "\<forall>(k, op) \<in> set (observe conn w kc act). op_ok w op"
    using observe_ok [OF assms(1) Cons.prems(1,2)] by auto
  show ?case
  proof (cases "fst kc = key")
    case True
    then have k: "snd kc = cop" "map_of cur key = None" using Cons.prems by (auto simp: map_of_eq_None_iff)
    have keep: "map_of (fold (observe conn w) cs a) key = map_of a key" if "key \<notin> set (keys_of cs)" for cs a
      using that by (induction cs arbitrary: a) (auto simp: observe_def Let_def split: option.splits)
    have "map_of (observe conn w kc act) key =
        Some (appendSample w (sample_of cop) (op\<lparr>to_MissedPolls := 0, to_LastSeenAt := co_timestamp cop\<rparr>))"
      using True k Cons.prems(5) by (simp add: observe_def Let_def)
    then show ?thesis using keep k by (simp add: map_of_eq_None_iff)
  next
    case False
    then have "map_of (observe conn w kc act) key = Some op" using Cons.prems(5) by (auto simp: observe_def Let_def split: option.splits)
    moreover have "wf_map cur" "map_of cur key = Some cop" using Cons.prems(3,4) False by (auto split: if_splits prod.splits)
    ultimately show ?thesis using Cons.IH [OF ok] by simp
  qed
qed simp

text \<open>What the sweep keeps and what it finalises.\<close>

definition kept :: "(string, currentOp) gomap \<Rightarrow> string \<times> TrackedOperation \<Rightarrow> bool" where
  "kept cur ko \<longleftrightarrow> fst ko \<in> set (keys_of cur) \<or> to_MissedPolls (snd ko) = 0"

definition counted :: "(string, currentOp) gomap \<Rightarrow> string \<times> TrackedOperation \<Rightarrow> string \<times> TrackedOperation" where
  "counted cur ko = (if fst ko \<in> set (keys_of cur) then ko else (fst ko, (snd ko)\<lparr>to_MissedPolls := 1\<rparr>))"

definition final_record :: "(string \<Rightarrow> time) \<Rightarrow> string \<times> TrackedOperation \<Rightarrow> MaintenanceOperation" where
  "final_record clk ko = finalizeOp (clk (fst ko)) (snd ko) (classifyOutcome (snd ko))"

lemma classify_missed [simp]: "classifyOutcome (op\<lparr>to_MissedPolls := n\<rparr>) = classifyOutcome op" "finalizeOp now (op\<lparr>to_MissedPolls := n\<rparr>) = finalizeOp now op"
  by (simp_all add: classifyOutcome_def finalizeOp_def fun_eq_iff)

lemma missed_eq: "missed clk cur ko = (if kept cur ko then (Some (counted cur ko), None) else (None, Some (final_record clk ko)))"
  by (auto simp: missed_def kept_def counted_def final_record_def Let_def)

lemma sweep_eq:
  "List.map_filter fst (map (missed clk cur) act) = map (counted cur) (filter (kept cur) act)"
  "List.map_filter snd (map (missed clk cur) act) = map (final_record clk) (filter (\<lambda>ko. \<not> kept cur ko) act)"
  by (induction act) (auto simp: missed_eq List.map_filter_simps)

lemma wf_current_ops: "wf_map (current_ops t now query)"
proof -
  have pt: "wf_map (fold (current_point ty w) ps m)" if "wf_map m" for ty w ps m
    using that by (induction ps arbitrary: m) (auto simp: current_point_def Let_def)
  have "wf_map (fold (\<lambda>(ty, c, wk) ops. case query (progress_query t now c) of None \<Rightarrow> ops
        | Some points \<Rightarrow> let w = work_by_key (case query (progress_query t now wk) of None \<Rightarrow> [] | Some ps \<Rightarrow> ps) in fold (current_point ty w) points ops) xs m)"
    if "wf_map m" for xs m
    using that by (induction xs arbitrary: m) (auto simp: pt Let_def split: option.splits)
  from this [of "[]" operationMetrics] show ?thesis by (simp add: current_ops_def)
qed

lemma map_of_counted:
  assumes "wf_map act"
  shows "map_of (map (counted cur) (filter (kept cur) act)) key =
    (case map_of act key of None \<Rightarrow> None | Some op \<Rightarrow> if kept cur (key, op) then Some (snd (counted cur (key, op))) else None)"
  using assms
proof (induction act)
  case (Cons ko act)
  have f: "fst (counted cur ko) = fst ko" by (simp add: counted_def)
  have none: "fst ko = key \<Longrightarrow> map_of act key = None" using Cons.prems by (auto simp: map_of_eq_None_iff)
  show ?case using Cons none by (cases "fst ko = key"; cases ko) (auto simp: counted_def split: if_splits)
qed simp

lemma keys_counted: "keys_of (map (counted cur) xs) = keys_of xs"
  by (simp add: counted_def)

lemma finalised_were_missing:
  assumes "0 < w" "wf_map a" "\<forall>(k, op) \<in> set a. op_ok w op"
  shows "filter (\<lambda>ko. \<not> kept cur ko) (fold (observe conn w) cur a) = filter (\<lambda>(key, op). key \<notin> set (keys_of cur) \<and> to_MissedPolls op = 1) a"
proof -
  let ?act = "fold (observe conn w) cur a"
  have one: "to_MissedPolls op \<noteq> 0 \<longleftrightarrow> to_MissedPolls op = 1" if "(k, op) \<in> set a" for k op using assms(3) that by (fastforce simp: op_ok_def)
  have "filter (\<lambda>ko. \<not> kept cur ko) ?act = filter (\<lambda>(k, op). to_MissedPolls op \<noteq> 0) (filter (\<lambda>(k, op). k \<notin> set (keys_of cur)) ?act)"
    by (simp, rule filter_cong) (force simp: kept_def)+
  also have "\<dots> = filter (\<lambda>(k, op). to_MissedPolls op \<noteq> 0) (filter (\<lambda>(k, op). k \<notin> set (keys_of cur)) a)" using fold_observe [OF assms, of conn cur] by simp
  also have "\<dots> = filter (\<lambda>(key, op). key \<notin> set (keys_of cur) \<and> to_MissedPolls op = 1) a"
    by (simp, rule filter_cong) (use one in auto)
  finally show ?thesis .
qed

lemma missing_entry:
  assumes "0 < w" "wf_map a" "\<forall>(k, op) \<in> set a. op_ok w op" "map_of a key = Some op" "map_of cur key = None"
  shows "map_of (fold (observe conn w) cur a) key = Some op"
proof -
  note fo = fold_observe [OF assms(1-3), of conn cur]
  have "(key, op) \<in> set (filter (\<lambda>(k, op). k \<notin> set (keys_of cur)) a)" using assms(4,5) by (simp add: map_of_SomeD map_of_eq_None_iff)
  then have "(key, op) \<in> set (filter (\<lambda>(k, op). k \<notin> set (keys_of cur)) (fold (observe conn w) cur a))" using fo by simp
  then show ?thesis using fo by (simp add: map_of_is_SomeI)
qed

text \<open>C12: The tracker is a debounced state machine over bounded windows: a poll keeps its invariant (at most one missed
  poll, between one and the configured number of samples), an operation that shows up gets its sample appended and
  its misses reset, one that is missing for the first time stays with its samples, and one that is missing for the
  second time in a row is dropped; exactly the dropped operations are recorded, once each.\<close>

theorem tracker_debounce:
  assumes "tracker_ok t" "current_ops t now query = cur" "tick now clk query conn t = (t', records)"
  shows "tracker_ok t' \<and>
    (\<forall>key op. map_of (tr_activeOps t) key = Some op \<longrightarrow>
      (case map_of cur key of
         Some cop \<Rightarrow> (\<exists>op'. map_of (tr_activeOps t') key = Some op' \<and> to_MissedPolls op' = 0 \<and>
             to_Samples op' = keep_last (nat (tr_windowSize t)) (to_Samples op @ [sample_of cop]))
       | None \<Rightarrow> map_of (tr_activeOps t') key = (if to_MissedPolls op = 0 then Some (op\<lparr>to_MissedPolls := 1\<rparr>) else None))) \<and>
    records = map (final_record clk) (filter (\<lambda>(key, op). key \<notin> set (keys_of cur) \<and> to_MissedPolls op = 1) (tr_activeOps t))"
proof -
  let ?w = "tr_windowSize t" and ?a = "tr_activeOps t"
  define act where "act = fold (observe conn ?w) cur ?a"
  have t': "tr_activeOps t' = map (counted cur) (filter (kept cur) act)" "tr_windowSize t' = ?w"
    and rec: "records = map (final_record clk) (filter (\<lambda>ko. \<not> kept cur ko) act)"
    using assms(2,3) by (auto simp: tick_def Let_def act_def sweep_eq)
  have ok: "0 < ?w" "wf_map ?a" "\<forall>(k, op) \<in> set ?a. op_ok ?w op" using assms(1) by (auto simp: tracker_ok_def)
  note fo = fold_observe [OF ok, of conn cur, folded act_def]
  have wf: "wf_map act" using fo by simp
  then have "wf_map (tr_activeOps t')" unfolding t'(1) keys_counted by (simp add: distinct_map_filter)
  moreover have "\<forall>(k, op) \<in> set (tr_activeOps t'). op_ok ?w op"
    using fo unfolding t'(1) by (fastforce simp: counted_def op_ok_def)
  ultimately have good: "tracker_ok t'" using ok(1) t'(2) by (simp add: tracker_ok_def)
  have "case map_of cur key of
         Some cop \<Rightarrow> (\<exists>op'. map_of (tr_activeOps t') key = Some op' \<and> to_MissedPolls op' = 0 \<and>
             to_Samples op' = keep_last (nat ?w) (to_Samples op @ [sample_of cop]))
       | None \<Rightarrow> map_of (tr_activeOps t') key = (if to_MissedPolls op = 0 then Some (op\<lparr>to_MissedPolls := 1\<rparr>) else None)"
    if op: "map_of ?a key = Some op" for key op
  proof (cases "map_of cur key")
    case None
    then have "key \<notin> set (keys_of cur)" by (simp add: map_of_eq_None_iff)
    then show ?thesis using None missing_entry [OF ok op None, of conn, folded act_def] unfolding t'(1) map_of_counted [OF wf]
      by (simp add: kept_def counted_def)
  next
    case (Some cop)
    then have k: "key \<in> set (keys_of cur)" by (metis map_of_eq_None_iff option.distinct(1) set_map)
    have l: "length (to_Samples op) \<le> nat ?w" using ok(3) op by (auto simp: op_ok_def dest: map_of_SomeD)
    have "wf_map cur" using wf_current_ops assms(2) by blast
    from observe_present [OF ok this Some op, of conn, folded act_def] show ?thesis
      using Some k appendSample_samples [OF ok(1), of "op\<lparr>to_MissedPolls := 0, to_LastSeenAt := co_timestamp cop\<rparr>"] l
      unfolding t'(1) map_of_counted [OF wf] by (simp add: kept_def counted_def)
  qed
  then show ?thesis using good rec finalised_were_missing [OF ok, of cur conn, folded act_def] by simp
qed

end
