(* ===== verification/ForecastExact.thy ===== *)
theory ForecastExact
  imports ForecastLaws
begin

section \<open>What the estimates are worth\<close>

text \<open>
  On steady progress the estimate of the time left and the projection of a maintenance need are exact; the
  same computation gives a negative time for an operation that is done. The rates come from the moving average
  and the regression line of \<open>MlCore\<close>.
\<close>

subsection \<open>Steady rates\<close>

definition steady :: "float64 \<Rightarrow> time list \<Rightarrow> float64 list \<Rightarrow> bool" where
  "steady r ts vs \<longleftrightarrow> length ts = length vs \<and> sorted_wrt (<) ts \<and> last ts - hd ts < 2 ^ 63 \<and>
     (\<forall>i < length ts. vs ! i = hd vs + r * Seconds (ts ! i - hd ts))"

lemma steady_rate:
  assumes "steady r ts vs" "0 < i" "i < length ts"
  shows "wma_rate ts vs i = Some r"
proof -
  have ts: "sorted_wrt (<) ts" and v: "\<And>i. i < length ts \<Longrightarrow> vs ! i = hd vs + r * Seconds (ts ! i - hd ts)"
    using assms(1) by (auto simp: steady_def)
  have lt: "ts ! (i - 1) < ts ! i" using ts assms(2,3) by (simp add: sorted_wrt_nth_less)
  have ne: "ts \<noteq> []" using assms(3) by auto
  have sorted: "sorted ts" using ts strict_sorted_imp_sorted by blast
  have "hd ts \<le> ts ! (i - 1)" unfolding hd_conv_nth [OF ne] by (rule sorted_nth_mono [OF sorted]) (use assms(3) in auto)
  moreover have "ts ! i \<le> last ts" unfolding last_conv_nth [OF ne] by (rule sorted_nth_mono [OF sorted]) (use assms(3) in auto)
  ultimately have "time_sub (ts ! i) (ts ! (i - 1)) = ts ! i - ts ! (i - 1)"
    using assms(1) lt by (auto simp: steady_def time_sub_def)
  moreover have "vs ! i - vs ! (i - 1) = r * Seconds (ts ! i - ts ! (i - 1))"
    using v [of i] v [of "i - 1"] assms(3) by (simp add: Seconds_def diff_divide_distrib right_diff_distrib)
  moreover have "0 < Seconds (ts ! i - ts ! (i - 1))" using lt by (simp add: Seconds_def)
  ultimately show ?thesis by (simp add: wma_rate_def)
qed

lemma steady_wma:
  assumes "steady r ts vs" "2 \<le> length ts" "wc_WindowSize cfg \<noteq> 1"
  shows "\<exists>w. WeightedMovingAverage cfg ts vs = Some w \<and> wr_WeightedRate w = r \<and> wr_SampleCount w = length ts"
proof -
  let ?s = "wma_start (wc_WindowSize cfg) (length ts)"
  let ?rates = "wma_rates ?s ts vs" and ?d = "wma_decay (wc_DecayFactor cfg)"
  have "?rates = map (\<lambda>_. r) [max ?s 1..<length ts]"
  proof -
    have "List.map_filter (wma_rate ts vs) is = map (\<lambda>_. r) is" if "\<forall>i \<in> set is. 0 < i \<and> i < length ts" for "is"
      using that by (induction "is") (auto simp: List.map_filter_simps steady_rate [OF assms(1)])
    then show ?thesis unfolding wma_rates_def by simp
  qed
  moreover have "max ?s 1 < length ts" using assms(2,3) by (auto simp: wma_start_def)
  ultimately have r: "?rates \<noteq> []" "\<forall>x \<in> set ?rates. r \<le> x \<and> x \<le> r" by auto
  have "weighted_mean (wma_weights ?d (length ?rates)) ?rates = r"
    using weighted_mean_bounds [OF r(1) wma_decay_pos r(2), of "wc_DecayFactor cfg"] by simp
  then show ?thesis using assms(1,2) r(1) by (simp add: WeightedMovingAverage_def Let_def steady_def)
qed

subsection \<open>The time left of an operation\<close>

text \<open>An operation with a steady rate of work towards a total, as the tracker sees it (its samples carry no total).\<close>

definition steady_op :: "float64 \<Rightarrow> float64 \<Rightarrow> TrackedOperation \<Rightarrow> bool" where
  "steady_op r tot op \<longleftrightarrow> steady r (map ps_Timestamp (to_Samples op)) (map ps_WorkDone (to_Samples op)) \<and>
     list_all (\<lambda>s. ps_WorkTotal s = 0 \<and> 0 < ps_WorkDone s \<and> ps_PctDone s = 100 * ps_WorkDone s / tot) (to_Samples op)"

text \<open>For an operation that works at a constant rate the estimate of the time left is exact while work is left: at
  the current rate the operation reaches its total after exactly \<open>ETASec\<close> seconds, and no operation with enough
  samples is left without an estimate. Once the total is reached the estimate is not zero but the negative time
  the whole work took.\<close>

theorem eta_exact_until_done:
  assumes "steady_op r tot op" "0 < r" "0 < tot" "2 \<le> length (to_Samples op)" "ec_minSamples c \<le> int (length (to_Samples op))"
    and "wc_WindowSize (ec_wmaCfg c) \<noteq> 1" "work = ps_WorkDone (last (to_Samples op))" "e = computeOne c op now"
  shows "eta_RateCurrent e = r \<and> eta_Confidence e = classifyConfidence (length (to_Samples op)) \<and>
    (if work < tot then 0 < eta_ETASec e \<and> work + r * eta_ETASec e = tot else eta_ETASec e = - (work / r) \<and> eta_ETASec e < 0)"
proof -
  let ?s = "last (to_Samples op)"
  have st: "steady r (map ps_Timestamp (to_Samples op)) (map ps_WorkDone (to_Samples op))"
    and all: "list_all (\<lambda>s. ps_WorkTotal s = 0 \<and> 0 < ps_WorkDone s \<and> ps_PctDone s = 100 * ps_WorkDone s / tot) (to_Samples op)"
    using assms(1) by (simp_all add: steady_op_def)
  have "?s \<in> set (to_Samples op)" using assms(4) by (intro last_in_set) auto
  then have s: "ps_WorkTotal ?s = 0" "0 < work" "ps_PctDone ?s = 100 * work / tot" using all assms(7) by (auto simp: list_all_iff)
  obtain w where w: "WeightedMovingAverage (ec_wmaCfg c) (map ps_Timestamp (to_Samples op)) (map ps_WorkDone (to_Samples op)) = Some w"
      "wr_WeightedRate w = r" "wr_SampleCount w = length (to_Samples op)"
    using steady_wma [OF st, of "ec_wmaCfg c"] assms(4,6) by auto
  have e: "eta_RateCurrent e = r" "eta_Confidence e = classifyConfidence (length (to_Samples op))" "eta_ETASec e = remaining_work ?s / r"
    using w assms(2,5,8) by (simp_all add: computeOne_def Let_def)
  have "remaining_work ?s = (if work < tot then work * (100 - 100 * work / tot) / (100 * work / tot) else - work)"
    using s assms(3,7) by (simp add: remaining_work_def Let_def pos_divide_less_eq)
  also have "work * (100 - 100 * work / tot) / (100 * work / tot) = tot - work" using s(2) assms(3) by (simp add: field_simps)
  finally have rem: "remaining_work ?s = (if work < tot then tot - work else - work)" .
  show ?thesis using e assms(2) s(2) unfolding rem by (simp add: divide_neg_pos)
qed

subsection \<open>Projected needs\<close>

lemma spread_mean:
  fixes x :: "nat \<Rightarrow> real"
  assumes "0 < n"
  shows "real n * (\<Sum>i<n. x i * x i) - (\<Sum>i<n. x i) * (\<Sum>i<n. x i) = real n * (\<Sum>i<n. (x i - (\<Sum>i<n. x i) / real n)\<^sup>2)"
proof -
  define m where "m = (\<Sum>i<n. x i) / real n"
  have nm: "(\<Sum>i<n. x i) = real n * m" using assms by (simp add: m_def)
  have "(\<Sum>i<n. (x i - m)\<^sup>2) = (\<Sum>i<n. x i * x i - 2 * m * x i + m * m)"
    by (rule sum.cong) (simp_all add: power2_eq_square algebra_simps)
  also have "\<dots> = (\<Sum>i<n. x i * x i) - 2 * m * (\<Sum>i<n. x i) + real n * (m * m)"
    by (simp add: sum.distrib sum_subtractf sum_distrib_left)
  also have "\<dots> = (\<Sum>i<n. x i * x i) - real n * m * m" unfolding nm by (simp add: algebra_simps)
  finally have "(\<Sum>i<n. (x i - m)\<^sup>2) = (\<Sum>i<n. x i * x i) - real n * m * m" .
  then have "real n * (\<Sum>i<n. (x i - m)\<^sup>2) = real n * ((\<Sum>i<n. x i * x i) - real n * m * m)" by (simp only:)
  also have "\<dots> = real n * (\<Sum>i<n. x i * x i) - real n * m * (real n * m)" by (simp only: right_diff_distrib mult.assoc mult.left_commute)
  finally have "real n * (\<Sum>i<n. (x i - m)\<^sup>2) = real n * (\<Sum>i<n. x i * x i) - real n * m * (real n * m)" .
  then show ?thesis unfolding nm [symmetric] m_def by simp
qed

text \<open>Whole abscissae that are not all equal are spread far enough for the regression.\<close>

lemma integer_spread:
  fixes k :: "nat \<Rightarrow> int"
  assumes "i < n" "j < n" "k i \<noteq> k j"
  shows "1 \<le> real n * (\<Sum>i<n. real_of_int (k i) * real_of_int (k i)) - (\<Sum>i<n. real_of_int (k i)) * (\<Sum>i<n. real_of_int (k i))"
proof -
  let ?x = "\<lambda>i. real_of_int (k i)" and ?m = "(\<Sum>i<n. real_of_int (k i)) / real n"
  have n: "0 < n" using assms(1) by auto
  obtain l where l: "l < n" "?x l \<noteq> ?m" using assms by (metis of_int_eq_iff)
  have "0 < (\<Sum>i<n. (?x i - ?m)\<^sup>2)" by (rule sum_pos2 [of _ l]) (use l in auto)
  then have pos: "0 < real n * (\<Sum>i<n. ?x i * ?x i) - (\<Sum>i<n. ?x i) * (\<Sum>i<n. ?x i)" unfolding spread_mean [OF n] using n by simp
  have e: "real n * (\<Sum>i<n. ?x i * ?x i) - (\<Sum>i<n. ?x i) * (\<Sum>i<n. ?x i) =
      real_of_int (int n * (\<Sum>i<n. k i * k i) - (\<Sum>i<n. k i) * (\<Sum>i<n. k i))" by simp
  have "1 \<le> int n * (\<Sum>i<n. k i * k i) - (\<Sum>i<n. k i) * (\<Sum>i<n. k i)" using pos unfolding e of_int_0_less_iff by linarith
  then have "real_of_int 1 \<le> real_of_int (int n * (\<Sum>i<n. k i * k i) - (\<Sum>i<n. k i) * (\<Sum>i<n. k i))" by (rule of_int_le_iff [THEN iffD2])
  then show ?thesis unfolding e by simp
qed

lemma regression_of_line:
  assumes "length ks = length ys" "\<forall>i < length ks. ys ! i = a + r * of_int (ks ! i)" "i < length ks" "j < length ks" "ks ! i \<noteq> ks ! j"
  shows "\<exists>l. LinearRegression (map of_int ks) ys = Some l \<and> lr_Slope l = r"
proof -
  let ?n = "length ks" and ?x = "\<lambda>i. real_of_int (ks ! i)"
  let ?X = "\<Sum>i<?n. ?x i" and ?XX = "\<Sum>i<?n. ?x i * ?x i"
  define d where "d = real ?n * ?XX - ?X * ?X"
  have "i \<noteq> j" using assms(5) by auto
  then have n: "2 \<le> ?n" using assms(3,4) by linarith
  have sums: "sum_list (map of_int ks) = ?X" "sum_list (map (\<lambda>x. x * x) (map of_int ks)) = ?XX"
    by (simp_all add: sum_list_map_sum)
  have Y: "sum_list ys = real ?n * a + r * ?X"
    using sum_list_map_sum [of id ys] assms(1,2) by (simp add: sum.distrib sum_distrib_left)
  have XY: "sum_list (map2 (*) (map of_int ks) ys) = a * ?X + r * ?XX"
    using assms(1,2) by (simp add: sum_list_map2_sum sum.distrib sum_distrib_left algebra_simps)
  have d1: "1 \<le> d" unfolding d_def by (rule integer_spread [OF assms(3-5)])
  have "real ?n * (a * ?X + r * ?XX) - ?X * (real ?n * a + r * ?X) = r * d" by (simp add: d_def algebra_simps)
  then have "(real ?n * (a * ?X + r * ?XX) - ?X * (real ?n * a + r * ?X)) / d = r" using d1 by simp
  moreover have "\<not> \<bar>d\<bar> < 1 / 10 ^ 15" using d1 by simp
  ultimately show ?thesis using n assms(1) unfolding LinearRegression_def Let_def XY Y sums length_map d_def [symmetric] by simp
qed

text \<open>A counter that grows linearly; \<open>at_second a r k\<close> is its value at second \<open>k\<close>.\<close>

definition at_second :: "float64 \<Rightarrow> float64 \<Rightarrow> int \<Rightarrow> float64" where
  "at_second a r k = a + r * of_int k"

definition second_of :: "MetricPoint \<Rightarrow> int" where
  "second_of p = mp_Timestamp p div Second"

lemma rate_of_line:
  assumes "\<forall>p \<in> set points. mp_Value p = at_second a r (second_of p)" "p \<in> set points" "q \<in> set points" "second_of p \<noteq> second_of q"
  shows "computeRate points = r"
proof -
  let ?b = "second_of (hd points)"
  let ?ks = "map (\<lambda>p. second_of p - ?b) points"
  obtain i j where ij: "i < length points" "j < length points" "points ! i = p" "points ! j = q" using assms(2,3) by (auto simp: in_set_conv_nth)
  then have "i \<noteq> j" using assms(4) by auto
  then have n: "\<not> length points < 2" using ij by linarith
  have "\<forall>k < length ?ks. map mp_Value points ! k = at_second a r ?b + r * of_int (?ks ! k)"
    using assms(1) by (auto simp: at_second_def algebra_simps)
  then obtain l where l: "LinearRegression (map of_int ?ks) (map mp_Value points) = Some l" "lr_Slope l = r"
    using regression_of_line [of ?ks "map mp_Value points" "at_second a r ?b" r i j] ij assms(4) by auto
  have "map of_int ?ks = map (\<lambda>p. real_of_int (mp_Timestamp p div Second - mp_Timestamp (hd points) div Second)) points"
    by (simp add: second_of_def)
  from l(1) [unfolded this] show ?thesis using n l(2) unfolding computeRate_def Let_def by simp
qed

text \<open>The projection of a maintenance need is exact for a counter that grows linearly: the need is overdue exactly when
  the last value reached the limit, it is not needed when the counter does not grow, and otherwise the line crosses
  the limit exactly \<open>TimeUntilSec\<close> seconds after the last point, imminent within the hour and predicted after it.\<close>

theorem need_projection_exact:
  assumes "\<forall>p \<in> set points. mp_Value p = at_second a r (second_of p)" "p \<in> set points" "q \<in> set points" "second_of p \<noteq> second_of q"
    and "fc_MinDataPoints cfg \<le> int (length points)" "f = project_need cfg limit now points base" "k = second_of (last points)"
  shows "(limit \<le> at_second a r k \<longrightarrow> mn_Status f = ''overdue'') \<and>
    (at_second a r k < limit \<and> r \<le> 0 \<longrightarrow> mn_Status f = ''not_needed'') \<and>
    (at_second a r k < limit \<and> 0 < r \<longrightarrow> mn_Status f = (if mn_TimeUntilSec f \<le> 3600 then ''imminent'' else ''predicted'') \<and>
       at_second a r k + r * mn_TimeUntilSec f = limit \<and> mn_PredictedAt f = Some (now + to_duration (mn_TimeUntilSec f)))"
proof -
  have rate: "computeRate points = r" by (rule rate_of_line [OF assms(1-4)])
  have "last points \<in> set points" using assms(2) by (intro last_in_set) auto
  then have v: "mp_Value (last points) = at_second a r k" using assms(1,7) by simp
  show ?thesis using assms(5,6) by (simp add: project_need_def Let_def rate v)
qed

subsection \<open>Witnesses\<close>

definition demo_op :: "int \<Rightarrow> TrackedOperation" where
  "demo_op n =
     \<lparr>to_InstanceID = ''a'', to_PID = 7, to_Operation = ''vacuum'', to_Database = ''d'', to_Table = ''t'', to_StartedAt = 0, to_LastSeenAt = (n - 1) * Second,
      to_MissedPolls = 0,
      to_Samples = map (\<lambda>i. \<lparr>ps_Timestamp = i * Second, ps_WorkDone = 10 + 10 * of_int i, ps_WorkTotal = 0, ps_PctDone = 100 * (10 + 10 * of_int i) / 50\<rparr>) [0..n - 1]\<rparr>"

lemma demo_steady: "steady_op 10 50 (demo_op 4)" "steady_op 10 50 (demo_op 5)"
proof -
  have e: "[0..3] = [0, 1, 2, 3 :: int]" "[0..4] = [0, 1, 2, 3, 4 :: int]" by code_simp+
  show "steady_op 10 50 (demo_op 4)" "steady_op 10 50 (demo_op 5)"
    by (simp_all add: steady_op_def steady_def demo_op_def e Seconds_def numeral_eq_Suc All_less_Suc2)
qed

theorem eta_exact_until_done_witness:
  "50 = 40 + 10 * eta_ETASec (computeOne (NewETACalculator 10 0.85 4) (demo_op 4) 0) \<and>
   eta_ETASec (computeOne (NewETACalculator 10 0.85 4) (demo_op 5) 0) = - 5"
proof -
  have e: "[0..3] = [0, 1, 2, 3 :: int]" "[0..4] = [0, 1, 2, 3, 4 :: int]" by code_simp+
  have s: "length (to_Samples (demo_op 4)) = 4" "length (to_Samples (demo_op 5)) = 5"
    "ps_WorkDone (last (to_Samples (demo_op 4))) = 40" "ps_WorkDone (last (to_Samples (demo_op 5))) = 50" by (simp_all add: demo_op_def e)
  have c: "ec_minSamples (NewETACalculator 10 0.85 4) = 4" "wc_WindowSize (ec_wmaCfg (NewETACalculator 10 0.85 4)) = 10"
    by (simp_all add: NewETACalculator_def)
  show ?thesis
    using eta_exact_until_done [OF demo_steady(1) _ _ _ _ _ refl refl, of "NewETACalculator 10 0.85 4" 0]
      eta_exact_until_done [OF demo_steady(2) _ _ _ _ _ refl refl, of "NewETACalculator 10 0.85 4" 0] unfolding s c by simp
qed

definition demo_dead :: "MetricPoint list" where
  "demo_dead = map (\<lambda>i. \<lparr>mp_InstanceID = ''a'', mp_Metric = ''pg.db.vacuum.dead_tuples'', mp_Value = 100 + 2 * of_int i, mp_Labels = [], mp_Timestamp = i * Second\<rparr>) [0, 60, 120]"

definition demo_forecast_cfg :: MaintenanceForecastConfig where
  "demo_forecast_cfg = ApplyDefaults
     \<lparr>fc_ETAWindowSize = 0, fc_ETADecayFactor = 0, fc_ETAMinSamples = 0, fc_EvaluationInterval = 0, fc_MinDataPoints = 0, fc_LookbackWindow = 0,
      fc_VacuumThresholdFallback = 0, fc_VacuumScaleFactorFallback = 0, fc_AnalyzeThresholdFallback = 0, fc_AnalyzeScaleFactorFallback = 0,
      fc_ReindexBloatThresholdTable = 0, fc_ReindexBloatThresholdIndex = 0, fc_BasebackupInterval = 0, fc_RetentionDays = 0\<rparr>"

theorem need_projection_exact_witness:
  "340 + 2 * mn_TimeUntilSec (project_need demo_forecast_cfg 1000 0 demo_dead (need_base ''a'' ''d'' ''t'' ''vacuum'' 1000 0)) = 1000"
proof -
  have line: "\<forall>p \<in> set demo_dead. mp_Value p = at_second 100 2 (second_of p)" by (simp add: demo_dead_def at_second_def second_of_def)
  have d: "hd demo_dead \<in> set demo_dead" "last demo_dead \<in> set demo_dead" "second_of (hd demo_dead) \<noteq> second_of (last demo_dead)"
    "fc_MinDataPoints demo_forecast_cfg \<le> int (length demo_dead)" and k: "second_of (last demo_dead) = 120"
    by (simp_all add: demo_dead_def second_of_def demo_forecast_cfg_def ApplyDefaults_def or_default_def)
  show ?thesis
    using need_projection_exact [OF line d refl refl, where limit = 1000 and now = 0 and base = "need_base ''a'' ''d'' ''t'' ''vacuum'' 1000 0"]
    unfolding k by (simp add: at_second_def)
qed

definition demo_tracker :: OperationTracker where
  "demo_tracker = (NewOperationTracker 0 0)\<lparr>tr_activeOps := [(''a:7:vacuum'', demo_op 4)]\<rparr>"

definition demo_poll :: metric_answers where
  "demo_poll q = (if mq_Metric q = ''progress.vacuum.completion_pct''
     then Some [\<lparr>mp_InstanceID = ''a'', mp_Metric = mq_Metric q, mp_Value = 100, mp_Labels = [(''pid'', ''7'')], mp_Timestamp = 4 * Second\<rparr>] else Some [])"

theorem tracker_debounce_witness:
  "\<exists>t' op'. tick 0 (\<lambda>_. 0) demo_poll None demo_tracker = (t', []) \<and> map_of (tr_activeOps t') ''a:7:vacuum'' = Some op' \<and> length (to_Samples op') = 5"
proof -
  have e: "[0..3] = [0, 1, 2, 3 :: int]" by code_simp
  have ok: "tracker_ok demo_tracker" by (simp add: tracker_ok_def demo_tracker_def NewOperationTracker_def op_ok_def demo_op_def e)
  define cur where "cur = current_ops demo_tracker 0 demo_poll"
  have cur: "keys_of cur = [''a:7:vacuum'']"
    unfolding cur_def by code_simp
  obtain t' rs where t: "tick 0 (\<lambda>_. 0) demo_poll None demo_tracker = (t', rs)" by fastforce
  obtain cop where c: "map_of cur ''a:7:vacuum'' = Some cop" using cur by (auto simp: map_eq_Cons_conv)
  have op: "map_of (tr_activeOps demo_tracker) ''a:7:vacuum'' = Some (demo_op 4)" "length (to_Samples (demo_op 4)) = 4" "tr_windowSize demo_tracker = 10"
    by (simp_all add: demo_tracker_def demo_op_def e NewOperationTracker_def)
  note td = tracker_debounce [OF ok cur_def [symmetric] t]
  have "rs = []" using td cur by (simp add: demo_tracker_def)
  moreover have "\<exists>op'. map_of (tr_activeOps t') ''a:7:vacuum'' = Some op' \<and> length (to_Samples op') = 5"
    using td [THEN conjunct2, THEN conjunct1, rule_format, OF op(1)] op(2,3) c by (auto simp: keep_last_def)
  ultimately show ?thesis using t by auto
qed

end
