(* ===== verification/CollectorLaws.thy ===== *)
theory CollectorLaws
  imports AlertRuleLaws CollectorOS CollectorDB ForecastExact
begin

section \<open>What the collectors report, and who reads it\<close>

text \<open>
  Laws of single collectors (versions they support, rates, totals), then what becomes of their points in the components
  that read them: the tracker of operations, the predictor of maintenance and the alert rules.
\<close>

subsection \<open>Versions\<close>

definition supported_version :: "PGVersion \<Rightarrow> bool" where
  "supported_version v \<longleftrightarrow> 14 \<le> v_Major v \<and> v_Major v \<le> 99 \<and> 0 \<le> v_Minor v \<and> v_Minor v \<le> 99"

lemma gates_total:
  assumes "supported_version v"
  shows "gate_Select replicationSlotsGate v = Some (if v_Major v = 14 then SlotsBase else if v_Major v = 15 then SlotsTwoPhase else SlotsConflicting)"
    and "gate_Select checkpointGate v = Some (if v_Major v \<le> 16 then BgwriterOnly else Checkpointer)"
  using assms by (auto simp: supported_version_def replicationSlotsGate_def checkpointGate_def range_Contains_majors)

lemma rates_nonneg:
  assumes "\<not> isStatsReset prev cur" "0 \<le> cs_buffersBackend prev \<longrightarrow> 0 \<le> cs_buffersBackend cur" "0 < e" "(name, rate, ls) \<in> set (ratePoints prev cur e)"
  shows "0 \<le> rate"
  using assms by (auto simp: ratePoints_def isStatsReset_def Let_def not_less split: if_splits)

text \<open>For every server the version gates know, the collector of checkpoints answers when its statement does, and its state
  is that answer: over any two passes the reported rates are the exact differences per second, never negative, and after
  a reset of the statistics (a counter that went down) no rate at all is reported, while the absolute values still are.\<close>

theorem checkpoint_rates:
  assumes "supported_version v" "checkpoint_Collect v (Some s) t1 st = (r1, st1)" "checkpoint_Collect v (Some s') t2 st1 = (r2, st2)" "t1 < t2"
    and "0 \<le> cs_buffersBackend s'"
  shows "\<exists>prev cur. st1 = Some (prev, t1) \<and> st2 = Some (cur, t2) \<and>
    r2 = Some (absolutePoints cur @ (if isStatsReset prev cur then [] else ratePoints prev cur (Seconds (time_sub t2 t1)))) \<and>
    (\<not> isStatsReset prev cur \<longrightarrow> (\<forall>(name, rate, ls) \<in> set (ratePoints prev cur (Seconds (time_sub t2 t1))). rate \<ge> 0))"
proof -
  obtain q where q: "gate_Select checkpointGate v = Some q" using gates_total(2) [OF assms(1)] by simp
  let ?prev = "checkpoint_columns q s" and ?cur = "checkpoint_columns q s'" and ?e = "Seconds (time_sub t2 t1)"
  have st: "st1 = Some (?prev, t1)" "st2 = Some (?cur, t2)" using assms(2,3) q by (auto simp: checkpoint_Collect_def Let_def)
  have e: "real_of_int (time_sub t2 t1) / real_of_int Second = ?e" by (simp add: Seconds_def)
  have pos: "?e > 0" using assms(4) by (simp add: Seconds_def time_sub_def)
  have "r2 = Some (computeMetrics ?cur st1 t2)" using assms(3) q by (simp add: checkpoint_Collect_def Let_def)
  then have r2: "r2 = Some (absolutePoints ?cur @ (if isStatsReset ?prev ?cur then [] else ratePoints ?prev ?cur ?e))"
    using pos unfolding st computeMetrics_def option.case prod.case Let_def e by simp
  have "0 \<le> cs_buffersBackend ?prev \<longrightarrow> 0 \<le> cs_buffersBackend ?cur" using assms(5) by (cases q) (simp_all add: checkpoint_columns_def)
  then have "rate \<ge> 0" if "\<not> isStatsReset ?prev ?cur" "(name, rate, ls) \<in> set (ratePoints ?prev ?cur ?e)" for name rate ls
    using rates_nonneg [OF that(1) _ pos that(2)] by blast
  then show ?thesis using st r2 by auto
qed

subsection \<open>Totals of the statements\<close>

lemma sum_of_fold: "sum_of f rs = sum_list (map f rs)"
proof -
  have "fold (\<lambda>r t. t + f r) rs a = a + sum_list (map f rs)" for a by (induction rs arbitrary: a) auto
  then show ?thesis by (simp add: sum_of_def)
qed

definition value_total :: "string \<Rightarrow> sample list \<Rightarrow> float64" where
  "value_total name ss = sum_list (map (\<lambda>(n, v, ls). if n = name then v else 0) ss)"

lemma value_total_append [simp]: "value_total n (xs @ ys) = value_total n xs + value_total n ys"
  by (simp add: value_total_def)

lemma value_total_rows:
  "value_total ''statements.top.calls'' (concat (map top_row_samples rs)) = sum_of tq_calls rs"
  "value_total ''statements.top.rows'' (concat (map top_row_samples rs)) = sum_of tq_rowCount rs"
  "value_total ''statements.top.total_time_ms'' (concat (map top_row_samples rs)) = sum_of tq_totalTime rs"
  "value_total ''statements.top.io_time_ms'' (concat (map top_row_samples rs)) = sum_of tq_ioTime rs"
  unfolding sum_of_fold by (induction rs) (simp_all add: value_total_def top_row_samples_def top_samples_def)

lemma buildTopMetrics_other:
  "buildTopMetrics (r0 # rs) = concat (map top_row_samples (r0 # rs)) @
     (if sum_of tq_calls (r0 # rs) < tq_ttlCalls r0 then
        top_samples [(''queryid'', ''other''), (''dbid'', ''all''), (''userid'', ''all'')] (tq_ttlTime r0 - sum_of tq_totalTime (r0 # rs))
          (tq_ttlIO r0 - sum_of tq_ioTime (r0 # rs)) (clamp0 (tq_ttlCPU r0 - sum_of tq_cpuTime (r0 # rs))) (tq_ttlCalls r0 - sum_of tq_calls (r0 # rs))
          (tq_ttlRows r0 - sum_of tq_rowCount (r0 # rs)) ((tq_ttlTime r0 - sum_of tq_totalTime (r0 # rs)) / (tq_ttlCalls r0 - sum_of tq_calls (r0 # rs)))
      else [])"
  by (simp add: buildTopMetrics_def Let_def)

lemma value_total_top:
  "value_total ''statements.top.calls'' (top_samples ls tot ioT cpu calls rws avg) = calls"
  "value_total ''statements.top.rows'' (top_samples ls tot ioT cpu calls rws avg) = rws"
  "value_total ''statements.top.total_time_ms'' (top_samples ls tot ioT cpu calls rws avg) = tot"
  "value_total ''statements.top.io_time_ms'' (top_samples ls tot ioT cpu calls rws avg) = ioT"
  by (simp_all add: value_total_def top_samples_def)

text \<open>The statements that the collector lists and the bucket for all others add up to the server's totals, for calls, rows,
  time and I/O time, whenever statements that are not listed were called at all.\<close>

theorem top_statements_partition:
  assumes "sum_of tq_calls (r0 # rs) < tq_ttlCalls r0"
  shows "value_total ''statements.top.calls'' (buildTopMetrics (r0 # rs)) = tq_ttlCalls r0 \<and>
    value_total ''statements.top.rows'' (buildTopMetrics (r0 # rs)) = tq_ttlRows r0 \<and>
    value_total ''statements.top.total_time_ms'' (buildTopMetrics (r0 # rs)) = tq_ttlTime r0 \<and>
    value_total ''statements.top.io_time_ms'' (buildTopMetrics (r0 # rs)) = tq_ttlIO r0"
  using assms by (simp only: buildTopMetrics_other value_total_append value_total_rows value_total_top if_True) simp

subsection \<open>Names of metrics and their readers\<close>

text \<open>Everything a collector writes is named after the prefix, and the store keeps the names.\<close>

lemma emit_prefixed: "p \<in> set (emit b clk ss) \<Longrightarrow> \<exists>m. mp_Metric p = ''pg.'' @ m"
  by (auto dest!: in_emit simp: point_def metricPrefix_def)

definition prefixed_rows :: "metrics_table \<Rightarrow> bool" where
  "prefixed_rows rows \<longleftrightarrow> (\<forall>p \<in> set rows. \<exists>m. mp_Metric p = ''pg.'' @ m)"

text \<open>What the collectors of instances and databases can have written: the runner of a database fills in the instance.\<close>

definition instance_samples :: "sample list \<Rightarrow> bool" where
  "instance_samples ss \<longleftrightarrow> list_all (\<lambda>(name, v, ls). \<not> HasPrefix name ''db.'') ss"

inductive collected :: "metrics_table \<Rightarrow> bool" where
  collected_empty: "collected []"
| collected_write: "collected rows \<Longrightarrow> instance_samples ss \<Longrightarrow> pg_Write up rows (emit b clk ss) = Some rows' \<Longrightarrow> collected rows'"
| collected_write_db: "collected rows \<Longrightarrow> CollectDB clk db d = Some (ps, failed) \<Longrightarrow> pg_Write up rows (map (\<lambda>p. p\<lparr>mp_InstanceID := i\<rparr>) ps) = Some rows' \<Longrightarrow>
    collected rows'"

lemma pg_Write_prefixed:
  assumes "prefixed_rows rows" "prefixed_rows ps" "pg_Write up rows ps = Some rows'"
  shows "prefixed_rows rows'"
  using assms by (auto simp: prefixed_rows_def pg_Write_def pg_copy_def stored_def split: if_splits)

lemma in_CollectDB:
  assumes "CollectDB clk db d = Some (ps, failed)" "p \<in> set ps"
  shows "\<exists>t ss m v ls. Some ss \<in> set (sub_collectors d) \<and> (m, v, ls) \<in> set ss \<and> p = dbPoint t m v db ls"
proof -
  have "p \<in> set (db_emit db clk (concat (map (\<lambda>r. case r of None \<Rightarrow> [] | Some ss \<Rightarrow> ss) (sub_collectors d))))"
    using assms by (auto simp: CollectDB_def Let_def split: if_splits)
  then obtain t m v ls where x: "(m, v, ls) \<in> set (concat (map (\<lambda>r. case r of None \<Rightarrow> [] | Some ss \<Rightarrow> ss) (sub_collectors d)))" "p = dbPoint t m v db ls"
    using in_db_emit by meson
  then obtain r where r: "r \<in> set (sub_collectors d)" "(m, v, ls) \<in> set (case r of None \<Rightarrow> [] | Some ss \<Rightarrow> ss)" by auto
  have "r \<noteq> None" using r(2) by auto
  then obtain ss where "r = Some ss" by blast
  then have "Some ss \<in> set (sub_collectors d)" "(m, v, ls) \<in> set ss" using r by simp_all
  then show ?thesis using x(2) by blast
qed

lemma collected_prefixed: "collected rows \<Longrightarrow> prefixed_rows rows"
proof (induction rule: collected.induct)
  case (collected_write rows ss up b clk rows')
  then show ?case using emit_prefixed pg_Write_prefixed by (metis prefixed_rows_def)
next
  case (collected_write_db rows clk db d ps failed up i rows')
  have "prefixed_rows (map (\<lambda>p. p\<lparr>mp_InstanceID := i\<rparr>) ps)"
    by (auto simp: prefixed_rows_def dbPoint_def metricPrefix_def dest!: in_CollectDB [OF collected_write_db.hyps(2)])
  then show ?case using collected_write_db pg_Write_prefixed by blast
qed (simp add: prefixed_rows_def)

lemma pg_Query_none:
  assumes "mq_Limit q \<le> 0" "\<And>p. p \<in> set rows \<Longrightarrow> \<not> pg_selects q p"
  shows "pg_Query rows q = []"
proof -
  have "filter (pg_selects q) rows = []" using assms(2) by (simp add: filter_empty_conv)
  then show ?thesis using assms(1) by (simp add: pg_Query_unlimited)
qed

lemma like_unprefixed:
  assumes "HasPrefix m ''progress.''"
  shows "\<not> sql_like (m @ ''%'') (''pg.'' @ s)"
proof -
  obtain r where "m = ''progress.'' @ r" using assms by (metis HasPrefix_def append_take_drop_id)
  then show ?thesis by simp
qed

lemma progress_unseen:
  assumes "prefixed_rows rows" "HasPrefix m ''progress.''"
  shows "pg_Query rows (progress_query t now m) = []"
proof (rule pg_Query_none)
  show "mq_Limit (progress_query t now m) \<le> 0" by (simp add: progress_query_def empty_query_def)
  fix p assume "p \<in> set rows"
  then obtain s where "mp_Metric p = ''pg.'' @ s" using assms(1) by (auto simp: prefixed_rows_def)
  then show "\<not> pg_selects (progress_query t now m) p"
    using like_unprefixed [OF assms(2), of s] assms(2) by (auto simp: pg_selects_def progress_query_def buildQuery_def empty_query_def HasPrefix_def)
qed

lemma current_ops_blind: "prefixed_rows rows \<Longrightarrow> current_ops t now (\<lambda>q. Some (pg_Query rows q)) = []"
  by (simp add: current_ops_def operationMetrics_def progress_unseen HasPrefix_def)


lemma per_row_in: "per_row f a = Some ss \<Longrightarrow> x \<in> set ss \<Longrightarrow> \<exists>r. x \<in> set (f r)"
  by (auto simp: per_row_def)

lemma db_labels:
  assumes "Some ss \<in> set (sub_collectors d)" "(m, v, ls) \<in> set ss"
  shows "''datname'' \<notin> fst ` set ls"
proof -
  note rows = per_row_in [of _ _ ss "(m, v, ls)"]
  from assms(1) consider
      "collectLargeObjects (da_largeObjects d) = Some ss" | "collectFunctionStats (da_trackFunctions d) (da_functions d) = Some ss"
    | "collectSequences (da_sequences d) = Some ss" | "collectSchemaSizes (da_schemas d) = Some ss" | "collectUnloggedObjects (da_unlogged d) = Some ss"
    | "collectTableSizes (da_tables d) = Some ss" | "collectBloat (da_bloat d) = Some ss" | "collectCatalogSizes (da_catalog d) = Some ss"
    | "collectTableCacheHit (da_cache d) = Some ss" | "collectAutovacuumOptions (da_options d) = Some ss" | "collectVacuumNeed (da_vacuum d) = Some ss"
    | "collectIndexUsage (da_indexes d) = Some ss" | "collectUnusedIndexes (da_unused d) = Some ss" | "collectToastSizes (da_toast d) = Some ss"
    | "collectPartitions (da_partitions d) = Some ss" | "collectLargeObjectSizes (da_lobs d) = Some ss"
    | "collectLogicalReplication (da_subscriptions d) = Some ss"
    unfolding sub_collectors_def by (auto simp: eq_commute [of "Some ss"])
  then show ?thesis
  proof cases
    case 1
    then show ?thesis using assms(2) by (auto simp: collectLargeObjects_def)
  next
    case 2
    then show ?thesis using assms(2) by (auto simp: collectFunctionStats_def Let_def dest!: rows [OF _ assms(2)] split: option.splits if_splits)
  next
    case 16
    then show ?thesis using assms(2) by (auto simp: collectLargeObjectSizes_def)
  next
    case 17
    then show ?thesis using assms(2) by (auto simp: collectLogicalReplication_def)
  qed (auto dest!: rows [OF _ assms(2)] simp: collectSequences_def collectSchemaSizes_def collectUnloggedObjects_def collectTableSizes_def collectBloat_def
      collectCatalogSizes_def collectTableCacheHit_def collectAutovacuumOptions_def collectVacuumNeed_def collectIndexUsage_def collectUnusedIndexes_def
      collectToastSizes_def collectPartitions_def table_labels_def Let_def split: option.splits)
qed

lemma with_database_key: "k \<notin> fst ` set extra \<Longrightarrow> k \<noteq> ''database'' \<Longrightarrow> map_of (with_database db extra) k = None"
proof -
  have "k \<notin> fst ` set extra \<Longrightarrow> map_of (fold (\<lambda>(k, v) m. map_put k v m) extra m) k = map_of m k" for m :: labels
    by (induction extra arbitrary: m) auto
  then show "k \<notin> fst ` set extra \<Longrightarrow> k \<noteq> ''database'' \<Longrightarrow> map_of (with_database db extra) k = None" by (simp add: with_database_def)
qed

text \<open>Rows about databases do not have the label \<open>datname\<close>.\<close>

definition no_datname :: "MetricPoint \<Rightarrow> bool" where
  "no_datname p \<longleftrightarrow> (\<forall>m. mp_Metric p = ''pg.db.'' @ m \<longrightarrow> map_of (mp_Labels p) ''datname'' = None)"

lemma emit_no_datname:
  assumes "instance_samples ss" "p \<in> set (emit b clk ss)"
  shows "no_datname p"
proof -
  obtain i m v ls where "i < length ss" "ss ! i = (m, v, ls)" and p: "p = point b (clk i) m v ls" using in_emit [OF assms(2)] by auto
  then have "\<not> HasPrefix m ''db.''" using assms(1) unfolding instance_samples_def list_all_length by fastforce
  then show ?thesis unfolding p by (auto simp: no_datname_def point_def metricPrefix_def HasPrefix_def)
qed

lemma collected_no_datname: "collected rows \<Longrightarrow> list_all no_datname rows"
proof (induction rule: collected.induct)
  case (collected_write rows ss up b clk rows')
  have "list_all no_datname (map stored (emit b clk ss))"
    using emit_no_datname [OF collected_write.hyps(2)] by (auto simp: list_all_iff no_datname_def stored_def)
  then show ?case using collected_write by (auto simp: pg_Write_def pg_copy_def split: if_splits)
next
  case (collected_write_db rows clk db d ps failed up i rows')
  have "map_of (mp_Labels p) ''datname'' = None" if p: "p \<in> set ps" for p
  proof -
    obtain t ss m v ls where x: "Some ss \<in> set (sub_collectors d)" "(m, v, ls) \<in> set ss" "p = dbPoint t m v db ls"
      using in_CollectDB [OF collected_write_db.hyps(2) p] by blast
    show ?thesis using with_database_key [OF db_labels [OF x(1,2)], of db] by (simp add: x(3) dbPoint_def)
  qed
  then have "list_all no_datname (map stored (map (\<lambda>p. p\<lparr>mp_InstanceID := i\<rparr>) ps))" by (simp add: list_all_iff no_datname_def stored_def)
  then show ?case using collected_write_db by (auto simp: pg_Write_def pg_copy_def split: if_splits)
qed simp

lemma like_db: "sql_like (''pg.db.'' @ r) s \<Longrightarrow> \<exists>m. s = ''pg.db.'' @ m"
  by (auto split: list.splits if_splits)

lemma history_unseen:
  assumes "collected rows"
  shows "pg_Query rows (history_query cfg now i (''pg.db.'' @ m) db tbl) = []"
proof (rule pg_Query_none)
  show "mq_Limit (history_query cfg now i (''pg.db.'' @ m) db tbl) \<le> 0" by (simp add: history_query_def empty_query_def)
  fix p assume p: "p \<in> set rows"
  have "pg_selects (history_query cfg now i (''pg.db.'' @ m) db tbl) p \<Longrightarrow>
      sql_like ((''pg.db.'' @ m) @ ''%'') (mp_Metric p) \<and> map_of (mp_Labels p) ''datname'' = Some db"
    unfolding pg_selects_def history_query_def buildQuery_def empty_query_def by (simp del: append.simps)
  moreover have "no_datname p" using collected_no_datname [OF assms] p by (simp add: list_all_iff)
  ultimately show "\<not> pg_selects (history_query cfg now i (''pg.db.'' @ m) db tbl) p"
    using like_db [of "m @ ''%''" "mp_Metric p"] unfolding no_datname_def append_assoc by fastforce
qed

text \<open>No need for a vacuum or an analyze is ever predicted: the predictor looks tables up by the labels \<open>datname\<close> and
  \<open>relname\<close>, and the collectors label what they measure with \<open>database\<close>, \<open>schema\<close> and \<open>table\<close>. Whatever was collected,
  for every instance and table, both forecasts are that there is not enough data.\<close>

theorem needs_never_predicted:
  assumes "collected rows" "0 < fc_MinDataPoints cfg"
  shows "mn_Status (evaluateVacuum cfg (\<lambda>q. Some (pg_Query rows q)) now now' i t) = ''insufficient_data'' \<and>
    mn_Status (evaluateAnalyze cfg (\<lambda>q. Some (pg_Query rows q)) now now' i t) = ''insufficient_data''"
  using assms(2) history_unseen [OF assms(1), of cfg now' i "''vacuum.dead_tuples''"] history_unseen [OF assms(1), of cfg now' i "''vacuum.mod_since_analyze''"]
  by (simp add: evaluateVacuum_def evaluateAnalyze_def queryMetricHistory_def project_need_def)

subsection \<open>Limits of the built-in rules\<close>

lemma ratio_rules: "r \<in> set BuiltinRules \<Longrightarrow> r_ID r = ''cache_hit_warning'' \<Longrightarrow> r_Operator r = OpLess \<and> r_Threshold r = 0.90"
  "r \<in> set BuiltinRules \<Longrightarrow> r_ID r = ''commit_ratio_warning'' \<Longrightarrow> r_Operator r = OpLess \<and> r_Threshold r = 0.95"
  unfolding BuiltinRules_def list.set by (elim insertE emptyE; simp)+

lemma percentage_below:
  assumes "0 < k" "0 \<le> c"
  shows "hit_percentage h m < c / k \<longleftrightarrow> (if h + m = 0 then 0 < c else k * 100 * real h < c * real (h + m))"
  using assms by (auto simp: hit_percentage_def field_simps)

text \<open>The built-in rules on the cache hit ratio and the commit ratio compare percentages with fractions: with any traffic, the
  rule that is to warn below ninety percent of cache hits is breached exactly below nine tenths of a percent, and the one that
  is to warn below ninety-five percent of commits below ninety-five hundredths of a percent. Without traffic both are breached.\<close>

theorem ratio_rules_misscaled:
  assumes "cache \<in> set BuiltinRules" "r_ID cache = ''cache_hit_warning''" "commits \<in> set BuiltinRules" "r_ID commits = ''commit_ratio_warning''"
  shows "(Compare (r_Operator cache) (hit_percentage h m) (r_Threshold cache) \<longleftrightarrow> h + m = 0 \<or> 1000 * h < 9 * (h + m)) \<and>
    (Compare (r_Operator commits) (hit_percentage c r) (r_Threshold commits) \<longleftrightarrow> c + r = 0 \<or> 10000 * c < 95 * (c + r))"
proof -
  have n: "real (1000 * h) < real (9 * (h + m)) \<longleftrightarrow> 1000 * h < 9 * (h + m)" "real (10000 * c) < real (95 * (c + r)) \<longleftrightarrow> 10000 * c < 95 * (c + r)"
    by (simp_all only: of_nat_less_iff)
  have "hit_percentage h m < 9 / 10 \<longleftrightarrow> h + m = 0 \<or> 1000 * h < 9 * (h + m)"
    using percentage_below [of 10 9 h m] n(1) by simp
  moreover have "hit_percentage c r < 95 / 100 \<longleftrightarrow> c + r = 0 \<or> 10000 * c < 95 * (c + r)"
    using percentage_below [of 100 95 c r] n(2) by simp
  moreover have "r_Threshold cache = 9 / 10" "r_Threshold commits = 95 / 100" "r_Operator cache = OpLess" "r_Operator commits = OpLess"
    using ratio_rules(1) [OF assms(1,2)] ratio_rules(2) [OF assms(3,4)] by simp_all
  moreover have "Compare OpLess x y \<longleftrightarrow> x < y" for x y by (simp add: Compare_def)
  ultimately show ?thesis by (simp only:)
qed

text \<open>Both kinds of long transactions are always reported, and every connection counts towards the total.\<close>

lemma longtx_both: "t \<in> {''active'', ''waiting''} \<Longrightarrow> \<exists>cnt. (''long_transactions.count'', cnt, [(''type'', t)]) \<in> set (longtx_buildMetrics rs)"
proof (cases "t \<in> fst ` set rs")
  case True
  then show ?thesis by (force simp: longtx_buildMetrics_def longtx_samples_def)
next
  case False
  then show "t \<in> {''active'', ''waiting''} \<Longrightarrow> ?thesis" by (auto simp: longtx_buildMetrics_def longtx_samples_def)
qed

subsection \<open>Concrete runs\<close>

definition demo_version :: PGVersion where
  "demo_version = \<lparr>v_Major = 16, v_Minor = 2, v_Num = 160002, v_Full = ''PostgreSQL 16.2''\<rparr>"

definition demo_counters :: "float64 \<Rightarrow> checkpointSnapshot" where
  "demo_counters x = \<lparr>cs_checkpointsTimed = x, cs_checkpointsReq = x, cs_writeTimeMs = x, cs_syncTimeMs = x, cs_buffersWritten = x, cs_buffersClean = x,
     cs_maxwrittenClean = x, cs_buffersAlloc = x, cs_buffersBackend = x, cs_buffersBackendFsync = x, cs_restartpointsTimed = x, cs_restartpointsDone = x,
     cs_restartpointsRequested = x\<rparr>"

lemma demo_supported: "supported_version demo_version"
  by (simp add: supported_version_def demo_version_def)

abbreviation "demo_snapshot x \<equiv> checkpoint_columns BgwriterOnly (demo_counters x)"

lemma demo_checkpoint: "checkpoint_Collect demo_version (Some s) t st = (Some (computeMetrics (checkpoint_columns BgwriterOnly s) st t), Some (checkpoint_columns BgwriterOnly s, t))"
  using gates_total(2) [OF demo_supported] by (simp add: checkpoint_Collect_def demo_version_def Let_def)

theorem checkpoint_rates_witness:
  "computeMetrics (demo_snapshot 30) (Some (demo_snapshot 10, 0)) (60 * Second) =
     absolutePoints (demo_snapshot 30) @ ratePoints (demo_snapshot 10) (demo_snapshot 30) (Seconds (time_sub (60 * Second) 0)) \<and>
   (''bgwriter.buffers_alloc_per_second'', 20 / 60, []) \<in> set (ratePoints (demo_snapshot 10) (demo_snapshot 30) (Seconds (time_sub (60 * Second) 0)))"
proof -
  have "\<not> isStatsReset (demo_snapshot 10) (demo_snapshot 30)" "0 \<le> cs_buffersBackend (demo_counters 30)"
    by (simp_all add: isStatsReset_def checkpoint_columns_def demo_counters_def)
  then show ?thesis
    using checkpoint_rates [OF demo_supported demo_checkpoint [of "demo_counters 10" 0 None] demo_checkpoint [of "demo_counters 30" "60 * Second"]]
    by (auto simp: ratePoints_def Seconds_def time_sub_def checkpoint_columns_def demo_counters_def)
qed

definition demo_top :: topQueryRow where
  "demo_top = \<lparr>tq_queryID = ''1'', tq_dbID = ''5'', tq_userID = ''10'', tq_calls = 7, tq_rowCount = 70, tq_totalTime = 21, tq_ioTime = 1, tq_cpuTime = 20,
     tq_avgTime = 3, tq_ttlCalls = 10, tq_ttlRows = 100, tq_ttlTime = 51, tq_ttlIO = 6, tq_ttlCPU = 45\<rparr>"

theorem top_statements_partition_witness:
  "value_total ''statements.top.calls'' (buildTopMetrics [demo_top]) = 10 \<and> value_total ''statements.top.total_time_ms'' (buildTopMetrics [demo_top]) = 51"
  using top_statements_partition [of demo_top "[]"] by (simp add: sum_of_def demo_top_def)

definition demo_progress :: "sample list" where
  "demo_progress = the (progress_vacuum_Collect (Answer [Some (''4711'', ''app'', ''orders'', ''scanning heap'', 100, 40, 0, 0, 1000, 10)] True))"

definition demo_rows :: metrics_table where
  "demo_rows = the (pg_Write True [] (emit \<lparr>b_instanceID = ''db1'', b_interval = 10 * Second\<rparr> (\<lambda>_. 1000) demo_progress))"

lemma demo_progress: "demo_progress = vacuum_progress_row (''4711'', ''app'', ''orders'', ''scanning heap'', 100, 40, 0, 0, 1000, 10)"
  by (simp add: demo_progress_def progress_vacuum_Collect_def per_row_def)

lemma demo_collected: "collected demo_rows" "length demo_rows = 7"
proof -
  have w: "pg_Write True [] (emit \<lparr>b_instanceID = ''db1'', b_interval = 10 * Second\<rparr> (\<lambda>_. 1000) demo_progress) = Some demo_rows"
    by (auto simp: demo_rows_def pg_Write_def)
  have "instance_samples demo_progress" by (simp add: demo_progress instance_samples_def vacuum_progress_row_def HasPrefix_def Let_def)
  then show "collected demo_rows" using collected_write [OF collected_empty _ w] by simp
  have "length demo_progress = 7" by (simp add: demo_progress vacuum_progress_row_def Let_def)
  moreover have "length ps = length rows'" if "pg_Write True [] ps = Some rows'" for ps rows'
    using that by (auto simp: pg_Write_def pg_copy_def split: if_splits)
  ultimately show "length demo_rows = 7" using w by (metis length_emit)
qed


theorem needs_never_predicted_witness:
  "mn_Status (evaluateVacuum (ApplyDefaults demo_forecast_cfg) (\<lambda>q. Some (pg_Query demo_rows q)) 2000 2000 ''db1''
     (table_thresholds (fallback_settings (ApplyDefaults demo_forecast_cfg)) (''public'', ''orders'', ''app'', 1000, []))) = ''insufficient_data''"
  using needs_never_predicted [OF demo_collected(1), of "ApplyDefaults demo_forecast_cfg"] by (simp add: ApplyDefaults_def or_default_def demo_forecast_cfg_def)

theorem ratio_rules_misscaled_witness:
  "\<exists>cache commits. cache \<in> set BuiltinRules \<and> r_ID cache = ''cache_hit_warning'' \<and> commits \<in> set BuiltinRules \<and> r_ID commits = ''commit_ratio_warning'' \<and>
     \<not> Compare (r_Operator cache) (hit_percentage 50 50) (r_Threshold cache) \<and> \<not> Compare (r_Operator commits) (hit_percentage 30 70) (r_Threshold commits)"
proof -
  have "''cache_hit_warning'' \<in> set (map r_ID BuiltinRules)" "''commit_ratio_warning'' \<in> set (map r_ID BuiltinRules)" unfolding builtin_ids by simp_all
  then obtain cache commits where "cache \<in> set BuiltinRules" "r_ID cache = ''cache_hit_warning''" "commits \<in> set BuiltinRules" "r_ID commits = ''commit_ratio_warning''"
    by auto
  then show ?thesis using ratio_rules_misscaled [of cache commits 50 50 30 70] by fastforce
qed

end
