(* ===== verification/RemediationRules.thy ===== *)
theory RemediationRules
  imports AlertDispatch RcaEngine TextPrelude
begin

section \<open>Remediation rules (\<open>internal/remediation/rule.go\<close>, \<open>rules_pg.go\<close>, \<open>rules_os.go\<close>)\<close>

text \<open>
  The twenty-five compiled-in rules: each looks at the metric an alert came with or at a snapshot of current
  values, and gives a result when its condition holds.
\<close>

subsection \<open>Data\<close>

abbreviation "PriorityInfo \<equiv> ''info''"
abbreviation "PrioritySuggestion \<equiv> ''suggestion''"
abbreviation "PriorityActionRequired \<equiv> ''action_required''"
abbreviation "CategoryPerformance \<equiv> ''performance''"
abbreviation "CategoryCapacity \<equiv> ''capacity''"
abbreviation "CategoryConfiguration \<equiv> ''configuration''"
abbreviation "CategoryReplication \<equiv> ''replication''"
abbreviation "CategoryMaintenance \<equiv> ''maintenance''"

type_synonym MetricSnapshot = "(string, float64) gomap"

record EvalContext =
  ec_InstanceID :: string
  ec_MetricKey :: string
  ec_Value :: float64
  ec_Labels :: labels
  ec_Severity :: string
  ec_Snapshot :: MetricSnapshot

record RuleResult =
  rt_Title :: string
  rt_Description :: string
  rt_DocURL :: string
  rt_MetricKey :: string
  rt_MetricValue :: float64

record RemRule =
  rm_ID :: string
  rm_Priority :: string
  rm_Category :: string
  rm_Evaluate :: "EvalContext \<Rightarrow> RuleResult option"

definition rem_rule :: "string \<Rightarrow> string \<Rightarrow> string \<Rightarrow> (EvalContext \<Rightarrow> RuleResult option) \<Rightarrow> RemRule" where
  "rem_rule i p c ev = \<lparr>rm_ID = i, rm_Priority = p, rm_Category = c, rm_Evaluate = ev\<rparr>"

definition advise :: "string \<Rightarrow> string \<Rightarrow> string \<Rightarrow> string \<Rightarrow> float64 \<Rightarrow> RuleResult" where
  "advise title desc doc key v = \<lparr>rt_Title = title, rt_Description = desc, rt_DocURL = doc, rt_MetricKey = key, rt_MetricValue = v\<rparr>"

text \<open>The verb \<open>%.nf\<close>: the nearest decimal, halves to even, the sign in front of a number that rounds to zero too.\<close>

definition round_even :: "real \<Rightarrow> int" where
  "round_even x = (let f = \<lfloor>x\<rfloor>; d = x - of_int f in if d < 1/2 then f else if d > 1/2 then f + 1 else if even f then f else f + 1)"

definition pad_zeros :: "nat \<Rightarrow> string \<Rightarrow> string" where
  "pad_zeros n s = replicate (n - length s) (CHR ''0'') @ s"

definition fmt_fixed :: "nat \<Rightarrow> float64 \<Rightarrow> string" where
  "fmt_fixed n x =
     (let k = nat (round_even (\<bar>x\<bar> * 10 ^ n)) in
      (if x < 0 then ''-'' else '''') @ nat_digits (k div 10 ^ n) @ (if n = 0 then '''' else ''.'' @ pad_zeros n (nat_digits (k mod 10 ^ n))))"

text \<open>The em dash in UTF-8.\<close>

definition em_dash :: string where
  "em_dash = [CHR 0xE2, CHR 0x80, CHR 0x94]"

text \<open>The value of the metric of the rule: what the alert came with, or the snapshot; without a value the rule does not match.\<close>

definition on_metric :: "EvalContext \<Rightarrow> string \<Rightarrow> (float64 \<Rightarrow> RuleResult option) \<Rightarrow> RuleResult option" where
  "on_metric ctx key f =
     (if ec_MetricKey ctx = key then f (ec_Value ctx) else case map_of (ec_Snapshot ctx) key of None \<Rightarrow> None | Some v \<Rightarrow> f v)"

definition getOS :: "MetricSnapshot \<Rightarrow> string \<Rightarrow> float64 option" where
  "getOS snap suffix = (case map_of snap (''os.'' @ suffix) of Some v \<Rightarrow> Some v | None \<Rightarrow> map_of snap (''pg.os.'' @ suffix))"

definition isOSMetric :: "string \<Rightarrow> string \<Rightarrow> bool" where
  "isOSMetric key suffix \<longleftrightarrow> key = ''os.'' @ suffix \<or> key = ''pg.os.'' @ suffix"

definition on_os_metric :: "EvalContext \<Rightarrow> string \<Rightarrow> (float64 \<Rightarrow> RuleResult option) \<Rightarrow> RuleResult option" where
  "on_os_metric ctx suffix f =
     (if isOSMetric (ec_MetricKey ctx) suffix then f (ec_Value ctx) else case getOS (ec_Snapshot ctx) suffix of None \<Rightarrow> None | Some v \<Rightarrow> f v)"

subsection \<open>The rules\<close>

definition rem_conn_high :: RemRule where
  "rem_conn_high = rem_rule ''rem_conn_high'' PrioritySuggestion CategoryCapacity (\<lambda>ctx.
        on_metric ctx ''pg.connections.utilization_pct'' (\<lambda>pct.
          if pct > 80 \<and> pct < 99 then Some (advise ''Consider connection pooling''
            (''Connection utilization at '' @ fmt_fixed 0 pct @ ''%. Consider adding PgBouncer or increasing max_connections. Review application connection pool settings for idle connections.'')
            ''https://www.pgbouncer.org/'' ''pg.connections.utilization_pct'' pct) else None))"

definition rem_conn_exhausted :: RemRule where
  "rem_conn_exhausted = rem_rule ''rem_conn_exhausted'' PriorityActionRequired CategoryCapacity (\<lambda>ctx.
        on_metric ctx ''pg.connections.utilization_pct'' (\<lambda>pct.
          if pct \<ge> 99 then Some (advise ''Connections near limit''
            (''Connection utilization at '' @ fmt_fixed 0 pct @ ''%. New connections will be refused. Immediately terminate idle sessions and deploy a connection pooler like PgBouncer.'')
            ''https://www.postgresql.org/docs/current/runtime-config-connection.html'' ''pg.connections.utilization_pct'' pct) else None))"

definition rem_cache_low :: RemRule where
  "rem_cache_low = rem_rule ''rem_cache_low'' PrioritySuggestion CategoryPerformance (\<lambda>ctx.
        on_metric ctx ''pg.cache.hit_ratio'' (\<lambda>val.
          if val < 90 then Some (advise ''Review shared_buffers sizing''
            (''Buffer cache hit ratio is '' @ fmt_fixed 1 val @ ''%, below the recommended 90% threshold. Consider increasing shared_buffers or investigating queries that perform excessive sequential scans. Run EXPLAIN ANALYZE on slow queries to identify missing indexes.'')
            ''https://www.postgresql.org/docs/current/runtime-config-resource.html#GUC-SHARED-BUFFERS'' ''pg.cache.hit_ratio'' val) else None))"

definition rem_commit_ratio_low :: RemRule where
  "rem_commit_ratio_low = rem_rule ''rem_commit_ratio_low'' PrioritySuggestion CategoryPerformance (\<lambda>ctx.
        on_metric ctx ''pg.transactions.commit_ratio_pct'' (\<lambda>val.
          if val < 90 then Some (advise ''High rollback rate detected''
            (''Transaction commit ratio is '' @ fmt_fixed 1 val @ ''%, indicating a high rollback rate. Investigate application error handling and retry logic. Check pg_stat_database for rollback trends per database.'')
            ''https://www.postgresql.org/docs/current/monitoring-stats.html#MONITORING-PG-STAT-DATABASE-VIEW'' ''pg.transactions.commit_ratio_pct'' val) else None))"

definition rem_repl_lag_bytes :: RemRule where
  "rem_repl_lag_bytes = rem_rule ''rem_repl_lag_bytes'' PrioritySuggestion CategoryReplication (\<lambda>ctx.
        on_metric ctx ''pg.replication.lag.replay_bytes'' (\<lambda>val.
          let mb = val / (1024 * 1024) in
          if mb > 10 \<and> mb \<le> 100 then Some (advise ''Check replica load and network''
            (''Replication replay lag is '' @ fmt_fixed 1 mb @ '' MB. Verify replica is not under heavy read load and network latency is acceptable. Check wal_receiver_status_interval and recovery settings on the replica.'')
            ''https://www.postgresql.org/docs/current/warm-standby.html#STREAMING-REPLICATION-MONITORING'' ''pg.replication.lag.replay_bytes'' val) else None))"

definition rem_repl_lag_critical :: RemRule where
  "rem_repl_lag_critical = rem_rule ''rem_repl_lag_critical'' PriorityActionRequired CategoryReplication (\<lambda>ctx.
        on_metric ctx ''pg.replication.lag.replay_bytes'' (\<lambda>val.
          let mb = val / (1024 * 1024) in
          if mb > 100 then Some (advise ''Replica severely lagging''
            (''Replication replay lag is '' @ fmt_fixed 1 mb @ '' MB, severely behind primary. Risk of slot-induced WAL retention bloat. Consider pausing non-essential replica workloads and verifying network connectivity. If unrecoverable, rebuild the replica.'')
            ''https://www.postgresql.org/docs/current/warm-standby.html#STREAMING-REPLICATION-MONITORING'' ''pg.replication.lag.replay_bytes'' val) else None))"

definition rem_repl_slot_inactive :: RemRule where
  "rem_repl_slot_inactive = rem_rule ''rem_repl_slot_inactive'' PriorityActionRequired CategoryReplication (\<lambda>ctx.
        if ec_MetricKey ctx = ''pg.replication.slot.active'' then
          if ec_Value ctx = 0 then Some (advise ''Inactive replication slots detected''
            (''An inactive replication slot was detected. Inactive slots prevent WAL cleanup and can fill the disk. Drop unused slots with pg_drop_replication_slot() or reconnect the subscriber.'')
            ''https://www.postgresql.org/docs/current/view-pg-replication-slots.html'' ''pg.replication.slot.active'' (ec_Value ctx)) else None
        else None)"

definition rem_long_txn_warn :: RemRule where
  "rem_long_txn_warn = rem_rule ''rem_long_txn_warn'' PrioritySuggestion CategoryPerformance (\<lambda>ctx.
        on_metric ctx ''pg.long_transactions.oldest_seconds'' (\<lambda>val.
          if val > 60 \<and> val \<le> 300 then Some (advise ''Long-running transactions detected''
            (''Oldest active transaction has been running for '' @ fmt_fixed 0 val @ '' seconds. Long transactions hold locks, prevent autovacuum, and bloat tables. Identify the session in pg_stat_activity and consider terminating it.'')
            ''https://www.postgresql.org/docs/current/monitoring-stats.html#MONITORING-PG-STAT-ACTIVITY-VIEW'' ''pg.long_transactions.oldest_seconds'' val) else None))"

definition rem_long_txn_crit :: RemRule where
  "rem_long_txn_crit = rem_rule ''rem_long_txn_crit'' PriorityActionRequired CategoryPerformance (\<lambda>ctx.
        on_metric ctx ''pg.long_transactions.oldest_seconds'' (\<lambda>val.
          if val > 300 then Some (advise ''Stale transactions require intervention''
            (''Oldest active transaction has been running for '' @ fmt_fixed 0 val @ '' seconds (>5 minutes). This blocks autovacuum and causes table bloat. Use pg_terminate_backend() to kill the offending session immediately.'')
            ''https://www.postgresql.org/docs/current/functions-admin.html#FUNCTIONS-ADMIN-SIGNAL'' ''pg.long_transactions.oldest_seconds'' val) else None))"

definition rem_locks_blocking :: RemRule where
  "rem_locks_blocking = rem_rule ''rem_locks_blocking'' PrioritySuggestion CategoryPerformance (\<lambda>ctx.
        on_metric ctx ''pg.locks.blocked_count'' (\<lambda>val.
          if val > 0 then Some (advise ''Blocking lock chains detected''
            (fmt_fixed 0 val @ '' session(s) are currently blocked by lock contention. Review the lock tree to identify the blocker and consider canceling the blocking query. Frequent blocking may indicate schema-level contention or missing indexes.'')
            ''https://wiki.postgresql.org/wiki/Lock_Monitoring'' ''pg.locks.blocked_count'' val) else None))"

definition rem_pgss_fill :: RemRule where
  "rem_pgss_fill = rem_rule ''rem_pgss_fill'' PrioritySuggestion CategoryMaintenance (\<lambda>ctx.
        on_metric ctx ''pg.extensions.pgss_fill_pct'' (\<lambda>val.
          if val \<ge> 95 then Some (advise ''pg_stat_statements nearing capacity''
            (''pg_stat_statements is '' @ fmt_fixed 0 val @ ''% full. New query fingerprints will evict older entries, causing loss of historical data. Increase pg_stat_statements.max or call pg_stat_statements_reset() to reclaim slots.'')
            ''https://www.postgresql.org/docs/current/pgstatstatements.html'' ''pg.extensions.pgss_fill_pct'' val) else None))"

definition rem_wraparound_warn :: RemRule where
  "rem_wraparound_warn = rem_rule ''rem_wraparound_warn'' PrioritySuggestion CategoryMaintenance (\<lambda>ctx.
        on_metric ctx ''pg.server.wraparound_pct'' (\<lambda>val.
          if val > 20 \<and> val \<le> 50 then Some (advise ''Transaction wraparound approaching''
            (''Transaction ID wraparound is at '' @ fmt_fixed 1 val @ ''%. Ensure autovacuum is running and not blocked by long transactions. Monitor pg_stat_user_tables.n_dead_tup for tables with high dead tuple counts.'')
            ''https://www.postgresql.org/docs/current/routine-vacuuming.html#VACUUM-FOR-WRAPAROUND'' ''pg.server.wraparound_pct'' val) else None))"

definition rem_wraparound_crit :: RemRule where
  "rem_wraparound_crit = rem_rule ''rem_wraparound_crit'' PriorityActionRequired CategoryMaintenance (\<lambda>ctx.
        on_metric ctx ''pg.server.wraparound_pct'' (\<lambda>val.
          if val > 50 then Some (advise (''Wraparound imminent '' @ em_dash @ '' vacuum urgently'')
            (''Transaction ID wraparound is at '' @ fmt_fixed 1 val @ ''%, critically high. PostgreSQL will shut down to prevent data corruption if this reaches 100%. Run VACUUM FREEZE on the most affected databases immediately.'')
            ''https://www.postgresql.org/docs/current/routine-vacuuming.html#VACUUM-FOR-WRAPAROUND'' ''pg.server.wraparound_pct'' val) else None))"

definition rem_track_io :: RemRule where
  "rem_track_io = rem_rule ''rem_track_io'' PriorityInfo CategoryConfiguration (\<lambda>ctx.
        on_metric ctx ''pg.settings.track_io_timing'' (\<lambda>val.
          if val = 0 then Some (advise ''Enable track_io_timing for I/O analysis''
            (''track_io_timing is disabled. Without it, EXPLAIN ANALYZE cannot show I/O timing and pg_stat_statements lacks I/O cost data. Enable it with ALTER SYSTEM SET track_io_timing = on; SELECT pg_reload_conf(); '' @ em_dash @ '' overhead is minimal on modern systems.'')
            ''https://www.postgresql.org/docs/current/runtime-config-statistics.html#GUC-TRACK-IO-TIMING'' ''pg.settings.track_io_timing'' val) else None))"

definition rem_deadlocks :: RemRule where
  "rem_deadlocks = rem_rule ''rem_deadlocks'' PrioritySuggestion CategoryPerformance (\<lambda>ctx.
        on_metric ctx ''pg.transactions.deadlocks'' (\<lambda>val.
          if val > 0 then Some (advise ''Deadlocks occurring''
            (fmt_fixed 0 val @ '' deadlock(s) detected. Deadlocks indicate competing lock acquisition orders in concurrent transactions. Review application logic to ensure consistent lock ordering. Check pg_stat_database.deadlocks for per-database breakdown.'')
            ''https://www.postgresql.org/docs/current/explicit-locking.html#LOCKING-DEADLOCKS'' ''pg.transactions.deadlocks'' val) else None))"

definition rem_bloat_high :: RemRule where
  "rem_bloat_high = rem_rule ''rem_bloat_high'' PrioritySuggestion CategoryMaintenance (\<lambda>ctx.
        on_metric ctx ''pg.db.bloat.table_ratio'' (\<lambda>val.
          if val > 2 \<and> val \<le> 50 then Some (advise ''Table bloat exceeding threshold''
            (''Table bloat ratio is '' @ fmt_fixed 1 val @ ''x. Dead tuples are accumulating faster than autovacuum can clean them. Check autovacuum settings (autovacuum_vacuum_scale_factor, autovacuum_naptime). Consider running VACUUM FULL or pg_repack on heavily bloated tables.'')
            ''https://www.postgresql.org/docs/current/routine-vacuuming.html'' ''pg.db.bloat.table_ratio'' val) else None))"

definition rem_bloat_extreme :: RemRule where
  "rem_bloat_extreme = rem_rule ''rem_bloat_extreme'' PriorityActionRequired CategoryMaintenance (\<lambda>ctx.
        on_metric ctx ''pg.db.bloat.table_ratio'' (\<lambda>val.
          if val > 50 then Some (advise (''Severe bloat '' @ em_dash @ '' schedule pg_repack'')
            (''Table bloat ratio is '' @ fmt_fixed 1 val @ ''x, severely impacting storage and query performance. VACUUM FULL requires an exclusive lock; prefer pg_repack for online compaction. Schedule maintenance during a low-traffic window.'')
            ''https://reorg.github.io/pg_repack/'' ''pg.db.bloat.table_ratio'' val) else None))"

definition pgRules :: "RemRule list" where
  "pgRules = [rem_conn_high, rem_conn_exhausted, rem_cache_low, rem_commit_ratio_low, rem_repl_lag_bytes, rem_repl_lag_critical, rem_repl_slot_inactive, rem_long_txn_warn, rem_long_txn_crit, rem_locks_blocking, rem_pgss_fill, rem_wraparound_warn, rem_wraparound_crit, rem_track_io, rem_deadlocks, rem_bloat_high, rem_bloat_extreme]"

definition rem_cpu_high :: RemRule where
  "rem_cpu_high = rem_rule ''rem_cpu_high'' PrioritySuggestion CategoryPerformance (\<lambda>ctx.
        case getOS (ec_Snapshot ctx) ''cpu.user_pct'' of None \<Rightarrow> None | Some user \<Rightarrow>
        (case getOS (ec_Snapshot ctx) ''cpu.system_pct'' of None \<Rightarrow> None | Some sys \<Rightarrow>
          let tot = user + sys in if tot > 80 then Some (advise ''High CPU utilization''
            (''CPU usage at '' @ fmt_fixed 0 tot @ ''% (user: '' @ fmt_fixed 0 user @ ''%, system: '' @ fmt_fixed 0 sys @ ''%). Investigate CPU-intensive queries with pg_stat_statements. Check for missing indexes causing sequential scans.'')
            '''' ''os.cpu.user_pct'' tot) else None))"

definition rem_cpu_iowait :: RemRule where
  "rem_cpu_iowait = rem_rule ''rem_cpu_iowait'' PriorityActionRequired CategoryPerformance (\<lambda>ctx.
        on_os_metric ctx ''cpu.iowait_pct'' (\<lambda>val.
          if val > 20 then Some (advise ''I/O wait bottleneck detected''
            (''I/O wait at '' @ fmt_fixed 0 val @ ''%, indicating storage is the bottleneck. Check for queries doing large sequential scans or sorts spilling to disk. Consider faster storage (NVMe), increasing work_mem, or adding indexes.'')
            '''' ''os.cpu.iowait_pct'' val) else None))"

definition rem_mem_pressure :: RemRule where
  "rem_mem_pressure = rem_rule ''rem_mem_pressure'' PriorityActionRequired CategoryCapacity (\<lambda>ctx.
        case getOS (ec_Snapshot ctx) ''memory.available_kb'' of None \<Rightarrow> None | Some avail \<Rightarrow>
        (case getOS (ec_Snapshot ctx) ''memory.total_kb'' of None \<Rightarrow> None | Some tot \<Rightarrow>
          if tot = 0 then None else let pct = (avail / tot) * 100 in if pct < 10 then Some (advise ''Memory pressure detected''
            (''Available memory is only '' @ fmt_fixed 1 pct @ ''% of total ('' @ fmt_fixed 0 avail @ '' KB available / '' @ fmt_fixed 0 tot @ '' KB total). The system may start swapping, severely impacting PostgreSQL performance. Reduce shared_buffers, work_mem, or add more RAM.'')
            '''' ''os.memory.available_kb'' avail) else None))"

definition rem_mem_overcommit :: RemRule where
  "rem_mem_overcommit = rem_rule ''rem_mem_overcommit'' PrioritySuggestion CategoryCapacity (\<lambda>ctx.
        case getOS (ec_Snapshot ctx) ''memory.committed_as_kb'' of None \<Rightarrow> None | Some committed \<Rightarrow>
        (case getOS (ec_Snapshot ctx) ''memory.commit_limit_kb'' of None \<Rightarrow> None | Some limit \<Rightarrow>
          if limit = 0 then None else if committed > limit then Some (advise ''Memory overcommit detected''
            (''Committed memory ('' @ fmt_fixed 0 committed @ '' KB) exceeds commit limit ('' @ fmt_fixed 0 limit @ '' KB). The OOM killer may terminate PostgreSQL processes under pressure. Review vm.overcommit_memory sysctl and reduce total memory reservations.'')
            '''' ''os.memory.committed_as_kb'' committed) else None))"

definition rem_load_high :: RemRule where
  "rem_load_high = rem_rule ''rem_load_high'' PrioritySuggestion CategoryPerformance (\<lambda>ctx.
        on_os_metric ctx ''load.1m'' (\<lambda>val.
          if val > 4.0 then Some (advise ''System load elevated''
            (''1-minute load average is '' @ fmt_fixed 2 val @ ''. This indicates more processes are competing for CPU than available cores. Investigate with top/htop and check pg_stat_activity for runaway queries.'')
            '''' ''os.load.1m'' val) else None))"

definition rem_disk_util :: RemRule where
  "rem_disk_util = rem_rule ''rem_disk_util'' PriorityActionRequired CategoryCapacity (\<lambda>ctx.
        on_os_metric ctx ''disk.util_pct'' (\<lambda>val.
          if val > 80 then Some (advise ''Disk saturation approaching''
            (''Disk utilization at '' @ fmt_fixed 0 val @ ''%. The device is spending most of its time servicing I/O. This leads to increased query latencies and checkpoint stalls. Consider moving to faster storage or distributing I/O across multiple disks.'')
            '''' ''os.disk.util_pct'' val) else None))"

definition rem_disk_read_latency :: RemRule where
  "rem_disk_read_latency = rem_rule ''rem_disk_read_latency'' PrioritySuggestion CategoryPerformance (\<lambda>ctx.
        on_os_metric ctx ''disk.read_await_ms'' (\<lambda>val.
          if val > 20 then Some (advise ''Storage read latency elevated''
            (''Average read latency is '' @ fmt_fixed 1 val @ '' ms (threshold: 20 ms). High read latency impacts sequential scans and index lookups. Check for I/O contention from other processes or consider storage upgrades.'')
            '''' ''os.disk.read_await_ms'' val) else None))"

definition rem_disk_write_latency :: RemRule where
  "rem_disk_write_latency = rem_rule ''rem_disk_write_latency'' PrioritySuggestion CategoryPerformance (\<lambda>ctx.
        on_os_metric ctx ''disk.write_await_ms'' (\<lambda>val.
          if val > 20 then Some (advise ''Storage write latency elevated''
            (''Average write latency is '' @ fmt_fixed 1 val @ '' ms (threshold: 20 ms). High write latency impacts WAL writes and checkpoints. Consider enabling WAL compression, tuning checkpoint_completion_target, or upgrading storage.'')
            '''' ''os.disk.write_await_ms'' val) else None))"

definition osRules :: "RemRule list" where
  "osRules = [rem_cpu_high, rem_cpu_iowait, rem_mem_pressure, rem_mem_overcommit, rem_load_high, rem_disk_util, rem_disk_read_latency, rem_disk_write_latency]"

end
