(* ===== verification/Remediation.thy ===== *)
theory Remediation
  imports RemediationRules PgMetrics
begin

section \<open>Remediation advice (\<open>internal/remediation\<close>, \<open>internal/api/remediation.go\<close>)\<close>

text \<open>
  The engine over the compiled-in rules, the table of recommendations with its partial unique index, the
  background evaluator and the handlers. The outcome of every statement and the database clock are arguments.
\<close>

subsection \<open>The engine (\<open>engine.go\<close>, \<open>hooks.go\<close>, \<open>urgency.go\<close>, \<open>adapter.go\<close>, \<open>metricsource.go\<close>)\<close>

record Recommendation =
  rec_ID :: int
  rec_RuleID :: string
  rec_InstanceID :: string
  rec_AlertEventID :: "int option"
  rec_MetricKey :: string
  rec_MetricValue :: float64
  rec_Priority :: string
  rec_Category :: string
  rec_Title :: string
  rec_Description :: string
  rec_DocURL :: string
  rec_Status :: string
  rec_Source :: string
  rec_UrgencyScore :: float64
  rec_IncidentIDs :: "int list"
  rec_LastIncidentAt :: "time option"
  rec_CreatedAt :: time
  rec_EvaluatedAt :: time
  rec_ResolvedAt :: "time option"
  rec_AcknowledgedAt :: "time option"
  rec_AcknowledgedBy :: string

definition rem_rules :: "RemRule list" where
  "rem_rules = pgRules @ osRules"

definition recommend :: "string \<Rightarrow> string \<Rightarrow> float64 \<Rightarrow> RemRule \<Rightarrow> RuleResult \<Rightarrow> Recommendation" where
  "recommend instanceID key v rule r =
     \<lparr>rec_ID = 0, rec_RuleID = rm_ID rule, rec_InstanceID = instanceID, rec_AlertEventID = None, rec_MetricKey = key, rec_MetricValue = v,
      rec_Priority = rm_Priority rule, rec_Category = rm_Category rule, rec_Title = rt_Title r, rec_Description = rt_Description r,
      rec_DocURL = rt_DocURL r, rec_Status = '''', rec_Source = '''', rec_UrgencyScore = 0, rec_IncidentIDs = [], rec_LastIncidentAt = None,
      rec_CreatedAt = zero_time, rec_EvaluatedAt = zero_time, rec_ResolvedAt = None, rec_AcknowledgedAt = None, rec_AcknowledgedBy = ''''\<rparr>"

definition EvaluateMetric :: "RemRule list \<Rightarrow> string \<Rightarrow> string \<Rightarrow> float64 \<Rightarrow> labels \<Rightarrow> string \<Rightarrow> MetricSnapshot \<Rightarrow> Recommendation list" where
  "EvaluateMetric rules instanceID metricKey v ls severity snapshot =
     (let ctx = \<lparr>ec_InstanceID = instanceID, ec_MetricKey = metricKey, ec_Value = v, ec_Labels = ls, ec_Severity = severity, ec_Snapshot = snapshot\<rparr>
      in List.map_filter (\<lambda>rule. map_option (recommend instanceID metricKey v rule) (rm_Evaluate rule ctx)) rules)"

definition diagnose_ctx :: "string \<Rightarrow> MetricSnapshot \<Rightarrow> EvalContext" where
  "diagnose_ctx instanceID snapshot =
     \<lparr>ec_InstanceID = instanceID, ec_MetricKey = '''', ec_Value = 0, ec_Labels = [], ec_Severity = '''', ec_Snapshot = snapshot\<rparr>"

definition Diagnose :: "RemRule list \<Rightarrow> string \<Rightarrow> MetricSnapshot \<Rightarrow> Recommendation list" where
  "Diagnose rules instanceID snapshot =
     List.map_filter (\<lambda>rule. map_option (\<lambda>r. recommend instanceID (rt_MetricKey r) (rt_MetricValue r) rule r)
       (rm_Evaluate rule (diagnose_ctx instanceID snapshot))) rules"

text \<open>The points of the last two minutes; a later one of the answer replaces an earlier one.\<close>

definition snapshot_query :: "time \<Rightarrow> string \<Rightarrow> MetricQuery" where
  "snapshot_query now instanceID = empty_query\<lparr>mq_InstanceID := instanceID, mq_Start := now - 2 * Minute, mq_End := now\<rparr>"

definition snapshot_of :: "MetricPoint list \<Rightarrow> MetricSnapshot" where
  "snapshot_of points = fold (\<lambda>p m. map_put (mp_Metric p) (mp_Value p) m) points []"

definition CurrentSnapshot :: "(MetricQuery \<Rightarrow> MetricPoint list option) \<Rightarrow> time \<Rightarrow> string \<Rightarrow> MetricSnapshot option" where
  "CurrentSnapshot query now instanceID = map_option snapshot_of (query (snapshot_query now instanceID))"

text \<open>An error of the source leaves the snapshot empty.\<close>

definition EvaluateForAlert :: "RemRule list \<Rightarrow> (string \<Rightarrow> MetricSnapshot option) \<Rightarrow> RemediationProvider" where
  "EvaluateForAlert rules source = (\<lambda>instanceID metricKey v ls severity.
     let snapshot = (case source instanceID of None \<Rightarrow> [] | Some s \<Rightarrow> s) in
     map (\<lambda>r. \<lparr>rr_RuleID = rec_RuleID r, rr_Title = rec_Title r, rr_Description = rec_Description r, rr_Priority = rec_Priority r,
           rr_Category = rec_Category r, rr_DocURL = rec_DocURL r\<rparr>) (EvaluateMetric rules instanceID metricKey v ls severity snapshot))"

definition HookToRuleID :: "(string, string) gomap" where
  "HookToRuleID =
     [(''remediation.checkpoint_completion_target'', ''rem_wraparound_warn''), (''remediation.vacuum_cost_settings'', ''rem_bloat_high''),
      (''remediation.connection_pooling'', ''rem_conn_high''), (''remediation.create_missing_index'', ''''),
      (''remediation.drop_inactive_slot'', ''rem_repl_slot_inactive''), (''remediation.kill_long_transaction'', ''rem_long_txn_warn''),
      (''remediation.shared_buffers_tuning'', ''rem_cache_low''), (''remediation.work_mem_tuning'', ''''), (''remediation.pgss_reset'', ''rem_pgss_fill''),
      (''remediation.vacuum_aggressive'', ''rem_bloat_extreme''), (''remediation.wraparound_vacuum'', ''rem_wraparound_crit''),
      (''remediation.memory_tuning'', ''rem_mem_pressure''), (''remediation.lock_investigation'', ''rem_locks_blocking''),
      (''remediation.query_optimization'', ''''), (''remediation.network_diagnostics'', ''''), (''remediation.wal_archive'', ''''),
      (''remediation.replication_lag'', ''''), (''remediation.disk_capacity'', '''')]"

definition UrgencySoftCap :: float64 where
  "UrgencySoftCap = 10"

definition UrgencyFromPriority :: "string \<Rightarrow> float64" where
  "UrgencyFromPriority p = (if p = PriorityActionRequired then 5 else if p = PrioritySuggestion then 3 else if p = PriorityInfo then 1 else 3)"

subsection \<open>The table (\<open>pgstore.go\<close>)\<close>

record RecTable =
  rb_rows :: "Recommendation list"
  rb_next :: int

abbreviation "active_row r \<equiv> rec_Status r = ''active''"

definition same_advice :: "Recommendation \<Rightarrow> Recommendation \<Rightarrow> bool" where
  "same_advice a b \<longleftrightarrow> rec_RuleID a = rec_RuleID b \<and> rec_InstanceID a = rec_InstanceID b"

text \<open>The checks of the table, and the index on the active rows.\<close>

definition rec_allowed :: "Recommendation \<Rightarrow> bool" where
  "rec_allowed r \<longleftrightarrow> rec_Priority r \<in> set [PriorityInfo, PrioritySuggestion, PriorityActionRequired] \<and>
     rec_Category r \<in> set [CategoryPerformance, CategoryCapacity, CategoryConfiguration, CategoryReplication, CategoryMaintenance]"

definition has_active :: "Recommendation \<Rightarrow> RecTable \<Rightarrow> bool" where
  "has_active r t \<longleftrightarrow> list_ex (\<lambda>x. active_row x \<and> same_advice x r) (rb_rows t)"

definition insert_row :: "Recommendation \<Rightarrow> RecTable \<Rightarrow> RecTable" where
  "insert_row r t = t\<lparr>rb_rows := rb_rows t @ [r\<lparr>rec_ID := rb_next t\<rparr>], rb_next := rb_next t + 1\<rparr>"

definition update_active :: "(Recommendation \<Rightarrow> Recommendation) \<Rightarrow> Recommendation \<Rightarrow> RecTable \<Rightarrow> RecTable" where
  "update_active f r t = t\<lparr>rb_rows := map (\<lambda>x. if active_row x \<and> same_advice x r then f x else x) (rb_rows t), rb_next := rb_next t + 1\<rparr>"

text \<open>What an insertion puts into the columns it does not name: the defaults of the table.\<close>

definition fresh_row :: "time \<Rightarrow> Recommendation \<Rightarrow> Recommendation" where
  "fresh_row now r =
     r\<lparr>rec_Status := ''active'', rec_CreatedAt := now, rec_EvaluatedAt := now, rec_ResolvedAt := None, rec_AcknowledgedAt := None, rec_AcknowledgedBy := ''''\<rparr>"

text \<open>\<open>Write\<close> inserts without regard to the index, so a second active row is an error; the rows before it stay. A failing
  insertion still takes a number from the sequence.\<close>

fun Write_recs :: "(nat \<Rightarrow> bool) \<Rightarrow> (nat \<Rightarrow> time) \<Rightarrow> nat \<Rightarrow> Recommendation list \<Rightarrow> RecTable \<Rightarrow> RecTable \<times> bool" where
  "Write_recs up clk n [] t = (t, True)"
| "Write_recs up clk n (r # rs) t =
     (let row = (fresh_row (clk n) r)\<lparr>rec_Source := (if rec_Source r = '''' then ''alert'' else rec_Source r),
                  rec_UrgencyScore := (if rec_UrgencyScore r = 0 then UrgencyFromPriority (rec_Priority r) else rec_UrgencyScore r),
                  rec_IncidentIDs := [], rec_LastIncidentAt := None\<rparr> in
      if \<not> up n then (t, False)
      else if \<not> rec_allowed row \<or> has_active row t then (t\<lparr>rb_next := rb_next t + 1\<rparr>, False)
      else Write_recs up clk (n + 1) rs (insert_row row t))"

definition Upsert_rec :: "bool \<Rightarrow> time \<Rightarrow> Recommendation \<Rightarrow> RecTable \<Rightarrow> RecTable option" where
  "Upsert_rec up now r t =
     (let urgency = (if rec_UrgencyScore r = 0 then UrgencyFromPriority (rec_Priority r) else rec_UrgencyScore r);
          incident = (case rec_IncidentIDs r of [] \<Rightarrow> None | i # _ \<Rightarrow> Some i);
          row = (fresh_row now r)\<lparr>rec_AlertEventID := None, rec_Source := (if rec_Source r = '''' then ''rca'' else rec_Source r), rec_UrgencyScore := urgency,
                  rec_IncidentIDs := (case incident of None \<Rightarrow> [] | Some i \<Rightarrow> [i]), rec_LastIncidentAt := map_option (\<lambda>_. now) incident\<rparr>
      in if \<not> up \<or> \<not> rec_allowed row then None
         else if has_active row t then
           Some (update_active (\<lambda>x. x\<lparr>rec_EvaluatedAt := now, rec_MetricValue := rec_MetricValue r, rec_Title := rec_Title r, rec_Description := rec_Description r,
                   rec_UrgencyScore := min UrgencySoftCap (rec_UrgencyScore x + urgency),
                   rec_IncidentIDs := rec_IncidentIDs x @ (case incident of None \<Rightarrow> [] | Some i \<Rightarrow> [i]),
                   rec_LastIncidentAt := (case incident of None \<Rightarrow> rec_LastIncidentAt x | Some _ \<Rightarrow> Some now)\<rparr>) row t)
         else Some (insert_row row t))"

text \<open>The statement of \<open>WriteOrUpdate\<close> names neither source nor urgency.\<close>

definition write_or_update :: "time \<Rightarrow> Recommendation \<Rightarrow> RecTable \<Rightarrow> RecTable" where
  "write_or_update now r t =
     (let row = (fresh_row now r)\<lparr>rec_AlertEventID := None, rec_Source := ''alert'', rec_UrgencyScore := 0, rec_IncidentIDs := [], rec_LastIncidentAt := None\<rparr> in
      if has_active row t then
        update_active (\<lambda>x. x\<lparr>rec_EvaluatedAt := now, rec_MetricValue := rec_MetricValue r, rec_Title := rec_Title r, rec_Description := rec_Description r\<rparr>) row t
      else insert_row row t)"

fun WriteOrUpdate :: "(nat \<Rightarrow> bool) \<Rightarrow> (nat \<Rightarrow> time) \<Rightarrow> nat \<Rightarrow> Recommendation list \<Rightarrow> RecTable \<Rightarrow> RecTable \<times> nat option" where
  "WriteOrUpdate up clk n [] t = (t, Some n)"
| "WriteOrUpdate up clk n (r # rs) t =
     (if \<not> up n then (t, None) else if \<not> rec_allowed r then (t\<lparr>rb_next := rb_next t + 1\<rparr>, None)
      else WriteOrUpdate up clk (n + 1) rs (write_or_update (clk n) r t))"

record ListOpts =
  lo_InstanceID :: string
  lo_Priority :: string
  lo_Category :: string
  lo_Status :: string
  lo_Source :: string
  lo_Acknowledged :: "bool option"
  lo_IncidentID :: "int option"
  lo_OrderBy :: string
  lo_Limit :: int
  lo_Offset :: int

definition rec_listed :: "ListOpts \<Rightarrow> Recommendation \<Rightarrow> bool" where
  "rec_listed o1 r \<longleftrightarrow> (lo_InstanceID o1 = '''' \<or> rec_InstanceID r = lo_InstanceID o1) \<and> (lo_Priority o1 = '''' \<or> rec_Priority r = lo_Priority o1) \<and>
     (lo_Category o1 = '''' \<or> rec_Category r = lo_Category o1) \<and> (lo_Status o1 = '''' \<or> rec_Status r = lo_Status o1) \<and>
     (lo_Source o1 = '''' \<or> rec_Source r = lo_Source o1) \<and>
     (case lo_Acknowledged o1 of None \<Rightarrow> True | Some b \<Rightarrow> (rec_AcknowledgedAt r \<noteq> None) = b) \<and>
     (case lo_IncidentID o1 of None \<Rightarrow> True | Some i \<Rightarrow> i \<in> set (rec_IncidentIDs r))"

definition rec_before :: "string \<Rightarrow> Recommendation \<Rightarrow> Recommendation \<Rightarrow> bool" where
  "rec_before orderBy a b =
     (if orderBy = ''urgency_score''
      then rec_UrgencyScore a > rec_UrgencyScore b \<or> rec_UrgencyScore a = rec_UrgencyScore b \<and> rec_CreatedAt a > rec_CreatedAt b
      else rec_CreatedAt a > rec_CreatedAt b)"

definition list_limit :: "int \<Rightarrow> int" where
  "list_limit n = (let m = (if n \<le> 0 then 100 else n) in if m > 500 then 500 else m)"

definition listWithOpts :: "bool \<Rightarrow> ListOpts \<Rightarrow> RecTable \<Rightarrow> (Recommendation list \<times> nat) option" where
  "listWithOpts up o1 t =
     (let rows = filter (rec_listed o1) (rb_rows t) in
      if \<not> up \<or> lo_Offset o1 < 0 then None
      else Some (take (nat (list_limit (lo_Limit o1))) (drop (nat (lo_Offset o1)) (sort_slice (rec_before (lo_OrderBy o1)) rows)), length rows))"

definition ListByInstance :: "bool \<Rightarrow> string \<Rightarrow> ListOpts \<Rightarrow> RecTable \<Rightarrow> (Recommendation list \<times> nat) option" where
  "ListByInstance up instanceID o1 = listWithOpts up (o1\<lparr>lo_InstanceID := instanceID\<rparr>)"

definition ListByAlertEvent :: "bool \<Rightarrow> int \<Rightarrow> RecTable \<Rightarrow> Recommendation list option" where
  "ListByAlertEvent up i t = (if up then Some (sort_slice (\<lambda>a b. rec_CreatedAt a > rec_CreatedAt b) (filter (\<lambda>r. rec_AlertEventID r = Some i) (rb_rows t))) else None)"

definition ListByIncident :: "bool \<Rightarrow> int \<Rightarrow> RecTable \<Rightarrow> Recommendation list option" where
  "ListByIncident up i t = (if up then Some (sort_slice (\<lambda>a b. rec_UrgencyScore a > rec_UrgencyScore b) (filter (\<lambda>r. i \<in> set (rec_IncidentIDs r)) (rb_rows t))) else None)"

definition Acknowledge :: "bool \<Rightarrow> time \<Rightarrow> int \<Rightarrow> string \<Rightarrow> RecTable \<Rightarrow> RecTable option" where
  "Acknowledge up now i username t =
     (if \<not> up \<or> i \<notin> rec_ID ` set (rb_rows t) then None
      else Some (t\<lparr>rb_rows := map (\<lambda>r. if rec_ID r = i then r\<lparr>rec_AcknowledgedAt := Some now, rec_AcknowledgedBy := username\<rparr> else r) (rb_rows t)\<rparr>))"

definition expired_rec :: "time \<Rightarrow> duration \<Rightarrow> Recommendation \<Rightarrow> bool" where
  "expired_rec now olderThan r \<longleftrightarrow> rec_CreatedAt r < now - olderThan \<and> (rec_AcknowledgedAt r \<noteq> None \<or> rec_Status r = ''resolved'')"

definition CleanOld :: "bool \<Rightarrow> time \<Rightarrow> duration \<Rightarrow> RecTable \<Rightarrow> RecTable" where
  "CleanOld up now olderThan t = (if up then t\<lparr>rb_rows := filter (\<lambda>r. \<not> expired_rec now olderThan r) (rb_rows t)\<rparr> else t)"

definition ResolveStale :: "bool \<Rightarrow> time \<Rightarrow> string \<Rightarrow> string list \<Rightarrow> RecTable \<Rightarrow> RecTable" where
  "ResolveStale up now instanceID ruleIDs t =
     (if up then t\<lparr>rb_rows := map (\<lambda>r. if rec_InstanceID r = instanceID \<and> active_row r \<and> rec_RuleID r \<notin> set ruleIDs
                                     then r\<lparr>rec_Status := ''resolved'', rec_ResolvedAt := Some now\<rparr> else r) (rb_rows t)\<rparr>
      else t)"

subsection \<open>Hooks of an incident\<close>

text \<open>A hook without a rule, an unknown rule and a rule that does not match are no error; \<open>None\<close> is.\<close>

definition hook_rule :: "RemRule list \<Rightarrow> string \<Rightarrow> RemRule option" where
  "hook_rule rules hook =
     (case map_of HookToRuleID hook of None \<Rightarrow> None | Some ruleID \<Rightarrow> if ruleID = '''' then None else find (\<lambda>r. rm_ID r = ruleID) rules)"

definition EvaluateHook :: "RemRule list \<Rightarrow> bool \<Rightarrow> time \<Rightarrow> (string \<Rightarrow> MetricSnapshot option) option \<Rightarrow> hook_call \<Rightarrow> RecTable option \<Rightarrow> RecTable option option" where
  "EvaluateHook rules up now source call store =
     (case store of None \<Rightarrow> Some None
      | Some t \<Rightarrow>
          let (hook, instanceID, metricKey, v, incidentID, urgencyDelta) = call in
          (case hook_rule rules hook of None \<Rightarrow> Some (Some t)
           | Some rule \<Rightarrow>
               let snapshot = (case source of None \<Rightarrow> [] | Some src \<Rightarrow> (case src instanceID of None \<Rightarrow> [] | Some s \<Rightarrow> s));
                   ctx = \<lparr>ec_InstanceID = instanceID, ec_MetricKey = metricKey, ec_Value = v, ec_Labels = [], ec_Severity = '''', ec_Snapshot = snapshot\<rparr> in
               (case rm_Evaluate rule ctx of None \<Rightarrow> Some (Some t)
                | Some r \<Rightarrow>
                    map_option Some (Upsert_rec up now ((recommend instanceID metricKey v rule r)
                      \<lparr>rec_Source := ''rca'', rec_UrgencyScore := urgencyDelta, rec_IncidentIDs := [incidentID]\<rparr>) t))))"

subsection \<open>The background evaluator (\<open>background.go\<close>)\<close>

record cycle_io =
  cy_snapshot :: "string \<Rightarrow> MetricSnapshot option"
  cy_resolve :: "string \<Rightarrow> bool"
  cy_write :: "string \<Rightarrow> nat \<Rightarrow> bool"
  cy_now :: "string \<Rightarrow> time"
  cy_clock :: "string \<Rightarrow> nat \<Rightarrow> time"

definition evaluateInstance_rem :: "RemRule list \<Rightarrow> cycle_io \<Rightarrow> string \<Rightarrow> RecTable \<Rightarrow> RecTable" where
  "evaluateInstance_rem rules io instanceID t =
     (case cy_snapshot io instanceID of None \<Rightarrow> t
      | Some snapshot \<Rightarrow>
          let recs = Diagnose rules instanceID snapshot;
              t1 = ResolveStale (cy_resolve io instanceID) (cy_now io instanceID) instanceID (map rec_RuleID recs) t
          in if recs \<noteq> [] then fst (WriteOrUpdate (cy_write io instanceID) (cy_clock io instanceID) 0 recs t1) else t1)"

text \<open>\<open>stop n\<close>: the context is cancelled before the instance at position \<open>n\<close>, which ends the cycle without the cleanup.\<close>

fun cycle_instances :: "RemRule list \<Rightarrow> cycle_io \<Rightarrow> (nat \<Rightarrow> bool) \<Rightarrow> nat \<Rightarrow> string list \<Rightarrow> RecTable \<Rightarrow> RecTable \<times> bool" where
  "cycle_instances rules io stop n [] t = (t, True)"
| "cycle_instances rules io stop n (i # is) t =
     (if stop n then (t, False) else cycle_instances rules io stop (n + 1) is (evaluateInstance_rem rules io i t))"

definition runCycle :: "RemRule list \<Rightarrow> cycle_io \<Rightarrow> (nat \<Rightarrow> bool) \<Rightarrow> string list option \<Rightarrow> bool \<Rightarrow> time \<Rightarrow> duration \<Rightarrow> RecTable \<Rightarrow> RecTable" where
  "runCycle rules io stop instances up now retention t =
     (case instances of None \<Rightarrow> t
      | Some ids \<Rightarrow> (case cycle_instances rules io stop 0 ids t of (t', finished) \<Rightarrow> if finished then CleanOld up now retention t' else t'))"

subsection \<open>Handlers\<close>

datatype rem_response =
    MError nat string
  | MList "Recommendation list" nat
  | MDiagnosis "Recommendation list" nat nat
  | MAcknowledged int
  | MRules "(string \<times> string \<times> string) list"

text \<open>The query string as a function; an absent parameter is empty.\<close>

definition parseListOpts :: "(string \<Rightarrow> string) \<Rightarrow> ListOpts" where
  "parseListOpts q =
     \<lparr>lo_InstanceID = '''', lo_Priority = q ''priority'', lo_Category = q ''category'', lo_Status = q ''status'', lo_Source = q ''source'',
      lo_Acknowledged = (if q ''acknowledged'' = '''' then None else Some (q ''acknowledged'' = ''true'')),
      lo_IncidentID = (if q ''incident_id'' = '''' then None else ParseInt (q ''incident_id'')), lo_OrderBy = q ''order_by'',
      lo_Limit = (let n = (case ParseInt (q ''limit'') of None \<Rightarrow> 100 | Some n \<Rightarrow> if n > 0 then n else 100) in if n > 500 then 500 else n),
      lo_Offset = (case ParseInt (q ''offset'') of None \<Rightarrow> 0 | Some n \<Rightarrow> if n \<ge> 0 then n else 0)\<rparr>"

definition handleListRecommendations :: "bool \<Rightarrow> bool \<Rightarrow> string \<Rightarrow> (string \<Rightarrow> string) \<Rightarrow> RecTable \<Rightarrow> rem_response" where
  "handleListRecommendations known up instanceID q t =
     (if \<not> known then MError 404 ''NOT_FOUND''
      else case ListByInstance up instanceID (parseListOpts q) t of None \<Rightarrow> MError 500 ''INTERNAL'' | Some (recs, n) \<Rightarrow> MList recs n)"

definition handleListAllRecommendations :: "bool \<Rightarrow> (string \<Rightarrow> string) \<Rightarrow> RecTable \<Rightarrow> rem_response" where
  "handleListAllRecommendations up q t =
     (case listWithOpts up (parseListOpts q) t of None \<Rightarrow> MError 500 ''INTERNAL'' | Some (recs, n) \<Rightarrow> MList recs n)"

definition handleDiagnose :: "RemRule list \<Rightarrow> bool \<Rightarrow> (string \<Rightarrow> MetricSnapshot option) option \<Rightarrow> string \<Rightarrow> rem_response" where
  "handleDiagnose rules known source instanceID =
     (if \<not> known then MError 404 ''NOT_FOUND''
      else case source of None \<Rightarrow> MError 503 ''NO_METRIC_SOURCE''
      | Some src \<Rightarrow>
          (case src instanceID of None \<Rightarrow> MError 500 ''INTERNAL''
           | Some snapshot \<Rightarrow> MDiagnosis (Diagnose rules instanceID snapshot) (length snapshot) (length rules)))"

definition handleAcknowledgeRecommendation :: "bool \<Rightarrow> time \<Rightarrow> string \<Rightarrow> string option \<Rightarrow> RecTable \<Rightarrow> RecTable \<times> rem_response" where
  "handleAcknowledgeRecommendation up now idStr claims t =
     (case ParseInt idStr of None \<Rightarrow> (t, MError 400 ''INVALID_ID'')
      | Some i \<Rightarrow>
          (case Acknowledge up now i (case claims of None \<Rightarrow> ''unknown'' | Some u \<Rightarrow> u) t of None \<Rightarrow> (t, MError 404 ''NOT_FOUND'')
           | Some t' \<Rightarrow> (t', MAcknowledged i)))"

definition handleListRemediationRules :: "RemRule list \<Rightarrow> rem_response" where
  "handleListRemediationRules rules = MRules (map (\<lambda>r. (rm_ID r, rm_Priority r, rm_Category r)) rules)"

text \<open>Alerts are enriched with the recommendations stored for their event.\<close>

definition enrichAlertEvents :: "(int \<Rightarrow> bool) \<Rightarrow> RecTable option \<Rightarrow> AlertEvent list \<Rightarrow> (AlertEvent \<times> Recommendation list) list" where
  "enrichAlertEvents up store events =
     map (\<lambda>ev. (ev, case store of None \<Rightarrow> []
        | Some t \<Rightarrow> if ev_ID ev > 0 then (case ListByAlertEvent (up (ev_ID ev)) (ev_ID ev) t of None \<Rightarrow> [] | Some rs \<Rightarrow> rs) else [])) events"

end
