(* ===== verification/RemediationLaws.thy ===== *)
theory RemediationLaws
  imports Remediation
begin

section \<open>Laws of the remediation advice\<close>

text \<open>
  The compiled-in rules have unique names and fit the table; the table keeps at most one active row per rule
  and instance; a background cycle leaves active exactly the advice the snapshot calls for; which of several
  values of a metric the snapshot holds depends on the order the store answers in.
\<close>

subsection \<open>The rules\<close>

lemma rem_rule_sel [simp]:
  "rm_ID (rem_rule i p c e) = i" "rm_Priority (rem_rule i p c e) = p" "rm_Category (rem_rule i p c e) = c" "rm_Evaluate (rem_rule i p c e) = e"
  by (simp_all add: rem_rule_def)

lemmas rem_rule_defs =
  rem_conn_high_def rem_conn_exhausted_def rem_cache_low_def rem_commit_ratio_low_def rem_repl_lag_bytes_def rem_repl_lag_critical_def
  rem_repl_slot_inactive_def rem_long_txn_warn_def rem_long_txn_crit_def rem_locks_blocking_def rem_pgss_fill_def rem_wraparound_warn_def
  rem_wraparound_crit_def rem_track_io_def rem_deadlocks_def rem_bloat_high_def rem_bloat_extreme_def rem_cpu_high_def rem_cpu_iowait_def
  rem_mem_pressure_def rem_mem_overcommit_def rem_load_high_def rem_disk_util_def rem_disk_read_latency_def rem_disk_write_latency_def

lemma rem_rules_ids:
  "map rm_ID rem_rules =
     [''rem_conn_high'', ''rem_conn_exhausted'', ''rem_cache_low'', ''rem_commit_ratio_low'', ''rem_repl_lag_bytes'', ''rem_repl_lag_critical'',
      ''rem_repl_slot_inactive'', ''rem_long_txn_warn'', ''rem_long_txn_crit'', ''rem_locks_blocking'', ''rem_pgss_fill'', ''rem_wraparound_warn'',
      ''rem_wraparound_crit'', ''rem_track_io'', ''rem_deadlocks'', ''rem_bloat_high'', ''rem_bloat_extreme'', ''rem_cpu_high'', ''rem_cpu_iowait'',
      ''rem_mem_pressure'', ''rem_mem_overcommit'', ''rem_load_high'', ''rem_disk_util'', ''rem_disk_read_latency'', ''rem_disk_write_latency'']"
  by (simp only: rem_rules_def pgRules_def osRules_def append.simps list.map rem_rule_defs rem_rule_sel)

lemma rem_rules_fields:
  "set (map rm_Priority rem_rules) \<subseteq> {PriorityInfo, PrioritySuggestion, PriorityActionRequired}"
  "set (map rm_Category rem_rules) \<subseteq> {CategoryPerformance, CategoryCapacity, CategoryConfiguration, CategoryReplication, CategoryMaintenance}"
  by (simp_all only: rem_rules_def pgRules_def osRules_def append.simps list.map rem_rule_defs rem_rule_sel list.set insert_subset empty_subsetI simp_thms insert_iff)

subsection \<open>What the engine promises for a set of rules\<close>

definition fired :: "RemRule list \<Rightarrow> string \<Rightarrow> MetricSnapshot \<Rightarrow> string set" where
  "fired rules i s = rm_ID ` {r \<in> set rules. rm_Evaluate r (diagnose_ctx i s) \<noteq> None}"

locale advice_rules =
  fixes rules :: "RemRule list"
  assumes ids_distinct: "distinct (map rm_ID rules)"
    and priorities: "r \<in> set rules \<Longrightarrow> rm_Priority r \<in> {PriorityInfo, PrioritySuggestion, PriorityActionRequired}"
    and categories: "r \<in> set rules \<Longrightarrow> rm_Category r \<in> {CategoryPerformance, CategoryCapacity, CategoryConfiguration, CategoryReplication, CategoryMaintenance}"
begin

lemma allowed_recommend: "r \<in> set rules \<Longrightarrow> rec_allowed (recommend i k v r x)"
  using priorities [of r] categories [of r] by (auto simp: rec_allowed_def recommend_def)

lemma diagnose_in:
  assumes "x \<in> set (Diagnose rules i s)"
  shows "rec_allowed x \<and> rec_InstanceID x = i"
proof -
  obtain r y where "r \<in> set rules" "x = recommend i (rt_MetricKey y) (rt_MetricValue y) r y"
    using assms by (auto simp: Diagnose_def List.map_filter_def)
  then show ?thesis using allowed_recommend by (simp add: recommend_def)
qed

lemma diagnose_fired: "rec_RuleID ` set (Diagnose rules i s) = fired rules i s"
  by (force simp: Diagnose_def List.map_filter_def fired_def recommend_def)

lemma map_filter_ids: "map rec_RuleID (List.map_filter (\<lambda>rule. map_option (\<lambda>r. recommend i (f r) (g r) rule r) (e rule)) rs) = map rm_ID (filter (\<lambda>r. e r \<noteq> None) rs)"
  by (induction rs) (auto simp: List.map_filter_simps recommend_def split: option.splits)

lemma diagnose_distinct: "distinct (map rec_RuleID (Diagnose rules i s))"
  unfolding Diagnose_def map_filter_ids using ids_distinct by (rule distinct_map_filter)

end

interpretation builtin_advice: advice_rules rem_rules
proof unfold_locales
  show "distinct (map rm_ID rem_rules)" unfolding rem_rules_ids by simp
  show "rm_Priority r \<in> {PriorityInfo, PrioritySuggestion, PriorityActionRequired}" if "r \<in> set rem_rules" for r
    using rem_rules_fields(1) that by auto
  show "rm_Category r \<in> {CategoryPerformance, CategoryCapacity, CategoryConfiguration, CategoryReplication, CategoryMaintenance}" if "r \<in> set rem_rules" for r
    using rem_rules_fields(2) that by auto
qed

subsection \<open>The table\<close>

definition active_rules :: "string \<Rightarrow> RecTable \<Rightarrow> string set" where
  "active_rules i t = set (map rec_RuleID (filter (\<lambda>r. active_row r \<and> rec_InstanceID r = i) (rb_rows t)))"

definition rows_elsewhere :: "string \<Rightarrow> RecTable \<Rightarrow> Recommendation list" where
  "rows_elsewhere i t = filter (\<lambda>r. rec_InstanceID r \<noteq> i) (rb_rows t)"

definition rec_row_ok :: "Recommendation \<Rightarrow> bool" where
  "rec_row_ok r \<longleftrightarrow> rec_allowed r \<and> 0 \<le> rec_UrgencyScore r \<and> rec_UrgencyScore r \<le> UrgencySoftCap \<and>
     (rec_Status r = ''active'' \<and> rec_ResolvedAt r = None \<or> rec_Status r = ''resolved'' \<and> rec_ResolvedAt r \<noteq> None)"

definition rec_table_ok :: "RecTable \<Rightarrow> bool" where
  "rec_table_ok t \<longleftrightarrow> distinct (map rec_ID (rb_rows t)) \<and> (\<forall>r\<in>set (rb_rows t). rec_ID r < rb_next t \<and> rec_row_ok r) \<and>
     distinct (map (\<lambda>r. (rec_RuleID r, rec_InstanceID r)) (filter active_row (rb_rows t)))"

text \<open>Every change of the table either appends a row, maps its rows keeping what the invariant looks at, or drops rows.\<close>

definition keeps_row :: "(Recommendation \<Rightarrow> Recommendation) \<Rightarrow> bool" where
  "keeps_row f \<longleftrightarrow> (\<forall>r. rec_ID (f r) = rec_ID r \<and> rec_RuleID (f r) = rec_RuleID r \<and> rec_InstanceID (f r) = rec_InstanceID r \<and>
     (active_row (f r) \<longrightarrow> active_row r) \<and> (rec_row_ok r \<longrightarrow> rec_row_ok (f r)))"

lemma distinct_active_map:
  assumes "keeps_row f" "distinct (map (\<lambda>r. (rec_RuleID r, rec_InstanceID r)) (filter active_row rs))"
  shows "distinct (map (\<lambda>r. (rec_RuleID r, rec_InstanceID r)) (filter active_row (map f rs)))"
  using assms(2)
proof (induction rs)
  case (Cons r rs)
  have "(\<lambda>r. (rec_RuleID r, rec_InstanceID r)) ` {x \<in> f ` set rs. active_row x} \<subseteq> (\<lambda>r. (rec_RuleID r, rec_InstanceID r)) ` {x \<in> set rs. active_row x}"
    using assms(1) by (force simp: keeps_row_def)
  then show ?case using Cons assms(1) by (auto simp: keeps_row_def split: if_splits)
qed simp

lemma rec_table_map:
  assumes "rec_table_ok t" "keeps_row f" "rb_next t \<le> n"
  shows "rec_table_ok (t\<lparr>rb_rows := map f (rb_rows t), rb_next := n\<rparr>)"
proof -
  have "map rec_ID (map f (rb_rows t)) = map rec_ID (rb_rows t)" using assms(2) by (simp add: keeps_row_def)
  moreover have "rec_ID (f r) < n \<and> rec_row_ok (f r)" if "r \<in> set (rb_rows t)" for r
    using assms that by (fastforce simp: rec_table_ok_def keeps_row_def)
  ultimately show ?thesis using assms(1) distinct_active_map [OF assms(2)] unfolding rec_table_ok_def by (simp del: map_map)
qed

lemma rec_table_filter:
  assumes "rec_table_ok t"
  shows "rec_table_ok (t\<lparr>rb_rows := filter P (rb_rows t)\<rparr>)"
proof -
  have "filter active_row (filter P (rb_rows t)) = filter P (filter active_row (rb_rows t))" by (simp add: conj_commute)
  then show ?thesis using assms by (simp add: rec_table_ok_def distinct_map_filter del: filter_filter)
qed

lemma rec_table_insert:
  assumes "rec_table_ok t" "rec_row_ok r" "\<not> has_active r t"
  shows "rec_table_ok (insert_row r t)"
proof -
  have "rec_row_ok (r\<lparr>rec_ID := n\<rparr>)" for n using assms(2) by (simp add: rec_row_ok_def rec_allowed_def)
  moreover have "\<forall>x\<in>set (rb_rows t). rec_ID x < rb_next t" using assms(1) by (simp add: rec_table_ok_def)
  moreover have "(rec_RuleID r, rec_InstanceID r) \<notin> (\<lambda>r. (rec_RuleID r, rec_InstanceID r)) ` {x \<in> set (rb_rows t). active_row x}"
    using assms(3) by (auto simp: has_active_def list_ex_iff same_advice_def)
  ultimately show ?thesis using assms(1) by (fastforce simp: rec_table_ok_def insert_row_def)
qed

lemma rec_table_next: "rec_table_ok t \<Longrightarrow> rec_table_ok (t\<lparr>rb_next := rb_next t + 1\<rparr>)"
  by (auto simp: rec_table_ok_def)

lemma rec_table_update_active:
  assumes "rec_table_ok t" "keeps_row f"
  shows "rec_table_ok (update_active f r t)"
proof -
  have "keeps_row (\<lambda>x. if active_row x \<and> same_advice x r then f x else x)" using assms(2) by (simp add: keeps_row_def)
  then show ?thesis unfolding update_active_def by (rule rec_table_map [OF assms(1)]) simp
qed

subsection \<open>Every operation keeps the invariant\<close>

lemma UrgencyFromPriority_range: "0 < UrgencyFromPriority p \<and> UrgencyFromPriority p \<le> UrgencySoftCap"
  by (simp add: UrgencyFromPriority_def UrgencySoftCap_def)

lemma rec_table_Write:
  assumes "rec_table_ok t" "\<forall>r\<in>set rs. 0 \<le> rec_UrgencyScore r \<and> rec_UrgencyScore r \<le> UrgencySoftCap"
  shows "rec_table_ok (fst (Write_recs up clk n rs t))"
  using assms
proof (induction up clk n rs t rule: Write_recs.induct)
  case (2 up clk n r rs t)
  define row where "row = (fresh_row (clk n) r)\<lparr>rec_Source := (if rec_Source r = '''' then ''alert'' else rec_Source r),
    rec_UrgencyScore := (if rec_UrgencyScore r = 0 then UrgencyFromPriority (rec_Priority r) else rec_UrgencyScore r), rec_IncidentIDs := [], rec_LastIncidentAt := None\<rparr>"
  have ok: "rec_row_ok row" if "rec_allowed row"
    using that 2(3) UrgencyFromPriority_range [of "rec_Priority r"] by (auto simp: row_def rec_row_ok_def fresh_row_def)
  show ?case
  proof (cases "up n \<and> rec_allowed row \<and> \<not> has_active row t")
    case True
    then have "rec_table_ok (insert_row row t)" using rec_table_insert [OF 2(2) ok] by simp
    with True 2(1,3) show ?thesis by (simp add: Let_def row_def [symmetric])
  next
    case False
    then show ?thesis using 2(2) rec_table_next [OF 2(2)] by (auto simp: Let_def row_def [symmetric])
  qed
qed simp

lemma rec_table_Upsert:
  assumes "rec_table_ok t" "0 \<le> rec_UrgencyScore r" "rec_UrgencyScore r \<le> UrgencySoftCap" "Upsert_rec up now r t = Some t'"
  shows "rec_table_ok t'"
proof -
  define urgency where "urgency = (if rec_UrgencyScore r = 0 then UrgencyFromPriority (rec_Priority r) else rec_UrgencyScore r)"
  define incident where "incident = (case rec_IncidentIDs r of [] \<Rightarrow> None | i # _ \<Rightarrow> Some i)"
  define row where "row = (fresh_row now r)\<lparr>rec_AlertEventID := None, rec_Source := (if rec_Source r = '''' then ''rca'' else rec_Source r), rec_UrgencyScore := urgency,
    rec_IncidentIDs := (case incident of None \<Rightarrow> [] | Some i \<Rightarrow> [i]), rec_LastIncidentAt := map_option (\<lambda>_. now) incident\<rparr>"
  have u: "0 \<le> urgency" "urgency \<le> UrgencySoftCap" using assms(2,3) UrgencyFromPriority_range [of "rec_Priority r"] by (auto simp: urgency_def)
  note up = assms(4) [unfolded Upsert_rec_def Let_def, folded urgency_def incident_def, folded row_def]
  have a: "rec_allowed row" using up by (simp split: if_splits)
  then have ok: "rec_row_ok row" using u by (simp add: row_def rec_row_ok_def fresh_row_def)
  show ?thesis
  proof (cases "has_active row t")
    case True
    have "keeps_row (\<lambda>x. x\<lparr>rec_EvaluatedAt := now, rec_MetricValue := rec_MetricValue r, rec_Title := rec_Title r, rec_Description := rec_Description r,
        rec_UrgencyScore := min UrgencySoftCap (rec_UrgencyScore x + urgency), rec_IncidentIDs := rec_IncidentIDs x @ (case incident of None \<Rightarrow> [] | Some i \<Rightarrow> [i]),
        rec_LastIncidentAt := (case incident of None \<Rightarrow> rec_LastIncidentAt x | Some _ \<Rightarrow> Some now)\<rparr>)"
      using u by (simp add: keeps_row_def rec_row_ok_def rec_allowed_def)
    from rec_table_update_active [OF assms(1) this] show ?thesis using up True by (auto split: if_splits)
  next
    case False
    then show ?thesis using up rec_table_insert [OF assms(1) ok] by (auto split: if_splits)
  qed
qed

lemma rec_table_write_or_update:
  assumes "rec_table_ok t" "rec_allowed r"
  shows "rec_table_ok (write_or_update now r t)"
proof -
  define row where "row = (fresh_row now r)\<lparr>rec_AlertEventID := None, rec_Source := ''alert'', rec_UrgencyScore := 0, rec_IncidentIDs := [], rec_LastIncidentAt := None\<rparr>"
  have "rec_row_ok row" using assms(2) by (simp add: row_def rec_row_ok_def fresh_row_def rec_allowed_def UrgencySoftCap_def)
  moreover have "keeps_row (\<lambda>x. x\<lparr>rec_EvaluatedAt := now, rec_MetricValue := rec_MetricValue r, rec_Title := rec_Title r, rec_Description := rec_Description r\<rparr>)"
    by (simp add: keeps_row_def rec_row_ok_def rec_allowed_def)
  ultimately show ?thesis
    unfolding write_or_update_def Let_def row_def [symmetric] using rec_table_insert [OF assms(1)] rec_table_update_active [OF assms(1)] by simp
qed

lemma rec_table_WriteOrUpdate: "rec_table_ok t \<Longrightarrow> rec_table_ok (fst (WriteOrUpdate up clk n rs t))"
  by (induction up clk n rs t rule: WriteOrUpdate.induct) (simp_all add: rec_table_write_or_update rec_table_next)

lemma rec_table_ResolveStale:
  assumes "rec_table_ok t"
  shows "rec_table_ok (ResolveStale up now i ids t)"
proof -
  have "keeps_row (\<lambda>r. if rec_InstanceID r = i \<and> active_row r \<and> rec_RuleID r \<notin> set ids then r\<lparr>rec_Status := ''resolved'', rec_ResolvedAt := Some now\<rparr> else r)"
    by (simp add: keeps_row_def rec_row_ok_def rec_allowed_def)
  from rec_table_map [OF assms this order_refl] show ?thesis using assms by (simp add: ResolveStale_def)
qed

lemma rec_table_CleanOld: "rec_table_ok t \<Longrightarrow> rec_table_ok (CleanOld up now d t)"
  by (simp add: CleanOld_def rec_table_filter)

lemma rec_table_Acknowledge:
  assumes "rec_table_ok t" "Acknowledge up now i u t = Some t'"
  shows "rec_table_ok t'"
proof -
  have "keeps_row (\<lambda>r. if rec_ID r = i then r\<lparr>rec_AcknowledgedAt := Some now, rec_AcknowledgedBy := u\<rparr> else r)"
    by (simp add: keeps_row_def rec_row_ok_def rec_allowed_def)
  from rec_table_map [OF assms(1) this order_refl] show ?thesis using assms(2) by (auto simp: Acknowledge_def split: if_splits)
qed

lemma rec_table_instance: "rec_table_ok t \<Longrightarrow> rec_table_ok (evaluateInstance_rem rules io i t)"
  by (simp add: evaluateInstance_rem_def Let_def rec_table_ResolveStale rec_table_WriteOrUpdate split: option.split)

lemma rec_table_cycle: "rec_table_ok t \<Longrightarrow> rec_table_ok (fst (cycle_instances rules io stop n is t))"
  by (induction rules io stop n "is" t rule: cycle_instances.induct) (simp_all add: rec_table_instance)

lemma rec_table_runCycle: "rec_table_ok t \<Longrightarrow> rec_table_ok (runCycle rules io stop ids up now d t)"
  using rec_table_cycle [of t rules io stop 0] by (simp add: runCycle_def case_prod_unfold rec_table_CleanOld split: option.split)

subsection \<open>What a cycle leaves active\<close>

lemma active_ResolveStale: "active_rules i (ResolveStale True now i ids t) = active_rules i t \<inter> set ids"
proof -
  have "set (map rec_RuleID (filter (\<lambda>r. active_row r \<and> rec_InstanceID r = i)
      (map (\<lambda>r. if rec_InstanceID r = i \<and> active_row r \<and> rec_RuleID r \<notin> set ids then r\<lparr>rec_Status := ''resolved'', rec_ResolvedAt := Some now\<rparr> else r) rs))) =
    set (map rec_RuleID (filter (\<lambda>r. active_row r \<and> rec_InstanceID r = i) rs)) \<inter> set ids" for rs
    by (induction rs) (simp_all add: Int_insert_left)
  then show ?thesis by (simp add: active_rules_def ResolveStale_def)
qed

lemma elsewhere_ResolveStale: "rows_elsewhere i (ResolveStale up now i ids t) = rows_elsewhere i t"
proof -
  have "filter (\<lambda>r. rec_InstanceID r \<noteq> i) (map (\<lambda>r. if rec_InstanceID r = i \<and> P r then f r else r) rs) = filter (\<lambda>r. rec_InstanceID r \<noteq> i) rs"
    if "\<And>r. rec_InstanceID (f r) = rec_InstanceID r" for P f and rs :: "Recommendation list"
    using that by (induction rs) auto
  from this [of "\<lambda>r. r\<lparr>rec_Status := ''resolved'', rec_ResolvedAt := Some now\<rparr>" "\<lambda>r. active_row r \<and> rec_RuleID r \<notin> set ids" "rb_rows t"]
  show ?thesis by (simp add: rows_elsewhere_def ResolveStale_def)
qed

lemma active_map_same:
  assumes "\<And>r. rec_RuleID (f r) = rec_RuleID r" "\<And>r. rec_InstanceID (f r) = rec_InstanceID r" "\<And>r. rec_Status (f r) = rec_Status r"
  shows "map rec_RuleID (filter (\<lambda>r. active_row r \<and> rec_InstanceID r = i) (map f rs)) = map rec_RuleID (filter (\<lambda>r. active_row r \<and> rec_InstanceID r = i) rs)"
  using assms by (induction rs) simp_all

lemma active_update_active:
  assumes "\<And>r. rec_RuleID (f r) = rec_RuleID r" "\<And>r. rec_InstanceID (f r) = rec_InstanceID r" "\<And>r. rec_Status (f r) = rec_Status r"
  shows "active_rules i (update_active f row t) = active_rules i t"
  unfolding active_rules_def update_active_def using assms by (subst active_map_same [symmetric, of "\<lambda>x. if active_row x \<and> same_advice x row then f x else x"]) simp_all

lemma active_insert_row: "active_row r \<Longrightarrow> active_rules i (insert_row r t) = (if rec_InstanceID r = i then insert (rec_RuleID r) (active_rules i t) else active_rules i t)"
  by (simp add: active_rules_def insert_row_def)

lemma has_active_rules: "has_active r t \<longleftrightarrow> rec_RuleID r \<in> active_rules (rec_InstanceID r) t"
  by (auto simp: has_active_def active_rules_def list_ex_iff same_advice_def intro: rev_image_eqI)

lemma write_or_update_active:
  assumes "rec_InstanceID r = i"
  shows "active_rules i (write_or_update now r t) = insert (rec_RuleID r) (active_rules i t)"
  using assms by (simp add: write_or_update_def Let_def active_update_active active_insert_row has_active_rules fresh_row_def insert_absorb)

lemma write_or_update_elsewhere:
  assumes "rec_InstanceID r = i"
  shows "rows_elsewhere i (write_or_update now r t) = rows_elsewhere i t"
proof -
  have "filter (\<lambda>r. rec_InstanceID r \<noteq> i) (map (\<lambda>x. if P x \<and> rec_RuleID x = k \<and> rec_InstanceID x = i then f x else x) rs) = filter (\<lambda>r. rec_InstanceID r \<noteq> i) rs"
    if "\<And>r. rec_InstanceID (f r) = rec_InstanceID r" for P k f and rs :: "Recommendation list"
    using that by (induction rs) auto
  then show ?thesis using assms by (simp add: rows_elsewhere_def write_or_update_def Let_def update_active_def insert_row_def same_advice_def fresh_row_def)
qed

lemma WriteOrUpdate_active:
  assumes "\<forall>r\<in>set rs. rec_allowed r \<and> rec_InstanceID r = i" "\<forall>n. up n"
  shows "active_rules i (fst (WriteOrUpdate up clk n rs t)) = active_rules i t \<union> rec_RuleID ` set rs"
  using assms by (induction up clk n rs t rule: WriteOrUpdate.induct) (auto simp: write_or_update_active)

lemma elsewhere_next: "rows_elsewhere i (t\<lparr>rb_next := n\<rparr>) = rows_elsewhere i t"
  by (simp add: rows_elsewhere_def)

lemma WriteOrUpdate_elsewhere:
  assumes "\<forall>r\<in>set rs. rec_InstanceID r = i"
  shows "rows_elsewhere i (fst (WriteOrUpdate up clk n rs t)) = rows_elsewhere i t"
  using assms by (induction up clk n rs t rule: WriteOrUpdate.induct) (auto simp: write_or_update_elsewhere elsewhere_next)

lemma active_elsewhere:
  assumes "rows_elsewhere i t = rows_elsewhere i t'" "j \<noteq> i"
  shows "active_rules j t = active_rules j t'"
proof -
  have "active_rules j u = set (map rec_RuleID (filter (\<lambda>r. active_row r \<and> rec_InstanceID r = j) (rows_elsewhere i u)))" for u
    using assms(2) by (auto simp: active_rules_def rows_elsewhere_def)
  then show ?thesis using assms(1) by simp
qed

definition cycle_works :: "cycle_io \<Rightarrow> string \<Rightarrow> bool" where
  "cycle_works io i \<longleftrightarrow> cy_snapshot io i \<noteq> None \<and> cy_resolve io i \<and> (\<forall>n. cy_write io i n)"

context advice_rules
begin

lemma instance_exact:
  assumes "cycle_works io i" "cy_snapshot io i = Some s"
  shows "active_rules i (evaluateInstance_rem rules io i t) = fired rules i s"
proof -
  have "\<forall>r\<in>set (Diagnose rules i s). rec_allowed r \<and> rec_InstanceID r = i" using diagnose_in by simp
  from WriteOrUpdate_active [OF this, of "cy_write io i"] show ?thesis
    using assms diagnose_fired [of i s]
    by (auto simp: evaluateInstance_rem_def Let_def cycle_works_def active_ResolveStale)
qed

lemma instance_elsewhere: "rows_elsewhere i (evaluateInstance_rem rules io i t) = rows_elsewhere i t"
  using diagnose_in WriteOrUpdate_elsewhere [of "Diagnose rules i s" i for s]
  by (simp add: evaluateInstance_rem_def Let_def elsewhere_ResolveStale split: option.split)

lemma cycle_active:
  assumes "\<forall>n. \<not> stop n" "\<forall>i\<in>set is. cycle_works io i"
  shows "snd (cycle_instances rules io stop n is t) \<and>
    active_rules i (fst (cycle_instances rules io stop n is t)) = (if i \<in> set is then fired rules i (the (cy_snapshot io i)) else active_rules i t)"
  using assms(2)
proof (induction "is" arbitrary: n t)
  case (Cons j js)
  have "active_rules j (evaluateInstance_rem rules io j t) = fired rules j (the (cy_snapshot io j))"
    using Cons(2) by (intro instance_exact) (auto simp: cycle_works_def)
  moreover have "active_rules i (evaluateInstance_rem rules io j t) = active_rules i t" if "i \<noteq> j"
    using active_elsewhere [OF instance_elsewhere that] .
  ultimately show ?case using Cons assms(1) by auto
qed simp

end

subsection \<open>Reachable tables\<close>

inductive rec_reach :: "RecTable \<Rightarrow> bool" where
  created: "rec_reach \<lparr>rb_rows = [], rb_next = 1\<rparr>"
| wrote: "rec_reach t \<Longrightarrow> \<forall>r\<in>set rs. 0 \<le> rec_UrgencyScore r \<and> rec_UrgencyScore r \<le> UrgencySoftCap \<Longrightarrow> rec_reach (fst (Write_recs up clk 0 rs t))"
| hooked: "rec_reach t \<Longrightarrow> 0 \<le> delta \<Longrightarrow> delta \<le> UrgencySoftCap \<Longrightarrow>
    EvaluateHook rem_rules up now source (hook, i, k, v, incident, delta) (Some t) = Some (Some t') \<Longrightarrow> rec_reach t'"
| cycled: "rec_reach t \<Longrightarrow> rec_reach (runCycle rem_rules io stop ids up now retention t)"
| acknowledged: "rec_reach t \<Longrightarrow> rec_reach (fst (handleAcknowledgeRecommendation up now idStr claims t))"

lemma rec_table_hook:
  assumes "rec_table_ok t" "0 \<le> delta" "delta \<le> UrgencySoftCap" "EvaluateHook rem_rules up now source (hook, i, k, v, incident, delta) (Some t) = Some (Some t')"
  shows "rec_table_ok t'"
proof -
  have "rec_table_ok t'" if "Upsert_rec up now (r\<lparr>rec_Source := ''rca'', rec_UrgencyScore := delta, rec_IncidentIDs := [incident]\<rparr>) t = Some t'" for r
    using rec_table_Upsert [OF assms(1) _ _ that] assms(2,3) by simp
  then show ?thesis using assms(1,4) by (auto simp: EvaluateHook_def Let_def split: option.splits)
qed

lemma rec_reach_ok: "rec_reach t \<Longrightarrow> rec_table_ok t"
proof (induction rule: rec_reach.induct)
  case (acknowledged t up now idStr claims)
  then show ?case by (auto simp: handleAcknowledgeRecommendation_def split: option.splits intro: rec_table_Acknowledge)
qed (simp_all add: rec_table_ok_def [of "\<lparr>rb_rows = [], rb_next = 1\<rparr>"] rec_table_Write rec_table_hook rec_table_runCycle)

subsection \<open>Which value of a metric the snapshot holds\<close>

lemma find_app: "find P (xs @ ys) = (case find P xs of None \<Rightarrow> find P ys | Some x \<Rightarrow> Some x)"
  by (induction xs) simp_all

lemma snapshot_fold: "map_of (fold (\<lambda>p m. map_put (mp_Metric p) (mp_Value p) m) ps m) k =
    (case find (\<lambda>p. mp_Metric p = k) (rev ps) of None \<Rightarrow> map_of m k | Some p \<Rightarrow> Some (mp_Value p))"
  by (induction ps arbitrary: m) (auto simp: find_app split: option.splits)

lemma snapshot_of_find: "map_of (snapshot_of ps) k = map_option mp_Value (find (\<lambda>p. mp_Metric p = k) (rev ps))"
  by (simp add: snapshot_of_def snapshot_fold split: option.split)

lemma find_sorted_least:
  assumes "sorted_wrt le xs" "find P xs = Some x" "y \<in> set xs" "P y"
  shows "x = y \<or> le x y"
  using assms by (induction xs) (auto split: if_splits)

lemma snapshot_find_in:
  assumes "map_of (snapshot_of ps) k = Some v" "sorted_wrt le (rev ps)"
  obtains p where "p \<in> set ps" "mp_Metric p = k" "mp_Value p = v" "\<And>q. q \<in> set ps \<Longrightarrow> mp_Metric q = k \<Longrightarrow> p = q \<or> le p q"
proof -
  obtain p where p: "find (\<lambda>p. mp_Metric p = k) (rev ps) = Some p" "mp_Value p = v" using assms(1) by (auto simp: snapshot_of_find)
  then have "p \<in> set ps" "mp_Metric p = k" by (auto simp: find_Some_iff) (metis length_rev nth_mem set_rev)
  moreover have "p = q \<or> le p q" if "q \<in> set ps" "mp_Metric q = k" for q
    using find_sorted_least [OF assms(2) p(1)] that by simp
  ultimately show ?thesis using p(2) that by blast
qed

lemma snapshot_pg:
  assumes "map_of (snapshot_of (pg_Query rows (snapshot_query now i))) k = Some v"
  shows "\<exists>p\<in>set rows. pg_selects (snapshot_query now i) p \<and> mp_Metric p = k \<and> mp_Value p = v \<and>
    (\<forall>q\<in>set rows. pg_selects (snapshot_query now i) q \<and> mp_Metric q = k \<longrightarrow> mp_Timestamp p \<le> mp_Timestamp q)"
proof -
  let ?q = "snapshot_query now i"
  have lim: "mq_Limit ?q \<le> 0" by (simp add: snapshot_query_def empty_query_def)
  have "sorted_wrt (\<lambda>a b. mp_Timestamp a \<le> mp_Timestamp b) (rev (pg_Query rows ?q))"
    using sort_slice_desc_sorted [of mp_Timestamp "filter (pg_selects ?q) rows"] by (simp add: pg_Query_unlimited [OF lim] sorted_wrt_rev sorted_wrt_map)
  from snapshot_find_in [OF assms this] show ?thesis by (simp add: pg_Query_unlimited [OF lim]) (metis order_refl)
qed

lemma snapshot_mem:
  assumes "store_inv m" "ok_query (snapshot_query now i)" "map_of (snapshot_of (Query m (snapshot_query now i))) k = Some v"
  shows "\<exists>p\<in>set (all_points m). matches (snapshot_query now i) p \<and> mp_Metric p = k \<and> mp_Value p = v \<and>
    (\<forall>q\<in>set (all_points m). matches (snapshot_query now i) q \<and> mp_Metric q = k \<longrightarrow> mp_Timestamp q \<le> mp_Timestamp p)"
proof -
  let ?q = "snapshot_query now i"
  have lim: "mq_Limit ?q \<le> 0" by (simp add: snapshot_query_def empty_query_def)
  have "mset (Query m ?q) = filter_mset (matches ?q) (mset (all_points m))" using mem.query_unlimited [OF assms(1,2) lim] .
  then have "set (Query m ?q) = {p \<in> set (all_points m). matches ?q p}" by (metis mset_filter set_mset_mset set_filter)
  moreover have "sorted_wrt (\<lambda>a b. mp_Timestamp b \<le> mp_Timestamp a) (rev (Query m ?q))"
    using mem.query_sorted [of m ?q] by (simp add: sorted_wrt_rev sorted_map)
  ultimately show ?thesis using snapshot_find_in [OF assms(3), of "\<lambda>a b. mp_Timestamp b \<le> mp_Timestamp a"] by (metis (mono_tags, lifting) mem_Collect_eq order_refl)
qed

lemma on_metric_exclusive: "(\<And>v. f v = None \<or> g v = None) \<Longrightarrow> on_metric ctx k f = None \<or> on_metric ctx k g = None"
  by (simp add: on_metric_def split: option.split)

lemma if_exclusive: "\<not> (P \<and> Q) \<Longrightarrow> (if P then Some a else None) = None \<or> (if Q then Some b else None) = None"
  by simp

lemma slot_rule_silent: "''rem_repl_slot_inactive'' \<notin> fired rem_rules i s"
proof
  assume "''rem_repl_slot_inactive'' \<in> fired rem_rules i s"
  then obtain r where r: "r \<in> set rem_rules" "rm_ID r = ''rem_repl_slot_inactive''" "rm_Evaluate r (diagnose_ctx i s) \<noteq> None" by (auto simp: fired_def)
  have "rem_repl_slot_inactive \<in> set rem_rules" "rm_ID rem_repl_slot_inactive = ''rem_repl_slot_inactive''"
    by (simp_all add: rem_rules_def pgRules_def) (simp add: rem_repl_slot_inactive_def)
  with r have "r = rem_repl_slot_inactive" using builtin_advice.ids_distinct by (metis distinct_map inj_onD)
  then show False using r(3) by (simp add: rem_repl_slot_inactive_def diagnose_ctx_def)
qed

subsection \<open>Properties\<close>



text \<open>Of two rules for the same metric at different severities never both fire: connections, replication lag, long
  transactions, wraparound and table bloat.\<close>

theorem advice_exclusive:
  "list_all (\<lambda>(warn, crit). rm_Evaluate warn ctx = None \<or> rm_Evaluate crit ctx = None)
     [(rem_conn_high, rem_conn_exhausted), (rem_repl_lag_bytes, rem_repl_lag_critical), (rem_long_txn_warn, rem_long_txn_crit),
      (rem_wraparound_warn, rem_wraparound_crit), (rem_bloat_high, rem_bloat_extreme)]"
  unfolding list.pred_inject(2) prod.case rem_rule_defs rem_rule_sel Let_def
  by (intro conjI list.pred_inject(1) on_metric_exclusive if_exclusive) linarith+

text \<open>Among the values of a metric in the two-minute window the snapshot holds a latest one when the metrics are kept in memory,
  but an oldest one when they are in PostgreSQL, which answers newest first.\<close>

theorem snapshot_age:
  assumes "store_inv m" "ok_query (snapshot_query now i)"
  shows "(map_of (snapshot_of (Query m (snapshot_query now i))) k = Some v \<longrightarrow>
      (\<exists>p\<in>set (all_points m). matches (snapshot_query now i) p \<and> mp_Metric p = k \<and> mp_Value p = v \<and>
        (\<forall>q\<in>set (all_points m). matches (snapshot_query now i) q \<and> mp_Metric q = k \<longrightarrow> mp_Timestamp q \<le> mp_Timestamp p))) \<and>
    (map_of (snapshot_of (pg_Query rows (snapshot_query now i))) k = Some v \<longrightarrow>
      (\<exists>p\<in>set rows. pg_selects (snapshot_query now i) p \<and> mp_Metric p = k \<and> mp_Value p = v \<and>
        (\<forall>q\<in>set rows. pg_selects (snapshot_query now i) q \<and> mp_Metric q = k \<longrightarrow> mp_Timestamp p \<le> mp_Timestamp q)))"
  using snapshot_mem [OF assms] snapshot_pg by blast

subsection \<open>Witnesses\<close>

definition demo_cycle :: cycle_io where
  "demo_cycle = \<lparr>cy_snapshot = (\<lambda>_. Some [(''pg.connections.utilization_pct'', 85)]), cy_resolve = (\<lambda>_. True), cy_write = (\<lambda>_ _. True),
     cy_now = (\<lambda>_. 5000), cy_clock = (\<lambda>_ _. 5000)\<rparr>"

definition demo_recs :: RecTable where
  "demo_recs = runCycle rem_rules demo_cycle (\<lambda>_. False) (Some [''db1'', ''db2'']) True 6000 100 \<lparr>rb_rows = [], rb_next = 1\<rparr>"

lemma demo_recs_reach: "rec_reach demo_recs"
  unfolding demo_recs_def by (rule rec_reach.cycled [OF rec_reach.created])

lemma on_metric_snapshot:
  "ec_MetricKey ctx \<noteq> k \<Longrightarrow> map_of (ec_Snapshot ctx) k = Some v \<Longrightarrow> P v \<Longrightarrow> on_metric ctx k (\<lambda>v. if P v then Some (a v) else None) \<noteq> None"
  by (simp add: on_metric_def)

lemma firedI: "r \<in> set rules \<Longrightarrow> rm_Evaluate r (diagnose_ctx i s) \<noteq> None \<Longrightarrow> rm_ID r = k \<Longrightarrow> k \<in> fired rules i s"
  by (auto simp: fired_def)

lemma demo_fired: "''rem_conn_high'' \<in> fired rem_rules ''db1'' [(''pg.connections.utilization_pct'', 85)]"
proof (rule firedI)
  show "rem_conn_high \<in> set rem_rules" by (simp add: rem_rules_def pgRules_def)
  show "rm_Evaluate rem_conn_high (diagnose_ctx ''db1'' [(''pg.connections.utilization_pct'', 85)]) \<noteq> None"
    unfolding rem_conn_high_def rem_rule_sel by (rule on_metric_snapshot [where v = 85]) (simp_all add: diagnose_ctx_def)
  show "rm_ID rem_conn_high = ''rem_conn_high''" by (simp add: rem_conn_high_def)
qed



definition demo_points :: "MetricPoint list" where
  "demo_points = [\<lparr>mp_InstanceID = ''db1'', mp_Metric = ''pg.locks.blocked_count'', mp_Value = 7, mp_Labels = [], mp_Timestamp = 1000\<rparr>,
     \<lparr>mp_InstanceID = ''db1'', mp_Metric = ''pg.locks.blocked_count'', mp_Value = 0, mp_Labels = [], mp_Timestamp = 2000\<rparr>]"

lemma demo_snapshots:
  "map_of (snapshot_of (Query (Write (NewMemoryStore 100) demo_points) (snapshot_query 3000 ''db1''))) ''pg.locks.blocked_count'' = Some 0"
  "map_of (snapshot_of (pg_Query demo_points (snapshot_query 3000 ''db1''))) ''pg.locks.blocked_count'' = Some 7"
  by code_simp+

theorem snapshot_age_witness:
  "(\<exists>p\<in>set demo_points. mp_Value p = 7 \<and> (\<forall>q\<in>set demo_points. pg_selects (snapshot_query 3000 ''db1'') q \<and> mp_Metric q = ''pg.locks.blocked_count'' \<longrightarrow> mp_Timestamp p \<le> mp_Timestamp q)) \<and>
   map_of (snapshot_of (Query (Write (NewMemoryStore 100) demo_points) (snapshot_query 3000 ''db1''))) ''pg.locks.blocked_count'' = Some 0"
proof -
  have "store_inv (Write (NewMemoryStore 100) demo_points)"
    by (intro store_inv_Write store_inv_New) (simp add: demo_points_def ok_point_def)
  moreover have "ok_query (snapshot_query 3000 ''db1'')" by (simp add: ok_query_def snapshot_query_def)
  ultimately show ?thesis using snapshot_age [of "Write (NewMemoryStore 100) demo_points" 3000 "''db1''" "''pg.locks.blocked_count''" 7 demo_points] demo_snapshots by blast
qed

end
