(* ===== verification/SettingsHistory.thy ===== *)
theory SettingsHistory
  imports PgMetrics
begin

section \<open>Settings snapshots (\<open>internal/settings\<close>, \<open>internal/api/settings_handlers.go\<close>)\<close>

text \<open>
  Snapshots of \<open>pg_settings\<close>, their table, the collector that takes them at start and on a schedule, the
  difference of two of them, and the handlers. What a statement answers is an argument: an error, or the rows it
  delivers, of which some may not scan, and whether the iteration ended in an error.
\<close>

subsection \<open>Differences (\<open>diff.go\<close>)\<close>

record SettingValue =
  sv_Setting :: string
  sv_Unit :: string
  sv_Source :: string
  sv_PendingRestart :: bool

type_synonym settings_map = "(string, SettingValue) gomap"

record SettingChange =
  ch_Name :: string
  ch_OldValue :: string
  ch_NewValue :: string
  ch_Unit :: string
  ch_Source :: string

record SettingsDiff =
  df_Changed :: "SettingChange list"
  df_Added :: "SettingChange list"
  df_Removed :: "SettingChange list"
  df_PendingRestart :: "string list"

definition added_setting :: "string \<Rightarrow> SettingValue \<Rightarrow> SettingChange" where
  "added_setting name v = \<lparr>ch_Name = name, ch_OldValue = '''', ch_NewValue = sv_Setting v, ch_Unit = sv_Unit v, ch_Source = sv_Source v\<rparr>"

definition changed_setting :: "string \<Rightarrow> SettingValue \<Rightarrow> SettingValue \<Rightarrow> SettingChange" where
  "changed_setting name old v = \<lparr>ch_Name = name, ch_OldValue = sv_Setting old, ch_NewValue = sv_Setting v, ch_Unit = sv_Unit v, ch_Source = sv_Source v\<rparr>"

definition removed_setting :: "string \<Rightarrow> SettingValue \<Rightarrow> SettingChange" where
  "removed_setting name v = \<lparr>ch_Name = name, ch_OldValue = sv_Setting v, ch_NewValue = '''', ch_Unit = '''', ch_Source = ''''\<rparr>"

text \<open>The loop over the newer map, then the one over the older.\<close>

fun diff_new :: "settings_map \<Rightarrow> settings_map \<Rightarrow> SettingsDiff \<Rightarrow> SettingsDiff" where
  "diff_new older [] d = d"
| "diff_new older ((name, v) # newer) d =
     (let d1 = (case map_of older name of
            None \<Rightarrow> d\<lparr>df_Added := df_Added d @ [added_setting name v]\<rparr>
          | Some old \<Rightarrow> if sv_Setting old \<noteq> sv_Setting v then d\<lparr>df_Changed := df_Changed d @ [changed_setting name old v]\<rparr> else d);
          d2 = (if sv_PendingRestart v then d1\<lparr>df_PendingRestart := df_PendingRestart d1 @ [name]\<rparr> else d1)
      in diff_new older newer d2)"

fun diff_old :: "settings_map \<Rightarrow> settings_map \<Rightarrow> SettingsDiff \<Rightarrow> SettingsDiff" where
  "diff_old newer [] d = d"
| "diff_old newer ((name, v) # older) d =
     diff_old newer older (if map_of newer name = None then d\<lparr>df_Removed := df_Removed d @ [removed_setting name v]\<rparr> else d)"

definition by_name :: "SettingChange list \<Rightarrow> SettingChange list" where
  "by_name = sort_slice (\<lambda>a b. ch_Name a < ch_Name b)"

definition DiffSnapshots :: "settings_map \<Rightarrow> settings_map \<Rightarrow> SettingsDiff" where
  "DiffSnapshots older newer =
     (let d = diff_old newer older (diff_new older newer \<lparr>df_Changed = [], df_Added = [], df_Removed = [], df_PendingRestart = []\<rparr>)
      in \<lparr>df_Changed = by_name (df_Changed d), df_Added = by_name (df_Added d), df_Removed = by_name (df_Removed d),
          df_PendingRestart = sort (df_PendingRestart d)\<rparr>)"

subsection \<open>The table (\<open>store.go\<close>)\<close>

record Snapshot =
  ss_ID :: int
  ss_InstanceID :: string
  ss_CapturedAt :: time
  ss_TriggerType :: string
  ss_PGVersion :: string
  ss_Settings :: settings_map

record SnapshotMeta =
  sm_ID :: int
  sm_InstanceID :: string
  sm_CapturedAt :: time
  sm_TriggerType :: string
  sm_PGVersion :: string

record snap_table =
  st_rows :: "Snapshot list"
  st_next :: int

text \<open>The flag is the outcome of the statement. The time is kept in microseconds, the map as a JSON object.\<close>

definition SaveSnapshot :: "bool \<Rightarrow> Snapshot \<Rightarrow> snap_table \<Rightarrow> snap_table option" where
  "SaveSnapshot up s t =
     (if up then Some \<lparr>st_rows = st_rows t @ [s\<lparr>ss_ID := st_next t, ss_CapturedAt := micros (ss_CapturedAt s)\<rparr>], st_next = st_next t + 1\<rparr> else None)"

datatype 'a fetched = Found 'a | NoRows | FetchFailed

definition GetSnapshot :: "bool \<Rightarrow> int \<Rightarrow> snap_table \<Rightarrow> Snapshot fetched" where
  "GetSnapshot up i t = (if \<not> up then FetchFailed else case find (\<lambda>s. ss_ID s = i) (st_rows t) of None \<Rightarrow> NoRows | Some s \<Rightarrow> Found s)"

definition newest_first :: "string \<Rightarrow> snap_table \<Rightarrow> Snapshot list" where
  "newest_first instanceID t = sort_slice (\<lambda>a b. ss_CapturedAt a > ss_CapturedAt b) (filter (\<lambda>s. ss_InstanceID s = instanceID) (st_rows t))"

definition meta_of :: "Snapshot \<Rightarrow> SnapshotMeta" where
  "meta_of s = \<lparr>sm_ID = ss_ID s, sm_InstanceID = ss_InstanceID s, sm_CapturedAt = ss_CapturedAt s, sm_TriggerType = ss_TriggerType s, sm_PGVersion = ss_PGVersion s\<rparr>"

definition ListSnapshots :: "bool \<Rightarrow> string \<Rightarrow> int \<Rightarrow> snap_table \<Rightarrow> SnapshotMeta list option" where
  "ListSnapshots up instanceID limit t =
     (let n = (if limit \<le> 0 then 50 else limit) in if up then Some (map meta_of (take (nat n) (newest_first instanceID t))) else None)"

definition LatestSnapshot :: "bool \<Rightarrow> bool \<Rightarrow> string \<Rightarrow> snap_table \<Rightarrow> Snapshot fetched" where
  "LatestSnapshot up up2 instanceID t =
     (if \<not> up then FetchFailed else case newest_first instanceID t of [] \<Rightarrow> NoRows | s # _ \<Rightarrow> GetSnapshot up2 (ss_ID s) t)"

subsection \<open>The collector (\<open>snapshot.go\<close>)\<close>

record SnapshotConfig =
  sc_Enabled :: bool
  sc_ScheduledInterval :: duration
  sc_CaptureOnStartup :: bool
  sc_RetentionDays :: int

record SnapshotCollector =
  sk_config :: SnapshotConfig
  sk_capturedOnStart :: "string \<Rightarrow> bool"
  sk_lastScheduled :: "string \<Rightarrow> time"

definition NewSnapshotCollector :: "SnapshotConfig \<Rightarrow> SnapshotCollector" where
  "NewSnapshotCollector cfg = \<lparr>sk_config = cfg, sk_capturedOnStart = (\<lambda>_. False), sk_lastScheduled = (\<lambda>_. zero_time)\<rparr>"

text \<open>Rows of \<open>pg_settings\<close> (\<open>None\<close> does not scan), and the error at the end of the iteration.\<close>

record settings_answer =
  sa_rows :: "(string \<times> SettingValue) option list"
  sa_err :: bool
  sa_version :: "string option"

definition settings_of :: "(string \<times> SettingValue) option list \<Rightarrow> settings_map" where
  "settings_of rows = fold (\<lambda>r m. case r of None \<Rightarrow> m | Some (name, v) \<Rightarrow> map_put name v m) rows []"

text \<open>\<open>capture\<close> does not ask whether the iteration ended in an error; a version that does not scan is empty.\<close>

definition capture :: "settings_answer option \<Rightarrow> time \<Rightarrow> bool \<Rightarrow> string \<Rightarrow> string \<Rightarrow> snap_table \<Rightarrow> snap_table option" where
  "capture answer now up instanceID trigger t =
     (case answer of None \<Rightarrow> None
      | Some a \<Rightarrow> SaveSnapshot up \<lparr>ss_ID = 0, ss_InstanceID = instanceID, ss_CapturedAt = now, ss_TriggerType = trigger,
          ss_PGVersion = (case sa_version a of None \<Rightarrow> '''' | Some v \<Rightarrow> v), ss_Settings = settings_of (sa_rows a)\<rparr> t)"

text \<open>One call of \<open>Collect\<close>: the clock at the test, at the capture and when the schedule is noted.\<close>

record collect_io =
  co_test :: time
  co_capture :: time
  co_noted :: time
  co_answer :: "settings_answer option"
  co_save :: bool

definition snapshot_Collect :: "collect_io \<Rightarrow> string \<Rightarrow> SnapshotCollector \<times> snap_table \<Rightarrow> SnapshotCollector \<times> snap_table \<times> bool" where
  "snapshot_Collect io instanceID st =
     (let (c, t) = st;
          needsStartup = sc_CaptureOnStartup (sk_config c) \<and> \<not> sk_capturedOnStart c instanceID;
          needsScheduled = time_sub (co_test io) (sk_lastScheduled c instanceID) \<ge> sc_ScheduledInterval (sk_config c)
      in if \<not> sc_Enabled (sk_config c) then (c, t, True)
         else if needsStartup then
           (case capture (co_answer io) (co_capture io) (co_save io) instanceID ''startup'' t of None \<Rightarrow> (c, t, False)
            | Some t' \<Rightarrow> (c\<lparr>sk_capturedOnStart := (sk_capturedOnStart c)(instanceID := True)\<rparr>, t', True))
         else if needsScheduled then
           (case capture (co_answer io) (co_capture io) (co_save io) instanceID ''scheduled'' t of None \<Rightarrow> (c, t, False)
            | Some t' \<Rightarrow> (c\<lparr>sk_lastScheduled := (sk_lastScheduled c)(instanceID := co_noted io)\<rparr>, t', True))
         else (c, t, True))"

definition CaptureManual :: "settings_answer option \<Rightarrow> time \<Rightarrow> bool \<Rightarrow> string \<Rightarrow> snap_table \<Rightarrow> snap_table option" where
  "CaptureManual answer now up instanceID = capture answer now up instanceID ''manual''"

subsection \<open>Handlers\<close>

datatype settings_response =
    SetError nat string
  | SetHistory "SnapshotMeta list"
  | SetDiff SettingsDiff int int time time
  | SetLatest Snapshot
  | SetPending "SettingChange list"
  | SetCreated string nat string

text \<open>The checks the handlers open with: the instance is known, the store is configured.\<close>

definition settings_guard :: "bool \<Rightarrow> bool \<Rightarrow> settings_response \<Rightarrow> settings_response" where
  "settings_guard known store resp = (if \<not> known then SetError 404 ''not_found'' else if \<not> store then SetError 503 ''unavailable'' else resp)"

definition handleSettingsHistory :: "bool \<Rightarrow> bool \<Rightarrow> bool \<Rightarrow> string \<Rightarrow> string \<Rightarrow> snap_table \<Rightarrow> settings_response" where
  "handleSettingsHistory known store up instanceID limitStr t =
     settings_guard known store
       (let limit = (case ParseInt limitStr of None \<Rightarrow> 50 | Some n \<Rightarrow> if n > 0 then n else 50) in
        case ListSnapshots up instanceID limit t of None \<Rightarrow> SetError 500 ''internal'' | Some ms \<Rightarrow> SetHistory ms)"

definition handleSettingsDiff :: "bool \<Rightarrow> bool \<Rightarrow> (int \<Rightarrow> bool) \<Rightarrow> string \<Rightarrow> string \<Rightarrow> string \<Rightarrow> snap_table \<Rightarrow> settings_response" where
  "handleSettingsDiff known store up instanceID fromStr toStr t =
     settings_guard known store
       (if fromStr = '''' \<or> toStr = '''' then SetError 400 ''invalid_param''
        else case ParseInt fromStr of None \<Rightarrow> SetError 400 ''invalid_param''
        | Some fromID \<Rightarrow>
            (case ParseInt toStr of None \<Rightarrow> SetError 400 ''invalid_param''
             | Some toID \<Rightarrow>
                 (case GetSnapshot (up 0) fromID t of NoRows \<Rightarrow> SetError 404 ''not_found'' | FetchFailed \<Rightarrow> SetError 500 ''internal''
                  | Found a \<Rightarrow>
                      (case GetSnapshot (up 1) toID t of NoRows \<Rightarrow> SetError 404 ''not_found'' | FetchFailed \<Rightarrow> SetError 500 ''internal''
                       | Found b \<Rightarrow>
                           if ss_InstanceID a \<noteq> instanceID \<or> ss_InstanceID b \<noteq> instanceID then SetError 400 ''invalid_param''
                           else SetDiff (DiffSnapshots (ss_Settings a) (ss_Settings b)) fromID toID (ss_CapturedAt a) (ss_CapturedAt b)))))"

definition handleSettingsLatest :: "bool \<Rightarrow> bool \<Rightarrow> bool \<Rightarrow> bool \<Rightarrow> string \<Rightarrow> snap_table \<Rightarrow> settings_response" where
  "handleSettingsLatest known store up up2 instanceID t =
     settings_guard known store
       (case LatestSnapshot up up2 instanceID t of NoRows \<Rightarrow> SetError 404 ''not_found'' | FetchFailed \<Rightarrow> SetError 500 ''internal'' | Found s \<Rightarrow> SetLatest s)"

definition handleSettingsPendingRestart :: "bool \<Rightarrow> bool \<Rightarrow> bool \<Rightarrow> bool \<Rightarrow> string \<Rightarrow> snap_table \<Rightarrow> settings_response" where
  "handleSettingsPendingRestart known store up up2 instanceID t =
     settings_guard known store
       (case LatestSnapshot up up2 instanceID t of NoRows \<Rightarrow> SetPending [] | FetchFailed \<Rightarrow> SetError 500 ''internal''
        | Found s \<Rightarrow> SetPending (map (\<lambda>(name, v). added_setting name v) (filter (\<lambda>(name, v). sv_PendingRestart v) (ss_Settings s))))"

text \<open>Unlike \<open>capture\<close>, the handler refuses rows whose iteration ended in an error. The argument \<open>conn\<close> is absent without
  a provider and holds no connection when it fails.\<close>

definition handleSettingsManualSnapshot ::
  "bool \<Rightarrow> bool \<Rightarrow> (settings_answer option) option option \<Rightarrow> time \<Rightarrow> bool \<Rightarrow> string \<Rightarrow> snap_table \<Rightarrow> snap_table \<times> settings_response" where
  "handleSettingsManualSnapshot known store conn now up instanceID t =
     (if \<not> known then (t, SetError 404 ''not_found'') else if \<not> store then (t, SetError 503 ''unavailable'')
      else case conn of None \<Rightarrow> (t, SetError 503 ''unavailable'')
      | Some None \<Rightarrow> (t, SetError 500 ''internal'')
      | Some (Some None) \<Rightarrow> (t, SetError 500 ''internal'')
      | Some (Some (Some a)) \<Rightarrow>
          if sa_err a then (t, SetError 500 ''internal'')
          else let m = settings_of (sa_rows a); version = (case sa_version a of None \<Rightarrow> '''' | Some v \<Rightarrow> v) in
            (case SaveSnapshot up \<lparr>ss_ID = 0, ss_InstanceID = instanceID, ss_CapturedAt = now, ss_TriggerType = ''manual'', ss_PGVersion = version, ss_Settings = m\<rparr> t of
               None \<Rightarrow> (t, SetError 500 ''internal'')
             | Some t' \<Rightarrow> (t', SetCreated instanceID (length m) version)))"

end
