(* ===== verification/SettingsLaws.thy ===== *)
theory SettingsLaws
  imports SettingsHistory
begin

section \<open>Laws of the settings snapshots\<close>

text \<open>
  A difference applied to the older settings gives the newer ones; the collector takes one snapshot at start
  and spaces the scheduled ones; a capture that loses rows halfway is saved as if it were complete.
\<close>

subsection \<open>The loops of the difference\<close>

lemma set_map_filter: "set (List.map_filter (\<lambda>(n, v). f n v) xs) = {y. \<exists>n v. (n, v) \<in> set xs \<and> f n v = Some y}"
  by (induction xs) (auto simp: List.map_filter_simps split: option.splits)

lemma diff_new_fields:
  "df_Added (diff_new older newer d) = df_Added d @ List.map_filter (\<lambda>(n, v). if map_of older n = None then Some (added_setting n v) else None) newer"
  "df_Changed (diff_new older newer d) = df_Changed d @
     List.map_filter (\<lambda>(n, v). case map_of older n of None \<Rightarrow> None | Some old \<Rightarrow> if sv_Setting old \<noteq> sv_Setting v then Some (changed_setting n old v) else None) newer"
  "df_PendingRestart (diff_new older newer d) = df_PendingRestart d @ map fst (filter (\<lambda>(n, v). sv_PendingRestart v) newer)"
  "df_Removed (diff_new older newer d) = df_Removed d"
  by (induction older newer d rule: diff_new.induct) (simp_all add: Let_def List.map_filter_simps split: option.split)

lemma diff_old_fields:
  "df_Removed (diff_old newer older d) = df_Removed d @ List.map_filter (\<lambda>(n, v). if map_of newer n = None then Some (removed_setting n v) else None) older"
  "df_Added (diff_old newer older d) = df_Added d" "df_Changed (diff_old newer older d) = df_Changed d"
  "df_PendingRestart (diff_old newer older d) = df_PendingRestart d"
  by (induction newer older d rule: diff_old.induct) (simp_all add: List.map_filter_simps)

lemma by_name_set [simp]: "set (by_name cs) = set cs"
  by (simp add: by_name_def)

lemma by_name_sorted: "sorted (map ch_Name (by_name cs))"
  unfolding by_name_def by (rule sort_slice_asc_sorted)

lemmas diff_fields = DiffSnapshots_def Let_def diff_new_fields diff_old_fields

lemma in_map_iff: "wf_map m \<Longrightarrow> (n, v) \<in> set m \<longleftrightarrow> map_of m n = Some v"
  by (metis map_of_SomeD map_of_is_SomeI)

lemma in_added:
  assumes "wf_map newer"
  shows "c \<in> set (df_Added (DiffSnapshots older newer)) \<longleftrightarrow> (\<exists>n v. map_of newer n = Some v \<and> map_of older n = None \<and> c = added_setting n v)"
  by (auto simp: diff_fields set_map_filter in_map_iff [OF assms] split: if_splits)

lemma in_changed:
  assumes "wf_map newer"
  shows "c \<in> set (df_Changed (DiffSnapshots older newer)) \<longleftrightarrow>
    (\<exists>n old v. map_of newer n = Some v \<and> map_of older n = Some old \<and> sv_Setting old \<noteq> sv_Setting v \<and> c = changed_setting n old v)"
proof -
  have "(case map_of older n of None \<Rightarrow> None | Some old \<Rightarrow> if sv_Setting old \<noteq> sv_Setting v then Some (changed_setting n old v) else None) = Some c \<longleftrightarrow>
      (\<exists>old. map_of older n = Some old \<and> sv_Setting old \<noteq> sv_Setting v \<and> c = changed_setting n old v)" for n v
    by (auto split: option.splits)
  then show ?thesis by (auto simp: diff_fields set_map_filter in_map_iff [OF assms])
qed

lemma in_removed:
  assumes "wf_map older"
  shows "c \<in> set (df_Removed (DiffSnapshots older newer)) \<longleftrightarrow> (\<exists>n v. map_of older n = Some v \<and> map_of newer n = None \<and> c = removed_setting n v)"
  by (auto simp: diff_fields set_map_filter in_map_iff [OF assms] split: if_splits)

lemma pending_exact:
  assumes "wf_map newer"
  shows "n \<in> set (df_PendingRestart (DiffSnapshots older newer)) \<longleftrightarrow> (\<exists>v. map_of newer n = Some v \<and> sv_PendingRestart v)"
  using in_map_iff [OF assms] by (force simp: diff_fields)

subsection \<open>Applying a difference\<close>

definition apply_diff :: "SettingsDiff \<Rightarrow> (string \<Rightarrow> string option) \<Rightarrow> string \<Rightarrow> string option" where
  "apply_diff d m n =
     (if n \<in> ch_Name ` set (df_Removed d) then None
      else case map_of (map (\<lambda>c. (ch_Name c, ch_NewValue c)) (df_Added d @ df_Changed d)) n of Some v \<Rightarrow> Some v | None \<Rightarrow> m n)"

definition setting_of :: "settings_map \<Rightarrow> string \<Rightarrow> string option" where
  "setting_of m n = map_option sv_Setting (map_of m n)"

lemma map_of_only: "(n, v) \<in> set xs \<Longrightarrow> (\<And>w. (n, w) \<in> set xs \<Longrightarrow> w = v) \<Longrightarrow> map_of xs n = Some v"
  by (metis map_of_SomeD map_of_eq_None_iff not_None_eq imageI fst_conv)

lemma change_sel:
  "ch_Name (removed_setting n v) = n" "ch_Name (added_setting n v) = n" "ch_NewValue (added_setting n v) = sv_Setting v"
  "ch_Name (changed_setting n old v) = n" "ch_NewValue (changed_setting n old v) = sv_Setting v"
  by (simp_all add: removed_setting_def added_setting_def changed_setting_def)

lemma removed_names:
  assumes "wf_map older"
  shows "n \<in> ch_Name ` set (df_Removed (DiffSnapshots older newer)) \<longleftrightarrow> map_of older n \<noteq> None \<and> map_of newer n = None"
  unfolding image_iff Bex_def in_removed [OF assms] by (metis change_sel(1) not_None_eq)

lemma new_values:
  assumes "wf_map newer"
  shows "(n, w) \<in> (\<lambda>c. (ch_Name c, ch_NewValue c)) ` set (df_Added (DiffSnapshots older newer) @ df_Changed (DiffSnapshots older newer)) \<longleftrightarrow>
    (\<exists>v. map_of newer n = Some v \<and> w = sv_Setting v \<and> setting_of older n \<noteq> Some w)"
proof -
  have "(\<exists>c. c \<in> set (df_Added (DiffSnapshots older newer)) \<and> n = ch_Name c \<and> w = ch_NewValue c) \<longleftrightarrow>
      (\<exists>v. map_of newer n = Some v \<and> w = sv_Setting v \<and> map_of older n = None)"
    unfolding in_added [OF assms] by (metis change_sel(2,3))
  moreover have "(\<exists>c. c \<in> set (df_Changed (DiffSnapshots older newer)) \<and> n = ch_Name c \<and> w = ch_NewValue c) \<longleftrightarrow>
      (\<exists>v old. map_of newer n = Some v \<and> w = sv_Setting v \<and> map_of older n = Some old \<and> sv_Setting old \<noteq> w)"
    unfolding in_changed [OF assms] by (metis change_sel(4,5))
  ultimately show ?thesis by (cases "map_of older n") (auto simp: image_Un image_iff setting_of_def)
qed

lemma apply_diff_exact:
  assumes "wf_map older" "wf_map newer"
  shows "apply_diff (DiffSnapshots older newer) (setting_of older) n = setting_of newer n"
proof -
  let ?d = "DiffSnapshots older newer"
  let ?ps = "map (\<lambda>c. (ch_Name c, ch_NewValue c)) (df_Added ?d @ df_Changed ?d)"
  have ps: "(n, w) \<in> set ?ps \<longleftrightarrow> (\<exists>v. map_of newer n = Some v \<and> w = sv_Setting v \<and> setting_of older n \<noteq> Some w)" for w
    using new_values [OF assms(2)] by (simp only: set_map)
  note rem = removed_names [OF assms(1), of n newer]
  show ?thesis
  proof (cases "\<exists>w. (n, w) \<in> set ?ps")
    case True
    then obtain w where w: "(n, w) \<in> set ?ps" by blast
    then have "map_of ?ps n = Some w" by (rule map_of_only) (use w in \<open>auto simp only: ps option.inject\<close>)
    moreover have "setting_of newer n = Some w" "map_of newer n \<noteq> None" using w unfolding ps by (auto simp: setting_of_def)
    ultimately show ?thesis by (simp add: apply_diff_def rem del: map_append)
  next
    case False
    then have "map_of ?ps n = None" by (metis map_of_SomeD not_None_eq)
    moreover have "map_of newer n = None \<or> setting_of newer n = setting_of older n"
      using False unfolding ps by (cases "map_of newer n") (auto simp: setting_of_def)
    ultimately show ?thesis by (auto simp: apply_diff_def rem setting_of_def simp del: map_append)
  qed
qed

subsection \<open>The schedule of the collector\<close>

inductive collect_reach :: "SnapshotConfig \<Rightarrow> time \<Rightarrow> SnapshotCollector \<Rightarrow> snap_table \<Rightarrow> bool" for cfg where
  created: "collect_reach cfg now (NewSnapshotCollector cfg) \<lparr>st_rows = [], st_next = 1\<rparr>"
| collected: "collect_reach cfg now c t \<Longrightarrow> now \<le> co_test io \<Longrightarrow> co_test io \<le> co_capture io \<Longrightarrow> co_capture io \<le> co_noted io \<Longrightarrow>
    snapshot_Collect io i (c, t) = (c', t', ok) \<Longrightarrow> collect_reach cfg (co_noted io) c' t'"

definition taken :: "string \<Rightarrow> string \<Rightarrow> Snapshot \<Rightarrow> bool" where
  "taken trigger i s \<longleftrightarrow> ss_TriggerType s = trigger \<and> ss_InstanceID s = i"

definition spaced_rows :: "duration \<Rightarrow> Snapshot list \<Rightarrow> bool" where
  "spaced_rows d rows = sorted_wrt (\<lambda>a b. \<forall>i. taken ''scheduled'' i a \<and> taken ''scheduled'' i b \<longrightarrow> ss_CapturedAt a + d \<le> ss_CapturedAt b) rows"

definition schedule_inv :: "SnapshotConfig \<Rightarrow> SnapshotCollector \<Rightarrow> snap_table \<Rightarrow> bool" where
  "schedule_inv cfg c t \<longleftrightarrow> sk_config c = cfg \<and> spaced_rows (sc_ScheduledInterval cfg) (st_rows t) \<and>
     (\<forall>i. length (filter (taken ''startup'' i) (st_rows t)) = (if sk_capturedOnStart c i then 1 else 0)) \<and>
     (\<forall>s\<in>set (st_rows t). \<forall>i. taken ''scheduled'' i s \<longrightarrow> ss_CapturedAt s \<le> micros (sk_lastScheduled c i))"

lemma capture_row:
  assumes "capture answer now up i trigger t = Some t'"
  obtains s where "st_rows t' = st_rows t @ [s]" "ss_CapturedAt s = micros now" "\<And>tr j. taken tr j s \<longleftrightarrow> trigger = tr \<and> i = j"
  using assms that by (auto simp: capture_def SaveSnapshot_def taken_def split: option.splits if_splits)

lemma micros_shift: "1000 dvd d \<Longrightarrow> a + d \<le> b \<Longrightarrow> micros a + d \<le> micros b"
proof -
  assume "1000 dvd d" "a + d \<le> b"
  then obtain k where "d = 1000 * k" by (auto simp: dvd_def)
  then show ?thesis using zdiv_mono1 [OF \<open>a + d \<le> b\<close>, of 1000] by (simp add: micros_def)
qed

lemma micros_mono: "a \<le> b \<Longrightarrow> micros a \<le> micros b"
  using micros_shift [of 0 a b] by simp

lemma snapshot_Collect_cases:
  assumes "snapshot_Collect io i (c, t) = (c', t', ok)"
  obtains (same) "c' = c" "t' = t"
    | (startup) "\<not> sk_capturedOnStart c i" "c' = c\<lparr>sk_capturedOnStart := (sk_capturedOnStart c)(i := True)\<rparr>"
      "capture (co_answer io) (co_capture io) (co_save io) i ''startup'' t = Some t'"
    | (scheduled) "sc_ScheduledInterval (sk_config c) \<le> time_sub (co_test io) (sk_lastScheduled c i)"
      "c' = c\<lparr>sk_lastScheduled := (sk_lastScheduled c)(i := co_noted io)\<rparr>"
      "capture (co_answer io) (co_capture io) (co_save io) i ''scheduled'' t = Some t'"
proof (cases "sc_Enabled (sk_config c)")
  case on: True
  let ?cap = "capture (co_answer io) (co_capture io) (co_save io) i"
  note st = assms [unfolded snapshot_Collect_def Let_def prod.case]
  show ?thesis
  proof (cases "sc_CaptureOnStartup (sk_config c) \<and> \<not> sk_capturedOnStart c i")
    case start: True
    show ?thesis
    proof (cases "?cap ''startup'' t")
      case None
      then have "c = c'" "t = t'" using st on start by simp_all
      then show ?thesis using same by metis
    next
      case (Some t1)
      then have "c\<lparr>sk_capturedOnStart := (sk_capturedOnStart c)(i := True)\<rparr> = c'" "t1 = t'" using st on start by simp_all
      then show ?thesis using startup start Some by metis
    qed
  next
    case rest: False
    show ?thesis
    proof (cases "sc_ScheduledInterval (sk_config c) \<le> time_sub (co_test io) (sk_lastScheduled c i)")
      case due: True
      show ?thesis
      proof (cases "?cap ''scheduled'' t")
        case None
        then have "c = c'" "t = t'" using st on rest due by simp_all
        then show ?thesis using same by metis
      next
        case (Some t1)
        then have "c\<lparr>sk_lastScheduled := (sk_lastScheduled c)(i := co_noted io)\<rparr> = c'" "t1 = t'" using st on rest due by simp_all
        then show ?thesis using scheduled due Some by metis
      qed
    next
      case False
      then have "c = c'" "t = t'" using st on rest by simp_all
      then show ?thesis using same by metis
    qed
  qed
next
  case False
  then have "c = c'" "t = t'" using assms by (simp_all add: snapshot_Collect_def)
  then show ?thesis using same by metis
qed

lemma schedule_step:
  assumes inv: "schedule_inv cfg c t" and iv: "0 \<le> sc_ScheduledInterval cfg" "sc_ScheduledInterval cfg < 2 ^ 63" "1000 dvd sc_ScheduledInterval cfg"
    and clk: "co_test io \<le> co_capture io" "co_capture io \<le> co_noted io" and st: "snapshot_Collect io i (c, t) = (c', t', ok)"
  shows "schedule_inv cfg c' t'"
proof -
  let ?d = "sc_ScheduledInterval cfg"
  have cfg: "sk_config c = cfg" using inv by (simp add: schedule_inv_def)
  show ?thesis using st
  proof (cases rule: snapshot_Collect_cases)
    case same
    then show ?thesis using inv by simp
  next
    case startup
    obtain s where "st_rows t' = st_rows t @ [s]" "\<And>tr j. taken tr j s \<longleftrightarrow> ''startup'' = tr \<and> i = j" using capture_row [OF startup(3)] by metis
    then show ?thesis using inv startup(1,2) by (auto simp: schedule_inv_def spaced_rows_def sorted_wrt_append)
  next
    case scheduled
    obtain s where s: "st_rows t' = st_rows t @ [s]" "ss_CapturedAt s = micros (co_capture io)" "\<And>tr j. taken tr j s \<longleftrightarrow> ''scheduled'' = tr \<and> i = j"
      using capture_row [OF scheduled(3)] by metis
    have gap: "sk_lastScheduled c i + ?d \<le> co_capture io" using scheduled(1) cfg iv(1,2) clk(1) by (simp add: time_sub_def max_def min_def split: if_splits)
    have gaps: "ss_CapturedAt a + ?d \<le> ss_CapturedAt s" if "a \<in> set (st_rows t)" "taken ''scheduled'' i a" for a
      using inv that micros_shift [OF iv(3) gap] s(2) by (fastforce simp: schedule_inv_def)
    have "micros (sk_lastScheduled c i) \<le> micros (co_noted io)" using gap iv(1) clk(2) by (intro micros_mono) simp
    moreover have "micros (co_capture io) \<le> micros (co_noted io)" using clk(2) by (rule micros_mono)
    moreover have "ss_CapturedAt a \<le> micros (sk_lastScheduled c j)" if "a \<in> set (st_rows t)" "taken ''scheduled'' j a" for a j
      using inv that by (simp add: schedule_inv_def)
    ultimately have bound: "ss_CapturedAt a \<le> micros (sk_lastScheduled c' j)" if "a \<in> set (st_rows t')" "taken ''scheduled'' j a" for a j
      using that s scheduled(2) by (cases "j = i") (fastforce, auto)
    have "spaced_rows ?d (st_rows t')"
      using inv s gaps by (auto simp: schedule_inv_def spaced_rows_def sorted_wrt_append)
    then show ?thesis using inv bound scheduled(2) s by (auto simp: schedule_inv_def)
  qed
qed

lemma collect_reach_inv:
  assumes "collect_reach cfg now c t" "0 \<le> sc_ScheduledInterval cfg" "sc_ScheduledInterval cfg < 2 ^ 63" "1000 dvd sc_ScheduledInterval cfg"
  shows "schedule_inv cfg c t"
  using assms(1)
proof (induction rule: collect_reach.induct)
  case (created now)
  then show ?case by (simp add: schedule_inv_def NewSnapshotCollector_def spaced_rows_def)
next
  case (collected now c t io i c' t' ok)
  show ?case by (rule schedule_step [OF collected(6) assms(2-4) collected(3,4,5)])
qed

subsection \<open>Properties\<close>


text \<open>Over any sequence of calls the settings collector takes at most one startup snapshot of an instance, and its scheduled
  snapshots of an instance are at least the interval apart.\<close>

theorem settings_schedule:
  assumes "collect_reach cfg now c t" "0 \<le> sc_ScheduledInterval cfg" "sc_ScheduledInterval cfg < 2 ^ 63" "1000 dvd sc_ScheduledInterval cfg"
  shows "spaced_rows (sc_ScheduledInterval cfg) (st_rows t) \<and> length (filter (taken ''startup'' i) (st_rows t)) \<le> 1"
  using collect_reach_inv [OF assms] by (simp add: schedule_inv_def)

text \<open>A capture whose iteration breaks off is saved like a complete one; the manual handler refuses it.\<close>

lemma partial_capture_saved:
  "capture (Some (a\<lparr>sa_err := True\<rparr>)) now up i trigger t = capture (Some (a\<lparr>sa_err := False\<rparr>)) now up i trigger t \<and>
   handleSettingsManualSnapshot True True (Some (Some (Some (a\<lparr>sa_err := True\<rparr>)))) now up i t = (t, SetError 500 ''internal'')"
  by (simp add: capture_def handleSettingsManualSnapshot_def)

subsection \<open>Witnesses\<close>

definition demo_settings :: "string \<Rightarrow> bool \<Rightarrow> SettingValue" where
  "demo_settings v p = \<lparr>sv_Setting = v, sv_Unit = '''', sv_Source = ''configuration file'', sv_PendingRestart = p\<rparr>"


definition demo_snapshot_cfg :: SnapshotConfig where
  "demo_snapshot_cfg = \<lparr>sc_Enabled = True, sc_ScheduledInterval = 86400000000000, sc_CaptureOnStartup = True, sc_RetentionDays = 90\<rparr>"

definition demo_collect :: "time \<Rightarrow> collect_io" where
  "demo_collect now = \<lparr>co_test = now, co_capture = now, co_noted = now,
     co_answer = Some \<lparr>sa_rows = [Some (''jit'', demo_settings ''on'' False)], sa_err = False, sa_version = None\<rparr>, co_save = True\<rparr>"

definition demo_collected :: "SnapshotCollector \<times> snap_table" where
  "demo_collected = (case snapshot_Collect (demo_collect 2000) ''db1'' (NewSnapshotCollector demo_snapshot_cfg, \<lparr>st_rows = [], st_next = 1\<rparr>) of (c, t, _) \<Rightarrow> (c, t))"

theorem settings_schedule_witness:
  "length (st_rows (snd demo_collected)) = 1 \<and> spaced_rows 86400000000000 (st_rows (snd demo_collected))"
proof -
  have "collect_reach demo_snapshot_cfg 2000 (fst demo_collected) (snd demo_collected)"
    using collect_reach.collected [OF collect_reach.created [of demo_snapshot_cfg 1000], of "demo_collect 2000" "''db1''" "fst demo_collected" "snd demo_collected" True]
    by (simp add: demo_collected_def demo_collect_def snapshot_Collect_def NewSnapshotCollector_def demo_snapshot_cfg_def capture_def SaveSnapshot_def)
  from settings_schedule [OF this] have "spaced_rows 86400000000000 (st_rows (snd demo_collected))" by (simp add: demo_snapshot_cfg_def)
  then show ?thesis
    by (simp add: demo_collected_def demo_collect_def snapshot_Collect_def NewSnapshotCollector_def demo_snapshot_cfg_def capture_def SaveSnapshot_def)
qed

end
