(* ===== verification/LockTreeApi.thy ===== *)
theory LockTreeApi
  imports LockTree
begin

section \<open>The lock tree of the API (\<open>internal/api/handler_locks.go\<close>)\<close>

text \<open>
  \<open>BuildLockTree\<close> arranges the sessions of \<open>pg_stat_activity\<close> by their distance from a session that blocks and is
  not blocked. The search starts from all of these at once and marks a session when it leaves the queue.
\<close>

subsection \<open>Definitions\<close>

record RawLockEntry =
  rl_PID :: int
  rl_Usename :: string
  rl_Datname :: string
  rl_State :: string
  rl_WaitEventType :: "string option"
  rl_WaitEvent :: "string option"
  rl_DurationSeconds :: float64
  rl_Query :: string
  rl_BlockingPIDs :: "int list"

record LockEntry =
  le_PID :: int
  le_Depth :: nat
  le_Usename :: string
  le_Datname :: string
  le_State :: string
  le_WaitEventType :: "string option"
  le_WaitEvent :: "string option"
  le_DurationSeconds :: float64
  le_Query :: string
  le_BlockedByCount :: nat
  le_BlockingCount :: nat
  le_IsRoot :: bool
  le_ParentPID :: "int option"

record LockTreeSummary =
  ls_RootBlockers :: nat
  ls_TotalBlocked :: nat
  ls_MaxDepth :: nat

record LockTreeResponse =
  lt_Summary :: LockTreeSummary
  lt_Locks :: "LockEntry list"

text \<open>The row of a process: a later one replaces an earlier one in the map.\<close>

definition byPID :: "RawLockEntry list \<Rightarrow> int \<Rightarrow> RawLockEntry option" where
  "byPID raw pid = find (\<lambda>r. rl_PID r = pid) (rev raw)"

fun index_row :: "int \<Rightarrow> int list \<Rightarrow> adjacency \<times> adjacency \<Rightarrow> adjacency \<times> adjacency" where
  "index_row pid [] maps = maps"
| "index_row pid (bp # bps) (blockedBy, blocks) =
     index_row pid bps (map_put pid (map_get [] blockedBy pid @ [bp]) blockedBy, map_put bp (map_get [] blocks bp @ [pid]) blocks)"

definition index_rows :: "RawLockEntry list \<Rightarrow> adjacency \<times> adjacency" where
  "index_rows raw = fold (\<lambda>e maps. index_row (rl_PID e) (rl_BlockingPIDs e) maps) raw ([], [])"

definition involved :: "adjacency \<Rightarrow> adjacency \<Rightarrow> int list" where
  "involved blockedBy blocks =
     fold (\<lambda>(pid, _) inv. set_add pid inv) blocks (fold (\<lambda>(pid, bps) inv. fold set_add bps (set_add pid inv)) blockedBy [])"

definition tree_roots :: "adjacency \<Rightarrow> adjacency \<Rightarrow> int list" where
  "tree_roots blockedBy blocks = sort (filter (\<lambda>pid. map_get [] blockedBy pid = []) (involved blockedBy blocks))"

definition lock_entry :: "adjacency \<Rightarrow> adjacency \<Rightarrow> RawLockEntry \<Rightarrow> nat \<Rightarrow> int option \<Rightarrow> LockEntry" where
  "lock_entry blockedBy blocks row depth parent =
     \<lparr>le_PID = rl_PID row, le_Depth = depth, le_Usename = rl_Usename row, le_Datname = rl_Datname row, le_State = rl_State row,
      le_WaitEventType = rl_WaitEventType row, le_WaitEvent = rl_WaitEvent row, le_DurationSeconds = rl_DurationSeconds row, le_Query = rl_Query row,
      le_BlockedByCount = length (map_get [] blockedBy (rl_PID row)), le_BlockingCount = length (map_get [] blocks (rl_PID row)),
      le_IsRoot = (depth = 0), le_ParentPID = parent\<rparr>"

type_synonym bfsItem = "int \<times> nat \<times> int option"

definition enqueue_children :: "int \<Rightarrow> nat \<Rightarrow> int list \<Rightarrow> int list \<Rightarrow> bfsItem list" where
  "enqueue_children pid depth children visited = map (\<lambda>child. (child, depth + 1, Some pid)) (filter (\<lambda>child. child \<notin> set visited) (sort children))"

function tree_loop :: "RawLockEntry list \<Rightarrow> adjacency \<Rightarrow> adjacency \<Rightarrow> bfsItem list \<Rightarrow> int list \<Rightarrow> nat \<Rightarrow> LockEntry list \<Rightarrow> nat \<times> LockEntry list" where
  "tree_loop raw blockedBy blocks [] visited maxDepth entries = (maxDepth, entries)"
| "tree_loop raw blockedBy blocks ((pid, depth, parent) # queue) visited maxDepth entries =
     (if pid \<in> set visited then tree_loop raw blockedBy blocks queue visited maxDepth entries
      else let visited' = pid # visited;
               m = (if depth > maxDepth then depth else maxDepth)
           in case byPID raw pid of
                None \<Rightarrow> tree_loop raw blockedBy blocks queue visited' m entries
              | Some row \<Rightarrow> tree_loop raw blockedBy blocks (queue @ enqueue_children pid depth (map_get [] blocks pid) visited') visited' m
                    (entries @ [lock_entry blockedBy blocks row depth parent]))"
  by pat_completeness auto
termination
proof (relation "measures [\<lambda>(raw, bb, b, q, v, m, es). card ((fst ` set q \<union> adj_nodes b) - set v), \<lambda>(raw, bb, b, q, v, m, es). length q]", goal_cases)
  case 1
  then show ?case by simp
next
  case (2 raw bb b pid depth parent queue visited m es)
  have "fst ` set queue \<union> adj_nodes b - set visited \<subseteq> fst ` set ((pid, depth, parent) # queue) \<union> adj_nodes b - set visited" by auto
  then have "card (fst ` set queue \<union> adj_nodes b - set visited) \<le> card (fst ` set ((pid, depth, parent) # queue) \<union> adj_nodes b - set visited)"
    by (intro card_mono) auto
  then show ?case by auto
next
  case (3 raw bb b pid depth parent queue visited m es visited' m')
  then have "fst ` set queue \<union> adj_nodes b - set visited' \<subset> fst ` set ((pid, depth, parent) # queue) \<union> adj_nodes b - set visited" by auto
  then have "card (fst ` set queue \<union> adj_nodes b - set visited') < card (fst ` set ((pid, depth, parent) # queue) \<union> adj_nodes b - set visited)"
    by (intro psubset_card_mono) auto
  then show ?case by simp
next
  case (4 raw bb b pid depth parent queue visited m es visited' m' row)
  have "fst ` set (enqueue_children pid depth (map_get [] b pid) visited') \<subseteq> adj_nodes b"
    using map_get_adj_nodes [of b pid] by (auto simp: enqueue_children_def)
  then have "fst ` set (queue @ enqueue_children pid depth (map_get [] b pid) visited') \<union> adj_nodes b - set visited' \<subset>
      fst ` set ((pid, depth, parent) # queue) \<union> adj_nodes b - set visited" using 4(1,2) by auto
  then have "card (fst ` set (queue @ enqueue_children pid depth (map_get [] b pid) visited') \<union> adj_nodes b - set visited') <
      card (fst ` set ((pid, depth, parent) # queue) \<union> adj_nodes b - set visited)"
    by (intro psubset_card_mono) auto
  then show ?case by simp
qed

definition BuildLockTree :: "RawLockEntry list \<Rightarrow> LockTreeResponse" where
  "BuildLockTree raw =
     (let (blockedBy, blocks) = index_rows raw;
          roots = tree_roots blockedBy blocks;
          (maxDepth, entries) = tree_loop raw blockedBy blocks (map (\<lambda>rp. (rp, 0, None)) roots) [] 0 [];
          locks = sort_slice (\<lambda>a b. if le_Depth a \<noteq> le_Depth b then le_Depth a < le_Depth b else le_PID a < le_PID b) entries
      in \<lparr>lt_Summary = \<lparr>ls_RootBlockers = length roots, ls_TotalBlocked = length (filter (\<lambda>e. \<not> le_IsRoot e) locks), ls_MaxDepth = maxDepth\<rparr>, lt_Locks = locks\<rparr>)"

text \<open>The handler: a row that does not scan is skipped, an error at the end of the iteration is only logged; a session without a
  transaction has no duration.\<close>

datatype locks_response = LockError nat string | LocksFound LockTreeResponse

record lock_conn =
  lc_conn :: bool
  lc_timeout :: bool
  lc_rows :: "(RawLockEntry \<times> float64 option) option list option"

definition raw_entries :: "(RawLockEntry \<times> float64 option) option list \<Rightarrow> RawLockEntry list" where
  "raw_entries rows = List.map_filter (map_option (\<lambda>(e, d). e\<lparr>rl_DurationSeconds := (case d of None \<Rightarrow> 0 | Some x \<Rightarrow> x)\<rparr>)) rows"

definition handleLockTree :: "bool \<Rightarrow> lock_conn option \<Rightarrow> locks_response" where
  "handleLockTree known provider =
     (if \<not> known then LockError 404 ''not_found''
      else case provider of None \<Rightarrow> LockError 503 ''not_available''
      | Some c \<Rightarrow>
          if \<not> lc_conn c then LockError 502 ''connection_error''
          else if \<not> lc_timeout c then LockError 500 ''internal_error''
          else case lc_rows c of None \<Rightarrow> LockError 500 ''internal_error'' | Some rows \<Rightarrow> LocksFound (BuildLockTree (raw_entries rows)))"

subsection \<open>Distances from a set of sessions\<close>

definition depth_of :: "int set \<Rightarrow> (int \<Rightarrow> int \<Rightarrow> bool) \<Rightarrow> int \<Rightarrow> nat \<Rightarrow> bool" where
  "depth_of S R v d \<longleftrightarrow> (\<exists>s\<in>S. chain R s d v) \<and> (\<forall>s\<in>S. \<forall>n. chain R s n v \<longrightarrow> d \<le> n)"

lemma depth_of_unique: "depth_of S R v d \<Longrightarrow> depth_of S R v d' \<Longrightarrow> d = d'"
  by (meson depth_of_def le_antisym)

lemma depth_of_zero: "depth_of S R v 0 \<longleftrightarrow> v \<in> S"
  by (auto simp: depth_of_def)

text \<open>The state of the search. \<open>seen\<close> tells which sessions have a row.\<close>

definition tree_inv :: "int set \<Rightarrow> (int \<Rightarrow> int \<Rightarrow> bool) \<Rightarrow> bfsItem list \<Rightarrow> int list \<Rightarrow> bool" where
  "tree_inv S R queue visited \<longleftrightarrow>
     (\<forall>(p, d, _) \<in> set queue. \<exists>s\<in>S. chain R s d p) \<and>
     sorted (map (fst \<circ> snd) queue) \<and> (\<exists>k. \<forall>(p, d, _) \<in> set queue. k \<le> d \<and> d \<le> Suc k) \<and>
     (\<forall>s\<in>S. s \<in> set visited \<or> (\<exists>x. (s, 0, x) \<in> set queue)) \<and>
     (\<forall>v\<in>set visited. \<exists>d. depth_of S R v d \<and> (\<forall>c. R v c \<longrightarrow> c \<in> set visited \<or> (\<exists>x. (c, Suc d, x) \<in> set queue)))"

lemma tree_invD:
  assumes "tree_inv S R queue visited"
  shows "(q, e, y) \<in> set queue \<Longrightarrow> \<exists>s\<in>S. chain R s e q"
    and "sorted (map (fst \<circ> snd) queue)"
    and "\<exists>k. \<forall>q e y. (q, e, y) \<in> set queue \<longrightarrow> k \<le> e \<and> e \<le> Suc k"
    and "s \<in> S \<Longrightarrow> s \<in> set visited \<or> (\<exists>x. (s, 0, x) \<in> set queue)"
    and "v \<in> set visited \<Longrightarrow> \<exists>d. depth_of S R v d \<and> (\<forall>c. R v c \<longrightarrow> c \<in> set visited \<or> (\<exists>x. (c, Suc d, x) \<in> set queue))"
  using assms unfolding tree_inv_def by (fast, fast, fast, fast, fast)

lemma tree_invI:
  assumes "\<And>q e y. (q, e, y) \<in> set queue \<Longrightarrow> \<exists>s\<in>S. chain R s e q" "sorted (map (fst \<circ> snd) queue)"
    "\<And>q e y. (q, e, y) \<in> set queue \<Longrightarrow> k \<le> e \<and> e \<le> Suc k" "\<And>s. s \<in> S \<Longrightarrow> s \<in> set visited \<or> (\<exists>x. (s, 0, x) \<in> set queue)"
    "\<And>v. v \<in> set visited \<Longrightarrow> \<exists>d. depth_of S R v d \<and> (\<forall>c. R v c \<longrightarrow> c \<in> set visited \<or> (\<exists>x. (c, Suc d, x) \<in> set queue))"
  shows "tree_inv S R queue visited"
  using assms unfolding tree_inv_def by blast

text \<open>A session that is not visited lies behind an item of the queue that is at most as deep.\<close>

lemma chain_meets_queue:
  assumes "tree_inv S R queue visited" "chain R s n v" "s \<in> S"
  shows "v \<in> set visited \<or> (\<exists>p d x. (p, d, x) \<in> set queue \<and> d \<le> n)"
  using assms(2,3)
proof (induction rule: chain.induct)
  case (here s)
  then show ?case using assms(1) unfolding tree_inv_def by (metis le0)
next
  case (link s n u v)
  show ?case
  proof (cases "u \<in> set visited")
    case True
    then obtain d where d: "depth_of S R u d" "\<forall>c. R u c \<longrightarrow> c \<in> set visited \<or> (\<exists>x. (c, Suc d, x) \<in> set queue)"
      using assms(1) unfolding tree_inv_def by blast
    have "d \<le> n" using d(1) link(1,4) by (auto simp: depth_of_def)
    then show ?thesis using d(2) link(2) by (metis Suc_le_mono)
  next
    case False
    then show ?thesis using link(3,4) by (meson le_SucI)
  qed
qed

lemma head_depth:
  assumes "tree_inv S R ((p, d, x) # queue) visited" "p \<notin> set visited"
  shows "depth_of S R p d"
  unfolding depth_of_def
proof (intro conjI ballI allI impI)
  show "\<exists>s\<in>S. chain R s d p" using assms(1) by (simp add: tree_inv_def)
  fix s n assume "s \<in> S" "chain R s n p"
  then obtain q e y where q: "(q, e, y) \<in> set ((p, d, x) # queue)" "e \<le> n"
    using chain_meets_queue [OF assms(1)] assms(2) by blast
  have "sorted (d # map (fst \<circ> snd) queue)" using assms(1) by (simp add: tree_inv_def)
  then have "d \<le> e" using q(1) by force
  then show "d \<le> n" using q(2) by simp
qed

lemma tree_inv_skip:
  assumes inv: "tree_inv S R ((p, d, x) # queue) visited" and p: "p \<in> set visited"
  shows "tree_inv S R queue visited"
proof -
  obtain k where k: "\<forall>q e y. (q, e, y) \<in> set ((p, d, x) # queue) \<longrightarrow> k \<le> e \<and> e \<le> Suc k" using tree_invD(3) [OF inv] by blast
  show ?thesis
  proof (rule tree_invI [where k = k])
    show "\<exists>d. depth_of S R v d \<and> (\<forall>c. R v c \<longrightarrow> c \<in> set visited \<or> (\<exists>x. (c, Suc d, x) \<in> set queue))" if "v \<in> set visited" for v
      using tree_invD(5) [OF inv that] p by (metis Pair_inject set_ConsD)
  next
    show "s \<in> set visited \<or> (\<exists>x. (s, 0, x) \<in> set queue)" if "s \<in> S" for s
      using tree_invD(4) [OF inv that] p by (metis Pair_inject set_ConsD)
  qed (use tree_invD(1,2) [OF inv] k in auto)
qed

lemma tree_inv_pop:
  assumes inv: "tree_inv S R ((p, d, x) # queue) visited" and p: "p \<notin> set visited"
    and new: "\<And>c. R p c \<Longrightarrow> c \<notin> set (p # visited) \<Longrightarrow> \<exists>y. (c, Suc d, y) \<in> set new"
    and only: "\<And>c e y. (c, e, y) \<in> set new \<Longrightarrow> e = Suc d \<and> R p c"
  shows "tree_inv S R (queue @ new) (p # visited)"
proof -
  have d: "depth_of S R p d" using head_depth [OF inv p] .
  obtain s where s: "s \<in> S" "chain R s d p" using d by (auto simp: depth_of_def)
  obtain k where k: "\<And>q e y. (q, e, y) \<in> set ((p, d, x) # queue) \<Longrightarrow> k \<le> e \<and> e \<le> Suc k" using tree_invD(3) [OF inv] by blast
  have so: "sorted (d # map (fst \<circ> snd) queue)" using tree_invD(2) [OF inv] by simp
  have low: "d \<le> e \<and> e \<le> Suc d" if "(q, e, y) \<in> set queue" for q e y
  proof -
    have "\<forall>x\<in>set queue. d \<le> fst (snd x)" using so by simp
    then have "d \<le> e" using that by fastforce
    moreover have "k \<le> d" "e \<le> Suc k" using k [of p d x] k [of q e y] that by simp_all
    ultimately show ?thesis by simp
  qed
  show ?thesis
  proof (rule tree_invI [where k = d])
    show "\<exists>s\<in>S. chain R s e q" if "(q, e, y) \<in> set (queue @ new)" for q e y
      using that tree_invD(1) [OF inv, of q e y] only [of q e y] chain.link [OF s(2), of q] s(1) by auto
    show "d \<le> e \<and> e \<le> Suc d" if "(q, e, y) \<in> set (queue @ new)" for q e y
      using that low only by fastforce
    have "map (fst \<circ> snd) new = replicate (length new) (Suc d)" using only by (auto intro!: replicate_eqI)
    then show "sorted (map (fst \<circ> snd) (queue @ new))" using so low by (force simp: sorted_append)
    show "v \<in> set (p # visited) \<or> (\<exists>y. (v, 0, y) \<in> set (queue @ new))" if "v \<in> S" for v
      using tree_invD(4) [OF inv that] by auto
    show "\<exists>e. depth_of S R v e \<and> (\<forall>c. R v c \<longrightarrow> c \<in> set (p # visited) \<or> (\<exists>y. (c, Suc e, y) \<in> set (queue @ new)))" if v: "v \<in> set (p # visited)" for v
    proof (cases "v = p")
      case True
      then show ?thesis using d new by (metis UnCI set_append)
    next
      case False
      then obtain e where e: "depth_of S R v e" "\<forall>c. R v c \<longrightarrow> c \<in> set visited \<or> (\<exists>y. (c, Suc e, y) \<in> set ((p, d, x) # queue))"
        using v tree_invD(5) [OF inv, of v] by auto
      have "c \<in> set (p # visited) \<or> (\<exists>y. (c, Suc e, y) \<in> set (queue @ new))" if "R v c" for c using e(2) that by auto
      then show ?thesis using e(1) by blast
    qed
  qed
qed

lemma tree_inv_end:
  assumes "tree_inv S R [] visited"
  shows "v \<in> set visited \<longleftrightarrow> (\<exists>d. depth_of S R v d)"
proof
  show "v \<in> set visited \<Longrightarrow> \<exists>d. depth_of S R v d" using tree_invD(5) [OF assms] by blast
  assume "\<exists>d. depth_of S R v d"
  then obtain s d where "s \<in> S" "chain R s d v" by (auto simp: depth_of_def)
  from chain_meets_queue [OF assms this(2,1)] show "v \<in> set visited" by simp
qed

subsection \<open>The loop\<close>

definition entries_ok :: "int set \<Rightarrow> (int \<Rightarrow> int \<Rightarrow> bool) \<Rightarrow> (int \<Rightarrow> bool) \<Rightarrow> int list \<Rightarrow> nat \<Rightarrow> LockEntry list \<Rightarrow> bool" where
  "entries_ok S R seen visited m es \<longleftrightarrow>
     distinct visited \<and> mset (map le_PID es) = mset (filter seen visited) \<and>
     (\<forall>e\<in>set es. depth_of S R (le_PID e) (le_Depth e) \<and> le_IsRoot e = (le_Depth e = 0)) \<and>
     (\<forall>v\<in>set visited. \<forall>d. depth_of S R v d \<longrightarrow> d \<le> m) \<and> (m = 0 \<or> (\<exists>v\<in>set visited. depth_of S R v m))"

lemma byPID_Some: "byPID raw p = Some row \<Longrightarrow> rl_PID row = p"
  unfolding byPID_def find_Some_iff by blast

lemma byPID_None: "byPID raw p = None \<longleftrightarrow> p \<notin> rl_PID ` set raw"
  unfolding byPID_def find_None_iff by auto

lemma entries_ok_visit:
  assumes "entries_ok S R seen visited m es" "p \<notin> set visited" "depth_of S R p d"
  shows "\<not> seen p \<Longrightarrow> entries_ok S R seen (p # visited) (if d > m then d else m) es"
    and "seen p \<Longrightarrow> le_PID e = p \<Longrightarrow> le_Depth e = d \<Longrightarrow> le_IsRoot e = (d = 0) \<Longrightarrow> entries_ok S R seen (p # visited) (if d > m then d else m) (es @ [e])"
proof -
  have only: "depth_of S R p d' \<Longrightarrow> d' = d" for d' using depth_of_unique [OF assms(3)] by simp
  have b: "\<forall>v\<in>set visited. \<forall>d. depth_of S R v d \<longrightarrow> d \<le> m" "m = 0 \<or> (\<exists>v\<in>set visited. depth_of S R v m)"
    using assms(1) unfolding entries_ok_def by blast+
  have max: "(\<forall>v\<in>set (p # visited). \<forall>d'. depth_of S R v d' \<longrightarrow> d' \<le> (if d > m then d else m)) \<and>
      ((if d > m then d else m) = 0 \<or> (\<exists>v\<in>set (p # visited). depth_of S R v (if d > m then d else m)))"
  proof (cases "d > m")
    case True
    then have "d' \<le> d" if "v \<in> set (p # visited)" "depth_of S R v d'" for v d' using b(1) only that by fastforce
    then show ?thesis using True assms(3) by auto
  next
    case False
    then have "d' \<le> m" if "v \<in> set (p # visited)" "depth_of S R v d'" for v d' using b(1) only that by fastforce
    then show ?thesis using False b(2) by auto
  qed
  show "\<not> seen p \<Longrightarrow> entries_ok S R seen (p # visited) (if d > m then d else m) es"
    using assms(1,2) max unfolding entries_ok_def by simp
  show "seen p \<Longrightarrow> le_PID e = p \<Longrightarrow> le_Depth e = d \<Longrightarrow> le_IsRoot e = (d = 0) \<Longrightarrow> entries_ok S R seen (p # visited) (if d > m then d else m) (es @ [e])"
    using assms max unfolding entries_ok_def by simp
qed

text \<open>The search leaves a session only if it has a row.\<close>

definition tree_edge :: "RawLockEntry list \<Rightarrow> adjacency \<Rightarrow> int \<Rightarrow> int \<Rightarrow> bool" where
  "tree_edge raw blocks p c \<longleftrightarrow> p \<in> rl_PID ` set raw \<and> c \<in> set (map_get [] blocks p)"

lemma tree_loop_correct:
  assumes "tree_inv S (tree_edge raw blocks) queue visited" "entries_ok S (tree_edge raw blocks) (\<lambda>p. p \<in> rl_PID ` set raw) visited m es"
    "tree_loop raw blockedBy blocks queue visited m es = (m', es')"
  shows "\<exists>visited'. tree_inv S (tree_edge raw blocks) [] visited' \<and> entries_ok S (tree_edge raw blocks) (\<lambda>p. p \<in> rl_PID ` set raw) visited' m' es'"
  using assms
proof (induction raw blockedBy blocks queue visited m es rule: tree_loop.induct)
  case (1 raw blockedBy blocks visited m es)
  then show ?case by auto
next
  case (2 raw blockedBy blocks p d x queue visited m es)
  show ?case
  proof (cases "p \<in> set visited")
    case True
    then show ?thesis using "2.IH"(1) [OF True tree_inv_skip [OF "2.prems"(1) True]] "2.prems"(2,3) True by simp
  next
    case False
    note dep = head_depth [OF "2.prems"(1) False]
    show ?thesis
    proof (cases "byPID raw p")
      case None
      then have p: "p \<notin> rl_PID ` set raw" by (simp add: byPID_None)
      have "tree_inv S (tree_edge raw blocks) (queue @ []) (p # visited)" by (rule tree_inv_pop [OF "2.prems"(1) False]) (use p in \<open>auto simp: tree_edge_def\<close>)
      then show ?thesis
        using "2.IH"(2) [OF False refl refl None] entries_ok_visit(1) [OF "2.prems"(2) False dep p] "2.prems"(3) False None by simp
    next
      case (Some row)
      then have p: "p \<in> rl_PID ` set raw" using byPID_None [of raw p] by auto
      have "tree_inv S (tree_edge raw blocks) (queue @ enqueue_children p d (map_get [] blocks p) (p # visited)) (p # visited)"
        by (rule tree_inv_pop [OF "2.prems"(1) False]) (use p in \<open>auto simp: enqueue_children_def tree_edge_def\<close>)
      then show ?thesis
        using "2.IH"(3) [OF False refl refl Some]
          entries_ok_visit(2) [OF "2.prems"(2) False dep p, of "lock_entry blockedBy blocks row d x"] "2.prems"(3) False Some byPID_Some [OF Some]
        by (simp add: lock_entry_def Let_def)
    qed
  qed
qed

subsection \<open>The maps\<close>

definition index_inv :: "adjacency \<times> adjacency \<Rightarrow> bool" where
  "index_inv = (\<lambda>(bb, bl). wf_map bb \<and> (\<forall>k v. map_of bb k = Some v \<longrightarrow> v \<noteq> [] \<and> set v \<subseteq> set (keys_of bl)))"

lemma index_row_inv: "index_inv (bb, bl) \<Longrightarrow> index_inv (index_row pid bps (bb, bl))"
proof (induction pid bps "(bb, bl)" arbitrary: bb bl rule: index_row.induct)
  case (2 pid bp bps bb bl)
  have "set (map_get [] bb pid) \<subseteq> set (keys_of bl)" using 2(2) by (cases "map_of bb pid") (simp_all add: index_inv_def map_get_def)
  then have "index_inv (map_put pid (map_get [] bb pid @ [bp]) bb, map_put bp (map_get [] bl bp @ [pid]) bl)"
    using 2(2) by (auto simp: index_inv_def simp del: set_map split: if_splits) (meson subsetD)
  then show ?case using 2(1) by simp
qed simp

lemma index_row_blockedBy: "map_get [] (fst (index_row pid bps (bb, bl))) q = map_get [] bb q @ (if q = pid then bps else [])"
  by (induction pid bps "(bb, bl)" arbitrary: bb bl rule: index_row.induct) auto

lemma index_row_blocks: "set (map_get [] (snd (index_row pid bps (bb, bl))) q) = set (map_get [] bl q) \<union> (if q \<in> set bps then {pid} else {})"
  by (induction pid bps "(bb, bl)" arbitrary: bb bl rule: index_row.induct) auto

lemma index_row_keys: "set (keys_of (snd (index_row pid bps (bb, bl)))) = set (keys_of bl) \<union> set bps"
  by (induction pid bps "(bb, bl)" arbitrary: bb bl rule: index_row.induct) (auto simp del: set_map)

lemma index_rows_snoc: "index_rows (raw @ [e]) = index_row (rl_PID e) (rl_BlockingPIDs e) (index_rows raw)"
  by (simp add: index_rows_def)

lemma index_rows_maps:
  "index_inv (index_rows raw)"
  "map_get [] (fst (index_rows raw)) q = concat (map rl_BlockingPIDs (filter (\<lambda>e. rl_PID e = q) raw))"
  "c \<in> set (map_get [] (snd (index_rows raw)) q) \<longleftrightarrow> (\<exists>e\<in>set raw. rl_PID e = c \<and> q \<in> set (rl_BlockingPIDs e))"
  "set (keys_of (snd (index_rows raw))) = (\<Union>e\<in>set raw. set (rl_BlockingPIDs e))"
proof (induction raw rule: rev_induct)
  case Nil
  {case 1 show ?case by (simp add: index_rows_def index_inv_def)}
  {case 2 show ?case by (simp add: index_rows_def map_get_def)}
  {case 3 show ?case by (simp add: index_rows_def map_get_def)}
  {case 4 show ?case by (simp add: index_rows_def)}
next
  case (snoc e raw)
  obtain bb bl where m: "index_rows raw = (bb, bl)" by fastforce
  {case 1 show ?case using snoc(1) index_row_inv by (simp add: index_rows_snoc m)}
  {case 2 show ?case using snoc(2) by (simp add: index_rows_snoc m index_row_blockedBy)}
  {case 3 show ?case using snoc(3) by (auto simp: index_rows_snoc m index_row_blocks)}
  {case 4 show ?case using snoc(4) by (auto simp: index_rows_snoc m index_row_keys simp del: set_map)}
qed

definition root_pids :: "RawLockEntry list \<Rightarrow> int set" where
  "root_pids raw = {p. (\<exists>e\<in>set raw. p \<in> set (rl_BlockingPIDs e)) \<and> (\<forall>e\<in>set raw. rl_PID e = p \<longrightarrow> rl_BlockingPIDs e = [])}"

definition seen_edge :: "RawLockEntry list \<Rightarrow> int \<Rightarrow> int \<Rightarrow> bool" where
  "seen_edge raw p c \<longleftrightarrow> p \<in> rl_PID ` set raw \<and> (\<exists>e\<in>set raw. rl_PID e = c \<and> p \<in> set (rl_BlockingPIDs e))"

lemma fold_set_add: "set (fold set_add xs ys) = set xs \<union> set ys" "distinct (fold set_add xs ys) = distinct ys"
  by (induction xs arbitrary: ys) auto

lemma involved_set:
  "set (involved bb bl) = set (keys_of bb) \<union> (\<Union>(k, v)\<in>set bb. set v) \<union> set (keys_of bl)" "distinct (involved bb bl)"
proof -
  have a: "set (fold (\<lambda>(pid, bps) inv. fold set_add bps (set_add pid inv)) m ys) = set (keys_of m) \<union> (\<Union>(k, v)\<in>set m. set v) \<union> set ys"
    "distinct ys \<Longrightarrow> distinct (fold (\<lambda>(pid, bps) inv. fold set_add bps (set_add pid inv)) m ys)" for m :: adjacency and ys
    by (induction m arbitrary: ys) (auto simp: fold_set_add)
  have b: "set (fold (\<lambda>(pid, _) inv. set_add pid inv) m ys) = set (keys_of m) \<union> set ys"
    "distinct (fold (\<lambda>(pid, _) inv. set_add pid inv) m ys) = distinct ys" for m :: adjacency and ys
    by (induction m arbitrary: ys) auto
  show "set (involved bb bl) = set (keys_of bb) \<union> (\<Union>(k, v)\<in>set bb. set v) \<union> set (keys_of bl)" "distinct (involved bb bl)"
    using a(1) [where m = bb and ys = "[]"] a(2) [where m = bb and ys = "[]"] by (auto simp: involved_def b)
qed

lemma tree_roots_set:
  assumes "index_rows raw = (bb, bl)"
  shows "set (tree_roots bb bl) = root_pids raw" "distinct (tree_roots bb bl)"
proof -
  have inv: "index_inv (bb, bl)" and none: "map_get [] bb p = [] \<longleftrightarrow> (\<forall>e\<in>set raw. rl_PID e = p \<longrightarrow> rl_BlockingPIDs e = [])"
    and keys: "set (keys_of bl) = (\<Union>e\<in>set raw. set (rl_BlockingPIDs e))" for p
    using index_rows_maps(1,2,4) [of raw] assms by (auto simp: concat_eq_Nil_conv)
  have "map_get [] bb p \<noteq> []" if "p \<in> set (keys_of bb)" for p
  proof -
    obtain v where "map_of bb p = Some v" using \<open>p \<in> set (keys_of bb)\<close> by (metis map_of_eq_None_iff not_None_eq set_map)
    then show ?thesis using inv by (simp add: index_inv_def map_get_def)
  qed
  moreover have "set v \<subseteq> set (keys_of bl)" if "(k, v) \<in> set bb" for k v using inv that by (auto simp: index_inv_def)
  ultimately have "p \<in> set (tree_roots bb bl) \<longleftrightarrow> p \<in> set (keys_of bl) \<and> map_get [] bb p = []" for p
    unfolding tree_roots_def set_sort set_filter involved_set(1) by blast
  then show "set (tree_roots bb bl) = root_pids raw" using none keys by (auto simp: root_pids_def)
  show "distinct (tree_roots bb bl)" by (simp add: tree_roots_def involved_set)
qed

lemma tree_edge_seen: "index_rows raw = (bb, bl) \<Longrightarrow> tree_edge raw bl = seen_edge raw"
  using index_rows_maps(3) [of _ raw] by (intro ext) (simp add: tree_edge_def seen_edge_def)

subsection \<open>Properties\<close>

lemma BuildLockTree_loop:
  obtains visited where "tree_inv (root_pids raw) (seen_edge raw) [] visited"
    "entries_ok (root_pids raw) (seen_edge raw) (\<lambda>p. p \<in> rl_PID ` set raw) visited (ls_MaxDepth (lt_Summary (BuildLockTree raw))) (lt_Locks (BuildLockTree raw))"
    "ls_TotalBlocked (lt_Summary (BuildLockTree raw)) = length (filter (\<lambda>e. \<not> le_IsRoot e) (lt_Locks (BuildLockTree raw)))"
    "ls_RootBlockers (lt_Summary (BuildLockTree raw)) = card (root_pids raw)"
proof -
  obtain bb bl where m: "index_rows raw = (bb, bl)" by fastforce
  obtain d es where l: "tree_loop raw bb bl (map (\<lambda>rp. (rp, 0, None)) (tree_roots bb bl)) [] 0 [] = (d, es)" by fastforce
  let ?Q = "map (\<lambda>rp. (rp, 0, None)) (tree_roots bb bl) :: bfsItem list"
  note roots = tree_roots_set [OF m]
  have i: "tree_inv (root_pids raw) (tree_edge raw bl) ?Q []"
    by (rule tree_invI [where k = 0]) (use roots in \<open>auto simp: comp_def sorted_wrt_map sorted_map intro: chain.here\<close>)
  have e: "entries_ok (root_pids raw) (tree_edge raw bl) (\<lambda>p. p \<in> rl_PID ` set raw) [] 0 []" by (simp add: entries_ok_def)
  obtain visited where v: "tree_inv (root_pids raw) (seen_edge raw) [] visited"
      "entries_ok (root_pids raw) (seen_edge raw) (\<lambda>p. p \<in> rl_PID ` set raw) visited d es"
    using tree_loop_correct [OF i e l] unfolding tree_edge_seen [OF m] by blast
  have c: "length (tree_roots bb bl) = card (root_pids raw)" using distinct_card [OF roots(2)] roots(1) by simp
  have s: "entries_ok (root_pids raw) (seen_edge raw) (\<lambda>p. p \<in> rl_PID ` set raw) visited d (sort_slice f es)" for f
    using v(2) unfolding entries_ok_def mset_map mset_sort_slice set_sort_slice .
  show ?thesis by (rule that [OF v(1)]) (simp_all add: BuildLockTree_def Let_def m l c s)
qed

text \<open>C32: The lock tree of the API lists every session that has a row and hangs below a session that blocks and is not blocked, once, with
  its distance from the nearest such session along sessions that have rows; the summary counts these roots, the listed
  sessions that are not roots, and the largest distance.\<close>

theorem lock_tree_exact:
  "distinct (map le_PID (lt_Locks (BuildLockTree raw))) \<and>
   ((\<exists>e\<in>set (lt_Locks (BuildLockTree raw)). le_PID e = p \<and> le_Depth e = d) \<longleftrightarrow> p \<in> rl_PID ` set raw \<and> depth_of (root_pids raw) (seen_edge raw) p d) \<and>
   ls_RootBlockers (lt_Summary (BuildLockTree raw)) = card (root_pids raw) \<and>
   ls_TotalBlocked (lt_Summary (BuildLockTree raw)) = card (le_PID ` set (lt_Locks (BuildLockTree raw)) - root_pids raw) \<and>
   (\<forall>v k. depth_of (root_pids raw) (seen_edge raw) v k \<longrightarrow> k \<le> ls_MaxDepth (lt_Summary (BuildLockTree raw)))"
proof (rule BuildLockTree_loop [of raw])
  fix visited
  let ?L = "lt_Locks (BuildLockTree raw)"
  assume v: "tree_inv (root_pids raw) (seen_edge raw) [] visited"
    and ok: "entries_ok (root_pids raw) (seen_edge raw) (\<lambda>p. p \<in> rl_PID ` set raw) visited (ls_MaxDepth (lt_Summary (BuildLockTree raw))) ?L"
    and t: "ls_TotalBlocked (lt_Summary (BuildLockTree raw)) = length (filter (\<lambda>e. \<not> le_IsRoot e) ?L)"
    and r: "ls_RootBlockers (lt_Summary (BuildLockTree raw)) = card (root_pids raw)"
  note vis = tree_inv_end [OF v]
  have ms: "mset (map le_PID ?L) = mset (filter (\<lambda>p. p \<in> rl_PID ` set raw) visited)" and dv: "distinct visited"
    and dep: "\<And>e. e \<in> set ?L \<Longrightarrow> depth_of (root_pids raw) (seen_edge raw) (le_PID e) (le_Depth e) \<and> le_IsRoot e = (le_Depth e = 0)"
    using ok unfolding entries_ok_def by blast+
  have root: "le_IsRoot e \<longleftrightarrow> le_PID e \<in> root_pids raw" if "e \<in> set ?L" for e
    using dep [OF that] depth_of_zero [of "root_pids raw" "seen_edge raw" "le_PID e"] depth_of_unique by metis
  have dist: "distinct (map le_PID ?L)" using ms dv by (metis distinct_filter mset_eq_imp_distinct_iff)
  have pids: "q \<in> le_PID ` set ?L \<longleftrightarrow> q \<in> rl_PID ` set raw \<and> (\<exists>d. depth_of (root_pids raw) (seen_edge raw) q d)" for q
    using mset_eq_setD [OF ms] vis by auto
  have "(\<exists>e\<in>set ?L. le_PID e = p \<and> le_Depth e = d) \<longleftrightarrow> p \<in> rl_PID ` set raw \<and> depth_of (root_pids raw) (seen_edge raw) p d"
    using pids [of p] dep depth_of_unique by (smt (verit) imageE imageI)
  moreover have "length (filter (\<lambda>e. \<not> le_IsRoot e) ?L) = card (le_PID ` set ?L - root_pids raw)"
  proof -
    have "le_PID ` set (filter (\<lambda>e. \<not> le_IsRoot e) ?L) = le_PID ` set ?L - root_pids raw"
      using root by auto
    moreover have "distinct (map le_PID (filter (\<lambda>e. \<not> le_IsRoot e) ?L))" using dist by (rule distinct_map_filter)
    ultimately show ?thesis by (metis distinct_card length_map set_map)
  qed
  moreover have "k \<le> ls_MaxDepth (lt_Summary (BuildLockTree raw))" if "depth_of (root_pids raw) (seen_edge raw) q k" for q k
    using ok that vis unfolding entries_ok_def by blast
  ultimately show ?thesis using dist r t by simp
qed

text \<open>The pairs the collector reads for the same sessions.\<close>

definition edges_of :: "RawLockEntry list \<Rightarrow> lockEdge list" where
  "edges_of raw = concat (map (\<lambda>e. map (\<lambda>bp. \<lparr>BlockedPID = rl_PID e, BlockerPID = bp\<rparr>) (rl_BlockingPIDs e)) raw)"

lemma blocked_edges: "BlockedPID ` set (edges_of raw) = set (map rl_PID (filter (\<lambda>e. rl_BlockingPIDs e \<noteq> []) raw))"
  by (induction raw) (auto simp: edges_of_def image_Un image_image image_constant_conv)

lemma chain_unseen: "chain (seen_edge raw) s n v \<Longrightarrow> s \<notin> rl_PID ` set raw \<Longrightarrow> v = s"
  by (induction rule: chain.induct) (auto simp: seen_edge_def)

text \<open>When none of the sessions at the root has a row, as with a prepared transaction, the tree of the API is empty and
  counts nobody as blocked, while the collector counts every session that waits.\<close>

theorem lock_tree_hides_blocked:
  assumes "root_pids raw \<inter> rl_PID ` set raw = {}"
  shows "lt_Locks (BuildLockTree raw) = [] \<and> ls_TotalBlocked (lt_Summary (BuildLockTree raw)) = 0 \<and>
    BlockedCount (computeLockStats (edges_of raw)) = card (set (map rl_PID (filter (\<lambda>e. rl_BlockingPIDs e \<noteq> []) raw)))"
proof (rule BuildLockTree_loop [of raw])
  fix visited
  assume v: "tree_inv (root_pids raw) (seen_edge raw) [] visited"
    and ok: "entries_ok (root_pids raw) (seen_edge raw) (\<lambda>p. p \<in> rl_PID ` set raw) visited (ls_MaxDepth (lt_Summary (BuildLockTree raw))) (lt_Locks (BuildLockTree raw))"
    and t: "ls_TotalBlocked (lt_Summary (BuildLockTree raw)) = length (filter (\<lambda>e. \<not> le_IsRoot e) (lt_Locks (BuildLockTree raw)))"
  have "p \<notin> rl_PID ` set raw" if p: "p \<in> set visited" for p
  proof -
    obtain s d where "s \<in> root_pids raw" "chain (seen_edge raw) s d p" using p tree_inv_end [OF v, of p] unfolding depth_of_def by blast
    then show ?thesis using chain_unseen assms by blast
  qed
  then have "filter (\<lambda>p. p \<in> rl_PID ` set raw) visited = []" by (simp add: filter_empty_conv)
  then have "lt_Locks (BuildLockTree raw) = []" using ok unfolding entries_ok_def by simp
  then show ?thesis using t computeLockStats_counts(2) [of "edges_of raw"] blocked_edges by simp
qed

subsection \<open>Witnesses\<close>

definition demo_session :: "int \<Rightarrow> int list \<Rightarrow> RawLockEntry" where
  "demo_session pid bps = \<lparr>rl_PID = pid, rl_Usename = ''app'', rl_Datname = ''shop'', rl_State = ''active'', rl_WaitEventType = None, rl_WaitEvent = None,
     rl_DurationSeconds = 3, rl_Query = ''UPDATE t'', rl_BlockingPIDs = bps\<rparr>"

theorem lock_tree_hides_blocked_witness:
  "lt_Locks (BuildLockTree [demo_session 7 [0], demo_session 9 [7]]) = [] \<and> BlockedCount (computeLockStats (edges_of [demo_session 7 [0], demo_session 9 [7]])) = 2"
proof -
  have "root_pids [demo_session 7 [0], demo_session 9 [7]] \<inter> rl_PID ` set [demo_session 7 [0], demo_session 9 [7]] = {}"
    by (auto simp: root_pids_def demo_session_def)
  then show ?thesis using lock_tree_hides_blocked [of "[demo_session 7 [0], demo_session 9 [7]]"] by (simp add: demo_session_def)
qed

text \<open>A session two blockers deep in the view of the collector and one in that of the API.\<close>

lemma depth_disagrees:
  "ls_MaxDepth (lt_Summary (BuildLockTree [demo_session 1 [], demo_session 2 [1], demo_session 4 [], demo_session 3 [2, 4]])) = 1"
  "MaxChainDepth (computeLockStats (edges_of [demo_session 1 [], demo_session 2 [1], demo_session 4 [], demo_session 3 [2, 4]])) = 2"
  by code_simp+

theorem lock_tree_exact_witness:
  "(\<exists>e\<in>set (lt_Locks (BuildLockTree [demo_session 1 [], demo_session 2 [1]])). le_PID e = 2 \<and> le_Depth e = 1) \<and>
   1 \<le> ls_MaxDepth (lt_Summary (BuildLockTree [demo_session 1 [], demo_session 2 [1]]))"
proof -
  let ?raw = "[demo_session 1 [], demo_session 2 [1]]"
  have roots: "root_pids ?raw = {1}" by (auto simp: root_pids_def demo_session_def)
  have "chain (seen_edge ?raw) 1 (Suc 0) 2" by (intro link [OF here]) (simp add: seen_edge_def demo_session_def)
  moreover have "1 \<le> n" if "chain (seen_edge ?raw) 1 n 2" for n using that by (cases n) auto
  ultimately have d: "depth_of (root_pids ?raw) (seen_edge ?raw) 2 1" unfolding depth_of_def roots by simp
  moreover have "2 \<in> rl_PID ` set ?raw" by (simp add: demo_session_def)
  ultimately show ?thesis using lock_tree_exact [of ?raw 2 1] by blast
qed

end
