(* ===== verification/Instances.thy ===== *)
theory Instances
  imports AlertModel TextPrelude PgMetrics
begin

section \<open>Monitored instances (\<open>internal/storage/instances.go\<close>, \<open>internal/api/instances.go\<close>, \<open>instances_crud.go\<close>)\<close>

text \<open>
  The table of instances, the handlers that list and change it, the import of many instances, and what the API
  shows of a connection string. The parser and printer of URLs (\<open>net/url\<close>) and the reader of the import are
  arguments; so are the database clock and the outcome of every statement.
\<close>

subsection \<open>Connection strings\<close>

record url =
  u_Scheme :: string
  u_Host :: string
  u_Hostname :: string
  u_Port :: string
  u_Path :: string
  u_User :: "(string \<times> string option) option"

record url_lib =
  url_Parse :: "string \<Rightarrow> url option"
  url_String :: "url \<Rightarrow> string"

definition str_contains :: "string \<Rightarrow> string \<Rightarrow> bool" where
  "str_contains s sub = list_ex (\<lambda>i. HasPrefix (drop i s) sub) [0..<Suc (length s)]"

fun Join :: "string \<Rightarrow> string list \<Rightarrow> string" where
  "Join sep [] = ''''"
| "Join sep [w] = w"
| "Join sep (w # ws) = w @ sep @ Join sep ws"

definition TrimPrefix :: "string \<Rightarrow> string \<Rightarrow> string" where
  "TrimPrefix s p = (if HasPrefix s p then drop (length p) s else s)"

definition mask_field :: "string \<Rightarrow> string" where
  "mask_field p = (if HasPrefix p ''password='' then ''password=*****'' else p)"

definition maskDSN :: "url_lib \<Rightarrow> string \<Rightarrow> string" where
  "maskDSN lib dsn =
     (case url_Parse lib dsn of
        Some u \<Rightarrow>
          if u_Scheme u \<noteq> '''' then
            url_String lib (case u_User u of Some (name, Some _) \<Rightarrow> u\<lparr>u_User := Some (name, Some ''*****'')\<rparr> | _ \<Rightarrow> u)
          else if str_contains dsn ''password='' then Join '' '' (map mask_field (Fields dsn)) else dsn
      | None \<Rightarrow> if str_contains dsn ''password='' then Join '' '' (map mask_field (Fields dsn)) else dsn)"

fun kv_host_port :: "string list \<Rightarrow> string \<times> int \<Rightarrow> string \<times> int" where
  "kv_host_port [] hp = hp"
| "kv_host_port (part # parts) (host, port) =
     kv_host_port parts
       (if HasPrefix part ''host='' then (TrimPrefix part ''host='', port)
        else if HasPrefix part ''port='' then (host, case ParseInt (TrimPrefix part ''port='') of None \<Rightarrow> port | Some p \<Rightarrow> p)
        else (host, port))"

definition parseKeyValueDSN :: "string \<Rightarrow> int \<Rightarrow> string \<times> int" where
  "parseKeyValueDSN dsn defaultPort = kv_host_port (Fields dsn) ('''', defaultPort)"

text \<open>Host and port of a URL that has a host.\<close>

definition url_host_port :: "url_lib \<Rightarrow> string \<Rightarrow> (string \<times> int) option" where
  "url_host_port lib dsn =
     (case url_Parse lib dsn of None \<Rightarrow> None
      | Some u \<Rightarrow> if u_Host u = '''' then None
          else Some (u_Hostname u, if u_Port u = '''' then 5432 else case ParseInt (u_Port u) of None \<Rightarrow> 5432 | Some p \<Rightarrow> p))"

definition parseHostPort :: "url_lib \<Rightarrow> string \<Rightarrow> string \<times> int" where
  "parseHostPort lib dsn = (case url_host_port lib dsn of Some hp \<Rightarrow> hp | None \<Rightarrow> parseKeyValueDSN dsn 5432)"

definition extractHostPort :: "url_lib \<Rightarrow> string \<Rightarrow> string \<times> int" where
  "extractHostPort lib dsn =
     (case url_host_port lib dsn of Some hp \<Rightarrow> hp
      | None \<Rightarrow> (case parseKeyValueDSN dsn 0 of (host, port) \<Rightarrow> if host = '''' then ('''', 0) else (host, if port = 0 then 5432 else port)))"

subsection \<open>The table\<close>

record InstanceRecord =
  ir_ID :: string
  ir_Name :: string
  ir_DSN :: string
  ir_Host :: string
  ir_Port :: int
  ir_Enabled :: bool
  ir_Source :: string
  ir_MaxConns :: int
  ir_CreatedAt :: time
  ir_UpdatedAt :: time

type_synonym instance_table = "InstanceRecord list"

definition in_int32 :: "int \<Rightarrow> bool" where
  "in_int32 n \<longleftrightarrow> - (2 ^ 31) \<le> n \<and> n < 2 ^ 31"

text \<open>Numbers outside the range of the columns fail.\<close>

definition storable_instance :: "InstanceRecord \<Rightarrow> bool" where
  "storable_instance r \<longleftrightarrow> in_int32 (ir_Port r) \<and> in_int32 (ir_MaxConns r)"

definition List_instances :: "bool \<Rightarrow> instance_table \<Rightarrow> InstanceRecord list option" where
  "List_instances up t = (if up then Some (sort_slice (\<lambda>a b. ir_ID a < ir_ID b) t) else None)"

text \<open>An error, no such row, or the row.\<close>

definition Get_instance :: "bool \<Rightarrow> string \<Rightarrow> instance_table \<Rightarrow> InstanceRecord option option" where
  "Get_instance up i t = (if up then Some (find (\<lambda>r. ir_ID r = i) t) else None)"

datatype create_error = DuplicateKey | StatementFailed

definition Create_instance :: "bool \<Rightarrow> time \<Rightarrow> InstanceRecord \<Rightarrow> instance_table \<Rightarrow> create_error + instance_table \<times> InstanceRecord" where
  "Create_instance up now rec0 t =
     (let rec1 = (if ir_MaxConns rec0 = 0 then rec0\<lparr>ir_MaxConns := 5\<rparr> else rec0);
          rec2 = (if ir_Source rec1 = '''' then rec1\<lparr>ir_Source := ''manual''\<rparr> else rec1);
          row = rec2\<lparr>ir_CreatedAt := micros now, ir_UpdatedAt := micros now\<rparr>
      in if \<not> up \<or> \<not> storable_instance row then Inl StatementFailed
         else if ir_ID row \<in> ir_ID ` set t then Inl DuplicateKey
         else Inr (t @ [row], row))"

definition Update_instance :: "bool \<Rightarrow> time \<Rightarrow> InstanceRecord \<Rightarrow> instance_table \<Rightarrow> (instance_table \<times> InstanceRecord) option" where
  "Update_instance up now r t =
     (let change = (\<lambda>x. x\<lparr>ir_Name := ir_Name r, ir_DSN := ir_DSN r, ir_Host := ir_Host r, ir_Port := ir_Port r, ir_Enabled := ir_Enabled r,
              ir_MaxConns := ir_MaxConns r, ir_UpdatedAt := micros now\<rparr>)
      in if \<not> up \<or> \<not> storable_instance r then None
         else case find (\<lambda>x. ir_ID x = ir_ID r) t of None \<Rightarrow> None
              | Some x \<Rightarrow> Some (map (\<lambda>y. if ir_ID y = ir_ID r then change y else y) t, change x))"

datatype delete_result = Deleted instance_table | DeleteMissing | DeleteFailed

definition Delete_instance :: "bool \<Rightarrow> string \<Rightarrow> instance_table \<Rightarrow> delete_result" where
  "Delete_instance up i t =
     (if \<not> up then DeleteFailed else if i \<notin> ir_ID ` set t then DeleteMissing else Deleted (filter (\<lambda>r. ir_ID r \<noteq> i) t))"

definition Seed_instance :: "bool \<Rightarrow> time \<Rightarrow> InstanceRecord \<Rightarrow> instance_table \<Rightarrow> instance_table option" where
  "Seed_instance up now rec0 t =
     (let rec1 = (if ir_MaxConns rec0 = 0 then rec0\<lparr>ir_MaxConns := 5\<rparr> else rec0);
          row = rec1\<lparr>ir_Source := ''yaml'', ir_CreatedAt := micros now, ir_UpdatedAt := micros now\<rparr>
      in if \<not> up \<or> \<not> storable_instance row then None
         else if ir_ID row \<in> ir_ID ` set t then Some t else Some (t @ [row]))"

subsection \<open>Instances of the configuration (\<open>internal/config/config.go\<close>, \<open>cmd/pgpulse-server/main.go\<close>)\<close>

record IntervalConfig =
  iv_High :: duration
  iv_Medium :: duration
  iv_Low :: duration

record InstanceConfig =
  ic_ID :: string
  ic_Name :: string
  ic_DSN :: string
  ic_Description :: string
  ic_Enabled :: "bool option"
  ic_MaxConns :: int
  ic_Intervals :: IntervalConfig
  ic_AgentURL :: string
  ic_PatroniURL :: string
  ic_PatroniConfig :: string
  ic_PatroniCtlPath :: string
  ic_ETCDEndpoints :: "string list"
  ic_ETCDCtlPath :: string
  ic_IncludeDatabases :: "string list"
  ic_ExcludeDatabases :: "string list"
  ic_MaxConcurrentDBs :: int
  ic_OSMetricsMethod :: string

definition ic_on :: "InstanceConfig \<Rightarrow> bool" where
  "ic_on c \<longleftrightarrow> ic_Enabled c = None \<or> ic_Enabled c = Some True"

definition main_extractHostPort :: "url_lib \<Rightarrow> string \<Rightarrow> string \<times> int" where
  "main_extractHostPort lib dsn = (case url_host_port lib dsn of Some hp \<Rightarrow> hp | None \<Rightarrow> ('''', 5432))"

definition config_record :: "url_lib \<Rightarrow> InstanceConfig \<Rightarrow> InstanceRecord" where
  "config_record lib c =
     (case main_extractHostPort lib (ic_DSN c) of (host, port) \<Rightarrow>
        \<lparr>ir_ID = ic_ID c, ir_Name = ic_Name c, ir_DSN = ic_DSN c, ir_Host = host, ir_Port = port, ir_Enabled = ic_on c, ir_Source = '''',
         ir_MaxConns = (if ic_MaxConns c = 0 then 5 else ic_MaxConns c), ir_CreatedAt = zero_time, ir_UpdatedAt = zero_time\<rparr>)"

fun seedInstancesFromConfig :: "url_lib \<Rightarrow> (string \<Rightarrow> bool) \<Rightarrow> (string \<Rightarrow> time) \<Rightarrow> InstanceConfig list \<Rightarrow> instance_table \<Rightarrow> instance_table" where
  "seedInstancesFromConfig lib up clk [] t = t"
| "seedInstancesFromConfig lib up clk (c # cs) t =
     seedInstancesFromConfig lib up clk cs (case Seed_instance (up (ic_ID c)) (clk (ic_ID c)) (config_record lib c) t of None \<Rightarrow> t | Some t' \<Rightarrow> t')"

subsection \<open>Handlers that change the table\<close>

record InstanceCRUDResponse =
  cr_ID :: string
  cr_Name :: string
  cr_Host :: string
  cr_Port :: int
  cr_DSN :: string
  cr_Enabled :: bool
  cr_Source :: string
  cr_MaxConns :: int
  cr_CreatedAt :: time
  cr_UpdatedAt :: time

definition toInstanceCRUDResponse :: "url_lib \<Rightarrow> InstanceRecord \<Rightarrow> InstanceCRUDResponse" where
  "toInstanceCRUDResponse lib r =
     \<lparr>cr_ID = ir_ID r, cr_Name = ir_Name r, cr_Host = ir_Host r, cr_Port = ir_Port r, cr_DSN = maskDSN lib (ir_DSN r), cr_Enabled = ir_Enabled r,
      cr_Source = ir_Source r, cr_MaxConns = ir_MaxConns r, cr_CreatedAt = ir_CreatedAt r, cr_UpdatedAt = ir_UpdatedAt r\<rparr>"

record createInstanceRequest =
  ci_ID :: string
  ci_Name :: string
  ci_DSN :: string
  ci_Enabled :: "bool option"
  ci_MaxConns :: int

record updateInstanceRequest =
  ui_Name :: "string option"
  ui_DSN :: "string option"
  ui_Enabled :: "bool option"
  ui_MaxConns :: "int option"

datatype instance_response =
    InstError nat string
  | InstCreated InstanceCRUDResponse
  | InstUpdated InstanceCRUDResponse
  | InstDeleted string
  | InstImported nat nat
  | InstTested "string option"

text \<open>Without a store (\<open>None\<close>) the handlers answer 503. A body that does not decode is \<open>None\<close>.\<close>

definition handleCreateInstance ::
  "url_lib \<Rightarrow> bool \<Rightarrow> time \<Rightarrow> createInstanceRequest option \<Rightarrow> instance_table option \<Rightarrow> instance_table option \<times> instance_response" where
  "handleCreateInstance lib up now body store =
     (case store of None \<Rightarrow> (None, InstError 503 ''no_store'')
      | Some t \<Rightarrow>
          (case body of None \<Rightarrow> (Some t, InstError 400 ''invalid_json'')
           | Some q \<Rightarrow>
               if ci_ID q = '''' then (Some t, InstError 400 ''validation_error'')
               else if ci_DSN q = '''' then (Some t, InstError 400 ''validation_error'')
               else case parseHostPort lib (ci_DSN q) of (host, port) \<Rightarrow>
                 (case Create_instance up now
                    \<lparr>ir_ID = ci_ID q, ir_Name = ci_Name q, ir_DSN = ci_DSN q, ir_Host = host, ir_Port = port,
                     ir_Enabled = (case ci_Enabled q of None \<Rightarrow> True | Some b \<Rightarrow> b), ir_Source = ''manual'',
                     ir_MaxConns = (if ci_MaxConns q = 0 then 5 else ci_MaxConns q), ir_CreatedAt = zero_time, ir_UpdatedAt = zero_time\<rparr> t of
                    Inl DuplicateKey \<Rightarrow> (Some t, InstError 409 ''duplicate'')
                  | Inl StatementFailed \<Rightarrow> (Some t, InstError 500 ''server_error'')
                  | Inr (t', created) \<Rightarrow> (Some t', InstCreated (toInstanceCRUDResponse lib created)))))"

definition changed_instance :: "url_lib \<Rightarrow> updateInstanceRequest \<Rightarrow> InstanceRecord \<Rightarrow> InstanceRecord" where
  "changed_instance lib q r =
     (let r1 = (case ui_Name q of None \<Rightarrow> r | Some n \<Rightarrow> r\<lparr>ir_Name := n\<rparr>);
          r2 = (case ui_DSN q of None \<Rightarrow> r1 | Some d \<Rightarrow> (case parseHostPort lib d of (host, port) \<Rightarrow> r1\<lparr>ir_DSN := d, ir_Host := host, ir_Port := port\<rparr>));
          r3 = (case ui_Enabled q of None \<Rightarrow> r2 | Some b \<Rightarrow> r2\<lparr>ir_Enabled := b\<rparr>)
      in case ui_MaxConns q of None \<Rightarrow> r3 | Some n \<Rightarrow> r3\<lparr>ir_MaxConns := n\<rparr>)"

definition handleUpdateInstance ::
  "url_lib \<Rightarrow> bool \<Rightarrow> bool \<Rightarrow> time \<Rightarrow> string \<Rightarrow> updateInstanceRequest option \<Rightarrow> instance_table option \<Rightarrow> instance_table option \<times> instance_response" where
  "handleUpdateInstance lib getUp up now i body store =
     (case store of None \<Rightarrow> (None, InstError 503 ''no_store'')
      | Some t \<Rightarrow>
          (case Get_instance getUp i t of None \<Rightarrow> (Some t, InstError 500 ''server_error'')
           | Some None \<Rightarrow> (Some t, InstError 404 ''not_found'')
           | Some (Some existing) \<Rightarrow>
               (case body of None \<Rightarrow> (Some t, InstError 400 ''invalid_json'')
                | Some q \<Rightarrow>
                    (case Update_instance up now (changed_instance lib q existing) t of None \<Rightarrow> (Some t, InstError 500 ''server_error'')
                     | Some (t', updated) \<Rightarrow> (Some t', InstUpdated (toInstanceCRUDResponse lib updated))))))"

definition handleDeleteInstance :: "bool \<Rightarrow> string \<Rightarrow> instance_table option \<Rightarrow> instance_table option \<times> instance_response" where
  "handleDeleteInstance up i store =
     (case store of None \<Rightarrow> (None, InstError 503 ''no_store'')
      | Some t \<Rightarrow>
          (case Delete_instance up i t of DeleteMissing \<Rightarrow> (Some t, InstError 404 ''not_found'') | DeleteFailed \<Rightarrow> (Some t, InstError 500 ''server_error'')
           | Deleted t' \<Rightarrow> (Some t', InstDeleted i)))"

subsection \<open>Import\<close>

text \<open>What the \<open>n\<close>-th call of the CSV reader returns. A failure of the underlying body repeats for ever.\<close>

datatype csv_read = Record "string list" | ReadError | EndOfFile

text \<open>\<open>strconv.ParseBool\<close>; an unknown word gives false.\<close>

definition ParseBool_value :: "string \<Rightarrow> bool" where
  "ParseBool_value s \<longleftrightarrow> s \<in> set [''1'', ''t'', ''T'', ''TRUE'', ''true'', ''True'']"

definition import_record :: "url_lib \<Rightarrow> string list \<Rightarrow> InstanceRecord option" where
  "import_record lib record =
     (if length record < 3 then None
      else let i = TrimSpace (record ! 0); name = TrimSpace (record ! 1); dsn = TrimSpace (record ! 2);
               enabled = (if length record > 3 \<and> TrimSpace (record ! 3) \<noteq> '''' then ParseBool_value (TrimSpace (record ! 3)) else True);
               maxConns = (if length record > 4 \<and> TrimSpace (record ! 4) \<noteq> ''''
                  then (case ParseInt (TrimSpace (record ! 4)) of None \<Rightarrow> 5 | Some mc \<Rightarrow> if mc > 0 then mc else 5) else 5)
           in if i = '''' \<or> dsn = '''' then None
              else case parseHostPort lib dsn of (host, port) \<Rightarrow>
                Some \<lparr>ir_ID = i, ir_Name = name, ir_DSN = dsn, ir_Host = host, ir_Port = port, ir_Enabled = enabled, ir_Source = ''csv_import'',
                  ir_MaxConns = maxConns, ir_CreatedAt = zero_time, ir_UpdatedAt = zero_time\<rparr>)"

definition import_row :: "url_lib \<Rightarrow> bool \<Rightarrow> time \<Rightarrow> string list \<Rightarrow> instance_table \<times> nat \<times> nat \<Rightarrow> instance_table \<times> nat \<times> nat" where
  "import_row lib up now record s =
     (case s of (t, imported, skipped) \<Rightarrow>
        (case import_record lib record of None \<Rightarrow> (t, imported, skipped + 1)
         | Some r \<Rightarrow> (case Create_instance up now r t of Inl _ \<Rightarrow> (t, imported, skipped + 1) | Inr (t', _) \<Rightarrow> (t', imported + 1, skipped))))"

text \<open>The loop; it does not return (\<open>None\<close>) unless the reader comes to the end of the file.\<close>

partial_function (option) import_loop ::
  "url_lib \<Rightarrow> (nat \<Rightarrow> csv_read) \<Rightarrow> (nat \<Rightarrow> bool) \<Rightarrow> (nat \<Rightarrow> time) \<Rightarrow> nat \<Rightarrow> instance_table \<times> nat \<times> nat \<Rightarrow> (instance_table \<times> nat \<times> nat) option" where
  "import_loop lib reader up clk n s =
     (case reader n of EndOfFile \<Rightarrow> Some s
      | ReadError \<Rightarrow> import_loop lib reader up clk (n + 1) (fst s, fst (snd s), snd (snd s) + 1)
      | Record record \<Rightarrow> import_loop lib reader up clk (n + 1) (import_row lib (up n) (clk n) record s))"

definition handleBulkImport ::
  "url_lib \<Rightarrow> (nat \<Rightarrow> csv_read) \<Rightarrow> (nat \<Rightarrow> bool) \<Rightarrow> (nat \<Rightarrow> time) \<Rightarrow> instance_table option \<Rightarrow> (instance_table option \<times> instance_response) option" where
  "handleBulkImport lib reader up clk store =
     (case store of None \<Rightarrow> Some (None, InstError 503 ''no_store'')
      | Some t \<Rightarrow> map_option (\<lambda>(t', imported, skipped). (Some t', InstImported imported skipped)) (import_loop lib reader up clk 0 (t, 0, 0)))"

text \<open>\<open>connect\<close> is the outcome for a connection string: no connection, no version, or the version.\<close>

definition handleTestConnection :: "(string \<Rightarrow> string option option) \<Rightarrow> bool \<Rightarrow> string \<Rightarrow> string option \<Rightarrow> instance_table option \<Rightarrow> instance_response" where
  "handleTestConnection connect up i body store =
     (let test = (\<lambda>dsn. case connect dsn of Some (Some v) \<Rightarrow> InstTested (Some v) | _ \<Rightarrow> InstTested None);
          stored = (case store of None \<Rightarrow> InstError 400 ''validation_error''
             | Some t \<Rightarrow> if i = '''' then InstError 400 ''validation_error''
                 else (case Get_instance up i t of Some (Some r) \<Rightarrow> test (ir_DSN r) | _ \<Rightarrow> InstError 404 ''not_found''))
      in case body of None \<Rightarrow> stored | Some dsn \<Rightarrow> if dsn \<noteq> '''' then test dsn else stored)"

subsection \<open>Handlers that read\<close>

record InstanceResponse =
  is_ID :: string
  is_Name :: string
  is_Host :: string
  is_Port :: int
  is_Description :: string
  is_Enabled :: bool
  is_Source :: string
  is_AgentAvailable :: bool

definition instanceRecordToResponse :: "InstanceRecord \<Rightarrow> InstanceResponse" where
  "instanceRecordToResponse r =
     \<lparr>is_ID = ir_ID r, is_Name = ir_Name r, is_Host = ir_Host r, is_Port = ir_Port r, is_Description = '''', is_Enabled = ir_Enabled r,
      is_Source = ir_Source r, is_AgentAvailable = False\<rparr>"

definition toInstanceResponse :: "url_lib \<Rightarrow> InstanceConfig \<Rightarrow> InstanceResponse" where
  "toInstanceResponse lib c =
     (case extractHostPort lib (ic_DSN c) of (host, port) \<Rightarrow>
        \<lparr>is_ID = ic_ID c, is_Name = '''', is_Host = host, is_Port = port, is_Description = ic_Description c, is_Enabled = ic_on c,
         is_Source = '''', is_AgentAvailable = (ic_AgentURL c \<noteq> '''')\<rparr>)"

text \<open>The store is asked first; its absence or failure leaves the configuration.\<close>

definition resolveInstanceList :: "url_lib \<Rightarrow> InstanceConfig list \<Rightarrow> bool \<Rightarrow> instance_table option \<Rightarrow> InstanceResponse list" where
  "resolveInstanceList lib cfgs up store =
     (case Option.bind store (List_instances up) of Some rs \<Rightarrow> map instanceRecordToResponse rs | None \<Rightarrow> map (toInstanceResponse lib) cfgs)"

definition handleGetInstance :: "url_lib \<Rightarrow> InstanceConfig list \<Rightarrow> bool \<Rightarrow> instance_table option \<Rightarrow> string \<Rightarrow> InstanceResponse option" where
  "handleGetInstance lib cfgs up store i =
     (case Option.bind store (Get_instance up i) of Some (Some r) \<Rightarrow> Some (instanceRecordToResponse r)
      | _ \<Rightarrow> map_option (toInstanceResponse lib) (find (\<lambda>c. ic_ID c = i) cfgs))"

definition instanceExists :: "InstanceConfig list \<Rightarrow> bool \<Rightarrow> instance_table option \<Rightarrow> string \<Rightarrow> bool" where
  "instanceExists cfgs up store i =
     (case Option.bind store (Get_instance up i) of Some (Some r) \<Rightarrow> True | _ \<Rightarrow> list_ex (\<lambda>c. ic_ID c = i) cfgs)"

fun buildAlertCounts :: "AlertEvent list \<Rightarrow> (string, (string, int) gomap) gomap \<Rightarrow> (string, (string, int) gomap) gomap" where
  "buildAlertCounts [] result = result"
| "buildAlertCounts (ev # evs) result =
     (let m = map_get [] result (ev_InstanceID ev) in
      buildAlertCounts evs (map_put (ev_InstanceID ev) (map_put (ev_Severity ev) (map_get 0 m (ev_Severity ev) + 1) m) result))"

record EnrichedInstanceResponse =
  er_Instance :: InstanceResponse
  er_Metrics :: "(string, float64) gomap"
  er_AlertCounts :: "(string, int) gomap"

text \<open>\<open>querier\<close> is absent when the store has no current values; \<open>unresolved\<close> is absent without a history and fails as \<open>Some None\<close>.\<close>

definition handleListInstances ::
  "string list \<Rightarrow> (string \<Rightarrow> (string, float64) gomap option) option \<Rightarrow> AlertEvent list option option \<Rightarrow> InstanceResponse list \<Rightarrow> EnrichedInstanceResponse list" where
  "handleListInstances includes querier unresolved responses =
     (let withMetrics = ''metrics'' \<in> set includes;
          counts = (if ''alerts'' \<in> set includes then (case unresolved of Some (Some evs) \<Rightarrow> buildAlertCounts evs [] | _ \<Rightarrow> []) else [])
      in map (\<lambda>r. \<lparr>er_Instance = r,
             er_Metrics = (if withMetrics then (case querier of None \<Rightarrow> [] | Some q \<Rightarrow> (case q (is_ID r) of None \<Rightarrow> [] | Some vals \<Rightarrow> vals)) else []),
             er_AlertCounts = map_get [] counts (is_ID r)\<rparr>) responses)"

end
