(* ===== verification/Orchestrator.thy ===== *)
theory Orchestrator
  imports Instances AlertEval AlertDispatch CollectorDB
begin

section \<open>The collection orchestrator (\<open>internal/orchestrator\<close>)\<close>

text \<open>
  Interval groups that collect, store, evaluate and dispatch; the runner over the databases of an instance with its
  connection pools; and the orchestrator that starts and stops instances. Tickers and goroutines are the order of
  the operations; connections, answers and the outcome of every write are arguments.
\<close>

subsection \<open>Interval groups (\<open>group.go\<close>)\<close>

text \<open>A server's shared parts: the table of metrics, the evaluator with its history, and the dispatcher.\<close>

record 'h pipeline =
  pl_rows :: metrics_table
  pl_eval :: "Evaluator \<times> 'h"
  pl_disp :: Dispatcher

text \<open>The loop over the events; sending to a closed dispatcher panics (\<open>None\<close>), a full one drops the event.\<close>

fun dispatch_all :: "AlertEvent list \<Rightarrow> Dispatcher \<Rightarrow> Dispatcher option" where
  "dispatch_all [] d = Some d"
| "dispatch_all (ev # evs) d = (case Dispatch ev d of None \<Rightarrow> None | Some (d', sent) \<Rightarrow> dispatch_all evs d')"

definition evaluateAlerts :: "'h HistoryStore \<Rightarrow> time \<Rightarrow> (string \<Rightarrow> time) \<Rightarrow> MetricPoint list \<Rightarrow> 'h pipeline \<Rightarrow> 'h pipeline option" where
  "evaluateAlerts hs now clock points p =
     (case Evaluate hs now clock points (pl_eval p) of (e, events) \<Rightarrow>
        map_option (\<lambda>d. p\<lparr>pl_eval := e, pl_disp := d\<rparr>) (dispatch_all events (pl_disp p)))"

text \<open>One cycle: no connection or no context ends it; a collector that fails is left out; nothing is evaluated that was not written.\<close>

record group_io =
  gi_acquired :: bool
  gi_context :: "InstanceContext option"
  gi_collectors :: "(InstanceContext \<Rightarrow> MetricPoint list option) list"
  gi_write :: bool
  gi_now :: time
  gi_clock :: "string \<Rightarrow> time"

definition group_batch :: "group_io \<Rightarrow> InstanceContext \<Rightarrow> MetricPoint list" where
  "group_batch io ic = concat (map (\<lambda>c. case c ic of None \<Rightarrow> [] | Some ps \<Rightarrow> ps) (gi_collectors io))"

definition group_collect :: "'h HistoryStore \<Rightarrow> group_io \<Rightarrow> 'h pipeline \<Rightarrow> 'h pipeline option" where
  "group_collect hs io p =
     (if \<not> gi_acquired io then Some p
      else case gi_context io of None \<Rightarrow> Some p
      | Some ic \<Rightarrow>
          let batch = group_batch io ic in
          if batch = [] then Some p
          else case pg_Write (gi_write io) (pl_rows p) batch of None \<Rightarrow> Some p
          | Some rows \<Rightarrow> evaluateAlerts hs (gi_now io) (gi_clock io) batch (p\<lparr>pl_rows := rows\<rparr>))"

subsection \<open>Globs (\<open>filepath.Match\<close>)\<close>

text \<open>Matching of names in ASCII, where a character is a byte. A malformed pattern is \<open>None\<close>.\<close>

abbreviation "backslash \<equiv> CHR 0x5C"

fun get_esc :: "string \<Rightarrow> (char \<times> string) option" where
  "get_esc [] = None"
| "get_esc (c # cs) =
     (if c = CHR ''-'' \<or> c = CHR '']'' then None
      else if c = backslash then (case cs of [] \<Rightarrow> None | d # ds \<Rightarrow> if ds = [] then None else Some (d, ds))
      else if cs = [] then None else Some (c, cs))"

lemma get_esc_length: "get_esc cs = Some (c, ds) \<Longrightarrow> length ds < length cs"
  by (cases cs) (auto split: if_splits list.splits)

function match_ranges :: "char \<Rightarrow> nat \<Rightarrow> bool \<Rightarrow> string \<Rightarrow> (bool \<times> string) option" where
  "match_ranges r n m chunk =
     (if chunk \<noteq> [] \<and> hd chunk = CHR '']'' \<and> n > 0 then Some (m, tl chunk)
      else case get_esc chunk of None \<Rightarrow> None
      | Some (lo, c1) \<Rightarrow>
          (if c1 \<noteq> [] \<and> hd c1 = CHR ''-'' then
             (case get_esc (tl c1) of None \<Rightarrow> None | Some (hi, c2) \<Rightarrow> match_ranges r (n + 1) (m \<or> lo \<le> r \<and> r \<le> hi) c2)
           else match_ranges r (n + 1) (m \<or> lo \<le> r \<and> r \<le> lo) c1))"
  by pat_completeness auto
termination
  by (relation "measure (\<lambda>(r, n, m, chunk). length chunk)") (auto dest!: get_esc_length)

declare match_ranges.simps [simp del]

lemma match_ranges_length: "match_ranges r n m chunk = Some (b, rest) \<Longrightarrow> length rest < length chunk"
proof (induction r n m chunk rule: match_ranges.induct)
  case (1 r n m chunk)
  show ?case
  proof (cases "chunk \<noteq> [] \<and> hd chunk = CHR '']'' \<and> n > 0")
    case True
    then show ?thesis using 1(3) by (cases chunk) (auto simp: match_ranges.simps)
  next
    case False
    obtain lo c1 where lo: "get_esc chunk = Some (lo, c1)" using False 1(3) by (auto simp: match_ranges.simps split: option.splits)
    show ?thesis
    proof (cases "c1 \<noteq> [] \<and> hd c1 = CHR ''-''")
      case dash: True
      obtain hi c2 where hi: "get_esc (tl c1) = Some (hi, c2)" using False lo dash 1(3) by (auto simp: match_ranges.simps split: option.splits)
      have "length rest < length c2" using 1(1) [OF False lo refl dash hi refl] False lo dash hi 1(3) by (auto simp: match_ranges.simps [of r n m chunk] split: if_splits)
      then show ?thesis using get_esc_length [OF lo] get_esc_length [OF hi] dash by (cases c1) auto
    next
      case nodash: False
      have "length rest < length c1" using 1(2) [OF False lo refl nodash] False lo nodash 1(3) by (auto simp: match_ranges.simps [of r n m chunk] split: if_splits)
      then show ?thesis using get_esc_length [OF lo] by simp
    qed
  qed
qed

text \<open>What is left of the name after a chunk without stars; \<open>Some None\<close> is no match.\<close>

function match_chunk :: "string \<Rightarrow> string option \<Rightarrow> string option option" where
  "match_chunk [] st = Some st"
| "match_chunk (c # cs) st =
     (if c = CHR ''['' then
        (let neg = (cs \<noteq> [] \<and> hd cs = CHR ''^''); body = (if cs \<noteq> [] \<and> hd cs = CHR ''^'' then tl cs else cs);
             r = (case st of Some (x # xs) \<Rightarrow> x | _ \<Rightarrow> CHR 0x00)
         in case match_ranges r 0 False body of None \<Rightarrow> None
            | Some (m, rest) \<Rightarrow> match_chunk rest (case st of Some (x # xs) \<Rightarrow> if m = neg then None else Some xs | _ \<Rightarrow> None))
      else if c = CHR ''?'' then match_chunk cs (case st of Some (x # xs) \<Rightarrow> if x = CHR ''/'' then None else Some xs | _ \<Rightarrow> None)
      else if c = backslash then
        (case cs of [] \<Rightarrow> None | d # ds \<Rightarrow> match_chunk ds (case st of Some (x # xs) \<Rightarrow> if d \<noteq> x then None else Some xs | _ \<Rightarrow> None))
      else match_chunk cs (case st of Some (x # xs) \<Rightarrow> if c \<noteq> x then None else Some xs | _ \<Rightarrow> None))"
  by pat_completeness auto
termination
  by (relation "measure (\<lambda>(chunk, st). length chunk)") (auto dest!: match_ranges_length split: if_splits)

text \<open>Up to the next star outside brackets.\<close>

fun scan_chunk :: "bool \<Rightarrow> string \<Rightarrow> string \<times> string" where
  "scan_chunk inrange [] = ([], [])"
| "scan_chunk inrange (c # cs) =
     (if c = CHR ''*'' \<and> \<not> inrange then ([], c # cs)
      else if c = backslash then (case cs of [] \<Rightarrow> ([c], []) | d # ds \<Rightarrow> (case scan_chunk inrange ds of (a, b) \<Rightarrow> (c # d # a, b)))
      else case scan_chunk (if c = CHR ''['' then True else if c = CHR '']'' then False else inrange) cs of (a, b) \<Rightarrow> (c # a, b))"

text \<open>The name after skipping for a star.\<close>

fun skip_match :: "string \<Rightarrow> bool \<Rightarrow> string \<Rightarrow> string option option" where
  "skip_match chunk final [] = Some None"
| "skip_match chunk final (x # xs) =
     (if x = CHR ''/'' then Some None
      else case match_chunk chunk (Some xs) of None \<Rightarrow> None
      | Some (Some t) \<Rightarrow> if final \<and> t \<noteq> [] then skip_match chunk final xs else Some (Some t)
      | Some None \<Rightarrow> skip_match chunk final xs)"

lemma scan_chunk_append: "fst (scan_chunk b cs) @ snd (scan_chunk b cs) = cs"
proof (induction b cs rule: scan_chunk.induct)
  case (2 b c cs)
  then show ?case by (cases cs) (simp_all add: case_prod_unfold)
qed simp

lemma scan_chunk_length: "scan_chunk b cs = (a, d) \<Longrightarrow> length d \<le> length cs"
  using scan_chunk_append [of b cs] by (metis fst_conv length_append le_add2 snd_conv)

lemma scan_chunk_progress: "scan_chunk False (dropWhile (\<lambda>c. c = CHR ''*'') (c # cs)) = (a, d) \<Longrightarrow> length d < length (c # cs)"
proof (cases "c = CHR ''*''")
  case True
  assume "scan_chunk False (dropWhile (\<lambda>c. c = CHR ''*'') (c # cs)) = (a, d)"
  then show ?thesis using True scan_chunk_length [of False "dropWhile (\<lambda>c. c = CHR ''*'') cs" a d] length_dropWhile_le [of "\<lambda>c. c = CHR ''*''" cs] by simp
next
  case False
  assume s: "scan_chunk False (dropWhile (\<lambda>c. c = CHR ''*'') (c # cs)) = (a, d)"
  then have "scan_chunk False (c # cs) = (a, d)" using False by simp
  then have "a \<noteq> []" using False by (auto split: if_splits list.splits prod.splits)
  moreover have "length a + length d = length (c # cs)" using scan_chunk_append [of False "c # cs"] \<open>scan_chunk False (c # cs) = (a, d)\<close> by (metis fst_conv length_append snd_conv)
  ultimately show ?thesis by (metis add_cancel_right_left le_add2 le_neq_implies_less length_0_conv)
qed

function filepath_Match :: "string \<Rightarrow> string \<Rightarrow> bool option" where
  "filepath_Match [] name = Some (name = [])"
| "filepath_Match (c # cs) name =
     (let star = (c = CHR ''*'') in
      case scan_chunk False (dropWhile (\<lambda>c. c = CHR ''*'') (c # cs)) of (chunk, rest) \<Rightarrow>
        if star \<and> chunk = [] then Some (CHR ''/'' \<notin> set name)
        else case match_chunk chunk (Some name) of
          None \<Rightarrow> None
        | Some m \<Rightarrow>
            (case (if m \<noteq> None \<and> (m = Some [] \<or> rest \<noteq> []) then Some m else if star then skip_match chunk (rest = []) name else Some None) of
               None \<Rightarrow> None | Some None \<Rightarrow> Some False | Some (Some t) \<Rightarrow> filepath_Match rest t))"
  by pat_completeness auto
termination
proof (relation "measure (\<lambda>(p, n). length p)", goal_cases)
  case 1
  then show ?case by simp
next
  case 2
  then show ?case using scan_chunk_progress by (metis in_measure case_prod_conv)
qed

subsection \<open>Databases of an instance (\<open>db_runner.go\<close>)\<close>

definition dbPoolTTLCycles :: nat where
  "dbPoolTTLCycles = 3"

text \<open>The pools are the names that have one; the counters outlive \<open>Close\<close>.\<close>

record DBRunner =
  db_instanceID :: string
  db_baseDSN :: string
  db_include :: "string list"
  db_exclude :: "string list"
  db_pools :: "string list"
  db_lastSeen :: "(string, nat) gomap"

definition NewDBRunner :: "InstanceConfig \<Rightarrow> DBRunner" where
  "NewDBRunner cfg = \<lparr>db_instanceID = ic_ID cfg, db_baseDSN = ic_DSN cfg, db_include = ic_IncludeDatabases cfg, db_exclude = ic_ExcludeDatabases cfg,
     db_pools = [], db_lastSeen = []\<rparr>"

definition maxConcurrent :: "InstanceConfig \<Rightarrow> int" where
  "maxConcurrent cfg = (if ic_MaxConcurrentDBs cfg \<le> 0 then 5 else ic_MaxConcurrentDBs cfg)"

definition matchesAny :: "string \<Rightarrow> string list \<Rightarrow> bool" where
  "matchesAny name patterns = list_ex (\<lambda>p. filepath_Match p name = Some True) patterns"

definition applyFilters :: "DBRunner \<Rightarrow> string list \<Rightarrow> string list" where
  "applyFilters r dbs =
     filter (\<lambda>db. \<not> (db_include r \<noteq> [] \<and> \<not> matchesAny db (db_include r)) \<and> \<not> (db_exclude r \<noteq> [] \<and> matchesAny db (db_exclude r))) dbs"

definition evict_pool :: "string list \<Rightarrow> string \<Rightarrow> DBRunner \<Rightarrow> DBRunner" where
  "evict_pool seen db r =
     (if db \<in> set seen then r\<lparr>db_lastSeen := map_put db 0 (db_lastSeen r)\<rparr>
      else let n = map_get 0 (db_lastSeen r) db + 1 in
        if n \<ge> dbPoolTTLCycles then r\<lparr>db_pools := filter (\<lambda>x. x \<noteq> db) (db_pools r), db_lastSeen := map_del db (db_lastSeen r)\<rparr>
        else r\<lparr>db_lastSeen := map_put db n (db_lastSeen r)\<rparr>)"

definition evictStalePools :: "string list \<Rightarrow> DBRunner \<Rightarrow> DBRunner" where
  "evictStalePools seen r = fold (evict_pool seen) (db_pools r) r"

definition getOrCreatePool :: "bool \<Rightarrow> string \<Rightarrow> DBRunner \<Rightarrow> DBRunner option" where
  "getOrCreatePool up db r =
     (if db \<in> set (db_pools r) then Some r
      else if up then Some (r\<lparr>db_pools := db_pools r @ [db], db_lastSeen := map_put db 0 (db_lastSeen r)\<rparr>) else None)"

definition db_Close :: "DBRunner \<Rightarrow> DBRunner" where
  "db_Close r = r\<lparr>db_pools := []\<rparr>"

fun replace_dbname :: "string \<Rightarrow> string list \<Rightarrow> string list" where
  "replace_dbname db [] = [''dbname='' @ db]"
| "replace_dbname db (p # ps) = (if HasPrefix p ''dbname='' then (''dbname='' @ db) # ps else p # replace_dbname db ps)"

definition substituteDBName :: "url_lib \<Rightarrow> string \<Rightarrow> string \<Rightarrow> string" where
  "substituteDBName lib dsn newDB =
     (let keywords = Join '' '' (replace_dbname newDB (Fields dsn)) in
      if HasPrefix dsn ''postgres://'' \<or> HasPrefix dsn ''postgresql://''
      then (case url_Parse lib dsn of Some u \<Rightarrow> url_String lib (u\<lparr>u_Path := ''/'' @ newDB\<rparr>) | None \<Rightarrow> keywords) else keywords)"

definition classifyDBError :: "string \<Rightarrow> string" where
  "classifyDBError msg =
     (if str_contains msg ''timeout'' \<or> str_contains msg ''canceling statement'' then ''timeout''
      else if str_contains msg ''permission denied'' then ''permission_denied'' else ''other'')"

text \<open>The work of one database: its answers, the message of the error if the collector reports one (it may still have points),
  and the outcome of the write.\<close>

record db_job =
  dj_pool :: bool
  dj_clock :: "nat \<Rightarrow> time"
  dj_answers :: db_answers
  dj_error :: string
  dj_write :: bool

record db_counts =
  dc_collected :: nat
  dc_timeout :: nat
  dc_permission :: nat
  dc_other :: nat

definition count_error :: "string \<Rightarrow> db_counts \<Rightarrow> db_counts" where
  "count_error msg c =
     (if classifyDBError msg = ''timeout'' then c\<lparr>dc_timeout := dc_timeout c + 1\<rparr>
      else if classifyDBError msg = ''permission_denied'' then c\<lparr>dc_permission := dc_permission c + 1\<rparr>
      else c\<lparr>dc_other := dc_other c + 1\<rparr>)"

definition db_collect :: "string \<Rightarrow> string \<Rightarrow> db_job \<Rightarrow> metrics_table \<times> db_counts \<Rightarrow> metrics_table \<times> db_counts" where
  "db_collect instanceID db j s =
     (case CollectDB (dj_clock j) db (dj_answers j) of
        None \<Rightarrow> (fst s, count_error (dj_error j) (snd s))
      | Some (points, failed) \<Rightarrow>
          (case pg_Write (dj_write j) (fst s) (map (\<lambda>p. p\<lparr>mp_InstanceID := instanceID\<rparr>) points) of None \<Rightarrow> fst s | Some rows \<Rightarrow> rows,
           if failed > 0 then count_error (dj_error j) (snd s) else (snd s)\<lparr>dc_collected := dc_collected (snd s) + 1\<rparr>))"

text \<open>The pools, in the order of the databases; \<open>order\<close> is the order in which the goroutines finish.\<close>

fun open_pools :: "(string \<Rightarrow> db_job) \<Rightarrow> string list \<Rightarrow> DBRunner \<times> string list \<times> db_counts \<Rightarrow> DBRunner \<times> string list \<times> db_counts" where
  "open_pools jobs [] s = s"
| "open_pools jobs (db # dbs) (r, ready, c) =
     open_pools jobs dbs
       (case getOrCreatePool (dj_pool (jobs db)) db r of None \<Rightarrow> (r, ready, c\<lparr>dc_other := dc_other c + 1\<rparr>) | Some r' \<Rightarrow> (r', ready @ [db], c))"

definition telemetry :: "string \<Rightarrow> time \<Rightarrow> nat \<Rightarrow> db_counts \<Rightarrow> MetricPoint list" where
  "telemetry instanceID now discovered c =
     map (\<lambda>(m, v, ls). \<lparr>mp_InstanceID = instanceID, mp_Metric = m, mp_Value = real v, mp_Labels = ls, mp_Timestamp = now\<rparr>)
       [(''pg.agent.db.discovered'', discovered, []), (''pg.agent.db.collected'', dc_collected c, []),
        (''pg.agent.db.errors'', dc_timeout c, [(''reason'', ''timeout'')]), (''pg.agent.db.errors'', dc_permission c, [(''reason'', ''permission_denied'')]),
        (''pg.agent.db.errors'', dc_other c, [(''reason'', ''other'')])]"

record db_run_io =
  dr_databases :: "string list option"
  dr_jobs :: "string \<Rightarrow> db_job"
  dr_order :: "string list \<Rightarrow> string list"
  dr_now :: time
  dr_write :: bool

definition db_Run :: "db_run_io \<Rightarrow> DBRunner \<times> metrics_table \<Rightarrow> DBRunner \<times> metrics_table" where
  "db_Run io s =
     (case s of (r, rows) \<Rightarrow>
        (case dr_databases io of None \<Rightarrow> (r, rows)
         | Some all \<Rightarrow>
             let dbs = applyFilters r all;
                 (r2, ready, c) = open_pools (dr_jobs io) dbs (evictStalePools dbs r, [], \<lparr>dc_collected = 0, dc_timeout = 0, dc_permission = 0, dc_other = 0\<rparr>);
                 (rows2, c2) = fold (\<lambda>db. db_collect (db_instanceID r) db (dr_jobs io db)) (dr_order io ready) (rows, c)
             in (r2, case pg_Write (dr_write io) rows2 (telemetry (db_instanceID r) (dr_now io) (length dbs) c2) of None \<Rightarrow> rows2 | Some rows3 \<Rightarrow> rows3)))"

subsection \<open>Runners (\<open>runner.go\<close>)\<close>

definition resolveOSMethod :: "InstanceConfig \<Rightarrow> string \<Rightarrow> string" where
  "resolveOSMethod cfg globalMethod = (if ic_OSMetricsMethod cfg \<noteq> '''' then ic_OSMetricsMethod cfg else if globalMethod \<noteq> '''' then globalMethod else ''sql'')"

text \<open>The collectors of the three groups by their names, with the interval of the group.\<close>

definition buildCollectors :: "InstanceConfig \<Rightarrow> string \<Rightarrow> (string \<times> duration \<times> string list) list" where
  "buildCollectors cfg globalMethod =
     [(''high'', iv_High (ic_Intervals cfg), [''connections'', ''cache'', ''wait_events'', ''lock_tree'', ''long_transactions'', ''os'']),
      (''medium'', iv_Medium (ic_Intervals cfg),
        [''replication_status'', ''replication_lag'', ''replication_slots'', ''statements_config'', ''statements_top'', ''checkpoint'', ''progress_vacuum'',
         ''progress_cluster'', ''progress_analyze'', ''progress_create_index'', ''progress_basebackup'', ''progress_copy''] @
        (if resolveOSMethod cfg globalMethod = ''sql'' then [''os_sql''] else []) @ [''cluster'']),
      (''low'', iv_Low (ic_Intervals cfg), [''server_info'', ''database_sizes'', ''settings'', ''extensions'', ''transactions'', ''io_stats''])]"

record instanceRunner =
  rn_cfg :: InstanceConfig
  rn_version :: PGVersion
  rn_groups :: "(string \<times> duration \<times> string list) list"
  rn_db :: DBRunner
  rn_open :: bool

text \<open>\<open>connect\<close> and \<open>buildCollectors\<close>; the first argument is the version found, or no connection.\<close>

definition make_runner :: "(InstanceConfig \<Rightarrow> PGVersion option) \<Rightarrow> string \<Rightarrow> InstanceConfig \<Rightarrow> instanceRunner option" where
  "make_runner connect globalMethod cfg =
     map_option (\<lambda>v. \<lparr>rn_cfg = cfg, rn_version = v, rn_groups = buildCollectors cfg globalMethod, rn_db = NewDBRunner cfg, rn_open = True\<rparr>) (connect cfg)"

definition runner_close :: "instanceRunner \<Rightarrow> instanceRunner" where
  "runner_close r = r\<lparr>rn_db := db_Close (rn_db r), rn_open := False\<rparr>"

subsection \<open>The orchestrator (\<open>orchestrator.go\<close>)\<close>

text \<open>\<open>or_loops\<close> are the runners whose goroutines have been started and not been told to stop: only the cancellation of the
  common context does that.\<close>

record Orchestrator =
  or_instances :: "InstanceConfig list"
  or_osMethod :: string
  or_runners :: "(string, instanceRunner) gomap"
  or_loops :: "string list"
  or_reloading :: bool

definition New_orchestrator :: "InstanceConfig list \<Rightarrow> string \<Rightarrow> Orchestrator" where
  "New_orchestrator cfgs method = \<lparr>or_instances = cfgs, or_osMethod = method, or_runners = [], or_loops = [], or_reloading = False\<rparr>"

definition launch :: "(InstanceConfig \<Rightarrow> PGVersion option) \<Rightarrow> InstanceConfig \<Rightarrow> Orchestrator \<Rightarrow> Orchestrator" where
  "launch connect cfg o1 =
     (case make_runner connect (or_osMethod o1) cfg of None \<Rightarrow> o1
      | Some r \<Rightarrow> o1\<lparr>or_runners := map_put (ic_ID cfg) r (or_runners o1), or_loops := or_loops o1 @ [ic_ID cfg]\<rparr>)"

definition Start_orchestrator :: "(InstanceConfig \<Rightarrow> PGVersion option) \<Rightarrow> bool \<Rightarrow> Orchestrator \<Rightarrow> Orchestrator \<times> bool" where
  "Start_orchestrator connect hasStore o1 =
     (let o2 = fold (\<lambda>cfg o1. if ic_Enabled cfg = Some False then o1 else launch connect cfg o1) (or_instances o1) o1
      in if or_runners o2 = [] then (o2\<lparr>or_loops := []\<rparr>, False) else (o2\<lparr>or_reloading := hasStore\<rparr>, True))"

definition reload_config :: "InstanceRecord \<Rightarrow> InstanceConfig" where
  "reload_config r =
     \<lparr>ic_ID = ir_ID r, ic_Name = ir_Name r, ic_DSN = ir_DSN r, ic_Description = '''', ic_Enabled = None,
      ic_MaxConns = (if ir_MaxConns r = 0 then 5 else ir_MaxConns r),
      ic_Intervals = \<lparr>iv_High = 10 * Second, iv_Medium = 60 * Second, iv_Low = 300 * Second\<rparr>, ic_AgentURL = '''', ic_PatroniURL = '''',
      ic_PatroniConfig = '''', ic_PatroniCtlPath = '''', ic_ETCDEndpoints = [], ic_ETCDCtlPath = '''', ic_IncludeDatabases = [], ic_ExcludeDatabases = [],
      ic_MaxConcurrentDBs = 0, ic_OSMetricsMethod = ''''\<rparr>"

definition desired_instances :: "InstanceRecord list \<Rightarrow> InstanceRecord list" where
  "desired_instances records = filter ir_Enabled records"

definition reload :: "(InstanceConfig \<Rightarrow> PGVersion option) \<Rightarrow> InstanceRecord list option \<Rightarrow> Orchestrator \<Rightarrow> Orchestrator" where
  "reload connect records o1 =
     (case records of None \<Rightarrow> o1
      | Some rs \<Rightarrow>
          let desired = desired_instances rs;
              o2 = o1\<lparr>or_runners := filter (\<lambda>(i, r). i \<in> ir_ID ` set desired) (or_runners o1)\<rparr>
          in fold (\<lambda>rec0 o1. if map_of (or_runners o1) (ir_ID rec0) \<noteq> None then o1 else launch connect (reload_config rec0) o1) desired o2)"

text \<open>The connection string of an instance: a runner's, the configuration's, or the store's.\<close>

definition instanceDSN :: "(string \<Rightarrow> InstanceRecord option option) option \<Rightarrow> string \<Rightarrow> Orchestrator \<Rightarrow> string option" where
  "instanceDSN store i o1 =
     (case map_of (or_runners o1) i of Some r \<Rightarrow> Some (ic_DSN (rn_cfg r))
      | None \<Rightarrow>
          (case find (\<lambda>c. ic_ID c = i) (or_instances o1) of
             Some c \<Rightarrow> if ic_Enabled c = Some False then None else Some (ic_DSN c)
           | None \<Rightarrow>
               (case Option.bind store (\<lambda>get. get i) of Some (Some r) \<Rightarrow> if ir_Enabled r then Some (ir_DSN r) else None | _ \<Rightarrow> None)))"

text \<open>\<open>dial\<close> opens the connection, with a timeout and an application name.\<close>

definition ConnFor :: "(string \<Rightarrow> 'c option) \<Rightarrow> (string \<Rightarrow> InstanceRecord option option) option \<Rightarrow> string \<Rightarrow> Orchestrator \<Rightarrow> 'c option" where
  "ConnFor dial store i o1 = Option.bind (instanceDSN store i o1) dial"

definition ConnForDB :: "url_lib \<Rightarrow> (string \<Rightarrow> 'c option) \<Rightarrow> (string \<Rightarrow> InstanceRecord option option) option \<Rightarrow> string \<Rightarrow> string \<Rightarrow> Orchestrator \<Rightarrow> 'c option" where
  "ConnForDB lib dial store i db o1 = Option.bind (instanceDSN store i o1) (\<lambda>dsn. dial (substituteDBName lib dsn db))"

definition Stop_orchestrator :: "Orchestrator \<Rightarrow> Orchestrator" where
  "Stop_orchestrator o1 = o1\<lparr>or_runners := map (\<lambda>(i, r). (i, runner_close r)) (or_runners o1), or_loops := [], or_reloading := False\<rparr>"

end
