(* ===== verification/InstanceLaws.thy ===== *)
theory InstanceLaws
  imports Instances
begin

section \<open>Laws of the instance table and its API\<close>

text \<open>
  Every reachable table has unique identifiers, an instance keeps its origin, an import accounts for every
  row it read and returns exactly if its input ends, and what the mask of a connection string hides.
\<close>

subsection \<open>The table\<close>

definition instance_table_ok :: "instance_table \<Rightarrow> bool" where
  "instance_table_ok t \<longleftrightarrow> distinct (map ir_ID t) \<and> (\<forall>r\<in>set t. storable_instance r) \<and> set (map ir_Source t) \<subseteq> {''manual'', ''csv_import'', ''yaml''}"

lemma instance_ok_snoc:
  "instance_table_ok t \<Longrightarrow> storable_instance r \<Longrightarrow> ir_Source r \<in> {''manual'', ''csv_import'', ''yaml''} \<Longrightarrow> ir_ID r \<notin> ir_ID ` set t \<Longrightarrow>
   instance_table_ok (t @ [r])"
  by (auto simp: instance_table_ok_def)

lemma Create_instance_cases:
  assumes "Create_instance up now r t = Inr (t', row)"
  shows "t' = t @ [row] \<and> storable_instance row \<and> ir_ID row \<notin> ir_ID ` set t \<and> ir_ID row = ir_ID r \<and> ir_DSN row = ir_DSN r \<and>
    ir_Source row = (if ir_Source r = '''' then ''manual'' else ir_Source r)"
  using assms by (auto simp: Create_instance_def Let_def split: if_splits)

lemma Create_instance_ok:
  assumes "instance_table_ok t" "Create_instance up now r t = Inr (t', row)" "ir_Source r \<in> {''manual'', ''csv_import''}"
  shows "instance_table_ok t'"
  using Create_instance_cases [OF assms(2)] assms(1,3) by (auto intro!: instance_ok_snoc)

lemma map_update_at: "map f (map (\<lambda>y. if ir_ID y = i then g y else y) t) = map f t" if "\<And>y. f (g y) = f y"
  using that by simp

lemma Update_instance_keeps:
  assumes "Update_instance up now r t = Some (t', x)"
  shows "map ir_ID t' = map ir_ID t" "map ir_Source t' = map ir_Source t" "map ir_CreatedAt t' = map ir_CreatedAt t"
    "\<forall>y\<in>set t'. y \<in> set t \<or> ir_Port y = ir_Port r \<and> ir_MaxConns y = ir_MaxConns r" "storable_instance r"
proof -
  let ?g = "\<lambda>x. x\<lparr>ir_Name := ir_Name r, ir_DSN := ir_DSN r, ir_Host := ir_Host r, ir_Port := ir_Port r, ir_Enabled := ir_Enabled r,
    ir_MaxConns := ir_MaxConns r, ir_UpdatedAt := micros now\<rparr>"
  have t: "t' = map (\<lambda>y. if ir_ID y = ir_ID r then ?g y else y) t" and "storable_instance r"
    using assms by (simp_all add: Update_instance_def Let_def split: if_splits option.splits)
  then show "storable_instance r" by simp
  show "map ir_ID t' = map ir_ID t" "map ir_Source t' = map ir_Source t" "map ir_CreatedAt t' = map ir_CreatedAt t"
    unfolding t by (rule map_update_at; simp)+
  show "\<forall>y\<in>set t'. y \<in> set t \<or> ir_Port y = ir_Port r \<and> ir_MaxConns y = ir_MaxConns r" unfolding t by auto
qed

lemma Update_instance_ok:
  assumes "instance_table_ok t" "Update_instance up now r t = Some (t', x)"
  shows "instance_table_ok t'"
proof -
  note k = Update_instance_keeps [OF assms(2)]
  have "storable_instance y" if "y \<in> set t'" for y using k that assms(1) by (fastforce simp: instance_table_ok_def storable_instance_def)
  then show ?thesis using k assms(1) by (simp add: instance_table_ok_def del: set_map)
qed

lemma instance_ok_filter: "instance_table_ok t \<Longrightarrow> instance_table_ok (filter P t)"
proof -
  assume ok: "instance_table_ok t"
  have "set (map ir_Source (filter P t)) \<subseteq> set (map ir_Source t)" by auto
  also have "\<dots> \<subseteq> {''manual'', ''csv_import'', ''yaml''}" using ok by (simp only: instance_table_ok_def)
  finally have src: "set (map ir_Source (filter P t)) \<subseteq> {''manual'', ''csv_import'', ''yaml''}" .
  have "distinct (map ir_ID (filter P t))" "\<forall>r\<in>set (filter P t). storable_instance r" using ok by (simp_all add: instance_table_ok_def distinct_map_filter)
  with src show ?thesis by (simp only: instance_table_ok_def simp_thms)
qed

lemma Delete_instance_ok: "instance_table_ok t \<Longrightarrow> Delete_instance up i t = Deleted t' \<Longrightarrow> instance_table_ok t'"
  using instance_ok_filter [of t "\<lambda>r. ir_ID r \<noteq> i"] by (simp add: Delete_instance_def split: if_splits)

lemma Seed_instance_ok:
  assumes "instance_table_ok t" "Seed_instance up now r t = Some t'"
  shows "instance_table_ok t' \<and> set t \<subseteq> set t'"
  using assms by (auto simp: Seed_instance_def Let_def split: if_splits intro!: instance_ok_snoc)

lemma seedInstancesFromConfig_ok: "instance_table_ok t \<Longrightarrow> instance_table_ok (seedInstancesFromConfig lib up clk cs t) \<and> set t \<subseteq> set (seedInstancesFromConfig lib up clk cs t)"
proof (induction lib up clk cs t rule: seedInstancesFromConfig.induct)
  case (2 lib up clk c cs t)
  show ?case
  proof (cases "Seed_instance (up (ic_ID c)) (clk (ic_ID c)) (config_record lib c) t")
    case None
    then show ?thesis using 2 by simp
  next
    case (Some t')
    then show ?thesis using 2(1) Seed_instance_ok [OF 2(2) Some] by auto
  qed
qed simp

subsection \<open>Import\<close>

fun import_rows :: "url_lib \<Rightarrow> (nat \<Rightarrow> csv_read) \<Rightarrow> (nat \<Rightarrow> bool) \<Rightarrow> (nat \<Rightarrow> time) \<Rightarrow> nat \<Rightarrow> nat \<Rightarrow> instance_table \<times> nat \<times> nat \<Rightarrow> instance_table \<times> nat \<times> nat" where
  "import_rows lib reader up clk n 0 s = s"
| "import_rows lib reader up clk n (Suc k) s =
     import_rows lib reader up clk (n + 1) k
       (case reader n of Record record \<Rightarrow> import_row lib (up n) (clk n) record s | _ \<Rightarrow> (fst s, fst (snd s), snd (snd s) + 1))"

lemma import_loop_rows:
  assumes "\<forall>m<k. reader (n + m) \<noteq> EndOfFile" "reader (n + k) = EndOfFile"
  shows "import_loop lib reader up clk n s = Some (import_rows lib reader up clk n k s)"
  using assms
proof (induction k arbitrary: n s)
  case 0
  then show ?case by (simp add: import_loop.simps)
next
  case (Suc k)
  have "reader n \<noteq> EndOfFile" using Suc(2) by (metis add.right_neutral zero_less_Suc)
  moreover have "\<forall>m<k. reader (n + 1 + m) \<noteq> EndOfFile" "reader (n + 1 + k) = EndOfFile" using Suc(2,3) by (auto dest: spec [of _ "Suc _"])
  ultimately show ?case using Suc(1) [of "n + 1"] by (cases "reader n") (simp_all add: import_loop.simps [of lib reader up clk n])
qed

lemma import_loop_ends: "import_loop lib reader up clk n s = Some r \<Longrightarrow> \<exists>m. reader m = EndOfFile"
  by (rule import_loop.raw_induct [where P = "\<lambda>lib reader up clk n s r. \<exists>m. reader m = EndOfFile"]) (auto split: csv_read.splits)

lemma import_row_acc:
  assumes "import_row lib up now record (t, a, b) = (t', a', b')"
  shows "a' + b' = Suc (a + b) \<and> (instance_table_ok t \<longrightarrow> instance_table_ok t') \<and>
    (\<exists>new. t' = t @ new \<and> length new + a = a' \<and> (\<forall>r\<in>set new. ir_Source r = ''csv_import''))"
proof (cases "import_record lib record")
  case None
  then show ?thesis using assms by (simp add: import_row_def)
next
  case (Some r)
  then have src: "ir_Source r = ''csv_import''" by (auto simp: import_record_def Let_def split: if_splits prod.splits)
  show ?thesis
  proof (cases "Create_instance up now r t")
    case (Inl e)
    then show ?thesis using assms Some by (simp add: import_row_def)
  next
    case (Inr p)
    obtain t1 row where p: "p = (t1, row)" by fastforce
    note c = Create_instance_cases [OF Inr [unfolded p]]
    have "instance_table_ok t \<longrightarrow> instance_table_ok t1" using Create_instance_ok [OF _ Inr [unfolded p]] src by simp
    moreover have "t' = t1" "a' = Suc a" "b' = b" using assms Some Inr p by (simp_all add: import_row_def)
    ultimately show ?thesis using c src by auto
  qed
qed

lemma import_rows_acc:
  assumes "import_rows lib reader up clk n k (t, a, b) = (t', a', b')"
  shows "a' + b' = k + a + b \<and> (instance_table_ok t \<longrightarrow> instance_table_ok t') \<and>
    (\<exists>new. t' = t @ new \<and> length new + a = a' \<and> (\<forall>r\<in>set new. ir_Source r = ''csv_import''))"
  using assms
proof (induction k arbitrary: n t a b)
  case (Suc k)
  obtain t1 a1 b1 where s: "(case reader n of Record record \<Rightarrow> import_row lib (up n) (clk n) record (t, a, b) | _ \<Rightarrow> (t, a, b + 1)) = (t1, a1, b1)" by (metis prod_cases3)
  have one: "a1 + b1 = Suc (a + b) \<and> (instance_table_ok t \<longrightarrow> instance_table_ok t1) \<and> (\<exists>new. t1 = t @ new \<and> length new + a = a1 \<and> (\<forall>r\<in>set new. ir_Source r = ''csv_import''))"
    using s import_row_acc by (cases "reader n") auto
  have "import_rows lib reader up clk (n + 1) k (t1, a1, b1) = (t', a', b')" using Suc(2) s by (simp cong: csv_read.case_cong)
  from Suc(1) [OF this] one show ?case by (auto; metis add.assoc add.commute append.assoc length_append set_append Un_iff)
qed simp

subsection \<open>The mask\<close>

lemma HasPrefix_mask [simp]: "HasPrefix ''password=*****'' ''password=''"
  by (simp add: HasPrefix_def)

definition word :: "string \<Rightarrow> bool" where
  "word w \<longleftrightarrow> w \<noteq> [] \<and> (\<forall>c\<in>set w. \<not> is_space c)"

lemma split_by_words: "\<forall>w\<in>set (split_by p s). \<forall>c\<in>set w. \<not> p c"
proof (induction s)
  case (Cons c cs)
  obtain w ws where "split_by p cs = w # ws" using split_by_nonempty by (metis neq_Nil_conv)
  then show ?case using Cons by simp
qed simp

lemma Fields_list_words: "list_all word (Fields s)"
  using split_by_words [of is_space s] by (auto simp: Fields_def list_all_iff word_def)

lemma Fields_Join: "list_all word ws \<Longrightarrow> Fields (Join '' '' ws) = ws"
proof (induction "'' ''" ws rule: Join.induct)
  case 1
  then show ?case by (simp add: Fields_def)
next
  case (2 w)
  then show ?case using Fields_word by (simp add: word_def)
next
  case (3 w v vs)
  then have "Fields (w @ CHR '' '' # Join '' '' (v # vs)) = w # Fields (Join '' '' (v # vs))" by (intro Fields_cons) (simp_all add: word_def)
  then show ?case using 3 by simp
qed

lemma word_mask: "word w \<Longrightarrow> word (mask_field w)"
  by (simp add: mask_field_def word_def is_space_def)

subsection \<open>Properties\<close>

inductive inst_reach :: "url_lib \<Rightarrow> instance_table \<Rightarrow> bool" for lib where
  empty: "inst_reach lib []"
| seeded: "inst_reach lib t \<Longrightarrow> inst_reach lib (seedInstancesFromConfig lib ups clk cfgs t)"
| created: "inst_reach lib t \<Longrightarrow> handleCreateInstance lib up now body (Some t) = (Some t', resp) \<Longrightarrow> inst_reach lib t'"
| updated: "inst_reach lib t \<Longrightarrow> handleUpdateInstance lib getUp up now i ubody (Some t) = (Some t', resp) \<Longrightarrow> inst_reach lib t'"
| deleted: "inst_reach lib t \<Longrightarrow> handleDeleteInstance up i (Some t) = (Some t', resp) \<Longrightarrow> inst_reach lib t'"
| imported: "inst_reach lib t \<Longrightarrow> handleBulkImport lib reader ups' clk' (Some t) = Some (Some t', resp) \<Longrightarrow> inst_reach lib t'"

lemma handleCreateInstance_cases:
  assumes "handleCreateInstance lib up now body (Some t) = (Some t', resp)"
  shows "t' = t \<or> (\<exists>r row. Create_instance up now r t = Inr (t', row) \<and> ir_Source r = ''manual'')"
proof (cases body)
  case None
  then show ?thesis using assms by (simp add: handleCreateInstance_def)
next
  case (Some q)
  obtain host port where hp: "parseHostPort lib (ci_DSN q) = (host, port)" by fastforce
  let ?r = "\<lparr>ir_ID = ci_ID q, ir_Name = ci_Name q, ir_DSN = ci_DSN q, ir_Host = host, ir_Port = port, ir_Enabled = (case ci_Enabled q of None \<Rightarrow> True | Some b \<Rightarrow> b),
    ir_Source = ''manual'', ir_MaxConns = (if ci_MaxConns q = 0 then 5 else ci_MaxConns q), ir_CreatedAt = zero_time, ir_UpdatedAt = zero_time\<rparr>"
  show ?thesis
  proof (cases "ci_ID q = '''' \<or> ci_DSN q = ''''")
    case True
    then show ?thesis using assms Some by (auto simp: handleCreateInstance_def split: if_splits)
  next
    case False
    then have h: "(case Create_instance up now ?r t of Inl DuplicateKey \<Rightarrow> (Some t, InstError 409 ''duplicate'') | Inl StatementFailed \<Rightarrow> (Some t, InstError 500 ''server_error'')
        | Inr (t', created) \<Rightarrow> (Some t', InstCreated (toInstanceCRUDResponse lib created))) = (Some t', resp)"
      using assms Some hp unfolding handleCreateInstance_def by simp
    show ?thesis
    proof (cases "Create_instance up now ?r t")
      case (Inl e)
      then show ?thesis using h by (cases e) simp_all
    next
      case (Inr p)
      then have "Create_instance up now ?r t = Inr (t', snd p)" using h by (cases p) simp
      then show ?thesis by (intro disjI2 exI [of _ ?r] exI [of _ "snd p"]) simp
    qed
  qed
qed

lemma first_end:
  fixes reader :: "nat \<Rightarrow> csv_read"
  assumes "\<exists>m. reader m = EndOfFile"
  shows "reader (0 + (LEAST m. reader m = EndOfFile)) = EndOfFile" "\<forall>m<(LEAST m. reader m = EndOfFile). reader (0 + m) \<noteq> EndOfFile"
proof -
  show "reader (0 + (LEAST m. reader m = EndOfFile)) = EndOfFile" using LeastI_ex [OF assms] unfolding add_0 .
  show "\<forall>m<(LEAST m. reader m = EndOfFile). reader (0 + m) \<noteq> EndOfFile" unfolding add_0 by (intro allI impI) (rule not_less_Least)
qed

lemma bulk_import_rows:
  assumes "handleBulkImport lib reader up clk (Some t) = Some (Some t', resp)"
  shows "\<exists>k a b. (\<forall>m<k. reader m \<noteq> EndOfFile) \<and> reader k = EndOfFile \<and> import_rows lib reader up clk 0 k (t, 0, 0) = (t', a, b) \<and> resp = InstImported a b"
proof -
  obtain t1 a b where s: "import_loop lib reader up clk 0 (t, 0, 0) = Some (t1, a, b)" "t1 = t'" "resp = InstImported a b"
    using assms by (auto simp: handleBulkImport_def)
  note k = first_end [OF import_loop_ends [OF s(1)]]
  have "import_rows lib reader up clk 0 (LEAST m. reader m = EndOfFile) (t, 0, 0) = (t', a, b)"
    using import_loop_rows [OF k(2,1), of lib up clk "(t, 0, 0)"] s(1,2) by (metis option.inject)
  then show ?thesis using k s(3) unfolding add_0 by blast
qed

lemma inst_reach_ok: "inst_reach lib t \<Longrightarrow> instance_table_ok t"
proof (induction rule: inst_reach.induct)
  case empty
  show ?case by (simp add: instance_table_ok_def)
next
  case (seeded t ups clk cfgs)
  then show ?case using seedInstancesFromConfig_ok by blast
next
  case (created t up now body t' resp)
  from handleCreateInstance_cases [OF created(2)] show ?case
  proof
    assume "\<exists>r row. Create_instance up now r t = Inr (t', row) \<and> ir_Source r = ''manual''"
    then show ?thesis using Create_instance_ok [OF created(3)] by blast
  qed (use created(3) in simp)
next
  case (updated t getUp up now i ubody t' resp)
  then show ?case by (auto simp: handleUpdateInstance_def split: option.splits intro: Update_instance_ok)
next
  case (deleted t up i t' resp)
  then show ?case by (auto simp: handleDeleteInstance_def split: delete_result.splits intro: Delete_instance_ok)
next
  case (imported t reader ups' clk' t' resp)
  obtain k a b where "import_rows lib reader ups' clk' 0 k (t, 0, 0) = (t', a, b)" using bulk_import_rows [OF imported(2)] by blast
  from import_rows_acc [OF this] imported(3) show ?case by simp
qed


text \<open>An import of instances returns exactly if its reader comes to the end of the file, so a body that breaks off keeps the handler
  in its loop for ever; if it returns, the numbers of imported and skipped rows add up to the rows read, the imported ones
  are appended and no existing instance changes.\<close>

theorem bulk_import_accounts:
  "(handleBulkImport lib reader up clk (Some t) \<noteq> None \<longleftrightarrow> (\<exists>n. reader n = EndOfFile)) \<and>
   (handleBulkImport lib reader up clk (Some t) = Some (Some t', InstImported a b) \<longrightarrow>
      (\<exists>new. t' = t @ new \<and> length new = a \<and> a + b = (LEAST n. reader n = EndOfFile)))"
proof (intro conjI impI)
  have "import_loop lib reader up clk 0 s \<noteq> None" if "reader n = EndOfFile" for n s
  proof -
    let ?k = "LEAST n. reader n = EndOfFile"
    note k = first_end [OF exI [of "\<lambda>n. reader n = EndOfFile", OF that]]
    from import_loop_rows [OF k(2,1)] show ?thesis by (simp only: option.distinct simp_thms)
  qed
  then show "handleBulkImport lib reader up clk (Some t) \<noteq> None \<longleftrightarrow> (\<exists>n. reader n = EndOfFile)"
    using import_loop_ends by (fastforce simp: handleBulkImport_def)
  assume "handleBulkImport lib reader up clk (Some t) = Some (Some t', InstImported a b)"
  then obtain k where k: "\<forall>m<k. reader m \<noteq> EndOfFile" "reader k = EndOfFile" "import_rows lib reader up clk 0 k (t, 0, 0) = (t', a, b)"
    using bulk_import_rows by fastforce
  have "(LEAST n. reader n = EndOfFile) = k" using k(1,2) by (intro Least_equality) (auto simp: not_less [symmetric])
  then show "\<exists>new. t' = t @ new \<and> length new = a \<and> a + b = (LEAST n. reader n = EndOfFile)" using import_rows_acc [OF k(3)] by auto
qed

text \<open>In a connection string of keywords and values the mask replaces every field that starts with \<open>password=\<close> and keeps every
  other one, in order; a quoted password with a space loses only its first part.\<close>

theorem mask_keyword_dsn:
  assumes "case url_Parse lib dsn of None \<Rightarrow> True | Some u \<Rightarrow> u_Scheme u = ''''"
  shows "(str_contains dsn ''password='' \<longrightarrow> Fields (maskDSN lib dsn) = map mask_field (Fields dsn)) \<and>
    (dsn = ''host=db password='' @ [CHR 0x27] @ ''top secret'' @ [CHR 0x27] \<longrightarrow> maskDSN lib dsn = ''host=db password=***** secret'' @ [CHR 0x27])"
proof -
  have "maskDSN lib dsn = (if str_contains dsn ''password='' then Join '' '' (map mask_field (Fields dsn)) else dsn)"
    using assms by (auto simp: maskDSN_def split: option.splits)
  moreover have "list_all word (map mask_field (Fields dsn))" using Fields_list_words [of dsn] by (auto simp: list_all_iff word_mask)
  moreover have "str_contains (''host=db password='' @ [CHR 0x27] @ ''top secret'' @ [CHR 0x27]) ''password=''" by code_simp
  moreover have "Join '' '' (map mask_field (Fields (''host=db password='' @ [CHR 0x27] @ ''top secret'' @ [CHR 0x27]))) = ''host=db password=***** secret'' @ [CHR 0x27]"
    by code_simp
  ultimately show ?thesis by (auto simp: Fields_Join)
qed

subsection \<open>Witnesses\<close>

text \<open>A connection string of keywords and values parses as a path.\<close>

definition demo_url :: url_lib where
  "demo_url = \<lparr>url_Parse = (\<lambda>s. Some \<lparr>u_Scheme = '''', u_Host = '''', u_Hostname = '''', u_Port = '''', u_Path = s, u_User = None\<rparr>), url_String = u_Path\<rparr>"

definition demo_reader :: "nat \<Rightarrow> csv_read" where
  "demo_reader n = (if n = 0 then Record [''db1'', ''Shop'', ''host=db port=5433''] else if n = 1 then Record [''db2''] else EndOfFile)"

definition demo_import :: "(instance_table option \<times> instance_response) option" where
  "demo_import = handleBulkImport demo_url demo_reader (\<lambda>_. True) (\<lambda>_. 1000) (Some [])"

definition demo_row :: InstanceRecord where
  "demo_row = \<lparr>ir_ID = ''db1'', ir_Name = ''Shop'', ir_DSN = ''host=db port=5433'', ir_Host = ''db'', ir_Port = 5433, ir_Enabled = True, ir_Source = ''csv_import'',
     ir_MaxConns = 5, ir_CreatedAt = 1000, ir_UpdatedAt = 1000\<rparr>"

lemma demo_import_result: "demo_import = Some (Some [demo_row], InstImported 1 1)"
proof -
  have "import_row demo_url True 1000 [''db1'', ''Shop'', ''host=db port=5433''] ([], 0, 0) = ([demo_row], 1, 0)" by code_simp
  moreover have "import_row demo_url True 1000 [''db2''] ([demo_row], 1, 0) = ([demo_row], 1, 1)" by code_simp
  ultimately show ?thesis unfolding demo_import_def handleBulkImport_def
    by (simp add: import_loop.simps [of _ _ _ _ 0] import_loop.simps [of _ _ _ _ "Suc 0"] import_loop.simps [of _ _ _ _ "Suc (Suc 0)"] demo_reader_def)
qed


theorem bulk_import_accounts_witness:
  "demo_import \<noteq> None \<and> (\<exists>new. [demo_row] = [] @ new \<and> length new = 1) \<and> handleBulkImport demo_url (\<lambda>_. ReadError) (\<lambda>_. True) (\<lambda>_. 0) (Some []) = None"
proof -
  have "handleBulkImport demo_url (\<lambda>_. ReadError) (\<lambda>_. True) (\<lambda>_. 0) (Some []) = None"
    using conjunct1 [OF bulk_import_accounts [of demo_url "\<lambda>_. ReadError" "\<lambda>_. True" "\<lambda>_. 0" "[]" "[]" 0 0]] by blast
  then show ?thesis
    using bulk_import_accounts [of demo_url demo_reader "\<lambda>_. True" "\<lambda>_. 1000" "[]" "[demo_row]" 1 1] demo_import_result by (simp add: demo_import_def)
qed

theorem mask_keyword_dsn_witness:
  "Fields (maskDSN demo_url ''host=db password=x user=app'') = [''host=db'', ''password=*****'', ''user=app'']"
proof -
  have "str_contains ''host=db password=x user=app'' ''password=''" "map mask_field (Fields ''host=db password=x user=app'') = [''host=db'', ''password=*****'', ''user=app'']" by code_simp+
  then show ?thesis using mask_keyword_dsn [of demo_url "''host=db password=x user=app''"] by (simp add: demo_url_def)
qed

end
