(* ===== verification/OrchestratorLaws.thy ===== *)
theory OrchestratorLaws
  imports Orchestrator AlertLaws InstanceLaws CollectorLaws
begin

section \<open>Laws of the orchestrator\<close>

text \<open>
  What a cycle of a group does to the store and the alerts, which metrics can ever raise an alert, how long the
  pool of a database that disappeared is kept, and what a reload makes of the running instances.
\<close>

subsection \<open>Events of a batch\<close>

lemma recordEvent_metric: "recordEvent hs h ev = Some (h', ev') \<Longrightarrow> ev_Metric ev' = ev_Metric ev"
  by (auto simp: recordEvent_def split: if_splits)

lemma transition_metric: "processTransition rule pt entry b now = (entry', Some ev) \<Longrightarrow> ev_Metric ev = r_Metric rule"
  by (auto simp: processTransition_def fireAlert_def resolveAlert_def Let_def split: if_splits AlertState.splits)

lemma evaluate_point_metric:
  assumes "evaluate_point hs now rule pt (st, h, events) = (st', h', events')" "ev \<in> set events'"
  shows "ev \<in> set events \<or> ev_Metric ev = r_Metric rule"
proof -
  obtain entry' event where t: "processTransition rule pt (case st (rule_key rule (mp_InstanceID pt)) of None \<Rightarrow> new_entry | Some en \<Rightarrow> en)
      (Compare (r_Operator rule) (mp_Value pt) (r_Threshold rule)) now = (entry', event)" by fastforce
  show ?thesis
  proof (cases event)
    case None
    then show ?thesis using assms t by (simp add: evaluate_point_def Let_def)
  next
    case (Some e)
    note m = transition_metric [OF t [unfolded Some]]
    show ?thesis
    proof (cases "recordEvent hs h e")
      case None
      then show ?thesis using assms t Some by (simp add: evaluate_point_def Let_def)
    next
      case (Some q)
      obtain h1 e1 where q: "q = (h1, e1)" by fastforce
      then have "events' = events @ [e1]" using assms(1) t Some \<open>event = Some e\<close> by (simp add: evaluate_point_def Let_def)
      then show ?thesis using assms(2) recordEvent_metric [OF Some [unfolded q]] m by auto
    qed
  qed
qed

lemma fold_point_metric:
  assumes "fold (evaluate_point hs now rule) pts (st, h, events) = (st', h', events')" "ev \<in> set events'"
  shows "ev \<in> set events \<or> ev_Metric ev = r_Metric rule \<and> pts \<noteq> []"
  using assms
proof (induction pts arbitrary: st h events)
  case (Cons p pts)
  obtain st1 h1 ev1 where s: "evaluate_point hs now rule p (st, h, events) = (st1, h1, ev1)" by (metis prod_cases3)
  have "fold (evaluate_point hs now rule) pts (st1, h1, ev1) = (st', h', events')" using Cons(2) s by simp
  from Cons(1) [OF this Cons(3)] show ?case using evaluate_point_metric [OF s] by auto
qed simp

lemma matching_metric: "findMatchingPoints (indexPoints points) rule \<noteq> [] \<Longrightarrow> \<exists>p\<in>set points. mp_Metric p = r_Metric rule"
  unfolding findMatchingPoints_eq by (auto simp: rule_points_def filter_empty_conv)

lemma evaluate_rules_metric:
  assumes "evaluate_rules hs now rules points (st, h, events) = (st', h', events')" "ev \<in> set events'"
  shows "ev \<in> set events \<or> (\<exists>p\<in>set points. mp_Metric p = ev_Metric ev)"
  using assms
proof (induction rules arbitrary: st h events)
  case Nil
  then show ?case by (simp add: evaluate_rules_def)
next
  case (Cons r rules)
  obtain st1 h1 ev1 where s: "fold (evaluate_point hs now r) (findMatchingPoints (indexPoints points) r) (st, h, events) = (st1, h1, ev1)" by (metis prod_cases3)
  have "evaluate_rules hs now rules points (st1, h1, ev1) = (st', h', events')" using Cons(2) s by (simp add: evaluate_rules_def)
  from Cons(1) [OF this Cons(3)] show ?case using fold_point_metric [OF s] matching_metric by metis
qed

text \<open>An event is about a metric of the batch.\<close>

lemma Evaluate_metric:
  assumes "Evaluate hs now clock points s = (s', events)" "ev \<in> set events"
  shows "\<exists>p\<in>set points. mp_Metric p = ev_Metric ev"
proof -
  obtain e h where s: "s = (e, h)" by fastforce
  obtain st h' evs where r: "evaluate_rules hs now (e_rules e) points (e_state e, h, []) = (st, h', evs)" by (metis prod_cases3)
  have "evs = events" "e_rules e \<noteq> [] \<and> points \<noteq> []" using assms s r by (auto simp: Evaluate_def split: if_splits)
  then show ?thesis using evaluate_rules_metric [OF r] assms(2) by auto
qed

lemma dispatch_all_events: "dispatch_all evs d = Some d' \<Longrightarrow> set (d_events d') \<subseteq> set (d_events d) \<union> set evs"
proof (induction evs arbitrary: d)
  case (Cons ev evs)
  then obtain d1 b where d1: "Dispatch ev d = Some (d1, b)" "dispatch_all evs d1 = Some d'" by (auto split: option.splits)
  have "set (d_events d1) \<subseteq> insert ev (set (d_events d))" using d1(1) by (auto simp: Dispatch_def split: if_splits)
  then show ?case using Cons(1) [OF d1(2)] by auto
qed simp

subsection \<open>Runs of the pipeline\<close>

text \<open>
  A server between the moment its dispatcher is empty and any later one: the groups of every instance collect, the runners of databases
  write, and the dispatcher takes events. What a group collects is about the instance, not about one of its databases: those are the names
  that begin with \<open>pg.db.\<close>, and only \<open>CollectDB\<close> uses them.
\<close>

definition instance_batch :: "MetricPoint list \<Rightarrow> bool" where
  "instance_batch = list_all (\<lambda>p. \<not> HasPrefix (mp_Metric p) ''pg.db.'')"

inductive pipeline_run :: "'h HistoryStore \<Rightarrow> 'h pipeline \<Rightarrow> bool" for hs where
  pr_start: "d_events (pl_disp p) = [] \<Longrightarrow> pipeline_run hs p"
| pr_group: "pipeline_run hs p \<Longrightarrow> (\<And>ic. gi_context io = Some ic \<Longrightarrow> instance_batch (group_batch io ic)) \<Longrightarrow> group_collect hs io p = Some p' \<Longrightarrow>
    pipeline_run hs p'"
| pr_databases: "pipeline_run hs p \<Longrightarrow> db_Run io (r, pl_rows p) = (r', rows) \<Longrightarrow> pipeline_run hs (p\<lparr>pl_rows := rows\<rparr>)"
| pr_turn: "pipeline_run hs p \<Longrightarrow> run_turn t1 t2 (pl_disp p, out) = Some (d, out') \<Longrightarrow> pipeline_run hs (p\<lparr>pl_disp := d\<rparr>)"

lemma run_turn_events: "run_turn t1 t2 (d, out) = Some (d', out') \<Longrightarrow> set (d_events d') \<subseteq> set (d_events d)"
  by (auto simp: run_turn_def processEvent_def recordCooldown_def Let_def split: list.splits if_splits)

lemma group_collect_cases:
  assumes "group_collect hs io p = Some p'"
  obtains "p' = p"
  | ic where "gi_acquired io" "gi_context io = Some ic" "group_batch io ic \<noteq> []" "gi_write io"
      "evaluateAlerts hs (gi_now io) (gi_clock io) (group_batch io ic) (p\<lparr>pl_rows := pg_copy (pl_rows p) (group_batch io ic)\<rparr>) = Some p'"
  using assms by (auto simp: group_collect_def pg_Write_def Let_def split: if_splits option.splits)

lemma evaluateAlerts_rows: "evaluateAlerts hs now clk points p = Some p' \<Longrightarrow> pl_rows p' = pl_rows p"
  by (auto simp: evaluateAlerts_def split: prod.splits)

lemma evaluateAlerts_events:
  assumes "evaluateAlerts hs now clk points p = Some p'" "ev \<in> set (d_events (pl_disp p'))"
  shows "ev \<in> set (d_events (pl_disp p)) \<or> (\<exists>pt\<in>set points. mp_Metric pt = ev_Metric ev)"
proof -
  obtain e events where e: "Evaluate hs now clk points (pl_eval p) = (e, events)" by fastforce
  then obtain d where d: "dispatch_all events (pl_disp p) = Some d" "p' = p\<lparr>pl_eval := e, pl_disp := d\<rparr>"
    using assms(1) by (auto simp: evaluateAlerts_def)
  show ?thesis using dispatch_all_events [OF d(1)] Evaluate_metric [OF e] assms(2) d(2) by auto
qed

lemma pipeline_run_events:
  assumes "pipeline_run hs p" "ev \<in> set (d_events (pl_disp p))"
  shows "\<not> HasPrefix (ev_Metric ev) ''pg.db.''"
  using assms
proof (induction rule: pipeline_run.induct)
  case (pr_group p io p')
  from pr_group.hyps(3) show ?case
  proof (cases rule: group_collect_cases)
    case 1
    then show ?thesis using pr_group by simp
  next
    case (2 ic)
    have b: "instance_batch (group_batch io ic)" using pr_group.hyps(2) 2(2) .
    from evaluateAlerts_events [OF 2(5) pr_group.prems] show ?thesis
    proof
      assume "ev \<in> set (d_events (pl_disp (p\<lparr>pl_rows := pg_copy (pl_rows p) (group_batch io ic)\<rparr>)))"
      then show ?thesis using pr_group.IH by simp
    next
      assume "\<exists>pt\<in>set (group_batch io ic). mp_Metric pt = ev_Metric ev"
      then show ?thesis using b unfolding instance_batch_def list_all_iff by metis
    qed
  qed
next
  case (pr_turn p t1 t2 out d out')
  then show ?case using run_turn_events by fastforce
qed simp_all

subsection \<open>Cycles of a group\<close>

lemma group_batch_fails:
  "gi_collectors io = cs1 @ c # cs2 \<Longrightarrow> c ic = None \<Longrightarrow> group_batch io ic = group_batch (io\<lparr>gi_collectors := cs1 @ cs2\<rparr>) ic"
  by (simp add: group_batch_def)

subsection \<open>Pools\<close>

text \<open>What eviction makes of one pool.\<close>

definition pool_kept :: "string list \<Rightarrow> DBRunner \<Rightarrow> string \<Rightarrow> bool" where
  "pool_kept seen r db \<longleftrightarrow> db \<in> set seen \<or> map_get 0 (db_lastSeen r) db + 1 < dbPoolTTLCycles"

lemma evict_pool_effect:
  "db_pools (evict_pool seen db r) = (if pool_kept seen r db then db_pools r else filter (\<lambda>x. x \<noteq> db) (db_pools r))"
  "map_of (db_lastSeen (evict_pool seen db r)) = (map_of (db_lastSeen r))
     (db := if db \<in> set seen then Some 0 else if pool_kept seen r db then Some (map_get 0 (db_lastSeen r) db + 1) else None)"
  by (auto simp: evict_pool_def pool_kept_def Let_def)

lemma map_get_cong: "map_of m = map_of m' \<Longrightarrow> map_get z m k = map_get z m' k"
  by (simp add: map_get_def)

lemma evict_pool_other: "x \<noteq> db \<Longrightarrow> pool_kept seen (evict_pool seen db r) x = pool_kept seen r x"
  "x \<noteq> db \<Longrightarrow> map_get 0 (db_lastSeen (evict_pool seen db r)) x = map_get 0 (db_lastSeen r) x"
  by (auto simp: pool_kept_def map_get_def evict_pool_effect(2))

lemma evict_fold:
  assumes "distinct dbs"
  shows "db_pools (fold (evict_pool seen) dbs r) = filter (\<lambda>x. x \<in> set dbs \<longrightarrow> pool_kept seen r x) (db_pools r) \<and>
    map_of (db_lastSeen (fold (evict_pool seen) dbs r)) =
      (\<lambda>x. if x \<in> set dbs then (if x \<in> set seen then Some 0 else if pool_kept seen r x then Some (map_get 0 (db_lastSeen r) x + 1) else None)
           else map_of (db_lastSeen r) x)"
  using assms
proof (induction dbs arbitrary: r)
  case (Cons db dbs)
  let ?r = "evict_pool seen db r"
  have n: "db \<notin> set dbs" and d: "distinct dbs" using Cons.prems by simp_all
  note IH = Cons.IH [OF d, of ?r]
  have k: "pool_kept seen ?r x = pool_kept seen r x \<and> map_get 0 (db_lastSeen ?r) x = map_get 0 (db_lastSeen r) x" if "x \<in> set dbs" for x
    using evict_pool_other that n by metis
  have "filter (\<lambda>x. x \<in> set dbs \<longrightarrow> pool_kept seen ?r x) (db_pools ?r) = filter (\<lambda>x. x \<in> set (db # dbs) \<longrightarrow> pool_kept seen r x) (db_pools r)"
    using k n by (auto simp: evict_pool_effect(1) intro!: filter_cong)
  moreover have "(\<lambda>x. if x \<in> set dbs then (if x \<in> set seen then Some 0 else if pool_kept seen ?r x then Some (map_get 0 (db_lastSeen ?r) x + 1) else None)
           else map_of (db_lastSeen ?r) x) =
     (\<lambda>x. if x \<in> set (db # dbs) then (if x \<in> set seen then Some 0 else if pool_kept seen r x then Some (map_get 0 (db_lastSeen r) x + 1) else None)
           else map_of (db_lastSeen r) x)"
    using k n by (auto simp: fun_eq_iff evict_pool_effect(2))
  ultimately show ?case using IH by simp
qed simp

lemma evictStalePools_exact:
  assumes "distinct (db_pools r)"
  shows "db_pools (evictStalePools seen r) = filter (pool_kept seen r) (db_pools r)"
    and "x \<in> set (db_pools r) \<Longrightarrow> map_of (db_lastSeen (evictStalePools seen r)) x =
      (if x \<in> set seen then Some 0 else if pool_kept seen r x then Some (map_get 0 (db_lastSeen r) x + 1) else None)"
  using evict_fold [OF assms, of seen r] by (auto simp: evictStalePools_def intro!: filter_cong)

text \<open>Runs over the databases keep the pools distinct, and a database that is not listed is only touched by eviction.\<close>

lemma open_pools_effect:
  assumes "open_pools jobs dbs (r, ready, c) = (r', ready', c')"
  shows "(distinct (db_pools r) \<longrightarrow> distinct (db_pools r')) \<and>
    (\<forall>db. db \<notin> set dbs \<longrightarrow> (db \<in> set (db_pools r') \<longleftrightarrow> db \<in> set (db_pools r)) \<and> map_of (db_lastSeen r') db = map_of (db_lastSeen r) db)"
  using assms
proof (induction dbs arbitrary: r ready c)
  case (Cons d dbs)
  show ?case
  proof (cases "getOrCreatePool (dj_pool (jobs d)) d r")
    case None
    then show ?thesis using Cons.prems Cons.IH [of r ready] by simp
  next
    case (Some r1)
    have "(distinct (db_pools r) \<longrightarrow> distinct (db_pools r1)) \<and>
      (\<forall>db. db \<noteq> d \<longrightarrow> (db \<in> set (db_pools r1) \<longleftrightarrow> db \<in> set (db_pools r)) \<and> map_of (db_lastSeen r1) db = map_of (db_lastSeen r) db)"
      using Some by (auto simp: getOrCreatePool_def split: if_splits)
    moreover have "open_pools jobs dbs (r1, ready @ [d], c) = (r', ready', c')" using Cons.prems Some by simp
    ultimately show ?thesis using Cons.IH [of r1] by auto
  qed
qed simp

definition missed_once :: "string \<Rightarrow> DBRunner \<Rightarrow> DBRunner \<Rightarrow> bool" where
  "missed_once db r r' \<longleftrightarrow> distinct (db_pools r') \<and>
     (db \<in> set (db_pools r') \<longleftrightarrow> db \<in> set (db_pools r) \<and> map_get 0 (db_lastSeen r) db + 1 < dbPoolTTLCycles) \<and>
     (db \<in> set (db_pools r') \<longrightarrow> map_get 0 (db_lastSeen r') db = map_get 0 (db_lastSeen r) db + 1)"

lemma db_Run_missing:
  assumes "distinct (db_pools r)" "dr_databases io = Some dbs" "db \<notin> set dbs" "db_Run io (r, rows) = (r', rows')"
  shows "missed_once db r r'"
proof -
  let ?dbs = "applyFilters r dbs"
  let ?r1 = "evictStalePools ?dbs r"
  obtain ready c where o: "open_pools (dr_jobs io) ?dbs (?r1, [], \<lparr>dc_collected = 0, dc_timeout = 0, dc_permission = 0, dc_other = 0\<rparr>) = (r', ready, c)"
    using assms(2,4) by (auto simp: db_Run_def Let_def split: prod.splits)
  have n: "db \<notin> set ?dbs" using assms(3) by (simp add: applyFilters_def)
  note e = evictStalePools_exact [OF assms(1), where seen = ?dbs]
  have "distinct (db_pools r')" using open_pools_effect [OF o] assms(1) by (simp add: e(1))
  moreover have "db \<in> set (db_pools r') \<longleftrightarrow> db \<in> set (db_pools ?r1)" "map_get 0 (db_lastSeen r') db = map_get 0 (db_lastSeen ?r1) db"
    using open_pools_effect [OF o] n by (simp_all add: map_get_def)
  moreover have "db \<in> set (db_pools ?r1) \<longleftrightarrow> db \<in> set (db_pools r) \<and> map_get 0 (db_lastSeen r) db + 1 < dbPoolTTLCycles"
    using n by (auto simp: e(1) pool_kept_def)
  moreover have "map_get 0 (db_lastSeen ?r1) db = map_get 0 (db_lastSeen r) db + 1" if "db \<in> set (db_pools ?r1)"
    using that e(2) [where x = db] n by (auto simp: e(1) pool_kept_def map_get_def)
  ultimately show ?thesis unfolding missed_once_def by simp
qed

definition unlisted :: "string \<Rightarrow> db_run_io \<Rightarrow> bool" where
  "unlisted db io = (case dr_databases io of None \<Rightarrow> False | Some dbs \<Rightarrow> db \<notin> set dbs)"

lemma db_Runs_missing:
  assumes "distinct (db_pools r)" "list_all (unlisted db) ios"
  shows "db \<in> set (db_pools (fst (fold db_Run ios (r, rows)))) \<longleftrightarrow>
    db \<in> set (db_pools r) \<and> (ios = [] \<or> map_get 0 (db_lastSeen r) db + length ios < dbPoolTTLCycles)"
  using assms
proof (induction ios arbitrary: r rows)
  case (Cons io ios)
  obtain dbs where dbs: "dr_databases io = Some dbs" "db \<notin> set dbs" using Cons.prems(2) by (auto simp: unlisted_def split: option.splits)
  obtain r1 rows1 where r1: "db_Run io (r, rows) = (r1, rows1)" by fastforce
  note m = db_Run_missing [OF Cons.prems(1) dbs r1, unfolded missed_once_def]
  have "db \<in> set (db_pools (fst (fold db_Run ios (r1, rows1)))) \<longleftrightarrow>
    db \<in> set (db_pools r1) \<and> (ios = [] \<or> map_get 0 (db_lastSeen r1) db + length ios < dbPoolTTLCycles)"
    using Cons.IH [of r1] m Cons.prems(2) by simp
  then show ?case using m r1 by (cases ios) auto
qed simp

subsection \<open>Reload\<close>

lemma launch_effect:
  "or_runners (launch connect cfg o1) = (case make_runner connect (or_osMethod o1) cfg of None \<Rightarrow> or_runners o1 | Some r \<Rightarrow> map_put (ic_ID cfg) r (or_runners o1))"
  "or_loops (launch connect cfg o1) = or_loops o1 @ (if make_runner connect (or_osMethod o1) cfg = None then [] else [ic_ID cfg])"
  "or_osMethod (launch connect cfg o1) = or_osMethod o1"
  by (auto simp: launch_def split: option.splits)

definition start_missing :: "(InstanceConfig \<Rightarrow> PGVersion option) \<Rightarrow> InstanceRecord \<Rightarrow> Orchestrator \<Rightarrow> Orchestrator" where
  "start_missing connect rec0 o1 = (if map_of (or_runners o1) (ir_ID rec0) \<noteq> None then o1 else launch connect (reload_config rec0) o1)"

definition started :: "(InstanceConfig \<Rightarrow> PGVersion option) \<Rightarrow> Orchestrator \<Rightarrow> InstanceRecord \<Rightarrow> bool" where
  "started connect o1 rec0 \<longleftrightarrow> map_of (or_runners o1) (ir_ID rec0) = None \<and> make_runner connect (or_osMethod o1) (reload_config rec0) \<noteq> None"

lemma reload_config_ID [simp]: "ic_ID (reload_config rec0) = ir_ID rec0"
  by (simp add: reload_config_def)

lemma start_missing_effect:
  "map_of (or_runners (start_missing connect rec0 o1)) i =
     (if i = ir_ID rec0 \<and> map_of (or_runners o1) i = None then make_runner connect (or_osMethod o1) (reload_config rec0) else map_of (or_runners o1) i)"
  "or_loops (start_missing connect rec0 o1) = or_loops o1 @ (if started connect o1 rec0 then [ir_ID rec0] else [])"
  "or_osMethod (start_missing connect rec0 o1) = or_osMethod o1"
  "wf_map (or_runners o1) \<Longrightarrow> wf_map (or_runners (start_missing connect rec0 o1))"
  by (auto simp: start_missing_def started_def launch_effect split: option.splits)

lemma start_all_effect:
  assumes "distinct (map ir_ID recs)"
  shows "(\<forall>i. map_of (or_runners (fold (start_missing connect) recs o1)) i =
      (case map_of (or_runners o1) i of Some r \<Rightarrow> Some r
       | None \<Rightarrow> Option.bind (find (\<lambda>rec0. ir_ID rec0 = i) recs) (\<lambda>rec0. make_runner connect (or_osMethod o1) (reload_config rec0)))) \<and>
    or_loops (fold (start_missing connect) recs o1) = or_loops o1 @ map ir_ID (filter (started connect o1) recs) \<and>
    (wf_map (or_runners o1) \<longrightarrow> wf_map (or_runners (fold (start_missing connect) recs o1)))"
  using assms
proof (induction recs arbitrary: o1)
  case Nil
  then show ?case by (simp split: option.splits)
next
  case (Cons rec0 recs)
  let ?o = "start_missing connect rec0 o1"
  have d: "distinct (map ir_ID recs)" and n: "ir_ID rec0 \<notin> ir_ID ` set recs" using Cons.prems by simp_all
  note IH = Cons.IH [OF d, of ?o]
  have "filter (started connect ?o) recs = filter (started connect o1) recs"
    using n by (intro filter_cong) (auto simp: started_def start_missing_effect image_iff)
  then have loops: "or_loops (fold (start_missing connect) (rec0 # recs) o1) = or_loops o1 @ map ir_ID (filter (started connect o1) (rec0 # recs))"
    using IH by (simp add: start_missing_effect)
  have "find (\<lambda>x. ir_ID x = ir_ID rec0) recs = None" using n by (auto simp: find_None_iff image_iff)
  then have "map_of (or_runners (fold (start_missing connect) (rec0 # recs) o1)) i =
      (case map_of (or_runners o1) i of Some r \<Rightarrow> Some r
       | None \<Rightarrow> Option.bind (find (\<lambda>r. ir_ID r = i) (rec0 # recs)) (\<lambda>rec0. make_runner connect (or_osMethod o1) (reload_config rec0)))" for i
    using IH by (auto simp: start_missing_effect split: option.splits)
  then show ?case using loops IH start_missing_effect(4) by auto
qed

lemma reload_start: "reload connect (Some rs) o1 =
    fold (start_missing connect) (desired_instances rs) (o1\<lparr>or_runners := filter (\<lambda>(i, r). i \<in> ir_ID ` set (desired_instances rs)) (or_runners o1)\<rparr>)"
  by (simp add: reload_def start_missing_def [abs_def] Let_def)

lemma map_of_filter_keys: "map_of (filter (\<lambda>(i, r). i \<in> S) m) k = (if k \<in> S then map_of m k else None)"
  by (induction m) auto

lemma wf_filter_keys: "wf_map m \<Longrightarrow> wf_map (filter (\<lambda>(i, r). i \<in> S) m)"
  by (induction m) auto

subsection \<open>Names of databases in connection strings\<close>

lemma replace_dbname_words: "word db \<Longrightarrow> list_all word ps \<Longrightarrow> list_all word (replace_dbname db ps)"
  by (induction ps) (auto simp: word_def is_space_def)

lemma HasPrefix_dbname [simp]: "HasPrefix (''dbname='' @ db) ''dbname=''"
  by (simp add: HasPrefix_def)

lemma replace_dbname_find: "find (\<lambda>p. HasPrefix p ''dbname='') (replace_dbname db ps) = Some (''dbname='' @ db)"
  by (induction ps) (simp_all add: HasPrefix_def)

lemma replace_dbname_others:
  "filter (\<lambda>p. \<not> HasPrefix p ''dbname='') (replace_dbname db ps) = filter (\<lambda>p. \<not> HasPrefix p ''dbname='') ps"
  by (induction ps) (simp_all add: HasPrefix_def)

text \<open>In a connection string of keywords the first name of a database is replaced, or one is added, and every other field stays; a name with a
  space is not quoted and breaks apart.\<close>

lemma substitute_dbname:
  assumes "\<not> HasPrefix dsn ''postgres://''" "\<not> HasPrefix dsn ''postgresql://''" "word db"
  shows "find (\<lambda>p. HasPrefix p ''dbname='') (Fields (substituteDBName lib dsn db)) = Some (''dbname='' @ db)"
    and "filter (\<lambda>p. \<not> HasPrefix p ''dbname='') (Fields (substituteDBName lib dsn db)) = filter (\<lambda>p. \<not> HasPrefix p ''dbname='') (Fields dsn)"
proof -
  have "Fields (substituteDBName lib dsn db) = replace_dbname db (Fields dsn)"
    using assms(1,2) Fields_Join [OF replace_dbname_words [OF assms(3) Fields_list_words]] by (simp add: substituteDBName_def)
  then show "find (\<lambda>p. HasPrefix p ''dbname='') (Fields (substituteDBName lib dsn db)) = Some (''dbname='' @ db)"
    "filter (\<lambda>p. \<not> HasPrefix p ''dbname='') (Fields (substituteDBName lib dsn db)) = filter (\<lambda>p. \<not> HasPrefix p ''dbname='') (Fields dsn)"
    by (simp_all only: replace_dbname_find replace_dbname_others)
qed

lemma substitute_dbname_space: "Fields (substituteDBName lib ''host=db dbname=x'' ''my app'') = [''host=db'', ''dbname=my'', ''app'']"
proof -
  have "Fields (Join '' '' (replace_dbname ''my app'' (Fields ''host=db dbname=x''))) = [''host=db'', ''dbname=my'', ''app'']" by code_simp
  then show ?thesis by (simp add: substituteDBName_def HasPrefix_def)
qed

lemma builtin_database_rules: "length (filter (\<lambda>r. HasPrefix (r_Metric r) ''pg.db.'') BuiltinRules) = 3"
proof -
  have "length (filter (\<lambda>m. HasPrefix m ''pg.db.'') (map r_Metric BuiltinRules)) = 3" unfolding builtin_metrics by code_simp
  then show ?thesis by (simp add: filter_map o_def)
qed

subsection \<open>Properties\<close>


text \<open>C34: A pool whose database is no longer listed is closed in the third run over the databases that misses it, and not before; a run in
  which the list cannot be read does not count.\<close>

theorem stale_pool_evicted:
  assumes "distinct (db_pools r)" "db \<in> set (db_pools r)" "map_of (db_lastSeen r) db = Some 0" "list_all (unlisted db) ios"
  shows "db \<in> set (db_pools (fst (fold db_Run ios (r, rows)))) \<longleftrightarrow> length ios < 3"
  using db_Runs_missing [OF assms(1,4)] assms(2,3) by (auto simp: map_get_def dbPoolTTLCycles_def)

text \<open>C31: After a reload the runners are exactly those of the enabled instances of the store: a runner that was there is kept as it is,
  even if its connection string has changed, and a missing one is built from the record, with default intervals and none of the options of the
  configuration file, if its instance can be reached. Loops are only ever added: those of a stopped instance go on.\<close>

theorem reload_exact:
  assumes "wf_map (or_runners o1)" "distinct (map ir_ID rs)" "reload connect (Some rs) o1 = o2"
  shows "map_of (or_runners o2) i =
      Option.bind (find (\<lambda>rec0. ir_ID rec0 = i) (desired_instances rs))
        (\<lambda>rec0. case map_of (or_runners o1) i of Some r \<Rightarrow> Some r | None \<Rightarrow> make_runner connect (or_osMethod o1) (reload_config rec0)) \<and>
    wf_map (or_runners o2) \<and>
    or_loops o2 = or_loops o1 @ map ir_ID (filter (started connect o1) (desired_instances rs))"
proof -
  let ?ds = "desired_instances rs"
  let ?o = "o1\<lparr>or_runners := filter (\<lambda>(i, r). i \<in> ir_ID ` set ?ds) (or_runners o1)\<rparr>"
  have d: "distinct (map ir_ID ?ds)" using assms(2) by (auto simp: desired_instances_def distinct_map inj_on_def)
  have m: "map_of (or_runners ?o) k = (if k \<in> ir_ID ` set ?ds then map_of (or_runners o1) k else None)" for k
    by (simp add: map_of_filter_keys)
  have w: "wf_map (or_runners ?o)" using assms(1) by (simp add: wf_filter_keys)
  have "started connect ?o x = started connect o1 x" if "x \<in> set ?ds" for x using m [of "ir_ID x"] that by (simp add: started_def del: map_of_eq_None_iff)
  then have f: "filter (started connect ?o) ?ds = filter (started connect o1) ?ds" by (intro filter_cong) simp_all
  have n: "find (\<lambda>rec0. ir_ID rec0 = i) ?ds = None \<longleftrightarrow> i \<notin> ir_ID ` set ?ds" by (auto simp: find_None_iff image_iff)
  note e = start_all_effect [OF d, of connect ?o, folded reload_start, unfolded assms(3) f]
  have "map_of (or_runners o2) i = Option.bind (find (\<lambda>rec0. ir_ID rec0 = i) ?ds)
        (\<lambda>rec0. case map_of (or_runners o1) i of Some r \<Rightarrow> Some r | None \<Rightarrow> make_runner connect (or_osMethod o1) (reload_config rec0))"
    using n e m [of i] by (cases "find (\<lambda>rec0. ir_ID rec0 = i) ?ds") (simp_all split: option.splits)
  then show ?thesis using e w by simp
qed

subsection \<open>Witnesses\<close>

definition demo_answers :: db_answers where
  "demo_answers = \<lparr>da_timeout = True, da_largeObjects = None, da_trackFunctions = None, da_functions = QueryFails, da_sequences = QueryFails, da_schemas = QueryFails,
     da_unlogged = QueryFails, da_tables = QueryFails, da_bloat = QueryFails, da_catalog = QueryFails, da_cache = QueryFails, da_options = QueryFails,
     da_vacuum = QueryFails, da_indexes = QueryFails, da_unused = QueryFails, da_toast = QueryFails, da_partitions = QueryFails, da_lobs = None,
     da_subscriptions = Answer [Some (), Some ()] True\<rparr>"

definition demo_db_run :: "string list \<Rightarrow> db_run_io" where
  "demo_db_run dbs = \<lparr>dr_databases = Some dbs, dr_jobs = (\<lambda>_. \<lparr>dj_pool = True, dj_clock = (\<lambda>_. 1000), dj_answers = demo_answers, dj_error = ''timeout'', dj_write = True\<rparr>),
     dr_order = (\<lambda>x. x), dr_now = 1000, dr_write = True\<rparr>"

definition demo_runner :: "string list \<Rightarrow> DBRunner" where
  "demo_runner dbs = \<lparr>db_instanceID = ''db1'', db_baseDSN = ''host=db'', db_include = [], db_exclude = [], db_pools = dbs, db_lastSeen = map (\<lambda>d. (d, 0)) dbs\<rparr>"

definition demo_pipeline :: "metrics_table \<Rightarrow> PGHistory pipeline" where
  "demo_pipeline rows = \<lparr>pl_rows = rows, pl_eval = (NewEvaluator, \<lparr>pg_rows = [], pg_next_id = 1, pg_up = True\<rparr>), pl_disp = NewDispatcher [] [] 15\<rparr>"

lemma demo_CollectDB:
  "CollectDB clk db demo_answers = Some ([dbPoint (clk 0) ''db.logical_replication.pending_sync_tables'' 2 db []], 16)"
  by (simp add: CollectDB_def demo_answers_def sub_collectors_def db_emit_def collectLargeObjects_def collectFunctionStats_def collectSequences_def
      collectSchemaSizes_def collectUnloggedObjects_def collectTableSizes_def collectBloat_def collectCatalogSizes_def collectTableCacheHit_def
      collectAutovacuumOptions_def collectVacuumNeed_def collectIndexUsage_def collectUnusedIndexes_def collectToastSizes_def collectPartitions_def
      collectLargeObjectSizes_def collectLogicalReplication_def per_row_def)


theorem stale_pool_evicted_witness:
  "''app'' \<in> set (db_pools (fst (fold db_Run [demo_db_run [], demo_db_run [''b'']] (demo_runner [''app''], [])))) \<and>
   ''app'' \<notin> set (db_pools (fst (fold db_Run [demo_db_run [], demo_db_run [''b''], demo_db_run []] (demo_runner [''app''], []))))"
proof -
  have r: "distinct (db_pools (demo_runner [''app'']))" "''app'' \<in> set (db_pools (demo_runner [''app'']))" "map_of (db_lastSeen (demo_runner [''app''])) ''app'' = Some 0"
    by (simp_all add: demo_runner_def)
  have u: "list_all (unlisted ''app'') [demo_db_run [], demo_db_run [''b'']]" "list_all (unlisted ''app'') [demo_db_run [], demo_db_run [''b''], demo_db_run []]"
    by (simp_all add: unlisted_def demo_db_run_def)
  have n: "length [demo_db_run [], demo_db_run [''b'']] < 3" "\<not> length [demo_db_run [], demo_db_run [''b''], demo_db_run []] < 3" by simp_all
  show ?thesis using stale_pool_evicted [OF r u(1), of "[]"] stale_pool_evicted [OF r u(2), of "[]"] n by blast
qed

theorem reload_exact_witness:
  "let o2 = reload (\<lambda>cfg. Some demo_version) (Some [demo_row]) (New_orchestrator [] ''sql'') in
   map_option (\<lambda>r. ic_DSN (rn_cfg r)) (map_of (or_runners o2) ''db1'') = Some ''host=db port=5433'' \<and> or_loops o2 = [''db1'']"
  using reload_exact [of "New_orchestrator [] ''sql''" "[demo_row]" "\<lambda>cfg. Some demo_version" _ "''db1''", OF _ _ refl]
  by (simp add: New_orchestrator_def desired_instances_def demo_row_def make_runner_def reload_config_def started_def Let_def)

end
