(* ===== verification/ApiRoutes.thy ===== *)
theory ApiRoutes
  imports UserAdmin
begin

section \<open>The router of the API (\<open>internal/api/server.go\<close>, \<open>middleware.go\<close>, \<open>session_actions.go\<close>)\<close>

text \<open>
  The server with its optional parts, the routes it registers and the middleware in front of each, and the middleware around the router.
  Which registered route serves a request is the router's business (\<open>chi\<close>, a library): statements are about every registered route.
\<close>

subsection \<open>The server\<close>

text \<open>A flag says that a part is there; the code compares its pointer or interface with \<open>nil\<close>.\<close>

record APIServer =
  ap_authEnabled :: bool
  ap_authMode :: AuthMode
  ap_rateLimiter :: "RateLimiter option"
  ap_cors :: "string option"
  ap_storage :: bool
  ap_alertRuleStore :: bool
  ap_instanceStore :: bool
  ap_connProvider :: bool
  ap_planStore :: bool
  ap_snapshotStore :: bool
  ap_mlDetector :: bool
  ap_remediationEngine :: bool
  ap_pgssStore :: bool
  ap_pgssCapturer :: bool
  ap_rcaEngine :: bool
  ap_playbookStore :: bool
  ap_forecastEngine :: bool
  ap_retention :: "duration option"

definition New_api :: "bool \<Rightarrow> string option \<Rightarrow> bool \<Rightarrow> bool \<Rightarrow> bool \<Rightarrow> duration option \<Rightarrow> AuthMode \<Rightarrow> APIServer" where
  "New_api authEnabled cors storage alertRules instanceStore live authMode =
     \<lparr>ap_authEnabled = authEnabled, ap_authMode = authMode,
      ap_rateLimiter = (if authEnabled \<and> authMode = AuthEnabled then Some (NewRateLimiter 10 (15 * Minute)) else None),
      ap_cors = cors, ap_storage = storage, ap_alertRuleStore = alertRules, ap_instanceStore = instanceStore, ap_connProvider = False,
      ap_planStore = False, ap_snapshotStore = False, ap_mlDetector = False, ap_remediationEngine = False, ap_pgssStore = False,
      ap_pgssCapturer = False, ap_rcaEngine = False, ap_playbookStore = False, ap_forecastEngine = False, ap_retention = live\<rparr>"

definition SetConnProvider :: "APIServer \<Rightarrow> APIServer" where
  "SetConnProvider s = s\<lparr>ap_connProvider := True\<rparr>"

definition SetPlanStore :: "APIServer \<Rightarrow> APIServer" where
  "SetPlanStore s = s\<lparr>ap_planStore := True\<rparr>"

definition SetSnapshotStore :: "APIServer \<Rightarrow> APIServer" where
  "SetSnapshotStore s = s\<lparr>ap_snapshotStore := True\<rparr>"

definition SetMLDetector :: "APIServer \<Rightarrow> APIServer" where
  "SetMLDetector s = s\<lparr>ap_mlDetector := True\<rparr>"

definition SetRemediation :: "APIServer \<Rightarrow> APIServer" where
  "SetRemediation s = s\<lparr>ap_remediationEngine := True\<rparr>"

definition SetPGSSStore :: "APIServer \<Rightarrow> APIServer" where
  "SetPGSSStore s = s\<lparr>ap_pgssStore := True\<rparr>"

definition SetPGSSCapturer :: "APIServer \<Rightarrow> APIServer" where
  "SetPGSSCapturer s = s\<lparr>ap_pgssCapturer := True\<rparr>"

text \<open>The engine may be a nil pointer.\<close>

definition SetRCA :: "bool \<Rightarrow> APIServer \<Rightarrow> APIServer" where
  "SetRCA engine s = s\<lparr>ap_rcaEngine := engine\<rparr>"

definition SetPlaybooks :: "APIServer \<Rightarrow> APIServer" where
  "SetPlaybooks s = s\<lparr>ap_playbookStore := True\<rparr>"

definition SetForecastEngine :: "APIServer \<Rightarrow> APIServer" where
  "SetForecastEngine s = s\<lparr>ap_forecastEngine := True\<rparr>"

subsection \<open>Routes\<close>

text \<open>Method, pattern and handler, in the order of the code. The patterns of nested routers are written out.\<close>

definition live_routes :: "(string \<times> string \<times> string) list" where
  "live_routes =
     [(''GET'', ''/auth/me'', ''handleMe''), (''GET'', ''/instances'', ''handleListInstances''), (''GET'', ''/instances/{id}'', ''handleGetInstance''),
      (''GET'', ''/instances/{id}/metrics'', ''handleQueryMetrics''), (''GET'', ''/instances/{id}/metrics/current'', ''handleCurrentMetrics''),
      (''GET'', ''/instances/{id}/metrics/history'', ''handleMetricsHistory''),
      (''GET'', ''/instances/{id}/metrics/{metric}/forecast'', ''handleGetMetricForecast''), (''GET'', ''/instances/{id}/replication'', ''handleReplication''),
      (''GET'', ''/instances/{id}/activity/wait-events'', ''handleWaitEvents''),
      (''GET'', ''/instances/{id}/activity/long-transactions'', ''handleLongTransactions''),
      (''GET'', ''/instances/{id}/activity/statements'', ''handleStatements''), (''GET'', ''/instances/{id}/activity/locks'', ''handleLockTree''),
      (''GET'', ''/instances/{id}/activity/progress'', ''handleProgress''), (''GET'', ''/instances/{id}/os'', ''handleOSMetrics''),
      (''GET'', ''/instances/{id}/cluster'', ''handleClusterMetrics''), (''GET'', ''/instances/{id}/databases'', ''handleListDatabases''),
      (''GET'', ''/instances/{id}/databases/{dbname}/metrics'', ''handleGetDatabaseMetrics''),
      (''GET'', ''/instances/{id}/logical-replication'', ''handleLogicalReplication'')]"

definition plan_routes :: "(string \<times> string \<times> string) list" where
  "plan_routes =
     [(''GET'', ''/instances/{id}/plans'', ''handleListPlans''), (''GET'', ''/instances/{id}/plans/regressions'', ''handleListRegressions''),
      (''GET'', ''/instances/{id}/plans/{plan_id}'', ''handleGetPlan'')]"

definition settings_routes :: "(string \<times> string \<times> string) list" where
  "settings_routes =
     [(''GET'', ''/instances/{id}/settings/history'', ''handleSettingsHistory''), (''GET'', ''/instances/{id}/settings/diff'', ''handleSettingsDiff''),
      (''GET'', ''/instances/{id}/settings/latest'', ''handleSettingsLatest''),
      (''GET'', ''/instances/{id}/settings/pending-restart'', ''handleSettingsPendingRestart'')]"

definition statement_routes :: "(string \<times> string \<times> string) list" where
  "statement_routes =
     [(''GET'', ''/instances/{id}/snapshots/diff'', ''handleSnapshotDiff''), (''GET'', ''/instances/{id}/snapshots/latest-diff'', ''handleLatestDiff''),
      (''GET'', ''/instances/{id}/snapshots'', ''handleListSnapshots''), (''GET'', ''/instances/{id}/snapshots/{snapId}'', ''handleGetSnapshot''),
      (''GET'', ''/instances/{id}/query-insights/{queryid}'', ''handleQueryInsights''),
      (''GET'', ''/instances/{id}/workload-report/html'', ''handleWorkloadReportHTML''),
      (''GET'', ''/instances/{id}/workload-report'', ''handleWorkloadReport'')]"

definition management_routes :: "(string \<times> string \<times> string) list" where
  "management_routes =
     [(''POST'', ''/instances/{id}/plans/capture'', ''handleManualCapture''),
      (''POST'', ''/instances/{id}/settings/snapshot'', ''handleSettingsManualSnapshot''),
      (''POST'', ''/instances/{id}/snapshots/capture'', ''handleManualSnapshotCapture''),
      (''POST'', ''/instances/{id}/sessions/{pid}/cancel'', ''handleSessionCancel''),
      (''POST'', ''/instances/{id}/sessions/{pid}/terminate'', ''handleSessionTerminate''), (''POST'', ''/instances/{id}/explain'', ''handleExplain'')]"

definition alert_reads :: "(string \<times> string \<times> string) list" where
  "alert_reads =
     [(''GET'', ''/alerts'', ''handleGetActiveAlerts''), (''GET'', ''/alerts/history'', ''handleGetAlertHistory''),
      (''GET'', ''/alerts/rules'', ''handleGetAlertRules'')]"

definition alert_writes :: "(string \<times> string \<times> string) list" where
  "alert_writes =
     [(''POST'', ''/alerts/rules'', ''handleCreateAlertRule''), (''PUT'', ''/alerts/rules/{id}'', ''handleUpdateAlertRule''),
      (''DELETE'', ''/alerts/rules/{id}'', ''handleDeleteAlertRule''), (''POST'', ''/alerts/test'', ''handleTestNotification'')]"

definition advice_reads :: "(string \<times> string \<times> string) list" where
  "advice_reads =
     [(''GET'', ''/instances/{id}/recommendations'', ''handleListRecommendations''), (''POST'', ''/instances/{id}/diagnose'', ''handleDiagnose''),
      (''GET'', ''/recommendations'', ''handleListAllRecommendations''), (''GET'', ''/recommendations/rules'', ''handleListRemediationRules'')]"

definition advice_writes :: "(string \<times> string \<times> string) list" where
  "advice_writes =
     [(''PUT'', ''/recommendations/{id}/acknowledge'', ''handleAcknowledgeRecommendation'')]"

definition rca_reads :: "(string \<times> string \<times> string) list" where
  "rca_reads =
     [(''POST'', ''/instances/{id}/rca/analyze'', ''handleRCAAnalyze''), (''GET'', ''/instances/{id}/rca/incidents'', ''handleRCAListIncidents''),
      (''GET'', ''/instances/{id}/rca/incidents/{incidentId}'', ''handleRCAGetIncident''), (''GET'', ''/rca/incidents'', ''handleRCAListAllIncidents''),
      (''GET'', ''/rca/graph'', ''handleRCAGetGraph'')]"

definition rca_writes :: "(string \<times> string \<times> string) list" where
  "rca_writes =
     [(''PUT'', ''/rca/incidents/{incidentId}/review'', ''handleRCAReviewIncident'')]"

definition playbook_lists :: "(string \<times> string \<times> string) list" where
  "playbook_lists =
     [(''GET'', ''/playbooks'', ''handleListPlaybooks''), (''GET'', ''/playbooks/resolve'', ''handleResolvePlaybook'')]"

definition playbook_create :: "(string \<times> string \<times> string) list" where
  "playbook_create =
     [(''POST'', ''/playbooks'', ''handleCreatePlaybook'')]"

definition playbook_get :: "(string \<times> string \<times> string) list" where
  "playbook_get =
     [(''GET'', ''/playbooks/{id}'', ''handleGetPlaybook'')]"

definition playbook_edit :: "(string \<times> string \<times> string) list" where
  "playbook_edit =
     [(''PUT'', ''/playbooks/{id}'', ''handleUpdatePlaybook''), (''POST'', ''/playbooks/{id}/deprecate'', ''handleDeprecatePlaybook'')]"

definition playbook_admin :: "(string \<times> string \<times> string) list" where
  "playbook_admin =
     [(''DELETE'', ''/playbooks/{id}'', ''handleDeletePlaybook''), (''POST'', ''/playbooks/{id}/promote'', ''handlePromotePlaybook'')]"

definition run_routes :: "(string \<times> string \<times> string) list" where
  "run_routes =
     [(''POST'', ''/instances/{id}/playbooks/{playbookId}/run'', ''handleStartRun''), (''GET'', ''/instances/{id}/playbook-runs'', ''handleListInstanceRuns''),
      (''GET'', ''/playbook-runs'', ''handleListAllRuns''), (''GET'', ''/playbook-runs/{runId}'', ''handleGetRun''),
      (''POST'', ''/playbook-runs/{runId}/abandon'', ''handleAbandonRun''), (''POST'', ''/playbook-runs/{runId}/feedback'', ''handleSubmitFeedback''),
      (''POST'', ''/playbook-runs/{runId}/steps/{stepOrder}/execute'', ''handleExecuteStep''),
      (''POST'', ''/playbook-runs/{runId}/steps/{stepOrder}/skip'', ''handleSkipStep''),
      (''POST'', ''/playbook-runs/{runId}/steps/{stepOrder}/retry'', ''handleRetryStep''),
      (''POST'', ''/playbook-runs/{runId}/steps/{stepOrder}/request-approval'', ''handleRequestApproval'')]"

definition confirm_routes :: "(string \<times> string \<times> string) list" where
  "confirm_routes =
     [(''POST'', ''/playbook-runs/{runId}/steps/{stepOrder}/confirm'', ''handleConfirmStep''),
      (''POST'', ''/playbook-runs/{runId}/steps/{stepOrder}/approve'', ''handleApproveStep'')]"

definition forecast_routes :: "(string \<times> string \<times> string) list" where
  "forecast_routes =
     [(''GET'', ''/instances/{id}/forecast/eta'', ''handleForecastETA''), (''GET'', ''/instances/{id}/forecast/eta/{pid}'', ''handleForecastETAByPID''),
      (''GET'', ''/instances/{id}/forecast/needs'', ''handleForecastNeeds''),
      (''GET'', ''/instances/{id}/forecast/needs/{database}/{table}'', ''handleForecastNeedsForTable''),
      (''GET'', ''/instances/{id}/forecast/history'', ''handleForecastHistory'')]"

definition instance_writes :: "(string \<times> string \<times> string) list" where
  "instance_writes =
     [(''POST'', ''/instances'', ''handleCreateInstance''), (''PUT'', ''/instances/{id}'', ''handleUpdateInstance''),
      (''DELETE'', ''/instances/{id}'', ''handleDeleteInstance''), (''POST'', ''/instances/bulk'', ''handleBulkImport''),
      (''POST'', ''/instances/{id}/test'', ''handleTestConnection'')]"

definition user_routes :: "(string \<times> string \<times> string) list" where
  "user_routes =
     [(''POST'', ''/auth/register'', ''handleRegister''), (''GET'', ''/auth/users'', ''handleListUsers''),
      (''PUT'', ''/auth/users/{id}'', ''handleUpdateUser''), (''DELETE'', ''/auth/users/{id}'', ''handleDeleteUser''),
      (''PUT'', ''/auth/users/{id}/password'', ''handleAdminResetPassword'')]"

definition password_route :: "(string \<times> string \<times> string) list" where
  "password_route =
     [(''PUT'', ''/auth/me/password'', ''handleChangePassword'')]"

datatype guard = RateLimited | NeedToken | NeedPermission Permission | ImplicitAdmin

datatype route = Route (rt_method: string) (rt_pattern: string) (rt_guards: "guard list") (rt_handler: string)

definition guarded :: "guard list \<Rightarrow> (string \<times> string \<times> string) list \<Rightarrow> route list" where
  "guarded gs rs = map (\<lambda>(m, p, h). Route m p gs h) rs"

abbreviation "viewer \<equiv> guarded [NeedToken]"
abbreviation "holder perm \<equiv> guarded [NeedToken, NeedPermission perm]"
abbreviation "anyone \<equiv> guarded [ImplicitAdmin]"

definition only_if :: "bool \<Rightarrow> 'a list \<Rightarrow> 'a list" where
  "only_if b xs = (if b then xs else [])"

definition public_routes :: "route list" where
  "public_routes = guarded [] [(''GET'', ''/health'', ''handleHealth''), (''GET'', ''/system/mode'', ''handleSystemMode'')]"

definition auth_routes :: "APIServer \<Rightarrow> route list" where
  "auth_routes s =
     guarded [RateLimited] [(''POST'', ''/auth/login'', ''handleLogin'')] @ guarded [] [(''POST'', ''/auth/refresh'', ''handleRefresh'')] @
     viewer (live_routes @ plan_routes @ settings_routes @ statement_routes) @ holder PermInstanceManagement management_routes @
     only_if (ap_alertRuleStore s) (viewer alert_reads @ holder PermAlertManagement alert_writes) @
     only_if (ap_remediationEngine s) (viewer advice_reads @ holder PermAlertManagement advice_writes) @
     only_if (ap_rcaEngine s) (viewer rca_reads @ holder PermAlertManagement rca_writes) @
     only_if (ap_playbookStore s)
       (viewer playbook_lists @ holder PermAlertManagement playbook_create @ viewer playbook_get @ holder PermAlertManagement playbook_edit @
        holder PermUserManagement playbook_admin @ viewer run_routes @ holder PermInstanceManagement confirm_routes) @
     only_if (ap_forecastEngine s) (viewer forecast_routes) @
     only_if (ap_instanceStore s) (holder PermInstanceManagement instance_writes) @
     holder PermUserManagement user_routes @ viewer password_route"

definition stub_routes :: "(string \<times> string \<times> string) list" where
  "stub_routes = [(''POST'', ''/auth/login'', ''stub''), (''POST'', ''/auth/refresh'', ''stub'')]"

definition open_routes :: "APIServer \<Rightarrow> route list" where
  "open_routes s =
     guarded [] stub_routes @
     anyone (live_routes @ plan_routes @ take 1 management_routes @ settings_routes @ take 1 (drop 1 management_routes) @ statement_routes @
       drop 2 management_routes) @
     only_if (ap_alertRuleStore s) (anyone (alert_reads @ alert_writes)) @
     only_if (ap_remediationEngine s) (anyone (advice_reads @ advice_writes)) @
     only_if (ap_rcaEngine s) (anyone (rca_reads @ rca_writes)) @
     only_if (ap_playbookStore s)
       (anyone (playbook_lists @ playbook_create @ playbook_get @ take 1 playbook_edit @ playbook_admin @ drop 1 playbook_edit @ run_routes @ confirm_routes)) @
     only_if (ap_forecastEngine s) (anyone forecast_routes) @
     only_if (ap_instanceStore s) (anyone instance_writes)"

definition api_routes :: "APIServer \<Rightarrow> route list" where
  "api_routes s = public_routes @ (if ap_authEnabled s then auth_routes s else open_routes s)"

text \<open>Everything outside \<open>/api/v1\<close> is the front end, for every method.\<close>

definition api_prefix :: string where
  "api_prefix = ''/api/v1''"

definition Routes :: "APIServer \<Rightarrow> route list" where
  "Routes s = map (\<lambda>r. Route (rt_method r) (api_prefix @ rt_pattern r) (rt_guards r) (rt_handler r)) (api_routes s) @ [Route ''*'' ''/*'' [] ''staticHandler'']"

subsection \<open>Guards of a route\<close>

text \<open>The guards in their order, with the limiter and the claims in the context of the request. A full window answers 429.\<close>

fun pass_guards :: "jwt_lib \<Rightarrow> JWTService \<Rightarrow> time \<Rightarrow> Request \<Rightarrow> guard list \<Rightarrow> RateLimiter option \<times> Claims option \<Rightarrow>
  RateLimiter option \<times> (http_error + Claims option)" where
  "pass_guards lib jwt now req [] (rl, ctx) = (rl, Inr ctx)"
| "pass_guards lib jwt now req (RateLimited # gs) (rl, ctx) =
     (case rl of None \<Rightarrow> pass_guards lib jwt now req gs (rl, ctx)
      | Some l \<Rightarrow>
          (case Allow now (ClientIP req) l of (l1, allowed) \<Rightarrow>
             if allowed then pass_guards lib jwt now req gs (Some l1, ctx)
             else (Some (fst (RetryAfter now now (ClientIP req) l1)), Inl (429, ''RATE_LIMITED'', ''too many login attempts''))))"
| "pass_guards lib jwt now req (NeedToken # gs) (rl, ctx) =
     (case RequireAuth lib jwt now req of Inl e \<Rightarrow> (rl, Inl e) | Inr claims \<Rightarrow> pass_guards lib jwt now req gs (rl, Some claims))"
| "pass_guards lib jwt now req (NeedPermission perm # gs) (rl, ctx) =
     (case RequirePermission perm ctx of Inl e \<Rightarrow> (rl, Inl e) | Inr claims \<Rightarrow> pass_guards lib jwt now req gs (rl, ctx))"
| "pass_guards lib jwt now req (ImplicitAdmin # gs) (rl, ctx) =
     (case NewAuthMiddleware lib jwt AuthDisabled now req of Inl e \<Rightarrow> (rl, Inl e) | Inr claims \<Rightarrow> pass_guards lib jwt now req gs (rl, Some claims))"

subsection \<open>Middleware around the router (\<open>middleware.go\<close>)\<close>

text \<open>A response as far as it has been written, and whether its handler panicked. \<open>WriteHeader\<close> after the first has no effect.\<close>

record reply =
  rp_status :: "int option"
  rp_headers :: "(string, string) gomap"
  rp_panicked :: bool

definition set_headers :: "(string \<times> string) list \<Rightarrow> reply \<Rightarrow> reply" where
  "set_headers hs w = w\<lparr>rp_headers := fold (\<lambda>(k, v) m. map_put k v m) hs (rp_headers w)\<rparr>"

definition requestIDMiddleware :: "string \<Rightarrow> string \<Rightarrow> (reply \<Rightarrow> reply) \<Rightarrow> reply \<Rightarrow> reply" where
  "requestIDMiddleware header generated next w = next (set_headers [(''X-Request-ID'', if header = '''' then generated else header)] w)"

definition security_headers :: "(string \<times> string) list" where
  "security_headers =
     [(''X-Content-Type-Options'', ''nosniff''), (''X-Frame-Options'', ''DENY''), (''Referrer-Policy'', ''strict-origin-when-cross-origin''),
      (''Content-Security-Policy'', ''default-src 'self'; script-src 'self'; style-src 'self' 'unsafe-inline' https://fonts.googleapis.com; img-src 'self' data:; font-src 'self' https://fonts.gstatic.com; connect-src 'self'' @ [CHR 0x27])]"

definition securityHeadersMiddleware :: "(reply \<Rightarrow> reply) \<Rightarrow> reply \<Rightarrow> reply" where
  "securityHeadersMiddleware next w = next (set_headers security_headers w)"

definition recovererMiddleware :: "(reply \<Rightarrow> reply) \<Rightarrow> reply \<Rightarrow> reply" where
  "recovererMiddleware next w =
     (let w1 = next w in
      if rp_panicked w1
      then (if rp_status w1 = None then (set_headers [(''Content-Type'', ''application/json'')] w1)\<lparr>rp_status := Some 500, rp_panicked := False\<rparr> else w1\<lparr>rp_panicked := False\<rparr>)
      else w1)"

definition cors_headers :: "string \<Rightarrow> (string \<times> string) list" where
  "cors_headers origin =
     [(''Access-Control-Allow-Origin'', origin), (''Access-Control-Allow-Methods'', ''GET, POST, PUT, DELETE, OPTIONS''),
      (''Access-Control-Allow-Headers'', ''Authorization, Content-Type, X-Request-ID''), (''Access-Control-Allow-Credentials'', ''true''),
      (''Access-Control-Max-Age'', ''86400'')]"

definition corsMiddleware :: "string \<Rightarrow> string \<Rightarrow> (reply \<Rightarrow> reply) \<Rightarrow> reply \<Rightarrow> reply" where
  "corsMiddleware origin meth next w =
     (let w1 = set_headers (cors_headers origin) w in
      if meth = ''OPTIONS'' then w1\<lparr>rp_status := Some 204\<rparr> else next w1)"

text \<open>The stack of \<open>Routes\<close>; \<open>route\<close> is the router with the handlers behind it. The logger only reads the status.\<close>

definition middleware_stack :: "APIServer \<Rightarrow> string \<Rightarrow> string \<Rightarrow> string \<Rightarrow> (reply \<Rightarrow> reply) \<Rightarrow> reply \<Rightarrow> reply" where
  "middleware_stack s header generated meth route =
     requestIDMiddleware header generated (securityHeadersMiddleware (recovererMiddleware
       (case ap_cors s of None \<Rightarrow> route | Some origin \<Rightarrow> corsMiddleware origin meth route)))"

definition UserFromContext :: "Claims option \<Rightarrow> string option \<Rightarrow> string" where
  "UserFromContext claims stub = (case claims of Some c \<Rightarrow> c_Username c | None \<Rightarrow> (case stub of Some u \<Rightarrow> u | None \<Rightarrow> ''anonymous''))"

subsection \<open>Health and mode\<close>

text \<open>\<open>ping\<close> is the outcome of the ping of the storage database.\<close>

definition handleHealth :: "APIServer \<Rightarrow> bool \<Rightarrow> int \<times> string \<times> string" where
  "handleHealth s ping =
     (let (status, storage) = (if \<not> ap_storage s then (''ok'', ''disabled'') else if \<not> ping then (''error'', ''error'') else (''ok'', ''ok''))
      in (if status = ''error'' then 503 else 200, status, storage))"

definition handleSystemMode :: "APIServer \<Rightarrow> string \<times> duration option" where
  "handleSystemMode s = (case ap_retention s of None \<Rightarrow> (''persistent'', None) | Some d \<Rightarrow> (''live'', Some d))"

subsection \<open>Actions on sessions (\<open>session_actions.go\<close>)\<close>

text \<open>A connection: its own process, whether a process is a superuser's (\<open>None\<close> for no such session or a failed query), and the
  outcome of the action. A query for the own process that fails leaves zero, a failed action is no success.\<close>

record session_conn =
  sx_ownPID :: "int option"
  sx_isSuper :: "int \<Rightarrow> bool option"
  sx_action :: "string \<Rightarrow> int \<Rightarrow> bool option"

datatype session_response = SessionError int string | SessionAction int string bool

text \<open>The response, and the call made on the server.\<close>

definition handleSessionAction :: "bool \<Rightarrow> session_conn option option \<Rightarrow> string \<Rightarrow> string \<Rightarrow> session_response \<times> (string \<times> int) option" where
  "handleSessionAction known provider pidStr action =
     (case ParseInt pidStr of None \<Rightarrow> (SessionError 400 ''bad_request'', None)
      | Some pid \<Rightarrow>
          if pid \<le> 0 then (SessionError 400 ''bad_request'', None)
          else if \<not> known then (SessionError 404 ''not_found'', None)
          else case provider of None \<Rightarrow> (SessionError 503 ''unavailable'', None)
          | Some None \<Rightarrow> (SessionError 502 ''connection_error'', None)
          | Some (Some conn) \<Rightarrow>
              if pid = (case sx_ownPID conn of None \<Rightarrow> 0 | Some p \<Rightarrow> p) then (SessionError 400 ''bad_request'', None)
              else case sx_isSuper conn pid of None \<Rightarrow> (SessionAction pid action False, None)
              | Some True \<Rightarrow> (SessionError 403 ''forbidden'', None)
              | Some False \<Rightarrow>
                  let fn = (if action = ''cancel'' then ''pg_cancel_backend'' else ''pg_terminate_backend'') in
                  (SessionAction pid action (case sx_action conn fn pid of None \<Rightarrow> False | Some b \<Rightarrow> b), Some (fn, pid)))"

definition handleSessionCancel :: "bool \<Rightarrow> session_conn option option \<Rightarrow> string \<Rightarrow> session_response \<times> (string \<times> int) option" where
  "handleSessionCancel known provider pidStr = handleSessionAction known provider pidStr ''cancel''"

definition handleSessionTerminate :: "bool \<Rightarrow> session_conn option option \<Rightarrow> string \<Rightarrow> session_response \<times> (string \<times> int) option" where
  "handleSessionTerminate known provider pidStr = handleSessionAction known provider pidStr ''terminate''"

end
