(* ===== verification/ApiRouteLaws.thy ===== *)
theory ApiRouteLaws
  imports ApiRoutes
begin

section \<open>Who reaches which handler\<close>

text \<open>
  For every combination of optional parts of the server: what the guards of a route let through, which routes that change something need
  no permission, and what is left of this when authentication is off.
\<close>

subsection \<open>The guards of the table\<close>

text \<open>The handlers without a permission of their own that change something.\<close>

definition any_role_handlers :: "string list" where
  "any_role_handlers =
     [''handleDiagnose'', ''handleRCAAnalyze'', ''handleStartRun'', ''handleAbandonRun'', ''handleSubmitFeedback'', ''handleExecuteStep'', ''handleSkipStep'',
      ''handleRetryStep'', ''handleRequestApproval'', ''handleChangePassword'']"

definition public_handlers :: "string list" where
  "public_handlers = [''handleHealth'', ''handleSystemMode'', ''handleLogin'', ''handleRefresh'', ''staticHandler'']"

definition reads_or_listed :: "string \<times> string \<times> string \<Rightarrow> bool" where
  "reads_or_listed x \<longleftrightarrow> fst x = ''GET'' \<or> snd (snd x) \<in> set any_role_handlers"

lemma viewer_lists:
  "list_all reads_or_listed live_routes" "list_all reads_or_listed plan_routes" "list_all reads_or_listed settings_routes" "list_all reads_or_listed statement_routes"
  "list_all reads_or_listed alert_reads" "list_all reads_or_listed advice_reads" "list_all reads_or_listed rca_reads" "list_all reads_or_listed playbook_lists"
  "list_all reads_or_listed playbook_get" "list_all reads_or_listed run_routes" "list_all reads_or_listed forecast_routes" "list_all reads_or_listed password_route"
  by code_simp+

lemma in_guarded: "r \<in> set (guarded gs rs) \<longleftrightarrow> rt_guards r = gs \<and> (rt_method r, rt_pattern r, rt_handler r) \<in> set rs"
  by (cases r) (force simp: guarded_def)

lemma in_only_if [simp]: "x \<in> set (only_if b xs) \<longleftrightarrow> b \<and> x \<in> set xs"
  by (simp add: only_if_def)

definition route_ok :: "route \<Rightarrow> bool" where
  "route_ok r \<longleftrightarrow>
     (rt_guards r = [] \<or> rt_guards r = [RateLimited]) \<and> rt_handler r \<in> set public_handlers \<or>
     rt_guards r = [NeedToken] \<and> (rt_method r = ''GET'' \<or> rt_handler r \<in> set any_role_handlers) \<or>
     (\<exists>perm. rt_guards r = [NeedToken, NeedPermission perm])"

lemma viewer_ok: "list_all reads_or_listed rs \<Longrightarrow> r \<in> set (viewer rs) \<Longrightarrow> route_ok r"
  by (auto simp: in_guarded route_ok_def list_all_iff reads_or_listed_def)

lemma holder_ok: "r \<in> set (holder perm rs) \<Longrightarrow> route_ok r"
  by (auto simp: in_guarded route_ok_def)

lemma public_ok: "r \<in> set public_routes \<Longrightarrow> route_ok r"
  by (auto simp: public_routes_def in_guarded route_ok_def public_handlers_def)

lemma login_ok:
  "r \<in> set (guarded [RateLimited] [(''POST'', ''/auth/login'', ''handleLogin'')]) \<Longrightarrow> route_ok r"
  "r \<in> set (guarded [] [(''POST'', ''/auth/refresh'', ''handleRefresh'')]) \<Longrightarrow> route_ok r"
  by (auto simp: in_guarded route_ok_def public_handlers_def)

lemma base_ok: "list_all reads_or_listed (live_routes @ plan_routes @ settings_routes @ statement_routes)"
  using viewer_lists(1-4) by simp

lemma auth_routes_ok: "r \<in> set (auth_routes s) \<Longrightarrow> route_ok r"
  unfolding auth_routes_def set_append Un_iff in_only_if
  by (elim disjE conjE) (rule login_ok holder_ok viewer_ok [OF base_ok] viewer_ok [OF viewer_lists(5)] viewer_ok [OF viewer_lists(6)] viewer_ok [OF viewer_lists(7)]
      viewer_ok [OF viewer_lists(8)] viewer_ok [OF viewer_lists(9)] viewer_ok [OF viewer_lists(10)] viewer_ok [OF viewer_lists(11)] viewer_ok [OF viewer_lists(12)]; assumption)+

lemma Routes_ok:
  assumes "ap_authEnabled s" "r \<in> set (Routes s)"
  shows "route_ok r"
proof -
  consider x where "x \<in> set (api_routes s)" "r = Route (rt_method x) (api_prefix @ rt_pattern x) (rt_guards x) (rt_handler x)" | "r = Route ''*'' ''/*'' [] ''staticHandler''"
    using assms(2) by (auto simp: Routes_def)
  then show ?thesis
  proof cases
    case 1
    have "route_ok x" using 1(1) assms(1) public_ok auth_routes_ok by (auto simp: api_routes_def)
    then show ?thesis using 1(2) by (simp add: route_ok_def)
  next
    case 2
    then show ?thesis by (simp add: route_ok_def public_handlers_def)
  qed
qed

subsection \<open>Headers\<close>

lemma headers_fold: "map_of (fold (\<lambda>(k, v) m. map_put k v m) hs m) k \<noteq> None \<longleftrightarrow> k \<in> fst ` set hs \<or> map_of m k \<noteq> None"
  by (induction hs arbitrary: m) (auto split: if_splits)

definition has_header :: "string \<Rightarrow> reply \<Rightarrow> bool" where
  "has_header k w \<longleftrightarrow> map_of (rp_headers w) k \<noteq> None"

lemma rp_headers_set: "rp_headers (set_headers hs w) = fold (\<lambda>(k, v) m. map_put k v m) hs (rp_headers w)"
  by (simp add: set_headers_def)

lemma has_header_set: "has_header k (set_headers hs w) \<longleftrightarrow> k \<in> fst ` set hs \<or> has_header k w"
  unfolding has_header_def rp_headers_set by (rule headers_fold)

lemma has_header_fields [simp]: "has_header k (w\<lparr>rp_status := x\<rparr>) = has_header k w" "has_header k (w\<lparr>rp_panicked := b\<rparr>) = has_header k w"
  by (simp_all add: has_header_def)

definition keeps_headers :: "(reply \<Rightarrow> reply) \<Rightarrow> bool" where
  "keeps_headers f \<longleftrightarrow> (\<forall>w k. has_header k w \<longrightarrow> has_header k (f w))"

lemma keeps_cors: "keeps_headers f \<Longrightarrow> keeps_headers (corsMiddleware origin meth f)"
  by (auto simp: keeps_headers_def corsMiddleware_def Let_def has_header_set)

lemma keeps_recoverer: "keeps_headers f \<Longrightarrow> keeps_headers (recovererMiddleware f)"
  by (auto simp: keeps_headers_def recovererMiddleware_def Let_def has_header_set)

subsection \<open>Properties\<close>


text \<open>Without authentication the server registers the same methods and patterns, except those of the account management and the
  password, and every one of its guarded routes lets any request through with the rights of a super administrator.\<close>

theorem open_server_equivalent:
  "(\<lambda>r. (rt_method r, rt_pattern r)) ` set (auth_routes s) =
     (\<lambda>r. (rt_method r, rt_pattern r)) ` set (open_routes s) \<union> (\<lambda>(m, p, h). (m, p)) ` set (user_routes @ password_route) \<and>
   (r \<in> set (open_routes s) \<longrightarrow> rt_guards r = [] \<and> rt_handler r = ''stub'' \<or>
      pass_guards lib jwt now req (rt_guards r) (rl, None) = (rl, Inr (Some admin_claims)))"
proof
  have k: "(\<lambda>r. (rt_method r, rt_pattern r)) ` set (guarded gs rs) = (\<lambda>(m, p, h). (m, p)) ` set rs" for gs rs
    by (auto simp: guarded_def image_iff split: prod.splits intro!: bexI)
  have if_key: "f ` set (only_if b xs) = (if b then f ` set xs else {})" for f :: "route \<Rightarrow> string \<times> string" and b xs by (simp add: only_if_def)
  have "set (take 1 xs) \<union> set (take 1 (drop 1 xs)) \<union> set (drop 2 xs) = set xs" for xs :: "(string \<times> string \<times> string) list"
    by (metis append_take_drop_id drop_drop one_add_one set_append sup_assoc)
  note m = this [of management_routes]
  have e: "set (take 1 playbook_edit) \<union> set (drop 1 playbook_edit) = set playbook_edit" by (metis append_take_drop_id set_append)
  show "(\<lambda>r. (rt_method r, rt_pattern r)) ` set (auth_routes s) =
     (\<lambda>r. (rt_method r, rt_pattern r)) ` set (open_routes s) \<union> (\<lambda>(m, p, h). (m, p)) ` set (user_routes @ password_route)"
    unfolding auth_routes_def open_routes_def set_append image_Un if_key k m [symmetric] e [symmetric] stub_routes_def list.set image_insert prod.case
    by auto
  show "r \<in> set (open_routes s) \<longrightarrow> rt_guards r = [] \<and> rt_handler r = ''stub'' \<or>
      pass_guards lib jwt now req (rt_guards r) (rl, None) = (rl, Inr (Some admin_claims))"
    by (auto simp: open_routes_def in_guarded stub_routes_def NewAuthMiddleware_def)
qed

text \<open>Every response carries a request identifier and the security headers, also one of a handler that panicked, which is
  answered with 500 unless it had written a status, and one to a preflight request, which reaches no handler.\<close>

theorem every_response_headed:
  assumes "keeps_headers route"
  shows "has_header ''X-Request-ID'' (middleware_stack s header generated meth route w) \<and>
    (\<forall>k\<in>fst ` set security_headers. has_header k (middleware_stack s header generated meth route w)) \<and>
    \<not> rp_panicked (middleware_stack s header generated meth route w) \<and>
    ((\<forall>x. rp_panicked (route x)) \<longrightarrow> rp_status (middleware_stack s header generated meth route w) \<noteq> None) \<and>
    (ap_cors s = Some origin \<and> meth = ''OPTIONS'' \<and> \<not> rp_panicked w \<longrightarrow> rp_status (middleware_stack s header generated meth route w) = Some 204)"
proof -
  let ?inner = "recovererMiddleware (case ap_cors s of None \<Rightarrow> route | Some origin \<Rightarrow> corsMiddleware origin meth route)"
  have keeps: "keeps_headers ?inner" using assms keeps_cors keeps_recoverer by (auto split: option.splits)
  have "has_header k (?inner (set_headers security_headers x))" if "k \<in> fst ` set security_headers \<or> has_header k x" for k x
    using keeps that by (auto simp: keeps_headers_def has_header_set)
  then have h: "has_header ''X-Request-ID'' (middleware_stack s header generated meth route w)"
    "\<forall>k\<in>fst ` set security_headers. has_header k (middleware_stack s header generated meth route w)"
    by (simp_all add: middleware_stack_def requestIDMiddleware_def securityHeadersMiddleware_def has_header_set)
  have "\<not> rp_panicked (?inner x)" for x by (simp add: recovererMiddleware_def Let_def)
  then have p: "\<not> rp_panicked (middleware_stack s header generated meth route w)"
    by (simp add: middleware_stack_def requestIDMiddleware_def securityHeadersMiddleware_def)
  have "rp_status (middleware_stack s header generated meth route w) = Some 204" if "ap_cors s = Some origin" "meth = ''OPTIONS''" "\<not> rp_panicked w"
    using that by (simp add: middleware_stack_def requestIDMiddleware_def securityHeadersMiddleware_def recovererMiddleware_def corsMiddleware_def set_headers_def Let_def)
  moreover have "rp_status (middleware_stack s header generated meth route w) \<noteq> None" if "\<forall>x. rp_panicked (route x)"
    using that by (auto simp: middleware_stack_def requestIDMiddleware_def securityHeadersMiddleware_def recovererMiddleware_def corsMiddleware_def Let_def split: option.splits)
  ultimately show ?thesis using h p by blast
qed

text \<open>An action reaches the server only for a session that is known not to belong to a superuser.\<close>

lemma session_action_safe:
  assumes "handleSessionAction known provider pidStr action = (resp, Some (fn, pid))"
  shows "known \<and> 0 < pid \<and> ParseInt pidStr = Some pid \<and>
    (\<exists>conn. provider = Some (Some conn) \<and> sx_isSuper conn pid = Some False \<and> sx_ownPID conn \<noteq> Some pid) \<and>
    (fn = ''pg_cancel_backend'' \<longleftrightarrow> action = ''cancel'')"
  using assms by (auto simp: handleSessionAction_def Let_def split: option.splits bool.splits if_splits)

subsection \<open>Witnesses\<close>

definition demo_api :: APIServer where
  "demo_api = SetPlaybooks (New_api True (Some ''*'') True True True None AuthEnabled)"

abbreviation "no_headers \<equiv> \<lparr>rq_Authorization = '''', rq_XForwardedFor = '''', rq_XRealIP = '''', rq_RemoteAddr = ''''\<rparr>"

lemma demo_route:
  "Route ''POST'' ''/api/v1/alerts/rules'' [NeedToken, NeedPermission PermAlertManagement] ''handleCreateAlertRule'' \<in> set (Routes demo_api)"
proof -
  have "(''POST'', ''/alerts/rules'', ''handleCreateAlertRule'') \<in> set alert_writes" by (simp add: alert_writes_def)
  then have "Route ''POST'' ''/alerts/rules'' [NeedToken, NeedPermission PermAlertManagement] ''handleCreateAlertRule'' \<in> set (api_routes demo_api)"
    by (simp add: api_routes_def auth_routes_def in_guarded demo_api_def New_api_def SetPlaybooks_def)
  then show ?thesis by (force simp: Routes_def api_prefix_def)
qed


theorem open_server_equivalent_witness:
  "pass_guards demo_lib demo_service 0 no_headers [ImplicitAdmin] (None, None) = (None, Inr (Some admin_claims))"
proof -
  have "(''POST'', ''/alerts/rules'', ''handleCreateAlertRule'') \<in> set alert_writes" by (simp add: alert_writes_def)
  then have r: "Route ''POST'' ''/alerts/rules'' [ImplicitAdmin] ''handleCreateAlertRule'' \<in> set (open_routes demo_api)"
    by (simp add: open_routes_def in_guarded demo_api_def New_api_def SetPlaybooks_def)
  show ?thesis using conjunct2 [OF open_server_equivalent, rule_format, OF r, of demo_lib demo_service 0 no_headers None] by simp
qed

theorem every_response_headed_witness:
  "has_header ''X-Request-ID'' (middleware_stack demo_api '''' ''42'' ''OPTIONS'' (\<lambda>w. w) \<lparr>rp_status = None, rp_headers = [], rp_panicked = False\<rparr>) \<and>
   rp_status (middleware_stack demo_api '''' ''42'' ''OPTIONS'' (\<lambda>w. w) \<lparr>rp_status = None, rp_headers = [], rp_panicked = False\<rparr>) = Some 204"
  using every_response_headed [of "\<lambda>w. w" demo_api "''''" "''42''" "''OPTIONS''" "\<lparr>rp_status = None, rp_headers = [], rp_panicked = False\<rparr>" "''*''"]
  by (simp add: keeps_headers_def demo_api_def New_api_def SetPlaybooks_def)

end
