(* ===== verification/ServerConfig.thy ===== *)
theory ServerConfig
  imports Instances ForecastNeeds
begin

section \<open>Configuration (\<open>internal/config\<close>)\<close>

text \<open>
  The configuration with its defaults and checks. Reading the file, the environment and decoding both
  (\<open>koanf\<close>, a library) is the argument \<open>read\<close> of \<open>Load\<close>, which gives the decoded configuration or fails.
\<close>

subsection \<open>Data (\<open>config.go\<close>)\<close>

record config_server =
  hs_Listen :: string
  hs_Port :: int
  hs_LogLevel :: string
  hs_CORSEnabled :: bool
  hs_CORSOrigin :: string
  hs_ReadTimeout :: duration
  hs_WriteTimeout :: duration
  hs_ShutdownTimeout :: duration

record StorageConfig =
  sg_DSN :: string
  sg_UseTimescaleDB :: bool
  sg_RetentionDays :: int

record InitialAdminConfig =
  ia_Username :: string
  ia_Password :: string

record AuthConfig =
  ac_Enabled :: bool
  ac_JWTSecret :: string
  ac_RefreshSecret :: string
  ac_AccessTokenTTL :: duration
  ac_RefreshTokenTTL :: duration
  ac_BcryptCost :: int
  ac_InitialAdmin :: "InitialAdminConfig option"

record EmailConfig =
  em_Host :: string
  em_Port :: int
  em_Username :: string
  em_Password :: string
  em_From :: string
  em_Recipients :: "string list"
  em_TLSSkipVerify :: bool
  em_SendTimeoutSeconds :: int

record AlertingConfig =
  al_Enabled :: bool
  al_DefaultConsecutiveCount :: int
  al_DefaultCooldownMinutes :: int
  al_DefaultChannels :: "string list"
  al_EvaluationTimeoutSec :: int
  al_HistoryRetentionDays :: int
  al_DashboardURL :: string
  al_Email :: "EmailConfig option"

record StatementSnapshotsConfig =
  sn_Enabled :: bool
  sn_Interval :: duration
  sn_RetentionDays :: int
  sn_CaptureOnStartup :: bool
  sn_TopN :: int

record RemediationConfig =
  rm_Enabled :: bool
  rm_BackgroundInterval :: duration
  rm_RetentionDays :: int
  rm_RCAUrgencyDelta :: float64
  rm_ForecastUrgencyDelta :: float64

record config_rca =
  cr_Enabled :: bool
  cr_LookbackWindow :: duration
  cr_AutoTriggerSeverity :: string
  cr_MaxIncidentsPerHour :: int
  cr_RetentionDays :: int
  cr_MaxTraversalDepth :: int
  cr_MaxCandidateChains :: int
  cr_MaxMetricsPerRun :: int
  cr_MinEdgeScore :: float64
  cr_MinChainScore :: float64
  cr_DeferredForwardTail :: duration
  cr_ThresholdBaselineWindow :: duration
  cr_ThresholdCalmPeriod :: duration
  cr_ThresholdCalmSigma :: float64

record PlaybooksConfig =
  pc_Enabled :: bool
  pc_DefaultStatementTimeout :: int
  pc_DefaultLockTimeout :: int
  pc_ResultRowLimit :: int
  pc_RunRetentionDays :: int
  pc_ImplicitFeedbackWindow :: duration

record config_forecast =
  cff_Horizon :: int
  cff_ConfidenceZ :: float64
  cff_AlertMinConsecutive :: int

text \<open>The parts of the other sections that start-up looks at are single fields.\<close>

record Config =
  cf_Server :: config_server
  cf_Storage :: StorageConfig
  cf_Auth :: AuthConfig
  cf_Alerting :: AlertingConfig
  cf_PlanCaptureEnabled :: bool
  cf_SettingsSnapshotEnabled :: bool
  cf_StatementSnapshots :: StatementSnapshotsConfig
  cf_MLEnabled :: bool
  cf_MLForecast :: config_forecast
  cf_Remediation :: RemediationConfig
  cf_RCA :: config_rca
  cf_Playbooks :: PlaybooksConfig
  cf_ForecastEnabled :: bool
  cf_MaintenanceForecast :: MaintenanceForecastConfig
  cf_OSMethod :: string
  cf_Instances :: "InstanceConfig list"

subsection \<open>The operating system method of an instance\<close>

definition EffectiveOSMetricsMethod :: "Config \<Rightarrow> InstanceConfig \<Rightarrow> string" where
  "EffectiveOSMetricsMethod c inst =
     (if ic_OSMetricsMethod inst \<noteq> '''' then ic_OSMetricsMethod inst else if cf_OSMethod c \<noteq> '''' then cf_OSMethod c else ''sql'')"

definition SQLOSMetricsInstances :: "Config \<Rightarrow> string list" where
  "SQLOSMetricsInstances c =
     map ic_ID (filter (\<lambda>inst. ic_Enabled inst \<noteq> Some False \<and> EffectiveOSMetricsMethod c inst = ''sql'') (cf_Instances c))"

definition WarnOSMetricsSQL :: "Config \<Rightarrow> bool" where
  "WarnOSMetricsSQL c \<longleftrightarrow> length (SQLOSMetricsInstances c) \<noteq> 0"

subsection \<open>Checks and defaults (\<open>load.go\<close>)\<close>

text \<open>\<open>strings.ToLower\<close> on the ASCII names of environment variables.\<close>

definition transformEnvKey :: "string \<Rightarrow> string" where
  "transformEnvKey s = map (\<lambda>c. if c = CHR ''_'' then CHR ''.'' else c) (map to_lower (TrimPrefix s ''PGPULSE_''))"

datatype config_error =
    BadLogLevel string
  | AuthNeedsStorage
  | ShortSecret
  | AlertingNeedsStorage
  | EmailMissing
  | EmailHostMissing
  | EmailFromMissing
  | EmailRecipientsMissing
  | NoInstances
  | InstanceIDMissing nat
  | InstanceDSNMissing nat
  | LoadFailed

definition or_text :: "string \<Rightarrow> string \<Rightarrow> string" where
  "or_text s d = (if s = '''' then d else s)"

definition alertingDefaults :: "AlertingConfig \<Rightarrow> AlertingConfig" where
  "alertingDefaults c =
     c\<lparr>al_DefaultConsecutiveCount := or_default (al_DefaultConsecutiveCount c) 3,
       al_DefaultCooldownMinutes := or_default (al_DefaultCooldownMinutes c) 15,
       al_EvaluationTimeoutSec := or_default (al_EvaluationTimeoutSec c) 5,
       al_HistoryRetentionDays := or_default (al_HistoryRetentionDays c) 30,
       al_Email := map_option (\<lambda>e. e\<lparr>em_Port := or_default (em_Port e) 587, em_SendTimeoutSeconds := or_default (em_SendTimeoutSeconds e) 10\<rparr>) (al_Email c)\<rparr>"

definition check_email :: "EmailConfig option \<Rightarrow> config_error option" where
  "check_email email =
     (case email of None \<Rightarrow> Some EmailMissing
      | Some e \<Rightarrow>
          if em_Host e = '''' then Some EmailHostMissing
          else if em_From e = '''' then Some EmailFromMissing
          else if em_Recipients e = [] then Some EmailRecipientsMissing
          else None)"

fun check_channels :: "EmailConfig option \<Rightarrow> string list \<Rightarrow> config_error option" where
  "check_channels email [] = None"
| "check_channels email (ch # chs) =
     (if ch = ''email'' then (case check_email email of Some e \<Rightarrow> Some e | None \<Rightarrow> check_channels email chs) else check_channels email chs)"

definition validateAlerting :: "Config \<Rightarrow> config_error + Config" where
  "validateAlerting cfg =
     (let a = alertingDefaults (cf_Alerting cfg); cfg' = cfg\<lparr>cf_Alerting := a\<rparr> in
      if al_Enabled a \<and> sg_DSN (cf_Storage cfg) = '''' then Inl AlertingNeedsStorage
      else case check_channels (al_Email a) (al_DefaultChannels a) of Some e \<Rightarrow> Inl e | None \<Rightarrow> Inr cfg')"

definition validateAuth :: "Config \<Rightarrow> config_error + Config" where
  "validateAuth cfg =
     (let a = cf_Auth cfg in
      if \<not> ac_Enabled a then Inr cfg
      else if sg_DSN (cf_Storage cfg) = '''' then Inl AuthNeedsStorage
      else if length (ac_JWTSecret a) < 32 then Inl ShortSecret
      else Inr (cfg\<lparr>cf_Auth := a\<lparr>ac_AccessTokenTTL := or_default (ac_AccessTokenTTL a) (24 * Hour),
             ac_RefreshTokenTTL := or_default (ac_RefreshTokenTTL a) (7 * 24 * Hour), ac_BcryptCost := or_default (ac_BcryptCost a) 12\<rparr>\<rparr>))"

definition instance_defaults :: "InstanceConfig \<Rightarrow> InstanceConfig" where
  "instance_defaults inst =
     inst\<lparr>ic_Enabled := (case ic_Enabled inst of None \<Rightarrow> Some True | Some b \<Rightarrow> Some b),
          ic_MaxConns := or_default (ic_MaxConns inst) 5,
          ic_Intervals := \<lparr>iv_High = or_default (iv_High (ic_Intervals inst)) (10 * Second), iv_Medium = or_default (iv_Medium (ic_Intervals inst)) (60 * Second),
            iv_Low = or_default (iv_Low (ic_Intervals inst)) (300 * Second)\<rparr>\<rparr>"

fun validate_instances :: "nat \<Rightarrow> InstanceConfig list \<Rightarrow> config_error + InstanceConfig list" where
  "validate_instances i [] = Inr []"
| "validate_instances i (inst # insts) =
     (if ic_ID inst = '''' then Inl (InstanceIDMissing i)
      else if ic_DSN inst = '''' then Inl (InstanceDSNMissing i)
      else case validate_instances (i + 1) insts of Inl e \<Rightarrow> Inl e | Inr rest \<Rightarrow> Inr (instance_defaults inst # rest))"

definition server_defaults :: "config_server \<Rightarrow> config_server" where
  "server_defaults s =
     s\<lparr>hs_Listen := (if hs_Listen s = '''' then (if hs_Port s > 0 then '':'' @ Itoa (hs_Port s) else '':8080'') else hs_Listen s),
       hs_LogLevel := or_text (hs_LogLevel s) ''info''\<rparr>"

definition server_timeouts :: "config_server \<Rightarrow> config_server" where
  "server_timeouts s =
     s\<lparr>hs_ReadTimeout := or_default (hs_ReadTimeout s) (30 * Second), hs_WriteTimeout := or_default (hs_WriteTimeout s) (60 * Second),
       hs_ShutdownTimeout := or_default (hs_ShutdownTimeout s) (10 * Second), hs_CORSOrigin := or_text (hs_CORSOrigin s) ''http://localhost:5173''\<rparr>"

definition rca_defaults :: "config_rca \<Rightarrow> config_rca" where
  "rca_defaults r =
     r\<lparr>cr_LookbackWindow := or_default (cr_LookbackWindow r) (30 * Minute), cr_AutoTriggerSeverity := or_text (cr_AutoTriggerSeverity r) ''critical'',
       cr_MaxIncidentsPerHour := or_default (cr_MaxIncidentsPerHour r) 10, cr_RetentionDays := or_default (cr_RetentionDays r) 90,
       cr_MaxTraversalDepth := or_default (cr_MaxTraversalDepth r) 5, cr_MaxCandidateChains := or_default (cr_MaxCandidateChains r) 5,
       cr_MaxMetricsPerRun := or_default (cr_MaxMetricsPerRun r) 50, cr_MinEdgeScore := or_default (cr_MinEdgeScore r) 0.25,
       cr_MinChainScore := or_default (cr_MinChainScore r) 0.40, cr_DeferredForwardTail := or_default (cr_DeferredForwardTail r) (5 * Minute),
       cr_ThresholdBaselineWindow := or_default (cr_ThresholdBaselineWindow r) (4 * Hour),
       cr_ThresholdCalmPeriod := or_default (cr_ThresholdCalmPeriod r) (15 * Minute), cr_ThresholdCalmSigma := or_default (cr_ThresholdCalmSigma r) 1.5\<rparr>"

definition playbook_defaults :: "PlaybooksConfig \<Rightarrow> PlaybooksConfig" where
  "playbook_defaults p =
     p\<lparr>pc_DefaultStatementTimeout := or_default (pc_DefaultStatementTimeout p) 5, pc_DefaultLockTimeout := or_default (pc_DefaultLockTimeout p) 5,
       pc_ResultRowLimit := or_default (pc_ResultRowLimit p) 100, pc_RunRetentionDays := or_default (pc_RunRetentionDays p) 90,
       pc_ImplicitFeedbackWindow := or_default (pc_ImplicitFeedbackWindow p) (5 * Minute)\<rparr>"

definition remediation_defaults :: "RemediationConfig \<Rightarrow> RemediationConfig" where
  "remediation_defaults r =
     r\<lparr>rm_BackgroundInterval := or_default (rm_BackgroundInterval r) (5 * Minute), rm_RetentionDays := or_default (rm_RetentionDays r) 30,
       rm_RCAUrgencyDelta := or_default (rm_RCAUrgencyDelta r) 1, rm_ForecastUrgencyDelta := or_default (rm_ForecastUrgencyDelta r) 0.5\<rparr>"

definition snapshot_defaults :: "StatementSnapshotsConfig \<Rightarrow> StatementSnapshotsConfig" where
  "snapshot_defaults s =
     s\<lparr>sn_Interval := or_default (sn_Interval s) (30 * Minute), sn_RetentionDays := or_default (sn_RetentionDays s) 30, sn_TopN := or_default (sn_TopN s) 50\<rparr>"

definition section_defaults :: "Config \<Rightarrow> Config" where
  "section_defaults cfg =
     cfg\<lparr>cf_MLForecast := (cf_MLForecast cfg)\<lparr>cff_AlertMinConsecutive := or_default (cff_AlertMinConsecutive (cf_MLForecast cfg)) 3\<rparr>,
         cf_Remediation := remediation_defaults (cf_Remediation cfg), cf_StatementSnapshots := snapshot_defaults (cf_StatementSnapshots cfg),
         cf_RCA := rca_defaults (cf_RCA cfg), cf_Playbooks := playbook_defaults (cf_Playbooks cfg),
         cf_MaintenanceForecast := ApplyDefaults (cf_MaintenanceForecast cfg)\<rparr>"

definition validLogLevels :: "string list" where
  "validLogLevels = [''debug'', ''info'', ''warn'', ''error'']"

definition validate :: "Config \<Rightarrow> config_error + Config" where
  "validate cfg =
     (let cfg1 = cfg\<lparr>cf_Server := server_defaults (cf_Server cfg)\<rparr> in
      if hs_LogLevel (cf_Server cfg1) \<notin> set validLogLevels then Inl (BadLogLevel (hs_LogLevel (cf_Server cfg1)))
      else let st = cf_Storage cfg1;
               cfg2 = cfg1\<lparr>cf_Server := server_timeouts (cf_Server cfg1), cf_Storage := st\<lparr>sg_RetentionDays := or_default (sg_RetentionDays st) 30\<rparr>\<rparr> in
        case validateAuth cfg2 of Inl e \<Rightarrow> Inl e
        | Inr cfg3 \<Rightarrow>
            (case validateAlerting cfg3 of Inl e \<Rightarrow> Inl e
             | Inr cfg4 \<Rightarrow>
                 (let cfg5 = section_defaults cfg4 in
                  if cf_Instances cfg5 = [] then Inl NoInstances
                  else case validate_instances 0 (cf_Instances cfg5) of Inl e \<Rightarrow> Inl e | Inr insts \<Rightarrow> Inr (cfg5\<lparr>cf_Instances := insts\<rparr>))))"

definition Load :: "(string \<Rightarrow> Config option) \<Rightarrow> string \<Rightarrow> config_error + Config" where
  "Load read path = (case read path of None \<Rightarrow> Inl LoadFailed | Some cfg \<Rightarrow> validate cfg)"

end
