(* ===== verification/Startup.thy ===== *)
theory Startup
  imports ServerConfig ApiRoutes Orchestrator
begin

section \<open>Start-up of the server (\<open>cmd/pgpulse-server/main.go\<close>)\<close>

text \<open>
  From the command line and the configuration to the server with its routes and the orchestrator. The outcome of every step that touches a
  database is an argument. The desktop build, which needs a build tag, is not modelled.
\<close>

subsection \<open>Flags\<close>

record cli_flags =
  fl_target :: string
  fl_targetHost :: string
  fl_targetPort :: int
  fl_targetUser :: string
  fl_targetPassword :: string
  fl_targetDBName :: string
  fl_listen :: string
  fl_history :: duration
  fl_noAuth :: bool
  fl_config :: string

text \<open>\<open>url.PathEscape\<close> on bytes.\<close>

definition hex_digit :: "nat \<Rightarrow> char" where
  "hex_digit n = ''0123456789ABCDEF'' ! n"

definition path_byte :: "char \<Rightarrow> bool" where
  "path_byte c \<longleftrightarrow>
     (let n = of_char c :: nat in 97 \<le> n \<and> n \<le> 122 \<or> 65 \<le> n \<and> n \<le> 90 \<or> 48 \<le> n \<and> n \<le> 57) \<or> c \<in> set ''-_.~$&+:=@''"

definition PathEscape :: "string \<Rightarrow> string" where
  "PathEscape s = concat (map (\<lambda>c. if path_byte c then [c] else [CHR ''%'', hex_digit (of_char c div 16), hex_digit (of_char c mod 16)]) s)"

text \<open>An instance made from flags has no intervals.\<close>

definition synthesizeCLIInstance :: "url_lib \<Rightarrow> cli_flags \<Rightarrow> InstanceConfig option" where
  "synthesizeCLIInstance lib f =
     (let dsn = (if fl_target f = '''' \<and> fl_targetHost f \<noteq> ''''
            then ''postgres://'' @ PathEscape (fl_targetUser f) @ '':'' @ PathEscape (fl_targetPassword f) @ ''@'' @ fl_targetHost f @ '':'' @ Itoa (fl_targetPort f) @
              ''/'' @ fl_targetDBName f @ ''?sslmode=disable''
            else fl_target f);
          (h, p) = main_extractHostPort lib dsn;
          db = (case url_Parse lib dsn of None \<Rightarrow> '''' | Some u \<Rightarrow> TrimPrefix (u_Path u) ''/'')
      in if dsn = '''' then None
         else Some \<lparr>ic_ID = ''cli-target'', ic_Name = h @ '':'' @ Itoa p @ ''/'' @ (if db = '''' then ''postgres'' else db), ic_DSN = dsn, ic_Description = '''',
           ic_Enabled = Some True, ic_MaxConns = 5, ic_Intervals = \<lparr>iv_High = 0, iv_Medium = 0, iv_Low = 0\<rparr>, ic_AgentURL = '''', ic_PatroniURL = '''',
           ic_PatroniConfig = '''', ic_PatroniCtlPath = '''', ic_ETCDEndpoints = [], ic_ETCDCtlPath = '''', ic_IncludeDatabases = [],
           ic_ExcludeDatabases = [], ic_MaxConcurrentDBs = 0, ic_OSMetricsMethod = ''''\<rparr>)"

subsection \<open>The effective configuration\<close>

text \<open>\<open>config.Config{}\<close>.\<close>

definition zero_config :: Config where
  "zero_config = \<lparr>
     cf_Server = \<lparr>hs_Listen = '''', hs_Port = 0, hs_LogLevel = '''', hs_CORSEnabled = False, hs_CORSOrigin = '''', hs_ReadTimeout = 0, hs_WriteTimeout = 0, hs_ShutdownTimeout = 0\<rparr>,
     cf_Storage = \<lparr>sg_DSN = '''', sg_UseTimescaleDB = False, sg_RetentionDays = 0\<rparr>,
     cf_Auth = \<lparr>ac_Enabled = False, ac_JWTSecret = '''', ac_RefreshSecret = '''', ac_AccessTokenTTL = 0, ac_RefreshTokenTTL = 0, ac_BcryptCost = 0, ac_InitialAdmin = None\<rparr>,
     cf_Alerting = \<lparr>al_Enabled = False, al_DefaultConsecutiveCount = 0, al_DefaultCooldownMinutes = 0, al_DefaultChannels = [], al_EvaluationTimeoutSec = 0,
       al_HistoryRetentionDays = 0, al_DashboardURL = '''', al_Email = None\<rparr>,
     cf_PlanCaptureEnabled = False, cf_SettingsSnapshotEnabled = False,
     cf_StatementSnapshots = \<lparr>sn_Enabled = False, sn_Interval = 0, sn_RetentionDays = 0, sn_CaptureOnStartup = False, sn_TopN = 0\<rparr>,
     cf_MLEnabled = False, cf_MLForecast = \<lparr>cff_Horizon = 0, cff_ConfidenceZ = 0, cff_AlertMinConsecutive = 0\<rparr>,
     cf_Remediation = \<lparr>rm_Enabled = False, rm_BackgroundInterval = 0, rm_RetentionDays = 0, rm_RCAUrgencyDelta = 0, rm_ForecastUrgencyDelta = 0\<rparr>,
     cf_RCA = \<lparr>cr_Enabled = False, cr_LookbackWindow = 0, cr_AutoTriggerSeverity = '''', cr_MaxIncidentsPerHour = 0, cr_RetentionDays = 0, cr_MaxTraversalDepth = 0,
       cr_MaxCandidateChains = 0, cr_MaxMetricsPerRun = 0, cr_MinEdgeScore = 0, cr_MinChainScore = 0, cr_DeferredForwardTail = 0, cr_ThresholdBaselineWindow = 0,
       cr_ThresholdCalmPeriod = 0, cr_ThresholdCalmSigma = 0\<rparr>,
     cf_Playbooks = \<lparr>pc_Enabled = False, pc_DefaultStatementTimeout = 0, pc_DefaultLockTimeout = 0, pc_ResultRowLimit = 0, pc_RunRetentionDays = 0, pc_ImplicitFeedbackWindow = 0\<rparr>,
     cf_ForecastEnabled = False,
     cf_MaintenanceForecast = \<lparr>fc_ETAWindowSize = 0, fc_ETADecayFactor = 0, fc_ETAMinSamples = 0, fc_EvaluationInterval = 0, fc_MinDataPoints = 0, fc_LookbackWindow = 0,
       fc_VacuumThresholdFallback = 0, fc_VacuumScaleFactorFallback = 0, fc_AnalyzeThresholdFallback = 0, fc_AnalyzeScaleFactorFallback = 0,
       fc_ReindexBloatThresholdTable = 0, fc_ReindexBloatThresholdIndex = 0, fc_BasebackupInterval = 0, fc_RetentionDays = 0\<rparr>,
     cf_OSMethod = '''', cf_Instances = []\<rparr>"

datatype exit_reason = FlagConflict | ConfigUnreadable | UnknownLogLevel | StorageUnreachable | MigrationFailed | RulesFailed | PlaybooksFailed | UsersFailed | NoInitialAdmin

definition parseLogLevel :: "string \<Rightarrow> string option" where
  "parseLogLevel s =
     (if s = ''debug'' then Some ''debug'' else if s = '''' \<or> s = ''info'' then Some ''info'' else if s = ''warn'' then Some ''warn''
      else if s = ''error'' then Some ''error'' else None)"

definition listen_address :: "cli_flags \<Rightarrow> config_server \<Rightarrow> string" where
  "listen_address f s =
     (let a = (if fl_listen f \<noteq> '''' then fl_listen f else hs_Listen s);
          b = (if hs_Port s \<noteq> 0 \<and> a = '''' then '':'' @ Itoa (hs_Port s) else a)
      in if b = '''' then '':8989'' else b)"

definition main_config :: "url_lib \<Rightarrow> (string \<Rightarrow> Config option) \<Rightarrow> cli_flags \<Rightarrow> exit_reason + Config" where
  "main_config lib read f =
     (if fl_target f \<noteq> '''' \<and> fl_targetHost f \<noteq> '''' then Inl FlagConflict
      else let cli = synthesizeCLIInstance lib f in
        case (case Load read (fl_config f) of Inr cfg \<Rightarrow> Some cfg | Inl e \<Rightarrow> if cli \<noteq> None then Some zero_config else None) of
          None \<Rightarrow> Inl ConfigUnreadable
        | Some cfg \<Rightarrow>
            let cfg1 = (case cli of None \<Rightarrow> cfg | Some inst \<Rightarrow> cfg\<lparr>cf_Instances := [inst]\<rparr>);
                cfg2 = (if fl_noAuth f then cfg1\<lparr>cf_Auth := (cf_Auth cfg1)\<lparr>ac_Enabled := False\<rparr>\<rparr> else cfg1);
                cfg3 = cfg2\<lparr>cf_Server := (cf_Server cfg2)\<lparr>hs_Listen := listen_address f (cf_Server cfg2)\<rparr>\<rparr>
            in case parseLogLevel (hs_LogLevel (cf_Server cfg3)) of None \<Rightarrow> Inl UnknownLogLevel | Some level \<Rightarrow> Inr cfg3)"

subsection \<open>Wiring\<close>

record boot_io =
  bi_pool :: bool
  bi_migrate :: bool
  bi_rules :: bool
  bi_playbooks :: bool
  bi_hash :: "string \<Rightarrow> int \<Rightarrow> string option"
  bi_now :: time

text \<open>The first administrator.\<close>

definition init_admin :: "boot_io \<Rightarrow> AuthConfig \<Rightarrow> UserTable \<Rightarrow> exit_reason + UserTable" where
  "init_admin io a t =
     (case Count_users t of None \<Rightarrow> Inl UsersFailed
      | Some n \<Rightarrow>
          if n > 0 then Inr t
          else case ac_InitialAdmin a of None \<Rightarrow> Inl NoInitialAdmin
          | Some adm \<Rightarrow>
              (case bi_hash io (ia_Password adm) (ac_BcryptCost a) of None \<Rightarrow> Inl UsersFailed
               | Some hash \<Rightarrow> (case Create_user (bi_now io) (ia_Username adm) hash RoleSuperAdmin t of None \<Rightarrow> Inl UsersFailed | Some (t', _) \<Rightarrow> Inr t')))"

definition jwt_service :: "AuthConfig \<Rightarrow> JWTService" where
  "jwt_service a =
     \<lparr>j_secret = ac_JWTSecret a, j_refreshSecret = (if ac_RefreshSecret a = '''' then ac_JWTSecret a else ac_RefreshSecret a),
      j_accessTokenTTL = ac_AccessTokenTTL a, j_refreshTokenTTL = ac_RefreshTokenTTL a\<rparr>"

definition cors_of :: "Config \<Rightarrow> string option" where
  "cors_of cfg = (if hs_CORSEnabled (cf_Server cfg) then Some (hs_CORSOrigin (cf_Server cfg)) else None)"

text \<open>The parts of \<open>startServer\<close> that concern the API: \<open>storage\<close> says that the stores it is given are there.\<close>

definition start_api :: "Config \<Rightarrow> bool \<Rightarrow> APIServer \<Rightarrow> APIServer" where
  "start_api cfg storage s =
     (let s1 = SetConnProvider s;
          s2 = (if storage \<and> cf_ForecastEnabled cfg then SetForecastEngine s1 else s1);
          s3 = (if storage \<and> pc_Enabled (cf_Playbooks cfg) then SetPlaybooks s2 else s2)
      in if sn_Enabled (cf_StatementSnapshots cfg) \<and> storage then SetPGSSCapturer s3 else s3)"

definition stored_api :: "Config \<Rightarrow> bool \<Rightarrow> AuthMode \<Rightarrow> APIServer" where
  "stored_api cfg ml mode =
     (let s = SetRCA (cr_Enabled (cf_RCA cfg)) (SetPGSSStore (SetRemediation (SetSnapshotStore (SetPlanStore
            (New_api (ac_Enabled (cf_Auth cfg)) (cors_of cfg) True (al_Enabled (cf_Alerting cfg)) True None mode)))))
      in start_api cfg True (if ml then SetMLDetector s else s))"

text \<open>The server, its tokens if it has any, the user table and the orchestrator, which gets no instance store.\<close>

record booted =
  bt_api :: APIServer
  bt_jwt :: "JWTService option"
  bt_users :: UserTable
  bt_instances :: instance_table
  bt_orch :: Orchestrator
  bt_orchHasStore :: bool

definition boot :: "url_lib \<Rightarrow> boot_io \<Rightarrow> (string \<Rightarrow> bool) \<Rightarrow> (string \<Rightarrow> time) \<Rightarrow> duration \<Rightarrow> Config \<Rightarrow> UserTable \<Rightarrow> instance_table \<Rightarrow> exit_reason + booted" where
  "boot lib io up clk history cfg users instances =
     (let mode = (if ac_Enabled (cf_Auth cfg) then AuthEnabled else AuthDisabled);
          orch = New_orchestrator (cf_Instances cfg) (cf_OSMethod cfg)
      in if sg_DSN (cf_Storage cfg) \<noteq> '''' then
           if \<not> bi_pool io then Inl StorageUnreachable
           else if \<not> bi_migrate io then Inl MigrationFailed
           else let insts = seedInstancesFromConfig lib up clk (cf_Instances cfg) instances in
             if al_Enabled (cf_Alerting cfg) \<and> \<not> bi_rules io then Inl RulesFailed
             else if pc_Enabled (cf_Playbooks cfg) \<and> \<not> bi_playbooks io then Inl PlaybooksFailed
             else if ac_Enabled (cf_Auth cfg) then
               (case init_admin io (cf_Auth cfg) users of Inl e \<Rightarrow> Inl e
                | Inr users' \<Rightarrow> Inr \<lparr>bt_api = stored_api cfg (cf_MLEnabled cfg) AuthEnabled, bt_jwt = Some (jwt_service (cf_Auth cfg)), bt_users = users',
                    bt_instances = insts, bt_orch = orch, bt_orchHasStore = False\<rparr>)
             else Inr \<lparr>bt_api = stored_api cfg False mode, bt_jwt = None, bt_users = users, bt_instances = insts, bt_orch = orch, bt_orchHasStore = False\<rparr>
         else Inr \<lparr>bt_api = start_api cfg False (New_api (ac_Enabled (cf_Auth cfg)) (cors_of cfg) False False False
                   (if cf_Instances cfg \<noteq> [] then Some history else None) mode),
               bt_jwt = None, bt_users = users, bt_instances = instances, bt_orch = orch, bt_orchHasStore = False\<rparr>)"

subsection \<open>Loops of a runner\<close>

text \<open>\<open>time.NewTicker\<close> panics on an interval that is not positive; nothing recovers a panic in the goroutine of a group.\<close>

definition NewTicker :: "duration \<Rightarrow> unit option" where
  "NewTicker d = (if d \<le> 0 then None else Some ())"

definition runner_start :: "instanceRunner \<Rightarrow> unit option" where
  "runner_start r = (if list_all (\<lambda>(name, interval, collectors). NewTicker interval \<noteq> None) (rn_groups r) then Some () else None)"

subsection \<open>Lists of instances for the other workers\<close>

definition ListInstanceIDs :: "InstanceConfig list \<Rightarrow> InstanceRecord list option option \<Rightarrow> string list" where
  "ListInstanceIDs cfgs store =
     (let ids = map ic_ID (filter ic_on cfgs) in
      ids @ (case store of Some (Some rs) \<Rightarrow> map ir_ID (filter (\<lambda>r. ir_Enabled r \<and> ir_ID r \<notin> set ids) rs) | _ \<Rightarrow> []))"

definition ActiveInstanceIDs :: "InstanceRecord list option option \<Rightarrow> string list option" where
  "ActiveInstanceIDs store = (case store of None \<Rightarrow> Some [] | Some None \<Rightarrow> None | Some (Some rs) \<Rightarrow> Some (map ir_ID (filter ir_Enabled rs)))"

text \<open>The pools of the statement capture; the configuration comes first, and neither source is asked whether the instance is enabled.\<close>

definition pool_dsn :: "InstanceConfig list \<Rightarrow> (string \<Rightarrow> InstanceRecord option option) option \<Rightarrow> string \<Rightarrow> string" where
  "pool_dsn cfgs get i =
     (let dsn = (case find (\<lambda>c. ic_ID c = i) cfgs of None \<Rightarrow> '''' | Some c \<Rightarrow> ic_DSN c) in
      if dsn = '''' then (case Option.bind get (\<lambda>g. g i) of Some (Some r) \<Rightarrow> ir_DSN r | _ \<Rightarrow> '''') else dsn)"

definition PoolForInstance ::
  "(string \<Rightarrow> bool) \<Rightarrow> InstanceConfig list \<Rightarrow> (string \<Rightarrow> InstanceRecord option option) option \<Rightarrow> string \<Rightarrow> (string, string) gomap \<Rightarrow> (string, string) gomap \<times> string option" where
  "PoolForInstance opens cfgs get i pools =
     (case map_of pools i of Some dsn \<Rightarrow> (pools, Some dsn)
      | None \<Rightarrow> let dsn = pool_dsn cfgs get i in
          if dsn = '''' \<or> \<not> opens dsn then (pools, None) else (map_put i dsn pools, Some dsn))"

end
