(* ===== verification/StartupLaws.thy ===== *)
theory StartupLaws
  imports Startup UserLaws CollectorLaws InstanceLaws
begin

section \<open>What start-up guarantees\<close>

text \<open>
  A configuration that passes the checks is a fixed point of them; when a server asks for authentication, and what it then has; which
  instances make the loops panic; and which settings the environment cannot reach.
\<close>

subsection \<open>Defaults\<close>

lemma or_default_idem [simp]: "or_default (or_default x d) d = or_default x d"
  by (simp add: or_default_def)

lemma or_text_idem [simp]: "or_text (or_text s d) d = or_text s d"
  by (simp add: or_text_def)

lemma instance_defaults_idem [simp]: "instance_defaults (instance_defaults x) = instance_defaults x"
  by (simp add: instance_defaults_def split: option.splits)

lemma alertingDefaults_idem [simp]: "alertingDefaults (alertingDefaults a) = alertingDefaults a"
  by (simp add: alertingDefaults_def option.map_comp o_def)

lemma section_defaults_idem [simp]: "section_defaults (section_defaults c) = section_defaults c"
  by (simp add: section_defaults_def remediation_defaults_def snapshot_defaults_def rca_defaults_def playbook_defaults_def ApplyDefaults_def)

lemma server_timeouts_idem [simp]: "server_timeouts (server_timeouts s) = server_timeouts s"
  by (simp add: server_timeouts_def)

lemma Itoa_nonempty [simp]: "Itoa n \<noteq> []"
  by (simp add: Itoa_def nat_digits.simps [of "nat _"])

lemma server_defaults_idem [simp]: "server_defaults (server_defaults s) = server_defaults s"
  by (simp add: server_defaults_def)

lemma server_defaults_timeouts [simp]: "server_defaults (server_timeouts (server_defaults s)) = server_timeouts (server_defaults s)"
  by (simp add: server_defaults_def server_timeouts_def)

lemma instance_defaults_fields [simp]: "ic_ID (instance_defaults x) = ic_ID x" "ic_DSN (instance_defaults x) = ic_DSN x"
  by (simp_all add: instance_defaults_def)

lemma validate_instances_result:
  "validate_instances i xs = Inr ys \<Longrightarrow> ys = map instance_defaults xs \<and> list_all (\<lambda>x. ic_ID x \<noteq> '''' \<and> ic_DSN x \<noteq> '''') xs"
  by (induction i xs arbitrary: ys rule: validate_instances.induct) (auto split: if_splits sum.splits)

lemma validate_instances_ok: "list_all (\<lambda>x. ic_ID x \<noteq> '''' \<and> ic_DSN x \<noteq> '''') xs \<Longrightarrow> validate_instances i xs = Inr (map instance_defaults xs)"
  by (induction i xs rule: validate_instances.induct) auto

text \<open>What a checked configuration is made of.\<close>

lemma validate_cases:
  assumes "validate cfg = Inr c"
  obtains c2 c3 c4 where
    "c2 = cfg\<lparr>cf_Server := server_timeouts (server_defaults (cf_Server cfg)), cf_Storage := (cf_Storage cfg)\<lparr>sg_RetentionDays := or_default (sg_RetentionDays (cf_Storage cfg)) 30\<rparr>\<rparr>"
    "validateAuth c2 = Inr c3" "validateAlerting c3 = Inr c4" "c = (section_defaults c4)\<lparr>cf_Instances := map instance_defaults (cf_Instances c4)\<rparr>"
    "hs_LogLevel (server_defaults (cf_Server cfg)) \<in> set validLogLevels" "cf_Instances c4 \<noteq> []"
    "list_all (\<lambda>x. ic_ID x \<noteq> '''' \<and> ic_DSN x \<noteq> '''') (cf_Instances c4)"
proof -
  have s: "cf_Instances (section_defaults x) = cf_Instances x" for x by (simp add: section_defaults_def)
  show ?thesis
    using assms that unfolding validate_def Let_def
    by (auto simp: s split: if_splits sum.splits dest!: validate_instances_result)
qed

lemma validateAuth_result:
  assumes "validateAuth x = Inr y"
  shows "y = x \<and> \<not> ac_Enabled (cf_Auth x) \<or>
    sg_DSN (cf_Storage x) \<noteq> '''' \<and> 32 \<le> length (ac_JWTSecret (cf_Auth x)) \<and> ac_Enabled (cf_Auth x) \<and>
    y = x\<lparr>cf_Auth := (cf_Auth x)\<lparr>ac_AccessTokenTTL := or_default (ac_AccessTokenTTL (cf_Auth x)) (24 * Hour),
      ac_RefreshTokenTTL := or_default (ac_RefreshTokenTTL (cf_Auth x)) (7 * 24 * Hour), ac_BcryptCost := or_default (ac_BcryptCost (cf_Auth x)) 12\<rparr>\<rparr>"
  using assms by (auto simp: validateAuth_def Let_def split: if_splits)

lemma validateAlerting_result:
  assumes "validateAlerting x = Inr y"
  shows "y = x\<lparr>cf_Alerting := alertingDefaults (cf_Alerting x)\<rparr> \<and>
    (al_Enabled (cf_Alerting x) \<longrightarrow> sg_DSN (cf_Storage x) \<noteq> '''') \<and>
    check_channels (al_Email (alertingDefaults (cf_Alerting x))) (al_DefaultChannels (cf_Alerting x)) = None"
  using assms by (auto simp: validateAlerting_def Let_def alertingDefaults_def split: if_splits option.splits)

lemma cf_fields:
  "cf_Server (section_defaults x) = cf_Server x" "cf_Storage (section_defaults x) = cf_Storage x" "cf_Auth (section_defaults x) = cf_Auth x"
  "cf_Alerting (section_defaults x) = cf_Alerting x" "cf_Instances (section_defaults x) = cf_Instances x"
  by (simp_all add: section_defaults_def)

lemma section_defaults_instances: "section_defaults (x\<lparr>cf_Instances := is\<rparr>) = (section_defaults x)\<lparr>cf_Instances := is\<rparr>"
  by (simp add: section_defaults_def)

lemma validated_fields:
  assumes "validate cfg = Inr c"
  shows "cf_Server c = server_timeouts (server_defaults (cf_Server cfg)) \<and> sg_RetentionDays (cf_Storage c) = or_default (sg_RetentionDays (cf_Storage cfg)) 30 \<and>
    section_defaults c = c \<and> cf_Alerting c = alertingDefaults (cf_Alerting cfg) \<and> map instance_defaults (cf_Instances c) = cf_Instances c \<and> cf_Instances c \<noteq> [] \<and>
    list_all (\<lambda>x. ic_ID x \<noteq> '''' \<and> ic_DSN x \<noteq> '''') (cf_Instances c) \<and> cf_Instances c = map instance_defaults (cf_Instances cfg) \<and>
    hs_LogLevel (cf_Server c) \<in> set validLogLevels \<and> validateAuth c = Inr c \<and> validateAlerting c = Inr c \<and> ac_Enabled (cf_Auth c) = ac_Enabled (cf_Auth cfg) \<and>
    (ac_Enabled (cf_Auth c) \<longrightarrow> sg_DSN (cf_Storage c) \<noteq> '''' \<and> 32 \<le> length (ac_JWTSecret (cf_Auth c)))"
proof (cases rule: validate_cases [OF assms])
  case (1 c2 c3 c4)
  note A = validateAuth_result [OF 1(2)]
  note L = validateAlerting_result [OF 1(3)]
  have s2: "cf_Server c2 = server_timeouts (server_defaults (cf_Server cfg))" "cf_Alerting c2 = cf_Alerting cfg" "cf_Instances c2 = cf_Instances cfg" "cf_Auth c2 = cf_Auth cfg"
    "cf_Storage c2 = (cf_Storage cfg)\<lparr>sg_RetentionDays := or_default (sg_RetentionDays (cf_Storage cfg)) 30\<rparr>" using 1(1) by simp_all
  have s3: "cf_Server c3 = cf_Server c2" "cf_Storage c3 = cf_Storage c2" "cf_Alerting c3 = cf_Alerting c2" "cf_Instances c3 = cf_Instances c2" using A by auto
  have s4: "cf_Server c4 = cf_Server c2" "cf_Storage c4 = cf_Storage c2" "cf_Auth c4 = cf_Auth c3" "cf_Alerting c4 = alertingDefaults (cf_Alerting cfg)"
    "cf_Instances c4 = cf_Instances cfg" using conjunct1 [OF L] s3 s2 by simp_all
  have c: "cf_Server c = cf_Server c2" "cf_Storage c = cf_Storage c2" "cf_Auth c = cf_Auth c3" "cf_Alerting c = alertingDefaults (cf_Alerting cfg)"
    "cf_Instances c = map instance_defaults (cf_Instances cfg)" using 1(4) s4 by (simp_all add: cf_fields)
  have "section_defaults c = c" unfolding 1(4) section_defaults_instances by simp
  moreover have "validateAuth c = Inr c"
  proof (cases "ac_Enabled (cf_Auth c2)")
    case True
    then show ?thesis using A c by (auto simp: validateAuth_def Let_def)
  next
    case False
    then show ?thesis using A c by (auto simp: validateAuth_def)
  qed
  moreover have "validateAlerting c = Inr c"
  proof -
    have "al_Email (alertingDefaults (cf_Alerting c)) = al_Email (cf_Alerting c)" "c\<lparr>cf_Alerting := alertingDefaults (cf_Alerting c)\<rparr> = c" using c(4) by simp_all
    then show ?thesis using L s3 s2 c by (simp add: validateAlerting_def Let_def alertingDefaults_def)
  qed
  moreover have "list_all (\<lambda>x. ic_ID x \<noteq> '''' \<and> ic_DSN x \<noteq> '''') (cf_Instances c)" using 1(7) s4 c(5) by (simp add: list_all_iff)
  moreover have "hs_LogLevel (cf_Server c) \<in> set validLogLevels" using 1(5) c(1) s2(1) by (simp add: server_timeouts_def)
  moreover have "ac_Enabled (cf_Auth c) = ac_Enabled (cf_Auth cfg)" using A c(3) s2(4) by auto
  moreover have "ac_Enabled (cf_Auth c) \<longrightarrow> sg_DSN (cf_Storage c) \<noteq> '''' \<and> 32 \<le> length (ac_JWTSecret (cf_Auth c))" using A c by auto
  ultimately show ?thesis using c s2 s4 1(6) by (simp add: o_def)
qed

text \<open>A configuration that has passed the checks passes them again unchanged: the defaults are complete and consistent with the checks.\<close>

theorem validate_idempotent:
  assumes "validate cfg = Inr c"
  shows "validate c = Inr c"
proof -
  note f = validated_fields [OF assms]
  have s: "c\<lparr>cf_Server := server_defaults (cf_Server c)\<rparr> = c" "c\<lparr>cf_Server := server_timeouts (cf_Server c),
    cf_Storage := (cf_Storage c)\<lparr>sg_RetentionDays := or_default (sg_RetentionDays (cf_Storage c)) 30\<rparr>\<rparr> = c"
    using f by simp_all
  have "validate_instances 0 (cf_Instances c) = Inr (cf_Instances c)" using validate_instances_ok f by metis
  moreover have "hs_LogLevel (cf_Server c) \<in> set validLogLevels" "validateAuth c = Inr c" "validateAlerting c = Inr c" "section_defaults c = c" "cf_Instances c \<noteq> []"
    using f by blast+
  ultimately show ?thesis using s by (simp add: validate_def Let_def)
qed

subsection \<open>Authentication\<close>

lemma api_fields [simp]:
  "ap_authEnabled (start_api cfg b s) = ap_authEnabled s" "ap_rateLimiter (start_api cfg b s) = ap_rateLimiter s"
  "ap_authEnabled (stored_api cfg ml mode) = ac_Enabled (cf_Auth cfg)"
  "ap_rateLimiter (stored_api cfg ml mode) = (if ac_Enabled (cf_Auth cfg) \<and> mode = AuthEnabled then Some (NewRateLimiter 10 (15 * Minute)) else None)"
  by (simp_all add: start_api_def stored_api_def SetConnProvider_def SetForecastEngine_def SetPlaybooks_def SetPGSSCapturer_def SetRCA_def SetPGSSStore_def
      SetRemediation_def SetSnapshotStore_def SetPlanStore_def SetMLDetector_def New_api_def Let_def)

lemma init_admin_users: "init_admin io a t = Inr t' \<Longrightarrow> ut_rows t' \<noteq> []"
  by (auto simp: init_admin_def Count_users_def Create_user_def Let_def split: option.splits if_splits)

lemma boot_auth:
  assumes "boot lib io up clk history cfg users instances = Inr b"
  shows "ap_authEnabled (bt_api b) = ac_Enabled (cf_Auth cfg) \<and> \<not> bt_orchHasStore b \<and> bt_orch b = New_orchestrator (cf_Instances cfg) (cf_OSMethod cfg) \<and>
    (ac_Enabled (cf_Auth cfg) \<and> sg_DSN (cf_Storage cfg) \<noteq> '''' \<longrightarrow>
       ap_rateLimiter (bt_api b) = Some (NewRateLimiter 10 (15 * Minute)) \<and> bt_jwt b = Some (jwt_service (cf_Auth cfg)) \<and> ut_rows (bt_users b) \<noteq> [])"
  using assms by (auto simp: boot_def Let_def New_api_def init_admin_users split: if_splits sum.splits)

lemma main_config_cases:
  assumes "main_config lib read f = Inr cfg"
  obtains c where "Load read (fl_config f) = Inr c \<or> (\<exists>e. Load read (fl_config f) = Inl e) \<and> synthesizeCLIInstance lib f \<noteq> None \<and> c = zero_config"
    "cf_Auth cfg = (if fl_noAuth f then (cf_Auth c)\<lparr>ac_Enabled := False\<rparr> else cf_Auth c)" "cf_Storage cfg = cf_Storage c"
    "cf_Instances cfg = (case synthesizeCLIInstance lib f of None \<Rightarrow> cf_Instances c | Some inst \<Rightarrow> [inst])" "\<not> (fl_target f \<noteq> '''' \<and> fl_targetHost f \<noteq> '''')"
proof (cases "Load read (fl_config f)")
  case (Inl e)
  then show ?thesis using assms that [of zero_config] by (auto simp: main_config_def Let_def split: if_splits option.splits)
next
  case (Inr c)
  then show ?thesis using assms that [of c] by (auto simp: main_config_def Let_def split: if_splits option.splits)
qed

lemma Load_validated: "Load read path = Inr c \<Longrightarrow> \<exists>d. read path = Some d \<and> validate d = Inr c"
  by (auto simp: Load_def split: option.splits)

text \<open>C36: The server that start-up produces asks for tokens exactly if the configuration file was read, passed the checks and enables
  authentication, and the flag against it is not given. It then limits logins, signs with a secret of at least 32 bytes and has an account. A
  file that does not pass the checks, together with a target on the command line, gives a server open to everyone.\<close>

theorem startup_auth_exact:
  assumes "main_config lib read f = Inr cfg" "boot lib io up clk history cfg users instances = Inr b"
  shows "(ap_authEnabled (bt_api b) \<longleftrightarrow> \<not> fl_noAuth f \<and> (\<exists>c. Load read (fl_config f) = Inr c \<and> ac_Enabled (cf_Auth c))) \<and>
    (ap_authEnabled (bt_api b) \<longrightarrow>
       ap_rateLimiter (bt_api b) = Some (NewRateLimiter 10 (15 * Minute)) \<and> ut_rows (bt_users b) \<noteq> [] \<and> (\<exists>jwt. bt_jwt b = Some jwt \<and> 32 \<le> length (j_secret jwt)))"
proof (cases rule: main_config_cases [OF assms(1)])
  case (1 c)
  have z: "\<not> ac_Enabled (cf_Auth zero_config)" by (simp add: zero_config_def)
  have e: "ac_Enabled (cf_Auth cfg) \<longleftrightarrow> \<not> fl_noAuth f \<and> (\<exists>c. Load read (fl_config f) = Inr c \<and> ac_Enabled (cf_Auth c))"
    using 1(1,2) z by auto
  have v: "sg_DSN (cf_Storage cfg) \<noteq> '''' \<and> 32 \<le> length (ac_JWTSecret (cf_Auth cfg))" if on: "ac_Enabled (cf_Auth cfg)"
  proof -
    have l: "Load read (fl_config f) = Inr c" "\<not> fl_noAuth f" using on 1(1,2) z by (auto split: if_splits)
    then obtain d where "validate d = Inr c" using Load_validated by blast
    from validated_fields [OF this] show ?thesis using on 1(2,3) l by simp
  qed
  show ?thesis using boot_auth [OF assms(2)] e v by (auto simp: jwt_service_def)
qed

subsection \<open>Loops\<close>

text \<open>An instance given on the command line has no intervals, so the loops of its runner panic as soon as it is connected; of an
  instance of the file they panic exactly if one of its intervals is negative.\<close>

theorem startup_loops:
  assumes "main_config lib read f = Inr cfg" "inst \<in> set (cf_Instances cfg)" "make_runner connect (cf_OSMethod cfg) inst = Some r"
  shows "runner_start r = None \<longleftrightarrow> synthesizeCLIInstance lib f \<noteq> None \<or> iv_High (ic_Intervals inst) < 0 \<or> iv_Medium (ic_Intervals inst) < 0 \<or> iv_Low (ic_Intervals inst) < 0"
proof (cases rule: main_config_cases [OF assms(1)])
  case (1 c)
  have r: "runner_start r = None \<longleftrightarrow> iv_High (ic_Intervals inst) \<le> 0 \<or> iv_Medium (ic_Intervals inst) \<le> 0 \<or> iv_Low (ic_Intervals inst) \<le> 0"
    using assms(3) by (auto simp: make_runner_def runner_start_def buildCollectors_def NewTicker_def split: if_splits)
  show ?thesis
  proof (cases "synthesizeCLIInstance lib f")
    case (Some i)
    then have "inst = i" using 1(4) assms(2) by simp
    then show ?thesis using r Some by (auto simp: synthesizeCLIInstance_def Let_def split: if_splits prod.splits)
  next
    case None
    then have "Load read (fl_config f) = Inr c" using 1(1) by blast
    then obtain d where "validate d = Inr c" using Load_validated by blast
    from validated_fields [OF this] have "cf_Instances c = map instance_defaults (cf_Instances d)" by simp
    then obtain x where "inst = instance_defaults x" using assms(2) 1(4) None by auto
    then have "iv_High (ic_Intervals inst) \<noteq> 0" "iv_Medium (ic_Intervals inst) \<noteq> 0" "iv_Low (ic_Intervals inst) \<noteq> 0"
      by (simp_all add: instance_defaults_def or_default_def)
    then show ?thesis using r None by auto
  qed
qed

subsection \<open>The instance store and the environment\<close>

text \<open>The orchestrator is built without the store of instances, so it never reloads them.\<close>

lemma never_reloads:
  assumes "boot lib io up clk history cfg users instances = Inr b"
  shows "\<not> or_reloading (fst (Start_orchestrator connect (bt_orchHasStore b) (bt_orch b)))"
proof -
  have keep: "or_reloading (fold (\<lambda>cfg o1. if ic_Enabled cfg = Some False then o1 else launch connect cfg o1) cs x) = or_reloading x" for cs x
    by (induction cs arbitrary: x) (auto simp: launch_def split: option.splits)
  have "\<not> bt_orchHasStore b" "bt_orch b = New_orchestrator (cf_Instances cfg) (cf_OSMethod cfg)" using boot_auth [OF assms(1)] by simp_all
  then show ?thesis by (simp add: Start_orchestrator_def Let_def keep New_orchestrator_def)
qed

text \<open>The name of a setting made from an environment variable has no underscore, and most settings have one.\<close>

lemma env_key_no_underscore: "CHR ''_'' \<notin> set (transformEnvKey s)"
  by (auto simp: transformEnvKey_def)

lemma env_secret_unreachable: "transformEnvKey v \<noteq> ''auth.jwt_secret''"
proof
  assume "transformEnvKey v = ''auth.jwt_secret''"
  then show False using env_key_no_underscore [of v] by simp
qed

subsection \<open>Witnesses\<close>

definition demo_target :: cli_flags where
  "demo_target = \<lparr>fl_target = ''host=db'', fl_targetHost = '''', fl_targetPort = 5432, fl_targetUser = '''', fl_targetPassword = '''', fl_targetDBName = '''',
     fl_listen = '''', fl_history = 2 * Hour, fl_noAuth = False, fl_config = ''pgpulse.yml''\<rparr>"

text \<open>A file that enables authentication with a secret that is too short.\<close>

definition demo_file :: "bool \<Rightarrow> Config" where
  "demo_file on = zero_config\<lparr>cf_Auth := (cf_Auth zero_config)\<lparr>ac_Enabled := on, ac_JWTSecret := ''short''\<rparr>,
     cf_Storage := (cf_Storage zero_config)\<lparr>sg_DSN := ''host=store''\<rparr>,
     cf_Instances := [the (synthesizeCLIInstance demo_url demo_target)\<lparr>ic_ID := ''db1''\<rparr>]\<rparr>"

definition demo_boot_io :: boot_io where
  "demo_boot_io = \<lparr>bi_pool = True, bi_migrate = True, bi_rules = True, bi_playbooks = True, bi_hash = (\<lambda>p c. Some p), bi_now = 0\<rparr>"

lemma demo_target_instance: "\<exists>i. synthesizeCLIInstance demo_url demo_target = Some i"
  by (simp add: synthesizeCLIInstance_def demo_target_def Let_def split: prod.splits)

lemma demo_short: "Load (\<lambda>p. Some (demo_file True)) p = Inl ShortSecret"
  by (simp add: Load_def validate_def validateAuth_def demo_file_def zero_config_def server_defaults_def or_text_def validLogLevels_def Let_def)

lemma demo_main: "\<exists>cfg. main_config demo_url (\<lambda>p. Some (demo_file True)) demo_target = Inr cfg \<and> sg_DSN (cf_Storage cfg) = '''' \<and> (\<exists>i. cf_Instances cfg = [i])"
proof -
  obtain i where i: "synthesizeCLIInstance demo_url demo_target = Some i" using demo_target_instance by blast
  have "hs_LogLevel (cf_Server zero_config) = ''''" "sg_DSN (cf_Storage zero_config) = ''''" by (simp_all add: zero_config_def)
  moreover have "fl_targetHost demo_target = ''''" "\<not> fl_noAuth demo_target" by (simp_all add: demo_target_def)
  ultimately show ?thesis using i by (simp add: main_config_def demo_short Let_def parseLogLevel_def)
qed

theorem startup_auth_exact_witness:
  "\<exists>cfg b. main_config demo_url (\<lambda>p. Some (demo_file True)) demo_target = Inr cfg \<and>
     boot demo_url demo_boot_io (\<lambda>_. True) (\<lambda>_. 0) Hour cfg \<lparr>ut_rows = [], ut_next_id = 1, ut_up = True\<rparr> [] = Inr b \<and> \<not> ap_authEnabled (bt_api b)"
proof -
  obtain cfg where c: "main_config demo_url (\<lambda>p. Some (demo_file True)) demo_target = Inr cfg" "sg_DSN (cf_Storage cfg) = ''''" using demo_main by blast
  then obtain b where b: "boot demo_url demo_boot_io (\<lambda>_. True) (\<lambda>_. 0) Hour cfg \<lparr>ut_rows = [], ut_next_id = 1, ut_up = True\<rparr> [] = Inr b"
    by (simp add: boot_def Let_def)
  from startup_auth_exact [OF c(1) b] have "\<not> ap_authEnabled (bt_api b)" by (simp add: demo_short)
  then show ?thesis using c b by blast
qed

theorem startup_loops_witness:
  "\<exists>cfg inst r. main_config demo_url (\<lambda>p. Some (demo_file True)) demo_target = Inr cfg \<and> inst \<in> set (cf_Instances cfg) \<and>
     make_runner (\<lambda>_. Some demo_version) (cf_OSMethod cfg) inst = Some r \<and> runner_start r = None"
proof -
  obtain cfg inst where c: "main_config demo_url (\<lambda>p. Some (demo_file True)) demo_target = Inr cfg" "inst \<in> set (cf_Instances cfg)" using demo_main by force
  obtain r where r: "make_runner (\<lambda>_. Some demo_version) (cf_OSMethod cfg) inst = Some r" by (simp add: make_runner_def)
  from startup_loops [OF c r] have "runner_start r = None" using demo_target_instance by auto
  then show ?thesis using c r by blast
qed

theorem validate_idempotent_witness:
  "\<exists>c. validate (demo_file False) = Inr c \<and> validate c = Inr c"
proof -
  obtain i where i: "synthesizeCLIInstance demo_url demo_target = Some i" using demo_target_instance by blast
  then have d: "ic_DSN i \<noteq> ''''" by (auto simp: synthesizeCLIInstance_def demo_target_def Let_def split: prod.splits)
  have "\<exists>c. validate (demo_file False) = Inr c"
    by (simp add: validate_def validateAuth_def validateAlerting_def alertingDefaults_def section_defaults_def demo_file_def zero_config_def server_defaults_def
        or_text_def validLogLevels_def i d Let_def)
  then show ?thesis using validate_idempotent by blast
qed

end
