(* ===== verification/StatementCapture.thy ===== *)
theory StatementCapture
  imports Statements CollectorCore PgMetrics
begin

section \<open>Capture, storage and pages of query statistics (\<open>internal/statements\<close>, \<open>internal/api/handler_snapshots.go\<close>)\<close>

text \<open>
  The reading of \<open>pg_stat_statements\<close> with its two statements, the transaction that stores a snapshot, the queries of
  the two tables, the capture cycle and the handlers. What a server answers is an argument of each operation; the two
  tables are lists of rows with the keys and the cascade of migration 015.
\<close>

subsection \<open>Reading the view (\<open>capture.go\<close>)\<close>

datatype pgss_col = Q_queryid | Q_userid | Q_dbid | Q_query | Q_calls | Q_total_exec_time | Q_total_plan_time | Q_rows
  | Q_shared_blks_hit | Q_shared_blks_read | Q_shared_blks_dirtied | Q_shared_blks_written | Q_local_blks_hit | Q_local_blks_read
  | Q_temp_blks_read | Q_temp_blks_written | Q_blk_read_time | Q_blk_write_time | Q_wal_records | Q_wal_fpi | Q_wal_bytes
  | Q_mean_exec_time | Q_min_exec_time | Q_max_exec_time | Q_stddev_exec_time

datatype cell = CNull | CInt int | CFloat float64 | CText string

text \<open>A statement is its list of columns, with the ones that are a literal \<open>NULL\<close>.\<close>

record pgss_stmt =
  ps_cols :: "pgss_col list"
  ps_nulls :: "pgss_col list"

definition pgss_13 :: pgss_stmt where
  "pgss_13 = \<lparr>ps_cols = [Q_queryid, Q_userid, Q_dbid, Q_query, Q_calls, Q_total_exec_time, Q_total_plan_time, Q_rows,
       Q_shared_blks_hit, Q_shared_blks_read, Q_shared_blks_dirtied, Q_shared_blks_written, Q_local_blks_hit, Q_local_blks_read,
       Q_temp_blks_read, Q_temp_blks_written, Q_blk_read_time, Q_blk_write_time, Q_wal_records, Q_wal_fpi, Q_wal_bytes,
       Q_mean_exec_time, Q_min_exec_time, Q_max_exec_time, Q_stddev_exec_time], ps_nulls = []\<rparr>"

definition pgss_12 :: pgss_stmt where
  "pgss_12 = \<lparr>ps_cols = [Q_queryid, Q_userid, Q_dbid, Q_query, Q_calls, Q_total_exec_time, Q_rows,
       Q_shared_blks_hit, Q_shared_blks_read, Q_shared_blks_dirtied, Q_shared_blks_written, Q_local_blks_hit, Q_local_blks_read,
       Q_temp_blks_read, Q_temp_blks_written, Q_blk_read_time, Q_blk_write_time, Q_total_plan_time, Q_wal_records, Q_wal_fpi, Q_wal_bytes,
       Q_mean_exec_time, Q_min_exec_time, Q_max_exec_time, Q_stddev_exec_time],
     ps_nulls = [Q_total_plan_time, Q_wal_records, Q_wal_fpi, Q_wal_bytes, Q_mean_exec_time, Q_min_exec_time, Q_max_exec_time, Q_stddev_exec_time]\<rparr>"

definition pgssGate :: "pgss_stmt gate" where
  "pgssGate = [(\<lparr>vr_MinMajor = 13, vr_MinMinor = 0, vr_MaxMajor = 0, vr_MaxMinor = 0\<rparr>, pgss_13),
               (\<lparr>vr_MinMajor = 9, vr_MinMinor = 0, vr_MaxMajor = 12, vr_MaxMinor = 99\<rparr>, pgss_12)]"

text \<open>The view as the server has it: \<open>left(query, 8192)\<close>, the literal nulls, and no row without a \<open>queryid\<close>.\<close>

definition select_cell :: "pgss_stmt \<Rightarrow> (pgss_col \<Rightarrow> cell) \<Rightarrow> pgss_col \<Rightarrow> cell" where
  "select_cell st row c =
     (if c \<in> set (ps_nulls st) then CNull
      else if c = Q_query then (case row c of CText s \<Rightarrow> CText (take 8192 s) | v \<Rightarrow> v) else row c)"

definition pgss_select :: "pgss_stmt \<Rightarrow> (pgss_col \<Rightarrow> cell) list \<Rightarrow> cell list list" where
  "pgss_select st view = map (\<lambda>row. map (select_cell st row) (ps_cols st)) (filter (\<lambda>row. row Q_queryid \<noteq> CNull) view)"

text \<open>\<open>rows.Scan\<close> into the field of a column: a plain field takes no null, a pointer does.\<close>

fun scan_int :: "cell \<Rightarrow> int option" where
  "scan_int (CInt n) = Some n" | "scan_int _ = None"

fun scan_float :: "cell \<Rightarrow> float64 option" where
  "scan_float (CFloat x) = Some x" | "scan_float _ = None"

fun scan_text :: "cell \<Rightarrow> string option" where
  "scan_text (CText s) = Some s" | "scan_text _ = None"

definition scan_opt :: "(cell \<Rightarrow> 'a option) \<Rightarrow> cell \<Rightarrow> 'a option option" where
  "scan_opt f c = (if c = CNull then Some None else map_option Some (f c))"

primrec scan_field :: "pgss_col \<Rightarrow> cell \<Rightarrow> SnapshotEntry \<Rightarrow> SnapshotEntry option" where
  "scan_field Q_queryid v e = map_option (\<lambda>x. e\<lparr>sn_QueryID := x\<rparr>) (scan_int v)"
| "scan_field Q_userid v e = map_option (\<lambda>x. e\<lparr>sn_UserID := x\<rparr>) (scan_int v)"
| "scan_field Q_dbid v e = map_option (\<lambda>x. e\<lparr>sn_DbID := x\<rparr>) (scan_int v)"
| "scan_field Q_query v e = map_option (\<lambda>x. e\<lparr>sn_Query := x\<rparr>) (scan_text v)"
| "scan_field Q_calls v e = map_option (\<lambda>x. e\<lparr>sn_Calls := x\<rparr>) (scan_int v)"
| "scan_field Q_total_exec_time v e = map_option (\<lambda>x. e\<lparr>sn_TotalExecTime := x\<rparr>) (scan_float v)"
| "scan_field Q_total_plan_time v e = map_option (\<lambda>x. e\<lparr>sn_TotalPlanTime := x\<rparr>) (scan_opt scan_float v)"
| "scan_field Q_rows v e = map_option (\<lambda>x. e\<lparr>sn_Rows := x\<rparr>) (scan_int v)"
| "scan_field Q_shared_blks_hit v e = map_option (\<lambda>x. e\<lparr>sn_SharedBlksHit := x\<rparr>) (scan_int v)"
| "scan_field Q_shared_blks_read v e = map_option (\<lambda>x. e\<lparr>sn_SharedBlksRead := x\<rparr>) (scan_int v)"
| "scan_field Q_shared_blks_dirtied v e = map_option (\<lambda>x. e\<lparr>sn_SharedBlksDirtied := x\<rparr>) (scan_int v)"
| "scan_field Q_shared_blks_written v e = map_option (\<lambda>x. e\<lparr>sn_SharedBlksWritten := x\<rparr>) (scan_int v)"
| "scan_field Q_local_blks_hit v e = map_option (\<lambda>x. e\<lparr>sn_LocalBlksHit := x\<rparr>) (scan_int v)"
| "scan_field Q_local_blks_read v e = map_option (\<lambda>x. e\<lparr>sn_LocalBlksRead := x\<rparr>) (scan_int v)"
| "scan_field Q_temp_blks_read v e = map_option (\<lambda>x. e\<lparr>sn_TempBlksRead := x\<rparr>) (scan_int v)"
| "scan_field Q_temp_blks_written v e = map_option (\<lambda>x. e\<lparr>sn_TempBlksWritten := x\<rparr>) (scan_int v)"
| "scan_field Q_blk_read_time v e = map_option (\<lambda>x. e\<lparr>sn_BlkReadTime := x\<rparr>) (scan_float v)"
| "scan_field Q_blk_write_time v e = map_option (\<lambda>x. e\<lparr>sn_BlkWriteTime := x\<rparr>) (scan_float v)"
| "scan_field Q_wal_records v e = map_option (\<lambda>x. e\<lparr>sn_WALRecords := x\<rparr>) (scan_opt scan_int v)"
| "scan_field Q_wal_fpi v e = map_option (\<lambda>x. e\<lparr>sn_WALFpi := x\<rparr>) (scan_opt scan_int v)"
| "scan_field Q_wal_bytes v e = map_option (\<lambda>x. e\<lparr>sn_WALBytes := x\<rparr>) (scan_opt scan_float v)"
| "scan_field Q_mean_exec_time v e = map_option (\<lambda>x. e\<lparr>sn_MeanExecTime := x\<rparr>) (scan_opt scan_float v)"
| "scan_field Q_min_exec_time v e = map_option (\<lambda>x. e\<lparr>sn_MinExecTime := x\<rparr>) (scan_opt scan_float v)"
| "scan_field Q_max_exec_time v e = map_option (\<lambda>x. e\<lparr>sn_MaxExecTime := x\<rparr>) (scan_opt scan_float v)"
| "scan_field Q_stddev_exec_time v e = map_option (\<lambda>x. e\<lparr>sn_StddevExecTime := x\<rparr>) (scan_opt scan_float v)"

definition empty_entry :: SnapshotEntry where
  "empty_entry = \<lparr>sn_SnapshotID = 0, sn_QueryID = 0, sn_UserID = 0, sn_DbID = 0, sn_DatabaseName = '''', sn_UserName = '''', sn_Query = '''',
     sn_Calls = 0, sn_TotalExecTime = 0, sn_TotalPlanTime = None, sn_Rows = 0, sn_SharedBlksHit = 0, sn_SharedBlksRead = 0,
     sn_SharedBlksDirtied = 0, sn_SharedBlksWritten = 0, sn_LocalBlksHit = 0, sn_LocalBlksRead = 0, sn_TempBlksRead = 0,
     sn_TempBlksWritten = 0, sn_BlkReadTime = 0, sn_BlkWriteTime = 0, sn_WALRecords = None, sn_WALFpi = None, sn_WALBytes = None,
     sn_MeanExecTime = None, sn_MinExecTime = None, sn_MaxExecTime = None, sn_StddevExecTime = None\<rparr>"

text \<open>The two argument lists of \<open>Scan\<close>, and a scan that needs as many cells as arguments.\<close>

definition scan_args_13 :: "pgss_col list" where
  "scan_args_13 = [Q_queryid, Q_userid, Q_dbid, Q_query, Q_calls, Q_total_exec_time, Q_total_plan_time, Q_rows,
     Q_shared_blks_hit, Q_shared_blks_read, Q_shared_blks_dirtied, Q_shared_blks_written, Q_local_blks_hit, Q_local_blks_read,
     Q_temp_blks_read, Q_temp_blks_written, Q_blk_read_time, Q_blk_write_time, Q_wal_records, Q_wal_fpi, Q_wal_bytes,
     Q_mean_exec_time, Q_min_exec_time, Q_max_exec_time, Q_stddev_exec_time]"

definition scan_args_12 :: "pgss_col list" where
  "scan_args_12 = [Q_queryid, Q_userid, Q_dbid, Q_query, Q_calls, Q_total_exec_time, Q_rows,
     Q_shared_blks_hit, Q_shared_blks_read, Q_shared_blks_dirtied, Q_shared_blks_written, Q_local_blks_hit, Q_local_blks_read,
     Q_temp_blks_read, Q_temp_blks_written, Q_blk_read_time, Q_blk_write_time, Q_total_plan_time, Q_wal_records, Q_wal_fpi, Q_wal_bytes,
     Q_mean_exec_time, Q_min_exec_time, Q_max_exec_time, Q_stddev_exec_time]"

fun scan_row :: "pgss_col list \<Rightarrow> cell list \<Rightarrow> SnapshotEntry \<Rightarrow> SnapshotEntry option" where
  "scan_row [] [] e = Some e"
| "scan_row (c # cs) (v # vs) e = (case scan_field c v e of None \<Rightarrow> None | Some e' \<Rightarrow> scan_row cs vs e')"
| "scan_row _ _ e = None"

text \<open>The answer to the statement: no result, or the rows of the view and whether the iteration ended well.\<close>

definition scanPGSSEntries :: "((pgss_col \<Rightarrow> cell) list \<times> bool) option \<Rightarrow> pgss_stmt \<Rightarrow> PGVersion \<Rightarrow> SnapshotEntry list option" where
  "scanPGSSEntries answer sql pgVer =
     (case answer of None \<Rightarrow> None
      | Some (view, ended) \<Rightarrow>
          (let args = (if AtLeast pgVer 13 0 then scan_args_13 else scan_args_12) in
           case scan_rows (map (\<lambda>cells. scan_row args cells empty_entry) (pgss_select sql view)) of
             None \<Rightarrow> None | Some es \<Rightarrow> if ended then Some es else None))"

text \<open>\<open>resolveDBNames\<close> and \<open>resolveUserNames\<close>: a row that does not scan loses the map, an error at the end does not,
  and \<open>CaptureInstance\<close> uses the map in both cases.\<close>

fun resolve_names :: "(int \<times> string) answer \<Rightarrow> (int, string) gomap" where
  "resolve_names QueryFails = []"
| "resolve_names (Answer rows ok) = (case scan_rows rows of None \<Rightarrow> [] | Some rs \<Rightarrow> fold (\<lambda>(oid, name) m. map_put oid name m) rs [])"

definition name_entry :: "(int, string) gomap \<Rightarrow> (int, string) gomap \<Rightarrow> SnapshotEntry \<Rightarrow> SnapshotEntry" where
  "name_entry dbNames userNames e0 =
     (let e1 = (case map_of dbNames (sn_DbID e0) of None \<Rightarrow> e0 | Some n \<Rightarrow> e0\<lparr>sn_DatabaseName := n\<rparr>)
      in case map_of userNames (sn_UserID e1) of None \<Rightarrow> e1 | Some n \<Rightarrow> e1\<lparr>sn_UserName := n\<rparr>)"

subsection \<open>The two tables (\<open>pgstore.go\<close>, migration 015)\<close>

record snapshot_db =
  sb_snaps :: "Snapshot list"
  sb_entries :: "SnapshotEntry list"
  sb_next :: int

definition empty_snapshots :: snapshot_db where
  "empty_snapshots = \<lparr>sb_snaps = [], sb_entries = [], sb_next = 1\<rparr>"

text \<open>The outcomes of the statements of the transaction.\<close>

record write_io =
  wi_begin :: bool
  wi_insert :: bool
  wi_entries :: bool
  wi_commit :: bool

definition entry_pk :: "SnapshotEntry \<Rightarrow> int \<times> int \<times> int \<times> int" where
  "entry_pk e = (sn_SnapshotID e, sn_QueryID e, sn_DbID e, sn_UserID e)"

definition entryValues :: "int \<Rightarrow> SnapshotEntry \<Rightarrow> SnapshotEntry" where
  "entryValues snapID e = e\<lparr>sn_SnapshotID := snapID\<rparr>"

text \<open>\<open>COPY\<close> is one statement, the batch one insertion after the other; the primary key refuses a second row.\<close>

definition copyEntries :: "bool \<Rightarrow> int \<Rightarrow> SnapshotEntry list \<Rightarrow> SnapshotEntry list \<Rightarrow> SnapshotEntry list option" where
  "copyEntries up snapID entries rows =
     (let new = map (entryValues snapID) entries in
      if up \<and> distinct (map entry_pk new) \<and> set (map entry_pk new) \<inter> set (map entry_pk rows) = {} then Some (rows @ new) else None)"

fun batchInsertEntries :: "bool \<Rightarrow> int \<Rightarrow> SnapshotEntry list \<Rightarrow> SnapshotEntry list \<Rightarrow> SnapshotEntry list option" where
  "batchInsertEntries up snapID [] rows = Some rows"
| "batchInsertEntries up snapID (e # es) rows =
     (let r = entryValues snapID e in
      if \<not> up \<or> entry_pk r \<in> entry_pk ` set rows then None else batchInsertEntries up snapID es (rows @ [r]))"

definition total_calls :: "SnapshotEntry list \<Rightarrow> int" where
  "total_calls entries = fold (\<lambda>e acc. wrap64 (acc + sn_Calls e)) entries 0"

definition total_exec :: "SnapshotEntry list \<Rightarrow> float64" where
  "total_exec entries = fold (\<lambda>e acc. acc + sn_TotalExecTime e) entries 0"

definition snapshot_row :: "int \<Rightarrow> Snapshot \<Rightarrow> SnapshotEntry list \<Rightarrow> Snapshot" where
  "snapshot_row i snap entries = snap\<lparr>ss_ID := i, ss_CapturedAt := micros (ss_CapturedAt snap), ss_StatsReset := map_option micros (ss_StatsReset snap),
     ss_TotalStatements := int (length entries), ss_TotalCalls := total_calls entries, ss_TotalExecTime := total_exec entries\<rparr>"

text \<open>The result is the tables and the new identifier. The sequence keeps a number it has handed out when the
  transaction is rolled back.\<close>

definition WriteSnapshot :: "write_io \<Rightarrow> Snapshot \<Rightarrow> SnapshotEntry list \<Rightarrow> snapshot_db \<Rightarrow> snapshot_db \<times> int option" where
  "WriteSnapshot io snap entries db =
     (if \<not> wi_begin io \<or> \<not> wi_insert io then (db, None)
      else
        let snapID = sb_next db; row = snapshot_row snapID snap entries; burnt = db\<lparr>sb_next := sb_next db + 1\<rparr> in
        if (ss_InstanceID row, ss_CapturedAt row) \<in> (\<lambda>s. (ss_InstanceID s, ss_CapturedAt s)) ` set (sb_snaps db) then (burnt, None)
        else if entries = [] then
          (if wi_commit io then (burnt\<lparr>sb_snaps := sb_snaps db @ [row]\<rparr>, Some snapID) else (burnt, None))
        else
          case (if length entries > 100 then copyEntries (wi_entries io) snapID entries (sb_entries db)
                else batchInsertEntries (wi_entries io) snapID entries (sb_entries db)) of
            None \<Rightarrow> (burnt, None)
          | Some rows \<Rightarrow>
              if wi_commit io then (burnt\<lparr>sb_snaps := sb_snaps db @ [row], sb_entries := rows\<rparr>, Some snapID) else (burnt, None))"

definition db_GetSnapshot :: "bool \<Rightarrow> int \<Rightarrow> snapshot_db \<Rightarrow> Snapshot option" where
  "db_GetSnapshot up i db = (if up then find (\<lambda>s. ss_ID s = i) (sb_snaps db) else None)"

text \<open>\<open>LIMIT\<close> and \<open>OFFSET\<close>, which is refused below zero. The window count stands in every row, so an empty page has none.\<close>

definition sql_page :: "int \<Rightarrow> int \<Rightarrow> 'a list \<Rightarrow> ('a list \<times> int) option" where
  "sql_page limit offset rows =
     (if offset < 0 then None
      else let page = take (nat limit) (drop (nat offset) rows) in Some (page, if page = [] then 0 else int (length rows)))"

definition entries_of :: "int \<Rightarrow> snapshot_db \<Rightarrow> SnapshotEntry list" where
  "entries_of i db = filter (\<lambda>e. sn_SnapshotID e = i) (sb_entries db)"

definition by_exec_time :: "SnapshotEntry list \<Rightarrow> SnapshotEntry list" where
  "by_exec_time = sort_slice (\<lambda>a b. sn_TotalExecTime a > sn_TotalExecTime b)"

definition db_GetSnapshotEntries :: "bool \<Rightarrow> int \<Rightarrow> int \<Rightarrow> int \<Rightarrow> snapshot_db \<Rightarrow> (SnapshotEntry list \<times> int) option" where
  "db_GetSnapshotEntries up snapshotID limit0 offset db =
     (let limit = (if limit0 \<le> 0 then 50 else limit0) in
      if up then sql_page limit offset (by_exec_time (entries_of snapshotID db)) else None)"

record SnapshotListOptions =
  lo_Limit :: int
  lo_Offset :: int
  lo_From :: "time option"
  lo_To :: "time option"

definition newest :: "Snapshot list \<Rightarrow> Snapshot list" where
  "newest = sort_slice (\<lambda>a b. ss_CapturedAt a > ss_CapturedAt b)"

definition db_ListSnapshots :: "bool \<Rightarrow> string \<Rightarrow> SnapshotListOptions \<Rightarrow> snapshot_db \<Rightarrow> (Snapshot list \<times> int) option" where
  "db_ListSnapshots up instanceID opts db =
     (let limit = (if lo_Limit opts \<le> 0 then 50 else lo_Limit opts);
          wanted = (\<lambda>s. ss_InstanceID s = instanceID
            \<and> (case lo_From opts of None \<Rightarrow> True | Some t \<Rightarrow> ss_CapturedAt s \<ge> micros t)
            \<and> (case lo_To opts of None \<Rightarrow> True | Some t \<Rightarrow> ss_CapturedAt s \<le> micros t))
      in if up then sql_page limit (lo_Offset opts) (newest (filter wanted (sb_snaps db))) else None)"

definition db_GetLatestSnapshots :: "bool \<Rightarrow> string \<Rightarrow> int \<Rightarrow> snapshot_db \<Rightarrow> Snapshot list option" where
  "db_GetLatestSnapshots up instanceID n0 db =
     (let n = (if n0 \<le> 0 then 2 else n0) in
      if up then Some (take (nat n) (newest (filter (\<lambda>s. ss_InstanceID s = instanceID) (sb_snaps db)))) else None)"

text \<open>The columns of the two tables and the references of the join. The text of the statement puts the alias before the
  first column of \<open>entryCols\<close> only. PostgreSQL resolves an unqualified reference when exactly one table has the column.\<close>

definition snapshot_cols :: "string list" where
  "snapshot_cols = [''id'', ''instance_id'', ''captured_at'', ''pg_version'', ''stats_reset'', ''total_statements'', ''total_calls'', ''total_exec_time'']"

definition entryCols :: "string list" where
  "entryCols = [''snapshot_id'', ''queryid'', ''userid'', ''dbid'', ''database_name'', ''user_name'', ''query'',
     ''calls'', ''total_exec_time'', ''total_plan_time'', ''rows'', ''shared_blks_hit'', ''shared_blks_read'', ''shared_blks_dirtied'',
     ''shared_blks_written'', ''local_blks_hit'', ''local_blks_read'', ''temp_blks_read'', ''temp_blks_written'', ''blk_read_time'',
     ''blk_write_time'', ''wal_records'', ''wal_fpi'', ''wal_bytes'', ''mean_exec_time'', ''min_exec_time'', ''max_exec_time'', ''stddev_exec_time'']"

definition resolves :: "(string \<times> string list) list \<Rightarrow> string option \<times> string \<Rightarrow> bool" where
  "resolves tables = (\<lambda>(q, c). length (filter (\<lambda>(alias, cols). (case q of None \<Rightarrow> True | Some a \<Rightarrow> a = alias) \<and> c \<in> set cols) tables) = 1)"

definition query_tables :: "(string \<times> string list) list" where
  "query_tables = [(''e'', entryCols), (''snap'', snapshot_cols)]"

definition query_refs :: "(string option \<times> string) list" where
  "query_refs = (Some ''e'', hd entryCols) # map (\<lambda>c. (None, c)) (tl entryCols) @ map (\<lambda>c. (Some ''snap'', c)) snapshot_cols
     @ [(Some ''e'', ''queryid''), (Some ''snap'', ''instance_id''), (Some ''snap'', ''captured_at'')]"

definition query_join :: "string \<Rightarrow> int \<Rightarrow> time \<Rightarrow> time \<Rightarrow> snapshot_db \<Rightarrow> (SnapshotEntry \<times> Snapshot) list" where
  "query_join instanceID queryID from to db =
     sort_slice (\<lambda>a b. ss_CapturedAt (snd a) < ss_CapturedAt (snd b))
       (filter (\<lambda>(e, s). ss_ID s = sn_SnapshotID e \<and> sn_QueryID e = queryID \<and> ss_InstanceID s = instanceID
            \<and> micros from \<le> ss_CapturedAt s \<and> ss_CapturedAt s \<le> micros to)
          (List.product (sb_entries db) (sb_snaps db)))"

definition db_GetEntriesForQuery :: "bool \<Rightarrow> string \<Rightarrow> int \<Rightarrow> time \<Rightarrow> time \<Rightarrow> snapshot_db \<Rightarrow> (SnapshotEntry list \<times> Snapshot list) option" where
  "db_GetEntriesForQuery up instanceID queryID from to db =
     (if \<not> up \<or> \<not> list_all (resolves query_tables) query_refs then None
      else let rows = query_join instanceID queryID from to db in Some (map fst rows, map snd rows))"

definition CleanOldSnapshots :: "bool \<Rightarrow> time \<Rightarrow> snapshot_db \<Rightarrow> snapshot_db option" where
  "CleanOldSnapshots up olderThan db =
     (if up then
        let kept = filter (\<lambda>s. \<not> ss_CapturedAt s < micros olderThan) (sb_snaps db) in
        Some (db\<lparr>sb_snaps := kept, sb_entries := filter (\<lambda>e. sn_SnapshotID e \<in> ss_ID ` set kept) (sb_entries db)\<rparr>)
      else None)"

subsection \<open>The capturer\<close>

datatype capture_error = NoPool | NoConnection | NoVersion | NoExtension | NoTimeout | NoVariant | ScanFailed | WriteFailed

record capture_io =
  ci_pool :: bool
  ci_acquire :: bool
  ci_num :: "string option"
  ci_full :: "string option"
  ci_ext :: bool
  ci_reset :: "time option"
  ci_timeout :: bool
  ci_view :: "((pgss_col \<Rightarrow> cell) list \<times> bool) option"
  ci_dbs :: "(int \<times> string) answer"
  ci_roles :: "(int \<times> string) answer"
  ci_now :: time
  ci_write :: write_io

definition captured_entries :: "capture_io \<Rightarrow> PGVersion \<Rightarrow> pgss_stmt \<Rightarrow> SnapshotEntry list option" where
  "captured_entries io pgVer sql =
     map_option (map (name_entry (resolve_names (ci_dbs io)) (resolve_names (ci_roles io)))) (scanPGSSEntries (ci_view io) sql pgVer)"

definition CaptureInstance :: "capture_io \<Rightarrow> string \<Rightarrow> snapshot_db \<Rightarrow> snapshot_db \<times> (capture_error + Snapshot)" where
  "CaptureInstance io instanceID db =
     (if \<not> ci_pool io then (db, Inl NoPool) else if \<not> ci_acquire io then (db, Inl NoConnection)
      else case Detect (ci_num io) (ci_full io) of None \<Rightarrow> (db, Inl NoVersion)
      | Some pgVer \<Rightarrow>
          if \<not> ci_ext io then (db, Inl NoExtension)
          else let statsReset = (if AtLeast pgVer 14 0 then ci_reset io else None) in
          if \<not> ci_timeout io then (db, Inl NoTimeout)
          else case gate_Select pgssGate pgVer of None \<Rightarrow> (db, Inl NoVariant)
          | Some sql \<Rightarrow>
              (case captured_entries io pgVer sql of None \<Rightarrow> (db, Inl ScanFailed)
               | Some entries \<Rightarrow>
                   let snap = \<lparr>ss_ID = 0, ss_InstanceID = instanceID, ss_CapturedAt = ci_now io, ss_PGVersion = v_Num pgVer, ss_StatsReset = statsReset,
                               ss_TotalStatements = 0, ss_TotalCalls = 0, ss_TotalExecTime = 0\<rparr> in
                   (case WriteSnapshot (ci_write io) snap entries db of
                      (db', None) \<Rightarrow> (db', Inl WriteFailed)
                    | (db', Some snapID) \<Rightarrow>
                        (db', Inr (snap\<lparr>ss_ID := snapID, ss_TotalStatements := int (length entries), ss_TotalCalls := total_calls entries,
                               ss_TotalExecTime := total_exec entries\<rparr>)))))"

record SnapshotCapturer =
  sc_interval :: duration
  sc_retention :: duration
  sc_onStartup :: bool

definition NewSnapshotCapturer :: "duration \<Rightarrow> int \<Rightarrow> bool \<Rightarrow> SnapshotCapturer" where
  "NewSnapshotCapturer interval retentionDays onStartup =
     \<lparr>sc_interval = interval, sc_retention = wrap64 (wrap64 (wrap64 retentionDays * 24) * Hour), sc_onStartup = onStartup\<rparr>"

text \<open>What a cycle meets: the list of instances, when the context is cancelled, the servers, the clock and the clean-up.\<close>

record capture_cycle =
  cy_ids :: "string list option"
  cy_cancelled :: "nat \<Rightarrow> bool"
  cy_capture :: "nat \<Rightarrow> capture_io"
  cy_cutoff :: time
  cy_clean :: bool

text \<open>The loop over the instances; \<open>None\<close> is the return on a cancelled context.\<close>

fun capture_loop :: "capture_cycle \<Rightarrow> nat \<Rightarrow> string list \<Rightarrow> snapshot_db \<Rightarrow> snapshot_db \<times> bool" where
  "capture_loop io n [] db = (db, True)"
| "capture_loop io n (i # is) db =
     (if cy_cancelled io n then (db, False) else capture_loop io (Suc n) is (fst (CaptureInstance (cy_capture io n) i db)))"

definition runCaptureCycle :: "SnapshotCapturer \<Rightarrow> capture_cycle \<Rightarrow> snapshot_db \<Rightarrow> snapshot_db" where
  "runCaptureCycle c io db =
     (case cy_ids io of None \<Rightarrow> db
      | Some ids \<Rightarrow>
          (case capture_loop io 0 ids db of
             (db', False) \<Rightarrow> db'
           | (db', True) \<Rightarrow> (case CleanOldSnapshots (cy_clean io) (cy_cutoff io - sc_retention c) db' of None \<Rightarrow> db' | Some db'' \<Rightarrow> db'')))"

text \<open>\<open>run\<close> until it is stopped: the cycle at the start, then one per tick; \<open>None\<close> is the panic of \<open>time.NewTicker\<close>.\<close>

definition run_capturer :: "SnapshotCapturer \<Rightarrow> capture_cycle \<Rightarrow> capture_cycle list \<Rightarrow> snapshot_db \<Rightarrow> snapshot_db option" where
  "run_capturer c start ticks db =
     (let db1 = (if sc_onStartup c then runCaptureCycle c start db else db) in
      if sc_interval c \<le> 0 then None else Some (fold (runCaptureCycle c) ticks db1))"

subsection \<open>The store behind the API (\<open>store.go\<close>, \<open>nullstore.go\<close>)\<close>

text \<open>The interface value of the server: nil, the null store that stands in when snapshots are disabled, or the tables.
  A snapshot that is read is an error (\<open>None\<close>), a nil pointer (\<open>Some None\<close>) or a row.\<close>

datatype pgss_store = StoreNil | StoreNull | StoreDb snapshot_db

fun store_GetSnapshot :: "bool \<Rightarrow> int \<Rightarrow> pgss_store \<Rightarrow> Snapshot option option" where
  "store_GetSnapshot up i (StoreDb db) = map_option Some (db_GetSnapshot up i db)"
| "store_GetSnapshot up i _ = Some None"

fun GetSnapshotEntries :: "bool \<Rightarrow> int \<Rightarrow> int \<Rightarrow> int \<Rightarrow> pgss_store \<Rightarrow> (SnapshotEntry list \<times> int) option" where
  "GetSnapshotEntries up i limit offset (StoreDb db) = db_GetSnapshotEntries up i limit offset db"
| "GetSnapshotEntries up i limit offset _ = Some ([], 0)"

fun store_ListSnapshots :: "bool \<Rightarrow> string \<Rightarrow> SnapshotListOptions \<Rightarrow> pgss_store \<Rightarrow> (Snapshot list \<times> int) option" where
  "store_ListSnapshots up i opts (StoreDb db) = db_ListSnapshots up i opts db"
| "store_ListSnapshots up i opts _ = Some ([], 0)"

fun GetLatestSnapshots :: "bool \<Rightarrow> string \<Rightarrow> int \<Rightarrow> pgss_store \<Rightarrow> Snapshot list option" where
  "GetLatestSnapshots up i n (StoreDb db) = db_GetLatestSnapshots up i n db"
| "GetLatestSnapshots up i n _ = Some []"

fun GetEntriesForQuery :: "bool \<Rightarrow> string \<Rightarrow> int \<Rightarrow> time \<Rightarrow> time \<Rightarrow> pgss_store \<Rightarrow> (SnapshotEntry list \<times> Snapshot list) option" where
  "GetEntriesForQuery up i q from to (StoreDb db) = db_GetEntriesForQuery up i q from to db"
| "GetEntriesForQuery up i q from to _ = Some ([], [])"

subsection \<open>Handlers (\<open>handler_snapshots.go\<close>, \<open>handler_report_html.go\<close>)\<close>

datatype pgss_response =
    PgssError nat string
  | PgssPanic
  | PgssList "Snapshot list" int
  | PgssOne Snapshot "SnapshotEntry list" int
  | PgssDiff DiffResult
  | PgssInsight QueryInsight
  | PgssReport WorkloadReport
  | PgssHtml WorkloadReport bool
  | PgssCreated Snapshot

record snap_query =
  sq_from :: string
  sq_to :: string
  sq_from_time :: string
  sq_to_time :: string
  sq_limit :: string
  sq_offset :: string
  sq_sort :: string
  sq_top_n :: string
  sq_inline :: string

definition positive_param :: "int \<Rightarrow> string \<Rightarrow> int" where
  "positive_param dflt v = (case ParseInt v of None \<Rightarrow> dflt | Some n \<Rightarrow> if n > 0 then n else dflt)"

definition offset_param :: "string \<Rightarrow> int" where
  "offset_param v = (case ParseInt v of None \<Rightarrow> 0 | Some n \<Rightarrow> if n \<ge> 0 then n else 0)"

definition pgss_guard :: "bool \<Rightarrow> pgss_store \<Rightarrow> pgss_response \<Rightarrow> pgss_response" where
  "pgss_guard known st resp = (if \<not> known then PgssError 404 ''not_found'' else if st = StoreNil then PgssError 404 ''not_found'' else resp)"

text \<open>\<open>rfc\<close> is \<open>time.Parse\<close> with the layout \<open>RFC3339\<close>; the empty string is not a time. The function \<open>up\<close> gives the outcome of
  each statement of the request in turn.\<close>

definition handleListSnapshots :: "(string \<Rightarrow> time option) \<Rightarrow> bool \<Rightarrow> bool \<Rightarrow> string \<Rightarrow> snap_query \<Rightarrow> pgss_store \<Rightarrow> pgss_response" where
  "handleListSnapshots rfc known up instanceID q st =
     pgss_guard known st
       (case store_ListSnapshots up instanceID \<lparr>lo_Limit = positive_param 20 (sq_limit q), lo_Offset = offset_param (sq_offset q),
            lo_From = (if sq_from q = '''' then None else rfc (sq_from q)), lo_To = (if sq_to q = '''' then None else rfc (sq_to q))\<rparr> st of
          None \<Rightarrow> PgssError 500 ''internal''
        | Some (snaps, n) \<Rightarrow> PgssList snaps n)"

definition handleGetSnapshot :: "bool \<Rightarrow> (nat \<Rightarrow> bool) \<Rightarrow> string \<Rightarrow> string \<Rightarrow> snap_query \<Rightarrow> pgss_store \<Rightarrow> pgss_response" where
  "handleGetSnapshot known up instanceID snapIDStr q st =
     pgss_guard known st
       (case ParseInt snapIDStr of None \<Rightarrow> PgssError 400 ''invalid_param''
        | Some snapID \<Rightarrow>
            (case store_GetSnapshot (up 0) snapID st of None \<Rightarrow> PgssError 404 ''not_found''
             | Some None \<Rightarrow> PgssPanic
             | Some (Some snap) \<Rightarrow>
                 if ss_InstanceID snap \<noteq> instanceID then PgssError 404 ''not_found''
                 else case GetSnapshotEntries (up 1) snapID (positive_param 50 (sq_limit q)) (offset_param (sq_offset q)) st of
                   None \<Rightarrow> PgssError 500 ''internal''
                 | Some (entries, n) \<Rightarrow> PgssOne snap entries n))"

text \<open>The two snapshots a request names, by identifiers or by times; \<open>None\<close> when it names neither.\<close>

definition chosen_pair ::
  "(string \<Rightarrow> time option) \<Rightarrow> (nat \<Rightarrow> bool) \<Rightarrow> string \<Rightarrow> snap_query \<Rightarrow> pgss_store \<Rightarrow> (pgss_response + Snapshot option \<times> Snapshot option) option" where
  "chosen_pair rfc up instanceID q st =
     (if sq_from q \<noteq> '''' \<and> sq_to q \<noteq> '''' then
        Some (case ParseInt (sq_from q) of None \<Rightarrow> Inl (PgssError 400 ''invalid_param'')
          | Some fromID \<Rightarrow>
              (case ParseInt (sq_to q) of None \<Rightarrow> Inl (PgssError 400 ''invalid_param'')
               | Some toID \<Rightarrow>
                   (case store_GetSnapshot (up 0) fromID st of None \<Rightarrow> Inl (PgssError 404 ''not_found'')
                    | Some a \<Rightarrow> (case store_GetSnapshot (up 1) toID st of None \<Rightarrow> Inl (PgssError 404 ''not_found'') | Some b \<Rightarrow> Inr (a, b)))))
      else if sq_from_time q \<noteq> '''' \<and> sq_to_time q \<noteq> '''' then
        Some (case rfc (sq_from_time q) of None \<Rightarrow> Inl (PgssError 400 ''invalid_param'')
          | Some fromTime \<Rightarrow>
              (case rfc (sq_to_time q) of None \<Rightarrow> Inl (PgssError 400 ''invalid_param'')
               | Some toTime \<Rightarrow>
                   (case store_ListSnapshots (up 0) instanceID \<lparr>lo_Limit = 1000, lo_Offset = 0, lo_From = Some fromTime, lo_To = Some toTime\<rparr> st of
                      None \<Rightarrow> Inl (PgssError 500 ''internal'')
                    | Some (snaps, _) \<Rightarrow>
                        if length snaps < 2 then Inl (PgssError 404 ''not_found'') else Inr (Some (last snaps), Some (hd snaps)))))
      else None)"

definition latest_pair :: "bool \<Rightarrow> string \<Rightarrow> pgss_store \<Rightarrow> pgss_response + Snapshot option \<times> Snapshot option" where
  "latest_pair up instanceID st =
     (case GetLatestSnapshots up instanceID 2 st of None \<Rightarrow> Inl (PgssError 500 ''internal'')
      | Some snaps \<Rightarrow> if length snaps < 2 then Inl (PgssError 404 ''not_found'') else Inr (Some (snaps ! 1), Some (snaps ! 0)))"

text \<open>The comparison of the owners reads through both pointers, the first one first.\<close>

definition owned_pair :: "string \<Rightarrow> Snapshot option \<times> Snapshot option \<Rightarrow> pgss_response + Snapshot \<times> Snapshot" where
  "owned_pair instanceID = (\<lambda>(a, b).
     case a of None \<Rightarrow> Inl PgssPanic
     | Some f \<Rightarrow> if ss_InstanceID f \<noteq> instanceID then Inl (PgssError 400 ''invalid_param'')
         else (case b of None \<Rightarrow> Inl PgssPanic
               | Some t \<Rightarrow> if ss_InstanceID t \<noteq> instanceID then Inl (PgssError 400 ''invalid_param'') else Inr (f, t)))"

definition diff_pair :: "(nat \<Rightarrow> bool) \<Rightarrow> DiffOptions \<Rightarrow> Snapshot \<Rightarrow> Snapshot \<Rightarrow> pgss_store \<Rightarrow> pgss_response + DiffResult" where
  "diff_pair up opts f t st =
     (case GetSnapshotEntries (up 2) (ss_ID f) 0 0 st of None \<Rightarrow> Inl (PgssError 500 ''internal'')
      | Some (fromEntries, _) \<Rightarrow>
          (case GetSnapshotEntries (up 3) (ss_ID t) 0 0 st of None \<Rightarrow> Inl (PgssError 500 ''internal'')
           | Some (toEntries, _) \<Rightarrow> Inr (ComputeDiff f t fromEntries toEntries opts)))"

definition computePGSSDiff :: "(nat \<Rightarrow> bool) \<Rightarrow> snap_query \<Rightarrow> Snapshot \<Rightarrow> Snapshot \<Rightarrow> pgss_store \<Rightarrow> pgss_response + DiffResult" where
  "computePGSSDiff up q f t st =
     diff_pair up \<lparr>do_SortBy = (if sq_sort q = '''' then ''total_exec_time'' else sq_sort q), do_Limit = positive_param 50 (sq_limit q),
       do_Offset = offset_param (sq_offset q)\<rparr> f t st"

definition handleSnapshotDiff :: "(string \<Rightarrow> time option) \<Rightarrow> bool \<Rightarrow> (nat \<Rightarrow> bool) \<Rightarrow> string \<Rightarrow> snap_query \<Rightarrow> pgss_store \<Rightarrow> pgss_response" where
  "handleSnapshotDiff rfc known up instanceID q st =
     pgss_guard known st
       (case chosen_pair rfc up instanceID q st of None \<Rightarrow> PgssError 400 ''invalid_param''
        | Some (Inl resp) \<Rightarrow> resp
        | Some (Inr pair) \<Rightarrow>
            (case owned_pair instanceID pair of Inl resp \<Rightarrow> resp
             | Inr (f, t) \<Rightarrow> (case computePGSSDiff up q f t st of Inl resp \<Rightarrow> resp | Inr d \<Rightarrow> PgssDiff d)))"

definition handleLatestDiff :: "bool \<Rightarrow> (nat \<Rightarrow> bool) \<Rightarrow> string \<Rightarrow> snap_query \<Rightarrow> pgss_store \<Rightarrow> pgss_response" where
  "handleLatestDiff known up instanceID q st =
     pgss_guard known st
       (case GetLatestSnapshots (up 0) instanceID 2 st of None \<Rightarrow> PgssError 500 ''internal''
        | Some snaps \<Rightarrow>
            if length snaps < 2 then PgssError 404 ''not_found''
            else case computePGSSDiff up q (snaps ! 1) (snaps ! 0) st of Inl resp \<Rightarrow> resp | Inr d \<Rightarrow> PgssDiff d)"

definition handleQueryInsights :: "(string \<Rightarrow> time option) \<Rightarrow> bool \<Rightarrow> bool \<Rightarrow> string \<Rightarrow> string \<Rightarrow> time \<Rightarrow> snap_query \<Rightarrow> pgss_store \<Rightarrow> pgss_response" where
  "handleQueryInsights rfc known up instanceID queryIDStr now q st =
     pgss_guard known st
       (case ParseInt queryIDStr of None \<Rightarrow> PgssError 400 ''invalid_param''
        | Some queryID \<Rightarrow>
            (let from = (if sq_from q = '''' then now - 24 * Hour else case rfc (sq_from q) of None \<Rightarrow> now - 24 * Hour | Some t \<Rightarrow> t);
                 to = (if sq_to q = '''' then now else case rfc (sq_to q) of None \<Rightarrow> now | Some t \<Rightarrow> t)
             in case GetEntriesForQuery up instanceID queryID from to st of None \<Rightarrow> PgssError 500 ''internal''
                | Some (entries, snaps) \<Rightarrow>
                    (case BuildQueryInsight entries snaps of None \<Rightarrow> PgssError 404 ''not_found'' | Some i \<Rightarrow> PgssInsight i)))"

text \<open>The common body of the two report handlers; \<open>cfgTopN\<close> is the configured length of the lists.\<close>

definition workload_report ::
  "(string \<Rightarrow> time option) \<Rightarrow> (nat \<Rightarrow> bool) \<Rightarrow> int \<Rightarrow> string \<Rightarrow> snap_query \<Rightarrow> pgss_store \<Rightarrow> pgss_response + WorkloadReport" where
  "workload_report rfc up cfgTopN instanceID q st =
     (case (case chosen_pair rfc up instanceID q st of None \<Rightarrow> latest_pair (up 0) instanceID st | Some p \<Rightarrow> p) of
        Inl resp \<Rightarrow> Inl resp
      | Inr pair \<Rightarrow>
          (case owned_pair instanceID pair of Inl resp \<Rightarrow> Inl resp
           | Inr (f, t) \<Rightarrow>
               (case diff_pair up \<lparr>do_SortBy = ''total_exec_time'', do_Limit = 0, do_Offset = 0\<rparr> f t st of Inl resp \<Rightarrow> Inl resp
                | Inr d \<Rightarrow> Inr ((GenerateReport (Some d) (positive_param cfgTopN (sq_top_n q)))\<lparr>wr_InstanceID := instanceID\<rparr>))))"

definition handleWorkloadReport ::
  "(string \<Rightarrow> time option) \<Rightarrow> bool \<Rightarrow> (nat \<Rightarrow> bool) \<Rightarrow> int \<Rightarrow> string \<Rightarrow> snap_query \<Rightarrow> pgss_store \<Rightarrow> pgss_response" where
  "handleWorkloadReport rfc known up cfgTopN instanceID q st =
     pgss_guard known st (case workload_report rfc up cfgTopN instanceID q st of Inl resp \<Rightarrow> resp | Inr r \<Rightarrow> PgssReport r)"

text \<open>The page is rendered by the template of the report; the flag says that it is sent as an attachment.\<close>

definition handleWorkloadReportHTML ::
  "(string \<Rightarrow> time option) \<Rightarrow> bool \<Rightarrow> (nat \<Rightarrow> bool) \<Rightarrow> int \<Rightarrow> string \<Rightarrow> snap_query \<Rightarrow> pgss_store \<Rightarrow> pgss_response" where
  "handleWorkloadReportHTML rfc known up cfgTopN instanceID q st =
     pgss_guard known st
       (case workload_report rfc up cfgTopN instanceID q st of Inl resp \<Rightarrow> resp | Inr r \<Rightarrow> PgssHtml r (sq_inline q \<noteq> ''true''))"

definition handleManualSnapshotCapture ::
  "bool \<Rightarrow> SnapshotCapturer option \<Rightarrow> capture_io \<Rightarrow> string \<Rightarrow> snapshot_db \<Rightarrow> snapshot_db \<times> pgss_response" where
  "handleManualSnapshotCapture known capturer io instanceID db =
     (if \<not> known then (db, PgssError 404 ''not_found'') else if capturer = None then (db, PgssError 404 ''not_found'')
      else case CaptureInstance io instanceID db of
        (db', Inl _) \<Rightarrow> (db', PgssError 500 ''internal'') | (db', Inr snap) \<Rightarrow> (db', PgssCreated snap))"

subsection \<open>Numbers of the report page\<close>

text \<open>A comma before every third digit from the right; the recursion negates a negative number in 64 bits.\<close>

fun commas :: "string \<Rightarrow> string" where
  "commas [] = []"
| "commas (c # cs) = c # (if cs \<noteq> [] \<and> length cs mod 3 = 0 then CHR '','' # commas cs else commas cs)"

partial_function (option) formatNumberCommas :: "int \<Rightarrow> string option" where
  "formatNumberCommas n =
     (if n < 0 then Option.bind (formatNumberCommas (wrap64 (- n))) (\<lambda>s. Some (CHR ''-'' # s)) else Some (commas (Itoa n)))"

definition truncate_text :: "string \<Rightarrow> nat \<Rightarrow> string" where
  "truncate_text s n = (if length s \<le> n then s else take n s @ ''...'')"

end
