(* ===== verification/CaptureLaws.thy ===== *)
theory CaptureLaws
  imports StatementCapture StatementLaws
begin

section \<open>Laws of captured statistics\<close>

text \<open>
  What the two tables hold in every reachable state, what comes back of a captured view, and what the pages of the API
  make of it.
\<close>

subsection \<open>Scanning\<close>

text \<open>The cells the server has for an entry.\<close>

primrec cell_of :: "SnapshotEntry \<Rightarrow> pgss_col \<Rightarrow> cell" where
  "cell_of e Q_queryid = CInt (sn_QueryID e)"
| "cell_of e Q_userid = CInt (sn_UserID e)"
| "cell_of e Q_dbid = CInt (sn_DbID e)"
| "cell_of e Q_query = CText (sn_Query e)"
| "cell_of e Q_calls = CInt (sn_Calls e)"
| "cell_of e Q_total_exec_time = CFloat (sn_TotalExecTime e)"
| "cell_of e Q_total_plan_time = (case sn_TotalPlanTime e of None \<Rightarrow> CNull | Some x \<Rightarrow> CFloat x)"
| "cell_of e Q_rows = CInt (sn_Rows e)"
| "cell_of e Q_shared_blks_hit = CInt (sn_SharedBlksHit e)"
| "cell_of e Q_shared_blks_read = CInt (sn_SharedBlksRead e)"
| "cell_of e Q_shared_blks_dirtied = CInt (sn_SharedBlksDirtied e)"
| "cell_of e Q_shared_blks_written = CInt (sn_SharedBlksWritten e)"
| "cell_of e Q_local_blks_hit = CInt (sn_LocalBlksHit e)"
| "cell_of e Q_local_blks_read = CInt (sn_LocalBlksRead e)"
| "cell_of e Q_temp_blks_read = CInt (sn_TempBlksRead e)"
| "cell_of e Q_temp_blks_written = CInt (sn_TempBlksWritten e)"
| "cell_of e Q_blk_read_time = CFloat (sn_BlkReadTime e)"
| "cell_of e Q_blk_write_time = CFloat (sn_BlkWriteTime e)"
| "cell_of e Q_wal_records = (case sn_WALRecords e of None \<Rightarrow> CNull | Some x \<Rightarrow> CInt x)"
| "cell_of e Q_wal_fpi = (case sn_WALFpi e of None \<Rightarrow> CNull | Some x \<Rightarrow> CInt x)"
| "cell_of e Q_wal_bytes = (case sn_WALBytes e of None \<Rightarrow> CNull | Some x \<Rightarrow> CFloat x)"
| "cell_of e Q_mean_exec_time = (case sn_MeanExecTime e of None \<Rightarrow> CNull | Some x \<Rightarrow> CFloat x)"
| "cell_of e Q_min_exec_time = (case sn_MinExecTime e of None \<Rightarrow> CNull | Some x \<Rightarrow> CFloat x)"
| "cell_of e Q_max_exec_time = (case sn_MaxExecTime e of None \<Rightarrow> CNull | Some x \<Rightarrow> CFloat x)"
| "cell_of e Q_stddev_exec_time = (case sn_StddevExecTime e of None \<Rightarrow> CNull | Some x \<Rightarrow> CFloat x)"

text \<open>What a capture keeps of an entry: the text is cut, the names are looked up later, and a server before version 13
  reports neither plans nor WAL nor the distribution of times.\<close>

definition as_read :: "SnapshotEntry \<Rightarrow> SnapshotEntry" where
  "as_read e = e\<lparr>sn_SnapshotID := 0, sn_DatabaseName := '''', sn_UserName := '''', sn_Query := take 8192 (sn_Query e)\<rparr>"

definition as_read_old :: "SnapshotEntry \<Rightarrow> SnapshotEntry" where
  "as_read_old e = (as_read e)\<lparr>sn_TotalPlanTime := None, sn_WALRecords := None, sn_WALFpi := None, sn_WALBytes := None,
     sn_MeanExecTime := None, sn_MinExecTime := None, sn_MaxExecTime := None, sn_StddevExecTime := None\<rparr>"

lemma scan_opt_cell [simp]:
  "scan_opt scan_float (case x of None \<Rightarrow> CNull | Some y \<Rightarrow> CFloat y) = Some x"
  "scan_opt scan_int (case n of None \<Rightarrow> CNull | Some m \<Rightarrow> CInt m) = Some n"
  "scan_opt f CNull = Some None"
  by (auto simp: scan_opt_def split: option.splits)

lemma scan_row_13: "scan_row scan_args_13 (map (select_cell pgss_13 (cell_of e)) (ps_cols pgss_13)) empty_entry = Some (as_read e)"
  by (simp add: scan_args_13_def pgss_13_def select_cell_def empty_entry_def as_read_def)

lemma scan_row_12: "scan_row scan_args_12 (map (select_cell pgss_12 (cell_of e)) (ps_cols pgss_12)) empty_entry = Some (as_read_old e)"
  by (simp add: scan_args_12_def pgss_12_def select_cell_def empty_entry_def as_read_def as_read_old_def)

lemma gate_pgss: "gate_Select pgssGate v = (if AtLeast v 13 0 then Some pgss_13 else if AtLeast v 9 0 \<and> v_Major v \<le> 12 \<and> \<not> (v_Major v = 12 \<and> v_Minor v > 99) then Some pgss_12 else None)"
  by (auto simp: pgssGate_def range_Contains_def)

lemma scan_view:
  assumes "gate_Select pgssGate v = Some sql"
  shows "scanPGSSEntries (Some (map cell_of es, True)) sql v = Some (map (if AtLeast v 13 0 then as_read else as_read_old) es)"
proof -
  have q: "filter (\<lambda>row. row Q_queryid \<noteq> CNull) (map cell_of es) = map cell_of es" by (simp add: filter_id_conv)
  show ?thesis
  proof (cases "AtLeast v 13 0")
    case True
    then have "sql = pgss_13" using assms by (simp add: gate_pgss)
    then show ?thesis using True
      by (simp add: scanPGSSEntries_def pgss_select_def q comp_def scan_row_13 scan_rows_all [of "map as_read es", unfolded map_map comp_def] del: map_map)
        (simp add: comp_def scan_row_13 scan_rows_all [of "map as_read es", unfolded map_map comp_def])
  next
    case False
    then have "sql = pgss_12" using assms by (simp add: gate_pgss split: if_splits)
    then show ?thesis using False
      by (simp add: scanPGSSEntries_def pgss_select_def q comp_def scan_row_12 scan_rows_all [of "map as_read_old es", unfolded map_map comp_def] del: map_map)
        (simp add: comp_def scan_row_12 scan_rows_all [of "map as_read_old es", unfolded map_map comp_def])
  qed
qed

subsection \<open>The tables\<close>

definition db_ok :: "snapshot_db \<Rightarrow> bool" where
  "db_ok db \<longleftrightarrow> distinct (map ss_ID (sb_snaps db)) \<and> (\<forall>s\<in>set (sb_snaps db). ss_ID s < sb_next db)
     \<and> distinct (map (\<lambda>s. (ss_InstanceID s, ss_CapturedAt s)) (sb_snaps db))
     \<and> distinct (map entry_pk (sb_entries db)) \<and> (\<forall>e\<in>set (sb_entries db). sn_SnapshotID e \<in> ss_ID ` set (sb_snaps db))
     \<and> (\<forall>s\<in>set (sb_snaps db). ss_TotalStatements s = int (length (entries_of (ss_ID s) db))
          \<and> ss_TotalCalls s = total_calls (entries_of (ss_ID s) db) \<and> ss_TotalExecTime s = total_exec (entries_of (ss_ID s) db))"

lemma entryValues_fields [simp]:
  "sn_SnapshotID (entryValues i e) = i" "sn_Calls (entryValues i e) = sn_Calls e" "sn_TotalExecTime (entryValues i e) = sn_TotalExecTime e"
  by (simp_all add: entryValues_def)

lemma totals_entryValues [simp]:
  "total_calls (map (entryValues i) es) = total_calls es" "total_exec (map (entryValues i) es) = total_exec es"
  by (simp_all add: total_calls_def total_exec_def fold_map comp_def)

text \<open>The two ways of inserting agree.\<close>

lemma batch_is_copy: "es \<noteq> [] \<Longrightarrow> distinct (map entry_pk rows) \<Longrightarrow> batchInsertEntries up i es rows = copyEntries up i es rows"
proof (induction up i es rows rule: batchInsertEntries.induct)
  case (2 up i e es rows)
  let ?r = "entryValues i e"
  show ?case
  proof (cases "up \<and> entry_pk ?r \<notin> entry_pk ` set rows")
    case True
    show ?thesis
    proof (cases "es = []")
      case False
      have "batchInsertEntries up i es (rows @ [?r]) = copyEntries up i es (rows @ [?r])"
        using 2 True False by simp
      then show ?thesis using True by (auto simp: copyEntries_def Let_def)
    qed (use True in \<open>auto simp: copyEntries_def Let_def\<close>)
  qed (auto simp: copyEntries_def Let_def)
qed simp

text \<open>A successful write, without the two ways.\<close>

lemma WriteSnapshot_cases:
  assumes "distinct (map entry_pk (sb_entries db))"
  obtains (untouched) "WriteSnapshot io snap entries db = (db, None)"
  | (burnt) "WriteSnapshot io snap entries db = (db\<lparr>sb_next := sb_next db + 1\<rparr>, None)"
  | (stored) "WriteSnapshot io snap entries db = (db\<lparr>sb_next := sb_next db + 1, sb_snaps := sb_snaps db @ [snapshot_row (sb_next db) snap entries],
        sb_entries := sb_entries db @ map (entryValues (sb_next db)) entries\<rparr>, Some (sb_next db))"
      "(ss_InstanceID snap, micros (ss_CapturedAt snap)) \<notin> (\<lambda>s. (ss_InstanceID s, ss_CapturedAt s)) ` set (sb_snaps db)"
      "distinct (map entry_pk (sb_entries db @ map (entryValues (sb_next db)) entries))"
proof -
  define rows where "rows = (if length entries > 100 then copyEntries (wi_entries io) (sb_next db) entries (sb_entries db)
                else batchInsertEntries (wi_entries io) (sb_next db) entries (sb_entries db))"
  have rows: "entries \<noteq> [] \<Longrightarrow> rows = copyEntries (wi_entries io) (sb_next db) entries (sb_entries db)"
    using assms by (simp add: rows_def batch_is_copy)
  have row: "ss_InstanceID (snapshot_row i snap entries) = ss_InstanceID snap" "ss_CapturedAt (snapshot_row i snap entries) = micros (ss_CapturedAt snap)" for i
    by (simp_all add: snapshot_row_def)
  let ?dup = "(ss_InstanceID snap, micros (ss_CapturedAt snap)) \<in> (\<lambda>s. (ss_InstanceID s, ss_CapturedAt s)) ` set (sb_snaps db)"
  note w = WriteSnapshot_def [of io snap entries db, unfolded Let_def row, folded rows_def]
  show ?thesis
  proof (cases "\<not> wi_begin io \<or> \<not> wi_insert io")
    case True
    then show ?thesis using untouched w by simp
  next
    case begun: False
    show ?thesis
    proof (cases "\<not> ?dup \<and> wi_commit io \<and> (entries = [] \<or> rows \<noteq> None)")
      case False
      then show ?thesis using burnt w begun by (auto split: if_splits option.splits)
    next
      case True
      show ?thesis
      proof (cases "entries = []")
        case empty: True
        have "db\<lparr>sb_next := n, sb_snaps := ss, sb_entries := sb_entries db\<rparr> = db\<lparr>sb_next := n, sb_snaps := ss\<rparr>" for n ss by (cases db) simp
        then show ?thesis using stored w begun True empty assms by simp
      next
        case False
        then obtain new where new: "rows = Some new" using True by auto
        then have "new = sb_entries db @ map (entryValues (sb_next db)) entries" "distinct (map entry_pk (sb_entries db @ map (entryValues (sb_next db)) entries))"
          using rows [OF False] assms by (simp_all add: copyEntries_def Let_def inf_commute image_image comp_def split: if_splits)
        then show ?thesis using stored w begun True False new by simp
      qed
    qed
  qed
qed

lemma entries_of_fresh: "db_ok db \<Longrightarrow> entries_of (sb_next db) db = []"
  by (fastforce simp: db_ok_def entries_of_def filter_empty_conv)

lemma entries_of_append: "entries_of i (db\<lparr>sb_next := n, sb_snaps := ss, sb_entries := sb_entries db @ map (entryValues j) es\<rparr>)
    = entries_of i db @ (if i = j then map (entryValues j) es else [])"
  by (auto simp: entries_of_def filter_map comp_def)

lemma entries_of_next [simp]: "entries_of i (db\<lparr>sb_next := n\<rparr>) = entries_of i db"
  by (simp add: entries_of_def)

lemma snapshot_row_fields [simp]:
  "ss_ID (snapshot_row i s es) = i" "ss_InstanceID (snapshot_row i s es) = ss_InstanceID s" "ss_CapturedAt (snapshot_row i s es) = micros (ss_CapturedAt s)"
  "ss_TotalStatements (snapshot_row i s es) = int (length es)" "ss_TotalCalls (snapshot_row i s es) = total_calls es" "ss_TotalExecTime (snapshot_row i s es) = total_exec es"
  by (simp_all add: snapshot_row_def)

lemma write_ok:
  assumes ok: "db_ok db"
  shows "db_ok (fst (WriteSnapshot io snap entries db))"
proof -
  have d: "distinct (map entry_pk (sb_entries db))" using ok by (simp add: db_ok_def)
  show ?thesis using d
  proof (cases rule: WriteSnapshot_cases [of db io snap entries])
    case burnt
    then show ?thesis using ok by (fastforce simp: db_ok_def)
  next
    case stored
    have fresh: "sb_next db \<notin> ss_ID ` set (sb_snaps db)" using ok by (auto simp: db_ok_def)
    note es = entries_of_append [of _ db] entries_of_fresh [OF ok]
    show ?thesis unfolding stored(1) fst_conv db_ok_def es
      using ok fresh stored(2,3) by (fastforce simp: db_ok_def es)
  qed (use ok in simp)
qed

lemma clean_ok: "db_ok db \<Longrightarrow> CleanOldSnapshots up t db = Some db' \<Longrightarrow> db_ok db'"
proof -
  assume ok: "db_ok db" and "CleanOldSnapshots up t db = Some db'"
  then have db': "db' = db\<lparr>sb_snaps := filter (\<lambda>s. \<not> ss_CapturedAt s < micros t) (sb_snaps db),
      sb_entries := filter (\<lambda>e. sn_SnapshotID e \<in> ss_ID ` set (filter (\<lambda>s. \<not> ss_CapturedAt s < micros t) (sb_snaps db))) (sb_entries db)\<rparr>"
    by (simp add: CleanOldSnapshots_def Let_def split: if_splits)
  have es: "s \<in> set (sb_snaps db') \<Longrightarrow> entries_of (ss_ID s) db' = entries_of (ss_ID s) db" for s
    unfolding db' entries_of_def by (auto intro!: filter_cong)
  show ?thesis using ok es unfolding db_ok_def
    by (auto simp: db' distinct_map_filter)
qed

subsection \<open>Reachable tables\<close>

inductive reach_db :: "snapshot_db \<Rightarrow> bool" where
  created: "reach_db empty_snapshots"
| captured: "reach_db db \<Longrightarrow> reach_db (fst (CaptureInstance io i db))"
| cleaned: "reach_db db \<Longrightarrow> CleanOldSnapshots up t db = Some db' \<Longrightarrow> reach_db db'"

lemma capture_writes:
  "fst (CaptureInstance io i db) = db \<or> (\<exists>snap entries. fst (CaptureInstance io i db) = fst (WriteSnapshot (ci_write io) snap entries db))"
  unfolding CaptureInstance_def Let_def by (auto split: option.splits prod.splits) (metis fst_conv)+

lemma reach_ok: "reach_db db \<Longrightarrow> db_ok db"
proof (induction rule: reach_db.induct)
  case created
  then show ?case by (simp add: db_ok_def empty_snapshots_def)
next
  case (captured db io i)
  then show ?case using capture_writes [of io i db] write_ok by auto
next
  case (cleaned db up t db')
  show ?case using cleaned.IH cleaned.hyps(2) by (rule clean_ok)
qed

lemma reach_loop: "reach_db db \<Longrightarrow> reach_db (fst (capture_loop io n is db))"
  by (induction io n "is" db rule: capture_loop.induct) (auto intro: captured)

lemma reach_cycle: "reach_db db \<Longrightarrow> reach_db (runCaptureCycle c io db)"
proof -
  assume "reach_db db"
  then have l: "reach_db (fst (capture_loop io 0 ids db))" for ids by (rule reach_loop)
  show ?thesis
    unfolding runCaptureCycle_def using l \<open>reach_db db\<close>
    by (auto split: option.splits prod.splits bool.splits) (metis fst_conv cleaned)+
qed

lemma reach_run: "reach_db db \<Longrightarrow> run_capturer c start ticks db = Some db' \<Longrightarrow> reach_db db'"
proof -
  have ticks: "reach_db d \<Longrightarrow> reach_db (fold (runCaptureCycle c) ts d)" for d ts
    by (induction ts arbitrary: d) (auto intro: reach_cycle)
  show "reach_db db \<Longrightarrow> run_capturer c start ticks db = Some db' \<Longrightarrow> reach_db db'"
    by (auto simp: run_capturer_def Let_def intro!: ticks reach_cycle split: if_splits)
qed

lemma reach_manual: "reach_db db \<Longrightarrow> reach_db (fst (handleManualSnapshotCapture known cap io i db))"
  unfolding handleManualSnapshotCapture_def
  by (auto split: prod.splits sum.splits) (metis captured fst_conv)+

subsection \<open>The interface of the store\<close>

text \<open>What the readers of a snapshot store rely on: the latest snapshots are the instance's own, newest first and at
  most as many as asked for, and a page is no longer than its limit.\<close>

locale snapshot_source =
  fixes latest :: "string \<Rightarrow> int \<Rightarrow> Snapshot list option"
    and entry_page :: "int \<Rightarrow> int \<Rightarrow> SnapshotEntry list option"
  assumes latest_own: "latest i n = Some ss \<Longrightarrow> s \<in> set ss \<Longrightarrow> ss_InstanceID s = i"
    and latest_newest_first: "latest i n = Some ss \<Longrightarrow> sorted_wrt (\<lambda>a b. ss_CapturedAt b \<le> ss_CapturedAt a) ss"
    and latest_bounded: "latest i n = Some ss \<Longrightarrow> 0 < n \<Longrightarrow> int (length ss) \<le> n"
    and page_bounded: "entry_page k n = Some es \<Longrightarrow> 0 < n \<Longrightarrow> int (length es) \<le> n"
begin

lemma latest_two:
  assumes "latest i 2 = Some ss" "\<not> length ss < 2"
  shows "\<exists>newer older. ss = [newer, older] \<and> ss_InstanceID newer = i \<and> ss_InstanceID older = i \<and> ss_CapturedAt older \<le> ss_CapturedAt newer"
proof -
  have "length ss = 2" using latest_bounded [OF assms(1)] assms(2) by simp
  then obtain a b where "ss = [a, b]" by (auto simp: length_Suc_conv numeral_2_eq_2)
  then show ?thesis using latest_own [OF assms(1)] latest_newest_first [OF assms(1)] by auto
qed

end

lemma newest_sorted: "sorted_wrt (\<lambda>a b. ss_CapturedAt b \<le> ss_CapturedAt a) (newest ss)"
  using sort_slice_desc_sorted [of ss_CapturedAt ss] by (simp add: newest_def sorted_wrt_map)

interpretation pgss: snapshot_source "\<lambda>i n. GetLatestSnapshots up i n st" "\<lambda>k n. map_option fst (GetSnapshotEntries up k n 0 st)" for up st
proof
  fix i n ss s assume l: "GetLatestSnapshots up i n st = Some ss"
  show "s \<in> set ss \<Longrightarrow> ss_InstanceID s = i"
    using l by (cases st) (auto simp: db_GetLatestSnapshots_def newest_def dest!: in_set_takeD split: if_splits)
  show "sorted_wrt (\<lambda>a b. ss_CapturedAt b \<le> ss_CapturedAt a) ss"
    using l by (cases st) (auto simp: db_GetLatestSnapshots_def newest_sorted sorted_wrt_take split: if_splits)
  show "0 < n \<Longrightarrow> int (length ss) \<le> n"
    using l by (cases st) (auto simp: db_GetLatestSnapshots_def split: if_splits)
next
  fix k n es assume "map_option fst (GetSnapshotEntries up k n 0 st) = Some es" "0 < n"
  then show "int (length es) \<le> n"
    by (cases st) (auto simp: db_GetSnapshotEntries_def sql_page_def Let_def split: if_splits)
qed

subsection \<open>Claims\<close>


lemma find_distinct: "distinct (map f xs) \<Longrightarrow> x \<in> set xs \<Longrightarrow> find (\<lambda>y. f y = f x) xs = Some x"
  by (induction xs) (auto simp: image_iff)

lemma sql_page_whole: "int (length rows) \<le> n \<Longrightarrow> sql_page n 0 rows = Some (rows, int (length rows))"
  by (auto simp: sql_page_def)

lemma length_by_exec_time [simp]: "length (by_exec_time es) = length es"
  by (simp add: by_exec_time_def)

lemma stored_when:
  assumes "db_ok db" "WriteSnapshot io snap entries db = (db', Some k)"
  shows "k = sb_next db \<and> db' = db\<lparr>sb_next := sb_next db + 1, sb_snaps := sb_snaps db @ [snapshot_row (sb_next db) snap entries],
        sb_entries := sb_entries db @ map (entryValues (sb_next db)) entries\<rparr>"
proof -
  have "distinct (map entry_pk (sb_entries db))" using assms(1) by (simp add: db_ok_def)
  then show ?thesis
    by (cases rule: WriteSnapshot_cases [of db io snap entries]) (use assms(2) in simp_all)
qed

text \<open>C21: A capture that reports success is readable: the snapshot comes back under its identifier with its times cut to
  microseconds, its page of entries holds exactly what the view held, as the version of the server reports it and with
  the names resolved, ordered by execution time, and no older snapshot has changed.\<close>

theorem capture_round_trip:
  assumes db: "reach_db db" and ver: "Detect (ci_num io) (ci_full io) = Some v" and view: "ci_view io = Some (map cell_of es, True)"
    and cap: "CaptureInstance io i db = (db', Inr snap)"
  shows "db_GetSnapshot True (ss_ID snap) db' = Some (snap\<lparr>ss_CapturedAt := micros (ss_CapturedAt snap), ss_StatsReset := map_option micros (ss_StatsReset snap)\<rparr>)
    \<and> ss_InstanceID snap = i \<and> ss_CapturedAt snap = ci_now io \<and> ss_TotalStatements snap = int (length es)
    \<and> (\<forall>n\<ge>int (length es). 0 < n \<longrightarrow> (\<exists>page. db_GetSnapshotEntries True (ss_ID snap) n 0 db' = Some (page, int (length es))
        \<and> mset page = mset (map (\<lambda>e. entryValues (ss_ID snap) (name_entry (resolve_names (ci_dbs io)) (resolve_names (ci_roles io))
            ((if AtLeast v 13 0 then as_read else as_read_old) e))) es)
        \<and> sorted_wrt (\<lambda>a b. sn_TotalExecTime a \<ge> sn_TotalExecTime b) page))
    \<and> (\<forall>s\<in>set (sb_snaps db). db_GetSnapshot True (ss_ID s) db' = Some s)"
proof -
  let ?read = "if AtLeast v 13 0 then as_read else as_read_old"
  let ?es = "map (\<lambda>e. name_entry (resolve_names (ci_dbs io)) (resolve_names (ci_roles io)) (?read e)) es"
  let ?snap = "\<lparr>ss_ID = 0, ss_InstanceID = i, ss_CapturedAt = ci_now io, ss_PGVersion = v_Num v, ss_StatsReset = (if AtLeast v 14 0 then ci_reset io else None),
      ss_TotalStatements = 0, ss_TotalCalls = 0, ss_TotalExecTime = 0\<rparr>"
  have ok: "db_ok db" by (rule reach_ok [OF db])
  have ents: "gate_Select pgssGate v = Some sql \<Longrightarrow> captured_entries io v sql = Some ?es" for sql
    by (simp add: captured_entries_def view scan_view comp_def)
  obtain k where w: "WriteSnapshot (ci_write io) ?snap ?es db = (db', Some k)"
    and snap: "snap = ?snap\<lparr>ss_ID := k, ss_TotalStatements := int (length ?es), ss_TotalCalls := total_calls ?es, ss_TotalExecTime := total_exec ?es\<rparr>"
    using cap ver ents unfolding CaptureInstance_def Let_def by (auto split: if_splits option.splits prod.splits)
  have k: "k = sb_next db" and db': "db' = db\<lparr>sb_next := sb_next db + 1, sb_snaps := sb_snaps db @ [snapshot_row (sb_next db) ?snap ?es],
        sb_entries := sb_entries db @ map (entryValues (sb_next db)) ?es\<rparr>"
    using stored_when [OF ok w] by blast+
  have ok': "db_ok db'" using write_ok [OF ok, of "ci_write io" ?snap ?es] w by simp
  then have ids: "distinct (map ss_ID (sb_snaps db'))" by (simp add: db_ok_def)
  have new: "entries_of k db' = map (entryValues k) ?es"
    unfolding db' k entries_of_append using entries_of_fresh [OF ok] by simp
  have "snapshot_row k ?snap ?es \<in> set (sb_snaps db')" by (simp add: db' k)
  then have "find (\<lambda>s. ss_ID s = k) (sb_snaps db') = Some (snapshot_row k ?snap ?es)"
    using find_distinct [OF ids, of "snapshot_row k ?snap ?es"] by simp
  moreover have "snapshot_row k ?snap ?es = snap\<lparr>ss_CapturedAt := micros (ss_CapturedAt snap), ss_StatsReset := map_option micros (ss_StatsReset snap)\<rparr>"
    by (simp add: snapshot_row_def snap)
  ultimately have one: "db_GetSnapshot True k db' = Some (snap\<lparr>ss_CapturedAt := micros (ss_CapturedAt snap), ss_StatsReset := map_option micros (ss_StatsReset snap)\<rparr>)"
    by (simp add: db_GetSnapshot_def)
  have old: "db_GetSnapshot True (ss_ID s) db' = Some s" if "s \<in> set (sb_snaps db)" for s
    using find_distinct [OF ids, of s] that by (simp add: db_GetSnapshot_def db')
  have page: "db_GetSnapshotEntries True k n 0 db' = Some (by_exec_time (map (entryValues k) ?es), int (length es))" if "int (length es) \<le> n" "0 < n" for n
    using that sql_page_whole [of "by_exec_time (map (entryValues k) ?es)" n] by (simp add: db_GetSnapshotEntries_def new)
  have srt: "sorted_wrt (\<lambda>a b. sn_TotalExecTime a \<ge> sn_TotalExecTime b) (by_exec_time (map (entryValues k) ?es))"
    using sort_slice_desc_sorted [of sn_TotalExecTime "map (entryValues k) ?es"] by (simp add: by_exec_time_def sorted_wrt_map)
  have "ss_ID snap = k" "ss_InstanceID snap = i" "ss_CapturedAt snap = ci_now io" "ss_TotalStatements snap = int (length es)"
    by (simp_all add: snap)
  moreover have "mset (by_exec_time (map (entryValues k) ?es)) = mset (map (\<lambda>e. entryValues k (name_entry (resolve_names (ci_dbs io)) (resolve_names (ci_roles io)) (?read e))) es)"
    by (simp add: by_exec_time_def comp_def)
  ultimately show ?thesis using one old page srt by blast
qed

lemma diff_counts:
  assumes "distinct (map entry_key fs)" "distinct (map entry_key ts)"
  shows "dr_TotalEntries (ComputeDiff f t fs ts opts) + int (length (dr_NewQueries (ComputeDiff f t fs ts opts))) = int (length ts)
    \<and> dr_TotalEntries (ComputeDiff f t fs ts opts) + int (length (dr_EvictedQueries (ComputeDiff f t fs ts opts))) = int (length fs)
    \<and> dr_NewQueries (ComputeDiff f t fs ts opts) = map entryAsDelta (filter (\<lambda>b. entry_key b \<notin> entry_key ` set fs) ts)
    \<and> dr_EvictedQueries (ComputeDiff f t fs ts opts) = map entryAsDelta (filter (\<lambda>a. entry_key a \<notin> entry_key ` set ts) fs)"
proof -
  note loop = diff_loop [OF assms(2), of fs "[]" "[]", folded index_from_distinct [OF assms(1)]]
  have news: "length (continuing fs ts) + length (fresh_entries fs ts) = length ts"
    using sum_split [of "\<lambda>_. 1::nat" fs ts] by (simp add: sum_list_triv case_prod_unfold)
  have "card (entry_key ` set fs) = length fs" using assms(1) by (metis distinct_card length_map list.set_map)
  moreover have "length (filter (\<lambda>a. entry_key a \<notin> entry_key ` set ts) fs) = card (entry_key ` set fs - entry_key ` set ts)"
  proof -
    have "distinct (map entry_key (filter (\<lambda>a. entry_key a \<notin> entry_key ` set ts) fs))" by (rule distinct_map_filter [OF assms(1)])
    moreover have "entry_key ` set fs - entry_key ` set ts = set (map entry_key (filter (\<lambda>a. entry_key a \<notin> entry_key ` set ts) fs))" by (auto intro: rev_image_eqI)
    ultimately show ?thesis by (metis distinct_card length_map)
  qed
  ultimately have gone: "length (continuing fs ts) + length (filter (\<lambda>a. entry_key a \<notin> entry_key ` set ts) fs) = length fs"
    using length_continuing [OF assms(2), of fs] card_Int_Diff [of "entry_key ` set fs" "entry_key ` set ts"] by simp
  show ?thesis
    using news gone by (simp add: ComputeDiff_def loop Let_def sortEntries_def fresh_entries_def comp_def)
qed

definition top_fifty :: "Snapshot \<Rightarrow> snapshot_db \<Rightarrow> SnapshotEntry list" where
  "top_fifty s db = take 50 (by_exec_time (entries_of (ss_ID s) db))"

lemma top_fifty_distinct: "db_ok db \<Longrightarrow> distinct (map entry_key (top_fifty s db))"
proof -
  assume "db_ok db"
  then have "distinct (map entry_pk (entries_of (ss_ID s) db))" by (simp add: db_ok_def entries_of_def distinct_map_filter)
  moreover have "map entry_pk (entries_of (ss_ID s) db) = map (Pair (ss_ID s)) (map entry_key (entries_of (ss_ID s) db))"
    by (auto simp: entries_of_def entry_pk_def entry_key_def)
  ultimately have "distinct (map entry_key (entries_of (ss_ID s) db))" by (metis distinct_map)
  then have "distinct (map entry_key (by_exec_time (entries_of (ss_ID s) db)))"
    by (metis (no_types, lifting) by_exec_time_def mset_map mset_sort_slice mset_eq_imp_distinct_iff)
  then show ?thesis unfolding top_fifty_def take_map [symmetric] by (rule distinct_take)
qed

lemma diff_of_fifty: "diff_pair up opts f t (StoreDb db) = Inr d \<Longrightarrow> d = ComputeDiff f t (top_fifty f db) (top_fifty t db) opts"
  by (auto simp: diff_pair_def db_GetSnapshotEntries_def sql_page_def top_fifty_def split: if_splits option.splits)

lemma GetSnapshot_in: "store_GetSnapshot up i (StoreDb db) = Some a \<Longrightarrow> \<exists>s\<in>set (sb_snaps db). a = Some s"
  by (auto simp: db_GetSnapshot_def find_Some_iff split: if_splits)

lemma ListSnapshots_in: "store_ListSnapshots up i opts (StoreDb db) = Some (ss, n) \<Longrightarrow> set ss \<subseteq> set (sb_snaps db)"
  by (auto simp: db_ListSnapshots_def sql_page_def newest_def Let_def dest!: in_set_takeD in_set_dropD split: if_splits)

lemma chosen_in:
  assumes "chosen_pair rfc up i q (StoreDb db) = Some (Inr (a, b))"
  shows "\<exists>f\<in>set (sb_snaps db). \<exists>t\<in>set (sb_snaps db). a = Some f \<and> b = Some t"
proof (cases "sq_from q \<noteq> '''' \<and> sq_to q \<noteq> ''''")
  case True
  then obtain m n where "store_GetSnapshot (up 0) m (StoreDb db) = Some a" "store_GetSnapshot (up 1) n (StoreDb db) = Some b"
    using assms by (auto simp: chosen_pair_def simp del: store_GetSnapshot.simps split: option.splits)
  then show ?thesis using GetSnapshot_in by blast
next
  case False
  then obtain ss opts n where ss: "store_ListSnapshots (up 0) i opts (StoreDb db) = Some (ss, n)" "\<not> length ss < 2" "a = Some (last ss)" "b = Some (hd ss)"
    using assms by (auto simp: chosen_pair_def simp del: store_ListSnapshots.simps split: if_splits option.splits prod.splits)
  then have "last ss \<in> set ss" "hd ss \<in> set ss" by (cases ss; simp)+
  then show ?thesis using ss ListSnapshots_in by blast
qed

lemma diff_answer:
  assumes "handleSnapshotDiff rfc True up i q (StoreDb db) = PgssDiff d"
  shows "\<exists>f\<in>set (sb_snaps db). \<exists>t\<in>set (sb_snaps db). ss_InstanceID f = i \<and> ss_InstanceID t = i \<and> (\<exists>opts. d = ComputeDiff f t (top_fifty f db) (top_fifty t db) opts)"
proof -
  have no_diff: "chosen_pair rfc up i q (StoreDb db) = Some (Inl r) \<Longrightarrow> r \<noteq> PgssDiff d" for r
    by (auto simp: chosen_pair_def simp del: store_GetSnapshot.simps store_ListSnapshots.simps split: if_splits option.splits prod.splits)
  obtain pair where p: "chosen_pair rfc up i q (StoreDb db) = Some (Inr pair)"
    using assms no_diff by (auto simp: handleSnapshotDiff_def pgss_guard_def split: option.splits sum.splits)
  then obtain f t where ft: "f \<in> set (sb_snaps db)" "t \<in> set (sb_snaps db)" "pair = (Some f, Some t)"
    using chosen_in [of rfc up i q db "fst pair" "snd pair"] by (cases pair) auto
  have e: "diff_pair up opts f t (StoreDb db) = Inl r \<Longrightarrow> r \<noteq> PgssDiff d" for opts r
    by (auto simp: diff_pair_def split: option.splits prod.splits)
  have own: "ss_InstanceID f = i \<and> ss_InstanceID t = i"
    and cd: "\<exists>d'. computePGSSDiff up q f t (StoreDb db) = Inr d' \<and> d' = d"
    using assms p ft(3) e by (auto simp: handleSnapshotDiff_def pgss_guard_def owned_pair_def computePGSSDiff_def split: if_splits sum.splits)
  then show ?thesis using ft diff_of_fifty unfolding computePGSSDiff_def by blast
qed

lemma latest_diff_answer:
  assumes "handleLatestDiff True up i q (StoreDb db) = PgssDiff d"
  shows "\<exists>f\<in>set (sb_snaps db). \<exists>t\<in>set (sb_snaps db). ss_InstanceID f = i \<and> ss_InstanceID t = i \<and> (\<exists>opts. d = ComputeDiff f t (top_fifty f db) (top_fifty t db) opts)"
proof -
  have e: "diff_pair up opts f t (StoreDb db) = Inl r \<Longrightarrow> r \<noteq> PgssDiff d" for opts f t r
    by (auto simp: diff_pair_def split: option.splits prod.splits)
  obtain ss where ss: "GetLatestSnapshots (up 0) i 2 (StoreDb db) = Some ss" "\<not> length ss < 2" "computePGSSDiff up q (ss ! 1) (ss ! 0) (StoreDb db) = Inr d"
    using assms e by (auto simp: handleLatestDiff_def pgss_guard_def computePGSSDiff_def simp del: GetLatestSnapshots.simps split: option.splits if_splits sum.splits)
  obtain a b where ab: "ss = [a, b]" "ss_InstanceID a = i" "ss_InstanceID b = i" using pgss.latest_two [OF ss(1,2)] by auto
  have "set ss \<subseteq> set (sb_snaps db)"
    using ss(1) by (auto simp: db_GetLatestSnapshots_def newest_def dest!: in_set_takeD split: if_splits)
  then show ?thesis using ab ss(3) diff_of_fifty unfolding computePGSSDiff_def by auto blast
qed

text \<open>C37: A difference the API serves compares the fifty slowest queries of each snapshot, although it means to compare all of
  them: kept and new queries together are at most fifty, so are kept and evicted ones, and a query of the earlier fifty
  that is not among the later fifty is reported as evicted even if the later snapshot has it.\<close>

theorem snapshot_diff_sees_fifty:
  assumes "reach_db db" "handleSnapshotDiff rfc True up i q (StoreDb db) = PgssDiff d \<or> handleLatestDiff True up i q (StoreDb db) = PgssDiff d"
  shows "\<exists>f\<in>set (sb_snaps db). \<exists>t\<in>set (sb_snaps db). ss_InstanceID f = i \<and> ss_InstanceID t = i \<and> dr_FromSnapshot d = f \<and> dr_ToSnapshot d = t
    \<and> dr_TotalEntries d + int (length (dr_NewQueries d)) = min 50 (ss_TotalStatements t)
    \<and> dr_TotalEntries d + int (length (dr_EvictedQueries d)) = min 50 (ss_TotalStatements f)
    \<and> dr_EvictedQueries d = map entryAsDelta (filter (\<lambda>a. entry_key a \<notin> entry_key ` set (top_fifty t db)) (top_fifty f db))
    \<and> dr_NewQueries d = map entryAsDelta (filter (\<lambda>b. entry_key b \<notin> entry_key ` set (top_fifty f db)) (top_fifty t db))"
proof -
  have ok: "db_ok db" by (rule reach_ok [OF assms(1)])
  obtain f t opts where ft: "f \<in> set (sb_snaps db)" "t \<in> set (sb_snaps db)" "ss_InstanceID f = i" "ss_InstanceID t = i"
    and d: "d = ComputeDiff f t (top_fifty f db) (top_fifty t db) opts"
    using assms(2) diff_answer latest_diff_answer by blast
  have len: "s \<in> set (sb_snaps db) \<Longrightarrow> int (length (top_fifty s db)) = min 50 (ss_TotalStatements s)" for s
    using ok by (simp add: db_ok_def top_fifty_def)
  have "dr_FromSnapshot d = f" "dr_ToSnapshot d = t" by (simp_all add: d ComputeDiff_def Let_def case_prod_unfold)
  then show ?thesis
    using ft diff_counts [OF top_fifty_distinct top_fifty_distinct, OF ok ok, of f t f t opts, folded d] len by auto
qed

text \<open>C38: No request for the history of a query is ever answered: with the tables in place every one of them ends in an error of
  the server, whatever the tables hold, because the column of the execution time is ambiguous in the join; without them there is nothing.\<close>

theorem query_insights_always_fail:
  "handleQueryInsights rfc known up i queryID now q st =
     (if \<not> known \<or> st = StoreNil then PgssError 404 ''not_found''
      else case ParseInt queryID of None \<Rightarrow> PgssError 400 ''invalid_param''
      | Some _ \<Rightarrow> if st = StoreNull then PgssError 404 ''not_found'' else PgssError 500 ''internal'')"
proof -
  have "\<not> list_all (resolves query_tables) query_refs" by code_simp
  then have "db_GetEntriesForQuery up j k t0 t1 db = None" for j k t0 t1 db by (simp add: db_GetEntriesForQuery_def)
  then show ?thesis
    by (cases st) (auto simp: handleQueryInsights_def pgss_guard_def BuildQueryInsight_def Let_def split: option.splits)
qed

text \<open>With the snapshots disabled a request for a single one dereferences the nil pointer of the null store.\<close>

lemma null_store_panics: "ParseInt snapID = Some n \<Longrightarrow> handleGetSnapshot True up i snapID q StoreNull = PgssPanic"
  by (simp add: handleGetSnapshot_def pgss_guard_def)

subsection \<open>Numbers with commas\<close>

lemma commas_digits: "CHR '','' \<notin> set s \<Longrightarrow> filter (\<lambda>c. c \<noteq> CHR '','') (commas s) = s"
  by (induction s rule: commas.induct) auto

text \<open>The formatter ends for every number but the least one, which it calls itself with again.\<close>

lemma formatNumberCommas_returns:
  assumes "in_int64 n" "n \<noteq> - (2 ^ 63)"
  shows "formatNumberCommas n = Some ((if n < 0 then ''-'' else '''') @ commas (Itoa \<bar>n\<bar>))"
proof (cases "n < 0")
  case True
  then have "wrap64 (- n) = - n" using assms by (intro wrap64_id) (auto simp: in_int64_def)
  then show ?thesis using True by (simp add: formatNumberCommas.simps [of n] formatNumberCommas.simps [of "- n"])
qed (simp add: formatNumberCommas.simps)

subsection \<open>Witnesses\<close>

definition demo_query :: SnapshotEntry where
  "demo_query = empty_entry\<lparr>sn_QueryID := 7, sn_UserID := 10, sn_DbID := 5, sn_Query := ''SELECT 1'', sn_Calls := 3, sn_TotalExecTime := 2\<rparr>"

definition demo_io :: "time \<Rightarrow> capture_io" where
  "demo_io now = \<lparr>ci_pool = True, ci_acquire = True, ci_num = Some ''160002'', ci_full = Some ''PostgreSQL 16.2'', ci_ext = True, ci_reset = None,
     ci_timeout = True, ci_view = Some (map cell_of [demo_query], True), ci_dbs = Answer [Some (5, ''app'')] True, ci_roles = Answer [Some (10, ''bob'')] True,
     ci_now = now, ci_write = \<lparr>wi_begin = True, wi_insert = True, wi_entries = True, wi_commit = True\<rparr>\<rparr>"

definition demo_row :: "int \<Rightarrow> time \<Rightarrow> Snapshot" where
  "demo_row k t = \<lparr>ss_ID = k, ss_InstanceID = ''a'', ss_CapturedAt = t, ss_PGVersion = 160002, ss_StatsReset = None, ss_TotalStatements = 1, ss_TotalCalls = 3, ss_TotalExecTime = 2\<rparr>"

definition demo_entry :: "int \<Rightarrow> SnapshotEntry" where
  "demo_entry k = demo_query\<lparr>sn_SnapshotID := k, sn_DatabaseName := ''app'', sn_UserName := ''bob''\<rparr>"

definition demo_db :: snapshot_db where
  "demo_db = \<lparr>sb_snaps = [demo_row 1 1000, demo_row 2 5000], sb_entries = [demo_entry 1, demo_entry 2], sb_next = 3\<rparr>"

lemma demo_version: "Detect (Some ''160002'') (Some ''PostgreSQL 16.2'') = Some \<lparr>v_Major = 16, v_Minor = 0, v_Num = 160002, v_Full = ''PostgreSQL 16.2''\<rparr>"
  by code_simp

lemma demo_entries: "captured_entries (demo_io t) \<lparr>v_Major = 16, v_Minor = 0, v_Num = 160002, v_Full = ''PostgreSQL 16.2''\<rparr> pgss_13 = Some [demo_entry 0]"
proof -
  let ?v = "\<lparr>v_Major = 16, v_Minor = 0, v_Num = 160002, v_Full = ''PostgreSQL 16.2''\<rparr>"
  have "gate_Select pgssGate ?v = Some pgss_13" "AtLeast ?v 13 0" by (simp_all add: gate_pgss AtLeast_def)
  then show ?thesis
    using scan_view [of ?v pgss_13 "[demo_query]"]
    by (simp add: captured_entries_def demo_io_def as_read_def name_entry_def demo_query_def demo_entry_def empty_entry_def)
qed

lemma demo_capture:
  "(''a'', micros t) \<notin> (\<lambda>s. (ss_InstanceID s, ss_CapturedAt s)) ` set (sb_snaps db) \<Longrightarrow> entry_pk (demo_entry (sb_next db)) \<notin> entry_pk ` set (sb_entries db) \<Longrightarrow>
   CaptureInstance (demo_io t) ''a'' db =
     (db\<lparr>sb_next := sb_next db + 1, sb_snaps := sb_snaps db @ [demo_row (sb_next db) (micros t)], sb_entries := sb_entries db @ [demo_entry (sb_next db)]\<rparr>,
      Inr (demo_row (sb_next db) t))"
  using demo_entries [of t]
  by (simp add: CaptureInstance_def demo_version gate_pgss AtLeast_def WriteSnapshot_def Let_def)
    (simp add: demo_io_def demo_version gate_pgss AtLeast_def WriteSnapshot_def Let_def snapshot_row_def total_calls_def total_exec_def demo_row_def
      entryValues_def demo_entry_def demo_query_def empty_entry_def wrap64_def)

lemma demo_snapshot_reach: "reach_db demo_db"
proof -
  have "CaptureInstance (demo_io 1000) ''a'' empty_snapshots = (\<lparr>sb_snaps = [demo_row 1 1000], sb_entries = [demo_entry 1], sb_next = 2\<rparr>, Inr (demo_row 1 1000))"
    using demo_capture [of 1000 empty_snapshots] by (simp add: empty_snapshots_def micros_def)
  moreover have "CaptureInstance (demo_io 5000) ''a'' \<lparr>sb_snaps = [demo_row 1 1000], sb_entries = [demo_entry 1], sb_next = 2\<rparr> = (demo_db, Inr (demo_row 2 5000))"
    using demo_capture [of 5000 "\<lparr>sb_snaps = [demo_row 1 1000], sb_entries = [demo_entry 1], sb_next = 2\<rparr>"]
    by (simp add: demo_db_def micros_def demo_row_def demo_entry_def entry_pk_def)
  ultimately show ?thesis using captured [OF captured [OF created, of "demo_io 1000" "''a''"], of "demo_io 5000" "''a''"] by simp
qed


theorem capture_round_trip_witness:
  "\<exists>db'. CaptureInstance (demo_io 9500) ''a'' demo_db = (db', Inr (demo_row 3 9500))
     \<and> db_GetSnapshot True 3 db' = Some (demo_row 3 9000) \<and> db_GetSnapshot True 1 db' = Some (demo_row 1 1000)"
proof -
  obtain db' where c: "CaptureInstance (demo_io 9500) ''a'' demo_db = (db', Inr (demo_row 3 9500))"
    using demo_capture [of 9500 demo_db] by (simp add: demo_db_def micros_def demo_row_def demo_entry_def entry_pk_def)
  have v: "ci_view (demo_io 9500) = Some (map cell_of [demo_query], True)" "Detect (ci_num (demo_io 9500)) (ci_full (demo_io 9500)) \<noteq> None"
    by (simp_all add: demo_io_def demo_version)
  then obtain v where "Detect (ci_num (demo_io 9500)) (ci_full (demo_io 9500)) = Some v" by blast
  note rt = capture_round_trip [OF demo_snapshot_reach this v(1) c]
  have "demo_row 1 1000 \<in> set (sb_snaps demo_db)" by (simp add: demo_db_def)
  then show ?thesis using rt c by (auto simp: demo_row_def micros_def)
qed

theorem query_insights_always_fail_witness:
  "handleQueryInsights (\<lambda>_. None) True True ''a'' ''42'' 9500 \<lparr>sq_from = '''', sq_to = '''', sq_from_time = '''', sq_to_time = '''', sq_limit = '''', sq_offset = '''', sq_sort = '''', sq_top_n = '''', sq_inline = ''''\<rparr> (StoreDb demo_db)
     = PgssError 500 ''internal''"
proof -
  have "ParseInt ''42'' = Some 42" by code_simp
  then show ?thesis
    using query_insights_always_fail [of "\<lambda>_. None" True True "''a''" "''42''" 9500 "\<lparr>sq_from = '''', sq_to = '''', sq_from_time = '''', sq_to_time = '''', sq_limit = '''', sq_offset = '''', sq_sort = '''', sq_top_n = '''', sq_inline = ''''\<rparr>" "StoreDb demo_db"]
    by simp
qed

theorem snapshot_diff_sees_fifty_witness:
  "\<exists>d. handleLatestDiff True (\<lambda>_. True) ''a'' \<lparr>sq_from = '''', sq_to = '''', sq_from_time = '''', sq_to_time = '''', sq_limit = '''', sq_offset = '''', sq_sort = '''', sq_top_n = '''', sq_inline = ''''\<rparr> (StoreDb demo_db) = PgssDiff d
     \<and> dr_ToSnapshot d = demo_row 2 5000 \<and> dr_TotalEntries d + int (length (dr_NewQueries d)) = 1"
proof -
  let ?q = "\<lparr>sq_from = '''', sq_to = '''', sq_from_time = '''', sq_to_time = '''', sq_limit = '''', sq_offset = '''', sq_sort = '''', sq_top_n = '''', sq_inline = ''''\<rparr>"
  have l: "GetLatestSnapshots True ''a'' 2 (StoreDb demo_db) = Some [demo_row 2 5000, demo_row 1 1000]"
    by (simp add: db_GetLatestSnapshots_def demo_db_def newest_def demo_row_def sort_slice_foldl insr_def)
  obtain opts where d: "handleLatestDiff True (\<lambda>_. True) ''a'' ?q (StoreDb demo_db) = PgssDiff (ComputeDiff (demo_row 1 1000) (demo_row 2 5000) (top_fifty (demo_row 1 1000) demo_db) (top_fifty (demo_row 2 5000) demo_db) opts)"
    using l by (simp add: handleLatestDiff_def pgss_guard_def computePGSSDiff_def diff_pair_def db_GetSnapshotEntries_def sql_page_def top_fifty_def del: GetLatestSnapshots.simps)
  let ?d = "ComputeDiff (demo_row 1 1000) (demo_row 2 5000) (top_fifty (demo_row 1 1000) demo_db) (top_fifty (demo_row 2 5000) demo_db) opts"
  have to: "dr_ToSnapshot ?d = demo_row 2 5000" by (simp add: ComputeDiff_def Let_def case_prod_unfold)
  have "dr_TotalEntries ?d + int (length (dr_NewQueries ?d)) = 1"
    using snapshot_diff_sees_fifty [OF demo_snapshot_reach disjI2, OF d] to by (auto simp: demo_row_def)
  then show ?thesis using d to by blast
qed

end
