(* ===== verification/QueryPlans.thy ===== *)
theory QueryPlans
  imports Instances ForecastTracker RateGate PgMetrics
begin

section \<open>Captured query plans (\<open>internal/plans\<close>, \<open>internal/api/plan_handlers.go\<close>, \<open>explain.go\<close>)\<close>

text \<open>
  The collector that explains slow and frequent queries, the table of plans with its signal of changed plans, the
  worker that deletes old ones, and the handlers. The two digests and the test whether a text is JSON, which the cast to
  \<open>jsonb\<close> makes, are parameters; so is what a monitored server answers to \<open>EXPLAIN\<close>. Strings are the bytes Go has.
\<close>

subsection \<open>Data (\<open>capture.go\<close>)\<close>

datatype TriggerType = TriggerDuration | TriggerManual | TriggerScheduled | TriggerHashDiff

record CaptureConfig =
  pcf_Enabled :: bool
  pcf_DurationThresholdMs :: int
  pcf_DedupWindowSeconds :: int
  pcf_ScheduledTopNCount :: int
  pcf_ScheduledTopNInterval :: duration
  pcf_MaxPlanBytes :: int

text \<open>The maps the code stores as metadata.\<close>

datatype plan_meta = NoMeta | MetaRank nat | MetaHashes string string

record PlanCapture =
  pl_ID :: int
  pl_InstanceID :: string
  pl_DatabaseName :: string
  pl_QueryFingerprint :: string
  pl_PlanHash :: string
  pl_PlanText :: string
  pl_TriggerType :: TriggerType
  pl_DurationMs :: int
  pl_QueryText :: string
  pl_Truncated :: bool
  pl_Metadata :: plan_meta
  pl_CapturedAt :: time

record plan_lib =
  lib_md5 :: "string \<Rightarrow> string"
  lib_sha256 :: "string \<Rightarrow> string"
  lib_json :: "string \<Rightarrow> bool"

subsection \<open>Text of queries\<close>

definition NormalizeQuery :: "string \<Rightarrow> string" where
  "NormalizeQuery q = Join '' '' (Fields (map to_lower q))"

definition Fingerprint :: "plan_lib \<Rightarrow> string \<Rightarrow> string" where
  "Fingerprint lib query = lib_md5 lib (NormalizeQuery query)"

definition ddl_keywords :: "string list" where
  "ddl_keywords = [''DROP '', ''CREATE '', ''TRUNCATE '', ''ALTER '', ''REINDEX '']"

definition IsDDL :: "string \<Rightarrow> bool" where
  "IsDDL q = list_ex (\<lambda>kw. HasPrefix (map to_upper (TrimSpace q)) kw) ddl_keywords"

definition IsDDLStrict :: "string \<Rightarrow> bool" where
  "IsDDLStrict q = list_ex (\<lambda>kw. HasPrefix (map to_upper (TrimSpace q)) kw) (ddl_keywords @ [''INSERT '', ''UPDATE '', ''DELETE ''])"

definition truncateStr :: "string \<Rightarrow> nat \<Rightarrow> string" where
  "truncateStr s maxLen = (if length s \<le> maxLen then s else take maxLen s)"

subsection \<open>The table (\<open>store.go\<close>, migration 008)\<close>

record plan_db =
  pd_rows :: "PlanCapture list"
  pd_next :: int

definition plan_key :: "PlanCapture \<Rightarrow> string \<times> string \<times> string" where
  "plan_key p = (pl_InstanceID p, pl_QueryFingerprint p, pl_PlanHash p)"

text \<open>A duration of zero is stored as null and read back as zero.\<close>

definition nullInt64 :: "int \<Rightarrow> int option" where
  "nullInt64 v = (if v = 0 then None else Some v)"

definition read_duration :: "int option \<Rightarrow> int" where
  "read_duration d = (case d of None \<Rightarrow> 0 | Some v \<Rightarrow> v)"

text \<open>The insertion with its clause for a key that exists, which keeps everything but the time and the metadata. The
  plan is stored a second time as \<open>jsonb\<close>, so that a text that is no JSON fails the statement.\<close>

definition SavePlan :: "plan_lib \<Rightarrow> bool \<Rightarrow> PlanCapture \<Rightarrow> plan_db \<Rightarrow> plan_db option" where
  "SavePlan lib up p db =
     (if \<not> up \<or> \<not> lib_json lib (pl_PlanText p) then None
      else if plan_key p \<in> plan_key ` set (pd_rows db) then
        Some \<lparr>pd_rows = map (\<lambda>r. if plan_key r = plan_key p then r\<lparr>pl_CapturedAt := micros (pl_CapturedAt p), pl_Metadata := pl_Metadata p\<rparr> else r) (pd_rows db),
              pd_next = pd_next db + 1\<rparr>
      else Some \<lparr>pd_rows = pd_rows db @ [p\<lparr>pl_ID := pd_next db, pl_CapturedAt := micros (pl_CapturedAt p), pl_DurationMs := read_duration (nullInt64 (pl_DurationMs p))\<rparr>],
              pd_next = pd_next db + 1\<rparr>)"

definition newest_plans :: "PlanCapture list \<Rightarrow> PlanCapture list" where
  "newest_plans = sort_slice (\<lambda>a b. pl_CapturedAt a > pl_CapturedAt b)"

definition LatestPlanHash :: "bool \<Rightarrow> string \<Rightarrow> string \<Rightarrow> plan_db \<Rightarrow> string" where
  "LatestPlanHash up instanceID fingerprint db =
     (if \<not> up then ''''
      else case newest_plans (filter (\<lambda>p. pl_InstanceID p = instanceID \<and> pl_QueryFingerprint p = fingerprint) (pd_rows db)) of
        [] \<Rightarrow> '''' | p # _ \<Rightarrow> pl_PlanHash p)"

text \<open>\<open>scanPlans\<close>: the lists leave the text of the plan out.\<close>

definition scanPlans :: "PlanCapture list \<Rightarrow> PlanCapture list" where
  "scanPlans rows = map (\<lambda>p. p\<lparr>pl_PlanText := ''''\<rparr>) rows"

fun trigger_name :: "TriggerType \<Rightarrow> string" where
  "trigger_name TriggerDuration = ''duration_threshold''"
| "trigger_name TriggerManual = ''manual''"
| "trigger_name TriggerScheduled = ''scheduled_topn''"
| "trigger_name TriggerHashDiff = ''hash_diff_signal''"

definition ListPlans :: "bool \<Rightarrow> string \<Rightarrow> string \<Rightarrow> time option \<Rightarrow> string \<Rightarrow> plan_db \<Rightarrow> PlanCapture list option" where
  "ListPlans up instanceID fingerprint since triggerType db =
     (if up then Some (scanPlans (take 100 (newest_plans (filter (\<lambda>p. pl_InstanceID p = instanceID
          \<and> (fingerprint \<noteq> '''' \<longrightarrow> pl_QueryFingerprint p = fingerprint)
          \<and> (case since of None \<Rightarrow> True | Some t \<Rightarrow> pl_CapturedAt p \<ge> micros t)
          \<and> (triggerType \<noteq> '''' \<longrightarrow> trigger_name (pl_TriggerType p) = triggerType)) (pd_rows db)))))
      else None)"

definition ListRegressions :: "bool \<Rightarrow> string \<Rightarrow> plan_db \<Rightarrow> PlanCapture list option" where
  "ListRegressions up instanceID db =
     (if up then Some (scanPlans (take 50 (newest_plans (filter (\<lambda>p. pl_TriggerType p = TriggerHashDiff \<and> pl_InstanceID p = instanceID) (pd_rows db)))))
      else None)"

text \<open>\<open>Some None\<close>: no row.\<close>

definition GetPlan :: "bool \<Rightarrow> int \<Rightarrow> plan_db \<Rightarrow> PlanCapture option option" where
  "GetPlan up planID db = (if up then Some (find (\<lambda>p. pl_ID p = planID) (pd_rows db)) else None)"

text \<open>One tick of the worker (\<open>retention.go\<close>); \<open>AddDate\<close> depends on the calendar of the location and is a parameter.\<close>

definition retention_tick :: "(time \<Rightarrow> int \<Rightarrow> time) \<Rightarrow> int \<Rightarrow> bool \<Rightarrow> time \<Rightarrow> plan_db \<Rightarrow> plan_db" where
  "retention_tick add_days planDays up now db =
     (if up then db\<lparr>pd_rows := filter (\<lambda>p. \<not> pl_CapturedAt p < micros (add_days now (- planDays))) (pd_rows db)\<rparr> else db)"

subsection \<open>The collector\<close>

text \<open>The map of the recently captured queries; the second reading of the clock is the time that is noted.\<close>

definition recently_seen :: "duration \<Rightarrow> (string \<rightharpoonup> time) \<Rightarrow> time \<Rightarrow> string \<Rightarrow> bool" where
  "recently_seen window entries now key = (case entries key of None \<Rightarrow> False | Some t \<Rightarrow> time_sub now t < window)"

definition seen :: "duration \<Rightarrow> string \<Rightarrow> string \<Rightarrow> time \<Rightarrow> time \<Rightarrow> (string \<rightharpoonup> time) \<Rightarrow> (string \<rightharpoonup> time) \<times> bool" where
  "seen window instanceID fingerprint now noted entries =
     (let key = instanceID @ '':'' @ fingerprint in
      if recently_seen window entries now key then (entries, True) else (entries(key \<mapsto> noted), False))"

record plan_collector =
  co_config :: CaptureConfig
  co_window :: duration
  co_dedup :: "string \<rightharpoonup> time"
  co_lastTopN :: "string \<Rightarrow> time"

definition NewCollector :: "CaptureConfig \<Rightarrow> plan_collector" where
  "NewCollector cfg = \<lparr>co_config = cfg, co_window = wrap64 (pcf_DedupWindowSeconds cfg * Second), co_dedup = Map.empty, co_lastTopN = (\<lambda>_. zero_time)\<rparr>"

datatype explained = ExplainError | ExplainPanic | Explained PlanCapture

definition blank_plan :: PlanCapture where
  "blank_plan = \<lparr>pl_ID = 0, pl_InstanceID = '''', pl_DatabaseName = '''', pl_QueryFingerprint = '''', pl_PlanHash = '''', pl_PlanText = '''',
     pl_TriggerType = TriggerDuration, pl_DurationMs = 0, pl_QueryText = '''', pl_Truncated = False, pl_Metadata = NoMeta, pl_CapturedAt = zero_time\<rparr>"

text \<open>\<open>answer\<close> is what the server says to \<open>EXPLAIN (FORMAT JSON)\<close> of the query; a negative limit makes the slice panic.\<close>

definition runExplain :: "plan_lib \<Rightarrow> CaptureConfig \<Rightarrow> string option \<Rightarrow> explained" where
  "runExplain lib cfg answer =
     (case answer of None \<Rightarrow> ExplainError
      | Some planBytes \<Rightarrow>
          (let truncated = (int (length planBytes) > pcf_MaxPlanBytes cfg);
               cut = (if truncated then take (nat (pcf_MaxPlanBytes cfg)) planBytes else planBytes)
           in if truncated \<and> pcf_MaxPlanBytes cfg < 0 then ExplainPanic
              else Explained (blank_plan\<lparr>pl_PlanText := cut, pl_PlanHash := lib_sha256 lib cut, pl_Truncated := truncated\<rparr>)))"

text \<open>The outcomes of the lookup and of the two insertions.\<close>

record save_io =
  si_lookup :: bool
  si_signal :: bool
  si_plan :: bool

definition or_same :: "plan_db \<Rightarrow> plan_db option \<Rightarrow> plan_db" where
  "or_same db r = (case r of None \<Rightarrow> db | Some db' \<Rightarrow> db')"

definition checkAndSave :: "plan_lib \<Rightarrow> save_io \<Rightarrow> PlanCapture \<Rightarrow> plan_db \<Rightarrow> plan_db \<times> bool" where
  "checkAndSave lib io plan db =
     (let prevHash = LatestPlanHash (si_lookup io) (pl_InstanceID plan) (pl_QueryFingerprint plan) db;
          db1 = (if prevHash \<noteq> '''' \<and> prevHash \<noteq> pl_PlanHash plan
                 then or_same db (SavePlan lib (si_signal io) (plan\<lparr>pl_TriggerType := TriggerHashDiff, pl_Metadata := MetaHashes prevHash (pl_PlanHash plan)\<rparr>) db)
                 else db)
      in case SavePlan lib (si_plan io) plan db1 of None \<Rightarrow> (db1, False) | Some db2 \<Rightarrow> (db2, True))"

definition CaptureManual_plan :: "plan_lib \<Rightarrow> CaptureConfig \<Rightarrow> string option \<Rightarrow> save_io \<Rightarrow> time \<Rightarrow> string \<Rightarrow> string \<Rightarrow> string \<Rightarrow> plan_db \<Rightarrow> (plan_db \<times> PlanCapture option) option" where
  "CaptureManual_plan lib cfg answer io now instanceID database query db =
     (case runExplain lib cfg answer of ExplainPanic \<Rightarrow> None | ExplainError \<Rightarrow> Some (db, None)
      | Explained p0 \<Rightarrow>
          (let plan = p0\<lparr>pl_InstanceID := instanceID, pl_DatabaseName := database, pl_QueryFingerprint := Fingerprint lib query,
                 pl_TriggerType := TriggerManual, pl_QueryText := truncateStr query 4096, pl_CapturedAt := now\<rparr>
           in case checkAndSave lib io plan db of (db', ok) \<Rightarrow> Some (db', if ok then Some plan else None)))"

text \<open>A session of \<open>pg_stat_activity\<close>; a database name that is null does not scan.\<close>

record activity =
  av_datname :: "string option"
  av_query :: string
  av_state :: string
  av_elapsed :: duration
  av_self :: bool

definition slow_sessions :: "int \<Rightarrow> activity list \<Rightarrow> (string \<times> string \<times> float64) list" where
  "slow_sessions threshold rows =
     [(d, av_query a, of_int (av_elapsed a) / 1000000). a \<leftarrow> rows, av_state a = ''active'', \<not> sql_like ''%pg_stat_activity%'' (av_query a),
        \<not> sql_like ''%pgpulse%'' (av_query a), av_elapsed a > threshold * Millisecond, \<not> av_self a, Some d \<leftarrow> [av_datname a]]"

definition to_int64 :: "float64 \<Rightarrow> int" where
  "to_int64 x = (if x < 0 then \<lceil>x\<rceil> else \<lfloor>x\<rfloor>)"

text \<open>What the handling of one query meets.\<close>

record plan_io =
  pi_now :: time
  pi_noted :: time
  pi_captured :: time
  pi_save :: save_io

text \<open>The loop over the slow sessions; \<open>None\<close> is a panic.\<close>

fun duration_loop :: "plan_lib \<Rightarrow> (string \<Rightarrow> string option) \<Rightarrow> string \<Rightarrow> (nat \<Rightarrow> plan_io) \<Rightarrow> nat \<Rightarrow> (string \<times> string \<times> float64) list
    \<Rightarrow> plan_collector \<times> plan_db \<Rightarrow> (plan_collector \<times> plan_db) option" where
  "duration_loop lib explain i io n [] st = Some st"
| "duration_loop lib explain i io n ((datname, query, ms) # hits) (c, db) =
     (let fp = Fingerprint lib query;
          (entries, dup) = seen (co_window c) i fp (pi_now (io n)) (pi_noted (io n)) (co_dedup c);
          c1 = c\<lparr>co_dedup := entries\<rparr>
      in if dup \<or> IsDDL query then duration_loop lib explain i io (Suc n) hits (c1, db)
         else case runExplain lib (co_config c) (explain query) of ExplainPanic \<Rightarrow> None
           | ExplainError \<Rightarrow> duration_loop lib explain i io (Suc n) hits (c1, db)
           | Explained p \<Rightarrow>
               duration_loop lib explain i io (Suc n) hits
                 (c1, fst (checkAndSave lib (pi_save (io n)) (p\<lparr>pl_InstanceID := i, pl_DatabaseName := datname, pl_QueryFingerprint := fp,
                    pl_TriggerType := TriggerDuration, pl_DurationMs := to_int64 ms, pl_QueryText := truncateStr query 4096, pl_CapturedAt := pi_captured (io n)\<rparr>) db)))"

definition collectDurationThreshold :: "plan_lib \<Rightarrow> (string \<Rightarrow> string option) \<Rightarrow> activity list option \<Rightarrow> string \<Rightarrow> (nat \<Rightarrow> plan_io)
    \<Rightarrow> plan_collector \<times> plan_db \<Rightarrow> ((plan_collector \<times> plan_db) \<times> bool) option" where
  "collectDurationThreshold lib explain answer i io st =
     (case answer of None \<Rightarrow> Some (st, False)
      | Some rows \<Rightarrow> map_option (\<lambda>st'. (st', True)) (duration_loop lib explain i io 0 (slow_sessions (pcf_DurationThresholdMs (co_config (fst st))) rows) st))"

text \<open>A row of \<open>pg_stat_statements\<close> joined with its database.\<close>

record top_row =
  tr_query :: string
  tr_datname :: string
  tr_total :: float64

definition top_queries :: "int \<Rightarrow> top_row list \<Rightarrow> top_row list option" where
  "top_queries n rows =
     (if n < 0 then None
      else Some (take (nat n) (sort_slice (\<lambda>a b. tr_total a > tr_total b)
        (filter (\<lambda>r. \<not> sql_like ''%pgpulse%'' (tr_query r) \<and> length (tr_query r) > 10 \<and> \<not> sql_like ''<%%'' (tr_query r)) rows))))"

fun topn_loop :: "plan_lib \<Rightarrow> CaptureConfig \<Rightarrow> (string \<Rightarrow> string option) \<Rightarrow> string \<Rightarrow> (nat \<Rightarrow> plan_io) \<Rightarrow> nat \<Rightarrow> top_row list \<Rightarrow> plan_db \<Rightarrow> plan_db option" where
  "topn_loop lib cfg explain i io n [] db = Some db"
| "topn_loop lib cfg explain i io n (h # hits) db =
     (if IsDDLStrict (tr_query h) then topn_loop lib cfg explain i io (Suc n) hits db
      else case runExplain lib cfg (explain (tr_query h)) of ExplainPanic \<Rightarrow> None
        | ExplainError \<Rightarrow> topn_loop lib cfg explain i io (Suc n) hits db
        | Explained p \<Rightarrow>
            topn_loop lib cfg explain i io (Suc n) hits
              (fst (checkAndSave lib (pi_save (io n)) (p\<lparr>pl_InstanceID := i, pl_DatabaseName := tr_datname h, pl_QueryFingerprint := Fingerprint lib (tr_query h),
                 pl_TriggerType := TriggerScheduled, pl_QueryText := truncateStr (tr_query h) 4096, pl_Metadata := MetaRank (n + 1), pl_CapturedAt := pi_captured (io n)\<rparr>) db)))"

definition collectScheduledTopN :: "plan_lib \<Rightarrow> CaptureConfig \<Rightarrow> (string \<Rightarrow> string option) \<Rightarrow> top_row list option \<Rightarrow> string \<Rightarrow> (nat \<Rightarrow> plan_io) \<Rightarrow> plan_db \<Rightarrow> (plan_db \<times> bool) option" where
  "collectScheduledTopN lib cfg explain answer i io db =
     (case Option.bind answer (top_queries (pcf_ScheduledTopNCount cfg)) of None \<Rightarrow> Some (db, False)
      | Some hits \<Rightarrow> map_option (\<lambda>db'. (db', True)) (topn_loop lib cfg explain i io 0 hits db))"

text \<open>One call of \<open>Collect\<close>: the server, the outcomes of both loops and the two readings of the clock.\<close>

record collect_env =
  ce_explain :: "string \<Rightarrow> string option"
  ce_activity :: "activity list option"
  ce_top :: "top_row list option"
  ce_slow_io :: "nat \<Rightarrow> plan_io"
  ce_top_io :: "nat \<Rightarrow> plan_io"
  ce_test :: time
  ce_noted :: time

definition plan_Collect :: "plan_lib \<Rightarrow> collect_env \<Rightarrow> string \<Rightarrow> plan_collector \<times> plan_db \<Rightarrow> ((plan_collector \<times> plan_db) \<times> bool) option" where
  "plan_Collect lib env i st =
     (if \<not> pcf_Enabled (co_config (fst st)) then Some (st, True)
      else case collectDurationThreshold lib (ce_explain env) (ce_activity env) i (ce_slow_io env) st of None \<Rightarrow> None
      | Some (st1, False) \<Rightarrow> Some (st1, False)
      | Some ((c, db), True) \<Rightarrow>
          if time_sub (ce_test env) (co_lastTopN c i) \<ge> pcf_ScheduledTopNInterval (co_config c) then
            (case collectScheduledTopN lib (co_config c) (ce_explain env) (ce_top env) i (ce_top_io env) db of None \<Rightarrow> None
             | Some (db', False) \<Rightarrow> Some ((c, db'), False)
             | Some (db', True) \<Rightarrow> Some ((c\<lparr>co_lastTopN := (co_lastTopN c)(i := ce_noted env)\<rparr>, db'), True))
          else Some ((c, db), True))"

subsection \<open>Handlers\<close>

datatype plan_response =
    PlanError nat string
  | PlanList "PlanCapture list"
  | PlanOne PlanCapture
  | PlanCaptured string string string
  | PlanRaw string

definition plan_guard :: "bool \<Rightarrow> bool \<Rightarrow> plan_response \<Rightarrow> plan_response" where
  "plan_guard known store resp = (if \<not> known then PlanError 404 ''not_found'' else if \<not> store then PlanError 503 ''unavailable'' else resp)"

definition handleListPlans :: "(string \<Rightarrow> time option) \<Rightarrow> bool \<Rightarrow> bool \<Rightarrow> bool \<Rightarrow> string \<Rightarrow> string \<Rightarrow> string \<Rightarrow> string \<Rightarrow> plan_db \<Rightarrow> plan_response" where
  "handleListPlans rfc known store up instanceID fingerprint sinceStr trigger db =
     plan_guard known store
       (if sinceStr \<noteq> '''' \<and> rfc sinceStr = None then PlanError 400 ''invalid_param''
        else case ListPlans up instanceID fingerprint (if sinceStr = '''' then None else rfc sinceStr) trigger db of
          None \<Rightarrow> PlanError 500 ''internal'' | Some ps \<Rightarrow> PlanList ps)"

definition handleGetPlan :: "bool \<Rightarrow> bool \<Rightarrow> bool \<Rightarrow> string \<Rightarrow> string \<Rightarrow> plan_db \<Rightarrow> plan_response" where
  "handleGetPlan known store up instanceID planIDStr db =
     plan_guard known store
       (case ParseInt planIDStr of None \<Rightarrow> PlanError 400 ''invalid_param''
        | Some planID \<Rightarrow>
            (case GetPlan up planID db of None \<Rightarrow> PlanError 500 ''internal'' | Some None \<Rightarrow> PlanError 404 ''not_found''
             | Some (Some p) \<Rightarrow> if pl_InstanceID p \<noteq> instanceID then PlanError 404 ''not_found'' else PlanOne p))"

definition handleListRegressions :: "bool \<Rightarrow> bool \<Rightarrow> bool \<Rightarrow> string \<Rightarrow> plan_db \<Rightarrow> plan_response" where
  "handleListRegressions known store up instanceID db =
     plan_guard known store (case ListRegressions up instanceID db of None \<Rightarrow> PlanError 500 ''internal'' | Some ps \<Rightarrow> PlanList ps)"

text \<open>\<open>%x\<close> of an integer.\<close>

fun hex_digits :: "nat \<Rightarrow> string" where
  "hex_digits n = (if n < 16 then [''0123456789abcdef'' ! n] else hex_digits (n div 16) @ [''0123456789abcdef'' ! (n mod 16)])"

declare hex_digits.simps [simp del]

definition hex_int :: "int \<Rightarrow> string" where
  "hex_int n = (if n < 0 then ''-'' else '''') @ hex_digits (nat \<bar>n\<bar>)"

text \<open>\<open>conn\<close> is absent without a provider and \<open>Some None\<close> when it fails to connect; a connection answers \<open>EXPLAIN\<close>. The body is
  the query and the database.\<close>

definition handleManualCapture ::
  "plan_lib \<Rightarrow> bool \<Rightarrow> bool \<Rightarrow> (string \<Rightarrow> string option) option option \<Rightarrow> (string \<times> string) option \<Rightarrow> time \<Rightarrow> time \<Rightarrow> bool \<Rightarrow> string \<Rightarrow> plan_db \<Rightarrow> plan_db \<times> plan_response" where
  "handleManualCapture lib known store provider body hashed now up instanceID db =
     (if \<not> known then (db, PlanError 404 ''not_found'') else if \<not> store then (db, PlanError 503 ''unavailable'')
      else case provider of None \<Rightarrow> (db, PlanError 503 ''unavailable'')
      | Some connect \<Rightarrow>
          (case body of None \<Rightarrow> (db, PlanError 400 ''invalid_body'')
           | Some (query, database) \<Rightarrow>
               if query = '''' then (db, PlanError 400 ''invalid_body'')
               else case connect of None \<Rightarrow> (db, PlanError 500 ''internal'')
               | Some explain \<Rightarrow>
                   (case explain query of None \<Rightarrow> (db, PlanError 400 ''explain_failed'')
                    | Some planJSON \<Rightarrow>
                        (case SavePlan lib up (blank_plan\<lparr>pl_InstanceID := instanceID, pl_DatabaseName := database, pl_QueryFingerprint := ''manual'',
                             pl_PlanHash := hex_int hashed, pl_PlanText := planJSON, pl_TriggerType := TriggerManual, pl_QueryText := query, pl_CapturedAt := now\<rparr>) db of
                           None \<Rightarrow> (db, PlanError 500 ''internal'')
                         | Some db' \<Rightarrow> (db', PlanCaptured planJSON query database)))))"

text \<open>\<open>explain.go\<close>: the statement that is sent, with the options the body asks for. \<open>run\<close> is the connection to the named database.\<close>

record explainRequest =
  er_Database :: string
  er_Query :: string
  er_Analyze :: bool
  er_Buffers :: bool

definition explain_sql :: "explainRequest \<Rightarrow> string" where
  "explain_sql req = ''EXPLAIN ('' @ Join '', '' ([''FORMAT JSON''] @ (if er_Analyze req then [''ANALYZE''] else []) @ (if er_Buffers req then [''BUFFERS''] else [])) @ '') '' @ er_Query req"

definition handleExplain :: "bool \<Rightarrow> (string \<Rightarrow> (string \<Rightarrow> string option) option) option \<Rightarrow> explainRequest option \<Rightarrow> plan_response" where
  "handleExplain known provider body =
     (case body of None \<Rightarrow> PlanError 400 ''bad_request''
      | Some req \<Rightarrow>
          if er_Database req = '''' \<or> er_Query req = '''' then PlanError 400 ''bad_request''
          else if \<not> known then PlanError 404 ''not_found''
          else case provider of None \<Rightarrow> PlanError 503 ''not_available''
          | Some connect \<Rightarrow>
              (case connect (er_Database req) of None \<Rightarrow> PlanError 502 ''connection_error''
               | Some run \<Rightarrow> (case run (explain_sql req) of None \<Rightarrow> PlanError 422 ''explain_error'' | Some planJSON \<Rightarrow> PlanRaw planJSON)))"

end
