(* ===== verification/PlanLaws.thy ===== *)
theory PlanLaws
  imports QueryPlans InstanceLaws
begin

section \<open>Laws of captured plans\<close>

text \<open>
  What the table of plans holds after any sequence of captures and clean-ups, what a changed plan leaves in it, and the
  spacing of captures of the same query.
\<close>

subsection \<open>Saving\<close>

definition plan_db_ok :: "plan_db \<Rightarrow> bool" where
  "plan_db_ok db \<longleftrightarrow> distinct (map plan_key (pd_rows db)) \<and> distinct (map pl_ID (pd_rows db)) \<and> (\<forall>r\<in>set (pd_rows db). pl_ID r < pd_next db)
     \<and> (\<forall>r\<in>set (pd_rows db). \<not> pl_Truncated r)"

definition touched :: "PlanCapture \<Rightarrow> PlanCapture \<Rightarrow> PlanCapture" where
  "touched p r = r\<lparr>pl_CapturedAt := micros (pl_CapturedAt p), pl_Metadata := pl_Metadata p\<rparr>"

lemma read_nullInt64 [simp]: "read_duration (nullInt64 d) = d"
  by (simp add: read_duration_def nullInt64_def)

lemma touched_fields [simp]:
  "plan_key (touched p r) = plan_key r" "pl_ID (touched p r) = pl_ID r" "pl_Truncated (touched p r) = pl_Truncated r"
  "pl_TriggerType (touched p r) = pl_TriggerType r" "pl_CapturedAt (touched p r) = micros (pl_CapturedAt p)" "pl_Metadata (touched p r) = pl_Metadata p"
  by (simp_all add: touched_def plan_key_def)

lemma SavePlan_known:
  assumes "up" "lib_json lib (pl_PlanText p)" "plan_key p \<in> plan_key ` set (pd_rows db)"
  shows "SavePlan lib up p db = Some \<lparr>pd_rows = map (\<lambda>r. if plan_key r = plan_key p then touched p r else r) (pd_rows db), pd_next = pd_next db + 1\<rparr>"
  using assms by (simp add: SavePlan_def touched_def)

lemma SavePlan_new:
  assumes "up" "lib_json lib (pl_PlanText p)" "plan_key p \<notin> plan_key ` set (pd_rows db)"
  shows "SavePlan lib up p db = Some \<lparr>pd_rows = pd_rows db @ [p\<lparr>pl_ID := pd_next db, pl_CapturedAt := micros (pl_CapturedAt p)\<rparr>], pd_next = pd_next db + 1\<rparr>"
  using assms by (simp add: SavePlan_def)

lemma SavePlan_ok:
  assumes "plan_db_ok db" "SavePlan lib up p db = Some db'" "\<not> pl_Truncated p"
  shows "plan_db_ok db'"
proof -
  have up: "up" "lib_json lib (pl_PlanText p)" using assms(2) by (auto simp: SavePlan_def split: if_splits)
  show ?thesis
  proof (cases "plan_key p \<in> plan_key ` set (pd_rows db)")
    case True
    let ?f = "\<lambda>r. if plan_key r = plan_key p then touched p r else r"
    have "map plan_key (map ?f rs) = map plan_key rs" "map pl_ID (map ?f rs) = map pl_ID rs" for rs by (auto simp: comp_def)
    moreover have "r \<in> set (map ?f (pd_rows db)) \<Longrightarrow> \<exists>r0\<in>set (pd_rows db). pl_ID r = pl_ID r0 \<and> pl_Truncated r = pl_Truncated r0" for r by force
    ultimately show ?thesis
      using SavePlan_known [OF up True] assms(1,2) unfolding plan_db_ok_def by (fastforce simp del: map_map)
  next
    case False
    have "plan_key (p\<lparr>pl_ID := n, pl_CapturedAt := t\<rparr>) = plan_key p" for n t by (simp add: plan_key_def)
    then show ?thesis using SavePlan_new [OF up False] assms False by (fastforce simp: plan_db_ok_def)
  qed
qed

text \<open>The plans the code may try to save: whole ones, or proper prefixes of an answer.\<close>

definition cut_of :: "(string \<Rightarrow> bool) \<Rightarrow> PlanCapture \<Rightarrow> bool" where
  "cut_of answers p \<longleftrightarrow> (pl_Truncated p \<longrightarrow> (\<exists>s n. answers s \<and> n < length s \<and> pl_PlanText p = take n s))"

definition prefix_free :: "plan_lib \<Rightarrow> (string \<Rightarrow> bool) \<Rightarrow> bool" where
  "prefix_free lib answers \<longleftrightarrow> (\<forall>s. answers s \<longrightarrow> (\<forall>n<length s. \<not> lib_json lib (take n s)))"

lemma cut_not_saved: "prefix_free lib answers \<Longrightarrow> cut_of answers p \<Longrightarrow> pl_Truncated p \<Longrightarrow> SavePlan lib up p db = None"
  by (auto simp: prefix_free_def cut_of_def SavePlan_def)

lemma SavePlan_cut_ok: "prefix_free lib answers \<Longrightarrow> cut_of answers p \<Longrightarrow> plan_db_ok db \<Longrightarrow> plan_db_ok (or_same db (SavePlan lib up p db))"
  using SavePlan_ok [of db lib up p] cut_not_saved [of lib answers p up db]
  by (cases "pl_Truncated p") (auto simp: or_same_def split: option.splits)

lemma checkAndSave_ok:
  assumes "prefix_free lib answers" "cut_of answers p" "plan_db_ok db"
  shows "plan_db_ok (fst (checkAndSave lib io p db))"
proof -
  have sig: "cut_of answers (p\<lparr>pl_TriggerType := TriggerHashDiff, pl_Metadata := m\<rparr>)" for m using assms(2) by (simp add: cut_of_def)
  have "fst (checkAndSave lib io p db) = or_same d (SavePlan lib (si_plan io) p d)"
    if "d = (if LatestPlanHash (si_lookup io) (pl_InstanceID p) (pl_QueryFingerprint p) db \<noteq> '''' \<and> LatestPlanHash (si_lookup io) (pl_InstanceID p) (pl_QueryFingerprint p) db \<noteq> pl_PlanHash p
       then or_same db (SavePlan lib (si_signal io) (p\<lparr>pl_TriggerType := TriggerHashDiff, pl_Metadata := MetaHashes (LatestPlanHash (si_lookup io) (pl_InstanceID p) (pl_QueryFingerprint p) db) (pl_PlanHash p)\<rparr>) db)
       else db)" for d
    using that by (simp add: checkAndSave_def Let_def or_same_def split: option.splits)
  then show ?thesis using SavePlan_cut_ok [OF assms(1) sig] SavePlan_cut_ok [OF assms(1,2)] assms(3) by auto
qed

lemma cut_of_fields: "cut_of answers (p\<lparr>pl_DurationMs := d\<rparr>) = cut_of answers p" "cut_of answers (p\<lparr>pl_Metadata := m\<rparr>) = cut_of answers p"
  "cut_of answers (p\<lparr>pl_InstanceID := i\<rparr>) = cut_of answers p" "cut_of answers (p\<lparr>pl_DatabaseName := e\<rparr>) = cut_of answers p"
  "cut_of answers (p\<lparr>pl_QueryFingerprint := f\<rparr>) = cut_of answers p" "cut_of answers (p\<lparr>pl_TriggerType := t\<rparr>) = cut_of answers p"
  "cut_of answers (p\<lparr>pl_QueryText := q\<rparr>) = cut_of answers p" "cut_of answers (p\<lparr>pl_CapturedAt := c\<rparr>) = cut_of answers p"
  by (simp_all add: cut_of_def)

lemma explained_cut_of:
  assumes "runExplain lib cfg a = Explained p" "\<And>s. a = Some s \<Longrightarrow> answers s"
  shows "cut_of answers p"
proof (cases a)
  case (Some s)
  let ?m = "pcf_MaxPlanBytes cfg"
  have "\<exists>r n. answers r \<and> n < length r \<and> take (nat ?m) s = take n r" if "int (length s) > ?m" "\<not> ?m < 0"
    using that assms(2) Some by (intro exI [of _ s] exI [of _ "nat ?m"]) auto
  then show ?thesis using assms(1) Some by (auto simp: runExplain_def cut_of_def blank_plan_def Let_def split: if_splits) blast+
qed (use assms in \<open>simp add: runExplain_def\<close>)

subsection \<open>The loops keep the table\<close>

lemma duration_loop_ok:
  assumes "prefix_free lib answers" "\<And>q s. explain q = Some s \<Longrightarrow> answers s"
  shows "duration_loop lib explain i io n hits st = Some st' \<Longrightarrow> plan_db_ok (snd st) \<Longrightarrow> plan_db_ok (snd st')"
proof (induction hits arbitrary: n st)
  case (Cons h hits)
  obtain datname query ms c db where h: "h = (datname, query, ms)" and st: "st = (c, db)" by (metis prod_cases3 surj_pair)
  obtain entries dup where seen: "seen (co_window c) i (Fingerprint lib query) (pi_now (io n)) (pi_noted (io n)) (co_dedup c) = (entries, dup)" by fastforce
  show ?case
  proof (cases "dup \<or> IsDDL query")
    case True
    then show ?thesis using Cons.IH [of "Suc n" "(c\<lparr>co_dedup := entries\<rparr>, db)"] Cons.prems by (simp add: h st seen)
  next
    case False
    show ?thesis
    proof (cases "runExplain lib (co_config c) (explain query)")
      case (Explained p)
      let ?p = "p\<lparr>pl_InstanceID := i, pl_DatabaseName := datname, pl_QueryFingerprint := Fingerprint lib query, pl_TriggerType := TriggerDuration,
        pl_DurationMs := to_int64 ms, pl_QueryText := truncateStr query 4096, pl_CapturedAt := pi_captured (io n)\<rparr>"
      have "cut_of answers ?p" unfolding cut_of_fields using explained_cut_of [OF Explained] assms(2) by blast
      then have "plan_db_ok (fst (checkAndSave lib (pi_save (io n)) ?p db))" using checkAndSave_ok [OF assms(1)] Cons.prems(2) st by simp
      then show ?thesis
        using Cons.IH [of "Suc n" "(c\<lparr>co_dedup := entries\<rparr>, fst (checkAndSave lib (pi_save (io n)) ?p db))"] Cons.prems False Explained by (simp add: h st seen)
    qed (use False Cons.IH [of "Suc n" "(c\<lparr>co_dedup := entries\<rparr>, db)"] Cons.prems in \<open>simp_all add: h st seen\<close>)
  qed
qed simp

lemma topn_loop_ok:
  assumes "prefix_free lib answers" "\<And>q s. explain q = Some s \<Longrightarrow> answers s"
  shows "topn_loop lib cfg explain i io n hits db = Some db' \<Longrightarrow> plan_db_ok db \<Longrightarrow> plan_db_ok db'"
proof (induction hits arbitrary: n db)
  case (Cons h hits)
  show ?case
  proof (cases "IsDDLStrict (tr_query h)")
    case True
    then show ?thesis using Cons.IH [of "Suc n" db] Cons.prems by simp
  next
    case False
    show ?thesis
    proof (cases "runExplain lib cfg (explain (tr_query h))")
      case (Explained p)
      let ?p = "p\<lparr>pl_InstanceID := i, pl_DatabaseName := tr_datname h, pl_QueryFingerprint := Fingerprint lib (tr_query h),
                 pl_TriggerType := TriggerScheduled, pl_QueryText := truncateStr (tr_query h) 4096, pl_Metadata := MetaRank (n + 1), pl_CapturedAt := pi_captured (io n)\<rparr>"
      have "cut_of answers ?p" unfolding cut_of_fields using explained_cut_of [OF Explained] assms(2) by blast
      then have "plan_db_ok (fst (checkAndSave lib (pi_save (io n)) ?p db))" using checkAndSave_ok [OF assms(1)] Cons.prems(2) by simp
      then show ?thesis
        using Cons.IH [of "Suc n" "fst (checkAndSave lib (pi_save (io n)) ?p db)"] Cons.prems False Explained by simp
    qed (use False Cons.IH [of "Suc n" db] Cons.prems in simp_all)
  qed
qed simp

text \<open>Runs: collections, manual captures of both kinds and the worker, over servers whose answers to \<open>EXPLAIN\<close> are in \<open>answers\<close>.\<close>

inductive reach_plans :: "plan_lib \<Rightarrow> (string \<Rightarrow> bool) \<Rightarrow> plan_db \<Rightarrow> bool" for lib answers where
  rp_empty: "reach_plans lib answers \<lparr>pd_rows = [], pd_next = 1\<rparr>"
| rp_collect: "reach_plans lib answers db \<Longrightarrow> (\<And>q s. ce_explain env q = Some s \<Longrightarrow> answers s) \<Longrightarrow> plan_Collect lib env i (c, db) = Some ((c', db'), ok) \<Longrightarrow> reach_plans lib answers db'"
| rp_manual: "reach_plans lib answers db \<Longrightarrow> (\<And>s. a = Some s \<Longrightarrow> answers s) \<Longrightarrow> CaptureManual_plan lib cfg a io now i d q db = Some (db', r) \<Longrightarrow> reach_plans lib answers db'"
| rp_request: "reach_plans lib answers db \<Longrightarrow> handleManualCapture lib known store provider body hashed now up i db = (db', resp) \<Longrightarrow> reach_plans lib answers db'"
| rp_retention: "reach_plans lib answers db \<Longrightarrow> reach_plans lib answers (retention_tick add_days days up now db)"

lemma plan_Collect_ok:
  assumes lib: "prefix_free lib answers" and srv: "\<And>q s. ce_explain env q = Some s \<Longrightarrow> answers s"
    and run: "plan_Collect lib env i (c, db) = Some ((c', db'), r)" and ok: "plan_db_ok db"
  shows "plan_db_ok db'"
proof (cases "pcf_Enabled (co_config c)")
  case True
  obtain c1 db1 r1 where d: "collectDurationThreshold lib (ce_explain env) (ce_activity env) i (ce_slow_io env) (c, db) = Some ((c1, db1), r1)"
    using run True by (auto simp: plan_Collect_def split: option.splits)
  have ok1: "plan_db_ok db1"
    using d ok duration_loop_ok [OF lib srv, where st = "(c, db)" and st' = "(c1, db1)"] by (auto simp: collectDurationThreshold_def split: option.splits)
  have top: "collectScheduledTopN lib cfg (ce_explain env) a i io db1 = Some (d2, r2) \<Longrightarrow> plan_db_ok d2" for cfg a io d2 r2
    using ok1 topn_loop_ok [OF lib srv] by (auto simp: collectScheduledTopN_def split: option.splits)
  show ?thesis using run True d ok1 top by (auto simp: plan_Collect_def split: option.splits bool.splits if_splits prod.splits)
qed (use run ok in \<open>auto simp: plan_Collect_def\<close>)

lemma reach_plans_ok:
  assumes "prefix_free lib answers"
  shows "reach_plans lib answers db \<Longrightarrow> plan_db_ok db"
proof (induction rule: reach_plans.induct)
  case rp_empty
  then show ?case by (simp add: plan_db_ok_def)
next
  case (rp_collect db env i c c' db' ok)
  then show ?case using plan_Collect_ok [OF assms] by blast
next
  case (rp_manual db a cfg io now i d q db' r)
  then show ?case
  proof (cases "runExplain lib cfg a")
    case (Explained p)
    then have "cut_of answers p" using explained_cut_of rp_manual.hyps(2) by blast
    then show ?thesis using rp_manual Explained checkAndSave_ok [OF assms]
      by (auto simp: CaptureManual_plan_def Let_def cut_of_fields split: prod.splits) (metis cut_of_fields fst_conv)
  qed (auto simp: CaptureManual_plan_def)
next
  case (rp_request db known store provider body hashed now up i db' resp)
  then show ?case
    by (auto simp: handleManualCapture_def blank_plan_def split: if_splits option.splits prod.splits elim!: SavePlan_ok [rotated])
next
  case (rp_retention db add_days days up now)
  then show ?case by (auto simp: plan_db_ok_def retention_tick_def distinct_map_filter)
qed

subsection \<open>Claims\<close>


text \<open>The effect of one insertion on the row of its key and on the others.\<close>

lemma filter_key:
  assumes "distinct (map plan_key rs)"
  shows "filter (\<lambda>r. plan_key r = k) rs = (case find (\<lambda>r. plan_key r = k) rs of None \<Rightarrow> [] | Some r \<Rightarrow> [r])"
  using assms by (induction rs) (auto simp: filter_empty_conv find_None_iff find_Some_iff image_iff split: option.splits)

lemma SavePlan_effect:
  assumes "distinct (map plan_key (pd_rows db))" "lib_json lib (pl_PlanText p)"
  shows "\<exists>db' r. SavePlan lib True p db = Some db' \<and> distinct (map plan_key (pd_rows db'))
    \<and> filter (\<lambda>r. plan_key r \<noteq> plan_key p) (pd_rows db') = filter (\<lambda>r. plan_key r \<noteq> plan_key p) (pd_rows db)
    \<and> find (\<lambda>r. plan_key r = plan_key p) (pd_rows db') = Some r \<and> pl_CapturedAt r = micros (pl_CapturedAt p) \<and> pl_Metadata r = pl_Metadata p
    \<and> pl_TriggerType r = (case find (\<lambda>r. plan_key r = plan_key p) (pd_rows db) of None \<Rightarrow> pl_TriggerType p | Some old \<Rightarrow> pl_TriggerType old)"
proof (cases "find (\<lambda>r. plan_key r = plan_key p) (pd_rows db)")
  case None
  then have new: "plan_key p \<notin> plan_key ` set (pd_rows db)" by (force simp: find_None_iff)
  have key: "plan_key (p\<lparr>pl_ID := n, pl_CapturedAt := t\<rparr>) = plan_key p" for n t by (simp add: plan_key_def)
  have "find (\<lambda>r. plan_key r = plan_key p) (rs @ [x]) = Some x" if "find (\<lambda>r. plan_key r = plan_key p) rs = None" "plan_key x = plan_key p" for rs x
    using that by (induction rs) (auto split: if_splits)
  then show ?thesis using SavePlan_new [OF _ assms(2) new] None assms(1) new key by (simp add: filter_empty_conv)
next
  case (Some old)
  then have known: "plan_key p \<in> plan_key ` set (pd_rows db)" by (auto simp: find_Some_iff intro: rev_image_eqI [OF nth_mem])
  let ?u = "\<lambda>r. if plan_key r = plan_key p then touched p r else r"
  have "map plan_key (map ?u rs) = map plan_key rs" "filter (\<lambda>r. plan_key r \<noteq> plan_key p) (map ?u rs) = filter (\<lambda>r. plan_key r \<noteq> plan_key p) rs"
    "find (\<lambda>r. plan_key r = plan_key p) (map ?u rs) = map_option (touched p) (find (\<lambda>r. plan_key r = plan_key p) rs)" for rs
    by (induction rs) auto
  then show ?thesis using SavePlan_known [OF _ assms(2) known] Some assms(1) by (simp del: map_map)
qed

definition all_saved :: save_io where
  "all_saved = \<lparr>si_lookup = True, si_signal = True, si_plan = True\<rparr>"

text \<open>C40: A plan that is saved touches only its own row, which afterwards carries its time and its metadata: the two
  hashes noted for a change of plans never survive. The row is marked as a change exactly if it is new and the latest
  plan of the query was another one; a query that returns to a plan it had before is not reported.\<close>

theorem plan_change_recorded:
  assumes "distinct (map plan_key (pd_rows db))" "lib_json lib (pl_PlanText p)"
  shows "let prev = LatestPlanHash True (pl_InstanceID p) (pl_QueryFingerprint p) db; db' = fst (checkAndSave lib all_saved p db) in
    snd (checkAndSave lib all_saved p db)
    \<and> filter (\<lambda>r. plan_key r \<noteq> plan_key p) (pd_rows db') = filter (\<lambda>r. plan_key r \<noteq> plan_key p) (pd_rows db)
    \<and> (\<exists>r. filter (\<lambda>r. plan_key r = plan_key p) (pd_rows db') = [r] \<and> pl_CapturedAt r = micros (pl_CapturedAt p) \<and> pl_Metadata r = pl_Metadata p
        \<and> pl_TriggerType r = (case find (\<lambda>r. plan_key r = plan_key p) (pd_rows db) of Some old \<Rightarrow> pl_TriggerType old
            | None \<Rightarrow> if prev \<noteq> '''' \<and> prev \<noteq> pl_PlanHash p then TriggerHashDiff else pl_TriggerType p))"
proof -
  define prev where "prev = LatestPlanHash True (pl_InstanceID p) (pl_QueryFingerprint p) db"
  define sig where "sig = p\<lparr>pl_TriggerType := TriggerHashDiff, pl_Metadata := MetaHashes prev (pl_PlanHash p)\<rparr>"
  define changed where "changed \<longleftrightarrow> prev \<noteq> '''' \<and> prev \<noteq> pl_PlanHash p"
  have key: "plan_key sig = plan_key p" and json: "lib_json lib (pl_PlanText sig)" and trig: "pl_TriggerType sig = TriggerHashDiff"
    using assms(2) by (simp_all add: sig_def plan_key_def)
  let ?find = "\<lambda>d. find (\<lambda>r. plan_key r = plan_key p) (pd_rows d)" and ?rest = "\<lambda>d. filter (\<lambda>r. plan_key r \<noteq> plan_key p) (pd_rows d)"
  let ?trigger = "case ?find db of Some old \<Rightarrow> pl_TriggerType old | None \<Rightarrow> if changed then TriggerHashDiff else pl_TriggerType p"
  obtain d where d: "d = (if changed then or_same db (SavePlan lib True sig db) else db)" by blast
  have d_ok: "distinct (map plan_key (pd_rows d)) \<and> ?rest d = ?rest db \<and> (case ?find d of Some old \<Rightarrow> pl_TriggerType old | None \<Rightarrow> pl_TriggerType p) = ?trigger"
    using SavePlan_effect [OF assms(1) json] assms(1) unfolding key trig by (auto simp: d or_same_def split: option.splits)
  obtain db' r where s: "SavePlan lib True p d = Some db'" "distinct (map plan_key (pd_rows db'))" "?rest db' = ?rest d" "?find db' = Some r"
      "pl_CapturedAt r = micros (pl_CapturedAt p)" "pl_Metadata r = pl_Metadata p"
      "pl_TriggerType r = (case ?find d of None \<Rightarrow> pl_TriggerType p | Some old \<Rightarrow> pl_TriggerType old)"
    using SavePlan_effect [of d, OF _ assms(2)] d_ok by blast
  have "checkAndSave lib all_saved p db = (db', True)"
    using s(1) by (cases changed) (auto simp: checkAndSave_def all_saved_def d changed_def sig_def prev_def Let_def)
  moreover have "filter (\<lambda>r. plan_key r = plan_key p) (pd_rows db') = [r]" using filter_key [OF s(2)] s(4) by simp
  ultimately show ?thesis using s d_ok unfolding Let_def prev_def [symmetric] changed_def [symmetric] by simp
qed

subsection \<open>The spacing of captures\<close>

text \<open>The cache of recent queries is a rate gate, for every window that is a duration.\<close>

definition dedup_window :: "nat \<Rightarrow> duration" where
  "dedup_window n = min (int n) (2 ^ 63 - 1)"

interpretation dedup_gate: rate_gate
  "\<lambda>entries now key. \<not> recently_seen (dedup_window n) entries now key" "\<lambda>entries now key. entries(key \<mapsto> now)"
  "\<lambda>key. dedup_window n" Map.empty for n
  by unfold_locales (auto simp: recently_seen_def time_sub_def dedup_window_def)

definition seen_turn :: "nat \<Rightarrow> string \<times> string \<times> time \<times> time \<Rightarrow> (string \<rightharpoonup> time) \<times> string request list \<Rightarrow> (string \<rightharpoonup> time) \<times> string request list" where
  "seen_turn n = (\<lambda>(i, fp, now, noted) (entries, acc).
     case seen (dedup_window n) i fp now noted entries of
       (entries', dup) \<Rightarrow> (entries', if dup then acc else acc @ [\<lparr>rq_key = i @ '':'' @ fp, rq_check = now, rq_mark = noted\<rparr>]))"

lemma seen_turn_gate:
  "seen_turn n (i, fp, now, noted) = dedup_gate.gate_step n \<lparr>rq_key = i @ '':'' @ fp, rq_check = now, rq_mark = noted\<rparr>"
  by (auto simp: seen_turn_def seen_def dedup_gate.gate_step_def Let_def fun_eq_iff)

text \<open>The queries that pass \<open>seen\<close> are spaced by the window, for each instance and fingerprint.\<close>

lemma seen_spaced:
  assumes "\<forall>(i, fp, now, noted)\<in>set qs. now \<le> noted"
  shows "sorted_wrt (\<lambda>p q. rq_key p = rq_key q \<longrightarrow> rq_mark p + dedup_window n \<le> rq_check q) (snd (fold (seen_turn n) qs (Map.empty, [])))"
proof -
  let ?r = "\<lambda>(i, fp, now, noted). \<lparr>rq_key = i @ '':'' @ fp, rq_check = now, rq_mark = noted\<rparr>"
  have "fold (seen_turn n) qs st = fold (dedup_gate.gate_step n) (map ?r qs) st" for st
    by (induction qs arbitrary: st) (auto simp: seen_turn_gate split: prod.splits)
  moreover have "dedup_gate.ordered_requests n (map ?r qs)" using assms by (auto simp: dedup_gate.ordered_requests_def) (simp add: dedup_window_def)?
  ultimately show ?thesis using dedup_gate.gate_run_spaced [of n "map ?r qs"] by (simp add: dedup_gate.gate_run_def dedup_gate.spaced_def)
qed

subsection \<open>Normalised queries\<close>

lemma to_lower_idem [simp]: "to_lower (to_lower c) = to_lower c"
proof -
  have "(65::nat) \<le> of_char c \<Longrightarrow> of_char c \<le> (90::nat) \<Longrightarrow> of_char (char_of (of_char c + (32::nat)) :: char) = of_char c + (32::nat)"
    by (simp add: of_char_of)
  then show ?thesis unfolding to_lower_def by auto
qed

lemma map_Join: "map f (Join sep ws) = Join (map f sep) (map (map f) ws)"
  by (induction sep ws rule: Join.induct) auto

lemma split_by_lower: "split_by p s = ws \<Longrightarrow> \<forall>c\<in>set s. f c = c \<Longrightarrow> \<forall>w\<in>set ws. map f w = w"
proof (induction s arbitrary: ws)
  case (Cons c cs)
  obtain w vs where e: "split_by p cs = w # vs" using split_by_nonempty by (metis neq_Nil_conv)
  show ?case using Cons.IH [OF e] Cons.prems by (auto simp: e split: if_splits)
qed auto

text \<open>Fingerprints do not depend on case and white space: normalising is idempotent.\<close>

lemma NormalizeQuery_idem: "NormalizeQuery (NormalizeQuery q) = NormalizeQuery q"
proof -
  have low: "\<forall>w\<in>set (Fields (map to_lower q)). map to_lower w = w"
    using split_by_lower [OF refl, of "map to_lower q" to_lower is_space] by (auto simp: Fields_def)
  have "map to_lower (NormalizeQuery q) = NormalizeQuery q"
    unfolding NormalizeQuery_def map_Join using low by (simp add: to_lower_def map_idI)
  then show ?thesis using Fields_Join [OF Fields_list_words, of "map to_lower q"] by (simp add: NormalizeQuery_def)
qed

lemma IsDDL_strict: "IsDDL q \<Longrightarrow> IsDDLStrict q"
  by (simp add: IsDDL_def IsDDLStrict_def)

subsection \<open>Witnesses\<close>

definition demo_lib :: plan_lib where
  "demo_lib = \<lparr>lib_md5 = (\<lambda>s. s), lib_sha256 = (\<lambda>s. s), lib_json = (\<lambda>s. s \<noteq> [] \<and> hd s = CHR ''['' \<and> last s = CHR '']'')\<rparr>"

definition demo_limit :: "int \<Rightarrow> CaptureConfig" where
  "demo_limit n = \<lparr>pcf_Enabled = True, pcf_DurationThresholdMs = 1000, pcf_DedupWindowSeconds = 60, pcf_ScheduledTopNCount = 5, pcf_ScheduledTopNInterval = Hour, pcf_MaxPlanBytes = n\<rparr>"

definition demo_plan :: "string \<Rightarrow> TriggerType \<Rightarrow> PlanCapture" where
  "demo_plan h tr = blank_plan\<lparr>pl_ID := 1, pl_InstanceID := ''a'', pl_QueryFingerprint := ''f'', pl_PlanHash := h, pl_PlanText := ''[1]'', pl_TriggerType := tr, pl_CapturedAt := 1000\<rparr>"

lemma demo_prefix_free: "prefix_free demo_lib (\<lambda>s. s = ''[1]'')"
  by (auto simp: prefix_free_def demo_lib_def less_Suc_eq)


theorem plan_change_recorded_witness:
  "\<exists>r. filter (\<lambda>r. plan_key r = (''a'', ''f'', ''B'')) (pd_rows (fst (checkAndSave demo_lib all_saved (demo_plan ''B'' TriggerDuration) \<lparr>pd_rows = [demo_plan ''A'' TriggerDuration], pd_next = 2\<rparr>))) = [r]
     \<and> pl_TriggerType r = TriggerHashDiff \<and> pl_Metadata r = NoMeta"
proof -
  let ?db = "\<lparr>pd_rows = [demo_plan ''A'' TriggerDuration], pd_next = 2\<rparr>" and ?p = "demo_plan ''B'' TriggerDuration"
  have "distinct (map plan_key (pd_rows ?db))" "lib_json demo_lib (pl_PlanText ?p)" by (simp_all add: demo_lib_def demo_plan_def)
  note rec = plan_change_recorded [OF this]
  have "plan_key ?p = (''a'', ''f'', ''B'')" "plan_key (demo_plan ''A'' TriggerDuration) = (''a'', ''f'', ''A'')" "pl_Metadata ?p = NoMeta"
    "LatestPlanHash True (pl_InstanceID ?p) (pl_QueryFingerprint ?p) ?db = ''A''" "pl_PlanHash ?p = ''B''"
    by (simp_all add: demo_plan_def plan_key_def blank_plan_def LatestPlanHash_def newest_plans_def)
  then show ?thesis using rec by (auto simp: Let_def)
qed

end
