(* ===== verification/IncidentStore.thy ===== *)
theory IncidentStore
  imports RcaEngine SettingsHistory
begin

section \<open>Stored incidents (\<open>internal/rca/pgstore.go\<close>, \<open>settings_adapter.go\<close>, \<open>internal/api/rca.go\<close>)\<close>

text \<open>
  The table of incidents with its pages and reviews, the handlers that analyse, show and review, and the adapter that
  reads changed settings out of the snapshots for the engine. The JSON document of a row holds what its fields hold;
  the columns of type \<open>timestamptz\<close> keep microseconds.
\<close>

subsection \<open>The table\<close>

record incident_row =
  iw_incident :: Incident
  iw_chain :: "(string \<times> string) option"
  iw_review_status :: "string option"
  iw_reviewed_at :: "time option"
  iw_review_comment :: "string option"

record incident_db =
  id_rows :: "incident_row list"
  id_next :: int

definition stored_incident :: "int \<Rightarrow> Incident \<Rightarrow> Incident" where
  "stored_incident i inc = inc\<lparr>in_ID := i, in_TriggerTime := micros (in_TriggerTime inc),
     in_AnalysisWindow := \<lparr>w_From = micros (w_From (in_AnalysisWindow inc)), w_To = micros (w_To (in_AnalysisWindow inc))\<rparr>,
     in_CreatedAt := micros (in_CreatedAt inc)\<rparr>"

definition Create_incident :: "bool \<Rightarrow> Incident \<Rightarrow> incident_db \<Rightarrow> (incident_db \<times> int) option" where
  "Create_incident up inc db =
     (if up then
        Some (\<lparr>id_rows = id_rows db @ [\<lparr>iw_incident = stored_incident (id_next db) inc,
                 iw_chain = map_option (\<lambda>c. (cr_ChainID c, cr_RootCauseKey c)) (in_PrimaryChain inc),
                 iw_review_status = None, iw_reviewed_at = None, iw_review_comment = None\<rparr>], id_next = id_next db + 1\<rparr>, id_next db)
      else None)"

text \<open>A row that is missing is an error like any other.\<close>

definition Get_incident :: "bool \<Rightarrow> int \<Rightarrow> incident_db \<Rightarrow> incident_row option" where
  "Get_incident up i db = (if up then find (\<lambda>r. in_ID (iw_incident r) = i) (id_rows db) else None)"

text \<open>A row of a list has the columns only: of its chain the name and the root cause.\<close>

definition listed :: "incident_row \<Rightarrow> Incident" where
  "listed r = (let inc = iw_incident r in
     inc\<lparr>in_AnalysisWindow := \<lparr>w_From = zero_time, w_To = zero_time\<rparr>,
         in_PrimaryChain := map_option (\<lambda>(c, k). \<lparr>cr_ChainID = c, cr_ChainName = '''', cr_Score = 0, cr_RootCauseKey = k, cr_Events = []\<rparr>) (iw_chain r),
         in_AlternativeChain := None, in_Timeline := [],
         in_Quality := \<lparr>qs_TelemetryCompleteness = 0, qs_AnomalySourceMode = '''', qs_ScopeLimitations = [], qs_UnavailableDeps = []\<rparr>,
         in_RemediationHooks := []\<rparr>)"

definition incident_page :: "bool \<Rightarrow> bool \<Rightarrow> (incident_row \<Rightarrow> bool) \<Rightarrow> int \<Rightarrow> int \<Rightarrow> incident_db \<Rightarrow> (Incident list \<times> int) option" where
  "incident_page counted up sel limit offset db =
     (if \<not> counted \<or> \<not> up \<or> limit < 0 \<or> offset < 0 then None
      else let rows = filter sel (id_rows db) in
        Some (map listed (take (nat limit) (drop (nat offset) (sort_slice (\<lambda>a b. in_CreatedAt (iw_incident a) > in_CreatedAt (iw_incident b)) rows))), int (length rows)))"

definition ListIncidentsByInstance :: "bool \<Rightarrow> bool \<Rightarrow> string \<Rightarrow> int \<Rightarrow> int \<Rightarrow> incident_db \<Rightarrow> (Incident list \<times> int) option" where
  "ListIncidentsByInstance counted up instanceID = incident_page counted up (\<lambda>r. in_InstanceID (iw_incident r) = instanceID)"

definition ListAll_incidents :: "bool \<Rightarrow> bool \<Rightarrow> int \<Rightarrow> int \<Rightarrow> incident_db \<Rightarrow> (Incident list \<times> int) option" where
  "ListAll_incidents counted up = incident_page counted up (\<lambda>_. True)"

definition UpdateReview :: "bool \<Rightarrow> time \<Rightarrow> int \<Rightarrow> string \<Rightarrow> string \<Rightarrow> incident_db \<Rightarrow> incident_db option" where
  "UpdateReview up now i status comment db =
     (if up \<and> i \<in> (\<lambda>r. in_ID (iw_incident r)) ` set (id_rows db) then
        Some (db\<lparr>id_rows := map (\<lambda>r. if in_ID (iw_incident r) = i then r\<lparr>iw_review_status := Some status, iw_review_comment := Some comment, iw_reviewed_at := Some now\<rparr> else r) (id_rows db)\<rparr>)
      else None)"

definition Cleanup_incidents :: "bool \<Rightarrow> time \<Rightarrow> duration \<Rightarrow> incident_db \<Rightarrow> (incident_db \<times> int) option" where
  "Cleanup_incidents up now olderThan db =
     (if up then
        let kept = filter (\<lambda>r. \<not> in_CreatedAt (iw_incident r) < micros (now - olderThan)) (id_rows db) in
        Some (db\<lparr>id_rows := kept\<rparr>, int (length (id_rows db)) - int (length kept))
      else None)"

subsection \<open>Handlers\<close>

datatype rca_response =
    RcaError nat string
  | RcaIncident Incident
  | RcaRow incident_row
  | RcaPage "Incident list" int
  | RcaReviewed int string
  | RcaGraph "(string, CausalNode) gomap" "CausalEdge list" "string list"

record rcaAnalyzeRequest =
  rq_Metric :: string
  rq_Value :: float64
  rq_Timestamp :: string
  rq_WindowMinutes :: int

text \<open>The engine of the server writes through the table; what it returns carries the identifier of the row.\<close>

definition handleRCAAnalyze ::
  "rca_fmt \<Rightarrow> (string \<Rightarrow> time option) \<Rightarrow> bool \<Rightarrow> rcaAnalyzeRequest option \<Rightarrow> time \<Rightarrow> time \<Rightarrow> bool \<Rightarrow> Engine \<Rightarrow> string \<Rightarrow> incident_db \<Rightarrow> incident_db \<times> rca_response" where
  "handleRCAAnalyze fmt rfc known body now built up e instanceID db =
     (if \<not> known then (db, RcaError 404 ''NOT_FOUND'')
      else case body of None \<Rightarrow> (db, RcaError 400 ''INVALID_BODY'')
      | Some req \<Rightarrow>
          if rq_Metric req = '''' then (db, RcaError 400 ''INVALID_BODY'')
          else case (if rq_Timestamp req = '''' then Some now else rfc (rq_Timestamp req)) of None \<Rightarrow> (db, RcaError 400 ''INVALID_BODY'')
          | Some triggerTime \<Rightarrow>
              (case Analyze fmt built (e\<lparr>en_store := Some (\<lambda>inc. map_option snd (Create_incident up inc db))\<rparr>)
                 \<lparr>ar_InstanceID = instanceID, ar_TriggerMetric = rq_Metric req, ar_TriggerValue = rq_Value req, ar_TriggerTime = triggerTime,
                  ar_WindowMinutes = (if rq_WindowMinutes req = 0 then 30 else rq_WindowMinutes req), ar_TriggerKind = ''''\<rparr> of
                 None \<Rightarrow> (db, RcaError 500 ''RCA_ERROR'')
               | Some (inc, _) \<Rightarrow> ((case Create_incident up inc db of None \<Rightarrow> db | Some (db', _) \<Rightarrow> db'), RcaIncident inc)))"

definition parseRCAPagination :: "string \<Rightarrow> string \<Rightarrow> int \<times> int" where
  "parseRCAPagination limitStr offsetStr =
     (let limit = (case ParseInt limitStr of None \<Rightarrow> 20 | Some n \<Rightarrow> if n > 0 then n else 20)
      in (if limit > 500 then 500 else limit, case ParseInt offsetStr of None \<Rightarrow> 0 | Some n \<Rightarrow> if n \<ge> 0 then n else 0))"

definition handleRCAListIncidents :: "bool \<Rightarrow> bool \<Rightarrow> bool \<Rightarrow> string \<Rightarrow> string \<Rightarrow> string \<Rightarrow> incident_db \<Rightarrow> rca_response" where
  "handleRCAListIncidents known counted up instanceID limitStr offsetStr db =
     (if \<not> known then RcaError 404 ''NOT_FOUND''
      else case parseRCAPagination limitStr offsetStr of (limit, offset) \<Rightarrow>
        (case ListIncidentsByInstance counted up instanceID limit offset db of None \<Rightarrow> RcaError 500 ''INTERNAL'' | Some (is, n) \<Rightarrow> RcaPage is n))"

definition handleRCAListAllIncidents :: "bool \<Rightarrow> bool \<Rightarrow> string \<Rightarrow> string \<Rightarrow> incident_db \<Rightarrow> rca_response" where
  "handleRCAListAllIncidents counted up limitStr offsetStr db =
     (case parseRCAPagination limitStr offsetStr of (limit, offset) \<Rightarrow>
        (case ListAll_incidents counted up limit offset db of None \<Rightarrow> RcaError 500 ''INTERNAL'' | Some (is, n) \<Rightarrow> RcaPage is n))"

text \<open>The null store of a server without a database answers with a nil incident, which is the case the handler tests for.\<close>

definition handleRCAGetIncident :: "bool \<Rightarrow> bool \<Rightarrow> string \<Rightarrow> incident_db option \<Rightarrow> rca_response" where
  "handleRCAGetIncident known up idStr store =
     (if \<not> known then RcaError 404 ''NOT_FOUND''
      else case ParseInt idStr of None \<Rightarrow> RcaError 400 ''INVALID_ID''
      | Some i \<Rightarrow>
          (case store of None \<Rightarrow> RcaError 404 ''NOT_FOUND''
           | Some db \<Rightarrow> (case Get_incident up i db of None \<Rightarrow> RcaError 500 ''INTERNAL'' | Some r \<Rightarrow> RcaRow r)))"

definition handleRCAReviewIncident :: "bool \<Rightarrow> time \<Rightarrow> string \<Rightarrow> (string \<times> string) option \<Rightarrow> incident_db \<Rightarrow> incident_db \<times> rca_response" where
  "handleRCAReviewIncident up now idStr body db =
     (case ParseInt idStr of None \<Rightarrow> (db, RcaError 400 ''INVALID_ID'')
      | Some i \<Rightarrow>
          (case body of None \<Rightarrow> (db, RcaError 400 ''INVALID_BODY'')
           | Some (status, comment) \<Rightarrow>
               if status = '''' then (db, RcaError 400 ''INVALID_BODY'')
               else case UpdateReview up now i status comment db of None \<Rightarrow> (db, RcaError 404 ''NOT_FOUND'') | Some db' \<Rightarrow> (db', RcaReviewed i status)))"

definition handleRCAGetGraph :: "CausalGraph \<Rightarrow> rca_response" where
  "handleRCAGetGraph g =
     RcaGraph (g_Nodes g) (map (\<lambda>e. e\<lparr>ce_MinLagSeconds := of_int (ce_MinLag e) / of_int Second, ce_MaxLagSeconds := of_int (ce_MaxLag e) / of_int Second\<rparr>) (g_Edges g)) (g_ChainIDs g)"

subsection \<open>Changed settings (\<open>settings_adapter.go\<close>)\<close>

text \<open>The newer snapshots of adjacent pairs in the window; a pair whose snapshots cannot be read is skipped. The flags are the
  outcomes of the two reads of each pair.\<close>

fun adjacent_changes :: "(int \<Rightarrow> bool) \<Rightarrow> time \<Rightarrow> time \<Rightarrow> SnapshotMeta list \<Rightarrow> snap_table \<Rightarrow> RcaEngine.SettingChange list" where
  "adjacent_changes up from to (newer # older # metas) t =
     (if sm_CapturedAt newer < from \<or> sm_CapturedAt newer > to then []
      else case GetSnapshot (up (sm_ID newer)) (sm_ID newer) t of
        Found n \<Rightarrow>
          (case GetSnapshot (up (sm_ID older)) (sm_ID older) t of
             Found m \<Rightarrow> map (\<lambda>ch. \<lparr>sc_Name = ch_Name ch, sc_OldValue = ch_OldValue ch, sc_NewValue = ch_NewValue ch, sc_ChangedAt = sm_CapturedAt newer\<rparr>)
               (df_Changed (DiffSnapshots (ss_Settings m) (ss_Settings n)))
           | _ \<Rightarrow> [])
      | _ \<Rightarrow> [])
     @ adjacent_changes up from to (older # metas) t"
| "adjacent_changes up from to _ t = []"

definition GetChanges :: "bool \<Rightarrow> (int \<Rightarrow> bool) \<Rightarrow> string \<Rightarrow> time \<Rightarrow> time \<Rightarrow> snap_table \<Rightarrow> RcaEngine.SettingChange list option" where
  "GetChanges listed_ok up instanceID from to t =
     (case ListSnapshots listed_ok instanceID 50 t of None \<Rightarrow> None | Some metas \<Rightarrow> Some (adjacent_changes up from to metas t))"

end
