(* ===== verification/IncidentLaws.thy ===== *)
theory IncidentLaws
  imports IncidentStore SettingsLaws
begin

section \<open>Laws of stored incidents\<close>

text \<open>
  Every answer of an analysis can be read back, reviews and clean-ups touch nothing else, and the changed settings the
  engine is given are exactly those of adjacent snapshots in the window.
\<close>

inductive reach_incidents :: "incident_db \<Rightarrow> bool" where
  ri_empty: "reach_incidents \<lparr>id_rows = [], id_next = 1\<rparr>"
| ri_create: "reach_incidents db \<Longrightarrow> Create_incident up inc db = Some (db', i) \<Longrightarrow> reach_incidents db'"
| ri_review: "reach_incidents db \<Longrightarrow> UpdateReview up now i status comment db = Some db' \<Longrightarrow> reach_incidents db'"
| ri_cleanup: "reach_incidents db \<Longrightarrow> Cleanup_incidents up now d db = Some (db', n) \<Longrightarrow> reach_incidents db'"

abbreviation "row_id r \<equiv> in_ID (iw_incident r)"

definition incident_db_ok :: "incident_db \<Rightarrow> bool" where
  "incident_db_ok db \<longleftrightarrow> distinct (map row_id (id_rows db)) \<and> (\<forall>r\<in>set (id_rows db). 0 < row_id r \<and> row_id r < id_next db) \<and> 0 < id_next db
     \<and> (\<forall>r\<in>set (id_rows db). iw_chain r = map_option (\<lambda>c. (cr_ChainID c, cr_RootCauseKey c)) (in_PrimaryChain (iw_incident r)))"

lemma stored_incident_fields [simp]:
  "in_ID (stored_incident i inc) = i" "in_PrimaryChain (stored_incident i inc) = in_PrimaryChain inc" "in_InstanceID (stored_incident i inc) = in_InstanceID inc"
  by (simp_all add: stored_incident_def)

lemma reach_incidents_ok: "reach_incidents db \<Longrightarrow> incident_db_ok db"
proof (induction rule: reach_incidents.induct)
  case (ri_create db up inc db' i)
  then show ?case by (fastforce simp: incident_db_ok_def Create_incident_def split: if_splits)
next
  case (ri_review db up now i status comment db')
  define f where "f = (\<lambda>r :: incident_row. if row_id r = i then r\<lparr>iw_review_status := Some status, iw_review_comment := Some comment, iw_reviewed_at := Some now\<rparr> else r)"
  have "db' = db\<lparr>id_rows := map f (id_rows db)\<rparr>" using ri_review.hyps(2) by (simp add: UpdateReview_def f_def split: if_splits)
  moreover have "iw_incident (f r) = iw_incident r" "iw_chain (f r) = iw_chain r" for r by (simp_all add: f_def)
  ultimately show ?case using ri_review.IH by (auto simp: incident_db_ok_def comp_def)
next
  case (ri_cleanup db up now d db' n)
  then show ?case by (auto simp: incident_db_ok_def Cleanup_incidents_def distinct_map_filter Let_def split: if_splits)
qed (simp add: incident_db_ok_def)

lemma find_row: "distinct (map row_id rs) \<Longrightarrow> r \<in> set rs \<Longrightarrow> find (\<lambda>x. row_id x = row_id r) rs = Some r"
  by (induction rs) (auto simp: image_iff)

text \<open>The engine stores what it returns, under the identifier it returns.\<close>

lemma Analyze_stored:
  assumes "Analyze fmt now (e\<lparr>en_store := Some (\<lambda>inc. map_option snd (Create_incident True inc db))\<rparr>) req = Some (inc, hooks)"
  shows "in_ID inc = id_next db"
  using assms by (auto simp: Analyze_def Create_incident_def Let_def split: option.splits)

text \<open>An analysis that answers can be read back under its identifier, through the path of any known instance, with its
  times cut to microseconds; every incident stored before is still there.\<close>

theorem analysed_incident_readable:
  assumes "reach_incidents db" "handleRCAAnalyze fmt rfc True body now built True e i db = (db', RcaIncident inc)"
  shows "(\<exists>r. Get_incident True (in_ID inc) db' = Some r \<and> iw_incident r = stored_incident (in_ID inc) inc \<and> iw_review_status r = None)
    \<and> reach_incidents db' \<and> 0 < in_ID inc \<and> (\<forall>r\<in>set (id_rows db). Get_incident True (row_id r) db' = Some r)"
proof -
  obtain hooks req where an: "Analyze fmt built (e\<lparr>en_store := Some (\<lambda>inc. map_option snd (Create_incident True inc db))\<rparr>) req = Some (inc, hooks)"
    and db': "db' = (case Create_incident True inc db of None \<Rightarrow> db | Some (d, _) \<Rightarrow> d)"
    using assms(2) by (auto simp: handleRCAAnalyze_def split: option.splits if_splits)
  have id: "in_ID inc = id_next db" by (rule Analyze_stored [OF an])
  let ?r = "\<lparr>iw_incident = stored_incident (id_next db) inc, iw_chain = map_option (\<lambda>c. (cr_ChainID c, cr_RootCauseKey c)) (in_PrimaryChain inc),
                 iw_review_status = None, iw_reviewed_at = None, iw_review_comment = None\<rparr>"
  have c: "Create_incident True inc db = Some (db', id_next db)" and rows: "id_rows db' = id_rows db @ [?r]"
    using db' by (simp_all add: Create_incident_def)
  have reach: "reach_incidents db'" by (rule ri_create [OF assms(1) c])
  have "distinct (map row_id (id_rows db'))" using reach_incidents_ok [OF reach] by (simp add: incident_db_ok_def)
  from find_row [OF this] have get: "r \<in> set (id_rows db') \<Longrightarrow> Get_incident True (row_id r) db' = Some r" for r by (simp add: Get_incident_def)
  have "0 < in_ID inc" using reach_incidents_ok [OF assms(1)] id by (simp add: incident_db_ok_def)
  then show ?thesis using get [of ?r] get reach id by (auto simp: rows)
qed

text \<open>A page lists the incidents of an instance newest first, at most five hundred of them, with the root cause of each.\<close>

lemma incident_page_shape:
  assumes "handleRCAListIncidents known counted up i limit offset db = RcaPage ps n"
  shows "length ps \<le> 500 \<and> sorted_wrt (\<lambda>a b. in_CreatedAt a \<ge> in_CreatedAt b) ps \<and> (\<forall>p\<in>set ps. in_InstanceID p = i)
    \<and> n = int (length (filter (\<lambda>r. in_InstanceID (iw_incident r) = i) (id_rows db)))"
proof -
  let ?rows = "filter (\<lambda>r. in_InstanceID (iw_incident r) = i) (id_rows db)"
  let ?sorted = "sort_slice (\<lambda>a b. in_CreatedAt (iw_incident a) > in_CreatedAt (iw_incident b)) ?rows"
  obtain l k where p: "parseRCAPagination limit offset = (l, k)" by fastforce
  then have "l \<le> 500" by (auto simp: parseRCAPagination_def Let_def split: if_splits)
  moreover have "ps = map listed (take (nat l) (drop (nat k) ?sorted))" "n = int (length ?rows)"
    using assms by (simp_all add: handleRCAListIncidents_def p ListIncidentsByInstance_def incident_page_def Let_def split: if_splits option.splits)
  ultimately have l: "l \<le> 500" "ps = map listed (take (nat l) (drop (nat k) ?sorted))" "n = int (length ?rows)" by simp_all
  have f: "in_CreatedAt (listed r) = in_CreatedAt (iw_incident r)" "in_InstanceID (listed r) = in_InstanceID (iw_incident r)" for r by (simp_all add: listed_def Let_def)
  have "sorted_wrt (\<lambda>a b. in_CreatedAt (iw_incident a) \<ge> in_CreatedAt (iw_incident b)) ?sorted"
    using sort_slice_desc_sorted [of "\<lambda>r. in_CreatedAt (iw_incident r)" ?rows] by (simp add: sorted_wrt_map)
  then have "sorted_wrt (\<lambda>a b. in_CreatedAt a \<ge> in_CreatedAt b) ps"
    by (simp add: l(2) sorted_wrt_map f sorted_wrt_take sorted_wrt_drop)
  moreover have "p \<in> set ps \<Longrightarrow> in_InstanceID p = i" for p by (auto simp: l(2) f dest!: in_set_takeD in_set_dropD)
  moreover have "length ps \<le> 500" using l(1) by (simp add: l(2))
  ultimately show ?thesis using l(3) by blast
qed

text \<open>The handler tests for a nil incident, but the store reports a missing row as an error: the answer is a failure of the server.\<close>

lemma missing_incident_fails:
  "ParseInt s = Some k \<Longrightarrow> k \<notin> row_id ` set (id_rows db) \<Longrightarrow> handleRCAGetIncident True True s (Some db) = RcaError 500 ''INTERNAL''"
  by (auto simp: handleRCAGetIncident_def Get_incident_def find_Some_iff split: option.splits)

subsection \<open>Changed settings\<close>

text \<open>With readable snapshots a change is reported exactly for a setting whose value differs between two adjacent snapshots of
  the fifty latest, the newer of them in the window.\<close>

definition pair_change :: "time \<Rightarrow> time \<Rightarrow> RcaEngine.SettingChange \<Rightarrow> time \<Rightarrow> settings_map \<Rightarrow> settings_map \<Rightarrow> bool" where
  "pair_change t0 t1 c tm newer older \<longleftrightarrow> t0 \<le> tm \<and> tm \<le> t1 \<and>
     (\<exists>n v w. map_of older n = Some v \<and> map_of newer n = Some w \<and> sv_Setting v \<noteq> sv_Setting w
        \<and> c = \<lparr>sc_Name = n, sc_OldValue = sv_Setting v, sc_NewValue = sv_Setting w, sc_ChangedAt = tm\<rparr>)"

lemma ex_nat_split: "(\<exists>k. Q k) \<longleftrightarrow> Q 0 \<or> (\<exists>k. Q (Suc k))"
  by (metis not0_implies_Suc)

lemma adjacent_exact:
  assumes "\<forall>m\<in>set metas. up (sm_ID m) \<and> GetSnapshot True (sm_ID m) t = Found (f m) \<and> wf_map (ss_Settings (f m))"
  shows "c \<in> set (adjacent_changes up t0 t1 metas t) \<longleftrightarrow>
    (\<exists>k. Suc k < length metas \<and> pair_change t0 t1 c (sm_CapturedAt (metas ! k)) (ss_Settings (f (metas ! k))) (ss_Settings (f (metas ! Suc k))))"
  using assms
proof (induction up t0 t1 metas t rule: adjacent_changes.induct)
  case (1 up t0 t1 newer older metas t)
  have up: "up (sm_ID newer)" "up (sm_ID older)" "GetSnapshot True (sm_ID newer) t = Found (f newer)" "GetSnapshot True (sm_ID older) t = Found (f older)"
      "wf_map (ss_Settings (f newer))" using "1.prems" by auto
  have "c \<in> (\<lambda>ch. \<lparr>sc_Name = ch_Name ch, sc_OldValue = ch_OldValue ch, sc_NewValue = ch_NewValue ch, sc_ChangedAt = sm_CapturedAt newer\<rparr>)
        ` set (df_Changed (DiffSnapshots (ss_Settings (f older)) (ss_Settings (f newer)))) \<longleftrightarrow>
      (\<exists>n v w. map_of (ss_Settings (f older)) n = Some v \<and> map_of (ss_Settings (f newer)) n = Some w \<and> sv_Setting v \<noteq> sv_Setting w
        \<and> c = \<lparr>sc_Name = n, sc_OldValue = sv_Setting v, sc_NewValue = sv_Setting w, sc_ChangedAt = sm_CapturedAt newer\<rparr>)"
    unfolding image_iff Bex_def in_changed [OF up(5)] by (fastforce simp: changed_setting_def)
  then have hd: "c \<in> set (if sm_CapturedAt newer < t0 \<or> sm_CapturedAt newer > t1 then [] else
        map (\<lambda>ch. \<lparr>sc_Name = ch_Name ch, sc_OldValue = ch_OldValue ch, sc_NewValue = ch_NewValue ch, sc_ChangedAt = sm_CapturedAt newer\<rparr>)
          (df_Changed (DiffSnapshots (ss_Settings (f older)) (ss_Settings (f newer))))) \<longleftrightarrow>
      pair_change t0 t1 c (sm_CapturedAt newer) (ss_Settings (f newer)) (ss_Settings (f older))"
    by (auto simp: pair_change_def)
  have "c \<in> set (adjacent_changes up t0 t1 (older # metas) t) \<longleftrightarrow> (\<exists>k. Suc k < length (older # metas)
      \<and> pair_change t0 t1 c (sm_CapturedAt ((older # metas) ! k)) (ss_Settings (f ((older # metas) ! k))) (ss_Settings (f ((older # metas) ! Suc k))))"
    using "1.IH" "1.prems" by simp
  then show ?case using hd by (cases "sm_CapturedAt newer < t0 \<or> sm_CapturedAt newer > t1"; subst ex_nat_split; simp add: up)
qed simp_all

end
