(* ===== verification/ClusterState.thy ===== *)
theory ClusterState
  imports QueryPlans CollectorStats
begin

section \<open>State of clusters (\<open>internal/cluster\<close>)\<close>

text \<open>
  The providers that ask Patroni and etcd, over HTTP and through their command line tools, the fallback between two of
  them, the choice by configuration, and the collector that turns their answers into points. A provider is the record of its answers at one time. Network, processes and the
  parser of JSON texts are arguments; how JSON values become Go values is modelled.
\<close>

subsection \<open>JSON values into Go values (\<open>encoding/json\<close>)\<close>

datatype json = JNull | JBool bool | JNum int | JReal float64 | JStr string | JArr "json list" | JObj "(string \<times> json) list"

text \<open>A null leaves the variable at its zero value; another kind of value is an error.\<close>

fun dec_string :: "json \<Rightarrow> string option" where
  "dec_string (JStr s) = Some s" | "dec_string JNull = Some ''''" | "dec_string _ = None"

fun dec_int :: "json \<Rightarrow> int option" where
  "dec_int (JNum n) = (if in_int64 n then Some n else None)" | "dec_int JNull = Some 0" | "dec_int _ = None"

fun dec_uint64 :: "json \<Rightarrow> int option" where
  "dec_uint64 (JNum n) = (if 0 \<le> n \<and> n < 2 ^ 64 then Some n else None)" | "dec_uint64 JNull = Some 0" | "dec_uint64 _ = None"

fun dec_bool :: "json \<Rightarrow> bool option" where
  "dec_bool (JBool b) = Some b" | "dec_bool JNull = Some False" | "dec_bool _ = None"

fun dec_list :: "(json \<Rightarrow> 'a option) \<Rightarrow> json \<Rightarrow> 'a list option" where
  "dec_list dec (JArr xs) = scan_rows (map dec xs)" | "dec_list dec JNull = Some []" | "dec_list dec _ = None"

fun dec_struct :: "((string \<times> json) list \<Rightarrow> 'a option) \<Rightarrow> json \<Rightarrow> 'a option" where
  "dec_struct dec (JObj kvs) = dec kvs" | "dec_struct dec JNull = dec []" | "dec_struct dec _ = None"

text \<open>A field takes the values of its key in order, whatever the case of the key; nulls change nothing.\<close>

definition dec_field :: "(json \<Rightarrow> 'a option) \<Rightarrow> 'a \<Rightarrow> string \<Rightarrow> (string \<times> json) list \<Rightarrow> 'a option" where
  "dec_field dec zero name kvs =
     fold (\<lambda>(k, v) acc. case acc of None \<Rightarrow> None | Some x \<Rightarrow> if EqualFold k name \<and> v \<noteq> JNull then dec v else Some x) kvs (Some zero)"

fun dec_tags :: "json \<Rightarrow> (string, string) gomap option" where
  "dec_tags (JObj kvs) = map_option (\<lambda>kss. fold (\<lambda>(k, s) m. map_put k s m) kss []) (scan_rows (map (\<lambda>(k, v). map_option (Pair k) (dec_string v)) kvs))"
| "dec_tags JNull = Some []" | "dec_tags _ = None"

subsection \<open>Transport\<close>

datatype cluster_error = NotConfigured | Unavailable | BadAnswer

text \<open>A request gives a status and a body, or the error of building, sending or reading it; the tool gives its output, or fails. An error
  without a sentinel of its own is \<open>BadAnswer\<close>.\<close>

type_synonym http = "string \<Rightarrow> cluster_error + int \<times> string"
type_synonym exec = "string list \<Rightarrow> string option"

definition doGet :: "http \<Rightarrow> string \<Rightarrow> cluster_error + string" where
  "doGet web url = (case web url of Inl e \<Rightarrow> Inl e | Inr (status, body) \<Rightarrow> if status \<noteq> 200 then Inl Unavailable else Inr body)"

definition run_tool :: "bool \<Rightarrow> exec \<Rightarrow> string list \<Rightarrow> string list \<Rightarrow> cluster_error + string" where
  "run_tool installed exec prefix args =
     (if \<not> installed then Inl Unavailable else case exec (prefix @ args) of None \<Rightarrow> Inl Unavailable | Some out \<Rightarrow> Inr out)"

definition decode :: "(string \<Rightarrow> json option) \<Rightarrow> (json \<Rightarrow> 'a option) \<Rightarrow> string \<Rightarrow> 'a option" where
  "decode parse dec body = Option.bind (parse body) dec"

definition no_slash :: "string \<Rightarrow> string" where
  "no_slash = TrimRight (\<lambda>c. c = CHR ''/'')"

subsection \<open>Patroni\<close>

record ClusterMember =
  cm_Name :: string
  cm_Host :: string
  cm_Port :: int
  cm_Role :: string
  cm_State :: string
  cm_Timeline :: int
  cm_Lag :: int
  cm_Tags :: "(string, string) gomap"

record ClusterState =
  cs_ClusterName :: string
  cs_Members :: "ClusterMember list"

record SwitchoverEvent =
  sw_Timestamp :: string
  sw_FromNode :: string
  sw_ToNode :: string
  sw_Reason :: string

record PatroniProvider =
  pp_GetClusterState :: "cluster_error + ClusterState"
  pp_GetHistory :: "cluster_error + SwitchoverEvent list"
  pp_GetVersion :: "cluster_error + string"

definition dec_member :: "(string \<times> json) list \<Rightarrow> ClusterMember option" where
  "dec_member kvs =
     Option.bind (dec_field dec_string '''' ''name'' kvs) (\<lambda>name.
     Option.bind (dec_field dec_string '''' ''host'' kvs) (\<lambda>host.
     Option.bind (dec_field dec_int 0 ''port'' kvs) (\<lambda>port.
     Option.bind (dec_field dec_string '''' ''role'' kvs) (\<lambda>role.
     Option.bind (dec_field dec_string '''' ''state'' kvs) (\<lambda>state.
     Option.bind (dec_field dec_int 0 ''timeline'' kvs) (\<lambda>tl.
     Option.bind (dec_field dec_int 0 ''lag'' kvs) (\<lambda>lag.
     Option.bind (dec_field dec_tags [] ''tags'' kvs) (\<lambda>tags.
       Some \<lparr>cm_Name = name, cm_Host = host, cm_Port = port, cm_Role = role, cm_State = state, cm_Timeline = tl, cm_Lag = lag, cm_Tags = tags\<rparr>))))))))"

definition dec_cluster :: "(string \<times> json) list \<Rightarrow> ClusterState option" where
  "dec_cluster kvs =
     Option.bind (dec_field dec_string '''' ''scope'' kvs) (\<lambda>scope.
     Option.bind (dec_field (dec_list (dec_struct dec_member)) [] ''members'' kvs) (\<lambda>ms.
       Some \<lparr>cs_ClusterName = scope, cs_Members = ms\<rparr>))"

definition rest_GetClusterState :: "(string \<Rightarrow> json option) \<Rightarrow> http \<Rightarrow> string \<Rightarrow> cluster_error + ClusterState" where
  "rest_GetClusterState parse web base =
     (case doGet web (base @ ''/cluster'') of Inl e \<Rightarrow> Inl e
      | Inr body \<Rightarrow> (case decode parse (dec_struct dec_cluster) body of None \<Rightarrow> Inl BadAnswer | Some st \<Rightarrow> Inr st))"

text \<open>An entry of the history; a value that is not a string leaves its field empty. The positions are those the code reads.\<close>

definition string_at :: "json list \<Rightarrow> nat \<Rightarrow> string" where
  "string_at arr i = (case dec_string (arr ! i) of None \<Rightarrow> '''' | Some s \<Rightarrow> s)"

definition history_entry :: "json \<Rightarrow> SwitchoverEvent option" where
  "history_entry entry =
     (case dec_list Some entry of None \<Rightarrow> None
      | Some arr \<Rightarrow>
          if length arr < 4 then None
          else Some \<lparr>sw_Timestamp = string_at arr 3,
                     sw_FromNode = (if length arr \<ge> 5 then string_at arr 3 else ''''),
                     sw_ToNode = (if length arr \<ge> 6 then string_at arr 4 else ''''),
                     sw_Reason = string_at arr 2\<rparr>)"

definition rest_GetHistory :: "(string \<Rightarrow> json option) \<Rightarrow> http \<Rightarrow> string \<Rightarrow> cluster_error + SwitchoverEvent list" where
  "rest_GetHistory parse web base =
     (case doGet web (base @ ''/history'') of Inl e \<Rightarrow> Inl e
      | Inr body \<Rightarrow> (case decode parse (dec_list Some) body of None \<Rightarrow> Inr [] | Some raw \<Rightarrow> Inr (List.map_filter history_entry raw)))"

definition dec_version :: "(string \<times> json) list \<Rightarrow> string option" where
  "dec_version = dec_field (dec_struct (dec_field dec_string '''' ''version'')) '''' ''patroni''"

definition rest_GetVersion :: "(string \<Rightarrow> json option) \<Rightarrow> http \<Rightarrow> string \<Rightarrow> cluster_error + string" where
  "rest_GetVersion parse web base =
     (case doGet web (base @ ''/'') of Inl e \<Rightarrow> Inl e
      | Inr body \<Rightarrow> (case decode parse (dec_struct dec_version) body of None \<Rightarrow> Inl BadAnswer
           | Some v \<Rightarrow> if v = '''' then Inl Unavailable else Inr v))"

definition RESTProvider :: "(string \<Rightarrow> json option) \<Rightarrow> http \<Rightarrow> string \<Rightarrow> PatroniProvider" where
  "RESTProvider parse web baseURL =
     (let base = no_slash baseURL in
      \<lparr>pp_GetClusterState = rest_GetClusterState parse web base, pp_GetHistory = rest_GetHistory parse web base, pp_GetVersion = rest_GetVersion parse web base\<rparr>)"

text \<open>The tool: members as it lists them, with the lag in megabytes, and the history as a table of text.\<close>

definition dec_ctl_member :: "(string \<times> json) list \<Rightarrow> (ClusterMember \<times> string) option" where
  "dec_ctl_member kvs =
     Option.bind (dec_field dec_string '''' ''Member'' kvs) (\<lambda>name.
     Option.bind (dec_field dec_string '''' ''Host'' kvs) (\<lambda>host.
     Option.bind (dec_field dec_string '''' ''Role'' kvs) (\<lambda>role.
     Option.bind (dec_field dec_string '''' ''State'' kvs) (\<lambda>state.
     Option.bind (dec_field dec_int 0 ''TL'' kvs) (\<lambda>tl.
     Option.bind (dec_field dec_int 0 ''Lag in MB'' kvs) (\<lambda>lag.
     Option.bind (dec_field dec_string '''' ''Cluster'' kvs) (\<lambda>cluster.
       Some (\<lparr>cm_Name = name, cm_Host = host, cm_Port = 0, cm_Role = map to_lower role, cm_State = state, cm_Timeline = tl,
              cm_Lag = wrap64 (wrap64 (lag * 1024) * 1024), cm_Tags = []\<rparr>, cluster))))))))"

definition shell_GetClusterState :: "(string \<Rightarrow> json option) \<Rightarrow> (string list \<Rightarrow> cluster_error + string) \<Rightarrow> cluster_error + ClusterState" where
  "shell_GetClusterState parse run =
     (case run [''list'', ''-f'', ''json''] of Inl e \<Rightarrow> Inl e
      | Inr out \<Rightarrow>
          (case decode parse (dec_list (dec_struct dec_ctl_member)) out of None \<Rightarrow> Inl BadAnswer
           | Some ms \<Rightarrow> Inr \<lparr>cs_ClusterName = (case ms of [] \<Rightarrow> '''' | (_, c) # _ \<Rightarrow> c), cs_Members = map fst ms\<rparr>))"

definition history_line :: "string \<Rightarrow> SwitchoverEvent option" where
  "history_line line0 =
     (let line = TrimSpace line0 in
      if line = '''' \<or> HasPrefix line ''+'' then None
      else if \<not> HasPrefix line ''|'' then None
      else let parts = Split CHR ''|'' line in
        if length parts < 5 then None
        else if TrimSpace (parts ! 1) = ''TL'' then None
        else Some \<lparr>sw_Timestamp = TrimSpace (parts ! 4), sw_FromNode = '''', sw_ToNode = '''', sw_Reason = TrimSpace (parts ! 3)\<rparr>)"

definition shell_GetHistory :: "(string list \<Rightarrow> cluster_error + string) \<Rightarrow> cluster_error + SwitchoverEvent list" where
  "shell_GetHistory run =
     (case run [''history''] of Inl e \<Rightarrow> Inl e | Inr out \<Rightarrow> Inr (List.map_filter history_line (Split CHR 0x0A out)))"

definition shell_GetVersion :: "(string list \<Rightarrow> cluster_error + string) \<Rightarrow> cluster_error + string" where
  "shell_GetVersion run =
     (case run [''version''] of Inl e \<Rightarrow> Inl e
      | Inr out \<Rightarrow> (let output = TrimSpace out; parts = Fields output in Inr (if length parts \<ge> 3 then last parts else output)))"

definition ShellProvider :: "(string \<Rightarrow> json option) \<Rightarrow> bool \<Rightarrow> exec \<Rightarrow> string \<Rightarrow> PatroniProvider" where
  "ShellProvider parse installed exec configPath =
     (let run = run_tool installed exec (if configPath = '''' then [] else [''-c'', configPath]) in
      \<lparr>pp_GetClusterState = shell_GetClusterState parse run, pp_GetHistory = shell_GetHistory run, pp_GetVersion = shell_GetVersion run\<rparr>)"

definition or_else :: "cluster_error + 'a \<Rightarrow> cluster_error + 'a \<Rightarrow> cluster_error + 'a" where
  "or_else primary secondary = (case primary of Inl _ \<Rightarrow> secondary | Inr x \<Rightarrow> Inr x)"

definition FallbackProvider :: "PatroniProvider \<Rightarrow> PatroniProvider \<Rightarrow> PatroniProvider" where
  "FallbackProvider p s = \<lparr>pp_GetClusterState = or_else (pp_GetClusterState p) (pp_GetClusterState s),
     pp_GetHistory = or_else (pp_GetHistory p) (pp_GetHistory s), pp_GetVersion = or_else (pp_GetVersion p) (pp_GetVersion s)\<rparr>"

definition NoOpProvider :: PatroniProvider where
  "NoOpProvider = \<lparr>pp_GetClusterState = Inl NotConfigured, pp_GetHistory = Inl NotConfigured, pp_GetVersion = Inl NotConfigured\<rparr>"

record PatroniConfig =
  pc_URL :: string
  pc_Config :: string
  pc_CtlPath :: string

text \<open>\<open>tool path\<close> says whether there is a file at the path and what running it gives.\<close>

definition NewProvider :: "(string \<Rightarrow> json option) \<Rightarrow> http \<Rightarrow> (string \<Rightarrow> bool \<times> exec) \<Rightarrow> PatroniConfig \<Rightarrow> PatroniProvider" where
  "NewProvider parse web tool cfg =
     (let rest = (if pc_URL cfg \<noteq> '''' then [RESTProvider parse web (pc_URL cfg)] else []);
          shell = (if pc_CtlPath cfg \<noteq> '''' \<or> pc_Config cfg \<noteq> ''''
                   then [let path = (if pc_CtlPath cfg = '''' then ''/usr/bin/patronictl'' else pc_CtlPath cfg)
                         in ShellProvider parse (fst (tool path)) (snd (tool path)) (pc_Config cfg)] else [])
      in case rest @ shell of [] \<Rightarrow> NoOpProvider | [p] \<Rightarrow> p | p # q # _ \<Rightarrow> FallbackProvider p q)"

subsection \<open>etcd\<close>

record ETCDMember =
  em_ID :: string
  em_Name :: string
  em_PeerURL :: string
  em_ClientURL :: string
  em_IsLeader :: bool
  em_Status :: string
  em_DBSize :: int

record ETCDProvider =
  ep_GetMembers :: "cluster_error + ETCDMember list"
  ep_GetEndpointHealth :: "cluster_error + (string, bool) gomap"

definition etcd_member :: "string \<Rightarrow> string \<Rightarrow> string list \<Rightarrow> string list \<Rightarrow> ETCDMember" where
  "etcd_member i name peers clients = \<lparr>em_ID = i, em_Name = name, em_PeerURL = (case peers of [] \<Rightarrow> '''' | u # _ \<Rightarrow> u),
     em_ClientURL = (case clients of [] \<Rightarrow> '''' | u # _ \<Rightarrow> u), em_IsLeader = False, em_Status = ''running'', em_DBSize = 0\<rparr>"

definition dec_etcd_member :: "(json \<Rightarrow> 'a option) \<Rightarrow> 'a \<Rightarrow> ('a \<Rightarrow> string) \<Rightarrow> (string \<times> json) list \<Rightarrow> ETCDMember option" where
  "dec_etcd_member dec zero show kvs =
     Option.bind (dec_field dec zero ''id'' kvs) (\<lambda>i.
     Option.bind (dec_field dec_string '''' ''name'' kvs) (\<lambda>name.
     Option.bind (dec_field (dec_list dec_string) [] ''peerURLs'' kvs) (\<lambda>peers.
     Option.bind (dec_field (dec_list dec_string) [] ''clientURLs'' kvs) (\<lambda>clients.
       Some (etcd_member (show i) name peers clients)))))"

definition dec_etcd_members :: "(json \<Rightarrow> 'a option) \<Rightarrow> 'a \<Rightarrow> ('a \<Rightarrow> string) \<Rightarrow> json \<Rightarrow> ETCDMember list option" where
  "dec_etcd_members dec zero show = dec_struct (dec_field (dec_list (dec_struct (dec_etcd_member dec zero show))) [] ''members'')"

definition getMembersFromEndpoint :: "(string \<Rightarrow> json option) \<Rightarrow> http \<Rightarrow> string \<Rightarrow> cluster_error + ETCDMember list" where
  "getMembersFromEndpoint parse web endpoint =
     (case doGet web (no_slash endpoint @ ''/v2/members'') of Inl e \<Rightarrow> Inl e
      | Inr body \<Rightarrow> (case decode parse (dec_etcd_members dec_string '''' (\<lambda>s. s)) body of None \<Rightarrow> Inl BadAnswer | Some ms \<Rightarrow> Inr ms))"

fun etcd_members_loop :: "(string \<Rightarrow> cluster_error + ETCDMember list) \<Rightarrow> string list \<Rightarrow> cluster_error option \<Rightarrow> cluster_error + ETCDMember list" where
  "etcd_members_loop get [] lastErr = Inl (case lastErr of None \<Rightarrow> Unavailable | Some e \<Rightarrow> e)"
| "etcd_members_loop get (ep # eps) lastErr = (case get ep of Inl e \<Rightarrow> etcd_members_loop get eps (Some e) | Inr ms \<Rightarrow> Inr ms)"

definition checkHealth :: "(string \<Rightarrow> json option) \<Rightarrow> http \<Rightarrow> string \<Rightarrow> bool" where
  "checkHealth parse web endpoint =
     (case doGet web (no_slash endpoint @ ''/health'') of Inl _ \<Rightarrow> False
      | Inr body \<Rightarrow> (case decode parse (dec_struct (dec_field dec_string '''' ''health'')) body of None \<Rightarrow> False | Some h \<Rightarrow> h = ''true''))"

definition HTTPProvider :: "(string \<Rightarrow> json option) \<Rightarrow> http \<Rightarrow> string list \<Rightarrow> ETCDProvider" where
  "HTTPProvider parse web endpoints =
     \<lparr>ep_GetMembers = etcd_members_loop (getMembersFromEndpoint parse web) endpoints None,
      ep_GetEndpointHealth = Inr (fold (\<lambda>ep m. map_put ep (checkHealth parse web ep) m) endpoints [])\<rparr>"

definition etcdctl_members :: "(string \<Rightarrow> json option) \<Rightarrow> (string list \<Rightarrow> cluster_error + string) \<Rightarrow> cluster_error + ETCDMember list" where
  "etcdctl_members parse run =
     (case run [''member'', ''list'', ''--write-out=json''] of Inl e \<Rightarrow> Inl e
      | Inr out \<Rightarrow> (case decode parse (dec_etcd_members dec_uint64 0 hex_int) out of None \<Rightarrow> Inl BadAnswer | Some ms \<Rightarrow> Inr ms))"

definition dec_health :: "(string \<times> json) list \<Rightarrow> (string \<times> bool) option" where
  "dec_health kvs =
     Option.bind (dec_field dec_string '''' ''endpoint'' kvs) (\<lambda>ep.
     Option.bind (dec_field dec_bool False ''health'' kvs) (\<lambda>h.
     Option.bind (dec_field dec_string '''' ''took'' kvs) (\<lambda>_. Some (ep, h))))"

definition etcdctl_health :: "(string \<Rightarrow> json option) \<Rightarrow> (string list \<Rightarrow> cluster_error + string) \<Rightarrow> cluster_error + (string, bool) gomap" where
  "etcdctl_health parse run =
     (case run [''endpoint'', ''health'', ''--write-out=json''] of Inl e \<Rightarrow> Inl e
      | Inr out \<Rightarrow> (case decode parse (dec_list (dec_struct dec_health)) out of None \<Rightarrow> Inl BadAnswer
           | Some es \<Rightarrow> Inr (fold (\<lambda>(ep, h) m. map_put ep h m) es [])))"

definition etcd_ShellProvider :: "(string \<Rightarrow> json option) \<Rightarrow> bool \<Rightarrow> exec \<Rightarrow> string list \<Rightarrow> ETCDProvider" where
  "etcd_ShellProvider parse installed exec endpoints =
     (let run = run_tool installed exec (if endpoints = [] then [] else [''--endpoints='' @ Join '','' endpoints]) in
      \<lparr>ep_GetMembers = etcdctl_members parse run, ep_GetEndpointHealth = etcdctl_health parse run\<rparr>)"

definition etcd_FallbackProvider :: "ETCDProvider \<Rightarrow> ETCDProvider \<Rightarrow> ETCDProvider" where
  "etcd_FallbackProvider p s = \<lparr>ep_GetMembers = or_else (ep_GetMembers p) (ep_GetMembers s),
     ep_GetEndpointHealth = or_else (ep_GetEndpointHealth p) (ep_GetEndpointHealth s)\<rparr>"

definition etcd_NoOpProvider :: ETCDProvider where
  "etcd_NoOpProvider = \<lparr>ep_GetMembers = Inl NotConfigured, ep_GetEndpointHealth = Inl NotConfigured\<rparr>"

definition etcd_NewProvider :: "(string \<Rightarrow> json option) \<Rightarrow> http \<Rightarrow> (string \<Rightarrow> bool \<times> exec) \<Rightarrow> string list \<Rightarrow> string \<Rightarrow> ETCDProvider" where
  "etcd_NewProvider parse web tool endpoints ctlPath =
     (case (if endpoints \<noteq> [] then [HTTPProvider parse web endpoints] else []) @
           (if ctlPath \<noteq> '''' then [etcd_ShellProvider parse (fst (tool ctlPath)) (snd (tool ctlPath)) endpoints] else []) of
        [] \<Rightarrow> etcd_NoOpProvider | [p] \<Rightarrow> p | p # q # _ \<Rightarrow> etcd_FallbackProvider p q)"

subsection \<open>The collector (\<open>internal/collector/cluster.go\<close>)\<close>

text \<open>These points carry no \<open>pg\<close> prefix. A provider that is absent or fails contributes nothing, and the collector itself never fails.\<close>

definition patroni_samples :: "ClusterMember list \<Rightarrow> sample list" where
  "patroni_samples ms =
     concat (map (\<lambda>m. let ls = [(''member'', cm_Name m), (''role'', cm_Role m)] in
        [(''cluster.patroni.member_state'', flag (cm_State m = ''running''), ls), (''cluster.patroni.member_lag_bytes'', of_int (cm_Lag m), ls)]) ms) @
     (let leaders = length (filter (\<lambda>m. cm_Role m = ''leader'' \<or> cm_Role m = ''Leader'') ms);
          replicas = length (filter (\<lambda>m. \<not> (cm_Role m = ''leader'' \<or> cm_Role m = ''Leader'')) ms) in
      [(''cluster.patroni.member_count'', real (length ms), []), (''cluster.patroni.leader_count'', real leaders, []),
       (''cluster.patroni.replica_count'', real replicas, [])])"

definition etcd_samples :: "cluster_error + ETCDMember list \<Rightarrow> cluster_error + (string, bool) gomap \<Rightarrow> sample list" where
  "etcd_samples members health =
     (case members of Inl _ \<Rightarrow> []
      | Inr ms \<Rightarrow> [(''cluster.etcd.member_count'', real (length ms), []), (''cluster.etcd.leader_count'', real (length (filter em_IsLeader ms)), [])]) @
     (case health of Inl _ \<Rightarrow> [] | Inr h \<Rightarrow> map (\<lambda>(endpoint, healthy). (''cluster.etcd.member_healthy'', flag healthy, [(''member'', endpoint)])) h)"

definition cluster_Collect :: "string \<Rightarrow> time \<Rightarrow> PatroniProvider option \<Rightarrow> ETCDProvider option \<Rightarrow> MetricPoint list" where
  "cluster_Collect instanceID now patroni etcd =
     map (\<lambda>(metric, v, ls). \<lparr>mp_InstanceID = instanceID, mp_Metric = metric, mp_Value = v, mp_Labels = ls, mp_Timestamp = now\<rparr>)
       ((case patroni of None \<Rightarrow> [] | Some p \<Rightarrow> (case pp_GetClusterState p of Inl _ \<Rightarrow> [] | Inr state \<Rightarrow> patroni_samples (cs_Members state))) @
        (case etcd of None \<Rightarrow> [] | Some p \<Rightarrow> etcd_samples (ep_GetMembers p) (ep_GetEndpointHealth p)))"

end
