(* ===== verification/ClusterLaws.thy ===== *)
theory ClusterLaws
  imports ClusterState
begin

section \<open>Laws of cluster providers\<close>

text \<open>
  The contract of a chain of two providers, stated once and interpreted for every answer of both kinds; what the choice
  by configuration gives; the reader of the history table; and what the readers of JSON make of real answers.
\<close>

subsection \<open>Fallback\<close>

locale fallback_chain =
  fixes get :: "'p \<Rightarrow> cluster_error + 'a"
    and chain :: "'p \<Rightarrow> 'p \<Rightarrow> 'p"
  assumes get_chain: "get (chain p s) = or_else (get p) (get s)"
begin

lemma succeeds_iff: "isl (get (chain p s)) \<longleftrightarrow> isl (get p) \<and> isl (get s)"
  by (simp add: get_chain or_else_def split: sum.splits)

lemma primary_wins: "get p = Inr x \<Longrightarrow> get (chain p s) = Inr x"
  by (simp add: get_chain or_else_def)

lemma secondary_answers: "isl (get p) \<Longrightarrow> get (chain p s) = get s"
  by (auto simp: get_chain or_else_def split: sum.splits)

end

interpretation cluster_chain: fallback_chain pp_GetClusterState FallbackProvider
  by unfold_locales (simp add: FallbackProvider_def)

interpretation history_chain: fallback_chain pp_GetHistory FallbackProvider
  by unfold_locales (simp add: FallbackProvider_def)

interpretation version_chain: fallback_chain pp_GetVersion FallbackProvider
  by unfold_locales (simp add: FallbackProvider_def)

interpretation members_chain: fallback_chain ep_GetMembers etcd_FallbackProvider
  by unfold_locales (simp add: etcd_FallbackProvider_def)

interpretation health_chain: fallback_chain ep_GetEndpointHealth etcd_FallbackProvider
  by unfold_locales (simp add: etcd_FallbackProvider_def)

text \<open>A cluster state is available exactly if one of the configured sources answers, and the REST interface is believed first.\<close>

lemma cluster_state_available:
  fixes parse web tool cfg
  defines "path \<equiv> (if pc_CtlPath cfg = '''' then ''/usr/bin/patronictl'' else pc_CtlPath cfg)"
  defines "rest \<equiv> pp_GetClusterState (RESTProvider parse web (pc_URL cfg))"
  defines "shell \<equiv> pp_GetClusterState (ShellProvider parse (fst (tool path)) (snd (tool path)) (pc_Config cfg))"
  shows "\<not> isl (pp_GetClusterState (NewProvider parse web tool cfg)) \<longleftrightarrow>
    pc_URL cfg \<noteq> '''' \<and> \<not> isl rest \<or> (pc_CtlPath cfg \<noteq> '''' \<or> pc_Config cfg \<noteq> '''') \<and> \<not> isl shell"
  by (auto simp: NewProvider_def Let_def NoOpProvider_def cluster_chain.succeeds_iff rest_def shell_def path_def)

text \<open>The health of etcd never comes from the tool when endpoints are configured: the HTTP provider reports failures as
  unhealthy endpoints, not as an error.\<close>

lemma health_never_falls_back:
  "endpoints \<noteq> [] \<Longrightarrow> ep_GetEndpointHealth (etcd_NewProvider parse web tool endpoints ctl) = ep_GetEndpointHealth (HTTPProvider parse web endpoints)"
  by (simp add: etcd_NewProvider_def etcd_FallbackProvider_def HTTPProvider_def or_else_def)

text \<open>The members come from the first endpoint that answers; the error is that of the last one.\<close>

lemma members_first_answer:
  "etcd_members_loop get eps e = Inr ms \<longleftrightarrow> (\<exists>pre ep post. eps = pre @ ep # post \<and> (\<forall>x\<in>set pre. isl (get x)) \<and> get ep = Inr ms)"
proof (induction eps arbitrary: e)
  case (Cons a eps)
  show ?case
  proof (cases "get a")
    case (Inl x)
    then show ?thesis using Cons [of "Some x"]
      by (auto simp: Cons_eq_append_conv) (metis (no_types, lifting) Inl isl_def append_Cons set_ConsD, blast)
  next
    case (Inr m)
    then show ?thesis by (auto simp: Cons_eq_append_conv intro: exI [of _ "[]"])
  qed
qed simp

subsection \<open>The history table\<close>

definition trimmed :: "string \<Rightarrow> bool" where
  "trimmed s \<longleftrightarrow> s = [] \<or> \<not> is_space (hd s) \<and> \<not> is_space (last s)"

lemma TrimSpace_pad:
  assumes "\<forall>c\<in>set a. is_space c" "\<forall>c\<in>set b. is_space c" "trimmed s"
  shows "TrimSpace (a @ s @ b) = s"
proof (cases "s = []")
  case True
  have e: "dropWhile is_space (a @ b) = []" using assms(1,2) by auto
  show ?thesis unfolding TrimSpace_def TrimRight_def True append_Nil e by simp
next
  case False
  then have hd: "\<not> is_space (hd s)" and lt: "\<not> is_space (hd (rev s))" using assms(3) by (auto simp: trimmed_def hd_rev)
  have "dropWhile is_space (a @ s @ b) = s @ b"
    using assms(1) False hd by (cases s) (auto simp: dropWhile_append)
  moreover have "dropWhile is_space (rev b @ rev s) = rev s"
    using assms(2) False lt by (cases "rev s") (auto simp: dropWhile_append)
  ultimately show ?thesis by (simp add: TrimSpace_def TrimRight_def)
qed

record table_row =
  tw_TL :: string
  tw_LSN :: string
  tw_Reason :: string
  tw_Timestamp :: string

definition cell_ok :: "string \<Rightarrow> bool" where
  "cell_ok s \<longleftrightarrow> trimmed s \<and> CHR ''|'' \<notin> set s \<and> CHR 0x0A \<notin> set s"

definition row_ok :: "table_row \<Rightarrow> bool" where
  "row_ok r \<longleftrightarrow> cell_ok (tw_TL r) \<and> cell_ok (tw_LSN r) \<and> cell_ok (tw_Reason r) \<and> cell_ok (tw_Timestamp r) \<and> tw_TL r \<noteq> ''TL''"

definition print_row :: "table_row \<Rightarrow> string" where
  "print_row r = ''| '' @ tw_TL r @ '' | '' @ tw_LSN r @ '' | '' @ tw_Reason r @ '' | '' @ tw_Timestamp r @ '' |''"

definition row_event :: "table_row \<Rightarrow> SwitchoverEvent" where
  "row_event r = \<lparr>sw_Timestamp = tw_Timestamp r, sw_FromNode = '''', sw_ToNode = '''', sw_Reason = tw_Reason r\<rparr>"

lemma split_print_row:
  assumes "row_ok r"
  shows "Split CHR ''|'' (print_row r) = ['''', '' '' @ tw_TL r @ '' '', '' '' @ tw_LSN r @ '' '', '' '' @ tw_Reason r @ '' '', '' '' @ tw_Timestamp r @ '' '', '''']"
proof -
  have w: "CHR ''|'' \<notin> set s \<Longrightarrow> Split CHR ''|'' ('' '' @ s @ '' '' @ CHR ''|'' # rest) = ('' '' @ s @ '' '') # Split CHR ''|'' rest" for s rest
    using Split_sep [of "CHR ''|''" "'' '' @ s @ '' ''" rest] by simp
  have hd: "Split CHR ''|'' (CHR ''|'' # rest) = '''' # Split CHR ''|'' rest" for rest using Split_sep [of "CHR ''|''" "[]" rest] by simp
  have "print_row r = CHR ''|'' # '' '' @ tw_TL r @ '' '' @ CHR ''|'' # '' '' @ tw_LSN r @ '' '' @ CHR ''|'' # '' '' @ tw_Reason r @ '' '' @ CHR ''|'' # '' '' @ tw_Timestamp r @ '' '' @ CHR ''|'' # []"
    by (simp add: print_row_def)
  then show ?thesis using assms by (simp only: hd w row_ok_def cell_ok_def not_False_eq_True simp_thms) (simp add: Split_def)
qed

lemma history_line_row:
  assumes "row_ok r"
  shows "history_line (print_row r) = Some (row_event r)"
proof -
  have tr: "trimmed s \<Longrightarrow> TrimSpace ('' '' @ s @ '' '') = s" for s by (rule TrimSpace_pad) (simp_all add: is_space_def)
  have "trimmed (print_row r)" by (simp add: print_row_def trimmed_def is_space_def)
  then have "TrimSpace (print_row r) = print_row r" using TrimSpace_pad [of "[]" "[]" "print_row r"] by simp
  moreover have "\<not> HasPrefix (print_row r) ''+''" "HasPrefix (print_row r) ''|''" "print_row r \<noteq> ''''"
    by (simp_all add: print_row_def HasPrefix_def)
  moreover have "trimmed (tw_TL r)" "trimmed (tw_Reason r)" "trimmed (tw_Timestamp r)" "tw_TL r \<noteq> ''TL''"
    using assms by (simp_all add: row_ok_def cell_ok_def)
  ultimately show ?thesis
    by (simp only: history_line_def Let_def split_print_row [OF assms] row_event_def) (simp add: tr [simplified])
qed

text \<open>The tool prints rules, a header and one row per event; what is read back are the events in order.\<close>

definition print_table :: "string \<Rightarrow> string \<Rightarrow> table_row list \<Rightarrow> string" where
  "print_table rule header rows = Join [CHR 0x0A] (rule # header # rule # map print_row rows @ [rule, ''''])"

lemma Split_Join: "ws \<noteq> [] \<Longrightarrow> \<forall>w\<in>set ws. sep \<notin> set w \<Longrightarrow> Split sep (Join [sep] ws) = ws"
proof (induction "[sep]" ws rule: Join.induct)
  case (2 w)
  then show ?case by (simp add: Split_no_sep)
next
  case (3 w v vs)
  then show ?case using Split_sep [of sep w "Join [sep] (v # vs)"] by simp
qed simp

theorem history_table_round_trip:
  assumes "\<forall>r\<in>set rows. row_ok r" "HasPrefix rule ''+''" "trimmed rule" "CHR 0x0A \<notin> set rule" "CHR 0x0A \<notin> set header" "history_line header = None"
  shows "shell_GetHistory (\<lambda>_. Inr (print_table rule header rows)) = Inr (map row_event rows)"
proof -
  have nl: "CHR 0x0A \<notin> set (print_row r)" if "row_ok r" for r using that by (auto simp: print_row_def row_ok_def cell_ok_def)
  have "history_line rule = None"
    using TrimSpace_pad [of "[]" "[]" rule] assms(2,3) by (simp add: history_line_def Let_def)
  moreover have "history_line '''' = None" by (simp add: history_line_def TrimSpace_def TrimRight_def)
  moreover have "List.map_filter history_line (map print_row rows) = map row_event rows"
    using assms(1) by (induction rows) (simp_all add: List.map_filter_simps history_line_row)
  moreover have "List.map_filter f (xs @ ys) = List.map_filter f xs @ List.map_filter f ys" for f :: "string \<Rightarrow> SwitchoverEvent option" and xs ys
    by (simp add: List.map_filter_def)
  moreover have "Split CHR 0x0A (print_table rule header rows) = rule # header # rule # map print_row rows @ [rule, '''']"
    unfolding print_table_def using assms nl by (intro Split_Join) auto
  ultimately show ?thesis using assms(6) by (simp add: shell_GetHistory_def List.map_filter_simps)
qed

subsection \<open>Answers in JSON\<close>

text \<open>An entry that names its nodes behind the time stamp gets the time stamp as the node it came from.\<close>

lemma history_nodes_shifted:
  "history_entry (JArr [JNum n, JNum lsn, JStr reason, JStr stamp, JStr old, JStr new]) =
     Some \<lparr>sw_Timestamp = stamp, sw_FromNode = stamp, sw_ToNode = old, sw_Reason = reason\<rparr>"
  by (simp add: history_entry_def string_at_def)

text \<open>One member whose lag Patroni calls unknown makes the state of the whole cluster unreadable.\<close>

lemma unknown_lag_fails: "dec_field dec_int 0 ''lag'' kvs = None \<Longrightarrow> dec_member kvs = None"
  by (simp add: dec_member_def split: Option.bind_splits)

lemma scan_rows_None: "scan_rows xs = None \<longleftrightarrow> None \<in> set xs"
  by (induction xs rule: scan_rows.induct) auto

lemma unknown_lag_hides_cluster:
  assumes "JObj kvs \<in> set ms" "(''lag'', JStr u) \<in> set kvs"
  shows "dec_list (dec_struct dec_member) (JArr ms) = None"
proof -
  have stuck: "fold (\<lambda>(k, v) acc. case acc of None \<Rightarrow> None | Some x \<Rightarrow> if EqualFold k n \<and> v \<noteq> JNull then dec v else Some x) l None = None" for n dec and l :: "(string \<times> json) list"
    by (induction l) auto
  have "fold (\<lambda>(k, v) acc. case acc of None \<Rightarrow> None | Some x \<Rightarrow> if EqualFold k ''lag'' \<and> v \<noteq> JNull then dec_int v else Some x) l acc = None"
    if "(''lag'', JStr u) \<in> set l" for l :: "(string \<times> json) list" and acc
    using that
  proof (induction l arbitrary: acc)
    case (Cons kv l)
    have "EqualFold ''lag'' ''lag''" by (simp add: EqualFold_def)
    then show ?case using Cons by (cases kv; cases acc) (auto simp: stuck)
  qed simp
  then have "dec_member kvs = None" using assms(2) by (intro unknown_lag_fails) (simp add: dec_field_def)
  then show ?thesis using assms(1) by (simp add: scan_rows_None) (metis dec_struct.simps(1) image_eqI)
qed

subsection \<open>Points of the cluster\<close>

text \<open>No provider ever marks a member of etcd as leader.\<close>

lemma dec_list_all: "dec_list (dec_struct dec) j = Some ms \<Longrightarrow> (\<And>kvs m. dec kvs = Some m \<Longrightarrow> P m) \<Longrightarrow> \<forall>m\<in>set ms. P m"
proof (induction "dec_struct dec" j arbitrary: ms rule: dec_list.induct)
  case (1 xs)
  have "dec_struct dec x = Some m \<Longrightarrow> P m" for x m using 1(2) by (cases x) auto
  moreover have "scan_rows ys = Some zs \<Longrightarrow> m \<in> set zs \<Longrightarrow> Some m \<in> set ys" for ys :: "'a option list" and zs m
    by (induction ys arbitrary: zs rule: scan_rows.induct) (auto split: option.splits)
  ultimately show ?case using 1(1) by fastforce
qed auto

lemma dec_field_inv:
  assumes "dec_field dec zero name kvs = Some x" "P zero" "\<And>v y. dec v = Some y \<Longrightarrow> P y"
  shows "P x"
proof -
  have "(\<And>y. acc = Some y \<Longrightarrow> P y) \<Longrightarrow>
      fold (\<lambda>(k, v) acc. case acc of None \<Rightarrow> None | Some x \<Rightarrow> if EqualFold k name \<and> v \<noteq> JNull then dec v else Some x) kvs acc = Some x \<Longrightarrow> P x" for acc
    by (induction kvs arbitrary: acc) (auto split: option.splits if_splits prod.splits intro: assms(3))
  then show ?thesis using assms(1,2) unfolding dec_field_def by blast
qed

lemma etcd_members_no_leader:
  assumes "dec_etcd_members dec zero show j = Some ms"
  shows "\<forall>m\<in>set ms. \<not> em_IsLeader m"
proof -
  have one: "dec_etcd_member dec zero show kvs = Some m \<Longrightarrow> \<not> em_IsLeader m" for kvs m
    by (auto simp: dec_etcd_member_def etcd_member_def split: Option.bind_splits)
  have fld: "dec_field (dec_list (dec_struct (dec_etcd_member dec zero show))) [] ''members'' kvs = Some ys \<Longrightarrow> \<forall>m\<in>set ys. \<not> em_IsLeader m" for kvs ys
    by (erule dec_field_inv) (auto dest: dec_list_all [where P = "\<lambda>m. \<not> em_IsLeader m"] one)
  show ?thesis using assms fld unfolding dec_etcd_members_def by (cases j) auto
qed

lemma decode_no_leader: "decode parse (dec_etcd_members dec zero show) body = Some ms \<Longrightarrow> \<forall>m\<in>set ms. \<not> em_IsLeader m"
  by (auto simp: decode_def dest: etcd_members_no_leader split: Option.bind_splits)

lemma http_no_leader: "etcd_members_loop (getMembersFromEndpoint parse web) eps e = Inr ms \<Longrightarrow> \<forall>m\<in>set ms. \<not> em_IsLeader m"
  by (induction eps arbitrary: e) (auto simp: getMembersFromEndpoint_def split: sum.splits option.splits dest: decode_no_leader)

lemma provider_no_leader: "ep_GetMembers (etcd_NewProvider parse web tool endpoints ctl) = Inr ms \<Longrightarrow> \<forall>m\<in>set ms. \<not> em_IsLeader m"
  by (auto simp: etcd_NewProvider_def HTTPProvider_def etcd_ShellProvider_def etcdctl_members_def etcd_FallbackProvider_def etcd_NoOpProvider_def or_else_def Let_def
      split: if_splits sum.splits option.splits dest: decode_no_leader http_no_leader)

lemma etcd_reports_no_leader:
  assumes "p \<in> set (cluster_Collect inst now patroni (Some (etcd_NewProvider parse web tool endpoints ctl)))" "mp_Metric p = ''cluster.etcd.leader_count''"
  shows "mp_Value p = 0"
proof -
  have "ep_GetMembers (etcd_NewProvider parse web tool endpoints ctl) = Inr ms \<Longrightarrow> filter em_IsLeader ms = []" for ms
    using provider_no_leader by (metis filter_False)
  then show ?thesis using assms
    by (auto simp: cluster_Collect_def patroni_samples_def etcd_samples_def Let_def split: option.splits sum.splits)
qed

text \<open>The tool counts a leader whatever the case it prints its role in.\<close>

lemma shell_leader_counted:
  assumes "dec_ctl_member kvs = Some (m, cluster)" "dec_field dec_string '''' ''Role'' kvs = Some role" "map to_lower role = ''leader''"
  shows "cm_Role m = ''leader''"
  using assms by (auto simp: dec_ctl_member_def split: Option.bind_splits)

end
