(* ===== verification/Spec2Isabelle.thy ===== *)
theory Spec2Isabelle
  imports MemoryStore LockTree AlertRuns AlertDispatch UserLaws StatementLaws RcaTrigger PlaybookBuiltins CollectorLaws RemediationLaws SettingsLaws LockTreeApi OrchestratorLaws ApiRouteLaws StartupLaws CaptureLaws PlanLaws IncidentLaws ClusterLaws
begin

text \<open>
  PGPulse: a verification development of the server's core logic.

  PGPulse (the Go program under \<^verbatim>\<open>src/\<close>) watches PostgreSQL instances. Collectors read metrics and
  put points into a metric store; the alert evaluator runs a state machine per rule and instance over
  each batch and records fire and resolve events in a history; the dispatcher queues the events,
  notifies channels and calls hooks; a hook starts a root cause analysis over a causal graph of
  metrics; query statistics are compared between snapshots; a web API with token authentication and
  roles serves all of it. The theories follow these parts.

  \<^bold>\<open>Theories and the code they model.\<close>

  \<^item> \<open>PulsePrelude\<close>: shared conventions and lemmas. Go maps that are iterated or compared are
    association lists (\<open>gomap\<close>), maps that are only looked up are functions; \<open>sort.Slice\<close> is
    the insertion sort \<open>sort_slice\<close> (any algorithm that permutes and sorts satisfies the same
    statements, which never depend on the order of equal elements); 64-bit counters wrap by \<open>wrap64\<close>;
    strings, decimal printing and \<open>net.SplitHostPort\<close> as the standard library defines them.
  \<^item> \<open>MetricModel\<close> (\<^verbatim>\<open>internal/collector/collector.go\<close>, \<^verbatim>\<open>base.go\<close>): points, queries and the interface of
    a metric store as the locale \<open>metric_store\<close>.
  \<^item> \<open>MemoryStore\<close> (\<^verbatim>\<open>internal/storage/memory.go\<close>): the in-memory store with expiry and statistics; it
    interprets \<open>metric_store\<close> and refines the abstract multiset of points.
  \<^item> \<open>LockTree\<close> (\<^verbatim>\<open>internal/collector/lock_tree.go\<close>): statistics of the blocking graph by breadth-first search.
  \<^item> \<open>AlertModel\<close>, \<open>AlertEval\<close>, \<open>AlertLaws\<close>, \<open>AlertRuns\<close> (\<^verbatim>\<open>internal/alert/\<close>): rules, events, the two
    history stores (the locale \<open>alert_history\<close>), the evaluator with restore, forecasts and cleanup,
    the laws of its state machine, and runs of the whole with restarts and failures.
  \<^item> \<open>RateGate\<close>: the locale \<open>rate_gate\<close>, the contract shared by the notification cooldown and the
    automatic trigger.
  \<^item> \<open>AlertDispatch\<close> (\<^verbatim>\<open>internal/alert/dispatcher.go\<close>, \<^verbatim>\<open>notifier.go\<close>): the bounded queue, cooldowns,
    retries and hooks as a step relation.
  \<^item> \<open>AuthCore\<close>, \<open>AuthLaws\<close> (\<^verbatim>\<open>internal/auth/\<close>): roles, the login rate limiter, tokens, the middleware.
  \<^item> \<open>UserAdmin\<close>, \<open>UserLaws\<close> (\<^verbatim>\<open>internal/auth/store.go\<close>, \<^verbatim>\<open>internal/api/auth.go\<close>): the user table and
    the handlers of the account API.
  \<^item> \<open>Statements\<close>, \<open>StatementLaws\<close> (\<^verbatim>\<open>internal/statements/\<close>): differences of query snapshots, insights
    and workload reports.
  \<^item> \<open>RcaGraph\<close>, \<open>RcaAnomaly\<close>, \<open>RcaEngine\<close> (\<^verbatim>\<open>internal/rca/\<close>): the causal graph with its built-in data, the
    anomaly sources, and the engine; \<open>RcaLaws\<close>, \<open>RcaRuns\<close>, \<open>RcaDefault\<close>, \<open>RcaTrigger\<close>: what an
    analysis guarantees, what the built-in graph can and cannot find, and the automatic trigger.
  \<^item> \<open>Playbook\<close> (\<^verbatim>\<open>internal/playbook/interpreter.go\<close>, \<^verbatim>\<open>executor.go\<close>, \<^verbatim>\<open>resolver.go\<close>): interpretation of step
    results, branching, the executor and the resolver; \<open>PlaybookStore\<close> (\<^verbatim>\<open>pgstore.go\<close>,
    \<^verbatim>\<open>internal/api/playbooks.go\<close>, \<^verbatim>\<open>feedback_worker.go\<close>): the tables, the handlers and the feedback worker;
    \<open>PlaybookLaws\<close> and \<open>PlaybookDemo\<close>: runs under interleaved requests; \<open>PlaybookSeeds\<close> (\<^verbatim>\<open>seed_*.go\<close>) and
    \<open>PlaybookBuiltins\<close>: the ten built-in playbooks and what they do.
  \<^item> \<open>PgMetrics\<close> (\<^verbatim>\<open>internal/storage/pgstore.go\<close>, \<^verbatim>\<open>queries.go\<close>): the metric store in PostgreSQL, its statements
    and what the table makes of them; the locale \<open>metric_source\<close> is what it shares with the store in memory.
  \<^item> \<open>BoundedWindow\<close>: the locale of containers that keep the last items, shared by the ring buffers of the
    baselines and the sample windows of the tracker.
  \<^item> \<open>MlCore\<close>, \<open>MlLaws\<close> (\<^verbatim>\<open>internal/ml/\<close>): moving average, regression, seasonal baselines and the anomaly
    detector with its snapshots.
  \<^item> \<open>AlertRules\<close>, \<open>AlertRuleLaws\<close> (\<^verbatim>\<open>internal/alert/rules.go\<close>, \<^verbatim>\<open>pgstore.go\<close>, \<^verbatim>\<open>internal/api/alerts.go\<close>): the built-in rules, the
    table of rules and its handlers; what every reachable table guarantees to the evaluator.
  \<^item> \<open>CollectorCore\<close>, \<open>Collectors\<close>, \<open>CollectorStats\<close>, \<open>CollectorDB\<close> (\<^verbatim>\<open>internal/version/\<close>, \<^verbatim>\<open>internal/collector/\<close>): version
    gates and every collector, from the rows of its statements to its points; \<open>TextPrelude\<close>, \<open>OsAgent\<close> and
    \<open>CollectorOS\<close> (\<^verbatim>\<open>internal/agent/\<close>): the parsers of kernel files and the two collectors of the operating system;
    \<open>CollectorLaws\<close>: laws of the collectors and what their readers make of the points.
  \<^item> \<open>RemediationRules\<close>, \<open>Remediation\<close> (\<^verbatim>\<open>internal/remediation/\<close>, \<^verbatim>\<open>internal/api/remediation.go\<close>): the compiled-in advice, the
    engine with its hooks, the table of recommendations, the background evaluator and the handlers; \<open>RemediationLaws\<close>: the
    locale \<open>advice_rules\<close> of rule sets and what a cycle leaves active.
  \<^item> \<open>ForecastTracker\<close>, \<open>ForecastNeeds\<close> (\<^verbatim>\<open>internal/forecast/\<close>, \<^verbatim>\<open>internal/api/forecast_maint.go\<close>): the tracker of
    running maintenance, its estimates, the thresholds of autovacuum, the projected needs, their tables and
    handlers; \<open>ForecastLaws\<close> and \<open>ForecastExact\<close>: the tracker as a state machine and what the estimates are worth.

  \<^item> \<open>SettingsHistory\<close>, \<open>SettingsLaws\<close> (\<^verbatim>\<open>internal/settings/\<close>, \<^verbatim>\<open>internal/api/settings_handlers.go\<close>): snapshots of the
    settings, their differences, the collector that schedules them and the handlers.
  \<^item> \<open>LockTreeApi\<close> (\<^verbatim>\<open>internal/api/handler_locks.go\<close>): the tree of blocked sessions the API shows.
  \<^item> \<open>Instances\<close>, \<open>InstanceLaws\<close> (\<^verbatim>\<open>internal/storage/instances.go\<close>, \<^verbatim>\<open>internal/api/instances.go\<close>, \<^verbatim>\<open>instances_crud.go\<close>): the table
    of monitored instances, its seeding, its handlers, the import of many and the masking of connection strings.
  \<^item> \<open>Orchestrator\<close>, \<open>OrchestratorLaws\<close> (\<^verbatim>\<open>internal/orchestrator/\<close>): the groups that collect, store, evaluate and dispatch, the
    runner over the databases of an instance with its pools, and the start, reload and stop of instances. This is where
    collectors, store, evaluator and dispatcher are composed.
  \<^item> \<open>ServerConfig\<close> (\<^verbatim>\<open>internal/config/\<close>): the configuration, its defaults, its checks and the reading of the environment.
  \<^item> \<open>ApiRoutes\<close>, \<open>ApiRouteLaws\<close> (\<^verbatim>\<open>internal/api/server.go\<close>, \<^verbatim>\<open>middleware.go\<close>, \<^verbatim>\<open>handler_session_actions.go\<close>): the table of routes with the guards
    of each, the middleware around every handler, and the handlers that cancel and terminate sessions.
  \<^item> \<open>Startup\<close>, \<open>StartupLaws\<close> (\<^verbatim>\<open>cmd/pgpulse-server/main.go\<close>): flags, the choice of storage and authentication, the
    loops that are started, and the adapters that give other parts their connections.
  \<^item> \<open>StatementCapture\<close>, \<open>CaptureLaws\<close> (\<^verbatim>\<open>internal/statements/capture.go\<close>, \<^verbatim>\<open>pgstore.go\<close>, \<^verbatim>\<open>nullstore.go\<close>,
    \<^verbatim>\<open>internal/api/handler_snapshots.go\<close>, \<^verbatim>\<open>handler_report_html.go\<close>): the capture of query statistics from servers before and after
    version 13, the snapshot tables, the two stores and the handlers over them.
  \<^item> \<open>QueryPlans\<close>, \<open>PlanLaws\<close> (\<^verbatim>\<open>internal/plans/\<close>, \<^verbatim>\<open>internal/api/plan_handlers.go\<close>, \<^verbatim>\<open>explain.go\<close>): the capture of plans by
    duration, by schedule and by hand, the table of plans, its clean-up and its handlers.
  \<^item> \<open>IncidentStore\<close>, \<open>IncidentLaws\<close> (\<^verbatim>\<open>internal/rca/pgstore.go\<close>, \<^verbatim>\<open>settings_adapter.go\<close>, \<^verbatim>\<open>internal/api/rca.go\<close>): the table of
    incidents, the handlers that analyse, list and review, and the source of changed settings.
  \<^item> \<open>ClusterState\<close>, \<open>ClusterLaws\<close> (\<^verbatim>\<open>internal/cluster/\<close>, \<^verbatim>\<open>internal/collector/cluster.go\<close>): the providers that ask Patroni and etcd,
    how JSON values become Go values, and the collector over the providers; the locale \<open>fallback_chain\<close> is the contract of
    every answer of a chain of two.

  \<^bold>\<open>What is proved.\<close> Alerts: the state of a rule is a function of the breaches since the last
  non-breach, events alternate, a batch treats rules and instances independently, and in every run with
  restarts the memory agrees with the history. Store: queries return exactly the matching points of the
  abstract store, in order; expiry removes exactly the old points. Dispatcher: first-in first-out without
  loss or overrun, spaced notifications, bounded retries. Authentication: the limiter is an exact sliding
  window, tokens round-trip and cannot be exchanged, requests fail closed. Accounts: the table invariant,
  privileges come from a super administrator, the last one survives deletion. Statements: a diff partitions
  the queries, its totals and pages add up. Root cause analysis: reported chains have evidence for every
  required edge, incidents are ranked and normalised, analyses are spaced. Playbooks: a step is executed at
  most once under any interleaving and only where its tier allows, execution is contained, navigation
  through the built-in playbooks terminates. Metric stores: the two implementations select the same points and
  answer in opposite orders. Baselines: no panic, exact summaries, restarts keep every anomaly score. Forecasts:
  the tracker is a debounced state machine over bounded windows, estimates and projections are exact on steady
  progress, the average and the regression line are what their names say. Rules: every reachable table is well-formed
  and keeps the built-in rules. Collectors: rates are exact and never negative, totals and shares add up, the parsers
  read back what the kernel prints, and for the tracker, the predictor and the anomaly rules it is shown which points
  reach them. Advice: at most one active recommendation per rule and instance, and a cycle leaves active what the
  snapshot calls for. Settings: a difference applied to the older snapshot gives the newer one, and scheduled snapshots
  are spaced. Lock tree: every visible session is listed once at its shortest distance. Instances: the table invariant, and an import
  accounts for every row. Orchestrator: a reload leaves exactly the runners the table asks for, pools of missing
  databases are closed in time, and over whole runs of the pipeline no metric of a database raises an alert. Routes: which caller passes the guards of which route, and what a server without
  authentication opens. Start-up: when the server that comes up asks for a token, which loops it runs, and that the checks
  of the configuration have nothing left to change after they passed. Captures: a successful capture reads back as the view held it,
  the snapshot tables stay consistent, differences served by the API compare fifty queries of each side, and the history
  of a query is never served. Plans: no stored plan is cut, and a saved plan is marked as a change exactly if it is new and differs
  from the latest. Incidents: an analysed incident can be read and reviewed. Clusters: a state is available exactly if a configured
  source answers, the printed history table is read back, and etcd never reports a leader. Where the code does not do what
  its comments say, the theorem states what it does.

  \<^bold>\<open>Conventions.\<close> The clock is an argument of every operation that reads it (twice where the code reads
  it twice); times and durations are integers in nanoseconds, \<open>Time.Sub\<close> saturates. A 64-bit float is a
  real number: rounding, NaN and infinities are outside the model. A method that changes a struct returns
  it; a mutex makes each such method one step. An operation of a store or of another service that may fail
  returns an option, and its outcome is an argument or an operation of a record, so that every failure
  branch is covered. Token signing, password hashing and time formatting are third-party or
  locale-dependent code, as are the parser of URLs, the reader of CSV, the library that merges configuration sources, the digests of plans, the parsers of JSON texts and
  of time stamps, the answers to EXPLAIN, network requests and started processes: parameters, with the laws the code relies on as named hypotheses and a concrete
  instance in the witnesses.

  \<^bold>\<open>Bounds.\<close> No definition needs fuel that could run out: the breadth-first search terminates by a measure
  on the unvisited sessions, \<open>walkBackward\<close> recurses on the remaining traversal depth of the configuration,
  the retry loop on the remaining attempts, \<open>drain\<close> on the given clock readings.

  \<^bold>\<open>Not modelled.\<close> The text of SQL statements beyond what their results are read for, the bucketed history of
  the PostgreSQL store, the API handlers that only show query results, the template of the report page, the
  transport of the operating system agent, notification templates, the desktop shell and the web front end.
\<close>

end
